(* ===== verification/Prelude.thy ===== *)
theory Prelude
  imports Complex_Main
begin

text \<open>
  What every component of the model shares: the exceptions the NestJS handlers throw, the
  result type of a handler, JavaScript's \<open>||\<close> on optional strings and numbers, decimal
  numerals as strings, and the Prisma query operations the services use on a table.
  A table is a list of records in insertion order: \<open>findFirst\<close> is \<open>List.find\<close>,
  \<open>findMany\<close> is \<open>filter\<close>, \<open>update\<close> and \<open>updateMany\<close> are \<open>update_where\<close>,
  \<open>aggregate\<close>'s \<open>_sum\<close> is \<open>sum_where\<close>. Times are milliseconds since the epoch.
\<close>

named_theorems wf_intros \<open>preservation of the component invariants by the operations\<close>
named_theorems op_defs \<open>definitions of the operations, unfolded together in case analyses\<close>

type_synonym id = string
type_synonym time = int

section \<open>Exceptions and results\<close>

datatype exn =
    BadRequestException string
  | NotFoundException string
  | ForbiddenException string
  | ConflictException string
  | ServiceUnavailableException string
  | HttpException nat string
  | UnbalancedJournalException rat rat
  | PrismaError string
  | GatewayError string

text \<open>\<open>Inl\<close> is a thrown exception, \<open>Inr\<close> a returned value.\<close>

type_synonym 'a result = "exn + 'a"

definition bindR :: "('e + 'a) \<Rightarrow> ('a \<Rightarrow> 'e + 'b) \<Rightarrow> 'e + 'b" where
  "bindR r f = (case r of Inl e \<Rightarrow> Inl e | Inr x \<Rightarrow> f x)"

lemma bindR_simps [simp]:
  "bindR (Inl e) f = Inl e"
  "bindR (Inr x) f = f x"
  by (simp_all add: bindR_def)

lemma bindR_Inr_iff: "bindR r f = Inr y \<longleftrightarrow> (\<exists>x. r = Inr x \<and> f x = Inr y)"
  by (cases r) auto

lemma bindR_Inl_iff: "bindR r f = Inl e \<longleftrightarrow> r = Inl e \<or> (\<exists>x. r = Inr x \<and> f x = Inl e)"
  by (cases r) auto

text \<open>
  \<open>guard c e k\<close> is the statement \<open>if (c) throw e;\<close> followed by the rest \<open>k\<close> of the
  handler.
\<close>

definition throw_if :: "bool \<Rightarrow> 'e \<Rightarrow> 'e + 'a \<Rightarrow> 'e + 'a" where
  "throw_if c e k = (if c then Inl e else k)"

lemma throw_if_Inr_iff: "throw_if c e k = Inr y \<longleftrightarrow> \<not> c \<and> k = Inr y"
  by (simp add: throw_if_def)

lemma throw_if_simps [simp]:
  "throw_if True e k = Inl e"
  "throw_if False e k = k"
  by (simp_all add: throw_if_def)

lemmas result_iffs = bindR_Inr_iff throw_if_Inr_iff

section \<open>JavaScript's \<open>||\<close>\<close>

text \<open>The empty string and the number 0 are falsy, as \<open>undefined\<close> and \<open>null\<close> are.\<close>

definition str_truthy :: "string option \<Rightarrow> bool" where
  "str_truthy s = (case s of None \<Rightarrow> False | Some t \<Rightarrow> t \<noteq> [])"

definition or_str :: "string option \<Rightarrow> string option \<Rightarrow> string option" where
  "or_str a b = (if str_truthy a then a else b)"

definition or_string :: "string option \<Rightarrow> string \<Rightarrow> string" where
  "or_string a b = (if str_truthy a then the a else b)"

definition or_num :: "rat option \<Rightarrow> rat \<Rightarrow> rat" where
  "or_num a b = (case a of None \<Rightarrow> b | Some x \<Rightarrow> if x = 0 then b else x)"

lemma str_truthy_simps [simp]:
  "str_truthy None = False"
  "str_truthy (Some t) = (t \<noteq> [])"
  by (simp_all add: str_truthy_def)

lemma or_str_Some [simp]: "t \<noteq> [] \<Longrightarrow> or_str (Some t) b = Some t"
  by (simp add: or_str_def)

section \<open>Decimal numerals\<close>

definition digit_char :: "nat \<Rightarrow> char" where
  "digit_char d = char_of (48 + d)"

fun show_nat :: "nat \<Rightarrow> string" where
  "show_nat n = (if n < 10 then [digit_char n] else show_nat (n div 10) @ [digit_char (n mod 10)])"

declare show_nat.simps [simp del]

lemma digit_chars [simp]:
  "digit_char 0 = CHR ''0''" "digit_char (Suc 0) = CHR ''1''" "digit_char 2 = CHR ''2''"
  "digit_char 3 = CHR ''3''" "digit_char 4 = CHR ''4''" "digit_char 5 = CHR ''5''"
  "digit_char 6 = CHR ''6''" "digit_char 7 = CHR ''7''" "digit_char 8 = CHR ''8''"
  "digit_char 9 = CHR ''9''" "digit_char (Suc (Suc 0)) = CHR ''2''"
  by code_simp+

lemma digit_char_inj: "a < 10 \<Longrightarrow> b < 10 \<Longrightarrow> digit_char a = digit_char b \<Longrightarrow> a = b"
proof -
  assume a: "a < 10" and b: "b < 10" and "digit_char a = digit_char b"
  then have "of_char (char_of (48 + a)) = (of_char (char_of (48 + b)) :: nat)"
    by (simp add: digit_char_def)
  then have "(48 + a) mod 256 = (48 + b) mod 256" by simp
  with a b show "a = b" by simp
qed

lemma show_nat_nonempty [simp]: "show_nat n \<noteq> []"
  by (subst show_nat.simps) simp

lemma length_show_nat_small: "length (show_nat n) = Suc 0 \<longleftrightarrow> n < 10"
  by (subst show_nat.simps) simp

lemma show_nat_inj: "show_nat m = show_nat n \<Longrightarrow> m = n"
proof (induction m arbitrary: n rule: less_induct)
  case (less m)
  show ?case
  proof (cases "m < 10")
    case True
    with less.prems have n: "n < 10"
      using length_show_nat_small [of m] length_show_nat_small [of n] by simp
    with True less.prems have "digit_char m = digit_char n"
      by (simp add: show_nat.simps [of m] show_nat.simps [of n])
    with True n show ?thesis by (metis digit_char_inj)
  next
    case False
    with less.prems have n: "\<not> n < 10"
      using length_show_nat_small [of m] length_show_nat_small [of n] by simp
    with False less.prems have eq: "show_nat (m div 10) = show_nat (n div 10)"
      and d: "digit_char (m mod 10) = digit_char (n mod 10)"
      by (simp_all add: show_nat.simps [of m] show_nat.simps [of n])
    from False have "m div 10 < m" by simp
    then have "m div 10 = n div 10" using eq by (rule less.IH)
    moreover have "m mod 10 = n mod 10"
      using d by (rule digit_char_inj [rotated 2]) simp_all
    ultimately show ?thesis by (metis div_mult_mod_eq)
  qed
qed

section \<open>Letter case and blanks\<close>

text \<open>\<open>toUpperCase\<close>, \<open>toLowerCase\<close> and \<open>trim\<close> on ASCII strings.\<close>

definition upper_char :: "char \<Rightarrow> char" where
  "upper_char c = (let n = (of_char c :: nat) in if 97 \<le> n \<and> n \<le> 122 then char_of (n - 32) else c)"

definition lower_char :: "char \<Rightarrow> char" where
  "lower_char c = (let n = (of_char c :: nat) in if 65 \<le> n \<and> n \<le> 90 then char_of (n + 32) else c)"

definition to_upper :: "string \<Rightarrow> string" where
  "to_upper = map upper_char"

definition to_lower :: "string \<Rightarrow> string" where
  "to_lower = map lower_char"

definition is_blank :: "char \<Rightarrow> bool" where
  "is_blank c = (let n = (of_char c :: nat) in n = 32 \<or> (9 \<le> n \<and> n \<le> 13))"

definition trim :: "string \<Rightarrow> string" where
  "trim s = rev (dropWhile is_blank (rev (dropWhile is_blank s)))"

section \<open>Dates\<close>

text \<open>\<open>toISOString().slice(0, 10)\<close>: the UTC calendar date of a time, for years 0 to 9999.\<close>

definition pad :: "nat \<Rightarrow> string \<Rightarrow> string" where
  "pad n s = replicate (n - length s) (CHR ''0'') @ s"

definition civil_from_days :: "int \<Rightarrow> int \<times> int \<times> int" where
  "civil_from_days days =
     (let z = days + 719468; era = z div 146097; doe = z mod 146097;
          yoe = (doe - doe div 1460 + doe div 36524 - doe div 146096) div 365;
          doy = doe - (365 * yoe + yoe div 4 - yoe div 100);
          mp = (5 * doy + 2) div 153;
          d = doy - (153 * mp + 2) div 5 + 1;
          m = (if mp < 10 then mp + 3 else mp - 9);
          y = yoe + era * 400
      in (if m \<le> 2 then y + 1 else y, m, d))"

definition iso_date :: "time \<Rightarrow> string" where
  "iso_date t =
     (let (y, m, d) = civil_from_days (t div 86400000)
      in pad 4 (show_nat (nat y)) @ ''-'' @ pad 2 (show_nat (nat m)) @ ''-'' @ pad 2 (show_nat (nat d)))"

lemma iso_date_examples:
  "iso_date 0 = ''1970-01-01''" "iso_date 1709210096789 = ''2024-02-29''" "iso_date 1767225600000 = ''2026-01-01''"
  by code_simp+

section \<open>Audit log rows\<close>

text \<open>\<open>auditLogService.log\<close> appends a row: actor, action, entity type and entity id.\<close>

type_synonym audit_row = "string \<times> string \<times> string \<times> string"

section \<open>Tables\<close>

definition update_where :: "('r \<Rightarrow> bool) \<Rightarrow> ('r \<Rightarrow> 'r) \<Rightarrow> 'r list \<Rightarrow> 'r list" where
  "update_where p f t = map (\<lambda>r. if p r then f r else r) t"

definition count_where :: "('r \<Rightarrow> bool) \<Rightarrow> 'r list \<Rightarrow> nat" where
  "count_where p t = length (filter p t)"

definition sum_where :: "('r \<Rightarrow> bool) \<Rightarrow> ('r \<Rightarrow> rat) \<Rightarrow> 'r list \<Rightarrow> rat" where
  "sum_where p v t = sum_list (map v (filter p t))"

definition exists_where :: "('r \<Rightarrow> bool) \<Rightarrow> 'r list \<Rightarrow> bool" where
  "exists_where p t = list_ex p t"

lemma update_where_Nil [simp]: "update_where p f [] = []"
  by (simp add: update_where_def)

lemma update_where_Cons [simp]:
  "update_where p f (r # t) = (if p r then f r else r) # update_where p f t"
  by (simp add: update_where_def)

lemma update_where_append [simp]:
  "update_where p f (s @ t) = update_where p f s @ update_where p f t"
  by (simp add: update_where_def)

lemma length_update_where [simp]: "length (update_where p f t) = length t"
  by (simp add: update_where_def)

lemma set_update_where: "set (update_where p f t) = (\<lambda>r. if p r then f r else r) ` set t"
  by (simp add: update_where_def)

lemma update_where_map_key:
  "(\<And>r. p r \<Longrightarrow> k (f r) = k r) \<Longrightarrow> map k (update_where p f t) = map k t"
  by (induction t) auto

lemma update_where_none: "(\<And>r. r \<in> set t \<Longrightarrow> \<not> p r) \<Longrightarrow> update_where p f t = t"
  by (induction t) auto

lemma sum_where_Nil [simp]: "sum_where p v [] = 0"
  by (simp add: sum_where_def)

lemma sum_where_Cons [simp]:
  "sum_where p v (r # t) = (if p r then v r else 0) + sum_where p v t"
  by (simp add: sum_where_def)

lemma sum_where_append [simp]: "sum_where p v (s @ t) = sum_where p v s + sum_where p v t"
  by (induction s) auto

lemma sum_where_nonneg: "(\<And>r. r \<in> set t \<Longrightarrow> p r \<Longrightarrow> 0 \<le> v r) \<Longrightarrow> 0 \<le> sum_where p v t"
  by (induction t) auto

lemma sum_where_cong:
  "(\<And>r. r \<in> set t \<Longrightarrow> p r = q r) \<Longrightarrow> (\<And>r. r \<in> set t \<Longrightarrow> q r \<Longrightarrow> v r = w r) \<Longrightarrow>
   sum_where p v t = sum_where q w t"
  by (induction t) auto

lemma count_where_0_iff: "count_where p t = 0 \<longleftrightarrow> (\<forall>r \<in> set t. \<not> p r)"
  by (induction t) (auto simp: count_where_def)

lemma exists_where_iff: "exists_where p t \<longleftrightarrow> (\<exists>r \<in> set t. p r)"
  by (simp add: exists_where_def list_ex_iff)

lemma find_Some_D: "List.find p t = Some r \<Longrightarrow> r \<in> set t \<and> p r"
  by (induction t) (auto split: if_splits)

lemma find_None_iff_all: "List.find p t = None \<longleftrightarrow> (\<forall>r \<in> set t. \<not> p r)"
  by (induction t) auto

lemma find_append:
  "List.find p (s @ t) = (case List.find p s of None \<Rightarrow> List.find p t | Some r \<Rightarrow> Some r)"
  by (induction s) auto

text \<open>A table whose key column is a primary key: lookups by key determine the row.\<close>

lemma find_key_unique:
  assumes "distinct (map k t)" "r \<in> set t" "k r = x"
  shows "List.find (\<lambda>r. k r = x) t = Some r"
  using assms by (induction t) (auto simp: image_iff)

lemma find_update_where_key:
  assumes "\<And>r. k (f r) = k r"
  shows "List.find (\<lambda>r. k r = x) (update_where (\<lambda>r. k r = y) f t) =
    (if x = y then map_option f (List.find (\<lambda>r. k r = x) t) else List.find (\<lambda>r. k r = x) t)"
  using assms by (induction t) auto

lemma update_where_set_key:
  assumes "distinct (map k t)" "r \<in> set t" "\<And>r. k (f r) = k r"
    and "s \<in> set (update_where (\<lambda>q. k q = k r) f t)"
  shows "s = f r \<or> (s \<in> set t \<and> k s \<noteq> k r)"
proof -
  from assms(4) obtain q where q: "q \<in> set t" "s = (if k q = k r then f q else q)"
    by (auto simp: set_update_where)
  show ?thesis
  proof (cases "k q = k r")
    case True
    with assms(1,2) q(1) have "q = r"
      by (metis find_key_unique option.inject)
    with q(2) show ?thesis by simp
  next
    case False
    with q show ?thesis by simp
  qed
qed

end
