(* ===== verification/Money.thy ===== *)
theory Money
  imports Prelude
begin

text \<open>
  Numbers. A \<open>Prisma.Decimal\<close> value and the value of a JavaScript number are rationals
  (\<open>rat\<close>). What the code does to them:
  \<^item> \<open>round2\<close> is rounding to two decimals, halves away from zero. It is
    \<open>Number.prototype.toFixed(2)\<close> on the exact value of a double, \<open>Decimal.toDecimalPlaces(2)\<close>
    in its default mode, and the coercion of a value into a \<open>@db.Decimal(p, 2)\<close> column.
    What the proofs use of a column is the interface \<open>money_column\<close>.
  \<^item> \<open>fl\<close> is rounding to a double: the nearest value with a 53-bit significand, ties to even
    (ECMAScript's number arithmetic is the exact result rounded by \<open>fl\<close>; overflow,
    subnormals, NaN and the infinities lie far outside the amounts of this program and are not
    modelled). What the proofs use of it is the interface \<open>js_float\<close>.
  \<^item> \<open>dec20\<close> is rounding to 20 significant decimal digits, halves away from zero: the
    documented default context of decimal.js (precision 20, ROUND_HALF_UP). decimal.js is not part
    of the repository, so definitions that multiply, divide or total Decimals of arbitrary
    precision take the rounding of its results as a parameter \<open>prec\<close>; the interface
    \<open>decimal_ctx\<close> says what is documented about it and \<open>dec20\<close> is the instance.
\<close>

section \<open>Amounts in whole cents\<close>

definition is_cents :: "rat \<Rightarrow> bool" where
  "is_cents x = (of_int \<lfloor>x * 100\<rfloor> = x * 100)"

lemma is_cents_iff: "is_cents x \<longleftrightarrow> (\<exists>n::int. x = of_int n / 100)"
proof
  assume "is_cents x"
  then have "x = of_int \<lfloor>x * 100\<rfloor> / 100" unfolding is_cents_def by linarith
  then show "\<exists>n::int. x = of_int n / 100" ..
next
  assume "\<exists>n::int. x = of_int n / 100"
  then obtain n :: int where "x * 100 = of_int n" by auto
  then show "is_cents x" by (simp add: is_cents_def)
qed

lemma is_cents_div [simp]: "is_cents (of_int n / 100)"
  unfolding is_cents_iff by blast

lemma is_centsI: "x * 100 = of_int n \<Longrightarrow> is_cents x"
  by (simp add: is_cents_def)

lemma is_cents_0 [simp]: "is_cents 0"
  by (simp add: is_cents_def)

lemma is_cents_of_int [simp]: "is_cents (of_int n)"
  by (rule is_centsI [of _ "n * 100"]) simp

lemma is_cents_add [intro]: "is_cents x \<Longrightarrow> is_cents y \<Longrightarrow> is_cents (x + y)"
  by (auto simp: is_cents_def algebra_simps simp flip: of_int_add)

lemma is_cents_minus [intro]: "is_cents x \<Longrightarrow> is_cents (- x)"
  unfolding is_cents_iff by (metis minus_divide_left of_int_minus)

lemma is_cents_diff [intro]: "is_cents x \<Longrightarrow> is_cents y \<Longrightarrow> is_cents (x - y)"
  using is_cents_add [of x "- y"] is_cents_minus [of y] by simp

lemma is_cents_min [intro]: "is_cents x \<Longrightarrow> is_cents y \<Longrightarrow> is_cents (min x y)"
  by (simp add: min_def)

lemma is_cents_max [intro]: "is_cents x \<Longrightarrow> is_cents y \<Longrightarrow> is_cents (max x y)"
  by (simp add: max_def)

lemma is_cents_sum_where:
  "(\<And>r. r \<in> set t \<Longrightarrow> p r \<Longrightarrow> is_cents (v r)) \<Longrightarrow> is_cents (sum_where p v t)"
  by (induction t) auto

lemma is_cents_sum_list: "(\<And>x. x \<in> set xs \<Longrightarrow> is_cents x) \<Longrightarrow> is_cents (sum_list xs)"
  by (induction xs) auto

section \<open>Two decimals\<close>

definition round2 :: "rat \<Rightarrow> rat" where
  "round2 x = (if x < 0 then - (of_int \<lfloor>- x * 100 + 1 / 2\<rfloor> / 100)
               else of_int \<lfloor>x * 100 + 1 / 2\<rfloor> / 100)"

text \<open>A decimal written to a column \<open>Decimal(10, 2)\<close>\<close>

definition money10 :: "rat \<Rightarrow> rat result" where
  "money10 x = (if \<bar>round2 x\<bar> < 10 ^ 8 then Inr (round2 x) else Inl (PrismaError ''P2020''))"

lemma round2_cents: "is_cents (round2 x)"
  by (cases "x < 0") (simp_all add: round2_def is_cents_minus del: of_int_minus)

lemma floor_half_of_int [simp]: "\<lfloor>of_int n + 1 / 2 :: rat\<rfloor> = n"
  by linarith

lemma round2_exact: "is_cents x \<Longrightarrow> round2 x = x"
proof -
  assume "is_cents x"
  then obtain n :: int where x: "x = of_int n / 100" unfolding is_cents_iff ..
  then have p: "x * 100 = of_int n" and m: "- x * 100 = of_int (- n)" by simp_all
  show ?thesis unfolding round2_def p m floor_half_of_int using x by simp
qed

lemma round2_near: "\<bar>round2 x - x\<bar> \<le> 1 / 200"
proof -
  define k where "k y = \<lfloor>y * 100 + 1 / 2\<rfloor>" for y :: rat
  have "\<bar>of_int (k y) / 100 - y\<bar> \<le> 1 / 200" for y :: rat
    unfolding k_def by linarith
  from this [of x] this [of "- x"] have "\<bar>of_int (k x) / 100 - x\<bar> \<le> 1 / 200"
    "\<bar>- (of_int (k (- x)) / 100) - x\<bar> \<le> 1 / 200" by linarith+
  then show ?thesis unfolding round2_def k_def [symmetric] by simp
qed

lemma round2_unique:
  assumes "\<bar>y - of_int n / 100\<bar> < 1 / 200"
  shows "round2 y = of_int n / 100"
proof (cases "y < 0")
  case True
  have "\<lfloor>- y * 100 + 1 / 2\<rfloor> = - n" using assms by linarith
  with True show ?thesis by (simp add: round2_def)
next
  case False
  have "\<lfloor>y * 100 + 1 / 2\<rfloor> = n" using assms by linarith
  with False show ?thesis by (simp add: round2_def)
qed

lemma money10_InrD: "money10 x = Inr y \<Longrightarrow> y = round2 x \<and> is_cents y \<and> \<bar>y\<bar> < 10 ^ 8"
  by (auto simp: money10_def round2_cents split: if_splits)

lemma money10_cents: "is_cents c \<Longrightarrow> \<bar>c\<bar> < 10 ^ 8 \<Longrightarrow> money10 c = Inr c"
  by (simp add: money10_def round2_exact)

lemma round2_mono: "x \<le> y \<Longrightarrow> round2 x \<le> round2 y"
proof -
  assume xy: "x \<le> y"
  have pos: "\<lfloor>a * 100 + 1 / 2\<rfloor> \<le> \<lfloor>b * 100 + 1 / 2\<rfloor>" if "a \<le> b" for a b :: rat
    using that by (intro floor_mono) simp
  have nn: "0 \<le> \<lfloor>a * 100 + 1 / 2\<rfloor>" if "0 \<le> a" for a :: rat
    using that by linarith
  consider "y < 0" | "x < 0" "0 \<le> y" | "0 \<le> x" using xy by linarith
  then show ?thesis
  proof cases
    case 1
    with xy pos [of "- y" "- x"] show ?thesis by (simp add: round2_def)
  next
    case 2
    with nn [of "- x"] nn [of y] have "round2 x \<le> 0" "0 \<le> round2 y"
      by (simp_all add: round2_def)
    then show ?thesis by linarith
  next
    case 3
    with xy pos [of x y] show ?thesis by (simp add: round2_def)
  qed
qed

lemma round2_0 [simp]: "round2 0 = 0"
  by (rule round2_exact) simp

lemma round2_nonneg: "0 \<le> x \<Longrightarrow> 0 \<le> round2 x"
  using round2_mono [of 0 x] by simp

text \<open>Rounding commutes with adding whole cents to a non-negative value.\<close>

lemma round2_add_cents: "is_cents c \<Longrightarrow> 0 \<le> c \<Longrightarrow> 0 \<le> x \<Longrightarrow> round2 (c + x) = c + round2 x"
proof -
  assume c: "is_cents c" "0 \<le> c" and x: "0 \<le> x"
  then obtain n :: int where n: "c = of_int n / 100" unfolding is_cents_iff by blast
  then have "(c + x) * 100 + 1 / 2 = of_int n + (x * 100 + 1 / 2)" by (simp add: algebra_simps)
  then have "\<lfloor>(c + x) * 100 + 1 / 2\<rfloor> = n + \<lfloor>x * 100 + 1 / 2\<rfloor>"
    by (metis floor_add_int add.commute)
  with c x n show ?thesis by (simp add: round2_def add_divide_distrib)
qed

text \<open>
  The interface of a two-decimal money column: whole cents are stored as they are, and what is
  stored is the nearest amount in whole cents.
\<close>

locale money_column =
  fixes col :: "rat \<Rightarrow> rat"
  assumes col_exact: "is_cents x \<Longrightarrow> col x = x"
    and col_cents: "is_cents (col x)"
    and col_near: "\<bar>col x - x\<bar> \<le> 1 / 200"
begin

lemma col_idem: "col (col x) = col x"
  by (rule col_exact) (rule col_cents)

lemma col_map_exact: "(\<And>x. x \<in> set xs \<Longrightarrow> is_cents x) \<Longrightarrow> map col xs = xs"
  by (induction xs) (auto simp: col_exact)

lemma col_nonneg: "0 \<le> x \<Longrightarrow> 0 \<le> col x"
proof (rule ccontr)
  assume "0 \<le> x" "\<not> 0 \<le> col x"
  moreover obtain n :: int where n: "col x = of_int n / 100"
    using col_cents [of x] unfolding is_cents_iff by blast
  ultimately have "of_int n < (0::rat)" by (simp add: field_simps)
  then have "n \<le> - 1" by simp
  then have "of_int n / 100 \<le> (- 1 / 100 :: rat)"
    by (metis divide_right_mono of_int_le_iff of_int_minus of_int_1 zero_le_numeral)
  with n \<open>0 \<le> x\<close> col_near [of x] show False by linarith
qed

lemma sum_col_near:
  "\<bar>sum_list (map col xs) - sum_list xs\<bar> \<le> of_nat (length xs) / 200"
proof (induction xs)
  case Nil
  then show ?case by simp
next
  case (Cons x xs)
  have "\<bar>sum_list (map col (x # xs)) - sum_list (x # xs)\<bar> \<le>
      \<bar>col x - x\<bar> + \<bar>sum_list (map col xs) - sum_list xs\<bar>"
    by simp
  also have "\<dots> \<le> 1 / 200 + of_nat (length xs) / 200"
    using Cons.IH col_near [of x] by linarith
  finally show ?case by (simp add: add_divide_distrib)
qed

end

interpretation numeric2: money_column round2
  by unfold_locales (rule round2_exact round2_cents round2_near; assumption?)+

end
