(* ===== verification/Rounding.thy ===== *)
theory Rounding
  imports Money
begin

text \<open>
  Rounding to a number of significant digits in a base, and its two instances: \<open>fl\<close>, the
  rounding of JavaScript's number arithmetic (53 binary digits, ties to even), and \<open>dec20\<close>,
  decimal.js's default context (20 decimal digits, halves away from zero). The interfaces
  \<open>js_float\<close> and \<open>decimal_ctx\<close> hold what the components rely on.
\<close>

section \<open>Integer logarithm of a positive rational\<close>

fun nlog :: "nat \<Rightarrow> nat \<Rightarrow> nat" where
  "nlog b n = (if b < 2 \<or> n < b then 0 else Suc (nlog b (n div b)))"

declare nlog.simps [simp del]

lemma nlog_bounds: "2 \<le> b \<Longrightarrow> 0 < n \<Longrightarrow> b ^ nlog b n \<le> n \<and> n < b ^ Suc (nlog b n)"
proof (induction b n rule: nlog.induct)
  case (1 b n)
  show ?case
  proof (cases "n < b")
    case True
    with "1.prems" show ?thesis by (simp add: nlog.simps [of b n])
  next
    case False
    with "1.prems" have pos: "0 < n div b" by (simp add: div_greater_zero_iff)
    with False "1.prems" "1.IH" have IH: "b ^ nlog b (n div b) \<le> n div b"
      "n div b < b ^ Suc (nlog b (n div b))" by auto
    have e: "nlog b n = Suc (nlog b (n div b))"
      using False "1.prems" by (simp add: nlog.simps [of b n])
    have "b ^ Suc (nlog b (n div b)) \<le> b * (n div b)" using IH(1) by simp
    also have "\<dots> \<le> n" by simp
    finally have lo: "b ^ nlog b n \<le> n" using e by simp
    have "Suc (n div b) \<le> b ^ Suc (nlog b (n div b))" using IH(2) by simp
    then have "b * Suc (n div b) \<le> b * b ^ Suc (nlog b (n div b))" by (rule mult_le_mono2)
    moreover have "n < b * Suc (n div b)"
      using "1.prems"(1) dividend_less_times_div [of b n] by simp
    ultimately have "n < b * b ^ Suc (nlog b (n div b))" by (rule less_le_trans [rotated])
    with lo e show ?thesis by simp
  qed
qed

definition ilog :: "nat \<Rightarrow> rat \<Rightarrow> int" where
  "ilog b x =
     (if 1 \<le> x then int (nlog b (nat \<lfloor>x\<rfloor>))
      else let y = 1 / x; j = nlog b (nat \<lfloor>y\<rfloor>)
           in if of_nat (b ^ j) = y then - int j else - int j - 1)"

lemma nlog_rat:
  assumes "2 \<le> b" "1 \<le> x"
  shows "of_nat b ^ nlog b (nat \<lfloor>x\<rfloor>) \<le> (x::rat) \<and> x < of_nat b ^ Suc (nlog b (nat \<lfloor>x\<rfloor>))"
proof -
  define n where "n = nat \<lfloor>x\<rfloor>"
  have n: "of_nat n \<le> x" "x < of_nat n + 1" "0 < n"
    using assms(2) unfolding n_def by linarith+
  from nlog_bounds [OF assms(1) n(3)]
  have "b ^ nlog b n \<le> n" "n + 1 \<le> b ^ Suc (nlog b n)" by simp_all
  then have "of_nat (b ^ nlog b n) \<le> (of_nat n :: rat)"
    "of_nat n + 1 \<le> (of_nat (b ^ Suc (nlog b n)) :: rat)"
    by (metis of_nat_le_iff, metis of_nat_le_iff of_nat_add of_nat_1)
  with n have "of_nat (b ^ nlog b n) \<le> x" "x < of_nat (b ^ Suc (nlog b n))" by linarith+
  then show ?thesis unfolding n_def [symmetric] of_nat_power by simp
qed

lemma ilog_bounds:
  assumes "2 \<le> b" "0 < x"
  shows "of_nat b powi ilog b x \<le> (x::rat) \<and> x < of_nat b powi (ilog b x + 1)"
proof (cases "1 \<le> x")
  case True
  then show ?thesis
    using nlog_rat [OF assms(1) True] by (simp add: ilog_def power_int_add_1' power_int_def nat_add_distrib)
next
  case False
  define y where "y = 1 / x"
  define j where "j = nlog b (nat \<lfloor>y\<rfloor>)"
  have B: "(0::rat) < of_nat b" "of_nat b \<noteq> (0::rat)" using assms(1) by simp_all
  have y: "1 \<le> y" "0 < y" "x = 1 / y" using False assms(2) by (simp_all add: y_def field_simps)
  from nlog_rat [OF assms(1) y(1)] have j: "of_nat b ^ j \<le> y" "y < of_nat b ^ Suc j"
    by (simp_all add: j_def)
  have e: "ilog b x = (if of_nat (b ^ j) = y then - int j else - int j - 1)"
    using False by (simp add: ilog_def y_def j_def Let_def)
  have p: "of_nat b powi (- int j) = 1 / (of_nat b ^ j :: rat)"
    by (simp add: power_int_minus field_simps)
  have p1: "of_nat b powi (- int j - 1) = 1 / (of_nat b ^ Suc j :: rat)"
  proof -
    have "- int j - 1 = - int (Suc j)" by simp
    then show ?thesis by (simp only: power_int_minus power_int_of_nat inverse_eq_divide)
  qed
  have p2: "of_nat b powi (- int j + 1) = of_nat b / (of_nat b ^ j :: rat)"
    using power_int_add [of "of_nat b :: rat" "- int j" 1] B by (simp add: power_int_minus field_simps)
  show ?thesis
  proof (cases "of_nat (b ^ j) = y")
    case True
    then have x: "x = 1 / of_nat b ^ j" using y(3) by simp
    have "(1::rat) < of_nat b" using assms(1) by simp
    then have "x < of_nat b / of_nat b ^ j" using x B by (simp add: divide_strict_right_mono)
    then show ?thesis using True e p p2 x by simp
  next
    case False
    with j(1) have lt: "of_nat b ^ j < y" by simp
    have "x < 1 / of_nat b ^ j" unfolding y(3) using lt y(2) B by (intro divide_strict_left_mono) simp_all
    moreover have "1 / of_nat b ^ Suc j \<le> x"
      unfolding y(3) using j(2) y(2) B by (intro divide_left_mono) simp_all
    ultimately show ?thesis using False e p p1 by simp
  qed
qed

lemma ilog_unique:
  assumes "2 \<le> b" "0 < x" "of_nat b powi e \<le> x" "x < of_nat b powi (e + 1)"
  shows "ilog b x = e"
proof -
  have B: "(1::rat) < of_nat b" using assms(1) by simp
  note bd = ilog_bounds [OF assms(1,2)]
  have "of_nat b powi e < (of_nat b powi (ilog b x + 1) :: rat)"
    and "of_nat b powi ilog b x < (of_nat b powi (e + 1) :: rat)"
    using bd assms(3,4) by linarith+
  with B have "e < ilog b x + 1" "ilog b x < e + 1"
    by (meson power_int_increasing less_imp_le not_le)+
  then show ?thesis by simp
qed

section \<open>Rounding to significant digits\<close>

definition half_up :: "rat \<Rightarrow> int" where
  "half_up y = \<lfloor>y + 1 / 2\<rfloor>"

definition half_even :: "rat \<Rightarrow> int" where
  "half_even y =
     (let f = \<lfloor>y\<rfloor>; d = y - of_int f
      in if d < 1 / 2 then f else if 1 / 2 < d then f + 1 else if even f then f else f + 1)"

definition ulp :: "nat \<Rightarrow> nat \<Rightarrow> rat \<Rightarrow> rat" where
  "ulp b p x = of_nat b powi (ilog b \<bar>x\<bar> - int p + 1)"

definition rsig :: "nat \<Rightarrow> nat \<Rightarrow> (rat \<Rightarrow> int) \<Rightarrow> rat \<Rightarrow> rat" where
  "rsig b p rnd x =
     (if x = 0 then 0 else let u = ulp b p x in sgn x * (of_int (rnd (\<bar>x\<bar> / u)) * u))"

definition nearest_int :: "(rat \<Rightarrow> int) \<Rightarrow> bool" where
  "nearest_int rnd \<longleftrightarrow> (\<forall>y. \<bar>of_int (rnd y) - y\<bar> \<le> 1 / 2) \<and> (\<forall>n. rnd (of_int n) = n)"

lemma nearest_half_up: "nearest_int half_up"
proof -
  have "\<bar>of_int \<lfloor>y + 1 / 2\<rfloor> - y\<bar> \<le> 1 / 2" for y :: rat by linarith
  then show ?thesis by (simp add: nearest_int_def half_up_def)
qed

lemma nearest_half_even: "nearest_int half_even"
proof -
  have "\<bar>of_int (half_even y) - y\<bar> \<le> 1 / 2" for y :: rat
  proof -
    define f where "f = \<lfloor>y\<rfloor>"
    have "of_int f \<le> y" "y < of_int f + 1" unfolding f_def by linarith+
    then show ?thesis
      unfolding half_even_def Let_def f_def [symmetric]
      by (cases "y - of_int f < 1 / 2"; cases "1 / 2 < y - of_int f"; cases "even f") simp_all
  qed
  then show ?thesis by (simp add: nearest_int_def half_even_def)
qed

lemma ulp_pos: "2 \<le> b \<Longrightarrow> 0 < ulp b p x"
  by (simp add: ulp_def zero_less_power_int)

lemma ulp_le:
  assumes "2 \<le> b" "0 < p" "x \<noteq> 0"
  shows "ulp b p x * of_nat b ^ (p - 1) \<le> \<bar>x\<bar>"
proof -
  have B: "of_nat b \<noteq> (0::rat)" using assms(1) by simp
  have "ulp b p x * of_nat b ^ (p - 1) = of_nat b powi (ilog b \<bar>x\<bar> - int p + 1) * of_nat b powi (int (p - 1))"
    by (simp add: ulp_def)
  also have "\<dots> = of_nat b powi (ilog b \<bar>x\<bar> - int p + 1 + int (p - 1))"
    using power_int_add [of "of_nat b :: rat" "ilog b \<bar>x\<bar> - int p + 1" "int (p - 1)"] B by simp
  also have "ilog b \<bar>x\<bar> - int p + 1 + int (p - 1) = ilog b \<bar>x\<bar>" using assms(2) by simp
  finally show ?thesis using ilog_bounds [OF assms(1), of "\<bar>x\<bar>"] assms(3) by simp
qed

lemma rsig_err_ulp:
  assumes "2 \<le> b" "nearest_int rnd" "x \<noteq> 0"
  shows "\<bar>rsig b p rnd x - x\<bar> \<le> ulp b p x / 2"
proof -
  define u where "u = ulp b p x"
  have u: "0 < u" using ulp_pos [OF assms(1)] by (simp add: u_def)
  have x: "x = sgn x * (\<bar>x\<bar> / u * u)" using u by (simp add: sgn_mult_abs)
  have "rsig b p rnd x - x = sgn x * ((of_int (rnd (\<bar>x\<bar> / u)) - \<bar>x\<bar> / u) * u)"
    using assms(3) x unfolding rsig_def Let_def u_def [symmetric] by (simp add: algebra_simps)
  then have "\<bar>rsig b p rnd x - x\<bar> = \<bar>of_int (rnd (\<bar>x\<bar> / u)) - \<bar>x\<bar> / u\<bar> * u"
    using assms(3) u by (simp add: abs_mult)
  also have "\<dots> \<le> 1 / 2 * u"
    using assms(2) u by (intro mult_right_mono) (simp_all add: nearest_int_def)
  finally show ?thesis by (simp add: u_def)
qed

lemma rsig_err:
  assumes "2 \<le> b" "0 < p" "nearest_int rnd"
  shows "\<bar>rsig b p rnd x - x\<bar> \<le> \<bar>x\<bar> / (2 * of_nat b ^ (p - 1))"
proof (cases "x = 0")
  case True
  then show ?thesis by (simp add: rsig_def)
next
  case False
  have B: "(0::rat) < of_nat b ^ (p - 1)" using assms(1) by simp
  have "ulp b p x \<le> \<bar>x\<bar> / of_nat b ^ (p - 1)"
    using ulp_le [OF assms(1,2) False] B by (simp add: field_simps)
  with rsig_err_ulp [OF assms(1,3) False, of p] show ?thesis by simp
qed

lemma rsig_exact:
  assumes "2 \<le> b" "nearest_int rnd" "\<bar>x\<bar> / ulp b p x = of_int n"
  shows "rsig b p rnd x = x"
proof (cases "x = 0")
  case True
  then show ?thesis by (simp add: rsig_def)
next
  case False
  have u: "0 < ulp b p x" by (rule ulp_pos [OF assms(1)])
  have "rnd (\<bar>x\<bar> / ulp b p x) = n" using assms(2,3) by (simp add: nearest_int_def)
  then have "rsig b p rnd x = sgn x * (\<bar>x\<bar> / ulp b p x * ulp b p x)"
    using False assms(3) by (simp add: rsig_def Let_def)
  then show ?thesis using u by (simp add: sgn_mult_abs)
qed

lemma near_pos:
  assumes "\<bar>a - x\<bar> \<le> \<bar>x\<bar> / K" "2 \<le> K" "0 < (x::rat)"
  shows "0 < a"
proof -
  have "x / K \<le> x / 2" using assms(2,3) by (intro divide_left_mono) simp_all
  with assms(1,3) show ?thesis by linarith
qed

section \<open>JavaScript numbers\<close>

definition fl :: "rat \<Rightarrow> rat" where
  "fl x = rsig 2 53 half_even x"

text \<open>\<open>Math.round\<close>: the nearest integer, halves towards plus infinity.\<close>

definition js_round :: "rat \<Rightarrow> int" where
  "js_round x = \<lfloor>x + 1 / 2\<rfloor>"

text \<open>
  The interface: every arithmetic result is within a relative error of \<open>2 ^ -53\<close> of the exact
  one. Amounts of money are computed exactly by it when the code rounds the result back to two
  decimals, as long as the accumulated error stays below half a cent.
\<close>

locale js_float =
  fixes flt :: "rat \<Rightarrow> rat"
  assumes flt_err: "\<bar>flt x - x\<bar> \<le> \<bar>x\<bar> / 2 ^ 53"
begin

lemma flt_0 [simp]: "flt 0 = 0"
  using flt_err [of 0] by simp

lemma flt_nonneg: "0 \<le> x \<Longrightarrow> 0 \<le> flt x"
  using near_pos [OF flt_err [of x]] by (cases "x = 0") simp_all

lemma flt_abs_err: "\<bar>x\<bar> \<le> B \<Longrightarrow> \<bar>flt x - x\<bar> \<le> B / 2 ^ 53"
  using flt_err [of x] by (simp add: field_simps)

lemma flt_near:
  assumes "\<bar>x - y\<bar> \<le> d" "\<bar>x\<bar> \<le> B"
  shows "\<bar>flt x - y\<bar> \<le> d + B / 2 ^ 53"
  using flt_abs_err [OF assms(2)] assms(1) by linarith

text \<open>A number of cents read from its decimal string and rounded again is the same number.\<close>

lemma round2_flt_cents:
  assumes "\<bar>n\<bar> \<le> 10 ^ 14"
  shows "round2 (flt (of_int n / 100)) = of_int n / 100"
proof (rule round2_unique)
  have "\<bar>of_int n / 100 :: rat\<bar> \<le> 10 ^ 12"
    using assms of_int_le_iff [of "\<bar>n\<bar>" "10 ^ 14", where ?'a = rat] by simp
  from flt_abs_err [OF this] show "\<bar>flt (of_int n / 100) - of_int n / 100\<bar> < 1 / 200" by simp
qed

end

interpretation js: js_float fl
proof
  show "\<bar>fl x - x\<bar> \<le> \<bar>x\<bar> / 2 ^ 53" for x
    using rsig_err [of 2 53 half_even x] nearest_half_even by (simp add: fl_def)
qed

text \<open>Integers below \<open>2 ^ 53\<close> are numbers as they are.\<close>

lemma fl_int:
  assumes "\<bar>n\<bar> < 2 ^ 53"
  shows "fl (of_int n) = of_int n"
proof (cases "n = 0")
  case False
  define x :: rat where "x = of_int n"
  define e where "e = ilog 2 \<bar>x\<bar>"
  from ilog_bounds [of 2 "\<bar>x\<bar>"] False have "2 powi e \<le> \<bar>x\<bar>" by (simp add: e_def x_def)
  moreover have "\<bar>x\<bar> < of_int (2 ^ 53)" using assms unfolding x_def by (simp only: of_int_abs [symmetric] of_int_less_iff)
  ultimately have "2 powi e < (2 powi 53 :: rat)" by simp
  then have "e < 53" using power_int_increasing [of 53 e "2 :: rat"] by (cases "e < 53") simp_all
  then obtain k :: nat where k: "int k = 52 - e"
    using zero_le_imp_eq_int [of "52 - e"] by auto
  have "e - int 53 + 1 = - int k" using k by simp
  then have "ulp 2 53 x = 2 powi (- int k)" unfolding ulp_def e_def [symmetric] by simp
  also have "\<dots> = inverse (2 ^ k)" by (simp only: power_int_minus power_int_of_nat)
  finally have "\<bar>x\<bar> / ulp 2 53 x = of_int (\<bar>n\<bar> * 2 ^ k)" by (simp add: x_def divide_inverse)
  then show ?thesis unfolding fl_def x_def [symmetric]
    by (intro rsig_exact [where n = "\<bar>n\<bar> * 2 ^ k"]) (simp_all add: nearest_half_even)
qed (simp add: fl_def rsig_def)

lemma fl_numeral [simp]: "(numeral n :: int) < 2 ^ 53 \<Longrightarrow> fl (numeral n) = numeral n"
  using fl_int [of "numeral n"] by simp

section \<open>decimal.js results\<close>

definition dec20 :: "rat \<Rightarrow> rat" where
  "dec20 x = rsig 10 20 half_up x"

text \<open>
  What is documented of the rounding of decimal.js results in its default context: amounts in
  whole cents below \<open>10 ^ 17\<close> have at most 19 significant digits and are results as they are, and
  every result has a relative error of at most \<open>10 ^ -19 / 2\<close>.
\<close>

locale decimal_ctx =
  fixes prec :: "rat \<Rightarrow> rat"
  assumes prec_cents: "is_cents x \<Longrightarrow> \<bar>x\<bar> < 10 ^ 17 \<Longrightarrow> prec x = x"
    and prec_err: "\<bar>prec x - x\<bar> \<le> \<bar>x\<bar> / 10 ^ 19"
begin

lemma prec_0 [simp]: "prec 0 = 0"
  by (rule prec_cents) simp_all

lemma prec_pos: "0 < x \<Longrightarrow> 0 < prec x"
  using near_pos [OF prec_err [of x]] by simp

lemma prec_nonneg: "0 \<le> x \<Longrightarrow> 0 \<le> prec x"
  using prec_pos [of x] by (cases "x = 0") simp_all

end

lemma dec20_exact:
  assumes "x * 10 ^ j = of_int n" "\<bar>x\<bar> < 10 ^ (19 - j)" "j \<le> 19"
  shows "dec20 x = x"
proof (cases "x = 0")
  case True
  then show ?thesis by (simp add: dec20_def rsig_def)
next
  case False
  define e where "e = ilog 10 \<bar>x\<bar>"
  from ilog_bounds [of 10 "\<bar>x\<bar>"] False have "10 powi e \<le> \<bar>x\<bar>" by (simp add: e_def)
  with assms(2) have "10 powi e < (10 powi int (19 - j) :: rat)" by simp
  then have "e < int (19 - j)"
    using power_int_increasing [of "int (19 - j)" e "10 :: rat"] by (cases "e < int (19 - j)") simp_all
  then obtain k :: nat where k: "int k = int (19 - j) - e"
    by (metis diff_gt_0_iff_gt less_imp_le zero_le_imp_eq_int)
  have "e - int 20 + 1 = - int (k + j)" using k assms(3) by simp
  then have "ulp 10 20 x = 10 powi (- int (k + j))"
    unfolding ulp_def e_def [symmetric] by simp
  also have "\<dots> = inverse (10 ^ (k + j))" by (simp only: power_int_minus power_int_of_nat)
  finally have u: "ulp 10 20 x = inverse (10 ^ (k + j))" .
  have "\<bar>x\<bar> / ulp 10 20 x = \<bar>x * 10 ^ j\<bar> * 10 ^ k"
    unfolding u by (simp add: divide_inverse abs_mult power_add algebra_simps)
  also have "\<dots> = of_int (\<bar>n\<bar> * 10 ^ k)" unfolding assms(1) by simp
  finally have "\<bar>x\<bar> / ulp 10 20 x = of_int (\<bar>n\<bar> * 10 ^ k)" .
  then show ?thesis unfolding dec20_def
    by (intro rsig_exact [where n = "\<bar>n\<bar> * 10 ^ k"]) (simp_all add: nearest_half_up)
qed

lemma dec20_cents:
  assumes "is_cents x" "\<bar>x\<bar> < 10 ^ 17"
  shows "dec20 x = x"
proof -
  obtain n :: int where n: "x = of_int n / 100" using assms(1) is_cents_iff by blast
  have "x * 10 ^ 2 = of_int n" unfolding n by simp
  with assms(2) show ?thesis by (intro dec20_exact [where j = 2]) simp_all
qed

text \<open>A value of \<open>dec20\<close> from the bounds of its argument, for evaluation on numerals.\<close>

lemma dec20_eqI:
  assumes "10 ^ a \<le> x" "x < 10 ^ Suc a"
    and "of_int n \<le> x * 10 ^ k + 1 / 2" "x * 10 ^ k + 1 / 2 < of_int n + 1" "a + k = 19"
  shows "dec20 x = of_int n / 10 ^ k"
proof -
  have "(0::rat) < 10 ^ a" by simp
  with assms(1) have x: "0 < x" by linarith
  have "10 powi int a \<le> x" "x < 10 powi (int a + 1)"
    using assms(1,2) by (simp_all add: power_int_add)
  with x have "ilog 10 x = int a" by (intro ilog_unique) simp_all
  moreover have "int a - int 20 + 1 = - int k" using assms(5) by simp
  ultimately have "ulp 10 20 x = 10 powi (- int k)" using x by (simp add: ulp_def)
  also have "\<dots> = inverse (10 ^ k)" by (simp only: power_int_minus power_int_of_nat)
  finally have u: "ulp 10 20 x = inverse (10 ^ k)" .
  have "half_up (x * 10 ^ k) = n" unfolding half_up_def using assms(3,4) by (simp only: floor_eq_iff)
  with x show ?thesis by (simp add: dec20_def rsig_def Let_def u divide_inverse)
qed

interpretation djs: decimal_ctx dec20
proof
  show "dec20 x = x" if "is_cents x" "\<bar>x\<bar> < 10 ^ 17" for x
    using that by (rule dec20_cents)
  show "\<bar>dec20 x - x\<bar> \<le> \<bar>x\<bar> / 10 ^ 19" for x
    using rsig_err [of 10 20 half_up x] nearest_half_up by (simp add: dec20_def)
qed

end
