(* ===== verification/Ledger.thy ===== *)
theory Ledger
  imports Rounding "HOL-Library.AList"
begin

text \<open>
  The platform's double-entry ledger (\<open>finance/ledger-core.service.ts\<close>, with the inputs of
  \<open>finance/dto/ledger-core.dto.ts\<close> and the table \<open>PlatformLedgerEntry\<close>). The table is the list
  of its rows in insertion order. \<open>prec\<close> is the rounding of decimal.js results, \<open>col\<close> the
  coercion of an amount into the column \<open>@db.Decimal(12, 2)\<close>, \<open>now\<close> the clock (the default of
  \<open>postedAt\<close>) and \<open>fresh\<close> the journal id the service generates. A journal that throws leaves the
  table as it is, because its rows are written in one transaction.
\<close>

datatype LedgerAccountType =
    GATEWAY_CLEARING | CUSTOMER_WALLET | CUSTOMER_DEPOSIT_ESCROW | VENDOR_PAYABLE
  | PLATFORM_COMMISSION_REVENUE | TAX_GST_LIABILITY | CORPORATE_RECEIVABLE | DISPUTE_HOLD

datatype LedgerEntrySide = DEBIT | CREDIT

record JournalEntryLineInput =
  li_accountType :: LedgerAccountType
  li_accountEntityId :: "string option"
  li_side :: "LedgerEntrySide option"
  li_entrySide :: "LedgerEntrySide option"
  li_amount :: rat
  li_narration :: "string option"
  li_description :: "string option"
  li_bookingId :: "string option"
  li_paymentId :: "string option"
  li_payoutId :: "string option"
  li_metadata :: "string option"

record RecordJournalInput =
  ji_journalId :: "string option"
  ji_referenceType :: string
  ji_referenceId :: string
  ji_narration :: "string option"
  ji_description :: "string option"
  ji_lines :: "JournalEntryLineInput list option"
  ji_entries :: "JournalEntryLineInput list option"
  ji_idempotencyKey :: "string option"
  ji_currency :: "string option"
  ji_bookingId :: "string option"
  ji_paymentId :: "string option"
  ji_payoutId :: "string option"
  ji_vendorId :: "string option"

record PlatformLedgerEntry =
  le_journalId :: string
  le_accountType :: LedgerAccountType
  le_accountEntityId :: "string option"
  le_side :: LedgerEntrySide
  le_amount :: rat
  le_currency :: string
  le_bookingId :: "string option"
  le_paymentId :: "string option"
  le_payoutId :: "string option"
  le_referenceType :: string
  le_referenceId :: string
  le_narration :: string
  le_metadata :: "string option"
  le_idempotencyKey :: "string option"
  le_postedAt :: time

type_synonym ledger = "PlatformLedgerEntry list"

record parsed_line =
  pl_accountType :: LedgerAccountType
  pl_accountEntityId :: "string option"
  pl_side :: LedgerEntrySide
  pl_amount :: rat
  pl_narration :: string
  pl_bookingId :: "string option"
  pl_paymentId :: "string option"
  pl_payoutId :: "string option"
  pl_metadata :: "string option"

record journal_result =
  jr_journalId :: string
  jr_entries :: ledger
  jr_isDuplicate :: bool

section \<open>Recording a journal\<close>

definition raw_lines :: "RecordJournalInput \<Rightarrow> JournalEntryLineInput list" where
  "raw_lines inp =
     (case ji_lines inp of Some ls \<Rightarrow> ls
      | None \<Rightarrow> (case ji_entries inp of Some ls \<Rightarrow> ls | None \<Rightarrow> []))"

definition journal_narration :: "RecordJournalInput \<Rightarrow> string" where
  "journal_narration inp =
     or_string (ji_narration inp) (or_string (ji_description inp) (ji_referenceType inp @ '' journal''))"

definition line_side :: "JournalEntryLineInput \<Rightarrow> LedgerEntrySide option" where
  "line_side l = (case li_side l of Some s \<Rightarrow> Some s | None \<Rightarrow> li_entrySide l)"

definition parse_line :: "RecordJournalInput \<Rightarrow> LedgerEntrySide \<Rightarrow> JournalEntryLineInput \<Rightarrow> parsed_line" where
  "parse_line inp s l =
     \<lparr>pl_accountType = li_accountType l,
      pl_accountEntityId = or_str (li_accountEntityId l) (ji_vendorId inp),
      pl_side = s,
      pl_amount = li_amount l,
      pl_narration = or_string (li_narration l) (or_string (li_description l) (journal_narration inp)),
      pl_bookingId = or_str (li_bookingId l) (ji_bookingId inp),
      pl_paymentId = or_str (li_paymentId l) (ji_paymentId inp),
      pl_payoutId = or_str (li_payoutId l) (ji_payoutId inp),
      pl_metadata = li_metadata l\<rparr>"

text \<open>The loop over the lines: totals of debits and credits, and the parsed lines.\<close>

fun parse_lines ::
  "(rat \<Rightarrow> rat) \<Rightarrow> RecordJournalInput \<Rightarrow> rat \<Rightarrow> rat \<Rightarrow> JournalEntryLineInput list \<Rightarrow>
   (rat \<times> rat \<times> parsed_line list) result" where
  "parse_lines prec inp td tc [] = Inr (td, tc, [])"
| "parse_lines prec inp td tc (l # ls) =
     (if li_amount l \<le> 0 then Inl (BadRequestException ''Ledger entry amount must be strictly positive'')
      else case line_side l of
        Some DEBIT \<Rightarrow> bindR (parse_lines prec inp (prec (td + li_amount l)) tc ls)
          (\<lambda>(d, c, ps). Inr (d, c, parse_line inp DEBIT l # ps))
      | Some CREDIT \<Rightarrow> bindR (parse_lines prec inp td (prec (tc + li_amount l)) ls)
          (\<lambda>(d, c, ps). Inr (d, c, parse_line inp CREDIT l # ps))
      | None \<Rightarrow> Inl (BadRequestException ''Invalid ledger entry side''))"

definition line_key :: "string option \<Rightarrow> nat \<Rightarrow> string option" where
  "line_key key i =
     (if str_truthy key
      then Some (if i = 0 then the key else the key @ ''_line_'' @ show_nat i)
      else None)"

definition mk_entry ::
  "(rat \<Rightarrow> rat) \<Rightarrow> time \<Rightarrow> string \<Rightarrow> RecordJournalInput \<Rightarrow> nat \<Rightarrow> parsed_line \<Rightarrow> PlatformLedgerEntry" where
  "mk_entry col now jid inp i p =
     \<lparr>le_journalId = jid,
      le_accountType = pl_accountType p,
      le_accountEntityId = pl_accountEntityId p,
      le_side = pl_side p,
      le_amount = col (pl_amount p),
      le_currency = or_string (ji_currency inp) ''INR'',
      le_bookingId = pl_bookingId p,
      le_paymentId = pl_paymentId p,
      le_payoutId = pl_payoutId p,
      le_referenceType = ji_referenceType inp,
      le_referenceId = ji_referenceId inp,
      le_narration = pl_narration p,
      le_metadata = pl_metadata p,
      le_idempotencyKey = line_key (ji_idempotencyKey inp) i,
      le_postedAt = now\<rparr>"

text \<open>\<open>platformLedgerEntry.create\<close>: \<open>idempotencyKey\<close> is a unique column (P2002 when taken).\<close>

definition create_entry :: "PlatformLedgerEntry \<Rightarrow> ledger \<Rightarrow> ledger result" where
  "create_entry e L =
     (if le_idempotencyKey e \<noteq> None \<and> exists_where (\<lambda>r. le_idempotencyKey r = le_idempotencyKey e) L
      then Inl (PrismaError ''P2002'') else Inr (L @ [e]))"

fun execute_persistence ::
  "(rat \<Rightarrow> rat) \<Rightarrow> time \<Rightarrow> string \<Rightarrow> RecordJournalInput \<Rightarrow> nat \<Rightarrow> parsed_line list \<Rightarrow> ledger \<Rightarrow>
   (ledger \<times> ledger) result" where
  "execute_persistence col now jid inp i [] L = Inr ([], L)"
| "execute_persistence col now jid inp i (p # ps) L =
     (let e = mk_entry col now jid inp i p
      in bindR (create_entry e L) (\<lambda>L1.
         bindR (execute_persistence col now jid inp (Suc i) ps L1) (\<lambda>(es, L2). Inr (e # es, L2))))"

definition recordJournal ::
  "(rat \<Rightarrow> rat) \<Rightarrow> (rat \<Rightarrow> rat) \<Rightarrow> time \<Rightarrow> string \<Rightarrow> RecordJournalInput \<Rightarrow> ledger \<Rightarrow>
   (journal_result \<times> ledger) result" where
  "recordJournal prec col now fresh inp L =
     (if length (raw_lines inp) < 2
      then Inl (BadRequestException ''A double-entry journal must have at least two entry lines'')
      else
        let key = ji_idempotencyKey inp;
            existing = (if str_truthy key then List.find (\<lambda>e. le_idempotencyKey e = key) L else None)
        in case existing of
          Some e \<Rightarrow>
            Inr (\<lparr>jr_journalId = le_journalId e,
                  jr_entries = sort_key le_postedAt (filter (\<lambda>r. le_journalId r = le_journalId e) L),
                  jr_isDuplicate = True\<rparr>, L)
        | None \<Rightarrow>
            bindR (parse_lines prec inp 0 0 (raw_lines inp)) (\<lambda>(td, tc, ps).
              if td \<noteq> tc then Inl (UnbalancedJournalException (round2 td) (round2 tc))
              else let jid = or_string (ji_journalId inp) fresh
                   in bindR (execute_persistence col now jid inp 0 ps L) (\<lambda>(es, L').
                        Inr (\<lparr>jr_journalId = jid, jr_entries = es, jr_isDuplicate = False\<rparr>, L'))))"

section \<open>Balances\<close>

definition is_asset_account :: "LedgerAccountType \<Rightarrow> bool" where
  "is_asset_account t \<longleftrightarrow> t = GATEWAY_CLEARING \<or> t = CORPORATE_RECEIVABLE"

definition debits_where :: "(PlatformLedgerEntry \<Rightarrow> bool) \<Rightarrow> ledger \<Rightarrow> rat" where
  "debits_where p L = sum_where (\<lambda>e. p e \<and> le_side e = DEBIT) le_amount L"

definition credits_where :: "(PlatformLedgerEntry \<Rightarrow> bool) \<Rightarrow> ledger \<Rightarrow> rat" where
  "credits_where p L = sum_where (\<lambda>e. p e \<and> le_side e \<noteq> DEBIT) le_amount L"

definition getAccountBalance :: "LedgerAccountType \<Rightarrow> string option \<Rightarrow> ledger \<Rightarrow> rat" where
  "getAccountBalance t ent L =
     (let p = (\<lambda>e. le_accountType e = t \<and> (ent = None \<or> le_accountEntityId e = ent));
          debits = debits_where p L; credits = credits_where p L
      in if is_asset_account t then debits - credits else credits - debits)"

definition getVendorPayableBalance :: "string \<Rightarrow> ledger \<Rightarrow> rat" where
  "getVendorPayableBalance vendorId L = getAccountBalance VENDOR_PAYABLE (Some vendorId) L"

definition in_range :: "time option \<Rightarrow> time option \<Rightarrow> time \<Rightarrow> bool" where
  "in_range startDate endDate t \<longleftrightarrow>
     (case startDate of None \<Rightarrow> True | Some s \<Rightarrow> s \<le> t) \<and>
     (case endDate of None \<Rightarrow> True | Some s \<Rightarrow> t \<le> s)"

definition getPlatformCommissionRevenue :: "time option \<Rightarrow> time option \<Rightarrow> ledger \<Rightarrow> rat" where
  "getPlatformCommissionRevenue startDate endDate L =
     (let p = (\<lambda>e. le_accountType e = PLATFORM_COMMISSION_REVENUE \<and> in_range startDate endDate (le_postedAt e))
      in credits_where p L - debits_where p L)"

definition getTaxLiabilityBalance :: "time option \<Rightarrow> time option \<Rightarrow> ledger \<Rightarrow> rat" where
  "getTaxLiabilityBalance startDate endDate L =
     (let p = (\<lambda>e. le_accountType e = TAX_GST_LIABILITY \<and> in_range startDate endDate (le_postedAt e))
      in credits_where p L - debits_where p L)"

section \<open>The integrity audit\<close>

definition signed :: "PlatformLedgerEntry \<Rightarrow> rat" where
  "signed e = (if le_side e = DEBIT then le_amount e else - le_amount e)"

definition add_delta :: "PlatformLedgerEntry \<Rightarrow> (string \<times> rat) list \<Rightarrow> (string \<times> rat) list" where
  "add_delta e m =
     AList.update (le_journalId e)
       ((case map_of m (le_journalId e) of None \<Rightarrow> 0 | Some x \<Rightarrow> x) + signed e) m"

definition journal_sums :: "ledger \<Rightarrow> (string \<times> rat) list" where
  "journal_sums L = fold add_delta L []"

record integrity_report =
  totalJournals :: nat
  balancedJournals :: nat
  unbalancedJournals :: "string list"
  isAudited :: bool

definition verifyLedgerIntegrity :: "ledger \<Rightarrow> integrity_report" where
  "verifyLedgerIntegrity L =
     (let m = journal_sums L; un = map fst (filter (\<lambda>(j, s). s \<noteq> 0) m)
      in \<lparr>totalJournals = length m, balancedJournals = length m - length un,
          unbalancedJournals = un, isAudited = True\<rparr>)"

section \<open>Paginated retrieval\<close>

record LedgerFilterDto =
  lf_journalId :: "string option"
  lf_accountType :: "LedgerAccountType option"
  lf_accountEntityId :: "string option"
  lf_bookingId :: "string option"
  lf_paymentId :: "string option"
  lf_payoutId :: "string option"
  lf_referenceType :: "string option"
  lf_referenceId :: "string option"
  lf_startDate :: "time option"
  lf_endDate :: "time option"
  lf_page :: "nat option"
  lf_limit :: "nat option"

definition opt_eq :: "string option \<Rightarrow> string option \<Rightarrow> bool" where
  "opt_eq f v \<longleftrightarrow> (str_truthy f \<longrightarrow> v = f)"

definition ledger_filter :: "LedgerFilterDto \<Rightarrow> PlatformLedgerEntry \<Rightarrow> bool" where
  "ledger_filter f e \<longleftrightarrow>
     opt_eq (lf_journalId f) (Some (le_journalId e)) \<and>
     (case lf_accountType f of None \<Rightarrow> True | Some t \<Rightarrow> le_accountType e = t) \<and>
     opt_eq (lf_accountEntityId f) (le_accountEntityId e) \<and>
     opt_eq (lf_bookingId f) (le_bookingId e) \<and>
     opt_eq (lf_paymentId f) (le_paymentId e) \<and>
     opt_eq (lf_payoutId f) (le_payoutId e) \<and>
     opt_eq (lf_referenceType f) (Some (le_referenceType e)) \<and>
     opt_eq (lf_referenceId f) (Some (le_referenceId e)) \<and>
     in_range (lf_startDate f) (lf_endDate f) (le_postedAt e)"

record ledger_page =
  lp_data :: ledger
  lp_total :: nat
  lp_page :: nat
  lp_limit :: nat
  lp_totalPages :: nat

definition getLedgerEntries :: "LedgerFilterDto \<Rightarrow> ledger \<Rightarrow> ledger_page" where
  "getLedgerEntries f L =
     (let page = (case lf_page f of None \<Rightarrow> 1 | Some p \<Rightarrow> p);
          limit = (case lf_limit f of None \<Rightarrow> 20 | Some l \<Rightarrow> l);
          rows = sort_key (\<lambda>e. - le_postedAt e) (filter (ledger_filter f) L)
      in \<lparr>lp_data = take limit (drop ((page - 1) * limit) rows),
          lp_total = count_where (ledger_filter f) L,
          lp_page = page, lp_limit = limit,
          lp_totalPages = (count_where (ledger_filter f) L + limit - 1) div limit\<rparr>)"

section \<open>Facts about recording\<close>

definition side_amounts :: "LedgerEntrySide \<Rightarrow> JournalEntryLineInput list \<Rightarrow> rat list" where
  "side_amounts s ls = map li_amount (filter (\<lambda>l. line_side l = Some s) ls)"

definition dsum :: "(rat \<Rightarrow> rat) \<Rightarrow> rat \<Rightarrow> rat list \<Rightarrow> rat" where
  "dsum prec = foldl (\<lambda>a x. prec (a + x))"

definition valid_line :: "JournalEntryLineInput \<Rightarrow> bool" where
  "valid_line l \<longleftrightarrow> 0 < li_amount l \<and> line_side l \<noteq> None"

lemma side_amounts_simps [simp]:
  "side_amounts s [] = []"
  "side_amounts s (l # ls) =
     (if line_side l = Some s then li_amount l # side_amounts s ls else side_amounts s ls)"
  by (simp_all add: side_amounts_def)

lemma dsum_simps [simp]:
  "dsum prec a [] = a"
  "dsum prec a (x # xs) = dsum prec (prec (a + x)) xs"
  by (simp_all add: dsum_def)

lemma set_side_amounts: "set (side_amounts s ls) \<subseteq> li_amount ` set ls"
  by (auto simp: side_amounts_def)

lemma sum_side_amounts_le:
  "(\<And>l. l \<in> set ls \<Longrightarrow> 0 < li_amount l) \<Longrightarrow> sum_list (side_amounts s ls) \<le> sum_list (map li_amount ls)"
  by (induction ls) (auto simp: add_increasing less_imp_le)

lemma parse_lines_valid:
  "\<forall>l \<in> set ls. valid_line l \<Longrightarrow>
   parse_lines prec inp td tc ls =
     Inr (dsum prec td (side_amounts DEBIT ls), dsum prec tc (side_amounts CREDIT ls),
          map (\<lambda>l. parse_line inp (the (line_side l)) l) ls)"
  by (induction ls arbitrary: td tc)
    (auto simp: valid_line_def not_le split: LedgerEntrySide.splits option.splits)

lemma parse_lines_invalid:
  "\<not> (\<forall>l \<in> set ls. valid_line l) \<Longrightarrow> \<exists>m. parse_lines prec inp td tc ls = Inl (BadRequestException m)"
proof (induction ls arbitrary: td tc)
  case Nil
  then show ?case by simp
next
  case (Cons l ls)
  show ?case
  proof (cases "valid_line l")
    case True
    with Cons.prems have "\<not> (\<forall>l \<in> set ls. valid_line l)" by simp
    then have IH: "\<exists>m. parse_lines prec inp d c ls = Inl (BadRequestException m)" for d c
      by (rule Cons.IH)
    from True obtain s where s: "0 < li_amount l" "line_side l = Some s"
      by (auto simp: valid_line_def)
    with IH [of "prec (td + li_amount l)" tc] IH [of td "prec (tc + li_amount l)"] show ?thesis
      by (cases s) auto
  next
    case False
    then show ?thesis by (auto simp: valid_line_def)
  qed
qed

lemma parse_lines_cases:
  obtains (valid) "\<forall>l \<in> set ls. valid_line l"
      "parse_lines prec inp td tc ls =
        Inr (dsum prec td (side_amounts DEBIT ls), dsum prec tc (side_amounts CREDIT ls),
             map (\<lambda>l. parse_line inp (the (line_side l)) l) ls)"
    | (invalid) m where "parse_lines prec inp td tc ls = Inl (BadRequestException m)"
  using parse_lines_valid parse_lines_invalid by blast

lemma execute_persistence_Inr:
  "execute_persistence col now jid inp i ps L = Inr (es, L') \<Longrightarrow>
   L' = L @ es \<and> es = map (\<lambda>(k, p). mk_entry col now jid inp k p) (enumerate i ps)"
proof (induction ps arbitrary: i L es L')
  case Nil
  then show ?case by simp
next
  case (Cons p ps)
  from Cons.prems obtain L1 es1 where
    L1: "create_entry (mk_entry col now jid inp i p) L = Inr L1"
    and r: "execute_persistence col now jid inp (Suc i) ps L1 = Inr (es1, L')"
    and es: "es = mk_entry col now jid inp i p # es1"
    by (auto simp: Let_def bindR_Inr_iff)
  from L1 have "L1 = L @ [mk_entry col now jid inp i p]"
    by (simp add: create_entry_def split: if_splits)
  with Cons.IH [OF r] es show ?case by simp
qed

text \<open>What a journal that is recorded (and is not a replay) looks like.\<close>

lemma recordJournal_cases [consumes 1, case_names replay posted]:
  assumes "recordJournal prec col now fresh inp L = Inr (r, L')"
  obtains (replay) e where "str_truthy (ji_idempotencyKey inp)"
      "List.find (\<lambda>e. le_idempotencyKey e = ji_idempotencyKey inp) L = Some e"
      "jr_journalId r = le_journalId e" "jr_isDuplicate r" "L' = L"
      "jr_entries r = sort_key le_postedAt (filter (\<lambda>q. le_journalId q = le_journalId e) L)"
    | (posted) es where
      "2 \<le> length (raw_lines inp)" "\<forall>l \<in> set (raw_lines inp). valid_line l"
      "dsum prec 0 (side_amounts DEBIT (raw_lines inp)) = dsum prec 0 (side_amounts CREDIT (raw_lines inp))"
      "r = \<lparr>jr_journalId = or_string (ji_journalId inp) fresh, jr_entries = es, jr_isDuplicate = False\<rparr>"
      "es = map (\<lambda>(k, p). mk_entry col now (or_string (ji_journalId inp) fresh) inp k p)
              (enumerate 0 (map (\<lambda>l. parse_line inp (the (line_side l)) l) (raw_lines inp)))"
      "L' = L @ es"
proof -
  let ?key = "ji_idempotencyKey inp" and ?ls = "raw_lines inp"
  let ?ex = "if str_truthy ?key then List.find (\<lambda>e. le_idempotencyKey e = ?key) L else None"
  from assms have len: "\<not> length ?ls < 2" by (auto simp: recordJournal_def)
  show thesis
  proof (cases ?ex)
    case (Some e)
    then have "str_truthy ?key" "List.find (\<lambda>e. le_idempotencyKey e = ?key) L = Some e"
      by (auto split: if_splits)
    with assms len show ?thesis by (intro replay) (auto simp: recordJournal_def)
  next
    case None
    show ?thesis
    proof (cases rule: parse_lines_cases [of ?ls prec inp 0 0])
      case valid
      from assms len None valid(2) obtain es where
        bal: "dsum prec 0 (side_amounts DEBIT ?ls) = dsum prec 0 (side_amounts CREDIT ?ls)"
        and p: "execute_persistence col now (or_string (ji_journalId inp) fresh) inp 0
                  (map (\<lambda>l. parse_line inp (the (line_side l)) l) ?ls) L = Inr (es, L')"
        and r: "r = \<lparr>jr_journalId = or_string (ji_journalId inp) fresh, jr_entries = es, jr_isDuplicate = False\<rparr>"
        by (auto simp: recordJournal_def Let_def bindR_Inr_iff split: if_splits)
      from len valid(1) bal r execute_persistence_Inr [OF p] show ?thesis
        by (intro posted) auto
    next
      case invalid
      with assms len None show ?thesis by (simp add: recordJournal_def Let_def)
    qed
  qed
qed

section \<open>Journals of whole cents\<close>

definition cents_journal :: "RecordJournalInput \<Rightarrow> bool" where
  "cents_journal inp \<longleftrightarrow>
     (\<forall>l \<in> set (raw_lines inp). is_cents (li_amount l)) \<and>
     sum_list (map li_amount (raw_lines inp)) < 10 ^ 17"

definition net :: "string \<Rightarrow> ledger \<Rightarrow> rat" where
  "net j L = sum_where (\<lambda>e. le_journalId e = j) signed L"

definition balanced :: "ledger \<Rightarrow> bool" where
  "balanced L \<longleftrightarrow> (\<forall>j. net j L = 0)"

lemma balanced_Nil [simp]: "balanced []"
  by (simp add: balanced_def net_def)

lemma net_append [simp]: "net j (L @ M) = net j L + net j M"
  by (simp add: net_def)

context decimal_ctx
begin

lemma dsum_cents:
  "\<forall>x \<in> set xs. is_cents x \<and> 0 \<le> x \<Longrightarrow> is_cents a \<Longrightarrow> 0 \<le> a \<Longrightarrow> a + sum_list xs < 10 ^ 17 \<Longrightarrow>
   dsum prec a xs = a + sum_list xs"
proof (induction xs arbitrary: a)
  case Nil
  then show ?case by simp
next
  case (Cons x xs)
  have nn: "0 \<le> sum_list xs" using Cons.prems(1) by (intro sum_list_nonneg) auto
  have c: "is_cents (a + x)" "0 \<le> a + x" using Cons.prems by auto
  have "prec (a + x) = a + x"
    using c nn Cons.prems(4) by (intro prec_cents) (auto simp: abs_of_nonneg)
  with Cons.IH [of "a + x"] Cons.prems c show ?case by (simp add: add.assoc)
qed

lemma dsum_side:
  assumes "cents_journal inp" "\<forall>l \<in> set (raw_lines inp). valid_line l"
  shows "dsum prec 0 (side_amounts s (raw_lines inp)) = sum_list (side_amounts s (raw_lines inp))"
proof -
  have "sum_list (side_amounts s (raw_lines inp)) \<le> sum_list (map li_amount (raw_lines inp))"
    using assms(2) by (intro sum_side_amounts_le) (auto simp: valid_line_def)
  with assms set_side_amounts [of s "raw_lines inp"] show ?thesis
    by (subst dsum_cents) (auto simp: cents_journal_def valid_line_def less_imp_le)
qed

end

lemma net_entries:
  "\<forall>l \<in> set ls. valid_line l \<Longrightarrow>
   net j (map (\<lambda>(k, p). mk_entry col now jid inp k p)
            (enumerate i (map (\<lambda>l. parse_line inp (the (line_side l)) l) ls))) =
   (if j = jid then sum_list (map col (side_amounts DEBIT ls)) - sum_list (map col (side_amounts CREDIT ls))
    else 0)"
proof (induction ls arbitrary: i)
  case Nil
  then show ?case by (simp add: net_def)
next
  case (Cons l ls)
  from Cons.prems obtain s where s: "line_side l = Some s" by (auto simp: valid_line_def)
  from Cons s show ?case
    by (cases s) (auto simp: net_def signed_def mk_entry_def parse_line_def)
qed

text \<open>
  The clients outside a transaction post a journal inside \<open>try \<dots> catch\<close> and only log a failure
  (\<open>wallets.service.ts\<close>, \<open>deposits.service.ts\<close>).
\<close>

definition post_or_skip ::
  "(RecordJournalInput \<Rightarrow> ledger \<Rightarrow> (journal_result \<times> ledger) result) \<Rightarrow> RecordJournalInput \<Rightarrow> ledger \<Rightarrow> ledger" where
  "post_or_skip post inp L = (case post inp L of Inl _ \<Rightarrow> L | Inr (_, L') \<Rightarrow> L')"

text \<open>What the clients rely on when they post a journal.\<close>

locale journal_store =
  fixes post :: "RecordJournalInput \<Rightarrow> ledger \<Rightarrow> (journal_result \<times> ledger) result"
  assumes post_balanced: "cents_journal inp \<Longrightarrow> balanced L \<Longrightarrow> post inp L = Inr (r, L') \<Longrightarrow> balanced L'"
    and post_extends: "post inp L = Inr (r, L') \<Longrightarrow> \<exists>es. L' = L @ es"
begin

lemma post_or_skip_balanced: "cents_journal inp \<Longrightarrow> balanced L \<Longrightarrow> balanced (post_or_skip post inp L)"
  using post_balanced by (auto simp: post_or_skip_def split: sum.split)

lemma post_or_skip_extends: "\<exists>es. post_or_skip post inp L = L @ es"
  using post_extends [of inp L] by (auto simp: post_or_skip_def split: sum.split)

end

lemma recordJournal_balanced:
  assumes "decimal_ctx prec" "money_column col" "cents_journal inp" "balanced L"
    and "recordJournal prec col now fresh inp L = Inr (r, L')"
  shows "balanced L'"
  using assms(5)
proof (cases rule: recordJournal_cases)
  case (replay e)
  with assms(4) show ?thesis by simp
next
  case (posted es)
  note side = decimal_ctx.dsum_side [OF assms(1,3) posted(2)]
  have "map col (side_amounts s (raw_lines inp)) = side_amounts s (raw_lines inp)" for s
    using assms(3) set_side_amounts [of s "raw_lines inp"]
    by (intro money_column.col_map_exact [OF assms(2)]) (auto simp: cents_journal_def)
  then have "net j es = 0" for j
    unfolding posted(5) using net_entries [OF posted(2)] posted(3) side by simp
  with assms(4) posted(6) show ?thesis by (simp add: balanced_def)
qed

lemma recordJournal_extends:
  "recordJournal prec col now fresh inp L = Inr (r, L') \<Longrightarrow> \<exists>es. L' = L @ es"
  by (erule recordJournal_cases) auto

interpretation ledger: journal_store "recordJournal dec20 round2 now fresh" for now fresh
  by unfold_locales
    (auto intro: recordJournal_extends
       elim: recordJournal_balanced [OF djs.decimal_ctx_axioms numeric2.money_column_axioms, rotated 2])

text \<open>A history of journal requests, each with its clock and generated id; rejected ones change nothing.\<close>

fun run_journals :: "(time \<times> string \<times> RecordJournalInput) list \<Rightarrow> ledger \<Rightarrow> ledger" where
  "run_journals [] L = L"
| "run_journals ((now, fresh, inp) # rs) L =
     run_journals rs (post_or_skip (recordJournal dec20 round2 now fresh) inp L)"

lemma run_journals_balanced:
  "\<forall>(now, fresh, inp) \<in> set rs. cents_journal inp \<Longrightarrow> balanced L \<Longrightarrow> balanced (run_journals rs L)"
  by (induction rs L rule: run_journals.induct) (auto intro: ledger.post_or_skip_balanced)

section \<open>The audit computes the net of every journal\<close>

lemma map_of_fold_add_delta:
  "map_of (fold add_delta L m) j =
     (if j \<in> dom (map_of m) \<union> le_journalId ` set L
      then Some ((case map_of m j of None \<Rightarrow> 0 | Some x \<Rightarrow> x) + net j L) else None)"
proof (induction L arbitrary: m)
  case Nil
  then show ?case by (auto simp: net_def split: option.split)
next
  case (Cons e L)
  have *: "map_of (add_delta e m) = (map_of m)(le_journalId e \<mapsto>
      (case map_of m (le_journalId e) of None \<Rightarrow> 0 | Some x \<Rightarrow> x) + signed e)"
    by (simp add: add_delta_def update_conv')
  show ?case
    using Cons.IH [of "add_delta e m"]
    by (auto simp: * net_def split: option.splits if_splits)
qed

lemma distinct_fold_add_delta:
  "distinct (map fst m) \<Longrightarrow> distinct (map fst (fold add_delta L m))"
  by (induction L arbitrary: m) (simp_all add: add_delta_def distinct_update)

lemma journal_sums_facts:
  "distinct (map fst (journal_sums L))"
  "set (journal_sums L) = (\<lambda>j. (j, net j L)) ` le_journalId ` set L"
proof -
  show d: "distinct (map fst (journal_sums L))"
    by (simp add: journal_sums_def distinct_fold_add_delta)
  have "(j, x) \<in> set (journal_sums L) \<longleftrightarrow> j \<in> le_journalId ` set L \<and> x = net j L" for j x
    using map_of_eq_Some_iff [OF d, of j x] map_of_fold_add_delta [of L "[]" j]
    by (auto simp: journal_sums_def split: if_splits)
  then show "set (journal_sums L) = (\<lambda>j. (j, net j L)) ` le_journalId ` set L"
    by (auto simp: image_iff)
qed

lemma net_absent: "j \<notin> le_journalId ` set L \<Longrightarrow> net j L = 0"
  unfolding net_def by (induction L) auto

lemma balanced_iff_audit: "balanced L \<longleftrightarrow> unbalancedJournals (verifyLedgerIntegrity L) = []"
  using journal_sums_facts(2) [of L] net_absent [of _ L]
  by (force simp: verifyLedgerIntegrity_def Let_def balanced_def filter_empty_conv)

section \<open>The accounting equation\<close>

lemma sum_net:
  "finite J \<Longrightarrow> le_journalId ` set L \<subseteq> J \<Longrightarrow> (\<Sum>j \<in> J. net j L) = sum_list (map signed L)"
proof (induction L)
  case Nil
  then show ?case by (simp add: net_def)
next
  case (Cons e L)
  then have "(\<Sum>j \<in> J. net j (e # L)) =
      (\<Sum>j \<in> J. if le_journalId e = j then signed e else 0) + (\<Sum>j \<in> J. net j L)"
    by (simp add: net_def sum.distrib)
  also have "\<dots> = signed e + sum_list (map signed L)" using Cons by (simp add: sum.delta)
  finally show ?case by simp
qed

lemma balanced_total: "balanced L \<Longrightarrow> sum_list (map signed L) = 0"
  using sum_net [of "le_journalId ` set L" L] by (simp add: balanced_def)

definition asset_accounts :: "LedgerAccountType list" where
  "asset_accounts = [GATEWAY_CLEARING, CORPORATE_RECEIVABLE]"

definition claim_accounts :: "LedgerAccountType list" where
  "claim_accounts =
     [CUSTOMER_WALLET, CUSTOMER_DEPOSIT_ESCROW, VENDOR_PAYABLE, PLATFORM_COMMISSION_REVENUE,
      TAX_GST_LIABILITY, DISPUTE_HOLD]"

lemma getAccountBalance_signed:
  "getAccountBalance t ent L =
     (if is_asset_account t then 1 else - 1) *
     sum_where (\<lambda>e. le_accountType e = t \<and> (ent = None \<or> le_accountEntityId e = ent)) signed L"
  by (induction L)
    (auto simp: getAccountBalance_def debits_where_def credits_where_def signed_def Let_def algebra_simps)

lemma sum_by_account:
  "sum_list (map (\<lambda>t. sum_where (\<lambda>e. le_accountType e = t) signed L) (asset_accounts @ claim_accounts))
   = sum_list (map signed L)"
proof (induction L)
  case Nil
  then show ?case by (simp add: asset_accounts_def claim_accounts_def)
next
  case (Cons e L)
  then show ?case
    by (cases "le_accountType e") (simp_all add: asset_accounts_def claim_accounts_def)
qed

section \<open>The effect of a journal on the balances\<close>

text \<open>
  The abstract ledger is the function from accounts to balances. A posted journal adds to each
  account what its lines say, with the sign of the account's normal side.
\<close>

definition line_delta :: "RecordJournalInput \<Rightarrow> LedgerAccountType \<Rightarrow> string option \<Rightarrow> JournalEntryLineInput \<Rightarrow> rat" where
  "line_delta inp t ent l =
     (if li_accountType l = t \<and> (ent = None \<or> or_str (li_accountEntityId l) (ji_vendorId inp) = ent)
      then (if (line_side l = Some DEBIT) = is_asset_account t then li_amount l else - li_amount l)
      else 0)"

definition journal_effect :: "RecordJournalInput \<Rightarrow> LedgerAccountType \<Rightarrow> string option \<Rightarrow> rat" where
  "journal_effect inp t ent = sum_list (map (line_delta inp t ent) (raw_lines inp))"

lemma getAccountBalance_append:
  "getAccountBalance t ent (L @ M) = getAccountBalance t ent L + getAccountBalance t ent M"
  by (simp add: getAccountBalance_signed algebra_simps)

lemma balance_of_entries:
  assumes "\<forall>l \<in> set ls. valid_line l" "\<forall>l \<in> set ls. col (li_amount l) = li_amount l"
  shows "getAccountBalance t ent
      (map (\<lambda>(k, p). mk_entry col now jid inp k p)
         (enumerate i (map (\<lambda>l. parse_line inp (the (line_side l)) l) ls))) =
    sum_list (map (line_delta inp t ent) ls)"
  using assms
proof (induction ls arbitrary: i)
  case Nil
  then show ?case by (simp add: getAccountBalance_signed)
next
  case (Cons l ls)
  from Cons.prems obtain s where s: "line_side l = Some s" by (auto simp: valid_line_def)
  let ?e = "mk_entry col now jid inp i (parse_line inp s l)"
  have "getAccountBalance t ent [?e] = line_delta inp t ent l"
    using s Cons.prems(2)
    by (cases s)
      (auto simp: getAccountBalance_signed signed_def mk_entry_def parse_line_def line_delta_def)
  with Cons s getAccountBalance_append [of t ent "[?e]"] show ?case by simp
qed

lemma journal_posted_effect:
  assumes "money_column col" and "cents_journal inp"
    and "recordJournal prec col now fresh inp L = Inr (r, L')" and "\<not> jr_isDuplicate r"
  shows "getAccountBalance t ent L' = getAccountBalance t ent L + journal_effect inp t ent"
  using assms(3)
proof (cases rule: recordJournal_cases)
  case (replay e)
  with assms(4) show ?thesis by simp
next
  case (posted es)
  have "\<forall>l \<in> set (raw_lines inp). col (li_amount l) = li_amount l"
    using assms(1,2) by (simp add: cents_journal_def money_column.col_exact)
  then have "getAccountBalance t ent es = journal_effect inp t ent"
    unfolding posted(5) journal_effect_def by (rule balance_of_entries [OF posted(2)])
  then show ?thesis by (simp add: posted(6) getAccountBalance_append)
qed

section \<open>When a journal is recorded\<close>

definition keys_free :: "RecordJournalInput \<Rightarrow> ledger \<Rightarrow> bool" where
  "keys_free inp L \<longleftrightarrow>
     (\<forall>e \<in> set L. \<forall>i \<le> length (raw_lines inp).
        le_idempotencyKey e \<noteq> None \<longrightarrow> le_idempotencyKey e \<noteq> line_key (ji_idempotencyKey inp) i)"

lemma line_key_inj: "line_key k i = line_key k j \<Longrightarrow> line_key k i \<noteq> None \<Longrightarrow> i = j"
  by (auto simp: line_key_def dest: show_nat_inj split: if_splits)

lemma execute_persistence_total:
  assumes "\<And>e k. e \<in> set L \<Longrightarrow> i \<le> k \<Longrightarrow> k < i + length ps \<Longrightarrow> le_idempotencyKey e \<noteq> None \<Longrightarrow>
      le_idempotencyKey e \<noteq> line_key (ji_idempotencyKey inp) k"
  shows "\<exists>es. execute_persistence col now jid inp i ps L = Inr (es, L @ es)"
  using assms
proof (induction ps arbitrary: i L)
  case Nil
  then show ?case by simp
next
  case (Cons p ps)
  let ?e = "mk_entry col now jid inp i p"
  have "le_idempotencyKey e \<noteq> line_key (ji_idempotencyKey inp) i"
    if "e \<in> set L" "le_idempotencyKey e \<noteq> None" for e
    using Cons.prems [of e i] that by simp
  then have c: "create_entry ?e L = Inr (L @ [?e])"
    by (fastforce simp: create_entry_def exists_where_iff mk_entry_def)
  have "\<exists>es. execute_persistence col now jid inp (Suc i) ps (L @ [?e]) = Inr (es, (L @ [?e]) @ es)"
  proof (rule Cons.IH)
    fix e k
    assume e: "e \<in> set (L @ [?e])" and k: "Suc i \<le> k" "k < Suc i + length ps"
      and some: "le_idempotencyKey e \<noteq> None"
    show "le_idempotencyKey e \<noteq> line_key (ji_idempotencyKey inp) k"
    proof (cases "e \<in> set L")
      case True
      with k some show ?thesis by (intro Cons.prems) auto
    next
      case False
      with e have "le_idempotencyKey e = line_key (ji_idempotencyKey inp) i" by (simp add: mk_entry_def)
      with some k line_key_inj [of "ji_idempotencyKey inp" i k] show ?thesis by auto
    qed
  qed
  then obtain es where "execute_persistence col now jid inp (Suc i) ps (L @ [?e]) = Inr (es, (L @ [?e]) @ es)" ..
  with c show ?case by (simp add: Let_def)
qed

lemma recordJournal_accepts:
  assumes "keys_free inp L" and "ls = raw_lines inp"
    and "td = dsum prec 0 (side_amounts DEBIT ls)" and "tc = dsum prec 0 (side_amounts CREDIT ls)"
  shows "((\<exists>x. recordJournal prec col now fresh inp L = Inr x) \<longleftrightarrow>
            2 \<le> length ls \<and> (\<forall>l \<in> set ls. valid_line l) \<and> td = tc) \<and>
         (2 \<le> length ls \<and> (\<forall>l \<in> set ls. valid_line l) \<and> td \<noteq> tc \<longrightarrow>
            recordJournal prec col now fresh inp L = Inl (UnbalancedJournalException (round2 td) (round2 tc)))"
proof -
  let ?key = "ji_idempotencyKey inp"
  have none: "(if str_truthy ?key then List.find (\<lambda>e. le_idempotencyKey e = ?key) L else None) = None"
    using assms(1) by (auto simp: keys_free_def find_None_iff_all line_key_def str_truthy_def
        split: option.splits dest!: spec [of _ 0] bspec)
  have ex: "\<exists>es. execute_persistence col now jid inp 0
      (map (\<lambda>l. parse_line inp (the (line_side l)) l) ls) L = Inr (es, L @ es)" for jid
    using assms(1,2) by (intro execute_persistence_total) (auto simp: keys_free_def)
  show ?thesis
  proof (cases "\<forall>l \<in> set ls. valid_line l")
    case True
    from ex [of "or_string (ji_journalId inp) fresh"] obtain es where
      "execute_persistence col now (or_string (ji_journalId inp) fresh) inp 0
         (map (\<lambda>l. parse_line inp (the (line_side l)) l) ls) L = Inr (es, L @ es)" ..
    with True none parse_lines_valid [OF True, of prec inp 0 0] assms(2-4) show ?thesis
      by (auto simp: recordJournal_def Let_def)
  next
    case False
    then obtain m where "parse_lines prec inp 0 0 ls = Inl (BadRequestException m)"
      using parse_lines_invalid by blast
    with False none assms(2) show ?thesis by (auto simp: recordJournal_def Let_def)
  qed
qed

section \<open>Properties of the ledger\<close>

text \<open>
  C6: a journal whose line amounts are whole cents, accepted by \<open>recordJournal\<close>, keeps every
  journal of the table at net zero, also when it reuses an existing journal id: the equality of
  debits and credits the service checks on the decimal.js totals survives the coercion of each
  line into its column.
\<close>

theorem recordJournal_keeps_balance:
  assumes "decimal_ctx prec" and "money_column col"
    and "cents_journal inp" and "balanced L"
    and "recordJournal prec col now fresh inp L = Inr (r, L')"
  shows "balanced L'"
  using assms by (rule recordJournal_balanced)

text \<open>A two-line journal used by the witnesses: a wallet recharge of 1000 rupees.\<close>

definition sample_line :: "LedgerAccountType \<Rightarrow> string \<Rightarrow> LedgerEntrySide \<Rightarrow> rat \<Rightarrow> JournalEntryLineInput" where
  "sample_line t ent s a =
     \<lparr>li_accountType = t, li_accountEntityId = Some ent, li_side = Some s, li_entrySide = None,
      li_amount = a, li_narration = None, li_description = None, li_bookingId = None,
      li_paymentId = None, li_payoutId = None, li_metadata = None\<rparr>"

definition sample_journal :: "JournalEntryLineInput list \<Rightarrow> RecordJournalInput" where
  "sample_journal ls =
     \<lparr>ji_journalId = None, ji_referenceType = ''WALLET_DEPOSIT'', ji_referenceId = ''pay_1'',
      ji_narration = None, ji_description = None, ji_lines = Some ls, ji_entries = None,
      ji_idempotencyKey = Some ''k1'', ji_currency = None, ji_bookingId = None,
      ji_paymentId = None, ji_payoutId = None, ji_vendorId = None\<rparr>"

definition recharge :: RecordJournalInput where
  "recharge = sample_journal
     [sample_line GATEWAY_CLEARING ''RAZORPAY'' DEBIT 1000, sample_line CUSTOMER_WALLET ''u1'' CREDIT 1000]"

lemmas sample_defs = recharge_def sample_journal_def sample_line_def raw_lines_def

lemma cents_recharge: "cents_journal recharge"
  using is_cents_of_int [of 1000] by (simp add: cents_journal_def sample_defs)

lemma dec20_1000: "dec20 1000 = 1000"
  using dec20_cents [of 1000] is_cents_of_int [of 1000] by simp

lemma record_recharge:
  "\<exists>es. recordJournal dec20 round2 0 ''j1'' recharge [] =
     Inr (\<lparr>jr_journalId = ''j1'', jr_entries = es, jr_isDuplicate = False\<rparr>, es) \<and>
     map le_idempotencyKey es = [Some ''k1'', Some ''k1_line_1''] \<and> map le_amount es = [1000, 1000]"
  using round2_exact [of 1000] is_cents_of_int [of 1000]
  by (simp add: recordJournal_def sample_defs line_side_def dec20_1000 Let_def create_entry_def
      exists_where_def mk_entry_def parse_line_def or_string_def line_key_def show_nat.simps)

lemma recordJournal_keeps_balance_witness:
  "\<exists>r L'. recordJournal dec20 round2 0 ''j1'' recharge [] = Inr (r, L') \<and> length L' = 2 \<and> balanced L'"
proof -
  obtain es r where r: "recordJournal dec20 round2 0 ''j1'' recharge [] = Inr (r, es)"
    and len: "map le_amount es = [1000, 1000]"
    using record_recharge by (elim exE conjE) (rule that)
  have "balanced es"
    by (rule recordJournal_keeps_balance [OF djs.decimal_ctx_axioms numeric2.money_column_axioms
          cents_recharge balanced_Nil r])
  with r len show ?thesis by (metis length_map length_Cons list.size(3) numeral_2_eq_2)
qed

text \<open>
  \<open>verifyLedgerIntegrity\<close> reports exactly the journals whose debits and credits differ, counts
  every journal once, and on a table built from the empty one by any history of requests whose
  amounts are whole cents (accepted, rejected or replayed) it reports none.
\<close>

theorem verifyLedgerIntegrity_sound:
  "(\<forall>j. j \<in> set (unbalancedJournals (verifyLedgerIntegrity L)) \<longleftrightarrow> net j L \<noteq> 0) \<and>
   distinct (unbalancedJournals (verifyLedgerIntegrity L)) \<and>
   totalJournals (verifyLedgerIntegrity L) = card (le_journalId ` set L) \<and>
   ((\<forall>(now, fresh, inp) \<in> set rs. cents_journal inp) \<longrightarrow>
      unbalancedJournals (verifyLedgerIntegrity (run_journals rs [])) = [])"
proof (intro conjI allI impI)
  note facts = journal_sums_facts [of L]
  have len: "length (journal_sums L) = card (fst ` set (journal_sums L))"
    using distinct_card [OF facts(1)] by simp
  then show "totalJournals (verifyLedgerIntegrity L) = card (le_journalId ` set L)"
    using facts(2) by (simp add: verifyLedgerIntegrity_def Let_def image_image)
  show "distinct (unbalancedJournals (verifyLedgerIntegrity L))"
    using facts(1) by (simp add: verifyLedgerIntegrity_def Let_def distinct_map_filter)
  fix j
  show "j \<in> set (unbalancedJournals (verifyLedgerIntegrity L)) \<longleftrightarrow> net j L \<noteq> 0"
    using facts(2) net_absent [of j L]
    by (auto simp: verifyLedgerIntegrity_def Let_def image_iff)
next
  assume "\<forall>(now, fresh, inp) \<in> set rs. cents_journal inp"
  then have "balanced (run_journals rs [])" by (intro run_journals_balanced) auto
  then show "unbalancedJournals (verifyLedgerIntegrity (run_journals rs [])) = []"
    by (simp add: balanced_iff_audit)
qed

lemma verifyLedgerIntegrity_sound_witness:
  "unbalancedJournals (verifyLedgerIntegrity (run_journals [(0, ''j1'', recharge), (5, ''j2'', recharge)] [])) = []"
  using verifyLedgerIntegrity_sound [of "[]" "[(0, ''j1'', recharge), (5, ''j2'', recharge)]"] cents_recharge
  by simp

text \<open>
  C15: the accounting equation. On a ledger whose journals all net to zero, the balances
  \<open>getAccountBalance\<close> computes for the asset accounts (gateway clearing, corporate receivable)
  add up to those of the liability, escrow and revenue accounts.
\<close>

theorem accounting_equation:
  assumes "balanced L"
  shows "sum_list (map (\<lambda>t. getAccountBalance t None L) asset_accounts) =
         sum_list (map (\<lambda>t. getAccountBalance t None L) claim_accounts)"
  using sum_by_account [of L] balanced_total [OF assms]
  by (simp add: getAccountBalance_signed is_asset_account_def asset_accounts_def claim_accounts_def)

lemma accounting_equation_witness:
  "balanced (run_journals [(0, ''j1'', recharge)] []) \<and>
   sum_list (map (\<lambda>t. getAccountBalance t None (run_journals [(0, ''j1'', recharge)] [])) asset_accounts) =
   sum_list (map (\<lambda>t. getAccountBalance t None (run_journals [(0, ''j1'', recharge)] [])) claim_accounts)"
proof -
  have b: "balanced (run_journals [(0, ''j1'', recharge)] [])"
    by (rule run_journals_balanced) (simp_all add: cents_recharge)
  from b accounting_equation [OF b] show ?thesis ..
qed

text \<open>
  C25: refinement to account balances. A journal of whole cents that is posted (not replayed)
  changes the balance \<open>getAccountBalance\<close> reports of every account and entity by exactly what its
  lines say, and changes nothing else.
\<close>

theorem recordJournal_effect:
  assumes "money_column col" and "cents_journal inp"
    and "recordJournal prec col now fresh inp L = Inr (r, L')" and "\<not> jr_isDuplicate r"
  shows "getAccountBalance t ent L' = getAccountBalance t ent L + journal_effect inp t ent"
  using assms by (rule journal_posted_effect)

lemma recordJournal_effect_witness:
  "\<exists>r L'. recordJournal dec20 round2 0 ''j1'' recharge [] = Inr (r, L') \<and>
     getAccountBalance CUSTOMER_WALLET (Some ''u1'') L' = 1000"
proof -
  obtain es where r: "recordJournal dec20 round2 0 ''j1'' recharge [] =
     Inr (\<lparr>jr_journalId = ''j1'', jr_entries = es, jr_isDuplicate = False\<rparr>, es)"
    using record_recharge by (elim exE conjE) (rule that)
  have "getAccountBalance CUSTOMER_WALLET (Some ''u1'') es =
      getAccountBalance CUSTOMER_WALLET (Some ''u1'') [] + journal_effect recharge CUSTOMER_WALLET (Some ''u1'')"
    by (rule recordJournal_effect [OF numeric2.money_column_axioms cents_recharge r]) simp
  also have "\<dots> = 1000"
    by (simp add: getAccountBalance_signed journal_effect_def sample_defs line_delta_def
        line_side_def is_asset_account_def)
  finally show ?thesis using r by blast
qed

text \<open>
  Idempotency. Once a journal with an idempotency key is posted, every further request with
  that key (with two lines or more, whatever they say) returns the same journal id, is marked as a
  duplicate and leaves the table unchanged.
\<close>

theorem recordJournal_idempotent:
  assumes "recordJournal prec col now fresh inp L = Inr (r, L')"
    and "str_truthy (ji_idempotencyKey inp)"
    and "ji_idempotencyKey inp2 = ji_idempotencyKey inp" and "2 \<le> length (raw_lines inp2)"
  shows "\<exists>r2. recordJournal prec2 col2 now2 fresh2 inp2 L' = Inr (r2, L') \<and>
           jr_journalId r2 = jr_journalId r \<and> jr_isDuplicate r2"
proof -
  let ?p = "\<lambda>e. le_idempotencyKey e = ji_idempotencyKey inp"
  have "\<exists>e. List.find ?p L' = Some e \<and> le_journalId e = jr_journalId r"
    using assms(1)
  proof (cases rule: recordJournal_cases)
    case (replay e)
    then show ?thesis by simp
  next
    case (posted es)
    then obtain p ps where "map (\<lambda>l. parse_line inp (the (line_side l)) l) (raw_lines inp) = p # ps"
      by (cases "raw_lines inp") auto
    then have es: "\<exists>fs. es = mk_entry col now (jr_journalId r) inp 0 p # fs"
      using posted by simp
    have "List.find ?p L = None"
      using assms posted(4) by (auto simp: recordJournal_def Let_def split: option.splits if_splits)
    with es posted(6) assms(2) show ?thesis
      by (auto simp: find_append mk_entry_def line_key_def str_truthy_def split: option.splits)
  qed
  with assms(2-4) show ?thesis by (auto simp: recordJournal_def Let_def)
qed

lemma recordJournal_idempotent_witness:
  "\<exists>r L' r2. recordJournal dec20 round2 0 ''j1'' recharge [] = Inr (r, L') \<and>
     recordJournal dec20 round2 9 ''j2'' recharge L' = Inr (r2, L') \<and> jr_isDuplicate r2"
proof -
  obtain es where r: "recordJournal dec20 round2 0 ''j1'' recharge [] =
     Inr (\<lparr>jr_journalId = ''j1'', jr_entries = es, jr_isDuplicate = False\<rparr>, es)"
    using record_recharge by (elim exE conjE) (rule that)
  from recordJournal_idempotent [OF r, of recharge dec20 round2 9 "''j2''"] r show ?thesis
    by (auto simp: sample_defs)
qed

text \<open>
  When a request is rejected. A request whose idempotency keys are not in the table is
  recorded exactly when it has two lines or more, every line has a positive amount and a side, and
  the decimal.js totals of debits and credits agree; otherwise it throws, with the
  \<open>UnbalancedJournalException\<close> carrying both totals when only the last condition fails.
\<close>

theorem recordJournal_accepts_iff:
  assumes "keys_free inp L" and "ls = raw_lines inp"
    and "td = dsum prec 0 (side_amounts DEBIT ls)" and "tc = dsum prec 0 (side_amounts CREDIT ls)"
  shows "((\<exists>x. recordJournal prec col now fresh inp L = Inr x) \<longleftrightarrow>
            2 \<le> length ls \<and> (\<forall>l \<in> set ls. valid_line l) \<and> td = tc) \<and>
         (2 \<le> length ls \<and> (\<forall>l \<in> set ls. valid_line l) \<and> td \<noteq> tc \<longrightarrow>
            recordJournal prec col now fresh inp L = Inl (UnbalancedJournalException (round2 td) (round2 tc)))"
  using assms by (rule recordJournal_accepts)

lemma recordJournal_accepts_iff_witness:
  "recordJournal dec20 round2 0 ''j1''
     (sample_journal [sample_line GATEWAY_CLEARING ''RAZORPAY'' DEBIT 1000,
                      sample_line CUSTOMER_WALLET ''u1'' CREDIT 999]) [] =
   Inl (UnbalancedJournalException 1000 999)"
proof -
  let ?inp = "sample_journal [sample_line GATEWAY_CLEARING ''RAZORPAY'' DEBIT 1000,
                              sample_line CUSTOMER_WALLET ''u1'' CREDIT 999]"
  have "keys_free ?inp []" by (simp add: keys_free_def)
  note recordJournal_accepts_iff [OF this refl refl refl, of dec20 round2 0 "''j1''"]
  moreover have "dec20 999 = 999" "round2 1000 = 1000" "round2 999 = 999"
    using dec20_cents [of 999] round2_exact [of 1000] round2_exact [of 999]
      is_cents_of_int [of 999] is_cents_of_int [of 1000] by simp_all
  ultimately show ?thesis
    by (simp add: sample_defs valid_line_def line_side_def dec20_1000)
qed

text \<open>
  The check of the totals is made before the amounts reach the column. Three lines of 0.005,
  0.005 (debits) and 0.01 (credit) pass it, are stored as 0.01, 0.01 and 0.01, and the audit then
  reports the journal: amounts below a cent break the invariant \<open>SUM(DEBITS) === SUM(CREDITS)\<close> of
  the stored ledger.
\<close>

definition sub_cent_journal :: RecordJournalInput where
  "sub_cent_journal = sample_journal
     [sample_line VENDOR_PAYABLE ''v1'' DEBIT (5 / 1000), sample_line TAX_GST_LIABILITY ''t'' DEBIT (5 / 1000),
      sample_line GATEWAY_CLEARING ''RAZORPAY'' CREDIT (1 / 100)]"

theorem sub_cent_journal_unbalanced:
  "unbalancedJournals (verifyLedgerIntegrity (run_journals [(0, ''j1'', sub_cent_journal)] [])) = [''j1'']"
proof -
  have d: "dec20 (1 / 200) = 1 / 200" "dec20 (1 / 100) = 1 / 100"
    by code_simp+
  have r: "round2 (1 / 200) = 1 / 100" "round2 (1 / 100) = 1 / 100"
    by code_simp+
  show ?thesis
    by (simp add: d r sub_cent_journal_def sample_defs post_or_skip_def recordJournal_def
        line_side_def Let_def create_entry_def exists_where_def mk_entry_def parse_line_def
        or_string_def line_key_def show_nat.simps verifyLedgerIntegrity_def journal_sums_def
        add_delta_def signed_def)
qed

end
