(* ===== verification/Wallet.thy ===== *)
theory Wallet
  imports Ledger
begin

text \<open>
  The customer wallet (\<open>wallets/wallets.service.ts\<close>): the tables \<open>Wallet\<close> and
  \<open>WalletLedgerEntry\<close>, and every operation of the service on them. \<open>col\<close> is the coercion of an
  amount into a \<open>@db.Decimal(10, 2)\<close> column, \<open>prec\<close> the rounding of decimal.js results, \<open>svc\<close> the
  wallet configuration (\<open>None\<close> when the optional configuration service is not injected).
  Sums and differences of stored balances are whole cents below \<open>10 ^ 8\<close>, which decimal.js adds
  exactly. The row lock \<open>SELECT \<dots> FOR UPDATE\<close> makes a credit or debit one atomic step, so each is
  one function from the tables to the tables. The gateway (Razorpay) is a parameter of the two
  operations that call it. Log lines and notifications are not modelled.
\<close>

datatype WalletStatus = ACTIVE | FROZEN | CLOSED
datatype WalletBucketType = REAL_MONEY | PROMOTIONAL | REFUND_CREDIT
datatype LedgerEntryType =
    CUSTOMER_DEPOSIT | CHECKOUT_DEBIT | BOOKING_REFUND | REFERRAL_REWARD | LOYALTY_CONVERSION
  | ADMIN_ADJUSTMENT | CANCELLATION_CREDIT | EXPIRATION
datatype LedgerDirection = CREDIT | DEBIT

record Wallet =
  w_id :: id
  w_userId :: id
  w_currency :: string
  w_availableBalance :: rat
  w_lockedBalance :: rat
  w_realBalance :: rat
  w_promoBalance :: rat
  w_status :: WalletStatus

record WalletLedgerEntry =
  we_walletId :: id
  we_type :: LedgerEntryType
  we_direction :: LedgerDirection
  we_bucket :: WalletBucketType
  we_amount :: rat
  we_balanceBefore :: rat
  we_balanceAfter :: rat
  we_referenceType :: string
  we_referenceId :: "string option"
  we_idempotencyKey :: string
  we_description :: string
  we_expiresAt :: "time option"
  we_createdAt :: time

record wallet_db =
  wd_wallets :: "Wallet list"
  wd_entries :: "WalletLedgerEntry list"
  wd_audit :: "audit_row list"

record WalletConfig =
  wc_isEnabled :: bool
  wc_maxSingleDeposit :: rat
  wc_minSingleDeposit :: rat
  wc_maxWalletBalanceCap :: rat
  wc_maxWalletPaymentPercentage :: rat
  wc_minBookingAmountForWalletUse :: rat
  wc_maxPromoCreditPerBooking :: rat
  wc_maxDailyWalletUsage :: rat
  wc_isDepositsEnabled :: bool

definition MAX_SINGLE_DEPOSIT :: rat where "MAX_SINGLE_DEPOSIT = 50000"
definition MIN_SINGLE_DEPOSIT :: rat where "MIN_SINGLE_DEPOSIT = 100"
definition MAX_WALLET_BALANCE_CAP :: rat where "MAX_WALLET_BALANCE_CAP = 100000"

section \<open>Lookups and the two writes every operation makes\<close>

definition find_wallet :: "id \<Rightarrow> wallet_db \<Rightarrow> Wallet option" where
  "find_wallet wid db = List.find (\<lambda>w. w_id w = wid) (wd_wallets db)"

definition new_wallet :: "id \<Rightarrow> id \<Rightarrow> Wallet" where
  "new_wallet wid userId =
     \<lparr>w_id = wid, w_userId = userId, w_currency = ''INR'', w_availableBalance = 0,
      w_lockedBalance = 0, w_realBalance = 0, w_promoBalance = 0, w_status = ACTIVE\<rparr>"

definition getOrCreateWallet :: "id \<Rightarrow> id \<Rightarrow> wallet_db \<Rightarrow> Wallet \<times> wallet_db" where
  "getOrCreateWallet newId userId db =
     (case List.find (\<lambda>w. w_userId w = userId) (wd_wallets db) of
        Some w \<Rightarrow> (w, db)
      | None \<Rightarrow> let w = new_wallet newId userId in (w, db\<lparr>wd_wallets := wd_wallets db @ [w]\<rparr>))"

text \<open>\<open>walletLedgerEntry.create\<close> (the key is unique) and \<open>wallet.update\<close>.\<close>

definition create_wallet_entry :: "WalletLedgerEntry \<Rightarrow> wallet_db \<Rightarrow> wallet_db result" where
  "create_wallet_entry e db =
     (if exists_where (\<lambda>r. we_idempotencyKey r = we_idempotencyKey e) (wd_entries db)
      then Inl (PrismaError ''P2002'')
      else Inr (db\<lparr>wd_entries := wd_entries db @ [e]\<rparr>))"

definition update_wallet :: "id \<Rightarrow> (Wallet \<Rightarrow> Wallet) \<Rightarrow> wallet_db \<Rightarrow> wallet_db" where
  "update_wallet wid f db = db\<lparr>wd_wallets := update_where (\<lambda>w. w_id w = wid) f (wd_wallets db)\<rparr>"

section \<open>Credit\<close>

definition credit_cap_check :: "WalletConfig option \<Rightarrow> LedgerEntryType \<Rightarrow> rat \<Rightarrow> exn option" where
  "credit_cap_check svc type newAvailable =
     (case (if type \<noteq> ADMIN_ADJUSTMENT then svc else None) of
        Some c \<Rightarrow>
          if \<not> wc_isEnabled c then Some (BadRequestException ''Wallet operations are currently disabled'')
          else if newAvailable > or_num (Some (wc_maxWalletBalanceCap c)) MAX_WALLET_BALANCE_CAP
          then Some (BadRequestException ''Wallet balance cap exceeded'') else None
      | None \<Rightarrow>
          if newAvailable > MAX_WALLET_BALANCE_CAP
          then Some (BadRequestException ''Wallet balance cap exceeded'') else None)"

definition creditWallet ::
  "(rat \<Rightarrow> rat) \<Rightarrow> WalletConfig option \<Rightarrow> time \<Rightarrow> id \<Rightarrow> rat \<Rightarrow> LedgerEntryType \<Rightarrow> WalletBucketType \<Rightarrow>
   string \<Rightarrow> string option \<Rightarrow> string \<Rightarrow> string \<Rightarrow> time option \<Rightarrow> wallet_db \<Rightarrow>
   (WalletLedgerEntry \<times> wallet_db) result" where
  "creditWallet col svc now walletId amount type bucket referenceType referenceId key descr expiresAt db =
     (if amount \<le> 0 then Inl (BadRequestException ''Credit amount must be strictly greater than zero.'')
      else case List.find (\<lambda>e. we_idempotencyKey e = key) (wd_entries db) of
        Some existing \<Rightarrow> Inr (existing, db)
      | None \<Rightarrow>
        (case find_wallet walletId db of
           None \<Rightarrow> Inl (NotFoundException ''Wallet not found'')
         | Some w \<Rightarrow>
           if w_status w \<noteq> ACTIVE then Inl (BadRequestException ''Wallet is not active'')
           else let newAvailable = w_availableBalance w + amount in
             case credit_cap_check svc type newAvailable of
               Some e \<Rightarrow> Inl e
             | None \<Rightarrow>
               let real = (bucket = REAL_MONEY \<or> bucket = REFUND_CREDIT);
                   newReal = (if real then w_realBalance w + amount else w_realBalance w);
                   newPromo = (if real then w_promoBalance w else w_promoBalance w + amount);
                   e = \<lparr>we_walletId = walletId, we_type = type, we_direction = LedgerDirection.CREDIT,
                        we_bucket = bucket, we_amount = col amount,
                        we_balanceBefore = col (w_availableBalance w), we_balanceAfter = col newAvailable,
                        we_referenceType = referenceType, we_referenceId = referenceId,
                        we_idempotencyKey = key, we_description = descr, we_expiresAt = expiresAt,
                        we_createdAt = now\<rparr>
               in bindR (create_wallet_entry e db) (\<lambda>db1.
                    Inr (e, update_wallet walletId
                      (\<lambda>w. w\<lparr>w_availableBalance := col newAvailable, w_realBalance := col newReal,
                             w_promoBalance := col newPromo\<rparr>) db1))))"

section \<open>Debit\<close>

text \<open>Promotional money is consumed first, then real money: the new balances and the entry's bucket.\<close>

definition consume :: "rat \<Rightarrow> rat \<Rightarrow> rat \<Rightarrow> rat \<times> rat \<times> WalletBucketType" where
  "consume currentReal currentPromo amount =
     (if currentPromo > 0
      then if currentPromo \<ge> amount
           then (currentReal, currentPromo - amount, PROMOTIONAL)
           else (currentReal - (amount - currentPromo), 0, PROMOTIONAL)
      else (currentReal - amount, currentPromo, REAL_MONEY))"

definition debitWallet ::
  "(rat \<Rightarrow> rat) \<Rightarrow> WalletConfig option \<Rightarrow> time \<Rightarrow> id \<Rightarrow> rat \<Rightarrow> LedgerEntryType \<Rightarrow>
   string \<Rightarrow> string option \<Rightarrow> string \<Rightarrow> string \<Rightarrow> wallet_db \<Rightarrow> (WalletLedgerEntry \<times> wallet_db) result" where
  "debitWallet col svc now walletId amount type referenceType referenceId key descr db =
     (if amount \<le> 0 then Inl (BadRequestException ''Debit amount must be strictly greater than zero.'')
      else case List.find (\<lambda>e. we_idempotencyKey e = key) (wd_entries db) of
        Some existing \<Rightarrow> Inr (existing, db)
      | None \<Rightarrow>
        (case find_wallet walletId db of
           None \<Rightarrow> Inl (NotFoundException ''Wallet not found'')
         | Some w \<Rightarrow>
           if w_status w \<noteq> ACTIVE then Inl (BadRequestException ''Wallet is not active'')
           else if type \<noteq> ADMIN_ADJUSTMENT \<and> (case svc of Some c \<Rightarrow> \<not> wc_isEnabled c | None \<Rightarrow> False)
           then Inl (BadRequestException ''Wallet operations are currently disabled'')
           else if w_availableBalance w < amount
           then Inl (BadRequestException ''Insufficient wallet balance'')
           else let newAvailable = w_availableBalance w - amount;
                    (newReal, newPromo, bucket) = consume (w_realBalance w) (w_promoBalance w) amount;
                    e = \<lparr>we_walletId = walletId, we_type = type, we_direction = LedgerDirection.DEBIT,
                         we_bucket = bucket, we_amount = col amount,
                         we_balanceBefore = col (w_availableBalance w), we_balanceAfter = col newAvailable,
                         we_referenceType = referenceType, we_referenceId = referenceId,
                         we_idempotencyKey = key, we_description = descr, we_expiresAt = None,
                         we_createdAt = now\<rparr>
                in bindR (create_wallet_entry e db) (\<lambda>db1.
                     Inr (e, update_wallet walletId
                       (\<lambda>w. w\<lparr>w_availableBalance := col newAvailable, w_realBalance := col newReal,
                              w_promoBalance := col newPromo\<rparr>) db1))))"

section \<open>Expiry of promotional credit\<close>

definition is_expired_promo :: "time \<Rightarrow> id \<Rightarrow> WalletLedgerEntry \<Rightarrow> bool" where
  "is_expired_promo now walletId e \<longleftrightarrow>
     we_walletId e = walletId \<and> we_bucket e = PROMOTIONAL \<and> we_direction e = LedgerDirection.CREDIT \<and>
     (case we_expiresAt e of None \<Rightarrow> False | Some t \<Rightarrow> t < now)"

text \<open>
  The cleanup reads without a lock and then writes what it computed: the two parts are apart, so that a request
  between them is visible. Credits and debits hold a row lock of the wallet.
\<close>

record expiry =
  xp_amount :: rat
  xp_entry :: WalletLedgerEntry
  xp_available :: rat
  xp_promo :: rat

definition expiry_read :: "(rat \<Rightarrow> rat) \<Rightarrow> time \<Rightarrow> id \<Rightarrow> wallet_db \<Rightarrow> expiry option" where
  "expiry_read col now walletId db =
     (let expired = filter (is_expired_promo now walletId) (wd_entries db)
      in if expired = [] then None
      else case find_wallet walletId db of
        None \<Rightarrow> None
      | Some w \<Rightarrow>
        if w_promoBalance w \<le> 0 then None
        else let total = sum_list (map we_amount expired);
                 already = sum_where (\<lambda>e. we_walletId e = walletId \<and> we_type e = EXPIRATION) we_amount (wd_entries db);
                 actual = min (total - already) (w_promoBalance w)
             in if actual > 0
                then let newPromo = w_promoBalance w - actual;
                         newAvailable = w_availableBalance w - actual;
                         e = \<lparr>we_walletId = walletId, we_type = EXPIRATION, we_direction = LedgerDirection.DEBIT,
                              we_bucket = PROMOTIONAL, we_amount = col actual,
                              we_balanceBefore = col (w_availableBalance w), we_balanceAfter = col newAvailable,
                              we_referenceType = ''SYSTEM'', we_referenceId = Some ''PROMO_EXPIRATION'',
                              we_idempotencyKey = ''promo_expiry_'' @ walletId @ ''_'' @ iso_date now,
                              we_description = ''Expired promotional credit cleanup'', we_expiresAt = None,
                              we_createdAt = now\<rparr>
                     in Some \<lparr>xp_amount = actual, xp_entry = e, xp_available = col newAvailable, xp_promo = col newPromo\<rparr>
                else None)"

definition expiry_write :: "id \<Rightarrow> expiry \<Rightarrow> wallet_db \<Rightarrow> (rat \<times> wallet_db) result" where
  "expiry_write walletId x db =
     bindR (create_wallet_entry (xp_entry x) db) (\<lambda>db1.
       Inr (xp_amount x, update_wallet walletId
         (\<lambda>w. w\<lparr>w_availableBalance := xp_available x, w_promoBalance := xp_promo x\<rparr>) db1))"

definition cleanExpiredPromotionalCredits ::
  "(rat \<Rightarrow> rat) \<Rightarrow> time \<Rightarrow> id \<Rightarrow> wallet_db \<Rightarrow> (rat \<times> wallet_db) result" where
  "cleanExpiredPromotionalCredits col now walletId db =
     (case expiry_read col now walletId db of None \<Rightarrow> Inr (0, db) | Some x \<Rightarrow> expiry_write walletId x db)"

lemmas expiry_defs = cleanExpiredPromotionalCredits_def expiry_read_def expiry_write_def

section \<open>The usable part of a wallet for a booking\<close>

record usable =
  us_allowed :: bool
  us_usableAmount :: rat
  us_promoAmount :: rat
  us_realAmount :: rat
  us_availableBalance :: rat

definition default_config :: WalletConfig where
  "default_config =
     \<lparr>wc_isEnabled = True, wc_maxSingleDeposit = 50000, wc_minSingleDeposit = 100,
      wc_maxWalletBalanceCap = 100000, wc_maxWalletPaymentPercentage = 100,
      wc_minBookingAmountForWalletUse = 0, wc_maxPromoCreditPerBooking = 5000,
      wc_maxDailyWalletUsage = 50000, wc_isDepositsEnabled = True\<rparr>"

definition not_usable :: "Wallet \<Rightarrow> usable" where
  "not_usable w = \<lparr>us_allowed = False, us_usableAmount = 0, us_promoAmount = 0, us_realAmount = 0,
                   us_availableBalance = w_availableBalance w\<rparr>"

definition used_today :: "time \<Rightarrow> id \<Rightarrow> wallet_db \<Rightarrow> rat" where
  "used_today startOfToday walletId db =
     sum_where (\<lambda>e. we_walletId e = walletId \<and> we_direction e = LedgerDirection.DEBIT \<and>
        we_type e = CHECKOUT_DEBIT \<and> startOfToday \<le> we_createdAt e) we_amount (wd_entries db)"

definition calculate_usable ::
  "(rat \<Rightarrow> rat) \<Rightarrow> WalletConfig \<Rightarrow> Wallet \<Rightarrow> rat \<Rightarrow> rat \<Rightarrow> rat option \<Rightarrow> usable" where
  "calculate_usable prec config w usedToday bookingTotal requested =
     (if \<not> wc_isEnabled config then not_usable w
      else if wc_minBookingAmountForWalletUse config \<noteq> 0 \<and> bookingTotal < wc_minBookingAmountForWalletUse config
      then not_usable w
      else
        let maxPercent = or_num (Some (wc_maxWalletPaymentPercentage config)) 100;
            maxAllowedByPercentage = prec (prec (bookingTotal * maxPercent) / 100);
            maxPromoAllowed = or_num (Some (wc_maxPromoCreditPerBooking config)) 5000;
            usablePromo = min (w_promoBalance w) maxPromoAllowed;
            maxDailyLimit = or_num (Some (wc_maxDailyWalletUsage config)) 50000;
            remainingDailyAllowance = max 0 (maxDailyLimit - usedToday);
            maxPossibleDebit = min (min (min (w_availableBalance w) bookingTotal) maxAllowedByPercentage)
                                 remainingDailyAllowance;
            targetAmount = (case requested of None \<Rightarrow> maxPossibleDebit | Some r \<Rightarrow> min r maxPossibleDebit);
            finalPromo = min targetAmount usablePromo
        in \<lparr>us_allowed = targetAmount > 0, us_usableAmount = targetAmount, us_promoAmount = finalPromo,
            us_realAmount = targetAmount - finalPromo, us_availableBalance = w_availableBalance w\<rparr>)"

definition validateAndCalculateUsableWallet ::
  "(rat \<Rightarrow> rat) \<Rightarrow> (rat \<Rightarrow> rat) \<Rightarrow> WalletConfig option \<Rightarrow> time \<Rightarrow> time \<Rightarrow> id \<Rightarrow> id \<Rightarrow> rat \<Rightarrow> rat option \<Rightarrow>
   wallet_db \<Rightarrow> usable result \<times> wallet_db" where
  "validateAndCalculateUsableWallet prec col svc now startOfToday newId userId bookingAmount requested db =
     (let (w, db1) = getOrCreateWallet newId userId db
      in case cleanExpiredPromotionalCredits col now (w_id w) db1 of
           Inl e \<Rightarrow> (Inl e, db1)
         | Inr (_, db2) \<Rightarrow>
           let current = (case find_wallet (w_id w) db2 of Some w' \<Rightarrow> w' | None \<Rightarrow> w);
               config = (case svc of Some c \<Rightarrow> c | None \<Rightarrow> default_config)
           in (Inr (calculate_usable prec config current (used_today startOfToday (w_id current) db2)
                     bookingAmount requested), db2))"

section \<open>Deposits through the gateway\<close>

record deposit_order =
  do_orderId :: string
  do_amount :: rat
  do_isMock :: bool

text \<open>\<open>createOrder\<close> is \<open>razorpay.orders.create\<close> on the amount in paise.\<close>

definition createDepositOrder ::
  "WalletConfig option \<Rightarrow> bool \<Rightarrow> (int \<Rightarrow> string + string) \<Rightarrow> time \<Rightarrow> id \<Rightarrow> id \<Rightarrow> rat \<Rightarrow> wallet_db \<Rightarrow>
   deposit_order result \<times> wallet_db" where
  "createDepositOrder svc useMock createOrder now newId userId amount db =
     (let config = (case svc of Some c \<Rightarrow> c | None \<Rightarrow> default_config)
      in if \<not> wc_isEnabled config \<or> \<not> wc_isDepositsEnabled config
         then (Inl (BadRequestException ''Wallet deposits are currently disabled.''), db)
         else if amount < wc_minSingleDeposit config \<or> amount > wc_maxSingleDeposit config
         then (Inl (BadRequestException ''Deposit amount out of range''), db)
         else let (w, db1) = getOrCreateWallet newId userId db
              in if w_availableBalance w + amount > wc_maxWalletBalanceCap config
                 then (Inl (BadRequestException ''Deposit exceeds the maximum wallet balance cap''), db1)
                 else if useMock
                 then (Inr \<lparr>do_orderId = ''order_mock_wlt_'' @ show_nat (nat now), do_amount = amount, do_isMock = True\<rparr>, db1)
                 else case createOrder (js_round (fl (amount * 100))) of
                        Inl _ \<Rightarrow> (Inl (BadRequestException ''Failed to create deposit order''), db1)
                      | Inr oid \<Rightarrow> (Inr \<lparr>do_orderId = oid, do_amount = amount, do_isMock = False\<rparr>, db1))"

record rzp_payment =
  rp_order_id :: "string option"
  rp_currency :: "string option"
  rp_status :: string
  rp_amount :: rat

definition check_payment :: "string \<Rightarrow> rzp_payment option \<Rightarrow> rat result" where
  "check_payment orderId p =
     (case p of
        None \<Rightarrow> Inl (BadRequestException ''Payment record not found on Razorpay.'')
      | Some p \<Rightarrow>
        if str_truthy (rp_order_id p) \<and> rp_order_id p \<noteq> Some orderId
        then Inl (BadRequestException ''Razorpay payment is not associated with provided order ID.'')
        else if str_truthy (rp_currency p) \<and> to_upper (the (rp_currency p)) \<noteq> ''INR''
        then Inl (BadRequestException ''Currency mismatch'')
        else if rp_status p \<noteq> ''captured''
        then Inl (BadRequestException ''Payment is not captured on Razorpay'')
        else Inr (rp_amount p / 100))"

definition deposit_journal :: "id \<Rightarrow> string \<Rightarrow> rat \<Rightarrow> RecordJournalInput" where
  "deposit_journal userId paymentId amount =
     \<lparr>ji_journalId = None, ji_referenceType = ''WALLET_DEPOSIT'', ji_referenceId = paymentId,
      ji_narration = Some (''DriveGo Wallet recharge via Razorpay for user '' @ userId),
      ji_description = None,
      ji_lines = Some
        [\<lparr>li_accountType = GATEWAY_CLEARING, li_accountEntityId = Some ''RAZORPAY'',
          li_side = Some LedgerEntrySide.DEBIT, li_entrySide = None, li_amount = amount,
          li_narration = Some (''Gateway clearing received for wallet recharge ('' @ paymentId @ '')''),
          li_description = None, li_bookingId = None, li_paymentId = None, li_payoutId = None,
          li_metadata = None\<rparr>,
         \<lparr>li_accountType = CUSTOMER_WALLET, li_accountEntityId = Some userId,
          li_side = Some LedgerEntrySide.CREDIT, li_entrySide = None, li_amount = amount,
          li_narration = Some (''Customer wallet liability credited for recharge ('' @ paymentId @ '')''),
          li_description = None, li_bookingId = None, li_paymentId = None, li_payoutId = None,
          li_metadata = None\<rparr>],
      ji_entries = None, ji_idempotencyKey = Some (''jrn_wlt_dep_'' @ paymentId), ji_currency = None,
      ji_bookingId = None, ji_paymentId = None, ji_payoutId = None, ji_vendorId = None\<rparr>"

record deposit_env =
  de_isProduction :: bool
  de_useMock :: bool
  de_validate :: "string \<Rightarrow> string \<Rightarrow> string \<Rightarrow> bool"
  de_fetch :: "string \<Rightarrow> string + rzp_payment option"

text \<open>
  \<open>post\<close> is \<open>ledgerCore.recordJournal\<close>; its failure is logged and ignored. The result is the
  recharged amount and the wallet entry.
\<close>

definition verifyDepositPayment ::
  "deposit_env \<Rightarrow> (rat \<Rightarrow> rat) \<Rightarrow> WalletConfig option \<Rightarrow>
   (RecordJournalInput \<Rightarrow> ledger \<Rightarrow> (journal_result \<times> ledger) result) \<Rightarrow> time \<Rightarrow> id \<Rightarrow> id \<Rightarrow>
   string \<Rightarrow> string \<Rightarrow> string \<Rightarrow> wallet_db \<times> ledger \<Rightarrow>
   (rat \<times> WalletLedgerEntry) result \<times> (wallet_db \<times> ledger)" where
  "verifyDepositPayment env col svc post now newId userId orderId paymentId signature st =
     (let (db, L) = st
      in if (case svc of Some c \<Rightarrow> \<not> wc_isEnabled c \<or> \<not> wc_isDepositsEnabled c | None \<Rightarrow> False)
         then (Inl (BadRequestException ''Wallet deposits are currently disabled.''), st)
         else
           let (w, db1) = getOrCreateWallet newId userId db;
               mockSignature = (\<not> de_isProduction env \<and> de_useMock env \<and> signature = ''mock_signature'')
           in if \<not> mockSignature \<and> \<not> de_validate env orderId paymentId signature
              then (Inl (BadRequestException ''Invalid payment signature. Verification failed.''), db1, L)
              else
                let amount = (if de_useMock env then Inr 1000
                              else case de_fetch env paymentId of
                                Inl _ \<Rightarrow> Inl (BadRequestException ''Payment verification failed'')
                              | Inr p \<Rightarrow> check_payment orderId p)
                in case amount of
                     Inl e \<Rightarrow> (Inl e, db1, L)
                   | Inr depositAmount \<Rightarrow>
                     (case creditWallet col svc now (w_id w) depositAmount CUSTOMER_DEPOSIT REAL_MONEY
                             ''PAYMENT'' (Some paymentId) (''wallet_deposit_'' @ paymentId)
                             (''Added funds to DriveGo Wallet via Razorpay ('' @ paymentId @ '')'') None db1 of
                        Inl e \<Rightarrow> (Inl e, db1, L)
                      | Inr (entry, db2) \<Rightarrow>
                          (Inr (depositAmount, entry), db2,
                           post_or_skip post (deposit_journal userId paymentId depositAmount) L)))"

section \<open>Administration\<close>

record AdminAdjustWalletDto =
  aa_walletId :: id
  aa_amount :: rat
  aa_direction :: LedgerDirection
  aa_bucket :: WalletBucketType
  aa_reason :: string
  aa_clientNonce :: "string option"

definition adminAdjustWallet ::
  "(rat \<Rightarrow> rat) \<Rightarrow> WalletConfig option \<Rightarrow> time \<Rightarrow> id \<Rightarrow> AdminAdjustWalletDto \<Rightarrow> wallet_db \<Rightarrow>
   (WalletLedgerEntry \<times> wallet_db) result" where
  "adminAdjustWallet col svc now adminId dto db =
     (let key = ''wallet_admin_adj_'' @ adminId @ ''_'' @ aa_walletId dto @ ''_'' @
                or_string (aa_clientNonce dto) (show_nat (nat now))
      in bindR
           (if aa_direction dto = LedgerDirection.CREDIT
            then creditWallet col svc now (aa_walletId dto) (aa_amount dto) ADMIN_ADJUSTMENT (aa_bucket dto)
                   ''ADMIN'' (Some adminId) key (''Admin Credit: '' @ aa_reason dto) None db
            else debitWallet col svc now (aa_walletId dto) (aa_amount dto) ADMIN_ADJUSTMENT
                   ''ADMIN'' (Some adminId) key (''Admin Debit: '' @ aa_reason dto) db)
           (\<lambda>(e, db1). Inr (e, db1\<lparr>wd_audit := wd_audit db1 @
              [(adminId, ''WALLET_ADJUSTMENT_'' @
                  (if aa_direction dto = LedgerDirection.CREDIT then ''CREDIT'' else ''DEBIT''),
                ''Wallet'', aa_walletId dto)]\<rparr>)))"

section \<open>Reconciliation\<close>

definition total_direction :: "LedgerDirection \<Rightarrow> id \<Rightarrow> wallet_db \<Rightarrow> rat" where
  "total_direction d walletId db =
     sum_where (\<lambda>e. we_walletId e = walletId \<and> we_direction e = d) we_amount (wd_entries db)"

record reconciliation =
  rc_isMatched :: bool
  rc_cachedAvailable :: rat
  rc_computedAvailable :: rat
  rc_realBalance :: rat
  rc_promoBalance :: rat
  rc_status :: WalletStatus

text \<open>The report carries the status read before the wallet is frozen.\<close>

definition reconcileWallet :: "id \<Rightarrow> wallet_db \<Rightarrow> (reconciliation \<times> wallet_db) result" where
  "reconcileWallet walletId db =
     (case find_wallet walletId db of
        None \<Rightarrow> Inl (NotFoundException ''Wallet not found'')
      | Some w \<Rightarrow>
        let calculated = total_direction LedgerDirection.CREDIT walletId db - total_direction LedgerDirection.DEBIT walletId db;
            isMatched = (w_availableBalance w = calculated);
            isBucketSumMatched = (w_realBalance w + w_promoBalance w = w_availableBalance w);
            report = \<lparr>rc_isMatched = isMatched \<and> isBucketSumMatched, rc_cachedAvailable = w_availableBalance w,
                      rc_computedAvailable = calculated, rc_realBalance = w_realBalance w,
                      rc_promoBalance = w_promoBalance w, rc_status = w_status w\<rparr>
        in Inr (report,
             if \<not> isMatched \<or> \<not> isBucketSumMatched
             then update_wallet walletId (\<lambda>w. w\<lparr>w_status := FROZEN\<rparr>) db else db))"

text \<open>The administrator's view of a user's wallet; \<open>userExists\<close> is the lookup in the user table.\<close>

definition getWalletByUserIdAdmin ::
  "bool \<Rightarrow> id \<Rightarrow> id \<Rightarrow> wallet_db \<Rightarrow> (Wallet \<times> WalletLedgerEntry list \<times> reconciliation) result \<times> wallet_db" where
  "getWalletByUserIdAdmin userExists newId userId db =
     (if \<not> userExists then (Inl (NotFoundException ''User not found''), db)
      else let (w, db1) = getOrCreateWallet newId userId db;
               recent = take 50 (sort_key (\<lambda>e. - we_createdAt e)
                          (filter (\<lambda>e. we_walletId e = w_id w) (wd_entries db1)))
           in case reconcileWallet (w_id w) db1 of
                Inl e \<Rightarrow> (Inl e, db1)
              | Inr (rep, db2) \<Rightarrow> (Inr (w, recent, rep), db2))"

record wallet_page =
  wp_entries :: "WalletLedgerEntry list"
  wp_total :: nat
  wp_page :: nat
  wp_totalPages :: nat

definition getWalletTransactions ::
  "id \<Rightarrow> id \<Rightarrow> nat \<Rightarrow> nat \<Rightarrow> wallet_db \<Rightarrow> wallet_page \<times> wallet_db" where
  "getWalletTransactions newId userId page limit db =
     (let (w, db1) = getOrCreateWallet newId userId db;
          rows = filter (\<lambda>e. we_walletId e = w_id w) (wd_entries db1)
      in (\<lparr>wp_entries = take limit (drop ((page - 1) * limit) (sort_key (\<lambda>e. - we_createdAt e) rows)),
           wp_total = length rows, wp_page = page,
           wp_totalPages = (length rows + limit - 1) div limit\<rparr>, db1))"

section \<open>The invariant\<close>

text \<open>
  Of a wallet: its balances are whole cents, no bucket is negative, the buckets add up to the
  available balance, and that balance is what the wallet's ledger entries add up to. Of the
  tables: ids are keys, every entry belongs to a wallet and has a positive amount in whole cents.
\<close>

definition wallet_ok :: "wallet_db \<Rightarrow> Wallet \<Rightarrow> bool" where
  "wallet_ok db w \<longleftrightarrow>
     is_cents (w_realBalance w) \<and> is_cents (w_promoBalance w) \<and>
     0 \<le> w_realBalance w \<and> 0 \<le> w_promoBalance w \<and>
     w_availableBalance w = w_realBalance w + w_promoBalance w \<and>
     w_availableBalance w =
       total_direction LedgerDirection.CREDIT (w_id w) db - total_direction LedgerDirection.DEBIT (w_id w) db"

definition wallet_inv :: "wallet_db \<Rightarrow> bool" where
  "wallet_inv db \<longleftrightarrow>
     distinct (map w_id (wd_wallets db)) \<and> distinct (map w_userId (wd_wallets db)) \<and>
     (\<forall>w \<in> set (wd_wallets db). wallet_ok db w) \<and>
     (\<forall>e \<in> set (wd_entries db). we_walletId e \<in> w_id ` set (wd_wallets db) \<and>
        0 < we_amount e \<and> is_cents (we_amount e))"

definition entry_delta :: "WalletLedgerEntry \<Rightarrow> rat" where
  "entry_delta e = (if we_direction e = LedgerDirection.CREDIT then we_amount e else - we_amount e)"

lemma create_wallet_entry_Inr:
  "create_wallet_entry e db = Inr db1 \<longleftrightarrow>
     db1 = db\<lparr>wd_entries := wd_entries db @ [e]\<rparr> \<and>
     (\<forall>r \<in> set (wd_entries db). we_idempotencyKey r \<noteq> we_idempotencyKey e)"
  by (auto simp: create_wallet_entry_def exists_where_iff)

lemma find_walletD: "find_wallet wid db = Some w \<Longrightarrow> w \<in> set (wd_wallets db) \<and> w_id w = wid"
  unfolding find_wallet_def by (drule find_Some_D) simp

lemma total_direction_append:
  "total_direction d wid (db\<lparr>wd_entries := wd_entries db @ [e]\<rparr>) =
   total_direction d wid db + (if we_walletId e = wid \<and> we_direction e = d then we_amount e else 0)"
  by (simp add: total_direction_def)

lemma total_direction_update_wallet [simp]:
  "total_direction d wid (update_wallet v f db) = total_direction d wid db"
  by (simp add: total_direction_def update_wallet_def)

text \<open>
  The step all balance changes share: an entry for wallet \<open>w\<close> is appended and the balances of
  \<open>w\<close> move by the signed amount of the entry.
\<close>

lemma wallet_inv_step [wf_intros]:
  assumes inv: "wallet_inv db" and w: "find_wallet wid db = Some w"
    and e: "we_walletId e = wid" "0 < we_amount e" "is_cents (we_amount e)"
    and id: "\<And>v. w_id (f v) = w_id v" "\<And>v. w_userId (f v) = w_userId v"
    and new: "is_cents (w_realBalance (f w))" "is_cents (w_promoBalance (f w))"
      "0 \<le> w_realBalance (f w)" "0 \<le> w_promoBalance (f w)"
      "w_availableBalance (f w) = w_realBalance (f w) + w_promoBalance (f w)"
      "w_availableBalance (f w) = w_availableBalance w + entry_delta e"
  shows "wallet_inv (update_wallet wid f (db\<lparr>wd_entries := wd_entries db @ [e]\<rparr>))"
proof -
  note w' = find_walletD [OF w]
  let ?db = "update_wallet wid f (db\<lparr>wd_entries := wd_entries db @ [e]\<rparr>)"
  have keys: "map w_id (wd_wallets ?db) = map w_id (wd_wallets db)"
    "map w_userId (wd_wallets ?db) = map w_userId (wd_wallets db)"
    using id by (simp_all add: update_wallet_def update_where_map_key)
  have ids: "w_id ` set (wd_wallets ?db) = w_id ` set (wd_wallets db)"
    using keys(1) by (metis list.set_map)
  have ok: "wallet_ok ?db v" if "v \<in> set (wd_wallets ?db)" for v
  proof -
    from that have "v \<in> set (update_where (\<lambda>q. w_id q = w_id w) f (wd_wallets db))"
      using w' by (simp add: update_wallet_def)
    then have "v = f w \<or> (v \<in> set (wd_wallets db) \<and> w_id v \<noteq> w_id w)"
      using inv w' id(1) by (intro update_where_set_key) (auto simp: wallet_inv_def)
    then show ?thesis
    proof
      assume v: "v = f w"
      have "wallet_ok db w" using inv w' by (simp add: wallet_inv_def)
      with v new id e w' show ?thesis
        by (cases "we_direction e") (auto simp: wallet_ok_def total_direction_append entry_delta_def)
    next
      assume v: "v \<in> set (wd_wallets db) \<and> w_id v \<noteq> w_id w"
      then have "wallet_ok db v" using inv by (simp add: wallet_inv_def)
      with v e(1) w' show ?thesis by (auto simp: wallet_ok_def total_direction_append)
    qed
  qed
  have "\<forall>r \<in> set (wd_entries ?db). we_walletId r \<in> w_id ` set (wd_wallets ?db) \<and>
      0 < we_amount r \<and> is_cents (we_amount r)"
    unfolding ids using inv e w' by (auto simp: wallet_inv_def update_wallet_def intro: rev_image_eqI)
  with inv ok keys show ?thesis by (simp add: wallet_inv_def)
qed

lemma update_status_inv [wf_intros]:
  "wallet_inv db \<Longrightarrow> wallet_inv (update_wallet wid (\<lambda>w. w\<lparr>w_status := s\<rparr>) db)"
proof -
  assume inv: "wallet_inv db"
  let ?db = "update_wallet wid (\<lambda>w. w\<lparr>w_status := s\<rparr>) db"
  have keys: "map w_id (wd_wallets ?db) = map w_id (wd_wallets db)"
    "map w_userId (wd_wallets ?db) = map w_userId (wd_wallets db)"
    by (simp_all add: update_wallet_def update_where_map_key)
  have ids: "w_id ` set (wd_wallets ?db) = w_id ` set (wd_wallets db)"
    using keys(1) by (metis list.set_map)
  have "\<forall>v \<in> set (wd_wallets ?db). wallet_ok ?db v"
    using inv by (auto simp: wallet_inv_def update_wallet_def set_update_where wallet_ok_def total_direction_def)
  with inv keys ids show ?thesis by (simp add: wallet_inv_def) (simp add: update_wallet_def)
qed

lemma audit_inv [simp]: "wallet_inv (db\<lparr>wd_audit := a\<rparr>) = wallet_inv db"
  by (simp add: wallet_inv_def wallet_ok_def total_direction_def)

lemma getOrCreateWallet_inv [wf_intros]:
  assumes "wallet_inv db" "newId \<notin> w_id ` set (wd_wallets db)"
    and "getOrCreateWallet newId userId db = (w, db1)"
  shows "wallet_inv db1 \<and> w \<in> set (wd_wallets db1) \<and> w_userId w = userId"
proof (cases "List.find (\<lambda>w. w_userId w = userId) (wd_wallets db)")
  case (Some v)
  with assms show ?thesis by (auto simp: getOrCreateWallet_def dest: find_Some_D)
next
  case None
  then have db1: "db1 = db\<lparr>wd_wallets := wd_wallets db @ [new_wallet newId userId]\<rparr>"
    and w: "w = new_wallet newId userId"
    using assms(3) by (auto simp: getOrCreateWallet_def Let_def)
  have user: "userId \<notin> w_userId ` set (wd_wallets db)" using None by (auto simp: find_None_iff_all)
  have none: "total_direction d newId db = 0" for d
  proof -
    have "\<forall>e \<in> set (wd_entries db). we_walletId e \<noteq> newId" using assms(1,2) by (auto simp: wallet_inv_def)
    then show ?thesis unfolding total_direction_def by (induction "wd_entries db") (auto simp: sum_where_def filter_empty_conv)
  qed
  have "total_direction d wid db1 = total_direction d wid db" for d wid
    by (simp add: db1 total_direction_def)
  with assms(1,2) user none show ?thesis
    by (auto simp: db1 w wallet_inv_def wallet_ok_def new_wallet_def)
qed

lemma wallet_inv_find: "wallet_inv db \<Longrightarrow> w \<in> set (wd_wallets db) \<Longrightarrow> find_wallet (w_id w) db = Some w"
  unfolding find_wallet_def wallet_inv_def by (intro find_key_unique) auto

lemma wallet_inv_ok: "wallet_inv db \<Longrightarrow> find_wallet wid db = Some w \<Longrightarrow> wallet_ok db w"
  by (auto simp: wallet_inv_def dest: find_walletD)

section \<open>What each operation does\<close>

lemma creditWallet_cases [consumes 1, case_names replay posted]:
  assumes "creditWallet col svc now wid amount type bucket rt ri key descr ex db = Inr (e, db')"
  obtains (replay) "List.find (\<lambda>e. we_idempotencyKey e = key) (wd_entries db) = Some e" "db' = db"
    | (posted) w where "0 < amount" "find_wallet wid db = Some w" "w_status w = ACTIVE"
        "credit_cap_check svc type (w_availableBalance w + amount) = None"
        "we_walletId e = wid" "we_direction e = LedgerDirection.CREDIT" "we_amount e = col amount"
        "we_idempotencyKey e = key" "we_balanceAfter e = col (w_availableBalance w + amount)"
        "db' = update_wallet wid
           (\<lambda>w'. w'\<lparr>w_availableBalance := col (w_availableBalance w + amount),
                   w_realBalance := col (if bucket = PROMOTIONAL then w_realBalance w else w_realBalance w + amount),
                   w_promoBalance := col (if bucket = PROMOTIONAL then w_promoBalance w + amount else w_promoBalance w)\<rparr>)
           (db\<lparr>wd_entries := wd_entries db @ [e]\<rparr>)"
proof (cases "List.find (\<lambda>e. we_idempotencyKey e = key) (wd_entries db)")
  case (Some e0)
  with assms show thesis by (intro replay) (auto simp: creditWallet_def split: if_splits)
next
  case None
  with assms obtain w where w: "find_wallet wid db = Some w"
    by (auto simp: creditWallet_def split: if_splits option.splits)
  from assms None w show thesis
    by (intro posted [of w])
      (cases bucket; auto simp: creditWallet_def Let_def bindR_Inr_iff create_wallet_entry_Inr
          split: if_splits option.splits)+
qed

lemma debitWallet_cases [consumes 1, case_names replay posted]:
  assumes "debitWallet col svc now wid amount type rt ri key descr db = Inr (e, db')"
  obtains (replay) "List.find (\<lambda>e. we_idempotencyKey e = key) (wd_entries db) = Some e" "db' = db"
    | (posted) w newReal newPromo bucket where "0 < amount" "find_wallet wid db = Some w" "w_status w = ACTIVE"
        "amount \<le> w_availableBalance w"
        "consume (w_realBalance w) (w_promoBalance w) amount = (newReal, newPromo, bucket)"
        "we_walletId e = wid" "we_direction e = LedgerDirection.DEBIT" "we_amount e = col amount"
        "we_idempotencyKey e = key" "we_type e = type"
        "db' = update_wallet wid
           (\<lambda>w'. w'\<lparr>w_availableBalance := col (w_availableBalance w - amount),
                   w_realBalance := col newReal, w_promoBalance := col newPromo\<rparr>)
           (db\<lparr>wd_entries := wd_entries db @ [e]\<rparr>)"
proof (cases "List.find (\<lambda>e. we_idempotencyKey e = key) (wd_entries db)")
  case (Some e0)
  with assms show thesis by (intro replay) (auto simp: debitWallet_def split: if_splits)
next
  case None
  with assms obtain w where w: "find_wallet wid db = Some w"
    by (auto simp: debitWallet_def split: if_splits option.splits)
  obtain newReal newPromo bucket where
    c: "consume (w_realBalance w) (w_promoBalance w) amount = (newReal, newPromo, bucket)"
    using prod_cases3 by blast
  from assms None w c show thesis
    by (intro posted [of w newReal newPromo bucket])
      (auto simp: debitWallet_def Let_def bindR_Inr_iff create_wallet_entry_Inr
          split: if_splits option.splits)
qed

lemma consume_spec:
  assumes "consume r p a = (r', p', b)" "0 < a" "a \<le> r + p" "0 \<le> r" "0 \<le> p"
  shows "r' + p' = r + p - a \<and> 0 \<le> r' \<and> 0 \<le> p' \<and> p' = max 0 (p - a)"
  using assms by (auto simp: consume_def split: if_splits)

lemma consume_cents:
  "consume r p a = (r', p', b) \<Longrightarrow> is_cents r \<Longrightarrow> is_cents p \<Longrightarrow> is_cents a \<Longrightarrow> is_cents r' \<and> is_cents p'"
  by (auto simp: consume_def split: if_splits)

lemma creditWallet_inv [wf_intros]:
  assumes "money_column col" "wallet_inv db" "is_cents amount"
    and "creditWallet col svc now wid amount type bucket rt ri key descr ex db = Inr (e, db')"
  shows "wallet_inv db'"
  using assms(4)
proof (cases rule: creditWallet_cases)
  case replay
  with assms(2) show ?thesis by simp
next
  case (posted w)
  have ok: "wallet_ok db w" using wallet_inv_ok [OF assms(2) posted(2)] .
  then have c: "is_cents (w_availableBalance w)" by (auto simp: wallet_ok_def)
  note ex = money_column.col_exact [OF assms(1)]
  show ?thesis unfolding posted(10)
    using ok c posted assms(3)
    by (intro wallet_inv_step [OF assms(2) posted(2)])
      (auto simp: ex wallet_ok_def entry_delta_def is_cents_add)
qed

lemma debitWallet_inv [wf_intros]:
  assumes "money_column col" "wallet_inv db" "is_cents amount"
    and "debitWallet col svc now wid amount type rt ri key descr db = Inr (e, db')"
  shows "wallet_inv db'"
  using assms(4)
proof (cases rule: debitWallet_cases)
  case replay
  with assms(2) show ?thesis by simp
next
  case (posted w newReal newPromo bucket)
  have ok: "wallet_ok db w" using wallet_inv_ok [OF assms(2) posted(2)] .
  then have c: "is_cents (w_availableBalance w)" "is_cents newReal" "is_cents newPromo"
    using consume_cents [OF posted(5)] assms(3) by (auto simp: wallet_ok_def)
  have s: "newReal + newPromo = w_realBalance w + w_promoBalance w - amount" "0 \<le> newReal" "0 \<le> newPromo"
    using consume_spec [OF posted(5)] posted ok by (auto simp: wallet_ok_def)
  note ex = money_column.col_exact [OF assms(1)]
  show ?thesis unfolding posted(11)
    using ok c s posted assms(3)
    by (intro wallet_inv_step [OF assms(2) posted(2)])
      (auto simp: ex wallet_ok_def entry_delta_def is_cents_diff)
qed

lemma cleanExpired_cases [consumes 1, case_names idle posted]:
  assumes "cleanExpiredPromotionalCredits col now wid db = Inr (a, db')"
  obtains (idle) "a = 0" "db' = db"
    | (posted) w e where "find_wallet wid db = Some w" "0 < a" "a \<le> w_promoBalance w"
        "a = min (sum_list (map we_amount (filter (is_expired_promo now wid) (wd_entries db))) -
                  sum_where (\<lambda>e. we_walletId e = wid \<and> we_type e = EXPIRATION) we_amount (wd_entries db))
                 (w_promoBalance w)"
        "we_walletId e = wid" "we_direction e = LedgerDirection.DEBIT" "we_amount e = col a"
        "db' = update_wallet wid
           (\<lambda>w'. w'\<lparr>w_availableBalance := col (w_availableBalance w - a),
                   w_promoBalance := col (w_promoBalance w - a)\<rparr>)
           (db\<lparr>wd_entries := wd_entries db @ [e]\<rparr>)"
proof -
  let ?ex = "filter (is_expired_promo now wid) (wd_entries db)"
  let ?al = "sum_where (\<lambda>e. we_walletId e = wid \<and> we_type e = EXPIRATION) we_amount (wd_entries db)"
  show ?thesis
  proof (cases "?ex = [] \<or> find_wallet wid db = None")
    case True
    with assms show ?thesis
      by (intro idle) (auto simp: expiry_defs Let_def split: option.splits if_splits)
  next
    case False
    then obtain w where w: "find_wallet wid db = Some w" and ne: "?ex \<noteq> []" by auto
    define act where "act = min (sum_list (map we_amount ?ex) - ?al) (w_promoBalance w)"
    show ?thesis
    proof (cases "w_promoBalance w \<le> 0 \<or> act \<le> 0")
      case True
      with assms w ne show ?thesis
        unfolding act_def
        by (intro idle) (auto simp: expiry_defs Let_def split: if_splits)
    next
      case False
      with assms w ne show ?thesis
        unfolding act_def
        by (intro posted [of w])
          (auto simp: expiry_defs Let_def bindR_Inr_iff create_wallet_entry_Inr
             split: if_splits)
    qed
  qed
qed

lemma cleanExpired_inv [wf_intros]:
  assumes "money_column col" "wallet_inv db"
    and "cleanExpiredPromotionalCredits col now wid db = Inr (a, db')"
  shows "wallet_inv db'"
  using assms(3)
proof (cases rule: cleanExpired_cases)
  case idle
  with assms(2) show ?thesis by simp
next
  case (posted w e)
  have ok: "wallet_ok db w" using wallet_inv_ok [OF assms(2) posted(1)] .
  have all: "is_cents (we_amount r)" if "r \<in> set (wd_entries db)" for r
    using assms(2) that by (simp add: wallet_inv_def)
  have "is_cents (sum_list (map we_amount (filter (is_expired_promo now wid) (wd_entries db))))"
    using all by (intro is_cents_sum_list) auto
  moreover have "is_cents (sum_where (\<lambda>e. we_walletId e = wid \<and> we_type e = EXPIRATION) we_amount (wd_entries db))"
    using all by (intro is_cents_sum_where) auto
  ultimately have a: "is_cents a" using ok unfolding posted(4) by (auto simp: wallet_ok_def)
  note ex = money_column.col_exact [OF assms(1)]
  have c: "is_cents (w_promoBalance w - a)" "is_cents (w_realBalance w)"
    "is_cents (w_availableBalance w - a)"
    using ok a by (auto simp: wallet_ok_def)
  show ?thesis unfolding posted(8)
    using ok a c posted
    by (intro wallet_inv_step [OF assms(2) posted(1)])
      (auto simp: ex wallet_ok_def entry_delta_def)
qed

lemma adminAdjustWallet_inv [wf_intros]:
  assumes "money_column col" "wallet_inv db" "is_cents (aa_amount dto)"
    and "adminAdjustWallet col svc now admin dto db = Inr (e, db')"
  shows "wallet_inv db'"
  using assms(4) creditWallet_inv [OF assms(1-3)] debitWallet_inv [OF assms(1-3)]
  by (auto simp: adminAdjustWallet_def Let_def bindR_Inr_iff split: if_splits)

lemma usable_inv [wf_intros]:
  assumes "money_column col" "wallet_inv db" "newId \<notin> w_id ` set (wd_wallets db)"
    and "validateAndCalculateUsableWallet prec col svc now sod newId userId b q db = (r, db')"
  shows "wallet_inv db'"
proof -
  obtain w db1 where g: "getOrCreateWallet newId userId db = (w, db1)" by fastforce
  then have "wallet_inv db1" using getOrCreateWallet_inv [OF assms(2,3)] by blast
  then show ?thesis
    using assms(4) g cleanExpired_inv [OF assms(1)]
    by (auto simp: validateAndCalculateUsableWallet_def Let_def split: sum.splits)
qed

lemma createDepositOrder_inv [wf_intros]:
  assumes "wallet_inv db" "newId \<notin> w_id ` set (wd_wallets db)"
    and "createDepositOrder svc mock create now newId userId a db = (r, db')"
  shows "wallet_inv db'"
proof -
  obtain w db1 where g: "getOrCreateWallet newId userId db = (w, db1)" by fastforce
  then have "wallet_inv db1" using getOrCreateWallet_inv [OF assms(1,2)] by blast
  then show ?thesis
    using assms(1,3) g
    by (auto simp: createDepositOrder_def Let_def split: sum.splits if_splits)
qed

lemma reconcileWallet_inv [wf_intros]:
  "wallet_inv db \<Longrightarrow> reconcileWallet wid db = Inr (rep, db') \<Longrightarrow> wallet_inv db'"
  by (auto simp: reconcileWallet_def Let_def split: option.splits if_splits intro: update_status_inv)

text \<open>
  The gateway's amounts are integers, in paise (documented: an amount is an integer of the smallest
  currency unit), and below \<open>10 ^ 16\<close>.
\<close>

definition integer_fetch :: "deposit_env \<Rightarrow> bool" where
  "integer_fetch env \<longleftrightarrow>
     (\<forall>pid p. de_fetch env pid = Inr (Some p) \<longrightarrow> (\<exists>n::int. rp_amount p = of_int n \<and> \<bar>n\<bar> < 10 ^ 16))"

lemma deposit_amount_cents:
  assumes "integer_fetch env" "de_fetch env pid = Inr p" "check_payment oid p = Inr a"
  shows "is_cents a \<and> a < 10 ^ 14"
proof -
  obtain q where q: "p = Some q" using assms(3) by (cases p) (auto simp: check_payment_def)
  with assms(1,2) obtain n :: int where n: "rp_amount q = of_int n" "\<bar>n\<bar> < 10 ^ 16"
    by (auto simp: integer_fetch_def)
  have "of_int n < (of_int (10 ^ 16) :: rat)" using n(2) by (intro iffD2 [OF of_int_less_iff]) arith
  then have b: "of_int n < (10 ^ 16 :: rat)" by (simp only: of_int_power of_int_numeral)
  have a: "a = of_int n / 100" unfolding n(1) [symmetric]
    using assms(3) q by (cases "rp_status q = ''captured''") (auto simp: check_payment_def split: if_splits)
  have "is_cents a" unfolding a by (rule is_cents_div)
  moreover have "a < 10 ^ 14" using b unfolding a by simp
  ultimately show ?thesis by blast
qed

lemma verifyDepositPayment_inv [wf_intros]:
  assumes "money_column col" "wallet_inv db" "newId \<notin> w_id ` set (wd_wallets db)" "integer_fetch env"
    and "verifyDepositPayment env col svc post now newId userId oid pid sig (db, L) = (r, db', L')"
  shows "wallet_inv db'"
proof -
  obtain w db1 where g: "getOrCreateWallet newId userId db = (w, db1)" by fastforce
  then have inv1: "wallet_inv db1" using getOrCreateWallet_inv [OF assms(2,3)] by blast
  have c: "is_cents a"
    if "(if de_useMock env then Inr 1000
         else case de_fetch env pid of Inl _ \<Rightarrow> Inl (BadRequestException ''Payment verification failed'')
              | Inr p \<Rightarrow> check_payment oid p) = Inr a" for a
    using that deposit_amount_cents [OF assms(4)] is_cents_of_int [of 1000]
    by (auto split: if_splits sum.splits)
  show ?thesis
    using assms(5) g inv1 assms(2) creditWallet_inv [OF assms(1) inv1 c]
    by (auto simp: verifyDepositPayment_def Let_def split: sum.splits if_splits)
qed

end
