(* ===== verification/WalletSteps.thy ===== *)
theory WalletSteps
  imports Wallet
begin

text \<open>
  The wallet as a transition system: every successful operation of the service, from the empty
  tables, with its clock, ids and configuration chosen by the environment. Amounts of credits,
  debits and adjustments are whole cents; the gateway's payments are integers of paise. The theory
  then states the properties of the wallet.
\<close>

lemma cents_deposit_journal:
  "is_cents a \<Longrightarrow> a < 10 ^ 14 \<Longrightarrow> cents_journal (deposit_journal userId pid a)"
  by (simp add: cents_journal_def deposit_journal_def raw_lines_def)

lemma verifyDepositPayment_ledger:
  assumes "journal_store post" "balanced L" "integer_fetch env"
    and "verifyDepositPayment env col svc post now newId userId oid pid sig (db, L) = (r, db', L')"
  shows "balanced L'"
proof -
  obtain w db1 where g: "getOrCreateWallet newId userId db = (w, db1)" by fastforce
  have c: "cents_journal (deposit_journal userId pid a)"
    if "(if de_useMock env then Inr 1000
         else case de_fetch env pid of Inl _ \<Rightarrow> Inl (BadRequestException ''Payment verification failed'')
              | Inr p \<Rightarrow> check_payment oid p) = Inr a" for a
    using that deposit_amount_cents [OF assms(3)] is_cents_of_int [of 1000]
    by (intro cents_deposit_journal) (auto split: if_splits sum.splits)
  show ?thesis
    using assms(4) g assms(2) journal_store.post_or_skip_balanced [OF assms(1) c assms(2)]
    by (auto simp: verifyDepositPayment_def Let_def split: sum.splits if_splits)
qed

type_synonym wstate = "wallet_db \<times> ledger"

definition wallet_init :: wstate where
  "wallet_init = (\<lparr>wd_wallets = [], wd_entries = [], wd_audit = []\<rparr>, [])"

inductive wallet_step :: "wstate \<Rightarrow> wstate \<Rightarrow> bool" where
  get_or_create: "newId \<notin> w_id ` set (wd_wallets db) \<Longrightarrow>
    getOrCreateWallet newId userId db = (w, db') \<Longrightarrow> wallet_step (db, L) (db', L)"
| credit: "is_cents amount \<Longrightarrow>
    creditWallet round2 svc now wid amount type bucket rt ri key descr ex db = Inr (e, db') \<Longrightarrow>
    wallet_step (db, L) (db', L)"
| debit: "is_cents amount \<Longrightarrow>
    debitWallet round2 svc now wid amount type rt ri key descr db = Inr (e, db') \<Longrightarrow>
    wallet_step (db, L) (db', L)"
| usable: "newId \<notin> w_id ` set (wd_wallets db) \<Longrightarrow>
    validateAndCalculateUsableWallet dec20 round2 svc now sod newId userId b q db = (r, db') \<Longrightarrow>
    wallet_step (db, L) (db', L)"
| order: "newId \<notin> w_id ` set (wd_wallets db) \<Longrightarrow>
    createDepositOrder svc mock create now newId userId a db = (r, db') \<Longrightarrow>
    wallet_step (db, L) (db', L)"
| verify: "newId \<notin> w_id ` set (wd_wallets db) \<Longrightarrow> integer_fetch env \<Longrightarrow>
    verifyDepositPayment env round2 svc (recordJournal dec20 round2 now jid) now newId userId oid pid sig (db, L)
      = (r, db', L') \<Longrightarrow>
    wallet_step (db, L) (db', L')"
| adjust: "is_cents (aa_amount dto) \<Longrightarrow>
    adminAdjustWallet round2 svc now admin dto db = Inr (e, db') \<Longrightarrow> wallet_step (db, L) (db', L)"
| reconcile: "reconcileWallet wid db = Inr (rep, db') \<Longrightarrow> wallet_step (db, L) (db', L)"

inductive wallet_reachable :: "wstate \<Rightarrow> bool" where
  start: "wallet_reachable wallet_init"
| step: "wallet_reachable s \<Longrightarrow> wallet_step s t \<Longrightarrow> wallet_reachable t"

lemma wallet_step_inv:
  assumes "wallet_step s t" "wallet_inv (fst s)" "balanced (snd s)"
  shows "wallet_inv (fst t) \<and> balanced (snd t)"
  using assms(1)
proof (cases rule: wallet_step.cases)
  case (get_or_create newId db userId w db' L)
  have "wallet_inv db" "balanced L" using assms get_or_create(1) by simp_all
  with getOrCreateWallet_inv [OF _ get_or_create(3,4)] show ?thesis unfolding get_or_create(2) by simp
next
  case (credit amount svc now wid type bucket rt ri key descr ex db e db' L)
  have "wallet_inv db" "balanced L" using assms credit(1) by simp_all
  with creditWallet_inv [OF numeric2.money_column_axioms _ credit(3,4)] show ?thesis
    unfolding credit(2) by simp
next
  case (debit amount svc now wid type rt ri key descr db e db' L)
  have "wallet_inv db" "balanced L" using assms debit(1) by simp_all
  with debitWallet_inv [OF numeric2.money_column_axioms _ debit(3,4)] show ?thesis
    unfolding debit(2) by simp
next
  case (usable newId db svc now sod userId b q r db' L)
  have "wallet_inv db" "balanced L" using assms usable(1) by simp_all
  with usable_inv [OF numeric2.money_column_axioms _ usable(3,4)] show ?thesis
    unfolding usable(2) by simp
next
  case (order newId db svc mock create now userId a r db' L)
  have "wallet_inv db" "balanced L" using assms order(1) by simp_all
  with createDepositOrder_inv [OF _ order(3,4)] show ?thesis unfolding order(2) by simp
next
  case (verify newId db env svc now jid userId oid pid sig L r db' L')
  have "wallet_inv db" "balanced L" using assms verify(1) by simp_all
  with verifyDepositPayment_inv [OF numeric2.money_column_axioms _ verify(3-5)]
    verifyDepositPayment_ledger [OF ledger.journal_store_axioms _ verify(4,5)]
  show ?thesis unfolding verify(2) by simp
next
  case (adjust dto svc now admin db e db' L)
  have "wallet_inv db" "balanced L" using assms adjust(1) by simp_all
  with adminAdjustWallet_inv [OF numeric2.money_column_axioms _ adjust(3,4)] show ?thesis
    unfolding adjust(2) by simp
next
  case (reconcile wid db rep db' L)
  have "wallet_inv db" "balanced L" using assms reconcile(1) by simp_all
  with reconcileWallet_inv [OF _ reconcile(3)] show ?thesis unfolding reconcile(2) by simp
qed

lemma wallet_reachable_inv: "wallet_reachable s \<Longrightarrow> wallet_inv (fst s) \<and> balanced (snd s)"
proof (induction rule: wallet_reachable.induct)
  case start
  show ?case by (simp add: wallet_init_def wallet_inv_def)
next
  case (step s t)
  then show ?case using wallet_step_inv by blast
qed

section \<open>Properties of the wallet\<close>

text \<open>
  C4: in every state that the wallet service reaches from the empty tables by requests handled one after
  another, with amounts in whole cents, every wallet has non-negative buckets that add up to its
  available balance, its available balance is what its ledger entries add up to, so \<open>reconcileWallet\<close>
  reports a match and freezes nothing, and every journal the recharges posted to the platform ledger
  nets to zero. (Amounts below a cent and requests that meet a cleanup in progress are shown below to
  break it.)
\<close>

theorem wallet_always_reconciles:
  assumes "wallet_reachable (db, L)" and "find_wallet wid db = Some w"
  shows "0 \<le> w_realBalance w \<and> 0 \<le> w_promoBalance w \<and>
         w_availableBalance w = w_realBalance w + w_promoBalance w \<and>
         (\<exists>rep. reconcileWallet wid db = Inr (rep, db) \<and> rc_isMatched rep) \<and>
         unbalancedJournals (verifyLedgerIntegrity L) = []"
proof -
  have inv: "wallet_inv db" "balanced L" using wallet_reachable_inv [OF assms(1)] by simp_all
  have "wallet_ok db w" by (rule wallet_inv_ok [OF inv(1) assms(2)])
  moreover have "w_id w = wid" using find_walletD [OF assms(2)] by simp
  ultimately show ?thesis using assms(2) inv(2)
    by (auto simp: wallet_ok_def reconcileWallet_def Let_def balanced_iff_audit)
qed

definition sample_credit :: "wallet_db \<Rightarrow> (WalletLedgerEntry \<times> wallet_db) result" where
  "sample_credit db = creditWallet round2 None 10 ''w1'' 250 REFERRAL_REWARD PROMOTIONAL
     ''REFERRAL'' None ''ref_1'' ''Referral reward'' (Some 100) db"

definition sample_db :: wallet_db where
  "sample_db = snd (getOrCreateWallet ''w1'' ''u1'' (fst wallet_init))"

lemma sample_db_simps [simp]:
  "wd_wallets sample_db = [new_wallet ''w1'' ''u1'']" "wd_entries sample_db = []" "wd_audit sample_db = []"
  by (simp_all add: sample_db_def getOrCreateWallet_def wallet_init_def Let_def)

lemma round2_numeral: "round2 (numeral n) = numeral n"
  using round2_exact [of "numeral n"] is_cents_of_int [of "numeral n"] by simp

lemma is_cents_numeral: "is_cents (numeral n)"
  using is_cents_of_int [of "numeral n"] by simp

lemma sample_credit_result:
  "\<exists>e db. sample_credit sample_db = Inr (e, db) \<and> we_idempotencyKey e = ''ref_1'' \<and> wd_entries db = [e] \<and>
     wd_wallets db = [(new_wallet ''w1'' ''u1'')\<lparr>w_availableBalance := 250, w_promoBalance := 250\<rparr>]"
  by (simp add: sample_credit_def creditWallet_def find_wallet_def new_wallet_def credit_cap_check_def
      MAX_WALLET_BALANCE_CAP_def Let_def create_wallet_entry_def exists_where_def update_wallet_def
      round2_numeral)

lemma sample_reachable:
  "\<exists>e db. sample_credit sample_db = Inr (e, db) \<and> wallet_reachable (db, []) \<and>
     find_wallet ''w1'' db = Some ((new_wallet ''w1'' ''u1'')\<lparr>w_availableBalance := 250, w_promoBalance := 250\<rparr>)"
proof -
  have g: "getOrCreateWallet ''w1'' ''u1'' (fst wallet_init) = (new_wallet ''w1'' ''u1'', sample_db)"
    by (simp add: getOrCreateWallet_def wallet_init_def sample_db_def Let_def)
  have "wallet_step wallet_init (sample_db, [])"
    unfolding wallet_init_def
    by (rule wallet_step.get_or_create) (use g in \<open>simp_all add: wallet_init_def\<close>)
  then have r: "wallet_reachable (sample_db, [])"
    by (rule wallet_reachable.step [OF wallet_reachable.start])
  obtain e db where c: "sample_credit sample_db = Inr (e, db)"
    and w: "wd_wallets db = [(new_wallet ''w1'' ''u1'')\<lparr>w_availableBalance := 250, w_promoBalance := 250\<rparr>]"
    using sample_credit_result by blast
  have "wallet_step (sample_db, []) (db, [])"
    by (rule wallet_step.credit [OF is_cents_numeral c [unfolded sample_credit_def]])
  with r have "wallet_reachable (db, [])" by (rule wallet_reachable.step)
  with c w show ?thesis by (auto simp: find_wallet_def new_wallet_def)
qed

lemma wallet_always_reconciles_witness:
  "\<exists>db w. wallet_reachable (db, []) \<and> find_wallet ''w1'' db = Some w \<and> w_availableBalance w = 250 \<and>
     (\<exists>rep. reconcileWallet ''w1'' db = Inr (rep, db) \<and> rc_isMatched rep)"
proof -
  obtain e db where r: "wallet_reachable (db, [])"
    and f: "find_wallet ''w1'' db = Some ((new_wallet ''w1'' ''u1'')\<lparr>w_availableBalance := 250, w_promoBalance := 250\<rparr>)"
    using sample_reachable by blast
  from wallet_always_reconciles [OF r f] r f show ?thesis by auto
qed

lemma creditWallet_found:
  assumes "creditWallet col svc now wid amount type bucket rt ri key descr ex db = Inr (e, db')"
  shows "0 < amount \<and> List.find (\<lambda>e. we_idempotencyKey e = key) (wd_entries db') = Some e"
proof -
  have a: "0 < amount" using assms by (auto simp: creditWallet_def split: if_splits)
  show ?thesis
  proof (cases "List.find (\<lambda>e. we_idempotencyKey e = key) (wd_entries db)")
    case (Some e0)
    with a assms show ?thesis by (auto simp: creditWallet_def)
  next
    case None
    from assms show ?thesis
    proof (cases rule: creditWallet_cases)
      case replay
      with a show ?thesis by simp
    next
      case (posted w)
      with a None show ?thesis by (simp add: update_wallet_def find_append)
    qed
  qed
qed

lemma getOrCreateWallet_extends:
  "getOrCreateWallet newId userId db = (w, db1) \<Longrightarrow>
   wd_entries db1 = wd_entries db \<and>
   (\<exists>ws. wd_wallets db1 = wd_wallets db @ ws \<and> (\<forall>v \<in> set ws. w_availableBalance v = 0))"
  by (auto simp: getOrCreateWallet_def Let_def new_wallet_def split: option.splits)

lemma creditWallet_replay:
  "List.find (\<lambda>e. we_idempotencyKey e = key) (wd_entries db) = Some e \<Longrightarrow>
   creditWallet col svc now wid amount type bucket rt ri key descr ex db =
     (if amount \<le> 0 then Inl (BadRequestException ''Credit amount must be strictly greater than zero.'')
      else Inr (e, db))"
  by (simp add: creditWallet_def)

lemma verifyDepositPayment_Inr:
  assumes "verifyDepositPayment env col svc post now newId userId oid pid sig (db, L) = (Inr (a, e), db', L')"
  shows "List.find (\<lambda>e. we_idempotencyKey e = ''wallet_deposit_'' @ pid) (wd_entries db') = Some e"
proof -
  obtain w db1 where g: "getOrCreateWallet newId userId db = (w, db1)" by fastforce
  show ?thesis using assms g
    by (auto simp: verifyDepositPayment_def Let_def dest!: creditWallet_found split: if_splits sum.splits)
qed

text \<open>
  A gateway payment is credited to a wallet at most once. After a recharge with a payment id
  succeeded, a second verification of that payment id, by any user, with any order, signature and
  gateway answer, adds no wallet entry and changes no balance (at most the empty wallet of a new
  user is created), and if it succeeds it returns the first entry.
\<close>

theorem deposit_credited_once:
  assumes "verifyDepositPayment env col svc post now newId userId oid pid sig (db, L) = (Inr (a, e), db', L')"
    and "verifyDepositPayment env2 col svc2 post2 now2 newId2 userId2 oid2 pid sig2 (db', L') = (r, db'', L'')"
  shows "wd_entries db'' = wd_entries db' \<and>
         (\<exists>ws. wd_wallets db'' = wd_wallets db' @ ws \<and> (\<forall>v \<in> set ws. w_availableBalance v = 0)) \<and>
         (\<forall>a2 e2. r = Inr (a2, e2) \<longrightarrow> e2 = e)"
proof -
  obtain w db1 where g: "getOrCreateWallet newId2 userId2 db' = (w, db1)" by fastforce
  note x = getOrCreateWallet_extends [OF g]
  have f: "List.find (\<lambda>e. we_idempotencyKey e = ''wallet_deposit_'' @ pid) (wd_entries db1) = Some e"
    using verifyDepositPayment_Inr [OF assms(1)] x by simp
  show ?thesis
    using assms(2) g x creditWallet_replay [OF f]
    by (auto simp: verifyDepositPayment_def Let_def split: if_splits sum.splits)
qed

definition mock_env :: deposit_env where
  "mock_env = \<lparr>de_isProduction = False, de_useMock = True, de_validate = (\<lambda>_ _ _. False),
     de_fetch = (\<lambda>_. Inl ''unreachable'')\<rparr>"

definition sample_verify :: "id \<Rightarrow> id \<Rightarrow> wstate \<Rightarrow> (rat \<times> WalletLedgerEntry) result \<times> wstate" where
  "sample_verify newId userId = verifyDepositPayment mock_env round2 None (recordJournal dec20 round2 10 ''j1'') 10
     newId userId ''order_1'' ''pay_1'' ''mock_signature''"

lemma sample_verify_result:
  "\<exists>e db L. sample_verify ''w9'' ''u1'' (sample_db, []) = (Inr (1000, e), db, L) \<and>
     wd_wallets db = [(new_wallet ''w1'' ''u1'')\<lparr>w_availableBalance := 1000, w_realBalance := 1000\<rparr>]"
  by (simp add: sample_verify_def verifyDepositPayment_def mock_env_def getOrCreateWallet_def new_wallet_def
      creditWallet_def find_wallet_def credit_cap_check_def MAX_WALLET_BALANCE_CAP_def Let_def
      create_wallet_entry_def exists_where_def update_wallet_def round2_numeral)

lemma deposit_credited_once_witness:
  "\<exists>e db L r db2 L2. sample_verify ''w9'' ''u1'' (sample_db, []) = (Inr (1000, e), db, L) \<and>
     sample_verify ''w9'' ''u2'' (db, L) = (r, db2, L2) \<and> wd_entries db2 = wd_entries db"
proof -
  obtain e db L where a: "sample_verify ''w9'' ''u1'' (sample_db, []) = (Inr (1000, e), db, L)"
    using sample_verify_result by blast
  obtain r db2 L2 where b: "sample_verify ''w9'' ''u2'' (db, L) = (r, db2, L2)" using prod_cases3 by blast
  show ?thesis
    using deposit_credited_once [OF a [unfolded sample_verify_def] b [unfolded sample_verify_def]] a b by blast
qed

lemma debit_ready:
  assumes "wallet_inv db" "find_wallet wid db = Some w"
    and "List.find (\<lambda>e. we_idempotencyKey e = key) (wd_entries db) = None"
  shows "is_cents (w_realBalance w) \<and> is_cents (w_promoBalance w) \<and> 0 \<le> w_realBalance w \<and>
         0 \<le> w_promoBalance w \<and> w_availableBalance w = w_realBalance w + w_promoBalance w \<and>
         \<not> exists_where (\<lambda>r. we_idempotencyKey r = key) (wd_entries db)"
  using wallet_inv_ok [OF assms(1,2)] assms(3)
  by (auto simp: wallet_ok_def exists_where_iff find_None_iff_all)

lemma debit_effect:
  assumes "wallet_inv db" "find_wallet wid db = Some w" "is_cents amount"
    and "List.find (\<lambda>e. we_idempotencyKey e = key) (wd_entries db) = None"
    and "0 < amount" "amount \<le> w_availableBalance w"
    and "consume (w_realBalance w) (w_promoBalance w) amount = (r, p, b)"
    and "db' = update_wallet wid
           (\<lambda>w'. w'\<lparr>w_availableBalance := round2 (w_availableBalance w - amount),
                   w_realBalance := round2 r, w_promoBalance := round2 p\<rparr>)
           (db\<lparr>wd_entries := wd_entries db @ [e]\<rparr>)"
  shows "\<exists>w'. find_wallet wid db' = Some w' \<and>
     w_promoBalance w' = w_promoBalance w - min (w_promoBalance w) amount \<and>
     w_realBalance w' = w_realBalance w - (amount - min (w_promoBalance w) amount) \<and>
     w_availableBalance w' = w_availableBalance w - amount \<and>
     0 \<le> w_realBalance w' \<and> 0 \<le> w_promoBalance w'"
proof -
  note rd = debit_ready [OF assms(1,2,4)]
  have s: "r + p = w_realBalance w + w_promoBalance w - amount \<and> 0 \<le> r \<and> 0 \<le> p \<and> p = max 0 (w_promoBalance w - amount)"
    using consume_spec [OF assms(7,5)] assms(6) rd by simp
  have c: "is_cents r" "is_cents p" "is_cents (w_availableBalance w - amount)"
    using consume_cents [OF assms(7) _ _ assms(3)] rd assms(3) by auto
  have "find_wallet wid db' = Some (w\<lparr>w_availableBalance := w_availableBalance w - amount,
       w_realBalance := r, w_promoBalance := p\<rparr>)"
    using assms(2) unfolding assms(8) find_wallet_def update_wallet_def
    by (simp add: find_update_where_key round2_exact [OF c(1)] round2_exact [OF c(2)] round2_exact [OF c(3)])
  moreover have "p = w_promoBalance w - min (w_promoBalance w) amount" using s by (simp add: min_def max_def)
  ultimately show ?thesis using s rd by auto
qed

text \<open>
  The debit of a fresh key. On well-formed tables a debit of \<open>amount\<close> whole cents whose key is
  new succeeds exactly when the wallet is active, operations are enabled (an administrator's
  adjustment is exempt) and the available balance covers the amount; it then takes the promotional
  money first, \<open>min promo amount\<close>, and the rest from the real bucket, and no bucket goes below zero.
\<close>

theorem debitWallet_spec:
  assumes "wallet_inv db" and "find_wallet wid db = Some w" and "0 < amount" and "is_cents amount"
    and "List.find (\<lambda>e. we_idempotencyKey e = key) (wd_entries db) = None"
  shows "(case debitWallet round2 svc now wid amount type rt ri key descr db of
            Inl _ \<Rightarrow> w_status w \<noteq> ACTIVE \<or> w_availableBalance w < amount \<or>
                     (type \<noteq> ADMIN_ADJUSTMENT \<and> (case svc of None \<Rightarrow> False | Some c \<Rightarrow> \<not> wc_isEnabled c))
          | Inr (e, db') \<Rightarrow>
              w_status w = ACTIVE \<and> amount \<le> w_availableBalance w \<and>
              (type = ADMIN_ADJUSTMENT \<or> (case svc of None \<Rightarrow> True | Some c \<Rightarrow> wc_isEnabled c)) \<and>
              (\<exists>w'. find_wallet wid db' = Some w' \<and>
                 w_promoBalance w' = w_promoBalance w - min (w_promoBalance w) amount \<and>
                 w_realBalance w' = w_realBalance w - (amount - min (w_promoBalance w) amount) \<and>
                 w_availableBalance w' = w_availableBalance w - amount \<and>
                 0 \<le> w_realBalance w' \<and> 0 \<le> w_promoBalance w'))"
proof (cases "debitWallet round2 svc now wid amount type rt ri key descr db")
  case (Inl x)
  with assms debit_ready [OF assms(1,2,5)] show ?thesis
    by (auto simp: debitWallet_def Let_def create_wallet_entry_def bindR_def split: option.splits prod.splits if_splits)
next
  case (Inr p)
  then obtain e db' where d: "debitWallet round2 svc now wid amount type rt ri key descr db = Inr (e, db')"
    by (cases p) simp
  have guard: "type = ADMIN_ADJUSTMENT \<or> (case svc of None \<Rightarrow> True | Some c \<Rightarrow> wc_isEnabled c)"
    using d assms by (auto simp: debitWallet_def split: if_splits option.splits)
  from d show ?thesis
  proof (cases rule: debitWallet_cases)
    case replay
    with assms(5) show ?thesis by simp
  next
    case (posted v r q b)
    have v: "v = w" using posted(2) assms(2) by simp
    have w: "w_status w = ACTIVE" "amount \<le> w_availableBalance w" using posted(3,4) v by simp_all
    have "\<exists>w'. find_wallet wid db' = Some w' \<and>
       w_promoBalance w' = w_promoBalance w - min (w_promoBalance w) amount \<and>
       w_realBalance w' = w_realBalance w - (amount - min (w_promoBalance w) amount) \<and>
       w_availableBalance w' = w_availableBalance w - amount \<and>
       0 \<le> w_realBalance w' \<and> 0 \<le> w_promoBalance w'"
      by (rule debit_effect [OF assms(1,2,4,5) posted(1) w(2) posted(5) [unfolded v] posted(11) [unfolded v]])
    with d w guard show ?thesis by simp
  qed
qed

definition sample_debit :: "rat \<Rightarrow> wallet_db \<Rightarrow> (WalletLedgerEntry \<times> wallet_db) result" where
  "sample_debit amount db = debitWallet round2 None 20 ''w1'' amount CHECKOUT_DEBIT
     ''BOOKING'' None ''bk_1'' ''Booking'' db"

lemma debitWallet_spec_witness:
  "\<exists>e db w e2 db2. sample_credit sample_db = Inr (e, db) \<and> find_wallet ''w1'' db = Some w \<and>
     sample_debit 100 db = Inr (e2, db2) \<and>
     (\<exists>w'. find_wallet ''w1'' db2 = Some w' \<and> w_promoBalance w' = w_promoBalance w - min (w_promoBalance w) 100)"
proof -
  let ?w = "(new_wallet ''w1'' ''u1'')\<lparr>w_availableBalance := 250, w_promoBalance := 250\<rparr>"
  obtain e db where c: "sample_credit sample_db = Inr (e, db)" and r: "wallet_reachable (db, [])"
    and f: "find_wallet ''w1'' db = Some ?w" using sample_reachable by blast
  have inv: "wallet_inv db" using wallet_reachable_inv [OF r] by simp
  have k: "List.find (\<lambda>x. we_idempotencyKey x = ''bk_1'') (wd_entries db) = None"
    using c sample_credit_result by auto
  have "case sample_debit 100 db of Inl _ \<Rightarrow> False
          | Inr (e2, db2) \<Rightarrow> \<exists>w'. find_wallet ''w1'' db2 = Some w' \<and>
              w_promoBalance w' = w_promoBalance ?w - min (w_promoBalance ?w) 100"
    using debitWallet_spec [OF inv f _ is_cents_numeral [of "num.Bit0 (num.Bit0 (num.Bit1 (num.Bit0 (num.Bit0 (num.Bit1 num.One)))))"] k, where svc = None and now = 20
        and type = CHECKOUT_DEBIT and rt = "''BOOKING''" and ri = None and descr = "''Booking''"]
    by (auto simp: sample_debit_def new_wallet_def split: sum.splits prod.splits)
  then show ?thesis using c f by (auto split: sum.splits)
qed

lemma cents_100: "is_cents 100"
  by (rule is_cents_numeral)

text \<open>
  The part of a wallet offered for a booking stays within every cap: it never exceeds the
  available balance, the booking total, what is left of the daily allowance or the requested amount;
  its promotional and real parts add up to it, and the promotional part stays within both the
  promotional balance and the cap per booking. It is offered only for a positive amount, when the
  wallet is enabled and the booking reaches the minimum amount.
\<close>

theorem usable_within_caps:
  assumes "u = calculate_usable prec config w usedToday bookingTotal requested"
    and "0 \<le> bookingTotal" and "0 \<le> w_availableBalance w"
  shows "us_usableAmount u \<le> w_availableBalance w \<and> us_usableAmount u \<le> bookingTotal \<and>
         us_usableAmount u \<le> max 0 (or_num (Some (wc_maxDailyWalletUsage config)) 50000 - usedToday) \<and>
         us_promoAmount u + us_realAmount u = us_usableAmount u \<and>
         (us_allowed u \<longrightarrow> 0 < us_usableAmount u \<and> wc_isEnabled config \<and>
            (wc_minBookingAmountForWalletUse config = 0 \<or> wc_minBookingAmountForWalletUse config \<le> bookingTotal) \<and>
            (\<forall>r. requested = Some r \<longrightarrow> us_usableAmount u \<le> r) \<and>
            us_promoAmount u \<le> w_promoBalance w \<and>
            us_promoAmount u \<le> or_num (Some (wc_maxPromoCreditPerBooking config)) 5000)"
proof (cases "\<not> wc_isEnabled config \<or>
    wc_minBookingAmountForWalletUse config \<noteq> 0 \<and> bookingTotal < wc_minBookingAmountForWalletUse config")
  case True
  then have "u = not_usable w" unfolding assms(1) calculate_usable_def by auto
  with assms(2,3) show ?thesis by (simp add: not_usable_def)
next
  case False
  define pct where "pct = prec (prec (bookingTotal * or_num (Some (wc_maxWalletPaymentPercentage config)) 100) / 100)"
  define left where "left = max 0 (or_num (Some (wc_maxDailyWalletUsage config)) 50000 - usedToday)"
  define cap where "cap = min (min (min (w_availableBalance w) bookingTotal) pct) left"
  define target where "target = (case requested of None \<Rightarrow> cap | Some r \<Rightarrow> min r cap)"
  define promo where "promo = min target (min (w_promoBalance w) (or_num (Some (wc_maxPromoCreditPerBooking config)) 5000))"
  have en: "wc_isEnabled config" and n: "(wc_minBookingAmountForWalletUse config \<noteq> 0 \<and>
      bookingTotal < wc_minBookingAmountForWalletUse config) = False" using False by auto
  have u: "u = \<lparr>us_allowed = target > 0, us_usableAmount = target, us_promoAmount = promo,
            us_realAmount = target - promo, us_availableBalance = w_availableBalance w\<rparr>"
    unfolding assms(1) calculate_usable_def Let_def promo_def target_def cap_def left_def pct_def
    by (simp only: en n simp_thms if_True if_False)
  have "cap \<le> w_availableBalance w" "cap \<le> bookingTotal" "cap \<le> left"
    unfolding cap_def by (simp_all add: min.coboundedI1 min.coboundedI2)
  moreover have "target \<le> cap" "\<And>r. requested = Some r \<Longrightarrow> target \<le> r"
    unfolding target_def by (auto split: option.splits)
  moreover have "promo \<le> w_promoBalance w" "promo \<le> or_num (Some (wc_maxPromoCreditPerBooking config)) 5000"
    unfolding promo_def by (simp_all add: min.coboundedI2)
  ultimately show ?thesis using False unfolding u left_def [symmetric] by auto
qed

lemma usable_within_caps_witness:
  "us_usableAmount (calculate_usable dec20 default_config ((new_wallet ''w1'' ''u1'')
     \<lparr>w_availableBalance := 250, w_promoBalance := 250\<rparr>) 0 1000 (Some 40)) \<le> 250"
  using usable_within_caps [OF refl, of 1000 "(new_wallet ''w1'' ''u1'')
     \<lparr>w_availableBalance := 250, w_promoBalance := 250\<rparr>" dec20 default_config 0 "Some 40"] by simp

text \<open>
  The two parts offered are not what the debit takes. A wallet holding 8000 of promotional
  credit and no real money is offered, for a booking of 10000 under the default configuration (at
  most 5000 of promotional credit per booking), 5000 of promotional and 3000 of real money which it
  does not have; the debit of the offered 8000 succeeds and takes all of it from the promotional
  bucket.
\<close>

definition promo_wallet :: Wallet where
  "promo_wallet = (new_wallet ''w1'' ''u1'')\<lparr>w_availableBalance := 8000, w_promoBalance := 8000\<rparr>"

theorem usable_split_not_enforced:
  "us_usableAmount (calculate_usable dec20 default_config promo_wallet 0 10000 None) = 8000 \<and>
   us_promoAmount (calculate_usable dec20 default_config promo_wallet 0 10000 None) = 5000 \<and>
   us_realAmount (calculate_usable dec20 default_config promo_wallet 0 10000 None) = 3000 \<and>
   w_realBalance promo_wallet = 0 \<and>
   consume (w_realBalance promo_wallet) (w_promoBalance promo_wallet) 8000 = (0, 0, PROMOTIONAL)"
proof -
  have "dec20 1000000 = 1000000" by (rule dec20_cents) (simp_all add: is_cents_numeral)
  moreover have "dec20 10000 = 10000" by (rule dec20_cents) (simp_all add: is_cents_numeral)
  ultimately show ?thesis
    by (simp add: calculate_usable_def default_config_def promo_wallet_def new_wallet_def or_num_def
        consume_def Let_def)
qed

text \<open>
  Expiry takes credit that has not expired. Promotional credit of 100 that expires at time 5
  is spent in full; a second credit of 50, good until time 100, is then granted. The cleanup at time
  10 takes these 50: it counts the expired credit without the part already spent.
\<close>

definition expiry_scenario :: "(rat \<times> wallet_db) result" where
  "expiry_scenario =
     bindR (creditWallet round2 None 1 ''w1'' 100 REFERRAL_REWARD PROMOTIONAL ''REFERRAL'' None ''k1'' ''r'' (Some 5) sample_db)
       (\<lambda>(_, db1). bindR (debitWallet round2 None 2 ''w1'' 100 CHECKOUT_DEBIT ''BOOKING'' None ''k2'' ''b'' db1)
       (\<lambda>(_, db2). bindR (creditWallet round2 None 3 ''w1'' 50 REFERRAL_REWARD PROMOTIONAL ''REFERRAL'' None ''k3'' ''r'' (Some 100) db2)
       (\<lambda>(_, db3). cleanExpiredPromotionalCredits round2 10 ''w1'' db3)))"

theorem expiry_takes_live_credit:
  "\<exists>db. expiry_scenario = Inr (50, db) \<and> map w_promoBalance (wd_wallets db) = [0]"
  by (simp add: expiry_scenario_def creditWallet_def debitWallet_def expiry_defs
      find_wallet_def new_wallet_def credit_cap_check_def MAX_WALLET_BALANCE_CAP_def Let_def bindR_def
      create_wallet_entry_def exists_where_def update_wallet_def round2_numeral consume_def
      is_expired_promo_def sum_where_def)

text \<open>
  An administrator's debit of a fraction of a cent breaks the wallet's own reconciliation. From
  a wallet recharged with 1000, a debit of 1.005 (the request is only checked to be at least 1) is
  stored as an entry of 1.01 while the balance becomes 999.00, so the next reconciliation reports a
  mismatch and freezes the wallet.
\<close>

definition sub_cent_scenario :: "(reconciliation \<times> wallet_db) result" where
  "sub_cent_scenario =
     bindR (creditWallet round2 None 1 ''w1'' 1000 CUSTOMER_DEPOSIT REAL_MONEY ''PAYMENT'' None ''k1'' ''d'' None sample_db)
       (\<lambda>(_, db1). bindR (adminAdjustWallet round2 None 2 ''admin''
            \<lparr>aa_walletId = ''w1'', aa_amount = 1.005, aa_direction = LedgerDirection.DEBIT,
             aa_bucket = REAL_MONEY, aa_reason = ''fix'', aa_clientNonce = Some ''n1''\<rparr> db1)
       (\<lambda>(_, db2). reconcileWallet ''w1'' db2))"

theorem sub_cent_debit_freezes_wallet:
  "\<exists>rep db. sub_cent_scenario = Inr (rep, db) \<and> \<not> rc_isMatched rep \<and>
     map w_status (wd_wallets db) = [FROZEN]"
proof -
  have r: "round2 (201 / 200) = 101 / 100" "round2 (199799 / 200) = 999" by (simp_all add: round2_def)
  show ?thesis
    by (simp add: sub_cent_scenario_def creditWallet_def debitWallet_def adminAdjustWallet_def reconcileWallet_def
      find_wallet_def new_wallet_def credit_cap_check_def MAX_WALLET_BALANCE_CAP_def Let_def bindR_def
      create_wallet_entry_def exists_where_def update_wallet_def round2_numeral consume_def
      total_direction_def sum_where_def r)
qed

text \<open>
  A cleanup overwrites what happens meanwhile. It reads the wallet without a lock; a refund of 40 credited
  between its reading and its writing is lost from the balance but not from the entries, so the next
  reconciliation reports a mismatch and freezes the wallet.
\<close>

definition expiry_race :: "(reconciliation \<times> wallet_db) result" where
  "expiry_race =
     bindR (creditWallet round2 None 1 ''w1'' 100 REFERRAL_REWARD PROMOTIONAL ''REFERRAL'' None ''k1'' ''r'' (Some 5) sample_db)
       (\<lambda>(_, db1). case expiry_read round2 10 ''w1'' db1 of
          None \<Rightarrow> Inl (GatewayError ''nothing to expire'')
        | Some x \<Rightarrow>
            bindR (creditWallet round2 None 10 ''w1'' 40 BOOKING_REFUND REFUND_CREDIT ''BOOKING'' None ''k2'' ''b'' None db1)
              (\<lambda>(_, db2). bindR (expiry_write ''w1'' x db2) (\<lambda>(_, db3). reconcileWallet ''w1'' db3)))"

theorem cleanup_loses_concurrent_credit:
  "\<exists>rep db. expiry_race = Inr (rep, db) \<and> \<not> rc_isMatched rep \<and> map w_status (wd_wallets db) = [FROZEN] \<and>
     map w_availableBalance (wd_wallets db) = [0] \<and> map w_realBalance (wd_wallets db) = [40]"
  by (simp add: expiry_race_def creditWallet_def expiry_read_def expiry_write_def reconcileWallet_def
      find_wallet_def new_wallet_def credit_cap_check_def MAX_WALLET_BALANCE_CAP_def Let_def bindR_def
      create_wallet_entry_def exists_where_def update_wallet_def round2_numeral
      is_expired_promo_def sum_where_def total_direction_def)

end
