(* ===== verification/JsNumber.thy ===== *)
theory JsNumber
  imports Rounding
begin

text \<open>
  JavaScript values the code inspects at run time: JSON data, the decimal a number prints as (the
  shortest one that reads back as the number), which is also the value of \<open>new Decimal(number)\<close>,
  and \<open>Number(x.toFixed(2))\<close>. The last section shows that an amount in whole cents survives the
  trip through a number.
\<close>

section \<open>Numbers and their decimal form\<close>

definition dec_of_num :: "rat \<Rightarrow> rat" where
  "dec_of_num x =
     (case List.find (\<lambda>k. fl (rsig 10 k half_even x) = x) [1..<18] of
        Some k \<Rightarrow> rsig 10 k half_even x
      | None \<Rightarrow> x)"

text \<open>\<open>Number(x.toFixed(2))\<close>.\<close>

definition to_fixed2 :: "rat \<Rightarrow> rat" where
  "to_fixed2 x = fl (round2 x)"

text \<open>A number written to a column \<open>Decimal(10, 2)\<close>, which may be null\<close>

definition num10 :: "rat \<Rightarrow> rat result" where
  "num10 x = money10 (dec_of_num x)"

definition opt10 :: "rat option \<Rightarrow> rat option result" where
  "opt10 v = (case v of None \<Rightarrow> Inr None | Some x \<Rightarrow> bindR (num10 x) (\<lambda>y. Inr (Some y)))"

text \<open>
  \<open>Number.prototype.toString\<close>: \<open>s\<close> are the \<open>k\<close> digits of the shortest decimal
  \<open>s * 10 ^ (n - k)\<close>.
\<close>

definition show_exponent :: "int \<Rightarrow> string" where
  "show_exponent e = (if 0 \<le> e then ''e+'' @ show_nat (nat e) else ''e-'' @ show_nat (nat (- e)))"

definition show_digits :: "string \<Rightarrow> int \<Rightarrow> string" where
  "show_digits s n =
     (let k = int (length s)
      in if k \<le> n \<and> n \<le> 21 then s @ replicate (nat (n - k)) CHR ''0''
         else if 0 < n \<and> n \<le> 21 then take (nat n) s @ ''.'' @ drop (nat n) s
         else if - 6 < n \<and> n \<le> 0 then ''0.'' @ replicate (nat (- n)) CHR ''0'' @ s
         else if k = 1 then s @ show_exponent (n - 1)
         else take 1 s @ ''.'' @ drop 1 s @ show_exponent (n - 1))"

definition show_pos :: "rat \<Rightarrow> string" where
  "show_pos x =
     (case List.find (\<lambda>k. fl (rsig 10 k half_even x) = x) [1..<18] of
        None \<Rightarrow> ''''
      | Some k \<Rightarrow>
          let y = rsig 10 k half_even x; n = ilog 10 y + 1
          in show_digits (show_nat (nat \<lfloor>y * 10 powi (int k - n)\<rfloor>)) n)"

definition show_num :: "rat \<Rightarrow> string" where
  "show_num x = (if x = 0 then ''0'' else if x < 0 then ''-'' @ show_pos (- x) else show_pos x)"

section \<open>JSON\<close>

datatype json =
    JNull
  | JBool bool
  | JNum rat
  | JStr string
  | JArr "json list"
  | JObj "(string \<times> json) list"

text \<open>Property access; \<open>None\<close> is \<open>undefined\<close>.\<close>

definition field :: "string \<Rightarrow> json \<Rightarrow> json option" where
  "field k j = (case j of JObj fs \<Rightarrow> map_of fs k | _ \<Rightarrow> None)"

definition truthy :: "json option \<Rightarrow> bool" where
  "truthy j =
     (case j of
        None \<Rightarrow> False
      | Some JNull \<Rightarrow> False
      | Some (JBool b) \<Rightarrow> b
      | Some (JNum x) \<Rightarrow> x \<noteq> 0
      | Some (JStr s) \<Rightarrow> s \<noteq> []
      | Some _ \<Rightarrow> True)"

definition or_json :: "json option \<Rightarrow> json \<Rightarrow> json" where
  "or_json j d = (if truthy j then the j else d)"

definition as_num :: "json option \<Rightarrow> rat option" where
  "as_num j = (case j of Some (JNum x) \<Rightarrow> Some x | _ \<Rightarrow> None)"

lemma as_num_Some_iff: "as_num j = Some x \<longleftrightarrow> j = Some (JNum x)"
  by (auto simp: as_num_def split: option.splits json.splits)

section \<open>Whole cents survive\<close>

lemma ulp_split:
  assumes "k \<le> k'"
  shows "ulp 10 k x = of_int (10 ^ (k' - k)) * ulp 10 k' x"
proof -
  have "ulp 10 k x = 10 powi (int (k' - k) + (ilog 10 \<bar>x\<bar> - int k' + 1))"
    using assms by (simp add: ulp_def of_nat_diff algebra_simps)
  also have "\<dots> = 10 powi (int (k' - k)) * 10 powi (ilog 10 \<bar>x\<bar> - int k' + 1)"
    by (subst power_int_add) simp_all
  finally show ?thesis by (simp add: ulp_def)
qed

lemma rsig_multiple:
  assumes "0 < x"
  shows "\<exists>m::int. rsig 10 k rnd x = of_int m * ulp 10 k x"
  using assms by (auto simp: rsig_def Let_def)

lemma rsig_nearest:
  assumes "nearest_int rnd" "0 < x" "c = of_int m * ulp 10 k x" "\<bar>x - c\<bar> < ulp 10 k x / 2"
  shows "rsig 10 k rnd x = c"
proof -
  define u where "u = ulp 10 k x"
  have u: "0 < u" using ulp_pos [of 10 k x] by (simp add: u_def)
  have "\<bar>x / u - of_int m\<bar> < 1 / 2"
  proof -
    have "x / u - of_int m = (x - c) / u" using u unfolding assms(3) u_def [symmetric] by (simp add: diff_divide_distrib)
    then have "\<bar>x / u - of_int m\<bar> = \<bar>x - c\<bar> / u" using u by (simp add: abs_divide)
    also have "\<dots> < (u / 2) / u" using assms(4) u by (intro divide_strict_right_mono) (simp_all add: u_def)
    finally show ?thesis using u by simp
  qed
  moreover have "\<bar>of_int (rnd (x / u)) - x / u\<bar> \<le> 1 / 2" using assms(1) by (simp add: nearest_int_def)
  ultimately have "\<bar>of_int (rnd (x / u)) - of_int m :: rat\<bar> < 1" by linarith
  then have "rnd (x / u) = m" by linarith
  then show ?thesis using assms(2,3) by (simp add: rsig_def Let_def u_def)
qed

lemma multiples_close:
  assumes "y = of_int a * u" "c = of_int b * u" "0 < u" "\<bar>y - c\<bar> < (u::rat)"
  shows "y = c"
proof -
  have "\<bar>of_int a - of_int b\<bar> * u < 1 * u" using assms by (simp add: abs_mult left_diff_distrib [symmetric])
  then have "\<bar>of_int a - of_int b :: rat\<bar> < 1" using assms(3) by (simp only: mult_less_cancel_right_pos)
  then have "a = b" by linarith
  then show ?thesis using assms(1,2) by simp
qed

lemma find_first:
  assumes "P k" "k \<in> set ks" "\<And>j. j \<in> set ks \<Longrightarrow> P j \<Longrightarrow> j \<le> k \<Longrightarrow> f j = c" "sorted ks"
  shows "\<exists>j. List.find P ks = Some j \<and> f j = c"
  using assms
proof (induction ks)
  case (Cons a ks)
  show ?case
  proof (cases "P a")
    case True
    have "a \<le> k" using Cons.prems(2,4) by auto
    with True Cons.prems(3) show ?thesis by simp
  next
    case False
    with Cons.prems have "k \<in> set ks" by auto
    with False Cons show ?thesis by auto
  qed
qed simp

lemma dec_of_num_cents:
  assumes "0 \<le> n" "n < 10 ^ 14"
  shows "dec_of_num (fl (of_int n / 100)) = of_int n / 100"
proof (cases "n = 0")
  case True
  have "List.find (\<lambda>k. fl (rsig 10 k half_even 0) = 0) [1..<18] = Some 1"
    by (simp add: rsig_def upt_rec)
  with True show ?thesis by (simp add: dec_of_num_def rsig_def)
next
  case False
  define c :: rat where "c = of_int n / 100"
  define x where "x = fl c"
  have n: "1 \<le> n" using False assms(1) by simp
  have "(1::rat) \<le> of_int n" using n of_int_le_iff [of 1 n, where ?'a = rat] by simp
  moreover have "of_int n < (10 ^ 14 :: rat)"
    using assms(2) of_int_less_iff [of n "10 ^ 14", where ?'a = rat] by simp
  ultimately have c: "1 / 100 \<le> c" "c < 10 ^ 12" by (simp_all add: c_def)
  have xc: "\<bar>x - c\<bar> \<le> c / 2 ^ 53" using js.flt_err [of c] c by (simp add: x_def)
  have "c / 2 ^ 53 \<le> c / 2" using c by (intro divide_left_mono) simp_all
  then have xh: "\<bar>x - c\<bar> \<le> c / 2" using xc by linarith
  then have x: "0 < x" "1 / 1000 \<le> x" "x \<le> 3 / 2 * c" using c by linarith+
  have x13: "x < 10 ^ 13" using x(3) c by simp
  have xd: "\<bar>x - c\<bar> \<le> 1 / 8000"
  proof -
    have "c / 2 ^ 53 \<le> 10 ^ 12 / 2 ^ 53" using c by (intro divide_right_mono) simp_all
    also have "\<dots> \<le> (1 / 8000 :: rat)" by simp
    finally show ?thesis using xc by linarith
  qed
  define e where "e = ilog 10 x"
  have eb: "10 powi e \<le> x" "x < 10 powi (e + 1)" using ilog_bounds [of 10 x] x(1) by (simp_all add: e_def)
  have e12: "e \<le> 12"
  proof (rule ccontr)
    assume "\<not> e \<le> 12"
    then have "(10::rat) powi 13 \<le> 10 powi e" by (intro power_int_increasing) simp_all
    with eb x(1) x13 show False by simp
  qed
  have e3: "-3 \<le> e"
  proof (rule ccontr)
    assume "\<not> -3 \<le> e"
    then have "(10::rat) powi (e + 1) \<le> 10 powi (-3)" by (intro power_int_increasing) simp_all
    moreover have "(10::rat) powi (-3) = 1 / 1000" by (simp add: power_int_minus)
    ultimately show False using eb x(1,2) by linarith
  qed
  define k where "k = nat (e + 4)"
  have k: "int k = e + 4" "1 \<le> k" "k \<le> 16" using e3 e12 by (simp_all add: k_def)
  have u: "ulp 10 k x = 1 / 1000" using x(1) k by (simp add: ulp_def e_def [symmetric] power_int_minus)
  have mc: "c = of_int (n * 10) * ulp 10 k x" by (simp add: u c_def)
  have near: "\<bar>x - c\<bar> < ulp 10 k x / 2" using xd unfolding u by simp
  have kc: "rsig 10 k half_even x = c" by (rule rsig_nearest [OF nearest_half_even x(1) mc near])
  have "rsig 10 j half_even x = c"
    if j: "j \<le> k" "fl (rsig 10 j half_even x) = x" for j
  proof -
    define y where "y = rsig 10 j half_even x"
    obtain a :: int where "y = of_int a * ulp 10 j x" using rsig_multiple [OF x(1)] y_def by blast
    then have "y = of_int (a * 10 ^ (k - j)) * ulp 10 k x" using ulp_split [OF j(1)] by simp
    moreover have "\<bar>y - c\<bar> < ulp 10 k x"
    proof -
      have xy: "\<bar>x - y\<bar> \<le> \<bar>y\<bar> / 2 ^ 53" using js.flt_err [of y] j(2) by (simp add: y_def)
      have "\<bar>y\<bar> / 2 ^ 53 \<le> \<bar>y\<bar> / 4" by (intro divide_left_mono) simp_all
      then have "\<bar>y\<bar> \<le> 2 * x" using xy x(1) by linarith
      then have "\<bar>y\<bar> \<le> 3 * 10 ^ 12" using x(3) c by linarith
      then have "\<bar>y\<bar> / 2 ^ 53 \<le> 3 * 10 ^ 12 / 2 ^ 53" by (intro divide_right_mono) simp_all
      also have "\<dots> \<le> (1 / 2500 :: rat)" by simp
      finally show ?thesis using xy xd unfolding u by linarith
    qed
    moreover have "0 < ulp 10 k x" by (rule ulp_pos) simp
    ultimately have "y = c" by (intro multiples_close [OF _ mc])
    then show ?thesis by (simp add: y_def)
  qed
  note first = this
  have "\<exists>j. List.find (\<lambda>k. fl (rsig 10 k half_even x) = x) [1..<18] = Some j \<and> rsig 10 j half_even x = c"
  proof (rule find_first)
    show "fl (rsig 10 k half_even x) = x" unfolding kc by (simp only: x_def)
    show "k \<in> set [1..<18]" using k by (simp only: set_upt) simp
    show "rsig 10 j half_even x = c" if "fl (rsig 10 j half_even x) = x" "j \<le> k" for j
      using first that by blast
    show "sorted [1..<18]" by (rule sorted_upt)
  qed
  then show ?thesis unfolding dec_of_num_def x_def [symmetric] c_def [symmetric] by auto
qed

lemma num10_cents:
  assumes "is_cents c" "0 \<le> c" "c < 10 ^ 8"
  shows "num10 (fl c) = Inr c"
proof -
  obtain n :: int where n: "c = of_int n / 100" using assms(1) is_cents_iff by blast
  have "of_int n < (of_int (10 ^ 10) :: rat)" "(of_int 0 :: rat) \<le> of_int n" using assms(2,3) n by simp_all
  then have "n < 10 ^ 10" "0 \<le> n" by (simp_all only: of_int_less_iff of_int_le_iff)
  then have "dec_of_num (fl c) = c" unfolding n by (intro dec_of_num_cents) simp_all
  with assms show ?thesis by (simp add: num10_def money10_cents)
qed

end
