(* ===== verification/CancellationPolicy.thy ===== *)
theory CancellationPolicy
  imports JsNumber
begin

text \<open>
  The cancellation policy (\<open>bookings/cancellation-policy.service.ts\<close>) and the validation of its
  configuration (\<open>validateCancellationMatrixConfig\<close> of \<open>config-engine/system-config-validator.ts\<close>).
  The amounts are computed on JavaScript numbers, so every product, quotient and difference is
  rounded by \<open>fl\<close>. The validator reads arbitrary JSON; \<open>validate\<close> has already rejected
  \<open>null\<close>. The messages of exceptions leave out the offending values.
\<close>

datatype Role = CUSTOMER | VENDOR | ADMIN | SUPPORT_AGENT

record CancellationTier =
  ct_minHoursBeforePickup :: rat
  ct_feePercent :: rat
  ct_tier :: string
  ct_description :: json

text \<open>\<open>None\<close> in \<open>cm_tiers\<close> is a value that is not an array, elsewhere \<open>undefined\<close>.\<close>

record CancellationMatrixConfig =
  cm_tiers :: "CancellationTier list option"
  cm_afterStartFeePercent :: "json option"
  cm_afterStartTier :: "json option"
  cm_afterStartDescription :: "json option"

record CancellationCalculationResult =
  cr_tier :: json
  cr_tierDescription :: json
  cr_startDate :: time
  cr_cancellationTime :: time
  cr_hoursRemaining :: rat
  cr_amountPaid :: rat
  cr_cancellationFeePercent :: rat
  cr_cancellationFee :: rat
  cr_refundAmountPercent :: rat
  cr_refundAmount :: rat
  cr_refundAmountInPaise :: int
  cr_isEligibleForRefund :: bool

record CalculateCancellationParams =
  cp_startDate :: time
  cp_cancellationTime :: "time option"
  cp_amountPaid :: rat
  cp_depositAmount :: "rat option"
  cp_actorRole :: Role
  cp_isAdminOverride :: bool
  cp_isPendingConfirmation :: bool
  cp_cancellationMatrix :: "CancellationMatrixConfig option"

definition default_tiers :: "CancellationTier list" where
  "default_tiers =
     [\<lparr>ct_minHoursBeforePickup = 24, ct_feePercent = 0, ct_tier = ''FULL_REFUND_FREE_CANCELLATION'',
       ct_description = JStr ''Free cancellation (> 24 hours before pickup)''\<rparr>,
      \<lparr>ct_minHoursBeforePickup = 6, ct_feePercent = 25, ct_tier = ''MODERATE_CANCELLATION'',
       ct_description = JStr ''Cancellation between 6 and 24 hours before pickup (25% fee)''\<rparr>,
      \<lparr>ct_minHoursBeforePickup = 0, ct_feePercent = 50, ct_tier = ''LATE_CANCELLATION'',
       ct_description = JStr ''Cancellation within 6 hours of pickup time (50% fee)''\<rparr>]"

definition DEFAULT_CANCELLATION_MATRIX :: CancellationMatrixConfig where
  "DEFAULT_CANCELLATION_MATRIX =
     \<lparr>cm_tiers = Some default_tiers, cm_afterStartFeePercent = Some (JNum 100),
      cm_afterStartTier = Some (JStr ''NO_REFUND_AFTER_START''),
      cm_afterStartDescription = Some (JStr ''Cancellation after trip pickup time (Non-refundable)'')\<rparr>"

section \<open>The tier of a cancellation\<close>

text \<open>The tier, its description, the fee and the refund in per cent.\<close>

type_synonym tier_choice = "json \<times> json \<times> rat \<times> rat"

definition after_start :: "CancellationMatrixConfig \<Rightarrow> tier_choice" where
  "after_start m =
     (let fee = (case as_num (cm_afterStartFeePercent m) of Some x \<Rightarrow> x | None \<Rightarrow> 100)
      in (or_json (cm_afterStartTier m) (JStr ''NO_REFUND_AFTER_START''),
          or_json (cm_afterStartDescription m) (JStr ''Cancellation after trip pickup time (Non-refundable)''),
          fee, max 0 (fl (100 - fee))))"

definition tier_matches :: "rat \<Rightarrow> CancellationTier \<Rightarrow> bool" where
  "tier_matches hours t =
     (if ct_minHoursBeforePickup t = 24 then hours > 24 else hours \<ge> ct_minHoursBeforePickup t)"

definition time_based :: "CancellationMatrixConfig \<Rightarrow> rat \<Rightarrow> tier_choice" where
  "time_based m hours =
     (if hours < 0 then after_start m
      else let tiers = (case cm_tiers m of Some ts \<Rightarrow> sort_key (\<lambda>t. - ct_minHoursBeforePickup t) ts
                        | None \<Rightarrow> default_tiers)
           in case List.find (tier_matches hours) tiers of
                Some t \<Rightarrow> (JStr (ct_tier t), ct_description t, ct_feePercent t, max 0 (fl (100 - ct_feePercent t)))
              | None \<Rightarrow> after_start m)"

definition choose_tier :: "CalculateCancellationParams \<Rightarrow> rat \<Rightarrow> tier_choice" where
  "choose_tier p hours =
     (if cp_isPendingConfirmation p
      then (JStr ''PENDING_CONFIRMATION_FULL_REFUND'',
            JStr ''Full refund (Booking cancelled prior to host confirmation)'', 0, 100)
      else if cp_actorRole p = VENDOR
      then (JStr ''VENDOR_CANCELLED'', JStr ''Cancelled or rejected by fleet owner (100% refund)'', 0, 100)
      else if cp_actorRole p = ADMIN \<and> cp_isAdminOverride p
      then (JStr ''ADMIN_OVERRIDE_FULL_REFUND'', JStr ''Administrative full refund override'', 0, 100)
      else time_based (case cp_cancellationMatrix p of Some m \<Rightarrow> m | None \<Rightarrow> DEFAULT_CANCELLATION_MATRIX) hours)"

section \<open>The amounts\<close>

definition hours_between :: "time \<Rightarrow> time \<Rightarrow> rat" where
  "hours_between start cancel = to_fixed2 (fl (of_int (start - cancel) / 3600000))"

definition fare_number :: "rat \<Rightarrow> rat \<Rightarrow> rat" where
  "fare_number paid deposit = max 0 (fl (fl paid - fl deposit))"

definition fee_number :: "rat \<Rightarrow> rat \<Rightarrow> rat" where
  "fee_number fare feePercent = to_fixed2 (fl (fl (fare * feePercent) / 100))"

definition refund_number :: "rat \<Rightarrow> rat \<Rightarrow> rat" where
  "refund_number paid fee = to_fixed2 (fl (fl paid - fee))"

definition calculateCancellation ::
  "time \<Rightarrow> CalculateCancellationParams \<Rightarrow> CancellationCalculationResult" where
  "calculateCancellation now p =
     (let cancel = (case cp_cancellationTime p of Some t \<Rightarrow> t | None \<Rightarrow> now);
          deposit = (case cp_depositAmount p of Some d \<Rightarrow> d | None \<Rightarrow> 0);
          hours = hours_between (cp_startDate p) cancel;
          (tier, descr, feePercent, refundPercent) = choose_tier p hours;
          fee = fee_number (fare_number (cp_amountPaid p) deposit) feePercent;
          refund = refund_number (cp_amountPaid p) fee
      in \<lparr>cr_tier = tier, cr_tierDescription = descr, cr_startDate = cp_startDate p,
          cr_cancellationTime = cancel, cr_hoursRemaining = hours, cr_amountPaid = cp_amountPaid p,
          cr_cancellationFeePercent = feePercent, cr_cancellationFee = dec_of_num fee,
          cr_refundAmountPercent = refundPercent, cr_refundAmount = dec_of_num refund,
          cr_refundAmountInPaise = js_round (fl (refund * 100)),
          cr_isEligibleForRefund = refund > 0\<rparr>)"

text \<open>\<open>service\<close> is the optional configuration service and what its lookup returns or throws.\<close>

definition calculateCancellationWithConfig ::
  "CancellationMatrixConfig option result option \<Rightarrow> time \<Rightarrow> CalculateCancellationParams \<Rightarrow>
   CancellationCalculationResult" where
  "calculateCancellationWithConfig service now p =
     (case cp_cancellationMatrix p of
        Some _ \<Rightarrow> calculateCancellation now p
      | None \<Rightarrow>
          let m = (case service of
                     Some (Inr (Some c)) \<Rightarrow>
                       (case cm_tiers c of Some (_ # _) \<Rightarrow> c | _ \<Rightarrow> DEFAULT_CANCELLATION_MATRIX)
                   | _ \<Rightarrow> DEFAULT_CANCELLATION_MATRIX)
          in calculateCancellation now (p\<lparr>cp_cancellationMatrix := Some m\<rparr>))"

section \<open>Validation of the configured matrix\<close>

record parsed_tier =
  pt_minHours :: rat
  pt_fee :: rat
  pt_name :: string
  pt_description :: "json option"

definition parse_tier :: "rat list \<Rightarrow> json \<Rightarrow> parsed_tier result" where
  "parse_tier seen tier =
     (case tier of
        JArr _ \<Rightarrow> Inl (BadRequestException ''Tier is missing minHoursBeforePickup.'')
      | JObj _ \<Rightarrow>
         (case field ''minHoursBeforePickup'' tier of
            None \<Rightarrow> Inl (BadRequestException ''Tier is missing minHoursBeforePickup.'')
          | Some JNull \<Rightarrow> Inl (BadRequestException ''Tier is missing minHoursBeforePickup.'')
          | Some (JNum h) \<Rightarrow>
              if h < 0 then Inl (BadRequestException ''minHoursBeforePickup must be a non-negative number.'')
              else if h \<in> set seen then Inl (BadRequestException ''Duplicate cancellation tier'')
              else (case field ''feePercent'' tier of
                      None \<Rightarrow> Inl (BadRequestException ''Tier is missing feePercent.'')
                    | Some JNull \<Rightarrow> Inl (BadRequestException ''Tier is missing feePercent.'')
                    | Some (JNum f) \<Rightarrow>
                        if f < 0 \<or> f > 100
                        then Inl (BadRequestException ''feePercent must be a number between 0 and 100.'')
                        else (case field ''tier'' tier of
                                Some (JStr s) \<Rightarrow>
                                  if s = [] \<or> trim s = []
                                  then Inl (BadRequestException ''Tier must have a non-empty identifier string.'')
                                  else Inr \<lparr>pt_minHours = h, pt_fee = f, pt_name = s,
                                            pt_description = field ''description'' tier\<rparr>
                              | _ \<Rightarrow> Inl (BadRequestException ''Tier must have a non-empty identifier string.''))
                    | _ \<Rightarrow> Inl (BadRequestException ''feePercent must be a number between 0 and 100.''))
          | _ \<Rightarrow> Inl (BadRequestException ''minHoursBeforePickup must be a non-negative number.''))
      | _ \<Rightarrow> Inl (BadRequestException ''Cancellation tier must be an object.''))"

fun parse_tiers :: "rat list \<Rightarrow> json list \<Rightarrow> parsed_tier list result" where
  "parse_tiers seen [] = Inr []"
| "parse_tiers seen (t # ts) =
     bindR (parse_tier seen t) (\<lambda>p. bindR (parse_tiers (pt_minHours p # seen) ts) (\<lambda>ps. Inr (p # ps)))"

fun fees_increase :: "parsed_tier list \<Rightarrow> bool" where
  "fees_increase (a # b # ts) = (pt_fee a \<le> pt_fee b \<and> fees_increase (b # ts))"
| "fees_increase _ = True"

definition finish_tier :: "parsed_tier \<Rightarrow> CancellationTier" where
  "finish_tier p =
     \<lparr>ct_minHoursBeforePickup = pt_minHours p, ct_feePercent = pt_fee p, ct_tier = trim (pt_name p),
      ct_description = or_json (pt_description p)
        (JStr (''Cancellation within '' @ show_num (pt_minHours p) @ ''h''))\<rparr>"

definition check_after_start :: "json option \<Rightarrow> rat list \<Rightarrow> rat result" where
  "check_after_start j fees =
     (case (case j of None \<Rightarrow> JNum 100 | Some v \<Rightarrow> v) of
        JNum a \<Rightarrow>
          if a < 0 \<or> a > 100
          then Inl (BadRequestException ''afterStartFeePercent must be a number between 0 and 100.'')
          else if a < Max (set fees) then Inl (BadRequestException ''Invalid cancellation policy'')
          else Inr a
      | _ \<Rightarrow> Inl (BadRequestException ''afterStartFeePercent must be a number between 0 and 100.''))"

definition validateCancellationMatrixConfig :: "json \<Rightarrow> CancellationMatrixConfig result" where
  "validateCancellationMatrixConfig payload =
     (case payload of
        JObj _ \<Rightarrow>
         (case field ''tiers'' payload of
            Some (JArr (t # ts)) \<Rightarrow>
              bindR (parse_tiers [] (t # ts)) (\<lambda>ps.
                let sortedDesc = sort_key (\<lambda>p. - pt_minHours p) ps
                in if \<not> fees_increase sortedDesc
                   then Inl (BadRequestException ''Contradictory cancellation policy'')
                   else bindR (check_after_start (field ''afterStartFeePercent'' payload) (map pt_fee ps)) (\<lambda>a.
                     Inr \<lparr>cm_tiers = Some (map finish_tier sortedDesc),
                          cm_afterStartFeePercent = Some (JNum a),
                          cm_afterStartTier = Some (or_json (field ''afterStartTier'' payload)
                            (JStr ''NO_REFUND_AFTER_START'')),
                          cm_afterStartDescription = Some (or_json (field ''afterStartDescription'' payload)
                            (JStr ''Cancellation after trip pickup time (Non-refundable)''))\<rparr>))
          | _ \<Rightarrow> Inl (BadRequestException ''booking.cancellation_matrix must contain a non-empty tiers array.''))
      | _ \<Rightarrow> Inl (BadRequestException ''booking.cancellation_matrix must be a JSON object containing tiers.''))"

section \<open>The amounts are exact\<close>

lemma cents_obtain:
  assumes "is_cents x" "0 \<le> x" "x < 10000000000"
  obtains n :: int where "x = of_int n / 100" "0 \<le> n" "n < 1000000000000"
proof -
  obtain n :: int where n: "x = of_int n / 100" using assms(1) is_cents_iff by blast
  have "(0::rat) \<le> of_int n" using assms(2) n by simp
  then have a: "0 \<le> n" by (simp only: of_int_0_le_iff)
  have "of_int n < (of_int 1000000000000 :: rat)" using assms(3) n by simp
  then have b: "n < 1000000000000" by (simp only: of_int_less_iff)
  show ?thesis by (rule that [OF n a b])
qed

lemma round2_to_cents: "is_cents c \<Longrightarrow> \<bar>y - c\<bar> < 1 / 200 \<Longrightarrow> round2 y = c"
  using round2_unique unfolding is_cents_iff by metis

lemma fl_small:
  assumes "0 \<le> x" "x < 10000000000"
  shows "\<bar>fl x - x\<bar> \<le> 1 / 800000"
proof -
  have "\<bar>fl x - x\<bar> \<le> 10000000000 / 2 ^ 53" using assms by (intro js.flt_abs_err) simp
  also have "\<dots> \<le> (1 / 800000 :: rat)" by simp
  finally show ?thesis .
qed

lemma fl_diff_near:
  assumes "0 \<le> a" "a < 10000000000" "0 \<le> b" "b < 10000000000"
  shows "\<bar>fl (fl a - fl b) - (a - b)\<bar> \<le> 1 / 200000"
proof -
  have d: "\<bar>(fl a - fl b) - (a - b)\<bar> \<le> 1 / 400000"
    using fl_small [OF assms(1,2)] fl_small [OF assms(3,4)] by linarith
  then have "\<bar>fl a - fl b\<bar> \<le> 20000000000" using assms by linarith
  from js.flt_near [OF d this] have "\<bar>fl (fl a - fl b) - (a - b)\<bar> \<le> 1 / 400000 + 20000000000 / 2 ^ 53" .
  moreover have "20000000000 / 2 ^ 53 \<le> (1 / 400000 :: rat)" by simp
  ultimately show ?thesis by linarith
qed

lemma fare_number_near:
  assumes "0 \<le> deposit" "deposit \<le> paid" "paid < 10000000000"
  shows "\<bar>fare_number paid deposit - (paid - deposit)\<bar> \<le> 1 / 200000" "0 \<le> fare_number paid deposit"
proof -
  have "\<bar>fl (fl paid - fl deposit) - (paid - deposit)\<bar> \<le> 1 / 200000"
    using assms by (intro fl_diff_near) simp_all
  then show "\<bar>fare_number paid deposit - (paid - deposit)\<bar> \<le> 1 / 200000"
    using assms unfolding fare_number_def by linarith
  show "0 \<le> fare_number paid deposit" by (simp add: fare_number_def)
qed

lemma fee_before_rounding:
  assumes "0 \<le> F" "F < 10000000000" "\<bar>f - F\<bar> \<le> 1 / 200000" "0 \<le> f" "0 \<le> r" "r \<le> 100"
  shows "\<bar>fl (fl (f * r) / 100) - F * r / 100\<bar> \<le> 1 / 50000" "0 \<le> fl (fl (f * r) / 100)"
proof -
  have "\<bar>f * r - F * r\<bar> = \<bar>f - F\<bar> * r" using assms(5) by (simp add: abs_mult left_diff_distrib [symmetric])
  also have "\<dots> \<le> 1 / 200000 * 100" using assms by (intro mult_mono) simp_all
  finally have fr: "\<bar>f * r - F * r\<bar> \<le> 1 / 2000" by simp
  have "F * r \<le> 10000000000 * 100" using assms by (intro mult_mono) simp_all
  then have FB: "F * r \<le> 1000000000000" by simp
  have F0: "0 \<le> F * r" "0 \<le> f * r" using assms by simp_all
  have fB: "\<bar>f * r\<bar> \<le> 2000000000000" using fr FB F0 by linarith
  have a: "\<bar>fl (f * r) - F * r\<bar> \<le> 1 / 2000 + 2000000000000 / 2 ^ 53" by (rule js.flt_near [OF fr fB])
  have "2000000000000 / 2 ^ 53 \<le> (1 / 2000 :: rat)" by simp
  with a have a': "\<bar>fl (f * r) - F * r\<bar> \<le> 1 / 1000" by linarith
  then have b: "\<bar>fl (f * r) / 100 - F * r / 100\<bar> \<le> 1 / 100000" by linarith
  have c0: "0 \<le> fl (f * r)" using F0 by (intro js.flt_nonneg)
  have c: "\<bar>fl (f * r) / 100\<bar> \<le> 20000000000" using a' FB c0 by linarith
  have "\<bar>fl (fl (f * r) / 100) - F * r / 100\<bar> \<le> 1 / 100000 + 20000000000 / 2 ^ 53"
    by (rule js.flt_near [OF b c])
  moreover have "20000000000 / 2 ^ 53 \<le> (1 / 100000 :: rat)" by simp
  ultimately show "\<bar>fl (fl (f * r) / 100) - F * r / 100\<bar> \<le> 1 / 50000" by linarith
  show "0 \<le> fl (fl (f * r) / 100)" using c0 by (intro js.flt_nonneg) simp
qed

text \<open>The fee is the rounded percentage of the fare, up to the error of the floating-point product.\<close>

lemma fee_number_spec:
  assumes "is_cents paid" "is_cents deposit" "0 \<le> deposit" "deposit \<le> paid" "paid < 10000000000"
    and "0 \<le> r" "r \<le> 100"
  shows "\<exists>c. fee_number (fare_number paid deposit) r = fl c \<and> is_cents c \<and> 0 \<le> c \<and> c \<le> paid - deposit \<and>
           \<bar>c - (paid - deposit) * r / 100\<bar> \<le> 1 / 200 + 1 / 50000"
proof -
  define y where "y = fl (fl (fare_number paid deposit * r) / 100)"
  have F: "0 \<le> paid - deposit" "paid - deposit < 10000000000" "is_cents (paid - deposit)" using assms by auto
  note y = fee_before_rounding [OF F(1,2) fare_number_near [OF assms(3-5)] assms(6,7), folded y_def]
  have "(paid - deposit) * r \<le> (paid - deposit) * 100"
    using F(1) assms(6,7) by (intro mult_left_mono) simp_all
  then have "(paid - deposit) * r / 100 \<le> paid - deposit" by (simp add: pos_divide_le_eq)
  then have "y \<le> (paid - deposit) + 1 / 50000" using y(1) by linarith
  then have "round2 y \<le> round2 ((paid - deposit) + 1 / 50000)" by (rule round2_mono)
  also have "round2 ((paid - deposit) + 1 / 50000) = paid - deposit"
    by (rule round2_to_cents [OF F(3)]) simp
  finally have "round2 y \<le> paid - deposit" .
  moreover have "\<bar>round2 y - (paid - deposit) * r / 100\<bar> \<le> 1 / 200 + 1 / 50000"
    using round2_near [of y] y(1) by linarith
  ultimately show ?thesis
    using round2_cents [of y] round2_nonneg [OF y(2)]
    by (intro exI [of _ "round2 y"]) (simp add: fee_number_def to_fixed2_def y_def)
qed

lemma refund_number_spec:
  assumes "is_cents paid" "is_cents c" "0 \<le> c" "c \<le> paid" "paid < 10000000000"
  shows "refund_number paid (fl c) = fl (paid - c)"
proof -
  have "\<bar>fl (fl paid - fl c) - (paid - c)\<bar> \<le> 1 / 200000"
    using assms by (intro fl_diff_near) simp_all
  then have "\<bar>fl (fl paid - fl c) - (paid - c)\<bar> < 1 / 200" by simp
  with round2_to_cents [OF is_cents_diff [OF assms(1,2)]] show ?thesis
    by (simp add: refund_number_def to_fixed2_def)
qed

lemma paise_exact:
  assumes "is_cents c" "0 \<le> c" "c < 10000000000"
  shows "of_int (js_round (fl (fl c * 100))) = c * 100"
proof -
  obtain n :: int where n: "c = of_int n / 100" using assms(1) is_cents_iff by blast
  have e: "\<bar>fl c * 100 - c * 100\<bar> \<le> 1 / 8000" using fl_small [OF assms(2,3)] by linarith
  then have B: "\<bar>fl c * 100\<bar> \<le> 2000000000000" using assms by linarith
  have "\<bar>fl (fl c * 100) - c * 100\<bar> \<le> 1 / 8000 + 2000000000000 / 2 ^ 53" by (rule js.flt_near [OF e B])
  moreover have cn: "c * 100 = of_int n" using n by simp
  ultimately have "\<bar>fl (fl c * 100) - of_int n\<bar> < 1 / 2" by simp
  then have "js_round (fl (fl c * 100)) = n" unfolding js_round_def by linarith
  with cn show ?thesis by simp
qed

lemma dec_of_cents: "is_cents c \<Longrightarrow> 0 \<le> c \<Longrightarrow> c < 10000000000 \<Longrightarrow> dec_of_num (fl c) = c"
  using dec_of_num_cents by (auto elim!: cents_obtain)

lemma fl_pos_iff: "0 < fl c \<longleftrightarrow> 0 < c" if "0 \<le> c"
  using that near_pos [OF js.flt_err [of c]] by (cases "c = 0") auto

lemma calculateCancellation_amounts:
  assumes "calculateCancellation now p = res" "d = (case cp_depositAmount p of Some d \<Rightarrow> d | None \<Rightarrow> 0)"
    and "fee = fee_number (fare_number (cp_amountPaid p) d) (cr_cancellationFeePercent res)"
    and "refund = refund_number (cp_amountPaid p) fee"
  shows "cr_cancellationFee res = dec_of_num fee" "cr_refundAmount res = dec_of_num refund"
    "cr_refundAmountInPaise res = js_round (fl (refund * 100))" "cr_isEligibleForRefund res = (refund > 0)"
  using assms by (auto simp: calculateCancellation_def Let_def split: prod.splits)

text \<open>
  C23: a cancellation splits the amount paid, to the cent and although it is computed in
  floating-point numbers: fee and refund add up to the amount paid, the deposit is never part of the
  fee, the fee is the percentage of the fare up to a rounding of half a cent, and the amount in paise
  sent to the gateway is exactly the refund. For amounts in whole cents below \<open>10 ^ 10\<close>, a deposit
  within the amount paid and a percentage between 0 and 100.
\<close>

theorem cancellation_splits_payment:
  assumes "calculateCancellation now p = res" and "d = (case cp_depositAmount p of Some d \<Rightarrow> d | None \<Rightarrow> 0)"
    and "is_cents (cp_amountPaid p)" and "is_cents d" and "0 \<le> d" and "d \<le> cp_amountPaid p"
    and "cp_amountPaid p < 10000000000"
    and "0 \<le> cr_cancellationFeePercent res" and "cr_cancellationFeePercent res \<le> 100"
  shows "cr_cancellationFee res + cr_refundAmount res = cp_amountPaid p \<and>
         0 \<le> cr_cancellationFee res \<and> d \<le> cr_refundAmount res \<and>
         is_cents (cr_cancellationFee res) \<and> is_cents (cr_refundAmount res) \<and>
         \<bar>cr_cancellationFee res - (cp_amountPaid p - d) * cr_cancellationFeePercent res / 100\<bar> \<le> 51 / 10000 \<and>
         of_int (cr_refundAmountInPaise res) = cr_refundAmount res * 100 \<and>
         (cr_isEligibleForRefund res \<longleftrightarrow> 0 < cr_refundAmount res)"
proof -
  define paid where "paid = cp_amountPaid p"
  note as = assms(3-7) [folded paid_def]
  obtain c where c: "fee_number (fare_number paid d) (cr_cancellationFeePercent res) = fl c"
    "is_cents c" "0 \<le> c" "c \<le> paid - d"
    "\<bar>c - (paid - d) * cr_cancellationFeePercent res / 100\<bar> \<le> 1 / 200 + 1 / 50000"
    using fee_number_spec [OF as assms(8,9)] by blast
  have r: "refund_number paid (fl c) = fl (paid - c)"
    using as c by (intro refund_number_spec) simp_all
  note am = calculateCancellation_amounts [OF assms(1,2) c(1) [symmetric, unfolded paid_def] r [symmetric, unfolded paid_def]]
  have "cr_cancellationFee res = c" unfolding am(1) using as c by (intro dec_of_cents) simp_all
  moreover have "cr_refundAmount res = paid - c"
    unfolding am(2) paid_def [symmetric] using as c by (intro dec_of_cents) auto
  moreover have "of_int (cr_refundAmountInPaise res) = (paid - c) * 100"
    unfolding am(3) paid_def [symmetric] using as c by (intro paise_exact) auto
  moreover have "cr_isEligibleForRefund res \<longleftrightarrow> 0 < paid - c"
    unfolding am(4) paid_def [symmetric] using as c by (intro fl_pos_iff) simp
  ultimately show ?thesis using as c unfolding paid_def [symmetric] by auto
qed

definition sample_cancel :: "time \<Rightarrow> CalculateCancellationParams" where
  "sample_cancel t =
     \<lparr>cp_startDate = 0, cp_cancellationTime = Some t, cp_amountPaid = 1500, cp_depositAmount = Some 500,
      cp_actorRole = CUSTOMER, cp_isAdminOverride = False, cp_isPendingConfirmation = False,
      cp_cancellationMatrix = None\<rparr>"

section \<open>The schedule of fees\<close>

lemma time_based_default:
  "fst (snd (snd (time_based DEFAULT_CANCELLATION_MATRIX h))) =
     (if h < 0 then 100 else if h < 6 then 50 else if h \<le> 24 then 25 else 0)"
  by (simp add: time_based_def DEFAULT_CANCELLATION_MATRIX_def default_tiers_def tier_matches_def
      after_start_def as_num_def Let_def)

lemma choose_tier_fee:
  "cr_cancellationFeePercent (calculateCancellation now p) =
     fst (snd (snd (choose_tier p (cr_hoursRemaining (calculateCancellation now p)))))"
  by (simp add: calculateCancellation_def Let_def split: prod.splits)

text \<open>
  The default schedule. Without a configured matrix a customer pays nothing more than 24 hours
  before pickup, 25 per cent from 24 down to 6 hours (exactly 24 hours included), 50 per cent below
  6 hours and everything after the start; a cancellation by the vendor, of a booking that is not
  confirmed yet, or overridden by an administrator is free at any time.
\<close>

theorem default_fee_schedule:
  "cp_cancellationMatrix p = None \<Longrightarrow>
   cr_cancellationFeePercent (calculateCancellation now p) =
     (let h = cr_hoursRemaining (calculateCancellation now p)
      in if cp_isPendingConfirmation p \<or> cp_actorRole p = VENDOR \<or> (cp_actorRole p = ADMIN \<and> cp_isAdminOverride p)
         then 0
         else if h < 0 then 100 else if h < 6 then 50 else if h \<le> 24 then 25 else 0)"
  unfolding choose_tier_fee by (simp add: choose_tier_def time_based_default Let_def)

lemma cancellation_splits_payment_witness:
  "cr_cancellationFee (calculateCancellation 0 (sample_cancel 5)) +
     cr_refundAmount (calculateCancellation 0 (sample_cancel 5)) = 1500"
  using cancellation_splits_payment [of 0 "sample_cancel 5" _ 500, OF refl]
    time_based_default is_cents_of_int [of 1500] is_cents_of_int [of 500]
  by (simp add: sample_cancel_def choose_tier_fee choose_tier_def)

lemma default_fee_schedule_witness:
  "cr_cancellationFeePercent (calculateCancellation 0 ((sample_cancel 5)\<lparr>cp_actorRole := VENDOR\<rparr>)) = 0"
  using default_fee_schedule [of "(sample_cancel 5)\<lparr>cp_actorRole := VENDOR\<rparr>" 0]
  by (simp add: sample_cancel_def)

text \<open>What a validated matrix promises.\<close>

definition matrix_ok :: "CancellationMatrixConfig \<Rightarrow> CancellationTier list \<Rightarrow> rat \<Rightarrow> bool" where
  "matrix_ok m ts a \<longleftrightarrow>
     cm_tiers m = Some ts \<and> ts \<noteq> [] \<and> cm_afterStartFeePercent m = Some (JNum a) \<and> a \<le> 100 \<and>
     sorted (map (\<lambda>t. - ct_minHoursBeforePickup t) ts) \<and> distinct (map ct_minHoursBeforePickup ts) \<and>
     sorted (map ct_feePercent ts) \<and>
     (\<forall>t \<in> set ts. 0 \<le> ct_minHoursBeforePickup t \<and> 0 \<le> ct_feePercent t \<and> ct_feePercent t \<le> a)"

lemma parse_tier_ok:
  "parse_tier seen t = Inr p \<Longrightarrow> 0 \<le> pt_minHours p \<and> 0 \<le> pt_fee p \<and> pt_minHours p \<notin> set seen"
  by (auto simp: parse_tier_def split: json.splits option.splits if_splits)

lemma parse_tiers_ok:
  "parse_tiers seen ts = Inr ps \<Longrightarrow>
   length ps = length ts \<and> (\<forall>p \<in> set ps. 0 \<le> pt_minHours p \<and> 0 \<le> pt_fee p \<and> pt_minHours p \<notin> set seen) \<and>
   distinct (map pt_minHours ps)"
proof (induction seen ts arbitrary: ps rule: parse_tiers.induct)
  case (2 seen t ts)
  from "2.prems" obtain p qs where p: "parse_tier seen t = Inr p"
    and q: "parse_tiers (pt_minHours p # seen) ts = Inr qs" and ps: "ps = p # qs"
    by (auto simp: bindR_Inr_iff)
  from "2.IH" [OF q] parse_tier_ok [OF p] show ?case unfolding ps by auto
qed simp

lemma fees_increase_sorted: "fees_increase ps \<Longrightarrow> sorted (map pt_fee ps)"
proof (induction ps rule: fees_increase.induct)
  case (1 a b ts)
  then show ?case by auto
qed simp_all

lemma finish_tier_simps [simp]:
  "ct_minHoursBeforePickup (finish_tier p) = pt_minHours p" "ct_feePercent (finish_tier p) = pt_fee p"
  by (simp_all add: finish_tier_def)

lemma check_after_start_Inr:
  "check_after_start j fees = Inr a \<Longrightarrow> 0 \<le> a \<and> a \<le> 100 \<and> \<not> a < Max (set fees)"
  by (auto simp: check_after_start_def split: json.splits option.splits if_splits)

lemma validate_ok:
  assumes "validateCancellationMatrixConfig payload = Inr m"
  obtains ts a where "matrix_ok m ts a"
proof -
  from assms obtain t ts ps a where ps: "parse_tiers [] (t # ts) = Inr ps"
    and inc: "fees_increase (sort_key (\<lambda>p. - pt_minHours p) ps)"
    and ca: "check_after_start (field ''afterStartFeePercent'' payload) (map pt_fee ps) = Inr a"
    and m: "cm_tiers m = Some (map finish_tier (sort_key (\<lambda>p. - pt_minHours p) ps))"
      "cm_afterStartFeePercent m = Some (JNum a)"
    by (auto simp: validateCancellationMatrixConfig_def Let_def bindR_Inr_iff simp del: parse_tiers.simps
        split: json.splits option.splits list.splits if_splits)
  note a = conjunct1 [OF conjunct2 [OF check_after_start_Inr [OF ca]]]
    conjunct2 [OF conjunct2 [OF check_after_start_Inr [OF ca]]]
  define sd where "sd = sort_key (\<lambda>p. - pt_minHours p) ps"
  note ok = parse_tiers_ok [OF ps]
  have "pt_fee p \<le> a" if "p \<in> set ps" for p
    using a(2) that by (simp add: not_less) (meson Max_ge finite_imageI finite_set image_eqI order_trans)
  moreover have "sorted (map (\<lambda>p. - pt_minHours p) sd)" unfolding sd_def by (rule sorted_sort_key)
  moreover have "distinct (map pt_minHours sd)"
    using ok by (simp add: sd_def distinct_map)
  moreover have "set sd = set ps" by (simp add: sd_def)
  moreover have "ps \<noteq> []" using ok by auto
  ultimately have "matrix_ok m (map finish_tier sd) a"
    using ok a(1) m fees_increase_sorted [OF inc] unfolding matrix_ok_def sd_def [symmetric]
    by (auto simp: comp_def)
  then show ?thesis by (rule that)
qed

definition fee_or :: "rat \<Rightarrow> CancellationTier option \<Rightarrow> rat" where
  "fee_or a t = (case t of Some t \<Rightarrow> ct_feePercent t | None \<Rightarrow> a)"

lemma find_fee_mono:
  assumes "sorted (map ct_feePercent ts)" "\<forall>t \<in> set ts. ct_feePercent t \<le> a"
    and "\<And>t. t \<in> set ts \<Longrightarrow> Q t \<Longrightarrow> P t"
  shows "fee_or a (List.find P ts) \<le> fee_or a (List.find Q ts)"
  using assms
proof (induction ts)
  case (Cons t ts)
  have "ct_feePercent t \<le> fee_or a (List.find Q ts)"
    using Cons.prems(1,2) by (cases "List.find Q ts") (auto simp: fee_or_def dest: find_Some_D)
  with Cons show ?case by (auto simp: fee_or_def)
qed simp

lemma time_based_ok:
  assumes "matrix_ok m ts a"
  shows "fst (snd (snd (time_based m h))) =
    (if h < 0 then a else fee_or a (List.find (tier_matches h) ts))"
  using assms sort_key_id_if_sorted [of "\<lambda>t. - ct_minHoursBeforePickup t" ts]
  by (auto simp: matrix_ok_def time_based_def after_start_def as_num_def fee_or_def Let_def split: option.splits)

lemma tier_matches_mono: "h2 \<le> h1 \<Longrightarrow> tier_matches h2 t \<Longrightarrow> tier_matches h1 t"
  by (auto simp: tier_matches_def split: if_splits)

lemma find_fee_le:
  "\<forall>t \<in> set ts. ct_feePercent t \<le> a \<Longrightarrow> fee_or a (List.find P ts) \<le> a"
  by (cases "List.find P ts") (auto simp: fee_or_def dest: find_Some_D)

lemma find_fee_nonneg:
  "\<forall>t \<in> set ts. 0 \<le> ct_feePercent t \<Longrightarrow> 0 \<le> a \<Longrightarrow> 0 \<le> fee_or a (List.find P ts)"
  by (cases "List.find P ts") (auto simp: fee_or_def dest: find_Some_D)

text \<open>
  The two halves of the policy fit. For any JSON the validator accepts as the cancellation
  matrix, the percentage charged lies between 0 and 100 and never decreases as pickup nears: of two
  cancellations judged by the clock, the one with fewer hours left is charged at least as much.
\<close>

theorem validated_matrix_fee_monotone:
  assumes "validateCancellationMatrixConfig payload = Inr m"
    and "h2 \<le> h1"
  shows "0 \<le> fst (snd (snd (time_based m h1))) \<and>
         fst (snd (snd (time_based m h1))) \<le> fst (snd (snd (time_based m h2))) \<and>
         fst (snd (snd (time_based m h2))) \<le> 100"
proof -
  obtain ts a where ok: "matrix_ok m ts a" using validate_ok [OF assms(1)] .
  then have ts: "sorted (map ct_feePercent ts)" "\<forall>t \<in> set ts. ct_feePercent t \<le> a" "a \<le> 100"
    "\<forall>t \<in> set ts. 0 \<le> ct_feePercent t" "0 \<le> a"
    unfolding matrix_ok_def by (auto simp: neq_Nil_conv)
  have "fee_or a (List.find (tier_matches h1) ts) \<le> fee_or a (List.find (tier_matches h2) ts)"
    using ts(1,2) tier_matches_mono [OF assms(2)] by (rule find_fee_mono)
  moreover note find_fee_le [OF ts(2)] find_fee_nonneg [OF ts(4,5)]
  ultimately show ?thesis
    using assms(2) ts(3,5) unfolding time_based_ok [OF ok] by (auto intro: order_trans)
qed

definition sample_matrix :: json where
  "sample_matrix = JObj [(''tiers'', JArr
     [JObj [(''minHoursBeforePickup'', JNum 48), (''feePercent'', JNum 0), (''tier'', JStr ''FREE''), (''description'', JStr ''d'')],
      JObj [(''minHoursBeforePickup'', JNum 0), (''feePercent'', JNum 40), (''tier'', JStr ''LATE''), (''description'', JStr ''d'')]]),
     (''afterStartFeePercent'', JNum 90)]"

lemma sample_matrix_valid: "\<exists>m. validateCancellationMatrixConfig sample_matrix = Inr m"
  by (simp add: sample_matrix_def validateCancellationMatrixConfig_def field_def parse_tier_def check_after_start_def Let_def
      trim_def is_blank_def)

lemma validated_matrix_fee_monotone_witness:
  "\<exists>m. validateCancellationMatrixConfig sample_matrix = Inr m \<and>
     fst (snd (snd (time_based m 50))) \<le> fst (snd (snd (time_based m 3)))"
proof -
  obtain m where m: "validateCancellationMatrixConfig sample_matrix = Inr m" using sample_matrix_valid ..
  show ?thesis using validated_matrix_fee_monotone [OF m, of 3 50] m by simp
qed

text \<open>
  The tier after the start begins 18 seconds late. The hours left are rounded to two decimals
  before they are compared with zero, so a cancellation 17 seconds after the pickup time counts as
  zero hours before it and is charged 50 instead of 100 per cent.
\<close>

theorem after_start_grace:
  "cr_hoursRemaining (calculateCancellation 0 (sample_cancel 17000)) = 0 \<and>
   cr_cancellationFeePercent (calculateCancellation 0 (sample_cancel 17000)) = 50"
proof -
  have "\<bar>fl (- 17000 / 3600000) - (- 17000 / 3600000)\<bar> \<le> 1 / 2 ^ 53" by (rule js.flt_abs_err) simp
  also have "\<dots> \<le> (1 / 10000 :: rat)" by simp
  finally have "\<bar>fl (- 17000 / 3600000)\<bar> < 1 / 200" by linarith
  then have "round2 (fl (- 17000 / 3600000)) = 0" by (intro round2_to_cents is_cents_0) (simp only: diff_zero)
  then have h: "hours_between 0 17000 = 0" by (simp add: hours_between_def to_fixed2_def)
  then have "cr_hoursRemaining (calculateCancellation 0 (sample_cancel 17000)) = 0"
    by (simp add: calculateCancellation_def sample_cancel_def Let_def split: prod.splits)
  then show ?thesis unfolding choose_tier_fee
    by (simp add: time_based_default choose_tier_def sample_cancel_def)
qed

end
