(* ===== verification/Fare.thy ===== *)
theory Fare
  imports JsNumber "HOL-Library.Multiset"
begin

text \<open>
  The fare of a trip (\<open>common/fare-calculator.service.ts\<close>), the validation of the multi-day discounts
  it applies (\<open>validateDurationDiscountsConfig\<close>), the choice of the commission rule
  (\<open>common/commission-resolver.service.ts\<close>) and the split of a marketplace fare
  (\<open>finance/marketplace-commission.service.ts\<close>). The fare is computed with decimal.js, each result
  rounded by \<open>prec\<close>, the split in JavaScript numbers, each result rounded by \<open>fl\<close>. The arguments
  of the fare are the Decimals built from the numbers, strings or Decimals passed in.
\<close>

datatype CarCategory = HATCHBACK | SEDAN | SUV | LUXURY | TEMPO_TRAVELLER | MINI_BUS
datatype TripType = LOCAL | OUTSTATION | AIRPORT_TRANSFER | SELF_DRIVE

section \<open>The fare\<close>

record DurationDiscountTier =
  dd_minDays :: rat
  dd_discountPercent :: rat

record fare =
  fr_baseFare :: rat
  fr_originalBaseFare :: rat
  fr_discountAmount :: rat
  fr_discountPercentage :: rat
  fr_platformFee :: rat
  fr_gst :: rat
  fr_total :: rat
  fr_netToVendor :: rat

text \<open>\<open>None\<close> is a discount table that is missing or not an array.\<close>

definition tier_discount :: "rat \<Rightarrow> DurationDiscountTier list \<Rightarrow> rat" where
  "tier_discount durationDays tiers =
     (case List.find (\<lambda>t. durationDays \<ge> dd_minDays t) (sort_key (\<lambda>t. - dd_minDays t) tiers) of
        Some t \<Rightarrow> if dd_discountPercent t > 0 then dd_discountPercent t else 0
      | None \<Rightarrow> 0)"

definition duration_discount ::
  "rat \<Rightarrow> rat \<Rightarrow> rat \<Rightarrow> DurationDiscountTier list option \<Rightarrow> rat" where
  "duration_discount durationDays weekly monthly durationDiscounts =
     (case durationDiscounts of
        Some (t # ts) \<Rightarrow> tier_discount durationDays (t # ts)
      | _ \<Rightarrow>
        if durationDays \<ge> 30 \<and> fl monthly > 0 then monthly
        else if durationDays \<ge> 7 \<and> fl weekly > 0 then weekly
        else 0)"

definition fare_discount :: "(rat \<Rightarrow> rat) \<Rightarrow> rat \<Rightarrow> rat \<Rightarrow> rat \<times> rat" where
  "fare_discount prec initial pct =
     (if pct > 0 then let d = prec (initial * prec (pct / 100)) in (d, prec (initial - d)) else (0, initial))"

definition calculateFare ::
  "(rat \<Rightarrow> rat) \<Rightarrow> rat \<Rightarrow> rat \<Rightarrow> rat \<Rightarrow> rat \<Rightarrow> rat \<Rightarrow> rat \<Rightarrow> rat \<Rightarrow> rat \<Rightarrow> DurationDiscountTier list option \<Rightarrow> fare" where
  "calculateFare prec distanceKm basePackagePrice pricePerKm commissionPercent durationDays weekly monthly
     gstRatePercent durationDiscounts =
     (let commPct = prec (commissionPercent / 100);
          initialBaseFare = prec (prec (distanceKm * pricePerKm) + basePackagePrice);
          pct = duration_discount durationDays weekly monthly durationDiscounts;
          (discountAmount, baseFare) = fare_discount prec initialBaseFare pct;
          platformFee = prec (baseFare * commPct);
          gst = prec (platformFee * prec (gstRatePercent / 100));
          total = prec (prec (baseFare + platformFee) + gst)
      in \<lparr>fr_baseFare = round2 baseFare, fr_originalBaseFare = round2 initialBaseFare,
          fr_discountAmount = round2 discountAmount, fr_discountPercentage = fl pct,
          fr_platformFee = round2 platformFee, fr_gst = round2 gst, fr_total = round2 total,
          fr_netToVendor = round2 baseFare\<rparr>)"

section \<open>Validation of the multi-day discounts\<close>

definition is_integer :: "rat \<Rightarrow> bool" where
  "is_integer x \<longleftrightarrow> of_int \<lfloor>x\<rfloor> = x"

definition parse_discount :: "rat list \<Rightarrow> json \<Rightarrow> DurationDiscountTier result" where
  "parse_discount seen tier =
     (case tier of
        JArr _ \<Rightarrow> Inl (BadRequestException ''Tier is missing required field minDays.'')
      | JObj _ \<Rightarrow>
         (case field ''minDays'' tier of
            None \<Rightarrow> Inl (BadRequestException ''Tier is missing required field minDays.'')
          | Some JNull \<Rightarrow> Inl (BadRequestException ''Tier is missing required field minDays.'')
          | Some (JNum d) \<Rightarrow>
              if \<not> is_integer d \<or> d < 1 then Inl (BadRequestException ''minDays must be an integer >= 1.'')
              else if d \<in> set seen then Inl (BadRequestException ''Duplicate duration tier'')
              else (case field ''discountPercent'' tier of
                      None \<Rightarrow> Inl (BadRequestException ''Tier is missing required field discountPercent.'')
                    | Some JNull \<Rightarrow> Inl (BadRequestException ''Tier is missing required field discountPercent.'')
                    | Some (JNum p) \<Rightarrow>
                        if p < 0 \<or> p > 100
                        then Inl (BadRequestException ''discountPercent must be a number between 0 and 100.'')
                        else Inr \<lparr>dd_minDays = d, dd_discountPercent = p\<rparr>
                    | _ \<Rightarrow> Inl (BadRequestException ''discountPercent must be a number between 0 and 100.''))
          | _ \<Rightarrow> Inl (BadRequestException ''minDays must be an integer >= 1.''))
      | _ \<Rightarrow> Inl (BadRequestException ''Tier must be an object with minDays and discountPercent.''))"

fun parse_discounts :: "rat list \<Rightarrow> json list \<Rightarrow> DurationDiscountTier list result" where
  "parse_discounts seen [] = Inr []"
| "parse_discounts seen (t # ts) =
     bindR (parse_discount seen t) (\<lambda>p. bindR (parse_discounts (dd_minDays p # seen) ts) (\<lambda>ps. Inr (p # ps)))"

fun discounts_increase :: "DurationDiscountTier list \<Rightarrow> bool" where
  "discounts_increase (a # b # ts) = (dd_discountPercent a \<le> dd_discountPercent b \<and> discounts_increase (b # ts))"
| "discounts_increase _ = True"

definition discount_rows :: "json \<Rightarrow> json list option" where
  "discount_rows payload =
     (case payload of
        JArr ts \<Rightarrow> Some ts
      | JObj _ \<Rightarrow> (case field ''tiers'' payload of Some (JArr ts) \<Rightarrow> Some ts | _ \<Rightarrow> None)
      | _ \<Rightarrow> None)"

definition validateDurationDiscountsConfig :: "json \<Rightarrow> DurationDiscountTier list result" where
  "validateDurationDiscountsConfig payload =
     (case discount_rows payload of
        None \<Rightarrow> Inl (BadRequestException ''pricing.duration_discounts must be an array of tiers'')
      | Some [] \<Rightarrow> Inl (BadRequestException ''pricing.duration_discounts must contain at least one tier.'')
      | Some ts \<Rightarrow>
          bindR (parse_discounts [] ts) (\<lambda>ps.
            let sorted = sort_key dd_minDays ps
            in if \<not> discounts_increase sorted then Inl (BadRequestException ''Contradictory discount tiers'')
               else Inr sorted))"

section \<open>The commission rule\<close>

record CommissionConfig =
  cc_city :: "string option"
  cc_carCategory :: "CarCategory option"
  cc_tripType :: "TripType option"
  cc_percentage :: rat

text \<open>\<open>mode: 'insensitive'\<close> compares without case.\<close>

definition rule_applies :: "string \<Rightarrow> CarCategory \<Rightarrow> TripType \<Rightarrow> CommissionConfig \<Rightarrow> bool" where
  "rule_applies city category trip r \<longleftrightarrow>
     (case cc_city r of None \<Rightarrow> True | Some c \<Rightarrow> to_lower c = to_lower city) \<and>
     (cc_carCategory r = None \<or> cc_carCategory r = Some category) \<and>
     (cc_tripType r = None \<or> cc_tripType r = Some trip)"

definition rule_score :: "CommissionConfig \<Rightarrow> nat" where
  "rule_score r =
     (if cc_city r \<noteq> None then 4 else 0) + (if cc_carCategory r \<noteq> None then 2 else 0) +
     (if cc_tripType r \<noteq> None then 1 else 0)"

text \<open>\<open>cfg\<close> is \<open>defaultPercent\<close> of the configuration, if there is a service and it returns a number.\<close>

definition default_commission :: "rat option \<Rightarrow> rat" where
  "default_commission cfg =
     (case cfg of Some x \<Rightarrow> if 0 \<le> x \<and> x \<le> 100 then dec_of_num x else 10 | None \<Rightarrow> 10)"

definition resolveCommissionPercent ::
  "rat option \<Rightarrow> CommissionConfig list \<Rightarrow> string \<Rightarrow> CarCategory \<Rightarrow> TripType \<Rightarrow> rat" where
  "resolveCommissionPercent cfg table city category trip =
     (case sort_key (\<lambda>r. - int (rule_score r)) (filter (rule_applies city category trip) table) of
        [] \<Rightarrow> default_commission cfg
      | r # _ \<Rightarrow> cc_percentage r)"

section \<open>The split of a marketplace fare\<close>

datatype SalesChannel =
  CUSTOMER_APP | WEB_MARKETPLACE | VENDOR_DIRECT | BRANCH_DESK | ADMIN_PORTAL | CORPORATE_B2B | AFFILIATE_PARTNER
datatype PricingRuleScope = PLATFORM | VENDOR | BRANCH | VEHICLE_CLASS

record MarketplaceCommissionRule =
  mr_scope :: PricingRuleScope
  mr_vendorId :: "id option"
  mr_branchId :: "id option"
  mr_vehicleClass :: "CarCategory option"
  mr_channel :: SalesChannel
  mr_platformPct :: rat
  mr_vendorPct :: rat
  mr_branchPct :: rat
  mr_fixedPlatformFee :: rat
  mr_gatewayFeeRecovery :: rat
  mr_taxGstPct :: rat
  mr_isActive :: bool

record CommissionCalculationContext =
  cx_vendorId :: id
  cx_branchId :: "id option"
  cx_vehicleClass :: CarCategory
  cx_channel :: "SalesChannel option"
  cx_grossAmount :: rat
  cx_discountAmount :: "rat option"
  cx_subsidyAmount :: "rat option"

record MultilateralCommissionBreakdown =
  mb_grossAmount :: rat
  mb_discountAmount :: rat
  mb_taxableAmount :: rat
  mb_gstAmount :: rat
  mb_totalCustomerPayable :: rat
  mb_platformFee :: rat
  mb_vendorNetPayable :: rat
  mb_branchShare :: rat
  mb_gatewayFeeRecovery :: rat
  mb_promotionalSubsidy :: rat
  mb_appliedRuleScope :: PricingRuleScope
  mb_channel :: SalesChannel
  mb_platformPct :: rat
  mb_vendorPct :: rat
  mb_branchPct :: rat
  mb_gstPct :: rat
  mb_isBalanced :: bool

definition resolveCommissionRule ::
  "CommissionCalculationContext \<Rightarrow> SalesChannel \<Rightarrow> MarketplaceCommissionRule list \<Rightarrow>
   MarketplaceCommissionRule option" where
  "resolveCommissionRule ctx channel table =
     (let common = (\<lambda>r. mr_vehicleClass r = Some (cx_vehicleClass ctx) \<and> mr_channel r = channel \<and> mr_isActive r);
          branch = (if str_truthy (cx_branchId ctx)
                    then List.find (\<lambda>r. mr_branchId r = cx_branchId ctx \<and> common r) table else None);
          vendor = (if cx_vendorId ctx \<noteq> []
                    then List.find (\<lambda>r. mr_vendorId r = Some (cx_vendorId ctx) \<and> common r) table else None)
      in case branch of
           Some r \<Rightarrow> Some r
         | None \<Rightarrow>
           (case vendor of
              Some r \<Rightarrow> Some r
            | None \<Rightarrow> List.find (\<lambda>r. mr_scope r = PLATFORM \<and> mr_channel r = channel \<and> mr_isActive r) table))"

text \<open>\<open>Math.round(x * 100) / 100\<close> and \<open>(amount * pct) / 100\<close>.\<close>

definition js2 :: "rat \<Rightarrow> rat" where
  "js2 x = fl (of_int (js_round (fl (x * 100))) / 100)"

definition pct_of :: "rat \<Rightarrow> rat \<Rightarrow> rat" where
  "pct_of amount pct = fl (fl (amount * pct) / 100)"

definition calculateCommission ::
  "MarketplaceCommissionRule list \<Rightarrow> CommissionCalculationContext \<Rightarrow> MultilateralCommissionBreakdown" where
  "calculateCommission table ctx =
     (let channel = (case cx_channel ctx of Some c \<Rightarrow> c | None \<Rightarrow> CUSTOMER_APP);
          rule = resolveCommissionRule ctx channel table;
          pick = (\<lambda>f d. case rule of Some r \<Rightarrow> fl (f r) | None \<Rightarrow> d);
          platformPct = pick mr_platformPct 15;
          vendorPct = pick mr_vendorPct 80;
          branchPct = pick mr_branchPct 5;
          fixedFee = pick mr_fixedPlatformFee 0;
          gatewayFeePct = pick mr_gatewayFeeRecovery 2;
          gstPct = pick mr_taxGstPct 18;
          discount = or_num (cx_discountAmount ctx) 0;
          taxable = max 0 (fl (cx_grossAmount ctx - discount));
          gstAmount = js2 (pct_of taxable gstPct);
          totalCustomerPayable = js2 (fl (taxable + gstAmount));
          platformFee = js2 (fl (pct_of taxable platformPct + fixedFee));
          branchShare = js2 (pct_of taxable branchPct);
          vendorNetPayable = js2 (fl (fl (taxable - platformFee) - branchShare));
          sumSplits = js2 (fl (fl (platformFee + branchShare) + vendorNetPayable))
      in \<lparr>mb_grossAmount = cx_grossAmount ctx, mb_discountAmount = discount, mb_taxableAmount = taxable,
          mb_gstAmount = gstAmount, mb_totalCustomerPayable = totalCustomerPayable,
          mb_platformFee = platformFee, mb_vendorNetPayable = vendorNetPayable,
          mb_branchShare = branchShare,
          mb_gatewayFeeRecovery = js2 (pct_of totalCustomerPayable gatewayFeePct),
          mb_promotionalSubsidy = or_num (cx_subsidyAmount ctx) 0,
          mb_appliedRuleScope = (case rule of Some r \<Rightarrow> mr_scope r | None \<Rightarrow> PLATFORM),
          mb_channel = channel, mb_platformPct = platformPct, mb_vendorPct = vendorPct,
          mb_branchPct = branchPct, mb_gstPct = gstPct,
          mb_isBalanced = (\<bar>fl (sumSplits - taxable)\<bar> < fl (5 / 100))\<rparr>)"

section \<open>The split adds up\<close>

lemma js2_near:
  assumes "\<bar>x\<bar> \<le> 10000000000"
  shows "\<bar>js2 x - x\<bar> \<le> 501 / 100000"
proof -
  define r where "r = js_round (fl (x * 100))"
  have "\<bar>fl (x * 100) - x * 100\<bar> \<le> 1000000000000 / 2 ^ 53" using assms by (intro js.flt_abs_err) simp
  also have "\<dots> \<le> (1 / 5000 :: rat)" by simp
  finally have "\<bar>of_int r - x * 100\<bar> \<le> 1 / 2 + 1 / 5000"
    unfolding r_def js_round_def by linarith
  then have rx: "\<bar>of_int r / 100 - x\<bar> \<le> 1 / 200 + 1 / 500000" by linarith
  then have "\<bar>of_int r / 100 :: rat\<bar> \<le> 20000000000" using assms by linarith
  then have "\<bar>fl (of_int r / 100) - of_int r / 100\<bar> \<le> 20000000000 / 2 ^ 53" by (rule js.flt_abs_err)
  also have "\<dots> \<le> (1 / 400000 :: rat)" by simp
  finally show ?thesis using rx unfolding js2_def r_def [symmetric] by linarith
qed

lemma fl_near10:
  assumes "\<bar>x\<bar> \<le> 10000000000"
  shows "\<bar>fl x - x\<bar> \<le> 1 / 800000"
proof -
  have "\<bar>fl x - x\<bar> \<le> 10000000000 / 2 ^ 53" using assms by (rule js.flt_abs_err)
  also have "\<dots> \<le> (1 / 800000 :: rat)" by simp
  finally show ?thesis .
qed

lemma pct_of_near:
  assumes "0 \<le> a" "a \<le> 1000000000" "0 \<le> p" "p \<le> 101"
  shows "\<bar>pct_of a p - a * p / 100\<bar> \<le> 1 / 10000" "0 \<le> pct_of a p" "pct_of a p \<le> 1100000000"
proof -
  have "a * p \<le> 1000000000 * 101" using assms by (intro mult_mono) simp_all
  then have ap: "0 \<le> a * p" "a * p \<le> 101000000000" using assms by simp_all
  have "\<bar>fl (a * p) - a * p\<bar> \<le> 101000000000 / 2 ^ 53" using ap by (intro js.flt_abs_err) simp
  also have "\<dots> \<le> (1 / 20000 :: rat)" by simp
  finally have f: "\<bar>fl (a * p) - a * p\<bar> \<le> 1 / 20000" .
  then have fd: "\<bar>fl (a * p) / 100 - a * p / 100\<bar> \<le> 1 / 2000000" by linarith
  moreover have "\<bar>fl (a * p) / 100\<bar> \<le> 10000000000" using f ap by linarith
  note fl_near10 [OF this]
  ultimately show e: "\<bar>pct_of a p - a * p / 100\<bar> \<le> 1 / 10000" unfolding pct_of_def by linarith
  show "0 \<le> pct_of a p" unfolding pct_of_def using ap by (intro js.flt_nonneg divide_nonneg_nonneg) simp_all
  show "pct_of a p \<le> 1100000000" using e ap by linarith
qed

lemma split_near:
  assumes t: "0 \<le> t" "t \<le> 1000000000" and p: "0 \<le> p" "p \<le> 101" and b: "0 \<le> b" "b \<le> 101"
    and f: "0 \<le> f" "f \<le> 1000000000"
    and pf: "pf = js2 (fl (pct_of t p + f))" and bs: "bs = js2 (pct_of t b)"
    and vn: "vn = js2 (fl (fl (t - pf) - bs))"
  shows "\<bar>pf + bs + vn - t\<bar> \<le> 502 / 100000" "\<bar>js2 (fl (fl (pf + bs) + vn)) - t\<bar> \<le> 1004 / 100000"
    "\<bar>pf - (t * p / 100 + f)\<bar> \<le> 52 / 10000" "\<bar>bs - t * b / 100\<bar> \<le> 52 / 10000"
proof -
  note np = pct_of_near [OF t p] and nb = pct_of_near [OF t b]
  have x1: "\<bar>pct_of t p + f\<bar> \<le> 10000000000" using np f by linarith
  note e1 = fl_near10 [OF x1]
  have x2: "\<bar>fl (pct_of t p + f)\<bar> \<le> 10000000000" using e1 np f by linarith
  note e2 = js2_near [OF x2, folded pf]
  show "\<bar>pf - (t * p / 100 + f)\<bar> \<le> 52 / 10000"
    using e1 e2 np by linarith
  have x3: "\<bar>pct_of t b\<bar> \<le> 10000000000" using nb by linarith
  note e3 = js2_near [OF x3, folded bs]
  show "\<bar>bs - t * b / 100\<bar> \<le> 52 / 10000" using e3 nb by linarith
  have pfb: "\<bar>pf\<bar> \<le> 2200000000" using e1 e2 np f by linarith
  have bsb: "\<bar>bs\<bar> \<le> 1200000000" using e3 nb by linarith
  have x4: "\<bar>t - pf\<bar> \<le> 10000000000" using pfb t by linarith
  note e4 = fl_near10 [OF x4]
  have x5: "\<bar>fl (t - pf) - bs\<bar> \<le> 10000000000" using e4 pfb bsb t by linarith
  note e5 = fl_near10 [OF x5]
  have x6: "\<bar>fl (fl (t - pf) - bs)\<bar> \<le> 10000000000" using e4 e5 pfb bsb t by linarith
  note e6 = js2_near [OF x6, folded vn]
  show s: "\<bar>pf + bs + vn - t\<bar> \<le> 502 / 100000" using e4 e5 e6 by linarith
  have vnb: "\<bar>vn\<bar> \<le> 5000000000" using s pfb bsb t by linarith
  have x7: "\<bar>pf + bs\<bar> \<le> 10000000000" using pfb bsb by linarith
  note e7 = fl_near10 [OF x7]
  have x8: "\<bar>fl (pf + bs) + vn\<bar> \<le> 10000000000" using e7 pfb bsb vnb by linarith
  note e8 = fl_near10 [OF x8]
  have x9: "\<bar>fl (fl (pf + bs) + vn)\<bar> \<le> 10000000000" using e7 e8 pfb bsb vnb s t by linarith
  note e9 = js2_near [OF x9]
  show "\<bar>js2 (fl (fl (pf + bs) + vn)) - t\<bar> \<le> 1004 / 100000" using e7 e8 e9 s by linarith
qed

definition rule_in_bounds :: "MarketplaceCommissionRule \<Rightarrow> bool" where
  "rule_in_bounds r \<longleftrightarrow>
     0 \<le> mr_platformPct r \<and> mr_platformPct r \<le> 100 \<and> 0 \<le> mr_branchPct r \<and> mr_branchPct r \<le> 100 \<and>
     0 \<le> mr_fixedPlatformFee r \<and> mr_fixedPlatformFee r \<le> 100000000"

lemma resolveCommissionRule_mem: "resolveCommissionRule ctx ch table = Some r \<Longrightarrow> r \<in> set table"
  by (auto simp: resolveCommissionRule_def Let_def split: option.splits if_splits dest: find_Some_D)

lemma fl_pct: "0 \<le> x \<Longrightarrow> x \<le> 100 \<Longrightarrow> 0 \<le> fl x \<and> fl x \<le> 101"
  using fl_near10 [of x] js.flt_nonneg [of x] by linarith

lemma fl_fixed: "0 \<le> x \<Longrightarrow> x \<le> 100000000 \<Longrightarrow> 0 \<le> fl x \<and> fl x \<le> 1000000000"
  using fl_near10 [of x] js.flt_nonneg [of x] by linarith

text \<open>
  The split of a marketplace fare adds up. For a taxable fare up to \<open>10 ^ 9\<close> and rules with
  percentages from 0 to 100 and a fixed fee up to \<open>10 ^ 8\<close>, the shares of platform, branch and vendor
  add up to the taxable fare within 0.00502, each share of platform and branch is its percentage
  within 0.0052, and the integrity flag is set: the check it reports never fails.
\<close>

theorem commission_split_balanced:
  assumes "\<forall>r \<in> set table. rule_in_bounds r" and "res = calculateCommission table ctx"
    and "mb_taxableAmount res \<le> 1000000000"
  shows "mb_isBalanced res \<and>
    \<bar>mb_platformFee res + mb_branchShare res + mb_vendorNetPayable res - mb_taxableAmount res\<bar> \<le> 502 / 100000 \<and>
    \<bar>mb_branchShare res - mb_taxableAmount res * mb_branchPct res / 100\<bar> \<le> 52 / 10000"
proof -
  define rule where "rule = resolveCommissionRule ctx (case cx_channel ctx of Some c \<Rightarrow> c | None \<Rightarrow> CUSTOMER_APP) table"
  define p where "p = (case rule of Some r \<Rightarrow> fl (mr_platformPct r) | None \<Rightarrow> 15)"
  define b where "b = (case rule of Some r \<Rightarrow> fl (mr_branchPct r) | None \<Rightarrow> 5)"
  define f where "f = (case rule of Some r \<Rightarrow> fl (mr_fixedPlatformFee r) | None \<Rightarrow> 0)"
  define t where "t = mb_taxableAmount res"
  define pf where "pf = js2 (fl (pct_of t p + f))"
  define bs where "bs = js2 (pct_of t b)"
  define vn where "vn = js2 (fl (fl (t - pf) - bs))"
  have "rule_in_bounds r" if "rule = Some r" for r
    using assms(1) resolveCommissionRule_mem that unfolding rule_def by blast
  then have bd: "0 \<le> p" "p \<le> 101" "0 \<le> b" "b \<le> 101" "0 \<le> f" "f \<le> 1000000000"
    using fl_pct fl_fixed unfolding p_def b_def f_def rule_in_bounds_def by (auto split: option.splits)
  have t: "0 \<le> t" "t \<le> 1000000000"
    using assms(3) by (simp_all add: t_def assms(2) calculateCommission_def Let_def)
  note near = split_near [OF t bd pf_def bs_def vn_def]
  have eq: "mb_platformFee res = pf" "mb_branchShare res = bs" "mb_vendorNetPayable res = vn"
    "mb_branchPct res = b" "mb_isBalanced res = (\<bar>fl (js2 (fl (fl (pf + bs) + vn)) - t)\<bar> < fl (5 / 100))"
    by (simp_all add: assms(2) calculateCommission_def Let_def pf_def bs_def vn_def p_def b_def f_def t_def rule_def)
  have "\<bar>js2 (fl (fl (pf + bs) + vn)) - t\<bar> \<le> 10000000000" using near(2) by linarith
  from fl_near10 [OF this] near(2) have "\<bar>fl (js2 (fl (fl (pf + bs) + vn)) - t)\<bar> \<le> 2 / 100" by linarith
  moreover have "(2 / 100 :: rat) < fl (5 / 100)" using fl_near10 [of "5 / 100"] by linarith
  ultimately show ?thesis using near(1,4) unfolding eq t_def [symmetric] by auto
qed

definition sample_ctx :: "rat \<Rightarrow> CommissionCalculationContext" where
  "sample_ctx gross =
     \<lparr>cx_vendorId = ''v1'', cx_branchId = None, cx_vehicleClass = SEDAN, cx_channel = None,
      cx_grossAmount = gross, cx_discountAmount = None, cx_subsidyAmount = None\<rparr>"

definition fixed_fee_rule :: MarketplaceCommissionRule where
  "fixed_fee_rule =
     \<lparr>mr_scope = PLATFORM, mr_vendorId = None, mr_branchId = None, mr_vehicleClass = None,
      mr_channel = CUSTOMER_APP, mr_platformPct = 15, mr_vendorPct = 80, mr_branchPct = 5,
      mr_fixedPlatformFee = 50, mr_gatewayFeeRecovery = 2, mr_taxGstPct = 18, mr_isActive = True\<rparr>"

lemma commission_split_balanced_witness:
  "mb_isBalanced (calculateCommission [fixed_fee_rule] (sample_ctx 1000))"
proof -
  have "fl 1000 = 1000" using fl_int [of 1000] by simp
  then have "mb_taxableAmount (calculateCommission [fixed_fee_rule] (sample_ctx 1000)) = 1000"
    by (simp add: calculateCommission_def sample_ctx_def or_num_def Let_def)
  then show ?thesis
    using commission_split_balanced [of "[fixed_fee_rule]" _ "sample_ctx 1000", OF _ refl]
    by (simp add: rule_in_bounds_def fixed_fee_rule_def)
qed

lemma js2_int: "\<bar>n\<bar> < 10 ^ 10 \<Longrightarrow> js2 (of_int n) = of_int n"
proof -
  assume n: "\<bar>n\<bar> < 10 ^ 10"
  have "fl (of_int (n * 100)) = of_int (n * 100)" using n by (intro fl_int) simp
  then have "fl (of_int n * 100) = of_int (n * 100)" by simp
  then have "js_round (fl (of_int n * 100)) = n * 100" unfolding js_round_def by (simp only: floor_half_of_int)
  moreover have "fl (of_int n) = of_int n" using n by (intro fl_int) simp
  ultimately show ?thesis by (simp add: js2_def)
qed

text \<open>
  The share named for the vendor is not what the vendor gets. A rule that gives the vendor 80 per
  cent and the platform 15 per cent plus 50 leaves, of a fare of 40, a vendor payable of minus 18; the
  result still reports 80 per cent as the vendor's effective percentage and is marked balanced.
\<close>

theorem vendor_share_not_applied:
  "mb_vendorNetPayable (calculateCommission [fixed_fee_rule] (sample_ctx 40)) = -18 \<and>
   mb_vendorPct (calculateCommission [fixed_fee_rule] (sample_ctx 40)) = 80"
proof -
  have i: "fl (of_int n) = of_int n" "js2 (of_int n) = of_int n" if "\<bar>n\<bar> < 10 ^ 10" for n
    using that by (intro fl_int js2_int; simp)+
  have f: "fl 600 = 600" "fl 6 = 6" "fl 56 = 56" "js2 56 = 56" "fl 200 = 200" "fl 2 = 2" "js2 2 = 2"
    "fl (- 16) = -16" "fl (-18) = -18" "js2 (-18) = -18" "fl 40 = 40" "fl 15 = 15" "fl 5 = 5" "fl 50 = 50" "fl 80 = 80"
    using i [of 600] i [of 6] i [of 56] i [of 200] i [of 2] i [of "-16"] i [of "-18"] i [of 40] i [of 15]
      i [of 5] i [of 50] i [of 80] by simp_all
  have r: "resolveCommissionRule (sample_ctx 40) CUSTOMER_APP [fixed_fee_rule] = Some fixed_fee_rule"
    by (simp add: resolveCommissionRule_def sample_ctx_def fixed_fee_rule_def)
  show ?thesis
    unfolding calculateCommission_def Let_def
    using r f by (simp add: sample_ctx_def fixed_fee_rule_def or_num_def pct_of_def)
qed

section \<open>The fare adds up\<close>

lemma cents_gap:
  assumes "is_cents x" "\<bar>x\<bar> < of_int (k + 1) / 100"
  shows "\<bar>x\<bar> \<le> of_int k / 100"
proof -
  obtain n :: int where n: "x = of_int n / 100" using assms(1) is_cents_iff by blast
  have "of_int \<bar>n\<bar> < (of_int (k + 1) :: rat)" using assms(2) unfolding n by simp
  then have "\<bar>n\<bar> \<le> k" by (simp only: of_int_less_iff)
  then have "of_int \<bar>n\<bar> \<le> (of_int k :: rat)" by (simp only: of_int_le_iff)
  then show ?thesis unfolding n by simp
qed

context decimal_ctx
begin

lemma prec_near:
  assumes "\<bar>x\<bar> \<le> 100000000000"
  shows "\<bar>prec x - x\<bar> \<le> 1 / 10000000"
proof -
  have "\<bar>x\<bar> / 10 ^ 19 \<le> 100000000000 / 10 ^ 19" using assms by (intro divide_right_mono) simp_all
  also have "\<dots> \<le> (1 / 10000000 :: rat)" by simp
  finally show ?thesis using prec_err [of x] by linarith
qed

lemma prec_rate:
  assumes "0 \<le> p" "p \<le> 100"
  shows "0 \<le> prec (p / 100)" "prec (p / 100) \<le> 101 / 100"
proof -
  show "0 \<le> prec (p / 100)" using assms by (intro prec_nonneg) simp
  have "\<bar>p / 100\<bar> \<le> 100000000000" using assms by simp
  from prec_near [OF this] assms show "prec (p / 100) \<le> 101 / 100" by linarith
qed

lemma rate_product:
  assumes "0 \<le> a" "a \<le> A" "0 \<le> r" "r \<le> 101 / 100" "A \<le> 90000000000"
  shows "0 \<le> prec (a * r)" "prec (a * r) \<le> A * (101 / 100) + 1 / 10000000"
proof -
  have "a * r \<le> A * (101 / 100)" using assms by (intro mult_mono) simp_all
  moreover have "0 \<le> a * r" using assms by simp
  moreover from calculation have "\<bar>a * r\<bar> \<le> 100000000000" using assms(5) by simp
  note prec_near [OF this]
  ultimately show "prec (a * r) \<le> A * (101 / 100) + 1 / 10000000" by linarith
  show "0 \<le> prec (a * r)" using assms by (intro prec_nonneg) simp
qed

text \<open>The unrounded base fare and discount: both non-negative up to the last digit.\<close>

lemma fare_discount_near:
  assumes "0 \<le> i" "i \<le> 3000000000" "pct \<le> 100" "fare_discount prec i pct = (d, b)"
  shows "\<bar>b + d - i\<bar> \<le> 1 / 10000000" "0 \<le> d" "d \<le> 4000000000" "- 1 / 100000 \<le> b" "b \<le> 4000000000"
proof -
  have "\<bar>b + d - i\<bar> \<le> 1 / 10000000 \<and> 0 \<le> d \<and> d \<le> 4000000000 \<and> - 1 / 100000 \<le> b \<and> b \<le> 4000000000"
  proof (cases "pct > 0")
    case False
    with assms show ?thesis by (simp add: fare_discount_def)
  next
    case True
    define r where "r = prec (pct / 100)"
    have d: "d = prec (i * r)" and b: "b = prec (i - d)"
      using assms(4) True by (auto simp: fare_discount_def Let_def r_def)
    have r: "0 \<le> r" "r \<le> 101 / 100" using prec_rate [of pct] True assms(3) by (simp_all add: r_def)
    note rp = rate_product [OF assms(1,2) r, folded d]
    have "\<bar>pct / 100\<bar> \<le> 1" using True assms(3) by simp
    then have "\<bar>pct / 100\<bar> / 10 ^ 19 \<le> 1 / 10 ^ 19" by (intro divide_right_mono) simp_all
    then have r1: "r \<le> 1 + 1 / 10 ^ 19" using prec_err [of "pct / 100"] assms(3) unfolding r_def by linarith
    have "i * r \<le> i * (1 + 1 / 10 ^ 19)" using r1 assms(1) by (rule mult_left_mono)
    also have "\<dots> = i + i / 10 ^ 19" by (simp add: distrib_left)
    also have "\<dots> \<le> i + 1 / 1000000" using assms(2) by simp
    finally have ir: "i * r \<le> i + 1 / 1000000" .
    have "\<bar>i * r\<bar> \<le> 100000000000" using ir assms r by simp
    from prec_near [OF this] have di: "d \<le> i + 1 / 500000" using ir unfolding d by linarith
    have dB: "0 \<le> d" "d \<le> 4000000000" using rp by simp_all
    have "\<bar>i - d\<bar> \<le> 100000000000" using dB assms(1,2) by linarith
    from prec_near [OF this, folded b] di dB assms(1,2) show ?thesis by linarith
  qed
  then show "\<bar>b + d - i\<bar> \<le> 1 / 10000000" "0 \<le> d" "d \<le> 4000000000" "- 1 / 100000 \<le> b" "b \<le> 4000000000"
    by simp_all
qed

lemma rate_product_abs:
  assumes "\<bar>a\<bar> \<le> 9000000000" "0 \<le> r" "r \<le> 101 / 100"
  shows "\<bar>prec (a * r)\<bar> \<le> 9100000000" "- 1 / 10000 \<le> a \<Longrightarrow> - 1 / 1000 \<le> prec (a * r)"
proof -
  have B: "\<bar>a * r\<bar> \<le> 9090000000"
  proof -
    have "\<bar>a\<bar> * r \<le> 9000000000 * (101 / 100)" using assms by (intro mult_mono) simp_all
    then show ?thesis using assms(2) by (simp add: abs_mult)
  qed
  then have "\<bar>a * r\<bar> \<le> 100000000000" by linarith
  note n = prec_near [OF this]
  show "\<bar>prec (a * r)\<bar> \<le> 9100000000" using n B by linarith
  assume a: "- 1 / 10000 \<le> a"
  have "- 1 / 5000 \<le> a * r"
  proof (cases "0 \<le> a")
    case True
    then have "0 \<le> a * r" using assms(2) by simp
    then show ?thesis by linarith
  next
    case False
    then have "a * (101 / 100) \<le> a * r" using assms(3) by (intro mult_left_mono_neg) simp_all
    then show ?thesis using a by linarith
  qed
  then show "- 1 / 1000 \<le> prec (a * r)" using n by linarith
qed

lemma fare_sum_near:
  assumes "- 1 / 100000 \<le> b" "b \<le> 4000000000" "0 \<le> c" "c \<le> 101 / 100" "0 \<le> r" "r \<le> 101 / 100"
    and "f = prec (b * c)" "g = prec (f * r)" "t = prec (prec (b + f) + g)"
  shows "\<bar>t - (b + f + g)\<bar> \<le> 1 / 1000000" "- 1 / 1000 \<le> f" "- 1 / 1000 \<le> g"
proof -
  have b9: "\<bar>b\<bar> \<le> 4000000000" using assms(1,2) by linarith
  then have b9': "\<bar>b\<bar> \<le> 9000000000" by linarith
  have "\<bar>b * c\<bar> \<le> 4040000000"
  proof -
    have "\<bar>b\<bar> * c \<le> 4000000000 * (101 / 100)" using b9 assms by (intro mult_mono) simp_all
    then show ?thesis using assms(3) by (simp add: abs_mult)
  qed
  moreover from this have "\<bar>b * c\<bar> \<le> 100000000000" by linarith
  note prec_near [OF this, folded assms(7)]
  ultimately have fB: "\<bar>f\<bar> \<le> 4100000000" by linarith
  have bc: "- 1 / 50000 \<le> b * c"
  proof (cases "0 \<le> b")
    case True
    then have "0 \<le> b * c" using assms(3) by simp
    then show ?thesis by linarith
  next
    case False
    then have "b * (101 / 100) \<le> b * c" using assms(4) by (intro mult_left_mono_neg) simp_all
    then show ?thesis using assms(1) by linarith
  qed
  have "\<bar>b * c\<bar> \<le> 100000000000" using \<open>\<bar>b * c\<bar> \<le> 100000000000\<close> .
  from prec_near [OF this, folded assms(7)] bc have f0: "- 1 / 10000 \<le> f" by linarith
  then show "- 1 / 1000 \<le> f" by linarith
  have f9: "\<bar>f\<bar> \<le> 9000000000" using fB by linarith
  note g = rate_product_abs [OF f9 assms(5,6), folded assms(8)]
  show "- 1 / 1000 \<le> g" by (rule g(2) [OF f0])
  have s1: "\<bar>b + f\<bar> \<le> 100000000000" using b9 fB by linarith
  note e1 = prec_near [OF s1]
  have s2: "\<bar>prec (b + f) + g\<bar> \<le> 100000000000" using e1 b9 fB g(1) by linarith
  note e2 = prec_near [OF s2, folded assms(9)]
  show "\<bar>t - (b + f + g)\<bar> \<le> 1 / 1000000" using e1 e2 by linarith
qed

end

lemma tier_discount_le:
  "\<forall>t \<in> set tiers. dd_discountPercent t \<le> 100 \<Longrightarrow> 0 \<le> tier_discount d tiers \<and> tier_discount d tiers \<le> 100"
  by (auto simp: tier_discount_def split: option.splits dest!: find_Some_D)

definition discounts_in_bounds :: "rat \<Rightarrow> rat \<Rightarrow> DurationDiscountTier list option \<Rightarrow> bool" where
  "discounts_in_bounds weekly monthly dds \<longleftrightarrow> weekly \<le> 100 \<and> monthly \<le> 100 \<and>
     (\<forall>ts. dds = Some ts \<longrightarrow> (\<forall>t \<in> set ts. dd_discountPercent t \<le> 100))"

lemma duration_discount_le:
  assumes "discounts_in_bounds weekly monthly dds"
  shows "duration_discount days weekly monthly dds \<le> 100"
proof -
  have "tier_discount days (t # ts) \<le> 100" if "dds = Some (t # ts)" for t ts
    using tier_discount_le [of "t # ts" days] assms that by (simp add: discounts_in_bounds_def)
  with assms show ?thesis
    by (auto simp: duration_discount_def discounts_in_bounds_def split: option.splits list.splits)
qed

lemma round2_nonneg_up_to: "- 1 / 1000 \<le> x \<Longrightarrow> 0 \<le> round2 x"
proof -
  assume "- 1 / 1000 \<le> x"
  then have "round2 (- 1 / 1000) \<le> round2 x" by (rule round2_mono)
  moreover have "round2 (- 1 / 1000) = 0" using round2_unique [of "- 1 / 1000" 0] by simp
  ultimately show ?thesis by simp
qed

lemma fare_parts_near:
  assumes "decimal_ctx prec"
    and "0 \<le> distanceKm * pricePerKm" and "distanceKm * pricePerKm \<le> 1000000000"
    and "0 \<le> basePackagePrice" and "basePackagePrice \<le> 1000000000"
    and "0 \<le> commissionPercent" and "commissionPercent \<le> 100" and "0 \<le> gstRatePercent" and "gstRatePercent \<le> 100"
    and "discounts_in_bounds weekly monthly dds"
    and "F = calculateFare prec distanceKm basePackagePrice pricePerKm commissionPercent days weekly monthly
           gstRatePercent dds"
  shows "0 \<le> fr_baseFare F \<and> 0 \<le> fr_platformFee F \<and> 0 \<le> fr_gst F \<and> fr_netToVendor F = fr_baseFare F \<and>
         \<bar>fr_baseFare F + fr_discountAmount F - fr_originalBaseFare F\<bar> \<le> 1 / 100 \<and>
         \<bar>fr_baseFare F + fr_platformFee F + fr_gst F - fr_total F\<bar> \<le> 2 / 100"
proof -
  note near = decimal_ctx.prec_near [OF assms(1)] and pos = decimal_ctx.prec_nonneg [OF assms(1)]
  define i where "i = prec (prec (distanceKm * pricePerKm) + basePackagePrice)"
  define c where "c = prec (commissionPercent / 100)"
  define r where "r = prec (gstRatePercent / 100)"
  obtain d b where db: "fare_discount prec i (duration_discount days weekly monthly dds) = (d, b)" by fastforce
  define f where "f = prec (b * c)"
  define g where "g = prec (f * r)"
  define t where "t = prec (prec (b + f) + g)"
  have F: "fr_baseFare F = round2 b" "fr_platformFee F = round2 f" "fr_gst F = round2 g" "fr_netToVendor F = round2 b"
    "fr_discountAmount F = round2 d" "fr_originalBaseFare F = round2 i" "fr_total F = round2 t"
    unfolding assms(11) calculateFare_def Let_def i_def [symmetric] db
    by (simp_all add: t_def g_def f_def r_def c_def)
  have "\<bar>distanceKm * pricePerKm\<bar> \<le> 100000000000" using assms(2,3) by linarith
  note p1 = near [OF this] pos [OF assms(2)]
  have "\<bar>prec (distanceKm * pricePerKm) + basePackagePrice\<bar> \<le> 100000000000" using p1 assms(2-5) by linarith
  note p2 = near [OF this, folded i_def]
  have i: "0 \<le> i" "i \<le> 3000000000"
    using pos [of "prec (distanceKm * pricePerKm) + basePackagePrice", folded i_def] p1 p2 assms(2-5) by linarith+
  note dn = decimal_ctx.fare_discount_near [OF assms(1) i duration_discount_le [OF assms(10)] db]
  note rates = decimal_ctx.prec_rate [OF assms(1,6,7), folded c_def] decimal_ctx.prec_rate [OF assms(1,8,9), folded r_def]
  note sn = decimal_ctx.fare_sum_near [OF assms(1) dn(4,5) rates f_def g_def t_def]
  note ro = round2_near [of b] round2_near [of d] round2_near [of i] round2_near [of f] round2_near [of g] round2_near [of t]
  have c1: "is_cents (round2 b + round2 d - round2 i)" and c2: "is_cents (round2 b + round2 f + round2 g - round2 t)"
    by (intro is_cents_diff is_cents_add round2_cents)+
  have "\<bar>round2 b + round2 d - round2 i\<bar> < 2 / 100" using dn(1) ro(1-3) by linarith
  then have "\<bar>round2 b + round2 d - round2 i\<bar> \<le> 1 / 100" using cents_gap [OF c1, of 1] by simp
  moreover have "\<bar>round2 b + round2 f + round2 g - round2 t\<bar> < 3 / 100" using sn(1) ro by linarith
  then have "\<bar>round2 b + round2 f + round2 g - round2 t\<bar> \<le> 2 / 100" using cents_gap [OF c2, of 2] by simp
  moreover have "0 \<le> round2 b" "0 \<le> round2 f" "0 \<le> round2 g"
    using dn(4) sn(2,3) by (intro round2_nonneg_up_to; linarith)+
  ultimately show ?thesis unfolding F by simp
qed

text \<open>
  C35: the parts of a fare add up to a cent or two. For distances, prices and percentages in range,
  with any discount of at most 100 per cent, no part is negative, the base fare and the discount add
  up to the original base fare within one cent, and base fare, platform fee and GST add up to the
  total within two cents: each is rounded on its own.
\<close>

theorem fare_adds_up:
  assumes "decimal_ctx prec"
    and "0 \<le> distanceKm * pricePerKm" and "distanceKm * pricePerKm \<le> 1000000000"
    and "0 \<le> basePackagePrice" and "basePackagePrice \<le> 1000000000"
    and "0 \<le> commissionPercent" and "commissionPercent \<le> 100" and "0 \<le> gstRatePercent" and "gstRatePercent \<le> 100"
    and "discounts_in_bounds weekly monthly dds"
    and "F = calculateFare prec distanceKm basePackagePrice pricePerKm commissionPercent days weekly monthly
           gstRatePercent dds"
  shows "0 \<le> fr_baseFare F \<and> 0 \<le> fr_platformFee F \<and> 0 \<le> fr_gst F \<and> fr_netToVendor F = fr_baseFare F \<and>
         \<bar>fr_baseFare F + fr_discountAmount F - fr_originalBaseFare F\<bar> \<le> 1 / 100 \<and>
         \<bar>fr_baseFare F + fr_platformFee F + fr_gst F - fr_total F\<bar> \<le> 2 / 100"
  by (rule fare_parts_near [OF assms])

lemma fare_adds_up_witness:
  "\<bar>fr_baseFare (calculateFare dec20 10 1000 12 10 3 0 0 18 None) + fr_platformFee (calculateFare dec20 10 1000 12 10 3 0 0 18 None)
     + fr_gst (calculateFare dec20 10 1000 12 10 3 0 0 18 None) - fr_total (calculateFare dec20 10 1000 12 10 3 0 0 18 None)\<bar> \<le> 2 / 100"
  using fare_adds_up [OF djs.decimal_ctx_axioms, of 10 12 1000 10 18 0 0 None, OF _ _ _ _ _ _ _ _ _ refl]
  by (simp add: discounts_in_bounds_def)

text \<open>
  The total is not always the sum of its printed parts. A package of 1000.55 with a commission of
  10 and a GST of 18 per cent is charged 1118.61, while base fare, platform fee and GST are given as
  1000.55, 100.06 and 18.01, which add up to 1118.62.
\<close>

theorem fare_total_off_by_a_cent:
  "fr_baseFare (calculateFare dec20 0 (100055 / 100) 0 10 1 0 0 18 None) = 100055 / 100 \<and>
   fr_platformFee (calculateFare dec20 0 (100055 / 100) 0 10 1 0 0 18 None) = 10006 / 100 \<and>
   fr_gst (calculateFare dec20 0 (100055 / 100) 0 10 1 0 0 18 None) = 1801 / 100 \<and>
   fr_total (calculateFare dec20 0 (100055 / 100) 0 10 1 0 0 18 None) = 111861 / 100"
proof -
  have d: "dec20 (1 / 10) = 1 / 10" "dec20 (9 / 50) = 9 / 50" "dec20 (20011 / 20) = 20011 / 20"
    by (rule dec20_exact [where j = 2 and n = 10] dec20_exact [where j = 2 and n = 18]
        dec20_exact [where j = 2 and n = 100055]; simp)+
  have e: "dec20 (20011 / 200) = 20011 / 200" "dec20 (220121 / 200) = 220121 / 200"
    by (rule dec20_exact [where j = 3 and n = 100055] dec20_exact [where j = 3 and n = 1100605]; simp)+
  have f: "dec20 (180099 / 10000) = 180099 / 10000" "dec20 (11186149 / 10000) = 11186149 / 10000"
    by (rule dec20_exact [where j = 4 and n = 180099] dec20_exact [where j = 4 and n = 11186149]; simp)+
  have r: "round2 (20011 / 20) = 20011 / 20" "round2 (20011 / 200) = 5003 / 50"
    "round2 (180099 / 10000) = 1801 / 100" "round2 (11186149 / 10000) = 111861 / 100"
    by (simp_all add: round2_def floor_eq_iff)
  show ?thesis
    by (simp add: calculateFare_def duration_discount_def fare_discount_def Let_def d e f r)
qed

section \<open>Discounts and commissions\<close>

definition discounts_ok :: "DurationDiscountTier list \<Rightarrow> bool" where
  "discounts_ok ts \<longleftrightarrow>
     ts \<noteq> [] \<and> sorted (map dd_minDays ts) \<and> distinct (map dd_minDays ts) \<and> sorted (map dd_discountPercent ts) \<and>
     (\<forall>t \<in> set ts. 1 \<le> dd_minDays t \<and> 0 \<le> dd_discountPercent t \<and> dd_discountPercent t \<le> 100)"

lemma parse_discount_ok:
  "parse_discount seen t = Inr p \<Longrightarrow>
   1 \<le> dd_minDays p \<and> 0 \<le> dd_discountPercent p \<and> dd_discountPercent p \<le> 100 \<and> dd_minDays p \<notin> set seen"
  by (auto simp: parse_discount_def split: json.splits option.splits if_splits)

lemma parse_discounts_ok:
  "parse_discounts seen ts = Inr ps \<Longrightarrow>
   length ps = length ts \<and> distinct (map dd_minDays ps) \<and>
   (\<forall>p \<in> set ps. 1 \<le> dd_minDays p \<and> 0 \<le> dd_discountPercent p \<and> dd_discountPercent p \<le> 100 \<and> dd_minDays p \<notin> set seen)"
proof (induction seen ts arbitrary: ps rule: parse_discounts.induct)
  case (2 seen t ts)
  from "2.prems" obtain p qs where p: "parse_discount seen t = Inr p"
    and q: "parse_discounts (dd_minDays p # seen) ts = Inr qs" and ps: "ps = p # qs"
    by (auto simp: bindR_Inr_iff)
  from "2.IH" [OF q] parse_discount_ok [OF p] show ?case unfolding ps by auto
qed simp

lemma discounts_increase_sorted: "discounts_increase ps \<Longrightarrow> sorted (map dd_discountPercent ps)"
proof (induction ps rule: discounts_increase.induct)
  case (1 a b ts)
  then show ?case by auto
qed simp_all

lemma validate_discounts_ok:
  assumes "validateDurationDiscountsConfig payload = Inr ts"
  shows "discounts_ok ts"
proof -
  from assms obtain r rs ps where ps: "parse_discounts [] (r # rs) = Inr ps"
    and ts: "ts = sort_key dd_minDays ps" and inc: "discounts_increase ts"
    by (auto simp: validateDurationDiscountsConfig_def Let_def bindR_Inr_iff simp del: parse_discounts.simps
        split: option.splits list.splits if_splits)
  note ok = parse_discounts_ok [OF ps]
  have "ps \<noteq> []" using ok by auto
  moreover have "ts \<noteq> []" unfolding ts by (metis calculation length_0_conv length_sort)
  moreover have "sorted (map dd_minDays ts)" unfolding ts by (rule sorted_sort_key)
  moreover have "distinct (map dd_minDays ts)" using ok by (simp add: ts distinct_map)
  ultimately show ?thesis
    using ok discounts_increase_sorted [OF inc] unfolding discounts_ok_def by (simp add: ts)
qed

definition percent_or_0 :: "DurationDiscountTier option \<Rightarrow> rat" where
  "percent_or_0 t = (case t of Some t \<Rightarrow> if dd_discountPercent t > 0 then dd_discountPercent t else 0 | None \<Rightarrow> 0)"

lemma find_percent_mono:
  assumes "sorted (map (\<lambda>t. - dd_discountPercent t) ts)" "\<forall>t \<in> set ts. 0 \<le> dd_discountPercent t"
    and "\<And>t. t \<in> set ts \<Longrightarrow> P t \<Longrightarrow> Q t"
  shows "percent_or_0 (List.find P ts) \<le> percent_or_0 (List.find Q ts)"
  using assms
proof (induction ts)
  case (Cons t ts)
  have "percent_or_0 (List.find P ts) \<le> percent_or_0 (Some t)"
    using Cons.prems(1,2) by (cases "List.find P ts") (force simp: percent_or_0_def dest: find_Some_D)+
  with Cons show ?case by auto
qed simp

lemma sort_key_neg_rev:
  assumes "sorted (map f ts)" "distinct (map f ts)"
  shows "sort_key (\<lambda>t. - f t :: rat) ts = rev ts"
proof -
  show ?thesis
    using assms
    by (intro sort_key_inj_key_eq)
      (auto simp: distinct_map inj_on_def sorted_wrt_map sorted_wrt_rev rev_map [symmetric])
qed

text \<open>
  Validated discounts reward longer rentals. For any JSON the validator accepts, the discount of a
  fare lies between 0 and 100 per cent and does not decrease with the number of days; weekly and
  monthly discounts are then ignored.
\<close>

theorem validated_discount_monotone:
  assumes "validateDurationDiscountsConfig payload = Inr ts" and "d1 \<le> d2"
  shows "0 \<le> duration_discount d1 w m (Some ts) \<and>
         duration_discount d1 w m (Some ts) \<le> duration_discount d2 w' m' (Some ts) \<and>
         duration_discount d2 w' m' (Some ts) \<le> 100"
proof -
  have ok: "discounts_ok ts" by (rule validate_discounts_ok [OF assms(1)])
  then have b: "\<forall>t \<in> set ts. 0 \<le> dd_discountPercent t" "\<forall>t \<in> set ts. dd_discountPercent t \<le> 100"
    by (simp_all add: discounts_ok_def)
  have s: "sort_key (\<lambda>t. - dd_minDays t) ts = rev ts"
    using ok by (intro sort_key_neg_rev) (simp_all add: discounts_ok_def)
  have e: "duration_discount d x y (Some ts) = tier_discount d ts" for d x y
    using ok by (cases ts) (simp_all add: duration_discount_def discounts_ok_def)
  have "percent_or_0 (List.find (\<lambda>t. d1 \<ge> dd_minDays t) (rev ts)) \<le> percent_or_0 (List.find (\<lambda>t. d2 \<ge> dd_minDays t) (rev ts))"
    using ok b assms(2)
    by (intro find_percent_mono) (auto simp: discounts_ok_def sorted_wrt_map sorted_wrt_rev rev_map [symmetric])
  then have "tier_discount d1 ts \<le> tier_discount d2 ts"
    unfolding tier_discount_def s percent_or_0_def .
  then show ?thesis unfolding e using tier_discount_le [OF b(2)] by auto
qed

definition sample_discounts :: json where
  "sample_discounts = JArr [JObj [(''minDays'', JNum 3), (''discountPercent'', JNum 5)],
                            JObj [(''minDays'', JNum 10), (''discountPercent'', JNum 15)]]"

lemma validated_discount_monotone_witness:
  "\<exists>ts. validateDurationDiscountsConfig sample_discounts = Inr ts \<and>
     duration_discount 4 0 0 (Some ts) \<le> duration_discount 12 0 0 (Some ts)"
proof -
  have "\<exists>ts. validateDurationDiscountsConfig sample_discounts = Inr ts"
    by (simp add: sample_discounts_def validateDurationDiscountsConfig_def discount_rows_def field_def
        parse_discount_def is_integer_def Let_def)
  then obtain ts where ts: "validateDurationDiscountsConfig sample_discounts = Inr ts" ..
  show ?thesis using validated_discount_monotone [OF ts, of 4 12] ts by auto
qed

text \<open>
  The commission is that of a most specific rule. When rules apply to the trip, the result is the
  percentage of one of them, and no applicable rule names more of city, category and trip type (city
  counting most, then category); otherwise it is the configured default, or 10.
\<close>

theorem resolveCommissionPercent_most_specific:
  "(\<exists>r \<in> set table. rule_applies city category trip r \<and>
      resolveCommissionPercent cfg table city category trip = cc_percentage r \<and>
      (\<forall>s \<in> set table. rule_applies city category trip s \<longrightarrow> rule_score s \<le> rule_score r)) \<or>
   ((\<forall>s \<in> set table. \<not> rule_applies city category trip s) \<and>
      resolveCommissionPercent cfg table city category trip = default_commission cfg)"
proof -
  define rows where "rows = filter (rule_applies city category trip) table"
  define srt where "srt = sort_key (\<lambda>r. - int (rule_score r)) rows"
  show ?thesis
  proof (cases srt)
    case Nil
    then have "rows = []" unfolding srt_def by (metis length_0_conv length_sort)
    with Nil show ?thesis
      by (simp add: resolveCommissionPercent_def srt_def rows_def filter_empty_conv)
  next
    case (Cons r rs)
    have set: "set rows = insert r (set rs)" using Cons unfolding srt_def by (metis list.simps(15) set_sort)
    have "sorted (map (\<lambda>r. - int (rule_score r)) (r # rs))" unfolding Cons [symmetric] srt_def by (rule sorted_sort_key)
    then have "\<forall>s \<in> set rows. rule_score s \<le> rule_score r" unfolding set by auto
    moreover have "r \<in> set rows" unfolding set by simp
    ultimately show ?thesis
      using Cons by (auto simp: resolveCommissionPercent_def srt_def rows_def)
  qed
qed

end
