(* ===== verification/Locks.thy ===== *)
theory Locks
  imports Prelude
begin

text \<open>
  The distributed locks (\<open>redis/booking-lock.service.ts\<close>, \<open>redis/distributed-lock.service.ts\<close>).
  Redis itself is a parameter: its commands \<open>SET key value PX ttl NX\<close>, \<open>GET\<close> and \<open>DEL\<close> as
  functions on its state, with the documented laws in the locale \<open>redis_store\<close>; a command that
  fails because the server is offline is the flag \<open>online\<close>. The Lua script, which the server runs
  atomically, is part of the source and is defined here. Tokens are the results of
  \<open>randomUUID()\<close>.
\<close>

section \<open>The services\<close>

type_synonym 'r set_cmd = "time \<Rightarrow> string \<Rightarrow> string \<Rightarrow> int \<Rightarrow> 'r \<Rightarrow> bool \<times> 'r"
type_synonym 'r get_cmd = "time \<Rightarrow> string \<Rightarrow> 'r \<Rightarrow> string option"
type_synonym 'r del_cmd = "time \<Rightarrow> string \<Rightarrow> 'r \<Rightarrow> nat \<times> 'r"

definition release_script ::
  "'r get_cmd \<Rightarrow> 'r del_cmd \<Rightarrow> time \<Rightarrow> string \<Rightarrow> string \<Rightarrow> 'r \<Rightarrow> nat \<times> 'r" where
  "release_script get del now key token r = (if get now key r = Some token then del now key r else (0, r))"

definition getLockKey :: "id \<Rightarrow> string" where
  "getLockKey carId = ''lock:car:'' @ carId"

definition getCancellationLockKey :: "id \<Rightarrow> string" where
  "getCancellationLockKey bookingId = ''lock:cancel:booking:'' @ bookingId"

text \<open>The common part of both acquisitions: fail closed with 503 when Redis is offline.\<close>

definition acquire_key ::
  "'r set_cmd \<Rightarrow> bool \<Rightarrow> string \<Rightarrow> string \<Rightarrow> time \<Rightarrow> string \<Rightarrow> string \<Rightarrow> int \<Rightarrow> 'r \<Rightarrow> string result \<times> 'r" where
  "acquire_key set_nx online busy offline now key token ttlMs r =
     (if \<not> online then (Inl (ServiceUnavailableException offline), r)
      else case set_nx now key token ttlMs r of
             (ok, r') \<Rightarrow> (if ok then Inr token else Inl (ConflictException busy), r'))"

definition acquireLock ::
  "'r set_cmd \<Rightarrow> bool \<Rightarrow> time \<Rightarrow> id \<Rightarrow> string \<Rightarrow> int \<Rightarrow> 'r \<Rightarrow> string result \<times> 'r" where
  "acquireLock set_nx online now carId token ttlMs =
     acquire_key set_nx online ''This car is currently being booked by someone else, please try again.''
       ''Reservation concurrency coordination service is temporarily unavailable. Please retry in a few moments.''
       now (getLockKey carId) token ttlMs"

definition acquireCancellationLock ::
  "'r set_cmd \<Rightarrow> bool \<Rightarrow> time \<Rightarrow> id \<Rightarrow> string \<Rightarrow> int \<Rightarrow> 'r \<Rightarrow> string result \<times> 'r" where
  "acquireCancellationLock set_nx online now bookingId token ttlMs =
     acquire_key set_nx online
       ''This booking is currently undergoing cancellation/refund processing. Please wait.''
       ''Cancellation lock coordination service is temporarily unavailable. Please retry in a few moments.''
       now (getCancellationLockKey bookingId) token ttlMs"

definition release_key ::
  "'r get_cmd \<Rightarrow> 'r del_cmd \<Rightarrow> bool \<Rightarrow> time \<Rightarrow> string \<Rightarrow> string \<Rightarrow> 'r \<Rightarrow> bool result \<times> 'r" where
  "release_key get del online now key token r =
     (if \<not> online then (Inl (GatewayError ''redis''), r)
      else case release_script get del now key token r of (n, r') \<Rightarrow> (Inr (n = 1), r'))"

definition releaseLock ::
  "'r get_cmd \<Rightarrow> 'r del_cmd \<Rightarrow> bool \<Rightarrow> time \<Rightarrow> id \<Rightarrow> string \<Rightarrow> 'r \<Rightarrow> bool result \<times> 'r" where
  "releaseLock get del online now carId token = release_key get del online now (getLockKey carId) token"

definition releaseCancellationLock ::
  "'r get_cmd \<Rightarrow> 'r del_cmd \<Rightarrow> bool \<Rightarrow> time \<Rightarrow> id \<Rightarrow> string \<Rightarrow> 'r \<Rightarrow> bool result \<times> 'r" where
  "releaseCancellationLock get del online now bookingId token =
     release_key get del online now (getCancellationLockKey bookingId) token"

record LockHandle =
  lh_resourceKey :: string
  lh_token :: string
  lh_expiresAt :: time

definition acquire ::
  "'r set_cmd \<Rightarrow> bool \<Rightarrow> time \<Rightarrow> string \<Rightarrow> string \<Rightarrow> int \<Rightarrow> string \<Rightarrow> 'r \<Rightarrow> LockHandle result \<times> 'r" where
  "acquire set_nx online now resourceKey token ttlMs errorMessage r =
     (if \<not> online then (Inl (GatewayError ''redis''), r)
      else case set_nx now resourceKey token ttlMs r of
             (ok, r') \<Rightarrow>
               (if \<not> ok then Inl (ConflictException errorMessage)
                else Inr \<lparr>lh_resourceKey = resourceKey, lh_token = token, lh_expiresAt = now + ttlMs\<rparr>, r'))"

definition release ::
  "'r get_cmd \<Rightarrow> 'r del_cmd \<Rightarrow> bool \<Rightarrow> time \<Rightarrow> LockHandle \<Rightarrow> 'r \<Rightarrow> bool \<times> 'r" where
  "release get del online now handle r =
     (if \<not> online then (False, r)
      else case release_script get del now (lh_resourceKey handle) (lh_token handle) r of (n, r') \<Rightarrow> (n = 1, r'))"

text \<open>
  \<open>withLock\<close>: \<open>action\<close> changes the caller's state and Redis and returns or throws; the lock is
  released at time \<open>now2\<close> in both cases.
\<close>

definition withLock ::
  "'r set_cmd \<Rightarrow> 'r get_cmd \<Rightarrow> 'r del_cmd \<Rightarrow> bool \<Rightarrow> bool \<Rightarrow> time \<Rightarrow> time \<Rightarrow> string \<Rightarrow> string \<Rightarrow> int \<Rightarrow> string \<Rightarrow>
   ('s \<times> 'r \<Rightarrow> 'a result \<times> 's \<times> 'r) \<Rightarrow> 's \<times> 'r \<Rightarrow> 'a result \<times> 's \<times> 'r" where
  "withLock set_nx get del online1 online2 now1 now2 resourceKey token ttlMs errorMessage action st =
     (let (s, r) = st
      in case acquire set_nx online1 now1 resourceKey token ttlMs errorMessage r of
           (Inl e, r1) \<Rightarrow> (Inl e, s, r1)
         | (Inr handle, r1) \<Rightarrow>
             (case action (s, r1) of
                (res, s2, r2) \<Rightarrow> (res, s2, snd (release get del online2 now2 handle r2))))"

section \<open>What is documented of Redis\<close>

locale redis_store =
  fixes set_nx :: "'r set_cmd" and get :: "'r get_cmd" and del :: "'r del_cmd"
  assumes set_ok: "set_nx now k v ttl r = (True, r') \<Longrightarrow>
      get now k r = None \<and> (\<forall>t \<ge> now. get t k r' = (if t < now + ttl then Some v else None))"
    and set_refused: "set_nx now k v ttl r = (False, r') \<Longrightarrow> get now k r \<noteq> None \<and> (\<forall>t \<ge> now. get t k r' = get t k r)"
    and set_other: "set_nx now k v ttl r = (b, r') \<Longrightarrow> k' \<noteq> k \<Longrightarrow> now \<le> t \<Longrightarrow> get t k' r' = get t k' r"
    and del_gone: "del now k r = (n, r') \<Longrightarrow> now \<le> t \<Longrightarrow> get t k r' = None"
    and del_other: "del now k r = (n, r') \<Longrightarrow> k' \<noteq> k \<Longrightarrow> now \<le> t \<Longrightarrow> get t k' r' = get t k' r"
    and del_count: "del now k r = (n, r') \<Longrightarrow> n = (if get now k r = None then 0 else 1)"

text \<open>The contract of a lock with leases, which the lock service promises its callers.\<close>

locale lease_lock =
  fixes try_lock :: "time \<Rightarrow> string \<Rightarrow> string \<Rightarrow> int \<Rightarrow> 'r \<Rightarrow> bool \<times> 'r"
    and unlock :: "time \<Rightarrow> string \<Rightarrow> string \<Rightarrow> 'r \<Rightarrow> bool \<times> 'r"
    and owner :: "time \<Rightarrow> string \<Rightarrow> 'r \<Rightarrow> string option"
  assumes lock_granted: "try_lock now k v ttl r = (True, r') \<Longrightarrow>
      owner now k r = None \<and> (\<forall>t. now \<le> t \<and> t < now + ttl \<longrightarrow> owner t k r' = Some v)"
    and lock_keeps: "try_lock now k v ttl r = (b, r') \<Longrightarrow> k' \<noteq> k \<or> \<not> b \<Longrightarrow> now \<le> t \<Longrightarrow> owner t k' r' = owner t k' r"
    and unlock_own: "unlock now k v r = (b, r') \<Longrightarrow> owner now k r = Some v \<Longrightarrow> now \<le> t \<Longrightarrow> b \<and> owner t k r' = None"
    and unlock_foreign: "unlock now k v r = (b, r') \<Longrightarrow> k' \<noteq> k \<or> owner now k r \<noteq> Some v \<Longrightarrow> now \<le> t \<Longrightarrow>
      owner t k' r' = owner t k' r"

text \<open>The code's acquisition and release as such a lock, while Redis is online.\<close>

definition try_lock_of :: "'r set_cmd \<Rightarrow> time \<Rightarrow> string \<Rightarrow> string \<Rightarrow> int \<Rightarrow> 'r \<Rightarrow> bool \<times> 'r" where
  "try_lock_of set_nx now k v ttl r =
     (case acquire_key set_nx True ''busy'' ''offline'' now k v ttl r of (x, r') \<Rightarrow> (x = Inr v, r'))"

definition unlock_of :: "'r get_cmd \<Rightarrow> 'r del_cmd \<Rightarrow> time \<Rightarrow> string \<Rightarrow> string \<Rightarrow> 'r \<Rightarrow> bool \<times> 'r" where
  "unlock_of get del now k v r = (case release_key get del True now k v r of (x, r') \<Rightarrow> (x = Inr True, r'))"

sublocale redis_store \<subseteq> lease_lock "try_lock_of set_nx" "unlock_of get del" get
proof
  show "get now k r = None \<and> (\<forall>t. now \<le> t \<and> t < now + ttl \<longrightarrow> get t k r' = Some v)"
    if "try_lock_of set_nx now k v ttl r = (True, r')" for now k v ttl r r'
    using that set_ok [of now k v ttl r r']
    by (auto simp: try_lock_of_def acquire_key_def split: prod.splits if_splits)
  show "get t k' r' = get t k' r"
    if "try_lock_of set_nx now k v ttl r = (b, r')" "k' \<noteq> k \<or> \<not> b" "now \<le> t" for now k v ttl r b r' k' t
    using that set_other [of now k v ttl r _ r' k' t] set_refused [of now k v ttl r r']
    by (auto simp: try_lock_of_def acquire_key_def split: prod.splits if_splits)
  show "b \<and> get t k r' = None"
    if "unlock_of get del now k v r = (b, r')" "get now k r = Some v" "now \<le> t" for now k v r b r' t
    using that del_gone [of now k r _ r' t] del_count [of now k r _ r']
    by (auto simp: unlock_of_def release_key_def release_script_def split: prod.splits)
  show "get t k' r' = get t k' r"
    if "unlock_of get del now k v r = (b, r')" "k' \<noteq> k \<or> get now k r \<noteq> Some v" "now \<le> t" for now k v r b r' k' t
    using that del_other [of now k r _ r' k' t]
    by (auto simp: unlock_of_def release_key_def release_script_def split: prod.splits if_splits)
qed

section \<open>Many clients\<close>

text \<open>
  The clients' view: the clock, the store and the leases that were granted and not given back, each
  with its key, token and end. A step lets time pass, or is one client's acquisition (with a new
  token) or release. A client may release late, after its lease ended and the key went to another.
\<close>

type_synonym 'r clients = "time \<times> 'r \<times> (string \<times> string \<times> time) list"

inductive lock_step ::
  "(time \<Rightarrow> string \<Rightarrow> string \<Rightarrow> int \<Rightarrow> 'r \<Rightarrow> bool \<times> 'r) \<Rightarrow> (time \<Rightarrow> string \<Rightarrow> string \<Rightarrow> 'r \<Rightarrow> bool \<times> 'r) \<Rightarrow>
   'r clients \<Rightarrow> 'r clients \<Rightarrow> bool" for try_lock unlock where
  tick: "now \<le> now' \<Longrightarrow> lock_step try_lock unlock (now, r, held) (now', r, held)"
| granted: "try_lock now k v ttl r = (True, r') \<Longrightarrow> v \<notin> (fst \<circ> snd) ` set held \<Longrightarrow>
    lock_step try_lock unlock (now, r, held) (now, r', (k, v, now + ttl) # held)"
| refused: "try_lock now k v ttl r = (False, r') \<Longrightarrow>
    lock_step try_lock unlock (now, r, held) (now, r', held)"
| given_back: "unlock now k v r = (b, r') \<Longrightarrow>
    lock_step try_lock unlock (now, r, held) (now, r', filter (\<lambda>(k', v', _). (k', v') \<noteq> (k, v)) held)"

inductive lock_reachable for try_lock unlock r0 where
  start: "lock_reachable try_lock unlock r0 (t0, r0, [])"
| step: "lock_reachable try_lock unlock r0 s \<Longrightarrow> lock_step try_lock unlock s s' \<Longrightarrow>
    lock_reachable try_lock unlock r0 s'"

context lease_lock
begin

definition lease_inv where
  "lease_inv s \<longleftrightarrow>
     (case s of (now, r, held) \<Rightarrow>
        (\<forall>(k, v, e) \<in> set held. \<forall>t. now \<le> t \<and> t < e \<longrightarrow> owner t k r = Some v))"

lemma lease_inv_step:
  assumes "lock_step try_lock unlock s s'" "lease_inv s"
  shows "lease_inv s'"
  using assms
proof (induction rule: lock_step.induct)
  case (tick now now' r held)
  then show ?case by (fastforce simp: lease_inv_def)
next
  case (granted now k v ttl r r' held)
  have free: "k' \<noteq> k" if "(k', v', e) \<in> set held" "now < e" for k' v' e
    using granted that lock_granted [OF granted(1)] by (fastforce simp: lease_inv_def)
  have "owner t k' r' = Some v'" if "(k', v', e) \<in> set held" "now \<le> t" "t < e" for k' v' e t
  proof -
    have "k' \<noteq> k" using free [OF that(1)] that by simp
    then have "owner t k' r' = owner t k' r" using lock_keeps [OF granted(1)] that(2) by blast
    then show ?thesis using granted(3) that by (fastforce simp: lease_inv_def)
  qed
  then show ?case using lock_granted [OF granted(1)] by (auto simp: lease_inv_def)
next
  case (refused now k v ttl r r' held)
  then show ?case using lock_keeps [OF refused(1)] by (fastforce simp: lease_inv_def)
next
  case (given_back now k v r b r' held)
  have "owner t k' r' = Some v'"
    if m: "(k', v', e) \<in> set held" "(k', v') \<noteq> (k, v)" "now \<le> t" "t < e" for k' v' e t
  proof -
    have o: "owner now k' r = Some v'" "owner t k' r = Some v'"
      using given_back(2) m by (fastforce simp: lease_inv_def)+
    then have "k' \<noteq> k \<or> owner now k r \<noteq> Some v" using m(2) by auto
    from unlock_foreign [OF given_back(1) this m(3)] o show ?thesis by simp
  qed
  then show ?case by (auto simp: lease_inv_def)
qed

lemma reachable_lease_inv: "lock_reachable try_lock unlock r0 s \<Longrightarrow> lease_inv s"
  by (induction rule: lock_reachable.induct) (simp add: lease_inv_def, rule lease_inv_step)

lemma one_owner:
  assumes "lock_reachable try_lock unlock r0 (now, r, held)"
    and "(k, v, e) \<in> set held" "(k, v', e') \<in> set held" "now < e" "now < e'"
  shows "v = v'"
proof -
  have "owner now k r = Some v" "owner now k r = Some v'"
    using reachable_lease_inv [OF assms(1)] assms(2-) unfolding lease_inv_def by fast+
  then show ?thesis by simp
qed

end

context redis_store
begin

lemma store_inv:
  assumes "lock_reachable (try_lock_of set_nx) (unlock_of get del) r0 (now, r, held)" "(k, v, e) \<in> set held" "now < e"
  shows "get now k r = Some v"
  using reachable_lease_inv [OF assms(1)] assms(2,3) unfolding lease_inv_def by fast

lemma store_one_owner:
  assumes "lock_reachable (try_lock_of set_nx) (unlock_of get del) r0 (now, r, held)"
    and "(k, v, e) \<in> set held" "(k, v', e') \<in> set held" "now < e" "now < e'"
  shows "v = v'"
  by (rule one_owner [OF assms])

end

section \<open>A Redis server\<close>

text \<open>
  A store that follows the documented commands: a list of keys with value and expiry, newest first;
  \<open>NX\<close> succeeds when the key has no live value, \<open>PX\<close> sets the expiry.
\<close>

type_synonym kv = "(string \<times> string \<times> time) list"

definition kv_get :: "kv get_cmd" where
  "kv_get now k r = (case map_of r k of Some (v, e) \<Rightarrow> if now < e then Some v else None | None \<Rightarrow> None)"

definition kv_set :: "kv set_cmd" where
  "kv_set now k v ttl r = (if kv_get now k r = None then (True, (k, v, now + ttl) # r) else (False, r))"

definition kv_del :: "kv del_cmd" where
  "kv_del now k r = (if kv_get now k r = None then 0 else 1, filter (\<lambda>(k', _). k' \<noteq> k) r)"

lemma map_of_filter_key: "map_of (filter (\<lambda>(k', _). k' \<noteq> k) r) k' = (if k' = k then None else map_of r k')"
  by (induction r) auto

interpretation redis: redis_store kv_set kv_get kv_del
  by unfold_locales (auto simp: kv_set_def kv_get_def kv_del_def map_of_filter_key split: if_splits option.splits)

section \<open>Properties of the locks\<close>

text \<open>
  C20: mutual exclusion. Whatever clients do with the lock service over time, in any interleaving of
  acquisitions, refusals, releases (also late ones, of a lease that has ended) and the passing of
  time, two leases of the same key that are both still running belong to the same token.
\<close>

theorem lock_mutual_exclusion:
  assumes "redis_store set_nx get del"
    and "lock_reachable (try_lock_of set_nx) (unlock_of get del) r0 (now, r, held)"
    and "(k, v, e) \<in> set held" and "(k, v', e') \<in> set held" and "now < e" and "now < e'"
  shows "v = v' \<and> get now k r = Some v"
proof -
  have "v = v'" by (rule redis_store.store_one_owner [OF assms])
  moreover have "get now k r = Some v" by (rule redis_store.store_inv [OF assms(1-3,5)])
  ultimately show ?thesis by simp
qed

lemma lock_mutual_exclusion_witness:
  "\<exists>r. lock_reachable (try_lock_of kv_set) (unlock_of kv_get kv_del) [] (15, r, [(''k'', ''b'', 35), (''k'', ''a'', 10)]) \<and>
     kv_get 15 ''k'' r = Some ''b''"
proof -
  let ?R = "lock_reachable (try_lock_of kv_set) (unlock_of kv_get kv_del) []"
  let ?S = "lock_step (try_lock_of kv_set) (unlock_of kv_get kv_del)"
  define r1 :: kv where "r1 = [(''k'', ''a'', 10)]"
  define r2 :: kv where "r2 = (''k'', ''b'', 35) # r1"
  have g1: "try_lock_of kv_set 0 ''k'' ''a'' 10 [] = (True, r1)"
    by (simp add: try_lock_of_def acquire_key_def kv_set_def kv_get_def r1_def)
  have g2: "try_lock_of kv_set 15 ''k'' ''b'' 20 r1 = (True, r2)"
    by (simp add: try_lock_of_def acquire_key_def kv_set_def kv_get_def r1_def r2_def)
  have "?R (0, [], [])" by (rule lock_reachable.start)
  moreover have "?S (0, [], []) (0, r1, [(''k'', ''a'', 0 + 10)])" by (rule lock_step.granted [where try_lock = "try_lock_of kv_set", OF g1]) simp
  ultimately have "?R (0, r1, [(''k'', ''a'', 0 + 10)])" by (rule lock_reachable.step)
  moreover have "?S (0, r1, [(''k'', ''a'', 0 + 10)]) (15, r1, [(''k'', ''a'', 0 + 10)])" by (rule lock_step.tick) simp
  ultimately have "?R (15, r1, [(''k'', ''a'', 0 + 10)])" by (rule lock_reachable.step)
  moreover have "?S (15, r1, [(''k'', ''a'', 0 + 10)]) (15, r2, [(''k'', ''b'', 15 + 20), (''k'', ''a'', 0 + 10)])"
    by (rule lock_step.granted [where try_lock = "try_lock_of kv_set", OF g2]) simp
  ultimately have "?R (15, r2, [(''k'', ''b'', 15 + 20), (''k'', ''a'', 0 + 10)])" by (rule lock_reachable.step)
  then have "?R (15, r2, [(''k'', ''b'', 35), (''k'', ''a'', 10)])" by simp
  with lock_mutual_exclusion [OF redis.redis_store_axioms this, of "''k''" "''b''" 35 "''b''" 35] show ?thesis by auto
qed

text \<open>
  \<open>withLock\<close> gives its lock back. When the lock is not granted (or Redis is offline) the action
  does not run; when it is, then after \<open>withLock\<close> has returned or thrown, with Redis online at the
  release, the key is not held with this call's token, and if the action left the key alone, another
  client can take it at once.
\<close>

theorem withLock_releases:
  assumes "redis_store set_nx get del" and "now1 \<le> now2"
    and "withLock set_nx get del on1 True now1 now2 key token ttl msg action (s, r) = (res, s', r')"
  shows "(case acquire set_nx on1 now1 key token ttl msg r of
            (Inl e, r1) \<Rightarrow> res = Inl e \<and> s' = s \<and> r' = r1
          | (Inr h, r1) \<Rightarrow> get now2 key r' \<noteq> Some token \<and>
              (\<forall>res2 s2 r2. action (s, r1) = (res2, s2, r2) \<longrightarrow> res = res2 \<and> s' = s2 \<and>
                 (get now2 key r2 = Some token \<longrightarrow> get now2 key r' = None)))"
proof (cases "acquire set_nx on1 now1 key token ttl msg r")
  case (Pair x r1)
  show ?thesis
  proof (cases x)
    case (Inl e)
    with Pair assms(3) show ?thesis by (simp add: withLock_def)
  next
    case (Inr h)
    obtain res2 s2 r2 where a: "action (s, r1) = (res2, s2, r2)" using prod_cases3 by blast
    have h: "lh_resourceKey h = key" "lh_token h = token"
      using Pair Inr by (auto simp: acquire_def split: if_splits prod.splits)
    have r': "res = res2" "s' = s2" "r' = snd (release_script get del now2 key token r2)"
      using assms(3) Pair Inr a h by (auto simp: withLock_def release_def split: prod.splits)
    have g: "get now2 key (snd (del now2 key r2)) = None"
      using redis_store.del_gone [OF assms(1), of now2 key r2] by (metis order_refl prod.collapse)
    have "get now2 key r' \<noteq> Some token" "get now2 key r2 = Some token \<longrightarrow> get now2 key r' = None"
      using g unfolding r'(3) release_script_def by auto
    with Pair Inr a r' show ?thesis by simp
  qed
qed

lemma withLock_releases_witness:
  "kv_get 5 ''k'' (snd (snd (withLock kv_set kv_get kv_del True True 0 5 ''k'' ''a'' 10 ''busy''
     (\<lambda>(s, r). (Inl (ConflictException ''x'') :: nat result, s + 1, r)) (0 :: nat, [])))) \<noteq> Some ''a''"
proof -
  let ?a = "\<lambda>(s, r). (Inl (ConflictException ''x'') :: nat result, s + 1, r)"
  obtain res s r where w: "withLock kv_set kv_get kv_del True True 0 5 ''k'' ''a'' 10 ''busy'' ?a (0 :: nat, []) = (res, s, r)"
    using prod_cases3 by blast
  from withLock_releases [OF redis.redis_store_axioms _ w] w show ?thesis
    by (simp add: acquire_def kv_set_def kv_get_def)
qed

end
