(* ===== verification/Booking.thy ===== *)
theory Booking
  imports Wallet CancellationPolicy Fare
begin

text \<open>
  The tables the booking services share (\<open>prisma/schema.prisma\<close>): bookings, payments, security
  deposits, cars, inspections, damage claims, vehicle blocks and audit rows, fulfilment records,
  refunds, payment audit rows, gateway webhooks, coupons, outbox events, handover codes, and the
  wallet's and the ledger's tables, in one record of tables \<open>bk_db\<close>. A row holds the
  columns the modelled services read or write; columns of a relation the code always loads together
  (the vendor's user, the car's make, the customer's name) stand in the row that refers to it. Of the
  price snapshot (JSON) a booking keeps the cancellation matrix it was made under.
\<close>

datatype BookingStatus =
    PENDING | CONFIRMED | HANDOVER_READY | ONGOING | RETURN_PENDING | COMPLETED | CANCELLED
  | REFUND_PENDING | REFUNDED | DISPUTED | EXPIRED
datatype PaymentStatus =
    CREATED | PENDING | AUTHORIZED | CAPTURED | PAID | FAILED | CANCELLED | EXPIRED
  | PARTIALLY_REFUNDED | REFUNDED
datatype RefundStatus = NONE | REQUESTED | PENDING | PROCESSED | FAILED | RETRYABLE
datatype SecurityDepositStatus = REQUIRED | HELD | REFUNDED | PARTIALLY_REFUNDED | FORFEITED | CANCELLED
datatype DamageClaimStatus = SUBMITTED | UNDER_REVIEW | APPROVED | PARTIALLY_APPROVED | REJECTED | SETTLED
datatype VehicleOperationalStatus =
  DRAFT | PENDING_VERIFICATION | ACTIVE | INACTIVE | MAINTENANCE | SUSPENDED | RETIRED
datatype VehicleVerificationStatus = PENDING | VERIFIED | REJECTED
datatype InspectionType = PRE_TRIP | POST_TRIP
datatype HandoverOtpType = PICKUP | RETURN
datatype VehicleBlockType =
  MAINTENANCE | ACCIDENT_REPAIR | ROUTINE_INSPECTION | VENDOR_BLACKOUT | ADMIN_LOCK | SAFETY_HOLD
datatype FulfillmentStage =
    PENDING_ALLOCATION | ALLOCATED | PREPARATION_SCHEDULED | PREPARATION_IN_PROGRESS
  | CLEANING_COMPLETED | INSPECTION_COMPLETED | READY_FOR_PICKUP | CUSTOMER_CHECKED_IN
  | HANDOVER_IN_PROGRESS | ACTIVE_RENTAL | RETURN_INSPECTION_PENDING | SETTLEMENT_PENDING
  | COMPLETED | CANCELLED

text \<open>\<open>Role | 'SYSTEM'\<close>.\<close>

datatype actor = User Role | SYSTEM

fun show_status :: "BookingStatus \<Rightarrow> string" where
  "show_status BookingStatus.PENDING = ''PENDING''"
| "show_status BookingStatus.CONFIRMED = ''CONFIRMED''"
| "show_status BookingStatus.HANDOVER_READY = ''HANDOVER_READY''"
| "show_status BookingStatus.ONGOING = ''ONGOING''"
| "show_status BookingStatus.RETURN_PENDING = ''RETURN_PENDING''"
| "show_status BookingStatus.COMPLETED = ''COMPLETED''"
| "show_status BookingStatus.CANCELLED = ''CANCELLED''"
| "show_status BookingStatus.REFUND_PENDING = ''REFUND_PENDING''"
| "show_status BookingStatus.REFUNDED = ''REFUNDED''"
| "show_status BookingStatus.DISPUTED = ''DISPUTED''"
| "show_status BookingStatus.EXPIRED = ''EXPIRED''"

fun show_role :: "actor \<Rightarrow> string" where
  "show_role SYSTEM = ''SYSTEM''"
| "show_role (User Role.CUSTOMER) = ''CUSTOMER''"
| "show_role (User Role.VENDOR) = ''VENDOR''"
| "show_role (User Role.ADMIN) = ''ADMIN''"
| "show_role (User Role.SUPPORT_AGENT) = ''SUPPORT_AGENT''"

record Booking =
  bk_id :: id
  bk_status :: BookingStatus
  bk_customerId :: id
  bk_customerName :: "string option"
  bk_vendorId :: id
  bk_vendorUserId :: id
  bk_vendorName :: string
  bk_carId :: id
  bk_startDate :: time
  bk_endDate :: time
  bk_totalFare :: rat
  bk_platformFee :: rat
  bk_gstAmount :: rat
  bk_netToVendor :: rat
  bk_pickupLocation :: string
  bk_dropLocation :: "string option"
  bk_pickupHubId :: "id option"
  bk_disputeFlag :: bool
  bk_protectionDeductible :: "rat option"
  bk_packageDeductible :: "rat option"
  bk_cancellationMatrix :: "CancellationMatrixConfig option"
  bk_commissionSplit :: "MultilateralCommissionBreakdown option"
  bk_quoteTotal :: "rat option"
  bk_couponId :: "id option"
  bk_discountAmount :: "rat option"
  bk_corporateAccountId :: "id option"
  bk_cancellationReason :: "string option"
  bk_cancellationFee :: "rat option"
  bk_refundAmount :: "rat option"
  bk_cancelledAt :: "time option"
  bk_cancelledBy :: "id option"
  bk_updatedAt :: time
  bk_createdAt :: time

record Payment =
  pm_id :: id
  pm_bookingId :: id
  pm_amount :: rat
  pm_status :: PaymentStatus
  pm_gatewayProvider :: string
  pm_paymentMethod :: "string option"
  pm_razorpayOrderId :: "string option"
  pm_razorpayPaymentId :: "string option"
  pm_razorpayRefundId :: "string option"
  pm_refundAmount :: "rat option"
  pm_refundStatus :: RefundStatus
  pm_failedAt :: "time option"
  pm_failureReason :: "string option"

record SecurityDeposit =
  sd_id :: id
  sd_bookingId :: id
  sd_amount :: rat
  sd_refundedAmount :: rat
  sd_deductedAmount :: rat
  sd_razorpayPaymentId :: "string option"
  sd_razorpayRefundId :: "string option"
  sd_status :: SecurityDepositStatus
  sd_heldAt :: "time option"
  sd_releasedAt :: "time option"

record Car =
  car_id :: id
  car_vendorId :: id
  car_make :: string
  car_model :: string
  car_registrationNumber :: string
  car_type :: CarCategory
  car_pickupHubId :: "id option"
  car_operationalStatus :: VehicleOperationalStatus
  car_verificationStatus :: VehicleVerificationStatus
  car_isAvailable :: bool

record Inspection =
  in_bookingId :: id
  in_type :: InspectionType
  in_finalized :: bool
  in_damagePhotos :: "string list"
  in_conditionNotes :: "string option"

record DamageClaim =
  dc_id :: id
  dc_bookingId :: id
  dc_vendorId :: id
  dc_claimedAmount :: rat
  dc_approvedAmount :: "rat option"
  dc_status :: DamageClaimStatus
  dc_description :: string
  dc_damagePhotos :: "string list"
  dc_vendorNotes :: "string option"
  dc_adminNotes :: "string option"
  dc_customerDispute :: "string option"
  dc_createdAt :: time
  dc_resolvedAt :: "time option"

record VehicleBlock =
  vb_id :: id
  vb_carId :: id
  vb_vendorId :: id
  vb_blockType :: VehicleBlockType
  vb_reason :: "string option"
  vb_startDate :: time
  vb_endDate :: time

record VehicleAuditLog =
  va_carId :: id
  va_actorId :: id
  va_actorRole :: Role
  va_action :: string
  va_fromStatus :: VehicleOperationalStatus
  va_toStatus :: VehicleOperationalStatus
  va_reason :: string

record FulfillmentRecord =
  fu_bookingId :: id
  fu_vendorId :: id
  fu_branchId :: "id option"
  fu_carId :: "id option"
  fu_stage :: FulfillmentStage
  fu_preparationNotes :: "string option"

record PaymentRefund =
  rf_paymentId :: id
  rf_bookingId :: id
  rf_idempotencyKey :: string
  rf_requestedAmount :: rat
  rf_status :: RefundStatus
  rf_gatewayRefundId :: "string option"
  rf_processedAmount :: "rat option"
  rf_failureReason :: "string option"
  rf_reason :: string

record PaymentAuditLog =
  pa_paymentId :: id
  pa_bookingId :: id
  pa_eventType :: string
  pa_fromStatus :: "PaymentStatus option"
  pa_toStatus :: PaymentStatus
  pa_amount :: "rat option"
  pa_gatewayReference :: "string option"
  pa_actorId :: "id option"
  pa_actorRole :: "string option"
  pa_source :: string

record WebhookEvent =
  wh_gateway :: string
  wh_eventId :: string
  wh_eventType :: string
  wh_status :: string
  wh_processedAt :: "time option"

record Coupon =
  co_id :: id
  co_isActive :: bool
  co_globalUsageLimit :: "nat option"
  co_perCustomerLimit :: "nat option"
  co_usageCount :: nat

record CouponUsage =
  cu_couponId :: id
  cu_customerId :: id
  cu_bookingId :: id
  cu_discountAmount :: rat

record BookingLifecyclePayload =
  pl_bookingId :: id
  pl_customerId :: id
  pl_customerName :: "string option"
  pl_vendorId :: id
  pl_vendorName :: string
  pl_carId :: id
  pl_vehicleName :: string
  pl_registrationNumber :: string
  pl_startDate :: time
  pl_endDate :: time
  pl_totalFare :: rat
  pl_pickupLocation :: string
  pl_dropLocation :: "string option"
  pl_cancellationReason :: "string option"
  pl_cancellationFee :: "rat option"
  pl_refundAmount :: "rat option"

text \<open>The status column of the outbox is a string in the schema.\<close>

datatype OutboxStatus = PENDING | PROCESSING | PUBLISHED | FAILED | DEAD_LETTER

record BookingOutboxEvent =
  oe_id :: id
  oe_bookingId :: id
  oe_eventType :: string
  oe_tenantId :: id
  oe_actorId :: id
  oe_actorRole :: string
  oe_previousStatus :: "BookingStatus option"
  oe_newStatus :: BookingStatus
  oe_correlationId :: string
  oe_payload :: BookingLifecyclePayload
  oe_status :: OutboxStatus
  oe_retryCount :: nat
  oe_maxRetries :: nat
  oe_lastError :: "string option"
  oe_processedAt :: "time option"
  oe_createdAt :: time
  oe_updatedAt :: time

record HandoverOtp =
  ho_id :: id
  ho_bookingId :: id
  ho_otpType :: HandoverOtpType
  ho_recipientId :: id
  ho_otpHash :: string
  ho_expiresAt :: time
  ho_verified :: bool
  ho_verifiedAt :: "time option"
  ho_attemptCount :: nat
  ho_createdAt :: time

record bk_db =
  db_bookings :: "Booking list"
  db_payments :: "Payment list"
  db_deposits :: "SecurityDeposit list"
  db_cars :: "Car list"
  db_inspections :: "Inspection list"
  db_claims :: "DamageClaim list"
  db_blocks :: "VehicleBlock list"
  db_vehicleAudit :: "VehicleAuditLog list"
  db_fulfillment :: "FulfillmentRecord list"
  db_refunds :: "PaymentRefund list"
  db_outbox :: "BookingOutboxEvent list"
  db_otps :: "HandoverOtp list"
  db_audit :: "audit_row list"
  db_paymentAudit :: "PaymentAuditLog list"
  db_webhooks :: "WebhookEvent list"
  db_coupons :: "Coupon list"
  db_couponUsages :: "CouponUsage list"
  db_wallet :: wallet_db
  db_ledger :: ledger

definition find_booking :: "id \<Rightarrow> bk_db \<Rightarrow> Booking option" where
  "find_booking bid db = List.find (\<lambda>b. bk_id b = bid) (db_bookings db)"

definition find_payment :: "id \<Rightarrow> bk_db \<Rightarrow> Payment option" where
  "find_payment bid db = List.find (\<lambda>p. pm_bookingId p = bid) (db_payments db)"

definition find_deposit :: "id \<Rightarrow> bk_db \<Rightarrow> SecurityDeposit option" where
  "find_deposit bid db = List.find (\<lambda>d. sd_bookingId d = bid) (db_deposits db)"

definition find_car :: "id \<Rightarrow> bk_db \<Rightarrow> Car option" where
  "find_car cid db = List.find (\<lambda>c. car_id c = cid) (db_cars db)"

definition find_inspection :: "id \<Rightarrow> InspectionType \<Rightarrow> bk_db \<Rightarrow> Inspection option" where
  "find_inspection bid type db = List.find (\<lambda>i. in_bookingId i = bid \<and> in_type i = type) (db_inspections db)"

lemma find_bookingD: "find_booking bid db = Some b \<Longrightarrow> b \<in> set (db_bookings db) \<and> bk_id b = bid"
  unfolding find_booking_def by (drule find_Some_D) simp

lemma find_depositD: "find_deposit bid db = Some d \<Longrightarrow> d \<in> set (db_deposits db) \<and> sd_bookingId d = bid"
  unfolding find_deposit_def by (drule find_Some_D) simp

text \<open>A booking on which the properties are exercised.\<close>

definition demo_booking :: Booking where
  "demo_booking =
     \<lparr>bk_id = ''b1'', bk_status = BookingStatus.CONFIRMED, bk_customerId = ''cust'', bk_customerName = None,
      bk_vendorId = ''v1'', bk_vendorUserId = ''vendor'', bk_vendorName = ''Fleet'', bk_carId = ''c1'',
      bk_startDate = 100000000, bk_endDate = 200000000, bk_totalFare = 1119.12, bk_platformFee = 100.1,
      bk_gstAmount = 18.02, bk_netToVendor = 1001, bk_pickupLocation = ''Hub'', bk_dropLocation = None,
      bk_pickupHubId = None, bk_disputeFlag = False, bk_protectionDeductible = None,
      bk_packageDeductible = None, bk_cancellationMatrix = None, bk_commissionSplit = None,
      bk_quoteTotal = None, bk_couponId = None, bk_discountAmount = None, bk_corporateAccountId = None,
      bk_cancellationReason = None, bk_cancellationFee = None, bk_refundAmount = None,
      bk_cancelledAt = None, bk_cancelledBy = None, bk_updatedAt = 0, bk_createdAt = 0\<rparr>"

definition demo_car :: Car where
  "demo_car =
     \<lparr>car_id = ''c1'', car_vendorId = ''v1'', car_make = ''Make'', car_model = ''Model'', car_registrationNumber = ''KA01'',
      car_type = SEDAN, car_pickupHubId = None, car_operationalStatus = VehicleOperationalStatus.ACTIVE,
      car_verificationStatus = VERIFIED, car_isAvailable = True\<rparr>"

definition demo_db :: bk_db where
  "demo_db =
     \<lparr>db_bookings = [demo_booking],
      db_payments = [\<lparr>pm_id = ''p1'', pm_bookingId = ''b1'', pm_amount = 1119.12, pm_status = PAID,
        pm_gatewayProvider = ''RAZORPAY'', pm_paymentMethod = None, pm_razorpayOrderId = Some ''order_1'',
        pm_razorpayPaymentId = Some ''pay_1'', pm_razorpayRefundId = None, pm_refundAmount = None,
        pm_refundStatus = NONE, pm_failedAt = None, pm_failureReason = None\<rparr>],
      db_deposits = [], db_cars = [demo_car],
      db_inspections = [\<lparr>in_bookingId = ''b1'', in_type = PRE_TRIP, in_finalized = True,
        in_damagePhotos = [], in_conditionNotes = None\<rparr>],
      db_claims = [], db_blocks = [], db_vehicleAudit = [], db_fulfillment = [], db_refunds = [],
      db_outbox = [], db_otps = [], db_audit = [], db_paymentAudit = [], db_webhooks = [],
      db_coupons = [], db_couponUsages = [], db_wallet = \<lparr>wd_wallets = [], wd_entries = [], wd_audit = []\<rparr>, db_ledger = []\<rparr>"

end
