(* ===== verification/HandoverOtps.thy ===== *)
theory HandoverOtps
  imports Booking
begin

text \<open>
  The one-time codes of vehicle handover (\<open>bookings/handover-otp.service.ts\<close>). bcrypt is a
  parameter: \<open>hash\<close> and \<open>compare\<close> (\<open>hashSync\<close>, \<open>compareSync\<close>), the locale \<open>bcrypt\<close> holds what is
  documented of them; \<open>n\<close> is the result of \<open>crypto.randomInt(100000, 999999)\<close>. \<open>verifyOtp\<close> is the
  composition of its read of the newest code and of the rest, so that requests that overlap can be
  interleaved. The notification of the customer is not modelled.
\<close>

locale bcrypt =
  fixes hash :: "string \<Rightarrow> string" and compare_hash :: "string \<Rightarrow> string \<Rightarrow> bool"
  assumes compare_hash: "compare_hash raw (hash raw)"

section \<open>Generation\<close>

definition generateAndSendOtp ::
  "(string \<Rightarrow> string) \<Rightarrow> time \<Rightarrow> id \<Rightarrow> nat \<Rightarrow> id \<Rightarrow> HandoverOtpType \<Rightarrow> id \<Rightarrow> Role \<Rightarrow> bk_db \<Rightarrow> bk_db result" where
  "generateAndSendOtp hash now newId n bookingId otpType userId role db =
     (case find_booking bookingId db of
        None \<Rightarrow> Inl (NotFoundException ''Booking not found.'')
      | Some b \<Rightarrow>
        if role \<noteq> Role.ADMIN \<and> bk_vendorUserId b \<noteq> userId \<and> bk_customerId b \<noteq> userId
        then Inl (ForbiddenException ''Access denied: You are not authorized to generate handover OTP for this booking.'')
        else if otpType = PICKUP \<and> bk_status b \<noteq> BookingStatus.CONFIRMED
        then Inl (BadRequestException ''Pickup handover OTP can only be generated for CONFIRMED bookings.'')
        else if otpType = RETURN \<and> bk_status b \<noteq> BookingStatus.ONGOING
        then Inl (BadRequestException ''Return handover OTP can only be generated for ONGOING trips.'')
        else Inr (db\<lparr>db_otps :=
               filter (\<lambda>o'. \<not> (ho_bookingId o' = bookingId \<and> ho_otpType o' = otpType \<and> \<not> ho_verified o')) (db_otps db) @
               [\<lparr>ho_id = newId, ho_bookingId = bookingId, ho_otpType = otpType,
                 ho_recipientId = bk_customerId b, ho_otpHash = hash (show_nat n),
                 ho_expiresAt = now + 15 * 60 * 1000, ho_verified = False, ho_verifiedAt = None,
                 ho_attemptCount = 0, ho_createdAt = now\<rparr>]\<rparr>))"

section \<open>Verification\<close>

text \<open>\<open>findFirst\<close> ordered by \<open>createdAt\<close> descending.\<close>

definition latest_otp :: "id \<Rightarrow> HandoverOtpType \<Rightarrow> bk_db \<Rightarrow> HandoverOtp option" where
  "latest_otp bookingId otpType db =
     (case sort_key (\<lambda>o'. - ho_createdAt o')
        (filter (\<lambda>o'. ho_bookingId o' = bookingId \<and> ho_otpType o' = otpType \<and> \<not> ho_verified o') (db_otps db)) of
        [] \<Rightarrow> None
      | o' # _ \<Rightarrow> Some o')"

definition otp_check ::
  "time \<Rightarrow> string \<Rightarrow> HandoverOtp option \<Rightarrow> HandoverOtp result" where
  "otp_check now rawOtp latest =
     (if length (trim rawOtp) \<noteq> 6 then Inl (BadRequestException ''Handover OTP must be a valid 6-digit code.'')
      else case latest of
        None \<Rightarrow> Inl (BadRequestException ''No active handover OTP found for this booking. Please request a new OTP.'')
      | Some o' \<Rightarrow>
          if now > ho_expiresAt o' then Inl (BadRequestException ''Handover OTP has expired. Please request a new OTP.'')
          else if ho_attemptCount o' \<ge> 5
          then Inl (BadRequestException ''Too many invalid attempts (max 5). Handover OTP is locked. Please generate a new OTP.'')
          else Inr o')"

text \<open>
  The second half, on the row read before: the count of failed attempts is incremented in the
  database, the code is marked verified only if it still is not. A row that has been deleted in the
  meantime makes the increment throw.
\<close>

definition otp_commit ::
  "(string \<Rightarrow> string \<Rightarrow> bool) \<Rightarrow> time \<Rightarrow> string \<Rightarrow> HandoverOtp \<Rightarrow> bk_db \<Rightarrow> bool result \<times> bk_db" where
  "otp_commit compare_hash now rawOtp o' db =
     (if \<not> compare_hash (trim rawOtp) (ho_otpHash o')
      then if exists_where (\<lambda>r. ho_id r = ho_id o') (db_otps db)
           then (Inl (BadRequestException ''Invalid handover OTP.''),
                 db\<lparr>db_otps := update_where (\<lambda>r. ho_id r = ho_id o')
                      (\<lambda>r. r\<lparr>ho_attemptCount := ho_attemptCount r + 1\<rparr>) (db_otps db)\<rparr>)
           else (Inl (PrismaError ''P2025''), db)
      else let claimed = (\<lambda>r. ho_id r = ho_id o' \<and> \<not> ho_verified r)
           in if count_where claimed (db_otps db) = 0
              then (Inl (BadRequestException ''Handover OTP has already been verified or invalidated.''), db)
              else (Inr True, db\<lparr>db_otps := update_where claimed
                      (\<lambda>r. r\<lparr>ho_verified := True, ho_verifiedAt := Some now\<rparr>) (db_otps db)\<rparr>))"

definition verifyOtp ::
  "(string \<Rightarrow> string \<Rightarrow> bool) \<Rightarrow> time \<Rightarrow> id \<Rightarrow> HandoverOtpType \<Rightarrow> string \<Rightarrow> bk_db \<Rightarrow> bool result \<times> bk_db" where
  "verifyOtp compare_hash now bookingId otpType rawOtp db =
     (case otp_check now rawOtp (latest_otp bookingId otpType db) of
        Inl e \<Rightarrow> (Inl e, db)
      | Inr o' \<Rightarrow> otp_commit compare_hash now rawOtp o' db)"

section \<open>Overlapping requests\<close>

text \<open>
  The handler as its awaits cut it: a request reads the newest code and later commits on what it
  read. \<open>pending\<close> holds the reads that have not committed, \<open>accepted\<close> the ids of the codes that were
  accepted. New codes get new ids.
\<close>

type_synonym otp_state = "bk_db \<times> (string \<times> HandoverOtp) list \<times> id list"

inductive otp_step :: "(string \<Rightarrow> string) \<Rightarrow> (string \<Rightarrow> string \<Rightarrow> bool) \<Rightarrow> otp_state \<Rightarrow> otp_state \<Rightarrow> bool"
  for hash compare_hash where
  generate: "generateAndSendOtp hash now newId n bookingId otpType userId role db = Inr db' \<Longrightarrow>
    newId \<notin> ho_id ` set (db_otps db) \<union> set accepted \<union> (ho_id \<circ> snd) ` set pending \<Longrightarrow>
    otp_step hash compare_hash (db, pending, accepted) (db', pending, accepted)"
| read: "otp_check now rawOtp (latest_otp bookingId otpType db) = Inr o' \<Longrightarrow>
    otp_step hash compare_hash (db, pending, accepted) (db, (rawOtp, o') # pending, accepted)"
| accept: "(rawOtp, o') \<in> set pending \<Longrightarrow>
    otp_commit compare_hash now rawOtp o' db = (Inr b, db') \<Longrightarrow>
    otp_step hash compare_hash (db, pending, accepted) (db', remove1 (rawOtp, o') pending, ho_id o' # accepted)"
| reject: "(rawOtp, o') \<in> set pending \<Longrightarrow>
    otp_commit compare_hash now rawOtp o' db = (Inl e, db') \<Longrightarrow>
    otp_step hash compare_hash (db, pending, accepted) (db', remove1 (rawOtp, o') pending, accepted)"

inductive otp_reachable :: "(string \<Rightarrow> string) \<Rightarrow> (string \<Rightarrow> string \<Rightarrow> bool) \<Rightarrow> otp_state \<Rightarrow> bool"
  for hash compare_hash where
  start: "db_otps db = [] \<Longrightarrow> otp_reachable hash compare_hash (db, [], [])"
| step: "otp_reachable hash compare_hash s \<Longrightarrow> otp_step hash compare_hash s t \<Longrightarrow> otp_reachable hash compare_hash t"

text \<open>Ids are keys, and an accepted code is in the table, verified.\<close>

definition otp_inv :: "otp_state \<Rightarrow> bool" where
  "otp_inv s \<longleftrightarrow>
     (case s of (db, pending, accepted) \<Rightarrow>
        distinct (map ho_id (db_otps db)) \<and> distinct accepted \<and>
        (\<forall>i \<in> set accepted. \<exists>r \<in> set (db_otps db). ho_id r = i \<and> ho_verified r))"

lemma update_where_verified:
  assumes "r \<in> set t" "ho_verified r" "\<And>x. ho_verified x \<Longrightarrow> ho_verified (f x)" "\<And>x. ho_id (f x) = ho_id x"
  shows "\<exists>r' \<in> set (update_where P f t). ho_id r' = ho_id r \<and> ho_verified r'"
  using assms by (induction t) auto

lemma otp_commit_Inr:
  assumes "otp_commit compare_hash now rawOtp o' db = (Inr b, db')"
  shows "compare_hash (trim rawOtp) (ho_otpHash o')"
    "\<exists>r \<in> set (db_otps db). ho_id r = ho_id o' \<and> \<not> ho_verified r"
    "db' = db\<lparr>db_otps := update_where (\<lambda>r. ho_id r = ho_id o' \<and> \<not> ho_verified r)
       (\<lambda>r. r\<lparr>ho_verified := True, ho_verifiedAt := Some now\<rparr>) (db_otps db)\<rparr>"
  using assms by (auto simp: otp_commit_def Let_def count_where_def filter_empty_conv split: if_splits)

lemma otp_commit_Inl:
  assumes "otp_commit compare_hash now rawOtp o' db = (Inl e, db')"
  shows "db' = db \<or> db' = db\<lparr>db_otps := update_where (\<lambda>r. ho_id r = ho_id o')
       (\<lambda>r. r\<lparr>ho_attemptCount := ho_attemptCount r + 1\<rparr>) (db_otps db)\<rparr>"
  using assms by (auto simp: otp_commit_def Let_def split: if_splits)

lemma generate_Inr:
  assumes "generateAndSendOtp hash now newId n bookingId otpType userId role db = Inr db'"
  obtains b o' where "find_booking bookingId db = Some b" "ho_id o' = newId" "\<not> ho_verified o'"
    "ho_bookingId o' = bookingId" "ho_otpType o' = otpType" "ho_otpHash o' = hash (show_nat n)"
    "ho_expiresAt o' = now + 15 * 60 * 1000" "ho_attemptCount o' = 0" "ho_createdAt o' = now"
    "db' = db\<lparr>db_otps :=
       filter (\<lambda>q. \<not> (ho_bookingId q = bookingId \<and> ho_otpType q = otpType \<and> \<not> ho_verified q)) (db_otps db) @ [o']\<rparr>"
proof -
  from assms obtain b where b: "find_booking bookingId db = Some b"
    by (auto simp: generateAndSendOtp_def split: option.splits)
  with assms show thesis
    by (intro that [of b "\<lparr>ho_id = newId, ho_bookingId = bookingId, ho_otpType = otpType,
                 ho_recipientId = bk_customerId b, ho_otpHash = hash (show_nat n),
                 ho_expiresAt = now + 15 * 60 * 1000, ho_verified = False, ho_verifiedAt = None,
                 ho_attemptCount = 0, ho_createdAt = now\<rparr>"])
      (auto simp: generateAndSendOtp_def split: if_splits)
qed

lemma otp_inv_step:
  assumes "otp_step hash compare_hash s t" "otp_inv s"
  shows "otp_inv t"
  using assms(1)
proof (cases rule: otp_step.cases)
  case (generate now newId n bookingId otpType userId role db db' accepted pending)
  note inv = assms(2) [unfolded generate(1) otp_inv_def prod.case]
  from generate(3) show ?thesis
  proof (rule generate_Inr)
    fix b o'
    assume o': "ho_id o' = newId" and db': "db' = db\<lparr>db_otps :=
       filter (\<lambda>q. \<not> (ho_bookingId q = bookingId \<and> ho_otpType q = otpType \<and> \<not> ho_verified q)) (db_otps db) @ [o']\<rparr>"
    have "distinct (map ho_id (db_otps db'))" using inv generate(4) o' by (auto simp: db' distinct_map inj_on_def)
    moreover have "\<exists>r \<in> set (db_otps db'). ho_id r = i \<and> ho_verified r" if "i \<in> set accepted" for i
      using inv that unfolding db' by fastforce
    ultimately show ?thesis using inv unfolding generate(2) otp_inv_def by simp
  qed
next
  case (read now rawOtp bookingId otpType db o' pending accepted)
  with assms(2) show ?thesis by (simp add: otp_inv_def)
next
  case (accept rawOtp o' pending now db b db' accepted)
  note inv = assms(2) [unfolded accept(1) otp_inv_def prod.case]
  obtain r where r: "r \<in> set (db_otps db)" "ho_id r = ho_id o'" "\<not> ho_verified r"
    using otp_commit_Inr(2) [OF accept(4)] by blast
  have new: "ho_id o' \<notin> set accepted"
  proof
    assume "ho_id o' \<in> set accepted"
    with inv obtain q where "q \<in> set (db_otps db)" "ho_id q = ho_id o'" "ho_verified q" by blast
    moreover from this have "q = r" using r inv by (intro inj_onD [of ho_id "set (db_otps db)"]) (simp_all add: distinct_map)
    ultimately show False using r(3) by simp
  qed
  note db' = otp_commit_Inr(3) [OF accept(4)]
  have "r\<lparr>ho_verified := True, ho_verifiedAt := Some now\<rparr> \<in> set (db_otps db')"
    using r unfolding db' by (auto simp: set_update_where image_iff intro!: bexI [of _ r])
  then have "\<exists>q \<in> set (db_otps db'). ho_id q = ho_id r \<and> ho_verified q" by (rule rev_bexI) simp
  moreover have "\<exists>q \<in> set (db_otps db'). ho_id q = i \<and> ho_verified q" if "i \<in> set accepted" for i
    using inv that update_where_verified unfolding db' by fastforce
  ultimately show ?thesis
    using inv new r(2) unfolding accept(2) otp_inv_def by (simp add: db' update_where_map_key)
next
  case (reject rawOtp o' pending now db e db' accepted)
  note inv = assms(2) [unfolded reject(1) otp_inv_def prod.case]
  from otp_commit_Inl [OF reject(4)] show ?thesis
  proof
    assume "db' = db"
    with inv show ?thesis unfolding reject(2) otp_inv_def by simp
  next
    assume db': "db' = db\<lparr>db_otps := update_where (\<lambda>r. ho_id r = ho_id o')
       (\<lambda>r. r\<lparr>ho_attemptCount := ho_attemptCount r + 1\<rparr>) (db_otps db)\<rparr>"
    have "\<exists>q \<in> set (db_otps db'). ho_id q = i \<and> ho_verified q" if "i \<in> set accepted" for i
      using inv that update_where_verified unfolding db' by fastforce
    with inv show ?thesis unfolding reject(2) otp_inv_def by (simp add: db' update_where_map_key)
  qed
qed

lemma otp_reachable_inv: "otp_reachable hash compare_hash s \<Longrightarrow> otp_inv s"
  by (induction rule: otp_reachable.induct) (simp add: otp_inv_def, rule otp_inv_step)

text \<open>
  C21: a handover code is accepted at most once. However the requests that generate codes, read the
  newest one and commit on what they read overlap, no code (row) is ever accepted by two of them.
\<close>

theorem otp_accepted_once:
  assumes "otp_reachable hash compare_hash (db, pending, accepted)"
  shows "distinct accepted"
  using otp_reachable_inv [OF assms] by (simp add: otp_inv_def)

definition demo_otp :: HandoverOtp where
  "demo_otp =
     \<lparr>ho_id = ''o1'', ho_bookingId = ''b1'', ho_otpType = PICKUP, ho_recipientId = ''cust'',
      ho_otpHash = ''123456'', ho_expiresAt = 900000, ho_verified = False, ho_verifiedAt = None,
      ho_attemptCount = 0, ho_createdAt = 0\<rparr>"

lemma demo_generate:
  "generateAndSendOtp id 0 ''o1'' 123456 ''b1'' PICKUP ''vendor'' Role.VENDOR demo_db = Inr (demo_db\<lparr>db_otps := [demo_otp]\<rparr>)"
  by (simp add: generateAndSendOtp_def find_booking_def demo_db_def demo_booking_def demo_otp_def show_nat.simps)

interpretation plain_hash: bcrypt id "(=)"
  by unfold_locales simp

lemma otp_accepted_once_witness:
  "\<exists>db. otp_reachable id (=) (db, [(''123456'', demo_otp)], [''o1'']) \<and> distinct [''o1'']"
proof -
  let ?R = "otp_reachable id (=)" and ?S = "otp_step id (=)"
  let ?db1 = "demo_db\<lparr>db_otps := [demo_otp]\<rparr>"
  let ?db2 = "demo_db\<lparr>db_otps := [demo_otp\<lparr>ho_verified := True, ho_verifiedAt := Some 5\<rparr>]\<rparr>"
  let ?p = "(''123456'', demo_otp)"
  have "?R (demo_db, [], [])" by (rule otp_reachable.start) (simp add: demo_db_def)
  moreover have "?S (demo_db, [], []) (?db1, [], [])"
    by (rule otp_step.generate [OF demo_generate]) (simp add: demo_db_def)
  ultimately have "?R (?db1, [], [])" by (rule otp_reachable.step)
  moreover have c: "otp_check 5 ''123456'' (latest_otp ''b1'' PICKUP ?db1) = Inr demo_otp"
    by (simp add: otp_check_def latest_otp_def demo_otp_def trim_def is_blank_def)
  have "?S (?db1, [], []) (?db1, [?p], [])" by (rule otp_step.read [OF c])
  ultimately have "?R (?db1, [?p], [])" by (rule otp_reachable.step)
  moreover have "?S (?db1, [?p], []) (?db1, [?p, ?p], [])" by (rule otp_step.read [OF c])
  ultimately have "?R (?db1, [?p, ?p], [])" by (rule otp_reachable.step)
  moreover have m: "otp_commit (=) 5 ''123456'' demo_otp ?db1 = (Inr True, ?db2)"
    by (simp add: otp_commit_def demo_otp_def trim_def is_blank_def count_where_def Let_def)
  have "?S (?db1, [?p, ?p], []) (?db2, remove1 ?p [?p, ?p], [ho_id demo_otp])"
    by (rule otp_step.accept [OF _ m]) simp
  ultimately have "?R (?db2, remove1 ?p [?p, ?p], [ho_id demo_otp])" by (rule otp_reachable.step)
  then have r: "?R (?db2, [?p], [''o1''])" by (simp add: demo_otp_def)
  with otp_accepted_once [OF r] show ?thesis by blast
qed

section \<open>One request at a time\<close>

lemma latest_otp_single:
  assumes "distinct (map ho_id (db_otps db))"
    and "db_otps db = filter (\<lambda>q. \<not> (ho_bookingId q = bid \<and> ho_otpType q = typ \<and> \<not> ho_verified q)) t @ [o']"
    and "ho_bookingId o' = bid" "ho_otpType o' = typ" "\<not> ho_verified o'"
  shows "latest_otp bid typ db = Some o'"
proof -
  have "filter (\<lambda>q. ho_bookingId q = bid \<and> ho_otpType q = typ \<and> \<not> ho_verified q) (db_otps db) = [o']"
    using assms(3-5) unfolding assms(2) by (auto simp: filter_empty_conv)
  then show ?thesis by (simp add: latest_otp_def)
qed

lemma trim_digits:
  assumes "100000 \<le> n" "n < 1000000"
  shows "trim (show_nat n) = show_nat n" "length (show_nat n) = 6"
proof -
  define a where "a = n div 10"
  define b where "b = a div 10"
  define c where "c = b div 10"
  define d where "d = c div 10"
  define e where "e = d div 10"
  have b: "10000 \<le> a" "1000 \<le> b" "100 \<le> c" "10 \<le> d" "1 \<le> e" "e < 10"
    using assms unfolding a_def b_def c_def d_def e_def by auto
  have s: "show_nat n = [digit_char e, digit_char (d mod 10), digit_char (c mod 10), digit_char (b mod 10),
      digit_char (a mod 10), digit_char (n mod 10)]"
    using assms b by (simp add: show_nat.simps a_def b_def c_def d_def e_def)
  show "length (show_nat n) = 6" by (simp add: s)
  have nb: "\<not> is_blank (digit_char k)" if "k < 10" for k
  proof -
    have "k = 0 \<or> k = 1 \<or> k = 2 \<or> k = 3 \<or> k = 4 \<or> k = 5 \<or> k = 6 \<or> k = 7 \<or> k = 8 \<or> k = 9" using that by arith
    then show ?thesis by (elim disjE) (simp_all add: is_blank_def)
  qed
  show "trim (show_nat n) = show_nat n" using nb [of e] nb [of "n mod 10"] b by (simp add: s trim_def)
qed

text \<open>
  A code sent can be used. A code that was generated, for a booking with no other request
  in between, is accepted when the customer's six digits are given within 15 minutes; it is
  then marked verified, and the same digits are rejected afterwards.
\<close>

theorem generated_otp_verifies:
  assumes "bcrypt hash compare_hash"
    and "generateAndSendOtp hash now newId n bookingId otpType userId role db = Inr db1"
    and "100000 \<le> n" and "n < 999999" and "distinct (map ho_id (db_otps db))" and "newId \<notin> ho_id ` set (db_otps db)"
    and "t \<le> now + 15 * 60 * 1000"
    and "verifyOtp compare_hash t bookingId otpType (show_nat n) db1 = (res, db2)"
  shows "res = Inr True \<and> latest_otp bookingId otpType db2 = None \<and>
         (\<forall>raw t'. \<exists>e. verifyOtp compare_hash t' bookingId otpType raw db2 = (Inl e, db2))"
  using assms(2)
proof (rule generate_Inr)
  fix b o'
  assume o': "ho_id o' = newId" "\<not> ho_verified o'" "ho_bookingId o' = bookingId" "ho_otpType o' = otpType"
      "ho_otpHash o' = hash (show_nat n)" "ho_expiresAt o' = now + 15 * 60 * 1000" "ho_attemptCount o' = 0"
    and db1: "db1 = db\<lparr>db_otps := filter (\<lambda>q. \<not> (ho_bookingId q = bookingId \<and> ho_otpType q = otpType \<and> \<not> ho_verified q)) (db_otps db) @ [o']\<rparr>"
  define rest where "rest = filter (\<lambda>q. \<not> (ho_bookingId q = bookingId \<and> ho_otpType q = otpType \<and> \<not> ho_verified q)) (db_otps db)"
  have d: "distinct (map ho_id (db_otps db1))"
    using assms(5,6) o'(1) by (auto simp: db1 distinct_map inj_on_def)
  have l: "latest_otp bookingId otpType db1 = Some o'"
    by (rule latest_otp_single [OF d _ o'(3,4,2)]) (simp add: db1)
  have n6: "100000 \<le> n" "n < 1000000" using assms(3,4) by simp_all
  note tr = trim_digits [OF n6]
  have c: "compare_hash (trim (show_nat n)) (ho_otpHash o')"
    using bcrypt.compare_hash [OF assms(1)] by (simp add: tr o')
  have no: "ho_id q \<noteq> newId" if "q \<in> set rest" for q using assms(6) that by (auto simp: rest_def)
  let ?f = "\<lambda>r. r\<lparr>ho_verified := True, ho_verifiedAt := Some t\<rparr>"
  have "update_where (\<lambda>r. ho_id r = ho_id o' \<and> \<not> ho_verified r) ?f (rest @ [o']) = rest @ [?f o']"
    using no o' by (auto intro: update_where_none)
  moreover have e: "db_otps db1 = rest @ [o']" "\<And>X. db1\<lparr>db_otps := X\<rparr> = db\<lparr>db_otps := X\<rparr>"
    by (simp_all add: db1 rest_def)
  ultimately have v: "verifyOtp compare_hash t bookingId otpType (show_nat n) db1 = (Inr True, db\<lparr>db_otps := rest @ [?f o']\<rparr>)"
    using c o' assms(7)
    by (simp add: verifyOtp_def l otp_check_def tr otp_commit_def Let_def count_where_def)
  have "filter (\<lambda>q. ho_bookingId q = bookingId \<and> ho_otpType q = otpType \<and> \<not> ho_verified q) (rest @ [?f o']) = []"
    by (auto simp: rest_def filter_empty_conv)
  moreover have "db_otps db2 = rest @ [?f o']" using assms(8) v by auto
  ultimately have none: "latest_otp bookingId otpType db2 = None" by (simp only: latest_otp_def sort_key_simps list.case)
  then show ?thesis using assms(8) v by (simp add: verifyOtp_def otp_check_def)
qed

lemma generated_otp_verifies_witness:
  "\<exists>db2. verifyOtp (=) 5 ''b1'' PICKUP (show_nat 123456) (demo_db\<lparr>db_otps := [demo_otp]\<rparr>) = (Inr True, db2)"
proof -
  obtain res db2 where v: "verifyOtp (=) 5 ''b1'' PICKUP (show_nat 123456) (demo_db\<lparr>db_otps := [demo_otp]\<rparr>) = (res, db2)"
    by fastforce
  have "db_otps demo_db = []" by (simp add: demo_db_def)
  with generated_otp_verifies [OF plain_hash.bcrypt_axioms demo_generate _ _ _ _ _ v] v show ?thesis by simp
qed

text \<open>A run of guesses against the newest code, one request after the other.\<close>

fun guess_all ::
  "(string \<Rightarrow> string \<Rightarrow> bool) \<Rightarrow> id \<Rightarrow> HandoverOtpType \<Rightarrow> (time \<times> string) list \<Rightarrow> bk_db \<Rightarrow> bool result list \<times> bk_db" where
  "guess_all compare_hash bid typ [] db = ([], db)"
| "guess_all compare_hash bid typ ((t, g) # gs) db =
     (let (r, db1) = verifyOtp compare_hash t bid typ g db;
          (rs, db2) = guess_all compare_hash bid typ gs db1
      in (r # rs, db2))"

definition the_open_otp :: "id \<Rightarrow> HandoverOtpType \<Rightarrow> bk_db \<Rightarrow> HandoverOtp \<Rightarrow> bool" where
  "the_open_otp bid typ db o' \<longleftrightarrow>
     filter (\<lambda>q. ho_bookingId q = bid \<and> ho_otpType q = typ \<and> \<not> ho_verified q) (db_otps db) = [o'] \<and>
     distinct (map ho_id (db_otps db))"

lemma the_open_otp_latest: "the_open_otp bid typ db o' \<Longrightarrow> latest_otp bid typ db = Some o'"
  by (simp add: the_open_otp_def latest_otp_def)

lemma wrong_guess:
  assumes "the_open_otp bid typ db o'" "\<not> compare_hash (trim g) (ho_otpHash o')"
    and "verifyOtp compare_hash t bid typ g db = (r, db1)"
  shows "(\<exists>e. r = Inl e) \<and>
    (db1 = db \<and> (length (trim g) \<noteq> 6 \<or> t > ho_expiresAt o' \<or> ho_attemptCount o' \<ge> 5) \<or>
     the_open_otp bid typ db1 (o'\<lparr>ho_attemptCount := ho_attemptCount o' + 1\<rparr>) \<and>
     length (trim g) = 6 \<and> t \<le> ho_expiresAt o' \<and> ho_attemptCount o' < 5)"
proof (cases "otp_check t g (Some o')")
  case (Inl e)
  then have "length (trim g) \<noteq> 6 \<or> t > ho_expiresAt o' \<or> ho_attemptCount o' \<ge> 5"
    by (auto simp: otp_check_def split: if_splits)
  with Inl assms(3) the_open_otp_latest [OF assms(1)] show ?thesis by (auto simp: verifyOtp_def)
next
  case (Inr q)
  then have q: "q = o'" "length (trim g) = 6" "t \<le> ho_expiresAt o'" "ho_attemptCount o' < 5"
    by (auto simp: otp_check_def split: if_splits)
  have mem: "o' \<in> set (db_otps db)" "ho_bookingId o' = bid" "ho_otpType o' = typ" "\<not> ho_verified o'"
  proof -
    have "o' \<in> set (filter (\<lambda>q. ho_bookingId q = bid \<and> ho_otpType q = typ \<and> \<not> ho_verified q) (db_otps db))"
      using assms(1) by (simp add: the_open_otp_def)
    then show "o' \<in> set (db_otps db)" "ho_bookingId o' = bid" "ho_otpType o' = typ" "\<not> ho_verified o'" by simp_all
  qed
  let ?f = "\<lambda>r. r\<lparr>ho_attemptCount := ho_attemptCount r + 1\<rparr>"
  have r: "r = Inl (BadRequestException ''Invalid handover OTP.'')"
    "db1 = db\<lparr>db_otps := update_where (\<lambda>r. ho_id r = ho_id o') ?f (db_otps db)\<rparr>"
    using assms(2,3) q mem(1) the_open_otp_latest [OF assms(1)] Inr
    by (auto simp: verifyOtp_def otp_commit_def exists_where_iff split: if_splits)
  have key: "ho_id x = ho_id o' \<Longrightarrow> x \<in> set (db_otps db) \<Longrightarrow> x = o'" for x
    using assms(1) mem(1) by (auto simp: the_open_otp_def distinct_map dest: inj_onD)
  have flt: "filter P (update_where (\<lambda>r. ho_id r = ho_id o') ?f t) = map ?f (filter P t)"
    if "\<And>x. P (?f x) = P x" "\<And>x. x \<in> set t \<Longrightarrow> P x \<Longrightarrow> ho_id x = ho_id o'" for P t
    using that by (induction t) auto
  have "ho_id x = ho_id o'" if "x \<in> set (db_otps db)" "ho_bookingId x = bid \<and> ho_otpType x = typ \<and> \<not> ho_verified x" for x
  proof -
    have "x \<in> set (filter (\<lambda>q. ho_bookingId q = bid \<and> ho_otpType q = typ \<and> \<not> ho_verified q) (db_otps db))" using that by simp
    then have "x \<in> set [o']" using assms(1) unfolding the_open_otp_def by (simp only:)
    then show ?thesis by simp
  qed
  then have "filter (\<lambda>q. ho_bookingId q = bid \<and> ho_otpType q = typ \<and> \<not> ho_verified q) (db_otps db1) =
      map ?f (filter (\<lambda>q. ho_bookingId q = bid \<and> ho_otpType q = typ \<and> \<not> ho_verified q) (db_otps db))"
    unfolding r(2) by (subst flt [symmetric]) simp_all
  then have "the_open_otp bid typ db1 (o'\<lparr>ho_attemptCount := ho_attemptCount o' + 1\<rparr>)"
    using assms(1) by (simp add: the_open_otp_def r(2) update_where_map_key)
  with q r(1) show ?thesis by simp
qed

definition counted :: "HandoverOtp \<Rightarrow> time \<times> string \<Rightarrow> bool" where
  "counted o' tg \<longleftrightarrow> length (trim (snd tg)) = 6 \<and> fst tg \<le> ho_expiresAt o'"

lemma wrong_guesses:
  assumes "the_open_otp bid typ db o'" "ho_attemptCount o' \<le> 5"
    and "\<forall>tg \<in> set gs. \<not> compare_hash (trim (snd tg)) (ho_otpHash o')"
    and "guess_all compare_hash bid typ gs db = (rs, db')"
  shows "\<exists>o''. the_open_otp bid typ db' o'' \<and> ho_otpHash o'' = ho_otpHash o' \<and> ho_expiresAt o'' = ho_expiresAt o' \<and>
           ho_attemptCount o'' = min 5 (ho_attemptCount o' + length (filter (counted o') gs))"
  using assms
proof (induction gs arbitrary: db o' rs)
  case Nil
  then show ?case by (auto simp: min_def)
next
  case (Cons tg gs)
  obtain t g where tg: "tg = (t, g)" by fastforce
  obtain r db1 where v: "verifyOtp compare_hash t bid typ g db = (r, db1)" by fastforce
  obtain rs' where rs': "guess_all compare_hash bid typ gs db1 = (rs', db')"
    using Cons.prems(4) v by (auto simp: tg split: prod.splits)
  have w: "\<not> compare_hash (trim g) (ho_otpHash o')" using Cons.prems(3) by (simp add: tg)
  from wrong_guess [OF Cons.prems(1) w v] show ?case
  proof (elim conjE disjE)
    assume a: "db1 = db" "length (trim g) \<noteq> 6"
    with Cons.IH [OF Cons.prems(1,2) _ rs' [unfolded a(1)]] Cons.prems(3) show ?thesis
      by (auto simp: tg counted_def)
  next
    assume a: "db1 = db" "ho_expiresAt o' < t"
    with Cons.IH [OF Cons.prems(1,2) _ rs' [unfolded a(1)]] Cons.prems(3) show ?thesis
      by (auto simp: tg counted_def)
  next
    assume a: "db1 = db" "5 \<le> ho_attemptCount o'"
    with Cons.IH [OF Cons.prems(1,2) _ rs' [unfolded a(1)]] Cons.prems(3) show ?thesis
      by (auto simp: min_def)
  next
    assume a: "the_open_otp bid typ db1 (o'\<lparr>ho_attemptCount := ho_attemptCount o' + 1\<rparr>)"
      and b: "length (trim g) = 6" "t \<le> ho_expiresAt o'" "ho_attemptCount o' < 5"
    have c: "counted (o'\<lparr>ho_attemptCount := ho_attemptCount o' + 1\<rparr>) = counted o'"
      by (rule ext) (simp add: counted_def)
    from Cons.IH [OF a _ _ rs'] Cons.prems(3) b show ?thesis
      unfolding c by (auto simp: tg counted_def)
  qed
qed

text \<open>
  A code can be guessed five times. Against one open code, with requests one after the other,
  once five well-formed guesses in time were wrong, every further attempt is rejected, also with
  the right digits, until a new code is generated.
\<close>

theorem otp_locked_after_five:
  assumes "the_open_otp bid typ db o'" and "ho_attemptCount o' = 0"
    and "\<forall>tg \<in> set gs. \<not> compare_hash (trim (snd tg)) (ho_otpHash o')"
    and "5 \<le> length (filter (counted o') gs)"
    and "guess_all compare_hash bid typ gs db = (rs, db')"
  shows "\<exists>e. verifyOtp compare_hash t bid typ raw db' = (Inl e, db')"
proof -
  obtain o'' where o'': "the_open_otp bid typ db' o''" "ho_attemptCount o'' = 5"
    using wrong_guesses [OF assms(1) _ assms(3,5)] assms(2,4) by auto
  have "\<exists>e. otp_check t raw (Some o'') = Inl e" using o''(2) by (simp add: otp_check_def)
  then show ?thesis using the_open_otp_latest [OF o''(1)] by (auto simp: verifyOtp_def)
qed

lemma otp_locked_after_five_witness:
  "\<exists>rs db'. guess_all (=) ''b1'' PICKUP (replicate 5 (7, ''000000'')) (demo_db\<lparr>db_otps := [demo_otp]\<rparr>) = (rs, db') \<and>
     (\<exists>e. verifyOtp (=) 7 ''b1'' PICKUP ''123456'' db' = (Inl e, db'))"
proof -
  let ?gs = "replicate 5 (7 :: time, ''000000'')"
  obtain rs db' where g: "guess_all (=) ''b1'' PICKUP ?gs (demo_db\<lparr>db_otps := [demo_otp]\<rparr>) = (rs, db')" by fastforce
  have o': "the_open_otp ''b1'' PICKUP (demo_db\<lparr>db_otps := [demo_otp]\<rparr>) demo_otp"
    by (simp add: the_open_otp_def demo_otp_def)
  have w: "\<forall>tg \<in> set ?gs. \<not> trim (snd tg) = ho_otpHash demo_otp"
    by (simp add: demo_otp_def trim_def is_blank_def)
  have c: "5 \<le> length (filter (counted demo_otp) ?gs)"
    by (simp add: counted_def demo_otp_def trim_def is_blank_def)
  from otp_locked_after_five [where compare_hash = "(=)", OF o' _ w c g] g show ?thesis
    by (auto simp: demo_otp_def)
qed

text \<open>
  Requests that overlap are not held to five guesses. For any \<open>n\<close> there is a run in which \<open>n\<close>
  wrong guesses against one code are counted and the right one is then accepted: the attempt limit
  is compared with a count read before the other requests commit.
\<close>

definition wrong_p :: "string \<times> HandoverOtp" where "wrong_p = (''000000'', demo_otp)"
definition right_p :: "string \<times> HandoverOtp" where "right_p = (''123456'', demo_otp)"
definition otp_db :: "nat \<Rightarrow> bk_db" where
  "otp_db k = demo_db\<lparr>db_otps := [demo_otp\<lparr>ho_attemptCount := k\<rparr>]\<rparr>"

lemma overlapping_reads: "otp_reachable id (=) (otp_db 0, replicate n wrong_p @ [right_p], [])"
proof (induction n)
  case 0
  have "otp_reachable id (=) (demo_db, [], [])" by (rule otp_reachable.start) (simp add: demo_db_def)
  moreover have "demo_db\<lparr>db_otps := [demo_otp]\<rparr> = otp_db 0" by (simp add: otp_db_def demo_otp_def)
  then have "otp_step id (=) (demo_db, [], []) (otp_db 0, [], [])"
    using otp_step.generate [OF demo_generate, where compare_hash = "(=)" and accepted = "[]" and pending = "[]"]
    by (simp add: demo_db_def)
  ultimately have "otp_reachable id (=) (otp_db 0, [], [])" by (rule otp_reachable.step)
  moreover have "otp_check 5 ''123456'' (latest_otp ''b1'' PICKUP (otp_db 0)) = Inr demo_otp"
    by (simp add: otp_check_def latest_otp_def otp_db_def demo_otp_def trim_def is_blank_def)
  from otp_step.read [OF this] have "otp_step id (=) (otp_db 0, [], []) (otp_db 0, [right_p], [])"
    by (simp add: right_p_def)
  ultimately have "otp_reachable id (=) (otp_db 0, [right_p], [])" by (rule otp_reachable.step)
  then show ?case by (simp only: replicate_0 append_Nil)
next
  case (Suc n)
  have "otp_check 5 ''000000'' (latest_otp ''b1'' PICKUP (otp_db 0)) = Inr demo_otp"
    by (simp add: otp_check_def latest_otp_def otp_db_def demo_otp_def trim_def is_blank_def)
  from otp_step.read [OF this]
  have "otp_step id (=) (otp_db 0, replicate n wrong_p @ [right_p], []) (otp_db 0, wrong_p # replicate n wrong_p @ [right_p], [])"
    by (simp add: wrong_p_def)
  with Suc have "otp_reachable id (=) (otp_db 0, wrong_p # replicate n wrong_p @ [right_p], [])"
    by (rule otp_reachable.step)
  then show ?case by (simp only: replicate_Suc append_Cons)
qed

lemma overlapping_commits:
  "otp_reachable id (=) (otp_db k, replicate n wrong_p @ [right_p], []) \<Longrightarrow>
   otp_reachable id (=) (otp_db (k + n), [right_p], [])"
proof (induction n arbitrary: k)
  case (Suc n)
  have m: "otp_commit (=) 5 ''000000'' demo_otp (otp_db k) =
      (Inl (BadRequestException ''Invalid handover OTP.''), otp_db (Suc k))"
    by (simp add: otp_commit_def otp_db_def demo_otp_def trim_def is_blank_def exists_where_def)
  have "otp_step id (=) (otp_db k, replicate (Suc n) wrong_p @ [right_p], [])
      (otp_db (Suc k), remove1 (''000000'', demo_otp) (replicate (Suc n) wrong_p @ [right_p]), [])"
    by (rule otp_step.reject [OF _ m]) (simp add: wrong_p_def)
  with Suc.prems have "otp_reachable id (=) (otp_db (Suc k),
      remove1 (''000000'', demo_otp) (replicate (Suc n) wrong_p @ [right_p]), [])"
    by (rule otp_reachable.step)
  then have "otp_reachable id (=) (otp_db (Suc k), replicate n wrong_p @ [right_p], [])" by (simp add: wrong_p_def)
  from Suc.IH [OF this] show ?case by simp
qed simp

theorem otp_limit_not_enforced_when_overlapping:
  "\<exists>db r. otp_reachable id (=) (db, [], [''o1'']) \<and> db_otps db = [r] \<and> ho_verified r \<and> ho_attemptCount r = n"
proof -
  have "otp_reachable id (=) (otp_db (0 + n), [right_p], [])"
    by (rule overlapping_commits [OF overlapping_reads])
  then have r: "otp_reachable id (=) (otp_db n, [right_p], [])" by simp
  let ?r = "demo_otp\<lparr>ho_attemptCount := n, ho_verified := True, ho_verifiedAt := Some 5\<rparr>"
  have m: "otp_commit (=) 5 ''123456'' demo_otp (otp_db n) = (Inr True, demo_db\<lparr>db_otps := [?r]\<rparr>)"
    by (simp add: otp_commit_def otp_db_def demo_otp_def trim_def is_blank_def count_where_def Let_def)
  have "otp_step id (=) (otp_db n, [right_p], []) (demo_db\<lparr>db_otps := [?r]\<rparr>, remove1 (''123456'', demo_otp) [right_p], [ho_id demo_otp])"
    by (rule otp_step.accept [OF _ m]) (simp add: right_p_def)
  with r have "otp_reachable id (=) (demo_db\<lparr>db_otps := [?r]\<rparr>, remove1 (''123456'', demo_otp) [right_p], [ho_id demo_otp])"
    by (rule otp_reachable.step)
  moreover have "remove1 (''123456'', demo_otp) [right_p] = []" "[ho_id demo_otp] = [''o1'']"
    by (simp_all add: right_p_def demo_otp_def)
  ultimately have "otp_reachable id (=) (demo_db\<lparr>db_otps := [?r]\<rparr>, [], [''o1''])" by (simp only:)
  then show ?thesis by (intro exI [of _ "demo_db\<lparr>db_otps := [?r]\<rparr>"] exI [of _ ?r]) simp
qed

end
