(* ===== verification/Outbox.thy ===== *)
theory Outbox
  imports Booking
begin

text \<open>
  The transactional outbox (\<open>bookings/booking-outbox.service.ts\<close>) and its worker
  (\<open>bookings/outbox-worker.service.ts\<close>). The notification channels are parameters: \<open>publish\<close> is
  \<open>NotificationOrchestratorService.publishEvent\<close> (an error message or success per recipient and
  type), \<open>vendorUser\<close> the lookup of a vendor's user. A run of the worker reads one clock. Emitting to
  the SSE stream does not fail; its messages are returned with the publications.
\<close>

section \<open>Dispatch\<close>

definition mapToOperationalEventType :: "string \<Rightarrow> string" where
  "mapToOperationalEventType t =
     (if t \<in> {''BOOKING_CREATED'', ''BOOKING_CONFIRMED'', ''BOOKING_CANCELLED'', ''HANDOVER_READY'', ''TRIP_STARTED'',
              ''RETURN_PENDING'', ''BOOKING_COMPLETED''}
      then t else ''BOOKING_CONFIRMED'')"

definition getEventTitle :: "string \<Rightarrow> string" where
  "getEventTitle t =
     (if t = ''BOOKING_CREATED'' then ''New Booking Created''
      else if t = ''BOOKING_CONFIRMED'' then ''Booking Confirmed''
      else if t = ''BOOKING_CANCELLED'' then ''Booking Cancelled''
      else if t = ''HANDOVER_READY'' then ''Vehicle Ready for Handover''
      else if t = ''TRIP_STARTED'' then ''Trip In Progress''
      else if t = ''RETURN_PENDING'' then ''Vehicle Return Initiated''
      else if t = ''BOOKING_COMPLETED'' then ''Trip Completed''
      else if t = ''BOOKING_EXPIRED'' then ''Booking Expired''
      else ''Booking State Updated'')"

definition getEventBody :: "string \<Rightarrow> BookingLifecyclePayload \<Rightarrow> bool \<Rightarrow> string" where
  "getEventBody t p toCustomer =
     (let vehicle = pl_vehicleName p @ '' ('' @ pl_registrationNumber p @ '')''
      in if t = ''BOOKING_CREATED''
         then if toCustomer then ''Your booking request for '' @ vehicle @ '' has been received.''
              else ''New booking request received for '' @ vehicle @ ''. Please review and accept.''
         else if t = ''BOOKING_CONFIRMED''
         then if toCustomer then ''Your booking for '' @ vehicle @ '' has been accepted by the host.''
              else ''You confirmed the booking for '' @ vehicle @ ''.''
         else if t = ''BOOKING_CANCELLED''
         then ''Booking for '' @ vehicle @ '' was cancelled. '' @
              (if str_truthy (pl_cancellationReason p) then ''Reason: '' @ the (pl_cancellationReason p) else '''')
         else if t = ''HANDOVER_READY''
         then ''Pre-trip inspection finalized for '' @ vehicle @ ''. Vehicle is ready at hub.''
         else if t = ''TRIP_STARTED''
         then ''Pickup OTP verified. Handover complete and trip has officially started for '' @ vehicle @ ''.''
         else if t = ''RETURN_PENDING''
         then ''Vehicle return process initiated for '' @ vehicle @ ''. Post-trip inspection pending.''
         else if t = ''BOOKING_COMPLETED''
         then ''Trip concluded cleanly for '' @ vehicle @ ''. Escrow quarantine lifted and security deposit reconciled.''
         else if t = ''BOOKING_EXPIRED''
         then ''Booking for '' @ vehicle @ '' expired due to unconfirmed timeout.''
         else ''Booking for '' @ vehicle @ '' is now in '' @ t @ ''.'')"

record sse_message =
  ms_id :: string
  ms_userId :: id
  ms_title :: string
  ms_body :: string
  ms_highPriority :: bool

record sent =
  st_emitted :: "sse_message list"
  st_published :: "(id \<times> string) list"

definition sse_messages :: "(id \<Rightarrow> id option) \<Rightarrow> BookingOutboxEvent \<Rightarrow> sse_message list" where
  "sse_messages vendorUser e =
     (let p = oe_payload e in
      (if pl_customerId p \<noteq> []
       then [\<lparr>ms_id = ''notif_'' @ oe_correlationId e @ ''_cust'', ms_userId = pl_customerId p,
              ms_title = getEventTitle (oe_eventType e), ms_body = getEventBody (oe_eventType e) p True,
              ms_highPriority = (oe_eventType e = ''HANDOVER_READY'')\<rparr>]
       else []) @
      (if str_truthy (vendorUser (oe_tenantId e))
       then [\<lparr>ms_id = ''notif_'' @ oe_correlationId e @ ''_vnd'', ms_userId = the (vendorUser (oe_tenantId e)),
              ms_title = getEventTitle (oe_eventType e), ms_body = getEventBody (oe_eventType e) p False,
              ms_highPriority = False\<rparr>]
       else []))"

text \<open>Who is notified through the orchestrator, in order.\<close>

definition publications :: "(id \<Rightarrow> id option) \<Rightarrow> BookingOutboxEvent \<Rightarrow> (id \<times> string) list" where
  "publications vendorUser e =
     (let typ = mapToOperationalEventType (oe_eventType e)
      in (if pl_customerId (oe_payload e) \<noteq> [] then [(pl_customerId (oe_payload e), typ)] else []) @
         (if oe_eventType e \<in> {''BOOKING_CREATED'', ''BOOKING_CANCELLED'', ''RETURN_PENDING'', ''BOOKING_COMPLETED''} \<and>
             str_truthy (vendorUser (oe_tenantId e))
          then [(the (vendorUser (oe_tenantId e)), typ)] else []))"

fun publish_all :: "(id \<times> string \<Rightarrow> string option) \<Rightarrow> (id \<times> string) list \<Rightarrow> string option \<times> (id \<times> string) list" where
  "publish_all publish [] = (None, [])"
| "publish_all publish (p # ps) =
     (case publish p of
        Some err \<Rightarrow> (Some err, [])
      | None \<Rightarrow> (case publish_all publish ps of (e, done) \<Rightarrow> (e, p # done)))"

definition find_event :: "id \<Rightarrow> bk_db \<Rightarrow> BookingOutboxEvent option" where
  "find_event eid db = List.find (\<lambda>e. oe_id e = eid) (db_outbox db)"

definition update_event :: "id \<Rightarrow> (BookingOutboxEvent \<Rightarrow> BookingOutboxEvent) \<Rightarrow> bk_db \<Rightarrow> bk_db" where
  "update_event eid f db = db\<lparr>db_outbox := update_where (\<lambda>e. oe_id e = eid) f (db_outbox db)\<rparr>"

definition fail_event :: "time \<Rightarrow> BookingOutboxEvent \<Rightarrow> string \<Rightarrow> BookingOutboxEvent \<Rightarrow> BookingOutboxEvent" where
  "fail_event now snapshot err e =
     (let next = oe_retryCount snapshot + 1
      in e\<lparr>oe_status := (if next \<ge> oe_maxRetries snapshot then DEAD_LETTER else OutboxStatus.FAILED),
           oe_retryCount := next, oe_lastError := Some err, oe_updatedAt := now\<rparr>)"

text \<open>The part of \<open>dispatchEvent\<close> after its read: the channels, then the result.\<close>

definition dispatch_finish ::
  "(id \<Rightarrow> id option) \<Rightarrow> (id \<times> string \<Rightarrow> string option) \<Rightarrow> time \<Rightarrow> BookingOutboxEvent \<Rightarrow> bk_db \<Rightarrow> bool \<times> sent \<times> bk_db" where
  "dispatch_finish vendorUser publish now e db =
     (case publish_all publish (publications vendorUser e) of
        (None, done) \<Rightarrow>
          (True, \<lparr>st_emitted = sse_messages vendorUser e, st_published = done\<rparr>,
           update_event (oe_id e) (\<lambda>r. r\<lparr>oe_status := PUBLISHED, oe_processedAt := Some now,
             oe_lastError := None, oe_updatedAt := now\<rparr>) db)
      | (Some err, done) \<Rightarrow>
          (False, \<lparr>st_emitted = sse_messages vendorUser e, st_published = done\<rparr>,
           update_event (oe_id e) (fail_event now e err) db))"

definition nothing_sent :: sent where
  "nothing_sent = \<lparr>st_emitted = [], st_published = []\<rparr>"

definition dispatchEvent ::
  "(id \<Rightarrow> id option) \<Rightarrow> (id \<times> string \<Rightarrow> string option) \<Rightarrow> time \<Rightarrow> id \<Rightarrow> bk_db \<Rightarrow> bool \<times> sent \<times> bk_db" where
  "dispatchEvent vendorUser publish now eid db =
     (case find_event eid db of
        None \<Rightarrow> (False, nothing_sent, db)
      | Some e \<Rightarrow>
          if oe_status e = PUBLISHED then (True, nothing_sent, db)
          else dispatch_finish vendorUser publish now e db)"

definition getLifecycleHistory :: "id \<Rightarrow> bk_db \<Rightarrow> BookingOutboxEvent list" where
  "getLifecycleHistory bookingId db = sort_key oe_createdAt (filter (\<lambda>e. oe_bookingId e = bookingId) (db_outbox db))"

section \<open>The worker\<close>

record OutboxWorkerResult =
  wr_processedCount :: nat
  wr_successCount :: nat
  wr_failedCount :: nat
  wr_deadLetterCount :: nat
  wr_staleRecoveredCount :: nat

definition stale_events :: "time \<Rightarrow> int \<Rightarrow> bk_db \<Rightarrow> BookingOutboxEvent list" where
  "stale_events now timeoutMs db =
     take 50 (filter (\<lambda>e. oe_status e = PROCESSING \<and> oe_updatedAt e < now - timeoutMs) (db_outbox db))"

definition recoverStaleProcessingEvents :: "time \<Rightarrow> int \<Rightarrow> bk_db \<Rightarrow> nat \<times> bk_db" where
  "recoverStaleProcessingEvents now timeoutMs db =
     (let stale = stale_events now timeoutMs db
      in (length stale,
          fold (\<lambda>e. update_event (oe_id e)
             (fail_event now e ''Worker timeout recovery: process crashed or timed out during dispatch'')) stale db))"

definition candidates :: "nat \<Rightarrow> bk_db \<Rightarrow> BookingOutboxEvent list" where
  "candidates batchSize db =
     take (batchSize * 2)
       (sort_key oe_createdAt
         (filter (\<lambda>e. oe_status e = OutboxStatus.PENDING \<or> (oe_status e = OutboxStatus.FAILED \<and> oe_retryCount e < 5))
           (db_outbox db)))"

definition in_backoff :: "time \<Rightarrow> BookingOutboxEvent \<Rightarrow> bool" where
  "in_backoff now e \<longleftrightarrow>
     oe_status e = OutboxStatus.FAILED \<and> now - oe_updatedAt e < min 60000 (1000 * 2 ^ oe_retryCount e)"

definition claimable :: "id \<Rightarrow> BookingOutboxEvent \<Rightarrow> bool" where
  "claimable eid r \<longleftrightarrow> oe_id r = eid \<and> oe_status r \<in> {OutboxStatus.PENDING, OutboxStatus.FAILED}"

text \<open>
  One round of the loop. \<open>crash\<close> is an exception that \<open>dispatchEvent\<close> itself lets through (a
  failing table access), after which the worker records the failure.
\<close>

definition process_event ::
  "(id \<Rightarrow> id option) \<Rightarrow> (id \<times> string \<Rightarrow> string option) \<Rightarrow> (id \<Rightarrow> string option) \<Rightarrow> time \<Rightarrow> nat \<Rightarrow>
   BookingOutboxEvent \<Rightarrow> OutboxWorkerResult \<times> bk_db \<Rightarrow> OutboxWorkerResult \<times> bk_db" where
  "process_event vendorUser publish crash now batchSize e st =
     (let (res, db) = st
      in if wr_processedCount res \<ge> batchSize \<or> in_backoff now e then st
         else if count_where (claimable (oe_id e)) (db_outbox db) = 0 then st
         else
           let db1 = db\<lparr>db_outbox := update_where (claimable (oe_id e))
                          (\<lambda>r. r\<lparr>oe_status := PROCESSING, oe_updatedAt := now\<rparr>) (db_outbox db)\<rparr>;
               res1 = res\<lparr>wr_processedCount := wr_processedCount res + 1\<rparr>
           in case crash (oe_id e) of
                Some err \<Rightarrow>
                  (if oe_retryCount e + 1 \<ge> oe_maxRetries e
                   then res1\<lparr>wr_deadLetterCount := wr_deadLetterCount res1 + 1\<rparr>
                   else res1\<lparr>wr_failedCount := wr_failedCount res1 + 1\<rparr>,
                   update_event (oe_id e) (fail_event now e err) db1)
              | None \<Rightarrow>
                  (case dispatchEvent vendorUser publish now (oe_id e) db1 of
                     (True, _, db2) \<Rightarrow> (res1\<lparr>wr_successCount := wr_successCount res1 + 1\<rparr>, db2)
                   | (False, _, db2) \<Rightarrow>
                       (if map_option oe_status (find_event (oe_id e) db2) = Some DEAD_LETTER
                        then res1\<lparr>wr_deadLetterCount := wr_deadLetterCount res1 + 1\<rparr>
                        else res1\<lparr>wr_failedCount := wr_failedCount res1 + 1\<rparr>, db2)))"

definition processPendingEvents ::
  "(id \<Rightarrow> id option) \<Rightarrow> (id \<times> string \<Rightarrow> string option) \<Rightarrow> (id \<Rightarrow> string option) \<Rightarrow> time \<Rightarrow> nat \<Rightarrow> bk_db \<Rightarrow>
   OutboxWorkerResult \<times> bk_db" where
  "processPendingEvents vendorUser publish crash now batchSize db =
     (let (stale, db1) = recoverStaleProcessingEvents now 300000 db;
          res = \<lparr>wr_processedCount = 0, wr_successCount = 0, wr_failedCount = 0, wr_deadLetterCount = 0,
                 wr_staleRecoveredCount = stale\<rparr>
      in fold (process_event vendorUser publish crash now batchSize) (candidates batchSize db1) (res, db1))"

section \<open>What a round does to the table\<close>

definition ids_distinct :: "bk_db \<Rightarrow> bool" where
  "ids_distinct db \<longleftrightarrow> distinct (map oe_id (db_outbox db))"

lemma find_eventD: "find_event i db = Some r \<Longrightarrow> r \<in> set (db_outbox db) \<and> oe_id r = i"
  unfolding find_event_def by (drule find_Some_D) simp

lemma find_event_in: "ids_distinct db \<Longrightarrow> r \<in> set (db_outbox db) \<Longrightarrow> find_event (oe_id r) db = Some r"
  unfolding find_event_def ids_distinct_def by (intro find_key_unique) simp_all

lemma find_update_event:
  "(\<And>r. oe_id (f r) = oe_id r) \<Longrightarrow>
   find_event i (update_event j f db) = (if i = j then map_option f (find_event i db) else find_event i db)"
  unfolding find_event_def update_event_def by (simp add: find_update_where_key)

lemma ids_distinct_update_event [simp]:
  "(\<And>r. oe_id (f r) = oe_id r) \<Longrightarrow> ids_distinct (update_event j f db) = ids_distinct db"
  by (simp add: ids_distinct_def update_event_def update_where_map_key)

lemma fail_event_simps [simp]:
  "oe_id (fail_event now s err e) = oe_id e" "oe_maxRetries (fail_event now s err e) = oe_maxRetries e"
  "oe_retryCount (fail_event now s err e) = oe_retryCount s + 1"
  "oe_status (fail_event now s err e) =
     (if oe_retryCount s + 1 \<ge> oe_maxRetries s then DEAD_LETTER else OutboxStatus.FAILED)"
  by (simp_all add: fail_event_def Let_def)

text \<open>The claim is an update of the one row when it is claimable.\<close>

lemma claim_row:
  assumes "ids_distinct db" "find_event i db = Some r"
  shows "(count_where (claimable i) (db_outbox db) = 0) = (oe_status r \<notin> {OutboxStatus.PENDING, OutboxStatus.FAILED})"
    "oe_status r \<in> {OutboxStatus.PENDING, OutboxStatus.FAILED} \<Longrightarrow>
       db\<lparr>db_outbox := update_where (claimable i) f (db_outbox db)\<rparr> = update_event i f db"
proof -
  have r: "r \<in> set (db_outbox db)" "oe_id r = i" using find_eventD [OF assms(2)] by simp_all
  have only: "x = r" if "x \<in> set (db_outbox db)" "oe_id x = i" for x
    using assms(1) r that by (auto simp: ids_distinct_def distinct_map dest: inj_onD)
  show "(count_where (claimable i) (db_outbox db) = 0) = (oe_status r \<notin> {OutboxStatus.PENDING, OutboxStatus.FAILED})"
  proof -
    have "(count_where (claimable i) (db_outbox db) = 0) = (\<forall>x\<in>set (db_outbox db). \<not> claimable i x)"
      by (simp add: count_where_def filter_empty_conv)
    also have "\<dots> = (\<not> claimable i r)" using r only by (metis claimable_def)
    finally show ?thesis using r by (simp add: claimable_def)
  qed
  assume s: "oe_status r \<in> {OutboxStatus.PENDING, OutboxStatus.FAILED}"
  have "claimable i x = (oe_id x = i)" if "x \<in> set (db_outbox db)" for x
    using only [OF that] s unfolding claimable_def by blast
  then have "update_where (claimable i) f (db_outbox db) = update_where (\<lambda>x. oe_id x = i) f (db_outbox db)"
    unfolding update_where_def by (intro map_cong) simp_all
  then show "db\<lparr>db_outbox := update_where (claimable i) f (db_outbox db)\<rparr> = update_event i f db"
    by (simp only: update_event_def)
qed

text \<open>The row of an event after its round.\<close>

definition row_after ::
  "(id \<Rightarrow> id option) \<Rightarrow> (id \<times> string \<Rightarrow> string option) \<Rightarrow> (id \<Rightarrow> string option) \<Rightarrow> time \<Rightarrow> BookingOutboxEvent \<Rightarrow>
   BookingOutboxEvent" where
  "row_after vendorUser publish crash now e =
     (let c = e\<lparr>oe_status := PROCESSING, oe_updatedAt := now\<rparr>
      in case crash (oe_id e) of
           Some err \<Rightarrow> fail_event now e err c
         | None \<Rightarrow>
             (case fst (publish_all publish (publications vendorUser e)) of
                None \<Rightarrow> c\<lparr>oe_status := PUBLISHED, oe_processedAt := Some now, oe_lastError := None, oe_updatedAt := now\<rparr>
              | Some err \<Rightarrow> fail_event now e err c))"

lemma publications_claim [simp]:
  "publications vendorUser (e\<lparr>oe_status := s, oe_updatedAt := u\<rparr>) = publications vendorUser e"
  by (simp add: publications_def Let_def)

lemma fail_event_claim [simp]:
  "fail_event now (s\<lparr>oe_status := a, oe_updatedAt := b\<rparr>) err = fail_event now s err"
  by (rule ext) (simp add: fail_event_def Let_def)

lemma process_event_spec:
  assumes "ids_distinct db" "find_event (oe_id e) db = Some e" "process_event vendorUser publish crash now batchSize e (res, db) = (res', db')"
  shows "ids_distinct db'"
    "i \<noteq> oe_id e \<Longrightarrow> find_event i db' = find_event i db"
    "wr_processedCount res' \<le> wr_processedCount res + 1"
    "find_event (oe_id e) db' = Some
       (if wr_processedCount res \<ge> batchSize \<or> in_backoff now e \<or> oe_status e \<notin> {OutboxStatus.PENDING, OutboxStatus.FAILED}
        then e else row_after vendorUser publish crash now e)"
proof -
  let ?c = "\<lambda>r. r\<lparr>oe_status := PROCESSING, oe_updatedAt := now\<rparr>"
  let ?skip = "wr_processedCount res \<ge> batchSize \<or> in_backoff now e \<or> oe_status e \<notin> {OutboxStatus.PENDING, OutboxStatus.FAILED}"
  note cl = claim_row [OF assms(1,2)]
  have "ids_distinct db' \<and> (i \<noteq> oe_id e \<longrightarrow> find_event i db' = find_event i db) \<and>
    wr_processedCount res' \<le> wr_processedCount res + 1 \<and>
    find_event (oe_id e) db' = Some (if ?skip then e else row_after vendorUser publish crash now e)"
  proof (cases ?skip)
    case True
    have "process_event vendorUser publish crash now batchSize e (res, db) = (res, db)"
    proof (cases "count_where (claimable (oe_id e)) (db_outbox db) = 0")
      case z: True
      show ?thesis unfolding process_event_def by (simp add: z)
    next
      case False
      then have "wr_processedCount res \<ge> batchSize \<or> in_backoff now e" using cl(1) True by argo
      then show ?thesis unfolding process_event_def by (simp only: Let_def prod.case if_True)
    qed
    then have "res' = res" "db' = db" using assms(3) by simp_all
    moreover have "(if ?skip then e else row_after vendorUser publish crash now e) = e" using True by (simp only: if_True)
    ultimately show ?thesis using assms(1,2) by simp
  next
    case False
    define db1 where "db1 = update_event (oe_id e) ?c db"
    have db1: "db\<lparr>db_outbox := update_where (claimable (oe_id e)) ?c (db_outbox db)\<rparr> = db1"
      using cl(2) False by (simp add: db1_def)
    have f1: "find_event (oe_id e) db1 = Some (?c e)" using assms(2) by (simp add: db1_def find_update_event)
    have d1: "ids_distinct db1" using assms(1) by (simp add: db1_def)
    have o1: "i \<noteq> oe_id e \<Longrightarrow> find_event i db1 = find_event i db" by (simp add: db1_def find_update_event)
    have nz: "\<not> count_where (claimable (oe_id e)) (db_outbox db) = 0" using False cl(1) by simp
    show ?thesis
    proof (cases "crash (oe_id e)")
      case (Some err)
      then have "db' = update_event (oe_id e) (fail_event now e err) db1"
        "wr_processedCount res' = wr_processedCount res + 1"
        using assms(3) False nz by (auto simp: process_event_def db1 Let_def)
      with Some False f1 d1 o1 show ?thesis by (simp add: find_update_event row_after_def)
    next
      case None
      obtain pe out where pub: "publish_all publish (publications vendorUser e) = (pe, out)" by fastforce
      define g where "g = (case pe of
          None \<Rightarrow> (\<lambda>r. r\<lparr>oe_status := PUBLISHED, oe_processedAt := Some now, oe_lastError := None, oe_updatedAt := now\<rparr>)
        | Some err \<Rightarrow> fail_event now e err)"
      have gid: "oe_id (g r) = oe_id r" for r by (simp add: g_def split: option.splits)
      have "\<exists>b s. dispatchEvent vendorUser publish now (oe_id e) db1 = (b, s, update_event (oe_id e) g db1)"
        using pub by (cases pe) (auto simp: dispatchEvent_def f1 dispatch_finish_def g_def)
      then obtain b s where dsp: "dispatchEvent vendorUser publish now (oe_id e) db1 = (b, s, update_event (oe_id e) g db1)"
        by blast
      have "db' = update_event (oe_id e) g db1" "wr_processedCount res' = wr_processedCount res + 1"
        using assms(3) False nz None dsp by (auto simp: process_event_def db1 Let_def split: bool.splits)
      moreover have "row_after vendorUser publish crash now e = g (?c e)"
        using None pub by (simp add: row_after_def g_def split: option.splits)
      ultimately show ?thesis using False f1 d1 o1 gid by (simp add: find_update_event)
    qed
  qed
  then show "ids_distinct db'" "i \<noteq> oe_id e \<Longrightarrow> find_event i db' = find_event i db"
    "wr_processedCount res' \<le> wr_processedCount res + 1"
    "find_event (oe_id e) db' = Some (if ?skip then e else row_after vendorUser publish crash now e)" by simp_all
qed

section \<open>What a run does to the table\<close>

definition run_after where
  "run_after vendorUser publish crash now e =
     (if in_backoff now e \<or> oe_status e \<notin> {OutboxStatus.PENDING, OutboxStatus.FAILED} then e
      else row_after vendorUser publish crash now e)"

lemma run_events:
  assumes "ids_distinct db" "distinct (map oe_id es)" "\<forall>e\<in>set es. find_event (oe_id e) db = Some e"
    "fold (process_event vendorUser publish crash now batchSize) es (res, db) = (res', db')"
  shows "ids_distinct db' \<and> (\<forall>i. i \<notin> oe_id ` set es \<longrightarrow> find_event i db' = find_event i db) \<and>
    (\<forall>e\<in>set es. find_event (oe_id e) db' = Some e \<or>
       find_event (oe_id e) db' = Some (run_after vendorUser publish crash now e)) \<and>
    (wr_processedCount res + length es \<le> batchSize \<longrightarrow>
       (\<forall>e\<in>set es. find_event (oe_id e) db' = Some (run_after vendorUser publish crash now e)))"
  using assms
proof (induction es arbitrary: res db)
  case Nil
  then show ?case by simp
next
  case (Cons e es)
  let ?after = "run_after vendorUser publish crash now"
  obtain res1 db1 where s: "process_event vendorUser publish crash now batchSize e (res, db) = (res1, db1)"
    by fastforce
  have e: "find_event (oe_id e) db = Some e" "oe_id e \<notin> oe_id ` set es" "distinct (map oe_id es)"
    using Cons.prems(2,3) by simp_all
  note spec = process_event_spec [OF Cons.prems(1) e(1) s]
  have rest: "\<forall>x\<in>set es. find_event (oe_id x) db1 = Some x"
  proof
    fix x assume x: "x \<in> set es"
    then have "oe_id x \<noteq> oe_id e" using e(2) by (metis imageI)
    then show "find_event (oe_id x) db1 = Some x" using spec(2) Cons.prems(3) x by simp
  qed
  have run: "fold (process_event vendorUser publish crash now batchSize) es (res1, db1) = (res', db')"
    using Cons.prems(4) by (simp only: fold_simps s)
  note ih = Cons.IH [OF spec(1) e(3) rest run]
  have head: "find_event (oe_id e) db' = find_event (oe_id e) db1" using ih e(2) by blast
  have one: "find_event (oe_id e) db1 = Some e \<or> find_event (oe_id e) db1 = Some (?after e)"
    using spec(4) by (simp add: run_after_def)
  have two: "find_event (oe_id e) db1 = Some (?after e)" if "wr_processedCount res + length (e # es) \<le> batchSize"
    using spec(4) that by (simp add: run_after_def)
  have out: "find_event i db' = find_event i db" if "i \<notin> oe_id ` set (e # es)" for i
  proof -
    have "i \<notin> oe_id ` set es" "i \<noteq> oe_id e" using that by simp_all
    then show ?thesis using ih spec(2) by metis
  qed
  have len: "wr_processedCount res1 + length es \<le> batchSize" if "wr_processedCount res + length (e # es) \<le> batchSize"
    using that spec(3) by simp
  show ?case
  proof (intro conjI allI impI ballI)
    show "ids_distinct db'" using ih by blast
    show "find_event i db' = find_event i db" if "i \<notin> oe_id ` set (e # es)" for i using out [OF that] .
    show "find_event (oe_id x) db' = Some x \<or> find_event (oe_id x) db' = Some (?after x)" if "x \<in> set (e # es)" for x
      using that head one ih by auto
    show "find_event (oe_id x) db' = Some (?after x)"
      if "wr_processedCount res + length (e # es) \<le> batchSize" "x \<in> set (e # es)" for x
      using that(2) head two [OF that(1)] ih len [OF that(1)] by auto
  qed
qed

lemma update_events:
  assumes "ids_distinct db" "distinct (map oe_id es)" "\<And>e r. oe_id (g e r) = oe_id r"
  shows "ids_distinct (fold (\<lambda>e. update_event (oe_id e) (g e)) es db) \<and>
    (\<forall>i. i \<notin> oe_id ` set es \<longrightarrow> find_event i (fold (\<lambda>e. update_event (oe_id e) (g e)) es db) = find_event i db) \<and>
    (\<forall>e\<in>set es. find_event (oe_id e) (fold (\<lambda>e. update_event (oe_id e) (g e)) es db) =
       map_option (g e) (find_event (oe_id e) db))"
  using assms(1,2)
proof (induction es arbitrary: db)
  case Nil
  then show ?case by simp
next
  case (Cons e es)
  have e: "oe_id e \<notin> oe_id ` set es" "distinct (map oe_id es)" using Cons.prems(2) by simp_all
  have d: "ids_distinct (update_event (oe_id e) (g e) db)" using Cons.prems(1) assms(3) by simp
  have other: "oe_id x \<noteq> oe_id e" if "x \<in> set es" for x using that e(1) by (metis imageI)
  have upd: "find_event i (update_event (oe_id e) (g e) db) =
      (if i = oe_id e then map_option (g e) (find_event i db) else find_event i db)" for i
    using assms(3) by (simp add: find_update_event)
  show ?case using Cons.IH [OF d e(2)] e(1) other upd by simp
qed

lemma sublist_ids:
  "ids_distinct db \<Longrightarrow> distinct (map oe_id (take n (filter p (db_outbox db)))) \<and>
     (\<forall>e\<in>set (take n (filter p (db_outbox db))). find_event (oe_id e) db = Some e)"
  by (auto simp: ids_distinct_def take_map [symmetric] distinct_map_filter dest!: in_set_takeD
      intro!: find_event_in [unfolded ids_distinct_def])

lemma candidates_ids:
  assumes "ids_distinct db"
  shows "distinct (map oe_id (candidates n db))" "\<forall>e\<in>set (candidates n db). find_event (oe_id e) db = Some e"
proof -
  let ?f = "filter (\<lambda>e. oe_status e = OutboxStatus.PENDING \<or> (oe_status e = OutboxStatus.FAILED \<and> oe_retryCount e < 5)) (db_outbox db)"
  have "distinct (map oe_id ?f)" using assms by (simp add: ids_distinct_def distinct_map_filter)
  then have "distinct (map oe_id (sort_key oe_createdAt ?f))" by (simp add: distinct_map)
  then show "distinct (map oe_id (candidates n db))" unfolding candidates_def by (simp add: take_map [symmetric])
  show "\<forall>e\<in>set (candidates n db). find_event (oe_id e) db = Some e"
    unfolding candidates_def using assms by (auto dest!: in_set_takeD intro: find_event_in)
qed

section \<open>Delivery in one run\<close>

definition eligible :: "BookingOutboxEvent \<Rightarrow> bool" where
  "eligible e \<longleftrightarrow>
     oe_status e = OutboxStatus.PENDING \<or> (oe_status e = OutboxStatus.FAILED \<and> oe_retryCount e < 5)"

lemma candidates_eligible: "candidates n db = take (n * 2) (sort_key oe_createdAt (filter eligible (db_outbox db)))"
  by (simp add: candidates_def eligible_def [abs_def])

lemma publish_all_None: "fst (publish_all publish ps) = None \<longleftrightarrow> (\<forall>p\<in>set ps. publish p = None)"
  by (induction ps) (auto split: option.splits prod.splits)

definition deliverable ::
  "(id \<Rightarrow> id option) \<Rightarrow> (id \<times> string \<Rightarrow> string option) \<Rightarrow> (id \<Rightarrow> string option) \<Rightarrow> BookingOutboxEvent \<Rightarrow> bool" where
  "deliverable vendorUser publish crash e \<longleftrightarrow>
     crash (oe_id e) = None \<and> list_all (\<lambda>p. publish p = None) (publications vendorUser e)"

lemma row_after_simps:
  "deliverable vendorUser publish crash e \<Longrightarrow>
     row_after vendorUser publish crash now e = e\<lparr>oe_status := PUBLISHED, oe_processedAt := Some now,
       oe_lastError := None, oe_updatedAt := now\<rparr>"
  "\<not> deliverable vendorUser publish crash e \<Longrightarrow>
     oe_status (row_after vendorUser publish crash now e) =
       (if oe_retryCount e + 1 \<ge> oe_maxRetries e then DEAD_LETTER else OutboxStatus.FAILED) \<and>
     oe_retryCount (row_after vendorUser publish crash now e) = oe_retryCount e + 1"
  using publish_all_None [of publish "publications vendorUser e"]
  by (auto simp: row_after_def deliverable_def list_all_iff Let_def split: option.splits)

text \<open>The events a run takes first: the oldest that may be delivered, as many as the batch holds\<close>

definition first_due :: "nat \<Rightarrow> bk_db \<Rightarrow> BookingOutboxEvent list" where
  "first_due batchSize db = take batchSize (sort_key oe_createdAt (filter eligible (db_outbox db)))"

lemma first_due_candidates: "\<exists>es. candidates n db = first_due n db @ es"
proof -
  let ?s = "sort_key oe_createdAt (filter eligible (db_outbox db))"
  have "take (n * 2) ?s = take n ?s @ take n (drop n ?s)" by (simp add: mult_2_right take_add)
  then show ?thesis by (auto simp: candidates_eligible first_due_def)
qed

lemma recovery_ids:
  assumes "ids_distinct db" "recoverStaleProcessingEvents now timeout db = (n, db1)"
  shows "ids_distinct db1"
proof -
  have "distinct (map oe_id (stale_events now timeout db))" using sublist_ids [OF assms(1)] by (simp add: stale_events_def)
  from update_events [OF assms(1) this, of "\<lambda>e. fail_event now e ''Worker timeout recovery: process crashed or timed out during dispatch''"]
  show ?thesis using assms(2) by (auto simp: recoverStaleProcessingEvents_def Let_def)
qed

lemma first_due_handled:
  assumes "ids_distinct db" "e \<in> set (first_due n db)" "\<not> in_backoff now e" "wr_processedCount res0 = 0"
    and "fold (process_event vendorUser publish crash now n) (candidates n db) (res0, db) = (res, db')"
  shows "find_event (oe_id e) db' = Some (row_after vendorUser publish crash now e)"
proof -
  let ?f = "fold (process_event vendorUser publish crash now n)" and ?es = "first_due n db"
  obtain es where c: "candidates n db = ?es @ es" using first_due_candidates by blast
  obtain res1 db1 where r1: "?f ?es (res0, db) = (res1, db1)" by fastforce
  have r2: "?f es (res1, db1) = (res, db')" using assms(5) r1 unfolding c by simp
  note ids = candidates_ids [OF assms(1), of n, unfolded c]
  have d: "distinct (map oe_id ?es)" "distinct (map oe_id es)" "oe_id ` set ?es \<inter> oe_id ` set es = {}" using ids(1) by simp_all
  have f: "\<forall>x\<in>set ?es. find_event (oe_id x) db = Some x" "\<forall>x\<in>set es. find_event (oe_id x) db = Some x" using ids(2) by simp_all
  note e1 = run_events [OF assms(1) d(1) f(1) r1]
  have "length ?es \<le> n" by (simp add: first_due_def)
  then have m: "find_event (oe_id e) db1 = Some (run_after vendorUser publish crash now e)" using e1 assms(2,4) by simp
  have "\<forall>x\<in>set es. find_event (oe_id x) db1 = Some x" using e1 f(2) d(3) by (metis disjoint_iff imageI)
  note e2 = run_events [OF _ d(2) this r2]
  have "oe_id e \<notin> oe_id ` set es" using assms(2) d(3) by blast
  then have "find_event (oe_id e) db' = find_event (oe_id e) db1" using e1 e2 by blast
  moreover have "eligible e" using assms(2) by (auto simp: first_due_def dest: in_set_takeD)
  then have "oe_status e \<in> {OutboxStatus.PENDING, OutboxStatus.FAILED}" by (auto simp: eligible_def)
  ultimately show ?thesis using m assms(3) by (auto simp: run_after_def)
qed


definition demo_event :: BookingOutboxEvent where
  "demo_event =
     \<lparr>oe_id = ''o1'', oe_bookingId = ''b1'', oe_eventType = ''BOOKING_CANCELLED'', oe_tenantId = ''v1'',
      oe_actorId = ''cust'', oe_actorRole = ''CUSTOMER'', oe_previousStatus = Some BookingStatus.CONFIRMED,
      oe_newStatus = BookingStatus.CANCELLED, oe_correlationId = ''corr1'',
      oe_payload = \<lparr>pl_bookingId = ''b1'', pl_customerId = ''cust'', pl_customerName = None, pl_vendorId = ''v1'',
        pl_vendorName = ''Fleet'', pl_carId = ''c1'', pl_vehicleName = ''Make Model'', pl_registrationNumber = ''KA01'',
        pl_startDate = 0, pl_endDate = 1, pl_totalFare = 10, pl_pickupLocation = ''Hub'', pl_dropLocation = None,
        pl_cancellationReason = None, pl_cancellationFee = None, pl_refundAmount = None\<rparr>,
      oe_status = OutboxStatus.PENDING, oe_retryCount = 0, oe_maxRetries = 3, oe_lastError = None,
      oe_processedAt = None, oe_createdAt = 0, oe_updatedAt = 0\<rparr>"

abbreviation outbox_db :: "BookingOutboxEvent list \<Rightarrow> bk_db" where
  "outbox_db es \<equiv> demo_db\<lparr>db_outbox := es\<rparr>"


section \<open>The table over time\<close>

text \<open>
  What happens to the table: an event is emitted with a fresh id inside the transaction of a
  transition (pending, no attempts, the column's default of three), the worker runs, with whatever
  its channels do that time, or a worker dies between its claim and the result.
\<close>

definition crash_after_claim :: "time \<Rightarrow> id \<Rightarrow> bk_db \<Rightarrow> bk_db" where
  "crash_after_claim now i db =
     db\<lparr>db_outbox := update_where (claimable i) (\<lambda>r. r\<lparr>oe_status := PROCESSING, oe_updatedAt := now\<rparr>) (db_outbox db)\<rparr>"

inductive outbox_step :: "bk_db \<Rightarrow> bk_db \<Rightarrow> bool" where
  emit: "oe_id e \<notin> oe_id ` set (db_outbox db) \<Longrightarrow> oe_status e = OutboxStatus.PENDING \<Longrightarrow> oe_retryCount e = 0 \<Longrightarrow>
     oe_maxRetries e = 3 \<Longrightarrow> outbox_step db (db\<lparr>db_outbox := db_outbox db @ [e]\<rparr>)"
| run: "outbox_step db (snd (processPendingEvents vendorUser publish crash now batchSize db))"
| die: "outbox_step db (crash_after_claim now i db)"

inductive outbox_steps :: "bk_db \<Rightarrow> bk_db \<Rightarrow> bool" where
  refl: "outbox_steps db db"
| step: "outbox_steps db db1 \<Longrightarrow> outbox_step db1 db2 \<Longrightarrow> outbox_steps db db2"

definition retry_ok :: "BookingOutboxEvent \<Rightarrow> bool" where
  "retry_ok e \<longleftrightarrow> oe_maxRetries e = 3 \<and> oe_retryCount e \<le> 3 \<and>
     (oe_status e = DEAD_LETTER \<longleftrightarrow> oe_retryCount e = 3) \<and>
     (oe_status e = OutboxStatus.FAILED \<longrightarrow> oe_retryCount e > 0)"

text \<open>How one row may change: what keeps \<open>retry_ok\<close>, and what leaves settled rows alone.\<close>

definition row_step :: "BookingOutboxEvent \<Rightarrow> BookingOutboxEvent \<Rightarrow> bool" where
  "row_step e r \<longleftrightarrow> (retry_ok e \<longrightarrow> retry_ok r) \<and> (oe_status e \<in> {PUBLISHED, DEAD_LETTER} \<longrightarrow> r = e)"

lemma row_step_refl [simp]: "row_step e e"
  by (simp add: row_step_def)

lemma row_step_trans: "row_step e r \<Longrightarrow> row_step r s \<Longrightarrow> row_step e s"
  by (auto simp: row_step_def)

lemma row_step_fail:
  "oe_status e \<notin> {PUBLISHED, DEAD_LETTER} \<Longrightarrow> row_step e (fail_event now e err e)"
  by (auto simp: row_step_def retry_ok_def)

lemma row_step_run_after: "row_step e (run_after vendorUser publish crash now e)"
proof (cases "in_backoff now e \<or> oe_status e \<notin> {OutboxStatus.PENDING, OutboxStatus.FAILED}")
  case True
  then show ?thesis by (simp only: run_after_def if_True row_step_refl)
next
  case False
  have m: "oe_maxRetries (row_after vendorUser publish crash now e) = oe_maxRetries e"
    by (simp add: row_after_def Let_def split: option.splits)
  show ?thesis
  proof (cases "deliverable vendorUser publish crash e")
    case True
    with False show ?thesis by (auto simp: run_after_def row_step_def retry_ok_def row_after_simps)
  next
    case dead: False
    from False m row_after_simps(2) [OF dead, of now] show ?thesis
      by (auto simp: run_after_def row_step_def retry_ok_def)
  qed
qed

lemma processPendingEvents_rows:
  fixes vendorUser publish crash now batchSize db
  defines "db' \<equiv> snd (processPendingEvents vendorUser publish crash now batchSize db)"
  assumes "ids_distinct db"
  shows "ids_distinct db'"
    "rel_option row_step (find_event i db) (find_event i db')"
proof -
  let ?stale = "stale_events now 300000 db"
  let ?g = "\<lambda>e. fail_event now e ''Worker timeout recovery: process crashed or timed out during dispatch''"
  define db1 where "db1 = fold (\<lambda>e. update_event (oe_id e) (?g e)) ?stale db"
  have st: "distinct (map oe_id ?stale)" "\<forall>e\<in>set ?stale. find_event (oe_id e) db = Some e"
    "\<forall>e\<in>set ?stale. oe_status e = PROCESSING"
    using sublist_ids [OF assms(2)] by (simp_all add: stale_events_def) (auto dest: in_set_takeD)
  note u = update_events [OF assms(2) st(1), of ?g, folded db1_def, simplified]
  have rel1: "rel_option row_step (find_event i db) (find_event i db1)"
  proof (cases "i \<in> oe_id ` set ?stale")
    case True
    then obtain e where e: "e \<in> set ?stale" "i = oe_id e" by blast
    then show ?thesis using u st(2,3) by (simp add: row_step_fail)
  next
    case False
    then show ?thesis using u by (simp add: option.rel_refl)
  qed
  let ?es = "candidates batchSize db1"
  have "\<exists>res0 res. fold (process_event vendorUser publish crash now batchSize) ?es (res0, db1) = (res, db')"
    unfolding db'_def processPendingEvents_def recoverStaleProcessingEvents_def
    by (simp add: Let_def db1_def [symmetric]) (metis prod.collapse)
  then obtain res0 res where run: "fold (process_event vendorUser publish crash now batchSize) ?es (res0, db1) = (res, db')"
    by blast
  have d1: "ids_distinct db1" using u by simp
  note r = run_events [OF d1 candidates_ids [OF d1] run]
  show "ids_distinct db'" using r by blast
  have rel2: "rel_option row_step (find_event i db1) (find_event i db')"
  proof (cases "i \<in> oe_id ` set ?es")
    case True
    then obtain e where e: "e \<in> set ?es" "i = oe_id e" by blast
    then have "find_event i db1 = Some e" using candidates_ids(2) [OF d1] by blast
    moreover have "find_event i db' = Some e \<or> find_event i db' = Some (run_after vendorUser publish crash now e)"
      using r e by blast
    ultimately show ?thesis by (auto simp: row_step_run_after)
  next
    case False
    then have "find_event i db' = find_event i db1" using r by blast
    then show ?thesis by (simp add: option.rel_refl)
  qed
  show "rel_option row_step (find_event i db) (find_event i db')"
    using rel1 rel2 by (cases "find_event i db"; cases "find_event i db1"; cases "find_event i db'")
      (auto intro: row_step_trans)
qed

lemma find_update_where_id:
  assumes "\<And>e. oe_id (f e) = oe_id e"
  shows "List.find (\<lambda>e. oe_id e = j) (update_where p f es) =
    map_option (\<lambda>e. if p e then f e else e) (List.find (\<lambda>e. oe_id e = j) es)"
  using assms by (induction es) auto

lemma crash_after_claim_rows:
  assumes "ids_distinct db"
  shows "ids_distinct (crash_after_claim now i db)"
    "rel_option row_step (find_event j db) (find_event j (crash_after_claim now i db))"
proof -
  show "ids_distinct (crash_after_claim now i db)"
    using assms by (simp add: ids_distinct_def crash_after_claim_def update_where_map_key)
  have "row_step e (if claimable i e then e\<lparr>oe_status := PROCESSING, oe_updatedAt := now\<rparr> else e)" for e
    by (auto simp: row_step_def retry_ok_def claimable_def)
  then show "rel_option row_step (find_event j db) (find_event j (crash_after_claim now i db))"
    unfolding find_event_def crash_after_claim_def
    by (cases "List.find (\<lambda>e. oe_id e = j) (db_outbox db)") (simp_all add: find_update_where_id)
qed

lemma outbox_step_rows:
  assumes "outbox_step db db'" "ids_distinct db"
  shows "ids_distinct db' \<and> (\<forall>j e. find_event j db = Some e \<longrightarrow> (\<exists>r. find_event j db' = Some r \<and> row_step e r)) \<and>
    (\<forall>j r. find_event j db' = Some r \<longrightarrow> find_event j db = None \<longrightarrow> retry_ok r)"
  using assms
proof (cases rule: outbox_step.cases)
  case (emit e)
  have "find_event j db' = (case find_event j db of None \<Rightarrow> if oe_id e = j then Some e else None | Some r \<Rightarrow> Some r)" for j
    by (simp add: emit find_event_def find_append split: option.splits)
  moreover have "retry_ok e" using emit by (simp add: retry_ok_def)
  moreover have "ids_distinct db'" using emit assms(2) by (simp add: ids_distinct_def)
  ultimately show ?thesis by (auto split: if_splits)
next
  case (run vendorUser publish crash now batchSize)
  note r = processPendingEvents_rows [OF assms(2), where vendorUser = vendorUser and publish = publish and crash = crash and now = now and batchSize = batchSize, folded run]
  have "ids_distinct db'" using r(1) .
  moreover have "\<exists>s. find_event j db' = Some s \<and> row_step e s" if "find_event j db = Some e" for j e
    using r(2) [of j] that by (auto simp: option_rel_Some1)
  moreover have "find_event j db' = None" if "find_event j db = None" for j
    using r(2) [of j] that by simp
  ultimately show ?thesis by auto
next
  case (die now i)
  note r = crash_after_claim_rows [OF assms(2), where now = now and i = i, folded die]
  have "\<exists>s. find_event j db' = Some s \<and> row_step e s" if "find_event j db = Some e" for j e
    using r(2) [of j] that by (auto simp: option_rel_Some1)
  moreover have "find_event j db' = None" if "find_event j db = None" for j
    using r(2) [of j] that by simp
  ultimately show ?thesis using r(1) by auto
qed

lemma outbox_steps_rows:
  assumes "outbox_steps db db'" "ids_distinct db"
  shows "ids_distinct db' \<and> (\<forall>j e. find_event j db = Some e \<longrightarrow> (\<exists>r. find_event j db' = Some r \<and> row_step e r)) \<and>
    ((\<forall>j r. find_event j db = Some r \<longrightarrow> retry_ok r) \<longrightarrow> (\<forall>j r. find_event j db' = Some r \<longrightarrow> retry_ok r))"
  using assms
proof (induction rule: outbox_steps.induct)
  case (refl db)
  then show ?case by simp
next
  case (step db db1 db2)
  then have d1: "ids_distinct db1" by blast
  note s = outbox_step_rows [OF step.hyps(2) d1]
  have "\<exists>r. find_event j db2 = Some r \<and> row_step e r" if "find_event j db = Some e" for j e
    using step.IH [OF step.prems] s that by (meson row_step_trans)
  moreover have "retry_ok r" if "\<forall>j r. find_event j db = Some r \<longrightarrow> retry_ok r" "find_event j db2 = Some r" for j r
  proof (cases "find_event j db1")
    case None
    with s that(2) show ?thesis by blast
  next
    case (Some e)
    then have "retry_ok e" using step.IH [OF step.prems] that(1) by blast
    moreover have "row_step e r" using s Some that(2) by (metis option.inject)
    ultimately show ?thesis by (simp add: row_step_def)
  qed
  ultimately show ?case using s by blast
qed

text \<open>
  Over any history of emissions, worker runs and worker crashes, an event is attempted at most
  three times, and it is a dead letter exactly when the three attempts are used up; in particular
  no event is given up earlier, and none is retried for ever.
\<close>

theorem outbox_retries_bounded:
  assumes "outbox_steps db0 db" "db_outbox db0 = []" "e \<in> set (db_outbox db)"
  shows "oe_retryCount e \<le> 3 \<and> (oe_status e = DEAD_LETTER \<longleftrightarrow> oe_retryCount e = 3)"
proof -
  have d0: "ids_distinct db0" and n: "find_event j db0 = None" for j
    using assms(2) by (simp_all add: ids_distinct_def find_event_def)
  note r = outbox_steps_rows [OF assms(1) d0]
  have "find_event (oe_id e) db = Some e" using r assms(3) by (simp add: find_event_in)
  then have "retry_ok e" using r n by simp
  then show ?thesis by (simp add: retry_ok_def)
qed

lemma demo_emit: "outbox_steps (outbox_db []) (outbox_db [demo_event])"
proof -
  have "outbox_step (outbox_db []) ((outbox_db [])\<lparr>db_outbox := db_outbox (outbox_db []) @ [demo_event]\<rparr>)"
    by (rule outbox_step.emit) (simp_all add: demo_event_def)
  then have "outbox_step (outbox_db []) (outbox_db [demo_event])" by simp
  then show ?thesis by (rule outbox_steps.step [OF outbox_steps.refl])
qed

theorem outbox_retries_bounded_witness: "oe_retryCount demo_event \<le> 3"
  using outbox_retries_bounded [OF demo_emit, of demo_event] by simp

text \<open>
  Settled is final for the worker: an event that is published or a dead letter at some point of
  such a history is the same row, unchanged, at every later point; no run and no recovery sends it
  or counts an attempt on it again.
\<close>

theorem outbox_settled_final:
  assumes "outbox_steps db0 db" "db_outbox db0 = []" "outbox_steps db db'"
    "e \<in> set (db_outbox db)" "oe_status e \<in> {PUBLISHED, DEAD_LETTER}"
  shows "find_event (oe_id e) db' = Some e"
proof -
  have d0: "ids_distinct db0" using assms(2) by (simp add: ids_distinct_def)
  have d: "ids_distinct db" using outbox_steps_rows [OF assms(1) d0] by blast
  then have "find_event (oe_id e) db = Some e" using assms(4) by (rule find_event_in)
  then obtain r where "find_event (oe_id e) db' = Some r" "row_step e r"
    using outbox_steps_rows [OF assms(3) d] by blast
  then show ?thesis using assms(5) unfolding row_step_def by auto
qed

definition sent_event :: BookingOutboxEvent where
  "sent_event = demo_event\<lparr>oe_status := PUBLISHED, oe_processedAt := Some 5000, oe_updatedAt := 5000\<rparr>"

lemma demo_run:
  "snd (processPendingEvents (\<lambda>_. None) (\<lambda>_. None) (\<lambda>_. None) 5000 25 (outbox_db [demo_event])) = outbox_db [sent_event]"
  by (simp add: processPendingEvents_def recoverStaleProcessingEvents_def stale_events_def candidates_def
      process_event_def in_backoff_def count_where_def claimable_def dispatchEvent_def find_event_def
      dispatch_finish_def publications_def update_event_def demo_event_def sent_event_def Let_def)

theorem outbox_settled_final_witness:
  "find_event ''o1'' (snd (processPendingEvents (\<lambda>_. None) (\<lambda>_. Some ''down'') (\<lambda>_. None) 900000 25
     (outbox_db [sent_event]))) = Some sent_event"
proof -
  have "outbox_step (outbox_db [demo_event]) (outbox_db [sent_event])"
    using outbox_step.run [of "outbox_db [demo_event]" "\<lambda>_. None" "\<lambda>_. None" "\<lambda>_. None" 5000 25] by (simp only: demo_run)
  then have "outbox_steps (outbox_db []) (outbox_db [sent_event])" by (rule outbox_steps.step [OF demo_emit])
  moreover have "outbox_steps (outbox_db [sent_event]) (snd (processPendingEvents (\<lambda>_. None) (\<lambda>_. Some ''down'') (\<lambda>_. None) 900000 25
     (outbox_db [sent_event])))"
    by (rule outbox_steps.step [OF outbox_steps.refl outbox_step.run])
  ultimately have "find_event (oe_id sent_event) (snd (processPendingEvents (\<lambda>_. None) (\<lambda>_. Some ''down'') (\<lambda>_. None) 900000 25
     (outbox_db [sent_event]))) = Some sent_event"
    by (intro outbox_settled_final [of "outbox_db []" "outbox_db [sent_event]"]) (simp_all add: sent_event_def)
  then show ?thesis by (simp add: sent_event_def demo_event_def)
qed

section \<open>Dispatch beside the worker\<close>

text \<open>
  The dispatch right after a transition's commit does not claim the event, and its outcome
  overwrites what the worker has recorded meanwhile: when the worker publishes the event between the
  dispatch's read and its end, and that second delivery fails, the published event is put back to
  failed, so it is delivered a third time.
\<close>

theorem dispatch_overwrites_published:
  assumes "find_event eid db = Some e" "oe_status e = OutboxStatus.PENDING" "oe_retryCount e + 1 < oe_maxRetries e"
    "dispatchEvent vendorUser publish now eid db = (True, sent1, db1)"
    "dispatch_finish vendorUser publish2 now2 e db1 = (False, sent2, db2)"
  shows "map_option oe_status (find_event eid db1) = Some PUBLISHED \<and>
    map_option oe_status (find_event eid db2) = Some OutboxStatus.FAILED"
proof -
  have eid: "oe_id e = eid" using find_eventD [OF assms(1)] by simp
  obtain ps where db1: "db1 = update_event eid (\<lambda>r. r\<lparr>oe_status := PUBLISHED, oe_processedAt := Some now,
             oe_lastError := None, oe_updatedAt := now\<rparr>) db"
    using assms(1,2,4) eid by (auto simp: dispatchEvent_def dispatch_finish_def split: prod.splits option.splits)
  obtain err where db2: "db2 = update_event eid (fail_event now2 e err) db1"
    using assms(5) eid by (auto simp: dispatch_finish_def split: prod.splits option.splits)
  show ?thesis using assms(1,3) by (simp add: db1 db2 find_update_event)
qed

theorem dispatch_overwrites_published_witness:
  "\<exists>db1 db2. map_option oe_status (find_event ''o1'' db1) = Some PUBLISHED \<and>
     map_option oe_status (find_event ''o1'' db2) = Some OutboxStatus.FAILED \<and>
     fst (dispatchEvent (\<lambda>_. None) (\<lambda>_. None) 10 ''o1'' (outbox_db [demo_event]))"
proof -
  let ?d = "dispatchEvent (\<lambda>_. None) (\<lambda>_. None) 10 ''o1'' (outbox_db [demo_event])"
  let ?f = "dispatch_finish (\<lambda>_. None) (\<lambda>_. Some ''down'') 20 demo_event (snd (snd ?d))"
  have d: "?d = (True, fst (snd ?d), snd (snd ?d))"
    by (simp add: dispatchEvent_def find_event_def dispatch_finish_def publications_def demo_event_def Let_def)
  have f: "?f = (False, fst (snd ?f), snd (snd ?f))"
    by (simp add: dispatch_finish_def publications_def demo_event_def Let_def)
  have "map_option oe_status (find_event ''o1'' (snd (snd ?d))) = Some PUBLISHED \<and>
    map_option oe_status (find_event ''o1'' (snd (snd ?f))) = Some OutboxStatus.FAILED"
    by (rule dispatch_overwrites_published [OF _ _ _ d f]) (simp_all add: find_event_def demo_event_def)
  moreover have "fst ?d" using d by (metis fst_conv)
  ultimately show ?thesis by blast
qed

text \<open>
  The customer of a booking that expired is notified with the template of a confirmed booking:
  the event type has no case of its own and falls to the default.
\<close>

theorem expired_booking_notified_as_confirmed:
  "publications vendorUser (e\<lparr>oe_eventType := ''BOOKING_EXPIRED''\<rparr>) =
     (if pl_customerId (oe_payload e) \<noteq> [] then [(pl_customerId (oe_payload e), ''BOOKING_CONFIRMED'')] else [])"
  by (simp add: publications_def mapToOperationalEventType_def Let_def)

end
