(* ===== verification/RefundJournal.thy ===== *)
theory RefundJournal
  imports Booking
begin

text \<open>
  The ledger side of a cancellation (\<open>bookings/booking-lifecycle.service.ts\<close>, lines 366 to 586): the
  refund in rupees, the baseline journal that is posted when a paid booking has none yet, and the
  journal that reverses the booking's revenue. decimal.js results are rounded by \<open>prec\<close>.
\<close>

section \<open>The journals\<close>

definition refund_rupees :: "int \<Rightarrow> rat" where
  "refund_rupees paise = round2 (fl (of_int paise / 100))"

definition gateway_of :: "Payment \<Rightarrow> string" where
  "gateway_of p = (if pm_gatewayProvider p \<noteq> [] then pm_gatewayProvider p else ''RAZORPAY'')"

definition booking_line ::
  "LedgerAccountType \<Rightarrow> string option \<Rightarrow> LedgerEntrySide \<Rightarrow> rat \<Rightarrow> string \<Rightarrow> Booking \<Rightarrow> Payment \<Rightarrow> JournalEntryLineInput" where
  "booking_line t ent side amount text b p =
     \<lparr>li_accountType = t, li_accountEntityId = ent, li_side = Some side, li_entrySide = None,
      li_amount = amount, li_narration = Some (text @ bk_id b), li_description = None,
      li_bookingId = Some (bk_id b), li_paymentId = Some (pm_id p), li_payoutId = None, li_metadata = None\<rparr>"

definition line_if :: "bool \<Rightarrow> JournalEntryLineInput \<Rightarrow> JournalEntryLineInput list" where
  "line_if c l = (if c then [l] else [])"

definition adjusted_fee :: "(rat \<Rightarrow> rat) \<Rightarrow> Booking \<Rightarrow> rat \<Rightarrow> rat" where
  "adjusted_fee prec b secDeposit =
     (let totalExpected = prec (bk_totalFare b + secDeposit);
          subComponents = prec (prec (prec (bk_netToVendor b + bk_platformFee b) + bk_gstAmount b) + secDeposit);
          delta = prec (totalExpected - subComponents)
      in prec (bk_platformFee b + delta))"

definition baseline_lines :: "(rat \<Rightarrow> rat) \<Rightarrow> Booking \<Rightarrow> Payment \<Rightarrow> rat \<Rightarrow> JournalEntryLineInput list" where
  "baseline_lines prec b p secDeposit =
     (let fee = adjusted_fee prec b secDeposit
      in [booking_line GATEWAY_CLEARING (Some (gateway_of p)) LedgerEntrySide.DEBIT (prec (bk_totalFare b + secDeposit))
            ''Historical payment clearing baseline for booking '' b p,
          booking_line VENDOR_PAYABLE (Some (bk_vendorId b)) LedgerEntrySide.CREDIT (bk_netToVendor b)
            ''Net rental revenue payable to vendor for booking '' b p] @
         line_if (fee > 0) (booking_line PLATFORM_COMMISSION_REVENUE None LedgerEntrySide.CREDIT fee
            ''Platform commission revenue for booking '' b p) @
         line_if (bk_gstAmount b > 0) (booking_line TAX_GST_LIABILITY None LedgerEntrySide.CREDIT (bk_gstAmount b)
            ''GST tax liability for booking '' b p) @
         line_if (secDeposit > 0) (booking_line CUSTOMER_DEPOSIT_ESCROW (Some (bk_customerId b)) LedgerEntrySide.CREDIT secDeposit
            ''Security deposit held in escrow for booking '' b p))"

definition booking_journal ::
  "string \<Rightarrow> string \<Rightarrow> string \<Rightarrow> Booking \<Rightarrow> Payment \<Rightarrow> JournalEntryLineInput list \<Rightarrow> RecordJournalInput" where
  "booking_journal refType text key b p ls =
     \<lparr>ji_journalId = None, ji_referenceType = refType, ji_referenceId = bk_id b,
      ji_narration = Some text, ji_description = None,
      ji_lines = Some ls, ji_entries = None, ji_idempotencyKey = Some (key @ bk_id b), ji_currency = None,
      ji_bookingId = Some (bk_id b), ji_paymentId = Some (pm_id p), ji_payoutId = None,
      ji_vendorId = Some (bk_vendorId b)\<rparr>"

definition baseline_journal :: "(rat \<Rightarrow> rat) \<Rightarrow> Booking \<Rightarrow> Payment \<Rightarrow> rat \<Rightarrow> RecordJournalInput" where
  "baseline_journal prec b p secDeposit =
     booking_journal ''BOOKING_PAYMENT_VERIFIED'' (''Payment verification baseline journal for booking '' @ bk_id b)
       ''jrn_pay_verify_'' b p (baseline_lines prec b p secDeposit)"

record reversal =
  rv_deposit :: rat
  rv_vendor :: rat
  rv_platform :: rat
  rv_gst :: rat

definition deposit_refund :: "SecurityDeposit option \<Rightarrow> rat \<Rightarrow> rat" where
  "deposit_refund dep refund =
     (case dep of
        Some d \<Rightarrow> if sd_amount d > 0 \<and> sd_status d \<noteq> SecurityDepositStatus.CANCELLED then min (sd_amount d) refund else 0
      | None \<Rightarrow> 0)"

definition reversal_split :: "(rat \<Rightarrow> rat) \<Rightarrow> Booking \<Rightarrow> SecurityDeposit option \<Rightarrow> rat \<Rightarrow> reversal" where
  "reversal_split prec b dep refund =
     (let depositRefund = deposit_refund dep refund;
          rest = prec (refund - depositRefund);
          fareRefund = (if rest \<ge> 0 then rest else 0)
      in if bk_totalFare b > 0 \<and> fareRefund > 0
         then let ratio = prec (fareRefund / bk_totalFare b);
                  vendor = min (bk_netToVendor b) (prec (bk_netToVendor b * ratio));
                  platform = prec (bk_platformFee b * ratio);
                  gst = prec (bk_gstAmount b * ratio);
                  sub = prec (prec (prec (vendor + platform) + gst) + depositRefund);
                  diff = prec (refund - sub)
              in \<lparr>rv_deposit = depositRefund, rv_vendor = vendor, rv_platform = prec (platform + diff), rv_gst = gst\<rparr>
         else if depositRefund < refund
         then let vendor = min (bk_netToVendor b) (prec (refund - depositRefund))
              in \<lparr>rv_deposit = depositRefund, rv_vendor = vendor,
                  rv_platform = prec (prec (refund - depositRefund) - vendor), rv_gst = 0\<rparr>
         else \<lparr>rv_deposit = depositRefund, rv_vendor = 0, rv_platform = 0, rv_gst = 0\<rparr>)"

definition reversal_lines :: "Booking \<Rightarrow> Payment \<Rightarrow> rat \<Rightarrow> reversal \<Rightarrow> JournalEntryLineInput list" where
  "reversal_lines b p refund r =
     line_if (rv_deposit r > 0) (booking_line CUSTOMER_DEPOSIT_ESCROW (Some (bk_customerId b)) LedgerEntrySide.DEBIT (rv_deposit r)
       ''Security deposit escrow released on cancellation of booking '' b p) @
     line_if (rv_vendor r > 0) (booking_line VENDOR_PAYABLE (Some (bk_vendorId b)) LedgerEntrySide.DEBIT (rv_vendor r)
       ''Vendor payable reversed on cancellation of booking '' b p) @
     line_if (rv_platform r > 0) (booking_line PLATFORM_COMMISSION_REVENUE None LedgerEntrySide.DEBIT (rv_platform r)
       ''Platform commission reversed on cancellation of booking '' b p) @
     line_if (rv_gst r > 0) (booking_line TAX_GST_LIABILITY None LedgerEntrySide.DEBIT (rv_gst r)
       ''GST tax liability reversed on cancellation of booking '' b p) @
     [booking_line GATEWAY_CLEARING (Some (gateway_of p)) LedgerEntrySide.CREDIT refund
       ''Customer refund clearing liability for booking '' b p]"

text \<open>A tier may be any JSON value of the matrix; this is its text in a template literal.\<close>

fun join_with :: "string \<Rightarrow> string list \<Rightarrow> string" where
  "join_with sep [] = []"
| "join_with sep [s] = s"
| "join_with sep (s # t # ts) = s @ sep @ join_with sep (t # ts)"

fun json_text :: "json \<Rightarrow> string" where
  "json_text (JStr s) = s"
| "json_text (JNum x) = show_num x"
| "json_text (JBool c) = (if c then ''true'' else ''false'')"
| "json_text JNull = ''null''"
| "json_text (JArr xs) = join_with '','' (map (\<lambda>x. if x = JNull then [] else json_text x) xs)"
| "json_text (JObj fs) = ''[object Object]''"

definition reversal_journal ::
  "(rat \<Rightarrow> rat) \<Rightarrow> Booking \<Rightarrow> Payment \<Rightarrow> SecurityDeposit option \<Rightarrow> rat \<Rightarrow> json \<Rightarrow> RecordJournalInput" where
  "reversal_journal prec b p dep refund tier =
     booking_journal ''CANCELLATION_REFUND''
       (''Cancellation refund intent for booking '' @ bk_id b @ '' (Tier: '' @ json_text tier @ '')'')
       ''jrn_refund_intent_'' b p (reversal_lines b p refund (reversal_split prec b dep refund))"

definition has_baseline :: "id \<Rightarrow> ledger \<Rightarrow> bool" where
  "has_baseline bid =
     exists_where (\<lambda>e. le_bookingId e = Some bid \<and> le_referenceType e \<in> {''BOOKING_PAYMENT_VERIFIED'', ''BOOKING_CONFIRMATION''})"

definition deposit_amount :: "SecurityDeposit option \<Rightarrow> rat" where
  "deposit_amount dep = (case dep of Some d \<Rightarrow> sd_amount d | None \<Rightarrow> 0)"

definition post_refund_journals ::
  "(rat \<Rightarrow> rat) \<Rightarrow> (rat \<Rightarrow> rat) \<Rightarrow> time \<Rightarrow> string \<Rightarrow> string \<Rightarrow> Booking \<Rightarrow> Payment \<Rightarrow> SecurityDeposit option \<Rightarrow> rat \<Rightarrow>
   json \<Rightarrow> ledger \<Rightarrow> ledger result" where
  "post_refund_journals prec col now jid1 jid2 b p dep refund tier L =
     bindR
       (if \<not> has_baseline (bk_id b) L \<and> pm_status p = PAID
        then bindR (recordJournal prec col now jid1 (baseline_journal prec b p (deposit_amount dep)) L) (\<lambda>(_, L1). Inr L1)
        else Inr L)
       (\<lambda>L1. bindR (recordJournal prec col now jid2 (reversal_journal prec b p dep refund tier) L1) (\<lambda>(_, L2). Inr L2))"

section \<open>Amounts in whole cents\<close>

definition booking_money :: "Booking \<Rightarrow> rat \<Rightarrow> bool" where
  "booking_money b dep \<longleftrightarrow>
     (\<forall>x\<in>{bk_totalFare b, bk_netToVendor b, bk_platformFee b, bk_gstAmount b, dep}.
        is_cents x \<and> 0 \<le> x \<and> x < 10 ^ 15) \<and>
     0 < bk_totalFare b \<and> 0 < bk_netToVendor b"

lemma booking_moneyD:
  assumes "booking_money b dep"
  shows "is_cents (bk_totalFare b)" "is_cents (bk_netToVendor b)" "is_cents (bk_platformFee b)"
    "is_cents (bk_gstAmount b)" "is_cents dep"
    "0 < bk_totalFare b" "0 < bk_netToVendor b" "0 \<le> bk_platformFee b" "0 \<le> bk_gstAmount b" "0 \<le> dep"
    "bk_totalFare b < 1000000000000000" "bk_netToVendor b < 1000000000000000" "bk_platformFee b < 1000000000000000"
    "bk_gstAmount b < 1000000000000000" "dep < 1000000000000000"
  using assms by (simp_all add: booking_money_def)

lemma dec20_small:
  assumes "is_cents x" "- 10000000000000000 < x" "x < 10000000000000000"
  shows "dec20 x = x"
proof -
  have "\<bar>x\<bar> < 10 ^ 17" using assms(2,3) by simp
  with assms(1) show ?thesis by (rule dec20_cents)
qed

lemma adjusted_fee_exact:
  assumes "booking_money b dep"
  shows "adjusted_fee dec20 b dep = bk_totalFare b - bk_netToVendor b - bk_gstAmount b"
    "dec20 (bk_totalFare b + dep) = bk_totalFare b + dep"
proof -
  note m = booking_moneyD [OF assms]
  let ?t = "bk_totalFare b" and ?n = "bk_netToVendor b" and ?f = "bk_platformFee b" and ?g = "bk_gstAmount b"
  have c: "is_cents (?t + dep)" "is_cents (?n + ?f)" "is_cents (?n + ?f + ?g)" "is_cents (?n + ?f + ?g + dep)"
    "is_cents (?t + dep - (?n + ?f + ?g + dep))" "is_cents (?f + (?t + dep - (?n + ?f + ?g + dep)))"
    using m(1-5) by (auto intro!: is_cents_add is_cents_diff)
  have e1: "dec20 (?t + dep) = ?t + dep" by (rule dec20_small [OF c(1)]) (use m in linarith)+
  have e2: "dec20 (?n + ?f) = ?n + ?f" by (rule dec20_small [OF c(2)]) (use m in linarith)+
  have e3: "dec20 (?n + ?f + ?g) = ?n + ?f + ?g" by (rule dec20_small [OF c(3)]) (use m in linarith)+
  have e4: "dec20 (?n + ?f + ?g + dep) = ?n + ?f + ?g + dep" by (rule dec20_small [OF c(4)]) (use m in linarith)+
  have e5: "dec20 (?t + dep - (?n + ?f + ?g + dep)) = ?t + dep - (?n + ?f + ?g + dep)"
    by (rule dec20_small [OF c(5)]) (use m in linarith)+
  have e6: "dec20 (?f + (?t + dep - (?n + ?f + ?g + dep))) = ?f + (?t + dep - (?n + ?f + ?g + dep))"
    by (rule dec20_small [OF c(6)]) (use m in linarith)+
  show "adjusted_fee dec20 b dep = ?t - ?n - ?g"
    unfolding adjusted_fee_def Let_def e1 e2 e3 e4 e5 e6 by simp
  show "dec20 (?t + dep) = ?t + dep" by (rule e1)
qed

section \<open>The lines of a booking's journals\<close>

lemma booking_line_simps [simp]:
  "li_amount (booking_line t ent s x text b p) = x"
  "line_side (booking_line t ent s x text b p) = Some s"
  "li_accountType (booking_line t ent s x text b p) = t"
  "li_accountEntityId (booking_line t ent s x text b p) = ent"
  by (simp_all add: booking_line_def line_side_def)

lemma raw_lines_booking_journal [simp]: "raw_lines (booking_journal ty tx k b p ls) = ls"
  by (simp add: raw_lines_def booking_journal_def)

lemma side_amounts_append: "side_amounts s (xs @ ys) = side_amounts s xs @ side_amounts s ys"
  by (simp add: side_amounts_def)

lemma side_amounts_line_if:
  "side_amounts s (line_if c l) = (if c \<and> line_side l = Some s then [li_amount l] else [])"
  by (simp add: line_if_def)

lemma sum_line_if: "sum_list (map f (line_if c l)) = (if c then f l else 0)"
  by (simp add: line_if_def)

lemma ball_line_if: "(\<forall>l\<in>set (line_if c x). P l) \<longleftrightarrow> (c \<longrightarrow> P x)"
  by (cases c) (simp_all add: line_if_def)

lemmas line_simps = side_amounts_append side_amounts_line_if sum_line_if ball_line_if ball_Un

lemma baseline_lines_exact:
  assumes "booking_money b dep"
  shows "\<forall>l\<in>set (baseline_lines dec20 b p dep). valid_line l"
    "dsum dec20 0 (side_amounts LedgerEntrySide.DEBIT (baseline_lines dec20 b p dep)) = bk_totalFare b + dep"
    "dsum dec20 0 (side_amounts LedgerEntrySide.CREDIT (baseline_lines dec20 b p dep)) =
       bk_netToVendor b + max 0 (bk_totalFare b - bk_netToVendor b - bk_gstAmount b) + bk_gstAmount b + dep"
    "cents_journal (baseline_journal dec20 b p dep)"
proof -
  note m = booking_moneyD [OF assms] and a = adjusted_fee_exact [OF assms]
  let ?t = "bk_totalFare b" and ?n = "bk_netToVendor b" and ?g = "bk_gstAmount b"
  let ?f = "?t - ?n - ?g" and ?ls = "baseline_lines dec20 b p dep"
  have cf: "is_cents ?f" using m(1-5) by (auto intro!: is_cents_diff)
  show v: "\<forall>l\<in>set ?ls. valid_line l"
    using m by (simp add: baseline_lines_def Let_def a line_simps valid_line_def)
  have amounts: "\<forall>x\<in>set (map li_amount ?ls). is_cents x \<and> 0 \<le> x"
    using m cf by (auto simp: baseline_lines_def Let_def a line_if_def intro: is_cents_add)
  have total: "sum_list (map li_amount ?ls) < 10 ^ 17"
    using m by (simp add: baseline_lines_def Let_def a line_simps)
  show "cents_journal (baseline_journal dec20 b p dep)"
    using amounts total by (simp add: cents_journal_def baseline_journal_def)
  then have sums: "dsum dec20 0 (side_amounts s ?ls) = sum_list (side_amounts s ?ls)" for s
    using v djs.dsum_side [of "baseline_journal dec20 b p dep" s] unfolding baseline_journal_def by simp
  have "sum_list (side_amounts LedgerEntrySide.DEBIT ?ls) = ?t + dep"
    by (simp add: baseline_lines_def Let_def a line_simps)
  then show "dsum dec20 0 (side_amounts LedgerEntrySide.DEBIT ?ls) = ?t + dep" by (simp only: sums)
  have "sum_list (side_amounts LedgerEntrySide.CREDIT ?ls) = ?n + max 0 ?f + ?g + dep"
    using m(9,10) by (simp add: baseline_lines_def Let_def a line_simps)
  then show "dsum dec20 0 (side_amounts LedgerEntrySide.CREDIT ?ls) = ?n + max 0 ?f + ?g + dep" by (simp only: sums)
qed

text \<open>
  The baseline journal of a cancellation is accepted exactly when what the vendor and the tax
  office are owed is within the fare. Otherwise the adjusted platform fee is negative, its line is
  dropped, and the journal is refused as unbalanced.
\<close>

theorem baseline_accepted_iff:
  assumes "booking_money b dep" "keys_free (baseline_journal dec20 b p dep) L"
  shows "(\<exists>x. recordJournal dec20 col now fresh (baseline_journal dec20 b p dep) L = Inr x) \<longleftrightarrow>
    bk_netToVendor b + bk_gstAmount b \<le> bk_totalFare b"
proof -
  note e = baseline_lines_exact [OF assms(1), of p]
  let ?ls = "baseline_lines dec20 b p dep"
  have "raw_lines (baseline_journal dec20 b p dep) = ?ls" "2 \<le> length ?ls"
    by (simp_all add: baseline_journal_def baseline_lines_def Let_def)
  then show ?thesis
    using recordJournal_accepts [OF assms(2) refl refl refl, of dec20 col now fresh] e by auto
qed

section \<open>A full refund\<close>

lemma full_refund_split:
  assumes "booking_money b (deposit_amount dep)" "bk_netToVendor b + bk_gstAmount b \<le> bk_totalFare b"
    "\<And>d. dep = Some d \<Longrightarrow> sd_status d \<noteq> SecurityDepositStatus.CANCELLED"
  shows "reversal_split dec20 b dep (bk_totalFare b + deposit_amount dep) =
    \<lparr>rv_deposit = deposit_amount dep, rv_vendor = bk_netToVendor b,
     rv_platform = bk_totalFare b - bk_netToVendor b - bk_gstAmount b, rv_gst = bk_gstAmount b\<rparr>"
proof -
  note m = booking_moneyD [OF assms(1)]
  let ?t = "bk_totalFare b" and ?n = "bk_netToVendor b" and ?f = "bk_platformFee b" and ?g = "bk_gstAmount b"
  let ?d = "deposit_amount dep"
  have d: "deposit_refund dep (?t + ?d) = ?d"
    using m(6,10) assms(3) by (auto simp: deposit_refund_def deposit_amount_def split: option.splits)
  have c: "is_cents (?n + ?f)" "is_cents (?n + ?f + ?g)" "is_cents (?n + ?f + ?g + ?d)"
    "is_cents (?t + ?d - (?n + ?f + ?g + ?d))" "is_cents (?f + (?t + ?d - (?n + ?f + ?g + ?d)))"
    using m(1-5) by (auto intro!: is_cents_add is_cents_diff)
  have e0: "dec20 ?t = ?t" by (rule dec20_small [OF m(1)]) (use m in linarith)+
  have en: "dec20 ?n = ?n" by (rule dec20_small [OF m(2)]) (use m in linarith)+
  have ef: "dec20 ?f = ?f" by (rule dec20_small [OF m(3)]) (use m in linarith)+
  have eg: "dec20 ?g = ?g" by (rule dec20_small [OF m(4)]) (use m in linarith)+
  have one: "dec20 1 = 1" using dec20_small [of 1] is_cents_of_int [of 1] by simp
  have e2: "dec20 (?n + ?f) = ?n + ?f" by (rule dec20_small [OF c(1)]) (use m in linarith)+
  have e3: "dec20 (?n + ?f + ?g) = ?n + ?f + ?g" by (rule dec20_small [OF c(2)]) (use m in linarith)+
  have e4: "dec20 (?n + ?f + ?g + ?d) = ?n + ?f + ?g + ?d" by (rule dec20_small [OF c(3)]) (use m in linarith)+
  have e5: "dec20 (?t + ?d - (?n + ?f + ?g + ?d)) = ?t + ?d - (?n + ?f + ?g + ?d)"
    by (rule dec20_small [OF c(4)]) (use m in linarith)+
  have e6: "dec20 (?f + (?t + ?d - (?n + ?f + ?g + ?d))) = ?f + (?t + ?d - (?n + ?f + ?g + ?d))"
    by (rule dec20_small [OF c(5)]) (use m in linarith)+
  have rest: "?t + ?d - ?d = ?t" and ratio: "?t / ?t = 1" and nn: "(if ?t \<ge> 0 then ?t else 0) = ?t"
    using m(6) by simp_all
  have fee: "?f + (?t + ?d - (?n + ?f + ?g + ?d)) = ?t - ?n - ?g" by simp
  show ?thesis
    unfolding reversal_split_def Let_def d rest e0 nn ratio one mult_1_right en ef eg min.idem e2 e3 e4 e5 e6
    using m(6) by (simp add: e6 [unfolded fee])
qed

lemma journal_effect_booking:
  "journal_effect (booking_journal ty tx k b p ls) t ent =
     sum_list (map (line_delta (booking_journal ty tx k b p ls) t ent) ls)"
  by (simp add: journal_effect_def)

definition delta_at :: "Booking \<Rightarrow> LedgerAccountType \<Rightarrow> string option \<Rightarrow> LedgerAccountType \<Rightarrow> string option \<Rightarrow> LedgerEntrySide \<Rightarrow> rat \<Rightarrow> rat" where
  "delta_at b t ent lt le s x =
     (if lt = t \<and> (ent = None \<or> or_str le (Some (bk_vendorId b)) = ent)
      then (if (s = LedgerEntrySide.DEBIT) = is_asset_account t then x else - x) else 0)"

lemma line_delta_booking:
  "line_delta (booking_journal ty tx k b p ls) t ent (booking_line lt le s x text b' p') = delta_at b t ent lt le s x"
  by (auto simp: line_delta_def delta_at_def booking_journal_def)

lemma delta_at_flip: "delta_at b t ent lt le LedgerEntrySide.CREDIT x + delta_at b t ent lt le LedgerEntrySide.DEBIT x = 0"
  by (auto simp: delta_at_def)

lemma full_refund_effect:
  assumes "booking_money b (deposit_amount dep)" "bk_netToVendor b + bk_gstAmount b \<le> bk_totalFare b"
    "\<And>d. dep = Some d \<Longrightarrow> sd_status d \<noteq> SecurityDepositStatus.CANCELLED"
  shows "journal_effect (baseline_journal dec20 b p (deposit_amount dep)) t ent +
    journal_effect (reversal_journal dec20 b p dep (bk_totalFare b + deposit_amount dep) tier) t ent = 0"
proof -
  let ?d = "\<lambda>lt le s x. delta_at b t ent lt le s x"
  let ?t = "bk_totalFare b" and ?n = "bk_netToVendor b" and ?g = "bk_gstAmount b" and ?dep = "deposit_amount dep"
  let ?f = "?t - ?n - ?g"
  have base: "journal_effect (baseline_journal dec20 b p ?dep) t ent =
      ?d GATEWAY_CLEARING (Some (gateway_of p)) LedgerEntrySide.DEBIT (?t + ?dep) + ?d VENDOR_PAYABLE (Some (bk_vendorId b)) LedgerEntrySide.CREDIT ?n +
      (if ?f > 0 then ?d PLATFORM_COMMISSION_REVENUE None LedgerEntrySide.CREDIT ?f else 0) +
      (if ?g > 0 then ?d TAX_GST_LIABILITY None LedgerEntrySide.CREDIT ?g else 0) +
      (if ?dep > 0 then ?d CUSTOMER_DEPOSIT_ESCROW (Some (bk_customerId b)) LedgerEntrySide.CREDIT ?dep else 0)"
    unfolding baseline_journal_def journal_effect_booking baseline_lines_def Let_def adjusted_fee_exact [OF assms(1)]
    by (simp only: map_append sum_list_append sum_line_if line_delta_booking list.map sum_list.Cons sum_list.Nil
        add_0_right add.assoc append_Cons append_Nil)
  have split: "reversal_split dec20 b dep (?t + ?dep) =
    \<lparr>rv_deposit = ?dep, rv_vendor = ?n, rv_platform = ?f, rv_gst = ?g\<rparr>"
    by (rule full_refund_split [OF assms(1,2)]) (rule assms(3))
  have rev: "journal_effect (reversal_journal dec20 b p dep (?t + ?dep) tier) t ent =
      (if ?dep > 0 then ?d CUSTOMER_DEPOSIT_ESCROW (Some (bk_customerId b)) LedgerEntrySide.DEBIT ?dep else 0) +
      (if ?n > 0 then ?d VENDOR_PAYABLE (Some (bk_vendorId b)) LedgerEntrySide.DEBIT ?n else 0) +
      (if ?f > 0 then ?d PLATFORM_COMMISSION_REVENUE None LedgerEntrySide.DEBIT ?f else 0) +
      (if ?g > 0 then ?d TAX_GST_LIABILITY None LedgerEntrySide.DEBIT ?g else 0) +
      ?d GATEWAY_CLEARING (Some (gateway_of p)) LedgerEntrySide.CREDIT (?t + ?dep)"
    unfolding reversal_journal_def journal_effect_booking reversal_lines_def split reversal.simps
    by (simp only: map_append sum_list_append sum_line_if line_delta_booking list.map sum_list.Cons sum_list.Nil
        add_0_right add.assoc append_Cons append_Nil)
  have n: "?n > 0" using booking_moneyD(7) [OF assms(1)] .
  have flips: "?d lt le LedgerEntrySide.DEBIT x = - ?d lt le LedgerEntrySide.CREDIT x" for lt le x
    using delta_at_flip [of b t ent lt le x] by linarith
  show ?thesis unfolding base rev by (simp add: n flips)
qed

text \<open>Both journals are recorded.\<close>

lemma reversal_lines_exact:
  fixes b p dep tier
  assumes "booking_money b (deposit_amount dep)" "bk_netToVendor b + bk_gstAmount b \<le> bk_totalFare b"
    "\<And>d. dep = Some d \<Longrightarrow> sd_status d \<noteq> SecurityDepositStatus.CANCELLED"
  defines "J \<equiv> reversal_journal dec20 b p dep (bk_totalFare b + deposit_amount dep) tier"
  shows "\<forall>l\<in>set (raw_lines J). valid_line l" "2 \<le> length (raw_lines J)"
    "dsum dec20 0 (side_amounts LedgerEntrySide.DEBIT (raw_lines J)) = dsum dec20 0 (side_amounts LedgerEntrySide.CREDIT (raw_lines J))"
    "cents_journal J"
proof -
  note m = booking_moneyD [OF assms(1)]
  let ?t = "bk_totalFare b" and ?n = "bk_netToVendor b" and ?g = "bk_gstAmount b" and ?d = "deposit_amount dep"
  let ?f = "?t - ?n - ?g" and ?ls = "raw_lines J"
  have split: "reversal_split dec20 b dep (?t + ?d) =
    \<lparr>rv_deposit = ?d, rv_vendor = ?n, rv_platform = ?f, rv_gst = ?g\<rparr>"
    by (rule full_refund_split [OF assms(1,2)]) (rule assms(3))
  note lines = J_def reversal_journal_def raw_lines_booking_journal split reversal_lines_def reversal.simps
  have cf: "is_cents ?f" using m(1-5) by (auto intro!: is_cents_diff)
  show v: "\<forall>l\<in>set ?ls. valid_line l"
    unfolding lines using m by (simp add: line_simps valid_line_def)
  show "2 \<le> length ?ls" unfolding lines using m(7) by (simp add: line_if_def)
  have amounts: "\<forall>x\<in>set (map li_amount ?ls). is_cents x"
    unfolding lines using m cf by (auto simp: line_if_def intro: is_cents_add)
  have "sum_list (map li_amount ?ls) < 10 ^ 17"
    unfolding lines using m by (simp add: line_simps)
  with amounts show c: "cents_journal J" by (simp add: cents_journal_def)
  have debit: "sum_list (side_amounts LedgerEntrySide.DEBIT ?ls) = ?t + ?d"
    unfolding lines using m(7,9,10) assms(2) by (simp add: line_simps)
  have credit: "sum_list (side_amounts LedgerEntrySide.CREDIT ?ls) = ?t + ?d"
    unfolding lines by (simp add: line_simps)
  show "dsum dec20 0 (side_amounts LedgerEntrySide.DEBIT ?ls) = dsum dec20 0 (side_amounts LedgerEntrySide.CREDIT ?ls)"
    by (simp only: djs.dsum_side [OF c v] debit credit)
qed

lemma keys_free_prefix:
  assumes "keys_free inp L" "ji_idempotencyKey inp = Some (k @ s)" "k \<noteq> []"
    "\<forall>e\<in>set es. \<exists>i. le_idempotencyKey e = line_key (Some (k' @ s)) i" "k' \<noteq> []"
    "length k \<ge> 5" "length k' \<ge> 5" "k ! 4 \<noteq> k' ! 4"
  shows "keys_free inp (L @ es)"
proof -
  have key: "\<exists>r. line_key (Some (q @ s)) i = Some (q @ r)" if "q \<noteq> []" for q i
  proof (cases "i = 0")
    case True
    with that have "line_key (Some (q @ s)) i = Some (q @ s)" by (simp add: line_key_def)
    then show ?thesis by blast
  next
    case False
    with that have "line_key (Some (q @ s)) i = Some (q @ (s @ ''_line_'' @ show_nat i))" by (simp add: line_key_def)
    then show ?thesis by blast
  qed
  have "le_idempotencyKey e \<noteq> line_key (Some (k @ s)) i" if e: "e \<in> set es" for e i
  proof -
    obtain i' where "le_idempotencyKey e = line_key (Some (k' @ s)) i'" using assms(4) e by blast
    then obtain r' where "le_idempotencyKey e = Some (k' @ r')" using key [OF assms(5), of i'] by auto
    moreover obtain r where "line_key (Some (k @ s)) i = Some (k @ r)" using key [OF assms(3)] by blast
    moreover have "k' @ r' \<noteq> k @ r"
    proof
      assume "k' @ r' = k @ r"
      then have "(k' @ r') ! 4 = (k @ r) ! 4" by simp
      with assms(6-8) show False by (simp add: nth_append)
    qed
    ultimately show ?thesis by (metis option.inject)
  qed
  then have es: "\<forall>e\<in>set es. \<forall>i\<le>length (raw_lines inp). le_idempotencyKey e \<noteq> None \<longrightarrow>
      le_idempotencyKey e \<noteq> line_key (ji_idempotencyKey inp) i"
    unfolding assms(2) by blast
  have L: "\<forall>e\<in>set L. \<forall>i\<le>length (raw_lines inp). le_idempotencyKey e \<noteq> None \<longrightarrow>
      le_idempotencyKey e \<noteq> line_key (ji_idempotencyKey inp) i"
    using assms(1) by (simp only: keys_free_def)
  show ?thesis unfolding keys_free_def set_append ball_Un by (rule conjI [OF L es])
qed

lemma record_fresh:
  assumes "keys_free J L" "\<forall>l\<in>set (raw_lines J). valid_line l" "2 \<le> length (raw_lines J)"
    "dsum dec20 0 (side_amounts LedgerEntrySide.DEBIT (raw_lines J)) = dsum dec20 0 (side_amounts LedgerEntrySide.CREDIT (raw_lines J))"
    "cents_journal J" "ji_idempotencyKey J = Some key" "key \<noteq> []"
  shows "\<exists>r es. recordJournal dec20 round2 now fresh J L = Inr (r, L @ es) \<and>
    (\<forall>t ent. getAccountBalance t ent (L @ es) = getAccountBalance t ent L + journal_effect J t ent) \<and>
    (\<forall>e\<in>set es. \<exists>i. le_idempotencyKey e = line_key (Some key) i)"
proof -
  obtain r L' where rec: "recordJournal dec20 round2 now fresh J L = Inr (r, L')"
    using recordJournal_accepts [OF assms(1) refl refl refl, of dec20 round2 now fresh] assms(2-4) by auto
  have none: "List.find (\<lambda>e. le_idempotencyKey e = ji_idempotencyKey J) L = None"
    using assms(1,3,6,7) by (auto simp: keys_free_def find_None_iff_all line_key_def dest!: spec [of _ 0])
  from rec show ?thesis
  proof (cases rule: recordJournal_cases)
    case (replay e)
    with none show ?thesis by simp
  next
    case (posted es)
    have "\<not> jr_isDuplicate r" using posted(4) by simp
    then have "\<forall>t ent. getAccountBalance t ent L' = getAccountBalance t ent L + journal_effect J t ent"
      using journal_posted_effect [OF numeric2.money_column_axioms assms(5) rec] by blast
    moreover have "\<forall>e\<in>set es. \<exists>i. le_idempotencyKey e = line_key (Some key) i"
      unfolding posted(5) using assms(6) by (auto simp: mk_entry_def)
    ultimately show ?thesis using rec posted(6) by blast
  qed
qed

text \<open>
  Cancelling a paid booking with a full refund leaves no trace in the balances: the baseline
  journal and its reversal are both recorded, and afterwards every account has, for every entity,
  the balance it had before.
\<close>

theorem full_refund_restores_balances:
  assumes "booking_money b (deposit_amount dep)" "bk_netToVendor b + bk_gstAmount b \<le> bk_totalFare b"
    "\<And>d. dep = Some d \<Longrightarrow> sd_status d \<noteq> SecurityDepositStatus.CANCELLED"
    "pm_status p = PAID" "\<not> has_baseline (bk_id b) L"
    "refund = bk_totalFare b + deposit_amount dep"
    "keys_free (baseline_journal dec20 b p (deposit_amount dep)) L"
    "keys_free (reversal_journal dec20 b p dep refund tier) L"
  shows "\<exists>L2. post_refund_journals dec20 round2 now jid1 jid2 b p dep refund tier L = Inr L2 \<and>
    (\<forall>t ent. getAccountBalance t ent L2 = getAccountBalance t ent L)"
proof -
  let ?B = "baseline_journal dec20 b p (deposit_amount dep)" and ?R = "reversal_journal dec20 b p dep refund tier"
  note be = baseline_lines_exact [OF assms(1), of p]
  have kb: "ji_idempotencyKey ?B = Some (''jrn_pay_verify_'' @ bk_id b)"
    and kr: "ji_idempotencyKey ?R = Some (''jrn_refund_intent_'' @ bk_id b)"
    by (simp_all add: baseline_journal_def reversal_journal_def booking_journal_def)
  have kn: "''jrn_pay_verify_'' @ bk_id b \<noteq> []" "''jrn_refund_intent_'' @ bk_id b \<noteq> []" by simp_all
  have raw: "raw_lines ?B = baseline_lines dec20 b p (deposit_amount dep)" and two: "2 \<le> length (raw_lines ?B)"
    by (simp_all add: baseline_journal_def baseline_lines_def Let_def)
  have bal: "dsum dec20 0 (side_amounts LedgerEntrySide.DEBIT (raw_lines ?B)) = dsum dec20 0 (side_amounts LedgerEntrySide.CREDIT (raw_lines ?B))"
    unfolding raw be(2,3) using assms(2) by simp
  obtain r1 es1 where b1: "recordJournal dec20 round2 now jid1 ?B L = Inr (r1, L @ es1)"
    "\<forall>t ent. getAccountBalance t ent (L @ es1) = getAccountBalance t ent L + journal_effect ?B t ent"
    "\<forall>e\<in>set es1. \<exists>i. le_idempotencyKey e = line_key (Some (''jrn_pay_verify_'' @ bk_id b)) i"
    using kn record_fresh [OF assms(7) be(1) [folded raw] two bal be(4) kb, where now = now and fresh = jid1] by blast
  have free: "keys_free ?R (L @ es1)"
    using keys_free_prefix [OF assms(8) kr _ b1(3)] by simp
  have re: "\<forall>l\<in>set (raw_lines ?R). valid_line l" "2 \<le> length (raw_lines ?R)"
    "dsum dec20 0 (side_amounts LedgerEntrySide.DEBIT (raw_lines ?R)) = dsum dec20 0 (side_amounts LedgerEntrySide.CREDIT (raw_lines ?R))" "cents_journal ?R"
    unfolding assms(6) by (rule reversal_lines_exact [OF assms(1,2)]; fact assms(3))+
  obtain r2 es2 where b2: "recordJournal dec20 round2 now jid2 ?R (L @ es1) = Inr (r2, (L @ es1) @ es2)"
    "\<forall>t ent. getAccountBalance t ent ((L @ es1) @ es2) = getAccountBalance t ent (L @ es1) + journal_effect ?R t ent"
    using kn record_fresh [OF free re kr, where now = now and fresh = jid2] by blast
  have "journal_effect ?B t ent + journal_effect ?R t ent = 0" for t ent
    unfolding assms(6) by (rule full_refund_effect [OF assms(1,2)]) (rule assms(3))
  then have "getAccountBalance t ent ((L @ es1) @ es2) = getAccountBalance t ent L" for t ent
    using b1(2) b2(2) by (simp add: add.assoc)
  moreover have "post_refund_journals dec20 round2 now jid1 jid2 b p dep refund tier L = Inr ((L @ es1) @ es2)"
    unfolding post_refund_journals_def using assms(4,5) b1(1) b2(1) by simp
  ultimately show ?thesis by blast
qed

definition demo_payment :: Payment where
  "demo_payment =
     \<lparr>pm_id = ''p1'', pm_bookingId = ''b1'', pm_amount = 1119.12, pm_status = PAID,
      pm_gatewayProvider = ''RAZORPAY'', pm_paymentMethod = None, pm_razorpayOrderId = Some ''order_1'',
      pm_razorpayPaymentId = Some ''pay_1'', pm_razorpayRefundId = None, pm_refundAmount = None,
      pm_refundStatus = NONE, pm_failedAt = None, pm_failureReason = None\<rparr>"

lemma demo_money: "booking_money demo_booking 0"
  using is_cents_div [of 111912] is_cents_div [of 100100] is_cents_div [of 10010] is_cents_div [of 1802]
  by (simp add: booking_money_def demo_booking_def)

lemma baseline_accepted_iff_witness:
  "\<exists>x. recordJournal dec20 round2 0 ''j1'' (baseline_journal dec20 demo_booking demo_payment 0) [] = Inr x"
proof -
  have "keys_free (baseline_journal dec20 demo_booking demo_payment 0) []" by (simp add: keys_free_def)
  from baseline_accepted_iff [OF demo_money this, of round2 0 "''j1''"] show ?thesis
    by (simp add: demo_booking_def)
qed

lemma full_refund_restores_balances_witness:
  "\<exists>L2. post_refund_journals dec20 round2 0 ''j1'' ''j2'' demo_booking demo_payment None 1119.12 JNull [] = Inr L2 \<and>
     (\<forall>t ent. getAccountBalance t ent L2 = getAccountBalance t ent [])"
proof (rule full_refund_restores_balances)
  show "booking_money demo_booking (deposit_amount None)" using demo_money by (simp add: deposit_amount_def)
qed (simp_all add: demo_booking_def demo_payment_def has_baseline_def exists_where_def deposit_amount_def keys_free_def)

section \<open>Cancelling an unpaid booking\<close>

text \<open>
  The reversal is posted whether or not the booking was paid. When a booking whose payment is
  not \<open>PAID\<close> is cancelled with a full refund, no baseline journal is posted, and the reversal takes
  the refund from the gateway account and the fare from the vendor's payable, although nothing was
  ever booked there.
\<close>

theorem unpaid_cancellation_books_refund:
  assumes "booking_money b (deposit_amount dep)" "bk_netToVendor b + bk_gstAmount b \<le> bk_totalFare b"
    "\<And>d. dep = Some d \<Longrightarrow> sd_status d \<noteq> SecurityDepositStatus.CANCELLED"
    "pm_status p \<noteq> PAID" "refund = bk_totalFare b + deposit_amount dep"
    "keys_free (reversal_journal dec20 b p dep refund tier) L"
  shows "\<exists>L2. post_refund_journals dec20 round2 now jid1 jid2 b p dep refund tier L = Inr L2 \<and>
    getAccountBalance GATEWAY_CLEARING (Some (gateway_of p)) L2 =
      getAccountBalance GATEWAY_CLEARING (Some (gateway_of p)) L - refund \<and>
    getAccountBalance VENDOR_PAYABLE (Some (bk_vendorId b)) L2 =
      getAccountBalance VENDOR_PAYABLE (Some (bk_vendorId b)) L - bk_netToVendor b"
proof -
  let ?R = "reversal_journal dec20 b p dep refund tier"
  have kr: "ji_idempotencyKey ?R = Some (''jrn_refund_intent_'' @ bk_id b)" and kn: "''jrn_refund_intent_'' @ bk_id b \<noteq> []"
    by (simp_all add: reversal_journal_def booking_journal_def)
  have re: "\<forall>l\<in>set (raw_lines ?R). valid_line l" "2 \<le> length (raw_lines ?R)"
    "dsum dec20 0 (side_amounts LedgerEntrySide.DEBIT (raw_lines ?R)) = dsum dec20 0 (side_amounts LedgerEntrySide.CREDIT (raw_lines ?R))" "cents_journal ?R"
    unfolding assms(5) by (rule reversal_lines_exact [OF assms(1,2)]; fact assms(3))+
  obtain r2 es where rec: "recordJournal dec20 round2 now jid2 ?R L = Inr (r2, L @ es)"
    "\<forall>t ent. getAccountBalance t ent (L @ es) = getAccountBalance t ent L + journal_effect ?R t ent"
    using kn record_fresh [OF assms(6) re kr, where now = now and fresh = jid2] by blast
  have split: "reversal_split dec20 b dep refund =
    \<lparr>rv_deposit = deposit_amount dep, rv_vendor = bk_netToVendor b,
     rv_platform = bk_totalFare b - bk_netToVendor b - bk_gstAmount b, rv_gst = bk_gstAmount b\<rparr>"
    unfolding assms(5) by (rule full_refund_split [OF assms(1,2)]) (rule assms(3))
  have n: "bk_netToVendor b > 0" using booking_moneyD(7) [OF assms(1)] .
  have "journal_effect ?R GATEWAY_CLEARING (Some (gateway_of p)) = - refund"
    "journal_effect ?R VENDOR_PAYABLE (Some (bk_vendorId b)) = - bk_netToVendor b"
    unfolding reversal_journal_def journal_effect_booking reversal_lines_def split reversal.simps
    using n by (simp_all add: sum_line_if line_delta_booking delta_at_def or_str_def gateway_of_def is_asset_account_def
        str_truthy_def)
  moreover have "post_refund_journals dec20 round2 now jid1 jid2 b p dep refund tier L = Inr (L @ es)"
    unfolding post_refund_journals_def using assms(4) rec(1) by simp
  ultimately show ?thesis using rec(2) by simp
qed

lemma unpaid_cancellation_books_refund_witness:
  "\<exists>L2. post_refund_journals dec20 round2 0 ''j1'' ''j2'' demo_booking (demo_payment\<lparr>pm_status := PaymentStatus.CREATED\<rparr>)
     None 1119.12 JNull [] = Inr L2 \<and> getAccountBalance GATEWAY_CLEARING (Some ''RAZORPAY'') L2 = - 1119.12"
proof -
  let ?p = "demo_payment\<lparr>pm_status := PaymentStatus.CREATED\<rparr>"
  have g: "gateway_of ?p = ''RAZORPAY''" by (simp add: gateway_of_def demo_payment_def)
  have "\<exists>L2. post_refund_journals dec20 round2 0 ''j1'' ''j2'' demo_booking ?p None 1119.12 JNull [] = Inr L2 \<and>
    getAccountBalance GATEWAY_CLEARING (Some (gateway_of ?p)) L2 =
      getAccountBalance GATEWAY_CLEARING (Some (gateway_of ?p)) [] - 1119.12 \<and>
    getAccountBalance VENDOR_PAYABLE (Some (bk_vendorId demo_booking)) L2 =
      getAccountBalance VENDOR_PAYABLE (Some (bk_vendorId demo_booking)) [] - bk_netToVendor demo_booking"
  proof (rule unpaid_cancellation_books_refund)
    show "booking_money demo_booking (deposit_amount None)" using demo_money by (simp add: deposit_amount_def)
  qed (simp_all add: demo_booking_def demo_payment_def deposit_amount_def keys_free_def)
  then show ?thesis unfolding g by (auto simp: getAccountBalance_signed)
qed

section \<open>Partial refunds\<close>

text \<open>
  A refund that is not the whole fare scales vendor payable, fee and tax by a ratio of 20 digits. The
  products have up to 20 digits, more than the sums the journal is checked with can hold.
\<close>

lemma dec20_eqI1:
  assumes "1 / 10 \<le> x" "x < 1" "of_int n \<le> x * 10 ^ 20 + 1 / 2" "x * 10 ^ 20 + 1 / 2 < of_int n + 1"
  shows "dec20 x = of_int n / 10 ^ 20"
proof -
  have x: "0 < x" using assms(1) by linarith
  have "10 powi (-1) \<le> x" "x < 10 powi (-1 + 1)"
    using assms(1,2) by (simp_all add: power_int_minus)
  with x have "ilog 10 x = -1" by (intro ilog_unique) simp_all
  moreover obtain k :: nat where k: "k = 20" by simp
  ultimately have "ulp 10 20 x = 10 powi (- int k)" using x by (simp add: ulp_def)
  also have "\<dots> = inverse (10 ^ k)" by (simp only: power_int_minus power_int_of_nat)
  finally have u: "ulp 10 20 x = inverse (10 ^ k)" .
  have "half_up (x * 10 ^ k) = n" unfolding half_up_def k using assms(3,4) by (simp only: floor_eq_iff)
  with x have "dec20 x = of_int n / 10 ^ k" by (simp add: dec20_def rsig_def Let_def u divide_inverse)
  then show ?thesis unfolding k .
qed

lemma half_step0: "dec20 (75657 / 100) = 75657 / 100"
  using dec20_eqI [where x = "75657 / 100" and a = 2 and k = 17 and n = 75657000000000000000] by simp

lemma half_step1: "dec20 (75657 / 151315) = 12499917390873343687 / 25000000000000000000"
  using dec20_eqI1 [where x = "75657 / 151315" and n = 49999669563493374748] by simp

lemma half_step2: "dec20 (1397778262399629911111401 / 2500000000000000000000) = 13977782623996299111 / 25000000000000000"
  using dec20_eqI [where x = "1397778262399629911111401 / 2500000000000000000000" and a = 2 and k = 17 and n = 55911130495985196444] by simp

lemma half_step3: "dec20 (104586808809437266629129 / 625000000000000000000) = 16733889409509962661 / 100000000000000000"
  using dec20_eqI [where x = "104586808809437266629129 / 625000000000000000000" and a = 2 and k = 17 and n = 16733889409509962661] by simp

lemma half_step4: "dec20 (9412437795327627796311 / 312500000000000000000) = 7529950236262102237 / 250000000000000000"
  using dec20_eqI [where x = "9412437795327627796311 / 312500000000000000000" and a = 1 and k = 18 and n = 30119800945048408948] by simp

lemma half_step5: "dec20 (14529003981099031821 / 20000000000000000) = 14529003981099031821 / 20000000000000000"
  using dec20_eqI [where x = "14529003981099031821 / 20000000000000000" and a = 2 and k = 17 and n = 72645019905495159105] by simp

lemma half_step6: "dec20 (378284999999999999999 / 500000000000000000) = 75657 / 100"
  using dec20_eqI [where x = "378284999999999999999 / 500000000000000000" and a = 2 and k = 17 and n = 75657000000000000000] by simp

lemma half_step7: "dec20 (575657 / 100) = 575657 / 100"
  using dec20_eqI [where x = "575657 / 100" and a = 3 and k = 16 and n = 57565700000000000000] by simp

lemma half_step8: "dec20 (16733889409509962661 / 100000000000000000) = 16733889409509962661 / 100000000000000000"
  using dec20_eqI [where x = "16733889409509962661 / 100000000000000000" and a = 2 and k = 17 and n = 16733889409509962661] by simp

lemma half_step9: "dec20 (5000) = 5000"
  using dec20_eqI [where x = "5000" and a = 3 and k = 16 and n = 50000000000000000000] by simp

lemma half_step10: "dec20 (138977782623996299111 / 25000000000000000) = 13897778262399629911 / 2500000000000000"
  using dec20_eqI [where x = "138977782623996299111 / 25000000000000000" and a = 3 and k = 16 and n = 55591113049598519644] by simp

lemma half_step11: "dec20 (572645019905495159101 / 100000000000000000) = 5726450199054951591 / 1000000000000000"
  using dec20_eqI [where x = "572645019905495159101 / 100000000000000000" and a = 3 and k = 16 and n = 57264501990549515910] by simp

lemma half_step12: "dec20 (1439142499999999999987 / 250000000000000000) = 57565699999999999999 / 10000000000000000"
  using dec20_eqI [where x = "1439142499999999999987 / 250000000000000000" and a = 3 and k = 16 and n = 57565699999999999999] by simp

lemma half_step13: "dec20 (130263 / 20) = 130263 / 20"
  using dec20_eqI [where x = "130263 / 20" and a = 3 and k = 16 and n = 65131500000000000000] by simp

lemma half_step14: "dec20 (145291 / 100) = 145291 / 100"
  using dec20_eqI [where x = "145291 / 100" and a = 3 and k = 16 and n = 14529100000000000000] by simp

lemma half_step15: "dec20 (30263 / 20) = 30263 / 20"
  using dec20_eqI [where x = "30263 / 20" and a = 3 and k = 16 and n = 15131500000000000000] by simp

lemma half_step16: "dec20 (8367 / 25) = 8367 / 25"
  using dec20_eqI [where x = "8367 / 25" and a = 2 and k = 17 and n = 33468000000000000000] by simp

lemma half_step17: "dec20 (111823 / 100) = 111823 / 100"
  using dec20_eqI [where x = "111823 / 100" and a = 3 and k = 16 and n = 11182300000000000000] by simp

lemmas half_steps = half_step0 half_step1 half_step2 half_step3 half_step4 half_step5 half_step6 half_step7 half_step8 half_step9 half_step10 half_step11 half_step12 half_step13 half_step14 half_step15 half_step16 half_step17

definition half_booking :: Booking where
  "half_booking = demo_booking\<lparr>bk_totalFare := 1513.15, bk_platformFee := 334.68, bk_gstAmount := 60.24,
     bk_netToVendor := 1118.23\<rparr>"

definition half_deposit :: SecurityDeposit where
  "half_deposit = \<lparr>sd_id = ''d1'', sd_bookingId = ''b1'', sd_amount = 5000, sd_refundedAmount = 0, sd_deductedAmount = 0,
     sd_razorpayPaymentId = None, sd_razorpayRefundId = None, sd_status = HELD, sd_heldAt = None, sd_releasedAt = None\<rparr>"

lemma half_split:
  "reversal_split dec20 half_booking (Some half_deposit) 5756.57 =
     \<lparr>rv_deposit = 5000, rv_vendor = 13977782623996299111 / 25000000000000000, rv_platform = 16733889409509962661 / 100000000000000000,
      rv_gst = 30119800945048408948 / 10 ^ 18\<rparr>"
  by (simp add: reversal_split_def deposit_refund_def half_booking_def half_deposit_def Let_def half_steps)

lemma half_money: "booking_money half_booking 5000"
  using is_cents_div [of 151315] is_cents_div [of 111823] is_cents_div [of 33468] is_cents_div [of 6024] is_cents_of_int [of 5000]
  by (simp add: booking_money_def half_booking_def demo_booking_def)

lemma half_net: "bk_netToVendor half_booking + bk_gstAmount half_booking \<le> bk_totalFare half_booking"
  by (simp add: half_booking_def)

lemma demo_net: "bk_netToVendor demo_booking + bk_gstAmount demo_booking \<le> bk_totalFare demo_booking"
  by (simp add: demo_booking_def)

text \<open>A baseline journal on an empty ledger.\<close>

lemma baseline_first:
  assumes "booking_money b dep" "bk_netToVendor b + bk_gstAmount b \<le> bk_totalFare b"
  shows "\<exists>r es. recordJournal dec20 round2 now jid (baseline_journal dec20 b p dep) [] = Inr (r, es) \<and>
    (\<forall>e\<in>set es. le_journalId e = jid \<and> (\<exists>i. le_idempotencyKey e = line_key (Some (''jrn_pay_verify_'' @ bk_id b)) i))"
proof -
  let ?B = "baseline_journal dec20 b p dep"
  have "keys_free ?B []" by (simp add: keys_free_def)
  moreover have "raw_lines ?B = baseline_lines dec20 b p dep" "2 \<le> length (raw_lines ?B)"
    by (simp_all add: baseline_journal_def baseline_lines_def Let_def)
  ultimately obtain r es where rec: "recordJournal dec20 round2 now jid ?B [] = Inr (r, es)"
    using recordJournal_accepts [OF _ refl refl refl, of ?B "[]" dec20 round2 now jid] baseline_lines_exact [OF assms(1), of p] assms(2)
    by auto
  then show ?thesis
  proof (cases rule: recordJournal_cases)
    case (posted es')
    then show ?thesis using rec
      by (intro exI [of _ r] exI [of _ es]) (auto simp: mk_entry_def baseline_journal_def booking_journal_def or_string_def)
  qed simp
qed

lemma free_after_baseline:
  assumes "\<forall>e\<in>set es. \<exists>i. le_idempotencyKey e = line_key (Some (''jrn_pay_verify_'' @ bk_id b)) i"
  shows "keys_free (reversal_journal dec20 b p dep refund tier) es"
proof -
  have "keys_free (reversal_journal dec20 b p dep refund tier) ([] @ es)"
  proof (rule keys_free_prefix [OF _ _ _ assms])
    show "ji_idempotencyKey (reversal_journal dec20 b p dep refund tier) = Some (''jrn_refund_intent_'' @ bk_id b)"
      by (simp add: reversal_journal_def booking_journal_def)
  qed (simp_all add: keys_free_def)
  then show ?thesis by simp
qed

lemma half_rev:
  assumes "keys_free (reversal_journal dec20 half_booking demo_payment (Some half_deposit) 5756.57 tier) L"
  shows "recordJournal dec20 round2 now jid (reversal_journal dec20 half_booking demo_payment (Some half_deposit) 5756.57 tier) L
   = Inl (UnbalancedJournalException (round2 (57565699999999999999 / 10^16)) (round2 5756.57))"
proof -
  let ?J = "reversal_journal dec20 half_booking demo_payment (Some half_deposit) 5756.57 tier"
  have ls: "raw_lines ?J = reversal_lines half_booking demo_payment 5756.57 (reversal_split dec20 half_booking (Some half_deposit) 5756.57)"
    by (simp add: reversal_journal_def)
  have d: "dsum dec20 0 (side_amounts LedgerEntrySide.DEBIT (raw_lines ?J)) = 57565699999999999999 / 10^16"
    unfolding ls half_split by (simp add: reversal_lines_def line_if_def half_steps)
  have c: "dsum dec20 0 (side_amounts LedgerEntrySide.CREDIT (raw_lines ?J)) = 5756.57"
    unfolding ls half_split by (simp add: reversal_lines_def line_if_def half_steps)
  have v: "2 \<le> length (raw_lines ?J)" "\<forall>l\<in>set (raw_lines ?J). valid_line l"
    unfolding ls half_split by (simp_all add: reversal_lines_def line_if_def valid_line_def)
  show ?thesis using recordJournal_accepts [OF assms refl refl refl, of dec20 round2 now jid] v
    unfolding d c by simp
qed

text \<open>
  There are bookings that cannot be cancelled: a fare of 1513.15 with a deposit of 5000, cancelled
  at a fee of one half. The reversed parts add up to the refund in the order in which the handler
  adds them, but not in the order of the journal, which includes the deposit first; the journal is
  refused with both totals printed as 5756.57, and the exception rolls the cancellation back.
\<close>

theorem half_refund_refused:
  "post_refund_journals dec20 round2 now jid1 jid2 half_booking demo_payment (Some half_deposit) 5756.57 tier [] =
     Inl (UnbalancedJournalException 5756.57 5756.57)"
proof -
  have d: "deposit_amount (Some half_deposit) = 5000" by (simp add: deposit_amount_def half_deposit_def)
  obtain r es where base: "recordJournal dec20 round2 now jid1 (baseline_journal dec20 half_booking demo_payment 5000) [] = Inr (r, es)"
    "\<forall>e\<in>set es. le_journalId e = jid1 \<and> (\<exists>i. le_idempotencyKey e = line_key (Some (''jrn_pay_verify_'' @ bk_id half_booking)) i)"
    using baseline_first [OF half_money half_net, where now = now and jid = jid1] by blast
  have "keys_free (reversal_journal dec20 half_booking demo_payment (Some half_deposit) 5756.57 tier) es"
    by (rule free_after_baseline) (use base(2) in blast)
  then have rev: "recordJournal dec20 round2 now jid2 (reversal_journal dec20 half_booking demo_payment (Some half_deposit) 5756.57 tier) es =
      Inl (UnbalancedJournalException (round2 (57565699999999999999 / 10 ^ 16)) (round2 5756.57))"
    by (rule half_rev)
  have r: "round2 (57565699999999999999 / 10 ^ 16) = 5756.57" "round2 5756.57 = 5756.57"
    by (simp_all add: round2_def floor_eq_iff)
  have "\<not> has_baseline (bk_id half_booking) [] \<and> pm_status demo_payment = PAID"
    by (simp add: has_baseline_def exists_where_def demo_payment_def)
  then show ?thesis
    unfolding post_refund_journals_def d by (simp only: base(1) rev r if_True bindR_simps prod.case simp_thms)
qed

lemma quarter_steps:
  "dec20 (41967 / 50) = 41967 / 50" "dec20 (3 / 4) = 3 / 4" "dec20 (3003 / 4) = 3003 / 4"
  "dec20 (3003 / 40) = 3003 / 40" "dec20 (2703 / 200) = 2703 / 200" "dec20 (33033 / 40) = 33033 / 40" "dec20 0 = 0"
  using dec20_eqI [where x = "41967 / 50" and a = 2 and k = 17 and n = 83934000000000000000]
    dec20_eqI1 [where x = "3 / 4" and n = 75000000000000000000]
    dec20_eqI [where x = "3003 / 4" and a = 2 and k = 17 and n = 75075000000000000000]
    dec20_eqI [where x = "3003 / 40" and a = 1 and k = 18 and n = 75075000000000000000]
    dec20_eqI [where x = "2703 / 200" and a = 1 and k = 18 and n = 13515000000000000000]
    dec20_eqI [where x = "33033 / 40" and a = 2 and k = 17 and n = 82582500000000000000]
  by simp_all

lemma quarter_split:
  "reversal_split dec20 demo_booking None 839.34 =
     \<lparr>rv_deposit = 0, rv_vendor = 3003 / 4, rv_platform = 3003 / 40, rv_gst = 2703 / 200\<rparr>"
  by (simp add: reversal_split_def deposit_refund_def demo_booking_def Let_def quarter_steps)

lemma quarter_round:
  "round2 (3003 / 4) = 3003 / 4" "round2 (3003 / 40) = 1877 / 25" "round2 (2703 / 200) = 338 / 25" "round2 (41967 / 50) = 41967 / 50"
  by (simp_all add: round2_def floor_eq_iff)

text \<open>
  Other partial refunds pass the check and are stored unbalanced: at a fee of a quarter, the parts
  750.75, 75.075 and 13.515 are stored rounded, a cent more than the 839.34 paid out.
\<close>

theorem quarter_fee_refund_unbalanced:
  "\<exists>L. post_refund_journals dec20 round2 now ''j1'' ''j2'' demo_booking demo_payment None 839.34 tier [] = Inr L \<and>
     net ''j2'' L = 1 / 100"
proof -
  have d: "deposit_amount None = 0" by (simp add: deposit_amount_def)
  obtain r es where base: "recordJournal dec20 round2 now ''j1'' (baseline_journal dec20 demo_booking demo_payment 0) [] = Inr (r, es)"
    "\<forall>e\<in>set es. le_journalId e = ''j1'' \<and> (\<exists>i. le_idempotencyKey e = line_key (Some (''jrn_pay_verify_'' @ bk_id demo_booking)) i)"
    using baseline_first [OF demo_money demo_net, where now = now and jid = "''j1''"] by blast
  let ?J = "reversal_journal dec20 demo_booking demo_payment None 839.34 tier"
  have free: "keys_free ?J es" by (rule free_after_baseline) (use base(2) in blast)
  have raw: "raw_lines ?J = reversal_lines demo_booking demo_payment 839.34 \<lparr>rv_deposit = 0, rv_vendor = 3003 / 4, rv_platform = 3003 / 40, rv_gst = 2703 / 200\<rparr>"
    unfolding reversal_journal_def raw_lines_booking_journal quarter_split ..
  have v: "2 \<le> length (raw_lines ?J)" "\<forall>l\<in>set (raw_lines ?J). valid_line l"
    "dsum dec20 0 (side_amounts LedgerEntrySide.DEBIT (raw_lines ?J)) = dsum dec20 0 (side_amounts LedgerEntrySide.CREDIT (raw_lines ?J))"
    unfolding raw by (simp_all add: reversal_lines_def line_if_def valid_line_def quarter_steps)
  then obtain r2 L where rec: "recordJournal dec20 round2 now ''j2'' ?J es = Inr (r2, L)"
    using recordJournal_accepts [OF free refl refl refl, of dec20 round2 now "''j2''"] by auto
  have n0: "net ''j2'' es = 0" using base(2) by (auto intro!: net_absent)
  have "List.find (\<lambda>e. le_idempotencyKey e = ji_idempotencyKey ?J) es = None"
    using free v(1) by (auto simp: keys_free_def find_None_iff_all line_key_def reversal_journal_def booking_journal_def dest!: spec [of _ 0])
  with rec have "net ''j2'' L = net ''j2'' es + net ''j2'' (map (\<lambda>(k, p). mk_entry round2 now ''j2'' ?J k p)
      (enumerate 0 (map (\<lambda>l. parse_line ?J (the (line_side l)) l) (raw_lines ?J))))"
    by (cases rule: recordJournal_cases) (simp_all add: reversal_journal_def booking_journal_def or_string_def)
  also have "\<dots> = 1 / 100"
    unfolding n0 raw
    by (simp add: reversal_lines_def line_if_def net_def signed_def mk_entry_def parse_line_def quarter_round)
  finally have net: "net ''j2'' L = 1 / 100" .
  have "\<not> has_baseline (bk_id demo_booking) [] \<and> pm_status demo_payment = PAID"
    by (simp add: has_baseline_def exists_where_def demo_payment_def)
  then have "post_refund_journals dec20 round2 now ''j1'' ''j2'' demo_booking demo_payment None 839.34 tier [] = Inr L"
    unfolding post_refund_journals_def d by (simp only: base(1) rec if_True bindR_simps prod.case simp_thms)
  with net show ?thesis by blast
qed

end
