(* ===== verification/Payments.thy ===== *)
theory Payments
  imports RefundJournal
begin

text \<open>
  Taking a payment (\<open>payments/payments.service.ts\<close>, lines 120 to 891 and 2018 to 2141): the payment
  state machine, the audit rows, the order, its verification and the journal of a verified payment.
  Parameters (\<open>pay_env\<close>): which optional services are configured, the order of the integration
  runtime and of Razorpay, Razorpay's signature check, its payment and refund records; the refund
  call also changes the gateway's own state \<open>'g\<close>. decimal.js results are rounded by \<open>dec20\<close>,
  amounts written to a column by \<open>round2\<close>. Left out: notifications, invoices (written by another
  service, whose errors are ignored) and the outbox events of a payment: their status columns hold a
  \<open>PaymentStatus\<close> where the table has a \<open>BookingStatus\<close>, so the client refuses to create the row
  and the handler drops that error.
\<close>

section \<open>The payment state machine\<close>

fun valid_targets :: "PaymentStatus \<Rightarrow> PaymentStatus list" where
  "valid_targets PaymentStatus.CREATED =
     [PaymentStatus.AUTHORIZED, PaymentStatus.CAPTURED, PaymentStatus.PAID, PaymentStatus.FAILED, PaymentStatus.CANCELLED, PaymentStatus.EXPIRED]"
| "valid_targets PaymentStatus.PENDING =
     [PaymentStatus.AUTHORIZED, PaymentStatus.CAPTURED, PaymentStatus.PAID, PaymentStatus.FAILED, PaymentStatus.CANCELLED, PaymentStatus.EXPIRED]"
| "valid_targets PaymentStatus.AUTHORIZED =
     [PaymentStatus.CAPTURED, PaymentStatus.PAID, PaymentStatus.FAILED, PaymentStatus.CANCELLED, PaymentStatus.EXPIRED]"
| "valid_targets PaymentStatus.CAPTURED =
     [PaymentStatus.PAID, PaymentStatus.PARTIALLY_REFUNDED, PaymentStatus.REFUNDED]"
| "valid_targets PaymentStatus.PAID = [PaymentStatus.PARTIALLY_REFUNDED, PaymentStatus.REFUNDED]"
| "valid_targets PaymentStatus.PARTIALLY_REFUNDED = [PaymentStatus.PARTIALLY_REFUNDED, PaymentStatus.REFUNDED]"
| "valid_targets PaymentStatus.FAILED = [PaymentStatus.CREATED]"
| "valid_targets PaymentStatus.CANCELLED = [PaymentStatus.CREATED]"
| "valid_targets PaymentStatus.EXPIRED = [PaymentStatus.CREATED]"
| "valid_targets PaymentStatus.REFUNDED = []"

definition assertValidTransition :: "PaymentStatus option \<Rightarrow> PaymentStatus \<Rightarrow> unit result" where
  "assertValidTransition fromStatus toStatus =
     (case fromStatus of
        None \<Rightarrow> if toStatus = PaymentStatus.CREATED then Inr ()
                else Inl (BadRequestException ''Cannot initialize payment directly into another status'')
      | Some s \<Rightarrow>
          if s = toStatus then Inr ()
          else if toStatus \<notin> set (valid_targets s)
          then Inl (ConflictException ''Invalid payment transition: it violates canonical financial integrity rules.'')
          else Inr ())"

section \<open>Parameters and rows\<close>

record 'g pay_env =
  py_useMock :: bool
  py_wallets :: bool
  py_config :: "WalletConfig option"
  py_ledger :: bool
  py_auditLog :: bool
  py_runtimeOrder :: "id \<Rightarrow> int \<Rightarrow> string option"
  py_createOrder :: "id \<Rightarrow> int \<Rightarrow> string option"
  py_validate :: "string \<Rightarrow> string \<Rightarrow> string \<Rightarrow> bool"
  py_fetch :: "string \<Rightarrow> string + rzp_payment option"
  py_refund :: "string \<Rightarrow> int \<Rightarrow> string \<Rightarrow> 'g \<Rightarrow> (string + string \<times> string) \<times> 'g"
  py_refunds :: "string \<Rightarrow> 'g \<Rightarrow> (string \<times> string) list result"

text \<open>\<open>razorpayOrderId\<close> and \<open>razorpayRefundId\<close> are unique columns.\<close>

definition same_id :: "string option \<Rightarrow> string option \<Rightarrow> bool" where
  "same_id a b \<longleftrightarrow> a \<noteq> None \<and> a = b"

definition payment_clash :: "Payment \<Rightarrow> Payment \<Rightarrow> bool" where
  "payment_clash p q \<longleftrightarrow> pm_id q \<noteq> pm_id p \<and>
     (same_id (pm_razorpayOrderId p) (pm_razorpayOrderId q) \<or> same_id (pm_razorpayRefundId p) (pm_razorpayRefundId q))"

definition update_payment :: "Payment \<Rightarrow> bk_db \<Rightarrow> bk_db result" where
  "update_payment p db =
     (if exists_where (payment_clash p) (db_payments db) then Inl (PrismaError ''P2002'')
      else Inr (db\<lparr>db_payments := update_where (\<lambda>q. pm_id q = pm_id p) (\<lambda>_. p) (db_payments db)\<rparr>))"

definition create_payment :: "Payment \<Rightarrow> bk_db \<Rightarrow> bk_db result" where
  "create_payment p db =
     (if exists_where (\<lambda>q. pm_bookingId q = pm_bookingId p \<or> payment_clash p q) (db_payments db)
      then Inl (PrismaError ''P2002'')
      else Inr (db\<lparr>db_payments := db_payments db @ [p]\<rparr>))"

definition recordPaymentAuditLog :: "PaymentAuditLog \<Rightarrow> bk_db \<Rightarrow> bk_db" where
  "recordPaymentAuditLog a db =
     (if exists_where (\<lambda>p. pm_id p = pa_paymentId a) (db_payments db)
      then db\<lparr>db_paymentAudit := db_paymentAudit db @
             [a\<lparr>pa_gatewayReference := or_str (pa_gatewayReference a) None,
                pa_actorId := or_str (pa_actorId a) None, pa_actorRole := or_str (pa_actorRole a) None\<rparr>]\<rparr>
      else db)"

definition audit_event ::
  "Payment \<Rightarrow> string \<Rightarrow> PaymentStatus option \<Rightarrow> PaymentStatus \<Rightarrow> rat option \<Rightarrow> string option \<Rightarrow> id option \<Rightarrow>
   string option \<Rightarrow> string \<Rightarrow> PaymentAuditLog" where
  "audit_event p type before after amount reference actorId actorRole source =
     \<lparr>pa_paymentId = pm_id p, pa_bookingId = pm_bookingId p, pa_eventType = type, pa_fromStatus = before,
      pa_toStatus = after, pa_amount = amount, pa_gatewayReference = reference, pa_actorId = actorId,
      pa_actorRole = actorRole, pa_source = source\<rparr>"

text \<open>\<open>x.toNumber() * 100\<close>, rounded.\<close>

definition in_paise :: "rat \<Rightarrow> int" where
  "in_paise x = js_round (fl (fl x * 100))"

definition starts_with :: "string \<Rightarrow> string \<Rightarrow> bool" where
  "starts_with s prefix \<longleftrightarrow> take (length prefix) s = prefix"

definition contains_str :: "string \<Rightarrow> string \<Rightarrow> bool" where
  "contains_str needle s = list_ex (\<lambda>i. take (length needle) (drop i s) = needle) [0..<length s + 1]"

definition WALLET_ORDER :: string where "WALLET_ORDER = ''order_wallet_full_''"
definition SPLIT_ORDER :: string where "SPLIT_ORDER = ''order_mock_split_''"

text \<open>What a booking costs: the fare and the security deposit.\<close>

definition payable :: "Booking \<Rightarrow> bk_db \<Rightarrow> rat" where
  "payable b db = dec20 (bk_totalFare b + deposit_amount (find_deposit (bk_id b) db))"

section \<open>The order\<close>

record order_ids =
  oi_wallet :: id
  oi_payment :: id
  oi_random :: string

record order_result =
  or_orderId :: string
  or_amount :: int
  or_isFullWallet :: bool
  or_tripFare :: rat
  or_securityDeposit :: rat
  or_totalAmount :: rat
  or_walletApplied :: rat
  or_promoApplied :: rat
  or_realApplied :: rat
  or_gatewayAmount :: rat

record wallet_split =
  sp_wallet :: rat
  sp_promo :: rat
  sp_real :: rat
  sp_gateway :: rat

definition order_checks :: "id \<Rightarrow> id \<Rightarrow> bk_db \<Rightarrow> Booking result" where
  "order_checks bid customerId db =
     (case find_booking bid db of
        None \<Rightarrow> Inl (NotFoundException ''Booking not found.'')
      | Some b \<Rightarrow>
          throw_if (bk_customerId b \<noteq> customerId)
            (ForbiddenException ''Access denied: You can only pay for your own bookings.'')
          (throw_if (bk_status b \<noteq> BookingStatus.PENDING)
            (BadRequestException ''Only pending bookings can be paid for.'')
          (throw_if (case find_payment bid db of None \<Rightarrow> False | Some p \<Rightarrow> pm_status p \<in> {PaymentStatus.PAID, PaymentStatus.REFUNDED})
            (ConflictException ''This booking has already been paid for.'')
          (throw_if (case bk_quoteTotal b of None \<Rightarrow> False | Some q \<Rightarrow> \<bar>fl (dec20 (q - payable b db))\<bar> \<ge> fl 0.05)
            (ConflictException ''Payment amount mismatch: it does not match the authoritative accepted quote.'')
          (Inr b)))))"

definition split_order :: "'g pay_env \<Rightarrow> id \<Rightarrow> id \<Rightarrow> bool \<Rightarrow> rat \<Rightarrow> wallet_db \<Rightarrow> wallet_split \<times> wallet_db" where
  "split_order env newId customerId useWallet due wd =
     (let none = \<lparr>sp_wallet = 0, sp_promo = 0, sp_real = 0, sp_gateway = due\<rparr>
      in if useWallet \<and> py_wallets env
         then let (w, wd1) = getOrCreateWallet newId customerId wd
              in if w_status w = WalletStatus.ACTIVE \<and> w_availableBalance w > 0
                 then let applied = min (w_availableBalance w) due;
                          promo = min (w_promoBalance w) applied
                      in (\<lparr>sp_wallet = applied, sp_promo = promo, sp_real = dec20 (applied - promo),
                           sp_gateway = dec20 (due - applied)\<rparr>, wd1)
                 else (none, wd1)
         else (none, wd))"

definition order_id :: "'g pay_env \<Rightarrow> string \<Rightarrow> id \<Rightarrow> wallet_split \<Rightarrow> int \<Rightarrow> string result" where
  "order_id env random bid sp paise =
     (if py_useMock env
      then let walletPaise = in_paise (sp_wallet sp)
           in Inr (if walletPaise > 0 then SPLIT_ORDER @ show_nat (nat walletPaise) @ ''_'' @ random
                   else ''order_mock_'' @ random)
      else case py_runtimeOrder env bid paise of
             Some oid \<Rightarrow> Inr oid
           | None \<Rightarrow>
               (case py_createOrder env bid paise of
                  Some oid \<Rightarrow> Inr oid
                | None \<Rightarrow> Inl (BadRequestException ''Failed to create payment order with Razorpay. Try again.'')))"

definition new_payment :: "id \<Rightarrow> id \<Rightarrow> string \<Rightarrow> rat \<Rightarrow> Payment" where
  "new_payment pid bid oid due =
     \<lparr>pm_id = pid, pm_bookingId = bid, pm_amount = round2 due, pm_status = PaymentStatus.CREATED,
      pm_gatewayProvider = ''RAZORPAY'', pm_paymentMethod = None, pm_razorpayOrderId = Some oid,
      pm_razorpayPaymentId = None, pm_razorpayRefundId = None, pm_refundAmount = None, pm_refundStatus = RefundStatus.NONE,
      pm_failedAt = None, pm_failureReason = None\<rparr>"

definition store_order :: "id \<Rightarrow> Booking \<Rightarrow> string \<Rightarrow> rat \<Rightarrow> bk_db \<Rightarrow> (Payment \<times> bk_db) result" where
  "store_order pid b oid due db =
     (case find_payment (bk_id b) db of
        Some p \<Rightarrow>
          let p' = p\<lparr>pm_razorpayOrderId := Some oid, pm_amount := round2 due, pm_status := PaymentStatus.CREATED,
                     pm_failedAt := None, pm_failureReason := None\<rparr>
          in bindR (update_payment p' db) (\<lambda>db1. Inr (p', db1))
      | None \<Rightarrow>
          let p' = new_payment pid (bk_id b) oid due
          in bindR (create_payment p' db) (\<lambda>db1. Inr (p', db1)))"

definition createOrder :: "'g pay_env \<Rightarrow> order_ids \<Rightarrow> id \<Rightarrow> id \<Rightarrow> bool \<Rightarrow> bk_db \<Rightarrow> order_result result \<times> bk_db" where
  "createOrder env ids bid customerId useWallet db =
     (case order_checks bid customerId db of
        Inl e \<Rightarrow> (Inl e, db)
      | Inr b \<Rightarrow>
          let due = payable b db;
              (sp, wd1) = split_order env (oi_wallet ids) customerId useWallet due (db_wallet db);
              db1 = db\<lparr>db_wallet := wd1\<rparr>;
              full = (sp_gateway sp \<le> 0);
              paise = (if full then 0 else in_paise (sp_gateway sp));
              previous = find_payment bid db
          in case (if full then Inr (WALLET_ORDER @ bid) else order_id env (oi_random ids) bid sp paise) of
               Inl e \<Rightarrow> (Inl e, db1)
             | Inr oid \<Rightarrow>
                 (case store_order (oi_payment ids) b oid due db1 of
                    Inl e \<Rightarrow> (Inl e, db1)
                  | Inr (p, db2) \<Rightarrow>
                      (Inr \<lparr>or_orderId = oid, or_amount = paise, or_isFullWallet = full,
                            or_tripFare = fl (bk_totalFare b),
                            or_securityDeposit = fl (deposit_amount (find_deposit bid db)), or_totalAmount = fl due,
                            or_walletApplied = fl (sp_wallet sp), or_promoApplied = fl (sp_promo sp),
                            or_realApplied = fl (sp_real sp), or_gatewayAmount = fl (sp_gateway sp)\<rparr>,
                       recordPaymentAuditLog
                         (audit_event p (if previous \<noteq> None then ''PAYMENT_ORDER_RENEWED'' else ''PAYMENT_ORDER_CREATED'')
                           (map_option pm_status previous) PaymentStatus.CREATED (Some due) (Some oid) (Some customerId)
                           (Some ''CUSTOMER'') ''CUSTOMER'') db2)))"

section \<open>Verification\<close>

record VerifyPaymentDto =
  vp_bookingId :: id
  vp_razorpayOrderId :: string
  vp_razorpayPaymentId :: string
  vp_razorpaySignature :: string

record verify_result =
  vr_paymentId :: id
  vr_alreadyPaid :: bool

definition verify_checks :: "VerifyPaymentDto \<Rightarrow> id \<Rightarrow> bk_db \<Rightarrow> (Booking \<times> Payment) result" where
  "verify_checks dto customerId db =
     (case find_booking (vp_bookingId dto) db of
        None \<Rightarrow> Inl (NotFoundException ''Booking not found.'')
      | Some b \<Rightarrow>
          throw_if (bk_customerId b \<noteq> customerId)
            (ForbiddenException ''Access denied: You can only verify payments for your own bookings.'')
          (case find_payment (vp_bookingId dto) db of
             None \<Rightarrow> Inl (NotFoundException ''No payment order found for this booking.'')
           | Some p \<Rightarrow>
               throw_if (pm_razorpayOrderId p \<noteq> Some (vp_razorpayOrderId dto))
                 (BadRequestException ''Payment order mismatch: provided order ID does not match booking payment order.'')
               (Inr (b, p))))"

text \<open>A payment that is already settled: the idempotent answer, or an error.\<close>

definition settled_answer :: "VerifyPaymentDto \<Rightarrow> Payment \<Rightarrow> verify_result result option" where
  "settled_answer dto p =
     (if pm_status p = PaymentStatus.PAID
      then if pm_razorpayPaymentId p = Some (vp_razorpayPaymentId dto) \<or> \<not> str_truthy (pm_razorpayPaymentId p) \<or>
              starts_with (vp_razorpayOrderId dto) WALLET_ORDER
           then Some (Inr \<lparr>vr_paymentId = pm_id p, vr_alreadyPaid = True\<rparr>)
           else Some (Inl (ConflictException ''This booking has already been paid with a different payment ID.''))
      else if pm_status p = PaymentStatus.REFUNDED
      then Some (Inl (BadRequestException ''This payment has already been refunded and cannot be confirmed.''))
      else None)"

definition signature_ok :: "'g pay_env \<Rightarrow> VerifyPaymentDto \<Rightarrow> bool" where
  "signature_ok env dto \<longleftrightarrow>
     (py_useMock env \<and> vp_razorpaySignature dto = ''mock_signature'') \<or>
     py_validate env (vp_razorpayOrderId dto) (vp_razorpayPaymentId dto) (vp_razorpaySignature dto)"

text \<open>\<open>split('_')\<close> and \<open>parseInt(s, 10) || 0\<close>.\<close>

fun split_on :: "char \<Rightarrow> string \<Rightarrow> string \<Rightarrow> string list" where
  "split_on c acc [] = [rev acc]"
| "split_on c acc (x # xs) = (if x = c then rev acc # split_on c [] xs else split_on c (x # acc) xs)"

definition is_digit :: "char \<Rightarrow> bool" where
  "is_digit c = (let n = (of_char c :: nat) in 48 \<le> n \<and> n \<le> 57)"

definition digits_value :: "string \<Rightarrow> int" where
  "digits_value ds = foldl (\<lambda>a c. 10 * a + (of_char c - 48)) 0 ds"

definition parse_int_or_0 :: "string \<Rightarrow> int" where
  "parse_int_or_0 s =
     (let t = dropWhile is_blank s
      in case t of
           [] \<Rightarrow> 0
         | c # u \<Rightarrow>
             if c = CHR ''-'' then - digits_value (takeWhile is_digit u)
             else if c = CHR ''+'' then digits_value (takeWhile is_digit u)
             else digits_value (takeWhile is_digit t))"

definition mock_amounts :: "string \<Rightarrow> rat \<Rightarrow> rat \<times> rat" where
  "mock_amounts orderId expected =
     (if starts_with orderId SPLIT_ORDER
      then let wallet = dec20 (of_int (parse_int_or_0 (split_on (CHR ''_'') [] orderId ! 3)) / 100)
           in (dec20 (expected - wallet), wallet)
      else (expected, 0))"

text \<open>The gateway's record of the payment: what it and the wallet pay, or why it is refused.\<close>

definition captured_amounts :: "'g pay_env \<Rightarrow> string \<Rightarrow> rat \<Rightarrow> rzp_payment \<Rightarrow> (rat \<times> rat) result" where
  "captured_amounts env orderId expected rp =
     throw_if (str_truthy (rp_order_id rp) \<and> rp_order_id rp \<noteq> Some orderId)
       (BadRequestException ''Razorpay payment is not associated with the provided order ID.'')
     (throw_if (str_truthy (rp_currency rp) \<and> to_upper (the (rp_currency rp)) \<noteq> ''INR'')
       (BadRequestException ''Payment currency mismatch.'')
     (throw_if (rp_status rp = ''failed'') (BadRequestException ''Payment status on Razorpay is failed.'')
     (throw_if (rp_status rp = ''authorized'')
       (BadRequestException ''Payment is authorized but not yet captured. Please wait for payment confirmation.'')
     (throw_if (rp_status rp \<noteq> ''captured'') (BadRequestException ''Payment status is not captured'')
     (let gateway = dec20 (rp_amount rp / 100); wallet = dec20 (expected - gateway)
      in throw_if (rp_amount rp \<noteq> of_int (in_paise expected) \<and> \<not> py_wallets env)
           (BadRequestException ''Payment amount mismatch'')
         (throw_if (wallet < 0) (BadRequestException ''Payment amount exceeds total booking payable.'')
         (Inr (gateway, wallet))))))))"

text \<open>Whether the handler marks the payment FAILED before it refuses it.\<close>

definition gateway_failed :: "string \<Rightarrow> rzp_payment \<Rightarrow> bool" where
  "gateway_failed orderId rp \<longleftrightarrow>
     \<not> (str_truthy (rp_order_id rp) \<and> rp_order_id rp \<noteq> Some orderId) \<and>
     \<not> (str_truthy (rp_currency rp) \<and> to_upper (the (rp_currency rp)) \<noteq> ''INR'') \<and> rp_status rp = ''failed''"

definition paid_amounts ::
  "'g pay_env \<Rightarrow> VerifyPaymentDto \<Rightarrow> Payment \<Rightarrow> rat \<Rightarrow> bk_db \<Rightarrow> (rat \<times> rat) result \<times> bk_db" where
  "paid_amounts env dto p expected db =
     (let oid = vp_razorpayOrderId dto; pid = vp_razorpayPaymentId dto
      in if starts_with oid WALLET_ORDER then (Inr (0, expected), db)
         else if \<not> signature_ok env dto
         then (Inl (BadRequestException ''Invalid payment signature. Verification failed.''), db)
         else if py_useMock env then (Inr (mock_amounts oid expected), db)
         else case py_fetch env pid of
                Inl _ \<Rightarrow> (Inl (BadRequestException ''Unable to verify payment with Razorpay''), db)
              | Inr None \<Rightarrow> (Inl (BadRequestException ''Payment record not found on Razorpay.''), db)
              | Inr (Some rp) \<Rightarrow>
                  (if gateway_failed oid rp
                   then case update_payment (p\<lparr>pm_status := PaymentStatus.FAILED, pm_razorpayPaymentId := Some pid\<rparr>) db of
                          Inl _ \<Rightarrow> (Inl (BadRequestException ''Unable to verify payment with Razorpay''), db)
                        | Inr db1 \<Rightarrow> (captured_amounts env oid expected rp, db1)
                   else (captured_amounts env oid expected rp, db)))"

definition settle_wallet ::
  "'g pay_env \<Rightarrow> time \<Rightarrow> id \<Rightarrow> Booking \<Rightarrow> rat \<Rightarrow> bool \<Rightarrow> bk_db \<Rightarrow> bk_db result" where
  "settle_wallet env now newId b required full db =
     (if required > 0
      then if \<not> py_wallets env then Inl (BadRequestException ''Wallet service unavailable to settle checkout debit.'')
           else let (w, wd) = getOrCreateWallet newId (bk_customerId b) (db_wallet db)
                in if w_availableBalance w < required
                   then Inl (BadRequestException ''Insufficient wallet balance to complete payment.'')
                   else bindR (debitWallet round2 (py_config env) now (w_id w) required CHECKOUT_DEBIT ''BOOKING'' (Some (bk_id b))
                                (''wallet_checkout_debit_'' @ bk_id b)
                                ((if full then ''Full wallet payment for booking '' else ''Split wallet payment for booking '') @ bk_id b) wd)
                          (\<lambda>(_, wd1). Inr (db\<lparr>db_wallet := wd1\<rparr>))
      else Inr db)"

definition hold_deposit :: "time \<Rightarrow> string \<Rightarrow> id \<Rightarrow> bk_db \<Rightarrow> bk_db" where
  "hold_deposit now paymentId bid db =
     (case find_deposit bid db of
        None \<Rightarrow> db
      | Some d \<Rightarrow> db\<lparr>db_deposits := update_where (\<lambda>q. sd_id q = sd_id d)
          (\<lambda>q. q\<lparr>sd_status := HELD, sd_razorpayPaymentId := Some paymentId, sd_heldAt := Some now\<rparr>) (db_deposits db)\<rparr>)"

definition is_corporate :: "Booking \<Rightarrow> Payment \<Rightarrow> bool" where
  "is_corporate b p \<longleftrightarrow> pm_paymentMethod p = Some ''CORPORATE_CREDIT'' \<or> str_truthy (bk_corporateAccountId b)"

definition payment_lines ::
  "Booking \<Rightarrow> Payment \<Rightarrow> rat \<Rightarrow> rat \<Rightarrow> rat \<Rightarrow> rat \<Rightarrow> bool \<Rightarrow> JournalEntryLineInput list" where
  "payment_lines b p secDeposit expected gateway wallet full =
     (let sub = dec20 (dec20 (dec20 (bk_netToVendor b + bk_platformFee b) + bk_gstAmount b) + secDeposit);
          fee = dec20 (bk_platformFee b + dec20 (expected - sub))
      in line_if (wallet > 0) (booking_line CUSTOMER_WALLET (Some (bk_customerId b)) LedgerEntrySide.DEBIT wallet
           ''Wallet checkout debit for booking '' b p) @
         line_if (gateway > 0)
           (if is_corporate b p
            then booking_line CORPORATE_RECEIVABLE (Some (or_string (bk_corporateAccountId b) ''CORPORATE''))
                   LedgerEntrySide.DEBIT gateway ''Corporate credit receivable for booking '' b p
            else booking_line GATEWAY_CLEARING (Some (if full then ''WALLET'' else gateway_of p))
                   LedgerEntrySide.DEBIT gateway ''Payment gateway clearing for booking '' b p) @
         [booking_line VENDOR_PAYABLE (Some (bk_vendorId b)) LedgerEntrySide.CREDIT (bk_netToVendor b)
            ''Net rental revenue payable to vendor for booking '' b p] @
         line_if (fee > 0) (booking_line PLATFORM_COMMISSION_REVENUE None LedgerEntrySide.CREDIT fee
           ''Platform commission revenue for booking '' b p) @
         line_if (bk_gstAmount b > 0) (booking_line TAX_GST_LIABILITY None LedgerEntrySide.CREDIT (bk_gstAmount b)
           ''GST tax liability for booking '' b p) @
         line_if (secDeposit > 0) (booking_line CUSTOMER_DEPOSIT_ESCROW (Some (bk_customerId b)) LedgerEntrySide.CREDIT secDeposit
           ''Security deposit held in escrow for booking '' b p))"

definition recordPaymentLedgerJournal ::
  "'g pay_env \<Rightarrow> time \<Rightarrow> string \<Rightarrow> Booking \<Rightarrow> Payment \<Rightarrow> rat \<Rightarrow> rat \<Rightarrow> rat \<Rightarrow> bool \<Rightarrow> bk_db \<Rightarrow> bk_db result" where
  "recordPaymentLedgerJournal env now jid b p expected gateway wallet full db =
     (if py_ledger env
      then bindR (recordJournal dec20 round2 now jid
                   (booking_journal ''BOOKING_PAYMENT_VERIFIED'' (''Payment verification financial journal for booking '' @ bk_id b)
                     ''jrn_pay_verify_'' b p
                     (payment_lines b p (deposit_amount (find_deposit (bk_id b) db)) expected gateway wallet full)) (db_ledger db))
             (\<lambda>(_, L). Inr (db\<lparr>db_ledger := L\<rparr>))
      else Inr db)"

definition use_coupon :: "Booking \<Rightarrow> bk_db \<Rightarrow> bk_db result" where
  "use_coupon b db =
     (if str_truthy (bk_couponId b) \<and> \<not> exists_where (\<lambda>u. cu_bookingId u = bk_id b) (db_couponUsages db)
      then let cid = the (bk_couponId b)
           in case List.find (\<lambda>c. co_id c = cid) (db_coupons db) of
                None \<Rightarrow> Inl (BadRequestException ''Coupon is no longer available.'')
              | Some c \<Rightarrow>
                  throw_if (\<not> co_isActive c) (BadRequestException ''Coupon is no longer available.'')
                  (throw_if (case co_globalUsageLimit c of None \<Rightarrow> False | Some n \<Rightarrow> co_usageCount c \<ge> n)
                    (BadRequestException ''Coupon global usage limit reached.'')
                  (throw_if (count_where (\<lambda>u. cu_couponId u = cid \<and> cu_customerId u = bk_customerId b) (db_couponUsages db)
                      \<ge> (case co_perCustomerLimit c of None \<Rightarrow> 1 | Some n \<Rightarrow> n))
                    (BadRequestException ''You have reached the maximum redemptions for this coupon.'')
                  (case bk_discountAmount b of
                     None \<Rightarrow> Inl (PrismaError ''Validation'')
                   | Some d \<Rightarrow>
                       Inr (db\<lparr>db_coupons := update_where (\<lambda>k. co_id k = cid) (\<lambda>k. k\<lparr>co_usageCount := co_usageCount k + 1\<rparr>) (db_coupons db),
                               db_couponUsages := db_couponUsages db @
                                 [\<lparr>cu_couponId = cid, cu_customerId = bk_customerId b, cu_bookingId = bk_id b,
                                   cu_discountAmount = d\<rparr>]\<rparr>))))
      else Inr db)"

record verify_ids =
  vi_wallet :: id
  vi_journal :: string

definition resolved_payment_id :: "time \<Rightarrow> VerifyPaymentDto \<Rightarrow> string" where
  "resolved_payment_id now dto =
     (if vp_razorpayPaymentId dto \<noteq> [] then vp_razorpayPaymentId dto
      else if starts_with (vp_razorpayOrderId dto) WALLET_ORDER then ''pay_wallet_'' @ vp_bookingId dto
      else ''pay_mock_'' @ show_nat (nat now))"

text \<open>The transaction: the wallet's part, the payment's status, the deposit, the journal and the coupon.\<close>

definition commit_payment ::
  "'g pay_env \<Rightarrow> time \<Rightarrow> verify_ids \<Rightarrow> Booking \<Rightarrow> Payment \<Rightarrow> VerifyPaymentDto \<Rightarrow> id \<Rightarrow> rat \<Rightarrow> rat \<Rightarrow> rat \<Rightarrow> bk_db \<Rightarrow> bk_db result" where
  "commit_payment env now ids b p dto customerId expected gateway wallet db =
     (let full = starts_with (vp_razorpayOrderId dto) WALLET_ORDER; paymentId = resolved_payment_id now dto
      in bindR (settle_wallet env now (vi_wallet ids) b wallet full db) (\<lambda>db1.
         bindR (assertValidTransition (Some (pm_status p)) PaymentStatus.PAID) (\<lambda>_.
         bindR (update_payment (p\<lparr>pm_status := PaymentStatus.PAID, pm_razorpayPaymentId := Some paymentId\<rparr>) db1) (\<lambda>db2.
         let db3 = hold_deposit now paymentId (bk_id b)
               (recordPaymentAuditLog
                 (audit_event p ''PAYMENT_VERIFIED'' (Some (pm_status p)) PaymentStatus.PAID (Some expected) (Some paymentId)
                   (Some customerId) (Some ''CUSTOMER'') ''CUSTOMER'') db2)
         in bindR (recordPaymentLedgerJournal env now (vi_journal ids) b p expected gateway wallet full db3) (use_coupon b)))))"

definition verifyPayment ::
  "'g pay_env \<Rightarrow> time \<Rightarrow> verify_ids \<Rightarrow> VerifyPaymentDto \<Rightarrow> id \<Rightarrow> bk_db \<Rightarrow> verify_result result \<times> bk_db" where
  "verifyPayment env now ids dto customerId db =
     (case verify_checks dto customerId db of
        Inl e \<Rightarrow> (Inl e, db)
      | Inr (b, p) \<Rightarrow>
          (case settled_answer dto p of
             Some answer \<Rightarrow> (answer, db)
           | None \<Rightarrow>
               (case paid_amounts env dto p (payable b db) db of
                  (Inl e, db1) \<Rightarrow> (Inl e, db1)
                | (Inr (gateway, wallet), db1) \<Rightarrow>
                    (case commit_payment env now ids b p dto customerId (payable b db) gateway wallet db1 of
                       Inl e \<Rightarrow> (Inl e, db1)
                     | Inr db2 \<Rightarrow> (Inr \<lparr>vr_paymentId = pm_id p, vr_alreadyPaid = False\<rparr>, db2)))))"

section \<open>Reading a payment\<close>

definition is_staff :: "Role \<Rightarrow> bool" where
  "is_staff role \<longleftrightarrow> role = Role.ADMIN \<or> role = Role.SUPPORT_AGENT"

definition getPaymentByBookingId :: "id \<Rightarrow> id \<Rightarrow> Role \<Rightarrow> bk_db \<Rightarrow> (Payment \<times> int \<times> PaymentRefund list) option result" where
  "getPaymentByBookingId bid userId role db =
     (case find_booking bid db of
        None \<Rightarrow> Inl (NotFoundException ''Booking not found.'')
      | Some b \<Rightarrow>
          throw_if (\<not> is_staff role \<and> bk_customerId b \<noteq> userId)
            (ForbiddenException ''Access denied: You are not authorized to view this payment.'')
          (Inr (map_option (\<lambda>p. (p, in_paise (pm_amount p), rev (filter (\<lambda>r. rf_paymentId r = pm_id p) (db_refunds db))))
                  (find_payment bid db))))"

definition getPaymentAuditLogs :: "id \<Rightarrow> Role \<Rightarrow> bk_db \<Rightarrow> PaymentAuditLog list result" where
  "getPaymentAuditLogs bid role db =
     throw_if (\<not> is_staff role)
       (ForbiddenException ''Access denied: Only administrators and support agents can view financial audit logs.'')
     (case find_payment bid db of
        None \<Rightarrow> Inl (NotFoundException ''No payment found for this booking.'')
      | Some p \<Rightarrow> Inr (rev (filter (\<lambda>a. pa_paymentId a = pm_id p) (db_paymentAudit db))))"

end
