(* ===== verification/Refunds.thy ===== *)
theory Refunds
  imports Payments
begin

text \<open>
  Paying back (\<open>payments/payments.service.ts\<close>, lines 1473 to 1862): the allocation of a refund to the
  gateway and the wallet, the idempotent gateway call, the rows it leaves, and the administrator's
  refund. The gateway's own state \<open>'g\<close> is threaded through, so a call that pays out and is followed
  by an error is visible.
\<close>

record refund_result =
  rr_refundId :: "string option"
  rr_refundAmount :: rat
  rr_refundStatus :: RefundStatus
  rr_isDuplicate :: bool

record refund_request =
  rq_bookingId :: id
  rq_paise :: int
  rq_reason :: "string option"
  rq_tier :: "string option"
  rq_key :: "string option"
  rq_userId :: "id option"

record refund_ids =
  ri_wallet :: id
  ri_random :: string

definition refund_key :: "refund_request \<Rightarrow> Payment \<Rightarrow> string" where
  "refund_key rq p = or_string (rq_key rq) (''refund_'' @ rq_bookingId rq @ ''_'' @ pm_id p)"

text \<open>What the customer paid from the wallet, and the refund's two parts: the gateway first.\<close>

definition wallet_paid :: "id \<Rightarrow> bk_db \<Rightarrow> rat" where
  "wallet_paid bid db =
     sum_where (\<lambda>e. we_referenceType e = ''BOOKING'' \<and> we_referenceId e = Some bid \<and> we_type e = CHECKOUT_DEBIT) we_amount
       (wd_entries (db_wallet db))"

definition refund_split :: "rat \<Rightarrow> rat \<Rightarrow> rat \<Rightarrow> rat \<times> rat" where
  "refund_split amount walletPaid rupees =
     (let gateway = min rupees (dec20 (amount - walletPaid)) in (gateway, dec20 (rupees - gateway)))"

definition refund_status_of :: "string \<Rightarrow> RefundStatus" where
  "refund_status_of s =
     (if s = ''pending'' then RefundStatus.PENDING else if s = ''failed'' then RefundStatus.FAILED else PROCESSED)"

definition refund_failed :: exn where
  "refund_failed = BadRequestException ''Failed to initiate refund with Razorpay''"

definition gateway_refund ::
  "'g pay_env \<Rightarrow> string \<Rightarrow> Payment \<Rightarrow> int \<Rightarrow> string \<Rightarrow> 'g \<Rightarrow> (string \<times> RefundStatus) result \<times> 'g" where
  "gateway_refund env random p paise key g =
     (if py_useMock env then (Inr (''rfnd_mock_'' @ random, PROCESSED), g)
      else if \<not> str_truthy (pm_razorpayPaymentId p)
      then (Inl (BadRequestException ''Cannot refund a gateway payment without a Razorpay payment ID''), g)
      else let payId = the (pm_razorpayPaymentId p)
           in case py_refund env payId paise key g of
                (Inr (rid, s), g1) \<Rightarrow> (Inr (rid, refund_status_of s), g1)
              | (Inl msg, g1) \<Rightarrow>
                  (if contains_str ''already'' (to_lower msg)
                   then case py_refunds env payId g1 of
                          Inl e \<Rightarrow> (Inl e, g1)
                        | Inr [] \<Rightarrow> (Inl refund_failed, g1)
                        | Inr ((rid, s) # _) \<Rightarrow> (Inr (rid, refund_status_of s), g1)
                   else (Inl refund_failed, g1)))"

definition last_chars :: "nat \<Rightarrow> string \<Rightarrow> string" where
  "last_chars n s = drop (length s - n) s"

definition refund_wallet ::
  "'g pay_env \<Rightarrow> time \<Rightarrow> id \<Rightarrow> refund_request \<Rightarrow> Payment \<Rightarrow> rat \<Rightarrow> bk_db \<Rightarrow> unit result \<times> bk_db" where
  "refund_wallet env now newId rq p amount db =
     (if amount > 0 \<and> py_wallets env
      then case find_booking (rq_bookingId rq) db of
             None \<Rightarrow> (Inr (), db)
           | Some b \<Rightarrow>
               if bk_customerId b = [] then (Inr (), db)
               else let (w, wd) = getOrCreateWallet newId (bk_customerId b) (db_wallet db)
                    in (case creditWallet round2 (py_config env) now (w_id w) amount BOOKING_REFUND REFUND_CREDIT ''BOOKING''
                               (Some (rq_bookingId rq)) (''refund_wallet_'' @ rq_bookingId rq @ ''_'' @ pm_id p)
                               (''Refund for cancelled booking '' @ rq_bookingId rq @ '' ('' @ or_string (rq_tier rq) ''N/A'' @ '')'') None wd of
                          Inl e \<Rightarrow> (Inl e, db\<lparr>db_wallet := wd\<rparr>)
                        | Inr (_, wd1) \<Rightarrow> (Inr (), db\<lparr>db_wallet := wd1\<rparr>))
      else (Inr (), db))"

text \<open>The row of the refund, whose errors are only logged: the key and the gateway's id are unique.\<close>

definition store_refund :: "PaymentRefund \<Rightarrow> bk_db \<Rightarrow> bk_db" where
  "store_refund r db =
     (if exists_where (\<lambda>q. rf_idempotencyKey q = rf_idempotencyKey r \<or> same_id (rf_gatewayRefundId q) (rf_gatewayRefundId r)) (db_refunds db)
      then db else db\<lparr>db_refunds := db_refunds db @ [r]\<rparr>)"

definition refund_rows ::
  "refund_request \<Rightarrow> Payment \<Rightarrow> rat \<Rightarrow> string \<Rightarrow> RefundStatus \<Rightarrow> bk_db \<Rightarrow> refund_result result \<times> bk_db" where
  "refund_rows rq p rupees rid s db =
     (let after = (if s = PROCESSED then PaymentStatus.REFUNDED else PaymentStatus.PAID)
      in case update_payment (p\<lparr>pm_status := after, pm_razorpayRefundId := Some rid, pm_refundAmount := Some rupees,
                               pm_refundStatus := s\<rparr>) db of
           Inl e \<Rightarrow> (Inl e, db)
         | Inr db1 \<Rightarrow>
             (Inr \<lparr>rr_refundId = Some rid, rr_refundAmount = rupees, rr_refundStatus = s, rr_isDuplicate = False\<rparr>,
              store_refund
                \<lparr>rf_paymentId = pm_id p, rf_bookingId = rq_bookingId rq, rf_idempotencyKey = refund_key rq p,
                 rf_requestedAmount = rupees, rf_status = s, rf_gatewayRefundId = Some rid,
                 rf_processedAmount = (if s = PROCESSED then Some rupees else None), rf_failureReason = None,
                 rf_reason = or_string (rq_reason rq) ''Booking cancellation''\<rparr>
                (recordPaymentAuditLog
                  (audit_event p (if s = PROCESSED then ''REFUND_PROCESSED'' else ''REFUND_INITIATED'') (Some (pm_status p))
                    (if s = PROCESSED then PaymentStatus.REFUNDED else pm_status p) (Some rupees) (Some rid) (or_str (rq_userId rq) None)
                    None (if str_truthy (rq_userId rq) then ''ADMIN'' else ''SYSTEM'')) db1)))"

text \<open>The refund of a paid payment, once the request is in range and its key is new.\<close>

definition execute_refund ::
  "'g pay_env \<Rightarrow> time \<Rightarrow> refund_ids \<Rightarrow> refund_request \<Rightarrow> Payment \<Rightarrow> rat \<Rightarrow> rat \<times> rat \<Rightarrow> bk_db \<times> 'g \<Rightarrow>
   refund_result result \<times> bk_db \<times> 'g" where
  "execute_refund env now ids rq p rupees parts st =
     (let (db, g) = st; (gateway, wallet) = parts; paise = in_paise gateway
      in case (if paise > 0 then gateway_refund env (ri_random ids) p paise (refund_key rq p) g
               else (Inr (''rfnd_wlt_'' @ last_chars 8 (rq_bookingId rq), PROCESSED), g)) of
           (Inl e, g1) \<Rightarrow> (Inl e, db, g1)
         | (Inr (rid, s), g1) \<Rightarrow>
             (case refund_wallet env now (ri_wallet ids) rq p wallet db of
                (Inl e, db1) \<Rightarrow> (Inl e, db1, g1)
              | (Inr _, db1) \<Rightarrow>
                  (case refund_rows rq p rupees rid s db1 of (res, db2) \<Rightarrow> (res, db2, g1))))"

definition no_refund :: "refund_result" where
  "no_refund = \<lparr>rr_refundId = None, rr_refundAmount = 0, rr_refundStatus = RefundStatus.NONE, rr_isDuplicate = False\<rparr>"

definition refund ::
  "'g pay_env \<Rightarrow> time \<Rightarrow> refund_ids \<Rightarrow> refund_request \<Rightarrow> bk_db \<times> 'g \<Rightarrow> refund_result result \<times> bk_db \<times> 'g" where
  "refund env now ids rq st =
     (let (db, g) = st
      in case find_payment (rq_bookingId rq) db of
           None \<Rightarrow> (Inr no_refund, st)
         | Some p \<Rightarrow>
             if pm_status p \<noteq> PaymentStatus.PAID
             then (Inr \<lparr>rr_refundId = or_str (pm_razorpayRefundId p) None,
                        rr_refundAmount = (case pm_refundAmount p of Some x \<Rightarrow> x | None \<Rightarrow> 0),
                        rr_refundStatus = pm_refundStatus p, rr_isDuplicate = False\<rparr>, st)
             else if rq_paise rq \<le> 0
             then (case update_payment (p\<lparr>pm_refundAmount := Some 0, pm_refundStatus := RefundStatus.NONE\<rparr>) db of
                     Inl e \<Rightarrow> (Inl e, st)
                   | Inr db1 \<Rightarrow> (Inr no_refund, db1, g))
             else if rq_paise rq > in_paise (pm_amount p)
             then (Inl (BadRequestException ''Refund amount cannot exceed payment amount.''), st)
             else let rupees = refund_rupees (rq_paise rq);
                      parts = refund_split (pm_amount p) (wallet_paid (rq_bookingId rq) db) rupees
                  in case List.find (\<lambda>r. rf_idempotencyKey r = refund_key rq p) (db_refunds db) of
                       Some r \<Rightarrow>
                         (Inr \<lparr>rr_refundId = rf_gatewayRefundId r,
                               rr_refundAmount = (case rf_processedAmount r of Some x \<Rightarrow> x | None \<Rightarrow> rf_requestedAmount r),
                               rr_refundStatus = rf_status r, rr_isDuplicate = True\<rparr>, st)
                     | None \<Rightarrow> execute_refund env now ids rq p rupees parts st)"

section \<open>The administrator's refund\<close>

record AdminRefundDto =
  ar_amountInPaise :: "int option"
  ar_reason :: string
  ar_idempotencyKey :: "string option"

definition admin_refund_paise :: "AdminRefundDto \<Rightarrow> Role \<Rightarrow> Payment option \<Rightarrow> (Payment \<times> int) result" where
  "admin_refund_paise dto role payment =
     throw_if (role \<noteq> Role.ADMIN) (ForbiddenException ''Only administrators can issue manual refunds.'')
     (case payment of
        None \<Rightarrow> Inl (NotFoundException ''Payment not found for booking.'')
      | Some p \<Rightarrow>
          let refundable = dec20 (pm_amount p - (case pm_refundAmount p of Some x \<Rightarrow> x | None \<Rightarrow> 0));
              maxPaise = in_paise refundable;
              paise = (case ar_amountInPaise dto of Some n \<Rightarrow> if n \<noteq> 0 then n else maxPaise | None \<Rightarrow> maxPaise)
          in throw_if (pm_status p \<notin> {PaymentStatus.PAID, PaymentStatus.REFUNDED, PaymentStatus.PARTIALLY_REFUNDED})
               (BadRequestException ''Cannot refund payment in this status.'')
             (throw_if (refundable \<le> 0) (BadRequestException ''Payment has already been fully refunded.'')
             (throw_if (paise > maxPaise) (BadRequestException ''Requested refund amount exceeds remaining refundable amount.'')
             (Inr (p, paise)))))"

definition adminRefund ::
  "'g pay_env \<Rightarrow> time \<Rightarrow> refund_ids \<Rightarrow> id \<Rightarrow> AdminRefundDto \<Rightarrow> id \<Rightarrow> Role \<Rightarrow> bk_db \<times> 'g \<Rightarrow>
   refund_result result \<times> bk_db \<times> 'g" where
  "adminRefund env now ids bid dto userId role st =
     (case admin_refund_paise dto role (find_payment bid (fst st)) of
        Inl e \<Rightarrow> (Inl e, st)
      | Inr (p, paise) \<Rightarrow>
          (case refund env now ids
                  \<lparr>rq_bookingId = bid, rq_paise = paise, rq_reason = Some (ar_reason dto),
                   rq_tier = Some ''ADMIN_MANUAL_OVERRIDE'',
                   rq_key = Some (or_string (ar_idempotencyKey dto)
                     (''admin_rfnd_'' @ bid @ ''_'' @ show_nat (nat paise) @ ''_'' @ show_nat (nat now))),
                   rq_userId = Some userId\<rparr> st of
             (Inl e, st1) \<Rightarrow> (Inl e, st1)
           | (Inr r, (db1, g1)) \<Rightarrow>
               (Inr r,
                (if py_auditLog env
                 then db1\<lparr>db_audit := db_audit db1 @ [(userId, ''ADMIN_PAYMENT_REFUND'', ''Payment'', pm_id p)]\<rparr>
                 else db1), g1)))"

end
