(* ===== verification/Lifecycle.thy ===== *)
theory Lifecycle
  imports Refunds HandoverOtps Outbox Locks
begin

text \<open>
  The booking life cycle (\<open>bookings/booking-lifecycle.service.ts\<close>): authorization, the transition
  matrix, the preconditions of each target status, the transaction of a transition, what follows its
  commit, and the handler that runs them under the booking's lock. A handler runs on one clock
  reading and threads the gateway's state \<open>'g\<close>, which only the refund changes. Parameters
  (\<open>services\<close>): bcrypt, the eligibility service, the configuration service, the commission rules,
  whether the ledger service is configured, and those of the payments service. Cache
  invalidation and the referral and loyalty hooks, which run detached, are left out; the dispatch of the outbox
  event is the separate operation of theory \<open>Outbox\<close>.
\<close>

section \<open>Data\<close>

record BookingTransitionContext =
  tc_bookingId :: id
  tc_actorId :: id
  tc_actorRole :: actor
  tc_targetStatus :: BookingStatus
  tc_reason :: "string option"
  tc_handoverOtp :: "string option"

record BookingTransitionResult =
  tr_outboxEventId :: id
  tr_correlationId :: string
  tr_previousStatus :: BookingStatus
  tr_newStatus :: BookingStatus

record 'g services =
  sv_compare :: "string \<Rightarrow> string \<Rightarrow> bool"
  sv_eligibility :: "(id \<Rightarrow> bool \<times> string) option"
  sv_early :: "int option result option"
  sv_matrix :: "CancellationMatrixConfig option result option"
  sv_commission :: "MarketplaceCommissionRule list option"
  sv_ledger :: bool
  sv_pay :: "'g pay_env"

text \<open>The ids drawn during one request.\<close>

record fresh_ids =
  fi_journal1 :: string
  fi_journal2 :: string
  fi_event :: id
  fi_block :: id
  fi_refund :: refund_ids

text \<open>The booking with the relations the handler includes; foreign keys make the car exist.\<close>

record view =
  vw_booking :: Booking
  vw_payment :: "Payment option"
  vw_deposit :: "SecurityDeposit option"
  vw_car :: Car

definition load_view :: "id \<Rightarrow> bk_db \<Rightarrow> view option" where
  "load_view bid db =
     (case find_booking bid db of
        None \<Rightarrow> None
      | Some b \<Rightarrow>
          (case find_car (bk_carId b) db of
             None \<Rightarrow> None
           | Some c \<Rightarrow> Some \<lparr>vw_booking = b, vw_payment = find_payment bid db, vw_deposit = find_deposit bid db, vw_car = c\<rparr>))"

definition is_admin :: "actor \<Rightarrow> bool" where
  "is_admin role \<longleftrightarrow> role = User Role.ADMIN \<or> role = SYSTEM"

definition short_reason :: "string option \<Rightarrow> bool" where
  "short_reason reason \<longleftrightarrow> (case reason of None \<Rightarrow> True | Some r \<Rightarrow> length (trim r) < 10)"

section \<open>Authorization and the transition matrix\<close>

definition validateAuthorization :: "Booking \<Rightarrow> id \<Rightarrow> actor \<Rightarrow> BookingStatus \<Rightarrow> unit result" where
  "validateAuthorization b actorId role target =
     (if is_admin role then Inr ()
      else let isCustomer = (bk_customerId b = actorId); isVendor = (bk_vendorUserId b = actorId)
      in if \<not> isCustomer \<and> \<not> isVendor
         then Inl (ForbiddenException ''Access denied: You are not authorized to perform actions on this booking.'')
         else if role = User Role.CUSTOMER \<and> \<not> isCustomer
         then Inl (ForbiddenException ''You can only perform actions on your own bookings.'')
         else if role = User Role.CUSTOMER \<and> target \<noteq> BookingStatus.CANCELLED \<and> target \<noteq> BookingStatus.RETURN_PENDING
         then Inl (ForbiddenException (''Customers are not permitted to transition bookings to '' @ show_status target @ ''.''))
         else if role = User Role.VENDOR \<and> \<not> isVendor
         then Inl (ForbiddenException ''You can only transition bookings for your own fleet.'')
         else if role = User Role.VENDOR \<and> target = BookingStatus.REFUNDED
         then Inl (ForbiddenException ''Vendors cannot directly transition bookings to REFUNDED.'')
         else Inr ())"

fun allowed_targets :: "BookingStatus \<Rightarrow> BookingStatus list" where
  "allowed_targets BookingStatus.PENDING = [BookingStatus.CONFIRMED, BookingStatus.CANCELLED, BookingStatus.EXPIRED]"
| "allowed_targets BookingStatus.CONFIRMED =
     [BookingStatus.HANDOVER_READY, BookingStatus.ONGOING, BookingStatus.CANCELLED, BookingStatus.REFUND_PENDING]"
| "allowed_targets BookingStatus.HANDOVER_READY = [BookingStatus.ONGOING, BookingStatus.CANCELLED]"
| "allowed_targets BookingStatus.ONGOING = [BookingStatus.RETURN_PENDING, BookingStatus.COMPLETED]"
| "allowed_targets BookingStatus.RETURN_PENDING = [BookingStatus.COMPLETED, BookingStatus.DISPUTED]"
| "allowed_targets BookingStatus.REFUND_PENDING = [BookingStatus.REFUNDED, BookingStatus.DISPUTED]"
| "allowed_targets BookingStatus.DISPUTED = [BookingStatus.COMPLETED, BookingStatus.REFUND_PENDING, BookingStatus.REFUNDED]"
| "allowed_targets BookingStatus.COMPLETED = []"
| "allowed_targets BookingStatus.REFUNDED = []"
| "allowed_targets BookingStatus.CANCELLED = []"
| "allowed_targets BookingStatus.EXPIRED = []"

definition validateStateTransition :: "BookingStatus \<Rightarrow> BookingStatus \<Rightarrow> unit result" where
  "validateStateTransition current target =
     (if target \<in> set (allowed_targets current) then Inr ()
      else Inl (BadRequestException (''Invalid lifecycle transition: Cannot move booking from '' @ show_status current @
        '' to '' @ show_status target @ ''.'')))"

section \<open>Preconditions\<close>

definition overlapping_block :: "Booking \<Rightarrow> bk_db \<Rightarrow> VehicleBlock option" where
  "overlapping_block b db =
     List.find (\<lambda>k. vb_carId k = bk_carId b \<and> vb_startDate k < bk_endDate b \<and> vb_endDate k > bk_startDate b) (db_blocks db)"

definition holds_car :: "BookingStatus \<Rightarrow> bool" where
  "holds_car s \<longleftrightarrow>
     s \<in> {BookingStatus.CONFIRMED, BookingStatus.HANDOVER_READY, BookingStatus.ONGOING, BookingStatus.RETURN_PENDING}"

definition overlaps :: "Booking \<Rightarrow> Booking \<Rightarrow> bool" where
  "overlaps b r \<longleftrightarrow> bk_carId r = bk_carId b \<and> bk_startDate r < bk_endDate b \<and> bk_endDate r > bk_startDate b"

definition overlapping_booking :: "Booking \<Rightarrow> bk_db \<Rightarrow> Booking option" where
  "overlapping_booking b db =
     List.find (\<lambda>r. bk_id r \<noteq> bk_id b \<and> holds_car (bk_status r) \<and> overlaps b r) (db_bookings db)"

definition finalized :: "id \<Rightarrow> InspectionType \<Rightarrow> bk_db \<Rightarrow> bool" where
  "finalized bid type db = (case find_inspection bid type db of None \<Rightarrow> False | Some i \<Rightarrow> in_finalized i)"

definition is_paid :: "view \<Rightarrow> bool" where
  "is_paid v = (case vw_payment v of None \<Rightarrow> False | Some p \<Rightarrow> pm_status p = PAID)"

definition confirm_check :: "view \<Rightarrow> actor \<Rightarrow> string option \<Rightarrow> bk_db \<Rightarrow> unit result" where
  "confirm_check v role reason db =
     (let b = vw_booking v in
      throw_if (car_operationalStatus (vw_car v) \<noteq> VehicleOperationalStatus.ACTIVE)
        (ConflictException ''Cannot confirm booking: Vehicle must be ACTIVE.'')
      (throw_if (car_verificationStatus (vw_car v) \<noteq> VehicleVerificationStatus.VERIFIED)
        (ConflictException ''Cannot confirm booking: Vehicle must be VERIFIED.'')
      (throw_if (overlapping_block b db \<noteq> None)
        (ConflictException ''Cannot confirm booking: Vehicle has an operational block during this reservation period.'')
      (throw_if (overlapping_booking b db \<noteq> None)
        (ConflictException ''Cannot confirm booking: Vehicle is already reserved or rented for overlapping dates.'')
      (throw_if (\<not> is_paid v \<and> \<not> is_admin role)
        (BadRequestException ''Cannot confirm booking: Payment has not been captured.'')
      (throw_if (\<not> is_paid v \<and> short_reason reason)
        (BadRequestException ''Admin confirmation of an unpaid booking requires an explicit justification (minimum 10 characters).'')
      (Inr ())))))))"

definition handover_check :: "view \<Rightarrow> bk_db \<Rightarrow> unit result" where
  "handover_check v db =
     throw_if (car_operationalStatus (vw_car v) \<noteq> VehicleOperationalStatus.ACTIVE)
       (ConflictException ''Cannot mark ready for handover: Vehicle must be ACTIVE.'')
     (throw_if (\<not> finalized (bk_id (vw_booking v)) PRE_TRIP db)
       (BadRequestException ''Cannot mark ready for handover: Pre-trip vehicle inspection must be recorded and finalized first.'')
     (Inr ()))"

text \<open>Minutes before the start from which a pickup is allowed: 30 unless the configuration says otherwise.\<close>

definition allow_early :: "'g services \<Rightarrow> int" where
  "allow_early sv = (case sv_early sv of Some (Inr (Some m)) \<Rightarrow> m | _ \<Rightarrow> 30)"

definition start_check :: "'g services \<Rightarrow> time \<Rightarrow> view \<Rightarrow> actor \<Rightarrow> bk_db \<Rightarrow> unit result" where
  "start_check sv now v role db =
     (let b = vw_booking v; admin = is_admin role in
      throw_if (car_operationalStatus (vw_car v) \<noteq> VehicleOperationalStatus.ACTIVE)
        (ConflictException ''Cannot start trip: Vehicle must be ACTIVE.'')
      (throw_if (car_verificationStatus (vw_car v) \<noteq> VehicleVerificationStatus.VERIFIED)
        (ConflictException ''Cannot start trip: Vehicle must be VERIFIED.'')
      (throw_if (case sv_eligibility sv of None \<Rightarrow> False | Some f \<Rightarrow> \<not> fst (f (bk_carId b)))
        (ConflictException ''Cannot start trip: Vehicle has operational blockers'')
      (throw_if (case vw_deposit v of None \<Rightarrow> False | Some d \<Rightarrow> sd_status d = REQUIRED \<and> \<not> admin)
        (BadRequestException ''Cannot start trip: Mandatory customer security deposit must be held prior to pickup.'')
      (throw_if (case vw_payment v of None \<Rightarrow> False | Some p \<Rightarrow> pm_status p \<noteq> PAID \<and> \<not> admin)
        (BadRequestException ''Cannot start trip: Booking payment has not been completed.'')
      (throw_if (now < bk_startDate b - allow_early sv * 60 * 1000 \<and> \<not> admin)
        (BadRequestException ''Early pickup is not permitted before scheduled start time.'')
      (throw_if (\<not> finalized (bk_id b) PRE_TRIP db)
        (BadRequestException ''Cannot start trip: Pre-trip vehicle inspection must be recorded and finalized before vehicle handover.'')
      (Inr ()))))))))"

definition complete_check :: "view \<Rightarrow> actor \<Rightarrow> bk_db \<Rightarrow> unit result" where
  "complete_check v role db =
     throw_if (bk_disputeFlag (vw_booking v) \<and> \<not> is_admin role)
       (BadRequestException ''Cannot complete trip: Booking is flagged with an active dispute or damage claim. Resolve dispute before completion.'')
     (throw_if (\<not> finalized (bk_id (vw_booking v)) POST_TRIP db)
       (BadRequestException ''Cannot complete trip: Post-trip vehicle inspection must be recorded and finalized before completing trip.'')
     (Inr ()))"

text \<open>The code of the customer, or an administrator's justification.\<close>

definition otp_or_override ::
  "'g services \<Rightarrow> time \<Rightarrow> id \<Rightarrow> HandoverOtpType \<Rightarrow> actor \<Rightarrow> string option \<Rightarrow> string option \<Rightarrow> bk_db \<Rightarrow> unit result \<times> bk_db" where
  "otp_or_override sv now bid type role reason otp db =
     (if \<not> is_admin role
      then if \<not> str_truthy otp
           then (Inl (BadRequestException ''Customer handover OTP is required to verify the handover.''), db)
           else (case verifyOtp (sv_compare sv) now bid type (the otp) db of
                   (Inl e, db') \<Rightarrow> (Inl e, db')
                 | (Inr _, db') \<Rightarrow> (Inr (), db'))
      else if \<not> str_truthy otp \<and> short_reason reason
      then (Inl (BadRequestException ''Admin override requires explicit justification (minimum 10 characters).''), db)
      else (Inr (), db))"

definition validateBusinessPreconditions ::
  "'g services \<Rightarrow> time \<Rightarrow> view \<Rightarrow> BookingStatus \<Rightarrow> actor \<Rightarrow> string option \<Rightarrow> string option \<Rightarrow> bk_db \<Rightarrow> unit result \<times> bk_db" where
  "validateBusinessPreconditions sv now v target role reason otp db =
     (let bid = bk_id (vw_booking v) in
      if target = BookingStatus.CONFIRMED then (confirm_check v role reason db, db)
      else if target = BookingStatus.HANDOVER_READY then (handover_check v db, db)
      else if target = BookingStatus.ONGOING
      then (case start_check sv now v role db of
              Inl e \<Rightarrow> (Inl e, db)
            | Inr _ \<Rightarrow> otp_or_override sv now bid PICKUP role reason otp db)
      else if target = BookingStatus.COMPLETED
      then (case complete_check v role db of
              Inl e \<Rightarrow> (Inl e, db)
            | Inr _ \<Rightarrow> otp_or_override sv now bid RETURN role reason otp db)
      else (Inr (), db))"

definition resolveEventType :: "BookingStatus \<Rightarrow> string" where
  "resolveEventType s =
     (case s of
        BookingStatus.CONFIRMED \<Rightarrow> ''BOOKING_CONFIRMED''
      | BookingStatus.CANCELLED \<Rightarrow> ''BOOKING_CANCELLED''
      | BookingStatus.HANDOVER_READY \<Rightarrow> ''HANDOVER_READY''
      | BookingStatus.ONGOING \<Rightarrow> ''TRIP_STARTED''
      | BookingStatus.RETURN_PENDING \<Rightarrow> ''RETURN_PENDING''
      | BookingStatus.COMPLETED \<Rightarrow> ''BOOKING_COMPLETED''
      | BookingStatus.EXPIRED \<Rightarrow> ''BOOKING_EXPIRED''
      | _ \<Rightarrow> ''BOOKING_'' @ show_status s)"

section \<open>The transaction\<close>

definition actor_as_role :: "actor \<Rightarrow> Role" where
  "actor_as_role a = (case a of User r \<Rightarrow> r | SYSTEM \<Rightarrow> Role.ADMIN)"

definition cancel_params :: "time \<Rightarrow> view \<Rightarrow> actor \<Rightarrow> string option \<Rightarrow> CalculateCancellationParams" where
  "cancel_params now v role reason =
     (let b = vw_booking v in
      \<lparr>cp_startDate = bk_startDate b, cp_cancellationTime = Some now,
       cp_amountPaid = (case vw_payment v of Some p \<Rightarrow> pm_amount p | None \<Rightarrow> bk_totalFare b),
       cp_depositAmount = Some (deposit_amount (vw_deposit v)),
       cp_actorRole = actor_as_role role,
       cp_isAdminOverride = (role = User Role.ADMIN \<and>
         (case reason of None \<Rightarrow> False | Some r \<Rightarrow> contains_str ''admin_full_refund'' r)),
       cp_isPendingConfirmation = (bk_status b = BookingStatus.PENDING),
       cp_cancellationMatrix = bk_cancellationMatrix b\<rparr>)"

definition cancellation_calc ::
  "'g services \<Rightarrow> time \<Rightarrow> view \<Rightarrow> BookingTransitionContext \<Rightarrow> CancellationCalculationResult option" where
  "cancellation_calc sv now v ctx =
     (if tc_targetStatus ctx = BookingStatus.CANCELLED
      then Some (calculateCancellationWithConfig (sv_matrix sv) now (cancel_params now v (tc_actorRole ctx) (tc_reason ctx)))
      else None)"

definition correlation_id :: "BookingStatus \<Rightarrow> id \<Rightarrow> time \<Rightarrow> string" where
  "correlation_id target bid now =
     ''evt_booking_'' @ to_lower (show_status target) @ ''_'' @ bid @ ''_'' @ show_nat (nat now)"

definition lifecycle_payload :: "view \<Rightarrow> string option \<Rightarrow> CancellationCalculationResult option \<Rightarrow> BookingLifecyclePayload" where
  "lifecycle_payload v reason calc =
     (let b = vw_booking v; c = vw_car v in
      \<lparr>pl_bookingId = bk_id b, pl_customerId = bk_customerId b, pl_customerName = bk_customerName b,
       pl_vendorId = bk_vendorId b, pl_vendorName = bk_vendorName b, pl_carId = bk_carId b,
       pl_vehicleName = car_make c @ '' '' @ car_model c, pl_registrationNumber = car_registrationNumber c,
       pl_startDate = bk_startDate b, pl_endDate = bk_endDate b, pl_totalFare = fl (bk_totalFare b),
       pl_pickupLocation = bk_pickupLocation b, pl_dropLocation = or_str (bk_dropLocation b) None,
       pl_cancellationReason = reason,
       pl_cancellationFee = map_option (\<lambda>r. fl (cr_cancellationFee r)) calc,
       pl_refundAmount = map_option (\<lambda>r. fl (cr_refundAmount r)) calc\<rparr>)"

text \<open>The columns the status update writes.\<close>

definition apply_transition ::
  "time \<Rightarrow> BookingTransitionContext \<Rightarrow> CancellationCalculationResult option \<Rightarrow> Booking \<Rightarrow> Booking" where
  "apply_transition now ctx calc b =
     (let b1 = b\<lparr>bk_status := tc_targetStatus ctx, bk_updatedAt := now\<rparr>;
          b2 = (if str_truthy (tc_reason ctx) then b1\<lparr>bk_cancellationReason := tc_reason ctx\<rparr> else b1)
      in case calc of
           None \<Rightarrow> b2
         | Some r \<Rightarrow> b2\<lparr>bk_cancellationFee := Some (cr_cancellationFee r), bk_refundAmount := Some (cr_refundAmount r),
                       bk_cancelledAt := Some now, bk_cancelledBy := Some (tc_actorId ctx)\<rparr>)"

definition update_booking :: "id \<Rightarrow> (Booking \<Rightarrow> Booking) \<Rightarrow> bk_db \<Rightarrow> bk_db" where
  "update_booking bid f db = db\<lparr>db_bookings := update_where (\<lambda>b. bk_id b = bid) f (db_bookings db)\<rparr>"

text \<open>The conditional update: P2025 when no row has this id and the status the handler read.\<close>

definition guarded_update ::
  "time \<Rightarrow> BookingTransitionContext \<Rightarrow> BookingStatus \<Rightarrow> CancellationCalculationResult option \<Rightarrow> bk_db \<Rightarrow> bk_db result" where
  "guarded_update now ctx previous calc db =
     (if exists_where (\<lambda>b. bk_id b = tc_bookingId ctx \<and> bk_status b = previous) (db_bookings db)
      then Inr (update_booking (tc_bookingId ctx) (apply_transition now ctx calc) db)
      else Inl (PrismaError ''P2025''))"

definition cancel_deposit :: "time \<Rightarrow> id \<Rightarrow> bk_db \<Rightarrow> bk_db" where
  "cancel_deposit now bid db =
     db\<lparr>db_deposits := update_where (\<lambda>d. sd_bookingId d = bid \<and> sd_status d \<in> {REQUIRED, HELD})
          (\<lambda>d. d\<lparr>sd_status := SecurityDepositStatus.CANCELLED, sd_releasedAt := Some now\<rparr>) (db_deposits db)\<rparr>"

text \<open>
  The refund row, whose \<open>paymentId\<close> references the payments table (a booking without a payment
  passes its own id there), and the journals.
\<close>

definition refund_row :: "time \<Rightarrow> view \<Rightarrow> BookingTransitionContext \<Rightarrow> rat \<Rightarrow> PaymentRefund" where
  "refund_row now v ctx rupees =
     \<lparr>rf_paymentId = (case vw_payment v of Some p \<Rightarrow> pm_id p | None \<Rightarrow> tc_bookingId ctx),
      rf_bookingId = tc_bookingId ctx,
      rf_idempotencyKey = ''rfnd_'' @ tc_bookingId ctx @ ''_'' @
        (case vw_payment v of Some p \<Rightarrow> pm_id p | None \<Rightarrow> ''pay'') @ ''_'' @ show_nat (nat now),
      rf_requestedAmount = rupees, rf_status = RefundStatus.PENDING, rf_gatewayRefundId = None,
      rf_processedAmount = None, rf_failureReason = None,
      rf_reason = or_string (tc_reason ctx) ''Booking cancellation refund''\<rparr>"

definition create_refund :: "PaymentRefund \<Rightarrow> bk_db \<Rightarrow> bk_db result" where
  "create_refund r db =
     (if exists_where (\<lambda>p. pm_id p = rf_paymentId r) (db_payments db)
      then if exists_where (\<lambda>q. rf_idempotencyKey q = rf_idempotencyKey r) (db_refunds db)
           then Inl (PrismaError ''P2002'')
           else Inr (db\<lparr>db_refunds := db_refunds db @ [r]\<rparr>)
      else Inl (PrismaError ''P2003''))"

definition refund_intent ::
  "'g services \<Rightarrow> time \<Rightarrow> fresh_ids \<Rightarrow> view \<Rightarrow> BookingTransitionContext \<Rightarrow> CancellationCalculationResult \<Rightarrow> bk_db \<Rightarrow> bk_db result" where
  "refund_intent sv now ids v ctx calc db =
     (if cr_refundAmountInPaise calc > 0
      then let rupees = refund_rupees (cr_refundAmountInPaise calc) in
           bindR (create_refund (refund_row now v ctx rupees) db) (\<lambda>db1.
             case vw_payment v of
               Some p \<Rightarrow>
                 if sv_ledger sv
                 then bindR (post_refund_journals dec20 round2 now (fi_journal1 ids) (fi_journal2 ids) (vw_booking v) p
                              (vw_deposit v) rupees (cr_tier calc) (db_ledger db1))
                        (\<lambda>L. Inr (db1\<lparr>db_ledger := L\<rparr>))
                 else Inr db1
             | None \<Rightarrow> Inr db1)
      else Inr db)"

definition vehicle_audit ::
  "view \<Rightarrow> BookingTransitionContext \<Rightarrow> string \<Rightarrow> VehicleOperationalStatus \<Rightarrow> string \<Rightarrow> bk_db \<Rightarrow> bk_db" where
  "vehicle_audit v ctx action toStatus reason db =
     db\<lparr>db_vehicleAudit := db_vehicleAudit db @
       [\<lparr>va_carId = bk_carId (vw_booking v), va_actorId = tc_actorId ctx, va_actorRole = actor_as_role (tc_actorRole ctx),
         va_action = action, va_fromStatus = car_operationalStatus (vw_car v), va_toStatus = toStatus,
         va_reason = reason\<rparr>]\<rparr>"

definition damage_words :: "string list" where
  "damage_words = [''damage'', ''scratch'', ''dent'', ''accident'', ''broken'', ''cracked'']"

definition inspection_damage :: "Inspection option \<Rightarrow> bool" where
  "inspection_damage i =
     (case i of
        None \<Rightarrow> False
      | Some p \<Rightarrow> in_damagePhotos p \<noteq> [] \<or>
          (str_truthy (in_conditionNotes p) \<and>
           list_ex (\<lambda>w. contains_str w (to_lower (the (in_conditionNotes p)))) damage_words))"

definition active_claims :: "id \<Rightarrow> bk_db \<Rightarrow> DamageClaim list" where
  "active_claims bid db =
     filter (\<lambda>c. dc_bookingId c = bid \<and> dc_status c \<notin> {DamageClaimStatus.REJECTED, SETTLED}) (db_claims db)"

definition set_car_service :: "id \<Rightarrow> VehicleOperationalStatus \<Rightarrow> bool \<Rightarrow> bk_db \<Rightarrow> bk_db" where
  "set_car_service cid s available db =
     db\<lparr>db_cars := update_where (\<lambda>c. car_id c = cid) (\<lambda>c. c\<lparr>car_operationalStatus := s, car_isAvailable := available\<rparr>) (db_cars db)\<rparr>"

text \<open>Completion: a safety hold of seven days when damage was reported, else back into service.\<close>

definition finish_rental :: "time \<Rightarrow> id \<Rightarrow> view \<Rightarrow> BookingTransitionContext \<Rightarrow> bk_db \<Rightarrow> bk_db" where
  "finish_rental now newId v ctx db =
     (let b = vw_booking v; bid = tc_bookingId ctx;
          damaged = (inspection_damage (find_inspection bid POST_TRIP db) \<or> active_claims bid db \<noteq> [])
      in if damaged
         then vehicle_audit v ctx ''POST_RENTAL_DAMAGE_HOLD'' VehicleOperationalStatus.INACTIVE
                (''Vehicle placed on safety hold due to post-trip damage reported on booking '' @ bid)
              (set_car_service (bk_carId b) VehicleOperationalStatus.INACTIVE False
                (db\<lparr>db_blocks := db_blocks db @
                  [\<lparr>vb_id = newId, vb_carId = bk_carId b, vb_vendorId = bk_vendorId b, vb_blockType = SAFETY_HOLD,
                    vb_reason = Some (''Post-rental damage inspection hold for booking '' @ bid),
                    vb_startDate = now, vb_endDate = now + 7 * 24 * 60 * 60 * 1000\<rparr>]\<rparr>))
         else vehicle_audit v ctx ''RENTAL_COMPLETED'' VehicleOperationalStatus.ACTIVE
                (''Rental completed cleanly for booking '' @ bid @ ''. Vehicle restored to active service.'')
              (set_car_service (bk_carId b) VehicleOperationalStatus.ACTIVE True db))"

definition fleet_integrity :: "time \<Rightarrow> id \<Rightarrow> view \<Rightarrow> BookingTransitionContext \<Rightarrow> bk_db \<Rightarrow> bk_db" where
  "fleet_integrity now newId v ctx db =
     (let bid = tc_bookingId ctx; same = car_operationalStatus (vw_car v) in
      case tc_targetStatus ctx of
        BookingStatus.CONFIRMED \<Rightarrow> vehicle_audit v ctx ''BOOKING_RESERVED'' same
          (or_string (tc_reason ctx) (''Booking '' @ bid @ '' confirmed and vehicle reservation established'')) db
      | BookingStatus.ONGOING \<Rightarrow> vehicle_audit v ctx ''RENTAL_STARTED'' same
          (or_string (tc_reason ctx) (''Vehicle handed over and active rental started for booking '' @ bid)) db
      | BookingStatus.COMPLETED \<Rightarrow> finish_rental now newId v ctx db
      | BookingStatus.CANCELLED \<Rightarrow> vehicle_audit v ctx ''BOOKING_CANCELLED'' same
          (or_string (tc_reason ctx) ''Booking reservation released due to cancelled'') db
      | BookingStatus.EXPIRED \<Rightarrow> vehicle_audit v ctx ''BOOKING_EXPIRED'' same
          (or_string (tc_reason ctx) ''Booking reservation released due to expired'') db
      | _ \<Rightarrow> db)"

definition set_stage :: "id \<Rightarrow> FulfillmentStage \<Rightarrow> bk_db \<Rightarrow> bk_db" where
  "set_stage bid stage db =
     db\<lparr>db_fulfillment := update_where (\<lambda>f. fu_bookingId f = bid) (\<lambda>f. f\<lparr>fu_stage := stage\<rparr>) (db_fulfillment db)\<rparr>"

definition fulfillment_sync :: "view \<Rightarrow> BookingTransitionContext \<Rightarrow> bk_db \<Rightarrow> bk_db" where
  "fulfillment_sync v ctx db =
     (let b = vw_booking v; bid = tc_bookingId ctx; target = tc_targetStatus ctx in
      if target = BookingStatus.CONFIRMED
      then let stage = (if bk_carId b \<noteq> [] then ALLOCATED else PENDING_ALLOCATION);
               branch = or_str (bk_pickupHubId b) (car_pickupHubId (vw_car v))
           in if exists_where (\<lambda>f. fu_bookingId f = bid) (db_fulfillment db)
              then db\<lparr>db_fulfillment := update_where (\<lambda>f. fu_bookingId f = bid)
                     (\<lambda>f. f\<lparr>fu_vendorId := bk_vendorId b, fu_branchId := branch,
                            fu_carId := Some (bk_carId b), fu_stage := stage\<rparr>) (db_fulfillment db)\<rparr>
              else db\<lparr>db_fulfillment := db_fulfillment db @
                     [\<lparr>fu_bookingId = bid, fu_vendorId = bk_vendorId b, fu_branchId = branch, fu_carId = Some (bk_carId b),
                       fu_stage = stage, fu_preparationNotes = None\<rparr>]\<rparr>
      else if target = BookingStatus.CANCELLED \<or> target = BookingStatus.EXPIRED
      then db\<lparr>db_fulfillment := update_where (\<lambda>f. fu_bookingId f = bid)
             (\<lambda>f. f\<lparr>fu_stage := FulfillmentStage.CANCELLED,
                    fu_preparationNotes := Some (if str_truthy (tc_reason ctx)
                      then ''Fulfillment cancelled: '' @ the (tc_reason ctx) else ''Fulfillment cancelled'')\<rparr>) (db_fulfillment db)\<rparr>
      else if target = BookingStatus.HANDOVER_READY then set_stage bid READY_FOR_PICKUP db
      else if target = BookingStatus.ONGOING then set_stage bid ACTIVE_RENTAL db
      else if target = BookingStatus.COMPLETED then set_stage bid FulfillmentStage.COMPLETED db
      else db)"

definition commission_snapshot :: "'g services \<Rightarrow> view \<Rightarrow> BookingTransitionContext \<Rightarrow> bk_db \<Rightarrow> bk_db" where
  "commission_snapshot sv v ctx db =
     (case sv_commission sv of
        Some rules \<Rightarrow>
          if tc_targetStatus ctx = BookingStatus.CONFIRMED
          then update_booking (tc_bookingId ctx)
                 (\<lambda>b. b\<lparr>bk_commissionSplit := Some (calculateCommission rules
                   \<lparr>cx_vendorId = bk_vendorId (vw_booking v), cx_branchId = or_str (bk_pickupHubId (vw_booking v)) None,
                    cx_vehicleClass = car_type (vw_car v), cx_channel = None,
                    cx_grossAmount = fl (bk_totalFare (vw_booking v)), cx_discountAmount = None, cx_subsidyAmount = None\<rparr>)\<rparr>) db
          else db
      | None \<Rightarrow> db)"

definition transition_event ::
  "time \<Rightarrow> fresh_ids \<Rightarrow> view \<Rightarrow> BookingTransitionContext \<Rightarrow> CancellationCalculationResult option \<Rightarrow> BookingOutboxEvent" where
  "transition_event now ids v ctx calc =
     \<lparr>oe_id = fi_event ids, oe_bookingId = tc_bookingId ctx, oe_eventType = resolveEventType (tc_targetStatus ctx),
      oe_tenantId = bk_vendorId (vw_booking v), oe_actorId = tc_actorId ctx, oe_actorRole = show_role (tc_actorRole ctx),
      oe_previousStatus = Some (bk_status (vw_booking v)), oe_newStatus = tc_targetStatus ctx,
      oe_correlationId = correlation_id (tc_targetStatus ctx) (tc_bookingId ctx) now,
      oe_payload = lifecycle_payload v (tc_reason ctx) calc, oe_status = OutboxStatus.PENDING, oe_retryCount = 0,
      oe_maxRetries = 3, oe_lastError = None, oe_processedAt = None, oe_createdAt = now, oe_updatedAt = now\<rparr>"

definition create_event :: "BookingOutboxEvent \<Rightarrow> bk_db \<Rightarrow> bk_db result" where
  "create_event e db =
     (if exists_where (\<lambda>r. oe_correlationId r = oe_correlationId e) (db_outbox db) then Inl (PrismaError ''P2002'')
      else Inr (db\<lparr>db_outbox := db_outbox db @ [e]\<rparr>))"

definition commit_transition ::
  "'g services \<Rightarrow> time \<Rightarrow> fresh_ids \<Rightarrow> BookingTransitionContext \<Rightarrow> view \<Rightarrow> CancellationCalculationResult option \<Rightarrow>
   bk_db \<Rightarrow> bk_db result" where
  "commit_transition sv now ids ctx v calc db =
     bindR (guarded_update now ctx (bk_status (vw_booking v)) calc db) (\<lambda>db1.
     let db2 = (if tc_targetStatus ctx = BookingStatus.CANCELLED \<and> vw_deposit v \<noteq> None
                then cancel_deposit now (tc_bookingId ctx) db1 else db1) in
     bindR (case calc of Some r \<Rightarrow> refund_intent sv now ids v ctx r db2 | None \<Rightarrow> Inr db2) (\<lambda>db3.
       create_event (transition_event now ids v ctx calc)
         (commission_snapshot sv v ctx (fulfillment_sync v ctx (fleet_integrity now (fi_block ids) v ctx db3)))))"

section \<open>The handler\<close>

text \<open>After the commit: the administrator's audit row, then the refund through the payments service.\<close>

definition audit_override :: "BookingTransitionContext \<Rightarrow> bk_db \<Rightarrow> bk_db" where
  "audit_override ctx db =
     (if tc_actorRole ctx = User Role.ADMIN
      then db\<lparr>db_audit := db_audit db @
             [(tc_actorId ctx, ''BOOKING_LIFECYCLE_'' @ show_status (tc_targetStatus ctx), ''Booking'', tc_bookingId ctx)]\<rparr>
      else db)"

definition unique_refund_ids :: "PaymentRefund list \<Rightarrow> bool" where
  "unique_refund_ids rs \<longleftrightarrow> distinct (filter (\<lambda>i. i \<noteq> None) (map rf_gatewayRefundId rs))"

definition settle_refunds :: "id \<Rightarrow> (PaymentRefund \<Rightarrow> PaymentRefund) \<Rightarrow> bk_db \<Rightarrow> bk_db result" where
  "settle_refunds bid f db =
     (let rs = update_where (\<lambda>r. rf_bookingId r = bid \<and> rf_status r = RefundStatus.PENDING) f (db_refunds db)
      in if unique_refund_ids rs then Inr (db\<lparr>db_refunds := rs\<rparr>) else Inl (PrismaError ''P2002''))"

fun exn_message :: "exn \<Rightarrow> string" where
  "exn_message (BadRequestException m) = m"
| "exn_message (NotFoundException m) = m"
| "exn_message (ForbiddenException m) = m"
| "exn_message (ConflictException m) = m"
| "exn_message (ServiceUnavailableException m) = m"
| "exn_message (HttpException n m) = m"
| "exn_message (UnbalancedJournalException d c) = ''Unbalanced journal''"
| "exn_message (PrismaError c) = c"
| "exn_message (GatewayError m) = m"

text \<open>A second error, of the update that marks the rows, leaves the handler; it changes no unique column.\<close>

definition mark_retryable :: "id \<Rightarrow> exn \<Rightarrow> bk_db \<Rightarrow> bk_db result" where
  "mark_retryable bid e db =
     settle_refunds bid
       (\<lambda>q. q\<lparr>rf_status := RETRYABLE,
              rf_failureReason := Some (if exn_message e = [] then ''Gateway refund execution error'' else exn_message e)\<rparr>) db"

definition dispatch_refund ::
  "'g services \<Rightarrow> time \<Rightarrow> fresh_ids \<Rightarrow> BookingTransitionContext \<Rightarrow> CancellationCalculationResult option \<Rightarrow> bk_db \<times> 'g \<Rightarrow>
   unit result \<times> bk_db \<times> 'g" where
  "dispatch_refund sv now ids ctx calc st =
     (let bid = tc_bookingId ctx;
          fail = (\<lambda>e (db, g). case mark_retryable bid e db of
                    Inl e' \<Rightarrow> (Inl e', db, g) | Inr db' \<Rightarrow> (Inr (), db', g))
      in case calc of
           None \<Rightarrow> (Inr (), st)
         | Some c \<Rightarrow>
             if cr_refundAmountInPaise c > 0
             then (case refund (sv_pay sv) now (fi_refund ids)
                          \<lparr>rq_bookingId = bid, rq_paise = cr_refundAmountInPaise c, rq_reason = tc_reason ctx,
                           rq_tier = (if truthy (Some (cr_tier c)) then Some (json_text (cr_tier c)) else None),
                           rq_key = None, rq_userId = None\<rparr> st of
                     (Inl e, st1) \<Rightarrow> fail e st1
                   | (Inr r, (db1, g1)) \<Rightarrow>
                       (case settle_refunds bid
                               (\<lambda>q. q\<lparr>rf_status := PROCESSED,
                                      rf_gatewayRefundId := or_str (rr_refundId r) (rf_gatewayRefundId q),
                                      rf_processedAmount := Some (rr_refundAmount r)\<rparr>) db1 of
                          Inr db2 \<Rightarrow> (Inr (), db2, g1)
                        | Inl e \<Rightarrow> fail e (db1, g1)))
             else (Inr (), st))"

text \<open>The checks of a transition, which may consume a handover code, up to the cancellation's amounts.\<close>

definition prepare_transition ::
  "'g services \<Rightarrow> time \<Rightarrow> BookingTransitionContext \<Rightarrow> view \<Rightarrow> bk_db \<Rightarrow> CancellationCalculationResult option result \<times> bk_db" where
  "prepare_transition sv now ctx v db =
     (case bindR (validateAuthorization (vw_booking v) (tc_actorId ctx) (tc_actorRole ctx) (tc_targetStatus ctx))
             (\<lambda>_. validateStateTransition (bk_status (vw_booking v)) (tc_targetStatus ctx)) of
        Inl e \<Rightarrow> (Inl e, db)
      | Inr _ \<Rightarrow>
          (case validateBusinessPreconditions sv now v (tc_targetStatus ctx) (tc_actorRole ctx) (tc_reason ctx)
                  (tc_handoverOtp ctx) db of
             (Inl e, db1) \<Rightarrow> (Inl e, db1)
           | (Inr _, db1) \<Rightarrow> (Inr (cancellation_calc sv now v ctx), db1)))"

text \<open>The latest outbox event of the booking with this status, for the idempotent answer.\<close>

definition latest_event :: "id \<Rightarrow> BookingStatus \<Rightarrow> bk_db \<Rightarrow> BookingOutboxEvent option" where
  "latest_event bid s db =
     (case sort_key (\<lambda>e. - oe_createdAt e) (filter (\<lambda>e. oe_bookingId e = bid \<and> oe_newStatus e = s) (db_outbox db)) of
        [] \<Rightarrow> None
      | e # _ \<Rightarrow> Some e)"

definition transition_body ::
  "'g services \<Rightarrow> time \<Rightarrow> fresh_ids \<Rightarrow> BookingTransitionContext \<Rightarrow> bk_db \<times> 'g \<Rightarrow>
   BookingTransitionResult result \<times> bk_db \<times> 'g" where
  "transition_body sv now ids ctx st =
     (let (db, g) = st; bid = tc_bookingId ctx; target = tc_targetStatus ctx in
      case load_view bid db of
        None \<Rightarrow> (Inl (NotFoundException (''Booking with ID '' @ bid @ '' not found.'')), st)
      | Some v \<Rightarrow>
          let previous = bk_status (vw_booking v) in
          if previous = target
          then (Inr (case latest_event bid target db of
                       Some e \<Rightarrow> \<lparr>tr_outboxEventId = oe_id e, tr_correlationId = oe_correlationId e,
                                 tr_previousStatus = previous, tr_newStatus = target\<rparr>
                     | None \<Rightarrow> \<lparr>tr_outboxEventId = ''idempotent_existing'',
                               tr_correlationId = ''idempotent_'' @ bid @ ''_'' @ show_status target,
                               tr_previousStatus = previous, tr_newStatus = target\<rparr>), st)
          else case prepare_transition sv now ctx v db of
                 (Inl e, db1) \<Rightarrow> (Inl e, db1, g)
               | (Inr calc, db1) \<Rightarrow>
                   (case commit_transition sv now ids ctx v calc db1 of
                      Inl e \<Rightarrow> (Inl e, db1, g)
                    | Inr db2 \<Rightarrow>
                        (case dispatch_refund sv now ids ctx calc (audit_override ctx db2, g) of
                           (Inl e, st3) \<Rightarrow> (Inl e, st3)
                         | (Inr _, st3) \<Rightarrow>
                             (Inr \<lparr>tr_outboxEventId = fi_event ids, tr_correlationId = correlation_id target bid now,
                                   tr_previousStatus = previous, tr_newStatus = target\<rparr>, st3))))"

definition conflict_of :: "exn \<Rightarrow> exn" where
  "conflict_of e =
     (if e = PrismaError ''P2025''
      then ConflictException ''Booking status was concurrently updated by another process. Please reload and try again.''
      else e)"

text \<open>
  The lock around it: an error in taking it is thrown as it is, an error in giving it back replaces
  the result.
\<close>

definition executeTransition ::
  "'r set_cmd \<Rightarrow> 'r get_cmd \<Rightarrow> 'r del_cmd \<Rightarrow> bool \<Rightarrow> bool \<Rightarrow> string \<Rightarrow> 'g services \<Rightarrow> time \<Rightarrow> fresh_ids \<Rightarrow>
   BookingTransitionContext \<Rightarrow> (bk_db \<times> 'g) \<times> 'r \<Rightarrow> BookingTransitionResult result \<times> (bk_db \<times> 'g) \<times> 'r" where
  "executeTransition set_nx get del online1 online2 token sv now ids ctx st =
     (let (s, r) = st; bid = tc_bookingId ctx in
      case acquireCancellationLock set_nx online1 now bid token 20000 r of
        (Inl e, r1) \<Rightarrow> (Inl e, s, r1)
      | (Inr tok, r1) \<Rightarrow>
          (case transition_body sv now ids ctx s of
             (res, s1) \<Rightarrow>
               (case (if tok \<noteq> [] then releaseCancellationLock get del online2 now bid tok r1 else (Inr True, r1)) of
                  (Inl e, r2) \<Rightarrow> (Inl e, s1, r2)
                | (Inr _, r2) \<Rightarrow>
                    ((case res of Inl e \<Rightarrow> Inl (conflict_of e) | Inr x \<Rightarrow> Inr x), s1, r2))))"

text \<open>The public operations, as the contexts they pass to \<open>executeTransition\<close>.\<close>

definition transition_to ::
  "BookingStatus \<Rightarrow> id \<Rightarrow> id \<Rightarrow> actor \<Rightarrow> string option \<Rightarrow> string option \<Rightarrow> BookingTransitionContext" where
  "transition_to target bid actorId role reason otp =
     \<lparr>tc_bookingId = bid, tc_actorId = actorId, tc_actorRole = role, tc_targetStatus = target, tc_reason = reason,
      tc_handoverOtp = otp\<rparr>"

definition confirmBooking :: "id \<Rightarrow> id \<Rightarrow> actor \<Rightarrow> string option \<Rightarrow> BookingTransitionContext result" where
  "confirmBooking bid actorId role reason = Inr (transition_to BookingStatus.CONFIRMED bid actorId role reason None)"

definition rejectBooking :: "id \<Rightarrow> id \<Rightarrow> actor \<Rightarrow> string \<Rightarrow> BookingTransitionContext result" where
  "rejectBooking bid actorId role reason =
     (if trim reason = [] then Inl (BadRequestException ''A rejection reason is mandatory.'')
      else Inr (transition_to BookingStatus.CANCELLED bid actorId role (Some (''Vendor Rejected: '' @ reason)) None))"

definition cancelBooking :: "id \<Rightarrow> id \<Rightarrow> actor \<Rightarrow> string \<Rightarrow> BookingTransitionContext result" where
  "cancelBooking bid actorId role reason =
     (if trim reason = [] then Inl (BadRequestException ''Cancellation reason is required.'')
      else Inr (transition_to BookingStatus.CANCELLED bid actorId role (Some reason) None))"

definition markReadyForHandover :: "id \<Rightarrow> id \<Rightarrow> actor \<Rightarrow> BookingTransitionContext result" where
  "markReadyForHandover bid actorId role = Inr (transition_to BookingStatus.HANDOVER_READY bid actorId role None None)"

definition startRental :: "id \<Rightarrow> id \<Rightarrow> actor \<Rightarrow> string option \<Rightarrow> string option \<Rightarrow> BookingTransitionContext result" where
  "startRental bid actorId role otp adminReason = Inr (transition_to BookingStatus.ONGOING bid actorId role adminReason otp)"

definition initiateReturn :: "id \<Rightarrow> id \<Rightarrow> actor \<Rightarrow> BookingTransitionContext result" where
  "initiateReturn bid actorId role = Inr (transition_to BookingStatus.RETURN_PENDING bid actorId role None None)"

definition completeBooking :: "id \<Rightarrow> id \<Rightarrow> actor \<Rightarrow> string option \<Rightarrow> string option \<Rightarrow> BookingTransitionContext result" where
  "completeBooking bid actorId role otp adminReason =
     Inr (transition_to BookingStatus.COMPLETED bid actorId role adminReason otp)"

definition expireBooking :: "id \<Rightarrow> string option \<Rightarrow> BookingTransitionContext result" where
  "expireBooking bid systemReason =
     Inr (transition_to BookingStatus.EXPIRED bid ''SYSTEM'' SYSTEM
       (Some (case systemReason of Some r \<Rightarrow> r | None \<Rightarrow> ''Booking expired due to unconfirmed timeout'')) None)"

end
