(* ===== verification/PaymentFacts.thy ===== *)
theory PaymentFacts
  imports Refunds
begin

text \<open>
  What a verified payment and a refund do: the amounts add up, the rows they leave, and what happens
  on the error paths between the gateway and the tables.
\<close>

section \<open>The tables\<close>

lemma find_replace:
  assumes "List.find P xs = Some p" "P p'" "k p' = k p"
  shows "List.find P (update_where (\<lambda>q. k q = k p) (\<lambda>_. p') xs) = Some p'"
  using assms by (induction xs) (auto split: if_splits)

lemma update_payment_find:
  assumes "find_payment bid db = Some p" "update_payment p' db = Inr db'" "pm_id p' = pm_id p" "pm_bookingId p' = pm_bookingId p"
  shows "find_payment bid db' = Some p'"
proof -
  have "pm_bookingId p = bid" using assms(1) unfolding find_payment_def by (auto dest: find_Some_D)
  with assms show ?thesis
    using find_replace [of "\<lambda>q. pm_bookingId q = bid" "db_payments db" p p' pm_id]
    by (auto simp: update_payment_def find_payment_def split: if_splits)
qed

lemma find_paymentD: "find_payment bid db = Some p \<Longrightarrow> p \<in> set (db_payments db) \<and> pm_bookingId p = bid"
  unfolding find_payment_def by (drule find_Some_D) simp

lemma audit_log_tables [simp]:
  "db_payments (recordPaymentAuditLog a db) = db_payments db" "db_wallet (recordPaymentAuditLog a db) = db_wallet db"
  "db_ledger (recordPaymentAuditLog a db) = db_ledger db" "db_deposits (recordPaymentAuditLog a db) = db_deposits db"
  "db_bookings (recordPaymentAuditLog a db) = db_bookings db" "db_refunds (recordPaymentAuditLog a db) = db_refunds db"
  "db_coupons (recordPaymentAuditLog a db) = db_coupons db" "db_couponUsages (recordPaymentAuditLog a db) = db_couponUsages db"
  "db_webhooks (recordPaymentAuditLog a db) = db_webhooks db"
  by (simp_all add: recordPaymentAuditLog_def)

lemma hold_deposit_tables [simp]:
  "db_payments (hold_deposit now i bid db) = db_payments db" "db_wallet (hold_deposit now i bid db) = db_wallet db"
  "db_ledger (hold_deposit now i bid db) = db_ledger db"
  by (simp_all add: hold_deposit_def split: option.split)

lemma find_update_same:
  assumes "List.find P xs = Some d" "\<And>q. k (f q) = k q" "\<And>q. P (f q) = P q"
  shows "List.find P (update_where (\<lambda>q. k q = k d) f xs) = Some (f d)"
  using assms by (induction xs) (auto split: if_splits)

lemma hold_deposit_find:
  "find_deposit bid (hold_deposit now i bid db) =
     map_option (\<lambda>d. d\<lparr>sd_status := HELD, sd_razorpayPaymentId := Some i, sd_heldAt := Some now\<rparr>) (find_deposit bid db)"
proof (cases "find_deposit bid db")
  case (Some d)
  then show ?thesis
    using find_update_same [of "\<lambda>q. sd_bookingId q = bid" "db_deposits db" d sd_id
        "\<lambda>q. q\<lparr>sd_status := HELD, sd_razorpayPaymentId := Some i, sd_heldAt := Some now\<rparr>"]
    by (simp add: hold_deposit_def find_deposit_def)
qed (simp add: hold_deposit_def)

lemma journal_tables:
  "recordPaymentLedgerJournal env now jid b p x gw wl full db = Inr db' \<Longrightarrow>
   db_payments db' = db_payments db \<and> db_wallet db' = db_wallet db"
  by (auto simp: recordPaymentLedgerJournal_def bindR_Inr_iff split: if_splits prod.splits)

lemma coupon_tables:
  "use_coupon b db = Inr db' \<Longrightarrow> db_payments db' = db_payments db \<and> db_wallet db' = db_wallet db \<and> db_ledger db' = db_ledger db"
  by (auto simp: use_coupon_def Let_def throw_if_Inr_iff split: if_splits option.splits)

section \<open>A verified payment\<close>

definition gateway_amounts_ok :: "'g pay_env \<Rightarrow> bool" where
  "gateway_amounts_ok env \<longleftrightarrow>
     (\<forall>pid rp. py_fetch env pid = Inr (Some rp) \<longrightarrow> (\<exists>n::int. rp_amount rp = of_int n \<and> 0 \<le> n \<and> n < 10 ^ 16))"

lemma payable_exact:
  assumes "booking_money b (deposit_amount (find_deposit (bk_id b) db))"
  shows "payable b db = bk_totalFare b + deposit_amount (find_deposit (bk_id b) db)"
    "is_cents (payable b db)" "0 < payable b db" "payable b db < 2000000000000000"
proof -
  note m = booking_moneyD [OF assms]
  have "dec20 (bk_totalFare b + deposit_amount (find_deposit (bk_id b) db)) = bk_totalFare b + deposit_amount (find_deposit (bk_id b) db)"
    by (rule adjusted_fee_exact(2) [OF assms])
  then show e: "payable b db = bk_totalFare b + deposit_amount (find_deposit (bk_id b) db)" by (simp add: payable_def)
  show "is_cents (payable b db)" "0 < payable b db" "payable b db < 2000000000000000"
    unfolding e using m by (auto intro: is_cents_add)
qed

text \<open>What the live gateway and the wallet pay is what the booking costs.\<close>

lemma paid_amounts_cover:
  assumes "paid_amounts env dto p expected db = (Inr (gateway, wallet), db1)"
    and "\<not> py_useMock env" "gateway_amounts_ok env" "is_cents expected" "0 < expected" "expected < 2000000000000000"
  shows "gateway + wallet = expected \<and> 0 \<le> gateway \<and> 0 \<le> wallet \<and> is_cents gateway \<and> is_cents wallet \<and> db1 = db \<and>
    (if starts_with (vp_razorpayOrderId dto) WALLET_ORDER then gateway = 0
     else py_validate env (vp_razorpayOrderId dto) (vp_razorpayPaymentId dto) (vp_razorpaySignature dto) \<and>
       (\<exists>rp. py_fetch env (vp_razorpayPaymentId dto) = Inr (Some rp) \<and> rp_status rp = ''captured'' \<and> rp_amount rp = gateway * 100))"
proof (cases "starts_with (vp_razorpayOrderId dto) WALLET_ORDER")
  case True
  with assms show ?thesis by (simp add: paid_amounts_def)
next
  case False
  let ?oid = "vp_razorpayOrderId dto" and ?pid = "vp_razorpayPaymentId dto"
  have sig: "signature_ok env dto" using assms(1) False by (auto simp: paid_amounts_def Let_def split: if_splits)
  then have v: "py_validate env ?oid ?pid (vp_razorpaySignature dto)" using assms(2) by (simp add: signature_ok_def)
  from assms(1) False sig assms(2) obtain rp where f: "py_fetch env ?pid = Inr (Some rp)"
    by (auto simp: paid_amounts_def Let_def split: sum.splits option.splits)
  have failed: "\<exists>e. captured_amounts env ?oid expected rp = Inl e" if "gateway_failed ?oid rp"
    using that by (simp add: captured_amounts_def gateway_failed_def throw_if_def)
  with assms(1) False sig assms(2) f have c: "captured_amounts env ?oid expected rp = Inr (gateway, wallet)" "db1 = db"
    by (auto simp: paid_amounts_def Let_def split: sum.splits if_splits)
  from assms(3) f obtain n :: int where n: "rp_amount rp = of_int n" "0 \<le> n" "n < 10 ^ 16" by (auto simp: gateway_amounts_ok_def)
  have "(of_int n :: rat) < of_int (10 ^ 16)" using n(3) by (simp only: of_int_less_iff)
  then have nq: "(of_int n :: rat) < 10000000000000000" by simp
  have g: "dec20 (of_int n / 100) = of_int n / 100" using n(2) nq by (intro dec20_small) auto
  have w: "dec20 (expected - of_int n / 100) = expected - of_int n / 100"
    using n(2) nq assms(4-6) by (intro dec20_small) auto
  from c(1) n(1) g w have r: "rp_status rp = ''captured''" "gateway = of_int n / 100" "wallet = expected - of_int n / 100" "0 \<le> wallet"
    by (auto simp: captured_amounts_def throw_if_Inr_iff Let_def)
  have gc: "is_cents gateway" unfolding r(2) by simp
  have wc: "is_cents wallet" unfolding r(3) using assms(4) by (auto intro: is_cents_diff)
  show ?thesis using False v f r n(1,2) c(2) gc wc by auto
qed

text \<open>The transaction: the wallet is debited once, by its part, and the payment is PAID.\<close>

lemma settle_wallet_debits:
  assumes "settle_wallet env now newId b required full db = Inr db'" "0 < required" "is_cents required"
    and "\<forall>e\<in>set (wd_entries (db_wallet db)). we_idempotencyKey e \<noteq> ''wallet_checkout_debit_'' @ bk_id b"
  shows "\<exists>(w::Wallet) e. w_userId w = bk_customerId b \<and> required \<le> w_availableBalance w \<and>
    wd_entries (db_wallet db') = wd_entries (db_wallet db) @ [e] \<and> we_walletId e = w_id w \<and> we_direction e = LedgerDirection.DEBIT \<and>
    we_type e = CHECKOUT_DEBIT \<and> we_amount e = required \<and> db_payments db' = db_payments db"
proof -
  obtain w wd where w: "getOrCreateWallet newId (bk_customerId b) (db_wallet db) = (w, wd)" by fastforce
  have u: "w_userId w = bk_customerId b" "wd_entries wd = wd_entries (db_wallet db)"
    using w by (auto simp: getOrCreateWallet_def new_wallet_def Let_def split: option.splits dest: find_Some_D)
  from assms(1,2) w obtain e wd1 where d: "debitWallet round2 (py_config env) now (w_id w) required CHECKOUT_DEBIT ''BOOKING'' (Some (bk_id b))
      (''wallet_checkout_debit_'' @ bk_id b) ((if full then ''Full wallet payment for booking '' else ''Split wallet payment for booking '') @ bk_id b) wd
      = Inr (e, wd1)" and le: "required \<le> w_availableBalance w" and db': "db' = db\<lparr>db_wallet := wd1\<rparr>"
    by (auto simp: settle_wallet_def Let_def bindR_Inr_iff split: if_splits)
  from d show ?thesis
  proof (cases rule: debitWallet_cases)
    case replay
    with assms(4) u show ?thesis by (auto dest: find_Some_D)
  next
    case (posted w' newReal newPromo bucket)
    then show ?thesis using u le db' round2_exact [OF assms(3)]
      by - (rule exI [of _ w], rule exI [of _ e], simp add: update_wallet_def)
  qed
qed

lemma settle_wallet_none: "settle_wallet env now newId b 0 full db = Inr db' \<longleftrightarrow> db' = db"
  by (auto simp: settle_wallet_def)

lemma commit_payment_Inr:
  assumes "commit_payment env now ids b p dto cust expected gateway wallet db = Inr db'"
  obtains db1 db2 db3 db4 where
    "settle_wallet env now (vi_wallet ids) b wallet (starts_with (vp_razorpayOrderId dto) WALLET_ORDER) db = Inr db1"
    "assertValidTransition (Some (pm_status p)) PaymentStatus.PAID = Inr ()"
    "update_payment (p\<lparr>pm_status := PaymentStatus.PAID, pm_razorpayPaymentId := Some (resolved_payment_id now dto)\<rparr>) db1 = Inr db2"
    "recordPaymentLedgerJournal env now (vi_journal ids) b p expected gateway wallet (starts_with (vp_razorpayOrderId dto) WALLET_ORDER) db3 = Inr db4"
    "use_coupon b db4 = Inr db'"
    "db_payments db3 = db_payments db2" "db_wallet db3 = db_wallet db2" "db_ledger db3 = db_ledger db2"
    "find_deposit (bk_id b) db3 = map_option (\<lambda>d. d\<lparr>sd_status := HELD, sd_razorpayPaymentId := Some (resolved_payment_id now dto), sd_heldAt := Some now\<rparr>)
       (find_deposit (bk_id b) db2)"
proof -
  let ?i = "resolved_payment_id now dto" and ?full = "starts_with (vp_razorpayOrderId dto) WALLET_ORDER"
  let ?log = "recordPaymentAuditLog (audit_event p ''PAYMENT_VERIFIED'' (Some (pm_status p)) PaymentStatus.PAID (Some expected)
    (Some ?i) (Some cust) (Some ''CUSTOMER'') ''CUSTOMER'')"
  from assms obtain db1 u db2 db4 where c:
    "settle_wallet env now (vi_wallet ids) b wallet ?full db = Inr db1"
    "assertValidTransition (Some (pm_status p)) PaymentStatus.PAID = Inr u"
    "update_payment (p\<lparr>pm_status := PaymentStatus.PAID, pm_razorpayPaymentId := Some ?i\<rparr>) db1 = Inr db2"
    "recordPaymentLedgerJournal env now (vi_journal ids) b p expected gateway wallet ?full (hold_deposit now ?i (bk_id b) (?log db2)) = Inr db4"
    "use_coupon b db4 = Inr db'"
    unfolding commit_payment_def Let_def bindR_Inr_iff by blast
  have "find_deposit (bk_id b) (?log db2) = find_deposit (bk_id b) db2" by (simp add: find_deposit_def)
  then have "find_deposit (bk_id b) (hold_deposit now ?i (bk_id b) (?log db2)) =
      map_option (\<lambda>d. d\<lparr>sd_status := HELD, sd_razorpayPaymentId := Some ?i, sd_heldAt := Some now\<rparr>) (find_deposit (bk_id b) db2)"
    by (simp add: hold_deposit_find)
  with c show thesis by - (rule that [OF c(1) _ c(3-5)], simp_all add: c(2))
qed

lemma verifyPayment_cases:
  assumes "verifyPayment env now ids dto cust db = (Inr r, db')" "\<not> vr_alreadyPaid r"
  obtains b p gateway wallet db1 where "find_booking (vp_bookingId dto) db = Some b" "bk_customerId b = cust"
    "find_payment (vp_bookingId dto) db = Some p" "pm_razorpayOrderId p = Some (vp_razorpayOrderId dto)"
    "pm_status p \<notin> {PaymentStatus.PAID, PaymentStatus.REFUNDED}"
    "paid_amounts env dto p (payable b db) db = (Inr (gateway, wallet), db1)"
    "commit_payment env now ids b p dto cust (payable b db) gateway wallet db1 = Inr db'" "vr_paymentId r = pm_id p"
proof -
  obtain b p where c: "verify_checks dto cust db = Inr (b, p)"
    using assms(1) by (auto simp: verifyPayment_def split: sum.splits)
  have s: "settled_answer dto p = None"
    using assms c by (cases "settled_answer dto p") (auto simp: verifyPayment_def settled_answer_def split: if_splits)
  obtain gateway wallet db1 where a: "paid_amounts env dto p (payable b db) db = (Inr (gateway, wallet), db1)"
    using assms(1) c s by (auto simp: verifyPayment_def split: sum.splits prod.splits)
  from assms(1) c s a have "commit_payment env now ids b p dto cust (payable b db) gateway wallet db1 = Inr db'" "vr_paymentId r = pm_id p"
    by (auto simp: verifyPayment_def split: sum.splits)
  moreover have "pm_status p \<notin> {PaymentStatus.PAID, PaymentStatus.REFUNDED}" using s by (auto simp: settled_answer_def split: if_splits)
  ultimately show thesis using c a that by (auto simp: verify_checks_def throw_if_Inr_iff split: option.splits)
qed

text \<open>
  C2: money for a verified payment. When the live gateway's payment is verified, what the gateway
  captured (after a valid signature, for this order, in whole paise) and what the customer's wallet was
  debited add up to the fare and the deposit; the wallet had the balance, it is debited exactly once,
  and the payment row becomes PAID.
\<close>

theorem verified_payment_is_covered:
  assumes "verifyPayment env now ids dto cust db = (Inr r, db')" and "\<not> vr_alreadyPaid r"
    and "\<not> py_useMock env" and "gateway_amounts_ok env"
    and "find_booking (vp_bookingId dto) db = Some b"
    and "booking_money b (deposit_amount (find_deposit (bk_id b) db))"
    and "\<forall>e\<in>set (wd_entries (db_wallet db)). we_idempotencyKey e \<noteq> ''wallet_checkout_debit_'' @ bk_id b"
  shows "\<exists>gateway wallet p. gateway + wallet = bk_totalFare b + deposit_amount (find_deposit (bk_id b) db) \<and>
    (if starts_with (vp_razorpayOrderId dto) WALLET_ORDER then gateway = 0
     else py_validate env (vp_razorpayOrderId dto) (vp_razorpayPaymentId dto) (vp_razorpaySignature dto) \<and>
       (\<exists>rp. py_fetch env (vp_razorpayPaymentId dto) = Inr (Some rp) \<and> rp_status rp = ''captured'' \<and> rp_amount rp = gateway * 100)) \<and>
    (if wallet = 0 then wd_entries (db_wallet db') = wd_entries (db_wallet db)
     else \<exists>(w::Wallet) e. 0 < wallet \<and> w_userId w = cust \<and> wallet \<le> w_availableBalance w \<and>
       wd_entries (db_wallet db') = wd_entries (db_wallet db) @ [e] \<and> we_walletId e = w_id w \<and>
       we_direction e = LedgerDirection.DEBIT \<and> we_type e = CHECKOUT_DEBIT \<and> we_amount e = wallet) \<and>
    find_payment (vp_bookingId dto) db' = Some p \<and> pm_status p = PaymentStatus.PAID"
proof -
  obtain p gateway wallet db1 where v: "bk_customerId b = cust" "find_payment (vp_bookingId dto) db = Some p"
    "paid_amounts env dto p (payable b db) db = (Inr (gateway, wallet), db1)"
    "commit_payment env now ids b p dto cust (payable b db) gateway wallet db1 = Inr db'"
    by (rule verifyPayment_cases [OF assms(1,2)]) (use assms(5) that in auto)
  note pe = payable_exact [OF assms(6)]
  note cover = paid_amounts_cover [OF v(3) assms(3,4) pe(2-4)]
  then have d1: "db1 = db" by simp
  let ?full = "starts_with (vp_razorpayOrderId dto) WALLET_ORDER"
  let ?p' = "p\<lparr>pm_status := PaymentStatus.PAID, pm_razorpayPaymentId := Some (resolved_payment_id now dto)\<rparr>"
  obtain db2 db3 db4 db5 where c: "settle_wallet env now (vi_wallet ids) b wallet ?full db = Inr db2"
    "update_payment ?p' db2 = Inr db3" "db_payments db5 = db_payments db3" "db_wallet db5 = db_wallet db3"
    "recordPaymentLedgerJournal env now (vi_journal ids) b p (payable b db) gateway wallet ?full db5 = Inr db4" "use_coupon b db4 = Inr db'"
    by (rule commit_payment_Inr [OF v(4) [unfolded d1]]) (rule that)
  have t: "db_payments db' = db_payments db3" "db_wallet db' = db_wallet db2"
    using coupon_tables [OF c(6)] journal_tables [OF c(5)] c(2,3,4) by (auto simp: update_payment_def split: if_splits)
  have pay: "find_payment (vp_bookingId dto) db' = Some ?p'" if "db_payments db2 = db_payments db"
    using update_payment_find [OF _ c(2), of "vp_bookingId dto" p] v(2) t(1) that by (simp add: find_payment_def)
  let ?w = "if wallet = 0 then wd_entries (db_wallet db') = wd_entries (db_wallet db)
     else \<exists>(w::Wallet) e. 0 < wallet \<and> w_userId w = cust \<and> wallet \<le> w_availableBalance w \<and>
       wd_entries (db_wallet db') = wd_entries (db_wallet db) @ [e] \<and> we_walletId e = w_id w \<and>
       we_direction e = LedgerDirection.DEBIT \<and> we_type e = CHECKOUT_DEBIT \<and> we_amount e = wallet"
  have "?w \<and> db_payments db2 = db_payments db"
  proof (cases "wallet = 0")
    case True
    with c(1) t(2) show "?w \<and> db_payments db2 = db_payments db" by (simp add: settle_wallet_none)
  next
    case False
    with cover have "0 < wallet" "is_cents wallet" by auto
    from settle_wallet_debits [OF c(1) this assms(7)] this False t(2) v(1) show "?w \<and> db_payments db2 = db_payments db" by auto
  qed
  then have w: ?w and same: "db_payments db2 = db_payments db" by blast+
  from cover pe(1) have sum: "gateway + wallet = bk_totalFare b + deposit_amount (find_deposit (bk_id b) db)" by simp
  from cover have src: "if ?full then gateway = 0 else py_validate env (vp_razorpayOrderId dto) (vp_razorpayPaymentId dto) (vp_razorpaySignature dto) \<and>
       (\<exists>rp. py_fetch env (vp_razorpayPaymentId dto) = Inr (Some rp) \<and> rp_status rp = ''captured'' \<and> rp_amount rp = gateway * 100)"
    by blast
  have paid: "pm_status ?p' = PaymentStatus.PAID" by simp
  show ?thesis
    by (rule exI [of _ gateway], rule exI [of _ wallet], rule exI [of _ ?p'], intro conjI)
      (rule sum, rule src, rule w, rule pay [OF same], rule paid)
qed

section \<open>The journal of a payment\<close>

definition payment_journal :: "Booking \<Rightarrow> Payment \<Rightarrow> rat \<Rightarrow> rat \<Rightarrow> rat \<Rightarrow> rat \<Rightarrow> bool \<Rightarrow> RecordJournalInput" where
  "payment_journal b p dep expected gateway wallet full =
     booking_journal ''BOOKING_PAYMENT_VERIFIED'' (''Payment verification financial journal for booking '' @ bk_id b)
       ''jrn_pay_verify_'' b p (payment_lines b p dep expected gateway wallet full)"

text \<open>Amounts in whole cents that add up to what the booking costs.\<close>

definition paid_by :: "Booking \<Rightarrow> rat \<Rightarrow> rat \<Rightarrow> rat \<Rightarrow> bool" where
  "paid_by b dep gateway wallet \<longleftrightarrow> booking_money b dep \<and> is_cents gateway \<and> is_cents wallet \<and>
     0 \<le> gateway \<and> 0 \<le> wallet \<and> gateway + wallet = bk_totalFare b + dep"

lemma payment_fee:
  assumes "booking_money b dep"
  shows "dec20 (bk_platformFee b + dec20 (bk_totalFare b + dep -
      dec20 (dec20 (dec20 (bk_netToVendor b + bk_platformFee b) + bk_gstAmount b) + dep))) =
    bk_totalFare b - bk_netToVendor b - bk_gstAmount b"
  using adjusted_fee_exact [OF assms] by (simp add: adjusted_fee_def Let_def)

lemma payment_lines_exact:
  fixes p full
  assumes "paid_by b dep gateway wallet" and "bk_netToVendor b + bk_gstAmount b \<le> bk_totalFare b"
  defines "J \<equiv> payment_journal b p dep (bk_totalFare b + dep) gateway wallet full"
  shows "\<forall>l\<in>set (raw_lines J). valid_line l" "2 \<le> length (raw_lines J)"
    "dsum dec20 0 (side_amounts LedgerEntrySide.DEBIT (raw_lines J)) = dsum dec20 0 (side_amounts LedgerEntrySide.CREDIT (raw_lines J))"
    "cents_journal J"
proof -
  have bm: "booking_money b dep" and c: "is_cents gateway" "is_cents wallet" "0 \<le> gateway" "0 \<le> wallet"
    and s: "gateway + wallet = bk_totalFare b + dep"
    using assms(1) by (auto simp: paid_by_def)
  note m = booking_moneyD [OF bm]
  let ?f = "bk_totalFare b - bk_netToVendor b - bk_gstAmount b" and ?ls = "raw_lines J"
  note lines = J_def payment_journal_def raw_lines_booking_journal payment_lines_def Let_def payment_fee [OF bm]
  have pos: "0 < gateway \<or> 0 < wallet" using s m(6,10) c(3,4) by linarith
  have cf: "is_cents ?f" using m(1-5) by (auto intro!: is_cents_diff)
  show v: "\<forall>l\<in>set ?ls. valid_line l"
    unfolding lines using m by (simp add: line_simps valid_line_def)
  show "2 \<le> length ?ls" unfolding lines using pos by (auto simp: line_if_def)
  have amounts: "\<forall>x\<in>set (map li_amount ?ls). is_cents x"
    unfolding lines using m cf c by (auto simp: line_if_def)
  have "sum_list (map li_amount ?ls) < 10 ^ 17"
    unfolding lines using m c s by (simp add: line_simps)
  with amounts show k: "cents_journal J" by (simp add: cents_journal_def)
  have debit: "sum_list (side_amounts LedgerEntrySide.DEBIT ?ls) = bk_totalFare b + dep"
    unfolding lines using c s by (simp add: line_simps)
  have credit: "sum_list (side_amounts LedgerEntrySide.CREDIT ?ls) = bk_totalFare b + dep"
    unfolding lines using m(9,10) assms(2) by (simp add: line_simps)
  show "dsum dec20 0 (side_amounts LedgerEntrySide.DEBIT ?ls) = dsum dec20 0 (side_amounts LedgerEntrySide.CREDIT ?ls)"
    by (simp only: djs.dsum_side [OF k v] debit credit)
qed

definition clearing_account :: "Booking \<Rightarrow> Payment \<Rightarrow> bool \<Rightarrow> LedgerAccountType \<times> string option" where
  "clearing_account b p full =
     (if is_corporate b p then (CORPORATE_RECEIVABLE, Some (or_string (bk_corporateAccountId b) ''CORPORATE''))
      else (GATEWAY_CLEARING, Some (if full then ''WALLET'' else gateway_of p)))"

lemma payment_effect:
  assumes "paid_by b dep gateway wallet" and "bk_netToVendor b + bk_gstAmount b \<le> bk_totalFare b"
  shows "journal_effect (payment_journal b p dep (bk_totalFare b + dep) gateway wallet full) t ent =
    delta_at b t ent CUSTOMER_WALLET (Some (bk_customerId b)) LedgerEntrySide.DEBIT wallet +
    delta_at b t ent (fst (clearing_account b p full)) (snd (clearing_account b p full)) LedgerEntrySide.DEBIT gateway +
    delta_at b t ent VENDOR_PAYABLE (Some (bk_vendorId b)) LedgerEntrySide.CREDIT (bk_netToVendor b) +
    delta_at b t ent PLATFORM_COMMISSION_REVENUE None LedgerEntrySide.CREDIT (bk_totalFare b - bk_netToVendor b - bk_gstAmount b) +
    delta_at b t ent TAX_GST_LIABILITY None LedgerEntrySide.CREDIT (bk_gstAmount b) +
    delta_at b t ent CUSTOMER_DEPOSIT_ESCROW (Some (bk_customerId b)) LedgerEntrySide.CREDIT dep"
proof -
  have bm: "booking_money b dep" and c: "0 \<le> gateway" "0 \<le> wallet" using assms(1) by (auto simp: paid_by_def)
  note m = booking_moneyD [OF bm]
  have zero: "delta_at b t ent lt le s 0 = 0" for lt le s by (simp add: delta_at_def)
  have opt: "(if x > 0 then delta_at b t ent lt le s x else 0) = delta_at b t ent lt le s x" if "0 \<le> x" for x lt le s
    using that zero by (cases "x = 0") auto
  have line: "line_delta (payment_journal b p dep (bk_totalFare b + dep) gateway wallet full) t ent
      (if is_corporate b p
       then booking_line CORPORATE_RECEIVABLE (Some (or_string (bk_corporateAccountId b) ''CORPORATE'')) LedgerEntrySide.DEBIT gateway
              ''Corporate credit receivable for booking '' b p
       else booking_line GATEWAY_CLEARING (Some (if full then ''WALLET'' else gateway_of p)) LedgerEntrySide.DEBIT gateway
              ''Payment gateway clearing for booking '' b p) =
     delta_at b t ent (fst (clearing_account b p full)) (snd (clearing_account b p full)) LedgerEntrySide.DEBIT gateway"
    by (simp add: clearing_account_def payment_journal_def line_delta_booking)
  have "journal_effect (payment_journal b p dep (bk_totalFare b + dep) gateway wallet full) t ent =
    (if wallet > 0 then delta_at b t ent CUSTOMER_WALLET (Some (bk_customerId b)) LedgerEntrySide.DEBIT wallet else 0) +
    (if gateway > 0 then delta_at b t ent (fst (clearing_account b p full)) (snd (clearing_account b p full)) LedgerEntrySide.DEBIT gateway else 0) +
    delta_at b t ent VENDOR_PAYABLE (Some (bk_vendorId b)) LedgerEntrySide.CREDIT (bk_netToVendor b) +
    (if bk_totalFare b - bk_netToVendor b - bk_gstAmount b > 0
     then delta_at b t ent PLATFORM_COMMISSION_REVENUE None LedgerEntrySide.CREDIT (bk_totalFare b - bk_netToVendor b - bk_gstAmount b) else 0) +
    (if bk_gstAmount b > 0 then delta_at b t ent TAX_GST_LIABILITY None LedgerEntrySide.CREDIT (bk_gstAmount b) else 0) +
    (if dep > 0 then delta_at b t ent CUSTOMER_DEPOSIT_ESCROW (Some (bk_customerId b)) LedgerEntrySide.CREDIT dep else 0)"
    unfolding line [symmetric]
    unfolding payment_journal_def journal_effect_booking payment_lines_def Let_def payment_fee [OF bm]
    by (simp only: map_append sum_list_append sum_line_if line_delta_booking list.map sum_list.Cons sum_list.Nil
        add_0_right add.assoc append_Cons append_Nil)
  then show ?thesis using m(9,10) c assms(2) by (simp only: opt diff_ge_0_iff_ge add.commute [of "bk_netToVendor b"] le_diff_eq)
qed

text \<open>The baseline journal of a cancellation books what a payment through the gateway alone books.\<close>

lemma baseline_effect:
  assumes "booking_money b dep" "bk_netToVendor b + bk_gstAmount b \<le> bk_totalFare b" "\<not> is_corporate b p"
  shows "journal_effect (baseline_journal dec20 b p dep) t ent =
    journal_effect (payment_journal b p dep (bk_totalFare b + dep) (bk_totalFare b + dep) 0 False) t ent"
proof -
  have pos: "bk_totalFare b + dep > 0" using booking_moneyD(6,10) [OF assms(1)] by linarith
  show ?thesis
    unfolding baseline_journal_def payment_journal_def journal_effect_booking baseline_lines_def payment_lines_def Let_def
      adjusted_fee_exact [OF assms(1)] payment_fee [OF assms(1)]
    by (simp only: map_append sum_list_append sum_line_if line_delta_booking list.map sum_list.Cons sum_list.Nil
        add_0_right add_0_left add.assoc append_Cons append_Nil assms(3) if_False pos if_True less_irrefl)
qed

lemma delta_at_split:
  "delta_at b t ent lt le s (x + y) = delta_at b t ent lt le s x + delta_at b t ent lt le s y"
  unfolding delta_at_def by (cases "lt = t \<and> (ent = None \<or> or_str le (Some (bk_vendorId b)) = ent)"; simp only: if_True if_False; simp)

lemma gateway_of_nonempty: "gateway_of p \<noteq> []"
  by (simp add: gateway_of_def)

lemma payment_lines_booking: "l \<in> set (payment_lines b p dep x gw wl full) \<Longrightarrow> li_bookingId l = Some (bk_id b)"
  by (auto simp: payment_lines_def Let_def line_if_def booking_line_def split: if_splits)

lemma record_has_baseline:
  assumes "recordJournal dec20 round2 now jid (payment_journal b p dep x gw wl full) L = Inr (r, L')" "\<not> jr_isDuplicate r"
  shows "has_baseline (bk_id b) L'"
  using assms(1)
proof (cases rule: recordJournal_cases)
  case (replay e)
  with assms(2) show ?thesis by simp
next
  case (posted es)
  let ?J = "payment_journal b p dep x gw wl full"
  have raw: "raw_lines ?J = payment_lines b p dep x gw wl full" by (simp add: payment_journal_def)
  from posted(1) obtain l ls where l: "raw_lines ?J = l # ls" by (cases "raw_lines ?J") auto
  then have "li_bookingId l = Some (bk_id b)" using payment_lines_booking [of l b p dep x gw wl full] raw by simp
  then have "le_bookingId (mk_entry round2 now (or_string (ji_journalId ?J) jid) ?J 0 (parse_line ?J (the (line_side l)) l)) = Some (bk_id b)"
    "le_referenceType (mk_entry round2 now (or_string (ji_journalId ?J) jid) ?J 0 (parse_line ?J (the (line_side l)) l)) = ''BOOKING_PAYMENT_VERIFIED''"
    by (auto simp: mk_entry_def parse_line_def or_str_def payment_journal_def booking_journal_def)
  then show ?thesis unfolding posted(5,6) l by (auto simp: has_baseline_def exists_where_iff)
qed

text \<open>The journal of a verified payment, posted: the baseline is there and the key of the reversal still free.\<close>

lemma payment_booked:
  assumes "paid_by b dep gateway wallet" and "bk_netToVendor b + bk_gstAmount b \<le> bk_totalFare b"
    and "keys_free (payment_journal b p dep (bk_totalFare b + dep) gateway wallet full) L"
  obtains r es where
    "recordJournal dec20 round2 now jid (payment_journal b p dep (bk_totalFare b + dep) gateway wallet full) L = Inr (r, L @ es)"
    "\<forall>t ent. getAccountBalance t ent (L @ es) =
       getAccountBalance t ent L + journal_effect (payment_journal b p dep (bk_totalFare b + dep) gateway wallet full) t ent"
    "has_baseline (bk_id b) (L @ es)"
    "\<And>d refund tier. keys_free (reversal_journal dec20 b p d refund tier) L \<Longrightarrow> keys_free (reversal_journal dec20 b p d refund tier) (L @ es)"
proof -
  let ?P = "payment_journal b p dep (bk_totalFare b + dep) gateway wallet full"
  note pe = payment_lines_exact [OF assms(1,2), of p full]
  have kp: "ji_idempotencyKey ?P = Some (''jrn_pay_verify_'' @ bk_id b)" by (simp add: payment_journal_def booking_journal_def)
  have kn: "''jrn_pay_verify_'' @ bk_id b \<noteq> []" by simp
  obtain r es where b: "recordJournal dec20 round2 now jid ?P L = Inr (r, L @ es)"
    "\<forall>t ent. getAccountBalance t ent (L @ es) = getAccountBalance t ent L + journal_effect ?P t ent"
    "\<forall>e\<in>set es. \<exists>i. le_idempotencyKey e = line_key (Some (''jrn_pay_verify_'' @ bk_id b)) i"
    using kn record_fresh [OF assms(3) pe kp, where now = now and fresh = jid] by blast
  have dup: "\<not> jr_isDuplicate r"
    using b(1)
  proof (cases rule: recordJournal_cases)
    case (replay e)
    with assms(3) pe(2) kp kn show ?thesis
      by (auto simp: keys_free_def line_key_def dest!: find_Some_D spec [of _ 0] bspec)
  qed simp
  have free: "keys_free (reversal_journal dec20 b p d refund tier) (L @ es)"
    if "keys_free (reversal_journal dec20 b p d refund tier) L" for d refund tier
  proof -
    have "ji_idempotencyKey (reversal_journal dec20 b p d refund tier) = Some (''jrn_refund_intent_'' @ bk_id b)"
      by (simp add: reversal_journal_def booking_journal_def)
    from keys_free_prefix [OF that this _ b(3)] show ?thesis by simp
  qed
  show thesis by (rule that [OF b(1,2) record_has_baseline [OF b(1) dup] free])
qed

text \<open>
  C7: paid and fully refunded. The journal of a payment and, later, the journal of its full refund
  are both recorded when what the vendor and the tax office get is within the fare, and together they
  leave every balance as it was when the gateway paid alone. The part the wallet paid does not come
  back: the refund is booked against the gateway as a whole, so the customers' wallets and the
  gateway's clearing account each stay lower by that part.
\<close>

theorem payment_then_full_refund_balances:
  assumes "paid_by b (deposit_amount dep) gateway wallet" and "bk_netToVendor b + bk_gstAmount b \<le> bk_totalFare b"
    and "\<not> is_corporate b p" and "bk_customerId b \<noteq> []" and "full \<Longrightarrow> gateway = 0"
    and "\<And>d. dep = Some d \<Longrightarrow> sd_status d \<noteq> SecurityDepositStatus.CANCELLED"
    and "keys_free (payment_journal b p (deposit_amount dep) (bk_totalFare b + deposit_amount dep) gateway wallet full) L"
    and "keys_free (reversal_journal dec20 b p dep (bk_totalFare b + deposit_amount dep) tier) L"
  shows "\<exists>r L1 L2.
    recordJournal dec20 round2 now jid
      (payment_journal b p (deposit_amount dep) (bk_totalFare b + deposit_amount dep) gateway wallet full) L = Inr (r, L1) \<and>
    post_refund_journals dec20 round2 now' jid1 jid2 b p dep (bk_totalFare b + deposit_amount dep) tier L1 = Inr L2 \<and>
    (\<forall>t ent. getAccountBalance t ent L2 = getAccountBalance t ent L -
       (if (t = CUSTOMER_WALLET \<and> ent \<in> {None, Some (bk_customerId b)}) \<or> (t = GATEWAY_CLEARING \<and> ent \<in> {None, Some (gateway_of p)})
        then wallet else 0))"
proof -
  let ?dep = "deposit_amount dep" and ?T = "bk_totalFare b + deposit_amount dep"
  let ?P = "payment_journal b p ?dep ?T gateway wallet full" and ?R = "reversal_journal dec20 b p dep ?T tier"
  have bm: "booking_money b ?dep" and s: "?T = gateway + wallet" and nn: "0 \<le> wallet" "0 \<le> gateway"
    using assms(1) by (auto simp: paid_by_def)
  note pe = payment_lines_exact [OF assms(1,2), of p full]
  have kr: "ji_idempotencyKey ?R = Some (''jrn_refund_intent_'' @ bk_id b)" "''jrn_refund_intent_'' @ bk_id b \<noteq> []"
    by (simp_all add: reversal_journal_def booking_journal_def)
  obtain r1 es1 where b1: "recordJournal dec20 round2 now jid ?P L = Inr (r1, L @ es1)"
    "\<forall>t ent. getAccountBalance t ent (L @ es1) = getAccountBalance t ent L + journal_effect ?P t ent"
    "has_baseline (bk_id b) (L @ es1)" and free: "keys_free ?R (L @ es1)"
    by (rule payment_booked [OF assms(1,2,7), where now = now and jid = jid]) (use assms(8) in blast)
  have re: "\<forall>l\<in>set (raw_lines ?R). valid_line l" "2 \<le> length (raw_lines ?R)"
    "dsum dec20 0 (side_amounts LedgerEntrySide.DEBIT (raw_lines ?R)) = dsum dec20 0 (side_amounts LedgerEntrySide.CREDIT (raw_lines ?R))" "cents_journal ?R"
    by (rule reversal_lines_exact [OF bm assms(2)]; fact assms(6))+
  obtain r2 es2 where b2: "recordJournal dec20 round2 now' jid2 ?R (L @ es1) = Inr (r2, (L @ es1) @ es2)"
    "\<forall>t ent. getAccountBalance t ent ((L @ es1) @ es2) = getAccountBalance t ent (L @ es1) + journal_effect ?R t ent"
    using record_fresh [OF free re kr(1), where now = now' and fresh = jid2] kr(2) by blast
  have post: "post_refund_journals dec20 round2 now' jid1 jid2 b p dep ?T tier (L @ es1) = Inr ((L @ es1) @ es2)"
    using b1(3) b2(1) by (simp add: post_refund_journals_def)
  have eff: "journal_effect ?P t ent + journal_effect ?R t ent =
      - (if (t = CUSTOMER_WALLET \<and> ent \<in> {None, Some (bk_customerId b)}) \<or> (t = GATEWAY_CLEARING \<and> ent \<in> {None, Some (gateway_of p)})
         then wallet else 0)" for t ent
  proof -
    let ?d = "\<lambda>lt le x. delta_at b t ent lt le LedgerEntrySide.DEBIT x"
    let ?G = "Some (gateway_of p)"
    have zero: "?d lt le 0 = 0" for lt le by (simp add: delta_at_def)
    have "is_cents ?T" using booking_moneyD(1,5) [OF bm] by (rule is_cents_add)
    then have "paid_by b ?dep ?T 0" using assms(1) by (auto simp: paid_by_def)
    note alone = payment_effect [OF this assms(2), of p False t ent]
    have c: "fst (clearing_account b p full) = GATEWAY_CLEARING" "snd (clearing_account b p full) = (if full then Some ''WALLET'' else ?G)"
      "fst (clearing_account b p False) = GATEWAY_CLEARING" "snd (clearing_account b p False) = ?G"
      using assms(3) by (simp_all add: clearing_account_def)
    have "?d GATEWAY_CLEARING (if full then Some ''WALLET'' else ?G) gateway = ?d GATEWAY_CLEARING ?G gateway"
      using assms(5) zero by (cases full) simp_all
    moreover have "journal_effect (baseline_journal dec20 b p ?dep) t ent + journal_effect ?R t ent = 0"
      by (rule full_refund_effect [OF bm assms(2)]) (rule assms(6))
    ultimately have "journal_effect ?P t ent + journal_effect ?R t ent =
        ?d CUSTOMER_WALLET (Some (bk_customerId b)) wallet + ?d GATEWAY_CLEARING ?G gateway - ?d GATEWAY_CLEARING ?G (gateway + wallet)"
      using payment_effect [OF assms(1,2), of p full t ent] alone baseline_effect [OF bm assms(2,3), of t ent] zero [of CUSTOMER_WALLET "Some (bk_customerId b)"]
      unfolding c s by linarith
    also have "\<dots> = ?d CUSTOMER_WALLET (Some (bk_customerId b)) wallet - ?d GATEWAY_CLEARING ?G wallet"
      by (simp add: delta_at_split)
    finally show ?thesis using assms(4) gateway_of_nonempty [of p]
      by (auto simp: delta_at_def is_asset_account_def)
  qed
  show ?thesis using b1 b2 post eff by (intro exI [of _ r1] exI [of _ "L @ es1"] exI [of _ "(L @ es1) @ es2"]) (simp add: add.assoc)
qed

section \<open>From the order to the verified payment\<close>

lemma payment_clash_same: "pm_id q = pm_id p \<Longrightarrow> \<not> payment_clash p q"
  by (simp add: payment_clash_def)

lemma store_order_facts:
  assumes "store_order pid b oid due db = Inr (p', db1)"
  shows "find_payment (bk_id b) db1 = Some p'" "pm_status p' = PaymentStatus.CREATED" "pm_razorpayOrderId p' = Some oid"
    "\<not> exists_where (payment_clash p') (db_payments db1)" "\<exists>ps. db1 = db\<lparr>db_payments := ps\<rparr>"
proof -
  have "find_payment (bk_id b) db1 = Some p' \<and> pm_status p' = PaymentStatus.CREATED \<and> pm_razorpayOrderId p' = Some oid \<and>
    \<not> exists_where (payment_clash p') (db_payments db1) \<and> (\<exists>ps. db1 = db\<lparr>db_payments := ps\<rparr>)"
  proof (cases "find_payment (bk_id b) db")
    case None
    with assms have p': "p' = new_payment pid (bk_id b) oid due" and c: "create_payment p' db = Inr db1"
      by (auto simp: store_order_def Let_def bindR_Inr_iff)
    from c None p' have "find_payment (bk_id b) db1 = Some p'"
      by (auto simp: create_payment_def find_payment_def find_append new_payment_def split: if_splits)
    with c p' show ?thesis
      by (auto simp: create_payment_def exists_where_iff new_payment_def payment_clash_same split: if_splits)
  next
    case (Some p)
    then have p': "p' = p\<lparr>pm_razorpayOrderId := Some oid, pm_amount := round2 due, pm_status := PaymentStatus.CREATED,
        pm_failedAt := None, pm_failureReason := None\<rparr>" and u: "update_payment p' db = Inr db1"
      using assms by (auto simp: store_order_def Let_def bindR_Inr_iff)
    have "find_payment (bk_id b) db1 = Some p'" by (rule update_payment_find [OF Some u]) (simp_all add: p')
    with u p' show ?thesis
      by (auto simp: update_payment_def exists_where_iff set_update_where payment_clash_same split: if_splits)
  qed
  then show "find_payment (bk_id b) db1 = Some p'" "pm_status p' = PaymentStatus.CREATED" "pm_razorpayOrderId p' = Some oid"
    "\<not> exists_where (payment_clash p') (db_payments db1)" "\<exists>ps. db1 = db\<lparr>db_payments := ps\<rparr>" by blast+
qed

lemma order_checks_Inr: "order_checks bid cust db = Inr b \<Longrightarrow> find_booking bid db = Some b \<and> bk_customerId b = cust \<and>
   bk_status b = BookingStatus.PENDING"
  by (auto simp: order_checks_def throw_if_Inr_iff split: option.splits)

lemma createOrder_gateway:
  assumes "createOrder env ids bid cust False db = (Inr o', db2)" "find_booking bid db = Some b" "0 < payable b db"
  obtains p ps log where "or_amount o' = in_paise (payable b db)" "bk_customerId b = cust"
    "db2 = db\<lparr>db_payments := ps, db_paymentAudit := log\<rparr>"
    "find_payment bid db2 = Some p" "pm_status p = PaymentStatus.CREATED" "pm_razorpayOrderId p = Some (or_orderId o')"
    "\<not> exists_where (payment_clash p) ps"
proof -
  have id': "bk_id b = bid" using find_bookingD [OF assms(2)] by simp
  have oc: "order_checks bid cust db = Inr b"
    using assms(1,2) by (cases "order_checks bid cust db") (auto simp: createOrder_def dest: order_checks_Inr)
  let ?due = "payable b db"
  have sp: "split_order env (oi_wallet ids) cust False ?due (db_wallet db) =
      (\<lparr>sp_wallet = 0, sp_promo = 0, sp_real = 0, sp_gateway = ?due\<rparr>, db_wallet db)" by (simp add: split_order_def)
  obtain oid p db1 where r: "store_order (oi_payment ids) b oid ?due db = Inr (p, db1)" "or_orderId o' = oid"
    "or_amount o' = in_paise ?due" "\<exists>log. db2 = db1\<lparr>db_paymentAudit := log\<rparr>"
  proof -
    from assms(1,3) oc sp obtain oid where
      "order_id env (oi_random ids) bid \<lparr>sp_wallet = 0, sp_promo = 0, sp_real = 0, sp_gateway = ?due\<rparr> (in_paise ?due) = Inr oid"
      by (auto simp: createOrder_def Let_def not_le split: sum.splits)
    with assms(1,3) oc sp obtain p db1 where "store_order (oi_payment ids) b oid ?due db = Inr (p, db1)" "or_orderId o' = oid"
      "or_amount o' = in_paise ?due" "db2 = recordPaymentAuditLog
                         (audit_event p (if find_payment bid db \<noteq> None then ''PAYMENT_ORDER_RENEWED'' else ''PAYMENT_ORDER_CREATED'')
                           (map_option pm_status (find_payment bid db)) PaymentStatus.CREATED (Some ?due) (Some oid) (Some cust)
                           (Some ''CUSTOMER'') ''CUSTOMER'') db1"
      by (cases "store_order (oi_payment ids) b oid ?due db") (auto simp: createOrder_def Let_def not_le)
    moreover have "\<exists>log. recordPaymentAuditLog a db1 = db1\<lparr>db_paymentAudit := log\<rparr>" for a
      by (cases "exists_where (\<lambda>p. pm_id p = pa_paymentId a) (db_payments db1)")
        (auto simp: recordPaymentAuditLog_def intro: exI [of _ "db_paymentAudit db1"])
    ultimately show thesis using that by metis
  qed
  note f = store_order_facts [OF r(1)]
  obtain ps where ps: "db1 = db\<lparr>db_payments := ps\<rparr>" using f(5) by blast
  obtain log where log: "db2 = db1\<lparr>db_paymentAudit := log\<rparr>" using r(4) by blast
  have "find_payment bid db2 = Some p" using f(1) id' log by (simp add: find_payment_def)
  with f(2,3,4) ps log r(2,3) oc show thesis by (intro that [where ps = ps and log = log and p = p]) (auto dest: order_checks_Inr)
qed

lemma journal_recorded:
  assumes "paid_by b (deposit_amount (find_deposit (bk_id b) db)) gateway wallet" "bk_netToVendor b + bk_gstAmount b \<le> bk_totalFare b"
    "keys_free (payment_journal b p (deposit_amount (find_deposit (bk_id b) db))
       (bk_totalFare b + deposit_amount (find_deposit (bk_id b) db)) gateway wallet full) (db_ledger db)"
  shows "\<exists>db'. recordPaymentLedgerJournal env now jid b p (bk_totalFare b + deposit_amount (find_deposit (bk_id b) db)) gateway wallet full db = Inr db'"
proof (cases "py_ledger env")
  case True
  let ?J = "payment_journal b p (deposit_amount (find_deposit (bk_id b) db))
    (bk_totalFare b + deposit_amount (find_deposit (bk_id b) db)) gateway wallet full"
  have "ji_idempotencyKey ?J = Some (''jrn_pay_verify_'' @ bk_id b)" "''jrn_pay_verify_'' @ bk_id b \<noteq> []"
    by (simp_all add: payment_journal_def booking_journal_def)
  from record_fresh [OF assms(3) payment_lines_exact [OF assms(1,2)] this, where now = now and fresh = jid]
  obtain r L where "recordJournal dec20 round2 now jid ?J (db_ledger db) = Inr (r, L)" by blast
  with True show ?thesis by (simp add: recordPaymentLedgerJournal_def payment_journal_def)
qed (simp add: recordPaymentLedgerJournal_def)

definition order_dto :: "id \<Rightarrow> string \<Rightarrow> string \<Rightarrow> string \<Rightarrow> VerifyPaymentDto" where
  "order_dto bid oid pid sig = \<lparr>vp_bookingId = bid, vp_razorpayOrderId = oid, vp_razorpayPaymentId = pid, vp_razorpaySignature = sig\<rparr>"

definition captured_for :: "string \<Rightarrow> int \<Rightarrow> rzp_payment" where
  "captured_for oid paise = \<lparr>rp_order_id = Some oid, rp_currency = Some ''INR'', rp_status = ''captured'', rp_amount = of_int paise\<rparr>"

lemma order_pays:
  assumes "createOrder env ids bid cust False db = (Inr o', db1)" and "\<not> py_useMock env"
    and "find_booking bid db = Some b" and "booking_money b (deposit_amount (find_deposit bid db))"
    and "payable b db < 10000000000" and "bk_netToVendor b + bk_gstAmount b \<le> bk_totalFare b" and "\<not> str_truthy (bk_couponId b)"
    and "\<not> starts_with (or_orderId o') WALLET_ORDER" and "or_orderId o' \<noteq> []"
    and "py_validate env (or_orderId o') pid sig" and "py_fetch env pid = Inr (Some (captured_for (or_orderId o') (or_amount o')))"
    and "\<And>p. keys_free (payment_journal b p (deposit_amount (find_deposit bid db))
           (bk_totalFare b + deposit_amount (find_deposit bid db)) (payable b db) 0 False) (db_ledger db)"
  shows "\<exists>r db2 p. verifyPayment env now vids (order_dto bid (or_orderId o') pid sig) cust db1 = (Inr r, db2) \<and> \<not> vr_alreadyPaid r \<and>
     find_payment bid db2 = Some p \<and> pm_status p = PaymentStatus.PAID"
proof -
  have id': "bk_id b = bid" using find_bookingD [OF assms(3)] by simp
  note pe = payable_exact [of b db, unfolded id', OF assms(4)]
  obtain p ps log where c: "or_amount o' = in_paise (payable b db)" "bk_customerId b = cust"
    "db1 = db\<lparr>db_payments := ps, db_paymentAudit := log\<rparr>" "find_payment bid db1 = Some p" "pm_status p = PaymentStatus.CREATED"
    "pm_razorpayOrderId p = Some (or_orderId o')" "\<not> exists_where (payment_clash p) ps"
    by (rule createOrder_gateway [OF assms(1,3) pe(3)]) (rule that)
  let ?dto = "order_dto bid (or_orderId o') pid sig" and ?due = "payable b db"
  have dto: "vp_bookingId ?dto = bid" "vp_razorpayOrderId ?dto = or_orderId o'" "vp_razorpayPaymentId ?dto = pid"
    "vp_razorpaySignature ?dto = sig" by (simp_all add: order_dto_def)
  have find: "find_booking bid db1 = Some b" "find_deposit bid db1 = find_deposit bid db" "payable b db1 = ?due"
    using assms(3) c(3) by (simp_all add: find_booking_def find_deposit_def payable_def)
  have amount: "of_int (or_amount o') = ?due * 100"
    using paise_exact [OF pe(2)] pe(3) assms(5) c(1) by (simp add: in_paise_def)
  then have "of_int (or_amount o') / 100 = ?due" by simp
  moreover have "dec20 ?due = ?due" using pe(3,4) by (intro dec20_small [OF pe(2)]) linarith+
  ultimately have g: "dec20 (of_int (or_amount o') / 100) = ?due" "dec20 (?due - ?due) = 0"
    using dec20_small [of 0] by simp_all
  have "to_upper ''INR'' = ''INR''" by (simp add: to_upper_def upper_char_def Let_def)
  then have cap: "captured_amounts env (or_orderId o') ?due (captured_for (or_orderId o') (or_amount o')) = Inr (?due, 0)"
    using g c(1) assms(9) by (simp add: captured_amounts_def captured_for_def)
  have paid: "paid_amounts env ?dto p ?due db1 = (Inr (?due, 0), db1)"
    using assms(2,8,10,11) cap by (simp add: paid_amounts_def dto Let_def signature_ok_def gateway_failed_def captured_for_def)
  let ?i = "resolved_payment_id now ?dto"
  let ?p' = "p\<lparr>pm_status := PaymentStatus.PAID, pm_razorpayPaymentId := Some ?i\<rparr>"
  have "payment_clash ?p' = payment_clash p" by (rule ext) (simp add: payment_clash_def)
  then obtain db2 where u: "update_payment ?p' db1 = Inr db2" using c(3,7) by (simp add: update_payment_def)
  let ?db3 = "hold_deposit now ?i bid (recordPaymentAuditLog (audit_event p ''PAYMENT_VERIFIED'' (Some (pm_status p)) PaymentStatus.PAID
    (Some ?due) (Some ?i) (Some cust) (Some ''CUSTOMER'') ''CUSTOMER'') db2)"
  have db2: "db_ledger db2 = db_ledger db" "find_deposit bid db2 = find_deposit bid db"
    using u c(3) by (auto simp: update_payment_def find_deposit_def split: if_splits)
  have dep: "deposit_amount (find_deposit bid ?db3) = deposit_amount (find_deposit bid db)"
    unfolding hold_deposit_find using db2(2) by (simp add: find_deposit_def deposit_amount_def split: option.split)
  have L: "db_ledger ?db3 = db_ledger db" using db2(1) by simp
  have "paid_by b (deposit_amount (find_deposit bid db)) ?due 0" using assms(4) pe by (simp add: paid_by_def)
  then obtain db4 where j: "recordPaymentLedgerJournal env now (vi_journal vids) b p ?due ?due 0 False ?db3 = Inr db4"
    using journal_recorded [of b ?db3 ?due 0 p False env now "vi_journal vids"] assms(6,12) pe(1) L dep id' by auto
  have "use_coupon b db4 = Inr db4" using assms(7) by (simp add: use_coupon_def)
  then have commit: "commit_payment env now vids b p ?dto cust ?due ?due 0 db1 = Inr db4"
    using u j c(5) assms(8) id' by (simp add: commit_payment_def settle_wallet_def assertValidTransition_def dto Let_def)
  have checks: "verify_checks ?dto cust db1 = Inr (b, p)" using find(1) c(2,4,6) by (simp add: verify_checks_def dto)
  have "settled_answer ?dto p = None" using c(5) by (simp add: settled_answer_def)
  then have "verifyPayment env now vids ?dto cust db1 = (Inr \<lparr>vr_paymentId = pm_id p, vr_alreadyPaid = False\<rparr>, db4)"
    using checks paid find(3) commit by (simp add: verifyPayment_def)
  moreover have "find_payment bid db4 = Some ?p'"
    using update_payment_find [OF c(4) u] journal_tables [OF j] by (simp add: find_payment_def)
  ultimately show ?thesis by (intro exI [of _ "\<lparr>vr_paymentId = pm_id p, vr_alreadyPaid = False\<rparr>"] exI [of _ db4] exI [of _ ?p']) simp
qed

text \<open>
  C19: an order can be paid. When an order without the wallet was created for a booking, and the live
  gateway reports the amount of the order, captured in INR for this order under a valid signature, then
  the verification succeeds and the payment is PAID, provided what the vendor and the tax office get is
  within the fare (else its journal is refused) and no coupon is attached.
\<close>

theorem order_can_be_paid:
  assumes "createOrder env ids bid cust False db = (Inr o', db1)" and "\<not> py_useMock env"
    and "find_booking bid db = Some b" and "booking_money b (deposit_amount (find_deposit bid db))"
    and "payable b db < 10000000000" and "bk_netToVendor b + bk_gstAmount b \<le> bk_totalFare b" and "\<not> str_truthy (bk_couponId b)"
    and "\<not> starts_with (or_orderId o') WALLET_ORDER" and "or_orderId o' \<noteq> []"
    and "py_validate env (or_orderId o') pid sig" and "py_fetch env pid = Inr (Some (captured_for (or_orderId o') (or_amount o')))"
    and "\<And>p. keys_free (payment_journal b p (deposit_amount (find_deposit bid db))
           (bk_totalFare b + deposit_amount (find_deposit bid db)) (payable b db) 0 False) (db_ledger db)"
  shows "\<exists>r db2 p. verifyPayment env now vids (order_dto bid (or_orderId o') pid sig) cust db1 = (Inr r, db2) \<and> \<not> vr_alreadyPaid r \<and>
     find_payment bid db2 = Some p \<and> pm_status p = PaymentStatus.PAID"
  by (rule order_pays [OF assms])

section \<open>Refunds\<close>

lemma refund_rupees_exact:
  assumes "0 < n" "n \<le> 10 ^ 14"
  shows "refund_rupees n = of_int n / 100"
  using js.round2_flt_cents [of n] assms by (simp add: refund_rupees_def)

lemma refund_split_exact:
  assumes "is_cents amount" "is_cents w" "is_cents r" "0 < r" "r \<le> amount" "0 \<le> w" "w \<le> amount" "amount < 10000000000"
  shows "refund_split amount w r = (min r (amount - w), r - min r (amount - w))"
proof -
  have c: "is_cents (amount - w)" "is_cents (r - min r (amount - w))" using assms(1-3) by (auto intro!: is_cents_diff is_cents_min)
  have "dec20 (amount - w) = amount - w" by (rule dec20_small [OF c(1)]) (use assms in linarith)+
  moreover have "dec20 (r - min r (amount - w)) = r - min r (amount - w)"
    by (rule dec20_small [OF c(2)]) (use assms in \<open>auto simp: min_def\<close>)
  ultimately show ?thesis by (simp add: refund_split_def Let_def)
qed

lemma refund_rows_Inr:
  assumes "refund_rows rq p rupees rid s db = (Inr r, db')" "find_payment (rq_bookingId rq) db = Some p"
  shows "r = \<lparr>rr_refundId = Some rid, rr_refundAmount = rupees, rr_refundStatus = s, rr_isDuplicate = False\<rparr>"
    "find_payment (rq_bookingId rq) db' = Some (p\<lparr>pm_status := if s = PROCESSED then PaymentStatus.REFUNDED else PaymentStatus.PAID,
       pm_razorpayRefundId := Some rid, pm_refundAmount := Some rupees, pm_refundStatus := s\<rparr>)"
proof -
  let ?p' = "p\<lparr>pm_status := if s = PROCESSED then PaymentStatus.REFUNDED else PaymentStatus.PAID,
       pm_razorpayRefundId := Some rid, pm_refundAmount := Some rupees, pm_refundStatus := s\<rparr>"
  from assms(1) obtain db1 where u: "update_payment ?p' db = Inr db1"
    by (auto simp: refund_rows_def Let_def split: sum.splits)
  from assms(1) u show "r = \<lparr>rr_refundId = Some rid, rr_refundAmount = rupees, rr_refundStatus = s, rr_isDuplicate = False\<rparr>"
    by (simp add: refund_rows_def Let_def)
  have "db_payments db' = db_payments db1" using assms(1) u by (auto simp: refund_rows_def Let_def store_refund_def)
  with update_payment_find [OF assms(2) u] show "find_payment (rq_bookingId rq) db' = Some ?p'" by (simp add: find_payment_def)
qed

lemma refund_wallet_payments:
  "refund_wallet env now newId rq p amount db = (res, db') \<Longrightarrow> db_payments db' = db_payments db"
  by (auto simp: refund_wallet_def Let_def split: if_splits option.splits prod.splits sum.splits)

text \<open>A refund that is carried out.\<close>

lemma refund_executed:
  assumes "refund env now ids rq (db, g) = (Inr r, db', g')" "find_payment (rq_bookingId rq) db = Some p"
    "pm_status p = PaymentStatus.PAID" "0 < rq_paise rq" "\<not> rr_isDuplicate r"
  obtains rid s where "rq_paise rq \<le> in_paise (pm_amount p)"
    "rr_refundId r = Some rid" "rr_refundAmount r = refund_rupees (rq_paise rq)" "rr_refundStatus r = s"
    "find_payment (rq_bookingId rq) db' = Some (p\<lparr>pm_status := if s = PROCESSED then PaymentStatus.REFUNDED else PaymentStatus.PAID,
       pm_razorpayRefundId := Some rid, pm_refundAmount := Some (refund_rupees (rq_paise rq)), pm_refundStatus := s\<rparr>)"
    "let paise = in_paise (fst (refund_split (pm_amount p) (wallet_paid (rq_bookingId rq) db) (refund_rupees (rq_paise rq))))
     in if paise > 0 then gateway_refund env (ri_random ids) p paise (refund_key rq p) g = (Inr (rid, s), g') else g' = g"
proof -
  let ?rupees = "refund_rupees (rq_paise rq)"
  let ?parts = "refund_split (pm_amount p) (wallet_paid (rq_bookingId rq) db) ?rupees"
  from assms have le: "rq_paise rq \<le> in_paise (pm_amount p)"
    by (auto simp: refund_def Let_def not_le split: if_splits option.splits)
  from assms have e: "execute_refund env now ids rq p ?rupees ?parts (db, g) = (Inr r, db', g')"
    by (auto simp: refund_def Let_def not_le split: if_splits option.splits)
  obtain gw wl where parts: "?parts = (gw, wl)" by fastforce
  let ?paise = "in_paise gw"
  let ?call = "if ?paise > 0 then gateway_refund env (ri_random ids) p ?paise (refund_key rq p) g
               else (Inr (''rfnd_wlt_'' @ last_chars 8 (rq_bookingId rq), PROCESSED), g)"
  obtain c g1 where call: "?call = (c, g1)" by fastforce
  from e parts call obtain rid s where c: "c = Inr (rid, s)"
    by (cases c) (auto simp: execute_refund_def Let_def)
  obtain w db1 where w: "refund_wallet env now (ri_wallet ids) rq p wl db = (w, db1)" by fastforce
  from e parts call c w have rows: "refund_rows rq p ?rupees rid s db1 = (Inr r, db')" "g' = g1"
    by (cases w; auto simp: execute_refund_def Let_def split: prod.splits)+
  have find: "find_payment (rq_bookingId rq) db1 = Some p"
    using refund_wallet_payments [OF w] assms(2) by (simp add: find_payment_def)
  note rr = refund_rows_Inr [OF rows(1) find]
  show thesis
    by (rule that [OF le _ _ _ rr(2)]) (use rr(1) call c rows(2) parts in \<open>auto simp: Let_def split: if_splits\<close>)
qed

text \<open>What a credit leaves: one entry, and the balance of the customer's wallet grown by it\<close>

definition wallet_balance :: "id \<Rightarrow> wallet_db \<Rightarrow> rat" where
  "wallet_balance wid wd = (case find_wallet wid wd of Some w \<Rightarrow> w_availableBalance w | None \<Rightarrow> 0)"

definition wallet_credited :: "id \<Rightarrow> id \<Rightarrow> rat \<Rightarrow> wallet_db \<Rightarrow> wallet_db \<Rightarrow> bool" where
  "wallet_credited userId bookingId amount wd wd' \<longleftrightarrow>
     (\<exists>e w'. wd_entries wd' = wd_entries wd @ [e] \<and> we_direction e = LedgerDirection.CREDIT \<and> we_bucket e = REFUND_CREDIT \<and>
        we_amount e = amount \<and> we_referenceId e = Some bookingId \<and> find_wallet (we_walletId e) wd' = Some w' \<and> w_userId w' = userId \<and>
        w_availableBalance w' = round2 (wallet_balance (we_walletId e) wd + amount))"

lemma credit_refund:
  assumes "creditWallet round2 svc now (w_id w) amount type REFUND_CREDIT rt (Some bid) key descr None wd = Inr (e, wd')"
    and "\<forall>x\<in>set (wd_entries wd). we_idempotencyKey x \<noteq> key" "is_cents amount" "find_wallet (w_id w) wd = Some w"
  shows "wd_entries wd' = wd_entries wd @ [e] \<and> we_direction e = LedgerDirection.CREDIT \<and> we_bucket e = REFUND_CREDIT \<and>
    we_amount e = amount \<and> we_referenceId e = Some bid \<and> we_walletId e = w_id w \<and>
    (\<exists>w'. find_wallet (w_id w) wd' = Some w' \<and> w_userId w' = w_userId w \<and> w_availableBalance w' = round2 (w_availableBalance w + amount))"
proof -
  have "List.find (\<lambda>x. we_idempotencyKey x = key) (wd_entries wd) = None" using assms(2) by (simp add: find_None_iff_all)
  then show ?thesis
    using assms(1,3,4)
    by (auto simp: creditWallet_def Let_def bindR_Inr_iff create_wallet_entry_Inr update_wallet_def find_wallet_def round2_exact
        find_update_where_key split: if_splits option.splits)
qed

lemma getOrCreateWallet_found:
  assumes "getOrCreateWallet newId userId wd = (w, wd1)" "distinct (map w_id (wd_wallets wd))" "newId \<notin> w_id ` set (wd_wallets wd)"
  shows "w_userId w = userId" "find_wallet (w_id w) wd1 = Some w" "wd_entries wd1 = wd_entries wd" "wallet_balance (w_id w) wd = w_availableBalance w"
proof -
  let ?f = "List.find (\<lambda>w. w_userId w = userId) (wd_wallets wd)"
  have "w_userId w = userId \<and> find_wallet (w_id w) wd1 = Some w \<and> wd_entries wd1 = wd_entries wd \<and> wallet_balance (w_id w) wd = w_availableBalance w"
  proof (cases ?f)
    case (Some x)
    then have "x \<in> set (wd_wallets wd)" "w_userId x = userId" using find_Some_D by fastforce+
    moreover from this(1) have "find_wallet (w_id x) wd = Some x" unfolding find_wallet_def by (rule find_key_unique [OF assms(2)]) simp
    ultimately show ?thesis using assms(1) Some by (auto simp: getOrCreateWallet_def wallet_balance_def)
  next
    case None
    have "List.find (\<lambda>w. w_id w = newId) (wd_wallets wd) = None" using assms(3) by (auto simp: find_None_iff_all)
    then show ?thesis
      using assms(1) None by (auto simp: getOrCreateWallet_def Let_def find_wallet_def find_append new_wallet_def wallet_balance_def)
  qed
  then show "w_userId w = userId" "find_wallet (w_id w) wd1 = Some w" "wd_entries wd1 = wd_entries wd" "wallet_balance (w_id w) wd = w_availableBalance w"
    by simp_all
qed

lemma refund_wallet_credits:
  assumes "refund_wallet env now newId rq p amount db = (Inr (), db')" "0 < amount" "is_cents amount" "py_wallets env"
    and "find_booking (rq_bookingId rq) db = Some b" "bk_customerId b \<noteq> []"
    and "distinct (map w_id (wd_wallets (db_wallet db)))" "newId \<notin> w_id ` set (wd_wallets (db_wallet db))"
    and "\<forall>x\<in>set (wd_entries (db_wallet db)). we_idempotencyKey x \<noteq> ''refund_wallet_'' @ rq_bookingId rq @ ''_'' @ pm_id p"
  shows "wallet_credited (bk_customerId b) (rq_bookingId rq) amount (db_wallet db) (db_wallet db')"
proof -
  obtain w wd where g: "getOrCreateWallet newId (bk_customerId b) (db_wallet db) = (w, wd)" by fastforce
  note f = getOrCreateWallet_found [OF g assms(7,8)]
  from assms(1,2,4-6) g obtain e wd1 where c: "creditWallet round2 (py_config env) now (w_id w) amount BOOKING_REFUND REFUND_CREDIT ''BOOKING''
       (Some (rq_bookingId rq)) (''refund_wallet_'' @ rq_bookingId rq @ ''_'' @ pm_id p)
       (''Refund for cancelled booking '' @ rq_bookingId rq @ '' ('' @ or_string (rq_tier rq) ''N/A'' @ '')'') None wd = Inr (e, wd1)"
    and w: "db_wallet db' = wd1"
    by (auto simp: refund_wallet_def split: sum.splits prod.splits)
  have "\<forall>x\<in>set (wd_entries wd). we_idempotencyKey x \<noteq> ''refund_wallet_'' @ rq_bookingId rq @ ''_'' @ pm_id p" using assms(9) f(3) by simp
  from credit_refund [OF c this assms(3) f(2)] f show ?thesis unfolding wallet_credited_def w by fastforce
qed

lemma refund_rows_wallet: "refund_rows rq p rupees rid s db = (res, db') \<Longrightarrow> db_wallet db' = db_wallet db"
  by (auto simp: refund_rows_def Let_def update_payment_def store_refund_def recordPaymentAuditLog_def split: sum.splits if_splits)

text \<open>The wallet's part of a refund that is carried out\<close>

lemma refund_executed_wallet:
  assumes "refund env now ids rq (db, g) = (Inr r, db', g')" "find_payment (rq_bookingId rq) db = Some p"
    "pm_status p = PaymentStatus.PAID" "0 < rq_paise rq" "\<not> rr_isDuplicate r"
  obtains db1 where "refund_wallet env now (ri_wallet ids) rq p
      (snd (refund_split (pm_amount p) (wallet_paid (rq_bookingId rq) db) (refund_rupees (rq_paise rq)))) db = (Inr (), db1)"
    "db_wallet db' = db_wallet db1"
proof -
  let ?rupees = "refund_rupees (rq_paise rq)"
  let ?parts = "refund_split (pm_amount p) (wallet_paid (rq_bookingId rq) db) ?rupees"
  from assms have e: "execute_refund env now ids rq p ?rupees ?parts (db, g) = (Inr r, db', g')"
    by (auto simp: refund_def Let_def not_le split: if_splits option.splits)
  obtain gw wl where parts: "?parts = (gw, wl)" by fastforce
  obtain w db1 where w: "refund_wallet env now (ri_wallet ids) rq p wl db = (w, db1)" by fastforce
  from e parts w obtain rid s where "w = Inr ()" "refund_rows rq p ?rupees rid s db1 = (Inr r, db')"
    by (auto simp: execute_refund_def Let_def split: prod.splits sum.splits if_splits)
  with w parts refund_rows_wallet show thesis by (intro that [of db1]) auto
qed

section \<open>An example\<close>

definition demo_pay :: "(string \<times> int) list pay_env" where
  "demo_pay = \<lparr>py_useMock = False, py_wallets = True, py_config = None, py_ledger = True, py_auditLog = True,
     py_runtimeOrder = (\<lambda>_ _. None), py_createOrder = (\<lambda>bid _. Some (''order_'' @ bid)), py_validate = (\<lambda>_ _ _. True),
     py_fetch = (\<lambda>_. Inr (Some (captured_for ''order_b1'' 111912))),
     py_refund = (\<lambda>pid paise key g. (Inr (''rfnd_1'', ''processed''), (pid, paise) # g)), py_refunds = (\<lambda>_ _. Inr [])\<rparr>"

definition unpaid_db :: bk_db where
  "unpaid_db = demo_db\<lparr>db_bookings := [demo_booking\<lparr>bk_status := BookingStatus.PENDING\<rparr>], db_payments := []\<rparr>"

lemma demo_amounts: "in_paise 1119.12 = 111912" "in_paise 500 = 50000"
proof -
  have c: "is_cents 1119.12" using is_cents_div [of 111912] by simp
  have "(of_int (in_paise 1119.12) :: rat) = of_int 111912" using paise_exact [OF c] by (simp add: in_paise_def)
  then show "in_paise 1119.12 = 111912" by (simp only: of_int_eq_iff)
  have "(of_int (in_paise 500) :: rat) = of_int 50000" using paise_exact [of 500] is_cents_of_int [of 500] by (simp add: in_paise_def)
  then show "in_paise 500 = 50000" by (simp only: of_int_eq_iff)
qed

lemma unpaid_booking:
  "find_booking ''b1'' unpaid_db = Some (demo_booking\<lparr>bk_status := BookingStatus.PENDING\<rparr>)"
  "find_deposit ''b1'' unpaid_db = None" "deposit_amount None = 0"
  "booking_money (demo_booking\<lparr>bk_status := BookingStatus.PENDING\<rparr>) 0"
  using demo_money by (simp_all add: find_booking_def find_deposit_def unpaid_db_def demo_db_def demo_booking_def deposit_amount_def booking_money_def)

lemma unpaid_payable: "payable (demo_booking\<lparr>bk_status := BookingStatus.PENDING\<rparr>) unpaid_db = 1119.12"
proof -
  have "bk_id (demo_booking\<lparr>bk_status := BookingStatus.PENDING\<rparr>) = ''b1''" by (simp add: demo_booking_def)
  with payable_exact(1) [of "demo_booking\<lparr>bk_status := BookingStatus.PENDING\<rparr>" unpaid_db] unpaid_booking
  show ?thesis by (simp add: demo_booking_def)
qed

lemma demo_order:
  "\<exists>o' db1. createOrder demo_pay \<lparr>oi_wallet = ''w'', oi_payment = ''p1'', oi_random = ''x''\<rparr> ''b1'' ''cust'' False unpaid_db = (Inr o', db1) \<and>
     or_orderId o' = ''order_b1'' \<and> or_amount o' = 111912"
proof -
  let ?b = "demo_booking\<lparr>bk_status := BookingStatus.PENDING\<rparr>"
  have p: "find_payment ''b1'' unpaid_db = None" "db_payments unpaid_db = []" by (simp_all add: find_payment_def unpaid_db_def)
  have b: "bk_customerId ?b = ''cust''" "bk_status ?b = BookingStatus.PENDING" "bk_quoteTotal ?b = None" "bk_id ?b = ''b1''"
    by (simp_all add: demo_booking_def)
  have "order_checks ''b1'' ''cust'' unpaid_db = Inr ?b" using unpaid_booking(1) p b by (simp add: order_checks_def)
  moreover have "store_order ''p1'' ?b ''order_b1'' 1119.12 (unpaid_db\<lparr>db_wallet := db_wallet unpaid_db\<rparr>) =
      Inr (new_payment ''p1'' ''b1'' ''order_b1'' 1119.12, unpaid_db\<lparr>db_payments := [new_payment ''p1'' ''b1'' ''order_b1'' 1119.12]\<rparr>)"
    using p b by (simp add: store_order_def find_payment_def create_payment_def exists_where_iff Let_def)
  ultimately show ?thesis
    by (simp add: createOrder_def split_order_def unpaid_payable order_id_def demo_pay_def demo_amounts [simplified] Let_def)
qed

lemma demo_verified:
  "\<exists>o' db1 r db2 p. createOrder demo_pay \<lparr>oi_wallet = ''w'', oi_payment = ''p1'', oi_random = ''x''\<rparr> ''b1'' ''cust'' False unpaid_db = (Inr o', db1) \<and>
     verifyPayment demo_pay 5 \<lparr>vi_wallet = ''w'', vi_journal = ''j1''\<rparr> (order_dto ''b1'' ''order_b1'' ''pay_1'' ''s'') ''cust'' db1 = (Inr r, db2) \<and>
     \<not> vr_alreadyPaid r \<and> find_payment ''b1'' db2 = Some p \<and> pm_status p = PaymentStatus.PAID"
proof -
  obtain o' db1 where o': "createOrder demo_pay \<lparr>oi_wallet = ''w'', oi_payment = ''p1'', oi_random = ''x''\<rparr> ''b1'' ''cust'' False unpaid_db = (Inr o', db1)"
     "or_orderId o' = ''order_b1''" "or_amount o' = 111912" using demo_order by blast
  have "bk_netToVendor (demo_booking\<lparr>bk_status := BookingStatus.PENDING\<rparr>) + bk_gstAmount (demo_booking\<lparr>bk_status := BookingStatus.PENDING\<rparr>)
      \<le> bk_totalFare (demo_booking\<lparr>bk_status := BookingStatus.PENDING\<rparr>)"
    "\<not> str_truthy (bk_couponId (demo_booking\<lparr>bk_status := BookingStatus.PENDING\<rparr>))" by (simp_all add: demo_booking_def)
  note x = this
  have "\<exists>r db2 p. verifyPayment demo_pay 5 \<lparr>vi_wallet = ''w'', vi_journal = ''j1''\<rparr> (order_dto ''b1'' (or_orderId o') ''pay_1'' ''s'') ''cust'' db1 = (Inr r, db2) \<and>
     \<not> vr_alreadyPaid r \<and> find_payment ''b1'' db2 = Some p \<and> pm_status p = PaymentStatus.PAID"
    by (rule order_pays [OF o'(1) _ unpaid_booking(1)])
      (use unpaid_booking unpaid_payable x o' in \<open>simp_all add: demo_pay_def starts_with_def WALLET_ORDER_def keys_free_def unpaid_db_def demo_db_def\<close>)
  with o' show ?thesis by auto
qed

definition demo_refund :: refund_request where
  "demo_refund = \<lparr>rq_bookingId = ''b1'', rq_paise = 50000, rq_reason = None, rq_tier = None, rq_key = None, rq_userId = None\<rparr>"

definition demo_refund_ids :: refund_ids where "demo_refund_ids = \<lparr>ri_wallet = ''w'', ri_random = ''x''\<rparr>"

lemma demo_refunded_beside:
  assumes "\<And>q. q \<in> set rs \<Longrightarrow> rf_idempotencyKey q \<noteq> refund_key demo_refund demo_payment"
  shows "\<exists>db'. refund demo_pay 5 demo_refund_ids demo_refund (demo_db\<lparr>db_refunds := rs\<rparr>, []) =
     (Inr \<lparr>rr_refundId = Some ''rfnd_1'', rr_refundAmount = 500, rr_refundStatus = PROCESSED, rr_isDuplicate = False\<rparr>, db', [(''pay_1'', 50000)])"
proof -
  let ?db = "demo_db\<lparr>db_refunds := rs\<rparr>"
  have p: "find_payment ''b1'' ?db = Some demo_payment" "db_refunds ?db = rs" "db_payments ?db = [demo_payment]"
    "pm_status demo_payment = PaymentStatus.PAID" "pm_razorpayPaymentId demo_payment = Some ''pay_1''" "pm_bookingId demo_payment = ''b1''"
    by (simp_all add: find_payment_def demo_db_def demo_payment_def)
  have w: "wallet_paid ''b1'' ?db = 0" by (simp add: wallet_paid_def demo_db_def)
  have r: "refund_rupees 50000 = 500" using refund_rupees_exact [of 50000] by simp
  have s: "refund_split (pm_amount demo_payment) 0 500 = (500, 0)" "in_paise (pm_amount demo_payment) = 111912"
    using refund_split_exact [of "1119.12" 0 500] is_cents_div [of 111912] is_cents_of_int [of 500] demo_amounts
    by (simp_all add: demo_payment_def)
  have g: "gateway_refund demo_pay ''x'' demo_payment 50000 (refund_key demo_refund demo_payment) [] = (Inr (''rfnd_1'', PROCESSED), [(''pay_1'', 50000)])"
    using p by (simp add: gateway_refund_def demo_pay_def refund_status_of_def)
  have u: "\<exists>db1. update_payment (demo_payment\<lparr>pm_status := PaymentStatus.REFUNDED, pm_razorpayRefundId := Some ''rfnd_1'',
       pm_refundAmount := Some 500, pm_refundStatus := PROCESSED\<rparr>) ?db = Inr db1"
    using p by (simp add: update_payment_def exists_where_def payment_clash_def)
  then obtain db1 where "update_payment (demo_payment\<lparr>pm_status := PaymentStatus.REFUNDED, pm_razorpayRefundId := Some ''rfnd_1'',
       pm_refundAmount := Some 500, pm_refundStatus := PROCESSED\<rparr>) ?db = Inr db1" ..
  then obtain db2 where rows: "refund_rows demo_refund demo_payment 500 ''rfnd_1'' PROCESSED ?db =
      (Inr \<lparr>rr_refundId = Some ''rfnd_1'', rr_refundAmount = 500, rr_refundStatus = PROCESSED, rr_isDuplicate = False\<rparr>, db2)"
    by (simp add: refund_rows_def Let_def)
  have q: "rq_bookingId demo_refund = ''b1''" "rq_paise demo_refund = 50000" "ri_random demo_refund_ids = ''x''"
    by (simp_all add: demo_refund_def demo_refund_ids_def)
  have "refund_wallet demo_pay 5 (ri_wallet demo_refund_ids) demo_refund demo_payment 0 ?db = (Inr (), ?db)"
    by (simp add: refund_wallet_def)
  then have "execute_refund demo_pay 5 demo_refund_ids demo_refund demo_payment 500 (500, 0) (demo_db\<lparr>db_refunds := rs\<rparr>, []) =
      (Inr \<lparr>rr_refundId = Some ''rfnd_1'', rr_refundAmount = 500, rr_refundStatus = PROCESSED, rr_isDuplicate = False\<rparr>, db2, [(''pay_1'', 50000)])"
    using g rows q demo_amounts(2) by (simp add: execute_refund_def Let_def)
  moreover have "List.find (\<lambda>r. rf_idempotencyKey r = refund_key demo_refund demo_payment) rs = None" using assms by (simp add: find_None_iff_all)
  ultimately show ?thesis using p w r s q by (simp add: refund_def Let_def)
qed

lemma demo_refunded:
  "\<exists>db'. refund demo_pay 5 demo_refund_ids demo_refund (demo_db, []) =
     (Inr \<lparr>rr_refundId = Some ''rfnd_1'', rr_refundAmount = 500, rr_refundStatus = PROCESSED, rr_isDuplicate = False\<rparr>, db', [(''pay_1'', 50000)])"
  using demo_refunded_beside [of "[]"] by (simp add: demo_db_def)


text \<open>Requests for refunds, of whatever bookings, one after another\<close>

type_synonym 'g refund_call = "'g pay_env \<times> time \<times> refund_ids \<times> refund_request"

definition call_refund :: "'g refund_call \<Rightarrow> bk_db \<times> 'g \<Rightarrow> bk_db \<times> 'g" where
  "call_refund c st = (case c of (env, now, ids, rq) \<Rightarrow> snd (refund env now ids rq st))"

lemma update_payment_other:
  assumes "update_payment p' db = Inr db'" "distinct (map pm_id (db_payments db))" "p \<in> set (db_payments db)"
    and "pm_id p' = pm_id p" "pm_bookingId p' = pm_bookingId p" "pm_bookingId p \<noteq> bid"
  shows "find_payment bid db' = find_payment bid db"
proof -
  have pay: "db_payments db' = update_where (\<lambda>q. pm_id q = pm_id p') (\<lambda>_. p') (db_payments db)"
    using assms(1) by (auto simp: update_payment_def split: if_splits)
  have f: "List.find (\<lambda>q. pm_bookingId q = bid) (update_where (\<lambda>q. pm_id q = pm_id p') (\<lambda>_. p') ps) = List.find (\<lambda>q. pm_bookingId q = bid) ps"
    if "\<forall>q\<in>set ps. pm_id q = pm_id p' \<longrightarrow> q = p" for ps
    using that assms(5,6) by (induction ps) auto
  have "\<forall>q\<in>set (db_payments db). pm_id q = pm_id p' \<longrightarrow> q = p"
    using assms(2-4) by (metis distinct_map inj_on_def)
  with f pay show ?thesis by (simp add: find_payment_def)
qed

lemma update_payment_ids: "update_payment p' db = Inr db' \<Longrightarrow> map pm_id (db_payments db') = map pm_id (db_payments db)"
  by (auto simp: update_payment_def update_where_def split: if_splits)

text \<open>What a refund does to the payments: nothing, or one update of the payment of its booking\<close>

lemma refund_updates:
  assumes "refund env now ids rq (db, g) = (res, db', g')"
  obtains (same) "db_payments db' = db_payments db"
  | (updated) p p' db1 db2 where "find_payment (rq_bookingId rq) db = Some p" "update_payment p' db1 = Inr db2"
      "db_payments db1 = db_payments db" "db_payments db' = db_payments db2" "pm_id p' = pm_id p" "pm_bookingId p' = pm_bookingId p"
proof (cases "db_payments db' = db_payments db")
  case False
  with assms obtain p where p: "find_payment (rq_bookingId rq) db = Some p"
    by (auto simp: refund_def split: option.splits)
  show thesis
  proof (cases "rq_paise rq \<le> 0")
    case True
    with assms p False have "update_payment (p\<lparr>pm_refundAmount := Some 0, pm_refundStatus := RefundStatus.NONE\<rparr>) db = Inr db'"
      by (auto simp: refund_def split: if_splits sum.splits)
    then show thesis by (rule updated [OF p]) simp_all
  next
    case pos: False
    let ?parts = "refund_split (pm_amount p) (wallet_paid (rq_bookingId rq) db) (refund_rupees (rq_paise rq))"
    from assms p False pos have "execute_refund env now ids rq p (refund_rupees (rq_paise rq)) ?parts (db, g) = (res, db', g')"
      by (auto simp: refund_def Let_def split: if_splits option.splits)
    moreover obtain gw wl where "?parts = (gw, wl)" by fastforce
    moreover obtain w dbw where w: "refund_wallet env now (ri_wallet ids) rq p wl db = (w, dbw)" by fastforce
    ultimately obtain rid s where rows: "refund_rows rq p (refund_rupees (rq_paise rq)) rid s dbw = (res, db')"
      using False refund_wallet_payments [OF w] by (auto simp: execute_refund_def Let_def split: prod.splits sum.splits if_splits)
    let ?p' = "p\<lparr>pm_status := if s = PROCESSED then PaymentStatus.REFUNDED else PaymentStatus.PAID, pm_razorpayRefundId := Some rid,
       pm_refundAmount := Some (refund_rupees (rq_paise rq)), pm_refundStatus := s\<rparr>"
    from rows False refund_wallet_payments [OF w] obtain db2 where "update_payment ?p' dbw = Inr db2" "db_payments db' = db_payments db2"
      by (auto simp: refund_rows_def Let_def store_refund_def recordPaymentAuditLog_def split: sum.splits if_splits)
    then show thesis by (rule updated [OF p _ refund_wallet_payments [OF w]]) simp_all
  qed
qed (rule same)

lemma refund_ids: "refund env now ids rq (db, g) = (res, db', g') \<Longrightarrow> map pm_id (db_payments db') = map pm_id (db_payments db)"
  by (erule refund_updates) (auto dest: update_payment_ids)

lemma refund_other:
  assumes "refund env now ids rq (db, g) = (res, db', g')" "rq_bookingId rq \<noteq> bid" "distinct (map pm_id (db_payments db))"
  shows "find_payment bid db' = find_payment bid db"
  using assms(1)
proof (cases rule: refund_updates)
  case same
  then show ?thesis by (simp add: find_payment_def)
next
  case (updated p p' db1 db2)
  from find_paymentD [OF updated(1)] assms(2) have m: "p \<in> set (db_payments db1)" "pm_bookingId p \<noteq> bid" using updated(3) by auto
  have "find_payment bid db2 = find_payment bid db1"
    by (rule update_payment_other [OF updated(2) _ m(1) updated(5,6) m(2)]) (use assms(3) updated(3) in simp)
  then show ?thesis using updated(3,4) by (simp add: find_payment_def)
qed

text \<open>A payment that is no longer PAID is skipped by every refund, and stays as it is.\<close>

lemma refunds_skip:
  assumes "find_payment bid (fst st) = Some p" "pm_status p \<noteq> PaymentStatus.PAID" "distinct (map pm_id (db_payments (fst st)))"
  shows "find_payment bid (fst (fold call_refund cs st)) = Some p"
  using assms
proof (induction cs arbitrary: st)
  case (Cons c cs)
  obtain env now ids rq where c: "c = (env, now, ids, rq)" by (metis prod_cases4)
  obtain db g where st: "st = (db, g)" by fastforce
  obtain res db' g' where r: "refund env now ids rq (db, g) = (res, db', g')" by (metis prod_cases3)
  then have s: "call_refund c st = (db', g')" by (simp add: call_refund_def c st)
  have "find_payment bid db' = Some p \<and> distinct (map pm_id (db_payments db'))"
  proof (cases "rq_bookingId rq = bid")
    case True
    with r Cons.prems st show ?thesis by (auto simp: refund_def)
  next
    case False
    with refund_other [OF r] refund_ids [OF r] Cons.prems st show ?thesis by simp
  qed
  with Cons.IH [of "(db', g')"] Cons.prems(2) s show ?case by simp
qed simp


text \<open>
  What a first, partial refund left cannot be refunded. The refund marks the payment REFUNDED
  whatever its amount, so a second one, which the administrator's checks let through for the rest, is
  skipped; the call answers with success and only writes the administrator's audit row.
\<close>

theorem admin_refund_of_the_rest_is_skipped:
  assumes "find_payment bid db = Some p" and "pm_status p = PaymentStatus.REFUNDED" and "pm_refundAmount p = Some x"
    and "is_cents (pm_amount p)" "is_cents x" "0 < x" "x < pm_amount p" "pm_amount p < 10000000000"
    and "ar_amountInPaise dto = None"
  shows "\<exists>r. adminRefund env now ids bid dto userId Role.ADMIN (db, g) =
     (Inr r,
      (if py_auditLog env then db\<lparr>db_audit := db_audit db @ [(userId, ''ADMIN_PAYMENT_REFUND'', ''Payment'', pm_id p)]\<rparr> else db), g) \<and>
     rr_refundAmount r = x"
proof -
  have c: "is_cents (pm_amount p - x)" using assms(4,5) by (rule is_cents_diff)
  have d: "dec20 (pm_amount p - x) = pm_amount p - x" by (rule dec20_small [OF c]) (use assms(6-8) in linarith)+
  have "admin_refund_paise dto Role.ADMIN (find_payment bid db) = Inr (p, in_paise (pm_amount p - x))"
    using assms(1-3,6,7,9) d by (simp add: admin_refund_paise_def Let_def)
  then show ?thesis using assms(1-3) by (simp add: adminRefund_def refund_def)
qed

section \<open>The properties at the example\<close>

lemma order_can_be_paid_witness:
  "\<exists>o' db1 r db2 p. createOrder demo_pay \<lparr>oi_wallet = ''w'', oi_payment = ''p1'', oi_random = ''x''\<rparr> ''b1'' ''cust'' False unpaid_db = (Inr o', db1) \<and>
     verifyPayment demo_pay 5 \<lparr>vi_wallet = ''w'', vi_journal = ''j1''\<rparr> (order_dto ''b1'' (or_orderId o') ''pay_1'' ''s'') ''cust'' db1 = (Inr r, db2) \<and>
     find_payment ''b1'' db2 = Some p \<and> pm_status p = PaymentStatus.PAID"
proof -
  let ?b = "demo_booking\<lparr>bk_status := BookingStatus.PENDING\<rparr>"
  obtain o' db1 where o': "createOrder demo_pay \<lparr>oi_wallet = ''w'', oi_payment = ''p1'', oi_random = ''x''\<rparr> ''b1'' ''cust'' False unpaid_db = (Inr o', db1)"
     "or_orderId o' = ''order_b1''" "or_amount o' = 111912" using demo_order by blast
  have x: "bk_netToVendor ?b + bk_gstAmount ?b \<le> bk_totalFare ?b" "\<not> str_truthy (bk_couponId ?b)" by (simp_all add: demo_booking_def)
  have "\<exists>r db2 p. verifyPayment demo_pay 5 \<lparr>vi_wallet = ''w'', vi_journal = ''j1''\<rparr> (order_dto ''b1'' (or_orderId o') ''pay_1'' ''s'') ''cust'' db1 = (Inr r, db2) \<and>
     \<not> vr_alreadyPaid r \<and> find_payment ''b1'' db2 = Some p \<and> pm_status p = PaymentStatus.PAID"
    by (rule order_can_be_paid [OF o'(1) _ unpaid_booking(1)])
      (use unpaid_booking unpaid_payable x o' in \<open>simp_all add: demo_pay_def starts_with_def WALLET_ORDER_def keys_free_def unpaid_db_def demo_db_def\<close>)
  with o'(1) show ?thesis by blast
qed

lemma verified_payment_is_covered_witness:
  "\<exists>db1 r db2 (gateway::rat) wallet. verifyPayment demo_pay 5 \<lparr>vi_wallet = ''w'', vi_journal = ''j1''\<rparr> (order_dto ''b1'' ''order_b1'' ''pay_1'' ''s'') ''cust'' db1 = (Inr r, db2) \<and>
     gateway + wallet = 1119.12"
proof -
  let ?b = "demo_booking\<lparr>bk_status := BookingStatus.PENDING\<rparr>"
  let ?dto = "order_dto ''b1'' ''order_b1'' ''pay_1'' ''s''"
  obtain o' db1 r db2 where v: "createOrder demo_pay \<lparr>oi_wallet = ''w'', oi_payment = ''p1'', oi_random = ''x''\<rparr> ''b1'' ''cust'' False unpaid_db = (Inr o', db1)"
    "verifyPayment demo_pay 5 \<lparr>vi_wallet = ''w'', vi_journal = ''j1''\<rparr> ?dto ''cust'' db1 = (Inr r, db2)" "\<not> vr_alreadyPaid r"
    using demo_verified by blast
  obtain ps log where db1: "db1 = unpaid_db\<lparr>db_payments := ps, db_paymentAudit := log\<rparr>"
    by (rule createOrder_gateway [OF v(1) unpaid_booking(1)]) (use unpaid_payable that in auto)
  have b: "bk_id ?b = ''b1''" "bk_totalFare ?b = 1119.12" "vp_bookingId ?dto = ''b1''" by (simp_all add: demo_booking_def order_dto_def)
  have f: "find_booking ''b1'' db1 = Some ?b" "find_deposit ''b1'' db1 = None" "wd_entries (db_wallet db1) = []"
    using unpaid_booking(1,2) db1 by (simp_all add: find_booking_def find_deposit_def unpaid_db_def demo_db_def)
  have "gateway_amounts_ok demo_pay" by (auto simp: gateway_amounts_ok_def demo_pay_def captured_for_def intro: exI [of _ 111912])
  moreover have "\<not> py_useMock demo_pay" by (simp add: demo_pay_def)
  moreover have "booking_money ?b (deposit_amount (find_deposit (bk_id ?b) db1))" using unpaid_booking(3,4) f(2) b(1) by simp
  ultimately have "\<exists>gateway wallet. gateway + wallet = bk_totalFare ?b + deposit_amount (find_deposit (bk_id ?b) db1)"
    using verified_payment_is_covered [OF v(2,3), of ?b] f b by auto
  then obtain gateway wallet :: rat where "gateway + wallet = bk_totalFare ?b + deposit_amount (find_deposit (bk_id ?b) db1)" by blast
  moreover have "bk_totalFare ?b + deposit_amount (find_deposit (bk_id ?b) db1) = 1119.12" unfolding b f(2) unpaid_booking(3) by simp
  ultimately show ?thesis using v(2) by metis
qed

lemma payment_then_full_refund_balances_witness:
  "\<exists>r L1 L2.
    recordJournal dec20 round2 0 ''j0'' (payment_journal demo_booking demo_payment 0 1119.12 919.12 200 False) [] = Inr (r, L1) \<and>
    post_refund_journals dec20 round2 1 ''j1'' ''j2'' demo_booking demo_payment None 1119.12 JNull L1 = Inr L2 \<and>
    getAccountBalance CUSTOMER_WALLET None L2 = - 200 \<and> getAccountBalance GATEWAY_CLEARING None L2 = - 200 \<and>
    getAccountBalance VENDOR_PAYABLE None L2 = 0"
proof -
  have d: "deposit_amount None = 0" "bk_totalFare demo_booking = 1119.12" by (simp_all add: deposit_amount_def demo_booking_def)
  have "paid_by demo_booking (deposit_amount None) 919.12 200"
    using demo_money is_cents_div [of 91912] is_cents_of_int [of 200] by (simp add: paid_by_def d)
  moreover have "\<not> is_corporate demo_booking demo_payment" "bk_customerId demo_booking \<noteq> []"
    by (simp_all add: is_corporate_def demo_payment_def demo_booking_def)
  moreover have z: "getAccountBalance t ent [] = 0" for t ent by (simp add: getAccountBalance_signed)
  ultimately show ?thesis
    using payment_then_full_refund_balances [of demo_booking None "919.12" 200 demo_payment False "[]" JNull 0 "''j0''" 1 "''j1''" "''j2''"]
      demo_net d by (auto simp: keys_free_def)
qed



lemma admin_refund_of_the_rest_is_skipped_witness:
  "\<exists>r db'. adminRefund demo_pay 5 demo_refund_ids ''b1'' \<lparr>ar_amountInPaise = None, ar_reason = ''r'', ar_idempotencyKey = None\<rparr> ''admin'' Role.ADMIN
     (demo_db\<lparr>db_payments := [demo_payment\<lparr>pm_status := PaymentStatus.REFUNDED, pm_refundAmount := Some 100\<rparr>]\<rparr>, []) = (Inr r, db', []) \<and>
     rr_refundAmount r = 100"
proof -
  let ?p = "demo_payment\<lparr>pm_status := PaymentStatus.REFUNDED, pm_refundAmount := Some 100\<rparr>"
  have "find_payment ''b1'' (demo_db\<lparr>db_payments := [?p]\<rparr>) = Some ?p" by (simp add: find_payment_def demo_payment_def)
  note f = this
  have c: "is_cents (pm_amount ?p)" "is_cents 100" "100 < pm_amount ?p" "pm_amount ?p < 10000000000"
    using is_cents_div [of 111912] is_cents_of_int [of 100] by (simp_all add: demo_payment_def)
  show ?thesis
    using admin_refund_of_the_rest_is_skipped [OF f _ _ c(1,2) _ c(3,4), of "\<lparr>ar_amountInPaise = None, ar_reason = ''r'', ar_idempotencyKey = None\<rparr>"
        demo_pay 5 demo_refund_ids "''admin''" "[]"] by fastforce
qed

end
