(* ===== verification/LifecycleFacts.thy ===== *)
theory LifecycleFacts
  imports Lifecycle PaymentFacts
begin

text \<open>
  What the operations of a transition leave as it is, when a transition succeeds, and the properties
  of the booking life cycle.
\<close>

section \<open>Frames\<close>

text \<open>The tables a refund does not write.\<close>

definition kept where
  "kept db = (db_bookings db, db_deposits db, db_cars db, db_inspections db, db_claims db, db_blocks db,
     db_vehicleAudit db, db_fulfillment db, db_outbox db, db_otps db, db_audit db, db_ledger db)"

lemma kept_simps [simp]:
  "kept (db\<lparr>db_payments := x\<rparr>) = kept db" "kept (db\<lparr>db_refunds := r\<rparr>) = kept db"
  "kept (db\<lparr>db_paymentAudit := a\<rparr>) = kept db" "kept (db\<lparr>db_wallet := w\<rparr>) = kept db"
  by (simp_all add: kept_def)

lemma keptD:
  assumes "kept db' = kept db"
  shows "db_bookings db' = db_bookings db" "db_outbox db' = db_outbox db" "db_cars db' = db_cars db"
    "db_deposits db' = db_deposits db" "db_ledger db' = db_ledger db" "db_blocks db' = db_blocks db"
  using assms by (simp_all add: kept_def)

lemma update_payment_kept: "update_payment p db = Inr db' \<Longrightarrow> kept db' = kept db \<and> db_refunds db' = db_refunds db"
  by (auto simp: update_payment_def split: if_splits)

lemma audit_log_kept [simp]:
  "kept (recordPaymentAuditLog a db) = kept db" "db_refunds (recordPaymentAuditLog a db) = db_refunds db"
  "db_payments (recordPaymentAuditLog a db) = db_payments db" "db_wallet (recordPaymentAuditLog a db) = db_wallet db"
  by (simp_all add: recordPaymentAuditLog_def)

lemma store_refund_kept [simp]:
  "kept (store_refund r db) = kept db" "db_payments (store_refund r db) = db_payments db"
  "db_wallet (store_refund r db) = db_wallet db"
  by (simp_all add: store_refund_def)

lemma unique_refund_ids_append:
  "unique_refund_ids (rs @ [r]) \<longleftrightarrow> unique_refund_ids rs \<and> (\<forall>q\<in>set rs. \<not> same_id (rf_gatewayRefundId q) (rf_gatewayRefundId r))"
proof (cases "rf_gatewayRefundId r")
  case (Some i)
  then have "\<not> same_id (rf_gatewayRefundId q) (rf_gatewayRefundId r) \<longleftrightarrow> Some i \<noteq> rf_gatewayRefundId q" for q
    by (auto simp: same_id_def)
  with Some show ?thesis by (auto simp: unique_refund_ids_def)
qed (auto simp: unique_refund_ids_def same_id_def)

lemma store_refund_unique: "unique_refund_ids (db_refunds db) \<Longrightarrow> unique_refund_ids (db_refunds (store_refund r db))"
  by (auto simp: store_refund_def unique_refund_ids_append exists_where_iff)

lemma refund_wallet_kept:
  "refund_wallet env now newId rq p amount db = (res, db') \<Longrightarrow> kept db' = kept db \<and> db_refunds db' = db_refunds db"
  by (auto simp: refund_wallet_def Let_def split: if_splits option.splits prod.splits sum.splits)

lemma refund_rows_kept:
  assumes "refund_rows rq p rupees rid s db = (res, db')"
  shows "kept db' = kept db" "unique_refund_ids (db_refunds db) \<Longrightarrow> unique_refund_ids (db_refunds db')"
  using assms
  by (auto simp: refund_rows_def Let_def split: sum.splits dest!: update_payment_kept intro!: store_refund_unique)

lemma execute_refund_kept:
  assumes "execute_refund env now ids rq p rupees parts (db, g) = (res, db', g')"
  shows "kept db' = kept db" "unique_refund_ids (db_refunds db) \<Longrightarrow> unique_refund_ids (db_refunds db')"
  using assms
  by (auto simp: execute_refund_def Let_def split: sum.splits prod.splits if_splits
      dest!: refund_wallet_kept dest: refund_rows_kept)

lemma refund_kept:
  assumes "refund env now ids rq (db, g) = (res, db', g')"
  shows "kept db' = kept db" "unique_refund_ids (db_refunds db) \<Longrightarrow> unique_refund_ids (db_refunds db')"
  using assms
  by (auto simp: refund_def Let_def split: option.splits if_splits sum.splits
      dest!: update_payment_kept dest: execute_refund_kept)

lemma mark_retryable_Inr:
  assumes "unique_refund_ids (db_refunds db)"
  shows "mark_retryable bid e db =
    Inr (db\<lparr>db_refunds := update_where (\<lambda>r. rf_bookingId r = bid \<and> rf_status r = RefundStatus.PENDING)
      (\<lambda>q. q\<lparr>rf_status := RETRYABLE,
             rf_failureReason := Some (if exn_message e = [] then ''Gateway refund execution error'' else exn_message e)\<rparr>)
      (db_refunds db)\<rparr>)"
  using assms by (simp add: mark_retryable_def settle_refunds_def Let_def unique_refund_ids_def update_where_map_key)

lemma mark_retryable_unique:
  assumes "unique_refund_ids (db_refunds db)" "mark_retryable bid e db = Inr db'"
  shows "kept db' = kept db" "unique_refund_ids (db_refunds db')"
  using assms by (auto simp: mark_retryable_def settle_refunds_def Let_def split: if_splits)

lemma settle_refunds_unique:
  assumes "settle_refunds bid f db = Inr db'"
  shows "kept db' = kept db" "unique_refund_ids (db_refunds db')"
  using assms by (auto simp: settle_refunds_def Let_def split: if_splits)

lemma dispatch_refund_total:
  assumes u: "unique_refund_ids (db_refunds db)" and d: "dispatch_refund sv now ids ctx calc (db, g) = (res, db', g')"
  shows "res = Inr () \<and> kept db' = kept db \<and> unique_refund_ids (db_refunds db')"
proof (cases calc)
  case None
  with u d show ?thesis by (simp add: dispatch_refund_def)
next
  case (Some c)
  let ?rq = "\<lparr>rq_bookingId = tc_bookingId ctx, rq_paise = cr_refundAmountInPaise c, rq_reason = tc_reason ctx,
    rq_tier = (if truthy (Some (cr_tier c)) then Some (json_text (cr_tier c)) else None), rq_key = None, rq_userId = None\<rparr>"
  obtain r db1 g1 where r: "refund (sv_pay sv) now (fi_refund ids) ?rq (db, g) = (r, db1, g1)" by (metis prod_cases3)
  note k = refund_kept(1) [OF r] and u1 = refund_kept(2) [OF r u]
  show ?thesis
  proof (cases "cr_refundAmountInPaise c > 0")
    case False
    with Some u d show ?thesis by (simp add: dispatch_refund_def)
  next
    case True
    show ?thesis
    proof (cases r)
      case (Inl e)
      with d Some True r u1 have "res = Inr () \<and> mark_retryable (tc_bookingId ctx) e db1 = Inr db'"
        by (simp add: dispatch_refund_def mark_retryable_Inr)
      with mark_retryable_unique [OF u1] k show ?thesis by auto
    next
      case (Inr x)
      let ?s = "settle_refunds (tc_bookingId ctx)
         (\<lambda>q. q\<lparr>rf_status := PROCESSED, rf_gatewayRefundId := or_str (rr_refundId x) (rf_gatewayRefundId q),
                rf_processedAmount := Some (rr_refundAmount x)\<rparr>) db1"
      show ?thesis
      proof (cases ?s)
        case (Inl e)
        with d Some True r u1 \<open>r = Inr x\<close> have "res = Inr () \<and> mark_retryable (tc_bookingId ctx) e db1 = Inr db'"
          by (simp add: dispatch_refund_def mark_retryable_Inr)
        with mark_retryable_unique [OF u1] k show ?thesis by auto
      next
        case (Inr db2)
        with d Some True r \<open>r = Inr x\<close> have "res = Inr () \<and> db' = db2" by (simp add: dispatch_refund_def)
        with settle_refunds_unique [OF Inr] k show ?thesis by auto
      qed
    qed
  qed
qed

lemma otp_or_override_frame:
  "otp_or_override sv now bid type role reason otp db = (res, db') \<Longrightarrow> \<exists>o'. db' = db\<lparr>db_otps := o'\<rparr>"
  by (auto simp: otp_or_override_def verifyOtp_def otp_commit_def Let_def
      split: if_splits prod.splits sum.splits intro: exI [of _ "db_otps db"])

lemma preconditions_frame:
  "validateBusinessPreconditions sv now v target role reason otp db = (res, db') \<Longrightarrow> \<exists>o'. db' = db\<lparr>db_otps := o'\<rparr>"
  by (auto simp: validateBusinessPreconditions_def Let_def
      split: if_splits sum.splits dest: otp_or_override_frame intro: exI [of _ "db_otps db"])

lemma prepare_frame:
  "prepare_transition sv now ctx v db = (res, db') \<Longrightarrow> \<exists>o'. db' = db\<lparr>db_otps := o'\<rparr>"
  by (auto simp: prepare_transition_def split: sum.splits prod.splits dest!: preconditions_frame intro: exI [of _ "db_otps db"])

section \<open>The effect of a commit\<close>

lemma vehicle_audit_frame [simp]:
  "db_bookings (vehicle_audit v ctx a s r db) = db_bookings db" "db_outbox (vehicle_audit v ctx a s r db) = db_outbox db"
  "db_refunds (vehicle_audit v ctx a s r db) = db_refunds db"
  by (simp_all add: vehicle_audit_def)

lemma fleet_frame [simp]:
  "db_bookings (fleet_integrity now newId v ctx db) = db_bookings db" "db_outbox (fleet_integrity now newId v ctx db) = db_outbox db"
  "db_refunds (fleet_integrity now newId v ctx db) = db_refunds db"
  by (simp_all add: fleet_integrity_def finish_rental_def set_car_service_def Let_def split: BookingStatus.split)

lemma fulfillment_frame [simp]:
  "db_bookings (fulfillment_sync v ctx db) = db_bookings db" "db_outbox (fulfillment_sync v ctx db) = db_outbox db"
  "db_refunds (fulfillment_sync v ctx db) = db_refunds db"
  by (simp_all add: fulfillment_sync_def set_stage_def Let_def)

lemma cancel_deposit_frame [simp]:
  "db_bookings (cancel_deposit now bid db) = db_bookings db" "db_outbox (cancel_deposit now bid db) = db_outbox db"
  "db_refunds (cancel_deposit now bid db) = db_refunds db"
  by (simp_all add: cancel_deposit_def)

lemma refund_intent_frame:
  "refund_intent sv now ids v ctx calc db = Inr db' \<Longrightarrow>
   db_bookings db' = db_bookings db \<and> db_outbox db' = db_outbox db \<and>
   (unique_refund_ids (db_refunds db) \<longrightarrow> unique_refund_ids (db_refunds db'))"
  by (auto simp: refund_intent_def create_refund_def bindR_Inr_iff Let_def refund_row_def unique_refund_ids_append same_id_def
      split: if_splits option.splits)

text \<open>The columns of a booking that decide which car it takes and when.\<close>

definition same_trip :: "Booking \<Rightarrow> Booking \<Rightarrow> bool" where
  "same_trip a b \<longleftrightarrow> bk_id a = bk_id b \<and> bk_carId a = bk_carId b \<and> bk_startDate a = bk_startDate b \<and>
     bk_endDate a = bk_endDate b \<and> bk_customerId a = bk_customerId b \<and> bk_vendorUserId a = bk_vendorUserId b"

lemma apply_transition_facts:
  "bk_status (apply_transition now ctx calc b) = tc_targetStatus ctx" "same_trip (apply_transition now ctx calc b) b"
  by (simp_all add: apply_transition_def same_trip_def Let_def split: option.split)

lemma update_where_twice:
  "(\<And>r. p (f r) = p r) \<Longrightarrow> update_where p g (update_where p f t) = update_where p (\<lambda>r. g (f r)) t"
  by (induction t) auto

lemma commission_effect:
  "\<exists>F. db_bookings (commission_snapshot sv v ctx db) = update_where (\<lambda>b. bk_id b = tc_bookingId ctx) F (db_bookings db) \<and>
       (\<forall>b. bk_status (F b) = bk_status b \<and> same_trip (F b) b) \<and>
       db_outbox (commission_snapshot sv v ctx db) = db_outbox db \<and> db_refunds (commission_snapshot sv v ctx db) = db_refunds db"
proof -
  have i: "update_where p (\<lambda>b. b) t = t" for p :: "Booking \<Rightarrow> bool" and t by (induction t) auto
  show ?thesis
  proof (cases "sv_commission sv")
    case None
    then show ?thesis using i by (intro exI [of _ "\<lambda>b. b"]) (simp add: commission_snapshot_def same_trip_def)
  next
    case (Some rules)
    then show ?thesis
      using i
      by (cases "tc_targetStatus ctx = BookingStatus.CONFIRMED")
        (force simp: commission_snapshot_def update_booking_def same_trip_def,
         intro exI [of _ "\<lambda>b. b"], simp add: commission_snapshot_def same_trip_def)
  qed
qed

lemma commit_effect:
  assumes "commit_transition sv now ids ctx v calc db = Inr db'"
  obtains F where
    "\<exists>b\<in>set (db_bookings db). bk_id b = tc_bookingId ctx \<and> bk_status b = bk_status (vw_booking v)"
    "db_bookings db' = update_where (\<lambda>b. bk_id b = tc_bookingId ctx) F (db_bookings db)"
    "\<And>b. bk_status (F b) = tc_targetStatus ctx" "\<And>b. same_trip (F b) b"
    "db_outbox db' = db_outbox db @ [transition_event now ids v ctx calc]"
    "unique_refund_ids (db_refunds db) \<Longrightarrow> unique_refund_ids (db_refunds db')"
proof -
  let ?p = "\<lambda>b. bk_id b = tc_bookingId ctx" and ?f = "apply_transition now ctx calc"
  let ?c = "\<lambda>db1. if tc_targetStatus ctx = BookingStatus.CANCELLED \<and> vw_deposit v \<noteq> None
      then cancel_deposit now (tc_bookingId ctx) db1 else db1"
  from assms obtain db1 db3 where g: "guarded_update now ctx (bk_status (vw_booking v)) calc db = Inr db1"
    and k: "(case calc of Some r \<Rightarrow> refund_intent sv now ids v ctx r (?c db1) | None \<Rightarrow> Inr (?c db1)) = Inr db3"
    and e: "create_event (transition_event now ids v ctx calc)
       (commission_snapshot sv v ctx (fulfillment_sync v ctx (fleet_integrity now (fi_block ids) v ctx db3))) = Inr db'"
    unfolding commit_transition_def Let_def bindR_Inr_iff by blast
  have "db_bookings (?c db1) = db_bookings db1" "db_outbox (?c db1) = db_outbox db1" "db_refunds (?c db1) = db_refunds db1"
    by simp_all
  with k have r: "db_bookings db3 = db_bookings db1" "db_outbox db3 = db_outbox db1"
      "unique_refund_ids (db_refunds db1) \<Longrightarrow> unique_refund_ids (db_refunds db3)"
    by (cases calc; force dest: refund_intent_frame)+
  from g have b: "\<exists>b\<in>set (db_bookings db). bk_id b = tc_bookingId ctx \<and> bk_status b = bk_status (vw_booking v)"
      "db_bookings db1 = update_where ?p ?f (db_bookings db)" "db_outbox db1 = db_outbox db" "db_refunds db1 = db_refunds db"
    by (auto simp: guarded_update_def update_booking_def exists_where_iff split: if_splits)
  let ?db4 = "fulfillment_sync v ctx (fleet_integrity now (fi_block ids) v ctx db3)"
  obtain F where F: "db_bookings (commission_snapshot sv v ctx ?db4) = update_where ?p F (db_bookings db3)"
      "\<forall>b. bk_status (F b) = bk_status b \<and> same_trip (F b) b"
      "db_outbox (commission_snapshot sv v ctx ?db4) = db_outbox db3" "db_refunds (commission_snapshot sv v ctx ?db4) = db_refunds db3"
    using commission_effect [of sv v ctx ?db4] by auto
  from e have c: "db_bookings db' = update_where ?p F (db_bookings db3)"
      "db_outbox db' = db_outbox db3 @ [transition_event now ids v ctx calc]" "db_refunds db' = db_refunds db3"
    using F by (auto simp: create_event_def split: if_splits)
  have tw: "update_where ?p F (update_where ?p ?f t) = update_where ?p (\<lambda>b. F (?f b)) t" for t
    by (rule update_where_twice) (use apply_transition_facts(2) in \<open>simp add: same_trip_def\<close>)
  show thesis
  proof (rule that [of "\<lambda>b. F (?f b)"])
    show "db_bookings db' = update_where ?p (\<lambda>b. F (?f b)) (db_bookings db)" using c(1) r(1) b(2) tw by simp
    show "bk_status (F (?f x)) = tc_targetStatus ctx" for x using F(2) apply_transition_facts(1) by simp
    show "same_trip (F (?f x)) x" for x
      using F(2) apply_transition_facts(2) [of now ctx calc x] unfolding same_trip_def by metis
    show "db_outbox db' = db_outbox db @ [transition_event now ids v ctx calc]" using c(2) r(2) b(3) by simp
    show "unique_refund_ids (db_refunds db')" if "unique_refund_ids (db_refunds db)" using that c(3) r(3) b(4) by simp
    show "\<exists>b\<in>set (db_bookings db). bk_id b = tc_bookingId ctx \<and> bk_status b = bk_status (vw_booking v)" by (rule b(1))
  qed
qed

lemma committed_unique:
  assumes "unique_refund_ids (db_refunds db)" "prepare_transition sv now ctx v db = (Inr calc, db1)"
    "commit_transition sv now ids ctx v calc db1 = Inr db2"
  shows "unique_refund_ids (db_refunds (audit_override ctx db2))"
proof -
  obtain o' where "db1 = db\<lparr>db_otps := o'\<rparr>" using prepare_frame [OF assms(2)] by blast
  then have u: "unique_refund_ids (db_refunds db1)" using assms(1) by simp
  have "unique_refund_ids (db_refunds db2)" by (rule commit_effect [OF assms(3)]) (use u in blast)
  then show ?thesis by (simp add: audit_override_def)
qed

text \<open>The handler, one branch at a time.\<close>

lemma transition_missing:
  "load_view (tc_bookingId ctx) db = None \<Longrightarrow>
   transition_body sv now ids ctx (db, g) =
     (Inl (NotFoundException (''Booking with ID '' @ tc_bookingId ctx @ '' not found.'')), db, g)"
  by (simp add: transition_body_def)

lemma transition_same:
  assumes "load_view (tc_bookingId ctx) db = Some v" "bk_status (vw_booking v) = tc_targetStatus ctx"
  obtains r where "transition_body sv now ids ctx (db, g) = (Inr r, db, g)"
    "tr_previousStatus r = tc_targetStatus ctx" "tr_newStatus r = tc_targetStatus ctx"
proof -
  have "\<exists>r. transition_body sv now ids ctx (db, g) = (Inr r, db, g) \<and>
      tr_previousStatus r = tc_targetStatus ctx \<and> tr_newStatus r = tc_targetStatus ctx"
    by (cases "latest_event (tc_bookingId ctx) (tc_targetStatus ctx) db") (simp_all add: transition_body_def assms Let_def)
  with that show thesis by blast
qed

lemma transition_refused:
  assumes "load_view (tc_bookingId ctx) db = Some v" "bk_status (vw_booking v) \<noteq> tc_targetStatus ctx"
    and "prepare_transition sv now ctx v db = (Inl e, db1)"
  shows "transition_body sv now ids ctx (db, g) = (Inl e, db1, g)"
  by (simp add: transition_body_def assms Let_def)

lemma transition_rolled_back:
  assumes "load_view (tc_bookingId ctx) db = Some v" "bk_status (vw_booking v) \<noteq> tc_targetStatus ctx"
    and "prepare_transition sv now ctx v db = (Inr calc, db1)" "commit_transition sv now ids ctx v calc db1 = Inl e"
  shows "transition_body sv now ids ctx (db, g) = (Inl e, db1, g)"
  by (simp add: transition_body_def assms Let_def)

lemma transition_done:
  assumes "load_view (tc_bookingId ctx) db = Some v" "bk_status (vw_booking v) \<noteq> tc_targetStatus ctx"
    and "prepare_transition sv now ctx v db = (Inr calc, db1)" "commit_transition sv now ids ctx v calc db1 = Inr db2"
    and "dispatch_refund sv now ids ctx calc (audit_override ctx db2, g) = (Inr (), db3, g3)"
  shows "transition_body sv now ids ctx (db, g) =
    (Inr \<lparr>tr_outboxEventId = fi_event ids, tr_correlationId = correlation_id (tc_targetStatus ctx) (tc_bookingId ctx) now,
          tr_previousStatus = bk_status (vw_booking v), tr_newStatus = tc_targetStatus ctx\<rparr>, db3, g3)"
  by (simp add: transition_body_def assms Let_def)

text \<open>A successful request either found the booking in the target status already, or committed.\<close>

lemma transition_cases:
  assumes u: "unique_refund_ids (db_refunds db)" and t: "transition_body sv now ids ctx (db, g) = (Inr r, db', g')"
  obtains (idempotent) v where "load_view (tc_bookingId ctx) db = Some v"
      "bk_status (vw_booking v) = tc_targetStatus ctx" "db' = db" "g' = g"
      "tr_previousStatus r = tc_targetStatus ctx" "tr_newStatus r = tc_targetStatus ctx"
    | (committed) v calc db1 db2 where "load_view (tc_bookingId ctx) db = Some v"
      "bk_status (vw_booking v) \<noteq> tc_targetStatus ctx"
      "prepare_transition sv now ctx v db = (Inr calc, db1)"
      "commit_transition sv now ids ctx v calc db1 = Inr db2"
      "dispatch_refund sv now ids ctx calc (audit_override ctx db2, g) = (Inr (), db', g')"
      "kept db' = kept (audit_override ctx db2)" "unique_refund_ids (db_refunds db')"
      "tr_previousStatus r = bk_status (vw_booking v)" "tr_newStatus r = tc_targetStatus ctx"
proof -
  obtain v where v: "load_view (tc_bookingId ctx) db = Some v"
    using t transition_missing [of ctx db sv now ids g] by fastforce
  show thesis
  proof (cases "bk_status (vw_booking v) = tc_targetStatus ctx")
    case True
    obtain q where "transition_body sv now ids ctx (db, g) = (Inr q, db, g)"
      "tr_previousStatus q = tc_targetStatus ctx" "tr_newStatus q = tc_targetStatus ctx"
      by (rule transition_same [OF v True])
    with t idempotent [OF v True] show thesis by simp
  next
    case False
    obtain x db1 where p: "prepare_transition sv now ctx v db = (x, db1)" by fastforce
    with t transition_refused [OF v False] obtain calc where "x = Inr calc" by (cases x) fastforce+
    with p have p: "prepare_transition sv now ctx v db = (Inr calc, db1)" by simp
    with t transition_rolled_back [OF v False p] obtain db2 where c: "commit_transition sv now ids ctx v calc db1 = Inr db2"
      by (cases "commit_transition sv now ids ctx v calc db1") fastforce+
    obtain y db3 g3 where d: "dispatch_refund sv now ids ctx calc (audit_override ctx db2, g) = (y, db3, g3)" by (metis prod_cases3)
    note y = dispatch_refund_total [OF committed_unique [OF u p c] d]
    with d have d: "dispatch_refund sv now ids ctx calc (audit_override ctx db2, g) = (Inr (), db3, g3)" by simp
    from t transition_done [OF v False p c d] have e: "db' = db3" "g' = g3" "tr_previousStatus r = bk_status (vw_booking v)"
      "tr_newStatus r = tc_targetStatus ctx" by auto
    show thesis by (rule committed [OF v False p c]) (use d y e in simp_all)
  qed
qed

lemma load_viewD:
  assumes "load_view bid db = Some v"
  shows "find_booking bid db = Some (vw_booking v)" "find_car (bk_carId (vw_booking v)) db = Some (vw_car v)"
    "vw_payment v = find_payment bid db" "vw_deposit v = find_deposit bid db" "bk_id (vw_booking v) = bid"
  using assms by (auto simp: load_view_def split: option.splits dest: find_bookingD)

lemma prepare_Inr:
  assumes "prepare_transition sv now ctx v db = (Inr calc, db1)"
  shows "validateAuthorization (vw_booking v) (tc_actorId ctx) (tc_actorRole ctx) (tc_targetStatus ctx) = Inr ()"
    "tc_targetStatus ctx \<in> set (allowed_targets (bk_status (vw_booking v)))"
    "validateBusinessPreconditions sv now v (tc_targetStatus ctx) (tc_actorRole ctx) (tc_reason ctx) (tc_handoverOtp ctx) db = (Inr (), db1)"
    "calc = cancellation_calc sv now v ctx"
  using assms
  by (auto simp: prepare_transition_def validateStateTransition_def bindR_Inr_iff split: sum.splits prod.splits if_splits)

definition may_transition :: "Booking \<Rightarrow> BookingTransitionContext \<Rightarrow> bool" where
  "may_transition b ctx \<longleftrightarrow>
     (let asCustomer = (tc_actorId ctx = bk_customerId b); asVendor = (tc_actorId ctx = bk_vendorUserId b); target = tc_targetStatus ctx in
      case tc_actorRole ctx of
        SYSTEM \<Rightarrow> True
      | User Role.ADMIN \<Rightarrow> True
      | User Role.CUSTOMER \<Rightarrow> asCustomer \<and> target \<in> {BookingStatus.CANCELLED, BookingStatus.RETURN_PENDING}
      | User Role.VENDOR \<Rightarrow> asVendor \<and> target \<noteq> BookingStatus.REFUNDED
      | User Role.SUPPORT_AGENT \<Rightarrow> asCustomer \<or> asVendor)"

lemma authorized: "validateAuthorization b (tc_actorId ctx) (tc_actorRole ctx) (tc_targetStatus ctx) = Inr () \<longleftrightarrow> may_transition b ctx"
  by (auto simp: validateAuthorization_def may_transition_def is_admin_def Let_def split: actor.splits Role.splits)

lemma committed_effect:
  assumes u: "unique_refund_ids (db_refunds db)" and v: "load_view (tc_bookingId ctx) db = Some v"
    and p: "prepare_transition sv now ctx v db = (Inr calc, db1)" and c: "commit_transition sv now ids ctx v calc db1 = Inr db2"
    and k: "kept db' = kept (audit_override ctx db2)"
  obtains F where "db_bookings db' = update_where (\<lambda>b. bk_id b = tc_bookingId ctx) F (db_bookings db)"
    "\<And>b. bk_status (F b) = tc_targetStatus ctx" "\<And>b. same_trip (F b) b"
    "db_outbox db' = db_outbox db @ [transition_event now ids v ctx calc]"
proof -
  obtain o' where o': "db1 = db\<lparr>db_otps := o'\<rparr>" using prepare_frame [OF p] by blast
  have a: "db_bookings (audit_override ctx db2) = db_bookings db2" "db_outbox (audit_override ctx db2) = db_outbox db2"
    by (simp_all add: audit_override_def)
  show thesis
    by (rule commit_effect [OF c]) (rule that, use keptD [OF k] a o' in auto)
qed

lemma failed_transition:
  assumes "unique_refund_ids (db_refunds db)" and "transition_body sv now ids ctx (db, g) = (Inl e, db', g')"
  shows "g' = g \<and> (\<exists>codes. db' = db\<lparr>db_otps := codes\<rparr>)"
proof (cases "load_view (tc_bookingId ctx) db")
  case None
  with assms(2) show ?thesis by (auto simp: transition_missing intro: exI [of _ "db_otps db"])
next
  case (Some v)
  show ?thesis
  proof (cases "bk_status (vw_booking v) = tc_targetStatus ctx")
    case True
    show ?thesis by (rule transition_same [OF Some True, of sv now ids g]) (use assms(2) in simp)
  next
    case False
    obtain x db1 where p: "prepare_transition sv now ctx v db = (x, db1)" by fastforce
    note o' = prepare_frame [OF p]
    show ?thesis
    proof (cases x)
      case (Inl e')
      with p have p: "prepare_transition sv now ctx v db = (Inl e', db1)" by simp
      from transition_refused [OF Some False p, of ids g] assms(2) o' show ?thesis by simp
    next
      case (Inr calc)
      with p have p: "prepare_transition sv now ctx v db = (Inr calc, db1)" by simp
      show ?thesis
      proof (cases "commit_transition sv now ids ctx v calc db1")
        case (Inl e')
        with assms(2) transition_rolled_back [OF Some False p] o' show ?thesis by simp
      next
        case (Inr db2)
        obtain y db3 g3 where d: "dispatch_refund sv now ids ctx calc (audit_override ctx db2, g) = (y, db3, g3)" by (metis prod_cases3)
        from dispatch_refund_total [OF committed_unique [OF assms(1) p Inr] d] d
        have "dispatch_refund sv now ids ctx calc (audit_override ctx db2, g) = (Inr (), db3, g3)" by simp
        from transition_done [OF Some False p Inr this] assms(2) show ?thesis by simp
      qed
    qed
  qed
qed

section \<open>Properties of a transition\<close>

text \<open>
  C1: a transition that succeeds and changes the status is a step of the life cycle made by someone
  allowed to make it; it changes this booking's row and no other, whose car, dates and parties it
  keeps, and appends exactly one event, from the old status to the new one, that waits for dispatch.
\<close>

theorem transition_is_a_life_cycle_step:
  assumes "unique_refund_ids (db_refunds db)" and "transition_body sv now ids ctx (db, g) = (Inr r, db', g')"
    and "tr_previousStatus r \<noteq> tr_newStatus r"
  shows "\<exists>b F e. find_booking (tc_bookingId ctx) db = Some b \<and> may_transition b ctx \<and>
     tr_previousStatus r = bk_status b \<and> tr_newStatus r = tc_targetStatus ctx \<and>
     tc_targetStatus ctx \<in> set (allowed_targets (bk_status b)) \<and>
     db_bookings db' = update_where (\<lambda>x. bk_id x = tc_bookingId ctx) F (db_bookings db) \<and>
     (\<forall>x. bk_status (F x) = tc_targetStatus ctx \<and> same_trip (F x) x) \<and>
     db_outbox db' = db_outbox db @ [e] \<and> oe_bookingId e = tc_bookingId ctx \<and>
     oe_previousStatus e = Some (bk_status b) \<and> oe_newStatus e = tc_targetStatus ctx \<and> oe_status e = OutboxStatus.PENDING"
  using assms(1,2)
proof (cases rule: transition_cases)
  case idempotent
  with assms(3) show ?thesis by simp
next
  case (committed v calc db1 db2)
  from committed_effect [OF assms(1) committed(1,3,4,6)] obtain F where F:
    "db_bookings db' = update_where (\<lambda>x. bk_id x = tc_bookingId ctx) F (db_bookings db)"
    "\<And>b. bk_status (F b) = tc_targetStatus ctx" "\<And>b. same_trip (F b) b"
    "db_outbox db' = db_outbox db @ [transition_event now ids v ctx calc]" by blast
  show ?thesis
    by (rule exI [of _ "vw_booking v"], rule exI [of _ F], rule exI [of _ "transition_event now ids v ctx calc"])
      (use committed load_viewD [OF committed(1)] prepare_Inr [OF committed(3)] F in
        \<open>auto simp: transition_event_def authorized\<close>)
qed

text \<open>
  C9: a request for a transition that fails is undone, or its transition had been made: when the handler
  answers with an error, every table and the gateway are as before, apart from the attempts and the use
  of handover codes, which are counted before the transaction; the one exception is an error in
  releasing the booking's lock, which replaces the answer of a transition that is complete.
\<close>

theorem failed_transition_is_undone:
  assumes "unique_refund_ids (db_refunds db)"
    and "executeTransition set_nx get del online1 online2 token sv now ids ctx ((db, g), r) = (Inl e, (db', g'), r')"
  shows "(g' = g \<and> (\<exists>codes. db' = db\<lparr>db_otps := codes\<rparr>)) \<or>
    (\<not> online2 \<and> e = GatewayError ''redis'' \<and> (\<exists>x. transition_body sv now ids ctx (db, g) = (Inr x, db', g')))"
proof -
  obtain l r1 where l: "acquireCancellationLock set_nx online1 now (tc_bookingId ctx) token 20000 r = (l, r1)" by fastforce
  show ?thesis
  proof (cases l)
    case (Inl e')
    with assms(2) l have "db' = db" "g' = g" by (simp_all add: executeTransition_def)
    then show ?thesis by (intro disjI1 conjI exI [of _ "db_otps db"]) simp_all
  next
    case (Inr tok)
    obtain res db1 g1 where b: "transition_body sv now ids ctx (db, g) = (res, db1, g1)" by (metis prod_cases3)
    with assms(2) l Inr have s: "db' = db1" "g' = g1" by (auto simp: executeTransition_def Let_def split: prod.splits sum.splits)
    show ?thesis
    proof (cases res)
      case (Inl e')
      with failed_transition [OF assms(1) b [unfolded Inl]] s show ?thesis by blast
    next
      case moved: (Inr x)
      with assms(2) l \<open>l = Inr tok\<close> b have "\<not> online2 \<and> e = GatewayError ''redis''"
        by (auto simp: executeTransition_def Let_def releaseCancellationLock_def release_key_def split: if_splits prod.splits)
      with b moved s show ?thesis by blast
    qed
  qed
qed

text \<open>
  Of the requests that read a booking in one status, at most one commits: once a transition to
  another status is committed, every commit that was prepared on the old status is refused and rolled
  back, as the conflict the caller sees.
\<close>

theorem one_commit_per_status:
  assumes "commit_transition sv now ids ctx v calc db = Inr db1"
    and "bk_status (vw_booking v) \<noteq> tc_targetStatus ctx"
    and "tc_bookingId ctx' = tc_bookingId ctx" and "bk_status (vw_booking v') = bk_status (vw_booking v)"
  shows "commit_transition sv' now' ids' ctx' v' calc' db1 = Inl (PrismaError ''P2025'')"
proof -
  obtain F where F: "db_bookings db1 = update_where (\<lambda>b. bk_id b = tc_bookingId ctx) F (db_bookings db)"
    "\<And>b. bk_status (F b) = tc_targetStatus ctx" by (rule commit_effect [OF assms(1)]) blast
  then have "\<not> exists_where (\<lambda>b. bk_id b = tc_bookingId ctx \<and> bk_status b = bk_status (vw_booking v)) (db_bookings db1)"
    using assms(2) by (auto simp: exists_where_iff set_update_where split: if_splits)
  then show ?thesis using assms(3,4) by (simp add: commit_transition_def guarded_update_def)
qed

text \<open>
  C10: a trip starts only with a verified vehicle in service and a finalized inspection. Unless an
  administrator starts it, the deposit is not outstanding, the payment, where there is one, is made,
  the pickup is not earlier than allowed, and the customer's handover code was accepted.
\<close>

theorem trip_start_is_guarded:
  assumes "unique_refund_ids (db_refunds db)" and "transition_body sv now ids ctx (db, g) = (Inr r, db', g')"
    and "tc_targetStatus ctx = BookingStatus.ONGOING" and "tr_previousStatus r \<noteq> BookingStatus.ONGOING"
  shows "\<exists>b c. find_booking (tc_bookingId ctx) db = Some b \<and> find_car (bk_carId b) db = Some c \<and>
     bk_status b \<in> {BookingStatus.CONFIRMED, BookingStatus.HANDOVER_READY} \<and>
     car_operationalStatus c = VehicleOperationalStatus.ACTIVE \<and> car_verificationStatus c = VehicleVerificationStatus.VERIFIED \<and>
     finalized (tc_bookingId ctx) PRE_TRIP db \<and>
     (is_admin (tc_actorRole ctx) \<or>
       (\<forall>d. find_deposit (tc_bookingId ctx) db = Some d \<longrightarrow> sd_status d \<noteq> REQUIRED) \<and>
       (\<forall>p. find_payment (tc_bookingId ctx) db = Some p \<longrightarrow> pm_status p = PAID) \<and>
       bk_startDate b - allow_early sv * 60 * 1000 \<le> now \<and>
       (\<exists>code x db1. tc_handoverOtp ctx = Some code \<and>
          verifyOtp (sv_compare sv) now (tc_bookingId ctx) PICKUP code db = (Inr x, db1)))"
  using assms(1,2)
proof (cases rule: transition_cases)
  case idempotent
  with assms(3,4) show ?thesis by simp
next
  case (committed v calc db1 db2)
  let ?b = "vw_booking v" and ?role = "tc_actorRole ctx"
  note l = load_viewD [OF committed(1)] and p = prepare_Inr [OF committed(3)]
  have s: "bk_status ?b \<in> {BookingStatus.CONFIRMED, BookingStatus.HANDOVER_READY}"
    using p(2) assms(3) by (cases "bk_status ?b") auto
  have c: "start_check sv now v ?role db = Inr ()"
    and o': "otp_or_override sv now (tc_bookingId ctx) PICKUP ?role (tc_reason ctx) (tc_handoverOtp ctx) db = (Inr (), db1)"
    using p(3) assms(3) l(5) by (auto simp: validateBusinessPreconditions_def Let_def split: sum.splits)
  have g: "car_operationalStatus (vw_car v) = VehicleOperationalStatus.ACTIVE"
    "car_verificationStatus (vw_car v) = VehicleVerificationStatus.VERIFIED" "finalized (tc_bookingId ctx) PRE_TRIP db"
    "is_admin ?role \<or> (case vw_deposit v of None \<Rightarrow> True | Some d \<Rightarrow> sd_status d \<noteq> REQUIRED)"
    "is_admin ?role \<or> (case vw_payment v of None \<Rightarrow> True | Some p \<Rightarrow> pm_status p = PAID)"
    "is_admin ?role \<or> bk_startDate ?b - allow_early sv * 60 * 1000 \<le> now"
    using c l(5) by (auto simp: start_check_def Let_def throw_if_Inr_iff split: option.splits)
  have code: "is_admin ?role \<or> (\<exists>code x db1. tc_handoverOtp ctx = Some code \<and>
      verifyOtp (sv_compare sv) now (tc_bookingId ctx) PICKUP code db = (Inr x, db1))"
    using o' by (auto simp: otp_or_override_def str_truthy_def split: if_splits option.splits prod.splits sum.splits)
  show ?thesis
    by (rule exI [of _ ?b], rule exI [of _ "vw_car v"]) (use l s g code in \<open>auto split: option.splits\<close>)
qed

section \<open>Every history of transitions\<close>

text \<open>
  Requests on one booking run one after the other, under its lock; a history is any sequence of them,
  with any outcome, at any time, by anyone.
\<close>

inductive lifecycle_step :: "'g services \<Rightarrow> bk_db \<times> 'g \<Rightarrow> bk_db \<times> 'g \<Rightarrow> bool" for sv where
  step: "transition_body sv now ids ctx s = (res, s') \<Longrightarrow> lifecycle_step sv s s'"

inductive lifecycle_run :: "'g services \<Rightarrow> bk_db \<times> 'g \<Rightarrow> bk_db \<times> 'g \<Rightarrow> bool" for sv where
  start: "lifecycle_run sv s s"
| next_step: "lifecycle_run sv s s1 \<Longrightarrow> lifecycle_step sv s1 s2 \<Longrightarrow> lifecycle_run sv s s2"

text \<open>What one step does to the bookings.\<close>

lemma lifecycle_step_cases [consumes 2, case_names unchanged changed]:
  assumes "lifecycle_step sv (db, g) (db', g')" and u: "unique_refund_ids (db_refunds db)"
  obtains (unchanged) "db_bookings db' = db_bookings db" "unique_refund_ids (db_refunds db')"
    | (changed) bid F target v now role reason code db1 where "load_view bid db = Some v"
      "target \<in> set (allowed_targets (bk_status (vw_booking v)))"
      "validateBusinessPreconditions sv now v target role reason code db = (Inr (), db1)"
      "db_bookings db' = update_where (\<lambda>x. bk_id x = bid) F (db_bookings db)"
      "\<And>x. bk_status (F x) = target" "\<And>x. same_trip (F x) x" "unique_refund_ids (db_refunds db')"
proof -
  from assms(1) obtain now ids ctx res where t: "transition_body sv now ids ctx (db, g) = (res, db', g')"
    by (auto elim: lifecycle_step.cases)
  show thesis
  proof (cases res)
    case (Inl e)
    with t have "transition_body sv now ids ctx (db, g) = (Inl e, db', g')" by simp
    from failed_transition [OF u this] obtain codes where "db' = db\<lparr>db_otps := codes\<rparr>" by blast
    with u show thesis by (intro unchanged) simp_all
  next
    case (Inr r)
    with t have t: "transition_body sv now ids ctx (db, g) = (Inr r, db', g')" by simp
    from u t show thesis
    proof (cases rule: transition_cases)
      case idempotent
      with u show thesis by (intro unchanged) simp_all
    next
      case (committed v calc db1 db2)
      obtain F where F:
        "db_bookings db' = update_where (\<lambda>x. bk_id x = tc_bookingId ctx) F (db_bookings db)"
        "\<And>b. bk_status (F b) = tc_targetStatus ctx" "\<And>b. same_trip (F b) b"
        by (rule committed_effect [OF u committed(1,3,4,6)]) (rule that)
      show thesis
        by (rule changed [OF committed(1) prepare_Inr(2,3) [OF committed(3)] F committed(7)])
    qed
  qed
qed

definition no_double_booking :: "bk_db \<Rightarrow> bool" where
  "no_double_booking db \<longleftrightarrow>
     (\<forall>a\<in>set (db_bookings db). \<forall>b\<in>set (db_bookings db).
        bk_id a \<noteq> bk_id b \<longrightarrow> holds_car (bk_status a) \<longrightarrow> holds_car (bk_status b) \<longrightarrow> \<not> overlaps a b)"

lemma overlaps_sym: "overlaps a b \<longleftrightarrow> overlaps b a"
  by (auto simp: overlaps_def)

lemma overlaps_same_trip: "same_trip a b \<Longrightarrow> overlaps a c = overlaps b c" "same_trip a b \<Longrightarrow> overlaps c a = overlaps c b"
  by (auto simp: overlaps_def same_trip_def)

lemma allowed_keeps_car: "t \<in> set (allowed_targets s) \<Longrightarrow> holds_car t \<Longrightarrow> holds_car s \<or> t = BookingStatus.CONFIRMED"
  by (cases s) (auto simp: holds_car_def)

lemma confirm_finds_no_overlap:
  assumes "validateBusinessPreconditions sv now v BookingStatus.CONFIRMED role reason code db = (Inr (), db1)"
    and "r \<in> set (db_bookings db)" "bk_id r \<noteq> bk_id (vw_booking v)" "holds_car (bk_status r)"
  shows "\<not> overlaps (vw_booking v) r"
proof -
  have "overlapping_booking (vw_booking v) db = None"
    using assms(1) by (auto simp: validateBusinessPreconditions_def confirm_check_def Let_def throw_if_Inr_iff)
  with assms(2-4) show ?thesis by (auto simp: overlapping_booking_def find_None_iff_all)
qed

lemma no_double_booking_step:
  assumes "lifecycle_step sv (db, g) (db', g')" "unique_refund_ids (db_refunds db)"
    and d: "distinct (map bk_id (db_bookings db))" and n: "no_double_booking db"
  shows "distinct (map bk_id (db_bookings db')) \<and> no_double_booking db' \<and> unique_refund_ids (db_refunds db')"
  using assms(1,2)
proof (cases rule: lifecycle_step_cases)
  case unchanged
  with d n show ?thesis by (simp add: no_double_booking_def)
next
  case (changed bid F target v now role reason code db1)
  let ?b = "vw_booking v"
  have b: "?b \<in> set (db_bookings db)" "bk_id ?b = bid" using load_viewD [OF changed(1)] by (auto dest: find_bookingD)
  have keys: "map bk_id (db_bookings db') = map bk_id (db_bookings db)"
    using changed(4,6) by (simp add: update_where_map_key same_trip_def)
  have origin: "a = F ?b \<or> (a \<in> set (db_bookings db) \<and> bk_id a \<noteq> bid)" if "a \<in> set (db_bookings db')" for a
    using update_where_set_key [OF d b(1), of F a] that changed(4,6) b(2) by (simp add: same_trip_def)
  have clear: "\<not> overlaps (F ?b) r" if r: "r \<in> set (db_bookings db)" "bk_id r \<noteq> bid" "holds_car (bk_status r)" and h: "holds_car target" for r
  proof (cases "target = BookingStatus.CONFIRMED")
    case True
    with changed(3) r b(2) confirm_finds_no_overlap have "\<not> overlaps ?b r" by metis
    with overlaps_same_trip(1) [OF changed(6)] show ?thesis by simp
  next
    case False
    with allowed_keeps_car [OF changed(2) h] have "holds_car (bk_status ?b)" by simp
    with n b r have "\<not> overlaps ?b r" by (auto simp: no_double_booking_def)
    with overlaps_same_trip(1) [OF changed(6)] show ?thesis by simp
  qed
  have "no_double_booking db'" unfolding no_double_booking_def
  proof (intro ballI impI)
    fix a r assume ar: "a \<in> set (db_bookings db')" "r \<in> set (db_bookings db')" "bk_id a \<noteq> bk_id r"
      "holds_car (bk_status a)" "holds_car (bk_status r)"
    have Fb: "bk_id (F ?b) = bid" "bk_status (F ?b) = target" using changed(5,6) b(2) by (auto simp: same_trip_def)
    from origin [OF ar(1)] origin [OF ar(2)] show "\<not> overlaps a r"
      using clear [of r] clear [of a] Fb ar n overlaps_sym by (auto simp: no_double_booking_def)
  qed
  with d keys changed(7) show ?thesis by simp
qed

lemma lifecycle_run_invariant:
  assumes "lifecycle_run sv s s'" "unique_refund_ids (db_refunds (fst s))" "distinct (map bk_id (db_bookings (fst s)))"
    "no_double_booking (fst s)"
  shows "distinct (map bk_id (db_bookings (fst s'))) \<and> no_double_booking (fst s') \<and> unique_refund_ids (db_refunds (fst s'))"
  using assms
proof (induction rule: lifecycle_run.induct)
  case (next_step s s1 s2)
  then show ?case using no_double_booking_step [of sv "fst s1" "snd s1" "fst s2" "snd s2"] by simp
qed simp

text \<open>
  C3: no car is given to two bookings. From tables where no two bookings that hold a car overlap on it,
  every history of transitions, run one after the other, leads to such tables again.
\<close>

theorem no_double_booking_in_sequence:
  assumes "lifecycle_run sv (db, g) (db', g')" and "unique_refund_ids (db_refunds db)"
    and "distinct (map bk_id (db_bookings db))" and "no_double_booking db"
  shows "no_double_booking db'"
  using lifecycle_run_invariant [OF assms(1)] assms(2-4) by simp

lemma terminal_step:
  assumes "lifecycle_step sv (db, g) (db', g')" "unique_refund_ids (db_refunds db)"
    and "find_booking bid db = Some b" "allowed_targets (bk_status b) = []"
  shows "unique_refund_ids (db_refunds db') \<and> find_booking bid db' = Some b"
  using assms(1,2)
proof (cases rule: lifecycle_step_cases)
  case unchanged
  with assms(3) show ?thesis by (simp add: find_booking_def)
next
  case (changed bid' F target v now role reason code db1)
  have "bid' \<noteq> bid" using changed(1,2) assms(3,4) load_viewD(1) [OF changed(1)] by auto
  moreover have "bk_id (F x) = bk_id x" for x using changed(6) by (simp add: same_trip_def)
  ultimately have "find_booking bid db' = find_booking bid db"
    unfolding find_booking_def changed(4) by (subst find_update_where_key) auto
  with assms(3) changed(7) show ?thesis by simp
qed

text \<open>
  COMPLETED, REFUNDED, CANCELLED and EXPIRED are final: no history of transitions changes the row
  of a booking in one of them.
\<close>

theorem terminal_bookings_stay:
  assumes "lifecycle_run sv (db, g) (db', g')" and "unique_refund_ids (db_refunds db)"
    and "find_booking bid db = Some b"
    and "bk_status b \<in> {BookingStatus.COMPLETED, BookingStatus.REFUNDED, BookingStatus.CANCELLED, BookingStatus.EXPIRED}"
  shows "find_booking bid db' = Some b"
proof -
  have t: "allowed_targets (bk_status b) = []" using assms(4) by auto
  have "unique_refund_ids (db_refunds (fst s')) \<and> find_booking bid (fst s') = Some b"
    if "lifecycle_run sv s s'" "unique_refund_ids (db_refunds (fst s))" "find_booking bid (fst s) = Some b" for s s'
    using that
  proof (induction rule: lifecycle_run.induct)
    case (next_step s s1 s2)
    then show ?case using terminal_step [of sv "fst s1" "snd s1" "fst s2" "snd s2" bid b] t by simp
  qed simp
  from this [OF assms(1)] assms(2,3) show ?thesis by simp
qed

section \<open>Confirmations that overlap in time\<close>

lemma commit_uncancelled:
  assumes "tc_targetStatus ctx \<noteq> BookingStatus.CANCELLED"
    and "b \<in> set (db_bookings db)" "bk_id b = tc_bookingId ctx" "bk_status b = bk_status (vw_booking v)"
    and "\<forall>e\<in>set (db_outbox db). oe_correlationId e \<noteq> correlation_id (tc_targetStatus ctx) (tc_bookingId ctx) now"
  shows "\<exists>db'. commit_transition sv now ids ctx v None db = Inr db'"
proof -
  have g: "guarded_update now ctx (bk_status (vw_booking v)) None db =
      Inr (update_booking (tc_bookingId ctx) (apply_transition now ctx None) db)" (is "_ = Inr ?db1")
    using assms(2-4) by (auto simp: guarded_update_def exists_where_iff)
  have o': "db_outbox (commission_snapshot sv v ctx (fulfillment_sync v ctx (fleet_integrity now (fi_block ids) v ctx ?db1))) = db_outbox db"
    using commission_effect [of sv v ctx "fulfillment_sync v ctx (fleet_integrity now (fi_block ids) v ctx ?db1)"]
    by (auto simp: update_booking_def)
  have c: "oe_correlationId (transition_event now ids v ctx None) = correlation_id (tc_targetStatus ctx) (tc_bookingId ctx) now"
    by (simp add: transition_event_def)
  show ?thesis using g assms(1,5) o' c
    by (simp add: commit_transition_def create_event_def exists_where_iff)
qed

definition pending_booking :: "id \<Rightarrow> Booking" where
  "pending_booking bid = demo_booking\<lparr>bk_id := bid, bk_status := BookingStatus.PENDING\<rparr>"

definition two_pending :: bk_db where
  "two_pending = demo_db\<lparr>db_bookings := [pending_booking ''b1'', pending_booking ''b2''],
     db_payments := [demo_payment, demo_payment\<lparr>pm_id := ''p2'', pm_bookingId := ''b2''\<rparr>]\<rparr>"

definition confirm_by_vendor :: "id \<Rightarrow> BookingTransitionContext" where
  "confirm_by_vendor bid = transition_to BookingStatus.CONFIRMED bid ''vendor'' (User Role.VENDOR) None None"

lemma two_pending_views:
  "load_view ''b1'' two_pending = Some \<lparr>vw_booking = pending_booking ''b1'', vw_payment = Some demo_payment,
     vw_deposit = None, vw_car = demo_car\<rparr>"
  "load_view ''b2'' two_pending = Some \<lparr>vw_booking = pending_booking ''b2'',
     vw_payment = Some (demo_payment\<lparr>pm_id := ''p2'', pm_bookingId := ''b2''\<rparr>), vw_deposit = None, vw_car = demo_car\<rparr>"
  by (simp_all add: load_view_def find_booking_def find_payment_def find_deposit_def find_car_def two_pending_def
      pending_booking_def demo_payment_def demo_booking_def demo_db_def demo_car_def)

lemma two_pending_confirmable:
  assumes "load_view bid two_pending = Some v" "bid \<in> {''b1'', ''b2''}"
  shows "prepare_transition sv now (confirm_by_vendor bid) v two_pending = (Inr None, two_pending)"
  using assms two_pending_views
  by (auto simp: prepare_transition_def validateAuthorization_def validateStateTransition_def confirm_by_vendor_def
      transition_to_def is_admin_def Let_def pending_booking_def validateBusinessPreconditions_def confirm_check_def
      cancellation_calc_def demo_car_def overlapping_block_def overlapping_booking_def two_pending_def demo_db_def
      is_paid_def demo_payment_def demo_booking_def holds_car_def)

text \<open>
  The overlap check of a confirmation is outside its transaction, and its lock is the booking's,
  not the car's. Two paid bookings of one car for the same days can both be confirmed: both requests
  pass the checks on the same tables, and both commit, one after the other.
\<close>

theorem overlapping_confirmations_double_book:
  "no_double_booking two_pending \<and>
   (\<exists>v1 v2 db1 db2.
      load_view ''b1'' two_pending = Some v1 \<and> load_view ''b2'' two_pending = Some v2 \<and>
      prepare_transition sv now (confirm_by_vendor ''b1'') v1 two_pending = (Inr None, two_pending) \<and>
      prepare_transition sv now (confirm_by_vendor ''b2'') v2 two_pending = (Inr None, two_pending) \<and>
      commit_transition sv now ids (confirm_by_vendor ''b1'') v1 None two_pending = Inr db1 \<and>
      commit_transition sv now ids (confirm_by_vendor ''b2'') v2 None db1 = Inr db2 \<and> \<not> no_double_booking db2)"
proof -
  obtain v1 v2 where v: "load_view ''b1'' two_pending = Some v1" "load_view ''b2'' two_pending = Some v2"
    using two_pending_views by blast
  have vb: "vw_booking v1 = pending_booking ''b1''" "vw_booking v2 = pending_booking ''b2''"
    using v two_pending_views by auto
  let ?c1 = "confirm_by_vendor ''b1''" and ?c2 = "confirm_by_vendor ''b2''"
  have t: "tc_targetStatus ?c1 = BookingStatus.CONFIRMED" "tc_targetStatus ?c2 = BookingStatus.CONFIRMED"
    "tc_bookingId ?c1 = ''b1''" "tc_bookingId ?c2 = ''b2''" by (simp_all add: confirm_by_vendor_def transition_to_def)
  have b: "db_bookings two_pending = [pending_booking ''b1'', pending_booking ''b2'']" "db_outbox two_pending = []"
    by (simp_all add: two_pending_def demo_db_def)
  have id': "bk_id (pending_booking x) = x" "bk_status (pending_booking x) = BookingStatus.PENDING" for x
    by (simp_all add: pending_booking_def)
  obtain db1 where c1: "commit_transition sv now ids ?c1 v1 None two_pending = Inr db1"
    using commit_uncancelled [of ?c1 "pending_booking ''b1''" two_pending v1 now sv ids] b vb id' t by auto
  obtain F where F: "db_bookings db1 = update_where (\<lambda>b. bk_id b = ''b1'') F (db_bookings two_pending)"
    "\<And>b. bk_status (F b) = BookingStatus.CONFIRMED" "\<And>b. same_trip (F b) b"
    "db_outbox db1 = db_outbox two_pending @ [transition_event now ids v1 ?c1 None]"
    by (rule commit_effect [OF c1, unfolded t]) (rule that)
  have o1: "oe_correlationId e \<noteq> correlation_id BookingStatus.CONFIRMED ''b2'' now" if "e \<in> set (db_outbox db1)" for e
    using that F(4) b(2) t by (simp add: transition_event_def correlation_id_def)
  have db1: "db_bookings db1 = [F (pending_booking ''b1''), pending_booking ''b2'']" using F(1) b(1) id' by simp
  obtain db2 where c2: "commit_transition sv now ids ?c2 v2 None db1 = Inr db2"
    using commit_uncancelled [of ?c2 "pending_booking ''b2''" db1 v2 now sv ids] db1 vb id' t o1 by auto
  obtain G where G: "db_bookings db2 = update_where (\<lambda>b. bk_id b = ''b2'') G (db_bookings db1)"
    "\<And>b. bk_status (G b) = BookingStatus.CONFIRMED" "\<And>b. same_trip (G b) b"
    by (rule commit_effect [OF c2, unfolded t]) (rule that)
  have Fid: "bk_id (F (pending_booking ''b1'')) = ''b1''" "bk_id (G (pending_booking ''b2'')) = ''b2''"
    using F(3) G(3) id' by (simp_all add: same_trip_def)
  have db2: "db_bookings db2 = [F (pending_booking ''b1''), G (pending_booking ''b2'')]" using G(1) db1 Fid id' by simp
  have ov: "overlaps (F (pending_booking ''b1'')) (G (pending_booking ''b2''))"
    unfolding overlaps_same_trip(1) [OF F(3)] overlaps_same_trip(2) [OF G(3)]
    by (simp add: overlaps_def pending_booking_def demo_booking_def)
  have "\<not> no_double_booking db2"
    using db2 ov Fid F(2) G(2) by (auto simp: no_double_booking_def holds_car_def)
  moreover have "no_double_booking two_pending" using b(1) id' by (auto simp: no_double_booking_def holds_car_def)
  moreover have "prepare_transition sv now ?c1 v1 two_pending = (Inr None, two_pending)"
    "prepare_transition sv now ?c2 v2 two_pending = (Inr None, two_pending)"
    by (rule two_pending_confirmable [OF v(1)], simp, rule two_pending_confirmable [OF v(2)], simp)
  ultimately show ?thesis using v c1 c2 by blast
qed

section \<open>The refund after the commit\<close>

lemma refund_rows_stored:
  assumes "refund_rows rq p rupees rid s db = (Inr r, db')"
  shows "\<exists>row. rf_gatewayRefundId row = rr_refundId r \<and> rf_status row = rr_refundStatus r \<and> rf_idempotencyKey row = refund_key rq p \<and>
    db_refunds db' = (if exists_where (\<lambda>q. rf_idempotencyKey q = refund_key rq p \<or> same_id (rf_gatewayRefundId q) (rr_refundId r)) (db_refunds db)
                      then db_refunds db else db_refunds db @ [row])"
proof -
  let ?row = "\<lparr>rf_paymentId = pm_id p, rf_bookingId = rq_bookingId rq, rf_idempotencyKey = refund_key rq p,
                 rf_requestedAmount = rupees, rf_status = s, rf_gatewayRefundId = Some rid,
                 rf_processedAmount = (if s = PROCESSED then Some rupees else None), rf_failureReason = None,
                 rf_reason = or_string (rq_reason rq) ''Booking cancellation''\<rparr>"
  from assms show ?thesis
    by (intro exI [of _ ?row]) (auto simp: refund_rows_def Let_def store_refund_def dest!: update_payment_kept split: sum.splits)
qed

lemma refund_row_stored:
  assumes "refund env now ids rq (db, g) = (Inr r, db', g')" "find_payment (rq_bookingId rq) db = Some p"
    "pm_status p = PaymentStatus.PAID" "0 < rq_paise rq" "\<not> rr_isDuplicate r"
  shows "\<exists>row. rf_gatewayRefundId row = rr_refundId r \<and> rf_status row = rr_refundStatus r \<and> rf_idempotencyKey row = refund_key rq p \<and>
    db_refunds db' = (if exists_where (\<lambda>q. rf_idempotencyKey q = refund_key rq p \<or> same_id (rf_gatewayRefundId q) (rr_refundId r)) (db_refunds db)
                      then db_refunds db else db_refunds db @ [row])"
proof -
  obtain parts where e: "execute_refund env now ids rq p (refund_rupees (rq_paise rq)) parts (db, g) = (Inr r, db', g')"
    using assms by (auto simp: refund_def Let_def not_le split: if_splits option.splits)
  from e obtain rid s db1 where w: "refund_wallet env now (ri_wallet ids) rq p (snd parts) db = (Inr (), db1)"
    and rows: "refund_rows rq p (refund_rupees (rq_paise rq)) rid s db1 = (Inr r, db')"
    by (auto simp: execute_refund_def Let_def split: prod.splits sum.splits if_splits)
  have "db_refunds db1 = db_refunds db" using refund_wallet_kept [OF w] by simp
  with refund_rows_stored [OF rows] show ?thesis by (simp only:)
qed

text \<open>
  A refund that succeeded is recorded as failed. The payments service stores its own row with the
  gateway's refund id; the life cycle then writes the same id into the row of the refund's intent, which
  the unique column refuses. So after every processed gateway refund of a cancellation the intent is
  marked RETRYABLE, although the payment is REFUNDED and no table says that anything is outstanding.
\<close>

theorem processed_refund_left_retryable:
  fixes ctx c
  defines "rq \<equiv> \<lparr>rq_bookingId = tc_bookingId ctx, rq_paise = cr_refundAmountInPaise c, rq_reason = tc_reason ctx,
      rq_tier = (if truthy (Some (cr_tier c)) then Some (json_text (cr_tier c)) else None), rq_key = None, rq_userId = None\<rparr>"
  assumes "unique_refund_ids (db_refunds db)" and "find_payment (tc_bookingId ctx) db = Some p" and "pm_status p = PaymentStatus.PAID"
    and "0 < cr_refundAmountInPaise c"
    and "refund (sv_pay sv) now (fi_refund ids) rq (db, g) = (Inr r, db1, g1)"
    and "\<not> rr_isDuplicate r" and "rr_refundStatus r = PROCESSED" and "rr_refundId r = Some rid" and "rid \<noteq> []"
    and "\<forall>q\<in>set (db_refunds db). rf_idempotencyKey q \<noteq> refund_key rq p \<and> rf_gatewayRefundId q \<noteq> Some rid"
    and "i \<in> set (db_refunds db)" and "rf_bookingId i = tc_bookingId ctx" and "rf_status i = RefundStatus.PENDING"
  shows "\<exists>db2. dispatch_refund sv now ids ctx (Some c) (db, g) = (Inr (), db2, g1) \<and>
     (\<exists>q\<in>set (db_refunds db2). rf_idempotencyKey q = rf_idempotencyKey i \<and> rf_status q = RETRYABLE) \<and>
     (\<exists>p'. find_payment (tc_bookingId ctx) db2 = Some p' \<and> pm_status p' = PaymentStatus.REFUNDED)"
proof -
  let ?bid = "tc_bookingId ctx"
  let ?f = "\<lambda>q. q\<lparr>rf_status := PROCESSED, rf_gatewayRefundId := or_str (rr_refundId r) (rf_gatewayRefundId q),
               rf_processedAmount := Some (rr_refundAmount r)\<rparr>"
  let ?pend = "\<lambda>q. rf_bookingId q = ?bid \<and> rf_status q = RefundStatus.PENDING"
  have b: "rq_bookingId rq = ?bid" "rq_paise rq = cr_refundAmountInPaise c" by (simp_all add: rq_def)
  have fp: "find_payment (rq_bookingId rq) db = Some p" using assms(3) b by simp
  have pos: "0 < rq_paise rq" using assms(5) b by simp
  have none: "\<not> exists_where (\<lambda>q. rf_idempotencyKey q = refund_key rq p \<or> same_id (rf_gatewayRefundId q) (rr_refundId r)) (db_refunds db)"
    using assms(9,11) by (auto simp: exists_where_iff same_id_def)
  obtain row where row: "rf_gatewayRefundId row = Some rid" "rf_status row = PROCESSED" "db_refunds db1 = db_refunds db @ [row]"
    using refund_row_stored [OF assms(6) fp assms(4) pos assms(7)] none assms(8,9) by auto
  let ?rs = "update_where ?pend ?f (db_refunds db1)"
  have upd: "?rs = update_where ?pend ?f (db_refunds db) @ [row]" using row by simp
  have fi: "rf_gatewayRefundId (?f i) = Some rid" using assms(9,10) by (simp add: or_str_def)
  have "?f i \<in> set (update_where ?pend ?f (db_refunds db))" using assms(12-14) by (force simp: set_update_where)
  then have "\<not> unique_refund_ids ?rs"
    unfolding upd unique_refund_ids_append using fi row(1) by (force simp: same_id_def)
  then have refused: "settle_refunds ?bid ?f db1 = Inl (PrismaError ''P2002'')" by (simp add: settle_refunds_def Let_def)
  have u1: "unique_refund_ids (db_refunds db1)" by (rule refund_kept(2) [OF assms(6,2)])
  obtain db2 where m: "mark_retryable ?bid (PrismaError ''P2002'') db1 = Inr db2" using mark_retryable_Inr [OF u1] by blast
  have d: "dispatch_refund sv now ids ctx (Some c) (db, g) = (Inr (), db2, g1)"
    using assms(5) assms(6) [unfolded rq_def] refused m by (simp add: dispatch_refund_def)
  have db2: "db_payments db2 = db_payments db1" "db_refunds db2 = update_where ?pend (\<lambda>q. q\<lparr>rf_status := RETRYABLE,
       rf_failureReason := Some ''P2002''\<rparr>) (db_refunds db1)"
    using m mark_retryable_Inr [OF u1] by auto
  have "\<exists>q\<in>set (db_refunds db2). rf_idempotencyKey q = rf_idempotencyKey i \<and> rf_status q = RETRYABLE"
    unfolding db2(2) set_update_where using assms(12-14) row(3) by (intro bexI [OF _ imageI [of i]]) auto
  moreover have "\<exists>p'. find_payment ?bid db2 = Some p' \<and> pm_status p' = PaymentStatus.REFUNDED"
    by (rule refund_executed [OF assms(6) fp assms(4) pos assms(7)]) (use assms(8) b db2(1) in \<open>auto simp: find_payment_def\<close>)
  ultimately show ?thesis using d by blast
qed

section \<open>A cancellation by the vendor\<close>

lemma free_cancellation:
  assumes "cp_actorRole q = Role.VENDOR \<or> cp_isPendingConfirmation q" "is_cents (cp_amountPaid q)" "0 \<le> cp_amountPaid q" "cp_amountPaid q < 10000000000"
  shows "cr_cancellationFee (calculateCancellationWithConfig m now q) = 0"
    "cr_refundAmount (calculateCancellationWithConfig m now q) = cp_amountPaid q"
    "of_int (cr_refundAmountInPaise (calculateCancellationWithConfig m now q)) = cp_amountPaid q * 100"
proof -
  have z: "fee_number f 0 = 0" for f by (simp add: fee_number_def to_fixed2_def)
  have r: "refund_number (cp_amountPaid q) 0 = fl (cp_amountPaid q)"
    using refund_number_spec [of "cp_amountPaid q" 0] assms(2-4) by simp
  have d: "dec_of_num 0 = 0" "dec_of_num (fl (cp_amountPaid q)) = cp_amountPaid q"
    using dec_of_cents [of 0] dec_of_cents [of "cp_amountPaid q"] assms(2-4) by simp_all
  have c: "cr_cancellationFee (calculateCancellation now x) = 0 \<and> cr_refundAmount (calculateCancellation now x) = cp_amountPaid q \<and>
      of_int (cr_refundAmountInPaise (calculateCancellation now x)) = cp_amountPaid q * 100"
    if "cp_actorRole x = Role.VENDOR \<or> cp_isPendingConfirmation x" "cp_amountPaid x = cp_amountPaid q" for x
  proof -
    have "\<exists>tier descr. \<forall>h. choose_tier x h = (tier, descr, 0, 100)" using that(1) by (auto simp: choose_tier_def)
    then obtain tier descr where "\<forall>h. choose_tier x h = (tier, descr, 0, 100)" by blast
    then show ?thesis using that(2) z r d paise_exact [OF assms(2-4)] by (simp add: calculateCancellation_def Let_def)
  qed
  show "cr_cancellationFee (calculateCancellationWithConfig m now q) = 0"
    "cr_refundAmount (calculateCancellationWithConfig m now q) = cp_amountPaid q"
    "of_int (cr_refundAmountInPaise (calculateCancellationWithConfig m now q)) = cp_amountPaid q * 100"
    using c assms(1) by (simp_all add: calculateCancellationWithConfig_def Let_def split: option.split)
qed

lemma reversal_recorded:
  assumes "booking_money b (deposit_amount dep)" "bk_netToVendor b + bk_gstAmount b \<le> bk_totalFare b"
    "\<And>d. dep = Some d \<Longrightarrow> sd_status d \<noteq> SecurityDepositStatus.CANCELLED" "has_baseline (bk_id b) L"
    "keys_free (reversal_journal dec20 b p dep (bk_totalFare b + deposit_amount dep) tier) L"
  shows "\<exists>L2. post_refund_journals dec20 round2 now jid1 jid2 b p dep (bk_totalFare b + deposit_amount dep) tier L = Inr L2"
proof -
  let ?R = "reversal_journal dec20 b p dep (bk_totalFare b + deposit_amount dep) tier"
  have re: "\<forall>l\<in>set (raw_lines ?R). valid_line l" "2 \<le> length (raw_lines ?R)"
    "dsum dec20 0 (side_amounts LedgerEntrySide.DEBIT (raw_lines ?R)) = dsum dec20 0 (side_amounts LedgerEntrySide.CREDIT (raw_lines ?R))" "cents_journal ?R"
    by (rule reversal_lines_exact [OF assms(1,2)]; fact assms(3))+
  have "ji_idempotencyKey ?R = Some (''jrn_refund_intent_'' @ bk_id b)" "''jrn_refund_intent_'' @ bk_id b \<noteq> []"
    by (simp_all add: reversal_journal_def booking_journal_def)
  from record_fresh [OF assms(5) re this, where now = now and fresh = jid2] assms(4) show ?thesis
    by (auto simp: post_refund_journals_def)
qed

definition vendor_cancel :: "Booking \<Rightarrow> string \<Rightarrow> BookingTransitionContext" where
  "vendor_cancel b reason = transition_to BookingStatus.CANCELLED (bk_id b) (bk_vendorUserId b) (User Role.VENDOR) (Some reason) None"

text \<open>
  C16: a vendor can give a paid booking back until the trip starts. Let the payment be of the fare and the
  deposit, with its journal posted and none of its reversal, what the vendor and the tax office get be
  within the fare (else the reversal is refused), and the deposit not be cancelled. Then the vendor's
  cancellation of the pending or confirmed booking (or one ready for handover) succeeds, whatever the configured
  fees and the gateway do; the fee is zero and the refund is everything that was paid.
\<close>

theorem vendor_cancellation_succeeds:
  assumes "load_view (bk_id (vw_booking v)) db = Some v" and "unique_refund_ids (db_refunds db)"
    and "bk_status (vw_booking v) \<in> {BookingStatus.PENDING, BookingStatus.CONFIRMED, BookingStatus.HANDOVER_READY}"
    and "vw_payment v = Some p" and "pm_amount p = bk_totalFare (vw_booking v) + deposit_amount (vw_deposit v)" and "pm_amount p < 10000000000"
    and "booking_money (vw_booking v) (deposit_amount (vw_deposit v))"
    and "bk_netToVendor (vw_booking v) + bk_gstAmount (vw_booking v) \<le> bk_totalFare (vw_booking v)"
    and "\<And>d. vw_deposit v = Some d \<Longrightarrow> sd_status d \<noteq> SecurityDepositStatus.CANCELLED"
    and "has_baseline (bk_id (vw_booking v)) (db_ledger db)"
    and "\<And>tier. keys_free (reversal_journal dec20 (vw_booking v) p (vw_deposit v) (pm_amount p) tier) (db_ledger db)"
    and "\<forall>e\<in>set (db_outbox db). oe_correlationId e \<noteq> correlation_id BookingStatus.CANCELLED (bk_id (vw_booking v)) now"
    and "\<forall>q\<in>set (db_refunds db). rf_idempotencyKey q \<noteq> rf_idempotencyKey (refund_row now v (vendor_cancel (vw_booking v) reason) (pm_amount p))"
  shows "\<exists>r db' g' c. transition_body sv now ids (vendor_cancel (vw_booking v) reason) (db, g) = (Inr r, db', g') \<and>
     tr_previousStatus r = bk_status (vw_booking v) \<and> tr_newStatus r = BookingStatus.CANCELLED \<and>
     cancellation_calc sv now v (vendor_cancel (vw_booking v) reason) = Some c \<and>
     cr_cancellationFee c = 0 \<and> cr_refundAmount c = pm_amount p"
proof -
  let ?b = "vw_booking v" and ?ctx = "vendor_cancel (vw_booking v) reason"
  have t: "tc_targetStatus ?ctx = BookingStatus.CANCELLED" "tc_bookingId ?ctx = bk_id ?b" "tc_actorId ?ctx = bk_vendorUserId ?b"
    "tc_actorRole ?ctx = User Role.VENDOR" by (simp_all add: vendor_cancel_def transition_to_def)
  note m = booking_moneyD [OF assms(7)]
  have cents: "is_cents (pm_amount p)" "0 \<le> pm_amount p" unfolding assms(5) using m by (auto intro: is_cents_add)
  let ?q = "cancel_params now v (User Role.VENDOR) (Some reason)"
  have q: "cp_actorRole ?q = Role.VENDOR" "cp_amountPaid ?q = pm_amount p"
    using assms(4) by (simp_all add: cancel_params_def Let_def actor_as_role_def)
  let ?c = "calculateCancellationWithConfig (sv_matrix sv) now ?q"
  have "tc_reason ?ctx = Some reason" by (simp add: vendor_cancel_def transition_to_def)
  then have calc: "cancellation_calc sv now v ?ctx = Some ?c" by (simp add: cancellation_calc_def t)
  have c: "cr_cancellationFee ?c = 0" "cr_refundAmount ?c = pm_amount p" "of_int (cr_refundAmountInPaise ?c) = pm_amount p * 100"
    using free_cancellation [of ?q "sv_matrix sv" now] q cents assms(6) by simp_all
  have total: "0 < pm_amount p" unfolding assms(5) using m(6,10) by linarith
  have paise: "0 < cr_refundAmountInPaise ?c" "cr_refundAmountInPaise ?c \<le> 10 ^ 14"
  proof -
    have "(0::rat) < of_int (cr_refundAmountInPaise ?c)" "(of_int (cr_refundAmountInPaise ?c) :: rat) \<le> of_int (10 ^ 14)"
      using c(3) total assms(6) by simp_all
    then show "0 < cr_refundAmountInPaise ?c" "cr_refundAmountInPaise ?c \<le> 10 ^ 14" by (simp_all only: of_int_0_less_iff of_int_le_iff)
  qed
  have rupees: "refund_rupees (cr_refundAmountInPaise ?c) = pm_amount p"
    using refund_rupees_exact [OF paise] c(3) by simp
  have auth: "may_transition ?b ?ctx" by (simp add: may_transition_def t Let_def)
  have "BookingStatus.CANCELLED \<in> set (allowed_targets (bk_status ?b))" using assms(3) by auto
  then have prep: "prepare_transition sv now ?ctx v db = (Inr (Some ?c), db)"
    using auth [folded authorized] calc by (simp add: prepare_transition_def validateStateTransition_def validateBusinessPreconditions_def t)
  have b: "?b \<in> set (db_bookings db)" using load_viewD(1) [OF assms(1)] by (auto dest: find_bookingD)
  have "find_payment (bk_id ?b) db = Some p" using load_viewD(3) [OF assms(1)] assms(4) by simp
  from find_paymentD [OF this] have pay: "p \<in> set (db_payments db)" ..
  let ?db1 = "update_booking (bk_id ?b) (apply_transition now ?ctx (Some ?c)) db"
  have g: "guarded_update now ?ctx (bk_status ?b) (Some ?c) db = Inr ?db1"
    using b t by (auto simp: guarded_update_def exists_where_iff)
  let ?db2 = "if vw_deposit v \<noteq> None then cancel_deposit now (bk_id ?b) ?db1 else ?db1"
  have same: "db_payments ?db2 = db_payments db" "db_refunds ?db2 = db_refunds db" "db_ledger ?db2 = db_ledger db" "db_outbox ?db2 = db_outbox db"
    by (simp_all add: update_booking_def cancel_deposit_def)
  obtain L where L: "post_refund_journals dec20 round2 now (fi_journal1 ids) (fi_journal2 ids) ?b p (vw_deposit v) (pm_amount p) (cr_tier ?c) (db_ledger db) = Inr L"
    using reversal_recorded [OF assms(7,8) assms(9,10) assms(11) [unfolded assms(5)]] unfolding assms(5) by blast
  have "rf_paymentId (refund_row now v ?ctx (pm_amount p)) = pm_id p" using assms(4) by (simp add: refund_row_def)
  then have "create_refund (refund_row now v ?ctx (pm_amount p)) ?db2 = Inr (?db2\<lparr>db_refunds := db_refunds db @ [refund_row now v ?ctx (pm_amount p)]\<rparr>)"
    using pay assms(13) same by (auto simp: create_refund_def exists_where_iff)
  then obtain db3 where ri: "refund_intent sv now ids v ?ctx ?c ?db2 = Inr db3" "db_outbox db3 = db_outbox db"
    using paise(1) rupees assms(4) L same by (cases "sv_ledger sv") (auto simp: refund_intent_def Let_def)
  let ?db4 = "commission_snapshot sv v ?ctx (fulfillment_sync v ?ctx (fleet_integrity now (fi_block ids) v ?ctx db3))"
  have "db_outbox ?db4 = db_outbox db"
    using commission_effect [of sv v ?ctx "fulfillment_sync v ?ctx (fleet_integrity now (fi_block ids) v ?ctx db3)"] ri(2) by auto
  then obtain db5 where ev: "create_event (transition_event now ids v ?ctx (Some ?c)) ?db4 = Inr db5"
    using assms(12) t by (auto simp: create_event_def exists_where_iff transition_event_def)
  have commit: "commit_transition sv now ids ?ctx v (Some ?c) db = Inr db5"
    using g ri(1) ev t by (cases "vw_deposit v") (simp_all add: commit_transition_def Let_def)
  obtain y db6 g6 where d: "dispatch_refund sv now ids ?ctx (Some ?c) (audit_override ?ctx db5, g) = (y, db6, g6)" by (metis prod_cases3)
  from dispatch_refund_total [OF committed_unique [OF assms(2) prep commit] d] d
  have d: "dispatch_refund sv now ids ?ctx (Some ?c) (audit_override ?ctx db5, g) = (Inr (), db6, g6)" by simp
  have view: "load_view (tc_bookingId ?ctx) db = Some v" "bk_status ?b \<noteq> tc_targetStatus ?ctx" using assms(1,3) t by auto
  from transition_done [OF view prep commit d] calc c t show ?thesis by fastforce
qed

section \<open>The properties at examples\<close>

definition demo_services :: "(string \<times> int) list services" where
  "demo_services = \<lparr>sv_compare = (=), sv_eligibility = None, sv_early = None, sv_matrix = None, sv_commission = None,
     sv_ledger = True, sv_pay = demo_pay\<rparr>"

definition demo_ids :: fresh_ids where
  "demo_ids = \<lparr>fi_journal1 = ''j1'', fi_journal2 = ''j2'', fi_event = ''e1'', fi_block = ''k1'', fi_refund = demo_refund_ids\<rparr>"

text \<open>A transition without a refund, from its checks.\<close>

lemma demo_transition:
  assumes "load_view (tc_bookingId ctx) db = Some v" "bk_status (vw_booking v) \<noteq> tc_targetStatus ctx"
    and "prepare_transition sv now ctx v db = (Inr None, db1)" "db_bookings db1 = db_bookings db" "db_outbox db1 = []"
    and "tc_targetStatus ctx \<noteq> BookingStatus.CANCELLED"
  shows "\<exists>r db2. transition_body sv now ids ctx (db, g) = (Inr r, db2, g) \<and>
    tr_previousStatus r = bk_status (vw_booking v) \<and> tr_newStatus r = tc_targetStatus ctx"
proof -
  have b: "vw_booking v \<in> set (db_bookings db1)" "bk_id (vw_booking v) = tc_bookingId ctx"
    using load_viewD(1,5) [OF assms(1)] assms(4) by (auto dest: find_bookingD)
  obtain db2 where "commit_transition sv now ids ctx v None db1 = Inr db2"
    using commit_uncancelled [OF assms(6) b HOL.refl, of now sv ids] assms(5) by auto
  from transition_done [OF assms(1-3) this, of g "audit_override ctx db2" g] show ?thesis
    by (simp add: dispatch_refund_def)
qed

lemma two_pending_unique: "unique_refund_ids (db_refunds two_pending)" "db_outbox two_pending = []"
  by (simp_all add: two_pending_def demo_db_def unique_refund_ids_def)

lemma confirm_target [simp]:
  "tc_bookingId (confirm_by_vendor bid) = bid" "tc_targetStatus (confirm_by_vendor bid) = BookingStatus.CONFIRMED"
  by (simp_all add: confirm_by_vendor_def transition_to_def)

lemma demo_confirmed:
  "\<exists>r db'. transition_body demo_services 5 demo_ids (confirm_by_vendor ''b1'') (two_pending, []) = (Inr r, db', []) \<and>
     tr_previousStatus r = BookingStatus.PENDING \<and> tr_newStatus r = BookingStatus.CONFIRMED"
proof -
  let ?ctx = "confirm_by_vendor ''b1''"
  let ?v = "\<lparr>vw_booking = pending_booking ''b1'', vw_payment = Some demo_payment, vw_deposit = None, vw_car = demo_car\<rparr>"
  have v: "load_view (tc_bookingId ?ctx) two_pending = Some ?v" using two_pending_views by simp
  have s: "bk_status (vw_booking ?v) = BookingStatus.PENDING" by (simp add: pending_booking_def)
  have p: "prepare_transition demo_services 5 ?ctx ?v two_pending = (Inr None, two_pending)"
    by (rule two_pending_confirmable) (use v in simp_all)
  show ?thesis using demo_transition [OF v _ p HOL.refl two_pending_unique(2), of demo_ids "[]"] s by simp
qed

lemma transition_is_a_life_cycle_step_witness:
  "\<exists>r db' e. transition_body demo_services 5 demo_ids (confirm_by_vendor ''b1'') (two_pending, []) = (Inr r, db', []) \<and>
     db_outbox db' = [e] \<and> oe_newStatus e = BookingStatus.CONFIRMED"
proof -
  obtain r db' where r: "transition_body demo_services 5 demo_ids (confirm_by_vendor ''b1'') (two_pending, []) = (Inr r, db', [])"
    "tr_previousStatus r \<noteq> tr_newStatus r" using demo_confirmed by force
  from transition_is_a_life_cycle_step [OF two_pending_unique(1) r] two_pending_unique(2)
  have "\<exists>e. db_outbox db' = [e] \<and> oe_newStatus e = BookingStatus.CONFIRMED" by auto
  with r(1) show ?thesis by blast
qed

lemma failed_transition_is_undone_witness:
  "\<exists>e db' codes r'. executeTransition kv_set kv_get kv_del True True ''t'' demo_services 5 demo_ids
       (transition_to BookingStatus.CONFIRMED ''b1'' ''cust'' (User Role.CUSTOMER) None None) ((two_pending, []), []) = (Inl e, (db', []), r') \<and>
     db' = two_pending\<lparr>db_otps := codes\<rparr>"
proof -
  let ?ctx = "transition_to BookingStatus.CONFIRMED ''b1'' ''cust'' (User Role.CUSTOMER) None None"
  let ?v = "\<lparr>vw_booking = pending_booking ''b1'', vw_payment = Some demo_payment, vw_deposit = None, vw_car = demo_car\<rparr>"
  have v: "load_view (tc_bookingId ?ctx) two_pending = Some ?v" using two_pending_views by (simp add: transition_to_def)
  have s: "bk_status (vw_booking ?v) \<noteq> tc_targetStatus ?ctx" by (simp add: pending_booking_def transition_to_def)
  obtain e where "prepare_transition demo_services 5 ?ctx ?v two_pending = (Inl e, two_pending)"
    by (simp add: prepare_transition_def validateAuthorization_def transition_to_def is_admin_def Let_def pending_booking_def
        demo_booking_def)
  from transition_refused [OF v s this, of demo_ids "[]"]
  have "transition_body demo_services 5 demo_ids ?ctx (two_pending, []) = (Inl e, two_pending, [])" .
  then have "\<exists>e' r'. executeTransition kv_set kv_get kv_del True True ''t'' demo_services 5 demo_ids ?ctx ((two_pending, []), []) =
      (Inl e', (two_pending, []), r')"
    by (simp add: executeTransition_def acquireCancellationLock_def acquire_key_def releaseCancellationLock_def release_key_def
        release_script_def kv_set_def kv_get_def kv_del_def)
  then obtain e' r' where x: "executeTransition kv_set kv_get kv_del True True ''t'' demo_services 5 demo_ids ?ctx ((two_pending, []), []) =
      (Inl e', (two_pending, []), r')" by blast
  from failed_transition_is_undone [OF two_pending_unique(1) x] x show ?thesis by blast
qed

lemma one_commit_per_status_witness:
  "\<exists>v db1. load_view ''b1'' two_pending = Some v \<and>
     commit_transition demo_services 5 demo_ids (confirm_by_vendor ''b1'') v None two_pending = Inr db1 \<and>
     commit_transition demo_services 6 demo_ids (transition_to BookingStatus.EXPIRED ''b1'' ''SYSTEM'' SYSTEM None None) v None db1 =
       Inl (PrismaError ''P2025'')"
proof -
  let ?v = "\<lparr>vw_booking = pending_booking ''b1'', vw_payment = Some demo_payment, vw_deposit = None, vw_car = demo_car\<rparr>"
  have v: "load_view ''b1'' two_pending = Some ?v" using two_pending_views by simp
  have b: "pending_booking ''b1'' \<in> set (db_bookings two_pending)" "bk_id (pending_booking ''b1'') = ''b1''"
    "bk_status (vw_booking ?v) \<noteq> BookingStatus.CONFIRMED" by (simp_all add: two_pending_def pending_booking_def)
  obtain db1 where c: "commit_transition demo_services 5 demo_ids (confirm_by_vendor ''b1'') ?v None two_pending = Inr db1"
    using commit_uncancelled [of "confirm_by_vendor ''b1''" "pending_booking ''b1''" two_pending ?v 5 demo_services demo_ids] b two_pending_unique(2) by auto
  have "commit_transition demo_services 6 demo_ids (transition_to BookingStatus.EXPIRED ''b1'' ''SYSTEM'' SYSTEM None None) ?v None db1 =
       Inl (PrismaError ''P2025'')"
    by (rule one_commit_per_status [OF c]) (use b(3) in \<open>simp_all add: transition_to_def\<close>)
  with v c show ?thesis by blast
qed

definition trip_db :: bk_db where
  "trip_db = demo_db\<lparr>db_bookings := [demo_booking\<lparr>bk_startDate := 0\<rparr>], db_otps := [demo_otp]\<rparr>"

lemma trip_start_is_guarded_witness:
  "\<exists>r db'. transition_body demo_services 5 demo_ids
       (transition_to BookingStatus.ONGOING ''b1'' ''vendor'' (User Role.VENDOR) None (Some ''123456'')) (trip_db, []) = (Inr r, db', []) \<and>
     finalized ''b1'' PRE_TRIP trip_db"
proof -
  let ?ctx = "transition_to BookingStatus.ONGOING ''b1'' ''vendor'' (User Role.VENDOR) None (Some ''123456'')"
  let ?b = "demo_booking\<lparr>bk_startDate := 0\<rparr>"
  let ?v = "\<lparr>vw_booking = ?b, vw_payment = Some demo_payment, vw_deposit = None, vw_car = demo_car\<rparr>"
  let ?db1 = "trip_db\<lparr>db_otps := [demo_otp\<lparr>ho_verified := True, ho_verifiedAt := Some 5\<rparr>]\<rparr>"
  have b: "bk_status ?b = BookingStatus.CONFIRMED" "bk_id ?b = ''b1''" "bk_startDate ?b = 0" "bk_vendorUserId ?b = ''vendor''"
    "bk_customerId ?b = ''cust''" "bk_carId ?b = ''c1''" by (simp_all add: demo_booking_def)
  have c: "car_operationalStatus demo_car = VehicleOperationalStatus.ACTIVE" "car_verificationStatus demo_car = VERIFIED" "car_id demo_car = ''c1''"
    by (simp_all add: demo_car_def)
  have p: "pm_status demo_payment = PaymentStatus.PAID" "pm_bookingId demo_payment = ''b1''" by (simp_all add: demo_payment_def)
  have v: "load_view (tc_bookingId ?ctx) trip_db = Some ?v"
    by (simp add: load_view_def find_booking_def find_payment_def find_deposit_def find_car_def trip_db_def transition_to_def
        demo_db_def demo_booking_def demo_payment_def demo_car_def)
  have o': "db_outbox trip_db = []" by (simp add: trip_db_def demo_db_def)
  have f: "finalized ''b1'' PRE_TRIP trip_db" by (simp add: finalized_def find_inspection_def trip_db_def demo_db_def)
  have check: "start_check demo_services 5 ?v (User Role.VENDOR) trip_db = Inr ()"
    using b c p f by (simp add: start_check_def is_admin_def demo_services_def allow_early_def throw_if_def)
  have code: "verifyOtp (=) 5 ''b1'' PICKUP ''123456'' trip_db = (Inr True, ?db1)"
    by (simp add: verifyOtp_def otp_check_def otp_commit_def latest_otp_def demo_otp_def trim_def is_blank_def count_where_def trip_db_def Let_def)
  have prep: "prepare_transition demo_services 5 ?ctx ?v trip_db = (Inr None, ?db1)"
    using check code b
    by (simp add: prepare_transition_def validateAuthorization_def validateStateTransition_def is_admin_def transition_to_def Let_def
        validateBusinessPreconditions_def otp_or_override_def str_truthy_def cancellation_calc_def demo_services_def)
  have "\<exists>r db'. transition_body demo_services 5 demo_ids ?ctx (trip_db, []) = (Inr r, db', []) \<and>
      tr_previousStatus r = BookingStatus.CONFIRMED"
    using demo_transition [OF v _ prep, of demo_ids "[]"] b(1) o' by (fastforce simp: transition_to_def)
  then obtain r db' where r: "transition_body demo_services 5 demo_ids ?ctx (trip_db, []) = (Inr r, db', [])"
      "tr_previousStatus r \<noteq> BookingStatus.ONGOING" by force
  have "finalized (tc_bookingId ?ctx) PRE_TRIP trip_db"
    using trip_start_is_guarded [OF _ r(1) _ r(2)] by (auto simp: transition_to_def trip_db_def demo_db_def unique_refund_ids_def)
  with r(1) show ?thesis by (auto simp: transition_to_def)
qed

lemma no_double_booking_in_sequence_witness:
  "\<exists>r db' g'. lifecycle_run demo_services (two_pending, []) (db', g') \<and> no_double_booking db' \<and>
     transition_body demo_services 5 demo_ids (confirm_by_vendor ''b1'') (two_pending, []) = (Inr r, db', g')"
proof -
  obtain r db' where r: "transition_body demo_services 5 demo_ids (confirm_by_vendor ''b1'') (two_pending, []) = (Inr r, db', [])"
    using demo_confirmed by blast
  then have run: "lifecycle_run demo_services (two_pending, []) (db', [])"
    by (intro lifecycle_run.next_step [OF lifecycle_run.start] lifecycle_step.step)
  have "no_double_booking two_pending" "distinct (map bk_id (db_bookings two_pending))"
    by (auto simp: no_double_booking_def two_pending_def pending_booking_def holds_car_def)
  with no_double_booking_in_sequence [OF run two_pending_unique(1)] run r show ?thesis by blast
qed

lemma terminal_bookings_stay_witness:
  "\<exists>res db' g'. transition_body demo_services 5 demo_ids (confirm_by_vendor ''b1'')
      (demo_db\<lparr>db_bookings := [demo_booking\<lparr>bk_status := BookingStatus.CANCELLED\<rparr>]\<rparr>, []) = (res, db', g') \<and>
     find_booking ''b1'' db' = Some (demo_booking\<lparr>bk_status := BookingStatus.CANCELLED\<rparr>)"
proof -
  let ?b = "demo_booking\<lparr>bk_status := BookingStatus.CANCELLED\<rparr>" and ?db = "demo_db\<lparr>db_bookings := [demo_booking\<lparr>bk_status := BookingStatus.CANCELLED\<rparr>]\<rparr>"
  obtain res db' g' where r: "transition_body demo_services 5 demo_ids (confirm_by_vendor ''b1'') (?db, []) = (res, db', g')"
    by (metis prod_cases3)
  then have run: "lifecycle_run demo_services (?db, []) (db', g')"
    by (intro lifecycle_run.next_step [OF lifecycle_run.start] lifecycle_step.step)
  have "find_booking ''b1'' ?db = Some ?b" "unique_refund_ids (db_refunds ?db)"
    by (simp_all add: find_booking_def demo_booking_def demo_db_def unique_refund_ids_def)
  with terminal_bookings_stay [OF run] r show ?thesis by auto
qed

definition demo_intent :: PaymentRefund where
  "demo_intent = \<lparr>rf_paymentId = ''p1'', rf_bookingId = ''b1'', rf_idempotencyKey = ''rfnd_b1_p1_5'', rf_requestedAmount = 500,
     rf_status = RefundStatus.PENDING, rf_gatewayRefundId = None, rf_processedAmount = None, rf_failureReason = None,
     rf_reason = ''Booking cancellation refund''\<rparr>"

lemma processed_refund_left_retryable_witness:
  "\<exists>c db2. dispatch_refund demo_services 5 demo_ids (transition_to BookingStatus.CANCELLED ''b1'' ''vendor'' (User Role.VENDOR) None None)
       (Some c) (demo_db\<lparr>db_refunds := [demo_intent]\<rparr>, []) = (Inr (), db2, [(''pay_1'', 50000)]) \<and>
     (\<exists>q\<in>set (db_refunds db2). rf_status q = RETRYABLE)"
proof -
  let ?ctx = "transition_to BookingStatus.CANCELLED ''b1'' ''vendor'' (User Role.VENDOR) None None"
  let ?db = "demo_db\<lparr>db_refunds := [demo_intent]\<rparr>"
  let ?c = "\<lparr>cr_tier = JNull, cr_tierDescription = JNull, cr_startDate = 0, cr_cancellationTime = 5, cr_hoursRemaining = 0,
    cr_amountPaid = 500, cr_cancellationFeePercent = 0, cr_cancellationFee = 0, cr_refundAmountPercent = 100,
    cr_refundAmount = 500, cr_refundAmountInPaise = 50000, cr_isEligibleForRefund = True\<rparr>"
  let ?r = "\<lparr>rr_refundId = Some ''rfnd_1'', rr_refundAmount = 500, rr_refundStatus = PROCESSED, rr_isDuplicate = False\<rparr>"
  have key: "refund_key demo_refund demo_payment = ''refund_b1_p1''"
    by (simp add: refund_key_def demo_refund_def demo_payment_def or_string_def)
  have rq: "\<lparr>rq_bookingId = tc_bookingId ?ctx, rq_paise = cr_refundAmountInPaise ?c, rq_reason = tc_reason ?ctx,
      rq_tier = (if truthy (Some (cr_tier ?c)) then Some (json_text (cr_tier ?c)) else None), rq_key = None, rq_userId = None\<rparr> = demo_refund"
    by (simp add: demo_refund_def transition_to_def truthy_def)
  obtain db1 where "refund demo_pay 5 demo_refund_ids demo_refund (?db, []) = (Inr ?r, db1, [(''pay_1'', 50000)])"
    using demo_refunded_beside [of "[demo_intent]"] key by (auto simp: demo_intent_def)
  then have r: "refund (sv_pay demo_services) 5 (fi_refund demo_ids) demo_refund (?db, []) = (Inr ?r, db1, [(''pay_1'', 50000)])"
    by (simp add: demo_services_def demo_ids_def)
  have db: "unique_refund_ids (db_refunds ?db)" "find_payment (tc_bookingId ?ctx) ?db = Some demo_payment" "pm_status demo_payment = PaymentStatus.PAID"
    "0 < cr_refundAmountInPaise ?c" "rr_refundId ?r = Some ''rfnd_1''" "demo_intent \<in> set (db_refunds ?db)" "rf_bookingId demo_intent = tc_bookingId ?ctx"
    "rf_status demo_intent = RefundStatus.PENDING"
    "\<forall>q\<in>set (db_refunds ?db). rf_idempotencyKey q \<noteq> refund_key demo_refund demo_payment \<and> rf_gatewayRefundId q \<noteq> Some ''rfnd_1''"
    unfolding key by (simp_all add: unique_refund_ids_def demo_intent_def find_payment_def transition_to_def demo_db_def demo_payment_def)
  from processed_refund_left_retryable [of ?db ?ctx demo_payment ?c demo_services 5 demo_ids "[]" ?r, unfolded rq, OF db(1-4) r _ _ db(5) _ db(9,6-8)]
  obtain db2 where "dispatch_refund demo_services 5 demo_ids ?ctx (Some ?c) (?db, []) = (Inr (), db2, [(''pay_1'', 50000)])"
    "\<exists>q\<in>set (db_refunds db2). rf_status q = RETRYABLE" by auto
  then show ?thesis by blast
qed

lemma vendor_cancellation_succeeds_witness:
  "\<exists>L r db' g' c. transition_body demo_services 5 demo_ids (vendor_cancel demo_booking ''broken down'') (demo_db\<lparr>db_ledger := L\<rparr>, []) = (Inr r, db', g') \<and>
     tr_newStatus r = BookingStatus.CANCELLED \<and>
     cancellation_calc demo_services 5 \<lparr>vw_booking = demo_booking, vw_payment = Some demo_payment, vw_deposit = None, vw_car = demo_car\<rparr>
       (vendor_cancel demo_booking ''broken down'') = Some c \<and> cr_refundAmount c = 1119.12"
proof -
  let ?v = "\<lparr>vw_booking = demo_booking, vw_payment = Some demo_payment, vw_deposit = None, vw_car = demo_car\<rparr>"
  have d: "deposit_amount None = 0" "bk_totalFare demo_booking = 1119.12" "pm_amount demo_payment = 1119.12"
    "bk_status demo_booking = BookingStatus.CONFIRMED" "bk_id demo_booking = ''b1''"
    by (simp_all add: deposit_amount_def demo_booking_def demo_payment_def)
  have paid: "paid_by demo_booking 0 919.12 200"
    using demo_money is_cents_div [of 91912] is_cents_of_int [of 200] by (simp add: paid_by_def d)
  have kf: "keys_free J []" for J by (simp add: keys_free_def)
  obtain r es where L: "recordJournal dec20 round2 0 ''j0'' (payment_journal demo_booking demo_payment 0 (bk_totalFare demo_booking + 0) 919.12 200 False) [] = Inr (r, [] @ es)"
    "has_baseline (bk_id demo_booking) ([] @ es)"
    "\<And>d refund tier. keys_free (reversal_journal dec20 demo_booking demo_payment d refund tier) ([] @ es)"
    by (rule payment_booked [OF paid demo_net kf, where p = demo_payment and full = False and now = 0 and jid = "''j0''"]) (use kf in blast)
  let ?db = "demo_db\<lparr>db_ledger := [] @ es\<rparr>"
  have v: "load_view (bk_id (vw_booking ?v)) ?db = Some ?v"
    by (simp add: load_view_def find_booking_def find_payment_def find_deposit_def find_car_def demo_db_def demo_booking_def
        demo_payment_def demo_car_def)
  have "\<exists>r db' g' c. transition_body demo_services 5 demo_ids (vendor_cancel (vw_booking ?v) ''broken down'') (?db, []) = (Inr r, db', g') \<and>
     tr_previousStatus r = bk_status (vw_booking ?v) \<and> tr_newStatus r = BookingStatus.CANCELLED \<and>
     cancellation_calc demo_services 5 ?v (vendor_cancel (vw_booking ?v) ''broken down'') = Some c \<and>
     cr_cancellationFee c = 0 \<and> cr_refundAmount c = pm_amount demo_payment"
  proof (rule vendor_cancellation_succeeds [OF v])
    show "has_baseline (bk_id (vw_booking ?v)) (db_ledger ?db)" using L(2) by simp
    show "keys_free (reversal_journal dec20 (vw_booking ?v) demo_payment (vw_deposit ?v) (pm_amount demo_payment) tier) (db_ledger ?db)" for tier
      using L(3) by simp
  qed (use demo_money demo_net d in \<open>simp_all add: demo_db_def unique_refund_ids_def\<close>)
  then show ?thesis using d by auto
qed
end
