(* ===== verification/PaymentWebhook.thy ===== *)
theory PaymentWebhook
  imports Refunds
begin

text \<open>
  The notifications of the payment gateways (\<open>handleWebhook\<close> in \<open>payments/payments.service.ts\<close>) and the
  vendor's view of a payment. A notification is a JSON value from outside, read with optional
  chaining; a value of the wrong type where the code calls a string method, or where Prisma expects a
  string, is an error of the run. Parameters (\<open>hook_env\<close>): \<open>JSON.parse\<close>, the hash functions and the
  gateway library's signature check.
\<close>

section \<open>Data\<close>

record hook_env =
  hk_parse :: "string \<Rightarrow> json option"
  hk_sha256 :: "string \<Rightarrow> string"
  hk_cfSecret :: string
  hk_cfHmac :: "string \<Rightarrow> string \<Rightarrow> string"
  hk_stripeSecret :: string
  hk_stripeHmac :: "string \<Rightarrow> string \<Rightarrow> string"
  hk_validWebhook :: "string \<Rightarrow> string \<Rightarrow> bool"

type_synonym headers = "(string \<times> string) list option"

datatype hook_result = Received | Duplicate | AlreadyProcessed | VendorDepositProcessed | PaymentNotFound

text \<open>The tables of the vendors' onboarding deposits that a notification writes.\<close>

datatype VendorDepositStatus =
    REQUIRED | NOT_REQUIRED | PENDING | PAYMENT_INITIATED | PARTIALLY_PAID | PAID | PAYMENT_FAILED | HELD | RELEASED
  | REFUND_PENDING | PARTIALLY_REFUNDED | REFUNDED | FORFEITED | REVIEW_REQUIRED
datatype RequirementFulfillmentStatus = PENDING | SUBMITTED | UNDER_REVIEW | APPROVED | REJECTED | EXPIRED | WAIVED

record VendorSecurityDeposit =
  vd_id :: id
  vd_vendorId :: id
  vd_requiredAmount :: rat
  vd_paidAmount :: rat
  vd_remainingAmount :: rat
  vd_status :: VendorDepositStatus
  vd_providerOrderId :: "string option"
  vd_providerPaymentId :: "string option"

record VendorDepositLedgerEntry =
  ve_depositId :: id
  ve_amount :: rat
  ve_direction :: LedgerDirection
  ve_balanceBefore :: rat
  ve_balanceAfter :: rat
  ve_transactionType :: string
  ve_paymentMethod :: string
  ve_reference :: string
  ve_idempotencyKey :: string

record VendorRequirementState =
  rs_vendorId :: id
  rs_requirementDefinitionId :: id
  rs_status :: RequirementFulfillmentStatus
  rs_reviewedByUserId :: "string option"
  rs_reviewedAt :: "time option"

record vendor_db =
  vn_deposits :: "VendorSecurityDeposit list"
  vn_entries :: "VendorDepositLedgerEntry list"
  vn_definitions :: "(id \<times> string \<times> bool) list"
  vn_states :: "VendorRequirementState list"

section \<open>Reading JSON\<close>

text \<open>\<open>x?.a?.b\<close>\<close>

fun path :: "string list \<Rightarrow> json \<Rightarrow> json option" where
  "path [] j = Some j"
| "path (k # ks) j = (case field k j of None \<Rightarrow> None | Some j' \<Rightarrow> path ks j')"

text \<open>\<open>a || b\<close> on values that may be undefined.\<close>

definition or_else :: "json option \<Rightarrow> json option \<Rightarrow> json option" where
  "or_else a b = (if truthy a then a else b)"

definition type_error :: exn where "type_error = GatewayError ''TypeError''"

text \<open>\<open>x?.startsWith(p)\<close>\<close>

definition starts_json :: "json option \<Rightarrow> string \<Rightarrow> bool result" where
  "starts_json j p =
     (case j of
        None \<Rightarrow> Inr False
      | Some JNull \<Rightarrow> Inr False
      | Some (JStr s) \<Rightarrow> Inr (starts_with s p)
      | Some _ \<Rightarrow> Inl type_error)"

text \<open>
  \<open>Number(x)\<close>, \<open>None\<close> for NaN; of the strings those that are decimal numerals (no exponent, no
  radix prefix).
\<close>

definition decimal_value :: "string \<Rightarrow> rat option" where
  "decimal_value s =
     (let ip = takeWhile is_digit s; r = dropWhile is_digit s
      in case r of
           [] \<Rightarrow> if ip = [] then None else Some (of_int (digits_value ip))
         | c # fp \<Rightarrow>
             if c = CHR ''.'' \<and> list_all is_digit fp \<and> (ip \<noteq> [] \<or> fp \<noteq> [])
             then Some (of_int (digits_value ip) + of_int (digits_value fp) / 10 ^ length fp)
             else None)"

definition js_number :: "json \<Rightarrow> rat option" where
  "js_number j =
     (case j of
        JNum x \<Rightarrow> Some x
      | JBool b \<Rightarrow> Some (if b then 1 else 0)
      | JNull \<Rightarrow> Some 0
      | JStr s \<Rightarrow>
          (let t = trim s
           in case t of
                [] \<Rightarrow> Some 0
              | c # u \<Rightarrow>
                  map_option fl
                    (if c = CHR ''-'' then map_option uminus (decimal_value u)
                     else if c = CHR ''+'' then decimal_value u else decimal_value t))
      | _ \<Rightarrow> None)"

section \<open>Which gateway, and its signature\<close>

definition header :: "headers \<Rightarrow> string \<Rightarrow> string option" where
  "header hs k = (case hs of None \<Rightarrow> None | Some l \<Rightarrow> or_str (map_of l k) None)"

datatype gateway = CASHFREE | STRIPE | RAZORPAY

definition is_cashfree :: "headers \<Rightarrow> json \<Rightarrow> bool result" where
  "is_cashfree hs payload =
     (if header hs ''x-webhook-signature'' \<noteq> None \<or> header hs ''x-cf-signature'' \<noteq> None then Inr True
      else bindR (starts_json (path [''type''] payload) ''PAYMENT_'')
             (\<lambda>b. Inr (b \<or> truthy (path [''data'', ''order'', ''order_id''] payload))))"

definition is_stripe :: "headers \<Rightarrow> json \<Rightarrow> bool result" where
  "is_stripe hs payload =
     (if header hs ''stripe-signature'' \<noteq> None \<or> path [''object''] payload = Some (JStr ''event'') then Inr True
      else starts_json (path [''type''] payload) ''payment_intent.'')"

definition detect_gateway :: "headers \<Rightarrow> json \<Rightarrow> gateway result" where
  "detect_gateway hs payload =
     bindR (is_cashfree hs payload) (\<lambda>c. bindR (is_stripe hs payload) (\<lambda>s.
       Inr (if c then CASHFREE else if s then STRIPE else RAZORPAY)))"

text \<open>The value of a key in Stripe's header \<open>t=...,v1=...\<close>; a later pair replaces an earlier one.\<close>

definition stripe_part :: "string \<Rightarrow> string \<Rightarrow> string option" where
  "stripe_part k signature =
     (case rev (filter (\<lambda>kv. hd kv = k) (map (split_on (CHR ''='') []) (split_on (CHR '','') [] signature))) of
        [] \<Rightarrow> None
      | kv # _ \<Rightarrow> (case tl kv of [] \<Rightarrow> None | v # _ \<Rightarrow> or_str (Some v) None))"

definition configured :: "string \<Rightarrow> bool" where
  "configured secret \<longleftrightarrow> secret \<noteq> [] \<and> \<not> starts_with secret ''placeholder''"

definition valid_hook :: "'g pay_env \<Rightarrow> hook_env \<Rightarrow> gateway \<Rightarrow> headers \<Rightarrow> string \<Rightarrow> string \<Rightarrow> bool" where
  "valid_hook env hk gw hs rawBody signature \<longleftrightarrow>
     (if py_useMock env \<and> signature = ''mock_signature'' then True
      else case gw of
        CASHFREE \<Rightarrow>
          \<not> (configured (hk_cfSecret hk) \<and>
             signature \<noteq> hk_cfHmac hk (hk_cfSecret hk)
               (case header hs ''x-webhook-timestamp'' of None \<Rightarrow> rawBody | Some ts \<Rightarrow> ts @ rawBody) \<and>
             signature \<noteq> ''mock_signature'')
      | STRIPE \<Rightarrow>
          \<not> (configured (hk_stripeSecret hk) \<and> signature \<noteq> ''mock_signature'' \<and>
             (case (stripe_part ''t'' signature, stripe_part ''v1'' signature) of
                (Some t, Some v1) \<Rightarrow> v1 \<noteq> hk_stripeHmac hk (hk_stripeSecret hk) (t @ ''.'' @ rawBody)
              | _ \<Rightarrow> False))
      | RAZORPAY \<Rightarrow> hk_validWebhook hk rawBody signature)"

section \<open>The event\<close>

definition event_of :: "json \<Rightarrow> json" where
  "event_of payload = or_json (or_else (path [''event''] payload) (path [''type''] payload)) (JStr ''payment.captured'')"

definition event_id :: "hook_env \<Rightarrow> headers \<Rightarrow> json \<Rightarrow> string \<Rightarrow> string" where
  "event_id hk hs payload rawBody =
     (let h = or_str (header hs ''x-razorpay-event-id'') (or_str (header hs ''x-webhook-id'')
                (or_str (header hs ''stripe-event-id'') (header hs ''x-event-id'')))
      in case h of
           Some x \<Rightarrow> x
         | None \<Rightarrow> json_text (or_json (or_else (path [''event_id''] payload) (path [''id''] payload)) (JStr (hk_sha256 hk rawBody))))"

definition show_gateway :: "gateway \<Rightarrow> string" where
  "show_gateway gw = (case gw of CASHFREE \<Rightarrow> ''CASHFREE'' | STRIPE \<Rightarrow> ''STRIPE'' | RAZORPAY \<Rightarrow> ''RAZORPAY'')"

definition seen_event :: "string \<Rightarrow> bk_db \<Rightarrow> bool" where
  "seen_event eid db = exists_where (\<lambda>w. wh_eventId w = eid) (db_webhooks db)"

definition store_event :: "gateway \<Rightarrow> string \<Rightarrow> string \<Rightarrow> bk_db \<Rightarrow> bk_db" where
  "store_event gw eid type db =
     db\<lparr>db_webhooks := db_webhooks db @
       [\<lparr>wh_gateway = show_gateway gw, wh_eventId = eid, wh_eventType = type, wh_status = ''RECEIVED'', wh_processedAt = None\<rparr>]\<rparr>"

definition event_processed :: "time \<Rightarrow> string \<Rightarrow> bk_db \<Rightarrow> bk_db" where
  "event_processed now eid db =
     db\<lparr>db_webhooks := update_where (\<lambda>w. wh_eventId w = eid)
          (\<lambda>w. w\<lparr>wh_status := ''PROCESSED'', wh_processedAt := Some now\<rparr>) (db_webhooks db)\<rparr>"

definition is_success :: "json \<Rightarrow> bool" where
  "is_success e \<longleftrightarrow>
     e \<in> {JStr ''payment.captured'', JStr ''order.paid'', JStr ''PAYMENT_SUCCESS_WEBHOOK'', JStr ''payment_intent.succeeded''}"

section \<open>A captured payment\<close>

text \<open>A value where Prisma expects a string.\<close>

definition as_text :: "json \<Rightarrow> string result" where
  "as_text j = (case j of JStr s \<Rightarrow> Inr s | _ \<Rightarrow> Inl (PrismaError ''Validation''))"

record capture =
  ca_orderId :: "json option"
  ca_paymentId :: json
  ca_amount :: "json option"
  ca_currency :: json

definition capture_of :: "time \<Rightarrow> json \<Rightarrow> capture" where
  "capture_of now payload =
     (let entity = (\<lambda>k. path [''payload'', ''payment'', ''entity'', k] payload);
          order = (\<lambda>k. path [''data'', ''order'', k] payload);
          object = (\<lambda>ks. path ([''data'', ''object''] @ ks) payload)
      in \<lparr>ca_orderId = or_else (entity ''order_id'') (or_else (order ''order_id'') (or_else (object [''metadata'', ''orderId'']) (object [''id'']))),
          ca_paymentId = or_json (or_else (entity ''id'') (or_else (path [''data'', ''payment'', ''cf_payment_id''] payload) (object [''id''])))
            (JStr (''pay_'' @ show_nat (nat now))),
          ca_amount = or_else (entity ''amount'')
            (or_else (if truthy (order ''order_amount'')
                      then map_option (\<lambda>x. JNum (of_int (js_round (fl (x * 100))))) (js_number (the (order ''order_amount'')))
                      else None)
              (object [''amount''])),
          ca_currency = or_json (or_else (entity ''currency'') (or_else (order ''order_currency'') (object [''currency'']))) (JStr ''INR'')\<rparr>)"

definition captured_payment :: "string \<Rightarrow> string \<Rightarrow> bk_db \<Rightarrow> Payment option" where
  "captured_payment orderId paymentId db =
     List.find (\<lambda>p. pm_razorpayOrderId p = Some orderId \<or> pm_razorpayPaymentId p = Some paymentId \<or> pm_id p = orderId) (db_payments db)"

text \<open>The onboarding deposit of a vendor that the order or the payment belongs to.\<close>

definition vendor_deposit :: "string \<Rightarrow> string \<Rightarrow> vendor_db \<Rightarrow> VendorSecurityDeposit option" where
  "vendor_deposit orderId paymentId vn =
     List.find (\<lambda>d. vd_providerOrderId d = Some orderId \<or> vd_providerPaymentId d = Some paymentId) (vn_deposits vn)"

definition approve_requirement :: "time \<Rightarrow> id \<Rightarrow> vendor_db \<Rightarrow> vendor_db" where
  "approve_requirement now vendorId vn =
     (case List.find (\<lambda>(_, code, active). code = ''DEP_SECURITY'' \<and> active) (vn_definitions vn) of
        None \<Rightarrow> vn
      | Some (def, _, _) \<Rightarrow>
          let key = (\<lambda>s. rs_vendorId s = vendorId \<and> rs_requirementDefinitionId s = def)
          in if exists_where key (vn_states vn)
             then vn\<lparr>vn_states := update_where key
                    (\<lambda>s. s\<lparr>rs_status := APPROVED, rs_reviewedByUserId := Some ''SYSTEM_WEBHOOK'', rs_reviewedAt := Some now\<rparr>) (vn_states vn)\<rparr>
             else vn\<lparr>vn_states := vn_states vn @
                    [\<lparr>rs_vendorId = vendorId, rs_requirementDefinitionId = def, rs_status = APPROVED,
                      rs_reviewedByUserId = Some ''SYSTEM_WEBHOOK'', rs_reviewedAt = Some now\<rparr>]\<rparr>)"

definition capture_deposit :: "time \<Rightarrow> string \<Rightarrow> VendorSecurityDeposit \<Rightarrow> vendor_db \<Rightarrow> vendor_db result" where
  "capture_deposit now paymentId d vn =
     (if vd_status d = VendorDepositStatus.PAID then Inr vn
      else let amount = round2 (dec_of_num (fl (vd_requiredAmount d)));
               vn1 = vn\<lparr>vn_deposits := update_where (\<lambda>x. vd_id x = vd_id d)
                 (\<lambda>x. x\<lparr>vd_status := VendorDepositStatus.PAID, vd_paidAmount := amount, vd_remainingAmount := 0,
                        vd_providerPaymentId := Some paymentId\<rparr>) (vn_deposits vn)\<rparr>
           in if exists_where (\<lambda>e. ve_reference e = paymentId) (vn_entries vn)
              then Inr (approve_requirement now (vd_vendorId d) vn1)
              else if exists_where (\<lambda>e. ve_idempotencyKey e = ''wh_'' @ paymentId) (vn_entries vn)
              then Inl (PrismaError ''P2002'')
              else Inr (approve_requirement now (vd_vendorId d)
                     (vn1\<lparr>vn_entries := vn_entries vn1 @
                       [\<lparr>ve_depositId = vd_id d, ve_amount = amount, ve_direction = LedgerDirection.CREDIT,
                         ve_balanceBefore = round2 (dec_of_num (fl (vd_paidAmount d))), ve_balanceAfter = amount,
                         ve_transactionType = ''INITIAL_PAYMENT'', ve_paymentMethod = ''RAZORPAY_WEBHOOK'', ve_reference = paymentId,
                         ve_idempotencyKey = ''wh_'' @ paymentId\<rparr>]\<rparr>)))"

text \<open>The transaction that marks the payment paid and books it in full against the gateway.\<close>

definition commit_capture :: "'g pay_env \<Rightarrow> time \<Rightarrow> string \<Rightarrow> Payment \<Rightarrow> string \<Rightarrow> bk_db \<Rightarrow> bk_db result" where
  "commit_capture env now jid p paymentId db =
     bindR (update_payment (p\<lparr>pm_status := PaymentStatus.PAID, pm_razorpayPaymentId := Some paymentId\<rparr>) db) (\<lambda>db1.
     let db2 = recordPaymentAuditLog
           (audit_event p ''WEBHOOK_PAYMENT_CAPTURED'' (Some (pm_status p)) PaymentStatus.PAID (Some (pm_amount p)) (Some paymentId)
             None None ''WEBHOOK'') db1
     in case find_booking (pm_bookingId p) db2 of
          None \<Rightarrow> Inr db2
        | Some b \<Rightarrow> recordPaymentLedgerJournal env now jid b p (payable b db2) (payable b db2) 0 False db2)"

definition amount_differs :: "json option \<Rightarrow> Payment \<Rightarrow> bool" where
  "amount_differs amount p \<longleftrightarrow> truthy amount \<and> js_number (the amount) \<noteq> Some (of_int (in_paise (pm_amount p)))"

definition handle_capture ::
  "'g pay_env \<Rightarrow> time \<Rightarrow> string \<Rightarrow> string \<Rightarrow> json \<Rightarrow> bk_db \<times> vendor_db \<Rightarrow> hook_result result \<times> bk_db \<times> vendor_db" where
  "handle_capture env now jid eid payload st =
     (let (db, vn) = st; c = capture_of now payload
      in if \<not> truthy (ca_orderId c) then (Inr Received, st)
         else case bindR (as_text (the (ca_orderId c))) (\<lambda>oid. bindR (as_text (ca_paymentId c)) (\<lambda>pid. Inr (oid, pid))) of
                Inl e \<Rightarrow> (Inl e, st)
              | Inr (oid, pid) \<Rightarrow>
                  (case captured_payment oid pid db of
                     None \<Rightarrow>
                       (case vendor_deposit oid pid vn of
                          None \<Rightarrow> (Inr PaymentNotFound, st)
                        | Some d \<Rightarrow>
                            (case capture_deposit now pid d vn of
                               Inl e \<Rightarrow> (Inl e, st)
                             | Inr vn1 \<Rightarrow> (Inr VendorDepositProcessed, db, vn1)))
                   | Some p \<Rightarrow>
                       (case ca_currency c of
                          JStr cur \<Rightarrow>
                            if to_upper cur \<noteq> ''INR'' \<or> amount_differs (ca_amount c) p then (Inr Received, st)
                            else if pm_status p = PaymentStatus.PAID then (Inr AlreadyProcessed, event_processed now eid db, vn)
                            else (case commit_capture env now jid p pid db of
                                    Inl e \<Rightarrow> (Inl e, st)
                                  | Inr db1 \<Rightarrow> (Inr Received, event_processed now eid db1, vn))
                        | _ \<Rightarrow> (Inl type_error, st))))"

section \<open>Failures, authorizations and refunds\<close>

text \<open>
  A filter of a query: undefined is no filter, null asks for the empty column. An \<open>OR\<close> drops the
  alternatives without a filter.
\<close>

datatype col_filter = No_filter | Equals "string option"

definition col_filter :: "json option \<Rightarrow> col_filter result" where
  "col_filter j =
     (case j of
        None \<Rightarrow> Inr No_filter
      | Some JNull \<Rightarrow> Inr (Equals None)
      | Some (JStr s) \<Rightarrow> Inr (Equals (Some s))
      | Some _ \<Rightarrow> Inl (PrismaError ''Validation''))"

definition payment_of_order :: "json option \<Rightarrow> bk_db \<Rightarrow> Payment option result" where
  "payment_of_order orderId db =
     bindR (col_filter orderId) (\<lambda>f.
       Inr (List.find (\<lambda>p. case f of No_filter \<Rightarrow> True | Equals x \<Rightarrow> pm_razorpayOrderId p = x) (db_payments db)))"

definition refunded_payment :: "json option \<Rightarrow> json option \<Rightarrow> bk_db \<Rightarrow> Payment option result" where
  "refunded_payment refundId paymentId db =
     bindR (col_filter refundId) (\<lambda>f. bindR (col_filter paymentId) (\<lambda>h.
       Inr (List.find (\<lambda>p. f = Equals (pm_razorpayRefundId p) \<or> h = Equals (pm_razorpayPaymentId p)) (db_payments db))))"

text \<open>A column in the data of an update: undefined leaves it.\<close>

definition new_value :: "json option \<Rightarrow> string option \<Rightarrow> string option result" where
  "new_value j old = bindR (col_filter j) (\<lambda>f. Inr (case f of No_filter \<Rightarrow> old | Equals x \<Rightarrow> x))"

definition json_string :: "json option \<Rightarrow> string option" where
  "json_string j = (case j of Some (JStr s) \<Rightarrow> Some s | _ \<Rightarrow> None)"

text \<open>The gateway reports that the payment failed, or is authorized.\<close>

definition handle_status ::
  "PaymentStatus \<Rightarrow> string \<Rightarrow> (Payment \<Rightarrow> bool) \<Rightarrow> json option \<Rightarrow> bk_db \<Rightarrow> hook_result result \<times> bk_db" where
  "handle_status s type applies entity db =
     (if \<not> truthy entity then (Inr Received, db)
      else let orderId = path [''order_id''] (the entity); paymentId = path [''id''] (the entity)
      in case payment_of_order orderId db of
           Inl e \<Rightarrow> (Inl e, db)
         | Inr None \<Rightarrow> (Inr Received, db)
         | Inr (Some p) \<Rightarrow>
             if applies p
             then case bindR (new_value paymentId (pm_razorpayPaymentId p)) (\<lambda>x.
                         update_payment (p\<lparr>pm_status := s, pm_razorpayPaymentId := x\<rparr>) db) of
                    Inl e \<Rightarrow> (Inl e, db)
                  | Inr db1 \<Rightarrow>
                      (Inr Received,
                       recordPaymentAuditLog (audit_event p type (Some (pm_status p)) s None (json_string paymentId) None None ''WEBHOOK'') db1)
             else (Inr Received, db))"

definition handle_failed :: "json \<Rightarrow> bk_db \<Rightarrow> hook_result result \<times> bk_db" where
  "handle_failed payload =
     handle_status PaymentStatus.FAILED ''WEBHOOK_PAYMENT_FAILED''
       (\<lambda>p. pm_status p \<noteq> PaymentStatus.PAID \<and> pm_status p \<noteq> PaymentStatus.REFUNDED)
       (path [''payload'', ''payment'', ''entity''] payload)"

definition handle_authorized :: "json \<Rightarrow> bk_db \<Rightarrow> hook_result result \<times> bk_db" where
  "handle_authorized payload =
     handle_status PaymentStatus.AUTHORIZED ''WEBHOOK_PAYMENT_AUTHORIZED'' (\<lambda>p. pm_status p = PaymentStatus.CREATED)
       (path [''payload'', ''payment'', ''entity''] payload)"

text \<open>\<open>new Decimal((amountPaise / 100).toFixed(2))\<close>; NaN is refused by the column.\<close>

definition refund_amount :: "json option \<Rightarrow> rat result" where
  "refund_amount j =
     (case j of
        None \<Rightarrow> Inl (PrismaError ''Validation'')
      | Some v \<Rightarrow> (case js_number v of None \<Rightarrow> Inl (PrismaError ''Validation'') | Some x \<Rightarrow> Inr (round2 (fl (x / 100)))))"

definition handle_refund_event ::
  "RefundStatus \<Rightarrow> string \<Rightarrow> json option \<Rightarrow> bk_db \<Rightarrow> hook_result result \<times> bk_db" where
  "handle_refund_event s type entity db =
     (if \<not> truthy entity then (Inr Received, db)
      else let refundId = path [''id''] (the entity); paymentId = path [''payment_id''] (the entity)
      in case refunded_payment refundId paymentId db of
           Inl e \<Rightarrow> (Inl e, db)
         | Inr None \<Rightarrow> (Inr Received, db)
         | Inr (Some p) \<Rightarrow>
             if pm_refundStatus p = RefundStatus.PROCESSED
             then (Inr (if s = RefundStatus.PROCESSED then AlreadyProcessed else Received), db)
             else let after = (if s = RefundStatus.PROCESSED then PaymentStatus.REFUNDED else pm_status p)
             in case bindR (refund_amount (path [''amount''] (the entity))) (\<lambda>a. bindR (new_value refundId (pm_razorpayRefundId p)) (\<lambda>x.
                         bindR (update_payment (p\<lparr>pm_status := after, pm_razorpayRefundId := x, pm_refundAmount := Some a, pm_refundStatus := s\<rparr>) db)
                           (\<lambda>db1. Inr (a, db1)))) of
                  Inl e \<Rightarrow> (Inl e, db)
                | Inr (a, db1) \<Rightarrow>
                    (Inr Received,
                     recordPaymentAuditLog
                       (audit_event p type (Some (pm_status p)) after (Some a) (json_string refundId) None None ''WEBHOOK'') db1))"

definition handle_refund_processed :: "json \<Rightarrow> bk_db \<Rightarrow> hook_result result \<times> bk_db" where
  "handle_refund_processed payload =
     handle_refund_event RefundStatus.PROCESSED ''WEBHOOK_REFUND_PROCESSED'' (path [''payload'', ''refund'', ''entity''] payload)"

definition handle_refund_created :: "json \<Rightarrow> bk_db \<Rightarrow> hook_result result \<times> bk_db" where
  "handle_refund_created payload =
     handle_refund_event RefundStatus.PENDING ''WEBHOOK_REFUND_CREATED'' (path [''payload'', ''refund'', ''entity''] payload)"

definition handle_refund_failed :: "json \<Rightarrow> bk_db \<Rightarrow> hook_result result \<times> bk_db" where
  "handle_refund_failed payload db =
     (let entity = path [''payload'', ''refund'', ''entity''] payload
      in if \<not> truthy entity then (Inr Received, db)
         else case refunded_payment (path [''id''] (the entity)) (path [''payment_id''] (the entity)) db of
                Inl e \<Rightarrow> (Inl e, db)
              | Inr None \<Rightarrow> (Inr Received, db)
              | Inr (Some p) \<Rightarrow>
                  (case update_payment (p\<lparr>pm_refundStatus := RefundStatus.FAILED\<rparr>) db of
                     Inl e \<Rightarrow> (Inl e, db)
                   | Inr db1 \<Rightarrow> (Inr Received, db1)))"

section \<open>The handler\<close>

definition on_payments :: "hook_result result \<times> bk_db \<Rightarrow> vendor_db \<Rightarrow> hook_result result \<times> bk_db \<times> vendor_db" where
  "on_payments r vn = (fst r, snd r, vn)"

definition dispatch_event ::
  "'g pay_env \<Rightarrow> time \<Rightarrow> string \<Rightarrow> string \<Rightarrow> json \<Rightarrow> bk_db \<times> vendor_db \<Rightarrow> hook_result result \<times> bk_db \<times> vendor_db" where
  "dispatch_event env now jid eid payload st =
     (let (db, vn) = st; e = event_of payload
      in if is_success e then handle_capture env now jid eid payload st
         else if e = JStr ''payment.failed'' then on_payments (handle_failed payload db) vn
         else if e = JStr ''payment.authorized'' then on_payments (handle_authorized payload db) vn
         else if e = JStr ''refund.processed'' then on_payments (handle_refund_processed payload db) vn
         else if e = JStr ''refund.created'' then on_payments (handle_refund_created payload db) vn
         else if e = JStr ''refund.failed'' then on_payments (handle_refund_failed payload db) vn
         else (Inr Received, st))"

definition handleWebhook ::
  "'g pay_env \<Rightarrow> hook_env \<Rightarrow> time \<Rightarrow> string \<Rightarrow> string \<Rightarrow> string \<Rightarrow> headers \<Rightarrow> bk_db \<times> vendor_db \<Rightarrow>
   hook_result result \<times> bk_db \<times> vendor_db" where
  "handleWebhook env hk now jid rawBody signature hs st =
     (case hk_parse hk rawBody of
        None \<Rightarrow> (Inl (GatewayError ''SyntaxError''), st)
      | Some payload \<Rightarrow>
          (case detect_gateway hs payload of
             Inl e \<Rightarrow> (Inl e, st)
           | Inr gw \<Rightarrow>
               if \<not> valid_hook env hk gw hs rawBody signature
               then (Inl (BadRequestException ''Invalid webhook signature''), st)
               else if payload = JNull then (Inl type_error, st)
               else let eid = event_id hk hs payload rawBody; db = fst st
               in if seen_event eid db then (Inr Duplicate, st)
                  else dispatch_event env now jid eid payload (store_event gw eid (json_text (event_of payload)) db, snd st)))"

section \<open>The vendor's view\<close>

record vendor_payment =
  vp_booking :: id
  vp_paymentStatus :: "PaymentStatus option"
  vp_isPaid :: bool
  vp_tripFare :: rat
  vp_netVendorEarnings :: rat
  vp_platformCommission :: rat
  vp_securityDepositHeld :: rat
  vp_refundStatus :: "RefundStatus option"
  vp_refundAmount :: rat
  vp_settlementStatus :: string

text \<open>
  What the vendor is shown, but for the currency and the time of the last change; \<open>None\<close> stands for
  UNPAID and NONE of a booking without a payment. \<open>vendors\<close> pairs the vendor profiles with their users.
\<close>

definition getVendorPaymentByBookingId ::
  "(id \<times> id) list \<Rightarrow> id \<Rightarrow> id \<Rightarrow> Role \<Rightarrow> bk_db \<Rightarrow> vendor_payment result" where
  "getVendorPaymentByBookingId vendors bid userId role db =
     (case find_booking bid db of
        None \<Rightarrow> Inl (NotFoundException ''Booking not found.'')
      | Some b \<Rightarrow>
          let profile = (case List.find (\<lambda>(_, u). u = userId) vendors of Some (v, _) \<Rightarrow> v | None \<Rightarrow> userId);
              mine = (\<lambda>v. v = userId \<or> v = profile);
              owner = (case find_car (bk_carId b) db of Some c \<Rightarrow> mine (car_vendorId c) | None \<Rightarrow> False) \<or> mine (bk_vendorId b);
              paid = (case find_payment bid db of Some p \<Rightarrow> pm_status p = PaymentStatus.PAID | None \<Rightarrow> False)
          in throw_if (role = Role.VENDOR \<and> \<not> owner)
               (ForbiddenException ''Access denied: You can only view payment information for your own fleet bookings.'')
             (Inr \<lparr>vp_booking = bid, vp_paymentStatus = map_option pm_status (find_payment bid db), vp_isPaid = paid,
                   vp_tripFare = fl (bk_totalFare b), vp_netVendorEarnings = fl (bk_netToVendor b),
                   vp_platformCommission = fl (bk_platformFee b),
                   vp_securityDepositHeld = fl (deposit_amount (find_deposit bid db)),
                   vp_refundStatus = map_option pm_refundStatus (find_payment bid db),
                   vp_refundAmount = (case find_payment bid db of
                     Some p \<Rightarrow> (case pm_refundAmount p of Some x \<Rightarrow> fl x | None \<Rightarrow> 0) | None \<Rightarrow> 0),
                   vp_settlementStatus = (if paid then ''ELIGIBLE_FOR_SETTLEMENT'' else ''PENDING_PAYMENT'')\<rparr>))"

end
