(* ===== verification/WebhookFacts.thy ===== *)
theory WebhookFacts
  imports PaymentWebhook PaymentFacts
begin

text \<open>
  What a gateway's notification can do: which tables it writes, that an event is handled once, that it
  and the verification by the customer settle a payment together only once, and how a captured
  payment is booked.
\<close>

section \<open>What a notification leaves alone\<close>

definition elsewhere :: "bk_db \<Rightarrow> bk_db" where
  "elsewhere db = db\<lparr>db_payments := [], db_paymentAudit := [], db_webhooks := [], db_ledger := []\<rparr>"

definition money_row :: "Payment \<Rightarrow> id \<times> id \<times> rat \<times> string option" where
  "money_row p = (pm_id p, pm_bookingId p, pm_amount p, pm_razorpayOrderId p)"

lemma money_row_simps [simp]:
  "money_row (p\<lparr>pm_status := s\<rparr>) = money_row p" "money_row (p\<lparr>pm_razorpayPaymentId := i\<rparr>) = money_row p"
  "money_row (p\<lparr>pm_razorpayRefundId := i\<rparr>) = money_row p" "money_row (p\<lparr>pm_refundAmount := a\<rparr>) = money_row p"
  "money_row (p\<lparr>pm_refundStatus := t\<rparr>) = money_row p"
  by (simp_all add: money_row_def)

definition calm :: "bk_db \<Rightarrow> bk_db \<Rightarrow> bool" where
  "calm db db' \<longleftrightarrow> elsewhere db' = elsewhere db \<and> map money_row (db_payments db') = map money_row (db_payments db) \<and>
     map wh_eventId (db_webhooks db') = map wh_eventId (db_webhooks db) \<and> (\<exists>es. db_ledger db' = db_ledger db @ es)"

lemma calm_refl [simp]: "calm db db"
  by (simp add: calm_def)

lemma calm_trans: "calm db db1 \<Longrightarrow> calm db1 db2 \<Longrightarrow> calm db db2"
  by (auto simp: calm_def)

lemma calm_ids:
  assumes "calm db db'"
  shows "map pm_id (db_payments db') = map pm_id (db_payments db)"
proof -
  have "map pm_id ps = map fst (map money_row ps)" for ps by (simp add: money_row_def)
  with assms show ?thesis unfolding calm_def by metis
qed

lemma calm_audit: "calm db (recordPaymentAuditLog a db)"
  by (simp add: calm_def elsewhere_def recordPaymentAuditLog_def)

lemma calm_processed: "calm db (event_processed now eid db)"
  by (simp add: calm_def elsewhere_def event_processed_def update_where_map_key)

lemma calm_update:
  assumes "update_payment p' db = Inr db'" "p \<in> set (db_payments db)" "money_row p' = money_row p"
    and d: "distinct (map pm_id (db_payments db))"
  shows "calm db db'"
proof -
  have id': "pm_id p' = pm_id p" using assms(3) by (simp add: money_row_def)
  have "money_row (if pm_id q = pm_id p' then p' else q) = money_row q" if "q \<in> set (db_payments db)" for q
  proof (cases "pm_id q = pm_id p")
    case True
    with d that assms(2) have "q = p" by (metis distinct_map inj_on_def)
    with assms(3) id' show ?thesis by simp
  qed (simp add: id')
  then have "map money_row (update_where (\<lambda>q. pm_id q = pm_id p') (\<lambda>_. p') (db_payments db)) = map money_row (db_payments db)"
    by (auto simp: update_where_def)
  with assms(1) show ?thesis by (auto simp: update_payment_def calm_def elsewhere_def split: if_splits)
qed

lemma calm_journal:
  assumes "recordPaymentLedgerJournal env now jid b p x gw wl full db = Inr db'"
  shows "calm db db'"
proof (cases "py_ledger env")
  case True
  let ?J = "booking_journal ''BOOKING_PAYMENT_VERIFIED'' (''Payment verification financial journal for booking '' @ bk_id b)
    ''jrn_pay_verify_'' b p (payment_lines b p (deposit_amount (find_deposit (bk_id b) db)) x gw wl full)"
  from assms True obtain r L where r: "recordJournal dec20 round2 now jid ?J (db_ledger db) = Inr (r, L)"
    and db': "db' = db\<lparr>db_ledger := L\<rparr>" by (auto simp: recordPaymentLedgerJournal_def bindR_Inr_iff)
  from r have "\<exists>es. L = db_ledger db @ es" by (cases rule: recordJournal_cases) auto
  with db' show ?thesis by (auto simp: calm_def elsewhere_def)
qed (use assms in \<open>simp add: recordPaymentLedgerJournal_def\<close>)

lemma calm_capture:
  assumes "commit_capture env now jid p pid db = Inr db'" "p \<in> set (db_payments db)" "distinct (map pm_id (db_payments db))"
  shows "calm db db'"
proof -
  let ?p = "p\<lparr>pm_status := PaymentStatus.PAID, pm_razorpayPaymentId := Some pid\<rparr>"
  obtain db1 where u: "update_payment ?p db = Inr db1" using assms(1) by (auto simp: commit_capture_def bindR_Inr_iff)
  have c1: "calm db db1" by (rule calm_update [OF u assms(2) _ assms(3)]) (simp add: money_row_def)
  show ?thesis
    using assms(1) u by (auto simp: commit_capture_def Let_def split: option.splits
      dest!: calm_journal intro: calm_trans [OF c1] calm_trans [OF calm_audit] calm_audit)
qed

text \<open>The ways out of a captured payment.\<close>

lemma handle_capture_cases:
  assumes "handle_capture env now jid eid payload (db, vn) = (res, db', vn')"
  obtains (nothing) "db' = db"
    | (processed) p where "p \<in> set (db_payments db)" "pm_status p = PaymentStatus.PAID" "db' = event_processed now eid db" "vn' = vn"
    | (captured) oid pid p db1 where "captured_payment oid pid db = Some p" "pm_status p \<noteq> PaymentStatus.PAID"
      "\<not> amount_differs (ca_amount (capture_of now payload)) p" "ca_orderId (capture_of now payload) = Some (JStr oid)"
      "ca_paymentId (capture_of now payload) = JStr pid"
      "commit_capture env now jid p pid db = Inr db1" "db' = event_processed now eid db1" "vn' = vn" "res = Inr Received"
proof -
  let ?c = "capture_of now payload"
  let ?ids = "bindR (as_text (the (ca_orderId ?c))) (\<lambda>oid. bindR (as_text (ca_paymentId ?c)) (\<lambda>pid. Inr (oid, pid)))"
  show thesis
  proof (cases "\<exists>oid pid p. truthy (ca_orderId ?c) \<and> ?ids = Inr (oid, pid) \<and> captured_payment oid pid db = Some p")
    case False
    have "db' = db"
    proof (cases "truthy (ca_orderId ?c)")
      case True
      show ?thesis
      proof (cases ?ids)
        case (Inr i)
        with True False have "captured_payment (fst i) (snd i) db = None" by (cases "captured_payment (fst i) (snd i) db") (auto simp: prod_eq_iff)
        with assms True Inr show ?thesis by (auto simp: handle_capture_def Let_def split: prod.splits option.splits sum.splits)
      qed (use assms True in \<open>simp add: handle_capture_def Let_def\<close>)
    qed (use assms in \<open>simp add: handle_capture_def Let_def\<close>)
    then show thesis by (rule nothing)
  next
    case True
    then obtain oid pid p where o0: "truthy (ca_orderId ?c)" "?ids = Inr (oid, pid)" "captured_payment oid pid db = Some p" by blast
    then have "the (ca_orderId ?c) = JStr oid" "ca_paymentId ?c = JStr pid"
      by (auto simp: bindR_Inr_iff as_text_def split: json.splits)
    note o' = o0(1) this o0(3)
    then have o1: "ca_orderId ?c = Some (JStr oid)" by (auto simp: truthy_def split: option.splits)
    have p: "p \<in> set (db_payments db)" using o'(4) by (auto simp: captured_payment_def dest: find_Some_D)
    show thesis
    proof (cases "\<exists>cur. ca_currency ?c = JStr cur \<and> to_upper cur = ''INR'' \<and> \<not> amount_differs (ca_amount ?c) p")
      case False
      with assms o' have "db' = db" by (auto simp: handle_capture_def Let_def as_text_def split: if_splits json.splits)
      then show thesis by (rule nothing)
    next
      case True
      then obtain cur where cur: "ca_currency ?c = JStr cur" "to_upper cur = ''INR''" "\<not> amount_differs (ca_amount ?c) p" by blast
      show thesis
      proof (cases "pm_status p = PaymentStatus.PAID")
        case True
        with assms o' cur processed [OF p True] show thesis by (simp add: handle_capture_def Let_def as_text_def)
      next
        case False
        show thesis
        proof (cases "commit_capture env now jid p pid db")
          case (Inl e)
          with assms o' cur False have "db' = db" by (simp add: handle_capture_def Let_def as_text_def)
          then show thesis by (rule nothing)
        next
          case (Inr db1)
          with assms o' cur False captured [OF o'(4) False cur(3) o1 o'(3) Inr] show thesis
            by (simp add: handle_capture_def Let_def as_text_def)
        qed
      qed
    qed
  qed
qed

lemma calm_handle_capture:
  assumes "handle_capture env now jid eid payload (db, vn) = (res, db', vn')" "distinct (map pm_id (db_payments db))"
  shows "calm db db'"
  using assms(1)
proof (cases rule: handle_capture_cases)
  case (captured oid pid p db1)
  then have "p \<in> set (db_payments db)" by (auto simp: captured_payment_def dest: find_Some_D)
  with captured calm_trans [OF calm_capture [OF captured(6) _ assms(2)] calm_processed] show ?thesis by simp
qed (simp_all add: calm_processed)

lemma calm_handle_status:
  assumes "handle_status s type applies entity db = (res, db')" "distinct (map pm_id (db_payments db))"
  shows "calm db db'"
proof (cases "db' = db")
  case False
  let ?oid = "path [''order_id''] (the entity)" and ?pid = "path [''id''] (the entity)"
  from assms(1) False obtain p where p: "payment_of_order ?oid db = Inr (Some p)" "applies p"
    by (auto simp: handle_status_def Let_def split: if_splits sum.splits option.splits)
  have m: "p \<in> set (db_payments db)" using p(1) by (auto simp: payment_of_order_def bindR_Inr_iff dest!: find_Some_D)
  from assms(1) False p obtain x db1 where u: "update_payment (p\<lparr>pm_status := s, pm_razorpayPaymentId := x\<rparr>) db = Inr db1"
    "\<exists>a. db' = recordPaymentAuditLog a db1"
    by (auto simp: handle_status_def Let_def bindR_Inr_iff split: if_splits sum.splits)
  from calm_update [OF u(1) m _ assms(2)] have "calm db db1" by (simp add: money_row_def)
  with u(2) show ?thesis by (auto intro: calm_trans [OF _ calm_audit])
qed simp

lemma calm_handle_refund_event:
  assumes "handle_refund_event s type entity db = (res, db')" "distinct (map pm_id (db_payments db))"
  shows "calm db db'"
proof (cases "db' = db")
  case False
  let ?rid = "path [''id''] (the entity)" and ?pid = "path [''payment_id''] (the entity)"
  from assms(1) False obtain p where p: "refunded_payment ?rid ?pid db = Inr (Some p)"
    by (auto simp: handle_refund_event_def Let_def split: if_splits sum.splits option.splits)
  have m: "p \<in> set (db_payments db)" using p(1) by (auto simp: refunded_payment_def bindR_Inr_iff dest!: find_Some_D)
  from assms(1) False p obtain p' db1 where u: "update_payment p' db = Inr db1" "money_row p' = money_row p" "\<exists>a. db' = recordPaymentAuditLog a db1"
    by (fastforce simp: handle_refund_event_def Let_def bindR_Inr_iff split: if_splits sum.splits)
  from calm_update [OF u(1) m u(2) assms(2)] have "calm db db1" .
  with u(3) show ?thesis by (auto intro: calm_trans [OF _ calm_audit])
qed simp

lemma calm_handle_refund_failed:
  assumes "handle_refund_failed payload db = (res, db')" "distinct (map pm_id (db_payments db))"
  shows "calm db db'"
proof (cases "db' = db")
  case False
  from assms(1) False obtain p where p: "p \<in> set (db_payments db)" "update_payment (p\<lparr>pm_refundStatus := RefundStatus.FAILED\<rparr>) db = Inr db'"
    by (auto simp: handle_refund_failed_def refunded_payment_def Let_def bindR_Inr_iff split: if_splits sum.splits option.splits
        dest!: find_Some_D)
  from calm_update [OF p(2,1) _ assms(2)] show ?thesis by (simp add: money_row_def)
qed simp

lemma calm_dispatch:
  assumes "dispatch_event env now jid eid payload (db, vn) = (res, db', vn')" "distinct (map pm_id (db_payments db))"
  shows "calm db db'"
  using assms
  by (auto simp: dispatch_event_def on_payments_def Let_def handle_failed_def handle_authorized_def handle_refund_processed_def
      handle_refund_created_def split: if_splits prod.splits
      intro: calm_handle_capture calm_handle_status [OF prod.collapse [symmetric]] calm_handle_refund_event [OF prod.collapse [symmetric]]
        calm_handle_refund_failed [OF prod.collapse [symmetric]])

section \<open>The handler\<close>

lemma hook_cases:
  assumes "handleWebhook env hk now jid rawBody signature hs (db, vn) = (res, db', vn')"
  obtains (refused) "db' = db" "vn' = vn"
    | (dispatched) payload gw eid where "hk_parse hk rawBody = Some payload" "detect_gateway hs payload = Inr gw"
      "valid_hook env hk gw hs rawBody signature" "eid = event_id hk hs payload rawBody" "\<not> seen_event eid db"
      "dispatch_event env now jid eid payload (store_event gw eid (json_text (event_of payload)) db, vn) = (res, db', vn')"
proof (cases "hk_parse hk rawBody")
  case None
  with assms show thesis by (intro refused) (simp_all add: handleWebhook_def)
next
  case (Some payload)
  show thesis
  proof (cases "\<exists>gw. detect_gateway hs payload = Inr gw \<and> valid_hook env hk gw hs rawBody signature \<and> payload \<noteq> JNull \<and>
      \<not> seen_event (event_id hk hs payload rawBody) db")
    case False
    with assms Some show thesis
      by (intro refused) (auto simp: handleWebhook_def Let_def split: sum.splits if_splits)
  next
    case True
    then obtain gw where g: "detect_gateway hs payload = Inr gw" "valid_hook env hk gw hs rawBody signature" "payload \<noteq> JNull"
      "\<not> seen_event (event_id hk hs payload rawBody) db" by blast
    then show thesis
      using assms Some by (intro dispatched [OF Some g(1,2) HOL.refl g(4)]) (simp add: handleWebhook_def Let_def)
  qed
qed

lemma store_event_simps [simp]:
  "elsewhere (store_event gw eid ty db) = elsewhere db" "db_payments (store_event gw eid ty db) = db_payments db"
  "db_ledger (store_event gw eid ty db) = db_ledger db"
  "map wh_eventId (db_webhooks (store_event gw eid ty db)) = map wh_eventId (db_webhooks db) @ [eid]"
  by (simp_all add: store_event_def elsewhere_def)

lemma notification_effect:
  assumes "handleWebhook env hk now jid rawBody signature hs (db, vn) = (res, db', vn')" "distinct (map pm_id (db_payments db))"
  shows "elsewhere db' = elsewhere db \<and> map money_row (db_payments db') = map money_row (db_payments db) \<and> (\<exists>es. db_ledger db' = db_ledger db @ es)"
  using assms(1)
proof (cases rule: hook_cases)
  case (dispatched payload gw eid)
  from calm_dispatch [OF dispatched(6)] assms(2) show ?thesis by (simp add: calm_def)
qed simp

text \<open>
  A notification moves no money of its own. Whatever is posted to the webhook, by whomever, it
  changes no booking, wallet, deposit, coupon, refund or outbox row, no payment's booking, amount or
  order, and it only ever appends to the ledger.
\<close>

theorem notification_moves_no_money:
  assumes "handleWebhook env hk now jid rawBody signature hs (db, vn) = (res, db', vn')" and "distinct (map pm_id (db_payments db))"
  shows "db_bookings db' = db_bookings db \<and> db_wallet db' = db_wallet db \<and> db_deposits db' = db_deposits db \<and>
    db_refunds db' = db_refunds db \<and> db_outbox db' = db_outbox db \<and> db_coupons db' = db_coupons db \<and>
    map money_row (db_payments db') = map money_row (db_payments db) \<and> (\<exists>es. db_ledger db' = db_ledger db @ es)"
proof -
  have e: "elsewhere db' = elsewhere db" using notification_effect [OF assms] by blast
  have "db_bookings (elsewhere x) = db_bookings x" "db_wallet (elsewhere x) = db_wallet x" "db_deposits (elsewhere x) = db_deposits x"
    "db_refunds (elsewhere x) = db_refunds x" "db_outbox (elsewhere x) = db_outbox x" "db_coupons (elsewhere x) = db_coupons x" for x
    by (simp_all add: elsewhere_def)
  with e notification_effect [OF assms] show ?thesis by metis
qed

text \<open>
  C24: An event is handled once. After a notification whose signature is valid, the same notification, at
  any later time, is answered as a duplicate and changes nothing, whether its first handling succeeded
  or failed (a failed one is therefore never repeated).
\<close>

theorem notification_handled_once:
  assumes "handleWebhook env hk now jid rawBody signature hs (db, vn) = (res, db1, vn1)" and "distinct (map pm_id (db_payments db))"
    and "hk_parse hk rawBody = Some payload" and "detect_gateway hs payload = Inr gw" and "valid_hook env hk gw hs rawBody signature"
    and "payload \<noteq> JNull" and "wh_eventId ` set (db_webhooks db1) \<subseteq> wh_eventId ` set (db_webhooks db2)"
  shows "handleWebhook env hk now' jid' rawBody signature hs (db2, vn2) = (Inr Duplicate, db2, vn2)"
proof -
  let ?eid = "event_id hk hs payload rawBody"
  have "?eid \<in> wh_eventId ` set (db_webhooks db1)"
    using assms(1)
  proof (cases rule: hook_cases)
    case refused
    have "seen_event ?eid db"
    proof (rule ccontr)
      assume n: "\<not> seen_event ?eid db"
      have "dispatch_event env now jid ?eid payload (store_event gw ?eid (json_text (event_of payload)) db, vn) = (res, db1, vn1)"
        using assms(1,3-6) n by (simp add: handleWebhook_def Let_def)
      from calm_dispatch [OF this] assms(2) have "map wh_eventId (db_webhooks db1) = map wh_eventId (db_webhooks db) @ [?eid]" by (simp add: calm_def)
      with refused show False by simp
    qed
    with refused show ?thesis by (force simp: seen_event_def exists_where_iff)
  next
    case (dispatched payload' gw' eid)
    from calm_dispatch [OF dispatched(6)] assms(2) have "map wh_eventId (db_webhooks db1) = map wh_eventId (db_webhooks db) @ [eid]" by (simp add: calm_def)
    then have "eid \<in> set (map wh_eventId (db_webhooks db1))" by simp
    with dispatched(1,4) assms(3) show ?thesis by simp
  qed
  with assms(7) have "?eid \<in> wh_eventId ` set (db_webhooks db2)" by blast
  then have "seen_event ?eid db2" by (force simp: seen_event_def exists_where_iff)
  with assms(3-6) show ?thesis by (simp add: handleWebhook_def Let_def)
qed

section \<open>The customer's verification and the notification\<close>

lemma settle_wallet_payments: "settle_wallet env now newId b required full db = Inr db' \<Longrightarrow> db_payments db' = db_payments db"
  by (auto simp: settle_wallet_def Let_def bindR_Inr_iff split: if_splits prod.splits)

lemma verify_leaves_paid:
  assumes "verifyPayment env now ids dto cust db = (Inr r, db')"
  shows "\<exists>p. find_payment (vp_bookingId dto) db' = Some p \<and> pm_status p = PaymentStatus.PAID \<and>
    pm_razorpayOrderId p = Some (vp_razorpayOrderId dto)"
proof -
  obtain b p where v: "verify_checks dto cust db = Inr (b, p)"
    using assms by (auto simp: verifyPayment_def split: sum.splits prod.splits)
  then have p: "find_payment (vp_bookingId dto) db = Some p" "pm_razorpayOrderId p = Some (vp_razorpayOrderId dto)"
    by (auto simp: verify_checks_def throw_if_Inr_iff split: option.splits)
  show ?thesis
  proof (cases "settled_answer dto p")
    case (Some answer)
    with assms v have "answer = Inr r" "db' = db" by (auto simp: verifyPayment_def)
    with Some have "pm_status p = PaymentStatus.PAID" by (auto simp: settled_answer_def split: if_splits)
    with p \<open>db' = db\<close> show ?thesis by blast
  next
    case None
    obtain gateway wallet db1 where a: "paid_amounts env dto p (payable b db) db = (Inr (gateway, wallet), db1)"
      "commit_payment env now ids b p dto cust (payable b db) gateway wallet db1 = Inr db'"
      using assms v None by (auto simp: verifyPayment_def split: sum.splits prod.splits)
    have "\<not> gateway_failed (vp_razorpayOrderId dto) rp" if "captured_amounts env (vp_razorpayOrderId dto) x rp = Inr y" for x rp y
      using that by (auto simp: captured_amounts_def gateway_failed_def throw_if_Inr_iff)
    then have "db1 = db" using a(1) by (auto simp: paid_amounts_def Let_def split: if_splits sum.splits option.splits)
    with a(2) have c: "commit_payment env now ids b p dto cust (payable b db) gateway wallet db = Inr db'" by simp
    let ?p = "p\<lparr>pm_status := PaymentStatus.PAID, pm_razorpayPaymentId := Some (resolved_payment_id now dto)\<rparr>"
    obtain db2 db3 where d: "db_payments db2 = db_payments db" "update_payment ?p db2 = Inr db3" "db_payments db' = db_payments db3"
      using c by (auto simp: commit_payment_def Let_def bindR_Inr_iff dest!: settle_wallet_payments journal_tables coupon_tables)
    have "find_payment (vp_bookingId dto) db3 = Some ?p"
      by (rule update_payment_find [OF _ d(2)]) (use p(1) d(1) in \<open>simp_all add: find_payment_def\<close>)
    with d(3) p(2) show ?thesis by (auto simp: find_payment_def)
  qed
qed

lemma capture_keeps_vendors:
  assumes "handle_capture env now jid eid payload (db, vn) = (res, db', vn')" "ca_orderId (capture_of now payload) = Some (JStr oid)"
    and "\<forall>pid. captured_payment oid pid db \<noteq> None"
  shows "vn' = vn"
  using assms
  by (auto simp: handle_capture_def Let_def as_text_def bindR_def split: if_splits json.splits sum.splits option.splits)
    (metis option.distinct(1))

text \<open>Everything but the table of the notifications\<close>

definition but_webhooks :: "bk_db \<Rightarrow> bk_db" where
  "but_webhooks db = db\<lparr>db_webhooks := []\<rparr>"

lemma but_webhooks_simps [simp]:
  "but_webhooks (store_event gw eid ty db) = but_webhooks db" "but_webhooks (event_processed now eid db) = but_webhooks db"
  by (simp_all add: but_webhooks_def store_event_def event_processed_def)

text \<open>
  C13: The two ways in which a payment is settled do it once together. After the customer's verification
  of an order, the gateway's notification of its capture, in whatever form, changes no table but that
  of the notifications: no payment, ledger entry, audit row or deposit of a vendor.
\<close>

theorem settled_once:
  assumes "verifyPayment env now ids dto cust db = (Inr r, db1)"
    and "handleWebhook env' hk now' jid rawBody signature hs (db1, vn) = (res, db2, vn2)"
    and "hk_parse hk rawBody = Some payload" and "is_success (event_of payload)"
    and "ca_orderId (capture_of now' payload) = Some (JStr (vp_razorpayOrderId dto))"
    and "\<And>pid q. ca_paymentId (capture_of now' payload) = JStr pid \<Longrightarrow>
      captured_payment (vp_razorpayOrderId dto) pid db1 = Some q \<Longrightarrow> find_payment (vp_bookingId dto) db1 = Some q"
  shows "but_webhooks db2 = but_webhooks db1 \<and> vn2 = vn"
  using assms(2)
proof (cases rule: hook_cases)
  case (dispatched payload' gw eid)
  let ?db = "store_event gw eid (json_text (event_of payload)) db1"
  obtain p where p: "find_payment (vp_bookingId dto) db1 = Some p" "pm_status p = PaymentStatus.PAID"
    "pm_razorpayOrderId p = Some (vp_razorpayOrderId dto)"
    using verify_leaves_paid [OF assms(1)] by blast
  have h: "handle_capture env' now' jid eid payload (?db, vn) = (res, db2, vn2)" using dispatched assms(3,4) by (simp add: dispatch_event_def)
  have "p \<in> set (db_payments db1)" using p(1) by (auto simp: find_payment_def dest: find_Some_D)
  with p(3) have "\<forall>pid. captured_payment (vp_razorpayOrderId dto) pid ?db \<noteq> None"
    unfolding captured_payment_def store_event_simps find_None_iff_all by blast
  note vendors = capture_keeps_vendors [OF h assms(5) this]
  from h show ?thesis
  proof (cases rule: handle_capture_cases)
    case (captured oid pid q db3)
    then have "captured_payment (vp_razorpayOrderId dto) pid db1 = Some q" using assms(5) by (simp add: captured_payment_def)
    with assms(6) captured(5) p captured(2) show ?thesis by auto
  qed (simp_all add: vendors)
qed simp

section \<open>A capture that is booked\<close>

lemma capture_commits:
  assumes "\<not> exists_where (payment_clash p) (db_payments db)" and "find_booking (pm_bookingId p) db = Some b"
    and "booking_money b (deposit_amount (find_deposit (bk_id b) db))" and "bk_netToVendor b + bk_gstAmount b \<le> bk_totalFare b"
    and "py_ledger env" and "\<And>x. keys_free (payment_journal b p (deposit_amount (find_deposit (bk_id b) db)) x x 0 False) (db_ledger db)"
  obtains db' es where "commit_capture env now jid p pid db = Inr db'" "db_ledger db' = db_ledger db @ es"
    "db_payments db' = update_where (\<lambda>q. pm_id q = pm_id p)
       (\<lambda>_. p\<lparr>pm_status := PaymentStatus.PAID, pm_razorpayPaymentId := Some pid\<rparr>) (db_payments db)"
    "\<And>t ent. getAccountBalance t ent (db_ledger db') = getAccountBalance t ent (db_ledger db) +
       journal_effect (payment_journal b p (deposit_amount (find_deposit (bk_id b) db)) (payable b db) (payable b db) 0 False) t ent"
proof -
  let ?p = "p\<lparr>pm_status := PaymentStatus.PAID, pm_razorpayPaymentId := Some pid\<rparr>" and ?dep = "deposit_amount (find_deposit (bk_id b) db)"
  note pe = payable_exact [OF assms(3)]
  have "payment_clash ?p = payment_clash p" by (simp add: payment_clash_def fun_eq_iff)
  then have u: "update_payment ?p db = Inr (db\<lparr>db_payments := update_where (\<lambda>q. pm_id q = pm_id p) (\<lambda>_. ?p) (db_payments db)\<rparr>)"
    using assms(1) by (simp add: update_payment_def)
  let ?db2 = "recordPaymentAuditLog (audit_event p ''WEBHOOK_PAYMENT_CAPTURED'' (Some (pm_status p)) PaymentStatus.PAID (Some (pm_amount p)) (Some pid)
    None None ''WEBHOOK'') (db\<lparr>db_payments := update_where (\<lambda>q. pm_id q = pm_id p) (\<lambda>_. ?p) (db_payments db)\<rparr>)"
  have same: "find_booking (pm_bookingId p) ?db2 = Some b" "find_deposit (bk_id b) ?db2 = find_deposit (bk_id b) db"
    "payable b ?db2 = payable b db" "db_ledger ?db2 = db_ledger db"
    using assms(2) by (simp_all add: find_booking_def find_deposit_def payable_def)
  have paid: "paid_by b ?dep (payable b db) 0" using assms(3) pe by (simp add: paid_by_def)
  obtain r es where j: "recordJournal dec20 round2 now jid (payment_journal b p ?dep (bk_totalFare b + ?dep) (payable b db) 0 False) (db_ledger db) =
      Inr (r, db_ledger db @ es)"
    "\<forall>t ent. getAccountBalance t ent (db_ledger db @ es) = getAccountBalance t ent (db_ledger db) +
       journal_effect (payment_journal b p ?dep (bk_totalFare b + ?dep) (payable b db) 0 False) t ent"
    by (rule payment_booked [OF paid assms(4), where p = p and full = False and L = "db_ledger db" and now = now and jid = jid])
      (use assms(6) [of "payable b db"] pe(1) in auto)
  have "recordPaymentLedgerJournal env now jid b p (payable b db) (payable b db) 0 False ?db2 = Inr (?db2\<lparr>db_ledger := db_ledger db @ es\<rparr>)"
    using j(1) assms(5) same pe(1) by (simp add: recordPaymentLedgerJournal_def payment_journal_def)
  with u same have "commit_capture env now jid p pid db = Inr (?db2\<lparr>db_ledger := db_ledger db @ es\<rparr>)"
    by (simp add: commit_capture_def Let_def)
  then show thesis by (rule that [where es = es]) (use j(2) pe(1) in simp_all)
qed

text \<open>
  C14: A captured payment is booked. Let a booking not be billed to a company, let what its vendor and the
  tax office get be within its fare (else its journal is refused), and let its payment be neither PAID
  yet nor booked. Then the notification of the capture of its order, signed, not seen before and of the
  right amount, succeeds: the payment becomes PAID, the clearing account of the gateway grows by what
  the booking costs, and the vendor's, the platform's, the tax and the escrow accounts by their parts of it.
\<close>

theorem capture_is_booked:
  assumes "hk_parse hk rawBody = Some payload" and "detect_gateway hs payload = Inr gw" and "valid_hook env hk gw hs rawBody signature"
    and "payload \<noteq> JNull" and "\<not> seen_event (event_id hk hs payload rawBody) db" and "is_success (event_of payload)"
    and "capture_of now payload = \<lparr>ca_orderId = Some (JStr oid), ca_paymentId = JStr pid, ca_amount = Some (JNum (of_int (in_paise (pm_amount p)))),
      ca_currency = JStr ''INR''\<rparr>" and "oid \<noteq> []"
    and "captured_payment oid pid db = Some p" and "pm_status p \<noteq> PaymentStatus.PAID"
    and "\<not> exists_where (payment_clash p) (db_payments db)" and "find_booking (pm_bookingId p) db = Some b" and "\<not> is_corporate b p"
    and "booking_money b (deposit_amount (find_deposit (bk_id b) db))" and "bk_netToVendor b + bk_gstAmount b \<le> bk_totalFare b"
    and "py_ledger env" and "\<And>x. keys_free (payment_journal b p (deposit_amount (find_deposit (bk_id b) db)) x x 0 False) (db_ledger db)"
  shows "\<exists>db'. handleWebhook env hk now jid rawBody signature hs (db, vn) = (Inr Received, db', vn) \<and>
    p\<lparr>pm_status := PaymentStatus.PAID, pm_razorpayPaymentId := Some pid\<rparr> \<in> set (db_payments db') \<and>
    getAccountBalance GATEWAY_CLEARING None (db_ledger db') = getAccountBalance GATEWAY_CLEARING None (db_ledger db) + payable b db \<and>
    getAccountBalance VENDOR_PAYABLE None (db_ledger db') = getAccountBalance VENDOR_PAYABLE None (db_ledger db) + bk_netToVendor b \<and>
    getAccountBalance PLATFORM_COMMISSION_REVENUE None (db_ledger db') =
      getAccountBalance PLATFORM_COMMISSION_REVENUE None (db_ledger db) + (bk_totalFare b - bk_netToVendor b - bk_gstAmount b) \<and>
    getAccountBalance TAX_GST_LIABILITY None (db_ledger db') = getAccountBalance TAX_GST_LIABILITY None (db_ledger db) + bk_gstAmount b \<and>
    getAccountBalance CUSTOMER_DEPOSIT_ESCROW None (db_ledger db') =
      getAccountBalance CUSTOMER_DEPOSIT_ESCROW None (db_ledger db) + deposit_amount (find_deposit (bk_id b) db)"
proof -
  let ?eid = "event_id hk hs payload rawBody" and ?dep = "deposit_amount (find_deposit (bk_id b) db)"
  let ?db0 = "store_event gw ?eid (json_text (event_of payload)) db"
  have same: "find_booking x ?db0 = find_booking x db" "find_deposit x ?db0 = find_deposit x db" "payable b ?db0 = payable b db"
    "captured_payment x y ?db0 = captured_payment x y db" for x y
    by (simp_all add: find_booking_def find_deposit_def payable_def captured_payment_def store_event_def)
  obtain db1 es where c: "commit_capture env now jid p pid ?db0 = Inr db1" "db_ledger db1 = db_ledger ?db0 @ es"
    "db_payments db1 = update_where (\<lambda>q. pm_id q = pm_id p)
       (\<lambda>_. p\<lparr>pm_status := PaymentStatus.PAID, pm_razorpayPaymentId := Some pid\<rparr>) (db_payments ?db0)"
    "\<And>t ent. getAccountBalance t ent (db_ledger db1) = getAccountBalance t ent (db_ledger ?db0) +
       journal_effect (payment_journal b p (deposit_amount (find_deposit (bk_id b) ?db0)) (payable b ?db0) (payable b ?db0) 0 False) t ent"
    by (rule capture_commits [of p ?db0 b env now jid pid]) (use assms(11,12,14-17) same in auto)
  have differs: "\<not> amount_differs (Some (JNum (of_int (in_paise (pm_amount p))))) p"
    by (simp add: amount_differs_def js_number_def)
  have "to_upper ''INR'' = ''INR''" by code_simp
  then have h: "handle_capture env now jid ?eid payload (?db0, vn) = (Inr Received, event_processed now ?eid db1, vn)"
    using assms(7-10) same c(1) differs by (simp add: handle_capture_def Let_def as_text_def truthy_def)
  have w: "handleWebhook env hk now jid rawBody signature hs (db, vn) = (Inr Received, event_processed now ?eid db1, vn)"
    using assms(1-6) h by (simp add: handleWebhook_def dispatch_event_def Let_def)
  have ledger: "db_ledger (event_processed now ?eid db1) = db_ledger db1" "db_payments (event_processed now ?eid db1) = db_payments db1"
    by (simp_all add: event_processed_def)
  have "p \<in> set (db_payments db)" using assms(9) by (auto simp: captured_payment_def dest: find_Some_D)
  then have paid: "p\<lparr>pm_status := PaymentStatus.PAID, pm_razorpayPaymentId := Some pid\<rparr> \<in> set (db_payments db1)"
    using c(3) by (force simp: set_update_where)
  note pe = payable_exact [OF assms(14)]
  have pb: "paid_by b ?dep (payable b db) 0" using assms(14) pe by (simp add: paid_by_def)
  note eff = payment_effect [OF pb assms(15), of p False, folded pe(1)]
  have bal: "getAccountBalance t None (db_ledger db1) = getAccountBalance t None (db_ledger db) +
      journal_effect (payment_journal b p ?dep (payable b db) (payable b db) 0 False) t None" for t
    using c(4) [of t None] same by simp
  show ?thesis
    using w paid assms(13) unfolding ledger
    by (intro exI [of _ "event_processed now ?eid db1"])
      (simp add: ledger bal eff delta_at_def clearing_account_def is_asset_account_def)
qed

section \<open>The properties at an example\<close>

definition demo_capture :: "string \<Rightarrow> json" where
  "demo_capture orderId = JObj [(''event'', JStr ''payment.captured''), (''id'', JStr ''evt_1''),
     (''payload'', JObj [(''payment'', JObj [(''entity'', JObj [(''id'', JStr ''pay_1''), (''order_id'', JStr orderId),
        (''amount'', JNum 111912), (''currency'', JStr ''INR'')])])])]"

definition demo_hook :: "string \<Rightarrow> hook_env" where
  "demo_hook orderId = \<lparr>hk_parse = (\<lambda>_. Some (demo_capture orderId)), hk_sha256 = id, hk_cfSecret = [], hk_cfHmac = (\<lambda>_ s. s),
     hk_stripeSecret = [], hk_stripeHmac = (\<lambda>_ s. s), hk_validWebhook = (\<lambda>_ _. True)\<rparr>"

definition no_vendors :: vendor_db where
  "no_vendors = \<lparr>vn_deposits = [], vn_entries = [], vn_definitions = [], vn_states = []\<rparr>"

definition ordered_db :: bk_db where
  "ordered_db = unpaid_db\<lparr>db_payments := [new_payment ''p1'' ''b1'' ''order_b1'' 1119.12]\<rparr>"

lemma demo_hook_facts:
  "hk_parse (demo_hook o') body = Some (demo_capture o')" "detect_gateway None (demo_capture o') = Inr RAZORPAY"
  "valid_hook env (demo_hook o') RAZORPAY hs body sig" "demo_capture o' \<noteq> JNull" "is_success (event_of (demo_capture o'))"
  "event_id (demo_hook o') None (demo_capture o') body = ''evt_1''"
  by (simp_all add: demo_hook_def demo_capture_def detect_gateway_def is_cashfree_def is_stripe_def header_def starts_json_def field_def
      truthy_def valid_hook_def is_success_def event_of_def or_json_def or_else_def event_id_def or_str_def)

lemma demo_capture_of:
  "capture_of now (demo_capture o') = \<lparr>ca_orderId = (if o' = [] then None else Some (JStr o')), ca_paymentId = JStr ''pay_1'', ca_amount = Some (JNum 111912), ca_currency = JStr ''INR''\<rparr>"
  by (simp add: capture_of_def demo_capture_def field_def or_else_def or_json_def truthy_def Let_def)

lemma ordered_tables: "distinct (map pm_id (db_payments ordered_db))" "db_webhooks ordered_db = []" "db_ledger ordered_db = []"
  by (simp_all add: ordered_db_def unpaid_db_def demo_db_def)

lemma capture_is_booked_witness:
  "\<exists>db'. handleWebhook demo_pay (demo_hook ''order_b1'') 5 ''j1'' ''{}'' ''sig'' None (ordered_db, no_vendors) = (Inr Received, db', no_vendors) \<and>
     getAccountBalance GATEWAY_CLEARING None (db_ledger db') = 1119.12"
proof -
  let ?p = "new_payment ''p1'' ''b1'' ''order_b1'' 1119.12" and ?b = "demo_booking\<lparr>bk_status := BookingStatus.PENDING\<rparr>"
  have b: "find_booking (pm_bookingId ?p) ordered_db = Some ?b" "find_deposit (bk_id ?b) ordered_db = None" "payable ?b ordered_db = 1119.12"
    using unpaid_booking(1,2) unpaid_payable
    by (simp_all add: ordered_db_def new_payment_def find_booking_def find_deposit_def payable_def demo_booking_def)
  have p: "captured_payment ''order_b1'' ''pay_1'' ordered_db = Some ?p" "pm_status ?p \<noteq> PaymentStatus.PAID"
    "\<not> exists_where (payment_clash ?p) (db_payments ordered_db)" "\<not> is_corporate ?b ?p"
    by (simp_all add: captured_payment_def ordered_db_def new_payment_def exists_where_iff payment_clash_def is_corporate_def demo_booking_def)
  have "is_cents 1119.12" using is_cents_div [of 111912] by simp
  then have c: "round2 1119.12 = 1119.12" by (rule round2_exact)
  have paise: "in_paise (pm_amount ?p) = 111912" unfolding new_payment_def Payment.select_convs c by (rule demo_amounts(1))
  have n: "bk_netToVendor ?b + bk_gstAmount ?b \<le> bk_totalFare ?b" by (simp add: demo_booking_def)
  have m: "booking_money ?b (deposit_amount (find_deposit (bk_id ?b) ordered_db))" using unpaid_booking(3,4) b(2) by simp
  have z: "getAccountBalance t ent [] = 0" for t ent by (simp add: getAccountBalance_signed)
  have "\<not> seen_event (event_id (demo_hook ''order_b1'') None (demo_capture ''order_b1'') ''{}'') ordered_db"
    by (simp add: seen_event_def exists_where_def ordered_tables)
  note w = capture_is_booked [where env = demo_pay and hk = "demo_hook ''order_b1''" and payload = "demo_capture ''order_b1''" and now = 5 and jid = "''j1''" and
      vn = no_vendors and rawBody = "''{}''" and signature = "''sig''" and hs = None and db = ordered_db and b = ?b and p = ?p and oid = "''order_b1''" and pid = "''pay_1''" and gw = RAZORPAY,
      OF demo_hook_facts(1-4) this demo_hook_facts(5)]
  have "\<exists>db'. handleWebhook demo_pay (demo_hook ''order_b1'') 5 ''j1'' ''{}'' ''sig'' None (ordered_db, no_vendors) = (Inr Received, db', no_vendors) \<and>
     getAccountBalance GATEWAY_CLEARING None (db_ledger db') = getAccountBalance GATEWAY_CLEARING None (db_ledger ordered_db) + payable ?b ordered_db"
    using w [OF _ _ p(1-3) b(1) p(4) m n] paise by (auto simp: demo_capture_of demo_pay_def keys_free_def ordered_tables)
  then show ?thesis using b(3) z by (simp add: ordered_tables)
qed

lemma notification_moves_no_money_witness:
  "\<exists>res db' vn'. handleWebhook demo_pay (demo_hook ''order_b1'') 5 ''j1'' ''{}'' ''sig'' None (ordered_db, no_vendors) = (res, db', vn') \<and>
     db_wallet db' = db_wallet ordered_db"
proof -
  obtain res db' vn' where r: "handleWebhook demo_pay (demo_hook ''order_b1'') 5 ''j1'' ''{}'' ''sig'' None (ordered_db, no_vendors) = (res, db', vn')"
    by (metis prod_cases3)
  from notification_moves_no_money [OF r ordered_tables(1)] r show ?thesis by blast
qed

lemma notification_handled_once_witness:
  "\<exists>res db' vn'. handleWebhook demo_pay (demo_hook ''order_b1'') 5 ''j1'' ''{}'' ''sig'' None (ordered_db, no_vendors) = (res, db', vn') \<and>
     handleWebhook demo_pay (demo_hook ''order_b1'') 9 ''j2'' ''{}'' ''sig'' None (db', vn') = (Inr Duplicate, db', vn')"
proof -
  obtain res db' vn' where r: "handleWebhook demo_pay (demo_hook ''order_b1'') 5 ''j1'' ''{}'' ''sig'' None (ordered_db, no_vendors) = (res, db', vn')"
    by (metis prod_cases3)
  from notification_handled_once [OF r ordered_tables(1) demo_hook_facts(1-4) subset_refl] r show ?thesis by blast
qed

lemma settled_once_witness:
  "\<exists>r res db2 vn2. verifyPayment demo_pay 5 \<lparr>vi_wallet = ''w'', vi_journal = ''j1''\<rparr> (order_dto ''b1'' ''order_1'' ''pay_1'' ''s'') ''cust'' demo_db = (Inr r, demo_db) \<and>
     handleWebhook demo_pay (demo_hook ''order_1'') 9 ''j2'' ''{}'' ''sig'' None (demo_db, no_vendors) = (res, db2, vn2) \<and>
     db_ledger db2 = db_ledger demo_db \<and> vn2 = no_vendors"
proof -
  let ?dto = "order_dto ''b1'' ''order_1'' ''pay_1'' ''s''"
  have p: "find_payment ''b1'' demo_db = Some demo_payment" "find_booking ''b1'' demo_db = Some demo_booking" "db_payments demo_db = [demo_payment]"
    "pm_status demo_payment = PaymentStatus.PAID" "pm_razorpayPaymentId demo_payment = Some ''pay_1''"
    "pm_razorpayOrderId demo_payment = Some ''order_1''" "pm_bookingId demo_payment = ''b1''" "bk_customerId demo_booking = ''cust''"
    by (simp_all add: find_payment_def find_booking_def demo_db_def demo_payment_def demo_booking_def)
  then have v: "verifyPayment demo_pay 5 \<lparr>vi_wallet = ''w'', vi_journal = ''j1''\<rparr> ?dto ''cust'' demo_db = (Inr \<lparr>vr_paymentId = pm_id demo_payment, vr_alreadyPaid = True\<rparr>, demo_db)"
    by (simp add: verifyPayment_def verify_checks_def settled_answer_def order_dto_def)
  obtain res db2 vn2 where r: "handleWebhook demo_pay (demo_hook ''order_1'') 9 ''j2'' ''{}'' ''sig'' None (demo_db, no_vendors) = (res, db2, vn2)"
    by (metis prod_cases3)
  have o': "ca_orderId (capture_of 9 (demo_capture ''order_1'')) = Some (JStr (vp_razorpayOrderId ?dto))" by (simp add: demo_capture_of order_dto_def)
  have e: "but_webhooks db2 = but_webhooks demo_db \<and> vn2 = no_vendors"
    using settled_once [OF v r demo_hook_facts(1,5) o'] p by (auto simp: captured_payment_def order_dto_def split: if_splits)
  have "db_ledger (but_webhooks x) = db_ledger x" for x by (simp add: but_webhooks_def)
  with e have "db_ledger db2 = db_ledger demo_db \<and> vn2 = no_vendors" by metis
  with v r show ?thesis by blast
qed

text \<open>
  A capture that is notified after the refund takes the payment back to PAID: the handler asks only
  whether the payment is PAID, not the payment matrix.
\<close>

lemma late_capture_revives_refunded:
  assumes "captured_payment oid pid db = Some p" and "pm_status p = PaymentStatus.REFUNDED" and "\<not> exists_where (payment_clash p) (db_payments db)"
    and "find_booking (pm_bookingId p) db = None \<or> \<not> py_ledger env"
  shows "\<exists>db'. commit_capture env now jid p pid db = Inr db' \<and>
    p\<lparr>pm_status := PaymentStatus.PAID, pm_razorpayPaymentId := Some pid\<rparr> \<in> set (db_payments db')"
    "assertValidTransition (Some PaymentStatus.REFUNDED) PaymentStatus.PAID \<noteq> Inr ()"
proof -
  let ?p = "p\<lparr>pm_status := PaymentStatus.PAID, pm_razorpayPaymentId := Some pid\<rparr>"
  have "payment_clash ?p = payment_clash p" by (simp add: payment_clash_def fun_eq_iff)
  moreover have "p \<in> set (db_payments db)" using assms(1) by (auto simp: captured_payment_def dest: find_Some_D)
  ultimately show "\<exists>db'. commit_capture env now jid p pid db = Inr db' \<and> ?p \<in> set (db_payments db')"
    using assms(3,4) by (force simp: commit_capture_def update_payment_def Let_def set_update_where recordPaymentLedgerJournal_def find_booking_def
        split: option.split)
qed (simp add: assertValidTransition_def)

end
