(* ===== verification/Payouts.thy ===== *)
theory Payouts
  imports PaymentWebhook
begin

text \<open>
  Paying out the vendors (\<open>payouts/payouts.service.ts\<close>, \<open>payouts/providers/razorpayx-payout.provider.ts\<close>):
  the request against the vendor's available balance, approval, execution through the bank or by hand,
  rejection, reversal, the bank's notifications, adjustments and the figures. Parameters (\<open>payout_env\<close>):
  which optional services are configured, the payout configuration, \<open>JSON.parse\<close>, the hash, the
  gateway library's signature check and \<open>fetch\<close> of the bank's API, which changes the bank's own state
  \<open>'g\<close>. Amounts in requests are JavaScript numbers of validated bodies, so not NaN. Aggregates are summed by
  the database, other sums by decimal.js. The fallback of the summary for a client without aggregates,
  messages to users and log lines are left out.
\<close>

section \<open>Data\<close>

datatype PayoutStatus = PENDING | APPROVED | PROCESSING | PAID | FAILED | REJECTED | REVERSED

record Vendor =
  ven_id :: id
  ven_userId :: "id option"
  ven_businessName :: string
  ven_ownerName :: string
  ven_bankDetails :: "string option"

record Payout =
  po_id :: id
  po_payoutNumber :: "string option"
  po_vendorId :: id
  po_amount :: rat
  po_netAmount :: "rat option"
  po_status :: PayoutStatus
  po_providerTransferId :: "string option"
  po_providerFee :: "rat option"
  po_providerFailureReason :: "string option"
  po_idempotencyKey :: "string option"
  po_initiatedByUserId :: "id option"
  po_approvedByUserId :: "id option"
  po_approvedAt :: "time option"
  po_processedAt :: "time option"
  po_paidAt :: "time option"
  po_bankAccountSnapshot :: "json option"
  po_notes :: "string option"
  po_createdAt :: time

record FinancialAdjustment =
  fa_id :: id
  fa_adjustmentNumber :: string
  fa_targetType :: string
  fa_targetId :: id
  fa_amount :: rat
  fa_direction :: LedgerDirection
  fa_reason :: string
  fa_category :: string
  fa_referenceId :: "id option"
  fa_approvedByUserId :: id
  fa_idempotencyKey :: string
  fa_createdAt :: time

text \<open>The tables of the payouts, the ids of the user table, and the tables of the other services.\<close>

record payout_db =
  pd_vendors :: "Vendor list"
  pd_payouts :: "Payout list"
  pd_adjustments :: "FinancialAdjustment list"
  pd_users :: "id list"
  pd_core :: bk_db

record PayoutConfig =
  pc_minPayoutAmount :: rat
  pc_maxSinglePayoutAmount :: rat
  pc_dailyVendorPayoutCap :: rat
  pc_settlementHoldDays :: int

text \<open>What \<open>fetch\<close> gives: the abort of the timeout, an error, or a response with its body as JSON.\<close>

datatype fetch_outcome = Aborted | Network_error string | Response bool nat "json option"

record bank_request =
  br_idempotencyKey :: string
  br_amount :: int
  br_accountNumber :: string
  br_ifsc :: string
  br_name :: string
  br_vendorId :: id
  br_referenceId :: string

record 'g payout_env =
  pe_config :: "PayoutConfig option"
  pe_tz :: time
  pe_ledger :: bool
  pe_wallets :: bool
  pe_walletConfig :: "WalletConfig option"
  pe_provider :: bool
  pe_configured :: bool
  pe_fetch :: "bank_request \<Rightarrow> 'g \<Rightarrow> fetch_outcome \<times> 'g"
  pe_parse :: "string \<Rightarrow> json option"
  pe_sha256 :: "string \<Rightarrow> string"
  pe_mock :: bool
  pe_validWebhook :: "string \<Rightarrow> string \<Rightarrow> bool"

section \<open>Tables\<close>

definition find_vendor :: "id \<Rightarrow> payout_db \<Rightarrow> Vendor option" where
  "find_vendor vid st = List.find (\<lambda>v. ven_id v = vid) (pd_vendors st)"

definition find_payout :: "id \<Rightarrow> payout_db \<Rightarrow> Payout option" where
  "find_payout pid st = List.find (\<lambda>p. po_id p = pid) (pd_payouts st)"

text \<open>\<open>payoutNumber\<close>, \<open>providerTransferId\<close> and \<open>idempotencyKey\<close> are unique columns.\<close>

definition payout_clash :: "Payout \<Rightarrow> Payout \<Rightarrow> bool" where
  "payout_clash p q \<longleftrightarrow> po_id q \<noteq> po_id p \<and>
     (same_id (po_payoutNumber p) (po_payoutNumber q) \<or> same_id (po_providerTransferId p) (po_providerTransferId q) \<or>
      same_id (po_idempotencyKey p) (po_idempotencyKey q))"

definition update_payout :: "Payout \<Rightarrow> payout_db \<Rightarrow> payout_db result" where
  "update_payout p st =
     (if exists_where (payout_clash p) (pd_payouts st) then Inl (PrismaError ''P2002'')
      else Inr (st\<lparr>pd_payouts := update_where (\<lambda>q. po_id q = po_id p) (\<lambda>_. p) (pd_payouts st)\<rparr>))"

definition create_payout :: "Payout \<Rightarrow> payout_db \<Rightarrow> payout_db result" where
  "create_payout p st =
     (if exists_where (payout_clash p) (pd_payouts st) then Inl (PrismaError ''P2002'')
      else Inr (st\<lparr>pd_payouts := pd_payouts st @ [p]\<rparr>))"

text \<open>
  \<open>auditLogService.log\<close>: the actor refers to the user table; a row that is refused is dropped.
\<close>

definition log_audit :: "id \<Rightarrow> string \<Rightarrow> string \<Rightarrow> id \<Rightarrow> payout_db \<Rightarrow> payout_db" where
  "log_audit actor action type tid st =
     (if actor \<in> set (pd_users st)
      then st\<lparr>pd_core := (pd_core st)\<lparr>db_audit := db_audit (pd_core st) @ [(actor, action, type, tid)]\<rparr>\<rparr>
      else st)"

text \<open>The numbers of payouts and adjustments: a prefix with the month and a count.\<close>

definition next_number :: "string \<Rightarrow> 'g payout_env \<Rightarrow> time \<Rightarrow> string list \<Rightarrow> string" where
  "next_number kind env now numbers =
     (let prefix = kind @ ''-'' @ take 7 (iso_date (now + pe_tz env)) @ ''-''
      in prefix @ pad 5 (show_nat (count_where (\<lambda>n. starts_with n prefix) numbers + 1)))"

definition generatePayoutNumber :: "'g payout_env \<Rightarrow> time \<Rightarrow> payout_db \<Rightarrow> string" where
  "generatePayoutNumber env now st = next_number ''PO'' env now (List.map_filter po_payoutNumber (pd_payouts st))"

definition generateAdjustmentNumber :: "'g payout_env \<Rightarrow> time \<Rightarrow> payout_db \<Rightarrow> string" where
  "generateAdjustmentNumber env now st = next_number ''ADJ'' env now (map fa_adjustmentNumber (pd_adjustments st))"

section \<open>Earnings\<close>

definition day_ms :: int where "day_ms = 86400000"

definition paid_booking :: "bk_db \<Rightarrow> Booking \<Rightarrow> bool" where
  "paid_booking db b \<longleftrightarrow> map_option pm_status (find_payment (bk_id b) db) = Some PaymentStatus.PAID"

definition completed :: "id \<Rightarrow> bk_db \<Rightarrow> Booking \<Rightarrow> bool" where
  "completed vid db b \<longleftrightarrow> bk_vendorId b = vid \<and> bk_status b = BookingStatus.COMPLETED \<and> paid_booking db b"

definition has_claim :: "DamageClaimStatus set \<Rightarrow> bk_db \<Rightarrow> Booking \<Rightarrow> bool" where
  "has_claim S db b \<longleftrightarrow> exists_where (\<lambda>c. dc_bookingId c = bk_id b \<and> dc_status c \<in> S) (db_claims db)"

definition hold_cutoff :: "'g payout_env \<Rightarrow> time \<Rightarrow> time option" where
  "hold_cutoff env now =
     (case pe_config env of
        None \<Rightarrow> None
      | Some c \<Rightarrow> if pc_settlementHoldDays c > 0 then Some (now - pc_settlementHoldDays c * day_ms) else None)"

definition month_start :: "time \<Rightarrow> time \<Rightarrow> time" where
  "month_start tz t =
     (let days = (t + tz) div day_ms; (_, _, d) = civil_from_days days in (days - (d - 1)) * day_ms - tz)"

definition payouts_where :: "(PayoutStatus \<Rightarrow> bool) \<Rightarrow> id \<Rightarrow> payout_db \<Rightarrow> Payout list" where
  "payouts_where S vid st = filter (\<lambda>p. po_vendorId p = vid \<and> S (po_status p)) (pd_payouts st)"

definition is_reserved :: "PayoutStatus \<Rightarrow> bool" where
  "is_reserved s \<longleftrightarrow> s \<in> {PayoutStatus.PENDING, PayoutStatus.APPROVED, PayoutStatus.PROCESSING}"

record earnings_summary =
  es_totalEarnings :: rat
  es_heldEarnings :: rat
  es_totalPaid :: rat
  es_totalPending :: rat
  es_netAdjustments :: rat
  es_availableBalance :: rat
  es_outstandingBalance :: rat
  es_thisMonthEarnings :: rat
  es_lastMonthEarnings :: rat
  es_ledgerPayableBalance :: "rat option"

definition getVendorEarningsSummary :: "'g payout_env \<Rightarrow> time \<Rightarrow> id \<Rightarrow> payout_db \<Rightarrow> earnings_summary result" where
  "getVendorEarningsSummary env now vid st =
     (let db = pd_core st;
          cutoff = (case hold_cutoff env now of Some t \<Rightarrow> t | None \<Rightarrow> 0);
          earned = (\<lambda>q. sum_where (\<lambda>b. completed vid db b \<and> q b) bk_netToVendor (db_bookings db));
          clean = (\<lambda>b. \<not> bk_disputeFlag b \<and> \<not> has_claim {DamageClaimStatus.SUBMITTED, DamageClaimStatus.UNDER_REVIEW} db b);
          total = earned clean;
          held = earned (\<lambda>b. clean b \<and> cutoff < bk_updatedAt b);
          paid = sum_list (map po_amount (payouts_where (\<lambda>s. s = PayoutStatus.PAID) vid st));
          pending = sum_list (map po_amount (payouts_where is_reserved vid st));
          adj = (\<lambda>d. sum_where (\<lambda>a. fa_targetType a = ''VENDOR'' \<and> fa_targetId a = vid \<and> fa_direction a = d) fa_amount (pd_adjustments st));
          net = dec20 (adj LedgerDirection.CREDIT - adj LedgerDirection.DEBIT);
          gross = dec20 (total + net);
          available = dec20 (dec20 (dec20 (gross - held) - paid) - pending);
          outstanding = dec20 (gross - paid);
          this_month = month_start (pe_tz env) now; last_month = month_start (pe_tz env) (this_month - 1)
      in throw_if (find_vendor vid st = None) (NotFoundException ''Vendor not found.'')
        (Inr \<lparr>es_totalEarnings = fl total, es_heldEarnings = fl held, es_totalPaid = fl paid, es_totalPending = fl pending,
              es_netAdjustments = fl net, es_availableBalance = max 0 (fl available), es_outstandingBalance = max 0 (fl outstanding),
              es_thisMonthEarnings = fl (earned (\<lambda>b. this_month \<le> bk_createdAt b)),
              es_lastMonthEarnings = fl (earned (\<lambda>b. last_month \<le> bk_createdAt b \<and> bk_createdAt b \<le> this_month - 1)),
              es_ledgerPayableBalance = (if pe_ledger env then Some (fl (getVendorPayableBalance vid (db_ledger db))) else None)\<rparr>))"

text \<open>The days are keyed by their UTC date, in ascending order; a number is added to the figure of its day.\<close>

definition day_start :: "time \<Rightarrow> time \<Rightarrow> time" where
  "day_start tz t = (t + tz) div day_ms * day_ms - tz"

definition add_day :: "string \<Rightarrow> rat \<Rightarrow> (string \<times> rat) list \<Rightarrow> (string \<times> rat) list" where
  "add_day d x days = map (\<lambda>(k, v). (k, if k = d then fl (v + x) else v)) days"

definition getDailyEarnings :: "'g payout_env \<Rightarrow> time \<Rightarrow> id \<Rightarrow> nat \<Rightarrow> payout_db \<Rightarrow> (string \<times> rat) list result" where
  "getDailyEarnings env now vid days st =
     (let db = pd_core st;
          limit = day_start (pe_tz env) (now - int days * day_ms);
          rows = sort_key bk_createdAt (filter (\<lambda>b. completed vid db b \<and> limit \<le> bk_createdAt b) (db_bookings db));
          blank = map (\<lambda>i. (iso_date (now - int i * day_ms), 0)) (rev [0..<Suc days])
      in throw_if (find_vendor vid st = None) (NotFoundException ''Vendor not found.'')
        (Inr (foldl (\<lambda>acc b. add_day (iso_date (bk_createdAt b)) (fl (bk_netToVendor b)) acc) blank rows)))"

section \<open>The request\<close>

record RequestPayoutDto =
  rp_amount :: rat
  rp_idempotencyKey :: "string option"
  rp_notes :: "string option"

text \<open>The code looks for the statuses OPEN and UNDER_REVIEW; OPEN is not a status of a damage claim.\<close>

definition eligible :: "'g payout_env \<Rightarrow> time \<Rightarrow> id \<Rightarrow> bk_db \<Rightarrow> Booking \<Rightarrow> bool" where
  "eligible env now vid db b \<longleftrightarrow>
     completed vid db b \<and> \<not> bk_disputeFlag b \<and> \<not> has_claim {DamageClaimStatus.UNDER_REVIEW} db b \<and>
     (case hold_cutoff env now of None \<Rightarrow> True | Some t \<Rightarrow> bk_updatedAt b \<le> t)"

definition settled_earned :: "'g payout_env \<Rightarrow> time \<Rightarrow> id \<Rightarrow> bk_db \<Rightarrow> rat" where
  "settled_earned env now vid db = dsum dec20 0 (map bk_netToVendor (filter (eligible env now vid db) (db_bookings db)))"

definition adjusted :: "LedgerDirection \<Rightarrow> id \<Rightarrow> payout_db \<Rightarrow> rat" where
  "adjusted d vid st = dsum dec20 0 (map fa_amount (filter (\<lambda>a. fa_targetId a = vid \<and> fa_direction a = d) (pd_adjustments st)))"

definition payout_sum :: "(PayoutStatus \<Rightarrow> bool) \<Rightarrow> id \<Rightarrow> payout_db \<Rightarrow> rat" where
  "payout_sum S vid st = dsum dec20 0 (map po_amount (payouts_where S vid st))"

definition available_balance :: "'g payout_env \<Rightarrow> time \<Rightarrow> id \<Rightarrow> payout_db \<Rightarrow> rat" where
  "available_balance env now vid st =
     dec20 (dec20 (dec20 (settled_earned env now vid (pd_core st) +
       dec20 (adjusted LedgerDirection.CREDIT vid st - adjusted LedgerDirection.DEBIT vid st)) -
       payout_sum (\<lambda>s. s = PayoutStatus.PAID) vid st) - payout_sum is_reserved vid st)"

definition amount_limits :: "'g payout_env \<Rightarrow> rat \<Rightarrow> unit result" where
  "amount_limits env amount =
     (case pe_config env of
        None \<Rightarrow> Inr ()
      | Some c \<Rightarrow>
          throw_if (pc_minPayoutAmount c \<noteq> 0 \<and> amount < pc_minPayoutAmount c) (BadRequestException ''Minimum payout amount'')
         (throw_if (pc_maxSinglePayoutAmount c \<noteq> 0 \<and> amount > pc_maxSinglePayoutAmount c)
            (BadRequestException ''Maximum single payout amount'') (Inr ())))"

definition daily_limit :: "'g payout_env \<Rightarrow> time \<Rightarrow> id \<Rightarrow> rat \<Rightarrow> payout_db \<Rightarrow> unit result" where
  "daily_limit env now vid amount st =
     (case pe_config env of
        None \<Rightarrow> Inr ()
      | Some c \<Rightarrow>
          let today = filter (\<lambda>p. po_vendorId p = vid \<and> day_start (pe_tz env) now \<le> po_createdAt p \<and>
                po_status p \<notin> {PayoutStatus.REJECTED, PayoutStatus.FAILED, PayoutStatus.REVERSED}) (pd_payouts st)
          in throw_if (pc_dailyVendorPayoutCap c \<noteq> 0 \<and>
                dec_of_num (pc_dailyVendorPayoutCap c) < dec20 (dsum dec20 0 (map po_amount today) + dec_of_num amount))
               (BadRequestException ''Daily payout limit exceeded'') (Inr ()))"

definition bank_snapshot :: "'g payout_env \<Rightarrow> Vendor \<Rightarrow> json option" where
  "bank_snapshot env v =
     (case or_str (ven_bankDetails v) None of
        None \<Rightarrow> None
      | Some s \<Rightarrow> (case pe_parse env s of Some j \<Rightarrow> Some j | None \<Rightarrow> Some (JObj [(''raw'', JStr s)])))"

text \<open>The transaction of a request runs under a lock on the vendor's row.\<close>

definition requestPayout ::
  "'g payout_env \<Rightarrow> time \<Rightarrow> id \<Rightarrow> id \<Rightarrow> RequestPayoutDto \<Rightarrow> id option \<Rightarrow> payout_db \<Rightarrow> (Payout \<times> payout_db) result" where
  "requestPayout env now newId vid dto initiator st =
     (let amount = rp_amount dto; req = dec_of_num amount; key = rp_idempotencyKey dto
      in if amount \<le> 0 then Inl (BadRequestException ''Payout amount must be greater than zero.'')
         else case (if str_truthy key then List.find (\<lambda>p. po_idempotencyKey p = key) (pd_payouts st) else None) of
           Some existing \<Rightarrow> Inr (existing, st)
         | None \<Rightarrow>
             bindR (amount_limits env amount) (\<lambda>_.
             case find_vendor vid st of
               None \<Rightarrow> Inl (NotFoundException ''Vendor not found'')
             | Some v \<Rightarrow>
                 bindR (daily_limit env now vid amount st) (\<lambda>_.
                 throw_if (available_balance env now vid st < req)
                   (BadRequestException ''Requested payout amount exceeds vendor's available balance'')
                 (bindR (money10 req) (\<lambda>a.
                  let p = \<lparr>po_id = newId, po_payoutNumber = Some (generatePayoutNumber env now st), po_vendorId = vid,
                        po_amount = a, po_netAmount = Some a, po_status = PayoutStatus.PENDING, po_providerTransferId = None,
                        po_providerFee = None, po_providerFailureReason = None, po_idempotencyKey = key,
                        po_initiatedByUserId = initiator, po_approvedByUserId = None, po_approvedAt = None, po_processedAt = None,
                        po_paidAt = None, po_bankAccountSnapshot = bank_snapshot env v, po_notes = rp_notes dto, po_createdAt = now\<rparr>
                  in bindR (create_payout p st) (\<lambda>st1.
                     Inr (p, if str_truthy initiator then log_audit (the initiator) ''PAYOUT_CREATED'' ''Payout'' newId st1 else st1)))))))"

definition createPayout ::
  "'g payout_env \<Rightarrow> time \<Rightarrow> id \<Rightarrow> id \<Rightarrow> rat \<Rightarrow> id option \<Rightarrow> payout_db \<Rightarrow> (Payout \<times> payout_db) result" where
  "createPayout env now newId vid amount admin st =
     requestPayout env now newId vid \<lparr>rp_amount = amount, rp_idempotencyKey = None, rp_notes = None\<rparr> admin st"

end
