(* ===== verification/PayoutExecution.thy ===== *)
theory PayoutExecution
  imports Payouts
begin

text \<open>
  What follows the request of a payout: approval, execution by hand or through the bank
  (\<open>payouts/providers/razorpayx-payout.provider.ts\<close>), rejection, reversal, the bank's notifications, financial
  adjustments and the views. What the bank answers is JSON; a value of the wrong type where the code calls
  a string method is a \<open>TypeError\<close>, where Prisma expects a string it is a validation error.
\<close>

section \<open>Journals\<close>

definition payout_line :: "LedgerAccountType \<Rightarrow> string option \<Rightarrow> LedgerEntrySide \<Rightarrow> rat \<Rightarrow> string \<Rightarrow> JournalEntryLineInput" where
  "payout_line t ent side amount text =
     \<lparr>li_accountType = t, li_accountEntityId = ent, li_side = None, li_entrySide = Some side,
      li_amount = amount, li_narration = None, li_description = Some text,
      li_bookingId = None, li_paymentId = None, li_payoutId = None, li_metadata = None\<rparr>"

definition payout_journal :: "string \<Rightarrow> string \<Rightarrow> string \<Rightarrow> Payout \<Rightarrow> JournalEntryLineInput list \<Rightarrow> RecordJournalInput" where
  "payout_journal refType text key p ls =
     \<lparr>ji_journalId = None, ji_referenceType = refType, ji_referenceId = po_id p,
      ji_narration = None, ji_description = Some text, ji_lines = None, ji_entries = Some ls,
      ji_idempotencyKey = Some (key @ po_id p), ji_currency = None,
      ji_bookingId = None, ji_paymentId = None, ji_payoutId = Some (po_id p), ji_vendorId = Some (po_vendorId p)\<rparr>"

definition payout_label :: "Payout \<Rightarrow> string" where
  "payout_label p = or_string (po_payoutNumber p) (po_id p)"

definition exec_journal :: "Payout \<Rightarrow> RecordJournalInput" where
  "exec_journal p =
     payout_journal ''PAYOUT'' (''Vendor payout settlement #'' @ payout_label p) ''ledger_po_exec_'' p
       [payout_line VENDOR_PAYABLE None LedgerEntrySide.DEBIT (po_amount p) (''Debit vendor payable for payout #'' @ payout_label p),
        payout_line GATEWAY_CLEARING (Some ''RAZORPAY'') LedgerEntrySide.CREDIT (po_amount p)
          (''Credit gateway clearing for payout #'' @ payout_label p)]"

definition reversal_of_payout :: "string option \<Rightarrow> Payout \<Rightarrow> RecordJournalInput" where
  "reversal_of_payout reason p =
     payout_journal ''PAYOUT_REVERSAL'' (''Vendor payout reversal #'' @ payout_label p @ '': '' @ or_string reason ''Reversed'')
       ''ledger_po_rev_'' p
       [payout_line GATEWAY_CLEARING (Some ''RAZORPAY'') LedgerEntrySide.DEBIT (po_amount p)
          (''Debit gateway clearing (reversal) for payout #'' @ payout_label p),
        payout_line VENDOR_PAYABLE None LedgerEntrySide.CREDIT (po_amount p)
          (''Credit vendor payable (reversal) for payout #'' @ payout_label p)]"

definition with_ledger :: "ledger \<Rightarrow> payout_db \<Rightarrow> payout_db" where
  "with_ledger L st = st\<lparr>pd_core := (pd_core st)\<lparr>db_ledger := L\<rparr>\<rparr>"

text \<open>A journal posted inside the transaction of the caller.\<close>

definition post_journal :: "'g payout_env \<Rightarrow> time \<Rightarrow> string \<Rightarrow> RecordJournalInput \<Rightarrow> payout_db \<Rightarrow> payout_db result" where
  "post_journal env now jid inp st =
     (if pe_ledger env
      then bindR (recordJournal dec20 round2 now jid inp (db_ledger (pd_core st))) (\<lambda>(_, L). Inr (with_ledger L st))
      else Inr st)"

section \<open>Approval and rejection\<close>

text \<open>\<open>`${notes || ''} | label ${text}`\<close>\<close>

definition add_note :: "Payout \<Rightarrow> string \<Rightarrow> string \<Rightarrow> string" where
  "add_note p label text = or_string (po_notes p) [] @ '' | '' @ label @ '': '' @ text"

definition approvePayout :: "time \<Rightarrow> id \<Rightarrow> id \<Rightarrow> string option \<Rightarrow> payout_db \<Rightarrow> (Payout \<times> payout_db) result" where
  "approvePayout now pid admin adminNotes st =
     (case find_payout pid st of
        None \<Rightarrow> Inl (NotFoundException ''Payout record not found.'')
      | Some p \<Rightarrow>
          throw_if (po_status p \<noteq> PayoutStatus.PENDING) (BadRequestException ''Only PENDING payouts can be approved.'')
          (let p' = p\<lparr>po_status := PayoutStatus.APPROVED, po_approvedByUserId := Some admin, po_approvedAt := Some now,
                 po_notes := (if str_truthy adminNotes then Some (add_note p ''Approval'' (the adminNotes)) else po_notes p)\<rparr>
           in bindR (update_payout p' st) (\<lambda>st1. Inr (p', log_audit admin ''PAYOUT_APPROVED'' ''Payout'' pid st1))))"

definition rejectPayout :: "id \<Rightarrow> id \<Rightarrow> string \<Rightarrow> payout_db \<Rightarrow> (Payout \<times> payout_db) result" where
  "rejectPayout pid admin reason st =
     (case find_payout pid st of
        None \<Rightarrow> Inl (NotFoundException ''Payout record not found.'')
      | Some p \<Rightarrow>
          throw_if (po_status p \<noteq> PayoutStatus.PENDING \<and> po_status p \<noteq> PayoutStatus.APPROVED)
            (BadRequestException ''Payout cannot be rejected.'')
          (let p' = p\<lparr>po_status := PayoutStatus.REJECTED, po_providerFailureReason := Some reason,
                 po_notes := Some (add_note p ''Rejection Reason'' reason)\<rparr>
           in bindR (update_payout p' st) (\<lambda>st1. Inr (p', log_audit admin ''PAYOUT_REJECTED'' ''Payout'' pid st1))))"

section \<open>The bank\<close>

datatype PayoutTransferStatus = QUEUED | PROCESSING | PAID | FAILED | BLOCKED_CREDENTIALS

record PayoutTransferRequest =
  pt_payoutNumber :: string
  pt_vendorId :: id
  pt_amount :: rat
  pt_accountNumber :: "json option"
  pt_ifscCode :: "json option"
  pt_beneficiaryName :: "json option"
  pt_idempotencyKey :: string

record PayoutTransferResponse =
  tr_status :: PayoutTransferStatus
  tr_providerTransferId :: "json option"
  tr_providerFee :: "rat option"
  tr_failureReason :: "json option"

definition transfer_failed :: "json option \<Rightarrow> json \<Rightarrow> PayoutTransferResponse" where
  "transfer_failed tid reason = \<lparr>tr_status = FAILED, tr_providerTransferId = tid, tr_providerFee = None, tr_failureReason = Some reason\<rparr>"

text \<open>\<open>x?.trim()\<close>, \<open>x.toUpperCase().trim()\<close>: a string, or a \<open>TypeError\<close>.\<close>

definition string_arg :: "json \<Rightarrow> string result" where
  "string_arg j = (case j of JStr s \<Rightarrow> Inr s | _ \<Rightarrow> Inl type_error)"

definition beneficiary_of :: "PayoutTransferRequest \<Rightarrow> string result" where
  "beneficiary_of req =
     (case pt_beneficiaryName req of
        None \<Rightarrow> Inr (''Vendor-'' @ take 8 (pt_vendorId req))
      | Some JNull \<Rightarrow> Inr (''Vendor-'' @ take 8 (pt_vendorId req))
      | Some j \<Rightarrow> bindR (string_arg j) (\<lambda>s. Inr (or_string (Some (trim s)) (''Vendor-'' @ take 8 (pt_vendorId req)))))"

text \<open>\<open>x ? x / 100 : undefined\<close>, later dropped when it is not a number or zero.\<close>

definition fee_of :: "json option \<Rightarrow> rat option" where
  "fee_of j = (if truthy j then (case js_number (the j) of None \<Rightarrow> None | Some x \<Rightarrow> if fl (x / 100) = 0 then None else Some (fl (x / 100))) else None)"

definition bank_response :: "json \<Rightarrow> PayoutTransferResponse" where
  "bank_response data =
     (let tid = field ''id'' data; fee = fee_of (field ''fees'' data);
          reply = (\<lambda>s. \<lparr>tr_status = s, tr_providerTransferId = tid, tr_providerFee = fee, tr_failureReason = None\<rparr>)
      in case or_json (field ''status'' data) (JStr []) of
           JStr s \<Rightarrow>
             (let status = to_lower s
              in if status = ''processed'' then reply PAID
                 else if status \<in> {''processing'', ''queued'', ''pending''} then reply PROCESSING
                 else if status \<in> {''rejected'', ''cancelled''}
                 then transfer_failed tid (or_json (field ''failure_reason'' data) (JStr (''Payout was '' @ status @ '' by RazorpayX.'')))
                 else if status = ''reversed'' then transfer_failed tid (JStr ''Payout reversed by banking network.'')
                 else reply PROCESSING)
         | _ \<Rightarrow> transfer_failed None (JStr ''RazorpayX gateway communication error''))"

definition bank_outcome :: "fetch_outcome \<Rightarrow> PayoutTransferResponse" where
  "bank_outcome r =
     (case r of
        Aborted \<Rightarrow> transfer_failed None (JStr ''RazorpayX gateway API request timed out after 15s'')
      | Network_error m \<Rightarrow> transfer_failed None (JStr (or_string (Some m) ''RazorpayX gateway communication error''))
      | Response ok code body \<Rightarrow>
          if \<not> ok
          then transfer_failed None
            (or_json (or_else (Option.bind body (path [''error'', ''description''])) (Option.bind body (path [''error'', ''reason''])))
               (JStr (''RazorpayX HTTP '' @ show_nat code @ '' error'')))
          else if \<not> truthy body \<or> \<not> truthy (field ''id'' (the body))
          then transfer_failed None (JStr ''Invalid response from RazorpayX: Missing payout ID.'')
          else bank_response (the body))"

definition initiateTransfer :: "'g payout_env \<Rightarrow> PayoutTransferRequest \<Rightarrow> 'g \<Rightarrow> PayoutTransferResponse result \<times> 'g" where
  "initiateTransfer env req g =
     (if \<not> pe_configured env
      then (Inr \<lparr>tr_status = BLOCKED_CREDENTIALS, tr_providerTransferId = None, tr_providerFee = None,
                 tr_failureReason = Some (JStr ''EXTERNAL CREDENTIAL BLOCKER'')\<rparr>, g)
      else if \<not> truthy (pt_accountNumber req) \<or> \<not> truthy (pt_ifscCode req)
      then (Inr (transfer_failed None (JStr ''Beneficiary bank account details missing'')), g)
      else case bindR (beneficiary_of req) (\<lambda>name. bindR (string_arg (the (pt_ifscCode req))) (\<lambda>ifsc.
                  bindR (string_arg (the (pt_accountNumber req))) (\<lambda>acc. Inr (name, ifsc, acc)))) of
          Inl e \<Rightarrow> (Inl e, g)
        | Inr (name, ifsc, acc) \<Rightarrow>
            let (r, g1) = pe_fetch env \<lparr>br_idempotencyKey = pt_idempotencyKey req, br_amount = js_round (fl (pt_amount req * 100)),
                  br_accountNumber = trim acc, br_ifsc = trim (to_upper ifsc), br_name = name, br_vendorId = pt_vendorId req,
                  br_referenceId = pt_payoutNumber req\<rparr> g
            in (Inr (bank_outcome r), g1))"

section \<open>Execution\<close>

record ExecutePayoutDto =
  ep_providerTransferId :: "string option"
  ep_providerFee :: "rat option"
  ep_adminNotes :: "string option"

definition noted :: "ExecutePayoutDto option \<Rightarrow> string \<Rightarrow> Payout \<Rightarrow> string option" where
  "noted dto label p =
     (case Option.bind dto ep_adminNotes of
        None \<Rightarrow> po_notes p
      | Some n \<Rightarrow> if n = [] then po_notes p else Some (add_note p label n))"

text \<open>\<open>fee ? new Decimal(fee) : undefined\<close>\<close>

definition new_fee :: "rat option \<Rightarrow> rat option \<Rightarrow> rat option result" where
  "new_fee fee old =
     (case fee of
        None \<Rightarrow> Inr old
      | Some x \<Rightarrow> if x = 0 then Inr old else bindR (money10 (dec_of_num x)) (\<lambda>y. Inr (Some y)))"

definition execution_checks :: "id \<Rightarrow> id \<Rightarrow> payout_db \<Rightarrow> Payout result" where
  "execution_checks pid admin st =
     (case find_payout pid st of
        None \<Rightarrow> Inl (NotFoundException ''Payout record not found.'')
      | Some p \<Rightarrow>
          throw_if (po_status p = PayoutStatus.PAID) (BadRequestException ''Payout is already marked as PAID'')
         (throw_if (\<not> is_reserved (po_status p)) (BadRequestException ''Payout cannot be executed.'')
         (throw_if (fl (po_amount p) > 50000 \<and> str_truthy (po_approvedByUserId p) \<and> po_approvedByUserId p = Some admin)
            (BadRequestException ''Dual Authorization Policy'')
         (Inr p))))"

text \<open>
  A transfer the operator made by hand. The journal is posted after the update and outside of its
  transaction; an error of the ledger is only logged.
\<close>

definition settle_manually ::
  "'g payout_env \<Rightarrow> time \<Rightarrow> string \<Rightarrow> id \<Rightarrow> ExecutePayoutDto \<Rightarrow> string \<Rightarrow> Payout \<Rightarrow> payout_db \<Rightarrow> (Payout \<times> payout_db) result" where
  "settle_manually env now jid admin dto transfer p st =
     bindR (new_fee (ep_providerFee dto) (po_providerFee p)) (\<lambda>fee.
     let p' = p\<lparr>po_status := PayoutStatus.PAID, po_paidAt := Some now, po_processedAt := Some now,
           po_providerTransferId := Some (trim transfer), po_providerFee := fee, po_notes := noted (Some dto) ''Manual Settlement'' p\<rparr>
     in bindR (update_payout p' st) (\<lambda>st1.
        let st2 = log_audit admin ''PAYOUT_EXECUTED_MANUAL'' ''Payout'' (po_id p) st1
        in Inr (p', case post_journal env now jid (exec_journal p) st2 of Inl _ \<Rightarrow> st2 | Inr st3 \<Rightarrow> st3)))"

text \<open>The account of the snapshot, or of the vendor's bank details when it has none.\<close>

definition bank_account :: "'g payout_env \<Rightarrow> Payout \<Rightarrow> Vendor option \<Rightarrow> json option \<times> json option \<times> json option" where
  "bank_account env p v =
     (let name = (\<lambda>j last. or_else (field ''beneficiaryName'' j) (or_else (field ''accountHolderName'' j) last));
          snap = (if truthy (po_bankAccountSnapshot p)
                  then let j = the (po_bankAccountSnapshot p)
                       in (field ''accountNumber'' j, field ''ifscCode'' j, or_else (field ''beneficiaryName'' j) (field ''accountHolderName'' j))
                  else (None, None, None))
      in if truthy (fst snap) then snap
         else case v of
           None \<Rightarrow> snap
         | Some v \<Rightarrow>
             (case or_str (ven_bankDetails v) None of
                None \<Rightarrow> snap
              | Some s \<Rightarrow>
                  (case pe_parse env s of
                     None \<Rightarrow> snap
                   | Some JNull \<Rightarrow> snap
                   | Some j \<Rightarrow> (field ''accountNumber'' j, field ''ifscCode'' j, name j (Some (JStr (ven_ownerName v)))))))"

definition transfer_request :: "'g payout_env \<Rightarrow> Payout \<Rightarrow> Vendor option \<Rightarrow> PayoutTransferRequest" where
  "transfer_request env p v =
     (let (acc, ifsc, name) = bank_account env p v
      in \<lparr>pt_payoutNumber = payout_label p, pt_vendorId = po_vendorId p, pt_amount = fl (po_amount p),
          pt_accountNumber = acc, pt_ifscCode = ifsc,
          pt_beneficiaryName = or_else name (case v of None \<Rightarrow> None
            | Some v \<Rightarrow> or_else (Some (JStr (ven_businessName v))) (Some (JStr (ven_ownerName v)))),
          pt_idempotencyKey = or_string (po_idempotencyKey p) (''po_exec_'' @ po_id p)\<rparr>)"

text \<open>What the answer of the bank makes of the payout.\<close>

definition blocked_notes :: "ExecutePayoutDto option \<Rightarrow> string \<Rightarrow> Payout \<Rightarrow> string option" where
  "blocked_notes dto reason p =
     Some (if str_truthy (Option.bind dto ep_adminNotes) then add_note p ''Gateway'' reason else reason)"

definition apply_transfer ::
  "'g payout_env \<Rightarrow> time \<Rightarrow> string \<Rightarrow> id \<Rightarrow> ExecutePayoutDto option \<Rightarrow> PayoutTransferResponse \<Rightarrow> Payout \<Rightarrow> payout_db \<Rightarrow>
   (Payout \<times> payout_db) result" where
  "apply_transfer env now jid admin dto r p st =
     (let pid = po_id p
      in case tr_status r of
        BLOCKED_CREDENTIALS \<Rightarrow>
          bindR (as_text (the (tr_failureReason r))) (\<lambda>reason.
          let p' = p\<lparr>po_status := PayoutStatus.PROCESSING, po_processedAt := Some now, po_providerFailureReason := Some reason,
                po_notes := blocked_notes dto reason p\<rparr>
          in bindR (update_payout p' st) (\<lambda>st1.
             Inr (p', log_audit admin ''PAYOUT_DISPATCH_BLOCKED_MISSING_CREDENTIALS'' ''Payout'' pid st1)))
      | PAID \<Rightarrow>
          bindR (new_value (tr_providerTransferId r) (po_providerTransferId p)) (\<lambda>tid.
          bindR (new_fee (tr_providerFee r) (po_providerFee p)) (\<lambda>fee.
          let p' = p\<lparr>po_status := PayoutStatus.PAID, po_paidAt := Some now, po_processedAt := Some now,
                po_providerTransferId := tid, po_providerFee := fee\<rparr>
          in bindR (update_payout p' st) (\<lambda>st1. bindR (post_journal env now jid (exec_journal p) st1) (\<lambda>st2.
             Inr (p', log_audit admin ''PAYOUT_EXECUTED'' ''Payout'' pid st2)))))
      | FAILED \<Rightarrow>
          bindR (as_text (the (tr_failureReason r))) (\<lambda>reason.
          let p' = p\<lparr>po_status := PayoutStatus.FAILED, po_providerFailureReason := Some reason\<rparr>
          in bindR (update_payout p' st) (\<lambda>st1. Inr (p', log_audit admin ''PAYOUT_FAILED'' ''Payout'' pid st1)))
      | _ \<Rightarrow>
          bindR (new_value (tr_providerTransferId r) (po_providerTransferId p)) (\<lambda>tid.
          bindR (new_fee (tr_providerFee r) (po_providerFee p)) (\<lambda>fee.
          let p' = p\<lparr>po_status := PayoutStatus.PROCESSING, po_processedAt := Some now,
                po_providerTransferId := tid, po_providerFee := fee\<rparr>
          in bindR (update_payout p' st) (\<lambda>st1. Inr (p', log_audit admin ''PAYOUT_PROCESSING'' ''Payout'' pid st1)))))"

definition await_credentials ::
  "time \<Rightarrow> id \<Rightarrow> ExecutePayoutDto option \<Rightarrow> Payout \<Rightarrow> payout_db \<Rightarrow> (Payout \<times> payout_db) result" where
  "await_credentials now admin dto p st =
     (let p' = p\<lparr>po_status := PayoutStatus.PROCESSING, po_processedAt := Some now,
           po_providerFailureReason := Some ''EXTERNAL CREDENTIAL BLOCKER: Payout gateway credentials unconfigured.'',
           po_notes := noted dto ''Execution Note'' p\<rparr>
      in bindR (update_payout p' st) (\<lambda>st1. Inr (p', log_audit admin ''PAYOUT_PROCESSING'' ''Payout'' (po_id p) st1)))"

definition manual_transfer :: "ExecutePayoutDto option \<Rightarrow> (ExecutePayoutDto \<times> string) option" where
  "manual_transfer dto =
     (case dto of
        None \<Rightarrow> None
      | Some d \<Rightarrow> (case or_str (ep_providerTransferId d) None of
            None \<Rightarrow> None
          | Some t \<Rightarrow> if trim t = [] then None else Some (d, t)))"

text \<open>The bank's state after the call is returned also when the tables could not be updated.\<close>

definition executePayout ::
  "'g payout_env \<Rightarrow> time \<Rightarrow> string \<Rightarrow> id \<Rightarrow> id \<Rightarrow> ExecutePayoutDto option \<Rightarrow> payout_db \<Rightarrow> 'g \<Rightarrow> (Payout \<times> payout_db) result \<times> 'g" where
  "executePayout env now jid pid admin dto st g =
     (case execution_checks pid admin st of
        Inl e \<Rightarrow> (Inl e, g)
      | Inr p \<Rightarrow>
          (case manual_transfer dto of
             Some (d, t) \<Rightarrow> (settle_manually env now jid admin d t p st, g)
           | None \<Rightarrow>
               if \<not> pe_provider env then (await_credentials now admin dto p st, g)
               else (case initiateTransfer env (transfer_request env p (find_vendor (po_vendorId p) st)) g of
                       (Inl e, g1) \<Rightarrow> (Inl e, g1)
                     | (Inr r, g1) \<Rightarrow> (apply_transfer env now jid admin dto r p st, g1))))"

definition markPayoutPaid ::
  "'g payout_env \<Rightarrow> time \<Rightarrow> string \<Rightarrow> id \<Rightarrow> string option \<Rightarrow> payout_db \<Rightarrow> 'g \<Rightarrow> (Payout \<times> payout_db) result \<times> 'g" where
  "markPayoutPaid env now jid pid adminNote st g =
     executePayout env now jid pid ''system''
       (Some \<lparr>ep_providerTransferId = Some (or_string adminNote (''settled_'' @ show_nat (nat now))), ep_providerFee = None,
              ep_adminNotes = adminNote\<rparr>) st g"

section \<open>Reversal\<close>

definition reversePayout ::
  "'g payout_env \<Rightarrow> time \<Rightarrow> string \<Rightarrow> id \<Rightarrow> id \<Rightarrow> string option \<Rightarrow> payout_db \<Rightarrow> (Payout \<times> payout_db) result" where
  "reversePayout env now jid pid admin reason st =
     (case find_payout pid st of
        None \<Rightarrow> Inl (NotFoundException ''Payout record not found.'')
      | Some p \<Rightarrow>
          if po_status p = PayoutStatus.REVERSED then Inr (p, st)
          else throw_if (po_status p \<noteq> PayoutStatus.PAID \<and> po_status p \<noteq> PayoutStatus.PROCESSING)
            (BadRequestException ''Only PAID or PROCESSING payouts can be reversed.'')
          (let p' = p\<lparr>po_status := PayoutStatus.REVERSED,
                 po_providerFailureReason := Some (or_string reason ''Payout reversed by banking network/operator.''),
                 po_notes := (if str_truthy reason then Some (add_note p ''Reversal'' (the reason)) else po_notes p)\<rparr>
           in bindR (update_payout p' st) (\<lambda>st1.
              bindR (if po_status p = PayoutStatus.PAID then post_journal env now jid (reversal_of_payout reason p) st1 else Inr st1)
                (\<lambda>st2. Inr (p', log_audit admin ''PAYOUT_REVERSED'' ''Payout'' pid st2)))))"

section \<open>The bank's notifications\<close>

datatype payout_hook_result = Ignored | Duplicate | NotFound | AlreadyPaid | Settled PayoutStatus | OtherEvent

definition webhook_actor :: id where "webhook_actor = ''WEBHOOK_RAZORPAYX''"

definition payout_hook_valid :: "'g payout_env \<Rightarrow> string \<Rightarrow> string \<Rightarrow> bool" where
  "payout_hook_valid env rawBody signature \<longleftrightarrow>
     (pe_mock env \<and> (signature = [] \<or> signature = ''mock_signature'')) \<or> (signature \<noteq> [] \<and> pe_validWebhook env rawBody signature)"

definition payout_event_id :: "'g payout_env \<Rightarrow> headers \<Rightarrow> json \<Rightarrow> string \<Rightarrow> string" where
  "payout_event_id env hs payload rawBody =
     (case or_str (header hs ''x-razorpay-event-id'') (header hs ''x-event-id'') of
        Some x \<Rightarrow> x
      | None \<Rightarrow> json_text (or_json (or_else (field ''event_id'' payload) (field ''id'' payload)) (JStr (pe_sha256 env rawBody))))"

text \<open>A filter that is only set when the value is truthy; the column is a string.\<close>

definition filter_value :: "json option \<Rightarrow> string option result" where
  "filter_value j = (if truthy j then bindR (as_text (the j)) (\<lambda>s. Inr (Some s)) else Inr None)"

definition notified_payout :: "string option \<Rightarrow> string option \<Rightarrow> payout_db \<Rightarrow> Payout option" where
  "notified_payout tid num st =
     List.find (\<lambda>p. same_id tid (po_providerTransferId p) \<or> same_id num (po_payoutNumber p)) (pd_payouts st)"

text \<open>\<open>new Decimal(fees / 100)\<close>; NaN is refused by the column.\<close>

definition fee_amount :: "json option \<Rightarrow> rat result" where
  "fee_amount j =
     (case Option.bind j js_number of
        None \<Rightarrow> Inl (PrismaError ''Validation'')
      | Some x \<Rightarrow> money10 (dec_of_num (fl (x / 100))))"

definition payout_processed ::
  "'g payout_env \<Rightarrow> time \<Rightarrow> string \<Rightarrow> json option \<Rightarrow> string option \<Rightarrow> Payout \<Rightarrow> payout_db \<Rightarrow> payout_db result" where
  "payout_processed env now jid fees tid p st =
     bindR (if truthy fees then bindR (fee_amount fees) (\<lambda>y. Inr (Some y)) else Inr (po_providerFee p)) (\<lambda>fee.
     let p' = p\<lparr>po_status := PayoutStatus.PAID, po_paidAt := Some now, po_processedAt := Some now,
           po_providerTransferId := (case tid of None \<Rightarrow> po_providerTransferId p | _ \<Rightarrow> tid), po_providerFee := fee\<rparr>
     in bindR (update_payout p' st) (\<lambda>st1. bindR (post_journal env now jid (exec_journal p) st1) (\<lambda>st2.
        Inr (log_audit webhook_actor ''PAYOUT_EXECUTED_WEBHOOK'' ''Payout'' (po_id p) st2))))"

definition payout_failed :: "json \<Rightarrow> Payout \<Rightarrow> payout_db \<Rightarrow> payout_db result" where
  "payout_failed reason p st =
     bindR (as_text reason) (\<lambda>r.
     bindR (update_payout (p\<lparr>po_status := PayoutStatus.FAILED, po_providerFailureReason := Some r\<rparr>) st) (\<lambda>st1.
     Inr (log_audit webhook_actor ''PAYOUT_FAILED_WEBHOOK'' ''Payout'' (po_id p) st1)))"

definition payout_reversed ::
  "'g payout_env \<Rightarrow> time \<Rightarrow> string \<Rightarrow> json \<Rightarrow> Payout \<Rightarrow> payout_db \<Rightarrow> payout_db result" where
  "payout_reversed env now jid reason p st =
     bindR (reversePayout env now jid (po_id p) webhook_actor (json_string (Some reason)) st) (\<lambda>(_, st1).
     if po_status p = PayoutStatus.REVERSED \<or> json_string (Some reason) \<noteq> None then Inr st1 else Inl (PrismaError ''Validation''))"

definition dispatch_payout_event ::
  "'g payout_env \<Rightarrow> time \<Rightarrow> string \<Rightarrow> json option \<Rightarrow> json \<Rightarrow> string option \<Rightarrow> Payout \<Rightarrow> payout_db \<Rightarrow>
   (payout_hook_result \<times> payout_db) result" where
  "dispatch_payout_event env now jid event entity tid p st =
     (let settle = (\<lambda>s. map_sum id (\<lambda>st1. (Settled s, st1))); reason = field ''failure_reason'' entity
      in if event \<in> {Some (JStr ''payout.processed''), Some (JStr ''payout.paid'')}
         then (if po_status p = PayoutStatus.PAID then Inr (AlreadyPaid, st)
               else settle PayoutStatus.PAID (payout_processed env now jid (field ''fees'' entity) tid p st))
         else if event = Some (JStr ''payout.reversed'')
         then settle PayoutStatus.REVERSED (payout_reversed env now jid (or_json reason (JStr ''Reversed by banking network'')) p st)
         else if event \<in> {Some (JStr ''payout.failed''), Some (JStr ''payout.rejected'')} \<and>
                 po_status p \<notin> {PayoutStatus.FAILED, PayoutStatus.REJECTED, PayoutStatus.REVERSED}
         then settle PayoutStatus.FAILED
                (payout_failed (or_json reason (JStr (''Payout was '' @ json_text (the event) @ '' by RazorpayX.''))) p st)
         else Inr (OtherEvent, st))"

definition stored_payout_event :: "string \<Rightarrow> json option \<Rightarrow> payout_db \<Rightarrow> payout_db" where
  "stored_payout_event eid event st =
     st\<lparr>pd_core := (pd_core st)\<lparr>db_webhooks := db_webhooks (pd_core st) @
       [\<lparr>wh_gateway = ''RAZORPAYX'', wh_eventId = eid,
         wh_eventType = (case event of None \<Rightarrow> ''undefined'' | Some j \<Rightarrow> json_text j), wh_status = ''RECEIVED'', wh_processedAt = None\<rparr>]\<rparr>\<rparr>"

definition process_payout_event ::
  "'g payout_env \<Rightarrow> time \<Rightarrow> string \<Rightarrow> json \<Rightarrow> json \<Rightarrow> payout_db \<Rightarrow> payout_hook_result result \<times> payout_db" where
  "process_payout_event env now jid payload entity st =
     (case bindR (filter_value (field ''id'' entity)) (\<lambda>tid. bindR (filter_value (field ''reference_id'' entity)) (\<lambda>num. Inr (tid, num))) of
        Inl e \<Rightarrow> (Inl e, st)
      | Inr (tid, num) \<Rightarrow>
          (case notified_payout tid num st of
             None \<Rightarrow> (Inr NotFound, st)
           | Some p \<Rightarrow>
               (case dispatch_payout_event env now jid (field ''event'' payload) entity tid p st of
                  Inl e \<Rightarrow> (Inl e, st)
                | Inr (r, st1) \<Rightarrow> (Inr r, st1))))"

definition handlePayoutWebhook ::
  "'g payout_env \<Rightarrow> time \<Rightarrow> string \<Rightarrow> string \<Rightarrow> string \<Rightarrow> headers \<Rightarrow> payout_db \<Rightarrow> payout_hook_result result \<times> payout_db" where
  "handlePayoutWebhook env now jid rawBody signature hs st =
     (if \<not> payout_hook_valid env rawBody signature
      then (Inl (BadRequestException (if signature = [] then ''Webhook signature is missing'' else ''Invalid payout webhook signature'')), st)
      else case pe_parse env rawBody of
        None \<Rightarrow> (Inl (GatewayError ''SyntaxError''), st)
      | Some payload \<Rightarrow>
          if payload = JNull then (Inl type_error, st)
          else let entity = path [''payload'', ''payout'', ''entity''] payload
          in if \<not> truthy entity then (Inr Ignored, st)
             else let eid = payout_event_id env hs payload rawBody
             in if seen_event eid (pd_core st) then (Inr Duplicate, st)
                else process_payout_event env now jid payload (the entity) (stored_payout_event eid (field ''event'' payload) st))"

section \<open>Adjustments\<close>

record CreateFinancialAdjustmentDto =
  cf_targetType :: string
  cf_targetId :: id
  cf_amount :: rat
  cf_direction :: LedgerDirection
  cf_reason :: string
  cf_category :: string
  cf_referenceId :: "id option"
  cf_idempotencyKey :: string

text \<open>
  The wallet is adjusted in a transaction of its own; when it refuses, the adjustment is rolled back.
  The administrator of an adjustment refers to the user table.
\<close>

definition adjust_wallet ::
  "'g payout_env \<Rightarrow> time \<Rightarrow> id \<Rightarrow> CreateFinancialAdjustmentDto \<Rightarrow> string \<Rightarrow> payout_db \<Rightarrow> payout_db result" where
  "adjust_wallet env now admin dto num st =
     (if cf_targetType dto = ''CUSTOMER_WALLET'' \<and> pe_wallets env
      then bindR (adminAdjustWallet round2 (pe_walletConfig env) now admin
             \<lparr>aa_walletId = cf_targetId dto, aa_amount = dec_of_num (cf_amount dto), aa_direction = cf_direction dto, aa_bucket = REAL_MONEY,
              aa_reason = ''['' @ num @ ''] '' @ cf_reason dto, aa_clientNonce = Some (cf_idempotencyKey dto)\<rparr> (db_wallet (pd_core st)))
             (\<lambda>(_, w). Inr (st\<lparr>pd_core := (pd_core st)\<lparr>db_wallet := w\<rparr>\<rparr>))
      else Inr st)"

definition createFinancialAdjustment ::
  "'g payout_env \<Rightarrow> time \<Rightarrow> id \<Rightarrow> id \<Rightarrow> CreateFinancialAdjustmentDto \<Rightarrow> payout_db \<Rightarrow> (FinancialAdjustment \<times> payout_db) result" where
  "createFinancialAdjustment env now newId admin dto st =
     (case List.find (\<lambda>a. fa_idempotencyKey a = cf_idempotencyKey dto) (pd_adjustments st) of
        Some existing \<Rightarrow> Inr (existing, st)
      | None \<Rightarrow>
          let num = generateAdjustmentNumber env now st
          in bindR (money10 (dec_of_num (cf_amount dto))) (\<lambda>amount.
             throw_if (admin \<notin> set (pd_users st)) (PrismaError ''P2003'')
            (throw_if (num \<in> fa_adjustmentNumber ` set (pd_adjustments st)) (PrismaError ''P2002'')
            (let a = \<lparr>fa_id = newId, fa_adjustmentNumber = num, fa_targetType = cf_targetType dto, fa_targetId = cf_targetId dto,
                   fa_amount = amount, fa_direction = cf_direction dto, fa_reason = cf_reason dto, fa_category = cf_category dto,
                   fa_referenceId = cf_referenceId dto, fa_approvedByUserId = admin, fa_idempotencyKey = cf_idempotencyKey dto,
                   fa_createdAt = now\<rparr>
             in bindR (adjust_wallet env now admin dto num (st\<lparr>pd_adjustments := pd_adjustments st @ [a]\<rparr>)) (\<lambda>st1.
                Inr (a, log_audit admin ''FINANCIAL_ADJUSTMENT_CREATED'' ''FinancialAdjustment'' newId st1))))))"

section \<open>Views\<close>

record financial_summary =
  fs_grossMerchandiseValue :: rat
  fs_platformCommissions :: rat
  fs_vendorPayoutsPaid :: rat
  fs_vendorPayoutsPending :: rat
  fs_securityDepositsHeld :: rat
  fs_customerWalletLiabilities :: rat

definition getFinancialSummary :: "payout_db \<Rightarrow> financial_summary" where
  "getFinancialSummary st =
     (let db = pd_core st; wallets = wd_wallets (db_wallet db)
      in \<lparr>fs_grossMerchandiseValue = fl (sum_where (\<lambda>p. pm_status p = PaymentStatus.PAID) pm_amount (db_payments db)),
          fs_platformCommissions = fl (sum_where (paid_booking db) bk_platformFee (db_bookings db)),
          fs_vendorPayoutsPaid = fl (sum_where (\<lambda>p. po_status p = PayoutStatus.PAID) po_amount (pd_payouts st)),
          fs_vendorPayoutsPending = fl (sum_where (\<lambda>p. po_status p \<in> {PayoutStatus.PENDING, PayoutStatus.APPROVED}) po_amount (pd_payouts st)),
          fs_securityDepositsHeld = fl (sum_where (\<lambda>d. sd_status d = SecurityDepositStatus.HELD) sd_amount (db_deposits db)),
          fs_customerWalletLiabilities = fl (fl (sum_where (\<lambda>_. True) w_realBalance wallets) + fl (sum_where (\<lambda>_. True) w_promoBalance wallets))\<rparr>)"

definition getPayoutHistory :: "id \<Rightarrow> payout_db \<Rightarrow> Payout list result" where
  "getPayoutHistory vid st =
     throw_if (find_vendor vid st = None) (NotFoundException ''Vendor not found.'')
       (Inr (sort_key (\<lambda>p. - po_createdAt p) (filter (\<lambda>p. po_vendorId p = vid) (pd_payouts st))))"

text \<open>A page of a table, newest first: the rows, how many there are and how many pages. Pages count from 1.\<close>

definition page_of :: "('a \<Rightarrow> time) \<Rightarrow> nat \<Rightarrow> nat \<Rightarrow> 'a list \<Rightarrow> 'a list \<times> nat \<times> nat" where
  "page_of created page limit rows =
     (take limit (drop ((page - 1) * limit) (sort_key (\<lambda>r. - created r) rows)), length rows, (length rows + limit - 1) div limit)"

definition getAllPayouts :: "PayoutStatus option \<Rightarrow> nat \<Rightarrow> nat \<Rightarrow> payout_db \<Rightarrow> Payout list \<times> nat \<times> nat" where
  "getAllPayouts status page limit st =
     page_of po_createdAt page limit (filter (\<lambda>p. case status of None \<Rightarrow> True | Some s \<Rightarrow> po_status p = s) (pd_payouts st))"

definition getAllAdjustments :: "nat \<Rightarrow> nat \<Rightarrow> payout_db \<Rightarrow> FinancialAdjustment list \<times> nat \<times> nat" where
  "getAllAdjustments page limit st = page_of fa_createdAt page limit (pd_adjustments st)"

end
