(* ===== verification/PayoutFacts.thy ===== *)
theory PayoutFacts
  imports PayoutExecution
begin

text \<open>
  What the operations on payouts can do: the status matrix, the unique columns, the balance a request is
  held against over any history of administration, and the journals of settlement and reversal.
\<close>

section \<open>One row at a time\<close>

text \<open>The columns no operation changes once a payout is stored.\<close>

definition fixed :: "Payout \<Rightarrow> Payout" where
  "fixed p = p\<lparr>po_status := PayoutStatus.PENDING, po_providerTransferId := None, po_providerFee := None, po_providerFailureReason := None,
     po_approvedByUserId := None, po_approvedAt := None, po_processedAt := None, po_paidAt := None, po_notes := None\<rparr>"

lemma fixed_update [simp]:
  "fixed (p\<lparr>po_status := s\<rparr>) = fixed p" "fixed (p\<lparr>po_providerTransferId := t\<rparr>) = fixed p" "fixed (p\<lparr>po_providerFee := f\<rparr>) = fixed p"
  "fixed (p\<lparr>po_providerFailureReason := r\<rparr>) = fixed p" "fixed (p\<lparr>po_approvedByUserId := a\<rparr>) = fixed p" "fixed (p\<lparr>po_approvedAt := x\<rparr>) = fixed p"
  "fixed (p\<lparr>po_processedAt := x\<rparr>) = fixed p" "fixed (p\<lparr>po_paidAt := x\<rparr>) = fixed p" "fixed (p\<lparr>po_notes := n\<rparr>) = fixed p"
  by (simp_all add: fixed_def)

lemma fixedD:
  assumes "fixed p = fixed q"
  shows "po_id p = po_id q" "po_vendorId p = po_vendorId q" "po_amount p = po_amount q" "po_payoutNumber p = po_payoutNumber q"
    "po_idempotencyKey p = po_idempotencyKey q" "po_netAmount p = po_netAmount q" "po_createdAt p = po_createdAt q"
proof -
  have p: "po_id (fixed x) = po_id x" "po_vendorId (fixed x) = po_vendorId x" "po_amount (fixed x) = po_amount x"
    "po_payoutNumber (fixed x) = po_payoutNumber x" "po_idempotencyKey (fixed x) = po_idempotencyKey x"
    "po_netAmount (fixed x) = po_netAmount x" "po_createdAt (fixed x) = po_createdAt x" for x
    by (simp_all add: fixed_def)
  show "po_id p = po_id q" "po_vendorId p = po_vendorId q" "po_amount p = po_amount q" "po_payoutNumber p = po_payoutNumber q"
    "po_idempotencyKey p = po_idempotencyKey q" "po_netAmount p = po_netAmount q" "po_createdAt p = po_createdAt q"
    using assms p by metis+
qed

text \<open>Everything but the payouts, the ledger, the audit rows and the stored notifications.\<close>

definition beside :: "payout_db \<Rightarrow> payout_db" where
  "beside st = st\<lparr>pd_payouts := [], pd_core := (pd_core st)\<lparr>db_ledger := [], db_audit := [], db_webhooks := []\<rparr>\<rparr>"

lemma beside_simps [simp]:
  "beside (st\<lparr>pd_payouts := ps\<rparr>) = beside st" "beside (log_audit a act ty tid st) = beside st" "beside (with_ledger L st) = beside st"
  "beside (stored_payout_event eid ev st) = beside st"
  by (simp_all add: beside_def log_audit_def with_ledger_def stored_payout_event_def)

lemma payouts_simps [simp]:
  "pd_payouts (log_audit a act ty tid st) = pd_payouts st" "pd_payouts (with_ledger L st) = pd_payouts st"
  "pd_payouts (stored_payout_event eid ev st) = pd_payouts st"
  by (simp_all add: log_audit_def with_ledger_def stored_payout_event_def)

lemma besideD:
  assumes "beside st = beside st'"
  shows "pd_vendors st' = pd_vendors st" "pd_adjustments st' = pd_adjustments st" "pd_users st' = pd_users st"
    "db_bookings (pd_core st') = db_bookings (pd_core st)" "db_payments (pd_core st') = db_payments (pd_core st)"
    "db_claims (pd_core st') = db_claims (pd_core st)" "db_wallet (pd_core st') = db_wallet (pd_core st)"
proof -
  have b: "pd_vendors (beside x) = pd_vendors x" "pd_adjustments (beside x) = pd_adjustments x" "pd_users (beside x) = pd_users x"
    "db_bookings (pd_core (beside x)) = db_bookings (pd_core x)" "db_payments (pd_core (beside x)) = db_payments (pd_core x)"
    "db_claims (pd_core (beside x)) = db_claims (pd_core x)" "db_wallet (pd_core (beside x)) = db_wallet (pd_core x)" for x
    by (simp_all add: beside_def)
  show "pd_vendors st' = pd_vendors st" "pd_adjustments st' = pd_adjustments st" "pd_users st' = pd_users st"
    "db_bookings (pd_core st') = db_bookings (pd_core st)" "db_payments (pd_core st') = db_payments (pd_core st)"
    "db_claims (pd_core st') = db_claims (pd_core st)" "db_wallet (pd_core st') = db_wallet (pd_core st)"
    using assms b by metis+
qed

text \<open>One payout moves along an edge of \<open>E\<close>, with its fixed columns and the unique columns kept.\<close>

definition payout_step :: "(PayoutStatus \<Rightarrow> PayoutStatus \<Rightarrow> bool) \<Rightarrow> payout_db \<Rightarrow> payout_db \<Rightarrow> bool" where
  "payout_step E st st' \<longleftrightarrow> beside st' = beside st \<and>
     (\<exists>p p'. find_payout (po_id p) st = Some p \<and> fixed p' = fixed p \<and> E (po_status p) (po_status p') \<and>
        \<not> exists_where (payout_clash p') (pd_payouts st) \<and>
        pd_payouts st' = update_where (\<lambda>q. po_id q = po_id p) (\<lambda>_. p') (pd_payouts st))"

fun admin_edge :: "PayoutStatus \<Rightarrow> PayoutStatus \<Rightarrow> bool" where
  "admin_edge PayoutStatus.PENDING t = (t \<in> {PayoutStatus.APPROVED, PayoutStatus.PROCESSING, PayoutStatus.PAID, PayoutStatus.FAILED, PayoutStatus.REJECTED})"
| "admin_edge PayoutStatus.APPROVED t = (t \<in> {PayoutStatus.PROCESSING, PayoutStatus.PAID, PayoutStatus.FAILED, PayoutStatus.REJECTED})"
| "admin_edge PayoutStatus.PROCESSING t = (t \<in> {PayoutStatus.PROCESSING, PayoutStatus.PAID, PayoutStatus.FAILED, PayoutStatus.REVERSED})"
| "admin_edge PayoutStatus.PAID t = (t = PayoutStatus.REVERSED)"
| "admin_edge s t = False"

text \<open>The bank's word counts: what it reports as paid is paid, whatever the status was.\<close>

definition bank_edge :: "PayoutStatus \<Rightarrow> PayoutStatus \<Rightarrow> bool" where
  "bank_edge s t \<longleftrightarrow>
     t = PayoutStatus.PAID \<and> s \<noteq> PayoutStatus.PAID \<or>
     t = PayoutStatus.REVERSED \<and> s \<in> {PayoutStatus.PAID, PayoutStatus.PROCESSING} \<or>
     t = PayoutStatus.FAILED \<and> s \<notin> {PayoutStatus.FAILED, PayoutStatus.REJECTED, PayoutStatus.REVERSED}"

lemma find_payoutD: "find_payout pid st = Some p \<Longrightarrow> p \<in> set (pd_payouts st) \<and> po_id p = pid"
  unfolding find_payout_def by (drule find_Some_D) simp

lemma payout_stepI:
  assumes "find_payout pid st = Some p" and "update_payout p' st = Inr st1" and "fixed p' = fixed p" and "E (po_status p) (po_status p')"
    and "pd_payouts st' = pd_payouts st1" and "beside st' = beside st1"
  shows "payout_step E st st'"
proof -
  have i: "po_id p = pid" "po_id p' = pid" using find_payoutD [OF assms(1)] fixedD(1) [OF assms(3)] by auto
  have n: "\<not> exists_where (payout_clash p') (pd_payouts st)"
    and u: "st1 = st\<lparr>pd_payouts := update_where (\<lambda>q. po_id q = po_id p') (\<lambda>_. p') (pd_payouts st)\<rparr>"
    using assms(2) by (auto simp: update_payout_def split: if_splits)
  have "beside st' = beside st" using assms(6) u by simp
  moreover have "pd_payouts st' = update_where (\<lambda>q. po_id q = po_id p) (\<lambda>_. p') (pd_payouts st)" using assms(5) u i by simp
  ultimately show ?thesis
    unfolding payout_step_def using assms(1,3,4) n i by blast
qed

lemma post_journal_frame:
  "post_journal env now jid inp st = Inr st' \<Longrightarrow> pd_payouts st' = pd_payouts st \<and> beside st' = beside st"
  by (auto simp: post_journal_def bindR_Inr_iff split: if_splits prod.splits)

lemma approve_step:
  assumes "approvePayout now pid admin notes st = Inr (p', st')"
  shows "payout_step admin_edge st st'"
  using assms by (auto simp: approvePayout_def Let_def result_iffs split: option.splits intro!: payout_stepI)

lemma reject_step:
  assumes "rejectPayout pid admin reason st = Inr (p', st')"
  shows "payout_step admin_edge st st'"
  using assms by (auto simp: rejectPayout_def Let_def result_iffs split: option.splits intro!: payout_stepI)

lemma post_or_keep:
  "pd_payouts (case post_journal env now jid inp st of Inl _ \<Rightarrow> st | Inr st3 \<Rightarrow> st3) = pd_payouts st"
  "beside (case post_journal env now jid inp st of Inl _ \<Rightarrow> st | Inr st3 \<Rightarrow> st3) = beside st"
  by (auto split: sum.split dest: post_journal_frame)

lemma settle_manuallyD:
  assumes "settle_manually env now jid admin dto t p st = Inr (p', st')"
  shows "fixed p' = fixed p" "po_status p' = PayoutStatus.PAID"
    "\<exists>st1. update_payout p' st = Inr st1 \<and> pd_payouts st' = pd_payouts st1 \<and> beside st' = beside st1"
  using assms by (auto simp: settle_manually_def Let_def bindR_Inr_iff post_or_keep)

lemma settle_step:
  assumes "find_payout pid st = Some p" "is_reserved (po_status p)" "settle_manually env now jid admin dto t p st = Inr (p', st')"
  shows "payout_step admin_edge st st'"
proof -
  obtain st1 where u: "update_payout p' st = Inr st1" "pd_payouts st' = pd_payouts st1" "beside st' = beside st1"
    using settle_manuallyD(3) [OF assms(3)] by blast
  have "admin_edge (po_status p) (po_status p')" using assms(2) settle_manuallyD(2) [OF assms(3)] by (auto simp: is_reserved_def)
  then show ?thesis using payout_stepI [OF assms(1) u(1) settle_manuallyD(1) [OF assms(3)] _ u(2,3)] by blast
qed

definition paid_by_bank :: "PayoutTransferStatus \<Rightarrow> PayoutStatus" where
  "paid_by_bank s =
     (case s of PayoutTransferStatus.PAID \<Rightarrow> PayoutStatus.PAID | PayoutTransferStatus.FAILED \<Rightarrow> PayoutStatus.FAILED
      | _ \<Rightarrow> PayoutStatus.PROCESSING)"

lemma apply_transferD:
  assumes "apply_transfer env now jid admin dto r p st = Inr (p', st')"
  shows "fixed p' = fixed p \<and> po_status p' = paid_by_bank (tr_status r)"
    "\<exists>st1 st2 act. update_payout p' st = Inr st1 \<and> st' = log_audit admin act ''Payout'' (po_id p) st2 \<and>
       (if tr_status r = PayoutTransferStatus.PAID then post_journal env now jid (exec_journal p) st1 else Inr st1) = Inr st2"
  using assms by (cases "tr_status r"; force simp: apply_transfer_def Let_def bindR_Inr_iff paid_by_bank_def)+

lemma apply_transfer_step:
  assumes "find_payout pid st = Some p" "is_reserved (po_status p)" "apply_transfer env now jid admin dto r p st = Inr (p', st')"
  shows "payout_step admin_edge st st'"
proof -
  obtain st1 st2 act where u: "update_payout p' st = Inr st1" "st' = log_audit admin act ''Payout'' (po_id p) st2"
    "(if tr_status r = PayoutTransferStatus.PAID then post_journal env now jid (exec_journal p) st1 else Inr st1) = Inr st2"
    using apply_transferD(2) [OF assms(3)] by blast
  have k: "pd_payouts st' = pd_payouts st1" "beside st' = beside st1" using u by (auto dest: post_journal_frame split: if_splits)
  have "admin_edge (po_status p) (po_status p')"
    using assms(2) apply_transferD(1) [OF assms(3)] by (auto simp: is_reserved_def paid_by_bank_def split: PayoutTransferStatus.splits)
  then show ?thesis using payout_stepI [OF assms(1) u(1) _ _ k] apply_transferD(1) [OF assms(3)] by blast
qed

lemma await_step:
  assumes "find_payout pid st = Some p" "is_reserved (po_status p)" "await_credentials now admin dto p st = Inr (p', st')"
  shows "payout_step admin_edge st st'"
proof -
  have "admin_edge (po_status p) PayoutStatus.PROCESSING" using assms(2) by (auto simp: is_reserved_def)
  with assms(3) show ?thesis
    by (auto simp: await_credentials_def Let_def bindR_Inr_iff intro!: payout_stepI [OF assms(1)])
qed

lemma execution_checksD:
  assumes "execution_checks pid admin st = Inr p"
  shows "find_payout pid st = Some p" "is_reserved (po_status p)"
    "50000 < fl (po_amount p) \<Longrightarrow> str_truthy (po_approvedByUserId p) \<Longrightarrow> po_approvedByUserId p \<noteq> Some admin"
  using assms by (auto simp: execution_checks_def throw_if_Inr_iff split: option.splits)

lemma execute_cases:
  assumes "executePayout env now jid pid admin dto st g = (Inr (p', st'), g')"
  obtains (manual) p d t where "execution_checks pid admin st = Inr p" "manual_transfer dto = Some (d, t)" "g' = g"
      "settle_manually env now jid admin d t p st = Inr (p', st')"
  | (waiting) p where "execution_checks pid admin st = Inr p" "manual_transfer dto = None" "g' = g"
      "await_credentials now admin dto p st = Inr (p', st')"
  | (bank) p r where "execution_checks pid admin st = Inr p" "manual_transfer dto = None"
      "initiateTransfer env (transfer_request env p (find_vendor (po_vendorId p) st)) g = (Inr r, g')"
      "apply_transfer env now jid admin dto r p st = Inr (p', st')"
  using assms by (auto simp: executePayout_def split: sum.splits option.splits prod.splits if_splits)

lemma execute_step:
  assumes "executePayout env now jid pid admin dto st g = (Inr (p', st'), g')"
  shows "payout_step admin_edge st st'"
  using assms
proof (cases rule: execute_cases)
  case (manual p d t)
  then show ?thesis using settle_step [OF execution_checksD(1,2) [OF manual(1)] manual(4)] by simp
next
  case (waiting p)
  then show ?thesis using await_step execution_checksD by blast
next
  case (bank p r)
  then show ?thesis using apply_transfer_step execution_checksD by blast
qed

lemma reverse_cases:
  assumes "reversePayout env now jid pid admin reason st = Inr (p', st')"
  obtains (skipped) "find_payout pid st = Some p'" "po_status p' = PayoutStatus.REVERSED" "st' = st"
  | (reversed) p st1 st2 where "find_payout pid st = Some p" "po_status p = PayoutStatus.PAID \<or> po_status p = PayoutStatus.PROCESSING"
      "fixed p' = fixed p" "po_status p' = PayoutStatus.REVERSED" "update_payout p' st = Inr st1"
      "(if po_status p = PayoutStatus.PAID then post_journal env now jid (reversal_of_payout reason p) st1 else Inr st1) = Inr st2"
      "st' = log_audit admin ''PAYOUT_REVERSED'' ''Payout'' pid st2"
proof (cases "find_payout pid st")
  case (Some p)
  show thesis
  proof (cases "po_status p = PayoutStatus.REVERSED")
    case True
    with Some assms show thesis by (intro skipped) (auto simp: reversePayout_def)
  next
    case False
    let ?p = "p\<lparr>po_status := PayoutStatus.REVERSED,
                 po_providerFailureReason := Some (or_string reason ''Payout reversed by banking network/operator.''),
                 po_notes := (if str_truthy reason then Some (add_note p ''Reversal'' (the reason)) else po_notes p)\<rparr>"
    from Some False assms have s: "po_status p = PayoutStatus.PAID \<or> po_status p = PayoutStatus.PROCESSING" and p': "p' = ?p"
      and "\<exists>st1 st2. update_payout ?p st = Inr st1 \<and>
        (if po_status p = PayoutStatus.PAID then post_journal env now jid (reversal_of_payout reason p) st1 else Inr st1) = Inr st2 \<and>
        st' = log_audit admin ''PAYOUT_REVERSED'' ''Payout'' pid st2"
      unfolding reversePayout_def Let_def by (simp_all only: option.case result_iffs if_False; fastforce)+
    then obtain st1 st2 where "update_payout ?p st = Inr st1"
        "(if po_status p = PayoutStatus.PAID then post_journal env now jid (reversal_of_payout reason p) st1 else Inr st1) = Inr st2"
        "st' = log_audit admin ''PAYOUT_REVERSED'' ''Payout'' pid st2" by blast
    with Some s p' show thesis by (intro reversed) auto
  qed
qed (use assms in \<open>simp add: reversePayout_def\<close>)

lemma reverse_step:
  assumes "reversePayout env now jid pid admin reason st = Inr (p', st')"
  shows "st' = st \<or> payout_step admin_edge st st' \<and> payout_step bank_edge st st'"
  using assms
proof (cases rule: reverse_cases)
  case (reversed p st1 st2)
  then have k: "pd_payouts st' = pd_payouts st1" "beside st' = beside st1" by (auto dest: post_journal_frame split: if_splits)
  have "admin_edge (po_status p) (po_status p')" "bank_edge (po_status p) (po_status p')"
    using reversed(2,4) by (auto simp: bank_edge_def)
  then show ?thesis using payout_stepI [OF reversed(1,5,3) _ k] by blast
qed simp

lemma processedD:
  assumes "payout_processed env now jid fees tid p st = Inr st'"
  shows "\<exists>p' st1 st2. fixed p' = fixed p \<and> po_status p' = PayoutStatus.PAID \<and> update_payout p' st = Inr st1 \<and>
    post_journal env now jid (exec_journal p) st1 = Inr st2 \<and> st' = log_audit webhook_actor ''PAYOUT_EXECUTED_WEBHOOK'' ''Payout'' (po_id p) st2"
  using assms unfolding payout_processed_def Let_def bindR_Inr_iff by (elim exE conjE, intro exI conjI) auto

lemma processed_step:
  assumes "find_payout pid st = Some p" "po_status p \<noteq> PayoutStatus.PAID" "payout_processed env now jid fees tid p st = Inr st'"
  shows "payout_step bank_edge st st'"
proof -
  obtain p' st1 st2 where p': "fixed p' = fixed p" "po_status p' = PayoutStatus.PAID"
    and u: "update_payout p' st = Inr st1" and j: "post_journal env now jid (exec_journal p) st1 = Inr st2"
      "st' = log_audit webhook_actor ''PAYOUT_EXECUTED_WEBHOOK'' ''Payout'' (po_id p) st2"
    using processedD [OF assms(3)] by blast
  have k: "pd_payouts st' = pd_payouts st1" "beside st' = beside st1" using j(2) post_journal_frame [OF j(1)] by simp_all
  show ?thesis using p' assms(2) by (intro payout_stepI [OF assms(1) u _ _ k]) (auto simp: bank_edge_def)
qed

lemma failed_step:
  assumes "find_payout pid st = Some p" "po_status p \<notin> {PayoutStatus.FAILED, PayoutStatus.REJECTED, PayoutStatus.REVERSED}"
    and "payout_failed reason p st = Inr st'"
  shows "payout_step bank_edge st st'"
  using assms(2,3) by (auto simp: payout_failed_def bindR_Inr_iff bank_edge_def intro!: payout_stepI [OF assms(1)])

lemma find_first_payout: "List.find P (pd_payouts st) = Some p \<Longrightarrow> distinct (map po_id (pd_payouts st)) \<Longrightarrow> find_payout (po_id p) st = Some p"
  unfolding find_payout_def by (drule find_Some_D) (auto intro: find_key_unique)

lemma map_sum_Inr: "map_sum id f x = Inr z \<longleftrightarrow> (\<exists>y. x = Inr y \<and> f y = z)"
  by (cases x) auto

lemma dispatch_payout_cases:
  assumes "dispatch_payout_event env now jid event entity tid p st = Inr (r, st')"
  obtains (same) "st' = st"
  | (processed) "po_status p \<noteq> PayoutStatus.PAID" "payout_processed env now jid (field ''fees'' entity) tid p st = Inr st'"
  | (reversed) q reason where "reversePayout env now jid (po_id p) webhook_actor reason st = Inr (q, st')"
  | (failed) reason where "po_status p \<notin> {PayoutStatus.FAILED, PayoutStatus.REJECTED, PayoutStatus.REVERSED}" "payout_failed reason p st = Inr st'"
proof -
  have rev: "\<exists>q reason. reversePayout env now jid (po_id p) webhook_actor reason st = Inr (q, y)"
    if "payout_reversed env now jid j p st = Inr y" for j y
    using that unfolding payout_reversed_def bindR_Inr_iff by (auto split: if_splits)
  consider "event \<in> {Some (JStr ''payout.processed''), Some (JStr ''payout.paid'')}"
    | "event \<notin> {Some (JStr ''payout.processed''), Some (JStr ''payout.paid'')}" "event = Some (JStr ''payout.reversed'')"
    | "event \<notin> {Some (JStr ''payout.processed''), Some (JStr ''payout.paid'')}" "event \<noteq> Some (JStr ''payout.reversed'')" by blast
  then show thesis
  proof cases
    case 1
    then show thesis using assms same processed unfolding dispatch_payout_event_def Let_def
      by (simp only: if_True) (simp only: map_sum_Inr split: if_splits; blast)
  next
    case 2
    then obtain j where "payout_reversed env now jid j p st = Inr st'"
      using assms unfolding dispatch_payout_event_def Let_def by (simp add: map_sum_Inr del: id_apply) blast
    then show thesis using rev reversed by blast
  next
    case 3
    then show thesis using assms same failed unfolding dispatch_payout_event_def Let_def
      by (simp only: if_False if_True) (simp only: map_sum_Inr split: if_splits; blast)
  qed
qed

lemma dispatch_payout_step:
  assumes "dispatch_payout_event env now jid event entity tid p st = Inr (r, st')" and "find_payout (po_id p) st = Some p"
  shows "beside st' = beside st \<and> pd_payouts st' = pd_payouts st \<or> payout_step bank_edge st st'"
  using assms(1)
proof (cases rule: dispatch_payout_cases)
  case processed
  then show ?thesis using processed_step [OF assms(2)] by blast
next
  case (reversed q reason)
  then show ?thesis using reverse_step by blast
next
  case (failed reason)
  then show ?thesis using failed_step [OF assms(2)] by blast
qed simp

lemma process_step:
  assumes "process_payout_event env now jid payload entity st = (res, st')" and "distinct (map po_id (pd_payouts st))"
  shows "beside st' = beside st \<and> pd_payouts st' = pd_payouts st \<or> payout_step bank_edge st st'"
proof (cases "st' = st")
  case False
  then obtain tid num p r where "notified_payout tid num st = Some p"
    and d: "dispatch_payout_event env now jid (field ''event'' payload) entity tid p st = Inr (r, st')"
    using assms(1) by (auto simp: process_payout_event_def split: sum.splits option.splits)
  then have "find_payout (po_id p) st = Some p" using assms(2) by (auto simp: notified_payout_def intro: find_first_payout)
  with d show ?thesis by (rule dispatch_payout_step)
qed simp

lemma hook_step:
  assumes "handlePayoutWebhook env now jid rawBody signature hs st = (res, st')" and "distinct (map po_id (pd_payouts st))"
  shows "beside st' = beside st \<and> pd_payouts st' = pd_payouts st \<or> payout_step bank_edge st st'"
proof (cases "st' = st")
  case False
  then obtain payload entity eid where e: "process_payout_event env now jid payload entity (stored_payout_event eid (field ''event'' payload) st) = (res, st')"
    using assms(1) by (auto simp: handlePayoutWebhook_def Let_def split: if_splits option.splits)
  from process_step [OF this] assms(2) show ?thesis by (auto simp: payout_step_def find_payout_def)
qed simp

section \<open>Well-formed tables\<close>

definition payouts_ok :: "payout_db \<Rightarrow> bool" where
  "payouts_ok st \<longleftrightarrow>
     distinct (map po_id (pd_payouts st)) \<and>
     (\<forall>p \<in> set (pd_payouts st). \<forall>q \<in> set (pd_payouts st). \<not> payout_clash p q) \<and>
     (\<forall>p \<in> set (pd_payouts st). is_cents (po_amount p) \<and> 0 \<le> po_amount p \<and> po_amount p < 10 ^ 8 \<and> po_netAmount p = Some (po_amount p) \<and>
        find_vendor (po_vendorId p) st \<noteq> None)"

lemma payouts_okD:
  assumes "payouts_ok st" "p \<in> set (pd_payouts st)"
  shows "is_cents (po_amount p)" "0 \<le> po_amount p" "po_amount p < 10 ^ 8"
  using assms by (auto simp: payouts_ok_def)

lemma same_id_sym: "same_id a b = same_id b a"
  by (auto simp: same_id_def)

lemma payout_clash_sym: "payout_clash p q = payout_clash q p"
  unfolding payout_clash_def using same_id_sym by metis

lemma step_cases:
  assumes "payout_step E st st'" "distinct (map po_id (pd_payouts st))"
  obtains p p' where "p \<in> set (pd_payouts st)" "fixed p' = fixed p" "E (po_status p) (po_status p')"
    "pd_payouts st' = update_where (\<lambda>q. po_id q = po_id p) (\<lambda>_. p') (pd_payouts st)"
    "\<And>q. q \<in> set (pd_payouts st) \<Longrightarrow> po_id q = po_id p \<Longrightarrow> q = p" "\<forall>q \<in> set (pd_payouts st). \<not> payout_clash p' q" "beside st' = beside st"
proof -
  obtain p p' where s: "find_payout (po_id p) st = Some p" "fixed p' = fixed p" "E (po_status p) (po_status p')"
    "\<not> exists_where (payout_clash p') (pd_payouts st)" "pd_payouts st' = update_where (\<lambda>q. po_id q = po_id p) (\<lambda>_. p') (pd_payouts st)"
    "beside st' = beside st"
    using assms(1) unfolding payout_step_def by blast
  have m: "p \<in> set (pd_payouts st)" using find_payoutD [OF s(1)] by simp
  have u: "q = p" if "q \<in> set (pd_payouts st)" "po_id q = po_id p" for q
    using find_key_unique [OF assms(2) that(1) that(2)] s(1) by (simp add: find_payout_def)
  from s(4) have n: "\<forall>q \<in> set (pd_payouts st). \<not> payout_clash p' q" by (simp add: exists_where_iff)
  show thesis by (rule that [OF m s(2,3,5) u n s(6)])
qed

lemma step_ids: "payout_step E st st' \<Longrightarrow> distinct (map po_id (pd_payouts st)) \<Longrightarrow> map po_id (pd_payouts st') = map po_id (pd_payouts st)"
  by (erule step_cases) (auto intro!: update_where_map_key dest: fixedD)

lemma step_ok:
  assumes "payout_step E st st'" "payouts_ok st"
  shows "payouts_ok st'"
proof -
  have d: "distinct (map po_id (pd_payouts st))" using assms(2) by (simp add: payouts_ok_def)
  from assms(1) d show ?thesis
  proof (cases rule: step_cases)
    case (1 p p')
    have set: "set (pd_payouts st') \<subseteq> insert p' (set (pd_payouts st))" using 1(4) by (auto simp: set_update_where)
    have id: "po_id p' = po_id p" using fixedD(1) [OF 1(2)] .
    have self: "\<not> payout_clash p' p'" by (simp add: payout_clash_def)
    have v: "find_vendor x st' = find_vendor x st" for x using besideD(1) [OF 1(7) [symmetric]] by (simp add: find_vendor_def)
    have c: "\<not> payout_clash a b" if "a \<in> insert p' (set (pd_payouts st))" "b \<in> insert p' (set (pd_payouts st))" for a b
      using that assms(2) 1(6) self payout_clash_sym [of a b] by (auto simp: payouts_ok_def)
    have r: "is_cents (po_amount a) \<and> 0 \<le> po_amount a \<and> po_amount a < 10 ^ 8 \<and> po_netAmount a = Some (po_amount a) \<and> find_vendor (po_vendorId a) st' \<noteq> None"
      if "a \<in> insert p' (set (pd_payouts st))" for a
      using that assms(2) 1(1) fixedD [OF 1(2)] by (auto simp: payouts_ok_def v)
    have "distinct (map po_id (pd_payouts st'))" using step_ids [OF assms(1) d] d by simp
    moreover have "\<not> payout_clash a b" if "a \<in> set (pd_payouts st')" "b \<in> set (pd_payouts st')" for a b
      by (rule c [OF subsetD [OF set that(1)] subsetD [OF set that(2)]])
    moreover note r [OF subsetD [OF set]]
    ultimately show ?thesis unfolding payouts_ok_def by simp
  qed
qed

lemma unchanged_ok: "beside st' = beside st \<Longrightarrow> pd_payouts st' = pd_payouts st \<Longrightarrow> payouts_ok st \<Longrightarrow> payouts_ok st'"
  using besideD(1) [of st st'] by (simp add: payouts_ok_def find_vendor_def)

section \<open>The balance\<close>

definition settled :: "'g payout_env \<Rightarrow> time \<Rightarrow> id \<Rightarrow> bk_db \<Rightarrow> rat" where
  "settled env now vid db = sum_where (eligible env now vid db) bk_netToVendor (db_bookings db)"

definition net_adjusted :: "id \<Rightarrow> payout_db \<Rightarrow> rat" where
  "net_adjusted vid st =
     sum_where (\<lambda>a. fa_targetId a = vid \<and> fa_direction a = LedgerDirection.CREDIT) fa_amount (pd_adjustments st) -
     sum_where (\<lambda>a. fa_targetId a = vid \<and> fa_direction a = LedgerDirection.DEBIT) fa_amount (pd_adjustments st)"

text \<open>What the vendor has been paid or has asked for.\<close>

definition claimed :: "id \<Rightarrow> payout_db \<Rightarrow> rat" where
  "claimed vid st = sum_where (\<lambda>p. po_vendorId p = vid \<and> (po_status p = PayoutStatus.PAID \<or> is_reserved (po_status p))) po_amount (pd_payouts st)"

text \<open>Stored amounts are whole cents; the vendor's earnings and adjustments stay below \<open>10 ^ 16\<close>.\<close>

definition payout_money :: "payout_db \<Rightarrow> bool" where
  "payout_money st \<longleftrightarrow>
     (\<forall>b \<in> set (db_bookings (pd_core st)). is_cents (bk_netToVendor b) \<and> 0 \<le> bk_netToVendor b) \<and>
     (\<forall>a \<in> set (pd_adjustments st). is_cents (fa_amount a) \<and> 0 \<le> fa_amount a) \<and>
     sum_list (map bk_netToVendor (db_bookings (pd_core st))) + sum_list (map fa_amount (pd_adjustments st)) < 10 ^ 16"

lemma sum_where_le_sum: "\<forall>x \<in> set xs. 0 \<le> (v x :: rat) \<Longrightarrow> sum_where P v xs \<le> sum_list (map v xs)"
  by (induction xs) auto

lemma sum_where_mono: "(\<And>x. x \<in> set xs \<Longrightarrow> P x \<Longrightarrow> Q x) \<Longrightarrow> \<forall>x \<in> set xs. 0 \<le> v x \<Longrightarrow> sum_where P v xs \<le> sum_where Q v xs"
  by (induction xs) (fastforce simp: add_mono)+

lemma dsum_where:
  assumes "\<forall>x \<in> set xs. is_cents (v x) \<and> 0 \<le> v x" "sum_where P v xs < 10 ^ 17"
  shows "dsum dec20 0 (map v (filter P xs)) = sum_where P v xs"
  using djs.dsum_cents [of "map v (filter P xs)" 0] assms by (auto simp: sum_where_def)

lemma sum_where_cents: "\<forall>x \<in> set xs. is_cents (v x) \<Longrightarrow> is_cents (sum_where P v xs)"
  by (induction xs) auto

lemma sum_where_disj:
  "(\<And>x. \<not> (P x \<and> Q x)) \<Longrightarrow> sum_where (\<lambda>x. P x \<or> Q x) v xs = sum_where P v xs + sum_where Q v xs"
  by (induction xs) auto

lemma claimed_split:
  "claimed vid st = sum_where (\<lambda>p. po_vendorId p = vid \<and> po_status p = PayoutStatus.PAID) po_amount (pd_payouts st) +
     sum_where (\<lambda>p. po_vendorId p = vid \<and> is_reserved (po_status p)) po_amount (pd_payouts st)"
  unfolding claimed_def by (subst sum_where_disj [symmetric]) (auto simp: is_reserved_def conj_disj_distribL)

lemma money_bounds:
  assumes "payout_money st"
  shows "\<forall>b \<in> set (db_bookings (pd_core st)). is_cents (bk_netToVendor b) \<and> 0 \<le> bk_netToVendor b"
    and "\<forall>a \<in> set (pd_adjustments st). is_cents (fa_amount a) \<and> 0 \<le> fa_amount a"
    and "0 \<le> sum_where P bk_netToVendor (db_bookings (pd_core st))" "sum_where P bk_netToVendor (db_bookings (pd_core st)) < 10 ^ 16"
    and "0 \<le> sum_where Q fa_amount (pd_adjustments st)" "sum_where Q fa_amount (pd_adjustments st) < 10 ^ 16"
    and "sum_where P bk_netToVendor (db_bookings (pd_core st)) + sum_where Q fa_amount (pd_adjustments st) < 10 ^ 16"
proof -
  show b: "\<forall>b \<in> set (db_bookings (pd_core st)). is_cents (bk_netToVendor b) \<and> 0 \<le> bk_netToVendor b"
    and a: "\<forall>a \<in> set (pd_adjustments st). is_cents (fa_amount a) \<and> 0 \<le> fa_amount a"
    using assms by (auto simp: payout_money_def)
  have "sum_where P bk_netToVendor (db_bookings (pd_core st)) \<le> sum_list (map bk_netToVendor (db_bookings (pd_core st)))"
    "sum_where Q fa_amount (pd_adjustments st) \<le> sum_list (map fa_amount (pd_adjustments st))"
    using a b by (auto intro: sum_where_le_sum)
  moreover show "0 \<le> sum_where P bk_netToVendor (db_bookings (pd_core st))" "0 \<le> sum_where Q fa_amount (pd_adjustments st)"
    using a b by (auto intro: sum_where_nonneg)
  ultimately show "sum_where P bk_netToVendor (db_bookings (pd_core st)) < 10 ^ 16" "sum_where Q fa_amount (pd_adjustments st) < 10 ^ 16"
    "sum_where P bk_netToVendor (db_bookings (pd_core st)) + sum_where Q fa_amount (pd_adjustments st) < 10 ^ 16"
    using assms unfolding payout_money_def by linarith+
qed

lemma available_exact:
  assumes "payout_money st" "payouts_ok st" "claimed vid st < 10 ^ 16"
  shows "available_balance env now vid st = settled env now vid (pd_core st) + net_adjusted vid st - claimed vid st"
    and "is_cents (settled env now vid (pd_core st) + net_adjusted vid st - claimed vid st)"
proof -
  let ?sum = "\<lambda>P. sum_where (\<lambda>p. po_vendorId p = vid \<and> P (po_status p)) po_amount (pd_payouts st)"
  let ?adj = "\<lambda>d. sum_where (\<lambda>a. fa_targetId a = vid \<and> fa_direction a = d) fa_amount (pd_adjustments st)"
  note m = money_bounds [OF assms(1)]
  have po: "\<forall>p \<in> set (pd_payouts st). is_cents (po_amount p) \<and> 0 \<le> po_amount p" using payouts_okD [OF assms(2)] by blast
  have nn: "0 \<le> ?sum P" for P using po by (intro sum_where_nonneg) auto
  have cl: "claimed vid st = ?sum (\<lambda>s. s = PayoutStatus.PAID) + ?sum is_reserved" by (rule claimed_split)
  have lt: "?sum (\<lambda>s. s = PayoutStatus.PAID) < 10 ^ 16" "?sum is_reserved < 10 ^ 16"
    using cl nn [of "\<lambda>s. s = PayoutStatus.PAID"] nn [of is_reserved] assms(3) by linarith+
  have big: "(10 ^ 16 :: rat) < 10 ^ 17" by simp
  have s: "settled_earned env now vid (pd_core st) = settled env now vid (pd_core st)"
    unfolding settled_earned_def settled_def by (rule dsum_where [OF m(1) order.strict_trans [OF m(4) big]])
  have a: "adjusted d vid st = ?adj d" for d
    unfolding adjusted_def by (rule dsum_where [OF m(2) order.strict_trans [OF m(6) big]])
  have p: "payout_sum P vid st = ?sum P" if "?sum P < 10 ^ 16" for P
    unfolding payout_sum_def payouts_where_def by (rule dsum_where [OF po order.strict_trans [OF that big]])
  have c: "is_cents (settled env now vid (pd_core st))" "is_cents (?adj d)" "is_cents (?sum P)" for d P
    unfolding settled_def using m(1,2) po by (auto intro!: sum_where_cents)
  let ?S = "settled env now vid (pd_core st)" and ?C = "?adj LedgerDirection.CREDIT" and ?D = "?adj LedgerDirection.DEBIT"
  have bS: "0 \<le> ?S" "?S < 10 ^ 16" unfolding settled_def using m(3,4) by blast+
  have bA: "0 \<le> ?C" "?C < 10 ^ 16" "0 \<le> ?D" "?D < 10 ^ 16" using m(5,6) by blast+
  have e: "dec20 x = x" if "is_cents x" "- (4 * 10 ^ 16) < x" "x < 4 * 10 ^ 16" for x
    using that by (intro djs.prec_cents) (auto simp: abs_if)
  have bnd: "(0::rat) < 10 ^ 16" "0 \<le> ?S" "?S < 10 ^ 16" "0 \<le> ?C" "?C < 10 ^ 16" "0 \<le> ?D" "?D < 10 ^ 16"
      "0 \<le> ?sum (\<lambda>s. s = PayoutStatus.PAID)" "?sum (\<lambda>s. s = PayoutStatus.PAID) < 10 ^ 16" "0 \<le> ?sum is_reserved" "?sum is_reserved < 10 ^ 16"
    using bS bA nn lt by (simp_all only: zero_less_power zero_less_numeral)
  have 1: "dec20 (?C - ?D) = ?C - ?D" by (rule e; (intro is_cents_diff is_cents_add c | (use bnd in linarith)))
  have 2: "dec20 (?S + (?C - ?D)) = ?S + (?C - ?D)" by (rule e; (intro is_cents_diff is_cents_add c | (use bnd in linarith)))
  have 3: "dec20 (?S + (?C - ?D) - ?sum (\<lambda>s. s = PayoutStatus.PAID)) = ?S + (?C - ?D) - ?sum (\<lambda>s. s = PayoutStatus.PAID)"
    by (rule e; (intro is_cents_diff is_cents_add c | (use bnd in linarith)))
  have 4: "dec20 (?S + (?C - ?D) - ?sum (\<lambda>s. s = PayoutStatus.PAID) - ?sum is_reserved) =
      ?S + (?C - ?D) - ?sum (\<lambda>s. s = PayoutStatus.PAID) - ?sum is_reserved"
    by (rule e; (intro is_cents_diff is_cents_add c | (use bnd in linarith)))
  show "available_balance env now vid st = ?S + net_adjusted vid st - claimed vid st"
    unfolding available_balance_def s a p [OF lt(1)] p [OF lt(2)] 1 2 3 4 cl net_adjusted_def by simp
  show "is_cents (?S + net_adjusted vid st - claimed vid st)"
    unfolding net_adjusted_def cl using c by (intro is_cents_diff is_cents_add) auto
qed

lemma request_cases:
  assumes "requestPayout env now newId vid dto initiator st = Inr (p, st')"
  obtains (replayed) "p \<in> set (pd_payouts st)" "str_truthy (rp_idempotencyKey dto)" "po_idempotencyKey p = rp_idempotencyKey dto" "st' = st"
  | (granted) "0 < rp_amount dto" "dec_of_num (rp_amount dto) \<le> available_balance env now vid st"
      "find_vendor vid st \<noteq> None" "po_id p = newId" "po_vendorId p = vid" "po_status p = PayoutStatus.PENDING"
      "po_amount p = round2 (dec_of_num (rp_amount dto))" "\<bar>po_amount p\<bar> < 10 ^ 8" "po_netAmount p = Some (po_amount p)"
      "\<not> exists_where (payout_clash p) (pd_payouts st)" "pd_payouts st' = pd_payouts st @ [p]" "beside st' = beside st"
proof (cases "if str_truthy (rp_idempotencyKey dto) then List.find (\<lambda>p. po_idempotencyKey p = rp_idempotencyKey dto) (pd_payouts st) else None")
  case (Some q)
  with assms show thesis
    by (intro replayed) (auto simp: requestPayout_def Let_def dest!: find_Some_D split: if_splits)
next
  case None
  from assms obtain a v where v: "find_vendor vid st = Some v" "0 < rp_amount dto" "dec_of_num (rp_amount dto) \<le> available_balance env now vid st"
      "money10 (dec_of_num (rp_amount dto)) = Inr a"
    and p: "po_id p = newId" "po_vendorId p = vid" "po_status p = PayoutStatus.PENDING" "po_amount p = a" "po_netAmount p = Some a"
    and c: "\<exists>st1. create_payout p st = Inr st1 \<and> pd_payouts st' = pd_payouts st1 \<and> beside st' = beside st1"
    unfolding requestPayout_def Let_def None
    by (auto simp: result_iffs not_le not_less split: if_splits option.splits)
  from v(4) have "a = round2 (dec_of_num (rp_amount dto))" "\<bar>a\<bar> < 10 ^ 8" by (auto simp: money10_def split: if_splits)
  moreover from c have "\<not> exists_where (payout_clash p) (pd_payouts st)" "pd_payouts st' = pd_payouts st @ [p]" "beside st' = beside st"
    by (auto simp: create_payout_def split: if_splits)
  ultimately show thesis using v p by (intro granted) auto
qed

lemma dec_of_num_nonneg:
  assumes "0 \<le> x"
  shows "0 \<le> dec_of_num x"
proof -
  have "0 \<le> rsig 10 k half_even x" if "1 \<le> k" for k
  proof -
    have "(1::rat) \<le> 10 ^ (k - 1)" by simp
    then have "(1::rat) \<le> 2 * 10 ^ (k - 1)" by linarith
    then have "\<bar>x\<bar> / (2 * 10 ^ (k - 1)) \<le> \<bar>x\<bar> / 1" by (intro divide_left_mono) simp_all
    with rsig_err [OF _ _ nearest_half_even, of 10 k x] that assms show ?thesis by simp
  qed
  with assms show ?thesis by (auto simp: dec_of_num_def dest: find_Some_D split: option.splits)
qed

lemma request_ok:
  assumes "requestPayout env now newId vid dto initiator st = Inr (p, st')" and "newId \<notin> po_id ` set (pd_payouts st)" and "payouts_ok st"
  shows "payouts_ok st'"
  using assms(1)
proof (cases rule: request_cases)
  case replayed
  with assms(3) show ?thesis by simp
next
  case granted
  have n: "0 \<le> po_amount p" using granted(1,7) dec_of_num_nonneg [of "rp_amount dto"] round2_nonneg by simp
  have c: "\<not> payout_clash p q" if "q \<in> set (pd_payouts st)" for q using granted(10) that by (simp add: exists_where_iff)
  have v: "find_vendor i st' = find_vendor i st" for i using besideD(1) [OF granted(12) [symmetric]] by (simp add: find_vendor_def)
  show ?thesis
    unfolding payouts_ok_def granted(11)
  proof (intro conjI ballI)
    show "distinct (map po_id (pd_payouts st @ [p]))" using assms(2,3) granted(4) by (auto simp: payouts_ok_def)
    fix x assume x: "x \<in> set (pd_payouts st @ [p])"
    show "is_cents (po_amount x)" "0 \<le> po_amount x" "po_amount x < 10 ^ 8" "po_netAmount x = Some (po_amount x)" "find_vendor (po_vendorId x) st' \<noteq> None"
      using x assms(3) granted n unfolding v by (auto simp: payouts_ok_def round2_cents)
    fix y assume y: "y \<in> set (pd_payouts st @ [p])"
    show "\<not> payout_clash x y"
      using x y c assms(3) payout_clash_sym [of x y] by (auto simp: payouts_ok_def payout_clash_def [of p p])
  qed
qed

text \<open>A request that is granted: the new row, and what it leaves of the balance.\<close>

lemma request_granted:
  assumes "requestPayout env now newId vid dto initiator st = Inr (p, st')" and "newId \<notin> po_id ` set (pd_payouts st)"
    and "po_id p = newId" and "payout_money st" "payouts_ok st" "claimed vid st < 10 ^ 16"
  shows "pd_payouts st' = pd_payouts st @ [p] \<and> beside st' = beside st \<and> po_status p = PayoutStatus.PENDING \<and> po_vendorId p = vid \<and>
    claimed vid st' = claimed vid st + po_amount p \<and>
    claimed vid st' \<le> settled env now vid (pd_core st') + net_adjusted vid st' \<and> payouts_ok st'"
  using assms(1)
proof (cases rule: request_cases)
  case replayed
  with assms(2,3) show ?thesis by (metis imageI)
next
  case granted
  note ex = available_exact [OF assms(4-6), of env now]
  note b = besideD [OF granted(12) [symmetric]]
  have n: "0 \<le> po_amount p" using granted(1,7) dec_of_num_nonneg [of "rp_amount dto"] round2_nonneg by simp
  have "po_amount p \<le> round2 (available_balance env now vid st)" unfolding granted(7) using granted(2) by (rule round2_mono)
  also have "\<dots> = available_balance env now vid st" using ex by (simp add: round2_exact)
  finally have le: "po_amount p \<le> settled env now vid (pd_core st) + net_adjusted vid st - claimed vid st" using ex(1) by simp
  have cl: "claimed vid st' = claimed vid st + po_amount p"
    unfolding claimed_def granted(11) using granted(5,6) by (simp add: is_reserved_def)
  have same: "settled env now vid (pd_core st') = settled env now vid (pd_core st)" "net_adjusted vid st' = net_adjusted vid st"
    using b by (simp_all add: settled_def net_adjusted_def eligible_def [abs_def] completed_def paid_booking_def find_payment_def has_claim_def)
  have "payouts_ok st'" by (rule request_ok [OF assms(1,2,5)])
  with granted cl le same show ?thesis by simp
qed

section \<open>A history of administration\<close>

text \<open>A request of a vendor or an administrator; a failed one leaves the tables as they were.\<close>

datatype admin_request =
    Request id id RequestPayoutDto "id option"
  | Approve id id "string option"
  | Execute string id id "ExecutePayoutDto option"
  | Reject id id string
  | Reverse string id id "string option"

definition kept :: "payout_db \<Rightarrow> (Payout \<times> payout_db) result \<Rightarrow> payout_db" where
  "kept st r = (case r of Inl _ \<Rightarrow> st | Inr (_, st') \<Rightarrow> st')"

fun perform :: "'g payout_env \<Rightarrow> time \<Rightarrow> admin_request \<Rightarrow> payout_db \<times> 'g \<Rightarrow> payout_db \<times> 'g" where
  "perform env now (Request newId vid dto who) (st, g) = (kept st (requestPayout env now newId vid dto who st), g)"
| "perform env now (Approve pid admin notes) (st, g) = (kept st (approvePayout now pid admin notes st), g)"
| "perform env now (Execute jid pid admin dto) (st, g) =
     (let (r, g') = executePayout env now jid pid admin dto st g in (kept st r, g'))"
| "perform env now (Reject pid admin reason) (st, g) = (kept st (rejectPayout pid admin reason st), g)"
| "perform env now (Reverse jid pid admin reason) (st, g) = (kept st (reversePayout env now jid pid admin reason st), g)"

definition new_ids :: "(time \<times> admin_request) list \<Rightarrow> id list" where
  "new_ids reqs = List.map_filter (\<lambda>(_, r). case r of Request newId _ _ _ \<Rightarrow> Some newId | _ \<Rightarrow> None) reqs"

fun administer :: "'g payout_env \<Rightarrow> (time \<times> admin_request) list \<Rightarrow> payout_db \<times> 'g \<Rightarrow> payout_db \<times> 'g" where
  "administer env [] s = s"
| "administer env ((now, r) # rs) s = administer env rs (perform env now r s)"

definition covered :: "'g payout_env \<Rightarrow> time \<Rightarrow> id \<Rightarrow> payout_db \<Rightarrow> bool" where
  "covered env now vid st \<longleftrightarrow> claimed vid st \<le> settled env now vid (pd_core st) + net_adjusted vid st"

lemma beside_figures:
  assumes "beside st' = beside st"
  shows "settled env now vid (pd_core st') = settled env now vid (pd_core st)" "net_adjusted vid st' = net_adjusted vid st"
    "payout_money st' = payout_money st"
  using besideD [OF assms [symmetric]]
  by (simp_all add: settled_def net_adjusted_def payout_money_def eligible_def [abs_def] completed_def paid_booking_def find_payment_def has_claim_def)

lemma step_claimed:
  assumes "payout_step admin_edge st st'" "payouts_ok st"
  shows "claimed vid st' \<le> claimed vid st"
proof -
  have d: "distinct (map po_id (pd_payouts st))" using assms(2) by (simp add: payouts_ok_def)
  have mono: "sum_where P v (update_where Q (\<lambda>_. x') xs) \<le> sum_where P v xs"
    if "\<And>x. x \<in> set xs \<Longrightarrow> Q x \<Longrightarrow> v x' = v x \<and> (P x' \<longrightarrow> P x) \<and> 0 \<le> v x" for P Q x' xs and v :: "Payout \<Rightarrow> rat"
    using that by (induction xs) fastforce+
  from assms(1) d show ?thesis
  proof (cases rule: step_cases)
    case (1 p p')
    have "admin_edge s t \<Longrightarrow> s = PayoutStatus.PAID \<or> is_reserved s" for s t by (cases s) (auto simp: is_reserved_def)
    with 1 assms(2) fixedD [OF 1(2)] show ?thesis
      unfolding claimed_def 1(4) by (intro mono) (auto dest!: 1(5) simp: payouts_okD(2))
  qed
qed

lemma perform_cases:
  assumes "perform env now r (st, g) = (st', g')"
  obtains (same) "st' = st"
  | (requested) newId vid dto who p where "r = Request newId vid dto who" "requestPayout env now newId vid dto who st = Inr (p, st')"
  | (moved) "payout_step admin_edge st st'"
proof (cases r)
  case (Request newId vid dto who)
  with assms same requested show thesis by (cases "requestPayout env now newId vid dto who st") (auto simp: kept_def)
next
  case (Approve pid admin remark)
  with assms same moved approve_step show thesis by (cases "approvePayout now pid admin remark st") (auto simp: kept_def)
next
  case (Execute jid pid admin dto)
  obtain x g1 where x: "executePayout env now jid pid admin dto st g = (x, g1)" by fastforce
  with assms Execute same moved show thesis by (cases x) (auto simp: kept_def dest: execute_step)
next
  case (Reject pid admin reason)
  with assms same moved reject_step show thesis by (cases "rejectPayout pid admin reason st") (auto simp: kept_def)
next
  case (Reverse jid pid admin reason)
  show thesis
  proof (cases "reversePayout env now jid pid admin reason st")
    case (Inr x)
    then obtain p' where "reversePayout env now jid pid admin reason st = Inr (p', st')"
      using assms Reverse by (cases x) (auto simp: kept_def)
    then show thesis using reverse_step same moved by blast
  qed (use assms Reverse same in \<open>simp add: kept_def\<close>)
qed

lemma hold_cutoff_mono: "t \<le> t' \<Longrightarrow> hold_cutoff env t' = (case hold_cutoff env t of None \<Rightarrow> None | Some c \<Rightarrow> Some (c + (t' - t)))"
  by (auto simp: hold_cutoff_def split: option.splits)

lemma settled_mono:
  assumes "payout_money st" "t \<le> t'"
  shows "settled env t vid (pd_core st) \<le> settled env t' vid (pd_core st)"
  unfolding settled_def
proof (rule sum_where_mono)
  show "\<forall>b \<in> set (db_bookings (pd_core st)). 0 \<le> bk_netToVendor b" using assms(1) by (simp add: payout_money_def)
  show "eligible env t' vid (pd_core st) b" if "eligible env t vid (pd_core st) b" for b
    using that assms(2) by (cases "hold_cutoff env t") (auto simp: eligible_def hold_cutoff_mono [OF assms(2)])
qed

lemma perform_covered:
  assumes "perform env now r (st, g) = (st', g')" and "payouts_ok st" "payout_money st" and "t \<le> now"
    and "\<And>vid. covered env t vid st" and "set (new_ids [(now, r)]) \<inter> po_id ` set (pd_payouts st) = {}"
  shows "payouts_ok st' \<and> payout_money st' \<and> covered env now vid st' \<and> po_id ` set (pd_payouts st') \<subseteq> po_id ` set (pd_payouts st) \<union> set (new_ids [(now, r)])"
proof -
  have c: "covered env now v st" for v using assms(5) [of v] settled_mono [OF assms(3,4), of env v] by (simp add: covered_def)
  from assms(1) show ?thesis
  proof (cases rule: perform_cases)
    case same
    with assms c show ?thesis by auto
  next
    case moved
    have "distinct (map po_id (pd_payouts st))" using assms(2) by (simp add: payouts_ok_def)
    then have ids: "map po_id (pd_payouts st') = map po_id (pd_payouts st)" by (rule step_ids [OF moved])
    then have "po_id ` set (pd_payouts st') = po_id ` set (pd_payouts st)" by (metis set_map)
    moreover have b: "beside st' = beside st" using moved by (simp add: payout_step_def)
    ultimately show ?thesis using step_ok [OF moved assms(2)] beside_figures(1) [OF b, of env now vid] beside_figures(2,3) [OF b] step_claimed [OF moved assms(2), of vid] c [of vid] assms(3)
      by (simp add: covered_def)
  next
    case (requested newId v dto who p)
    have new: "newId \<notin> po_id ` set (pd_payouts st)" "set (new_ids [(now, r)]) = {newId}" using assms(6) requested(1) by (auto simp: new_ids_def map_filter_simps)
    show ?thesis
    proof (cases "po_id p = newId")
      case False
      with requested(2) have "st' = st" by (cases rule: request_cases) auto
      with assms c show ?thesis by auto
    next
      case True
      have bound: "claimed v st < 10 ^ 16"
      proof -
        note m = money_bounds [OF assms(3)]
        have "settled env now v (pd_core st) + sum_where (\<lambda>a. fa_targetId a = v \<and> fa_direction a = LedgerDirection.CREDIT) fa_amount (pd_adjustments st) < 10 ^ 16"
          unfolding settled_def by (rule m(7))
        moreover have "0 \<le> sum_where (\<lambda>a. fa_targetId a = v \<and> fa_direction a = LedgerDirection.DEBIT) fa_amount (pd_adjustments st)" by (rule m(5))
        ultimately show ?thesis using c [of v] unfolding covered_def net_adjusted_def by linarith
      qed
      note gr = request_granted [OF requested(2) new(1) True assms(3,2) bound]
      then have b: "beside st' = beside st" and rows: "pd_payouts st' = pd_payouts st @ [p]" by blast+
      have "covered env now vid st'"
      proof (cases "vid = v")
        case True
        with gr show ?thesis by (simp add: covered_def)
      next
        case False
        have "claimed vid st' = claimed vid st" unfolding claimed_def rows using gr False by simp
        with c [of vid] beside_figures(1) [OF b, of env now vid] beside_figures(2,3) [OF b] show ?thesis by (simp add: covered_def)
      qed
      with gr beside_figures(3) [OF b] assms(3) True new(2) show ?thesis by simp
    qed
  qed
qed

lemma new_ids_Cons: "new_ids (x # xs) = new_ids [x] @ new_ids xs"
  by (auto simp: new_ids_def map_filter_simps split: prod.split option.split)

lemma administer_covered:
  assumes "payouts_ok st" "payout_money st" "\<And>vid. covered env t vid st"
    and "sorted (t # map fst reqs)" "distinct (new_ids reqs)" "set (new_ids reqs) \<inter> po_id ` set (pd_payouts st) = {}"
    and "administer env reqs (st, g) = (st', g')"
  shows "payouts_ok st' \<and> covered env (last (t # map fst reqs)) vid st'"
  using assms
proof (induction reqs arbitrary: st g t)
  case Nil
  then show ?case by simp
next
  case (Cons x reqs)
  obtain now r where x: "x = (now, r)" by fastforce
  obtain st1 g1 where p: "perform env now r (st, g) = (st1, g1)" by fastforce
  have t: "t \<le> now" using Cons.prems(4) x by simp
  have dis: "set (new_ids [(now, r)]) \<inter> po_id ` set (pd_payouts st) = {}" using Cons.prems(6) x new_ids_Cons [of x reqs] by auto
  note pc = perform_covered [OF p Cons.prems(1,2) t Cons.prems(3) dis]
  have sub: "po_id ` set (pd_payouts st1) \<subseteq> po_id ` set (pd_payouts st) \<union> set (new_ids [(now, r)])" using pc by blast
  have fresh: "set (new_ids reqs) \<inter> po_id ` set (pd_payouts st1) = {}"
    using sub Cons.prems(5,6) new_ids_Cons [of x reqs] unfolding x by auto
  have "payouts_ok st' \<and> covered env (last (now # map fst reqs)) vid st'"
  proof (rule Cons.IH)
    show "payouts_ok st1" "payout_money st1" "\<And>vid. covered env now vid st1" using pc by blast+
    show "sorted (now # map fst reqs)" using Cons.prems(4) x by simp
    show "distinct (new_ids reqs)" using Cons.prems(5) new_ids_Cons [of x reqs] by simp
    show "set (new_ids reqs) \<inter> po_id ` set (pd_payouts st1) = {}" by (rule fresh)
    show "administer env reqs (st1, g1) = (st', g')" using Cons.prems(7) x p by simp
  qed
  with x show ?case by simp
qed

section \<open>The journals\<close>

lemma two_line_journal:
  assumes "ji_lines inp = None" "ji_entries inp = Some [payout_line t1 e1 side a x1, payout_line t2 e2 side' a x2]" "side \<noteq> side'"
    and "0 < a" "is_cents a" "a < 10 ^ 8" "keys_free inp L"
  shows "\<exists>r L'. recordJournal dec20 round2 now jid inp L = Inr (r, L') \<and> \<not> jr_isDuplicate r" and "cents_journal inp"
proof -
  have ls: "raw_lines inp = [payout_line t1 e1 side a x1, payout_line t2 e2 side' a x2]" using assms(1,2) by (simp add: raw_lines_def)
  have sides: "(side = LedgerEntrySide.DEBIT \<and> side' = LedgerEntrySide.CREDIT) \<or> (side = LedgerEntrySide.CREDIT \<and> side' = LedgerEntrySide.DEBIT)"
    using assms(3) by (cases side; cases side') auto
  have "\<exists>x. recordJournal dec20 round2 now jid inp L = Inr x"
    using recordJournal_accepts [OF assms(7) ls [symmetric] HOL.refl HOL.refl, of dec20 round2 now jid] sides assms(4)
    by (auto simp: payout_line_def valid_line_def line_side_def side_amounts_def)
  then obtain r L' where r: "recordJournal dec20 round2 now jid inp L = Inr (r, L')" by auto
  from r have "\<not> jr_isDuplicate r"
  proof (cases rule: recordJournal_cases)
    case (replay e)
    then obtain k where "ji_idempotencyKey inp = Some k" "k \<noteq> []" by (cases "ji_idempotencyKey inp") auto
    with replay(2) assms(7) show ?thesis by (fastforce simp: keys_free_def line_key_def dest: find_Some_D)
  qed simp
  with r show "\<exists>r L'. recordJournal dec20 round2 now jid inp L = Inr (r, L') \<and> \<not> jr_isDuplicate r" by blast
  have "a + a < (10 ^ 17 :: rat)" using assms(6) by simp
  then show "cents_journal inp" unfolding cents_journal_def ls using assms(5) by (simp add: payout_line_def)
qed

lemma journal_shape:
  "ji_lines (exec_journal p) = None" "ji_lines (reversal_of_payout reason p) = None"
  "ji_idempotencyKey (exec_journal p) = Some (''ledger_po_exec_'' @ po_id p)"
  "ji_idempotencyKey (reversal_of_payout reason p) = Some (''ledger_po_rev_'' @ po_id p)"
  by (simp_all add: exec_journal_def reversal_of_payout_def payout_journal_def)

text \<open>What the settlement of a payout adds to an account; the reversal takes it back.\<close>

definition settlement_effect :: "Payout \<Rightarrow> LedgerAccountType \<Rightarrow> string option \<Rightarrow> rat" where
  "settlement_effect p t ent =
     (if t = VENDOR_PAYABLE \<and> (ent = None \<or> ent = Some (po_vendorId p)) then - po_amount p
      else if t = GATEWAY_CLEARING \<and> (ent = None \<or> ent = Some ''RAZORPAY'') then - po_amount p else 0)"

lemma journal_effects:
  "journal_effect (exec_journal p) t ent = settlement_effect p t ent"
  "journal_effect (reversal_of_payout reason p) t ent = - settlement_effect p t ent"
  by (auto simp: journal_effect_def raw_lines_def exec_journal_def reversal_of_payout_def payout_journal_def payout_line_def
      line_delta_def line_side_def is_asset_account_def settlement_effect_def or_str_def)

lemma posted_journal:
  assumes "recordJournal dec20 round2 now jid inp L = Inr (r, L')"
  shows "\<exists>es. L' = L @ es \<and> (\<forall>e \<in> set es. \<exists>i. le_idempotencyKey e = line_key (ji_idempotencyKey inp) i)"
  using assms by (cases rule: recordJournal_cases) (auto simp: mk_entry_def enumerate_eq_zip set_zip)

lemma post_books:
  assumes "pe_ledger env" and "inp = exec_journal p \<or> inp = reversal_of_payout reason p"
    and "0 < po_amount p" "is_cents (po_amount p)" "po_amount p < 10 ^ 8" "keys_free inp (db_ledger (pd_core st))"
  obtains st' where "post_journal env now jid inp st = Inr st'"
    "\<And>t ent. getAccountBalance t ent (db_ledger (pd_core st')) = getAccountBalance t ent (db_ledger (pd_core st)) + journal_effect inp t ent"
    "\<exists>es. db_ledger (pd_core st') = db_ledger (pd_core st) @ es \<and> (\<forall>e \<in> set es. \<exists>i. le_idempotencyKey e = line_key (ji_idempotencyKey inp) i)"
proof -
  let ?L = "db_ledger (pd_core st)"
  have j: "(\<exists>r L'. recordJournal dec20 round2 now jid inp ?L = Inr (r, L') \<and> \<not> jr_isDuplicate r) \<and> cents_journal inp"
  proof (cases "inp = exec_journal p")
    case True
    with assms show ?thesis
      by (intro conjI two_line_journal [where a = "po_amount p" ])
        (auto simp: exec_journal_def payout_journal_def)
  next
    case False
    with assms show ?thesis
      by (intro conjI two_line_journal [where a = "po_amount p" ])
        (auto simp: reversal_of_payout_def payout_journal_def)
  qed
  then obtain r L' where r: "recordJournal dec20 round2 now jid inp ?L = Inr (r, L')" "\<not> jr_isDuplicate r" and c: "cents_journal inp" by blast
  show thesis
  proof (rule that [of "with_ledger L' st"])
    show "post_journal env now jid inp st = Inr (with_ledger L' st)" using assms(1) r by (simp add: post_journal_def)
    show "getAccountBalance t ent (db_ledger (pd_core (with_ledger L' st))) = getAccountBalance t ent ?L + journal_effect inp t ent" for t ent
      using journal_posted_effect [OF numeric2.money_column_axioms c r] by (simp add: with_ledger_def)
    show "\<exists>es. db_ledger (pd_core (with_ledger L' st)) = ?L @ es \<and> (\<forall>e \<in> set es. \<exists>i. le_idempotencyKey e = line_key (ji_idempotencyKey inp) i)"
      using posted_journal [OF r(1)] by (simp add: with_ledger_def)
  qed
qed

lemma ledger_simps [simp]: "db_ledger (pd_core (log_audit a act ty tid st)) = db_ledger (pd_core st)"
  by (simp add: log_audit_def)

lemma update_payout_ledger: "update_payout p st = Inr st' \<Longrightarrow> db_ledger (pd_core st') = db_ledger (pd_core st)"
  by (auto simp: update_payout_def split: if_splits)

text \<open>However a payout becomes PAID by an execution, its settlement is booked.\<close>

lemma execution_booked:
  assumes "executePayout env now jid pid admin dto st g = (Inr (p', st'), g')" and "po_status p' = PayoutStatus.PAID"
    and "pe_ledger env" and "payouts_ok st" and "0 < po_amount p'" and "keys_free (exec_journal p') (db_ledger (pd_core st))"
  shows "(\<forall>t ent. getAccountBalance t ent (db_ledger (pd_core st')) = getAccountBalance t ent (db_ledger (pd_core st)) + settlement_effect p' t ent) \<and>
    (\<exists>es. db_ledger (pd_core st') = db_ledger (pd_core st) @ es \<and>
       (\<forall>e \<in> set es. \<exists>i. le_idempotencyKey e = line_key (Some (''ledger_po_exec_'' @ po_id p')) i))"
proof -
  have booked: ?thesis
    if p: "find_payout pid st = Some p" "fixed p' = fixed p" and s1: "db_ledger (pd_core st1) = db_ledger (pd_core st)"
      and st': "\<And>st2. post_journal env now jid (exec_journal p) st1 = Inr st2 \<Longrightarrow> db_ledger (pd_core st') = db_ledger (pd_core st2)" for p st1
  proof -
    have m: "p \<in> set (pd_payouts st)" using find_payoutD [OF p(1)] by simp
    note fx = fixedD [OF p(2)]
    have k: "keys_free (exec_journal p) (db_ledger (pd_core st1))"
      using assms(6) fx s1 by (simp add: keys_free_def journal_shape raw_lines_def) (simp add: exec_journal_def payout_journal_def)
    obtain st2 where st2: "post_journal env now jid (exec_journal p) st1 = Inr st2"
      "\<And>t ent. getAccountBalance t ent (db_ledger (pd_core st2)) = getAccountBalance t ent (db_ledger (pd_core st1)) + journal_effect (exec_journal p) t ent"
      "\<exists>es. db_ledger (pd_core st2) = db_ledger (pd_core st1) @ es \<and> (\<forall>e \<in> set es. \<exists>i. le_idempotencyKey e = line_key (ji_idempotencyKey (exec_journal p)) i)"
      by (rule post_books [OF assms(3) disjI1 [OF HOL.refl], where p = p and st = st1 and now = now and jid = jid])
        (use assms(5) fx payouts_okD [OF assms(4) m] k in simp_all)
    have "settlement_effect p' = settlement_effect p" by (intro ext) (simp only: settlement_effect_def fx)
    with st2 st' [OF st2(1)] s1 fx show ?thesis by (simp add: journal_effects journal_shape)
  qed
  from assms(1) show ?thesis
  proof (cases rule: execute_cases)
    case (manual p d t)
    have f: "find_payout pid st = Some p" using execution_checksD(1) [OF manual(1)] .
    from manual(4) obtain st1 where u: "update_payout p' st = Inr st1" and fx: "fixed p' = fixed p"
      and s: "st' = (case post_journal env now jid (exec_journal p) (log_audit admin ''PAYOUT_EXECUTED_MANUAL'' ''Payout'' (po_id p) st1) of
        Inl _ \<Rightarrow> log_audit admin ''PAYOUT_EXECUTED_MANUAL'' ''Payout'' (po_id p) st1 | Inr st3 \<Rightarrow> st3)"
      by (auto simp: settle_manually_def Let_def bindR_Inr_iff)
    show ?thesis by (rule booked [OF f fx, of "log_audit admin ''PAYOUT_EXECUTED_MANUAL'' ''Payout'' (po_id p) st1"])
      (use s update_payout_ledger [OF u] in simp_all)
  next
    case (waiting p)
    then show ?thesis using assms(2) by (auto simp: await_credentials_def Let_def bindR_Inr_iff)
  next
    case (bank p r)
    have f: "find_payout pid st = Some p" using execution_checksD(1) [OF bank(1)] .
    have fx: "fixed p' = fixed p" and "tr_status r = PayoutTransferStatus.PAID"
      using apply_transferD(1) [OF bank(4)] assms(2) by (auto simp: paid_by_bank_def split: PayoutTransferStatus.splits)
    then obtain st1 st2 act where u: "update_payout p' st = Inr st1" "st' = log_audit admin act ''Payout'' (po_id p) st2"
        "post_journal env now jid (exec_journal p) st1 = Inr st2"
      using apply_transferD(2) [OF bank(4)] by auto
    show ?thesis by (rule booked [OF f fx update_payout_ledger [OF u(1)]]) (use u in simp)
  qed
qed

text \<open>The row an execution returns is the row it stored.\<close>

lemma executed_update:
  assumes "executePayout env now jid pid admin dto st g = (Inr (p', st1), g')"
  shows "\<exists>p st'. find_payout pid st = Some p \<and> fixed p' = fixed p \<and> update_payout p' st = Inr st' \<and> pd_payouts st1 = pd_payouts st'"
  using assms
proof (cases rule: execute_cases)
  case (manual p d t)
  from execution_checksD(1) [OF manual(1)] settle_manuallyD(1,3) [OF manual(4)] show ?thesis by blast
next
  case (waiting p)
  from execution_checksD(1) [OF waiting(1)] waiting(4) show ?thesis by (auto simp: await_credentials_def Let_def bindR_Inr_iff)
next
  case (bank p r)
  from apply_transferD(2) [OF bank(4)] obtain st' st2 act where u: "update_payout p' st = Inr st'" "st1 = log_audit admin act ''Payout'' (po_id p) st2"
    "(if tr_status r = PayoutTransferStatus.PAID then post_journal env now jid (exec_journal p) st' else Inr st') = Inr st2" by blast
  then have "pd_payouts st1 = pd_payouts st'" by (auto dest: post_journal_frame split: if_splits)
  with u(1) execution_checksD(1) [OF bank(1)] apply_transferD(1) [OF bank(4)] show ?thesis by blast
qed

lemma executed_row:
  assumes "executePayout env now jid pid admin dto st g = (Inr (p', st1), g')" "payouts_ok st"
  shows "find_payout pid st1 = Some p'"
proof -
  obtain p st' where f: "find_payout pid st = Some p" and fx: "fixed p' = fixed p"
    and u: "update_payout p' st = Inr st'" "pd_payouts st1 = pd_payouts st'"
    using executed_update [OF assms(1)] by blast
  have "pd_payouts st1 = update_where (\<lambda>x. po_id x = po_id p') (\<lambda>_. p') (pd_payouts st)"
    using u by (auto simp: update_payout_def split: if_splits)
  moreover have i: "po_id p' = pid" "p \<in> set (pd_payouts st)" "po_id p = pid" using find_payoutD [OF f] fixedD(1) [OF fx] by auto
  ultimately have "p' \<in> set (pd_payouts st1)" by (auto simp: set_update_where)
  moreover have "distinct (map po_id (pd_payouts st1))"
    using step_ok [OF execute_step [OF assms(1)] assms(2)] by (simp add: payouts_ok_def)
  ultimately show ?thesis using i(1) by (auto simp: find_payout_def intro: find_key_unique)
qed

lemma exec_rev_keys: "line_key (Some (''ledger_po_exec_'' @ x)) i \<noteq> line_key (Some (''ledger_po_rev_'' @ y)) j"
  by (simp add: line_key_def)

lemma reversal_keys_free:
  assumes "\<exists>es. L' = L @ es \<and> (\<forall>e \<in> set es. \<exists>i. le_idempotencyKey e = line_key (Some (''ledger_po_exec_'' @ x)) i)"
    and "keys_free (reversal_of_payout reason p) L"
  shows "keys_free (reversal_of_payout reason p) L'"
  unfolding keys_free_def
proof (intro ballI allI impI)
  fix e i
  assume e: "e \<in> set L'" and i: "i \<le> length (raw_lines (reversal_of_payout reason p))" and some: "le_idempotencyKey e \<noteq> None"
  show "le_idempotencyKey e \<noteq> line_key (ji_idempotencyKey (reversal_of_payout reason p)) i"
  proof (cases "e \<in> set L")
    case True
    with assms(2) i some show ?thesis by (simp add: keys_free_def)
  next
    case False
    obtain es where es: "L' = L @ es" "\<forall>e \<in> set es. \<exists>i. le_idempotencyKey e = line_key (Some (''ledger_po_exec_'' @ x)) i"
      using assms(1) by blast
    with False e have "e \<in> set es" by simp
    with es(2) obtain j where "le_idempotencyKey e = line_key (Some (''ledger_po_exec_'' @ x)) j" by blast
    then show ?thesis by (simp only: journal_shape exec_rev_keys not_False_eq_True)
  qed
qed

section \<open>Properties\<close>

text \<open>
  No vendor is promised more than was earned. A request that creates a payout leaves what the
  vendor has been paid and has asked for within the settled earnings and the net adjustments, to the
  cent although it is computed with decimal.js from a JavaScript number, and adds just that payout.
\<close>

theorem request_within_balance:
  assumes "requestPayout env now newId vid dto initiator st = Inr (p, st')" and "newId \<notin> po_id ` set (pd_payouts st)"
    and "po_id p = newId" and "payout_money st" "payouts_ok st" "claimed vid st < 10 ^ 16"
  shows "pd_payouts st' = pd_payouts st @ [p] \<and> beside st' = beside st \<and> po_status p = PayoutStatus.PENDING \<and> po_vendorId p = vid \<and>
    claimed vid st' = claimed vid st + po_amount p \<and>
    claimed vid st' \<le> settled env now vid (pd_core st') + net_adjusted vid st'"
  using request_granted [OF assms] by blast

text \<open>
  C5: the balance of the books is an invariant of administration. Over any history of requests,
  approvals, executions, rejections and reversals, handled one after another in the order of their times
  and whatever the bank answers, the payouts of a vendor that are recorded as pending, approved, in
  process or paid do not exceed the settled earnings and the net adjustments. The statement is about the
  records: a transfer that the bank carried out although its answer was a timeout is recorded as
  failed, and its amount can be requested again (timeout_frees_the_amount).
\<close>

theorem never_overdrawn:
  assumes "payouts_ok st" "payout_money st" "\<And>vid. covered env t vid st"
    and "sorted (t # map fst reqs)" "distinct (new_ids reqs)" "set (new_ids reqs) \<inter> po_id ` set (pd_payouts st) = {}"
    and "administer env reqs (st, g) = (st', g')"
  shows "covered env (last (t # map fst reqs)) vid st'"
  using administer_covered [OF assms] by blast

lemma step_row:
  assumes "payout_step E st st'" "payouts_ok st" "p \<in> set (pd_payouts st)"
  shows "\<exists>q \<in> set (pd_payouts st'). fixed q = fixed p \<and> (q = p \<or> E (po_status p) (po_status q))"
proof -
  have "distinct (map po_id (pd_payouts st))" using assms(2) by (simp add: payouts_ok_def)
  with assms(1) show ?thesis
  proof (cases rule: step_cases)
    case (1 q q')
    show ?thesis
    proof (cases "po_id p = po_id q")
      case True
      with 1(5) [OF assms(3)] have "p = q" by simp
      with 1 assms(3) show ?thesis by (force simp: set_update_where)
    next
      case False
      with 1(4) assms(3) have "p \<in> set (pd_payouts st')" by (force simp: set_update_where)
      then show ?thesis by blast
    qed
  qed
qed

text \<open>
  C17: payouts follow their matrix. Whatever a vendor or an administrator requests moves a payout at
  most along an edge of \<open>admin_edge\<close>, whatever the bank reports along one of \<open>bank_edge\<close>; vendor, amount,
  number and idempotency key never change and no payout disappears.
\<close>

theorem payout_follows_matrix:
  assumes "payouts_ok st" and "p \<in> set (pd_payouts st)"
  shows "(\<exists>q \<in> set (pd_payouts (fst (perform env now r (st, g)))). fixed q = fixed p \<and> (q = p \<or> admin_edge (po_status p) (po_status q))) \<and>
    (\<exists>q \<in> set (pd_payouts (snd (handlePayoutWebhook env now jid rawBody signature hs st))).
       fixed q = fixed p \<and> (q = p \<or> bank_edge (po_status p) (po_status q)))"
proof
  obtain st1 g1 where r: "perform env now r (st, g) = (st1, g1)" by fastforce
  have "\<exists>q \<in> set (pd_payouts st1). fixed q = fixed p \<and> (q = p \<or> admin_edge (po_status p) (po_status q))"
    using r
  proof (cases rule: perform_cases)
    case (requested newId vid dto who q)
    from requested(2) have "p \<in> set (pd_payouts st1)" using assms(2) by (cases rule: request_cases) auto
    then show ?thesis by blast
  qed (use assms step_row in blast)+
  with r show "\<exists>q \<in> set (pd_payouts (fst (perform env now r (st, g)))). fixed q = fixed p \<and> (q = p \<or> admin_edge (po_status p) (po_status q))" by simp
  have d: "distinct (map po_id (pd_payouts st))" using assms(1) by (simp add: payouts_ok_def)
  show "\<exists>q \<in> set (pd_payouts (snd (handlePayoutWebhook env now jid rawBody signature hs st))).
       fixed q = fixed p \<and> (q = p \<or> bank_edge (po_status p) (po_status q))"
    using hook_step [OF prod.collapse [symmetric] d] assms step_row by (metis (no_types, lifting))
qed

text \<open>
  C12: reversing undoes settling. A payout that an execution paid, by hand or through the bank, and
  that is then reversed leaves the balance of every account of the ledger as it was before, and
  between the two the vendor's payable balance is lower by its amount.
\<close>

theorem reversal_restores_balances:
  assumes "executePayout env now jid pid admin dto st g = (Inr (p', st1), g')" and "po_status p' = PayoutStatus.PAID"
    and "reversePayout env now' jid' pid admin' reason st1 = Inr (q, st2)"
    and "pe_ledger env" and "payouts_ok st" and "0 < po_amount p'" and "keys_free (exec_journal p') (db_ledger (pd_core st))"
    and "keys_free (reversal_of_payout reason p') (db_ledger (pd_core st))"
  shows "getVendorPayableBalance (po_vendorId p') (db_ledger (pd_core st1)) = getVendorPayableBalance (po_vendorId p') (db_ledger (pd_core st)) - po_amount p' \<and>
    getAccountBalance t ent (db_ledger (pd_core st2)) = getAccountBalance t ent (db_ledger (pd_core st)) \<and> po_status q = PayoutStatus.REVERSED"
proof -
  note bk = execution_booked [OF assms(1,2,4-7)]
  have st: "payout_step admin_edge st st1" using execute_step [OF assms(1)] .
  have ok1: "payouts_ok st1" by (rule step_ok [OF st assms(5)])
  have found: "find_payout pid st1 = Some p'" by (rule executed_row [OF assms(1,5)])
  have bal2: "getAccountBalance t ent (db_ledger (pd_core st2)) = getAccountBalance t ent (db_ledger (pd_core st1)) - settlement_effect p' t ent \<and> po_status q = PayoutStatus.REVERSED" for t ent
    using assms(3)
  proof (cases rule: reverse_cases)
    case skipped
    with found assms(2) show ?thesis by simp
  next
    case (reversed p u1 u2)
    have p: "p = p'" using found reversed(1) by simp
    have L: "db_ledger (pd_core u1) = db_ledger (pd_core st1)" by (rule update_payout_ledger [OF reversed(5)])
    have k: "keys_free (reversal_of_payout reason p') (db_ledger (pd_core u1))"
      unfolding L by (rule reversal_keys_free [OF conjunct2 [OF bk] assms(8)])
    obtain u3 where "post_journal env now' jid' (reversal_of_payout reason p') u1 = Inr u3"
      "\<And>t ent. getAccountBalance t ent (db_ledger (pd_core u3)) = getAccountBalance t ent (db_ledger (pd_core u1)) + journal_effect (reversal_of_payout reason p') t ent"
      by (rule post_books [OF assms(4) disjI2 [OF HOL.refl], where p = p' and st = u1 and now = now' and jid = jid' and reason = reason])
        (use assms(6) payouts_okD [OF ok1 conjunct1 [OF find_payoutD [OF found]]] k in simp_all)
    with reversed(4,6,7) p assms(2) L show ?thesis by (simp add: journal_effects)
  qed
  have "settlement_effect p' VENDOR_PAYABLE (Some (po_vendorId p')) = - po_amount p'" by (simp add: settlement_effect_def)
  with bk bal2 show ?thesis by (simp add: getVendorPayableBalance_def)
qed

text \<open>
  Execution is guarded. An execution either is refused, and then neither a table nor the bank
  changes, or it is of a payout that is pending, approved or in process, and one above 50000 is not
  executed by the administrator who approved it.
\<close>

theorem execution_is_guarded:
  "(\<exists>e. executePayout env now jid pid admin dto st g = (Inl e, g)) \<or>
   (\<exists>p. find_payout pid st = Some p \<and> is_reserved (po_status p) \<and>
     \<not> (50000 < fl (po_amount p) \<and> str_truthy (po_approvedByUserId p) \<and> po_approvedByUserId p = Some admin))"
  using execution_checksD [of pid admin st] by (cases "execution_checks pid admin st") (auto simp: executePayout_def)

section \<open>Witnesses\<close>

definition demo_payout_env :: "unit payout_env" where
  "demo_payout_env =
     \<lparr>pe_config = None, pe_tz = 0, pe_ledger = True, pe_wallets = True, pe_walletConfig = None, pe_provider = True, pe_configured = True,
      pe_fetch = (\<lambda>_ g. (Aborted, g)), pe_parse = (\<lambda>_. None), pe_sha256 = (\<lambda>s. s), pe_mock = True, pe_validWebhook = (\<lambda>_ _. False)\<rparr>"

definition demo_vendor :: Vendor where
  "demo_vendor = \<lparr>ven_id = ''v1'', ven_userId = Some ''vendor'', ven_businessName = ''Fleet'', ven_ownerName = ''Owner'', ven_bankDetails = None\<rparr>"

definition demo_earned :: payout_db where
  "demo_earned =
     \<lparr>pd_vendors = [demo_vendor], pd_payouts = [], pd_adjustments = [], pd_users = [''admin''],
      pd_core = demo_db\<lparr>db_bookings := [demo_booking\<lparr>bk_status := BookingStatus.COMPLETED\<rparr>]\<rparr>\<rparr>"

definition demo_payout :: Payout where
  "demo_payout =
     \<lparr>po_id = ''po1'', po_payoutNumber = Some ''PO-1970-01-00001'', po_vendorId = ''v1'', po_amount = 500, po_netAmount = Some 500,
      po_status = PayoutStatus.APPROVED, po_providerTransferId = None, po_providerFee = None, po_providerFailureReason = None,
      po_idempotencyKey = None, po_initiatedByUserId = None, po_approvedByUserId = Some ''admin'', po_approvedAt = Some 0, po_processedAt = None,
      po_paidAt = None, po_bankAccountSnapshot = Some (JObj [(''accountNumber'', JStr ''1''), (''ifscCode'', JStr ''I'')]), po_notes = None, po_createdAt = 0\<rparr>"

definition demo_requested :: payout_db where
  "demo_requested = demo_earned\<lparr>pd_payouts := [demo_payout]\<rparr>"

definition demo_request :: RequestPayoutDto where
  "demo_request = \<lparr>rp_amount = 500, rp_idempotencyKey = None, rp_notes = None\<rparr>"

lemma demo_paid_booking: "paid_booking (pd_core demo_earned) (demo_booking\<lparr>bk_status := BookingStatus.COMPLETED\<rparr>)"
  by (simp add: paid_booking_def find_payment_def demo_earned_def demo_db_def demo_booking_def)

lemma demo_settled: "settled demo_payout_env now ''v1'' (pd_core demo_earned) = 1001"
proof -
  have "eligible demo_payout_env now ''v1'' (pd_core demo_earned) (demo_booking\<lparr>bk_status := BookingStatus.COMPLETED\<rparr>)"
    using demo_paid_booking
    by (simp add: eligible_def completed_def has_claim_def exists_where_def hold_cutoff_def demo_payout_env_def)
      (simp add: demo_booking_def demo_earned_def demo_db_def)
  moreover have "db_bookings (pd_core demo_earned) = [demo_booking\<lparr>bk_status := BookingStatus.COMPLETED\<rparr>]" by (simp add: demo_earned_def)
  ultimately show ?thesis by (simp add: settled_def) (simp add: demo_booking_def)
qed

lemma cents_numeral [simp]: "is_cents (numeral n)"
  using is_cents_of_int [of "numeral n"] by simp

lemma demo_tables:
  "payouts_ok demo_earned" "payout_money demo_earned" "net_adjusted v demo_earned = 0" "claimed v demo_earned = 0" "pd_payouts demo_earned = []"
  by (simp_all add: payouts_ok_def payout_money_def net_adjusted_def claimed_def) (simp_all add: demo_earned_def demo_booking_def)

lemma demo_row_ok: "payouts_ok demo_requested" "find_payout ''po1'' demo_requested = Some demo_payout" "pd_payouts demo_requested = [demo_payout]"
  "db_ledger (pd_core demo_requested) = []"
  by (simp_all add: payouts_ok_def demo_requested_def demo_earned_def demo_payout_def demo_vendor_def demo_db_def payout_clash_def find_vendor_def find_payout_def)

lemma dec_500: "dec_of_num 500 = 500" "fl 500 = 500" "round2 500 = 500"
proof -
  show f: "fl 500 = 500" by simp
  have "dec_of_num (fl 500) = 500" by (rule dec_of_cents) simp_all
  then show "dec_of_num 500 = 500" unfolding f .
  show "round2 500 = 500" by (rule round2_exact) simp
qed

lemma demo_request_granted:
  "\<exists>p st'. requestPayout demo_payout_env 1000 ''po1'' ''v1'' demo_request None demo_earned = Inr (p, st') \<and> po_id p = ''po1'' \<and> po_amount p = 500"
proof -
  have a: "available_balance demo_payout_env 1000 ''v1'' demo_earned = 1001"
    using available_exact(1) [OF demo_tables(2,1), of "''v1''" demo_payout_env 1000] by (simp add: demo_tables demo_settled)
  have v: "find_vendor ''v1'' demo_earned = Some demo_vendor" by (simp add: find_vendor_def demo_earned_def demo_vendor_def)
  have d: "rp_amount demo_request = 500" "rp_idempotencyKey demo_request = None" "rp_notes demo_request = None" by (simp_all add: demo_request_def)
  have l: "amount_limits demo_payout_env x = Inr ()" "daily_limit demo_payout_env t i x s = Inr ()" for x t i s
    by (simp_all add: amount_limits_def daily_limit_def demo_payout_env_def)
  show ?thesis
    unfolding requestPayout_def Let_def d
    by (simp add: dec_500 a v l money10_def create_payout_def demo_tables(5) exists_where_def)
qed

lemma request_within_balance_witness:
  "\<exists>p st'. requestPayout demo_payout_env 1000 ''po1'' ''v1'' demo_request None demo_earned = Inr (p, st') \<and> claimed ''v1'' st' = 500"
proof -
  obtain p st' where r: "requestPayout demo_payout_env 1000 ''po1'' ''v1'' demo_request None demo_earned = Inr (p, st')" "po_id p = ''po1''" "po_amount p = 500"
    using demo_request_granted by blast
  have "claimed ''v1'' st' = claimed ''v1'' demo_earned + po_amount p"
    using request_within_balance [OF r(1) _ r(2) demo_tables(2,1)] by (simp add: demo_tables)
  with r show ?thesis by (auto simp: demo_tables)
qed

lemma never_overdrawn_witness:
  "covered demo_payout_env 2000 ''v1'' (fst (administer demo_payout_env [(1000, Request ''po1'' ''v1'' demo_request None), (2000, Approve ''po1'' ''admin'' None)] (demo_earned, ())))"
proof -
  let ?rs = "[(1000, Request ''po1'' ''v1'' demo_request None), (2000, Approve ''po1'' ''admin'' None)]"
  obtain st' g' where a: "administer demo_payout_env ?rs (demo_earned, ()) = (st', g')" by fastforce
  have c: "covered demo_payout_env 0 v demo_earned" for v
  proof -
    have "0 \<le> settled demo_payout_env 0 v (pd_core demo_earned)"
      unfolding settled_def using money_bounds(3) [OF demo_tables(2)] .
    then show ?thesis by (simp add: covered_def demo_tables)
  qed
  have "covered demo_payout_env (last (0 # map fst ?rs)) ''v1'' st'"
    by (rule never_overdrawn [OF demo_tables(1,2) c _ _ _ a]) (simp_all add: new_ids_def map_filter_simps demo_tables)
  with a show ?thesis by simp
qed

lemma payout_follows_matrix_witness:
  "\<exists>q \<in> set (pd_payouts (fst (perform demo_payout_env 0 (Reject ''po1'' ''admin'' ''no'') (demo_requested, ())))).
     fixed q = fixed demo_payout \<and> (q = demo_payout \<or> admin_edge PayoutStatus.APPROVED (po_status q))"
proof -
  have s: "po_status demo_payout = PayoutStatus.APPROVED" by (simp add: demo_payout_def)
  have m: "demo_payout \<in> set (pd_payouts demo_requested)" by (simp add: demo_row_ok)
  show ?thesis
    by (rule conjunct1 [OF payout_follows_matrix [OF demo_row_ok(1) m, unfolded s]])
qed

lemma execution_is_guarded_witness:
  "is_reserved (po_status demo_payout) \<and> find_payout ''po1'' demo_requested = Some demo_payout"
proof -
  have "execution_checks ''po1'' ''boss'' demo_requested = Inr demo_payout"
    by (simp add: execution_checks_def demo_row_ok) (simp add: demo_payout_def is_reserved_def)
  then have "\<exists>r. executePayout demo_payout_env 0 ''j'' ''po1'' ''boss'' None demo_requested () = (Inr r, ())"
    by (simp add: executePayout_def manual_transfer_def)
      (simp add: demo_payout_env_def demo_payout_def initiateTransfer_def transfer_request_def bank_account_def truthy_def field_def
        demo_requested_def demo_earned_def find_vendor_def demo_vendor_def beneficiary_of_def string_arg_def or_else_def bank_outcome_def
        transfer_failed_def apply_transfer_def as_text_def update_payout_def exists_where_def payout_clash_def Let_def)
  with execution_is_guarded [of demo_payout_env 0 "''j''" "''po1''" "''boss''" None demo_requested "()"] show ?thesis
    by (auto simp: demo_row_ok)
qed

definition by_hand :: "ExecutePayoutDto option" where
  "by_hand = Some \<lparr>ep_providerTransferId = Some ''utr1'', ep_providerFee = None, ep_adminNotes = None\<rparr>"

lemma reversal_restores_balances_witness:
  "\<exists>p' st1 q st2. executePayout demo_payout_env 0 ''j1'' ''po1'' ''admin'' by_hand demo_requested () = (Inr (p', st1), ()) \<and>
     getVendorPayableBalance ''v1'' (db_ledger (pd_core st1)) = - 500 \<and>
     reversePayout demo_payout_env 1 ''j2'' ''po1'' ''admin'' None st1 = Inr (q, st2) \<and>
     getVendorPayableBalance ''v1'' (db_ledger (pd_core st2)) = 0"
proof -
  have c: "execution_checks ''po1'' ''admin'' demo_requested = Inr demo_payout"
    by (simp add: execution_checks_def demo_row_ok) (simp add: demo_payout_def is_reserved_def dec_500)
  have m: "manual_transfer by_hand = Some (the by_hand, ''utr1'')"
    by (simp add: manual_transfer_def by_hand_def trim_def is_blank_def)
  let ?p = "demo_payout\<lparr>po_status := PayoutStatus.PAID, po_paidAt := Some 0, po_processedAt := Some 0, po_providerTransferId := Some (trim ''utr1''),
    po_providerFee := None, po_notes := None\<rparr>"
  have n: "noted (Some (the by_hand)) ''Manual Settlement'' demo_payout = None" "new_fee (ep_providerFee (the by_hand)) (po_providerFee demo_payout) = Inr None"
    by (simp_all add: noted_def by_hand_def demo_payout_def new_fee_def)
  have "\<exists>st1. settle_manually demo_payout_env 0 ''j1'' ''admin'' (the by_hand) ''utr1'' demo_payout demo_requested = Inr (?p, st1)"
    by (simp add: settle_manually_def n Let_def update_payout_def demo_row_ok exists_where_def payout_clash_def)
  then obtain st1 where e: "executePayout demo_payout_env 0 ''j1'' ''po1'' ''admin'' by_hand demo_requested () = (Inr (?p, st1), ())"
    using c m by (auto simp: executePayout_def)
  have k: "keys_free (exec_journal ?p) (db_ledger (pd_core demo_requested))" "keys_free (reversal_of_payout None ?p) (db_ledger (pd_core demo_requested))"
    by (simp_all add: keys_free_def demo_row_ok)
  have l: "pe_ledger demo_payout_env" by (simp add: demo_payout_env_def)
  have s: "po_status ?p = PayoutStatus.PAID" "po_amount ?p = 500" "po_vendorId ?p = ''v1''" "po_id ?p = ''po1''" by (simp_all add: demo_payout_def)
  note bk = execution_booked [OF e s(1) l demo_row_ok(1) _ k(1)]
  have f: "find_payout ''po1'' st1 = Some ?p" by (rule executed_row [OF e demo_row_ok(1)])
  have ok1: "payouts_ok st1" by (rule step_ok [OF execute_step [OF e] demo_row_ok(1)])
  have rows: "pd_payouts st1 = [?p]"
    using executed_update [OF e] by (auto simp: update_payout_def demo_row_ok split: if_splits)
  let ?q = "?p\<lparr>po_status := PayoutStatus.REVERSED, po_providerFailureReason := Some ''Payout reversed by banking network/operator.''\<rparr>"
  have u: "update_payout ?q st1 = Inr (st1\<lparr>pd_payouts := [?q]\<rparr>)" by (simp add: update_payout_def rows exists_where_def payout_clash_def)
  have k1: "keys_free (reversal_of_payout None ?p) (db_ledger (pd_core (st1\<lparr>pd_payouts := [?q]\<rparr>)))"
    using reversal_keys_free [OF conjunct2 [OF bk] k(2)] s by simp
  obtain st2 where "post_journal demo_payout_env 1 ''j2'' (reversal_of_payout None ?p) (st1\<lparr>pd_payouts := [?q]\<rparr>) = Inr st2"
    by (rule post_books [OF l disjI2 [OF HOL.refl] _ _ _ k1]) (use s in simp_all)
  then have "\<exists>st2. reversePayout demo_payout_env 1 ''j2'' ''po1'' ''admin'' None st1 = Inr (?q, st2)"
    using u by (simp add: reversePayout_def f or_string_def Let_def) (simp add: demo_payout_def)
  then obtain st2 where r: "reversePayout demo_payout_env 1 ''j2'' ''po1'' ''admin'' None st1 = Inr (?q, st2)" by blast
  have "getVendorPayableBalance ''v1'' (db_ledger (pd_core st1)) = - 500 \<and> getVendorPayableBalance ''v1'' (db_ledger (pd_core st2)) = 0"
    using reversal_restores_balances [OF e s(1) r l demo_row_ok(1) _ k, of VENDOR_PAYABLE "Some ''v1''"] s
    by (simp add: getVendorPayableBalance_def demo_row_ok getAccountBalance_signed)
  with e r show ?thesis by blast
qed

section \<open>What goes wrong\<close>

text \<open>
  Without a settlement hold the summary takes the epoch for the cutoff and reports all earnings as
  held, so nothing as available, although a request of all of them would be granted.
\<close>

lemma summary_holds_everything:
  assumes "getVendorEarningsSummary env now vid st = Inr s" and "hold_cutoff env now = None"
    and "\<And>b. b \<in> set (db_bookings (pd_core st)) \<Longrightarrow> 0 < bk_updatedAt b"
  shows "es_heldEarnings s = es_totalEarnings s"
proof -
  have "sum_where P v (db_bookings (pd_core st)) = sum_where Q v (db_bookings (pd_core st))"
    if "\<And>b. 0 < bk_updatedAt b \<Longrightarrow> P b = Q b" for P Q and v :: "Booking \<Rightarrow> rat"
    using that assms(3) by (intro sum_where_cong) auto
  note same = this
  from assms(1,2) show ?thesis
    by (auto simp: getVendorEarningsSummary_def Let_def throw_if_Inr_iff intro!: arg_cong [of _ _ fl] same)
qed

text \<open>
  A transfer whose answer did not arrive is recorded as FAILED, whatever the bank did with it, and its
  amount can be requested again.
\<close>

lemma timeout_frees_the_amount:
  assumes "execution_checks pid admin st = Inr p" "manual_transfer dto = None" "pe_provider env"
    and "initiateTransfer env (transfer_request env p (find_vendor (po_vendorId p) st)) g = (Inr (bank_outcome Aborted), g1)"
    and "executePayout env now jid pid admin dto st g = (Inr (p', st'), g')"
  shows "po_status p' = PayoutStatus.FAILED \<and> \<not> is_reserved (po_status p') \<and> g' = g1"
proof -
  have "apply_transfer env now jid admin dto (bank_outcome Aborted) p st = Inr (p', st') \<and> g' = g1"
    using assms by (simp add: executePayout_def)
  then show ?thesis
    using apply_transferD(1) [of env now jid admin dto "bank_outcome Aborted" p st p' st']
    by (auto simp: bank_outcome_def transfer_failed_def paid_by_bank_def is_reserved_def)
qed

text \<open>
  A notification that a reversed payout was processed sets it to PAID, but its journal is taken for
  a repetition: the ledger stays as the reversal left it.
\<close>

lemma stale_notification_pays_without_journal:
  assumes "payout_processed env now jid fees tid p st = Inr st'" "find_payout (po_id p) st = Some p" "payouts_ok st"
    and "exists_where (\<lambda>e. le_idempotencyKey e = Some (''ledger_po_exec_'' @ po_id p)) (db_ledger (pd_core st))"
  shows "db_ledger (pd_core st') = db_ledger (pd_core st) \<and> (\<exists>p' \<in> set (pd_payouts st'). fixed p' = fixed p \<and> po_status p' = PayoutStatus.PAID)"
proof -
  obtain p' st1 st2 where p': "fixed p' = fixed p" "po_status p' = PayoutStatus.PAID" and u: "update_payout p' st = Inr st1"
    and j: "post_journal env now jid (exec_journal p) st1 = Inr st2" "st' = log_audit webhook_actor ''PAYOUT_EXECUTED_WEBHOOK'' ''Payout'' (po_id p) st2"
    using processedD [OF assms(1)] by blast
  have L: "db_ledger (pd_core st1) = db_ledger (pd_core st)" by (rule update_payout_ledger [OF u])
  have "db_ledger (pd_core st2) = db_ledger (pd_core st1)"
  proof (cases "pe_ledger env")
    case True
    then obtain r L' where r: "recordJournal dec20 round2 now jid (exec_journal p) (db_ledger (pd_core st1)) = Inr (r, L')" "st2 = with_ledger L' st1"
      using j(1) by (auto simp: post_journal_def bindR_Inr_iff)
    obtain e where "List.find (\<lambda>e. le_idempotencyKey e = Some (''ledger_po_exec_'' @ po_id p)) (db_ledger (pd_core st)) = Some e"
      using assms(4) by (cases "List.find (\<lambda>e. le_idempotencyKey e = Some (''ledger_po_exec_'' @ po_id p)) (db_ledger (pd_core st))")
        (auto simp: find_None_iff_all exists_where_iff)
    moreover have "length (raw_lines (exec_journal p)) = 2" by (simp add: raw_lines_def exec_journal_def payout_journal_def)
    ultimately have "L' = db_ledger (pd_core st1)" using r(1) unfolding recordJournal_def L by (simp add: journal_shape Let_def)
    with r(2) show ?thesis by (simp add: with_ledger_def)
  next
    case False
    with j(1) show ?thesis by (simp add: post_journal_def)
  qed
  moreover have "p' \<in> set (pd_payouts st')"
  proof -
    have "pd_payouts st' = update_where (\<lambda>q. po_id q = po_id p') (\<lambda>_. p') (pd_payouts st)"
      using u j post_journal_frame [OF j(1)] by (auto simp: update_payout_def split: if_splits)
    with find_payoutD [OF assms(2)] fixedD(1) [OF p'(1)] show ?thesis by (auto simp: set_update_where)
  qed
  ultimately show ?thesis using L j(2) p' by auto
qed

end
