(* ===== verification/TripExtensions.thy ===== *)
theory TripExtensions
  imports LifecycleFacts Fare
begin

text \<open>
  Extensions of running trips (\<open>bookings/trip-extensions.service.ts\<close>): the quote, the order at the gateway
  and the confirmation that moves the end of the booking and posts a journal. Columns of the booking
  and of its car that only this service reads are given by \<open>xe_trip\<close>; the requested end is the time
  that the string denotes, \<open>None\<close> when it is no date. Invoices and messages are left out.
\<close>

datatype ExtensionStatus = PENDING_PAYMENT | EXT_CONFIRMED | EXT_CANCELLED | EXT_EXPIRED

record ExtensionQuote =
  eq_bookingId :: id
  eq_currentEndDate :: time
  eq_requestedEndDate :: time
  eq_extraDays :: int
  eq_extraHours :: int
  eq_baseFare :: rat
  eq_platformFee :: rat
  eq_gstAmount :: rat
  eq_totalFare :: rat
  eq_netToVendor :: rat

record TripExtension =
  xt_id :: id
  xt_bookingId :: id
  xt_currentEndDate :: time
  xt_requestedEndDate :: time
  xt_extraDays :: int
  xt_extraHours :: int
  xt_baseFare :: rat
  xt_platformFee :: rat
  xt_gstAmount :: rat
  xt_totalFare :: rat
  xt_netToVendor :: rat
  xt_razorpayOrderId :: "string option"
  xt_razorpayPaymentId :: "string option"
  xt_status :: ExtensionStatus
  xt_createdAt :: time

record trip_info =
  ti_tripType :: TripType
  ti_carType :: CarCategory
  ti_pricePerHour :: rat
  ti_pricePerDay :: rat
  ti_city :: string
  ti_blockedDates :: "time list"

record 'g ext_env =
  xe_useMock :: bool
  xe_production :: bool
  xe_keyId :: "string option"
  xe_keySecret :: "string option"
  xe_ledger :: bool
  xe_commission :: "rat option"
  xe_rules :: "CommissionConfig list"
  xe_trip :: "id \<Rightarrow> trip_info"
  xe_hmac :: "string \<Rightarrow> string \<Rightarrow> string"
  xe_order :: "int \<Rightarrow> string \<Rightarrow> 'g \<Rightarrow> (string + string) \<times> 'g"

record 'g ext_state =
  xs_db :: bk_db
  xs_extensions :: "TripExtension list"
  xs_gateway :: 'g

definition has_client :: "'g ext_env \<Rightarrow> bool" where
  "has_client env \<longleftrightarrow> str_truthy (xe_keyId env) \<and> str_truthy (xe_keySecret env)"

text \<open>The service is not constructed with mock payments in production.\<close>

definition service_starts :: "'g ext_env \<Rightarrow> bool" where
  "service_starts env \<longleftrightarrow> \<not> (xe_useMock env \<and> xe_production env)"

section \<open>Availability\<close>

definition blocks_extension :: "BookingStatus \<Rightarrow> bool" where
  "blocks_extension s \<longleftrightarrow> s \<in> {BookingStatus.PENDING, BookingStatus.CONFIRMED, BookingStatus.ONGOING, BookingStatus.HANDOVER_READY}"

definition conflicting_booking :: "id \<Rightarrow> id \<Rightarrow> time \<Rightarrow> time \<Rightarrow> bk_db \<Rightarrow> Booking option" where
  "conflicting_booking carId bookingId currentEnd requestedEnd db =
     List.find (\<lambda>r. bk_carId r = carId \<and> bk_id r \<noteq> bookingId \<and> blocks_extension (bk_status r) \<and>
        bk_startDate r < requestedEnd \<and> bk_endDate r > currentEnd) (db_bookings db)"

definition validateExtensionAvailability :: "id \<Rightarrow> id \<Rightarrow> time \<Rightarrow> time \<Rightarrow> time list \<Rightarrow> bk_db \<Rightarrow> unit result" where
  "validateExtensionAvailability carId bookingId currentEnd requestedEnd blocked db =
     throw_if (list_ex (\<lambda>t. t > currentEnd \<and> t \<le> requestedEnd) blocked)
       (ConflictException ''The vehicle is blocked by the fleet partner during the requested extension dates.'')
     (throw_if (conflicting_booking carId bookingId currentEnd requestedEnd db \<noteq> None)
       (ConflictException ''The vehicle has an upcoming confirmed booking during the requested extension period.'')
     (Inr ()))"

section \<open>Quote\<close>

definition extra_hours :: "int \<Rightarrow> int" where
  "extra_hours ms = \<lceil>fl (of_int ms / 3600000)\<rceil>"

definition extra_days :: "int \<Rightarrow> int" where
  "extra_days ms = max 1 \<lceil>fl (of_int ms / 86400000)\<rceil>"

definition extra_base :: "trip_info \<Rightarrow> int \<Rightarrow> rat" where
  "extra_base ti ms =
     (if ti_tripType ti = LOCAL \<or> ti_tripType ti = AIRPORT_TRANSFER
      then dec20 (ti_pricePerHour ti * of_int (extra_hours ms))
      else dec20 (ti_pricePerDay ti * of_int (extra_days ms)))"

definition extension_fare :: "'g ext_env \<Rightarrow> trip_info \<Rightarrow> int \<Rightarrow> fare" where
  "extension_fare env ti ms =
     calculateFare dec20 0 (extra_base ti ms) 0
       (resolveCommissionPercent (xe_commission env) (xe_rules env) (ti_city ti) (ti_carType ti) (ti_tripType ti))
       (of_int (extra_days ms)) 0 0 18 None"

definition getQuote :: "'g ext_env \<Rightarrow> id \<Rightarrow> time option \<Rightarrow> id \<Rightarrow> bool \<Rightarrow> bk_db \<Rightarrow> ExtensionQuote result" where
  "getQuote env bookingId requested userId is_customer db =
     (case find_booking bookingId db of
        None \<Rightarrow> Inl (NotFoundException ''Booking not found.'')
      | Some b \<Rightarrow>
          throw_if (is_customer \<and> bk_customerId b \<noteq> userId) (ForbiddenException ''Access denied: You do not own this booking.'')
          (throw_if (bk_status b \<noteq> BookingStatus.ONGOING)
            (BadRequestException ''Cannot extend booking. Extension is only permitted for ONGOING trips.'')
          (case requested of
             None \<Rightarrow> Inl (BadRequestException ''Invalid requested end date format.'')
           | Some requestedEnd \<Rightarrow>
               throw_if (requestedEnd \<le> bk_endDate b)
                 (BadRequestException ''Requested extension end date must be after the current booking end date.'')
               (bindR (validateExtensionAvailability (bk_carId b) (bk_id b) (bk_endDate b) requestedEnd (ti_blockedDates (xe_trip env bookingId)) db) (\<lambda>_.
                  let ms = requestedEnd - bk_endDate b; f = extension_fare env (xe_trip env bookingId) ms
                  in Inr \<lparr>eq_bookingId = bk_id b, eq_currentEndDate = bk_endDate b, eq_requestedEndDate = requestedEnd,
                       eq_extraDays = extra_days ms, eq_extraHours = extra_hours ms, eq_baseFare = fl (fr_baseFare f),
                       eq_platformFee = fl (fr_platformFee f), eq_gstAmount = fl (fr_gst f), eq_totalFare = fl (fr_total f),
                       eq_netToVendor = fl (fr_netToVendor f)\<rparr>)))))"

section \<open>Creation\<close>

record extension_order =
  eo_extensionId :: id
  eo_bookingId :: id
  eo_orderId :: string
  eo_amount :: rat
  eo_amountInPaise :: int
  eo_keyId :: string

definition extension_of :: "ExtensionQuote \<Rightarrow> id \<Rightarrow> string \<Rightarrow> time \<Rightarrow> TripExtension result" where
  "extension_of q xid orderId now =
     bindR (num10 (eq_baseFare q)) (\<lambda>base. bindR (num10 (eq_platformFee q)) (\<lambda>fee. bindR (num10 (eq_gstAmount q)) (\<lambda>gst.
     bindR (num10 (eq_totalFare q)) (\<lambda>fare. bindR (num10 (eq_netToVendor q)) (\<lambda>net.
       Inr \<lparr>xt_id = xid, xt_bookingId = eq_bookingId q, xt_currentEndDate = eq_currentEndDate q, xt_requestedEndDate = eq_requestedEndDate q,
         xt_extraDays = eq_extraDays q, xt_extraHours = eq_extraHours q, xt_baseFare = base,
         xt_platformFee = fee, xt_gstAmount = gst, xt_totalFare = fare,
         xt_netToVendor = net, xt_razorpayOrderId = Some orderId, xt_razorpayPaymentId = None,
         xt_status = PENDING_PAYMENT, xt_createdAt = now\<rparr>)))))"

definition create_order :: "'g ext_env \<Rightarrow> int \<Rightarrow> id \<Rightarrow> time \<Rightarrow> 'g \<Rightarrow> string result \<times> 'g" where
  "create_order env amountInPaise bookingId now g =
     (if \<not> xe_useMock env \<and> has_client env
      then case xe_order env amountInPaise (''ext_'' @ take 10 bookingId @ ''_'' @ show_nat (nat now)) g of
             (Inr orderId, g') \<Rightarrow> (Inr orderId, g')
           | (Inl _, g') \<Rightarrow> (Inl (BadRequestException ''Failed to initialize extension payment gateway.''), g')
      else (Inr (''ext_mock_'' @ show_nat (nat now)), g))"

definition createExtension ::
  "'g ext_env \<Rightarrow> time \<Rightarrow> id \<Rightarrow> id \<Rightarrow> time option \<Rightarrow> id \<Rightarrow> 'g ext_state \<Rightarrow> extension_order result \<times> 'g ext_state" where
  "createExtension env now xid bookingId requested customerId st =
     (case getQuote env bookingId requested customerId True (xs_db st) of
        Inl e \<Rightarrow> (Inl e, st)
      | Inr q \<Rightarrow>
          (let amountInPaise = js_round (fl (eq_totalFare q * 100))
           in if xe_production env \<and> \<not> has_client env
              then (Inl (BadRequestException ''Live payment gateway credentials not configured in production.''), st)
              else case create_order env amountInPaise bookingId now (xs_gateway st) of
                     (Inl e, g) \<Rightarrow> (Inl e, st\<lparr>xs_gateway := g\<rparr>)
                   | (Inr orderId, g) \<Rightarrow>
                       (case extension_of q xid orderId now of
                          Inl e \<Rightarrow> (Inl e, st\<lparr>xs_gateway := g\<rparr>)
                        | Inr x \<Rightarrow>
                            (Inr \<lparr>eo_extensionId = xid, eo_bookingId = bookingId, eo_orderId = orderId, eo_amount = eq_totalFare q,
                               eo_amountInPaise = amountInPaise, eo_keyId = or_string (xe_keyId env) ''mock_key_id''\<rparr>,
                             st\<lparr>xs_gateway := g, xs_extensions := xs_extensions st @ [x]\<rparr>))))"

section \<open>Confirmation\<close>

record payment_details =
  pd_orderId :: string
  pd_paymentId :: string
  pd_signature :: string

definition ext_line :: "id \<Rightarrow> LedgerAccountType \<Rightarrow> string option \<Rightarrow> LedgerEntrySide \<Rightarrow> rat \<Rightarrow> string \<Rightarrow> JournalEntryLineInput" where
  "ext_line bookingId t ent side amount text =
     \<lparr>li_accountType = t, li_accountEntityId = ent, li_side = Some side, li_entrySide = None,
      li_amount = amount, li_narration = Some (text @ '' booking '' @ bookingId), li_description = None,
      li_bookingId = Some bookingId, li_paymentId = None, li_payoutId = None, li_metadata = None\<rparr>"

definition extension_fee :: "TripExtension \<Rightarrow> rat" where
  "extension_fee x =
     (let sub = dec20 (dec20 (xt_netToVendor x + xt_platformFee x) + xt_gstAmount x); delta = dec20 (xt_totalFare x - sub)
      in dec20 (xt_platformFee x + delta))"

definition extension_lines :: "TripExtension \<Rightarrow> id \<Rightarrow> JournalEntryLineInput list" where
  "extension_lines x vendorId =
     [ext_line (xt_bookingId x) GATEWAY_CLEARING (Some ''RAZORPAY'') LedgerEntrySide.DEBIT (xt_totalFare x)
        ''Trip extension payment gateway clearing for'',
      ext_line (xt_bookingId x) VENDOR_PAYABLE (Some vendorId) LedgerEntrySide.CREDIT (xt_netToVendor x)
        ''Net rental revenue payable to host for extension on''] @
     line_if (extension_fee x > 0) (ext_line (xt_bookingId x) PLATFORM_COMMISSION_REVENUE None LedgerEntrySide.CREDIT (extension_fee x)
       ''Platform commission for extension on'') @
     line_if (xt_gstAmount x > 0) (ext_line (xt_bookingId x) TAX_GST_LIABILITY None LedgerEntrySide.CREDIT (xt_gstAmount x)
       ''GST tax liability for extension on'')"

definition extension_journal :: "TripExtension \<Rightarrow> id \<Rightarrow> RecordJournalInput" where
  "extension_journal x vendorId =
     \<lparr>ji_journalId = None, ji_referenceType = ''TRIP_EXTENSION_PAYMENT'', ji_referenceId = xt_id x,
      ji_narration = Some (''Trip extension payment verification financial journal for booking '' @ xt_bookingId x),
      ji_description = None, ji_lines = Some (extension_lines x vendorId), ji_entries = None,
      ji_idempotencyKey = Some (''jrn_ext_verify_'' @ xt_id x), ji_currency = None, ji_bookingId = Some (xt_bookingId x),
      ji_paymentId = None, ji_payoutId = None, ji_vendorId = Some vendorId\<rparr>"

definition find_extension :: "id \<Rightarrow> 'g ext_state \<Rightarrow> TripExtension option" where
  "find_extension xid st = List.find (\<lambda>x. xt_id x = xid) (xs_extensions st)"

definition ext_signature_ok :: "'g ext_env \<Rightarrow> payment_details \<Rightarrow> bool" where
  "ext_signature_ok env p \<longleftrightarrow>
     xe_hmac env (or_string (xe_keySecret env) []) (pd_orderId p @ ''|'' @ pd_paymentId p) = pd_signature p"

text \<open>The transaction. An error of the ledger is caught inside it and only logged.\<close>

definition confirm_extension :: "'g ext_env \<Rightarrow> time \<Rightarrow> string \<Rightarrow> TripExtension \<Rightarrow> Booking \<Rightarrow> string \<Rightarrow> 'g ext_state \<Rightarrow> 'g ext_state result" where
  "confirm_extension env now jid x b paymentId st =
     throw_if (conflicting_booking (bk_carId b) (bk_id b) (xt_currentEndDate x) (xt_requestedEndDate x) (xs_db st) \<noteq> None)
       (ConflictException ''Cannot complete extension: A conflicting booking was confirmed concurrently.'')
       (let db = xs_db st;
            db1 = db\<lparr>db_bookings := update_where (\<lambda>r. bk_id r = bk_id b) (\<lambda>r. r\<lparr>bk_endDate := xt_requestedEndDate x, bk_updatedAt := now\<rparr>) (db_bookings db)\<rparr>;
            L = (if xe_ledger env then post_or_skip (recordJournal dec20 round2 now jid) (extension_journal x (bk_vendorId b)) (db_ledger db1)
                 else db_ledger db1)
        in Inr (st\<lparr>xs_db := db1\<lparr>db_ledger := L\<rparr>,
             xs_extensions := update_where (\<lambda>y. xt_id y = xt_id x) (\<lambda>y. y\<lparr>xt_status := EXT_CONFIRMED, xt_razorpayPaymentId := Some paymentId\<rparr>) (xs_extensions st)\<rparr>))"

datatype verification = AlreadyConfirmed | Extended id time

definition verifyExtensionPayment ::
  "'g ext_env \<Rightarrow> time \<Rightarrow> string \<Rightarrow> id \<Rightarrow> id \<Rightarrow> payment_details \<Rightarrow> id \<Rightarrow> 'g ext_state \<Rightarrow> (verification \<times> 'g ext_state) result" where
  "verifyExtensionPayment env now jid bookingId extensionId p customerId st =
     (case find_extension extensionId st of
        None \<Rightarrow> Inl (NotFoundException ''Trip extension record not found.'')
      | Some x \<Rightarrow>
          throw_if (xt_bookingId x \<noteq> bookingId) (NotFoundException ''Trip extension record not found.'')
          (case find_booking (xt_bookingId x) (xs_db st) of
             None \<Rightarrow> Inl (PrismaError ''P2003'')
           | Some b \<Rightarrow>
               throw_if (bk_customerId b \<noteq> customerId) (ForbiddenException ''Access denied: Unauthorized customer.'')
               (if xt_status x = EXT_CONFIRMED then Inr (AlreadyConfirmed, st)
                else
                  throw_if (xe_production env \<and> xe_useMock env) (BadRequestException ''Mock payment verification forbidden in production.'')
                  (throw_if (\<not> xe_useMock env \<and> \<not> ext_signature_ok env p) (BadRequestException ''Invalid payment signature verification.'')
                  (bindR (confirm_extension env now jid x b (pd_paymentId p) st) (\<lambda>st'.
                     Inr (Extended (xt_id x) (xt_requestedEndDate x), st')))))))"

definition getExtensionsForBooking :: "id \<Rightarrow> 'g ext_state \<Rightarrow> TripExtension list" where
  "getExtensionsForBooking bookingId st =
     sort_key (\<lambda>x. - xt_createdAt x) (filter (\<lambda>x. xt_bookingId x = bookingId) (xs_extensions st))"

end
