(* ===== verification/TripExtensionFacts.thy ===== *)
theory TripExtensionFacts
  imports TripExtensions
begin

text \<open>
  What a confirmed extension leaves: no car given to two bookings, the money of a quote booked to the
  cent, and nothing on a second confirmation.
\<close>

section \<open>The confirmation\<close>

lemma verify_Extended:
  assumes "verifyExtensionPayment env now jid bookingId xid p cid st = Inr (Extended i t, st')"
  shows "\<exists>x b. find_extension xid st = Some x \<and> xt_bookingId x = bookingId \<and> find_booking bookingId (xs_db st) = Some b \<and>
    bk_customerId b = cid \<and> xt_status x \<noteq> EXT_CONFIRMED \<and> (xe_useMock env \<or> ext_signature_ok env p) \<and> i = xt_id x \<and> t = xt_requestedEndDate x \<and>
    confirm_extension env now jid x b (pd_paymentId p) st = Inr st'"
  using assms
  by (auto simp: verifyExtensionPayment_def result_iffs split: option.splits if_splits)

lemma confirm_InrD:
  assumes "confirm_extension env now jid x b pid st = Inr st'"
  shows "conflicting_booking (bk_carId b) (bk_id b) (xt_currentEndDate x) (xt_requestedEndDate x) (xs_db st) = None \<and>
    db_bookings (xs_db st') = update_where (\<lambda>r. bk_id r = bk_id b) (\<lambda>r. r\<lparr>bk_endDate := xt_requestedEndDate x, bk_updatedAt := now\<rparr>) (db_bookings (xs_db st)) \<and>
    db_ledger (xs_db st') = (if xe_ledger env then post_or_skip (recordJournal dec20 round2 now jid) (extension_journal x (bk_vendorId b)) (db_ledger (xs_db st))
      else db_ledger (xs_db st)) \<and>
    xs_extensions st' = update_where (\<lambda>y. xt_id y = xt_id x) (\<lambda>y. y\<lparr>xt_status := EXT_CONFIRMED, xt_razorpayPaymentId := Some pid\<rparr>) (xs_extensions st)"
  using assms by (auto simp: confirm_extension_def throw_if_Inr_iff Let_def)

text \<open>
  An extension that was confirmed is not confirmed again: a second verification, with whatever
  payment, reports that and changes nothing.
\<close>

theorem extension_confirmed_once:
  assumes "verifyExtensionPayment env now jid bookingId xid p cid st = Inr (r, st')"
  shows "verifyExtensionPayment env now' jid' bookingId xid p' cid st' = Inr (AlreadyConfirmed, st')"
proof (cases r)
  case AlreadyConfirmed
  with assms have "st' = st" "\<exists>x b. find_extension xid st = Some x \<and> xt_bookingId x = bookingId \<and> find_booking bookingId (xs_db st) = Some b \<and>
      bk_customerId b = cid \<and> xt_status x = EXT_CONFIRMED"
    by (auto simp: verifyExtensionPayment_def result_iffs split: option.splits if_splits)
  then show ?thesis by (auto simp: verifyExtensionPayment_def)
next
  case (Extended i t)
  from verify_Extended [OF assms [unfolded this]] obtain x b where x: "find_extension xid st = Some x" "xt_bookingId x = bookingId"
    and b: "find_booking bookingId (xs_db st) = Some b" "bk_customerId b = cid"
    and c: "confirm_extension env now jid x b (pd_paymentId p) st = Inr st'" by blast
  note c' = confirm_InrD [OF c]
  have xid: "xt_id x = xid" using find_Some_D [OF x(1) [unfolded find_extension_def]] by simp
  have "find_extension xid st' = Some (x\<lparr>xt_status := EXT_CONFIRMED, xt_razorpayPaymentId := Some (pd_paymentId p)\<rparr>)"
    using x(1) xid c' unfolding find_extension_def by (simp add: find_update_where_key [of xt_id])
  moreover have "find_booking bookingId (xs_db st') = Some (b\<lparr>bk_endDate := xt_requestedEndDate x, bk_updatedAt := now\<rparr>)"
    using b(1) find_bookingD [OF b(1)] c' unfolding find_booking_def by (simp add: find_update_where_key [of bk_id])
  ultimately show ?thesis using x(2) b(2) by (simp add: verifyExtensionPayment_def)
qed

section \<open>The car\<close>

definition dates_in_order :: "bk_db \<Rightarrow> bool" where
  "dates_in_order db \<longleftrightarrow> (\<forall>b \<in> set (db_bookings db). bk_startDate b < bk_endDate b)"

text \<open>
  C26: when the extension was quoted from the present end of the booking, no other booking of the car is
  in the return, and no two bookings that hold a car overlap on it, confirming the extension keeps it so.
\<close>

theorem extension_keeps_the_car_free:
  assumes "verifyExtensionPayment env now jid bookingId xid p cid st = Inr (Extended i t, st')"
    and "find_extension xid st = Some x" "find_booking bookingId (xs_db st) = Some b" "xt_currentEndDate x = bk_endDate b"
    and "distinct (map bk_id (db_bookings (xs_db st)))" "dates_in_order (xs_db st)" "no_double_booking (xs_db st)"
    and "\<forall>r \<in> set (db_bookings (xs_db st)). bk_carId r = bk_carId b \<longrightarrow> bk_id r \<noteq> bk_id b \<longrightarrow> bk_status r \<noteq> BookingStatus.RETURN_PENDING"
  shows "no_double_booking (xs_db st')"
proof -
  from verify_Extended [OF assms(1)] assms(2,3) have c: "confirm_extension env now jid x b (pd_paymentId p) st = Inr st'" by auto
  let ?b = "b\<lparr>bk_endDate := xt_requestedEndDate x, bk_updatedAt := now\<rparr>"
  have b: "b \<in> set (db_bookings (xs_db st))" "bk_id b = bookingId" using find_bookingD [OF assms(3)] by simp_all
  have rows: "s = ?b \<or> s \<in> set (db_bookings (xs_db st)) \<and> bk_id s \<noteq> bk_id b" if "s \<in> set (db_bookings (xs_db st'))" for s
    using update_where_set_key [OF assms(5) b(1), of "\<lambda>r. r\<lparr>bk_endDate := xt_requestedEndDate x, bk_updatedAt := now\<rparr>" s] that confirm_InrD [OF c] by auto
  have free: "\<not> overlaps ?b r" if r: "r \<in> set (db_bookings (xs_db st))" "bk_id r \<noteq> bk_id b" "holds_car (bk_status r)" and h: "holds_car (bk_status b)" for r
  proof
    assume "overlaps ?b r"
    then have o': "bk_carId r = bk_carId b" "bk_startDate r < xt_requestedEndDate x" "bk_startDate b < bk_endDate r" by (auto simp: overlaps_def)
    have "blocks_extension (bk_status r)" using r o'(1) assms(8) by (auto simp: holds_car_def blocks_extension_def)
    with confirm_InrD [OF c] r(1,2) o'(1,2) have "bk_endDate r \<le> xt_currentEndDate x"
      by (auto simp: conflicting_booking_def find_None_iff_all)
    moreover have "bk_startDate r < bk_endDate r" using assms(6) r(1) by (simp add: dates_in_order_def)
    ultimately have "overlaps b r" using o' assms(4) by (simp add: overlaps_def)
    with assms(7) b(1) r h show False by (auto simp: no_double_booking_def)
  qed
  show ?thesis unfolding no_double_booking_def
  proof (intro ballI impI)
    fix a r assume ar: "a \<in> set (db_bookings (xs_db st'))" "r \<in> set (db_bookings (xs_db st'))" "bk_id a \<noteq> bk_id r"
      "holds_car (bk_status a)" "holds_car (bk_status r)"
    from rows [OF ar(1)] rows [OF ar(2)] ar(3-5) show "\<not> overlaps a r"
    proof (elim disjE)
      assume "a = ?b" "r = ?b"
      with ar(3) show ?thesis by simp
    next
      assume "a = ?b" "r \<in> set (db_bookings (xs_db st)) \<and> bk_id r \<noteq> bk_id b"
      with free [of r] ar show ?thesis by simp
    next
      assume "a \<in> set (db_bookings (xs_db st)) \<and> bk_id a \<noteq> bk_id b" "r = ?b"
      with free [of a] ar show ?thesis by (simp add: overlaps_sym [of a])
    next
      assume "a \<in> set (db_bookings (xs_db st)) \<and> bk_id a \<noteq> bk_id b" "r \<in> set (db_bookings (xs_db st)) \<and> bk_id r \<noteq> bk_id b"
      with assms(7) ar(3-5) show ?thesis by (simp add: no_double_booking_def)
    qed
  qed
qed

section \<open>The money of an extension\<close>

text \<open>What the row of an extension satisfies that was quoted for a price of whole cents.\<close>

definition row_money_ok :: "TripExtension \<Rightarrow> bool" where
  "row_money_ok x \<longleftrightarrow>
     (\<forall>y\<in>{xt_totalFare x, xt_netToVendor x, xt_platformFee x, xt_gstAmount x}. is_cents y \<and> 0 \<le> y \<and> y < 10 ^ 15) \<and>
     0 < xt_netToVendor x \<and> xt_netToVendor x + xt_gstAmount x \<le> xt_totalFare x"

lemma row_moneyD:
  assumes "row_money_ok x"
  shows "is_cents (xt_totalFare x)" "is_cents (xt_netToVendor x)" "is_cents (xt_platformFee x)" "is_cents (xt_gstAmount x)"
    "0 < xt_totalFare x" "0 < xt_netToVendor x" "0 \<le> xt_platformFee x" "0 \<le> xt_gstAmount x"
    "xt_totalFare x < 1000000000000000" "xt_netToVendor x < 1000000000000000" "xt_platformFee x < 1000000000000000"
    "xt_gstAmount x < 1000000000000000" "xt_netToVendor x + xt_gstAmount x \<le> xt_totalFare x"
  using assms by (auto simp: row_money_ok_def)

text \<open>The platform's part is the remainder: the quoted fee, with the rest of the rounding put on it.\<close>

lemma extension_fee_exact:
  assumes "row_money_ok x"
  shows "extension_fee x = xt_totalFare x - xt_netToVendor x - xt_gstAmount x"
proof -
  note m = row_moneyD [OF assms]
  let ?t = "xt_totalFare x" and ?n = "xt_netToVendor x" and ?f = "xt_platformFee x" and ?g = "xt_gstAmount x"
  have c: "is_cents (?n + ?f)" "is_cents (?n + ?f + ?g)" "is_cents (?t - (?n + ?f + ?g))" "is_cents (?f + (?t - (?n + ?f + ?g)))"
    using m(1-4) by (auto intro!: is_cents_add is_cents_diff)
  have e1: "dec20 (?n + ?f) = ?n + ?f" by (rule dec20_small [OF c(1)]) (use m in linarith)+
  have e2: "dec20 (?n + ?f + ?g) = ?n + ?f + ?g" by (rule dec20_small [OF c(2)]) (use m in linarith)+
  have e3: "dec20 (?t - (?n + ?f + ?g)) = ?t - (?n + ?f + ?g)" by (rule dec20_small [OF c(3)]) (use m in linarith)+
  have e4: "dec20 (?f + (?t - (?n + ?f + ?g))) = ?f + (?t - (?n + ?f + ?g))" by (rule dec20_small [OF c(4)]) (use m in linarith)+
  show ?thesis unfolding extension_fee_def Let_def e1 e2 e3 e4 by simp
qed

lemma ext_line_simps [simp]:
  "li_amount (ext_line b t ent s x text) = x"
  "line_side (ext_line b t ent s x text) = Some s"
  "li_accountType (ext_line b t ent s x text) = t"
  "li_accountEntityId (ext_line b t ent s x text) = ent"
  by (simp_all add: ext_line_def line_side_def)

lemma raw_lines_extension [simp]: "raw_lines (extension_journal x v) = extension_lines x v"
  by (simp add: raw_lines_def extension_journal_def)

lemma extension_journal_simps [simp]:
  "ji_vendorId (extension_journal x v) = Some v"
  "ji_idempotencyKey (extension_journal x v) = Some (''jrn_ext_verify_'' @ xt_id x)"
  by (simp_all add: extension_journal_def)

lemma extension_lines_exact:
  assumes "row_money_ok x"
  shows "\<forall>l\<in>set (extension_lines x v). valid_line l" "2 \<le> length (extension_lines x v)" "cents_journal (extension_journal x v)"
    "dsum dec20 0 (side_amounts LedgerEntrySide.DEBIT (extension_lines x v)) = dsum dec20 0 (side_amounts LedgerEntrySide.CREDIT (extension_lines x v))"
proof -
  note m = row_moneyD [OF assms] and a = extension_fee_exact [OF assms]
  let ?t = "xt_totalFare x" and ?n = "xt_netToVendor x" and ?g = "xt_gstAmount x" and ?ls = "extension_lines x v"
  have cf: "is_cents (?t - ?n - ?g)" using m(1-4) by (auto intro!: is_cents_diff)
  show v: "\<forall>l\<in>set ?ls. valid_line l" using m by (simp add: extension_lines_def a line_simps valid_line_def)
  show "2 \<le> length ?ls" by (simp add: extension_lines_def)
  have amounts: "\<forall>y\<in>set (map li_amount ?ls). is_cents y"
    using m cf by (auto simp: extension_lines_def a line_if_def)
  have "sum_list (map li_amount ?ls) < 10 ^ 17" using m by (simp add: extension_lines_def a line_simps)
  with amounts show c: "cents_journal (extension_journal x v)" by (simp add: cents_journal_def)
  have sums: "dsum dec20 0 (side_amounts s ?ls) = sum_list (side_amounts s ?ls)" for s
    using djs.dsum_side [OF c, of s] v by simp
  have "sum_list (side_amounts LedgerEntrySide.DEBIT ?ls) = ?t" "sum_list (side_amounts LedgerEntrySide.CREDIT ?ls) = ?t"
    using m by (simp_all add: extension_lines_def a line_simps)
  then show "dsum dec20 0 (side_amounts LedgerEntrySide.DEBIT ?ls) = dsum dec20 0 (side_amounts LedgerEntrySide.CREDIT ?ls)"
    by (simp only: sums)
qed

lemma extension_effect:
  assumes "row_money_ok x"
  shows "journal_effect (extension_journal x v) GATEWAY_CLEARING (Some ''RAZORPAY'') = xt_totalFare x"
    "journal_effect (extension_journal x v) VENDOR_PAYABLE (Some v) = xt_netToVendor x"
    "journal_effect (extension_journal x v) TAX_GST_LIABILITY None = xt_gstAmount x"
    "journal_effect (extension_journal x v) PLATFORM_COMMISSION_REVENUE None = xt_totalFare x - xt_netToVendor x - xt_gstAmount x"
  using extension_fee_exact [OF assms] row_moneyD [OF assms]
  by (auto simp: or_str_def journal_effect_def line_delta_def extension_lines_def line_if_def is_asset_account_def)

text \<open>
  C28: confirming an extension whose columns are in order books its money to the cent: the clearing
  account of the gateway gets the whole fare, the vendor what the quote promised, the tax office the GST,
  and the platform the rest, provided the keys of the journal are new to the ledger.
\<close>

theorem extension_money_booked:
  assumes "verifyExtensionPayment env now jid bookingId xid p cid st = Inr (Extended i t, st')"
    and "find_extension xid st = Some x" "find_booking bookingId (xs_db st) = Some b" "xe_ledger env" "row_money_ok x"
    and "keys_free (extension_journal x (bk_vendorId b)) (db_ledger (xs_db st))"
  shows "getAccountBalance GATEWAY_CLEARING (Some ''RAZORPAY'') (db_ledger (xs_db st')) =
       getAccountBalance GATEWAY_CLEARING (Some ''RAZORPAY'') (db_ledger (xs_db st)) + xt_totalFare x \<and>
     getVendorPayableBalance (bk_vendorId b) (db_ledger (xs_db st')) = getVendorPayableBalance (bk_vendorId b) (db_ledger (xs_db st)) + xt_netToVendor x \<and>
     getAccountBalance TAX_GST_LIABILITY None (db_ledger (xs_db st')) = getAccountBalance TAX_GST_LIABILITY None (db_ledger (xs_db st)) + xt_gstAmount x \<and>
     getAccountBalance PLATFORM_COMMISSION_REVENUE None (db_ledger (xs_db st')) =
       getAccountBalance PLATFORM_COMMISSION_REVENUE None (db_ledger (xs_db st)) + (xt_totalFare x - xt_netToVendor x - xt_gstAmount x)"
proof -
  from verify_Extended [OF assms(1)] assms(2,3) have "confirm_extension env now jid x b (pd_paymentId p) st = Inr st'" by auto
  then have L: "db_ledger (xs_db st') = post_or_skip (recordJournal dec20 round2 now jid) (extension_journal x (bk_vendorId b)) (db_ledger (xs_db st))"
    using confirm_InrD [of env now jid x b] assms(4) by auto
  note e = extension_lines_exact [OF assms(5), of "bk_vendorId b"]
  have "\<exists>r es. recordJournal dec20 round2 now jid (extension_journal x (bk_vendorId b)) (db_ledger (xs_db st)) = Inr (r, db_ledger (xs_db st) @ es) \<and>
    (\<forall>t ent. getAccountBalance t ent (db_ledger (xs_db st) @ es) = getAccountBalance t ent (db_ledger (xs_db st)) +
       journal_effect (extension_journal x (bk_vendorId b)) t ent) \<and>
    (\<forall>e\<in>set es. \<exists>i. le_idempotencyKey e = line_key (Some (''jrn_ext_verify_'' @ xt_id x)) i)"
    by (rule record_fresh [OF assms(6)]) (use e in simp_all)
  then show ?thesis
    using extension_effect [OF assms(5), of "bk_vendorId b"] by (auto simp: L post_or_skip_def getVendorPayableBalance_def)
qed

section \<open>A trip\<close>

definition demo_trip :: Booking where
  "demo_trip = demo_booking\<lparr>bk_status := BookingStatus.ONGOING, bk_startDate := 0, bk_endDate := 1000\<rparr>"

definition demo_ext :: TripExtension where
  "demo_ext = \<lparr>xt_id = ''x1'', xt_bookingId = bk_id demo_trip, xt_currentEndDate = 1000, xt_requestedEndDate = 2000,
     xt_extraDays = 1, xt_extraHours = 1, xt_baseFare = 1000, xt_platformFee = 100, xt_gstAmount = 180, xt_totalFare = 1180,
     xt_netToVendor = 900, xt_razorpayOrderId = Some ''o1'', xt_razorpayPaymentId = None, xt_status = PENDING_PAYMENT, xt_createdAt = 0\<rparr>"

definition demo_ext_env :: "unit ext_env" where
  "demo_ext_env = \<lparr>xe_useMock = False, xe_production = True, xe_keyId = Some ''k'', xe_keySecret = Some ''s'', xe_ledger = True,
     xe_commission = None, xe_rules = [], xe_trip = (\<lambda>_. \<lparr>ti_tripType = LOCAL, ti_carType = SEDAN, ti_pricePerHour = 100,
       ti_pricePerDay = 1000, ti_city = ''Pune'', ti_blockedDates = []\<rparr>), xe_hmac = (\<lambda>k m. m @ k), xe_order = (\<lambda>_ r g. (Inr r, g))\<rparr>"

definition demo_ext_state :: "unit ext_state" where
  "demo_ext_state = \<lparr>xs_db = demo_db\<lparr>db_bookings := [demo_trip]\<rparr>, xs_extensions = [demo_ext], xs_gateway = ()\<rparr>"

definition demo_paid :: payment_details where
  "demo_paid = \<lparr>pd_orderId = ''o1'', pd_paymentId = ''p1'', pd_signature = ''o1|p1s''\<rparr>"

lemma demo_extended:
  "\<exists>st'. verifyExtensionPayment demo_ext_env 5 ''j1'' (bk_id demo_trip) ''x1'' demo_paid (bk_customerId demo_trip) demo_ext_state =
     Inr (Extended ''x1'' 2000, st')"
  by (simp add: verifyExtensionPayment_def find_extension_def demo_ext_state_def demo_ext_def demo_trip_def demo_ext_env_def demo_paid_def
      find_booking_def ext_signature_ok_def confirm_extension_def or_string_def conflicting_booking_def Let_def)

lemma demo_ext_found:
  "find_extension ''x1'' demo_ext_state = Some demo_ext" "find_booking (bk_id demo_trip) (xs_db demo_ext_state) = Some demo_trip"
  "row_money_ok demo_ext" "xe_ledger demo_ext_env" "xt_currentEndDate demo_ext = bk_endDate demo_trip"
  using is_cents_of_int [of 1180] is_cents_of_int [of 900] is_cents_of_int [of 100] is_cents_of_int [of 180]
  by (simp_all add: find_extension_def demo_ext_state_def demo_ext_def find_booking_def row_money_ok_def demo_ext_env_def demo_trip_def)

lemma extension_confirmed_once_witness:
  "\<exists>st'. verifyExtensionPayment demo_ext_env 6 ''j2'' (bk_id demo_trip) ''x1'' demo_paid (bk_customerId demo_trip) st' = Inr (AlreadyConfirmed, st')"
proof -
  obtain st' where "verifyExtensionPayment demo_ext_env 5 ''j1'' (bk_id demo_trip) ''x1'' demo_paid (bk_customerId demo_trip) demo_ext_state =
     Inr (Extended ''x1'' 2000, st')" using demo_extended ..
  from extension_confirmed_once [OF this] show ?thesis by blast
qed

lemma extension_keeps_the_car_free_witness:
  "\<exists>st'. verifyExtensionPayment demo_ext_env 5 ''j1'' (bk_id demo_trip) ''x1'' demo_paid (bk_customerId demo_trip) demo_ext_state =
     Inr (Extended ''x1'' 2000, st') \<and> no_double_booking (xs_db st')"
proof -
  obtain st' where v: "verifyExtensionPayment demo_ext_env 5 ''j1'' (bk_id demo_trip) ''x1'' demo_paid (bk_customerId demo_trip) demo_ext_state =
     Inr (Extended ''x1'' 2000, st')" using demo_extended ..
  have "no_double_booking (xs_db st')"
    by (rule extension_keeps_the_car_free [OF v demo_ext_found(1,2,5)])
      (simp_all add: demo_ext_state_def dates_in_order_def no_double_booking_def demo_trip_def)
  with v show ?thesis by blast
qed

lemma extension_money_booked_witness:
  "\<exists>st'. verifyExtensionPayment demo_ext_env 5 ''j1'' (bk_id demo_trip) ''x1'' demo_paid (bk_customerId demo_trip) demo_ext_state =
     Inr (Extended ''x1'' 2000, st') \<and> getVendorPayableBalance (bk_vendorId demo_trip) (db_ledger (xs_db st')) = 900"
proof -
  obtain st' where v: "verifyExtensionPayment demo_ext_env 5 ''j1'' (bk_id demo_trip) ''x1'' demo_paid (bk_customerId demo_trip) demo_ext_state =
     Inr (Extended ''x1'' 2000, st')" using demo_extended ..
  have L: "db_ledger (xs_db demo_ext_state) = []" by (simp add: demo_ext_state_def demo_db_def)
  then have "keys_free (extension_journal demo_ext (bk_vendorId demo_trip)) (db_ledger (xs_db demo_ext_state))" by (simp add: keys_free_def)
  from extension_money_booked [OF v demo_ext_found(1,2,4,3) this] L v show ?thesis
    by (simp add: getVendorPayableBalance_def getAccountBalance_signed demo_ext_def)
qed

text \<open>
  The order that the client names is not compared with the order of the extension, and its status is only
  compared with CONFIRMED: a signed payment of any other order confirms, and so does one of an extension
  that was cancelled.
\<close>

lemma another_order_confirms:
  "\<exists>st'. verifyExtensionPayment demo_ext_env 5 ''j1'' (bk_id demo_trip) ''x1'' (demo_paid\<lparr>pd_orderId := ''o9'', pd_signature := ''o9|p1s''\<rparr>)
       (bk_customerId demo_trip) (demo_ext_state\<lparr>xs_extensions := [demo_ext\<lparr>xt_status := EXT_CANCELLED\<rparr>]\<rparr>) = Inr (Extended ''x1'' 2000, st')"
  by (simp add: verifyExtensionPayment_def find_extension_def demo_ext_state_def demo_ext_def demo_trip_def demo_ext_env_def demo_paid_def
      find_booking_def ext_signature_ok_def confirm_extension_def or_string_def conflicting_booking_def Let_def)

end
