(* ===== verification/Coupons.thy ===== *)
theory Coupons
  imports Payments
begin

text \<open>
  Coupons (\<open>coupons/coupons.service.ts\<close>): validation at checkout, the list of a customer's coupons, and
  administration. The payment of a booking redeems its coupon (\<open>use_coupon\<close>, in \<open>Payments\<close>); it sees the
  columns of a coupon that \<open>Coupon\<close> holds, which \<open>coupon_row\<close> extends to the whole row.
\<close>

datatype DiscountType = PERCENTAGE | FIXED

record coupon_row = Coupon +
  cn_code :: string
  cn_description :: "string option"
  cn_discountType :: DiscountType
  cn_discountValue :: rat
  cn_maxDiscountAmount :: "rat option"
  cn_minBookingAmount :: "rat option"
  cn_startDate :: "time option"
  cn_expiresAt :: "time option"
  cn_firstBookingOnly :: bool
  cn_city :: "string option"
  cn_tripType :: "TripType option"
  cn_carCategory :: "CarCategory option"
  cn_vendorId :: "id option"
  cn_branchId :: "id option"
  cn_minRentalDays :: "nat option"
  cn_stackable :: bool
  cn_createdAt :: time

text \<open>\<open>kd_vendors\<close> gives the city of each vendor, \<open>kd_customers\<close> the name of each user.\<close>

record coupon_db =
  kd_core :: bk_db
  kd_coupons :: "coupon_row list"
  kd_vendors :: "(id \<times> string) list"
  kd_branches :: "id list"
  kd_customers :: "(id \<times> string option) list"

text \<open>The tables as the payment of a booking sees them\<close>

definition checkout_db :: "coupon_db \<Rightarrow> bk_db" where
  "checkout_db st = (kd_core st)\<lparr>db_coupons := map Coupon.truncate (kd_coupons st)\<rparr>"

definition find_coupon :: "id \<Rightarrow> coupon_db \<Rightarrow> coupon_row option" where
  "find_coupon cid st = List.find (\<lambda>c. co_id c = cid) (kd_coupons st)"

definition find_code :: "string \<Rightarrow> coupon_db \<Rightarrow> coupon_row option" where
  "find_code code st = List.find (\<lambda>c. cn_code c = code) (kd_coupons st)"

definition norm_code :: "string \<Rightarrow> string" where
  "norm_code s = to_upper (trim s)"

definition usages_of :: "id \<Rightarrow> id \<Rightarrow> bk_db \<Rightarrow> nat" where
  "usages_of couponId customerId db = count_where (\<lambda>u. cu_couponId u = couponId \<and> cu_customerId u = customerId) (db_couponUsages db)"

definition customer_limit :: "('a) Coupon_scheme \<Rightarrow> nat" where
  "customer_limit c = (case co_perCustomerLimit c of None \<Rightarrow> 1 | Some n \<Rightarrow> n)"

definition used_up :: "('a) Coupon_scheme \<Rightarrow> bool" where
  "used_up c = (case co_globalUsageLimit c of None \<Rightarrow> False | Some n \<Rightarrow> co_usageCount c \<ge> n)"

section \<open>Validation\<close>

record ValidateCouponDto =
  vc_code :: string
  vc_carId :: "id option"
  vc_subtotal :: "rat option"
  vc_city :: "string option"
  vc_tripType :: "TripType option"
  vc_carCategory :: "CarCategory option"

record coupon_quote =
  cq_couponId :: id
  cq_code :: string
  cq_description :: "string option"
  cq_discountType :: DiscountType
  cq_discountValue :: rat
  cq_maxDiscountAmount :: "rat option"
  cq_minBookingAmount :: "rat option"
  cq_discountAmount :: rat
  cq_finalPayableAmount :: rat

definition earlier_booking :: "id \<Rightarrow> bk_db \<Rightarrow> bool" where
  "earlier_booking customerId db \<longleftrightarrow>
     count_where (\<lambda>b. bk_customerId b = customerId \<and>
       bk_status b \<in> {BookingStatus.CONFIRMED, BookingStatus.ONGOING, BookingStatus.COMPLETED}) (db_bookings db) > 0"

text \<open>The car of the request fills in the category and the city that the request leaves out.\<close>

definition car_context :: "ValidateCouponDto \<Rightarrow> coupon_db \<Rightarrow> CarCategory option \<times> string option" where
  "car_context dto st =
     (if str_truthy (vc_carId dto)
      then case find_car (the (vc_carId dto)) (kd_core st) of
             None \<Rightarrow> (vc_carCategory dto, vc_city dto)
           | Some c \<Rightarrow> (case vc_carCategory dto of None \<Rightarrow> Some (car_type c) | k \<Rightarrow> k,
                        or_str (vc_city dto) (map_of (kd_vendors st) (car_vendorId c)))
      else (vc_carCategory dto, vc_city dto))"

definition other_city :: "string option \<Rightarrow> string option \<Rightarrow> bool" where
  "other_city a b \<longleftrightarrow> str_truthy a \<and> str_truthy b \<and> to_lower (the a) \<noteq> to_lower (the b)"

definition differs :: "'a option \<Rightarrow> 'a option \<Rightarrow> bool" where
  "differs a b = (case (a, b) of (Some x, Some y) \<Rightarrow> x \<noteq> y | _ \<Rightarrow> False)"

definition raw_discount :: "coupon_row \<Rightarrow> rat \<Rightarrow> rat" where
  "raw_discount c subtotal =
     (case cn_discountType c of
        PERCENTAGE \<Rightarrow>
          let d = fl (fl (subtotal * fl (cn_discountValue c)) / 100)
          in (case cn_maxDiscountAmount c of None \<Rightarrow> d | Some m \<Rightarrow> min d (fl m))
      | FIXED \<Rightarrow> fl (cn_discountValue c))"

definition coupon_discount :: "coupon_row \<Rightarrow> rat \<Rightarrow> rat" where
  "coupon_discount c subtotal = js2 (min (raw_discount c subtotal) subtotal)"

definition quote_coupon :: "coupon_row \<Rightarrow> rat \<Rightarrow> coupon_quote" where
  "quote_coupon c subtotal =
     (let d = coupon_discount c subtotal
      in \<lparr>cq_couponId = co_id c, cq_code = cn_code c, cq_description = cn_description c, cq_discountType = cn_discountType c,
          cq_discountValue = fl (cn_discountValue c), cq_maxDiscountAmount = map_option fl (cn_maxDiscountAmount c),
          cq_minBookingAmount = map_option fl (cn_minBookingAmount c), cq_discountAmount = d,
          cq_finalPayableAmount = max 0 (fl (subtotal - d))\<rparr>)"

definition validateCoupon :: "time \<Rightarrow> id \<Rightarrow> ValidateCouponDto \<Rightarrow> coupon_db \<Rightarrow> coupon_quote result" where
  "validateCoupon now customerId dto st =
     (case find_code (norm_code (vc_code dto)) st of
        None \<Rightarrow> Inl (NotFoundException ''Invalid coupon code.'')
      | Some c \<Rightarrow>
          throw_if (\<not> co_isActive c) (BadRequestException ''This coupon is currently inactive.'')
         (throw_if (case cn_startDate c of None \<Rightarrow> False | Some t \<Rightarrow> t > now) (BadRequestException ''This coupon is not active yet.'')
         (throw_if (case cn_expiresAt c of None \<Rightarrow> False | Some t \<Rightarrow> t < now) (BadRequestException ''This coupon has expired.'')
         (throw_if (used_up c) (BadRequestException ''This coupon has reached its global usage limit.'')
         (throw_if (usages_of (co_id c) customerId (kd_core st) \<ge> customer_limit c)
            (BadRequestException ''You have reached the maximum redemptions for this coupon.'')
         (throw_if (cn_firstBookingOnly c \<and> earlier_booking customerId (kd_core st))
            (BadRequestException ''This coupon is valid for your first booking only.'')
         (let (category, city) = car_context dto st; subtotal = or_num (vc_subtotal dto) 0
          in throw_if (other_city (cn_city c) city) (BadRequestException ''This coupon is valid only in another city.'')
            (throw_if (differs (cn_tripType c) (vc_tripType dto)) (BadRequestException ''This coupon is valid only for other trips.'')
            (throw_if (differs (cn_carCategory c) category) (BadRequestException ''This coupon is valid only for other vehicles.'')
            (throw_if (case cn_minBookingAmount c of None \<Rightarrow> False | Some m \<Rightarrow> subtotal < fl m)
               (BadRequestException ''Booking amount is too low to use this coupon.'')
            (Inr (quote_coupon c subtotal))))))))))))"

section \<open>The coupons of a customer\<close>

definition offered :: "time \<Rightarrow> id \<Rightarrow> string option \<Rightarrow> bk_db \<Rightarrow> coupon_row \<Rightarrow> bool" where
  "offered now customerId city db c \<longleftrightarrow>
     co_isActive c \<and> (case cn_startDate c of None \<Rightarrow> True | Some t \<Rightarrow> t \<le> now) \<and> (case cn_expiresAt c of None \<Rightarrow> True | Some t \<Rightarrow> t \<ge> now) \<and>
     \<not> used_up c \<and> \<not> other_city (cn_city c) city \<and> \<not> usages_of (co_id c) customerId db \<ge> customer_limit c"

definition newest_first :: "coupon_row list \<Rightarrow> coupon_row list" where
  "newest_first cs = sort_key (\<lambda>c. - cn_createdAt c) cs"

definition as_numbers :: "coupon_row \<Rightarrow> coupon_row" where
  "as_numbers c = c\<lparr>cn_discountValue := fl (cn_discountValue c), cn_maxDiscountAmount := map_option fl (cn_maxDiscountAmount c),
     cn_minBookingAmount := map_option fl (cn_minBookingAmount c)\<rparr>"

definition getAvailableCoupons :: "time \<Rightarrow> id \<Rightarrow> string option \<Rightarrow> coupon_db \<Rightarrow> coupon_row list" where
  "getAvailableCoupons now customerId city st =
     map as_numbers (filter (offered now customerId city (kd_core st)) (newest_first (kd_coupons st)))"

section \<open>Administration\<close>

definition findAllAdmin :: "coupon_db \<Rightarrow> coupon_row list" where
  "findAllAdmin st =
     map (\<lambda>c. (as_numbers c)\<lparr>co_usageCount := count_where (\<lambda>u. cu_couponId u = co_id c) (db_couponUsages (kd_core st))\<rparr>)
       (newest_first (kd_coupons st))"

definition log_coupon :: "id \<Rightarrow> string \<Rightarrow> id \<Rightarrow> coupon_db \<Rightarrow> coupon_db" where
  "log_coupon admin action cid st =
     st\<lparr>kd_core := (kd_core st)\<lparr>db_audit := db_audit (kd_core st) @ [(admin, action, ''Coupon'', cid)]\<rparr>\<rparr>"

text \<open>The columns that refer to other tables, and the unique code\<close>

definition store_coupon :: "coupon_row \<Rightarrow> coupon_row list \<Rightarrow> coupon_db \<Rightarrow> unit result" where
  "store_coupon c others st =
     throw_if (cn_code c \<in> cn_code ` set others) (PrismaError ''P2002'')
    (throw_if (\<not> (case cn_vendorId c of None \<Rightarrow> True | Some v \<Rightarrow> v \<in> fst ` set (kd_vendors st))) (PrismaError ''P2003'')
    (throw_if (\<not> (case cn_branchId c of None \<Rightarrow> True | Some v \<Rightarrow> v \<in> set (kd_branches st))) (PrismaError ''P2003'')
    (Inr ())))"

record CreateCouponDto =
  cc_code :: string
  cc_description :: "string option"
  cc_discountType :: DiscountType
  cc_discountValue :: rat
  cc_maxDiscountAmount :: "rat option"
  cc_minBookingAmount :: "rat option"
  cc_startDate :: "time option"
  cc_expiresAt :: "time option"
  cc_isActive :: "bool option"
  cc_globalUsageLimit :: "nat option"
  cc_perCustomerLimit :: "nat option"
  cc_firstBookingOnly :: "bool option"
  cc_city :: "string option"
  cc_tripType :: "TripType option"
  cc_carCategory :: "CarCategory option"
  cc_vendorId :: "id option"
  cc_branchId :: "id option"
  cc_minRentalDays :: "nat option"
  cc_stackable :: "bool option"

text \<open>\<open>v ?? d\<close>\<close>

definition nullish :: "'a option \<Rightarrow> 'a \<Rightarrow> 'a" where
  "nullish v d = (case v of None \<Rightarrow> d | Some x \<Rightarrow> x)"

definition new_coupon :: "time \<Rightarrow> id \<Rightarrow> CreateCouponDto \<Rightarrow> coupon_row result" where
  "new_coupon now newId dto =
     bindR (num10 (cc_discountValue dto)) (\<lambda>v. bindR (opt10 (cc_maxDiscountAmount dto)) (\<lambda>cap. bindR (opt10 (cc_minBookingAmount dto)) (\<lambda>low.
       Inr \<lparr>co_id = newId, co_isActive = nullish (cc_isActive dto) True, co_globalUsageLimit = cc_globalUsageLimit dto,
         co_perCustomerLimit = Some (nullish (cc_perCustomerLimit dto) 1), co_usageCount = 0, cn_code = norm_code (cc_code dto),
         cn_description = cc_description dto, cn_discountType = cc_discountType dto, cn_discountValue = v,
         cn_maxDiscountAmount = cap, cn_minBookingAmount = low, cn_startDate = cc_startDate dto, cn_expiresAt = cc_expiresAt dto,
         cn_firstBookingOnly = nullish (cc_firstBookingOnly dto) False, cn_city = cc_city dto, cn_tripType = cc_tripType dto,
         cn_carCategory = cc_carCategory dto, cn_vendorId = cc_vendorId dto, cn_branchId = cc_branchId dto,
         cn_minRentalDays = cc_minRentalDays dto, cn_stackable = nullish (cc_stackable dto) False, cn_createdAt = now\<rparr>)))"

definition createCoupon :: "time \<Rightarrow> id \<Rightarrow> CreateCouponDto \<Rightarrow> id \<Rightarrow> coupon_db \<Rightarrow> (coupon_row \<times> coupon_db) result" where
  "createCoupon now newId dto admin st =
     throw_if (find_code (norm_code (cc_code dto)) st \<noteq> None) (BadRequestException ''A coupon with this code already exists.'')
     (bindR (new_coupon now newId dto) (\<lambda>c.
      bindR (store_coupon c (kd_coupons st) st) (\<lambda>_.
        Inr (c\<lparr>cn_discountValue := fl (cn_discountValue c)\<rparr>,
             log_coupon admin ''COUPON_CREATED'' newId (st\<lparr>kd_coupons := kd_coupons st @ [c]\<rparr>)))))"

text \<open>
  A patch: a property that is missing leaves the column, and the columns that may be null can be set
  to null.
\<close>

record UpdateCouponDto =
  uc_code :: "string option"
  uc_description :: "string option option"
  uc_discountType :: "DiscountType option"
  uc_discountValue :: "rat option"
  uc_maxDiscountAmount :: "rat option option"
  uc_minBookingAmount :: "rat option option"
  uc_startDate :: "time option option"
  uc_expiresAt :: "time option option"
  uc_isActive :: "bool option"
  uc_globalUsageLimit :: "nat option option"
  uc_perCustomerLimit :: "nat option option"
  uc_firstBookingOnly :: "bool option"
  uc_city :: "string option option"
  uc_tripType :: "TripType option option"
  uc_carCategory :: "CarCategory option option"
  uc_vendorId :: "id option option"
  uc_branchId :: "id option option"
  uc_minRentalDays :: "nat option option"
  uc_stackable :: "bool option"

definition patched_code :: "string option \<Rightarrow> string \<Rightarrow> string" where
  "patched_code v old = (case v of None \<Rightarrow> old | Some s \<Rightarrow> if s = [] then s else norm_code s)"

definition patch_money :: "rat option option \<Rightarrow> rat option \<Rightarrow> rat option result" where
  "patch_money v old = (case v of None \<Rightarrow> Inr old | Some x \<Rightarrow> opt10 x)"

definition patch_coupon :: "UpdateCouponDto \<Rightarrow> coupon_row \<Rightarrow> coupon_row result" where
  "patch_coupon dto c =
     bindR (case uc_discountValue dto of None \<Rightarrow> Inr (cn_discountValue c) | Some x \<Rightarrow> num10 x) (\<lambda>v.
     bindR (patch_money (uc_maxDiscountAmount dto) (cn_maxDiscountAmount c)) (\<lambda>cap.
     bindR (patch_money (uc_minBookingAmount dto) (cn_minBookingAmount c)) (\<lambda>low.
       Inr (c\<lparr>cn_code := patched_code (uc_code dto) (cn_code c), cn_description := nullish (uc_description dto) (cn_description c),
         cn_discountType := nullish (uc_discountType dto) (cn_discountType c), cn_discountValue := v,
         cn_maxDiscountAmount := cap, cn_minBookingAmount := low,
         cn_startDate := nullish (uc_startDate dto) (cn_startDate c), cn_expiresAt := nullish (uc_expiresAt dto) (cn_expiresAt c),
         co_isActive := nullish (uc_isActive dto) (co_isActive c),
         co_globalUsageLimit := nullish (uc_globalUsageLimit dto) (co_globalUsageLimit c),
         co_perCustomerLimit := nullish (uc_perCustomerLimit dto) (co_perCustomerLimit c),
         cn_firstBookingOnly := nullish (uc_firstBookingOnly dto) (cn_firstBookingOnly c),
         cn_city := nullish (uc_city dto) (cn_city c), cn_tripType := nullish (uc_tripType dto) (cn_tripType c),
         cn_carCategory := nullish (uc_carCategory dto) (cn_carCategory c), cn_vendorId := nullish (uc_vendorId dto) (cn_vendorId c),
         cn_branchId := nullish (uc_branchId dto) (cn_branchId c), cn_minRentalDays := nullish (uc_minRentalDays dto) (cn_minRentalDays c),
         cn_stackable := nullish (uc_stackable dto) (cn_stackable c)\<rparr>))))"

definition replace_coupon :: "coupon_row \<Rightarrow> coupon_db \<Rightarrow> coupon_db" where
  "replace_coupon c st = st\<lparr>kd_coupons := update_where (\<lambda>k. co_id k = co_id c) (\<lambda>_. c) (kd_coupons st)\<rparr>"

definition updateCoupon :: "id \<Rightarrow> UpdateCouponDto \<Rightarrow> id \<Rightarrow> coupon_db \<Rightarrow> (coupon_row \<times> coupon_db) result" where
  "updateCoupon cid dto admin st =
     (case find_coupon cid st of
        None \<Rightarrow> Inl (NotFoundException ''Coupon not found.'')
      | Some old \<Rightarrow>
          bindR (patch_coupon dto old) (\<lambda>c.
          bindR (store_coupon c (filter (\<lambda>k. co_id k \<noteq> cid) (kd_coupons st)) st) (\<lambda>_.
            Inr (c\<lparr>cn_discountValue := fl (cn_discountValue c)\<rparr>, log_coupon admin ''COUPON_UPDATED'' cid (replace_coupon c st)))))"

text \<open>Deleting a coupon deletes its usages and clears the column of its bookings.\<close>

definition deleteCoupon :: "id \<Rightarrow> id \<Rightarrow> coupon_db \<Rightarrow> coupon_db result" where
  "deleteCoupon cid admin st =
     (case find_coupon cid st of
        None \<Rightarrow> Inl (NotFoundException ''Coupon not found.'')
      | Some _ \<Rightarrow>
          (let db = kd_core st;
               db' = db\<lparr>db_couponUsages := filter (\<lambda>u. cu_couponId u \<noteq> cid) (db_couponUsages db),
                        db_bookings := update_where (\<lambda>b. bk_couponId b = Some cid) (\<lambda>b. b\<lparr>bk_couponId := None\<rparr>) (db_bookings db)\<rparr>
           in Inr (log_coupon admin ''COUPON_DELETED'' cid
                (st\<lparr>kd_core := db', kd_coupons := filter (\<lambda>c. co_id c \<noteq> cid) (kd_coupons st)\<rparr>))))"

definition toggleCouponStatus :: "id \<Rightarrow> bool \<Rightarrow> id \<Rightarrow> coupon_db \<Rightarrow> (coupon_row \<times> coupon_db) result" where
  "toggleCouponStatus cid active admin st =
     (case find_coupon cid st of
        None \<Rightarrow> Inl (NotFoundException ''Coupon not found.'')
      | Some old \<Rightarrow>
          (let c = old\<lparr>co_isActive := active\<rparr>
           in Inr (c\<lparr>cn_discountValue := fl (cn_discountValue c)\<rparr>,
                log_coupon admin (if active then ''COUPON_ACTIVATED'' else ''COUPON_DEACTIVATED'') cid (replace_coupon c st))))"

definition archiveCoupon :: "id \<Rightarrow> id \<Rightarrow> coupon_db \<Rightarrow> (coupon_row \<times> coupon_db) result" where
  "archiveCoupon cid admin st = toggleCouponStatus cid False admin st"

record usage_view =
  uv_discountAmount :: rat
  uv_customerId :: id
  uv_customerName :: string
  uv_bookingId :: id
  uv_bookingStatus :: "BookingStatus option"
  uv_bookingTotalFare :: rat
  uv_carName :: string

definition view_usage :: "coupon_db \<Rightarrow> CouponUsage \<Rightarrow> usage_view" where
  "view_usage st u =
     (let b = find_booking (cu_bookingId u) (kd_core st)
      in \<lparr>uv_discountAmount = fl (cu_discountAmount u), uv_customerId = cu_customerId u,
          uv_customerName = or_string (Option.bind (map_of (kd_customers st) (cu_customerId u)) (\<lambda>n. n)) ''Customer'',
          uv_bookingId = cu_bookingId u, uv_bookingStatus = map_option bk_status b,
          uv_bookingTotalFare = (case b of None \<Rightarrow> 0 | Some x \<Rightarrow> fl (bk_totalFare x)),
          uv_carName = (case Option.bind b (\<lambda>x. find_car (bk_carId x) (kd_core st)) of
             None \<Rightarrow> ''Vehicle'' | Some c \<Rightarrow> car_make c @ '' '' @ car_model c)\<rparr>)"

text \<open>A page of the redemptions, the latest first: the table keeps them in the order of their times.\<close>

definition getCouponUsages :: "id \<Rightarrow> nat option \<Rightarrow> nat option \<Rightarrow> coupon_db \<Rightarrow> (coupon_row \<times> nat \<times> usage_view list) result" where
  "getCouponUsages cid skip page st =
     (case find_coupon cid st of
        None \<Rightarrow> Inl (NotFoundException ''Coupon not found.'')
      | Some c \<Rightarrow>
          (let us = filter (\<lambda>u. cu_couponId u = cid) (db_couponUsages (kd_core st))
           in Inr (c\<lparr>cn_discountValue := fl (cn_discountValue c)\<rparr>, length us,
                map (view_usage st) (take (nullish page 50) (drop (nullish skip 0) (rev us))))))"

end
