(* ===== verification/CouponFacts.thy ===== *)
theory CouponFacts
  imports Coupons PaymentFacts
begin

text \<open>
  What a coupon is worth to the cent, that a validated coupon is redeemed by the payment, and the
  coupon tables as a transition system in which a coupon's counter is the number of its redemptions.
\<close>

section \<open>The discount\<close>

lemma js2_cents:
  assumes "0 \<le> x" "x \<le> 1000000000"
  shows "\<exists>d. js2 x = fl d \<and> is_cents d \<and> 0 \<le> d \<and> \<bar>d - x\<bar> \<le> 1 / 200 + 1 / 100000 \<and> (\<forall>c. is_cents c \<and> x \<le> c + 1 / 1000 \<longrightarrow> d \<le> c)"
proof -
  define r where "r = js_round (fl (x * 100))"
  have "\<bar>fl (x * 100) - x * 100\<bar> \<le> 100000000000 / 2 ^ 53" using assms by (intro js.flt_abs_err) simp
  also have "\<dots> \<le> (1 / 10000 :: rat)" by simp
  finally have e: "\<bar>fl (x * 100) - x * 100\<bar> \<le> 1 / 10000" .
  then have n: "\<bar>of_int r - x * 100\<bar> \<le> 1 / 2 + 1 / 10000" unfolding r_def js_round_def by linarith
  have "(- 1 :: rat) < of_int r" using n assms(1) by linarith
  then have "(of_int (- 1) :: rat) < of_int r" by simp
  then have r0: "0 \<le> r" by (simp only: of_int_less_iff)
  have le: "of_int r / 100 \<le> c" if c: "is_cents c" "x \<le> c + 1 / 1000" for c
  proof -
    obtain k :: int where k: "c = of_int k / 100" using c(1) is_cents_iff by blast
    have "x * 100 \<le> of_int k + 1 / 10" using c(2) unfolding k by linarith
    with n have "of_int r < (of_int k + 1 :: rat)" by linarith
    then have "of_int r < (of_int (k + 1) :: rat)" by (simp only: of_int_add of_int_1)
    then have "r \<le> k" by (simp only: of_int_less_iff) 
    then have "of_int r \<le> (of_int k :: rat)" by (simp only: of_int_le_iff)
    then show ?thesis unfolding k by linarith
  qed
  have near: "\<bar>of_int r / 100 - x\<bar> \<le> 1 / 200 + 1 / 100000" using n by linarith
  have r0': "(0 :: rat) \<le> of_int r / 100" using r0 by simp
  show ?thesis
  proof (rule exI [of _ "of_int r / 100"], intro conjI allI impI)
    show "js2 x = fl (of_int r / 100)" by (simp only: js2_def r_def)
    show "of_int r / 100 \<le> c" if "is_cents c \<and> x \<le> c + 1 / 1000" for c using le that by blast
  qed (fact is_cents_div r0' near)+
qed

lemma js2_fl:
  assumes "is_cents c" "0 \<le> c" "c < 10000000000"
  shows "js2 (fl c) = fl c"
  using paise_exact [OF assms] by (simp add: js2_def)

lemma cents_step: "is_cents x \<Longrightarrow> is_cents y \<Longrightarrow> x < y \<Longrightarrow> x + 1 / 100 \<le> y"
proof -
  assume "is_cents x" "is_cents y" and l: "x < y"
  then obtain n k :: int where n: "x = of_int n / 100" "y = of_int k / 100" unfolding is_cents_iff by blast
  with l have "n + 1 \<le> k" by simp
  then have "of_int (n + 1) \<le> (of_int k :: rat)" by (simp only: of_int_le_iff)
  with n show ?thesis by simp
qed

lemma min_fl:
  assumes "is_cents a" "is_cents b" "0 \<le> a" "0 \<le> b" "a < 10000000000" "b < 10000000000"
  shows "min (fl a) (fl b) = fl (min a b)"
proof -
  have gap: "fl x \<le> fl y" if "x \<le> y" "is_cents x" "is_cents y" "0 \<le> x" "y < 10000000000" for x y
  proof (cases "x = y")
    case False
    then have "x + 1 / 100 \<le> y" using that cents_step [of x y] by simp
    moreover have "\<bar>fl x - x\<bar> \<le> 1 / 800000" "\<bar>fl y - y\<bar> \<le> 1 / 800000" using that fl_small [of x] fl_small [of y] by auto
    ultimately show ?thesis by linarith
  qed simp
  show ?thesis using gap [of a b] gap [of b a] assms by (cases "a \<le> b") (auto simp: min_def)
qed

definition coupon_terms :: "coupon_row \<Rightarrow> bool" where
  "coupon_terms c \<longleftrightarrow> is_cents (cn_discountValue c) \<and> 0 \<le> cn_discountValue c \<and> cn_discountValue c < 10 ^ 8 \<and>
     (cn_discountType c = PERCENTAGE \<longrightarrow> cn_discountValue c \<le> 100) \<and>
     (\<forall>m. cn_maxDiscountAmount c = Some m \<longrightarrow> is_cents m \<and> 0 \<le> m \<and> m < 10 ^ 8)"

text \<open>What the coupon promises, in rupees\<close>

definition promised :: "coupon_row \<Rightarrow> rat \<Rightarrow> rat" where
  "promised c s =
     (case cn_discountType c of
        FIXED \<Rightarrow> min (cn_discountValue c) s
      | PERCENTAGE \<Rightarrow> (let d = s * cn_discountValue c / 100 in case cn_maxDiscountAmount c of None \<Rightarrow> d | Some m \<Rightarrow> min d m))"

lemma fl_le_small: "0 \<le> x \<Longrightarrow> x < 100000000 \<Longrightarrow> \<bar>fl x - x\<bar> \<le> 1 / 80000000"
proof -
  assume "0 \<le> x" "x < 100000000"
  then have "\<bar>fl x - x\<bar> \<le> 100000000 / 2 ^ 53" by (intro js.flt_abs_err) simp
  also have "\<dots> \<le> (1 / 80000000 :: rat)" by simp
  finally show ?thesis .
qed

lemma discount_cents:
  assumes "is_cents s" "0 \<le> s" "s < 10 ^ 8" "coupon_terms c"
  shows "\<exists>d. coupon_discount c (fl s) = fl d \<and> is_cents d \<and> 0 \<le> d \<and> d \<le> s \<and> \<bar>d - promised c s\<bar> \<le> 6 / 1000 \<and>
     (cn_discountType c = PERCENTAGE \<longrightarrow> (\<forall>m. cn_maxDiscountAmount c = Some m \<longrightarrow> d \<le> m))"
proof (cases "cn_discountType c")
  case FIXED
  let ?d = "min (cn_discountValue c) s"
  have v: "is_cents (cn_discountValue c)" "0 \<le> cn_discountValue c" "cn_discountValue c < 10 ^ 8"
    using assms(4) by (simp_all add: coupon_terms_def)
  have "min (fl (cn_discountValue c)) (fl s) = fl ?d" using v assms(1-3) by (intro min_fl) simp_all
  moreover have "js2 (fl ?d) = fl ?d" using v assms(1-3) by (intro js2_fl) (auto simp: min_def)
  ultimately show ?thesis using FIXED v assms(1,2)
    by (intro exI [of _ ?d]) (auto simp: coupon_discount_def raw_discount_def promised_def)
next
  case PERCENTAGE
  let ?v = "cn_discountValue c"
  have v: "0 \<le> ?v" "?v \<le> 100" using assms(4) PERCENTAGE by (simp_all add: coupon_terms_def)
  have fs: "\<bar>fl s - s\<bar> \<le> 1 / 80000000" using assms(2,3) by (intro fl_le_small) simp_all
  have fv: "\<bar>fl ?v - ?v\<bar> \<le> 1 / 80000000" using v by (intro fl_le_small) simp_all
  have v53: "\<bar>fl ?v - ?v\<bar> \<le> 100 / 2 ^ 53" using v by (intro js.flt_abs_err) simp
  have "s < 100000000" using assms(3) by simp
  then have up: "fl s \<le> 1000000000" "fl ?v \<le> 101" using fs fv v(2) by linarith+
  have b: "0 \<le> fl s" "fl s \<le> 1000000000" "0 \<le> fl ?v" "fl ?v \<le> 101" using js.flt_nonneg [of s] js.flt_nonneg [of ?v] v assms(2) up by simp_all
  have p: "\<bar>pct_of (fl s) (fl ?v) - fl s * fl ?v / 100\<bar> \<le> 1 / 10000" "0 \<le> pct_of (fl s) (fl ?v)"
    using pct_of_near [OF b] by simp_all
  have "\<bar>fl s * fl ?v - s * ?v\<bar> \<le> \<bar>fl s\<bar> * \<bar>fl ?v - ?v\<bar> + \<bar>?v\<bar> * \<bar>fl s - s\<bar>"
  proof -
    have "fl s * fl ?v - s * ?v = fl s * (fl ?v - ?v) + ?v * (fl s - s)" by (simp add: algebra_simps)
    then show ?thesis using abs_triangle_ineq [of "fl s * (fl ?v - ?v)" "?v * (fl s - s)"] by (simp only: abs_mult)
  qed
  also have "\<dots> \<le> 1000000000 * (100 / 2 ^ 53) + 100 * (1 / 80000000)"
    using b fs v v53 by (intro add_mono mult_mono) simp_all
  also have "\<dots> \<le> (1 / 10000 :: rat)" by simp
  finally have "\<bar>fl s * fl ?v / 100 - s * ?v / 100\<bar> \<le> 1 / 1000000" by linarith
  with p(1) have pn: "\<bar>pct_of (fl s) (fl ?v) - s * ?v / 100\<bar> \<le> 2 / 10000" by linarith
  define x where "x = min (raw_discount c (fl s)) (fl s)"
  have raw: "raw_discount c (fl s) = (case cn_maxDiscountAmount c of None \<Rightarrow> pct_of (fl s) (fl ?v) | Some m \<Rightarrow> min (pct_of (fl s) (fl ?v)) (fl m))"
    by (simp add: raw_discount_def PERCENTAGE pct_of_def Let_def split: option.split)
  have cap: "0 \<le> fl m \<and> is_cents m \<and> \<bar>fl m - m\<bar> \<le> 1 / 80000000 \<and> 0 \<le> m" if "cn_maxDiscountAmount c = Some m" for m
    using that assms(4) fl_le_small [of m] js.flt_nonneg [of m] by (simp add: coupon_terms_def)
  have sv: "s * ?v / 100 \<le> s" using v assms(2) mult_left_mono [of ?v 100 s] by simp
  have x0: "0 \<le> x" unfolding x_def raw using p(2) b(1) cap by (auto split: option.split)
  have xs: "x \<le> fl s" by (simp add: x_def)
  have xm: "x \<le> fl m" if "cn_maxDiscountAmount c = Some m" for m using that by (simp add: x_def raw)
  have xp: "\<bar>x - promised c s\<bar> \<le> 5 / 10000"
  proof (cases "cn_maxDiscountAmount c")
    case None
    then have "promised c s = s * ?v / 100" "x = min (pct_of (fl s) (fl ?v)) (fl s)"
      by (simp_all add: x_def raw promised_def PERCENTAGE Let_def)
    then show ?thesis using pn sv fs by linarith
  next
    case (Some m)
    then have "promised c s = min (s * ?v / 100) m" "x = min (min (pct_of (fl s) (fl ?v)) (fl m)) (fl s)"
      by (simp_all add: x_def raw promised_def PERCENTAGE Let_def)
    then show ?thesis using pn sv fs cap [OF Some] by linarith
  qed
  have "x \<le> 1000000000" using xs b(2) by linarith
  from js2_cents [OF x0 this] obtain d where d: "js2 x = fl d" "is_cents d" "0 \<le> d" "\<bar>d - x\<bar> \<le> 1 / 200 + 1 / 100000"
    "\<And>c. is_cents c \<Longrightarrow> x \<le> c + 1 / 1000 \<Longrightarrow> d \<le> c" by blast
  have "d \<le> s" using xs fs by (intro d(5) [OF assms(1)]) linarith
  moreover have "d \<le> m" if "cn_maxDiscountAmount c = Some m" for m
    using xm [OF that] cap [OF that] by (intro d(5)) (simp, linarith)
  moreover have "\<bar>d - promised c s\<bar> \<le> 6 / 1000" using d(4) xp by linarith
  ultimately show ?thesis using d(1-3) by (intro exI [of _ d]) (simp add: coupon_discount_def x_def)
qed

text \<open>
  C29: the discount of a validated coupon is a number of whole cents between nothing and the subtotal,
  within a rounding of what the coupon promises and never above the cap of a percentage, and the amount
  that remains to be paid is, to the cent, the subtotal without it.
\<close>

theorem coupon_discount_exact:
  assumes "validateCoupon now customerId dto st = Inr q" "find_code (norm_code (vc_code dto)) st = Some c" "coupon_terms c"
    and "vc_subtotal dto = Some (fl s)" "is_cents s" "0 \<le> s" "s < 10 ^ 8"
  shows "\<exists>d. cq_discountAmount q = fl d \<and> is_cents d \<and> 0 \<le> d \<and> d \<le> s \<and> \<bar>d - promised c s\<bar> \<le> 6 / 1000 \<and>
     (cn_discountType c = PERCENTAGE \<longrightarrow> (\<forall>m. cn_maxDiscountAmount c = Some m \<longrightarrow> d \<le> m)) \<and>
     round2 (cq_finalPayableAmount q) = s - d"
proof -
  have "or_num (Some (fl s)) 0 = fl s" by (simp add: or_num_def)
  then have q: "q = quote_coupon c (fl s)"
    using assms(1,2,4) by (auto simp: validateCoupon_def throw_if_Inr_iff split_beta Let_def)
  from discount_cents [OF assms(5-7,3)] obtain d where d: "coupon_discount c (fl s) = fl d" "is_cents d" "0 \<le> d" "d \<le> s"
    "\<bar>d - promised c s\<bar> \<le> 6 / 1000" "cn_discountType c = PERCENTAGE \<longrightarrow> (\<forall>m. cn_maxDiscountAmount c = Some m \<longrightarrow> d \<le> m)" by blast
  have "\<bar>fl (fl s - fl d) - (s - d)\<bar> \<le> 1 / 200000" using d assms(6,7) by (intro fl_diff_near) simp_all
  then have "\<bar>max 0 (fl (fl s - fl d)) - (s - d)\<bar> < 1 / 200" using d(4) by (simp add: max_def; linarith)
  then have "round2 (max 0 (fl (fl s - fl d))) = s - d" by (rule round2_to_cents [OF is_cents_diff [OF assms(5) d(2)]])
  with d show ?thesis by (intro exI [of _ d]) (simp add: q quote_coupon_def Let_def)
qed

section \<open>Redemption\<close>

lemma truncate_simps [simp]:
  "co_id (Coupon.truncate c) = co_id c" "co_isActive (Coupon.truncate c) = co_isActive c"
  "co_globalUsageLimit (Coupon.truncate c) = co_globalUsageLimit c" "co_perCustomerLimit (Coupon.truncate c) = co_perCustomerLimit c"
  "co_usageCount (Coupon.truncate c) = co_usageCount c"
  by (simp_all add: Coupon.truncate_def)

lemma truncate_limits [simp]:
  "used_up (Coupon.truncate c) = used_up c" "customer_limit (Coupon.truncate c) = customer_limit c"
  by (simp_all add: used_up_def customer_limit_def split: option.split)

lemma find_map_key: "List.find (\<lambda>c. k c = x) (map f t) = map_option f (List.find (\<lambda>c. k (f c) = x) t)"
  by (induction t) auto

lemma checkout_find [simp]:
  "List.find (\<lambda>c. co_id c = cid) (db_coupons (checkout_db st)) = map_option Coupon.truncate (find_coupon cid st)"
  by (simp add: checkout_db_def find_coupon_def find_map_key)

lemma checkout_usages [simp]: "db_couponUsages (checkout_db st) = db_couponUsages (kd_core st)"
  by (simp add: checkout_db_def)

definition usage_row :: "Booking \<Rightarrow> id \<Rightarrow> rat \<Rightarrow> CouponUsage" where
  "usage_row b cid d = \<lparr>cu_couponId = cid, cu_customerId = bk_customerId b, cu_bookingId = bk_id b, cu_discountAmount = d\<rparr>"

definition count_up :: "id \<Rightarrow> ('a) Coupon_scheme list \<Rightarrow> ('a) Coupon_scheme list" where
  "count_up cid cs = update_where (\<lambda>k. co_id k = cid) (\<lambda>k. k\<lparr>co_usageCount := co_usageCount k + 1\<rparr>) cs"

definition redeems :: "Booking \<Rightarrow> id \<Rightarrow> bk_db \<Rightarrow> bool" where
  "redeems b cid db \<longleftrightarrow> bk_couponId b = Some cid \<and> cid \<noteq> [] \<and> \<not> exists_where (\<lambda>u. cu_bookingId u = bk_id b) (db_couponUsages db)"

lemma use_coupon_cases:
  assumes "use_coupon b db = Inr db'"
  obtains (nothing) "db' = db" "\<And>cid. \<not> redeems b cid db"
  | (used) cid c d where "redeems b cid db" "List.find (\<lambda>c. co_id c = cid) (db_coupons db) = Some c" "co_isActive c" "\<not> used_up c"
      "usages_of cid (bk_customerId b) db < customer_limit c" "bk_discountAmount b = Some d"
      "db' = db\<lparr>db_coupons := count_up cid (db_coupons db), db_couponUsages := db_couponUsages db @ [usage_row b cid d]\<rparr>"
proof (cases "\<exists>cid. redeems b cid db")
  case False
  then have "\<not> (str_truthy (bk_couponId b) \<and> \<not> exists_where (\<lambda>u. cu_bookingId u = bk_id b) (db_couponUsages db))"
    by (auto simp: redeems_def str_truthy_def split: option.splits)
  with assms have "db' = db" unfolding use_coupon_def by (simp split: if_splits)
  moreover have "\<not> redeems b cid db" for cid using False by blast
  ultimately show thesis by (rule nothing)
next
  case True
  then obtain cid where r: "redeems b cid db" ..
  then have k: "bk_couponId b = Some cid" "cid \<noteq> []" "\<not> exists_where (\<lambda>u. cu_bookingId u = bk_id b) (db_couponUsages db)"
    by (simp_all add: redeems_def)
  obtain c where c: "List.find (\<lambda>c. co_id c = cid) (db_coupons db) = Some c"
    using assms k by (cases "List.find (\<lambda>c. co_id c = cid) (db_coupons db)") (simp_all add: use_coupon_def)
  obtain d where d: "bk_discountAmount b = Some d"
    using assms k c by (cases "bk_discountAmount b") (simp_all add: use_coupon_def throw_if_Inr_iff)
  show thesis
    by (rule used [OF r c _ _ _ d])
      (use assms k c d in \<open>simp_all add: use_coupon_def throw_if_Inr_iff used_up_def usages_of_def customer_limit_def count_up_def usage_row_def\<close>)
qed

lemma use_coupon_succeeds:
  assumes "redeems b cid db" "List.find (\<lambda>c. co_id c = cid) (db_coupons db) = Some c" "co_isActive c" "\<not> used_up c"
    "usages_of cid (bk_customerId b) db < customer_limit c" "bk_discountAmount b = Some d"
  shows "use_coupon b db = Inr (db\<lparr>db_coupons := count_up cid (db_coupons db), db_couponUsages := db_couponUsages db @ [usage_row b cid d]\<rparr>)"
  using assms by (simp add: redeems_def use_coupon_def used_up_def usages_of_def customer_limit_def count_up_def usage_row_def Let_def)

lemma validated_coupon:
  assumes "validateCoupon now customerId dto st = Inr q"
  obtains c where "find_code (norm_code (vc_code dto)) st = Some c" "cq_couponId q = co_id c" "co_isActive c" "\<not> used_up c"
    "usages_of (co_id c) customerId (kd_core st) < customer_limit c"
  using assms
  by (auto simp: validateCoupon_def throw_if_Inr_iff split_beta Let_def quote_coupon_def split: option.splits)

text \<open>
  A coupon that was validated for a customer is redeemed by the payment of a booking that carries
  it, as long as nothing happened in between: the payment is not refused for its sake, the redemption is
  recorded for this customer and booking, and the counter of this coupon, and of no other, goes up by one.
\<close>

theorem validated_coupon_is_redeemed:
  assumes "validateCoupon now (bk_customerId b) dto st = Inr q" and "distinct (map co_id (kd_coupons st))"
    and "redeems b (cq_couponId q) (kd_core st)" and "bk_discountAmount b = Some d"
  shows "\<exists>db'. use_coupon b (checkout_db st) = Inr db' \<and>
     db_couponUsages db' = db_couponUsages (kd_core st) @ [usage_row b (cq_couponId q) d] \<and>
     db_coupons db' = count_up (cq_couponId q) (map Coupon.truncate (kd_coupons st))"
proof -
  from validated_coupon [OF assms(1)] obtain c where c: "find_code (norm_code (vc_code dto)) st = Some c" "cq_couponId q = co_id c"
    "co_isActive c" "\<not> used_up c" "usages_of (co_id c) (bk_customerId b) (kd_core st) < customer_limit c" .
  have "c \<in> set (kd_coupons st)" using c(1) find_Some_D unfolding find_code_def by fastforce
  then have "find_coupon (co_id c) st = Some c" unfolding find_coupon_def by (rule find_key_unique [OF assms(2)]) simp
  then have "List.find (\<lambda>k. co_id k = cq_couponId q) (db_coupons (checkout_db st)) = Some (Coupon.truncate c)" using c(2) by simp
  moreover have "redeems b (cq_couponId q) (checkout_db st)" using assms(3) by (simp add: redeems_def)
  moreover have "usages_of (cq_couponId q) (bk_customerId b) (checkout_db st) < customer_limit (Coupon.truncate c)" "\<not> used_up (Coupon.truncate c)"
    using c by (simp_all add: usages_of_def)
  ultimately have "use_coupon b (checkout_db st) = Inr ((checkout_db st)\<lparr>db_coupons := count_up (cq_couponId q) (db_coupons (checkout_db st)),
      db_couponUsages := db_couponUsages (checkout_db st) @ [usage_row b (cq_couponId q) d]\<rparr>)"
    using c(3) assms(4) by (intro use_coupon_succeeds [where c = "Coupon.truncate c"]) simp_all
  then show ?thesis by (simp add: checkout_db_def)
qed

section \<open>The counters\<close>

text \<open>The payment of a booking on the coupon tables: the counters are written back into the whole rows.\<close>

definition redeem_coupon :: "Booking \<Rightarrow> coupon_db \<Rightarrow> coupon_db result" where
  "redeem_coupon b st =
     bindR (use_coupon b (checkout_db st)) (\<lambda>db.
       Inr (st\<lparr>kd_core := db\<lparr>db_coupons := db_coupons (kd_core st)\<rparr>,
         kd_coupons := map2 (\<lambda>c k. c\<lparr>co_usageCount := co_usageCount k\<rparr>) (kd_coupons st) (db_coupons db)\<rparr>))"

inductive coupon_step :: "coupon_db \<Rightarrow> coupon_db \<Rightarrow> bool" where
  created: "createCoupon now newId dto admin st = Inr (c, st') \<Longrightarrow> newId \<notin> co_id ` set (kd_coupons st) \<Longrightarrow> coupon_step st st'"
| updated: "updateCoupon cid patch admin st = Inr (c, st') \<Longrightarrow> coupon_step st st'"
| toggled: "toggleCouponStatus cid active admin st = Inr (c, st') \<Longrightarrow> coupon_step st st'"
| deleted: "deleteCoupon cid admin st = Inr st' \<Longrightarrow> coupon_step st st'"
| redeemed: "redeem_coupon b st = Inr st' \<Longrightarrow> coupon_step st st'"

inductive coupon_run :: "coupon_db \<Rightarrow> coupon_db \<Rightarrow> bool" where
  start: "coupon_run st st"
| next_step: "coupon_run st st1 \<Longrightarrow> coupon_step st1 st2 \<Longrightarrow> coupon_run st st2"

definition redemptions :: "id \<Rightarrow> coupon_db \<Rightarrow> nat" where
  "redemptions cid st = count_where (\<lambda>u. cu_couponId u = cid) (db_couponUsages (kd_core st))"

definition coupon_inv :: "coupon_db \<Rightarrow> bool" where
  "coupon_inv st \<longleftrightarrow> distinct (map co_id (kd_coupons st)) \<and> distinct (map cn_code (kd_coupons st)) \<and>
     (\<forall>u \<in> set (db_couponUsages (kd_core st)). cu_couponId u \<in> co_id ` set (kd_coupons st)) \<and>
     distinct (map cu_bookingId (db_couponUsages (kd_core st))) \<and>
     (\<forall>c \<in> set (kd_coupons st). co_usageCount c = redemptions (co_id c) st)"

lemma log_coupon_simps [simp]:
  "kd_coupons (log_coupon a b c st) = kd_coupons st" "db_couponUsages (kd_core (log_coupon a b c st)) = db_couponUsages (kd_core st)"
  by (simp_all add: log_coupon_def)

lemma count_where_append: "count_where p (xs @ ys) = count_where p xs + count_where p ys"
  by (simp add: count_where_def)

lemma redeem_rows:
  "map2 (\<lambda>c k. c\<lparr>co_usageCount := co_usageCount k\<rparr>) cs (count_up cid (map Coupon.truncate cs)) = count_up cid (cs :: coupon_row list)"
  by (induction cs) (simp_all add: count_up_def)

lemma redeem_rows_id: "map2 (\<lambda>c k. c\<lparr>co_usageCount := co_usageCount k\<rparr>) cs (map Coupon.truncate cs) = (cs :: coupon_row list)"
  by (induction cs) simp_all

lemma redeem_inv:
  assumes "redeem_coupon b st = Inr st'" "coupon_inv st"
  shows "coupon_inv st'"
proof -
  from assms(1) obtain db where u: "use_coupon b (checkout_db st) = Inr db"
    and st': "st' = st\<lparr>kd_core := db\<lparr>db_coupons := db_coupons (kd_core st)\<rparr>,
         kd_coupons := map2 (\<lambda>c k. c\<lparr>co_usageCount := co_usageCount k\<rparr>) (kd_coupons st) (db_coupons db)\<rparr>"
    by (auto simp: redeem_coupon_def bindR_Inr_iff)
  from u show ?thesis
  proof (cases rule: use_coupon_cases)
    case nothing
    then have "st' = st" using st' by (simp add: checkout_db_def redeem_rows_id)
    with assms(2) show ?thesis by simp
  next
    case (used cid c d)
    have db: "kd_coupons st' = count_up cid (kd_coupons st)" "db_couponUsages (kd_core st') = db_couponUsages (kd_core st) @ [usage_row b cid d]"
      using st' used(7) by (simp_all add: checkout_db_def redeem_rows)
    have ids: "map co_id (count_up cid (kd_coupons st)) = map co_id (kd_coupons st)"
      "map cn_code (count_up cid (kd_coupons st)) = map cn_code (kd_coupons st)"
      by (simp_all add: count_up_def update_where_map_key)
    then have set: "co_id ` set (count_up cid (kd_coupons st)) = co_id ` set (kd_coupons st)" by (metis image_set)
    have "cid \<in> co_id ` set (kd_coupons st)" using used(2) by (auto simp: find_coupon_def dest!: find_Some_D)
    moreover have "bk_id b \<notin> cu_bookingId ` set (db_couponUsages (kd_core st))"
      using used(1) by (auto simp: redeems_def exists_where_iff)
    moreover have "redemptions x st' = redemptions x st + (if x = cid then 1 else 0)" for x
      by (simp add: redemptions_def db count_where_append) (simp add: usage_row_def count_where_def)
    then have "\<forall>k \<in> set (kd_coupons st'). co_usageCount k = redemptions (co_id k) st'"
      using assms(2) by (auto simp: coupon_inv_def db(1) count_up_def set_update_where)
    ultimately show ?thesis using assms(2) set ids db by (auto simp: coupon_inv_def usage_row_def)
  qed
qed

lemma replaced_inv:
  assumes "coupon_inv st" "find_coupon cid st = Some old" "co_id c = cid" "co_usageCount c = co_usageCount old"
    "cn_code c = cn_code old \<or> cn_code c \<notin> cn_code ` set (filter (\<lambda>k. co_id k \<noteq> cid) (kd_coupons st))"
  shows "coupon_inv (replace_coupon c st)"
proof -
  have old: "old \<in> set (kd_coupons st)" "co_id old = cid" using assms(2) by (auto simp: find_coupon_def dest!: find_Some_D)
  have d: "distinct (map co_id (kd_coupons st))" "distinct (map cn_code (kd_coupons st))" using assms(1) by (simp_all add: coupon_inv_def)
  have other: "cn_code c \<notin> cn_code ` set (filter (\<lambda>k. co_id k \<noteq> cid) (kd_coupons st))"
    using assms(5) old d(2) by (auto simp: distinct_map inj_on_def)
  have "distinct (map cn_code (update_where (\<lambda>k. co_id k = cid) (\<lambda>_. c) cs))"
    if "distinct (map co_id cs)" "distinct (map cn_code cs)" "cn_code c \<notin> cn_code ` set (filter (\<lambda>k. co_id k \<noteq> cid) cs)" for cs
    using that
  proof (induction cs)
    case (Cons k cs)
    show ?case
    proof (cases "co_id k = cid")
      case True
      with Cons.prems(1) have "cid \<notin> co_id ` set cs" by simp
      then have "\<forall>r \<in> set cs. co_id r \<noteq> cid" by blast
      then have "update_where (\<lambda>k. co_id k = cid) (\<lambda>_. c) cs = cs" "filter (\<lambda>k. co_id k \<noteq> cid) cs = cs"
        by (simp_all add: update_where_none)
      with True Cons.prems show ?thesis by simp
    next
      case False
      then have "cn_code k \<notin> cn_code ` set (update_where (\<lambda>k. co_id k = cid) (\<lambda>_. c) cs)"
        using Cons.prems by (auto simp: set_update_where)
      with False Cons show ?thesis by simp
    qed
  qed simp
  from this [OF d other] have codes: "distinct (map cn_code (update_where (\<lambda>k. co_id k = cid) (\<lambda>_. c) (kd_coupons st)))" .
  have ids: "map co_id (update_where (\<lambda>k. co_id k = cid) (\<lambda>_. c) (kd_coupons st)) = map co_id (kd_coupons st)"
    using assms(3) by (intro update_where_map_key) simp
  then have set: "co_id ` set (update_where (\<lambda>k. co_id k = cid) (\<lambda>_. c) (kd_coupons st)) = co_id ` set (kd_coupons st)" by (metis image_set)
  show ?thesis using assms(1,3,4) old codes ids set
    by (auto simp: coupon_inv_def replace_coupon_def redemptions_def set_update_where split: if_splits)
qed

lemma log_inv [simp]: "coupon_inv (log_coupon a b c st) \<longleftrightarrow> coupon_inv st"
  by (simp add: coupon_inv_def redemptions_def)

lemma coupon_step_inv: "coupon_step st st' \<Longrightarrow> coupon_inv st \<Longrightarrow> coupon_inv st'"
proof (induction rule: coupon_step.induct)
  case (created now newId dto admin st c st')
  then obtain k where k: "new_coupon now newId dto = Inr k" "store_coupon k (kd_coupons st) st = Inr ()"
    "st' = log_coupon admin ''COUPON_CREATED'' newId (st\<lparr>kd_coupons := kd_coupons st @ [k]\<rparr>)"
    by (auto simp: createCoupon_def result_iffs)
  have "co_id k = newId" "co_usageCount k = 0" using k(1) by (auto simp: new_coupon_def result_iffs)
  moreover have "redemptions newId st = 0" using created(2,3) by (auto simp: redemptions_def count_where_0_iff coupon_inv_def)
  moreover have "cn_code k \<notin> cn_code ` set (kd_coupons st)" using k(2) by (auto simp: store_coupon_def throw_if_Inr_iff)
  ultimately show ?case using created(2,3) k(3) by (auto simp: coupon_inv_def redemptions_def)
next
  case (updated cid patch admin st c st')
  then obtain old k where k: "find_coupon cid st = Some old" "patch_coupon patch old = Inr k"
    "store_coupon k (filter (\<lambda>k. co_id k \<noteq> cid) (kd_coupons st)) st = Inr ()" "st' = log_coupon admin ''COUPON_UPDATED'' cid (replace_coupon k st)"
    by (auto simp: updateCoupon_def result_iffs split: option.splits)
  have "co_id k = co_id old" "co_usageCount k = co_usageCount old" using k(2) by (auto simp: patch_coupon_def result_iffs)
  moreover have "co_id old = cid" using k(1) by (auto simp: find_coupon_def dest!: find_Some_D)
  moreover have "cn_code k \<notin> cn_code ` set (filter (\<lambda>k. co_id k \<noteq> cid) (kd_coupons st))"
    using k(3) by (simp only: store_coupon_def throw_if_Inr_iff not_False_eq_True)
  ultimately show ?case using replaced_inv [OF updated(2) k(1)] k(4) by simp
next
  case (toggled cid active admin st c st')
  then obtain old where o': "find_coupon cid st = Some old"
    "st' = log_coupon admin (if active then ''COUPON_ACTIVATED'' else ''COUPON_DEACTIVATED'') cid (replace_coupon (old\<lparr>co_isActive := active\<rparr>) st)"
    by (auto simp: toggleCouponStatus_def Let_def split: option.splits)
  moreover have "co_id old = cid" using o'(1) by (auto simp: find_coupon_def dest!: find_Some_D)
  ultimately show ?case using replaced_inv [OF toggled(2) o'(1), of "old\<lparr>co_isActive := active\<rparr>"] by simp
next
  case (deleted cid admin st st')
  then have st': "kd_coupons st' = filter (\<lambda>c. co_id c \<noteq> cid) (kd_coupons st)"
    "db_couponUsages (kd_core st') = filter (\<lambda>u. cu_couponId u \<noteq> cid) (db_couponUsages (kd_core st))"
    by (auto simp: deleteCoupon_def Let_def split: option.splits)
  have "redemptions x st' = redemptions x st" if "x \<noteq> cid" for x
  proof -
    have f: "filter (\<lambda>u. cu_couponId u = x) (filter (\<lambda>u. cu_couponId u \<noteq> cid) us) = filter (\<lambda>u. cu_couponId u = x) us" for us
      unfolding filter_filter using that by (intro filter_cong) auto
    show ?thesis by (simp only: redemptions_def count_where_def st' f)
  qed
  then show ?case using deleted(2) by (auto simp: coupon_inv_def st' distinct_map_filter)
next
  case (redeemed b st st')
  then show ?case using redeem_inv by blast
qed

text \<open>
  C27: whatever administrators do to coupons (create, change, activate, archive, delete) and whatever
  bookings are paid, in every reachable state the ids and the codes of the coupons are unique, a booking
  redeems one coupon at most, every redemption belongs to a coupon, and the counter that the global limit
  is checked against is the number of the coupon's redemptions.
\<close>

theorem coupon_counters_exact:
  assumes "coupon_run st st'" "coupon_inv st"
  shows "coupon_inv st'"
  using assms by (induction rule: coupon_run.induct) (simp_all add: coupon_step_inv)

section \<open>A coupon\<close>

definition demo_coupon :: coupon_row where
  "demo_coupon = \<lparr>co_id = ''k1'', co_isActive = True, co_globalUsageLimit = Some 5, co_perCustomerLimit = Some 1, co_usageCount = 0,
     cn_code = ''SAVE10'', cn_description = None, cn_discountType = PERCENTAGE, cn_discountValue = 10,
     cn_maxDiscountAmount = Some 200, cn_minBookingAmount = None, cn_startDate = None, cn_expiresAt = Some 1000,
     cn_firstBookingOnly = False, cn_city = Some ''Pune'', cn_tripType = None, cn_carCategory = None, cn_vendorId = None,
     cn_branchId = None, cn_minRentalDays = None, cn_stackable = False, cn_createdAt = 0\<rparr>"

definition demo_coupons :: coupon_db where
  "demo_coupons = \<lparr>kd_core = demo_db, kd_coupons = [demo_coupon], kd_vendors = [(''v1'', ''Pune'')], kd_branches = [], kd_customers = []\<rparr>"

definition demo_request :: ValidateCouponDto where
  "demo_request = \<lparr>vc_code = '' save10 '', vc_carId = Some ''c1'', vc_subtotal = Some (fl 1500), vc_city = None, vc_tripType = None,
     vc_carCategory = None\<rparr>"

lemma demo_code: "norm_code (vc_code demo_request) = ''SAVE10''"
  by (simp add: demo_request_def) code_simp

lemma demo_coupon_found: "find_code (norm_code (vc_code demo_request)) demo_coupons = Some demo_coupon"
  unfolding demo_code by (simp add: find_code_def demo_coupons_def demo_coupon_def)

lemma demo_validated: "\<exists>q. validateCoupon 5 (bk_customerId demo_booking) demo_request demo_coupons = Inr q \<and> cq_couponId q = ''k1''"
  unfolding validateCoupon_def demo_coupon_found
  by (simp add: demo_coupons_def demo_coupon_def used_up_def usages_of_def count_where_def demo_db_def customer_limit_def
      car_context_def demo_request_def find_car_def demo_car_def or_str_def other_city_def differs_def quote_coupon_def Let_def)

lemma coupon_discount_exact_witness:
  "\<exists>q d. validateCoupon 5 (bk_customerId demo_booking) demo_request demo_coupons = Inr q \<and> cq_discountAmount q = fl d \<and>
     \<bar>d - 150\<bar> \<le> 6 / 1000 \<and> round2 (cq_finalPayableAmount q) = 1500 - d"
proof -
  obtain q where q: "validateCoupon 5 (bk_customerId demo_booking) demo_request demo_coupons = Inr q" using demo_validated by blast
  have t: "coupon_terms demo_coupon"
    using is_cents_of_int [of 10] is_cents_of_int [of 200] by (simp add: coupon_terms_def demo_coupon_def)
  have s: "vc_subtotal demo_request = Some (fl 1500)" "is_cents 1500" using is_cents_of_int [of 1500] by (simp_all add: demo_request_def)
  have "promised demo_coupon 1500 = 150" by (simp add: promised_def demo_coupon_def)
  with coupon_discount_exact [OF q demo_coupon_found t s] q show ?thesis by auto
qed

lemma validated_coupon_is_redeemed_witness:
  "\<exists>db'. use_coupon (demo_booking\<lparr>bk_couponId := Some ''k1'', bk_discountAmount := Some 150\<rparr>) (checkout_db demo_coupons) = Inr db' \<and>
     length (db_couponUsages db') = 1"
proof -
  let ?b = "demo_booking\<lparr>bk_couponId := Some ''k1'', bk_discountAmount := Some 150\<rparr>"
  obtain q where q: "validateCoupon 5 (bk_customerId demo_booking) demo_request demo_coupons = Inr q" "cq_couponId q = ''k1''"
    using demo_validated by blast
  have r: "redeems ?b (cq_couponId q) (kd_core demo_coupons)"
    by (simp add: redeems_def q(2) demo_coupons_def demo_db_def exists_where_def)
  have v: "validateCoupon 5 (bk_customerId ?b) demo_request demo_coupons = Inr q" "distinct (map co_id (kd_coupons demo_coupons))"
    "bk_discountAmount ?b = Some 150" using q(1) by (simp_all add: demo_coupons_def)
  have "db_couponUsages (kd_core demo_coupons) = []" by (simp add: demo_coupons_def demo_db_def)
  with validated_coupon_is_redeemed [OF v(1,2) r v(3)] show ?thesis by auto
qed

lemma coupon_counters_exact_witness:
  "\<exists>st. coupon_run demo_coupons st \<and> coupon_inv st \<and> kd_coupons st = []"
proof -
  obtain st where d: "deleteCoupon ''k1'' ''a'' demo_coupons = Inr st" "kd_coupons st = []"
    by (simp add: deleteCoupon_def find_coupon_def demo_coupons_def demo_coupon_def Let_def)
  have i: "coupon_inv demo_coupons"
    by (simp add: coupon_inv_def demo_coupons_def demo_coupon_def redemptions_def demo_db_def count_where_def)
  have r: "coupon_run demo_coupons st" by (rule coupon_run.next_step [OF coupon_run.start coupon_step.deleted [OF d(1)]])
  from coupon_counters_exact [OF r i] r d(2) show ?thesis by blast
qed

end
