(* ===== verification/JsObject.thy ===== *)
theory JsObject
  imports JsNumber "HOL-Library.AList"
begin

text \<open>
  JavaScript objects as the operations engines use them: spread, assignment of a property, access along
  a dotted path and \<open>===\<close>. An object is the list of its own properties in insertion order; properties
  that every object inherits (\<open>constructor\<close> and so on) are not modelled. \<open>None\<close> is \<open>undefined\<close>. Also
  here: \<open>Map.set\<close>, \<open>String.includes\<close>, \<open>String.split\<close>, \<open>toISOString\<close> and the buffer that keeps the
  last \<open>n\<close> elements.
\<close>

type_synonym object = "(string \<times> json) list"

section \<open>Objects\<close>

text \<open>\<open>o[k] = v\<close>; a property set to \<open>undefined\<close> reads like one that is missing.\<close>

definition put :: "string \<Rightarrow> json option \<Rightarrow> object \<Rightarrow> object" where
  "put k v fs = (case v of Some j \<Rightarrow> AList.update k j fs | None \<Rightarrow> AList.delete k fs)"

text \<open>\<open>{...a, ...b}\<close> and \<open>Object.assign(a, b)\<close>\<close>

definition spread :: "object \<Rightarrow> object \<Rightarrow> object" where
  "spread a b = fold (\<lambda>(k, v). put k (Some v)) b a"

text \<open>The properties of a value that is spread.\<close>

definition members :: "json \<Rightarrow> object" where
  "members j = (case j of JObj fs \<Rightarrow> fs | _ \<Rightarrow> [])"

definition opt_str :: "string option \<Rightarrow> json option" where
  "opt_str = map_option JStr"

definition as_str :: "json option \<Rightarrow> string option" where
  "as_str j = (case j of Some (JStr s) \<Rightarrow> Some s | _ \<Rightarrow> None)"

lemma map_of_put [simp]: "map_of (put k v fs) x = (if x = k then v else map_of fs x)"
  by (cases v) (auto simp: put_def update_conv' delete_conv')

lemma map_of_spread: "map_of (spread a b) x = (case map_of (rev b) x of Some v \<Rightarrow> Some v | None \<Rightarrow> map_of a x)"
proof -
  have "map_of (fold (\<lambda>(k, v). put k (Some v)) b a) x = (map_of a ++ map_of (rev b)) x"
  proof (induction b arbitrary: a)
    case Nil
    show ?case by simp
  next
    case (Cons kv b)
    obtain k v where kv: "kv = (k, v)" by fastforce
    show ?case by (simp only: fold_simps kv prod.case o_apply Cons.IH) (auto simp: map_add_def split: option.splits)
  qed
  then show ?thesis by (simp add: spread_def map_add_def)
qed

section \<open>Paths\<close>

fun split_on :: "char \<Rightarrow> string \<Rightarrow> string list" where
  "split_on c [] = [[]]"
| "split_on c (x # xs) =
     (if x = c then [] # split_on c xs
      else case split_on c xs of [] \<Rightarrow> [[x]] | y # ys \<Rightarrow> (x # y) # ys)"

text \<open>\<open>current[part]\<close>: objects by key, strings and arrays by \<open>length\<close> or index.\<close>

definition element :: "string \<Rightarrow> json list \<Rightarrow> json option" where
  "element p xs =
     (if p = ''length'' then Some (JNum (of_nat (length xs)))
      else map_option (\<lambda>i. xs ! i) (List.find (\<lambda>i. show_nat i = p) [0..<length xs]))"

definition property :: "string \<Rightarrow> json \<Rightarrow> json option" where
  "property p j =
     (case j of
        JObj fs \<Rightarrow> map_of fs p
      | JArr xs \<Rightarrow> element p xs
      | JStr s \<Rightarrow> element p (map (\<lambda>c. JStr [c]) s)
      | _ \<Rightarrow> None)"

fun walk :: "string list \<Rightarrow> json option \<Rightarrow> json option" where
  "walk [] current = current"
| "walk (p # ps) current =
     (case current of None \<Rightarrow> None | Some JNull \<Rightarrow> None | Some j \<Rightarrow> walk ps (property p j))"

text \<open>\<open>extractFieldValue(obj, path)\<close> of the engines, for an object\<close>

definition extractFieldValue :: "object \<Rightarrow> string option \<Rightarrow> json option" where
  "extractFieldValue obj p = (if \<not> str_truthy p then None else walk (split_on (CHR ''.'') (the p)) (Some (JObj obj)))"

lemma split_on_simple: "c \<notin> set s \<Longrightarrow> split_on c s = [s]"
  by (induction s) auto

lemma extract_simple: "p \<noteq> [] \<Longrightarrow> CHR ''.'' \<notin> set p \<Longrightarrow> extractFieldValue obj (Some p) = map_of obj p"
  by (simp add: extractFieldValue_def split_on_simple property_def)

text \<open>\<open>===\<close>; two arrays or objects are equal only when they are the same one, which a value of a
  configuration and a value of an event never are.\<close>

fun strict_eq :: "json option \<Rightarrow> json option \<Rightarrow> bool" where
  "strict_eq (Some (JArr _)) _ = False"
| "strict_eq (Some (JObj _)) _ = False"
| "strict_eq x y = (x = y)"

section \<open>Strings, maps and buffers\<close>

definition starts_at :: "string \<Rightarrow> string \<Rightarrow> bool" where
  "starts_at s sub = (take (length sub) s = sub)"

fun js_includes :: "string \<Rightarrow> string \<Rightarrow> bool" where
  "js_includes [] sub = (sub = [])"
| "js_includes (c # s) sub = (starts_at (c # s) sub \<or> js_includes s sub)"

definition iso_string :: "time \<Rightarrow> string" where
  "iso_string t =
     (let ms = t mod 86400000
      in iso_date t @ ''T'' @ pad 2 (show_nat (nat (ms div 3600000))) @ '':'' @ pad 2 (show_nat (nat (ms div 60000 mod 60))) @ '':'' @
         pad 2 (show_nat (nat (ms div 1000 mod 60))) @ ''.'' @ pad 3 (show_nat (nat (ms mod 1000))) @ ''Z'')"

lemma iso_string_example: "iso_string 1709210096789 = ''2024-02-29T12:34:56.789Z''"
  by code_simp

text \<open>\<open>if (xs.length >= n) xs.shift(); xs.push(x)\<close>\<close>

definition push_bounded :: "nat \<Rightarrow> 'a \<Rightarrow> 'a list \<Rightarrow> 'a list" where
  "push_bounded n x xs = (if n \<le> length xs then tl xs else xs) @ [x]"

definition last_n :: "nat \<Rightarrow> 'a list \<Rightarrow> 'a list" where
  "last_n n xs = drop (length xs - n) xs"

lemma last_n_bound: "length (last_n n xs) \<le> n"
  by (simp add: last_n_def)

lemma push_bounded_last_n: "0 < n \<Longrightarrow> push_bounded n x (last_n n xs) = last_n n (xs @ [x])"
  by (auto simp: push_bounded_def last_n_def Suc_diff_le drop_Suc tl_drop not_le)

text \<open>\<open>slice(-limit).reverse()\<close> with \<open>limit || 100\<close>\<close>

definition latest :: "nat option \<Rightarrow> 'a list \<Rightarrow> 'a list" where
  "latest limit xs = rev (last_n (case limit of Some n \<Rightarrow> if n = 0 then 100 else n | None \<Rightarrow> 100) xs)"

text \<open>An optional filter that is left out when it is not given or empty.\<close>

definition keep_str :: "string option \<Rightarrow> ('a \<Rightarrow> string) \<Rightarrow> 'a list \<Rightarrow> 'a list" where
  "keep_str s f xs = (if str_truthy s then filter (\<lambda>x. f x = the s) xs else xs)"

lemma set_keep_str: "set (keep_str s f xs) = {x \<in> set xs. str_truthy s \<longrightarrow> f x = the s}"
  by (auto simp: keep_str_def)

end
