(* ===== verification/Deposits.thy ===== *)
theory Deposits
  imports Refunds JsObject
begin

text \<open>
  Security deposits (\<open>deposits/deposits.service.ts\<close>, \<open>deposits/deposit-rules.service.ts\<close>): holding, release,
  deduction for damage, collateral in place of money, the hourly release, and the rules for the amount.
  A release pays back through \<open>refund\<close>, so the state is that of the refunds. Writes outside a transaction
  stay when a later step fails. Messages to customers are left out.
\<close>

section \<open>The rows\<close>

definition set_deposit :: "id \<Rightarrow> (SecurityDeposit \<Rightarrow> SecurityDeposit) \<Rightarrow> bk_db \<Rightarrow> bk_db" where
  "set_deposit did F db = db\<lparr>db_deposits := update_where (\<lambda>q. sd_id q = did) F (db_deposits db)\<rparr>"

definition log_deposit :: "id \<Rightarrow> string \<Rightarrow> id \<Rightarrow> bk_db \<Rightarrow> bk_db" where
  "log_deposit actor action did db = db\<lparr>db_audit := db_audit db @ [(actor, action, ''SecurityDeposit'', did)]\<rparr>"

text \<open>The conditional update that only one of several callers wins\<close>

definition claim_deposit :: "SecurityDeposit \<Rightarrow> string \<Rightarrow> (SecurityDeposit \<Rightarrow> SecurityDeposit) \<Rightarrow> bk_db \<Rightarrow> bk_db result" where
  "claim_deposit d msg F db =
     (if exists_where (\<lambda>q. sd_id q = sd_id d \<and> sd_status q = HELD) (db_deposits db)
      then Inr (db\<lparr>db_deposits := update_where (\<lambda>q. sd_id q = sd_id d \<and> sd_status q = HELD) F (db_deposits db)\<rparr>)
      else Inl (ConflictException msg))"

text \<open>What was refunded; the gateway's id is unique.\<close>

definition finish_deposit :: "SecurityDeposit \<Rightarrow> rat \<Rightarrow> string option \<Rightarrow> bk_db \<Rightarrow> bk_db result" where
  "finish_deposit d refunded rid db =
     (let i = (if str_truthy rid then rid else sd_razorpayRefundId d)
      in if exists_where (\<lambda>q. sd_id q \<noteq> sd_id d \<and> same_id (sd_razorpayRefundId q) i) (db_deposits db) then Inl (PrismaError ''P2002'')
         else bindR (money10 refunded) (\<lambda>x.
           Inr (set_deposit (sd_id d) (\<lambda>q. q\<lparr>sd_refundedAmount := x, sd_razorpayRefundId := i\<rparr>) db)))"

definition is_collateral :: "SecurityDeposit \<Rightarrow> bool" where
  "is_collateral d \<longleftrightarrow> str_truthy (sd_razorpayPaymentId d) \<and> starts_with (the (sd_razorpayPaymentId d)) ''COLLATERAL:''"

section \<open>Reading and holding\<close>

definition may_see :: "Booking \<Rightarrow> id \<Rightarrow> Role \<Rightarrow> bool" where
  "may_see b userId role \<longleftrightarrow>
     role = Role.ADMIN \<or> role = Role.SUPPORT_AGENT \<or> bk_customerId b = userId \<or> bk_vendorUserId b = userId"

definition getDeposit :: "id \<Rightarrow> id \<Rightarrow> Role \<Rightarrow> bk_db \<Rightarrow> SecurityDeposit result" where
  "getDeposit bid userId role db =
     (case find_booking bid db of
        None \<Rightarrow> Inl (NotFoundException ''Booking not found.'')
      | Some b \<Rightarrow>
          throw_if (\<not> may_see b userId role) (ForbiddenException ''Access denied: You are not authorized to view this security deposit.'')
          (case find_deposit bid db of
             None \<Rightarrow> Inl (NotFoundException ''No security deposit record found for this booking.'')
           | Some d \<Rightarrow> Inr d))"

definition upsert_deposit :: "id \<Rightarrow> id \<Rightarrow> SecurityDeposit \<Rightarrow> (SecurityDeposit \<Rightarrow> SecurityDeposit) \<Rightarrow> bk_db \<Rightarrow> SecurityDeposit \<times> bk_db" where
  "upsert_deposit newId bid new F db =
     (case find_deposit bid db of
        None \<Rightarrow> (new, db\<lparr>db_deposits := db_deposits db @ [new]\<rparr>)
      | Some d \<Rightarrow> (F d, set_deposit (sd_id d) F db))"

definition held_deposit :: "id \<Rightarrow> id \<Rightarrow> rat \<Rightarrow> string option \<Rightarrow> time \<Rightarrow> SecurityDeposit" where
  "held_deposit newId bid amount pid now =
     \<lparr>sd_id = newId, sd_bookingId = bid, sd_amount = amount, sd_refundedAmount = 0, sd_deductedAmount = 0,
      sd_razorpayPaymentId = pid, sd_razorpayRefundId = None, sd_status = HELD, sd_heldAt = Some now, sd_releasedAt = None\<rparr>"

text \<open>\<open>undefined\<close> for the payment id leaves the column of a row that exists.\<close>

definition holdDeposit :: "time \<Rightarrow> id \<Rightarrow> id \<Rightarrow> rat \<Rightarrow> string option \<Rightarrow> bk_db \<Rightarrow> (SecurityDeposit \<times> bk_db) result" where
  "holdDeposit now newId bid amount pid db =
     (case find_booking bid db of
        None \<Rightarrow> Inl (NotFoundException ''Booking not found.'')
      | Some _ \<Rightarrow>
          bindR (num10 amount) (\<lambda>a.
            Inr (upsert_deposit newId bid (held_deposit newId bid a pid now)
              (\<lambda>q. q\<lparr>sd_amount := a, sd_razorpayPaymentId := (case pid of None \<Rightarrow> sd_razorpayPaymentId q | _ \<Rightarrow> pid),
                 sd_status := HELD, sd_heldAt := Some now\<rparr>) db)))"

section \<open>Journals\<close>

definition deposit_line :: "Booking \<Rightarrow> LedgerAccountType \<Rightarrow> string \<Rightarrow> LedgerEntrySide \<Rightarrow> rat \<Rightarrow> string \<Rightarrow> string \<Rightarrow> JournalEntryLineInput" where
  "deposit_line b t ent side amount text extra =
     \<lparr>li_accountType = t, li_accountEntityId = Some ent, li_side = Some side, li_entrySide = None, li_amount = amount,
      li_narration = Some (text @ '' booking '' @ bk_id b @ extra), li_description = None, li_bookingId = Some (bk_id b),
      li_paymentId = None, li_payoutId = None, li_metadata = None\<rparr>"

definition escrow_journal :: "string \<Rightarrow> string \<Rightarrow> string \<Rightarrow> string \<Rightarrow> id option \<Rightarrow> SecurityDeposit \<Rightarrow> Booking \<Rightarrow> JournalEntryLineInput list \<Rightarrow> RecordJournalInput" where
  "escrow_journal refType text extra key vendor d b ls =
     \<lparr>ji_journalId = None, ji_referenceType = refType, ji_referenceId = sd_id d,
      ji_narration = Some (text @ bk_id b @ '' ('' @ extra @ '')''), ji_description = None, ji_lines = Some ls, ji_entries = None,
      ji_idempotencyKey = Some (key @ sd_id d), ji_currency = None, ji_bookingId = Some (bk_id b),
      ji_paymentId = None, ji_payoutId = None, ji_vendorId = vendor\<rparr>"

definition release_journal :: "string option \<Rightarrow> SecurityDeposit \<Rightarrow> Booking \<Rightarrow> rat \<Rightarrow> RecordJournalInput" where
  "release_journal reason d b refunded =
     escrow_journal ''SECURITY_DEPOSIT_RELEASE'' ''Security deposit refund for booking '' (or_string reason ''Standard release'') ''jrn_dep_rel_'' None d b
       [deposit_line b CUSTOMER_DEPOSIT_ESCROW (bk_customerId b) LedgerEntrySide.DEBIT refunded
          ''Escrow liability released on deposit refund for'' [],
        deposit_line b GATEWAY_CLEARING ''RAZORPAY'' LedgerEntrySide.CREDIT refunded
          ''Gateway refund clearing for released security deposit on'' []]"

definition deduction_journal :: "string \<Rightarrow> SecurityDeposit \<Rightarrow> Booking \<Rightarrow> rat \<Rightarrow> rat \<Rightarrow> RecordJournalInput" where
  "deduction_journal reason d b deducted refunded =
     escrow_journal ''DAMAGE_DEDUCTION'' ''Security deposit damage deduction settlement for booking '' reason ''jrn_dep_deduct_'' (Some (bk_vendorId b)) d b
       ([deposit_line b CUSTOMER_DEPOSIT_ESCROW (bk_customerId b) LedgerEntrySide.DEBIT (sd_amount d)
           ''Total escrow deposit settled after damage assessment for'' []] @
        line_if (deducted > 0) (deposit_line b VENDOR_PAYABLE (bk_vendorId b) LedgerEntrySide.CREDIT deducted
           ''Damage compensation payable to host from security deposit for'' ('': '' @ reason)) @
        line_if (refunded > 0) (deposit_line b GATEWAY_CLEARING ''RAZORPAY'' LedgerEntrySide.CREDIT refunded
           ''Remaining security deposit refunded to customer for'' []))"

definition post_deposit :: "'g pay_env \<Rightarrow> time \<Rightarrow> string \<Rightarrow> RecordJournalInput \<Rightarrow> bk_db \<Rightarrow> bk_db" where
  "post_deposit env now jid inp db =
     (if py_ledger env then db\<lparr>db_ledger := post_or_skip (recordJournal dec20 round2 now jid) inp (db_ledger db)\<rparr> else db)"

section \<open>Paying back\<close>

record deposit_ids =
  di_refund :: refund_ids
  di_journal :: string

text \<open>The refund; when it fails the deposit is held again.\<close>

definition pay_back ::
  "'g pay_env \<Rightarrow> time \<Rightarrow> deposit_ids \<Rightarrow> SecurityDeposit \<Rightarrow> rat \<Rightarrow> string \<Rightarrow> string \<Rightarrow> (SecurityDeposit \<Rightarrow> SecurityDeposit) \<Rightarrow>
   bk_db \<times> 'g \<Rightarrow> string option result \<times> bk_db \<times> 'g" where
  "pay_back env now ids d amount reason tier revert st =
     (case refund env now (di_refund ids)
             \<lparr>rq_bookingId = sd_bookingId d, rq_paise = in_paise amount, rq_reason = Some reason, rq_tier = Some tier,
              rq_key = None, rq_userId = None\<rparr> st of
        (Inr r, st1) \<Rightarrow> (Inr (or_str (rr_refundId r) None), st1)
      | (Inl e, (db1, g1)) \<Rightarrow>
          (Inl (BadRequestException ''Payment gateway refund failed. Deposit status reverted for retry.''),
           set_deposit (sd_id d) (revert \<circ> (\<lambda>q. q\<lparr>sd_status := HELD, sd_releasedAt := None\<rparr>)) db1, g1))"

text \<open>Sequencing of steps that leave their writes behind when a later one fails\<close>

definition and_then :: "'a result \<times> 's \<Rightarrow> ('a \<Rightarrow> 's \<Rightarrow> 'b result \<times> 's) \<Rightarrow> 'b result \<times> 's" where
  "and_then m f = (case fst m of Inl e \<Rightarrow> (Inl e, snd m) | Inr x \<Rightarrow> f x (snd m))"

lemma and_then_Inr_iff: "and_then m f = (Inr y, st') \<longleftrightarrow> (\<exists>x st. m = (Inr x, st) \<and> f x st = (Inr y, st'))"
  by (cases m) (auto simp: and_then_def split: sum.split)

text \<open>The last writes: the amount, the journal and the audit row\<close>

definition close_deposit ::
  "'g pay_env \<Rightarrow> time \<Rightarrow> string \<Rightarrow> SecurityDeposit \<Rightarrow> rat \<Rightarrow> (Booking \<Rightarrow> RecordJournalInput) \<Rightarrow> (bk_db \<Rightarrow> bk_db) \<Rightarrow> string option \<Rightarrow>
   bk_db \<times> 'g \<Rightarrow> SecurityDeposit result \<times> bk_db \<times> 'g" where
  "close_deposit env now jid d refunded journal audit rid st =
     (case finish_deposit d refunded rid (fst st) of
        Inl e \<Rightarrow> (Inl e, st)
      | Inr db3 \<Rightarrow>
          (case find_deposit (sd_bookingId d) db3 of
             None \<Rightarrow> (Inl (PrismaError ''P2025''), st)
           | Some d' \<Rightarrow>
               (Inr d', (audit (case find_booking (sd_bookingId d) db3 of None \<Rightarrow> db3 | Some b \<Rightarrow> post_deposit env now jid (journal b) db3), snd st))))"

section \<open>Release\<close>

definition release_checks :: "id \<Rightarrow> bk_db \<Rightarrow> (SecurityDeposit \<times> rat) option result" where
  "release_checks bid db =
     (case find_deposit bid db of
        None \<Rightarrow> Inr None
      | Some d \<Rightarrow>
          let remaining = dec20 (sd_amount d - sd_deductedAmount d)
          in throw_if (sd_status d \<noteq> HELD) (ConflictException ''Deposit cannot be released in this status'')
            (throw_if (remaining \<le> 0) (BadRequestException ''No remaining deposit balance available to refund.'')
            (Inr (Some (d, remaining)))))"

definition release_status :: "SecurityDeposit \<Rightarrow> SecurityDepositStatus" where
  "release_status d = (if sd_deductedAmount d > 0 then PARTIALLY_REFUNDED else SecurityDepositStatus.REFUNDED)"

definition release_money ::
  "'g pay_env \<Rightarrow> time \<Rightarrow> deposit_ids \<Rightarrow> string option \<Rightarrow> SecurityDeposit \<Rightarrow> rat \<Rightarrow> bk_db \<times> 'g \<Rightarrow> string option result \<times> bk_db \<times> 'g" where
  "release_money env now ids reason d remaining st =
     (if is_collateral d then (Inr (Some (''COLLATERAL_RELEASED_'' @ show_nat (nat now))), st)
      else pay_back env now ids d remaining (or_string reason ''Security deposit release'') ''SECURITY_DEPOSIT_RELEASE'' (\<lambda>q. q) st)"

text \<open>The rest of the release, from a row that was read: another caller may have been faster.\<close>

definition release_read ::
  "'g pay_env \<Rightarrow> time \<Rightarrow> deposit_ids \<Rightarrow> id option \<Rightarrow> string option \<Rightarrow> SecurityDeposit \<Rightarrow> rat \<Rightarrow> bk_db \<times> 'g \<Rightarrow>
   SecurityDeposit result \<times> bk_db \<times> 'g" where
  "release_read env now ids admin reason d remaining st =
     (case claim_deposit d ''Security deposit release is already being processed or has completed concurrently.''
             (\<lambda>q. q\<lparr>sd_status := release_status d, sd_releasedAt := Some now\<rparr>) (fst st) of
        Inl e \<Rightarrow> (Inl e, st)
      | Inr db1 \<Rightarrow>
          and_then (release_money env now ids reason d remaining (db1, snd st))
            (close_deposit env now (di_journal ids) d remaining (\<lambda>b. release_journal reason d b remaining)
              (\<lambda>db. if str_truthy admin then log_deposit (the admin) ''SECURITY_DEPOSIT_RELEASED'' (sd_id d) db else db)))"

definition releaseDeposit ::
  "'g pay_env \<Rightarrow> time \<Rightarrow> deposit_ids \<Rightarrow> id \<Rightarrow> id option \<Rightarrow> string option \<Rightarrow> bk_db \<times> 'g \<Rightarrow> SecurityDeposit option result \<times> bk_db \<times> 'g" where
  "releaseDeposit env now ids bid admin reason st =
     (case release_checks bid (fst st) of
        Inl e \<Rightarrow> (Inl e, st)
      | Inr None \<Rightarrow> (Inr None, st)
      | Inr (Some (d, remaining)) \<Rightarrow>
          and_then (release_read env now ids admin reason d remaining st) (\<lambda>d' st'. (Inr (Some d'), st')))"

text \<open>The hourly sweep, in batches of twenty; the error of one release does not stop the others.\<close>

definition releasable :: "time \<Rightarrow> bk_db \<Rightarrow> SecurityDeposit \<Rightarrow> bool" where
  "releasable now db d \<longleftrightarrow>
     sd_status d = HELD \<and>
     (case find_booking (sd_bookingId d) db of
        None \<Rightarrow> False
      | Some b \<Rightarrow> bk_status b = BookingStatus.COMPLETED \<and> bk_updatedAt b \<le> now - 86400000) \<and>
     \<not> exists_where (\<lambda>c. dc_bookingId c = sd_bookingId d \<and>
         dc_status c \<in> {DamageClaimStatus.SUBMITTED, DamageClaimStatus.UNDER_REVIEW, DamageClaimStatus.APPROVED, DamageClaimStatus.PARTIALLY_APPROVED})
       (db_claims db)"

fun release_each :: "'g pay_env \<Rightarrow> time \<Rightarrow> (nat \<Rightarrow> deposit_ids) \<Rightarrow> SecurityDeposit list \<Rightarrow> bk_db \<times> 'g \<Rightarrow> bk_db \<times> 'g" where
  "release_each env now ids [] st = st"
| "release_each env now ids (d # ds) st =
     release_each env now ids ds
       (snd (releaseDeposit env now (ids (length ds)) (sd_bookingId d) None (Some ''Automated 24-hour post-trip deposit release'') st))"

definition autoReleaseEligibleDeposits :: "'g pay_env \<Rightarrow> time \<Rightarrow> (nat \<Rightarrow> deposit_ids) \<Rightarrow> bk_db \<times> 'g \<Rightarrow> bk_db \<times> 'g" where
  "autoReleaseEligibleDeposits env now ids st =
     release_each env now ids (take 20 (filter (releasable now (fst st)) (db_deposits (fst st)))) st"

section \<open>Deduction\<close>

definition deduction_status :: "rat \<Rightarrow> SecurityDepositStatus" where
  "deduction_status remaining = (if remaining > 0 then PARTIALLY_REFUNDED else FORFEITED)"

definition deducted :: "SecurityDeposit \<Rightarrow> rat \<Rightarrow> rat" where
  "deducted d amount = (let x = dec_of_num amount in if x > sd_amount d then sd_amount d else x)"

definition settle_money ::
  "'g pay_env \<Rightarrow> time \<Rightarrow> deposit_ids \<Rightarrow> string \<Rightarrow> SecurityDeposit \<Rightarrow> rat \<Rightarrow> bk_db \<times> 'g \<Rightarrow> string option result \<times> bk_db \<times> 'g" where
  "settle_money env now ids reason d remaining st =
     (if remaining > 0
      then pay_back env now ids d remaining (''Partial deposit release after damage settlement: '' @ reason)
             ''DAMAGE_CLAIM_SETTLEMENT_REMAINDER'' (\<lambda>q. q\<lparr>sd_deductedAmount := 0\<rparr>) st
      else (Inr None, st))"

definition settle_read ::
  "'g pay_env \<Rightarrow> time \<Rightarrow> deposit_ids \<Rightarrow> rat \<Rightarrow> id \<Rightarrow> string \<Rightarrow> SecurityDeposit \<Rightarrow> bk_db \<times> 'g \<Rightarrow> SecurityDeposit result \<times> bk_db \<times> 'g" where
  "settle_read env now ids amount admin reason d st =
     (let x = deducted d amount; remaining = dec20 (sd_amount d - x)
      in case bindR (money10 x) (\<lambda>stored.
                claim_deposit d ''Security deposit settlement is already being processed or has completed concurrently.''
                  (\<lambda>q. q\<lparr>sd_status := deduction_status remaining, sd_deductedAmount := stored, sd_releasedAt := Some now\<rparr>) (fst st)) of
           Inl e \<Rightarrow> (Inl e, st)
         | Inr db1 \<Rightarrow>
             and_then (settle_money env now ids reason d remaining (db1, snd st))
               (close_deposit env now (di_journal ids) d remaining (\<lambda>b. deduction_journal reason d b x remaining)
                 (log_deposit admin ''SECURITY_DEPOSIT_SETTLED_WITH_DEDUCTION'' (sd_id d))))"

definition settleDeduction ::
  "'g pay_env \<Rightarrow> time \<Rightarrow> deposit_ids \<Rightarrow> id \<Rightarrow> rat \<Rightarrow> id \<Rightarrow> string \<Rightarrow> bk_db \<times> 'g \<Rightarrow> SecurityDeposit option result \<times> bk_db \<times> 'g" where
  "settleDeduction env now ids bid amount admin reason st =
     (case find_deposit bid (fst st) of
        None \<Rightarrow> (Inr None, st)
      | Some d \<Rightarrow>
          if sd_status d \<noteq> HELD then (Inr (Some d), st)
          else and_then (settle_read env now ids amount admin reason d st) (\<lambda>d' st'. (Inr (Some d'), st')))"

section \<open>Collateral\<close>

datatype CollateralType = MONETARY_ONLINE | PHYSICAL_VEHICLE | ORIGINAL_DOCUMENT | DIGILOCKER_HIGH_TRUST

record RecordCollateralDto =
  rc_collateralType :: CollateralType
  rc_vehicleRegistrationNumber :: "string option"
  rc_keysCollected :: "bool option"
  rc_documentType :: "string option"
  rc_documentNumberMasked :: "string option"
  rc_verifiedPhysically :: "bool option"

definition collateral_checks :: "RecordCollateralDto \<Rightarrow> unit result" where
  "collateral_checks dto =
     (case rc_collateralType dto of
        PHYSICAL_VEHICLE \<Rightarrow>
          throw_if (\<not> str_truthy (rc_vehicleRegistrationNumber dto))
            (BadRequestException ''Vehicle registration number is mandatory for physical vehicle collateral.'')
         (throw_if (rc_keysCollected dto \<noteq> Some True)
            (BadRequestException ''Physical vehicle keys must be confirmed collected by vendor yard staff.'') (Inr ()))
      | ORIGINAL_DOCUMENT \<Rightarrow>
          throw_if (\<not> str_truthy (rc_documentType dto) \<or> \<not> str_truthy (rc_documentNumberMasked dto))
            (BadRequestException ''Document type and masked document number are mandatory for original document collateral.'')
         (throw_if (rc_verifiedPhysically dto \<noteq> Some True)
            (BadRequestException ''Physical document must be verified in person by vendor staff.'') (Inr ()))
      | _ \<Rightarrow> Inr ())"

definition show_collateral :: "CollateralType \<Rightarrow> string" where
  "show_collateral t =
     (case t of MONETARY_ONLINE \<Rightarrow> ''MONETARY_ONLINE'' | PHYSICAL_VEHICLE \<Rightarrow> ''PHYSICAL_VEHICLE''
      | ORIGINAL_DOCUMENT \<Rightarrow> ''ORIGINAL_DOCUMENT'' | DIGILOCKER_HIGH_TRUST \<Rightarrow> ''DIGILOCKER_HIGH_TRUST'')"

definition collateral_tag :: "RecordCollateralDto \<Rightarrow> string" where
  "collateral_tag dto =
     ''COLLATERAL:'' @ show_collateral (rc_collateralType dto) @ '':'' @
     (case rc_collateralType dto of
        PHYSICAL_VEHICLE \<Rightarrow> the (rc_vehicleRegistrationNumber dto)
      | ORIGINAL_DOCUMENT \<Rightarrow> the (rc_documentType dto) @ ''_'' @ the (rc_documentNumberMasked dto)
      | _ \<Rightarrow> ''DIGILOCKER_HIGH_TRUST'')"

definition recordCollateral :: "time \<Rightarrow> id \<Rightarrow> id \<Rightarrow> RecordCollateralDto \<Rightarrow> id \<Rightarrow> Role \<Rightarrow> bk_db \<Rightarrow> (SecurityDeposit \<times> bk_db) result" where
  "recordCollateral now newId bid dto userId role db =
     (case find_booking bid db of
        None \<Rightarrow> Inl (NotFoundException ''Booking not found.'')
      | Some b \<Rightarrow>
          throw_if (role \<noteq> Role.ADMIN \<and> bk_vendorUserId b \<noteq> userId)
            (ForbiddenException ''Access denied: Only the booking vendor or admin can record customer collateral.'')
         (throw_if (bk_status b \<noteq> BookingStatus.CONFIRMED \<and> bk_status b \<noteq> BookingStatus.HANDOVER_READY)
            (BadRequestException ''Collateral can only be recorded for CONFIRMED or HANDOVER_READY bookings.'')
         (bindR (collateral_checks dto) (\<lambda>_.
            let amount = (case find_deposit bid db of None \<Rightarrow> 5000 | Some d \<Rightarrow> sd_amount d);
                (d, db1) = upsert_deposit newId bid (held_deposit newId bid amount (Some (collateral_tag dto)) now)
                  (\<lambda>q. q\<lparr>sd_razorpayPaymentId := Some (collateral_tag dto), sd_status := HELD, sd_heldAt := Some now\<rparr>) db
            in Inr (d, log_deposit userId ''CUSTOMER_COLLATERAL_RECORDED'' (sd_id d) db1)))))"

datatype collateral_view =
    Monetary SecurityDeposit
  | Collateral string string SecurityDeposit

definition getCollateral :: "id \<Rightarrow> id \<Rightarrow> Role \<Rightarrow> bk_db \<Rightarrow> collateral_view result" where
  "getCollateral bid userId role db =
     bindR (getDeposit bid userId role db) (\<lambda>d.
       if is_collateral d
       then let parts = split_on (CHR '':'') (the (sd_razorpayPaymentId d));
                kind = (if 1 < length parts then parts ! 1 else [])
            in Inr (Collateral (if kind = [] then ''UNKNOWN'' else kind) (join_with '':'' (drop 2 parts)) d)
       else Inr (Monetary d))"

section \<open>The rules\<close>

record DepositRule =
  dr_id :: id
  dr_carCategory :: CarCategory
  dr_city :: "string option"
  dr_depositAmount :: rat
  dr_isActive :: bool

fun default_deposit :: "CarCategory \<Rightarrow> rat" where
  "default_deposit HATCHBACK = 3000"
| "default_deposit SEDAN = 4000"
| "default_deposit SUV = 5000"
| "default_deposit LUXURY = 10000"
| "default_deposit TEMPO_TRAVELLER = 8000"
| "default_deposit MINI_BUS = 10000"

definition city_rule :: "CarCategory \<Rightarrow> string \<Rightarrow> DepositRule list \<Rightarrow> DepositRule option" where
  "city_rule k city rules =
     List.find (\<lambda>r. dr_carCategory r = k \<and> map_option to_lower (dr_city r) = Some (to_lower (trim city)) \<and> dr_isActive r) rules"

definition global_rule :: "CarCategory \<Rightarrow> DepositRule list \<Rightarrow> DepositRule option" where
  "global_rule k rules = List.find (\<lambda>r. dr_carCategory r = k \<and> dr_city r = None \<and> dr_isActive r) rules"

text \<open>The configured defaults: a number for a category, when there is a configuration.\<close>

definition getDepositAmount :: "(CarCategory \<Rightarrow> rat option) option \<Rightarrow> CarCategory \<Rightarrow> string option \<Rightarrow> DepositRule list \<Rightarrow> rat" where
  "getDepositAmount cfg k city rules =
     (case (if str_truthy city then city_rule k (the city) rules else None) of
        Some r \<Rightarrow> fl (dr_depositAmount r)
      | None \<Rightarrow>
          (case global_rule k rules of
             Some r \<Rightarrow> fl (dr_depositAmount r)
           | None \<Rightarrow>
               (case Option.bind cfg (\<lambda>c. c k) of
                  Some x \<Rightarrow> if x \<ge> 0 then x else default_deposit k
                | None \<Rightarrow> default_deposit k)))"

definition upsertRule :: "id \<Rightarrow> CarCategory \<Rightarrow> rat \<Rightarrow> string option \<Rightarrow> DepositRule list \<Rightarrow> (DepositRule \<times> DepositRule list) result" where
  "upsertRule newId k amount city rules =
     (let c = (case city of None \<Rightarrow> None | Some s \<Rightarrow> if trim s = [] then None else Some (trim s))
      in bindR (num10 amount) (\<lambda>a.
           case List.find (\<lambda>r. dr_carCategory r = k \<and> dr_city r = c) rules of
             Some r \<Rightarrow> (let r' = r\<lparr>dr_depositAmount := a, dr_isActive := True\<rparr>
                        in Inr (r', update_where (\<lambda>q. dr_id q = dr_id r) (\<lambda>_. r') rules))
           | None \<Rightarrow> (let r' = \<lparr>dr_id = newId, dr_carCategory = k, dr_city = c, dr_depositAmount = a, dr_isActive = True\<rparr>
                      in Inr (r', rules @ [r']))))"

definition deleteDepositRule :: "id \<Rightarrow> DepositRule list \<Rightarrow> DepositRule list result" where
  "deleteDepositRule rid rules =
     (if exists_where (\<lambda>r. dr_id r = rid) rules then Inr (filter (\<lambda>r. dr_id r \<noteq> rid) rules) else Inl (PrismaError ''P2025''))"

end
