(* ===== verification/DamageClaims.thy ===== *)
theory DamageClaims
  imports Deposits
begin

text \<open>
  Damage claims (\<open>damage-claims/damage-claims.service.ts\<close>): filing, dispute, adjudication with the
  settlement against the deposit, and the lists. \<open>sign\<close> is the presigned address of a photo. Messages are
  left out.
\<close>

section \<open>Filing\<close>

record CreateDamageClaimDto =
  cd_claimedAmount :: rat
  cd_description :: string
  cd_damagePhotos :: "string list"
  cd_vendorNotes :: "string option"

definition open_claim :: "DamageClaimStatus \<Rightarrow> bool" where
  "open_claim s \<longleftrightarrow> s \<notin> {DamageClaimStatus.REJECTED, DamageClaimStatus.SETTLED}"

definition createClaim :: "time \<Rightarrow> id \<Rightarrow> id \<Rightarrow> CreateDamageClaimDto \<Rightarrow> id \<Rightarrow> Role \<Rightarrow> bk_db \<Rightarrow> (DamageClaim \<times> bk_db) result" where
  "createClaim now newId bid dto userId role db =
     (case find_booking bid db of
        None \<Rightarrow> Inl (NotFoundException ''Booking not found.'')
      | Some b \<Rightarrow>
          throw_if (role \<noteq> Role.ADMIN \<and> bk_vendorUserId b \<noteq> userId)
            (ForbiddenException ''Access denied: Only the fleet owner or admin can file a damage claim.'')
         (throw_if (bk_status b \<noteq> BookingStatus.COMPLETED)
            (BadRequestException ''Damage claims can only be submitted for COMPLETED trips.'')
         (throw_if (exists_where (\<lambda>c. dc_bookingId c = bid \<and> open_claim (dc_status c)) (db_claims db))
            (ConflictException ''An active damage claim is already undergoing review for this booking.'')
         (bindR (num10 (cd_claimedAmount dto)) (\<lambda>amount.
            let c = \<lparr>dc_id = newId, dc_bookingId = bid, dc_vendorId = bk_vendorId b, dc_claimedAmount = amount, dc_approvedAmount = None,
                  dc_status = DamageClaimStatus.SUBMITTED, dc_description = cd_description dto, dc_damagePhotos = cd_damagePhotos dto,
                  dc_vendorNotes = or_str (cd_vendorNotes dto) None, dc_adminNotes = None, dc_customerDispute = None,
                  dc_createdAt = now, dc_resolvedAt = None\<rparr>
            in Inr (c, db\<lparr>db_claims := db_claims db @ [c]\<rparr>))))))"

section \<open>Reading\<close>

definition signed_claim :: "(string \<Rightarrow> string) \<Rightarrow> DamageClaim \<Rightarrow> DamageClaim" where
  "signed_claim sign c = c\<lparr>dc_damagePhotos := map sign (dc_damagePhotos c)\<rparr>"

definition getClaimsForBooking :: "(string \<Rightarrow> string) \<Rightarrow> id \<Rightarrow> id \<Rightarrow> Role \<Rightarrow> bk_db \<Rightarrow> DamageClaim list result" where
  "getClaimsForBooking sign bid userId role db =
     (case find_booking bid db of
        None \<Rightarrow> Inl (NotFoundException ''Booking not found.'')
      | Some b \<Rightarrow>
          throw_if (\<not> may_see b userId role) (ForbiddenException ''Access denied: You are not authorized to view claims for this booking.'')
          (Inr (map (signed_claim sign) (sort_key (\<lambda>c. - dc_createdAt c) (filter (\<lambda>c. dc_bookingId c = bid) (db_claims db))))))"

record claims_page =
  cl_claims :: "DamageClaim list"
  cl_total :: nat
  cl_totalPages :: int

text \<open>The status is \<open>None\<close> for no filter and for \<open>ALL\<close>; pages are numbered from 1.\<close>

definition getAllClaimsForAdmin :: "(string \<Rightarrow> string) \<Rightarrow> DamageClaimStatus option \<Rightarrow> nat \<Rightarrow> nat \<Rightarrow> bk_db \<Rightarrow> claims_page" where
  "getAllClaimsForAdmin sign status page limit db =
     (let cs = filter (\<lambda>c. case status of None \<Rightarrow> True | Some s \<Rightarrow> dc_status c = s) (db_claims db)
      in \<lparr>cl_claims = map (signed_claim sign) (take limit (drop ((page - 1) * limit) (sort_key (\<lambda>c. - dc_createdAt c) cs))),
          cl_total = length cs, cl_totalPages = \<lceil>fl (of_nat (length cs) / of_nat limit)\<rceil>\<rparr>)"

section \<open>Dispute and adjudication\<close>

definition find_claim :: "id \<Rightarrow> bk_db \<Rightarrow> DamageClaim option" where
  "find_claim cid db = List.find (\<lambda>c. dc_id c = cid) (db_claims db)"

definition set_claim :: "id \<Rightarrow> (DamageClaim \<Rightarrow> DamageClaim) \<Rightarrow> bk_db \<Rightarrow> bk_db" where
  "set_claim cid F db = db\<lparr>db_claims := update_where (\<lambda>c. dc_id c = cid) F (db_claims db)\<rparr>"

definition disputeClaim :: "id \<Rightarrow> string \<Rightarrow> id \<Rightarrow> bk_db \<Rightarrow> bk_db result" where
  "disputeClaim cid text userId db =
     (case find_claim cid db of
        None \<Rightarrow> Inl (NotFoundException ''Damage claim not found.'')
      | Some c \<Rightarrow>
          (case find_booking (dc_bookingId c) db of
             None \<Rightarrow> Inl (PrismaError ''P2003'')
           | Some b \<Rightarrow>
               throw_if (bk_customerId b \<noteq> userId) (ForbiddenException ''Access denied: You can only dispute claims against your own bookings.'')
              (throw_if (dc_status c \<noteq> DamageClaimStatus.SUBMITTED \<and> dc_status c \<noteq> DamageClaimStatus.UNDER_REVIEW)
                 (BadRequestException ''Cannot dispute claim in this status'')
              (Inr (set_claim cid (\<lambda>c. c\<lparr>dc_customerDispute := Some text, dc_status := DamageClaimStatus.UNDER_REVIEW\<rparr>) db)))))"

datatype ClaimDecision = DECIDE_APPROVED | DECIDE_PARTIALLY_APPROVED | DECIDE_REJECTED

record AdjudicateClaimDto =
  ad_decision :: ClaimDecision
  ad_approvedAmount :: "rat option"
  ad_adminNotes :: string

definition finalized_claim :: "DamageClaimStatus \<Rightarrow> bool" where
  "finalized_claim s \<longleftrightarrow> s \<in> {DamageClaimStatus.SETTLED, DamageClaimStatus.REJECTED, DamageClaimStatus.APPROVED, DamageClaimStatus.PARTIALLY_APPROVED}"

definition log_claim :: "id \<Rightarrow> string \<Rightarrow> id \<Rightarrow> bk_db \<Rightarrow> bk_db" where
  "log_claim actor action cid db = db\<lparr>db_audit := db_audit db @ [(actor, action, ''DamageClaim'', cid)]\<rparr>"

text \<open>The deductible of the booking, or else of its protection package\<close>

definition deductible_ceiling :: "Booking \<Rightarrow> rat option" where
  "deductible_ceiling b =
     (case bk_protectionDeductible b of Some x \<Rightarrow> Some (fl x) | None \<Rightarrow> map_option fl (bk_packageDeductible b))"

definition approval_checks :: "AdjudicateClaimDto \<Rightarrow> DamageClaim \<Rightarrow> Booking \<Rightarrow> rat result" where
  "approval_checks dto c b =
     (case ad_approvedAmount dto of
        None \<Rightarrow> Inl (BadRequestException ''Approved amount must be greater than zero for approved claims.'')
      | Some x \<Rightarrow>
          throw_if (x \<le> 0) (BadRequestException ''Approved amount must be greater than zero for approved claims.'')
         (throw_if (x > fl (dc_claimedAmount c)) (BadRequestException ''Approved amount cannot exceed claimed amount.'')
         (throw_if (case deductible_ceiling b of None \<Rightarrow> False | Some m \<Rightarrow> x > m)
            (BadRequestException ''Approved amount cannot exceed customer protection package deductible ceiling.'')
         (Inr x))))"

definition approved_status :: "AdjudicateClaimDto \<Rightarrow> rat \<Rightarrow> DamageClaim \<Rightarrow> DamageClaimStatus" where
  "approved_status dto x c =
     (if ad_decision dto = DECIDE_PARTIALLY_APPROVED \<or> x < fl (dc_claimedAmount c)
      then DamageClaimStatus.PARTIALLY_APPROVED else DamageClaimStatus.APPROVED)"

definition reject_claim ::
  "'g pay_env \<Rightarrow> time \<Rightarrow> deposit_ids \<Rightarrow> AdjudicateClaimDto \<Rightarrow> id \<Rightarrow> DamageClaim \<Rightarrow> bk_db \<times> 'g \<Rightarrow> DamageClaimStatus result \<times> bk_db \<times> 'g" where
  "reject_claim env now ids dto admin c st =
     (let db1 = set_claim (dc_id c) (\<lambda>c. c\<lparr>dc_status := DamageClaimStatus.REJECTED, dc_adminNotes := Some (ad_adminNotes dto), dc_resolvedAt := Some now\<rparr>) (fst st)
      in and_then (releaseDeposit env now ids (dc_bookingId c) (Some admin) (Some (''Damage claim rejected: '' @ ad_adminNotes dto)) (db1, snd st))
           (\<lambda>_ (db2, g2). (Inr DamageClaimStatus.REJECTED, (log_claim admin ''DAMAGE_CLAIM_REJECTED'' (dc_id c) db2, g2))))"

definition approve_claim ::
  "'g pay_env \<Rightarrow> time \<Rightarrow> deposit_ids \<Rightarrow> AdjudicateClaimDto \<Rightarrow> id \<Rightarrow> DamageClaim \<Rightarrow> rat \<Rightarrow> bk_db \<times> 'g \<Rightarrow> DamageClaimStatus result \<times> bk_db \<times> 'g" where
  "approve_claim env now ids dto admin c x st =
     and_then (settleDeduction env now ids (dc_bookingId c) x admin (ad_adminNotes dto) st)
       (\<lambda>dep (db1, g1).
          case num10 x of
            Inl e \<Rightarrow> (Inl e, (db1, g1))
          | Inr amount \<Rightarrow>
              (Inr (approved_status dto x c),
               (log_claim admin (if dep = None then ''DAMAGE_CLAIM_APPROVED_NO_DEPOSIT'' else ''DAMAGE_CLAIM_APPROVED'') (dc_id c)
                 (set_claim (dc_id c) (\<lambda>k. k\<lparr>dc_status := approved_status dto x c, dc_approvedAmount := Some amount,
                    dc_adminNotes := Some (ad_adminNotes dto), dc_resolvedAt := Some now\<rparr>) db1), g1)))"

definition adjudicateClaim ::
  "'g pay_env \<Rightarrow> time \<Rightarrow> deposit_ids \<Rightarrow> id \<Rightarrow> AdjudicateClaimDto \<Rightarrow> id \<Rightarrow> bk_db \<times> 'g \<Rightarrow> DamageClaimStatus result \<times> bk_db \<times> 'g" where
  "adjudicateClaim env now ids cid dto admin st =
     (case find_claim cid (fst st) of
        None \<Rightarrow> (Inl (NotFoundException ''Damage claim not found.''), st)
      | Some c \<Rightarrow>
          if finalized_claim (dc_status c) then (Inl (ConflictException ''Claim is already finalized''), st)
          else if ad_decision dto = DECIDE_REJECTED then reject_claim env now ids dto admin c st
          else (case find_booking (dc_bookingId c) (fst st) of
                  None \<Rightarrow> (Inl (PrismaError ''P2003''), st)
                | Some b \<Rightarrow>
                    (case approval_checks dto c b of
                       Inl e \<Rightarrow> (Inl e, st)
                     | Inr x \<Rightarrow> approve_claim env now ids dto admin c x st)))"

end
