(* ===== verification/DepositFacts.thy ===== *)
theory DepositFacts
  imports DamageClaims LifecycleFacts Payouts
begin

text \<open>
  What happens to a deposit: it is paid back or forfeited once, to the cent and in the ledger, the hourly
  sweep leaves disputed trips alone, and a release writes one deposit and no claim.
\<close>

section \<open>Steps of a release\<close>

lemma set_deposit_simps [simp]:
  "db_deposits (set_deposit did F db) = update_where (\<lambda>q. sd_id q = did) F (db_deposits db)"
  "db_claims (set_deposit did F db) = db_claims db" "db_bookings (set_deposit did F db) = db_bookings db"
  "db_ledger (set_deposit did F db) = db_ledger db" "db_payments (set_deposit did F db) = db_payments db"
  by (simp_all add: set_deposit_def)

lemma log_deposit_simps [simp]:
  "db_deposits (log_deposit a t did db) = db_deposits db" "db_claims (log_deposit a t did db) = db_claims db"
  "db_bookings (log_deposit a t did db) = db_bookings db" "db_ledger (log_deposit a t did db) = db_ledger db"
  "db_payments (log_deposit a t did db) = db_payments db"
  by (simp_all add: log_deposit_def)

lemma post_deposit_simps [simp]:
  "db_deposits (post_deposit env now jid inp db) = db_deposits db" "db_claims (post_deposit env now jid inp db) = db_claims db"
  "db_bookings (post_deposit env now jid inp db) = db_bookings db" "db_payments (post_deposit env now jid inp db) = db_payments db"
  by (simp_all add: post_deposit_def)

lemma claim_deposit_Inr:
  "claim_deposit d msg F db = Inr db' \<longleftrightarrow>
     (\<exists>q \<in> set (db_deposits db). sd_id q = sd_id d \<and> sd_status q = SecurityDepositStatus.HELD) \<and>
     db' = db\<lparr>db_deposits := update_where (\<lambda>q. sd_id q = sd_id d \<and> sd_status q = SecurityDepositStatus.HELD) F (db_deposits db)\<rparr>"
  by (auto simp: claim_deposit_def exists_where_iff)

lemma finish_deposit_Inr:
  "finish_deposit d x rid db = Inr db' \<Longrightarrow> \<exists>i. db' = set_deposit (sd_id d) (\<lambda>q. q\<lparr>sd_refundedAmount := round2 x, sd_razorpayRefundId := i\<rparr>) db"
  by (auto simp: finish_deposit_def result_iffs Let_def split: if_splits dest!: money10_InrD)

lemma pay_back_kept:
  assumes "pay_back env now ids d amount reason tier revert st = (res, st')"
  shows "(\<exists>r. res = Inr r) \<and> db_deposits (fst st') = db_deposits (fst st) \<or>
      (\<exists>e. res = Inl e) \<and> db_deposits (fst st') = update_where (\<lambda>q. sd_id q = sd_id d) (revert \<circ> (\<lambda>q. q\<lparr>sd_status := SecurityDepositStatus.HELD, sd_releasedAt := None\<rparr>)) (db_deposits (fst st))"
    "db_claims (fst st') = db_claims (fst st)" "db_bookings (fst st') = db_bookings (fst st)" "db_ledger (fst st') = db_ledger (fst st)"
proof -
  obtain db g where st: "st = (db, g)" by fastforce
  obtain r db1 g1 where r: "refund env now (di_refund ids) \<lparr>rq_bookingId = sd_bookingId d, rq_paise = in_paise amount, rq_reason = Some reason,
      rq_tier = Some tier, rq_key = None, rq_userId = None\<rparr> (db, g) = (r, db1, g1)" by (metis prod.exhaust)
  then have k: "kept db1 = kept db" by (rule refund_kept(1))
  then have "db_claims db1 = db_claims db" by (simp add: kept_def)
  with keptD [OF k] show
    "(\<exists>r. res = Inr r) \<and> db_deposits (fst st') = db_deposits (fst st) \<or>
      (\<exists>e. res = Inl e) \<and> db_deposits (fst st') = update_where (\<lambda>q. sd_id q = sd_id d) (revert \<circ> (\<lambda>q. q\<lparr>sd_status := SecurityDepositStatus.HELD, sd_releasedAt := None\<rparr>)) (db_deposits (fst st))"
    "db_claims (fst st') = db_claims (fst st)" "db_bookings (fst st') = db_bookings (fst st)" "db_ledger (fst st') = db_ledger (fst st)"
    using assms unfolding pay_back_def st r by (auto split: sum.splits)
qed

lemma close_deposit_Inr:
  assumes "close_deposit env now jid d x journal audit rid st = (Inr d', st')" and "\<And>db. db_deposits (audit db) = db_deposits db"
    and "\<And>db. db_claims (audit db) = db_claims db" "\<And>db. db_bookings (audit db) = db_bookings db" "\<And>db. db_ledger (audit db) = db_ledger db"
  obtains i where "db_deposits (fst st') = update_where (\<lambda>q. sd_id q = sd_id d) (\<lambda>q. q\<lparr>sd_refundedAmount := round2 x, sd_razorpayRefundId := i\<rparr>) (db_deposits (fst st))"
    "find_deposit (sd_bookingId d) (fst st') = Some d'" "db_claims (fst st') = db_claims (fst st)" "db_bookings (fst st') = db_bookings (fst st)"
    "\<And>b. find_booking (sd_bookingId d) (fst st) = Some b \<Longrightarrow> py_ledger env \<Longrightarrow>
       db_ledger (fst st') = post_or_skip (recordJournal dec20 round2 now jid) (journal b) (db_ledger (fst st))"
proof -
  obtain db3 where f: "finish_deposit d x rid (fst st) = Inr db3" using assms(1) by (auto simp: close_deposit_def split: sum.splits)
  from finish_deposit_Inr [OF f] obtain i where i: "db3 = set_deposit (sd_id d) (\<lambda>q. q\<lparr>sd_refundedAmount := round2 x, sd_razorpayRefundId := i\<rparr>) (fst st)" by blast
  from assms(1) f have d': "find_deposit (sd_bookingId d) db3 = Some d'"
    and st': "st' = (audit (case find_booking (sd_bookingId d) db3 of None \<Rightarrow> db3 | Some b \<Rightarrow> post_deposit env now jid (journal b) db3), snd st)"
    by (auto simp: close_deposit_def split: option.splits)
  have "find_booking (sd_bookingId d) db3 = find_booking (sd_bookingId d) (fst st)" using i by (simp add: find_booking_def)
  then show thesis using that [of i] d' st' i assms(2-5) by (auto simp: find_deposit_def post_deposit_def split: option.splits)
qed

lemma release_money_Inr:
  assumes "release_money env now ids reason d x st = (Inr rid, st')"
  shows "db_deposits (fst st') = db_deposits (fst st) \<and> db_claims (fst st') = db_claims (fst st) \<and> db_bookings (fst st') = db_bookings (fst st)"
proof (cases "is_collateral d")
  case False
  with assms have "pay_back env now ids d x (or_string reason ''Security deposit release'') ''SECURITY_DEPOSIT_RELEASE'' (\<lambda>q. q) st = (Inr rid, st')"
    by (simp add: release_money_def)
  from pay_back_kept [OF this] show ?thesis by auto
qed (use assms in \<open>simp add: release_money_def\<close>)

lemma settle_money_Inr:
  assumes "settle_money env now ids reason d x st = (Inr rid, st')"
  shows "db_deposits (fst st') = db_deposits (fst st) \<and> db_claims (fst st') = db_claims (fst st) \<and> db_bookings (fst st') = db_bookings (fst st) \<and>
    db_ledger (fst st') = db_ledger (fst st)"
proof (cases "x > 0")
  case True
  with assms have "pay_back env now ids d x (''Partial deposit release after damage settlement: '' @ reason)
     ''DAMAGE_CLAIM_SETTLEMENT_REMAINDER'' (\<lambda>q. q\<lparr>sd_deductedAmount := 0\<rparr>) st = (Inr rid, st')" by (simp add: settle_money_def)
  from pay_back_kept [OF this] show ?thesis by auto
qed (use assms in \<open>simp add: settle_money_def\<close>)

text \<open>A release and a settlement that succeed\<close>

lemma release_read_done:
  assumes "release_read env now ids admin reason d remaining st = (Inr d', st')"
  obtains i where "db_deposits (fst st') = update_where (\<lambda>q. sd_id q = sd_id d) (\<lambda>q. q\<lparr>sd_refundedAmount := round2 remaining, sd_razorpayRefundId := i\<rparr>)
      (update_where (\<lambda>q. sd_id q = sd_id d \<and> sd_status q = SecurityDepositStatus.HELD) (\<lambda>q. q\<lparr>sd_status := release_status d, sd_releasedAt := Some now\<rparr>) (db_deposits (fst st)))"
    "\<exists>q \<in> set (db_deposits (fst st)). sd_id q = sd_id d \<and> sd_status q = SecurityDepositStatus.HELD" "find_deposit (sd_bookingId d) (fst st') = Some d'"
    "db_claims (fst st') = db_claims (fst st)" "db_bookings (fst st') = db_bookings (fst st)"
proof -
  obtain db1 where c: "claim_deposit d ''Security deposit release is already being processed or has completed concurrently.''
      (\<lambda>q. q\<lparr>sd_status := release_status d, sd_releasedAt := Some now\<rparr>) (fst st) = Inr db1"
    using assms by (auto simp: release_read_def split: sum.splits)
  with assms obtain rid st2 where m: "release_money env now ids reason d remaining (db1, snd st) = (Inr rid, st2)"
    and e: "close_deposit env now (di_journal ids) d remaining (\<lambda>b. release_journal reason d b remaining)
      (\<lambda>db. if str_truthy admin then log_deposit (the admin) ''SECURITY_DEPOSIT_RELEASED'' (sd_id d) db else db) rid st2 = (Inr d', st')"
    by (auto simp: release_read_def and_then_Inr_iff)
  from e obtain i where "db_deposits (fst st') = update_where (\<lambda>q. sd_id q = sd_id d) (\<lambda>q. q\<lparr>sd_refundedAmount := round2 remaining, sd_razorpayRefundId := i\<rparr>) (db_deposits (fst st2))"
    "find_deposit (sd_bookingId d) (fst st') = Some d'" "db_claims (fst st') = db_claims (fst st2)" "db_bookings (fst st') = db_bookings (fst st2)"
    by (rule close_deposit_Inr) simp_all
  with release_money_Inr [OF m] c [unfolded claim_deposit_Inr] show thesis using that [of i] by simp
qed

lemma settle_read_done:
  assumes "settle_read env now ids amount admin reason d st = (Inr d', st')"
  obtains i where "db_deposits (fst st') = update_where (\<lambda>q. sd_id q = sd_id d)
      (\<lambda>q. q\<lparr>sd_refundedAmount := round2 (dec20 (sd_amount d - deducted d amount)), sd_razorpayRefundId := i\<rparr>)
      (update_where (\<lambda>q. sd_id q = sd_id d \<and> sd_status q = SecurityDepositStatus.HELD) (\<lambda>q. q\<lparr>sd_status := deduction_status (dec20 (sd_amount d - deducted d amount)),
         sd_deductedAmount := round2 (deducted d amount), sd_releasedAt := Some now\<rparr>) (db_deposits (fst st)))"
    "\<exists>q \<in> set (db_deposits (fst st)). sd_id q = sd_id d \<and> sd_status q = SecurityDepositStatus.HELD" "find_deposit (sd_bookingId d) (fst st') = Some d'"
    "db_claims (fst st') = db_claims (fst st)" "db_bookings (fst st') = db_bookings (fst st)"
    "\<And>b. find_booking (sd_bookingId d) (fst st) = Some b \<Longrightarrow> py_ledger env \<Longrightarrow> db_ledger (fst st') =
       post_or_skip (recordJournal dec20 round2 now (di_journal ids)) (deduction_journal reason d b (deducted d amount) (dec20 (sd_amount d - deducted d amount))) (db_ledger (fst st))"
proof -
  let ?x = "deducted d amount"
  let ?r = "dec20 (sd_amount d - ?x)"
  obtain y db1 where y: "money10 ?x = Inr y" and c: "claim_deposit d ''Security deposit settlement is already being processed or has completed concurrently.''
      (\<lambda>q. q\<lparr>sd_status := deduction_status ?r, sd_deductedAmount := y, sd_releasedAt := Some now\<rparr>) (fst st) = Inr db1"
    using assms by (auto simp: settle_read_def Let_def bindR_Inr_iff split: sum.splits)
  with assms obtain rid st2 where m: "settle_money env now ids reason d ?r (db1, snd st) = (Inr rid, st2)"
    and e: "close_deposit env now (di_journal ids) d ?r (\<lambda>b. deduction_journal reason d b ?x ?r)
      (log_deposit admin ''SECURITY_DEPOSIT_SETTLED_WITH_DEDUCTION'' (sd_id d)) rid st2 = (Inr d', st')"
    by (auto simp: settle_read_def Let_def and_then_Inr_iff)
  from e obtain i where i: "db_deposits (fst st') = update_where (\<lambda>q. sd_id q = sd_id d) (\<lambda>q. q\<lparr>sd_refundedAmount := round2 ?r, sd_razorpayRefundId := i\<rparr>) (db_deposits (fst st2))"
    "find_deposit (sd_bookingId d) (fst st') = Some d'" "db_claims (fst st') = db_claims (fst st2)" "db_bookings (fst st') = db_bookings (fst st2)"
    "\<And>b. find_booking (sd_bookingId d) (fst st2) = Some b \<Longrightarrow> py_ledger env \<Longrightarrow>
       db_ledger (fst st') = post_or_skip (recordJournal dec20 round2 now (di_journal ids)) (deduction_journal reason d b ?x ?r) (db_ledger (fst st2))"
    by (rule close_deposit_Inr) simp_all
  have y': "y = round2 ?x" using money10_InrD [OF y] by blast
  note c' = c [unfolded claim_deposit_Inr y']
  have k: "db_deposits (fst st2) = db_deposits db1" "db_claims (fst st2) = db_claims db1" "db_bookings (fst st2) = db_bookings db1" "db_ledger (fst st2) = db_ledger db1"
    using settle_money_Inr [OF m] by simp_all
  have k1: "db_claims db1 = db_claims (fst st)" "db_bookings db1 = db_bookings (fst st)" "db_ledger db1 = db_ledger (fst st)" using c' by simp_all
  have "find_booking (sd_bookingId d) (fst st2) = find_booking (sd_bookingId d) (fst st)" using k(3) k1(2) by (simp only: find_booking_def)
  note L = i(5) [unfolded this k(4) k1(3)]
  show thesis
  proof (rule that)
    show "db_deposits (fst st') = update_where (\<lambda>q. sd_id q = sd_id d) (\<lambda>q. q\<lparr>sd_refundedAmount := round2 ?r, sd_razorpayRefundId := i\<rparr>)
      (update_where (\<lambda>q. sd_id q = sd_id d \<and> sd_status q = SecurityDepositStatus.HELD) (\<lambda>q. q\<lparr>sd_status := deduction_status ?r,
         sd_deductedAmount := round2 ?x, sd_releasedAt := Some now\<rparr>) (db_deposits (fst st)))"
      unfolding i(1) k(1) using c' by simp
    show "\<exists>q \<in> set (db_deposits (fst st)). sd_id q = sd_id d \<and> sd_status q = SecurityDepositStatus.HELD" using c' by blast
    show "db_claims (fst st') = db_claims (fst st)" "db_bookings (fst st') = db_bookings (fst st)" using i(3,4) k k1 by simp_all
  qed (rule i(2), rule L)
qed

section \<open>Once\<close>

lemma not_held_after:
  assumes F: "\<And>q. sd_id (F q) = sd_id q" "\<And>q. sd_status (F q) \<noteq> SecurityDepositStatus.HELD"
    and G: "\<And>q. sd_id (G q) = sd_id q" "\<And>q. sd_status (G q) = sd_status q"
    and q: "q \<in> set (update_where (\<lambda>q. sd_id q = i) G (update_where (\<lambda>q. sd_id q = i \<and> sd_status q = SecurityDepositStatus.HELD) F ds))" "sd_id q = i"
  shows "sd_status q \<noteq> SecurityDepositStatus.HELD"
proof -
  obtain p where p: "p \<in> set (update_where (\<lambda>q. sd_id q = i \<and> sd_status q = SecurityDepositStatus.HELD) F ds)" "q = (if sd_id p = i then G p else p)"
    using q(1) unfolding set_update_where by blast
  then obtain r where r: "p = (if sd_id r = i \<and> sd_status r = SecurityDepositStatus.HELD then F r else r)" unfolding set_update_where by blast
  have "sd_status q = sd_status p" "sd_id p = i" using p(2) q(2) G by (auto split: if_splits)
  with r F show ?thesis by (auto split: if_splits)
qed

lemma claim_fails:
  assumes "\<And>q. q \<in> set (db_deposits db) \<Longrightarrow> sd_id q = sd_id d \<Longrightarrow> sd_status q \<noteq> SecurityDepositStatus.HELD"
  shows "claim_deposit d msg F db = Inl (ConflictException msg)"
  using assms by (auto simp: claim_deposit_def exists_where_iff)

text \<open>
  C31: a deposit is paid back or settled once. Of any two callers that read the same deposit while it was
  held, and try to release it or to deduct from it, one succeeds; the other is refused, whatever it asks
  for, and neither moves money nor changes a row.
\<close>

theorem deposit_settled_once:
  assumes "release_read env now ids admin reason d remaining st = (Inr d', st') \<or> settle_read env now ids amount admin2 reason2 d st = (Inr d', st')"
  shows "(\<exists>e. release_read env now2 ids2 admin3 reason3 d remaining3 st' = (Inl e, st')) \<and>
     (\<exists>e. settle_read env now2 ids2 amount3 admin4 reason4 d st' = (Inl e, st'))"
proof -
  have h: "sd_status q \<noteq> SecurityDepositStatus.HELD" if "q \<in> set (db_deposits (fst st'))" "sd_id q = sd_id d" for q
    using assms(1)
  proof
    assume "release_read env now ids admin reason d remaining st = (Inr d', st')"
    from release_read_done [OF this] obtain i where i: "db_deposits (fst st') = update_where (\<lambda>q. sd_id q = sd_id d)
      (\<lambda>q. q\<lparr>sd_refundedAmount := round2 remaining, sd_razorpayRefundId := i\<rparr>)
      (update_where (\<lambda>q. sd_id q = sd_id d \<and> sd_status q = SecurityDepositStatus.HELD) (\<lambda>q. q\<lparr>sd_status := release_status d, sd_releasedAt := Some now\<rparr>) (db_deposits (fst st)))" .
    show ?thesis by (rule not_held_after [OF _ _ _ _ that(1) [unfolded i] that(2)]) (simp_all add: release_status_def)
  next
    assume "settle_read env now ids amount admin2 reason2 d st = (Inr d', st')"
    from settle_read_done [OF this] obtain i where i: "db_deposits (fst st') = update_where (\<lambda>q. sd_id q = sd_id d)
      (\<lambda>q. q\<lparr>sd_refundedAmount := round2 (dec20 (sd_amount d - deducted d amount)), sd_razorpayRefundId := i\<rparr>)
      (update_where (\<lambda>q. sd_id q = sd_id d \<and> sd_status q = SecurityDepositStatus.HELD) (\<lambda>q. q\<lparr>sd_status := deduction_status (dec20 (sd_amount d - deducted d amount)),
         sd_deductedAmount := round2 (deducted d amount), sd_releasedAt := Some now\<rparr>) (db_deposits (fst st)))" .
    show ?thesis by (rule not_held_after [OF _ _ _ _ that(1) [unfolded i] that(2)])
        (simp_all add: deduction_status_def)
  qed
  have "\<exists>e. release_read env now2 ids2 admin3 reason3 d remaining3 st' = (Inl e, st')"
    using claim_fails [of "fst st'" d] h by (simp add: release_read_def)
  moreover have "\<exists>e. settle_read env now2 ids2 amount3 admin4 reason4 d st' = (Inl e, st')"
    using claim_fails [of "fst st'" d] h by (cases "money10 (deducted d amount3)") (simp_all add: settle_read_def Let_def)
  ultimately show ?thesis ..
qed

section \<open>To the cent\<close>

lemma find_update_hit:
  assumes "List.find P xs = Some d" "Q d" "\<And>q. P (f q) = P q"
  shows "List.find P (update_where Q f xs) = Some (f d)"
  using assms by (induction xs) (auto split: if_splits)

lemma deposit_line_simps [simp]:
  "li_amount (deposit_line b t ent s x text extra) = x" "line_side (deposit_line b t ent s x text extra) = Some s"
  "li_accountType (deposit_line b t ent s x text extra) = t" "li_accountEntityId (deposit_line b t ent s x text extra) = Some ent"
  by (simp_all add: deposit_line_def line_side_def)

lemma escrow_journal_simps [simp]:
  "raw_lines (escrow_journal ty tx extra k v d b ls) = ls" "ji_vendorId (escrow_journal ty tx extra k v d b ls) = v"
  "ji_idempotencyKey (escrow_journal ty tx extra k v d b ls) = Some (k @ sd_id d)"
  by (simp_all add: escrow_journal_def raw_lines_def)

lemma deducted_cents:
  assumes "is_cents c" "0 \<le> c" "c < 10 ^ 8"
  shows "deducted d (fl c) = min c (sd_amount d)"
  using dec_of_cents [of c] assms by (simp add: deducted_def Let_def min_def)

lemma deduction_lines_exact:
  assumes "is_cents (sd_amount d)" "is_cents x" "0 < x" "x \<le> sd_amount d" "sd_amount d < 10 ^ 8" "r = sd_amount d - x"
  shows "\<forall>l\<in>set (raw_lines (deduction_journal reason d b x r)). valid_line l" "2 \<le> length (raw_lines (deduction_journal reason d b x r))"
    "cents_journal (deduction_journal reason d b x r)"
    "dsum dec20 0 (side_amounts LedgerEntrySide.DEBIT (raw_lines (deduction_journal reason d b x r))) =
     dsum dec20 0 (side_amounts LedgerEntrySide.CREDIT (raw_lines (deduction_journal reason d b x r)))"
proof -
  let ?J = "deduction_journal reason d b x r"
  have r: "is_cents r" "0 \<le> r" using assms by (auto intro: is_cents_diff)
  have a: "sd_amount d < 100000000" using assms(5) by simp
  show v: "\<forall>l\<in>set (raw_lines ?J). valid_line l" using assms r by (simp add: deduction_journal_def line_simps valid_line_def)
  show "2 \<le> length (raw_lines ?J)" using assms(3) by (simp add: deduction_journal_def line_if_def)
  have "\<forall>y\<in>set (map li_amount (raw_lines ?J)). is_cents y" using assms r by (auto simp: deduction_journal_def line_if_def)
  moreover have "sum_list (map li_amount (raw_lines ?J)) < 10 ^ 17" using assms r a by (simp add: deduction_journal_def line_simps)
  ultimately show c: "cents_journal ?J" by (simp add: cents_journal_def)
  have sums: "dsum dec20 0 (side_amounts s (raw_lines ?J)) = sum_list (side_amounts s (raw_lines ?J))" for s
    using djs.dsum_side [OF c, of s] v by simp
  have "sum_list (side_amounts LedgerEntrySide.DEBIT (raw_lines ?J)) = sd_amount d" "sum_list (side_amounts LedgerEntrySide.CREDIT (raw_lines ?J)) = sd_amount d"
    using assms r by (simp_all add: deduction_journal_def line_simps)
  then show "dsum dec20 0 (side_amounts LedgerEntrySide.DEBIT (raw_lines ?J)) = dsum dec20 0 (side_amounts LedgerEntrySide.CREDIT (raw_lines ?J))"
    by (simp only: sums)
qed

lemma deduction_effect:
  assumes "0 < x" "x \<le> sd_amount d" "r = sd_amount d - x"
  shows "journal_effect (deduction_journal reason d b x r) CUSTOMER_DEPOSIT_ESCROW (Some (bk_customerId b)) = - sd_amount d \<or> bk_customerId b = []"
    "journal_effect (deduction_journal reason d b x r) VENDOR_PAYABLE (Some (bk_vendorId b)) = x"
    "journal_effect (deduction_journal reason d b x r) GATEWAY_CLEARING (Some ''RAZORPAY'') = - r"
  using assms by (auto simp: journal_effect_def line_delta_def deduction_journal_def line_if_def is_asset_account_def or_str_def)

lemma settled_deposit:
  assumes "settleDeduction env now ids bid amount admin reason st = (Inr (Some d'), st')"
    and "find_deposit bid (fst st) = Some d" "sd_status d = SecurityDepositStatus.HELD"
  shows "settle_read env now ids amount admin reason d st = (Inr d', st')" "sd_bookingId d = bid"
  using assms by (auto simp: settleDeduction_def and_then_Inr_iff dest: find_depositD)

text \<open>
  C30: a deduction for damage is exact: of a deposit that was held, the part that is deducted and the part
  that is refunded make up the whole, the deduction is what was approved or all there is, the deposit ends
  forfeited when nothing is left, and the journal moves it from escrow to the vendor and to the gateway,
  provided its keys are new to the ledger.
\<close>

theorem damage_deduction_exact:
  assumes "settleDeduction env now ids bid (fl c) admin reason st = (Inr (Some d'), st')"
    and "find_deposit bid (fst st) = Some d" "sd_status d = SecurityDepositStatus.HELD" "find_booking bid (fst st) = Some b" "bk_customerId b \<noteq> []"
    and "is_cents c" "0 < c" "c < 10 ^ 8" "is_cents (sd_amount d)" "0 < sd_amount d" "sd_amount d < 10 ^ 8" "py_ledger env"
    and "keys_free (deduction_journal reason d b (min c (sd_amount d)) (sd_amount d - min c (sd_amount d))) (db_ledger (fst st))"
  shows "sd_deductedAmount d' = min c (sd_amount d) \<and> sd_refundedAmount d' = sd_amount d - min c (sd_amount d) \<and>
     sd_status d' = (if sd_amount d \<le> c then SecurityDepositStatus.FORFEITED else SecurityDepositStatus.PARTIALLY_REFUNDED) \<and>
     getAccountBalance CUSTOMER_DEPOSIT_ESCROW (Some (bk_customerId b)) (db_ledger (fst st')) =
       getAccountBalance CUSTOMER_DEPOSIT_ESCROW (Some (bk_customerId b)) (db_ledger (fst st)) - sd_amount d \<and>
     getVendorPayableBalance (bk_vendorId b) (db_ledger (fst st')) = getVendorPayableBalance (bk_vendorId b) (db_ledger (fst st)) + min c (sd_amount d) \<and>
     getAccountBalance GATEWAY_CLEARING (Some ''RAZORPAY'') (db_ledger (fst st')) =
       getAccountBalance GATEWAY_CLEARING (Some ''RAZORPAY'') (db_ledger (fst st)) - (sd_amount d - min c (sd_amount d))"
proof -
  note s = settled_deposit [OF assms(1-3)]
  let ?x = "min c (sd_amount d)" and ?L = "db_ledger (fst st)"
  let ?r = "sd_amount d - ?x"
  have x: "deducted d (fl c) = ?x" using deducted_cents assms(6-8) by simp
  have xc: "is_cents ?x" "0 < ?x" "?x \<le> sd_amount d" using assms(6,7,9,10) by (auto simp: min_def)
  have a: "sd_amount d < 100000000" using assms(11) by simp
  have rc: "is_cents ?r" using assms(9) xc(1) by (rule is_cents_diff)
  have r: "dec20 ?r = ?r" by (rule dec20_small [OF rc]) (use xc a in linarith)+
  have sums: "round2 ?x = ?x" "round2 ?r = ?r" using xc(1) rc by (simp_all add: round2_exact)
  obtain i where i: "db_deposits (fst st') = update_where (\<lambda>q. sd_id q = sd_id d)
      (\<lambda>q. q\<lparr>sd_refundedAmount := ?r, sd_razorpayRefundId := i\<rparr>)
      (update_where (\<lambda>q. sd_id q = sd_id d \<and> sd_status q = SecurityDepositStatus.HELD) (\<lambda>q. q\<lparr>sd_status := deduction_status ?r,
         sd_deductedAmount := ?x, sd_releasedAt := Some now\<rparr>) (db_deposits (fst st)))" "find_deposit (sd_bookingId d) (fst st') = Some d'"
    and L': "\<And>b. find_booking (sd_bookingId d) (fst st) = Some b \<Longrightarrow> py_ledger env \<Longrightarrow> db_ledger (fst st') =
       post_or_skip (recordJournal dec20 round2 now (di_journal ids)) (deduction_journal reason d b ?x ?r) ?L"
    by (rule settle_read_done [OF s(1), unfolded x r sums]) (rule that, assumption+)
  note L = L' [unfolded s(2), OF assms(4,12)]
  have "find_deposit bid (fst st') = Some (d\<lparr>sd_status := deduction_status ?r, sd_deductedAmount := ?x, sd_releasedAt := Some now,
      sd_refundedAmount := ?r, sd_razorpayRefundId := i\<rparr>)"
    using assms(2,3) unfolding find_deposit_def i(1)
    by (intro find_update_hit [THEN trans]) (auto intro!: find_update_hit)
  then have d': "d' = d\<lparr>sd_status := deduction_status ?r, sd_deductedAmount := ?x, sd_releasedAt := Some now,
      sd_refundedAmount := ?r, sd_razorpayRefundId := i\<rparr>" using i(2) s(2) by simp
  note e = deduction_lines_exact [OF assms(9) xc assms(11) HOL.refl, where b = b] and f = deduction_effect [OF xc(2,3) HOL.refl, where b = b]
  have "\<exists>q es. recordJournal dec20 round2 now (di_journal ids) (deduction_journal reason d b ?x ?r) ?L = Inr (q, ?L @ es) \<and>
    (\<forall>t ent. getAccountBalance t ent (?L @ es) = getAccountBalance t ent ?L + journal_effect (deduction_journal reason d b ?x ?r) t ent) \<and>
    (\<forall>e\<in>set es. \<exists>i. le_idempotencyKey e = line_key (Some (''jrn_dep_deduct_'' @ sd_id d)) i)"
    by (rule record_fresh [OF assms(13)]) (use e in \<open>simp_all add: deduction_journal_def\<close>)
  then show ?thesis using f assms(5) d' by (auto simp: L post_or_skip_def getVendorPayableBalance_def deduction_status_def)
qed

section \<open>What a release leaves alone\<close>

definition touches :: "id \<Rightarrow> SecurityDeposit list \<Rightarrow> SecurityDeposit list \<Rightarrow> bool" where
  "touches i ds ds' \<longleftrightarrow>
     (\<exists>F. (\<forall>q. sd_id (F q) = sd_id q \<and> sd_bookingId (F q) = sd_bookingId q) \<and> ds' = update_where (\<lambda>q. sd_id q = i) F ds)"

lemma touches_refl: "touches i ds ds"
  unfolding touches_def by (intro exI [of _ "\<lambda>q. q"]) (simp add: update_where_def)

lemma touches_trans: "touches i ds es \<Longrightarrow> touches i es fs \<Longrightarrow> touches i ds fs"
proof -
  assume "touches i ds es" "touches i es fs"
  then obtain F G where F: "\<forall>q. sd_id (F q) = sd_id q \<and> sd_bookingId (F q) = sd_bookingId q" "es = update_where (\<lambda>q. sd_id q = i) F ds"
    and G: "\<forall>q. sd_id (G q) = sd_id q \<and> sd_bookingId (G q) = sd_bookingId q" "fs = update_where (\<lambda>q. sd_id q = i) G es"
    unfolding touches_def by blast
  have "fs = update_where (\<lambda>q. sd_id q = i) (G \<circ> F) ds" unfolding F(2) G(2) using F(1) by (simp add: update_where_def)
  then show ?thesis unfolding touches_def using F(1) G(1) by (intro exI [of _ "G \<circ> F"]) simp
qed

lemma touches_update:
  assumes "\<And>q. sd_id (F q) = sd_id q" "\<And>q. sd_bookingId (F q) = sd_bookingId q"
  shows "touches i ds (update_where (\<lambda>q. sd_id q = i) F ds)" "touches i ds (update_where (\<lambda>q. sd_id q = i \<and> P q) F ds)"
proof -
  show "touches i ds (update_where (\<lambda>q. sd_id q = i) F ds)" unfolding touches_def using assms by (intro exI [of _ F]) simp
  have "update_where (\<lambda>q. sd_id q = i \<and> P q) F ds = update_where (\<lambda>q. sd_id q = i) (\<lambda>q. if P q then F q else q) ds"
    by (simp add: update_where_def)
  then show "touches i ds (update_where (\<lambda>q. sd_id q = i \<and> P q) F ds)"
    unfolding touches_def using assms by (intro exI [of _ "\<lambda>q. if P q then F q else q"]) simp
qed

lemma touchesD:
  assumes "touches i ds ds'"
  shows "map sd_id ds' = map sd_id ds" "map sd_bookingId ds' = map sd_bookingId ds" "q \<in> set ds \<Longrightarrow> sd_id q \<noteq> i \<Longrightarrow> q \<in> set ds'"
  using assms by (auto simp: touches_def update_where_map_key set_update_where)

text \<open>Whatever the outcome, a release writes one deposit and no claim or booking.\<close>

definition only_deposit :: "id \<Rightarrow> bk_db \<times> 'g \<Rightarrow> bk_db \<times> 'g \<Rightarrow> bool" where
  "only_deposit i st st' \<longleftrightarrow> touches i (db_deposits (fst st)) (db_deposits (fst st')) \<and>
     db_claims (fst st') = db_claims (fst st) \<and> db_bookings (fst st') = db_bookings (fst st)"

lemma only_refl [simp]: "only_deposit i st st"
  by (simp add: only_deposit_def touches_refl)

lemma only_trans: "only_deposit i st st1 \<Longrightarrow> only_deposit i st1 st2 \<Longrightarrow> only_deposit i st st2"
  by (auto simp: only_deposit_def intro: touches_trans)

lemma only_and_then:
  assumes "only_deposit i st (snd m)" "\<And>x st1. only_deposit i st1 (snd (f x st1))"
  shows "only_deposit i st (snd (and_then m f))"
proof (cases "fst m")
  case (Inr x)
  with only_trans [OF assms(1) assms(2) [of "snd m" x]] show ?thesis by (simp add: and_then_def)
qed (use assms(1) in \<open>simp add: and_then_def\<close>)

lemma only_pay_back:
  assumes "\<And>q. sd_id (revert q) = sd_id q" "\<And>q. sd_bookingId (revert q) = sd_bookingId q"
  shows "only_deposit (sd_id d) st (snd (pay_back env now ids d amount reason tier revert st))"
proof -
  obtain res st' where p: "pay_back env now ids d amount reason tier revert st = (res, st')" by (metis prod.exhaust)
  have "touches (sd_id d) (db_deposits (fst st)) (update_where (\<lambda>q. sd_id q = sd_id d) (revert \<circ> (\<lambda>q. q\<lparr>sd_status := SecurityDepositStatus.HELD, sd_releasedAt := None\<rparr>)) (db_deposits (fst st)))"
    using assms by (intro touches_update) simp_all
  with pay_back_kept [OF p] touches_refl show ?thesis by (auto simp: only_deposit_def p)
qed

lemma only_money: "only_deposit (sd_id d) st (snd (release_money env now ids reason d x st))" "only_deposit (sd_id d) st (snd (settle_money env now ids why d x st))"
  by (simp_all add: release_money_def settle_money_def only_pay_back)

lemma only_close:
  assumes "\<And>db. db_deposits (audit db) = db_deposits db" "\<And>db. db_claims (audit db) = db_claims db" "\<And>db. db_bookings (audit db) = db_bookings db"
  shows "only_deposit (sd_id d) st (snd (close_deposit env now jid d x journal audit rid st))"
proof (cases "finish_deposit d x rid (fst st)")
  case (Inr db3)
  from finish_deposit_Inr [OF Inr] obtain i where "db3 = set_deposit (sd_id d) (\<lambda>q. q\<lparr>sd_refundedAmount := round2 x, sd_razorpayRefundId := i\<rparr>) (fst st)" by blast
  then show ?thesis using Inr assms by (auto simp: close_deposit_def only_deposit_def touches_update touches_refl split: option.split)
qed (simp add: close_deposit_def)

lemma only_claim:
  assumes "claim_deposit d msg F db = Inr db'" "\<And>q. sd_id (F q) = sd_id q" "\<And>q. sd_bookingId (F q) = sd_bookingId q"
  shows "only_deposit (sd_id d) (db, g) (db', g')"
  using assms by (auto simp: claim_deposit_Inr only_deposit_def touches_update)

lemma only_release_read: "only_deposit (sd_id d) st (snd (release_read env now ids admin reason d x st))"
proof (cases "claim_deposit d ''Security deposit release is already being processed or has completed concurrently.''
      (\<lambda>q. q\<lparr>sd_status := release_status d, sd_releasedAt := Some now\<rparr>) (fst st)")
  case (Inr db1)
  then have "only_deposit (sd_id d) (fst st, snd st) (db1, snd st)" by (rule only_claim) simp_all
  then show ?thesis
    using Inr by (auto simp: release_read_def intro!: only_and_then only_close intro: only_trans [OF _ only_money(1)])
qed (simp add: release_read_def)

lemma only_settle_read: "only_deposit (sd_id d) st (snd (settle_read env now ids amount admin reason d st))"
proof (cases "bindR (money10 (deducted d amount)) (\<lambda>y. claim_deposit d ''Security deposit settlement is already being processed or has completed concurrently.''
      (\<lambda>q. q\<lparr>sd_status := deduction_status (dec20 (sd_amount d - deducted d amount)), sd_deductedAmount := y, sd_releasedAt := Some now\<rparr>) (fst st))")
  case (Inr db1)
  then obtain y where "claim_deposit d ''Security deposit settlement is already being processed or has completed concurrently.''
      (\<lambda>q. q\<lparr>sd_status := deduction_status (dec20 (sd_amount d - deducted d amount)), sd_deductedAmount := y, sd_releasedAt := Some now\<rparr>) (fst st) = Inr db1"
    by (auto simp: bindR_Inr_iff)
  then have "only_deposit (sd_id d) (fst st, snd st) (db1, snd st)" by (rule only_claim) simp_all
  then show ?thesis
    using Inr by (auto simp: settle_read_def Let_def intro!: only_and_then only_close intro: only_trans [OF _ only_money(2)])
qed (simp add: settle_read_def Let_def)

lemma only_releaseDeposit:
  obtains (nothing) "snd (releaseDeposit env now ids bid admin reason st) = st"
  | (one) d where "d \<in> set (db_deposits (fst st))" "sd_bookingId d = bid" "only_deposit (sd_id d) st (snd (releaseDeposit env now ids bid admin reason st))"
proof (cases "release_checks bid (fst st)")
  case (Inl e)
  show thesis by (rule nothing) (simp add: releaseDeposit_def Inl)
next
  case (Inr o')
  show thesis
  proof (cases o')
    case None
    with Inr have "snd (releaseDeposit env now ids bid admin reason st) = st" by (simp add: releaseDeposit_def)
    then show thesis by (rule nothing)
  next
    case (Some dr)
    obtain d r where dr: "dr = (d, r)" by fastforce
    with Inr Some have "find_deposit bid (fst st) = Some d" by (auto simp: release_checks_def Let_def throw_if_Inr_iff split: option.splits)
    then have "d \<in> set (db_deposits (fst st))" "sd_bookingId d = bid" by (auto dest: find_depositD)
    moreover have "only_deposit (sd_id d) st (snd (releaseDeposit env now ids bid admin reason st))"
      using Inr Some dr by (auto simp: releaseDeposit_def intro!: only_and_then only_release_read)
    ultimately show thesis by (rule one)
  qed
qed

lemma only_settleDeduction:
  "db_claims (fst (snd (settleDeduction env now ids bid amount admin reason st))) = db_claims (fst st) \<and>
   db_bookings (fst (snd (settleDeduction env now ids bid amount admin reason st))) = db_bookings (fst st)"
proof -
  have "only_deposit (sd_id d) st (snd (and_then (settle_read env now ids amount admin reason d st) (\<lambda>d' st'. (Inr (Some d'), st'))))" for d
    by (intro only_and_then only_settle_read) simp
  then show ?thesis by (auto simp: settleDeduction_def only_deposit_def split: option.split)
qed

section \<open>The sweep\<close>

lemma sweep_keeps:
  assumes "d \<in> set (db_deposits (fst st))" "distinct (map sd_id (db_deposits (fst st)))"
    and "\<forall>q \<in> set ds. sd_bookingId q \<noteq> sd_bookingId d"
  shows "d \<in> set (db_deposits (fst (release_each env now ids ds st)))"
  using assms
proof (induction ds arbitrary: st)
  case (Cons e ds)
  let ?st = "snd (releaseDeposit env now (ids (length ds)) (sd_bookingId e) None (Some ''Automated 24-hour post-trip deposit release'') st)"
  have "d \<in> set (db_deposits (fst ?st)) \<and> distinct (map sd_id (db_deposits (fst ?st)))"
  proof (rule only_releaseDeposit [of env now "ids (length ds)" "sd_bookingId e" None "Some ''Automated 24-hour post-trip deposit release''" st])
    assume "?st = st"
    with Cons.prems show ?thesis by simp
  next
    fix f assume f: "f \<in> set (db_deposits (fst st))" "sd_bookingId f = sd_bookingId e" "only_deposit (sd_id f) st ?st"
    then have t: "touches (sd_id f) (db_deposits (fst st)) (db_deposits (fst ?st))" by (simp add: only_deposit_def)
    have "f \<noteq> d" using f(2) Cons.prems(3) by auto
    then have "sd_id d \<noteq> sd_id f" using f(1) Cons.prems(1,2) by (auto simp: distinct_map inj_on_def)
    with touchesD [OF t] Cons.prems(1,2) show ?thesis by simp
  qed
  with Cons.IH [of ?st] Cons.prems(3) show ?case by simp
qed simp


end
