(* ===== verification/ClaimFacts.thy ===== *)
theory ClaimFacts
  imports DepositFacts
begin

text \<open>
  Damage claims as a transition system, when a deposit is released, and what a release does to the
  payment of the booking and to the vendor's earnings.
\<close>

section \<open>Claims\<close>

inductive claim_step :: "'g pay_env \<Rightarrow> bk_db \<times> 'g \<Rightarrow> bk_db \<times> 'g \<Rightarrow> bool" for env where
  filed: "createClaim now newId bid dto userId role db = Inr (c, db') \<Longrightarrow> newId \<notin> dc_id ` set (db_claims db) \<Longrightarrow> claim_step env (db, g) (db', g)"
| disputed: "disputeClaim cid remark userId db = Inr db' \<Longrightarrow> claim_step env (db, g) (db', g)"
| decided: "adjudicateClaim env now ids cid ruling admin st = (res, st') \<Longrightarrow> claim_step env st st'"

inductive claim_run :: "'g pay_env \<Rightarrow> bk_db \<times> 'g \<Rightarrow> bk_db \<times> 'g \<Rightarrow> bool" for env where
  start: "claim_run env st st"
| next_step: "claim_run env st st1 \<Longrightarrow> claim_step env st1 st2 \<Longrightarrow> claim_run env st st2"

definition one_open :: "bk_db \<Rightarrow> bool" where
  "one_open db \<longleftrightarrow> distinct (map dc_id (db_claims db)) \<and>
     (\<forall>c\<in>set (db_claims db). \<forall>k\<in>set (db_claims db). dc_bookingId c = dc_bookingId k \<longrightarrow> open_claim (dc_status c) \<longrightarrow> open_claim (dc_status k) \<longrightarrow> c = k)"

definition finals_stay :: "bk_db \<Rightarrow> bk_db \<Rightarrow> bool" where
  "finals_stay db db' \<longleftrightarrow> (\<forall>c\<in>set (db_claims db). finalized_claim (dc_status c) \<longrightarrow> c \<in> set (db_claims db'))"

lemma set_claim_claims [simp]: "db_claims (set_claim cid F db) = update_where (\<lambda>c. dc_id c = cid) F (db_claims db)"
  by (simp add: set_claim_def)

lemma log_claim_claims [simp]: "db_claims (log_claim a t cid db) = db_claims db"
  by (simp add: log_claim_def)

lemma pending_open: "\<not> finalized_claim s \<Longrightarrow> open_claim s"
  by (cases s) (simp_all add: finalized_claim_def open_claim_def)

lemma claim_updated:
  assumes "one_open db" "find_claim cid db = Some c" "\<not> finalized_claim (dc_status c)"
    and "\<And>k. dc_id (F k) = dc_id k" "\<And>k. dc_bookingId (F k) = dc_bookingId k" "db_claims db' = update_where (\<lambda>k. dc_id k = cid) F (db_claims db)"
  shows "one_open db' \<and> finals_stay db db'"
proof -
  have c: "c \<in> set (db_claims db)" "dc_id c = cid" using find_Some_D [OF assms(2) [unfolded find_claim_def]] by simp_all
  have d: "distinct (map dc_id (db_claims db))" using assms(1) by (simp add: one_open_def)
  have rows: "s = F c \<or> s \<in> set (db_claims db) \<and> dc_id s \<noteq> cid" if "s \<in> set (db_claims db')" for s
    using update_where_set_key [OF d c(1), of F s] that assms(4,6) c(2) by simp
  have old: "k = c" if "k \<in> set (db_claims db)" "dc_bookingId k = dc_bookingId c" "open_claim (dc_status k)" for k
    using assms(1) that c(1) pending_open [OF assms(3)] by (auto simp: one_open_def)
  have "x = y" if "x \<in> set (db_claims db')" "y \<in> set (db_claims db')" "dc_bookingId x = dc_bookingId y" "open_claim (dc_status x)" "open_claim (dc_status y)" for x y
  proof -
    have "z \<noteq> F c \<Longrightarrow> z \<in> set (db_claims db) \<and> dc_id z \<noteq> cid" if "z = x \<or> z = y" for z
      using rows [of z] \<open>x \<in> set (db_claims db')\<close> \<open>y \<in> set (db_claims db')\<close> that by blast
    note z = this [of x] this [of y]
    show ?thesis
    proof (cases "x = F c"; cases "y = F c")
      assume "x = F c" "y \<noteq> F c"
      with z(2) old [of y] that(3,5) assms(5) c(2) show ?thesis by simp
    next
      assume "x \<noteq> F c" "y = F c"
      with z(1) old [of x] that(3,4) assms(5) c(2) show ?thesis by simp
    next
      assume "x \<noteq> F c" "y \<noteq> F c"
      with z that(3-5) assms(1) show ?thesis by (simp add: one_open_def)
    qed simp
  qed
  moreover have "distinct (map dc_id (db_claims db'))" using d assms(4,6) by (simp add: update_where_map_key)
  moreover have "k \<in> set (db_claims db')" if k: "k \<in> set (db_claims db)" "finalized_claim (dc_status k)" for k
  proof -
    have "k \<noteq> c" using k(2) assms(3) by blast
    then have "dc_id k \<noteq> cid" using d k(1) c by (auto simp: distinct_map inj_on_def)
    with k(1) show ?thesis by (auto simp: assms(6) set_update_where)
  qed
  ultimately show ?thesis unfolding one_open_def finals_stay_def by blast
qed

lemma claims_same: "one_open db \<Longrightarrow> db_claims db' = db_claims db \<Longrightarrow> one_open db' \<and> finals_stay db db'"
  by (simp add: one_open_def finals_stay_def)

lemma adjudicate_claims:
  assumes "find_claim cid (fst st) = Some c"
  shows "db_claims (fst (snd (adjudicateClaim env now ids cid dto admin st))) = db_claims (fst st) \<or>
     \<not> finalized_claim (dc_status c) \<and>
     (\<exists>F. (\<forall>k. dc_id (F k) = dc_id k) \<and> (\<forall>k. dc_bookingId (F k) = dc_bookingId k) \<and>
       db_claims (fst (snd (adjudicateClaim env now ids cid dto admin st))) = update_where (\<lambda>k. dc_id k = cid) F (db_claims (fst st)))"
proof -
  have cid: "dc_id c = cid" using find_Some_D [OF assms [unfolded find_claim_def]] by simp
  let ?F = "\<lambda>k. k\<lparr>dc_status := DamageClaimStatus.REJECTED, dc_adminNotes := Some (ad_adminNotes dto), dc_resolvedAt := Some now\<rparr>"
  let ?rel = "releaseDeposit env now ids (dc_bookingId c) (Some admin) (Some (''Damage claim rejected: '' @ ad_adminNotes dto)) (set_claim cid ?F (fst st), snd st)"
  have rel: "db_claims (fst (snd ?rel)) = update_where (\<lambda>k. dc_id k = cid) ?F (db_claims (fst st))"
    by (rule only_releaseDeposit [of env now ids "dc_bookingId c" "Some admin" "Some (''Damage claim rejected: '' @ ad_adminNotes dto)" "(set_claim cid ?F (fst st), snd st)"])
      (simp_all add: only_deposit_def)
  have rej: "db_claims (fst (snd (reject_claim env now ids dto admin c st))) = update_where (\<lambda>k. dc_id k = cid) ?F (db_claims (fst st))"
    using rel by (auto simp: reject_claim_def Let_def cid and_then_def split: sum.split prod.split)
  have app: "\<exists>F. (\<forall>k. dc_id (F k) = dc_id k) \<and> (\<forall>k. dc_bookingId (F k) = dc_bookingId k) \<and>
      db_claims (fst (snd (approve_claim env now ids dto admin c x st))) = update_where (\<lambda>k. dc_id k = cid) F (db_claims (fst st))" for x
  proof -
    obtain r db1 g1 where s: "settleDeduction env now ids (dc_bookingId c) x admin (ad_adminNotes dto) st = (r, db1, g1)" by (metis prod.exhaust)
    then have k: "db_claims db1 = db_claims (fst st)"
      using only_settleDeduction [of env now ids "dc_bookingId c" x admin "ad_adminNotes dto" st] by simp
    show ?thesis
    proof (cases "\<exists>dep amount. r = Inr dep \<and> num10 x = Inr amount")
      case True
      then show ?thesis using k by (auto simp: approve_claim_def s and_then_def cid
          intro!: exI [of _ "\<lambda>k. k\<lparr>dc_status := approved_status dto x c, dc_approvedAmount := Some (case num10 x of Inr a \<Rightarrow> a),
                    dc_adminNotes := Some (ad_adminNotes dto), dc_resolvedAt := Some now\<rparr>"])
    next
      case False
      then have "db_claims (fst (snd (approve_claim env now ids dto admin c x st))) = db_claims (fst st)"
        using k by (auto simp: approve_claim_def s and_then_def split: sum.split)
      then show ?thesis by (intro exI [of _ "\<lambda>k. k"]) (simp add: update_where_def)
    qed
  qed
  show ?thesis
  proof (cases "finalized_claim (dc_status c)")
    case True
    then show ?thesis using assms by (simp add: adjudicateClaim_def)
  next
    case False
    show ?thesis
    proof (cases "ad_decision dto = DECIDE_REJECTED")
      case True
      then show ?thesis using False assms rej by (auto simp: adjudicateClaim_def intro!: exI [of _ ?F])
    next
      case no: False
      show ?thesis
      proof (cases "\<exists>b x. find_booking (dc_bookingId c) (fst st) = Some b \<and> approval_checks dto c b = Inr x")
        case True
        then obtain b x where "find_booking (dc_bookingId c) (fst st) = Some b" "approval_checks dto c b = Inr x" by blast
        then have e: "adjudicateClaim env now ids cid dto admin st = approve_claim env now ids dto admin c x st"
          using False no assms by (simp add: adjudicateClaim_def)
        show ?thesis unfolding e using app [of x] False by blast
      next
        case none: False
        then have "snd (adjudicateClaim env now ids cid dto admin st) = st"
          using False no assms by (auto simp: adjudicateClaim_def split: option.split sum.split)
        then show ?thesis by simp
      qed
    qed
  qed
qed

lemma claim_step_ok:
  assumes "claim_step env st st'" "one_open (fst st)"
  shows "one_open (fst st') \<and> finals_stay (fst st) (fst st')"
  using assms(1)
proof cases
  case (filed now newId bid dto userId role db c db' g)
  then have c: "db_claims db' = db_claims db @ [c]" "dc_id c = newId" "dc_bookingId c = bid" "dc_status c = DamageClaimStatus.SUBMITTED"
    "\<not> exists_where (\<lambda>c. dc_bookingId c = bid \<and> open_claim (dc_status c)) (db_claims db)"
    by (auto simp: createClaim_def result_iffs Let_def split: option.splits)
  have "one_open db'" using assms(2) filed(1,2,4) c by (auto simp: one_open_def exists_where_iff)
  moreover have "finals_stay db db'" by (simp add: finals_stay_def c(1))
  ultimately show ?thesis using filed(1,2) by simp
next
  case (disputed cid remark userId db db' g)
  then obtain c where c: "find_claim cid db = Some c" "dc_status c = DamageClaimStatus.SUBMITTED \<or> dc_status c = DamageClaimStatus.UNDER_REVIEW"
    "db' = set_claim cid (\<lambda>c. c\<lparr>dc_customerDispute := Some remark, dc_status := DamageClaimStatus.UNDER_REVIEW\<rparr>) db"
    by (auto simp: disputeClaim_def result_iffs split: option.splits)
  have "one_open db' \<and> finals_stay db db'"
    by (rule claim_updated [OF _ c(1)]) (use assms(2) disputed(1) c in \<open>auto simp: finalized_claim_def\<close>)
  then show ?thesis using disputed(1,2) by simp
next
  case (decided now ids cid ruling admin res)
  show ?thesis
  proof (cases "find_claim cid (fst st)")
    case None
    then have "st' = st" using decided by (simp add: adjudicateClaim_def)
    then show ?thesis using assms(2) by (simp add: claims_same)
  next
    case (Some c)
    have s: "snd (adjudicateClaim env now ids cid ruling admin st) = st'" using decided by simp
    from adjudicate_claims [OF Some, of env now ids ruling admin, unfolded s] show ?thesis
    proof (elim disjE conjE exE)
      assume "db_claims (fst st') = db_claims (fst st)"
      with assms(2) show ?thesis by (rule claims_same)
    next
      fix F assume f: "\<not> finalized_claim (dc_status c)" "\<forall>k. dc_id (F k) = dc_id k" "\<forall>k. dc_bookingId (F k) = dc_bookingId k"
        "db_claims (fst st') = update_where (\<lambda>k. dc_id k = cid) F (db_claims (fst st))"
      show ?thesis by (rule claim_updated [OF assms(2) Some f(1) _ _ f(4)]) (use f in simp_all)
    qed
  qed
qed

text \<open>
  C32: over any history of claims filed, disputed and decided, whatever the gateway does with the deposits,
  a booking has one open claim at most, and a claim that was decided stays as it was decided.
\<close>

theorem claims_decided_once:
  assumes "claim_run env st st'" "one_open (fst st)"
  shows "one_open (fst st') \<and> finals_stay (fst st) (fst st')"
  using assms
proof (induction rule: claim_run.induct)
  case (next_step st st1 st2)
  then have "one_open (fst st1)" "finals_stay (fst st) (fst st1)" by simp_all
  with claim_step_ok [OF next_step(2)] show ?case by (auto simp: finals_stay_def)
qed (simp add: finals_stay_def)

section \<open>When a deposit is released\<close>

definition deposit_request :: "id \<Rightarrow> rat \<Rightarrow> string option \<Rightarrow> refund_request" where
  "deposit_request bid x reason =
     \<lparr>rq_bookingId = bid, rq_paise = in_paise x, rq_reason = Some (or_string reason ''Security deposit release''),
      rq_tier = Some ''SECURITY_DEPOSIT_RELEASE'', rq_key = None, rq_userId = None\<rparr>"

text \<open>A refund of cents, of a payment that came through the gateway alone\<close>

lemma refund_to_gateway:
  assumes "find_payment (rq_bookingId rq) db = Some p" "pm_status p = PaymentStatus.PAID" "rq_paise rq = in_paise x"
    and "is_cents x" "0 < x" "x \<le> pm_amount p" "is_cents (pm_amount p)" "pm_amount p < 10000000000"
    and "wallet_paid (rq_bookingId rq) db = 0" "\<forall>r\<in>set (db_refunds db). rf_idempotencyKey r \<noteq> refund_key rq p"
    and "gateway_refund env (ri_random ids) p (in_paise x) (refund_key rq p) g = (Inr (rid, s), g')"
    and "\<forall>q\<in>set (db_payments db). \<not> payment_clash (p\<lparr>pm_razorpayRefundId := Some rid\<rparr>) q"
  shows "\<exists>db'. refund env now ids rq (db, g) = (Inr \<lparr>rr_refundId = Some rid, rr_refundAmount = x, rr_refundStatus = s, rr_isDuplicate = False\<rparr>, db', g') \<and>
     find_payment (rq_bookingId rq) db' = Some (p\<lparr>pm_status := if s = PROCESSED then PaymentStatus.REFUNDED else PaymentStatus.PAID,
       pm_razorpayRefundId := Some rid, pm_refundAmount := Some x, pm_refundStatus := s\<rparr>)"
proof -
  have n: "(of_int (in_paise x) :: rat) = x * 100" unfolding in_paise_def by (rule paise_exact) (use assms in linarith)+
  have m: "(of_int (in_paise (pm_amount p)) :: rat) = pm_amount p * 100" unfolding in_paise_def by (rule paise_exact) (use assms in linarith)+
  have le: "in_paise x \<le> in_paise (pm_amount p)" "0 < in_paise x" "in_paise x \<le> 10 ^ 14"
  proof -
    have "(of_int (in_paise x) :: rat) \<le> of_int (in_paise (pm_amount p))" using n m assms(6) by simp
    then show "in_paise x \<le> in_paise (pm_amount p)" by (simp only: of_int_le_iff)
    have "(0 :: rat) < of_int (in_paise x)" using n assms(5) by simp
    then show "0 < in_paise x" by simp
    have "(of_int (in_paise x) :: rat) \<le> of_int (10 ^ 14)" using n assms(6,8) by simp
    then show "in_paise x \<le> 10 ^ 14" by (simp only: of_int_le_iff)
  qed
  have r: "refund_rupees (in_paise x) = x" using refund_rupees_exact [OF le(2,3)] n by simp
  have split: "refund_split (pm_amount p) 0 x = (x, 0)"
    using refund_split_exact [OF assms(7) _ assms(4,5,6), of 0] is_cents_of_int [of 0] assms(5,6,8) by (simp add: min_def)
  let ?p = "p\<lparr>pm_status := if s = PROCESSED then PaymentStatus.REFUNDED else PaymentStatus.PAID,
     pm_razorpayRefundId := Some rid, pm_refundAmount := Some x, pm_refundStatus := s\<rparr>"
  have "\<not> payment_clash ?p q" if "q \<in> set (db_payments db)" for q using assms(12) that by (auto simp: payment_clash_def)
  then obtain db1 where "update_payment ?p db = Inr db1" by (auto simp: update_payment_def exists_where_iff)
  then obtain db2 where rows: "refund_rows rq p x rid s db =
      (Inr \<lparr>rr_refundId = Some rid, rr_refundAmount = x, rr_refundStatus = s, rr_isDuplicate = False\<rparr>, db2)"
    by (simp add: refund_rows_def Let_def)
  note paid = refund_rows_Inr(2) [OF rows assms(1)]
  have "refund_wallet env now (ri_wallet ids) rq p 0 db = (Inr (), db)" by (simp add: refund_wallet_def)
  then have "execute_refund env now ids rq p x (x, 0) (db, g) =
      (Inr \<lparr>rr_refundId = Some rid, rr_refundAmount = x, rr_refundStatus = s, rr_isDuplicate = False\<rparr>, db2, g')"
    using le(2) assms(11) rows by (simp add: execute_refund_def Let_def)
  moreover have "List.find (\<lambda>r. rf_idempotencyKey r = refund_key rq p) (db_refunds db) = None" using assms(10) by (simp add: find_None_iff_all)
  ultimately show ?thesis using assms(1-3,9) le r split paid by (simp add: refund_def Let_def)
qed

lemma find_claimed:
  assumes "find_deposit bid db = Some d" "sd_status d = SecurityDepositStatus.HELD" "\<And>q. sd_bookingId (F q) = sd_bookingId q"
  obtains db1 where "claim_deposit d msg F db = Inr db1" "db1 = db\<lparr>db_deposits := db_deposits db1\<rparr>" "find_deposit bid db1 = Some (F d)"
    "\<And>q. q \<in> set (db_deposits db1) \<Longrightarrow> q \<in> set (db_deposits db) \<or> (\<exists>r\<in>set (db_deposits db). q = F r)"
proof -
  let ?ds = "update_where (\<lambda>q. sd_id q = sd_id d \<and> sd_status q = SecurityDepositStatus.HELD) F (db_deposits db)"
  have "exists_where (\<lambda>q. sd_id q = sd_id d \<and> sd_status q = SecurityDepositStatus.HELD) (db_deposits db)"
    using find_depositD [OF assms(1)] assms(2) by (auto simp: exists_where_iff)
  then have c: "claim_deposit d msg F db = Inr (db\<lparr>db_deposits := ?ds\<rparr>)" by (simp add: claim_deposit_def)
  have "find_deposit bid (db\<lparr>db_deposits := ?ds\<rparr>) = Some (F d)"
    using assms by (auto simp: find_deposit_def intro!: find_update_hit)
  with c show thesis by (intro that [of "db\<lparr>db_deposits := ?ds\<rparr>"]) (auto simp: set_update_where)
qed

lemma released:
  assumes "find_deposit bid db = Some d" "sd_status d = SecurityDepositStatus.HELD" "\<not> is_collateral d"
    and "is_cents (sd_amount d)" "is_cents (sd_deductedAmount d)" "0 \<le> sd_deductedAmount d" "sd_deductedAmount d < sd_amount d" "sd_amount d < 10 ^ 8"
    and "find_payment bid db = Some p" "pm_status p = PaymentStatus.PAID" "is_cents (pm_amount p)" "pm_amount p < 10000000000"
    and "x = sd_amount d - sd_deductedAmount d" "x \<le> pm_amount p" "wallet_paid bid db = 0"
    and "\<forall>r\<in>set (db_refunds db). rf_idempotencyKey r \<noteq> ''refund_'' @ bid @ ''_'' @ pm_id p"
    and "gateway_refund env (ri_random (di_refund ids)) p (in_paise x) (''refund_'' @ bid @ ''_'' @ pm_id p) g = (Inr (rid, s), g')" "rid \<noteq> []"
    and "\<forall>q\<in>set (db_payments db). \<not> payment_clash (p\<lparr>pm_razorpayRefundId := Some rid\<rparr>) q"
    and "\<forall>q\<in>set (db_deposits db). sd_razorpayRefundId q \<noteq> Some rid"
  shows "\<exists>d' db'. releaseDeposit env now ids bid admin reason (db, g) = (Inr (Some d'), db', g') \<and> find_deposit bid db' = Some d' \<and>
     sd_refundedAmount d' = x \<and> sd_razorpayRefundId d' = Some rid \<and> sd_status d' = release_status d \<and>
     find_payment bid db' = Some (p\<lparr>pm_status := if s = PROCESSED then PaymentStatus.REFUNDED else PaymentStatus.PAID,
       pm_razorpayRefundId := Some rid, pm_refundAmount := Some x, pm_refundStatus := s\<rparr>)"
proof -
  have x: "is_cents x" "0 < x" "x < 10 ^ 8" "dec20 x = x"
  proof -
    show "is_cents x" unfolding assms(13) using assms(4,5) by (rule is_cents_diff)
    then show "0 < x" "x < 10 ^ 8" "dec20 x = x" using assms(6,7,8,13) by (auto intro!: dec20_small)
  qed
  have bid: "sd_bookingId d = bid" using find_depositD [OF assms(1)] by simp
  let ?F = "\<lambda>q. q\<lparr>sd_status := release_status d, sd_releasedAt := Some now\<rparr>"
  let ?msg = "''Security deposit release is already being processed or has completed concurrently.''"
  obtain db1 where c: "claim_deposit d ?msg ?F db = Inr db1" "db1 = db\<lparr>db_deposits := db_deposits db1\<rparr>" "find_deposit bid db1 = Some (?F d)"
    "\<And>q. q \<in> set (db_deposits db1) \<Longrightarrow> q \<in> set (db_deposits db) \<or> (\<exists>r\<in>set (db_deposits db). q = ?F r)"
    by (rule find_claimed [OF assms(1,2), of ?F ?msg]) simp_all
  let ?rq = "deposit_request bid x reason"
  have rq: "rq_bookingId ?rq = bid" "rq_paise ?rq = in_paise x" "refund_key ?rq p = ''refund_'' @ bid @ ''_'' @ pm_id p"
    by (simp_all add: deposit_request_def refund_key_def or_string_def str_truthy_def)
  have tables: "find_payment bid db1 = find_payment bid db" "db_payments db1 = db_payments db" "db_refunds db1 = db_refunds db" "wallet_paid bid db1 = wallet_paid bid db"
    by (subst c(2), simp add: find_payment_def wallet_paid_def)+
  have "\<exists>db2. refund env now (di_refund ids) ?rq (db1, g) =
      (Inr \<lparr>rr_refundId = Some rid, rr_refundAmount = x, rr_refundStatus = s, rr_isDuplicate = False\<rparr>, db2, g') \<and>
      find_payment (rq_bookingId ?rq) db2 = Some (p\<lparr>pm_status := if s = PROCESSED then PaymentStatus.REFUNDED else PaymentStatus.PAID,
       pm_razorpayRefundId := Some rid, pm_refundAmount := Some x, pm_refundStatus := s\<rparr>)"
    by (rule refund_to_gateway) (use assms x rq tables in simp_all)
  then obtain db2 where r: "refund env now (di_refund ids) ?rq (db1, g) =
      (Inr \<lparr>rr_refundId = Some rid, rr_refundAmount = x, rr_refundStatus = s, rr_isDuplicate = False\<rparr>, db2, g')"
    and paid: "find_payment bid db2 = Some (p\<lparr>pm_status := if s = PROCESSED then PaymentStatus.REFUNDED else PaymentStatus.PAID,
       pm_razorpayRefundId := Some rid, pm_refundAmount := Some x, pm_refundStatus := s\<rparr>)"
    using rq(1) by auto
  have d2: "db_deposits db2 = db_deposits db1" using keptD(4) [OF refund_kept(1) [OF r]] .
  have m: "release_money env now ids reason d x (db1, g) = (Inr (Some rid), db2, g')"
    using r assms(3,18) bid by (simp add: release_money_def pay_back_def deposit_request_def or_str_def str_truthy_def)
  let ?G = "\<lambda>q. q\<lparr>sd_refundedAmount := x, sd_razorpayRefundId := Some rid\<rparr>"
  have free: "\<not> exists_where (\<lambda>q. sd_id q \<noteq> sd_id d \<and> same_id (sd_razorpayRefundId q) (Some rid)) (db_deposits db2)"
    using c(4) assms(20) unfolding d2 exists_where_iff same_id_def by fastforce
  have fin: "finish_deposit d x (Some rid) db2 = Inr (set_deposit (sd_id d) ?G db2)"
    using free x assms(18) money10_cents [OF x(1)] by (simp add: finish_deposit_def str_truthy_def)
  have fd: "find_deposit bid (set_deposit (sd_id d) ?G db2) = Some (?G (?F d))"
    using c(3) d2 bid by (auto simp: find_deposit_def set_deposit_def intro!: find_update_hit)
  let ?aud = "\<lambda>db. if str_truthy admin then log_deposit (the admin) ''SECURITY_DEPOSIT_RELEASED'' (sd_id d) db else db"
  have "\<exists>db3. close_deposit env now (di_journal ids) d x (\<lambda>b. release_journal reason d b x) ?aud (Some rid) (db2, g') = (Inr (?G (?F d)), db3, g') \<and>
      find_deposit bid db3 = Some (?G (?F d)) \<and> find_payment bid db3 = find_payment bid db2"
    using fd fin bid by (auto simp: close_deposit_def find_deposit_def find_payment_def split: option.split)
  then obtain db3 where cl: "close_deposit env now (di_journal ids) d x (\<lambda>b. release_journal reason d b x) ?aud (Some rid) (db2, g') = (Inr (?G (?F d)), db3, g')"
    "find_deposit bid db3 = Some (?G (?F d))" "find_payment bid db3 = find_payment bid db2" by blast
  have "release_read env now ids admin reason d x (db, g) = (Inr (?G (?F d)), db3, g')"
    using c(1) m cl(1) by (simp add: release_read_def and_then_def)
  moreover have "release_checks bid db = Inr (Some (d, x))" using assms(1,2) x assms(13) by (simp add: release_checks_def Let_def)
  ultimately have "releaseDeposit env now ids bid admin reason (db, g) = (Inr (Some (?G (?F d))), db3, g')"
    by (simp add: releaseDeposit_def and_then_def)
  with cl(2,3) paid show ?thesis by simp
qed

text \<open>
  C33: a deposit can be paid back: when it is held as money, of cents, and the payment of the booking came
  through the gateway and covers it, the gateway accepts and the refund's keys are new, the release
  succeeds and refunds exactly what is not deducted.
\<close>

theorem deposit_can_be_released:
  assumes "find_deposit bid db = Some d" "sd_status d = SecurityDepositStatus.HELD" "\<not> is_collateral d"
    and "is_cents (sd_amount d)" "is_cents (sd_deductedAmount d)" "0 \<le> sd_deductedAmount d" "sd_deductedAmount d < sd_amount d" "sd_amount d < 10 ^ 8"
    and "find_payment bid db = Some p" "pm_status p = PaymentStatus.PAID" "is_cents (pm_amount p)" "pm_amount p < 10000000000"
    and "x = sd_amount d - sd_deductedAmount d" "x \<le> pm_amount p" "wallet_paid bid db = 0"
    and "\<forall>r\<in>set (db_refunds db). rf_idempotencyKey r \<noteq> ''refund_'' @ bid @ ''_'' @ pm_id p"
    and "gateway_refund env (ri_random (di_refund ids)) p (in_paise x) (''refund_'' @ bid @ ''_'' @ pm_id p) g = (Inr (rid, s), g')" "rid \<noteq> []"
    and "\<forall>q\<in>set (db_payments db). \<not> payment_clash (p\<lparr>pm_razorpayRefundId := Some rid\<rparr>) q"
    and "\<forall>q\<in>set (db_deposits db). sd_razorpayRefundId q \<noteq> Some rid"
  shows "\<exists>d' db'. releaseDeposit env now ids bid admin reason (db, g) = (Inr (Some d'), db', g') \<and> find_deposit bid db' = Some d' \<and>
     sd_refundedAmount d' = x \<and> sd_razorpayRefundId d' = Some rid \<and> sd_status d' = release_status d"
  using released [OF assms] by blast

text \<open>
  A release ends the earning of the trip. The release is a refund of the booking's payment, which it marks
  REFUNDED, and the vendor's balance counts bookings whose payment is PAID: once the deposit of a completed
  trip is back with the customer, the fare of the trip is no longer the vendor's to withdraw.
\<close>

theorem release_ends_the_earning:
  assumes "find_deposit bid db = Some d" "sd_status d = SecurityDepositStatus.HELD" "\<not> is_collateral d"
    and "is_cents (sd_amount d)" "is_cents (sd_deductedAmount d)" "0 \<le> sd_deductedAmount d" "sd_deductedAmount d < sd_amount d" "sd_amount d < 10 ^ 8"
    and "find_payment bid db = Some p" "pm_status p = PaymentStatus.PAID" "is_cents (pm_amount p)" "pm_amount p < 10000000000"
    and "x = sd_amount d - sd_deductedAmount d" "x \<le> pm_amount p" "wallet_paid bid db = 0"
    and "\<forall>r\<in>set (db_refunds db). rf_idempotencyKey r \<noteq> ''refund_'' @ bid @ ''_'' @ pm_id p"
    and "gateway_refund env (ri_random (di_refund ids)) p (in_paise x) (''refund_'' @ bid @ ''_'' @ pm_id p) g = (Inr (rid, s), g')" "rid \<noteq> []"
    and "\<forall>q\<in>set (db_payments db). \<not> payment_clash (p\<lparr>pm_razorpayRefundId := Some rid\<rparr>) q"
    and "\<forall>q\<in>set (db_deposits db). sd_razorpayRefundId q \<noteq> Some rid"
    and "s = PROCESSED" "bk_id b = bid"
  shows "\<exists>d' db'. releaseDeposit env now ids bid admin reason (db, g) = (Inr (Some d'), db', g') \<and> \<not> completed vid db' b"
proof -
  obtain d' db' where r: "releaseDeposit env now ids bid admin reason (db, g) = (Inr (Some d'), db', g')"
    "find_payment bid db' = Some (p\<lparr>pm_status := if s = PROCESSED then PaymentStatus.REFUNDED else PaymentStatus.PAID,
       pm_razorpayRefundId := Some rid, pm_refundAmount := Some x, pm_refundStatus := s\<rparr>)"
    using released [OF assms(1-20)] by blast
  then have "\<not> completed vid db' b" using assms(21,22) by (simp add: completed_def paid_booking_def)
  with r(1) show ?thesis by blast
qed

section \<open>The properties at the example\<close>

definition demo_deposit :: SecurityDeposit where
  "demo_deposit = held_deposit ''d1'' ''b1'' 500 (Some ''pay_1'') 0"

definition completed_booking :: Booking where
  "completed_booking = demo_booking\<lparr>bk_status := BookingStatus.COMPLETED\<rparr>"

definition returned_db :: bk_db where
  "returned_db = demo_db\<lparr>db_bookings := [completed_booking], db_deposits := [demo_deposit]\<rparr>"

definition demo_deposit_ids :: deposit_ids where
  "demo_deposit_ids = \<lparr>di_refund = demo_refund_ids, di_journal = ''j1''\<rparr>"

lemma returned_facts [simp]:
  "find_booking ''b1'' returned_db = Some completed_booking" "find_deposit ''b1'' returned_db = Some demo_deposit"
  "find_payment ''b1'' returned_db = Some demo_payment" "wallet_paid ''b1'' returned_db = 0" "db_refunds returned_db = []"
  "db_payments returned_db = [demo_payment]" "db_deposits returned_db = [demo_deposit]" "db_claims returned_db = []" "db_ledger returned_db = []"
  by (simp_all add: find_booking_def find_deposit_def find_payment_def wallet_paid_def returned_db_def completed_booking_def demo_db_def
      demo_booking_def demo_deposit_def held_deposit_def demo_payment_def)

lemma demo_deposit_facts [simp]:
  "sd_status demo_deposit = SecurityDepositStatus.HELD" "sd_amount demo_deposit = 500" "sd_deductedAmount demo_deposit = 0"
  "sd_id demo_deposit = ''d1''" "sd_bookingId demo_deposit = ''b1''" "\<not> is_collateral demo_deposit" "sd_razorpayRefundId demo_deposit = None"
  by (simp_all add: demo_deposit_def held_deposit_def is_collateral_def str_truthy_def starts_with_def)

lemma completed_facts [simp]:
  "bk_id completed_booking = ''b1''" "bk_customerId completed_booking = ''cust''" "bk_vendorId completed_booking = ''v1''"
  "bk_status completed_booking = BookingStatus.COMPLETED" "bk_updatedAt completed_booking = 0" "bk_vendorUserId completed_booking = ''vendor''"
  by (simp_all add: completed_booking_def demo_booking_def)

lemma demo_gateway: "gateway_refund demo_pay r demo_payment 50000 key [] = (Inr (''rfnd_1'', PROCESSED), [(''pay_1'', 50000)])"
  by (simp add: gateway_refund_def demo_pay_def refund_status_of_def demo_payment_def str_truthy_def)

lemma demo_releasable:
  "is_cents (sd_amount demo_deposit)" "is_cents (sd_deductedAmount demo_deposit)" "pm_status demo_payment = PaymentStatus.PAID"
  "is_cents (pm_amount demo_payment)" "pm_amount demo_payment < 10000000000" "500 \<le> pm_amount demo_payment"
  "\<not> payment_clash (demo_payment\<lparr>pm_razorpayRefundId := Some ''rfnd_1''\<rparr>) demo_payment"
  using is_cents_of_int [of 500] is_cents_of_int [of 0] is_cents_div [of 111912] by (simp_all add: demo_payment_def payment_clash_def)

lemma deposit_can_be_released_witness:
  "\<exists>d' db'. releaseDeposit demo_pay 9 demo_deposit_ids ''b1'' None None (returned_db, []) = (Inr (Some d'), db', [(''pay_1'', 50000)]) \<and>
     sd_refundedAmount d' = 500 \<and> sd_razorpayRefundId d' = Some ''rfnd_1''"
proof -
  have "\<exists>d' db'. releaseDeposit demo_pay 9 demo_deposit_ids ''b1'' None None (returned_db, []) = (Inr (Some d'), db', [(''pay_1'', 50000)]) \<and>
      find_deposit ''b1'' db' = Some d' \<and> sd_refundedAmount d' = 500 \<and> sd_razorpayRefundId d' = Some ''rfnd_1'' \<and> sd_status d' = release_status demo_deposit"
    by (rule deposit_can_be_released [where p = demo_payment and s = PROCESSED and d = demo_deposit and rid = "''rfnd_1''" and x = 500]) (use demo_releasable demo_gateway demo_amounts in simp_all)
  then show ?thesis by blast
qed

lemma release_ends_the_earning_witness:
  "completed ''v1'' returned_db completed_booking \<and>
   (\<exists>d' db'. releaseDeposit demo_pay 9 demo_deposit_ids ''b1'' None None (returned_db, []) = (Inr (Some d'), db', [(''pay_1'', 50000)]) \<and>
     \<not> completed ''v1'' db' completed_booking)"
proof
  show "completed ''v1'' returned_db completed_booking" using demo_releasable(3) by (simp add: completed_def paid_booking_def)
  show "\<exists>d' db'. releaseDeposit demo_pay 9 demo_deposit_ids ''b1'' None None (returned_db, []) = (Inr (Some d'), db', [(''pay_1'', 50000)]) \<and>
     \<not> completed ''v1'' db' completed_booking"
    by (rule release_ends_the_earning [where p = demo_payment and s = PROCESSED and d = demo_deposit and rid = "''rfnd_1''" and x = 500]) (use demo_releasable demo_gateway demo_amounts in simp_all)
qed

lemma demo_release:
  "\<exists>d' db'. release_read demo_pay 9 demo_deposit_ids None None demo_deposit 500 (returned_db, []) = (Inr d', db', [(''pay_1'', 50000)])"
proof -
  have "\<exists>d' db'. releaseDeposit demo_pay 9 demo_deposit_ids ''b1'' None None (returned_db, []) = (Inr (Some d'), db', [(''pay_1'', 50000)]) \<and>
      find_deposit ''b1'' db' = Some d' \<and> sd_refundedAmount d' = 500 \<and> sd_razorpayRefundId d' = Some ''rfnd_1'' \<and> sd_status d' = release_status demo_deposit \<and>
      find_payment ''b1'' db' = Some (demo_payment\<lparr>pm_status := if PROCESSED = PROCESSED then PaymentStatus.REFUNDED else PaymentStatus.PAID,
        pm_razorpayRefundId := Some ''rfnd_1'', pm_refundAmount := Some 500, pm_refundStatus := PROCESSED\<rparr>)"
    by (rule released [where p = demo_payment and d = demo_deposit]) (use demo_releasable demo_gateway demo_amounts in simp_all)
  then obtain d' db' where "releaseDeposit demo_pay 9 demo_deposit_ids ''b1'' None None (returned_db, []) = (Inr (Some d'), db', [(''pay_1'', 50000)])" by blast
  moreover have "release_checks ''b1'' returned_db = Inr (Some (demo_deposit, 500))"
    using dec20_small [of 500] is_cents_of_int [of 500] by (simp add: release_checks_def)
  ultimately show ?thesis by (auto simp: releaseDeposit_def and_then_Inr_iff)
qed

lemma deposit_settled_once_witness:
  "\<exists>d' st' e. release_read demo_pay 9 demo_deposit_ids None None demo_deposit 500 (returned_db, []) = (Inr d', st') \<and>
     settle_read demo_pay 10 demo_deposit_ids 100 ''admin'' ''scratch'' demo_deposit st' = (Inl e, st')"
proof -
  obtain d' db' where "release_read demo_pay 9 demo_deposit_ids None None demo_deposit 500 (returned_db, []) = (Inr d', db', [(''pay_1'', 50000)])"
    using demo_release by blast
  moreover from this have "\<exists>e. settle_read demo_pay 10 demo_deposit_ids 100 ''admin'' ''scratch'' demo_deposit (db', [(''pay_1'', 50000)]) = (Inl e, db', [(''pay_1'', 50000)])"
    using deposit_settled_once [of demo_pay 9 demo_deposit_ids None None demo_deposit 500 "(returned_db, [])" d' "(db', [(''pay_1'', 50000)])"] by blast
  ultimately show ?thesis by blast
qed


lemma demo_forfeit:
  "\<exists>d' st'. settleDeduction demo_pay 9 demo_deposit_ids ''b1'' (fl 500) ''admin'' ''scratch'' (returned_db, []) = (Inr (Some d'), st')"
proof -
  have a: "is_cents 500" using is_cents_of_int [of 500] by simp
  have d: "deducted demo_deposit 500 = 500" using deducted_cents [OF a, of demo_deposit] by simp
  have m: "money10 500 = Inr 500" using money10_cents [OF a] by simp
  have z: "dec20 0 = 0" using dec20_small [of 0] is_cents_of_int [of 0] by simp
  obtain db1 where c: "claim_deposit demo_deposit ''Security deposit settlement is already being processed or has completed concurrently.''
      (\<lambda>q. q\<lparr>sd_status := SecurityDepositStatus.FORFEITED, sd_deductedAmount := 500, sd_releasedAt := Some 9\<rparr>) returned_db = Inr db1"
      "find_deposit ''b1'' db1 = Some (demo_deposit\<lparr>sd_status := SecurityDepositStatus.FORFEITED, sd_deductedAmount := 500, sd_releasedAt := Some 9\<rparr>)"
      "\<And>q. q \<in> set (db_deposits db1) \<Longrightarrow> q \<in> set (db_deposits returned_db) \<or> (\<exists>r\<in>set (db_deposits returned_db). q = r\<lparr>sd_status := SecurityDepositStatus.FORFEITED, sd_deductedAmount := 500, sd_releasedAt := Some 9\<rparr>)"
    by (rule find_claimed [of "''b1''" returned_db demo_deposit "\<lambda>q. q\<lparr>sd_status := SecurityDepositStatus.FORFEITED, sd_deductedAmount := 500, sd_releasedAt := Some 9\<rparr>"
         "''Security deposit settlement is already being processed or has completed concurrently.''"]) simp_all
  have "\<not> exists_where (\<lambda>q. sd_id q \<noteq> ''d1'' \<and> same_id (sd_razorpayRefundId q) None) (db_deposits db1)" by (auto simp: same_id_def exists_where_iff)
  then have f: "finish_deposit demo_deposit 0 None db1 = Inr (set_deposit ''d1'' (\<lambda>q. q\<lparr>sd_refundedAmount := 0, sd_razorpayRefundId := None\<rparr>) db1)"
    using money10_cents [of 0] is_cents_of_int [of 0] by (simp add: finish_deposit_def str_truthy_def)
  have "find_deposit ''b1'' (set_deposit ''d1'' (\<lambda>q. q\<lparr>sd_refundedAmount := 0, sd_razorpayRefundId := None\<rparr>) db1) \<noteq> None"
    using find_update_hit [of "\<lambda>q. sd_bookingId q = ''b1''" "db_deposits db1" _ "\<lambda>q. sd_id q = ''d1''"
        "\<lambda>q. q\<lparr>sd_refundedAmount := 0, sd_razorpayRefundId := None\<rparr>"] c(2) by (simp add: find_deposit_def)
  then show ?thesis using c(1) f d m z
    by (auto simp: settleDeduction_def settle_read_def Let_def and_then_def deduction_status_def settle_money_def close_deposit_def split: option.split)
qed

lemma damage_deduction_exact_witness:
  "\<exists>d' st'. settleDeduction demo_pay 9 demo_deposit_ids ''b1'' (fl 500) ''admin'' ''scratch'' (returned_db, []) = (Inr (Some d'), st') \<and>
     sd_status d' = SecurityDepositStatus.FORFEITED \<and> getVendorPayableBalance ''v1'' (db_ledger (fst st')) = 500"
proof -
  obtain d' st' where s: "settleDeduction demo_pay 9 demo_deposit_ids ''b1'' (fl 500) ''admin'' ''scratch'' (returned_db, []) = (Inr (Some d'), st')"
    using demo_forfeit by blast
  have "py_ledger demo_pay" "keys_free J []" for J by (simp_all add: demo_pay_def keys_free_def)
  moreover have "is_cents 500" using is_cents_of_int [of 500] by simp
  moreover have "getVendorPayableBalance ''v1'' [] = 0" by (simp add: getVendorPayableBalance_def getAccountBalance_signed)
  ultimately show ?thesis using damage_deduction_exact [OF s] s by auto
qed

lemma claims_decided_once_witness:
  "\<exists>c st'. claim_run demo_pay (returned_db\<lparr>db_deposits := []\<rparr>, []) st' \<and> db_claims (fst st') = [c] \<and> dc_status c = DamageClaimStatus.REJECTED \<and>
     one_open (fst st')"
proof -
  let ?db = "returned_db\<lparr>db_deposits := []\<rparr>"
  let ?dto = "\<lparr>cd_claimedAmount = 100, cd_description = ''scratch'', cd_damagePhotos = [], cd_vendorNotes = None\<rparr>"
  let ?rule = "\<lparr>ad_decision = DECIDE_REJECTED, ad_approvedAmount = None, ad_adminNotes = ''no''\<rparr>"
  have b: "find_booking ''b1'' ?db = Some completed_booking" "db_claims ?db = []" using returned_facts(1,8) by (simp_all add: find_booking_def)
  have n: "num10 100 = Inr 100" using num10_cents [of 100] is_cents_of_int [of 100] by simp
  obtain c db1 where c: "createClaim 5 ''k1'' ''b1'' ?dto ''vendor'' Role.VENDOR ?db = Inr (c, db1)" "db1 = ?db\<lparr>db_claims := [c]\<rparr>" "dc_id c = ''k1''" "dc_status c = DamageClaimStatus.SUBMITTED" "dc_bookingId c = ''b1''"
    using b n by (auto simp: createClaim_def exists_where_def Let_def)
  have s1: "claim_step demo_pay (?db, []) (db1, [])" by (rule filed [OF c(1)]) (simp add: b(2))
  obtain res st' where r: "adjudicateClaim demo_pay 6 demo_deposit_ids ''k1'' ?rule ''admin'' (db1, []) = (res, st')" by (metis prod.exhaust)
  have "find_claim ''k1'' db1 = Some c" using c(2,3) by (simp add: find_claim_def)
  then have "db_claims (fst st') = [c\<lparr>dc_status := DamageClaimStatus.REJECTED, dc_adminNotes := Some ''no'', dc_resolvedAt := Some 6\<rparr>]"
    using r c(2-5) by (auto simp: adjudicateClaim_def finalized_claim_def reject_claim_def Let_def releaseDeposit_def release_checks_def
        find_deposit_def set_claim_def and_then_def log_claim_def update_where_def)
  moreover have run: "claim_run demo_pay (?db, []) st'"
    by (rule next_step [OF next_step [OF start s1]]) (rule decided [OF r])
  moreover have "one_open (fst st')" using claims_decided_once [OF run] b by (simp add: one_open_def)
  ultimately show ?thesis by (intro exI conjI) (assumption | simp)+
qed

end
