(* ===== verification/Availability.thy ===== *)
theory Availability
  imports Lifecycle Payouts
begin

text \<open>
  When a car can be had (\<open>cars/vehicle-availability.service.ts\<close>): the check of an interval, the temporary
  holds of the checkout, the operational blocks and the timeline. \<open>catalogue\<close> is what the services read of
  a car, its vendor and its service area beside the columns of \<open>Car\<close>, and the closing days of the
  branches; the columns stay as they are. Requests are validated, so their dates are valid; \<open>None\<close> is
  \<open>Invalid Date\<close>. The message to the vendor about a block is left out.
\<close>

section \<open>Rows\<close>

datatype VehicleHoldStatus = ACTIVE | RELEASED | EXPIRED | CONVERTED
datatype VerificationStatus = PENDING | VERIFIED | SUSPENDED

record VehicleHold =
  vh_id :: id
  vh_carId :: id
  vh_customerId :: id
  vh_vendorId :: id
  vh_startDate :: time
  vh_endDate :: time
  vh_expiresAt :: time
  vh_status :: VehicleHoldStatus
  vh_idempotencyKey :: "string option"

record LocationException =
  lx_id :: id
  lx_locationId :: id
  lx_date :: time
  lx_isClosed :: bool
  lx_reason :: "string option"

record listing =
  ls_vendorStatus :: VerificationStatus
  ls_vendorCity :: string
  ls_blockedDates :: "time list"
  ls_tripTypes :: "TripType list"
  ls_pricePerHour :: rat
  ls_pricePerDay :: rat
  ls_pricePerKm :: rat
  ls_weeklyDiscount :: rat
  ls_monthlyDiscount :: rat
  ls_areaActive :: bool
  ls_cityActive :: bool

record catalogue =
  ct_listing :: "id \<Rightarrow> listing"
  ct_exceptions :: "LocationException list"
  ct_tz :: time

fun show_block :: "VehicleBlockType \<Rightarrow> string" where
  "show_block MAINTENANCE = ''MAINTENANCE''"
| "show_block ACCIDENT_REPAIR = ''ACCIDENT_REPAIR''"
| "show_block ROUTINE_INSPECTION = ''ROUTINE_INSPECTION''"
| "show_block VENDOR_BLACKOUT = ''VENDOR_BLACKOUT''"
| "show_block ADMIN_LOCK = ''ADMIN_LOCK''"
| "show_block SAFETY_HOLD = ''SAFETY_HOLD''"

section \<open>Checking an interval\<close>

definition isIntervalOverlapping :: "time \<Rightarrow> time \<Rightarrow> time \<Rightarrow> time \<Rightarrow> bool" where
  "isIntervalOverlapping start1 end1 start2 end2 \<longleftrightarrow> start1 < end2 \<and> end1 > start2"

definition reserves_car :: "BookingStatus \<Rightarrow> bool" where
  "reserves_car s \<longleftrightarrow>
     s \<in> {BookingStatus.PENDING, BookingStatus.CONFIRMED, BookingStatus.HANDOVER_READY, BookingStatus.ONGOING, BookingStatus.RETURN_PENDING}"

datatype conflict_type = C_BOOKING | C_MAINTENANCE | C_BLOCK | C_HOLD | C_LOCATION_CLOSURE

record VehicleAvailabilityConflict =
  cf_type :: conflict_type
  cf_id :: "id option"
  cf_startDate :: time
  cf_endDate :: time
  cf_reason :: string
  cf_status :: "BookingStatus option"

record VehicleAvailabilityResult =
  va_available :: bool
  va_carId :: id
  va_startDate :: time
  va_endDate :: time
  va_reason :: "string option"
  va_conflicts :: "VehicleAvailabilityConflict list"

definition plain_conflict :: "conflict_type \<Rightarrow> id option \<Rightarrow> time \<Rightarrow> time \<Rightarrow> string \<Rightarrow> VehicleAvailabilityConflict" where
  "plain_conflict t i s e reason = \<lparr>cf_type = t, cf_id = i, cf_startDate = s, cf_endDate = e, cf_reason = reason, cf_status = None\<rparr>"

text \<open>What rules the car out whatever the interval: the reason of the answer and of its conflict\<close>

definition static_blocker :: "Car \<Rightarrow> listing \<Rightarrow> (string \<times> string) option" where
  "static_blocker car ls =
     (let s = car_operationalStatus car in
      if \<not> car_isAvailable car \<or> s \<noteq> VehicleOperationalStatus.ACTIVE
      then Some
        (if s = VehicleOperationalStatus.MAINTENANCE then ''Vehicle is currently undergoing maintenance.''
         else if s = VehicleOperationalStatus.SUSPENDED then ''Vehicle is administratively suspended.''
         else if s = VehicleOperationalStatus.RETIRED then ''Vehicle is retired from service.''
         else ''This vehicle is currently marked as unavailable or deactivated.'',
         if s = VehicleOperationalStatus.MAINTENANCE then ''Scheduled maintenance in progress.''
         else ''Vehicle listing is deactivated or not operational.'')
      else if car_verificationStatus car \<noteq> VehicleVerificationStatus.VERIFIED
      then Some (''Vehicle verification is pending or rejected.'', ''Vehicle verification is not completed.'')
      else if ls_vendorStatus ls \<noteq> VerificationStatus.VERIFIED
      then Some (''Vendor is not verified.'', ''Vendor verification is pending or suspended.'')
      else None)"

definition closures :: "catalogue \<Rightarrow> id option \<Rightarrow> time \<Rightarrow> time \<Rightarrow> VehicleAvailabilityConflict list" where
  "closures cat hub start end =
     (if str_truthy hub
      then map (\<lambda>x. plain_conflict C_LOCATION_CLOSURE (Some (lx_id x)) (lx_date x) (lx_date x) (or_string (lx_reason x) ''Location closure / holiday''))
        (filter (\<lambda>x. lx_locationId x = the hub \<and> lx_isClosed x \<and> day_start (ct_tz cat) start \<le> lx_date x \<and>
           lx_date x \<le> day_start (ct_tz cat) end + day_ms - 1000) (ct_exceptions cat))
      else [])"

definition reserving_bookings :: "id \<Rightarrow> time \<Rightarrow> time \<Rightarrow> bk_db \<Rightarrow> Booking list" where
  "reserving_bookings carId start end db =
     filter (\<lambda>b. bk_carId b = carId \<and> reserves_car (bk_status b) \<and> bk_startDate b < end \<and> bk_endDate b > start) (db_bookings db)"

definition blocks_in :: "id \<Rightarrow> time \<Rightarrow> time \<Rightarrow> bk_db \<Rightarrow> VehicleBlock list" where
  "blocks_in carId start end db = filter (\<lambda>k. vb_carId k = carId \<and> vb_startDate k < end \<and> vb_endDate k > start) (db_blocks db)"

definition live_holds :: "time \<Rightarrow> id \<Rightarrow> time \<Rightarrow> time \<Rightarrow> VehicleHold list \<Rightarrow> VehicleHold list" where
  "live_holds now carId start end holds =
     filter (\<lambda>h. vh_carId h = carId \<and> vh_status h = VehicleHoldStatus.ACTIVE \<and> vh_expiresAt h > now \<and>
       vh_startDate h < end \<and> vh_endDate h > start) holds"

definition blocked_date :: "listing \<Rightarrow> time \<Rightarrow> time \<Rightarrow> bool" where
  "blocked_date ls start end = list_ex (\<lambda>d. d \<ge> start \<and> d \<le> end) (ls_blockedDates ls)"

definition booking_conflict :: "Booking \<Rightarrow> VehicleAvailabilityConflict" where
  "booking_conflict b =
     \<lparr>cf_type = C_BOOKING, cf_id = Some (bk_id b), cf_startDate = bk_startDate b, cf_endDate = bk_endDate b,
      cf_reason = ''Reserved by active booking '' @ bk_id b @ '' ('' @ show_status (bk_status b) @ '')'', cf_status = Some (bk_status b)\<rparr>"

definition block_type :: "VehicleBlock \<Rightarrow> conflict_type" where
  "block_type k = (if vb_blockType k = MAINTENANCE then C_MAINTENANCE else C_BLOCK)"

definition block_conflict :: "VehicleBlock \<Rightarrow> VehicleAvailabilityConflict" where
  "block_conflict k =
     plain_conflict (block_type k) (Some (vb_id k)) (vb_startDate k) (vb_endDate k)
       (or_string (vb_reason k) (''Operational block ('' @ show_block (vb_blockType k) @ '')''))"

definition hold_conflict :: "VehicleHold \<Rightarrow> VehicleAvailabilityConflict" where
  "hold_conflict h =
     plain_conflict C_HOLD (Some (vh_id h)) (vh_startDate h) (vh_endDate h) ''Vehicle is currently on temporary hold during checkout.''"

record availability_options =
  op_excludeBookingId :: "id option"
  op_actorId :: "id option"
  op_hubId :: "id option"

definition conflicts_of ::
  "catalogue \<Rightarrow> time \<Rightarrow> Car \<Rightarrow> time \<Rightarrow> time \<Rightarrow> availability_options \<Rightarrow> bk_db \<Rightarrow> VehicleHold list \<Rightarrow> VehicleAvailabilityConflict list" where
  "conflicts_of cat now car start end opt db holds =
     closures cat (or_str (op_hubId opt) (car_pickupHubId car)) start end @
     map booking_conflict
       (filter (\<lambda>b. str_truthy (op_excludeBookingId opt) \<longrightarrow> bk_id b \<noteq> the (op_excludeBookingId opt)) (reserving_bookings (car_id car) start end db)) @
     map block_conflict (blocks_in (car_id car) start end db) @
     map hold_conflict
       (filter (\<lambda>h. \<not> (str_truthy (op_actorId opt) \<and> vh_customerId h = the (op_actorId opt))) (live_holds now (car_id car) start end holds)) @
     (if blocked_date (ct_listing cat (car_id car)) start end
      then [plain_conflict C_BLOCK None start end ''Vehicle is marked blocked by fleet owner on requested dates.''] else [])"

definition checkAvailability ::
  "catalogue \<Rightarrow> time \<Rightarrow> id \<Rightarrow> time option \<Rightarrow> time option \<Rightarrow> availability_options \<Rightarrow> bk_db \<Rightarrow> VehicleHold list \<Rightarrow> VehicleAvailabilityResult result" where
  "checkAvailability cat now carId from till opt db holds =
     (case (from, till) of
        (Some start, Some end) \<Rightarrow>
          throw_if (start \<ge> end) (BadRequestException ''Start date must be before end date.'')
          (case find_car carId db of
             None \<Rightarrow> Inl (NotFoundException (''Vehicle with ID '' @ carId @ '' not found.''))
           | Some car \<Rightarrow>
               (case static_blocker car (ct_listing cat (car_id car)) of
                  Some (reason, detail) \<Rightarrow>
                    Inr \<lparr>va_available = False, va_carId = carId, va_startDate = start, va_endDate = end, va_reason = Some reason,
                         va_conflicts = [plain_conflict C_BLOCK None start end detail]\<rparr>
                | None \<Rightarrow>
                    (let cs = conflicts_of cat now car start end opt db holds
                     in Inr \<lparr>va_available = (cs = []), va_carId = carId, va_startDate = start, va_endDate = end,
                          va_reason = (if cs = [] then None else Some (join_with ''; '' (map cf_reason cs))), va_conflicts = cs\<rparr>)))
      | _ \<Rightarrow> Inl (BadRequestException ''Invalid date format for startDate or endDate.''))"

section \<open>The lock of a car\<close>

record 'r lock_env =
  le_set :: "'r set_cmd"
  le_get :: "'r get_cmd"
  le_del :: "'r del_cmd"
  le_online1 :: bool
  le_online2 :: bool
  le_token :: string

text \<open>An error in giving the lock back replaces the result; what was written stays.\<close>

definition with_car_lock ::
  "'r lock_env \<Rightarrow> time \<Rightarrow> id \<Rightarrow> ('s \<Rightarrow> 'a result \<times> 's) \<Rightarrow> 's \<times> 'r \<Rightarrow> 'a result \<times> 's \<times> 'r" where
  "with_car_lock le now carId body st =
     (case acquireLock (le_set le) (le_online1 le) now carId (le_token le) 10000 (snd st) of
        (Inl e, r1) \<Rightarrow> (Inl e, fst st, r1)
      | (Inr token, r1) \<Rightarrow>
          (case body (fst st) of
             (res, s1) \<Rightarrow>
               (case releaseLock (le_get le) (le_del le) (le_online2 le) now carId token r1 of
                  (Inl e, r2) \<Rightarrow> (Inl e, s1, r2)
                | (Inr _, r2) \<Rightarrow> (res, s1, r2))))"

text \<open>A body that is one transaction\<close>

definition atomic :: "('a \<times> 's) result \<Rightarrow> 's \<Rightarrow> 'a result \<times> 's" where
  "atomic m s = (case m of Inl e \<Rightarrow> (Inl e, s) | Inr (x, s') \<Rightarrow> (Inr x, s'))"

section \<open>Holds\<close>

definition find_hold :: "id \<Rightarrow> VehicleHold list \<Rightarrow> VehicleHold option" where
  "find_hold hid holds = List.find (\<lambda>h. vh_id h = hid) holds"

definition hold_with_key :: "string option \<Rightarrow> VehicleHold list \<Rightarrow> VehicleHold option" where
  "hold_with_key key holds = (if str_truthy key then List.find (\<lambda>h. vh_idempotencyKey h = key) holds else None)"

definition place_hold ::
  "catalogue \<Rightarrow> time \<Rightarrow> id \<Rightarrow> id \<Rightarrow> id \<Rightarrow> time \<Rightarrow> time \<Rightarrow> int \<Rightarrow> string option \<Rightarrow> bk_db \<Rightarrow> VehicleHold list \<Rightarrow>
   (VehicleHold \<times> VehicleHold list) result" where
  "place_hold cat now newId carId customerId start end ttl key db holds =
     bindR (checkAvailability cat now carId (Some start) (Some end) \<lparr>op_excludeBookingId = None, op_actorId = Some customerId, op_hubId = None\<rparr> db holds)
     (\<lambda>check.
        throw_if (\<not> va_available check) (ConflictException (or_string (va_reason check) ''Vehicle is not available for hold during requested dates.''))
        (case find_car carId db of
           None \<Rightarrow> Inl (NotFoundException ''Vehicle not found.'')
         | Some car \<Rightarrow>
             throw_if (exists_where (\<lambda>h. same_id (vh_idempotencyKey h) key) holds) (PrismaError ''P2002'')
             (let h = \<lparr>vh_id = newId, vh_carId = carId, vh_customerId = customerId, vh_vendorId = car_vendorId car, vh_startDate = start,
                   vh_endDate = end, vh_expiresAt = now + ttl * 1000, vh_status = VehicleHoldStatus.ACTIVE, vh_idempotencyKey = key\<rparr>
              in Inr (h, holds @ [h]))))"

definition createHold ::
  "'r lock_env \<Rightarrow> catalogue \<Rightarrow> time \<Rightarrow> id \<Rightarrow> id \<Rightarrow> id \<Rightarrow> time \<Rightarrow> time \<Rightarrow> int \<Rightarrow> string option \<Rightarrow> bk_db \<Rightarrow> VehicleHold list \<times> 'r \<Rightarrow>
   VehicleHold result \<times> VehicleHold list \<times> 'r" where
  "createHold le cat now newId carId customerId start end ttl key db st =
     (if start \<ge> end then (Inl (BadRequestException ''Start date must be before end date.''), st)
      else let fresh = with_car_lock le now carId (\<lambda>holds. atomic (place_hold cat now newId carId customerId start end ttl key db holds) holds) st
           in case hold_with_key key (fst st) of
                Some h \<Rightarrow> if vh_status h = VehicleHoldStatus.ACTIVE \<and> vh_expiresAt h > now then (Inr h, st) else fresh
              | None \<Rightarrow> fresh)"

definition releaseHold :: "id \<Rightarrow> id option \<Rightarrow> VehicleHold list \<Rightarrow> (bool \<times> VehicleHold list) result" where
  "releaseHold hid customerId holds =
     (case find_hold hid holds of
        None \<Rightarrow> Inr (False, holds)
      | Some h \<Rightarrow>
          throw_if (str_truthy customerId \<and> vh_customerId h \<noteq> the customerId) (ForbiddenException ''You can only release your own vehicle holds.'')
          (Inr (True, update_where (\<lambda>h. vh_id h = hid) (\<lambda>h. h\<lparr>vh_status := VehicleHoldStatus.RELEASED\<rparr>) holds)))"

definition expireHold :: "id \<Rightarrow> VehicleHold list \<Rightarrow> VehicleHold list" where
  "expireHold hid holds =
     update_where (\<lambda>h. vh_id h = hid \<and> vh_status h = VehicleHoldStatus.ACTIVE) (\<lambda>h. h\<lparr>vh_status := VehicleHoldStatus.EXPIRED\<rparr>) holds"

definition convertHoldToBooking :: "id \<Rightarrow> id \<Rightarrow> VehicleHold list \<Rightarrow> VehicleHold list" where
  "convertHoldToBooking carId customerId holds =
     update_where (\<lambda>h. vh_carId h = carId \<and> vh_customerId h = customerId \<and> vh_status h = VehicleHoldStatus.ACTIVE)
       (\<lambda>h. h\<lparr>vh_status := VehicleHoldStatus.CONVERTED\<rparr>) holds"

section \<open>Blocks\<close>

definition place_block ::
  "id \<Rightarrow> id \<Rightarrow> id \<Rightarrow> time \<Rightarrow> time \<Rightarrow> VehicleBlockType \<Rightarrow> string option \<Rightarrow> Role \<Rightarrow> bk_db \<Rightarrow> (VehicleBlock \<times> bk_db) result" where
  "place_block newId carId vendorId start end type reason role db =
     (case find_car carId db of
        None \<Rightarrow> Inl (NotFoundException ''Vehicle not found.'')
      | Some car \<Rightarrow>
          throw_if (role = Role.VENDOR \<and> car_vendorId car \<noteq> vendorId) (ForbiddenException ''You can only block vehicles belonging to your own fleet.'')
          (case reserving_bookings carId start end db of
             b # _ \<Rightarrow> Inl (ConflictException (''Cannot block vehicle: Existing active booking ('' @ bk_id b @ '') conflicts with requested dates.''))
           | [] \<Rightarrow>
               (let k = \<lparr>vb_id = newId, vb_carId = carId, vb_vendorId = car_vendorId car, vb_blockType = type, vb_reason = reason,
                     vb_startDate = start, vb_endDate = end\<rparr>
                in Inr (k, db\<lparr>db_blocks := db_blocks db @ [k]\<rparr>))))"

definition blockVehicle ::
  "'r lock_env \<Rightarrow> time \<Rightarrow> id \<Rightarrow> id \<Rightarrow> id \<Rightarrow> time \<Rightarrow> time \<Rightarrow> VehicleBlockType \<Rightarrow> string option \<Rightarrow> Role \<Rightarrow> bk_db \<times> 'r \<Rightarrow>
   VehicleBlock result \<times> bk_db \<times> 'r" where
  "blockVehicle le now newId carId vendorId start end type reason role st =
     (if start \<ge> end then (Inl (BadRequestException ''Start date must be before end date.''), st)
      else if role = Role.CUSTOMER then (Inl (ForbiddenException ''Customers are not authorized to block vehicles.''), st)
      else with_car_lock le now carId (\<lambda>db. atomic (place_block newId carId vendorId start end type reason role db) db) st)"

definition unblockVehicle :: "id \<Rightarrow> Role \<Rightarrow> id option \<Rightarrow> bk_db \<Rightarrow> (bool \<times> bk_db) result" where
  "unblockVehicle kid role vendorId db =
     (case List.find (\<lambda>k. vb_id k = kid) (db_blocks db) of
        None \<Rightarrow> Inl (NotFoundException (''Vehicle block with ID '' @ kid @ '' not found.''))
      | Some k \<Rightarrow>
          throw_if (role = Role.VENDOR \<and> str_truthy vendorId \<and> vb_vendorId k \<noteq> the vendorId)
            (ForbiddenException ''You can only remove blocks on your own fleet.'')
          (Inr (True, db\<lparr>db_blocks := filter (\<lambda>k. vb_id k \<noteq> kid) (db_blocks db)\<rparr>)))"

definition getBlocks :: "id \<Rightarrow> bk_db \<Rightarrow> VehicleBlock list" where
  "getBlocks carId db = sort_key vb_startDate (filter (\<lambda>k. vb_carId k = carId) (db_blocks db))"

section \<open>The timeline\<close>

datatype entry_status = BookingState BookingStatus | BlockState VehicleBlockType | HoldState VehicleHoldStatus
datatype entry_metadata = BookingMeta id rat | HoldMeta time

record AvailabilityTimelineEntry =
  te_type :: conflict_type
  te_id :: id
  te_status :: entry_status
  te_startDate :: time
  te_endDate :: time
  te_reason :: "string option"
  te_metadata :: "entry_metadata option"

definition booking_entry :: "Booking \<Rightarrow> AvailabilityTimelineEntry" where
  "booking_entry b =
     \<lparr>te_type = C_BOOKING, te_id = bk_id b, te_status = BookingState (bk_status b), te_startDate = bk_startDate b, te_endDate = bk_endDate b,
      te_reason = None, te_metadata = Some (BookingMeta (bk_customerId b) (fl (bk_totalFare b)))\<rparr>"

definition block_entry :: "VehicleBlock \<Rightarrow> AvailabilityTimelineEntry" where
  "block_entry k =
     \<lparr>te_type = block_type k, te_id = vb_id k, te_status = BlockState (vb_blockType k), te_startDate = vb_startDate k,
      te_endDate = vb_endDate k, te_reason = or_str (vb_reason k) None, te_metadata = None\<rparr>"

definition hold_entry :: "VehicleHold \<Rightarrow> AvailabilityTimelineEntry" where
  "hold_entry h =
     \<lparr>te_type = C_HOLD, te_id = vh_id h, te_status = HoldState (vh_status h), te_startDate = vh_startDate h, te_endDate = vh_endDate h,
      te_reason = None, te_metadata = Some (HoldMeta (vh_expiresAt h))\<rparr>"

definition getVehicleAvailabilityTimeline ::
  "time \<Rightarrow> id \<Rightarrow> time \<Rightarrow> time \<Rightarrow> bk_db \<Rightarrow> VehicleHold list \<Rightarrow> AvailabilityTimelineEntry list result" where
  "getVehicleAvailabilityTimeline now carId start end db holds =
     (case find_car carId db of
        None \<Rightarrow> Inl (NotFoundException (''Vehicle with ID '' @ carId @ '' not found.''))
      | Some _ \<Rightarrow>
          Inr (sort_key te_startDate
            (map booking_entry (sort_key bk_startDate (reserving_bookings carId start end db)) @
             map block_entry (sort_key vb_startDate (blocks_in carId start end db)) @
             map hold_entry (sort_key vh_startDate (live_holds now carId start end holds)))))"

end
