(* ===== verification/Quotes.thy ===== *)
theory Quotes
  imports Availability Coupons Deposits
begin

text \<open>
  Price quotes (\<open>pricing/pricing.service.ts\<close>): generation with its line items, reading, refreshing, and
  acceptance by a booking. Parameters (\<open>pricing_env\<close>): which optional services are configured and what the
  configuration answers, the packages, the commission rules, the demand-aware daily rate (the last two arguments
  are the dates; \<open>None\<close> when the service is missing or throws) and the quotation of the
  locations service. Names and descriptions of line items, which are for display, are left out.
\<close>

section \<open>Rows\<close>

datatype QuoteStatus = ACTIVE | ACCEPTED | EXPIRED | SUPERSEDED
datatype QuoteLineItemType =
    BASE_RENTAL | HOURLY_RENTAL | PACKAGE_TIER | DURATION_DISCOUNT | COUPON_DISCOUNT | REFERRAL_DISCOUNT | PLATFORM_FEE | GST
  | DELIVERY_FEE | PICKUP_FEE | RETURN_FEE | ONE_WAY_SURCHARGE | PROTECTION_FEE | SECURITY_DEPOSIT | EXTRA_ADDON
datatype DeliveryType = NONE | DOORSTEP_DELIVERY | DOORSTEP_PICKUP | ROUND_TRIP_DELIVERY

record QuoteLineItem =
  ql_type :: QuoteLineItemType
  ql_rate :: rat
  ql_quantity :: rat
  ql_amount :: rat
  ql_isRefundable :: bool
  ql_displayOrder :: nat

record quote_metadata =
  qm_mileagePackageId :: "id option"
  qm_couponCode :: "string option"
  qm_protectionDeductible :: "rat option"
  qm_deliveryAddress :: "string option"
  qm_pickupHubId :: "id option"
  qm_returnHubId :: "id option"

record BookingQuote =
  bq_id :: id
  bq_tenantId :: id
  bq_customerId :: "id option"
  bq_carId :: id
  bq_tripType :: TripType
  bq_startDate :: time
  bq_endDate :: time
  bq_durationDays :: int
  bq_durationHours :: int
  bq_subtotal :: rat
  bq_discountTotal :: rat
  bq_feesTotal :: rat
  bq_taxTotal :: rat
  bq_depositTotal :: rat
  bq_totalPayable :: rat
  bq_netToVendor :: rat
  bq_status :: QuoteStatus
  bq_expiresAt :: time
  bq_acceptedAt :: "time option"
  bq_idempotencyKey :: "string option"
  bq_metadata :: quote_metadata
  bq_lineItems :: "QuoteLineItem list"
  bq_createdAt :: time

record MileagePackage =
  mp_id :: id
  mp_carId :: id
  mp_tripType :: TripType
  mp_name :: string
  mp_includedKmPerDay :: "int option"
  mp_basePricePerDay :: rat
  mp_extraKmRate :: rat
  mp_isActive :: bool

record ProtectionPackage =
  pp_id :: id
  pp_code :: string
  pp_dailyRate :: rat
  pp_deductibleAmount :: rat
  pp_city :: "string option"
  pp_isActive :: bool

section \<open>What the service uses\<close>

record fulfilment =
  fm_pickupHubId :: "id option"
  fm_returnHubId :: "id option"
  fm_deliveryType :: "DeliveryType option"
  fm_deliveryAddress :: "string option"
  fm_deliveryLatitude :: "rat option"
  fm_deliveryLongitude :: "rat option"

record delivery_quote =
  dq_isAvailable :: bool
  dq_reason :: "string option"
  dq_deliveryFee :: rat
  dq_pickupFee :: rat
  dq_returnFee :: rat
  dq_oneWaySurcharge :: rat

record pricing_env =
  pv_catalogue :: catalogue
  pv_availability :: bool
  pv_packages :: "MileagePackage list"
  pv_protections :: "ProtectionPackage list"
  pv_demand :: "Car \<Rightarrow> time \<Rightarrow> time \<Rightarrow> rat option"
  pv_tiers :: "DurationDiscountTier list option"
  pv_tax :: "rat option"
  pv_validity :: "rat option"
  pv_commission :: "rat option"
  pv_rules :: "CommissionConfig list"
  pv_delivery :: "(id \<Rightarrow> id \<Rightarrow> fulfilment \<Rightarrow> time \<Rightarrow> time \<Rightarrow> delivery_quote result) option"
  pv_coupons :: bool
  pv_depositRules :: "(DepositRule list \<times> (CarCategory \<Rightarrow> rat option) option) option"
  pv_matrix :: "CancellationMatrixConfig option"

record quote_store =
  qs_shop :: coupon_db
  qs_holds :: "VehicleHold list"
  qs_quotes :: "BookingQuote list"

definition find_quote :: "id \<Rightarrow> 'z quote_store_scheme \<Rightarrow> BookingQuote option" where
  "find_quote qid st = List.find (\<lambda>q. bq_id q = qid) (qs_quotes st)"

record CreateQuoteDto =
  gq_carId :: id
  gq_startDate :: "time option"
  gq_endDate :: "time option"
  gq_tripType :: TripType
  gq_fulfilment :: fulfilment
  gq_couponCode :: "string option"
  gq_protectionPackageId :: "id option"
  gq_mileagePackageId :: "id option"
  gq_idempotencyKey :: "string option"

record quote_user =
  qu_userId :: id
  qu_role :: "Role option"

section \<open>The parts of the price\<close>

definition duration_days :: "time \<Rightarrow> time \<Rightarrow> int" where
  "duration_days start end = max 1 \<lceil>fl (of_int (end - start) / 86400000)\<rceil>"

definition duration_hours :: "time \<Rightarrow> time \<Rightarrow> int" where
  "duration_hours start end = max 1 \<lceil>fl (of_int (end - start) / 3600000)\<rceil>"

record base_line =
  bl_type :: QuoteLineItemType
  bl_unitPrice :: rat
  bl_quantity :: rat
  bl_package :: "MileagePackage option"

definition package_line :: "pricing_env \<Rightarrow> CreateQuoteDto \<Rightarrow> Car \<Rightarrow> int \<Rightarrow> base_line result" where
  "package_line env dto car days =
     (case List.find (\<lambda>p. mp_carId p = car_id car \<and> mp_id p = the (gq_mileagePackageId dto) \<and> mp_isActive p) (pv_packages env) of
        None \<Rightarrow> Inl (NotFoundException ''Selected mileage package not found or inactive.'')
      | Some p \<Rightarrow>
          throw_if (mp_tripType p \<noteq> gq_tripType dto) (BadRequestException ''Mileage package is for another trip type.'')
          (Inr \<lparr>bl_type = PACKAGE_TIER, bl_unitPrice = mp_basePricePerDay p, bl_quantity = of_int days, bl_package = Some p\<rparr>))"

definition daily_rate :: "pricing_env \<Rightarrow> Car \<Rightarrow> time \<Rightarrow> time \<Rightarrow> rat" where
  "daily_rate env car start end =
     (case pv_demand env car start end of
        Some r \<Rightarrow> if r > 0 then dec_of_num r else ls_pricePerDay (ct_listing (pv_catalogue env) (car_id car))
      | None \<Rightarrow> ls_pricePerDay (ct_listing (pv_catalogue env) (car_id car)))"

definition base_line :: "pricing_env \<Rightarrow> CreateQuoteDto \<Rightarrow> Car \<Rightarrow> time \<Rightarrow> time \<Rightarrow> base_line result" where
  "base_line env dto car start end =
     (if str_truthy (gq_mileagePackageId dto) then package_line env dto car (duration_days start end)
      else if gq_tripType dto = LOCAL \<or> gq_tripType dto = AIRPORT_TRANSFER
      then Inr \<lparr>bl_type = HOURLY_RENTAL, bl_unitPrice = ls_pricePerHour (ct_listing (pv_catalogue env) (car_id car)),
             bl_quantity = of_int (duration_hours start end), bl_package = None\<rparr>
      else Inr \<lparr>bl_type = BASE_RENTAL, bl_unitPrice = daily_rate env car start end,
             bl_quantity = of_int (duration_days start end), bl_package = None\<rparr>)"

definition duration_pct :: "pricing_env \<Rightarrow> listing \<Rightarrow> int \<Rightarrow> rat" where
  "duration_pct env ls days =
     (let tiers = (case pv_tiers env of None \<Rightarrow> [] | Some ts \<Rightarrow> filter (\<lambda>t. dd_minDays t > 0 \<and> dd_discountPercent t \<ge> 0) ts)
      in if tiers \<noteq> []
         then (case List.find (\<lambda>t. of_int days \<ge> dd_minDays t) (sort_key (\<lambda>t. - dd_minDays t) tiers) of
                 Some t \<Rightarrow> dd_discountPercent t | None \<Rightarrow> 0)
         else if days \<ge> 30 \<and> ls_monthlyDiscount ls > 0 then ls_monthlyDiscount ls
         else if days \<ge> 7 \<and> ls_weeklyDiscount ls > 0 then ls_weeklyDiscount ls
         else 0)"

definition duration_cut :: "rat \<Rightarrow> rat \<Rightarrow> rat" where
  "duration_cut initial pct = (if pct > 0 then round2 (dec20 (initial * dec_of_num (fl (pct / 100)))) else 0)"

definition gst_rate :: "pricing_env \<Rightarrow> rat" where
  "gst_rate env = (case pv_tax env of Some r \<Rightarrow> if 0 \<le> r \<and> r \<le> 100 then r else 18 | None \<Rightarrow> 18)"

record quote_fees =
  qf_delivery :: rat
  qf_pickup :: rat
  qf_return :: rat
  qf_oneWay :: rat

definition no_fees :: quote_fees where
  "no_fees = \<lparr>qf_delivery = 0, qf_pickup = 0, qf_return = 0, qf_oneWay = 0\<rparr>"

definition wants_delivery :: "fulfilment \<Rightarrow> bool" where
  "wants_delivery f \<longleftrightarrow> fm_deliveryType f \<noteq> None \<and> fm_deliveryType f \<noteq> Some NONE"

definition needs_fulfilment :: "fulfilment \<Rightarrow> bool" where
  "needs_fulfilment f \<longleftrightarrow>
     str_truthy (fm_pickupHubId f) \<or> str_truthy (fm_returnHubId f) \<or> fm_deliveryLatitude f \<noteq> None \<or> str_truthy (fm_deliveryAddress f)"

definition is_client_error :: "exn \<Rightarrow> bool" where
  "is_client_error e = (case e of BadRequestException _ \<Rightarrow> True | ConflictException _ \<Rightarrow> True | _ \<Rightarrow> False)"

definition fee2 :: "rat \<Rightarrow> rat" where
  "fee2 x = round2 (dec_of_num x)"

definition quote_fees_of :: "pricing_env \<Rightarrow> CreateQuoteDto \<Rightarrow> Car \<Rightarrow> time \<Rightarrow> time \<Rightarrow> quote_fees result" where
  "quote_fees_of env dto car start end =
     (let f = gq_fulfilment dto
      in case pv_delivery env of
           None \<Rightarrow> Inr no_fees
         | Some calc \<Rightarrow>
             if \<not> needs_fulfilment f then Inr no_fees
             else (case calc (car_vendorId car) (car_id car) f start end of
                     Inl e \<Rightarrow> if is_client_error e then Inl e else Inr no_fees
                   | Inr q \<Rightarrow>
                       throw_if (\<not> dq_isAvailable q \<and> wants_delivery f)
                         (BadRequestException (or_string (dq_reason q) ''Requested fulfillment option is unavailable.''))
                       (Inr \<lparr>qf_delivery = fee2 (dq_deliveryFee q), qf_pickup = fee2 (dq_pickupFee q), qf_return = fee2 (dq_returnFee q),
                          qf_oneWay = fee2 (dq_oneWaySurcharge q)\<rparr>)))"

definition quote_protection :: "pricing_env \<Rightarrow> CreateQuoteDto \<Rightarrow> string \<Rightarrow> ProtectionPackage option" where
  "quote_protection env dto city =
     (case (if str_truthy (gq_protectionPackageId dto)
            then List.find (\<lambda>p. pp_id p = the (gq_protectionPackageId dto)) (pv_protections env) else None) of
        Some p \<Rightarrow>
          if pp_isActive p \<and> (\<not> str_truthy (pp_city p) \<or> to_lower (the (pp_city p)) = to_lower city) then Some p else None
      | None \<Rightarrow> None)"

section \<open>The line items and the totals\<close>

record quote_parts =
  qp_base :: base_line
  qp_initial :: rat
  qp_pct :: rat
  qp_cut :: rat
  qp_platformFee :: rat
  qp_gst :: rat
  qp_fees :: quote_fees
  qp_protection :: "(ProtectionPackage \<times> rat) option"
  qp_coupon :: "(rat \<times> string) option"
  qp_deposit :: rat

definition qp_afterCut :: "quote_parts \<Rightarrow> rat" where
  "qp_afterCut p = (if qp_pct p > 0 then dec20 (qp_initial p - qp_cut p) else qp_initial p)"

definition protection_fee :: "quote_parts \<Rightarrow> rat" where
  "protection_fee p = (case qp_protection p of None \<Rightarrow> 0 | Some (_, x) \<Rightarrow> x)"

definition coupon_cut :: "quote_parts \<Rightarrow> rat" where
  "coupon_cut p = (case qp_coupon p of None \<Rightarrow> 0 | Some (x, _) \<Rightarrow> x)"

text \<open>The amounts go through JavaScript numbers into the columns.\<close>

definition mk_item :: "QuoteLineItemType \<Rightarrow> rat \<Rightarrow> rat \<Rightarrow> rat \<Rightarrow> QuoteLineItem" where
  "mk_item t rate qty amount =
     \<lparr>ql_type = t, ql_rate = fl rate, ql_quantity = fl qty, ql_amount = fl amount, ql_isRefundable = False, ql_displayOrder = 0\<rparr>"

definition fee_item :: "QuoteLineItemType \<Rightarrow> rat \<Rightarrow> QuoteLineItem list" where
  "fee_item t x = (if x > 0 then [mk_item t x 1 x] else [])"

definition rental_items :: "quote_parts \<Rightarrow> int \<Rightarrow> QuoteLineItem list" where
  "rental_items p days =
     [mk_item (bl_type (qp_base p)) (bl_unitPrice (qp_base p)) (bl_quantity (qp_base p)) (round2 (qp_initial p))] @
     (if qp_pct p > 0 then [mk_item DURATION_DISCOUNT (qp_cut p) 1 (- qp_cut p)] else []) @
     [mk_item PLATFORM_FEE (qp_platformFee p) 1 (qp_platformFee p), mk_item GST (qp_gst p) 1 (qp_gst p)] @
     fee_item DELIVERY_FEE (qf_delivery (qp_fees p)) @ fee_item PICKUP_FEE (qf_pickup (qp_fees p)) @
     fee_item RETURN_FEE (qf_return (qp_fees p)) @ fee_item ONE_WAY_SURCHARGE (qf_oneWay (qp_fees p)) @
     (case qp_protection p of None \<Rightarrow> [] | Some (k, x) \<Rightarrow> [mk_item PROTECTION_FEE (pp_dailyRate k) (of_int days) x]) @
     (case qp_coupon p of None \<Rightarrow> [] | Some (x, _) \<Rightarrow> if x > 0 then [mk_item COUPON_DISCOUNT x 1 (- x)] else [])"

definition quote_items :: "quote_parts \<Rightarrow> int \<Rightarrow> QuoteLineItem list" where
  "quote_items p days =
     (let items = rental_items p days
      in map2 (\<lambda>i it. it\<lparr>ql_displayOrder := Suc i\<rparr>) [0..<length items] items @
         [(mk_item SECURITY_DEPOSIT (qp_deposit p) 1 (qp_deposit p))\<lparr>ql_isRefundable := True, ql_displayOrder := 99\<rparr>])"

definition store_item :: "QuoteLineItem \<Rightarrow> QuoteLineItem result" where
  "store_item it =
     bindR (num10 (ql_rate it)) (\<lambda>r. bindR (num10 (ql_quantity it)) (\<lambda>q. bindR (num10 (ql_amount it)) (\<lambda>a.
       Inr (it\<lparr>ql_rate := r, ql_quantity := q, ql_amount := a\<rparr>))))"

fun store_items :: "QuoteLineItem list \<Rightarrow> QuoteLineItem list result" where
  "store_items [] = Inr []"
| "store_items (it # its) = bindR (store_item it) (\<lambda>x. bindR (store_items its) (\<lambda>xs. Inr (x # xs)))"

definition fulfilment_total :: "quote_parts \<Rightarrow> rat" where
  "fulfilment_total p =
     (let f = qp_fees p in round2 (dec20 (dec20 (dec20 (qf_delivery f + qf_pickup f) + qf_return f) + qf_oneWay f)))"

definition trip_fare :: "quote_parts \<Rightarrow> rat" where
  "trip_fare p =
     round2 (dec20 (dec20 (dec20 (dec20 (dec20 (qp_afterCut p + qp_platformFee p) + qp_gst p) + fulfilment_total p) + protection_fee p) - coupon_cut p))"

definition quote_parts_of ::
  "pricing_env \<Rightarrow> time \<Rightarrow> CreateQuoteDto \<Rightarrow> quote_user option \<Rightarrow> Car \<Rightarrow> time \<Rightarrow> time \<Rightarrow> coupon_db \<Rightarrow> quote_parts result" where
  "quote_parts_of env now dto user car start end shop =
     (let ls = ct_listing (pv_catalogue env) (car_id car); days = duration_days start end; city = ls_vendorCity ls
      in bindR (base_line env dto car start end) (\<lambda>b.
         let initial = dec20 (bl_unitPrice b * bl_quantity b); pct = duration_pct env ls days; cut = duration_cut initial pct;
             after = (if pct > 0 then dec20 (initial - cut) else initial);
             platform = round2 (dec20 (after * dec20 (resolveCommissionPercent (pv_commission env) (pv_rules env) city (car_type car) (gq_tripType dto) / 100)));
             gst = round2 (dec20 (platform * dec20 (dec_of_num (gst_rate env) / 100)))
         in bindR (quote_fees_of env dto car start end) (\<lambda>fees.
            bindR (if str_truthy (gq_couponCode dto) \<and> pv_coupons env
                   then bindR (validateCoupon now (case user of None \<Rightarrow> ''anonymous-quote'' | Some u \<Rightarrow> or_string (Some (qu_userId u)) ''anonymous-quote'')
                          \<lparr>vc_code = the (gq_couponCode dto), vc_carId = Some (gq_carId dto), vc_subtotal = Some (fl (dec20 (dec20 (after + platform) + gst))),
                           vc_city = Some city, vc_tripType = Some (gq_tripType dto), vc_carCategory = Some (car_type car)\<rparr> shop)
                        (\<lambda>c. Inr (Some (fee2 (cq_discountAmount c), cq_code c)))
                   else Inr None) (\<lambda>coupon.
              Inr \<lparr>qp_base = b, qp_initial = initial, qp_pct = pct, qp_cut = cut, qp_platformFee = platform, qp_gst = gst, qp_fees = fees,
                   qp_protection = map_option (\<lambda>k. (k, round2 (dec20 (pp_dailyRate k * of_int days)))) (quote_protection env dto city),
                   qp_coupon = coupon,
                   qp_deposit = (case pv_depositRules env of
                      None \<Rightarrow> 5000
                    | Some (rules, cfg) \<Rightarrow> fee2 (getDepositAmount cfg (car_type car) (Some city) rules))\<rparr>))))"

section \<open>Generation\<close>

definition quote_expiry :: "pricing_env \<Rightarrow> time \<Rightarrow> time" where
  "quote_expiry env now =
     (let v = (case pv_validity env of Some m \<Rightarrow> if m > 0 then m else 15 | None \<Rightarrow> 15)
      in \<lfloor>fl (of_int now + fl (fl (v * 60) * 1000))\<rfloor>)"

definition quote_row ::
  "pricing_env \<Rightarrow> time \<Rightarrow> id \<Rightarrow> CreateQuoteDto \<Rightarrow> quote_user option \<Rightarrow> Car \<Rightarrow> time \<Rightarrow> time \<Rightarrow> quote_parts \<Rightarrow> BookingQuote result" where
  "quote_row env now newId dto user car start end p =
     (let f = gq_fulfilment dto; trip = trip_fare p
      in bindR (money10 (round2 (qp_initial p))) (\<lambda>sub.
         bindR (money10 (round2 (dec20 (qp_cut p + coupon_cut p)))) (\<lambda>disc.
         bindR (money10 (round2 (dec20 (dec20 (qp_platformFee p + fulfilment_total p) + protection_fee p)))) (\<lambda>fees.
         bindR (money10 (qp_gst p)) (\<lambda>tax.
         bindR (money10 (qp_deposit p)) (\<lambda>dep.
         bindR (money10 (round2 (dec20 (trip + round2 (qp_deposit p))))) (\<lambda>total.
         bindR (money10 (round2 (dec20 (qp_afterCut p + fulfilment_total p)))) (\<lambda>net.
         bindR (store_items (quote_items p (duration_days start end))) (\<lambda>items.
           Inr \<lparr>bq_id = newId, bq_tenantId = car_vendorId car, bq_customerId = map_option qu_userId user, bq_carId = gq_carId dto,
                bq_tripType = gq_tripType dto, bq_startDate = start, bq_endDate = end, bq_durationDays = duration_days start end,
                bq_durationHours = duration_hours start end, bq_subtotal = sub, bq_discountTotal = disc, bq_feesTotal = fees, bq_taxTotal = tax,
                bq_depositTotal = dep, bq_totalPayable = total, bq_netToVendor = net, bq_status = QuoteStatus.ACTIVE,
                bq_expiresAt = quote_expiry env now, bq_acceptedAt = None, bq_idempotencyKey = gq_idempotencyKey dto,
                bq_metadata = \<lparr>qm_mileagePackageId = map_option mp_id (bl_package (qp_base p)), qm_couponCode = map_option snd (qp_coupon p),
                  qm_protectionDeductible = map_option (\<lambda>(k, _). fl (pp_deductibleAmount k)) (qp_protection p),
                  qm_deliveryAddress = fm_deliveryAddress f, qm_pickupHubId = fm_pickupHubId f, qm_returnHubId = fm_returnHubId f\<rparr>,
                bq_lineItems = items, bq_createdAt = now\<rparr>)))))))))"

text \<open>The checks before a price is computed\<close>

definition quote_checks ::
  "pricing_env \<Rightarrow> time \<Rightarrow> CreateQuoteDto \<Rightarrow> quote_user option \<Rightarrow> time \<Rightarrow> time \<Rightarrow> 'z quote_store_scheme \<Rightarrow> Car result" where
  "quote_checks env now dto user start end st =
     (let db = kd_core (qs_shop st)
      in case find_car (gq_carId dto) db of
           None \<Rightarrow> Inl (NotFoundException ''Car not found.'')
         | Some car \<Rightarrow>
             (let ls = ct_listing (pv_catalogue env) (car_id car)
              in throw_if (\<not> car_isAvailable car) (ConflictException ''This car is marked as unavailable.'')
                (throw_if (ls_vendorStatus ls \<noteq> VerificationStatus.VERIFIED) (BadRequestException ''Cannot book a vehicle from an unverified vendor.'')
                (throw_if (ls_tripTypes ls \<noteq> [] \<and> gq_tripType dto \<notin> set (ls_tripTypes ls)) (BadRequestException ''This car does not support this trip type.'')
                (bindR (if pv_availability env
                        then bindR (checkAvailability (pv_catalogue env) now (gq_carId dto) (Some start) (Some end)
                               \<lparr>op_excludeBookingId = None, op_actorId = map_option qu_userId user, op_hubId = None\<rparr> db (qs_holds st))
                             (\<lambda>a. throw_if (\<not> va_available a)
                               (ConflictException (or_string (va_reason a) ''Vehicle is not available for the requested period.'')) (Inr ()))
                        else Inr ())
                  (\<lambda>_. Inr car))))))"

definition live_quote :: "time \<Rightarrow> string option \<Rightarrow> 'z quote_store_scheme \<Rightarrow> BookingQuote option" where
  "live_quote now key st =
     (case (if str_truthy key then List.find (\<lambda>q. bq_idempotencyKey q = key) (qs_quotes st) else None) of
        Some q \<Rightarrow> if bq_status q = QuoteStatus.ACTIVE \<and> bq_expiresAt q > now then Some q else None
      | None \<Rightarrow> None)"

definition generateQuote ::
  "pricing_env \<Rightarrow> time \<Rightarrow> id \<Rightarrow> CreateQuoteDto \<Rightarrow> quote_user option \<Rightarrow> 'z quote_store_scheme \<Rightarrow> (BookingQuote \<times> 'z quote_store_scheme) result" where
  "generateQuote env now newId dto user st =
     (case (gq_startDate dto, gq_endDate dto) of
        (Some start, Some end) \<Rightarrow>
          throw_if (start \<ge> end) (BadRequestException ''Start date must be before end date.'')
         (throw_if (start < now - 120000) (BadRequestException ''Start date cannot be in the past.'')
          (case live_quote now (gq_idempotencyKey dto) st of
             Some q \<Rightarrow> Inr (q, st)
           | None \<Rightarrow>
               bindR (quote_checks env now dto user start end st) (\<lambda>car.
               bindR (quote_parts_of env now dto user car start end (qs_shop st)) (\<lambda>p.
               bindR (quote_row env now newId dto user car start end p) (\<lambda>q.
                 throw_if (exists_where (\<lambda>r. same_id (bq_idempotencyKey r) (bq_idempotencyKey q)) (qs_quotes st)) (PrismaError ''P2002'')
                 (Inr (q, st\<lparr>qs_quotes := qs_quotes st @ [q]\<rparr>)))))))
      | _ \<Rightarrow> Inl (BadRequestException ''Invalid start or end date format.''))"

section \<open>Reading and refreshing\<close>

definition quote_fare :: "BookingQuote \<Rightarrow> rat" where
  "quote_fare q = dec20 (dec20 (dec20 (bq_subtotal q - bq_discountTotal q) + bq_feesTotal q) + bq_taxTotal q)"

text \<open>\<open>vendorOf\<close> is the vendor of a user. The answer of the service is the row with its amounts as numbers.\<close>

definition item_numbers :: "QuoteLineItem \<Rightarrow> QuoteLineItem" where
  "item_numbers it = it\<lparr>ql_rate := fl (ql_rate it), ql_quantity := fl (ql_quantity it), ql_amount := fl (ql_amount it)\<rparr>"

definition mapQuoteToResponse :: "BookingQuote \<Rightarrow> BookingQuote \<times> rat" where
  "mapQuoteToResponse q =
     (q\<lparr>bq_subtotal := fl (bq_subtotal q), bq_discountTotal := fl (bq_discountTotal q), bq_feesTotal := fl (bq_feesTotal q),
        bq_taxTotal := fl (bq_taxTotal q), bq_depositTotal := fl (bq_depositTotal q), bq_totalPayable := fl (bq_totalPayable q),
        bq_netToVendor := fl (bq_netToVendor q), bq_lineItems := map item_numbers (bq_lineItems q)\<rparr>,
      fl (quote_fare q))"

definition set_quote :: "id \<Rightarrow> (BookingQuote \<Rightarrow> BookingQuote) \<Rightarrow> 'z quote_store_scheme \<Rightarrow> 'z quote_store_scheme" where
  "set_quote qid F st = st\<lparr>qs_quotes := update_where (\<lambda>q. bq_id q = qid) F (qs_quotes st)\<rparr>"

definition getQuoteById ::
  "(id \<Rightarrow> id option) \<Rightarrow> time \<Rightarrow> id \<Rightarrow> quote_user option \<Rightarrow> 'z quote_store_scheme \<Rightarrow> ((BookingQuote \<times> rat) \<times> 'z quote_store_scheme) result" where
  "getQuoteById vendorOf now qid user st =
     (case find_quote qid st of
        None \<Rightarrow> Inl (NotFoundException ''Quote not found.'')
      | Some q \<Rightarrow>
          let role = Option.bind user qu_role; uid = (case user of None \<Rightarrow> [] | Some u \<Rightarrow> qu_userId u)
          in throw_if (role = Some Role.VENDOR \<and> bq_tenantId q \<noteq> uid \<and> vendorOf uid \<noteq> Some (bq_tenantId q))
               (ForbiddenException ''Access denied to quote belonging to another fleet.'')
            (throw_if (role = Some Role.CUSTOMER \<and> str_truthy (bq_customerId q) \<and> bq_customerId q \<noteq> Some uid)
               (ForbiddenException ''Access denied to quote belonging to another user.'')
            (if bq_status q = QuoteStatus.ACTIVE \<and> bq_expiresAt q < now
             then Inr (mapQuoteToResponse (q\<lparr>bq_status := QuoteStatus.EXPIRED\<rparr>), set_quote qid (\<lambda>q. q\<lparr>bq_status := QuoteStatus.EXPIRED\<rparr>) st)
             else Inr (mapQuoteToResponse q, st))))"

definition refresh_dto :: "BookingQuote \<Rightarrow> CreateQuoteDto" where
  "refresh_dto q =
     (let m = bq_metadata q
      in \<lparr>gq_carId = bq_carId q, gq_startDate = Some (bq_startDate q), gq_endDate = Some (bq_endDate q), gq_tripType = bq_tripType q,
          gq_fulfilment = \<lparr>fm_pickupHubId = qm_pickupHubId m, fm_returnHubId = qm_returnHubId m, fm_deliveryType = None,
            fm_deliveryAddress = qm_deliveryAddress m, fm_deliveryLatitude = None, fm_deliveryLongitude = None\<rparr>,
          gq_couponCode = qm_couponCode m, gq_protectionPackageId = None, gq_mileagePackageId = qm_mileagePackageId m,
          gq_idempotencyKey = None\<rparr>)"

text \<open>The old quote is superseded even when no new one can be made.\<close>

definition refreshQuote ::
  "pricing_env \<Rightarrow> time \<Rightarrow> id \<Rightarrow> id \<Rightarrow> quote_user option \<Rightarrow> 'z quote_store_scheme \<Rightarrow> BookingQuote result \<times> 'z quote_store_scheme" where
  "refreshQuote env now newId qid user st =
     (case find_quote qid st of
        None \<Rightarrow> (Inl (NotFoundException ''Quote not found.''), st)
      | Some q \<Rightarrow>
          let st1 = (if bq_status q = QuoteStatus.ACTIVE then set_quote qid (\<lambda>q. q\<lparr>bq_status := QuoteStatus.SUPERSEDED\<rparr>) st else st)
          in atomic (generateQuote env now newId (refresh_dto q) user st1) st1)"

section \<open>Acceptance\<close>

record PriceSnapshot =
  ps_quoteId :: id
  ps_subtotal :: rat
  ps_discountTotal :: rat
  ps_feesTotal :: rat
  ps_taxTotal :: rat
  ps_depositTotal :: rat
  ps_tripFare :: rat
  ps_totalPayable :: rat
  ps_netToVendor :: rat
  ps_lineItems :: "QuoteLineItem list"
  ps_cancellationMatrix :: "CancellationMatrixConfig option"

definition snapshot_of :: "pricing_env \<Rightarrow> BookingQuote \<Rightarrow> PriceSnapshot" where
  "snapshot_of env q =
     \<lparr>ps_quoteId = bq_id q, ps_subtotal = fl (bq_subtotal q), ps_discountTotal = fl (bq_discountTotal q), ps_feesTotal = fl (bq_feesTotal q),
      ps_taxTotal = fl (bq_taxTotal q), ps_depositTotal = fl (bq_depositTotal q), ps_tripFare = fl (quote_fare q),
      ps_totalPayable = fl (bq_totalPayable q), ps_netToVendor = fl (bq_netToVendor q),
      ps_lineItems = map item_numbers (bq_lineItems q), ps_cancellationMatrix = pv_matrix env\<rparr>"

definition verifyAndAcceptQuote ::
  "pricing_env \<Rightarrow> time \<Rightarrow> id \<Rightarrow> id \<Rightarrow> id \<Rightarrow> time \<Rightarrow> time \<Rightarrow> TripType \<Rightarrow> 'z quote_store_scheme \<Rightarrow> (PriceSnapshot \<times> 'z quote_store_scheme) result" where
  "verifyAndAcceptQuote env now qid customerId carId start end trip st =
     (case find_quote qid st of
        None \<Rightarrow> Inl (NotFoundException ''Specified quoteId not found.'')
      | Some q \<Rightarrow>
          throw_if (bq_status q = QuoteStatus.EXPIRED \<or> bq_expiresAt q < now)
            (ConflictException ''The accepted quote has expired. Please refresh the quote before booking.'')
         (throw_if (bq_status q \<noteq> QuoteStatus.ACTIVE) (ConflictException ''This quote is no longer active.'')
         (throw_if (bq_carId q \<noteq> carId) (BadRequestException ''Quote does not match the selected car.'')
         (throw_if (bq_tripType q \<noteq> trip) (BadRequestException ''Quote does not match the selected trip type.'')
         (throw_if (\<bar>start - bq_startDate q\<bar> > 120000 \<or> \<bar>end - bq_endDate q\<bar> > 120000)
            (ConflictException ''Requested booking dates do not match the accepted quote.'')
         (Inr (snapshot_of env q,
            set_quote qid (\<lambda>q. q\<lparr>bq_status := QuoteStatus.ACCEPTED, bq_acceptedAt := Some now, bq_customerId := Some customerId\<rparr>) st)))))))"

end
