(* ===== verification/Bookings.thy ===== *)
theory Bookings
  imports Quotes
begin

text \<open>
  Making a booking (\<open>bookings/bookings.service.ts\<close>): the checks of the car and its vendor, the price, and the
  transaction that looks for collisions, accepts the quote and writes the booking with its deposit and
  its event, under the lock of the car; the other operations of the service hand over to the life
  cycle or touch single rows. The columns of a booking that only this service writes are the record
  \<open>booking_details\<close>; texts, addresses and flags that are copied from the request and read by no modelled
  service are left out, and so are caches and messages. Parameters (\<open>booking_env\<close>): those of the
  quotes, whether the pricing service is configured, and the answers of the eligibility, referral and fraud
  services and of the vendor's row.
\<close>

section \<open>Data\<close>

datatype RiskAction = ALLOW | MONITOR | REVIEW_REQUIRED | BLOCK

record referee_eligibility =
  re_eligible :: bool
  re_minBookingAmount :: rat
  re_discountAmount :: rat

record vendor_info =
  vn_userId :: id
  vn_businessName :: string

record booking_env =
  be_pricing :: pricing_env
  be_quotes :: bool
  be_eligibility :: "(id \<Rightarrow> bool \<times> string) option"
  be_referral :: "(id \<Rightarrow> referee_eligibility) option"
  be_fraud :: "(id \<Rightarrow> rat \<Rightarrow> string option \<Rightarrow> RiskAction) option"
  be_vendor :: "id \<Rightarrow> vendor_info"

record booking_details =
  bd_bookingId :: id
  bd_tripType :: TripType
  bd_quoteId :: "id option"
  bd_distanceKm :: "rat option"
  bd_baseFare :: rat
  bd_deliveryType :: DeliveryType
  bd_deliveryFee :: rat
  bd_pickupFee :: rat
  bd_returnFee :: rat
  bd_oneWayFee :: rat
  bd_returnHubId :: "id option"
  bd_protectionPackageId :: "id option"
  bd_protectionCode :: "string option"
  bd_protectionFee :: rat
  bd_couponCode :: "string option"
  bd_mileagePackageId :: "id option"
  bd_includedKmTotal :: "int option"
  bd_extraKmRate :: "rat option"
  bd_pricingBasis :: string
  bd_disputeNote :: "string option"

text \<open>\<open>bs_enabled\<close> is \<open>enabledTripTypes\<close> of the platform settings, once they exist.\<close>

record booking_store = quote_store +
  bs_enabled :: "TripType list option"
  bs_details :: "booking_details list"

definition core :: "booking_store \<Rightarrow> bk_db" where
  "core st = kd_core (qs_shop st)"

definition set_core :: "bk_db \<Rightarrow> booking_store \<Rightarrow> booking_store" where
  "set_core db st = st\<lparr>qs_shop := (qs_shop st)\<lparr>kd_core := db\<rparr>\<rparr>"

record CreateBookingDto =
  cb_carId :: id
  cb_tripType :: TripType
  cb_pickupLocation :: string
  cb_dropLocation :: "string option"
  cb_startDate :: time
  cb_endDate :: time
  cb_distanceKm :: "rat option"
  cb_couponCode :: "string option"
  cb_fulfilment :: fulfilment
  cb_protectionPackageId :: "id option"
  cb_mileagePackageId :: "id option"
  cb_quoteId :: "id option"

record booking_ids =
  bi_booking :: id
  bi_deposit :: id
  bi_event :: id

section \<open>The car\<close>

definition eligibility_check :: "booking_env \<Rightarrow> id \<Rightarrow> unit result" where
  "eligibility_check env carId =
     (case be_eligibility env of
        None \<Rightarrow> Inr ()
      | Some f \<Rightarrow>
          (case f carId of
             (ok, blockers) \<Rightarrow>
               throw_if (\<not> ok) (BadRequestException (''Cannot book vehicle: '' @
                 or_string (Some blockers) ''Vehicle does not meet platform operational readiness standards.'')) (Inr ())))"

definition car_checks :: "booking_env \<Rightarrow> CreateBookingDto \<Rightarrow> bk_db \<Rightarrow> Car result" where
  "car_checks env dto db =
     (case find_car (cb_carId dto) db of
        None \<Rightarrow> Inl (NotFoundException ''Car not found.'')
      | Some car \<Rightarrow>
          (let ls = ct_listing (pv_catalogue (be_pricing env)) (car_id car)
           in throw_if (car_operationalStatus car \<noteq> VehicleOperationalStatus.ACTIVE)
                (ConflictException ''Cannot book vehicle: Vehicle must be ACTIVE.'')
             (throw_if (car_verificationStatus car \<noteq> VehicleVerificationStatus.VERIFIED)
                (BadRequestException ''Cannot book vehicle: Vehicle must be VERIFIED.'')
             (throw_if (ls_vendorStatus ls \<noteq> VerificationStatus.VERIFIED)
                (BadRequestException ''Cannot book a vehicle from an unverified vendor.'')
             (throw_if (\<not> car_isAvailable car) (ConflictException ''This car is marked as unavailable.'')
             (throw_if (\<not> ls_areaActive ls) (ConflictException ''Cannot book vehicle: Assigned service area is not active.'')
             (throw_if (\<not> ls_cityActive ls) (ConflictException ''Cannot book vehicle: City is not active.'')
             (bindR (eligibility_check env (cb_carId dto)) (\<lambda>_.
              throw_if (cb_tripType dto \<notin> set (ls_tripTypes ls)) (BadRequestException ''This car does not support this trip type.'')
             (throw_if (blocked_date ls (cb_startDate dto) (cb_endDate dto))
                (ConflictException ''The requested date range conflicts with blocked dates for this car.'')
             (Inr car)))))))))))"

section \<open>The price\<close>

definition booked_package :: "booking_env \<Rightarrow> CreateBookingDto \<Rightarrow> MileagePackage option result" where
  "booked_package env dto =
     (if \<not> str_truthy (cb_mileagePackageId dto) then Inr None
      else (case List.find (\<lambda>p. mp_id p = the (cb_mileagePackageId dto)) (pv_packages (be_pricing env)) of
              None \<Rightarrow> Inl (NotFoundException ''Selected mileage package not found.'')
            | Some p \<Rightarrow>
                throw_if (mp_carId p \<noteq> cb_carId dto) (BadRequestException ''Mileage package does not belong to the selected car.'')
               (throw_if (\<not> mp_isActive p) (BadRequestException ''Selected mileage package is no longer active.'')
               (throw_if (mp_tripType p \<noteq> cb_tripType dto) (BadRequestException ''Mileage package is for another trip type.'')
               (Inr (Some p))))))"

definition is_hourly :: "TripType \<Rightarrow> bool" where
  "is_hourly t \<longleftrightarrow> t = LOCAL \<or> t = AIRPORT_TRANSFER"

definition booked_base :: "CreateBookingDto \<Rightarrow> listing \<Rightarrow> MileagePackage option \<Rightarrow> rat" where
  "booked_base dto ls pkg =
     (case pkg of
        Some p \<Rightarrow> dec20 (mp_basePricePerDay p * of_int (duration_days (cb_startDate dto) (cb_endDate dto)))
      | None \<Rightarrow>
          if is_hourly (cb_tripType dto)
          then dec20 (ls_pricePerHour ls * of_int \<lceil>fl (of_int (cb_endDate dto - cb_startDate dto) / 3600000)\<rceil>)
          else dec20 (ls_pricePerDay ls * of_int (duration_days (cb_startDate dto) (cb_endDate dto))))"

definition pricing_basis :: "CreateBookingDto \<Rightarrow> string" where
  "pricing_basis dto =
     (if str_truthy (cb_mileagePackageId dto) then ''PACKAGE_TIER'' else if is_hourly (cb_tripType dto) then ''LEGACY_HOURLY'' else ''LEGACY_DAILY'')"

definition booked_distance :: "CreateBookingDto \<Rightarrow> rat" where
  "booked_distance dto =
     (case cb_distanceKm dto of Some d \<Rightarrow> if str_truthy (cb_mileagePackageId dto) then 0 else dec_of_num d | None \<Rightarrow> 0)"

definition booked_fare :: "booking_env \<Rightarrow> CreateBookingDto \<Rightarrow> Car \<Rightarrow> MileagePackage option \<Rightarrow> fare" where
  "booked_fare env dto car pkg =
     (let pv = be_pricing env; ls = ct_listing (pv_catalogue pv) (car_id car)
      in calculateFare dec20 (booked_distance dto) (booked_base dto ls pkg) (if str_truthy (cb_mileagePackageId dto) then 0 else ls_pricePerKm ls)
           (resolveCommissionPercent (pv_commission pv) (pv_rules pv) (ls_vendorCity ls) (car_type car) (cb_tripType dto))
           (of_int (duration_days (cb_startDate dto) (cb_endDate dto))) (ls_weeklyDiscount ls) (ls_monthlyDiscount ls) 18 None)"

definition closed_on :: "catalogue \<Rightarrow> id \<Rightarrow> time \<Rightarrow> LocationException option" where
  "closed_on cat hub t =
     List.find (\<lambda>x. lx_locationId x = hub \<and> day_start (ct_tz cat) t \<le> lx_date x \<and> lx_date x \<le> day_start (ct_tz cat) t + day_ms - 1 \<and> lx_isClosed x)
       (ct_exceptions cat)"

definition closure_checks :: "catalogue \<Rightarrow> CreateBookingDto \<Rightarrow> unit result" where
  "closure_checks cat dto =
     (let f = cb_fulfilment dto
      in throw_if (str_truthy (fm_pickupHubId f) \<and> closed_on cat (the (fm_pickupHubId f)) (cb_startDate dto) \<noteq> None)
           (ConflictException ''Pickup location is closed on the selected date.'')
        (throw_if (str_truthy (fm_returnHubId f) \<and> fm_returnHubId f \<noteq> fm_pickupHubId f \<and>
             closed_on cat (the (fm_returnHubId f)) (cb_endDate dto) \<noteq> None)
           (ConflictException ''Return location is closed on the selected return date.'')
        (Inr ())))"

definition booked_fees :: "booking_env \<Rightarrow> CreateBookingDto \<Rightarrow> Car \<Rightarrow> quote_fees result" where
  "booked_fees env dto car =
     (let f = cb_fulfilment dto
      in case pv_delivery (be_pricing env) of
           None \<Rightarrow> Inr no_fees
         | Some calc \<Rightarrow>
             if \<not> needs_fulfilment f \<and> \<not> wants_delivery f then Inr no_fees
             else (case calc (car_vendorId car) (cb_carId dto) f (cb_startDate dto) (cb_endDate dto) of
                     Inl e \<Rightarrow>
                       if is_client_error e then Inl e
                       else throw_if (wants_delivery f) (BadRequestException ''Could not calculate authoritative delivery quote.'') (Inr no_fees)
                   | Inr q \<Rightarrow>
                       throw_if (\<not> dq_isAvailable q \<and> wants_delivery f)
                         (BadRequestException (or_string (dq_reason q) ''Requested fulfillment delivery is unavailable.''))
                       (Inr \<lparr>qf_delivery = dec_of_num (dq_deliveryFee q), qf_pickup = dec_of_num (dq_pickupFee q),
                          qf_return = dec_of_num (dq_returnFee q), qf_oneWay = dec_of_num (dq_oneWaySurcharge q)\<rparr>)))"

definition addons :: "quote_fees \<Rightarrow> rat" where
  "addons f = dec20 (dec20 (dec20 (qf_delivery f + qf_pickup f) + qf_return f) + qf_oneWay f)"

record booked_discount =
  dd_total :: rat
  dd_discount :: "rat option"
  dd_coupon :: "(id \<times> string) option"

text \<open>A discount is taken from the fare as a JavaScript number.\<close>

definition net_payable :: "rat \<Rightarrow> rat \<Rightarrow> rat \<Rightarrow> rat" where
  "net_payable amt d extra = dec_of_num (fl (max 0 (fl (fl amt - d)) + fl extra))"

definition booked_discount_of ::
  "booking_env \<Rightarrow> time \<Rightarrow> id \<Rightarrow> CreateBookingDto \<Rightarrow> Car \<Rightarrow> rat \<Rightarrow> rat \<Rightarrow> coupon_db \<Rightarrow> booked_discount result" where
  "booked_discount_of env now customerId dto car amt extra shop =
     (let plain = \<lparr>dd_total = dec20 (amt + extra), dd_discount = None, dd_coupon = None\<rparr>
      in if str_truthy (cb_couponCode dto)
         then bindR (validateCoupon now customerId
                \<lparr>vc_code = the (cb_couponCode dto), vc_carId = Some (cb_carId dto), vc_subtotal = Some (fl amt),
                 vc_city = Some (ls_vendorCity (ct_listing (pv_catalogue (be_pricing env)) (car_id car))),
                 vc_tripType = Some (cb_tripType dto), vc_carCategory = Some (car_type car)\<rparr> shop)
              (\<lambda>c. Inr \<lparr>dd_total = net_payable amt (cq_discountAmount c) extra, dd_discount = Some (dec_of_num (cq_discountAmount c)),
                       dd_coupon = Some (cq_couponId c, cq_code c)\<rparr>)
         else (case be_referral env of
                 None \<Rightarrow> Inr plain
               | Some f \<Rightarrow>
                   (let e = f customerId
                    in if re_eligible e \<and> fl amt \<ge> re_minBookingAmount e
                       then Inr \<lparr>dd_total = net_payable amt (re_discountAmount e) extra, dd_discount = Some (dec_of_num (re_discountAmount e)),
                              dd_coupon = None\<rparr>
                       else Inr plain)))"

text \<open>The package that was asked for, and whether it covers this booking\<close>

definition asked_protection :: "booking_env \<Rightarrow> CreateBookingDto \<Rightarrow> ProtectionPackage option" where
  "asked_protection env dto =
     (if str_truthy (cb_protectionPackageId dto)
      then List.find (\<lambda>p. pp_id p = the (cb_protectionPackageId dto)) (pv_protections (be_pricing env)) else None)"

definition booked_protection :: "booking_env \<Rightarrow> CreateBookingDto \<Rightarrow> string \<Rightarrow> ProtectionPackage option" where
  "booked_protection env dto city =
     (case asked_protection env dto of
        Some p \<Rightarrow> if pp_isActive p \<and> (\<not> str_truthy (pp_city p) \<or> pp_city p = Some city) then Some p else None
      | None \<Rightarrow> None)"

record booking_parts =
  bp_car :: Car
  bp_package :: "MileagePackage option"
  bp_fare :: fare
  bp_fees :: quote_fees
  bp_discount :: booked_discount
  bp_asked :: "ProtectionPackage option"
  bp_covered :: "ProtectionPackage option"
  bp_protectionFee :: rat
  bp_deposit :: rat

definition bp_total :: "booking_parts \<Rightarrow> rat" where
  "bp_total p = (if bp_covered p = None then dd_total (bp_discount p) else dec20 (dd_total (bp_discount p) + bp_protectionFee p))"

definition booking_parts_of ::
  "booking_env \<Rightarrow> time \<Rightarrow> id \<Rightarrow> CreateBookingDto \<Rightarrow> coupon_db \<Rightarrow> booking_parts result" where
  "booking_parts_of env now customerId dto shop =
     (let pv = be_pricing env
      in bindR (car_checks env dto (kd_core shop)) (\<lambda>car.
         let city = ls_vendorCity (ct_listing (pv_catalogue pv) (car_id car))
         in bindR (booked_package env dto) (\<lambda>pkg.
            bindR (closure_checks (pv_catalogue pv) dto) (\<lambda>_.
            bindR (booked_fees env dto car) (\<lambda>fees.
            bindR (booked_discount_of env now customerId dto car (fr_total (booked_fare env dto car pkg)) (addons fees) shop) (\<lambda>d.
            let covered = booked_protection env dto city;
                p = \<lparr>bp_car = car, bp_package = pkg, bp_fare = booked_fare env dto car pkg, bp_fees = fees, bp_discount = d,
                     bp_asked = asked_protection env dto, bp_covered = covered,
                     bp_protectionFee = (case covered of None \<Rightarrow> 0
                        | Some k \<Rightarrow> dec20 (pp_dailyRate k * of_int (duration_days (cb_startDate dto) (cb_endDate dto)))),
                     bp_deposit = (case pv_depositRules pv of None \<Rightarrow> 5000
                        | Some (rules, cfg) \<Rightarrow> getDepositAmount cfg (car_type car) (Some city) rules)\<rparr>
            in throw_if (case be_fraud env of None \<Rightarrow> False | Some f \<Rightarrow> f customerId (fl (bp_total p)) (cb_couponCode dto) = BLOCK)
                 (ForbiddenException ''Booking request could not be processed due to security verification policy.'')
               (Inr p)))))))"

section \<open>The row\<close>

record booking_amounts =
  ba_base :: rat
  ba_platform :: rat
  ba_gst :: rat
  ba_total :: rat
  ba_net :: rat
  ba_discount :: "rat option"
  ba_deposit :: rat

definition platform_item :: "PriceSnapshot \<Rightarrow> rat" where
  "platform_item s = (case List.find (\<lambda>it. ql_type it = QuoteLineItemType.PLATFORM_FEE) (ps_lineItems s) of Some it \<Rightarrow> ql_amount it | None \<Rightarrow> 0)"

definition amounts_of :: "PriceSnapshot option \<Rightarrow> booking_parts \<Rightarrow> booking_amounts" where
  "amounts_of snapshot p =
     (case snapshot of
        Some s \<Rightarrow>
          \<lparr>ba_base = dec_of_num (ps_subtotal s), ba_platform = dec_of_num (platform_item s), ba_gst = dec_of_num (ps_taxTotal s),
           ba_total = dec_of_num (ps_tripFare s), ba_net = dec_of_num (ps_netToVendor s), ba_discount = Some (dec_of_num (ps_discountTotal s)),
           ba_deposit = dec_of_num (ps_depositTotal s)\<rparr>
      | None \<Rightarrow>
          \<lparr>ba_base = fr_baseFare (bp_fare p), ba_platform = fr_platformFee (bp_fare p), ba_gst = fr_gst (bp_fare p),
           ba_total = bp_total p, ba_net = dec20 (fr_netToVendor (bp_fare p) + addons (bp_fees p)), ba_discount = dd_discount (bp_discount p),
           ba_deposit = dec_of_num (bp_deposit p)\<rparr>)"

text \<open>What goes into columns of two decimals and eight digits before them\<close>

definition column_ok :: "rat \<Rightarrow> bool" where
  "column_ok x \<longleftrightarrow> \<bar>round2 x\<bar> < 10 ^ 8"

definition amounts_ok :: "booking_amounts \<Rightarrow> booking_parts \<Rightarrow> CreateBookingDto \<Rightarrow> bool" where
  "amounts_ok a p dto \<longleftrightarrow>
     column_ok (ba_base a) \<and> column_ok (ba_platform a) \<and> column_ok (ba_gst a) \<and> column_ok (ba_total a) \<and> column_ok (ba_net a) \<and>
     (case ba_discount a of None \<Rightarrow> True | Some x \<Rightarrow> column_ok x) \<and> column_ok (ba_deposit a) \<and>
     column_ok (qf_delivery (bp_fees p)) \<and> column_ok (qf_pickup (bp_fees p)) \<and> column_ok (qf_return (bp_fees p)) \<and>
     column_ok (qf_oneWay (bp_fees p)) \<and> column_ok (bp_protectionFee p) \<and> column_ok (booked_distance dto)"

definition booking_row ::
  "booking_env \<Rightarrow> time \<Rightarrow> booking_ids \<Rightarrow> id \<Rightarrow> CreateBookingDto \<Rightarrow> PriceSnapshot option \<Rightarrow> booking_parts \<Rightarrow> coupon_db \<Rightarrow> Booking" where
  "booking_row env now ids customerId dto snapshot p shop =
     (let a = amounts_of snapshot p; v = be_vendor env (car_vendorId (bp_car p))
      in \<lparr>bk_id = bi_booking ids, bk_status = BookingStatus.PENDING, bk_customerId = customerId,
          bk_customerName = Option.bind (map_of (kd_customers shop) customerId) (\<lambda>n. n), bk_vendorId = car_vendorId (bp_car p),
          bk_vendorUserId = vn_userId v, bk_vendorName = vn_businessName v, bk_carId = cb_carId dto,
          bk_startDate = cb_startDate dto, bk_endDate = cb_endDate dto,
          bk_totalFare = round2 (ba_total a), bk_platformFee = round2 (ba_platform a), bk_gstAmount = round2 (ba_gst a),
          bk_netToVendor = round2 (ba_net a), bk_pickupLocation = cb_pickupLocation dto, bk_dropLocation = cb_dropLocation dto,
          bk_pickupHubId = fm_pickupHubId (cb_fulfilment dto), bk_disputeFlag = False,
          bk_protectionDeductible = map_option pp_deductibleAmount (bp_covered p),
          bk_packageDeductible = map_option pp_deductibleAmount (bp_asked p),
          bk_cancellationMatrix = Option.bind snapshot ps_cancellationMatrix, bk_commissionSplit = None,
          bk_quoteTotal = map_option ps_totalPayable snapshot, bk_couponId = map_option fst (dd_coupon (bp_discount p)),
          bk_discountAmount = map_option round2 (ba_discount a), bk_corporateAccountId = None,
          bk_cancellationReason = None, bk_cancellationFee = None, bk_refundAmount = None, bk_cancelledAt = None, bk_cancelledBy = None,
          bk_updatedAt = now, bk_createdAt = now\<rparr>)"

definition details_row :: "booking_ids \<Rightarrow> CreateBookingDto \<Rightarrow> PriceSnapshot option \<Rightarrow> booking_parts \<Rightarrow> booking_details" where
  "details_row ids dto snapshot p =
     (let f = bp_fees p; pkg = bp_package p
      in \<lparr>bd_bookingId = bi_booking ids, bd_tripType = cb_tripType dto, bd_quoteId = cb_quoteId dto,
          bd_distanceKm = (case cb_distanceKm dto of Some d \<Rightarrow> if d \<noteq> 0 then Some (round2 (booked_distance dto)) else None | None \<Rightarrow> None),
          bd_baseFare = round2 (ba_base (amounts_of snapshot p)),
          bd_deliveryType = (case fm_deliveryType (cb_fulfilment dto) of Some t \<Rightarrow> t | None \<Rightarrow> DeliveryType.NONE),
          bd_deliveryFee = round2 (qf_delivery f), bd_pickupFee = round2 (qf_pickup f), bd_returnFee = round2 (qf_return f),
          bd_oneWayFee = round2 (qf_oneWay f), bd_returnHubId = fm_returnHubId (cb_fulfilment dto),
          bd_protectionPackageId = map_option pp_id (bp_asked p), bd_protectionCode = map_option pp_code (bp_covered p),
          bd_protectionFee = round2 (bp_protectionFee p), bd_couponCode = map_option snd (dd_coupon (bp_discount p)),
          bd_mileagePackageId = map_option mp_id pkg,
          bd_includedKmTotal = Option.bind (Option.bind pkg mp_includedKmPerDay)
            (\<lambda>k. if k \<noteq> 0 then Some (k * duration_days (cb_startDate dto) (cb_endDate dto)) else None),
          bd_extraKmRate = map_option mp_extraKmRate pkg, bd_pricingBasis = pricing_basis dto, bd_disputeNote = None\<rparr>)"

definition required_deposit :: "booking_ids \<Rightarrow> booking_amounts \<Rightarrow> SecurityDeposit" where
  "required_deposit ids a =
     \<lparr>sd_id = bi_deposit ids, sd_bookingId = bi_booking ids, sd_amount = round2 (ba_deposit a), sd_refundedAmount = 0, sd_deductedAmount = 0,
      sd_razorpayPaymentId = None, sd_razorpayRefundId = None, sd_status = SecurityDepositStatus.REQUIRED, sd_heldAt = None, sd_releasedAt = None\<rparr>"

definition created_event :: "time \<Rightarrow> booking_ids \<Rightarrow> Booking \<Rightarrow> Car \<Rightarrow> BookingOutboxEvent" where
  "created_event now ids b car =
     \<lparr>oe_id = bi_event ids, oe_bookingId = bk_id b, oe_eventType = ''BOOKING_CREATED'', oe_tenantId = bk_vendorId b,
      oe_actorId = bk_customerId b, oe_actorRole = ''CUSTOMER'', oe_previousStatus = Some BookingStatus.PENDING,
      oe_newStatus = BookingStatus.PENDING, oe_correlationId = ''evt_booking_created_'' @ bk_id b @ ''_'' @ show_nat (nat now),
      oe_payload = lifecycle_payload \<lparr>vw_booking = b, vw_payment = None, vw_deposit = None, vw_car = car\<rparr> None None,
      oe_status = OutboxStatus.PENDING, oe_retryCount = 0, oe_maxRetries = 3, oe_lastError = None, oe_processedAt = None,
      oe_createdAt = now, oe_updatedAt = now\<rparr>"

section \<open>The transaction\<close>

definition collision_checks :: "time \<Rightarrow> id \<Rightarrow> CreateBookingDto \<Rightarrow> booking_store \<Rightarrow> unit result" where
  "collision_checks now customerId dto st =
     (let start = cb_startDate dto; end = cb_endDate dto; carId = cb_carId dto
      in throw_if (reserving_bookings carId start end (core st) \<noteq> [])
           (ConflictException ''This car is already booked during the selected date range.'')
        (case blocks_in carId start end (core st) of
           k # _ \<Rightarrow> Inl (ConflictException (or_string (vb_reason k)
             ''This car has a scheduled maintenance or operational block during the selected date range.''))
         | [] \<Rightarrow>
             throw_if (list_ex (\<lambda>h. vh_customerId h \<noteq> customerId) (live_holds now carId start end (qs_holds st)))
               (ConflictException ''This car is currently on temporary hold by another customer during checkout.'')
             (Inr ())))"

definition accept_quote ::
  "booking_env \<Rightarrow> time \<Rightarrow> id \<Rightarrow> CreateBookingDto \<Rightarrow> booking_store \<Rightarrow> (PriceSnapshot option \<times> booking_store) result" where
  "accept_quote env now customerId dto st =
     (if str_truthy (cb_quoteId dto) \<and> be_quotes env
      then bindR (verifyAndAcceptQuote (be_pricing env) now (the (cb_quoteId dto)) customerId (cb_carId dto) (cb_startDate dto) (cb_endDate dto)
             (cb_tripType dto) st) (\<lambda>(s, st1). Inr (Some s, st1))
      else Inr (None, st))"

definition write_booking ::
  "booking_env \<Rightarrow> time \<Rightarrow> booking_ids \<Rightarrow> id \<Rightarrow> CreateBookingDto \<Rightarrow> PriceSnapshot option \<Rightarrow> booking_parts \<Rightarrow> booking_store \<Rightarrow>
   (Booking \<times> booking_store) result" where
  "write_booking env now ids customerId dto snapshot p st =
     (let a = amounts_of snapshot p; b = booking_row env now ids customerId dto snapshot p (qs_shop st); db = core st
      in throw_if (\<not> amounts_ok a p dto) (PrismaError ''P2020'')
        (bindR (create_event (created_event now ids b (bp_car p))
             (db\<lparr>db_bookings := db_bookings db @ [b], db_deposits := db_deposits db @ [required_deposit ids a]\<rparr>)) (\<lambda>db1.
           Inr (b, (set_core db1 st)\<lparr>bs_details := bs_details st @ [details_row ids dto snapshot p],
             qs_holds := convertHoldToBooking (cb_carId dto) customerId (qs_holds st)\<rparr>))))"

text \<open>The transaction locks the row of the car first, so transactions of one car run one after another.\<close>

definition booking_transaction ::
  "booking_env \<Rightarrow> time \<Rightarrow> booking_ids \<Rightarrow> id \<Rightarrow> CreateBookingDto \<Rightarrow> booking_parts \<Rightarrow> booking_store \<Rightarrow> (Booking \<times> booking_store) result" where
  "booking_transaction env now ids customerId dto p st =
     bindR (collision_checks now customerId dto st) (\<lambda>_.
     bindR (accept_quote env now customerId dto st) (\<lambda>(snapshot, st1).
       write_booking env now ids customerId dto snapshot p st1))"

definition book :: "booking_env \<Rightarrow> time \<Rightarrow> booking_ids \<Rightarrow> id \<Rightarrow> CreateBookingDto \<Rightarrow> booking_store \<Rightarrow> (Booking \<times> booking_store) result" where
  "book env now ids customerId dto st =
     bindR (booking_parts_of env now customerId dto (qs_shop st)) (\<lambda>p. booking_transaction env now ids customerId dto p st)"

text \<open>Settings that do not exist are created; they stay when the booking fails.\<close>

definition enabled_trips :: "booking_store \<Rightarrow> TripType list" where
  "enabled_trips st = (case bs_enabled st of Some ts \<Rightarrow> ts | None \<Rightarrow> [SELF_DRIVE, OUTSTATION])"

definition createBooking ::
  "'r lock_env \<Rightarrow> booking_env \<Rightarrow> time \<Rightarrow> booking_ids \<Rightarrow> id \<Rightarrow> CreateBookingDto \<Rightarrow> booking_store \<times> 'r \<Rightarrow> Booking result \<times> booking_store \<times> 'r" where
  "createBooking le env now ids customerId dto st =
     (let st1 = (fst st)\<lparr>bs_enabled := Some (enabled_trips (fst st))\<rparr>
      in if cb_startDate dto \<ge> cb_endDate dto then (Inl (BadRequestException ''Start date must be before end date.''), st)
         else if cb_startDate dto < now then (Inl (BadRequestException ''Start date cannot be in the past.''), st)
         else if cb_tripType dto \<notin> set (enabled_trips (fst st))
         then (Inl (BadRequestException ''This trip type is not currently available''), st1, snd st)
         else with_car_lock le now (cb_carId dto) (\<lambda>s. atomic (book env now ids customerId dto s) s) (st1, snd st))"

end
