(* ===== verification/BookingDesk.thy ===== *)
theory BookingDesk
  imports Bookings PayoutExecution
begin

text \<open>
  The other operations of the bookings service (\<open>bookings/bookings.service.ts\<close>) and the redaction of a
  fleet owner in what customers see (\<open>common/vendor-redactor.util.ts\<close>). The life cycle service is always
  configured, so \<open>updateStatus\<close> and \<open>cancelBooking\<close> are the transitions they ask it for; their own
  state machine serves a deployment without it. \<open>VendorRow\<close> has what the redaction reads, strings in UTF-8.
\<close>

section \<open>The owner as others see it\<close>

record VendorRow =
  vr_userId :: id
  vr_businessName :: string
  vr_ownerName :: "string option"
  vr_city :: string
  vr_locality :: "string option"
  vr_latitude :: "rat option"
  vr_longitude :: "rat option"
  vr_gstNumber :: "string option"
  vr_panNumber :: "string option"
  vr_bankDetails :: "string option"
  vr_phone :: "string option"

record VendorRedactionOptions =
  ro_isAdmin :: bool
  ro_isOwner :: bool
  ro_isConfirmed :: bool

definition word_char :: "char \<Rightarrow> bool" where
  "word_char c = (let n = (of_char c :: nat) in is_digit c \<or> 65 \<le> n \<and> n \<le> 90 \<or> 97 \<le> n \<and> n \<le> 122 \<or> n = 95)"

definition mask_bullets :: string where
  "mask_bullets = concat (replicate 8 (map char_of [226, 128, 162 :: nat]))"

text \<open>A run of word characters; only a run of digits is a match of the pattern.\<close>

definition mask_word :: "string \<Rightarrow> string" where
  "mask_word w = (if list_all is_digit w \<and> length w > 4 then mask_bullets @ drop (length w - 4) w else w)"

function mask_numbers :: "string \<Rightarrow> string" where
  "mask_numbers [] = []"
| "mask_numbers (c # cs) =
     (if word_char c then mask_word (c # takeWhile word_char cs) @ mask_numbers (dropWhile word_char cs) else c # mask_numbers cs)"
  by pat_completeness auto
termination by (relation "measure length") (auto simp: length_dropWhile_le le_imp_less_Suc)

definition maskBankDetails :: "string option \<Rightarrow> string option" where
  "maskBankDetails v = (if \<not> str_truthy v \<or> trim (the v) = [] then None else Some (mask_numbers (the v)))"

definition display_name :: "VendorRow \<Rightarrow> string" where
  "display_name v =
     (let place = or_string (vr_locality v) (vr_city v) in if place = [] then ''Verified Partner'' else ''Partner in '' @ place)"

definition rounded_coordinate :: "rat \<Rightarrow> rat" where
  "rounded_coordinate x = fl (of_int (js_round (fl (x * 100))) / 100)"

text \<open>The row with the name that is displayed for it\<close>

definition redactVendor :: "VendorRedactionOptions \<Rightarrow> VendorRow \<Rightarrow> VendorRow \<times> string" where
  "redactVendor opt v =
     (if ro_isAdmin opt \<or> ro_isOwner opt
      then (if str_truthy (vr_bankDetails v) \<and> \<not> starts_at ''enc:v1:'' (the (vr_bankDetails v))
            then v\<lparr>vr_bankDetails := maskBankDetails (vr_bankDetails v)\<rparr> else v, display_name v)
      else let w = v\<lparr>vr_gstNumber := None, vr_panNumber := None, vr_bankDetails := None, vr_phone := None\<rparr>
           in (if ro_isConfirmed opt then w
               else w\<lparr>vr_businessName := display_name v, vr_ownerName := None,
                      vr_latitude := map_option rounded_coordinate (vr_latitude v),
                      vr_longitude := map_option rounded_coordinate (vr_longitude v)\<rparr>, display_name v))"

section \<open>Reading bookings\<close>

definition reveals_owner :: "BookingStatus \<Rightarrow> bool" where
  "reveals_owner s \<longleftrightarrow>
     s \<in> {BookingStatus.CONFIRMED, BookingStatus.HANDOVER_READY, BookingStatus.ONGOING, BookingStatus.RETURN_PENDING, BookingStatus.COMPLETED}"

definition redactVendorInBooking :: "id \<Rightarrow> Role \<Rightarrow> Booking \<Rightarrow> VendorRow \<Rightarrow> Booking \<times> VendorRow \<times> string" where
  "redactVendorInBooking userId role b v =
     (b, redactVendor \<lparr>ro_isAdmin = (role = Role.ADMIN), ro_isOwner = (vr_userId v = userId), ro_isConfirmed = reveals_owner (bk_status b)\<rparr> v)"

definition getBookingById ::
  "(id \<Rightarrow> VendorRow) \<Rightarrow> id \<Rightarrow> id \<Rightarrow> Role \<Rightarrow> bk_db \<Rightarrow> (Booking \<times> VendorRow \<times> string) result" where
  "getBookingById vendors bid userId role db =
     (case find_booking bid db of
        None \<Rightarrow> Inl (NotFoundException ''Booking not found.'')
      | Some b \<Rightarrow>
          (let v = vendors (bk_vendorId b)
           in throw_if (bk_customerId b \<noteq> userId \<and> vr_userId v \<noteq> userId \<and> role \<noteq> Role.ADMIN \<and> role \<noteq> Role.SUPPORT_AGENT)
                (ForbiddenException ''Access denied: You are not authorized to view this booking.'')
                (Inr (redactVendorInBooking userId role b v))))"

definition with_status :: "BookingStatus option \<Rightarrow> Booking \<Rightarrow> bool" where
  "with_status s b = (case s of None \<Rightarrow> True | Some t \<Rightarrow> bk_status b = t)"

text \<open>Pages count from 1; the first page of ten is the default.\<close>

definition getBookingsForCustomer ::
  "(id \<Rightarrow> VendorRow) \<Rightarrow> id \<Rightarrow> BookingStatus option \<Rightarrow> nat \<Rightarrow> nat \<Rightarrow> bk_db \<Rightarrow> (Booking \<times> VendorRow \<times> string) list \<times> nat \<times> nat" where
  "getBookingsForCustomer vendors customerId status page limit db =
     (case page_of bk_createdAt page limit (filter (\<lambda>b. bk_customerId b = customerId \<and> with_status status b) (db_bookings db)) of
        (rows, n, pages) \<Rightarrow>
          (map (\<lambda>b. redactVendorInBooking customerId Role.CUSTOMER b (vendors (bk_vendorId b))) rows, n, pages))"

definition getBookingsForVendor ::
  "(id \<Rightarrow> id option) \<Rightarrow> id \<Rightarrow> BookingStatus option \<Rightarrow> nat \<Rightarrow> nat \<Rightarrow> bk_db \<Rightarrow> (Booking list \<times> nat \<times> nat) result" where
  "getBookingsForVendor vendorOf userId status page limit db =
     (case vendorOf userId of
        None \<Rightarrow> Inl (NotFoundException ''Vendor profile not found.'')
      | Some vid \<Rightarrow>
          Inr (page_of bk_createdAt page limit (filter (\<lambda>b. bk_vendorId b = vid \<and> with_status status b) (db_bookings db))))"

record booking_filters =
  bf_city :: "string option"
  bf_startDate :: "time option"
  bf_endDate :: "time option"
  bf_tripType :: "TripType option"
  bf_status :: "BookingStatus option"
  bf_vendorId :: "id option"
  bf_carType :: "CarCategory option"

text \<open>The two conditions on the car share one key of the query; the city, written last, wins.\<close>

definition on_car :: "(id \<Rightarrow> string) \<Rightarrow> booking_filters \<Rightarrow> Car \<Rightarrow> bool" where
  "on_car cityOf f c =
     (if str_truthy (bf_city f) then to_lower (cityOf (car_vendorId c)) = to_lower (the (bf_city f))
      else case bf_carType f of Some t \<Rightarrow> car_type c = t | None \<Rightarrow> True)"

definition matches_filters :: "(id \<Rightarrow> string) \<Rightarrow> booking_filters \<Rightarrow> bk_db \<Rightarrow> booking_details list \<Rightarrow> Booking \<Rightarrow> bool" where
  "matches_filters cityOf f db details b \<longleftrightarrow>
     with_status (bf_status f) b \<and>
     (case bf_tripType f of None \<Rightarrow> True | Some t \<Rightarrow> exists_where (\<lambda>d. bd_bookingId d = bk_id b \<and> bd_tripType d = t) details) \<and>
     (str_truthy (bf_vendorId f) \<longrightarrow> bk_vendorId b = the (bf_vendorId f)) \<and>
     (case find_car (bk_carId b) db of Some c \<Rightarrow> on_car cityOf f c | None \<Rightarrow> \<not> str_truthy (bf_city f) \<and> bf_carType f = None) \<and>
     (case (bf_startDate f, bf_endDate f) of (Some s, Some e) \<Rightarrow> s \<le> bk_startDate b \<and> bk_endDate b \<le> e | _ \<Rightarrow> True)"

definition getBookingsForAdmin ::
  "(id \<Rightarrow> string) \<Rightarrow> booking_filters \<Rightarrow> nat \<Rightarrow> nat \<Rightarrow> booking_store \<Rightarrow> Booking list \<times> nat \<times> nat" where
  "getBookingsForAdmin cityOf f page limit st =
     page_of bk_createdAt page limit (filter (matches_filters cityOf f (core st) (bs_details st)) (db_bookings (core st)))"

section \<open>Status changes\<close>

definition updateStatus :: "id \<Rightarrow> BookingStatus \<Rightarrow> id \<Rightarrow> Role \<Rightarrow> string option \<Rightarrow> string option \<Rightarrow> BookingTransitionContext" where
  "updateStatus bid target userId role reason otp = transition_to target bid userId (User role) reason otp"

definition customer_cancel :: "id \<Rightarrow> id \<Rightarrow> string \<Rightarrow> BookingTransitionContext result" where
  "customer_cancel bid customerId reason = Lifecycle.cancelBooking bid customerId (User Role.CUSTOMER) reason"

definition getCancellationPreview ::
  "CancellationMatrixConfig option result option \<Rightarrow> time \<Rightarrow> id \<Rightarrow> id \<Rightarrow> Role \<Rightarrow> bk_db \<Rightarrow> CancellationCalculationResult result" where
  "getCancellationPreview service now bid userId role db =
     (case find_booking bid db of
        None \<Rightarrow> Inl (NotFoundException ''Booking not found.'')
      | Some b \<Rightarrow>
          throw_if (role \<noteq> Role.ADMIN \<and> role \<noteq> Role.SUPPORT_AGENT \<and> bk_customerId b \<noteq> userId \<and> bk_vendorUserId b \<noteq> userId)
            (ForbiddenException ''Access denied: You are not authorized to view cancellation preview for this booking.'')
         (throw_if (bk_status b = BookingStatus.CANCELLED) (BadRequestException ''Booking is already cancelled.'')
         (throw_if (bk_status b = BookingStatus.COMPLETED) (BadRequestException ''Completed bookings cannot be cancelled.'')
         (Inr (calculateCancellationWithConfig service now
            \<lparr>cp_startDate = bk_startDate b, cp_cancellationTime = Some now,
             cp_amountPaid = (case find_payment bid db of Some p \<Rightarrow> pm_amount p | None \<Rightarrow> bk_totalFare b),
             cp_depositAmount = Some (case find_deposit bid db of Some d \<Rightarrow> sd_amount d | None \<Rightarrow> 0),
             cp_actorRole = role, cp_isAdminOverride = False,
             cp_isPendingConfirmation = (bk_status b = BookingStatus.PENDING), cp_cancellationMatrix = bk_cancellationMatrix b\<rparr>)))))"

definition set_dispute :: "id \<Rightarrow> bool \<Rightarrow> string option \<Rightarrow> booking_store \<Rightarrow> booking_store result" where
  "set_dispute bid flagged note' st =
     (case find_booking bid (core st) of
        None \<Rightarrow> Inl (NotFoundException ''Booking not found.'')
      | Some _ \<Rightarrow>
          Inr ((set_core (update_booking bid (\<lambda>b. b\<lparr>bk_disputeFlag := flagged\<rparr>) (core st)) st)
            \<lparr>bs_details := update_where (\<lambda>d. bd_bookingId d = bid) (\<lambda>d. d\<lparr>bd_disputeNote := note'\<rparr>) (bs_details st)\<rparr>))"

definition flagDispute :: "id \<Rightarrow> string \<Rightarrow> booking_store \<Rightarrow> booking_store result" where
  "flagDispute bid note' st = set_dispute bid True (Some note') st"

definition resolveDispute :: "id \<Rightarrow> booking_store \<Rightarrow> booking_store result" where
  "resolveDispute bid st = set_dispute bid False None st"

fun transition_table :: "BookingStatus \<Rightarrow> BookingStatus list" where
  "transition_table BookingStatus.PENDING = [BookingStatus.CONFIRMED, BookingStatus.CANCELLED, BookingStatus.EXPIRED]"
| "transition_table BookingStatus.CONFIRMED =
     [BookingStatus.HANDOVER_READY, BookingStatus.ONGOING, BookingStatus.CANCELLED, BookingStatus.REFUND_PENDING]"
| "transition_table BookingStatus.HANDOVER_READY = [BookingStatus.ONGOING, BookingStatus.CANCELLED]"
| "transition_table BookingStatus.ONGOING = [BookingStatus.RETURN_PENDING, BookingStatus.COMPLETED]"
| "transition_table BookingStatus.RETURN_PENDING = [BookingStatus.COMPLETED, BookingStatus.DISPUTED]"
| "transition_table BookingStatus.REFUND_PENDING = [BookingStatus.REFUNDED, BookingStatus.DISPUTED]"
| "transition_table BookingStatus.DISPUTED = [BookingStatus.COMPLETED, BookingStatus.REFUND_PENDING, BookingStatus.REFUNDED]"
| "transition_table _ = []"

definition validateStatusTransition :: "BookingStatus \<Rightarrow> BookingStatus \<Rightarrow> unit result" where
  "validateStatusTransition current target =
     (if current = target then Inr ()
      else throw_if (target \<notin> set (transition_table current))
        (BadRequestException (''Invalid booking status transition from '' @ show_status current @ '' to '' @ show_status target @ ''.'')) (Inr ()))"

definition getAllowedNextStates :: "BookingStatus \<Rightarrow> Role \<Rightarrow> BookingStatus list" where
  "getAllowedNextStates current role =
     (if role = Role.CUSTOMER
      then (if current = BookingStatus.PENDING \<or> current = BookingStatus.CONFIRMED then [BookingStatus.CANCELLED] else [])
      else if role = Role.VENDOR
      then (case current of
              BookingStatus.PENDING \<Rightarrow> [BookingStatus.CONFIRMED, BookingStatus.CANCELLED]
            | BookingStatus.CONFIRMED \<Rightarrow> [BookingStatus.HANDOVER_READY, BookingStatus.ONGOING, BookingStatus.CANCELLED]
            | BookingStatus.HANDOVER_READY \<Rightarrow> [BookingStatus.ONGOING, BookingStatus.CANCELLED]
            | BookingStatus.ONGOING \<Rightarrow> [BookingStatus.RETURN_PENDING, BookingStatus.COMPLETED]
            | BookingStatus.RETURN_PENDING \<Rightarrow> [BookingStatus.COMPLETED]
            | _ \<Rightarrow> [])
      else [])"

end
