(* ===== verification/AvailabilityFacts.thy ===== *)
theory AvailabilityFacts
  imports Availability
begin

text \<open>
  The answer about an interval is the declared condition, and the holds of different customers never
  collide, whatever the order in which they are placed, released, expire and are converted.
\<close>

section \<open>The answer\<close>

lemma find_carD: "find_car cid db = Some c \<Longrightarrow> car_id c = cid"
  unfolding find_car_def by (drule find_Some_D) simp

lemma static_blocker_None:
  "static_blocker car ls = None \<longleftrightarrow>
     car_isAvailable car \<and> car_operationalStatus car = VehicleOperationalStatus.ACTIVE \<and>
     car_verificationStatus car = VehicleVerificationStatus.VERIFIED \<and> ls_vendorStatus ls = VerificationStatus.VERIFIED"
  by (auto simp: static_blocker_def Let_def)

definition in_service :: "Car \<Rightarrow> listing \<Rightarrow> bool" where
  "in_service car ls \<longleftrightarrow>
     car_isAvailable car \<and> car_operationalStatus car = VehicleOperationalStatus.ACTIVE \<and>
     car_verificationStatus car = VehicleVerificationStatus.VERIFIED \<and> ls_vendorStatus ls = VerificationStatus.VERIFIED"

definition branch_open :: "catalogue \<Rightarrow> id option \<Rightarrow> time \<Rightarrow> time \<Rightarrow> bool" where
  "branch_open cat hub start end \<longleftrightarrow>
     (\<forall>x\<in>set (ct_exceptions cat). \<not> (str_truthy hub \<and> hub = Some (lx_locationId x) \<and> lx_isClosed x \<and>
        day_start (ct_tz cat) start \<le> lx_date x \<and> lx_date x \<le> day_start (ct_tz cat) end + day_ms - 1000))"

definition free_for :: "time \<Rightarrow> id \<Rightarrow> id \<Rightarrow> time \<Rightarrow> time \<Rightarrow> bk_db \<Rightarrow> VehicleHold list \<Rightarrow> bool" where
  "free_for now customerId carId start end db holds \<longleftrightarrow>
     (\<forall>b\<in>set (db_bookings db). \<not> (bk_carId b = carId \<and> reserves_car (bk_status b) \<and> isIntervalOverlapping (bk_startDate b) (bk_endDate b) start end)) \<and>
     (\<forall>k\<in>set (db_blocks db). \<not> (vb_carId k = carId \<and> isIntervalOverlapping (vb_startDate k) (vb_endDate k) start end)) \<and>
     (\<forall>h\<in>set holds. \<not> (vh_carId h = carId \<and> vh_customerId h \<noteq> customerId \<and> vh_status h = VehicleHoldStatus.ACTIVE \<and> now < vh_expiresAt h \<and>
        isIntervalOverlapping (vh_startDate h) (vh_endDate h) start end))"

definition customer_options :: "id \<Rightarrow> availability_options" where
  "customer_options customerId = \<lparr>op_excludeBookingId = None, op_actorId = Some customerId, op_hubId = None\<rparr>"

lemma closures_none: "closures cat hub start end = [] \<longleftrightarrow> branch_open cat hub start end"
  by (auto simp: closures_def branch_open_def filter_empty_conv str_truthy_def split: option.splits)

lemma conflicts_none:
  assumes "customerId \<noteq> []"
  shows "conflicts_of cat now car start end (customer_options customerId) db holds = [] \<longleftrightarrow>
     branch_open cat (car_pickupHubId car) start end \<and> free_for now customerId (car_id car) start end db holds \<and>
     \<not> blocked_date (ct_listing cat (car_id car)) start end"
proof -
  have hub: "closures cat (or_str None h) start end = [] \<longleftrightarrow> branch_open cat h start end" for h
    by (simp add: or_str_def closures_none)
  have "reserving_bookings (car_id car) start end db = [] \<longleftrightarrow>
      (\<forall>b\<in>set (db_bookings db). \<not> (bk_carId b = car_id car \<and> reserves_car (bk_status b) \<and> isIntervalOverlapping (bk_startDate b) (bk_endDate b) start end))"
    by (auto simp: reserving_bookings_def filter_empty_conv isIntervalOverlapping_def)
  moreover have "blocks_in (car_id car) start end db = [] \<longleftrightarrow>
      (\<forall>k\<in>set (db_blocks db). \<not> (vb_carId k = car_id car \<and> isIntervalOverlapping (vb_startDate k) (vb_endDate k) start end))"
    by (auto simp: blocks_in_def filter_empty_conv isIntervalOverlapping_def)
  moreover have "filter (\<lambda>h. \<not> (str_truthy (Some customerId) \<and> vh_customerId h = customerId)) (live_holds now (car_id car) start end holds) = [] \<longleftrightarrow>
      (\<forall>h\<in>set holds. \<not> (vh_carId h = car_id car \<and> vh_customerId h \<noteq> customerId \<and> vh_status h = VehicleHoldStatus.ACTIVE \<and> now < vh_expiresAt h \<and>
        isIntervalOverlapping (vh_startDate h) (vh_endDate h) start end))"
    using assms by (auto simp: live_holds_def filter_empty_conv isIntervalOverlapping_def str_truthy_def)
  ultimately show ?thesis
    by (simp add: conflicts_of_def customer_options_def hub free_for_def str_truthy_def [of None])
qed

text \<open>
  The answer is the declared condition: a customer is told that a car is available exactly when
  the car is in service with a verified vendor, its branch is open on the days of the trip, no
  booking that reserves it, no block and no unexpired hold of somebody else overlaps the interval, and
  the owner has blocked no day of it; touching intervals do not overlap.
\<close>

theorem available_iff_free:
  assumes "checkAvailability cat now carId (Some start) (Some end) (customer_options customerId) db holds = Inr a" "customerId \<noteq> []"
  shows "va_available a \<longleftrightarrow>
    (\<exists>car. find_car carId db = Some car \<and> in_service car (ct_listing cat carId) \<and> branch_open cat (car_pickupHubId car) start end \<and>
       free_for now customerId carId start end db holds \<and> \<not> blocked_date (ct_listing cat carId) start end)"
proof -
  obtain car where car: "find_car carId db = Some car" using assms(1) by (auto simp: checkAvailability_def throw_if_Inr_iff split: option.splits)
  then have id: "car_id car = carId" by (rule find_carD)
  show ?thesis
  proof (cases "static_blocker car (ct_listing cat carId)")
    case None
    then have "va_available a \<longleftrightarrow> conflicts_of cat now car start end (customer_options customerId) db holds = []"
      using assms(1) car id by (auto simp: checkAvailability_def throw_if_Inr_iff Let_def)
    then show ?thesis using None car id conflicts_none [OF assms(2), of cat now car start "end" db holds]
      by (auto simp only: static_blocker_None in_service_def car option.inject)
  next
    case (Some x)
    obtain m d where x: "x = (m, d)" by fastforce
    have "\<not> va_available a" using Some x assms(1) car id by (auto simp: checkAvailability_def throw_if_Inr_iff)
    moreover have "\<not> in_service car (ct_listing cat carId)" using Some static_blocker_None [of car "ct_listing cat carId"] by (simp add: in_service_def)
    ultimately show ?thesis using car by simp
  qed
qed

section \<open>Holds\<close>

inductive hold_step :: "'r lock_env \<Rightarrow> catalogue \<Rightarrow> time \<times> bk_db \<times> VehicleHold list \<Rightarrow> time \<times> bk_db \<times> VehicleHold list \<Rightarrow> bool" for le cat where
  placed: "now \<le> t \<Longrightarrow> createHold le cat t newId carId customerId start end ttl key db (holds, r) = (res, holds', r') \<Longrightarrow>
    hold_step le cat (now, db, holds) (t, db, holds')"
| released: "releaseHold hid customer holds = Inr (ok, holds') \<Longrightarrow> hold_step le cat (now, db, holds) (now, db, holds')"
| expired: "hold_step le cat (now, db, holds) (now, db, expireHold hid holds)"
| converted: "hold_step le cat (now, db, holds) (now, db, convertHoldToBooking carId customerId holds)"
| others: "now \<le> t \<Longrightarrow> hold_step le cat (now, db, holds) (t, db', holds)"

inductive hold_run :: "'r lock_env \<Rightarrow> catalogue \<Rightarrow> time \<times> bk_db \<times> VehicleHold list \<Rightarrow> time \<times> bk_db \<times> VehicleHold list \<Rightarrow> bool" for le cat where
  start: "hold_run le cat s s"
| next_step: "hold_run le cat s s1 \<Longrightarrow> hold_step le cat s1 s2 \<Longrightarrow> hold_run le cat s s2"

definition live :: "time \<Rightarrow> VehicleHold \<Rightarrow> bool" where
  "live now h \<longleftrightarrow> vh_status h = VehicleHoldStatus.ACTIVE \<and> now < vh_expiresAt h"

definition holds_apart :: "time \<Rightarrow> VehicleHold list \<Rightarrow> bool" where
  "holds_apart now holds \<longleftrightarrow>
     (\<forall>h\<in>set holds. \<forall>k\<in>set holds. live now h \<longrightarrow> live now k \<longrightarrow> vh_carId h = vh_carId k \<longrightarrow> vh_customerId h \<noteq> vh_customerId k \<longrightarrow>
        \<not> isIntervalOverlapping (vh_startDate h) (vh_endDate h) (vh_startDate k) (vh_endDate k))"

lemma apart_later: "holds_apart now holds \<Longrightarrow> now \<le> t \<Longrightarrow> holds_apart t holds"
  by (auto simp: holds_apart_def live_def)

text \<open>A change of status that makes no hold live\<close>

lemma apart_update:
  assumes "holds_apart now holds" "\<And>h. live now (F h) \<Longrightarrow> False"
  shows "holds_apart now (update_where P F holds)"
  using assms by (auto simp: holds_apart_def set_update_where)

lemma with_car_lock_cases:
  assumes "with_car_lock le now carId body (s, r) = (res, s', r')"
  obtains "s' = s" "\<exists>e. res = Inl e" | r1 where "s' = snd (body s)" "res = fst (body s) \<or> (\<exists>e. res = Inl e)"
  using assms by (auto simp: with_car_lock_def split: prod.splits sum.splits)

lemma atomic_simps [simp]: "atomic (Inl e) s = (Inl e, s)" "atomic (Inr (x, s')) s = (Inr x, s')"
  by (simp_all add: atomic_def)

lemma place_hold_free:
  assumes "place_hold cat now newId carId customerId start end ttl key db holds = Inr (h, holds')"
  shows "holds' = holds @ [h]" "vh_carId h = carId" "vh_customerId h = customerId" "vh_startDate h = start" "vh_endDate h = end"
    "\<forall>k\<in>set holds. live now k \<longrightarrow> vh_carId k = carId \<longrightarrow> vh_customerId k \<noteq> customerId \<longrightarrow> \<not> isIntervalOverlapping (vh_startDate k) (vh_endDate k) start end"
proof -
  from assms obtain a where a: "checkAvailability cat now carId (Some start) (Some end) (customer_options customerId) db holds = Inr a" "va_available a"
    by (auto simp: place_hold_def customer_options_def result_iffs)
  then obtain car where car: "find_car carId db = Some car" "conflicts_of cat now car start end (customer_options customerId) db holds = []"
    by (auto simp: checkAvailability_def result_iffs Let_def split: option.splits)
  then have "filter (\<lambda>h. \<not> (str_truthy (Some customerId) \<and> vh_customerId h = customerId)) (live_holds now carId start end holds) = []"
    using find_carD [OF car(1)] by (simp add: conflicts_of_def customer_options_def)
  then show "\<forall>k\<in>set holds. live now k \<longrightarrow> vh_carId k = carId \<longrightarrow> vh_customerId k \<noteq> customerId \<longrightarrow> \<not> isIntervalOverlapping (vh_startDate k) (vh_endDate k) start end"
    by (auto simp: filter_empty_conv live_holds_def live_def isIntervalOverlapping_def)
  show "holds' = holds @ [h]" "vh_carId h = carId" "vh_customerId h = customerId" "vh_startDate h = start" "vh_endDate h = end"
    using assms by (auto simp: place_hold_def result_iffs Let_def split: option.splits)
qed

lemma createHold_apart:
  assumes "createHold le cat now newId carId customerId start end ttl key db (holds, r) = (res, holds', r')" "holds_apart now holds"
  shows "holds_apart now holds'"
proof -
  let ?body = "\<lambda>holds. atomic (place_hold cat now newId carId customerId start end ttl key db holds) holds"
  have "holds' = holds \<or> with_car_lock le now carId ?body (holds, r) = (res, holds', r')"
    using assms(1) by (auto simp: createHold_def Let_def split: if_splits option.splits)
  then show ?thesis
  proof
    assume "with_car_lock le now carId ?body (holds, r) = (res, holds', r')"
    then have "holds' = holds \<or> holds' = snd (?body holds)" by (rule with_car_lock_cases) simp_all
    then show ?thesis
    proof
      assume b: "holds' = snd (?body holds)"
      show ?thesis
      proof (cases "place_hold cat now newId carId customerId start end ttl key db holds")
        case (Inl e)
        with b assms(2) show ?thesis by simp
      next
        case (Inr x)
        obtain h hs where x: "x = (h, hs)" by fastforce
        note p = place_hold_free [OF Inr [unfolded x]]
        have "holds' = holds @ [h]" using b Inr x p(1) by simp
        moreover have "holds_apart now (holds @ [h])"
          unfolding holds_apart_def using assms(2) p(2-6)
          by (auto simp: holds_apart_def isIntervalOverlapping_def)
        ultimately show ?thesis by simp
      qed
    qed (use assms(2) in simp)
  qed (use assms(2) in simp)
qed

lemma hold_step_apart:
  assumes "hold_step le cat s s'" "holds_apart (fst s) (snd (snd s))"
  shows "holds_apart (fst s') (snd (snd s'))"
  using assms
proof (induction rule: hold_step.induct)
  case (placed now t newId carId customerId start "end" ttl key db holds r res holds' r')
  then show ?case using createHold_apart [OF placed(2)] apart_later by simp
next
  case (released hid customer holds ok holds' now db)
  then have "holds' = holds \<or> (\<exists>P. holds' = update_where P (\<lambda>h. h\<lparr>vh_status := VehicleHoldStatus.RELEASED\<rparr>) holds)"
    by (auto simp: releaseHold_def result_iffs split: option.splits)
  with released(2) show ?case by (auto intro: apart_update simp: live_def)
qed (auto intro: apart_update apart_later simp: expireHold_def convertHoldToBooking_def live_def)

text \<open>
  At no time do two customers hold the same car for overlapping intervals: over any history in which
  holds are placed under the lock of the car, released, expired and converted, while time and the other
  tables move, two holds that are live at the present time and belong to different customers do not
  overlap.
\<close>

theorem holds_never_collide:
  assumes "hold_run le cat (now, db, holds) (now', db', holds')" "holds_apart now holds"
  shows "holds_apart now' holds'"
proof -
  have "holds_apart (fst s') (snd (snd s'))" if "hold_run le cat s s'" "holds_apart (fst s) (snd (snd s))" for s s'
    using that
  proof (induction rule: hold_run.induct)
    case (next_step s s1 s2)
    then show ?case using hold_step_apart [OF next_step(2)] by blast
  qed
  from this [OF assms(1)] assms(2) show ?thesis by simp
qed

text \<open>
  A key answers anybody. A request with the idempotency key of a live hold is answered with that hold,
  whoever placed it and for whatever car and interval, and nothing is held for the caller.
\<close>

theorem key_of_another_customer:
  assumes "start < end" "hold_with_key key holds = Some h" "live now h"
  shows "createHold le cat now newId carId customerId start end ttl key db (holds, r) = (Inr h, holds, r)"
  using assms by (simp add: createHold_def Let_def live_def)

section \<open>The properties at an example\<close>

definition demo_listing :: listing where
  "demo_listing = \<lparr>ls_vendorStatus = VerificationStatus.VERIFIED, ls_vendorCity = ''Pune'', ls_blockedDates = [], ls_tripTypes = [SELF_DRIVE],
     ls_pricePerHour = 100, ls_pricePerDay = 1001, ls_pricePerKm = 0, ls_weeklyDiscount = 0, ls_monthlyDiscount = 0,
     ls_areaActive = True, ls_cityActive = True\<rparr>"

definition demo_catalogue :: catalogue where
  "demo_catalogue = \<lparr>ct_listing = (\<lambda>_. demo_listing), ct_exceptions = [], ct_tz = 0\<rparr>"

definition demo_lock :: "kv lock_env" where
  "demo_lock = \<lparr>le_set = kv_set, le_get = kv_get, le_del = kv_del, le_online1 = True, le_online2 = True, le_token = ''t''\<rparr>"

lemma demo_free:
  "find_car ''c1'' demo_db = Some demo_car" "in_service demo_car demo_listing" "branch_open demo_catalogue None s e"
  "free_for now cust ''c1'' 300000000 400000000 demo_db []" "\<not> blocked_date demo_listing s e" "car_id demo_car = ''c1''" "car_pickupHubId demo_car = None"
  by (simp_all add: find_car_def demo_db_def demo_car_def in_service_def demo_listing_def branch_open_def demo_catalogue_def free_for_def
      demo_booking_def isIntervalOverlapping_def blocked_date_def)

lemma demo_available:
  "\<exists>a. checkAvailability demo_catalogue 5 ''c1'' (Some 300000000) (Some 400000000) (customer_options ''u1'') demo_db [] = Inr a \<and> va_available a"
proof -
  have "static_blocker demo_car demo_listing = None" using demo_free(2) by (simp add: static_blocker_None in_service_def)
  moreover have "conflicts_of demo_catalogue 5 demo_car 300000000 400000000 (customer_options ''u1'') demo_db [] = []"
    using conflicts_none [of "''u1''" demo_catalogue 5 demo_car 300000000 400000000 demo_db "[]"] demo_free by (simp add: demo_catalogue_def)
  ultimately show ?thesis using demo_free(1,6) by (simp add: checkAvailability_def demo_catalogue_def)
qed

lemma available_iff_free_witness:
  "\<exists>a. checkAvailability demo_catalogue 5 ''c1'' (Some 300000000) (Some 400000000) (customer_options ''u1'') demo_db [] = Inr a \<and> va_available a"
proof -
  obtain a where a: "checkAvailability demo_catalogue 5 ''c1'' (Some 300000000) (Some 400000000) (customer_options ''u1'') demo_db [] = Inr a"
    using demo_available by blast
  from available_iff_free [OF a] demo_free have "va_available a" by (simp add: demo_catalogue_def)
  with a show ?thesis by blast
qed

lemma holds_never_collide_witness:
  "\<exists>h r'. createHold demo_lock demo_catalogue 5 ''h1'' ''c1'' ''u1'' 300000000 400000000 900 None demo_db ([], []) = (Inr h, [h], r') \<and>
     hold_run demo_lock demo_catalogue (0, demo_db, []) (5, demo_db, [h]) \<and> holds_apart 5 [h]"
proof -
  obtain a where a: "checkAvailability demo_catalogue 5 ''c1'' (Some 300000000) (Some 400000000) (customer_options ''u1'') demo_db [] = Inr a" "va_available a"
    using demo_available by blast
  then obtain h where "place_hold demo_catalogue 5 ''h1'' ''c1'' ''u1'' 300000000 400000000 900 None demo_db [] = Inr (h, [h])"
    using demo_free(1) by (auto simp: place_hold_def customer_options_def exists_where_def Let_def)
  then have "\<exists>r'. createHold demo_lock demo_catalogue 5 ''h1'' ''c1'' ''u1'' 300000000 400000000 900 None demo_db ([], []) = (Inr h, [h], r')"
    by (simp add: createHold_def hold_with_key_def str_truthy_def with_car_lock_def demo_lock_def acquireLock_def acquire_key_def
        releaseLock_def release_key_def release_script_def kv_get_def kv_set_def kv_del_def getLockKey_def)
  then obtain r' where c: "createHold demo_lock demo_catalogue 5 ''h1'' ''c1'' ''u1'' 300000000 400000000 900 None demo_db ([], []) = (Inr h, [h], r')" ..
  then have run: "hold_run demo_lock demo_catalogue (0, demo_db, []) (5, demo_db, [h])"
    by (intro hold_run.next_step [OF hold_run.start] hold_step.placed [OF _ c]) simp
  have "holds_apart 5 [h]" by (rule holds_never_collide [OF run]) (simp add: holds_apart_def)
  with c run show ?thesis by blast
qed

end
