(* ===== verification/BookingFacts.thy ===== *)
theory BookingFacts
  imports BookingDesk LifecycleFacts AvailabilityFacts
begin

text \<open>
  What a booking that is made leaves behind, and the properties of the bookings service: all or nothing, no
  car reserved twice, holds respected, quotes used once, previews that come true, owners redacted.
\<close>

section \<open>The effect of making a booking\<close>

lemma core_simps [simp]:
  "core (set_core db st) = db" "core (st\<lparr>bs_enabled := e\<rparr>) = core st" "core (st\<lparr>bs_details := d\<rparr>) = core st"
  "core (st\<lparr>qs_holds := h\<rparr>) = core st" "core (st\<lparr>qs_quotes := q\<rparr>) = core st" "core (set_quote qid F st) = core st"
  "qs_quotes (set_core db st) = qs_quotes st" "bs_details (set_core db st) = bs_details st"
  "bs_enabled (set_core db st) = bs_enabled st" "qs_holds (set_core db st) = qs_holds st"
  by (simp_all add: core_def set_core_def set_quote_def)

lemma set_quote_simps [simp]:
  "qs_holds (set_quote qid F st) = qs_holds st" "qs_shop (set_quote qid F st) = qs_shop st"
  "qs_quotes (set_quote qid F st) = update_where (\<lambda>q. bq_id q = qid) F (qs_quotes st)"
  by (simp_all add: set_quote_def)

lemma set_quote_booking_store [simp]:
  "bs_details (set_quote qid F st) = bs_details st" "bs_enabled (set_quote qid F st) = bs_enabled st"
  by (simp_all add: set_quote_def)

text \<open>A quote that may be accepted by a booking\<close>

definition acceptable :: "time \<Rightarrow> CreateBookingDto \<Rightarrow> BookingQuote \<Rightarrow> bool" where
  "acceptable now dto q \<longleftrightarrow>
     bq_status q = QuoteStatus.ACTIVE \<and> now \<le> bq_expiresAt q \<and> bq_carId q = cb_carId dto \<and> bq_tripType q = cb_tripType dto \<and>
     \<bar>cb_startDate dto - bq_startDate q\<bar> \<le> 120000 \<and> \<bar>cb_endDate dto - bq_endDate q\<bar> \<le> 120000"

definition accepted :: "time \<Rightarrow> id \<Rightarrow> BookingQuote \<Rightarrow> BookingQuote" where
  "accepted now customerId q = q\<lparr>bq_status := QuoteStatus.ACCEPTED, bq_acceptedAt := Some now, bq_customerId := Some customerId\<rparr>"

lemma accept_quote_cases:
  assumes "accept_quote env now customerId dto st = Inr (snapshot, st1)"
  obtains (plain) "snapshot = None" "st1 = st" "\<not> (str_truthy (cb_quoteId dto) \<and> be_quotes env)"
  | (quoted) q where "str_truthy (cb_quoteId dto)" "be_quotes env" "find_quote (the (cb_quoteId dto)) st = Some q" "acceptable now dto q"
      "snapshot = Some (snapshot_of (be_pricing env) q)" "st1 = set_quote (the (cb_quoteId dto)) (accepted now customerId) st"
proof (cases "str_truthy (cb_quoteId dto) \<and> be_quotes env")
  case False
  with assms show thesis by (intro plain) (auto simp: accept_quote_def)
next
  case True
  with assms have "verifyAndAcceptQuote (be_pricing env) now (the (cb_quoteId dto)) customerId (cb_carId dto) (cb_startDate dto)
      (cb_endDate dto) (cb_tripType dto) st = Inr (the snapshot, st1)" "snapshot \<noteq> None"
    by (auto simp: accept_quote_def result_iffs)
  then obtain q where "find_quote (the (cb_quoteId dto)) st = Some q" "acceptable now dto q"
      "snapshot = Some (snapshot_of (be_pricing env) q)" "st1 = set_quote (the (cb_quoteId dto)) (accepted now customerId) st"
    by (auto simp: verifyAndAcceptQuote_def throw_if_Inr_iff acceptable_def accepted_def [abs_def] split: option.splits)
  with True show thesis by (intro quoted) simp_all
qed

lemma accept_quote_core: "accept_quote env now customerId dto st = Inr (snapshot, st1) \<Longrightarrow>
    core st1 = core st \<and> qs_holds st1 = qs_holds st \<and> qs_shop st1 = qs_shop st \<and> bs_details st1 = bs_details st \<and> bs_enabled st1 = bs_enabled st"
  by (elim accept_quote_cases) simp_all

text \<open>The store after a booking with the given parts and quote\<close>

definition booked_core :: "booking_env \<Rightarrow> time \<Rightarrow> booking_ids \<Rightarrow> id \<Rightarrow> CreateBookingDto \<Rightarrow> PriceSnapshot option \<Rightarrow> booking_parts \<Rightarrow> coupon_db \<Rightarrow> bk_db" where
  "booked_core env now ids customerId dto snapshot p shop =
     (let db = kd_core shop; b = booking_row env now ids customerId dto snapshot p shop
      in db\<lparr>db_bookings := db_bookings db @ [b], db_deposits := db_deposits db @ [required_deposit ids (amounts_of snapshot p)],
            db_outbox := db_outbox db @ [created_event now ids b (bp_car p)]\<rparr>)"

lemma transaction_Inr:
  assumes "booking_transaction env now ids customerId dto p st = Inr (b, st')"
  obtains snapshot st1 where "collision_checks now customerId dto st = Inr ()"
    "accept_quote env now customerId dto st = Inr (snapshot, st1)" "amounts_ok (amounts_of snapshot p) p dto"
    "b = booking_row env now ids customerId dto snapshot p (qs_shop st)" "core st' = booked_core env now ids customerId dto snapshot p (qs_shop st)"
    "bs_details st' = bs_details st @ [details_row ids dto snapshot p]" "qs_quotes st' = qs_quotes st1"
    "qs_holds st' = convertHoldToBooking (cb_carId dto) customerId (qs_holds st)" "bs_enabled st' = bs_enabled st"
proof -
  from assms obtain snapshot st1 where p: "collision_checks now customerId dto st = Inr ()"
      "accept_quote env now customerId dto st = Inr (snapshot, st1)" "write_booking env now ids customerId dto snapshot p st1 = Inr (b, st')"
    by (auto simp: booking_transaction_def bindR_Inr_iff)
  note c = accept_quote_core [OF p(2)]
  have shop: "qs_shop st1 = qs_shop st" using c by simp
  have k: "core st1 = kd_core (qs_shop st)" using c by (simp add: core_def)
  have w: "amounts_ok (amounts_of snapshot p) p dto" "b = booking_row env now ids customerId dto snapshot p (qs_shop st)"
      "core st' = booked_core env now ids customerId dto snapshot p (qs_shop st)"
      "bs_details st' = bs_details st1 @ [details_row ids dto snapshot p]" "qs_quotes st' = qs_quotes st1"
      "qs_holds st' = convertHoldToBooking (cb_carId dto) customerId (qs_holds st1)" "bs_enabled st' = bs_enabled st1"
    using p(3) shop k unfolding write_booking_def Let_def
    by (auto simp: result_iffs create_event_def booked_core_def Let_def split: if_splits)
  show thesis by (rule that [OF p(1,2)]) (use w c in simp_all)
qed

lemma createBooking_cases:
  assumes "createBooking le env now ids customerId dto (st, r) = (res, st', r')"
  obtains (unchanged) e where "res = Inl e" "st' = st \<or> st' = st\<lparr>bs_enabled := Some (enabled_trips st)\<rparr>"
  | (booked) b where "res = Inr b \<or> (\<exists>e. res = Inl e)" "book env now ids customerId dto (st\<lparr>bs_enabled := Some (enabled_trips st)\<rparr>) = Inr (b, st')"
      "cb_startDate dto < cb_endDate dto" "now \<le> cb_startDate dto"
proof -
  let ?st = "st\<lparr>bs_enabled := Some (enabled_trips st)\<rparr>"
  let ?body = "\<lambda>s. atomic (book env now ids customerId dto s) s"
  consider (early) e where "res = Inl e" "st' = st \<or> st' = ?st"
    | (locked) "with_car_lock le now (cb_carId dto) ?body (?st, r) = (res, st', r')" "cb_startDate dto < cb_endDate dto" "now \<le> cb_startDate dto"
    using assms by (auto simp: createBooking_def Let_def not_le not_less split: if_splits)
  then show thesis
  proof cases
    case early
    then show thesis by (rule unchanged)
  next
    case locked
    from locked(1) show thesis
    proof (rule with_car_lock_cases)
      assume "st' = ?st" "\<exists>e. res = Inl e"
      then show thesis using unchanged by blast
    next
      assume a: "st' = snd (?body ?st)" "res = fst (?body ?st) \<or> (\<exists>e. res = Inl e)"
      show thesis
      proof (cases "book env now ids customerId dto ?st")
        case (Inl e)
        with a have "\<exists>e. res = Inl e" "st' = ?st" by auto
        then show thesis using unchanged by blast
      next
        case (Inr x)
        obtain b s where x: "x = (b, s)" by fastforce
        with a Inr have "res = Inr b \<or> (\<exists>e. res = Inl e)" "st' = s" by auto
        with Inr x locked(2,3) show thesis by (intro booked [of b]) simp_all
      qed
    qed
  qed
qed

section \<open>No car is reserved twice\<close>

text \<open>
  What requests that run at the same time do to the bookings: each is a step at its transaction, which is
  all that the database keeps apart. The price and the car of a booking were determined before, and a
  transition was prepared on tables that may have changed since. The other handlers of the two
  services leave the bookings alone (\<open>elsewhere\<close>), or their cars, dates and status.
\<close>

inductive desk_step :: "booking_env \<Rightarrow> 'g services \<Rightarrow> booking_store \<Rightarrow> booking_store \<Rightarrow> bool" for env sv where
  booked: "bi_booking ids \<notin> bk_id ` set (db_bookings (core st)) \<Longrightarrow> cb_startDate dto < cb_endDate dto \<Longrightarrow>
    booking_transaction env now ids customerId dto p st = Inr (b, st') \<Longrightarrow> desk_step env sv st st'"
| moved: "load_view (tc_bookingId ctx) db0 = Some v \<Longrightarrow> prepare_transition sv now ctx v db0 = (Inr calc, db1) \<Longrightarrow>
    commit_transition sv now' ids ctx v calc (core st) = Inr db' \<Longrightarrow> desk_step env sv st (set_core db' st)"
| disputed: "set_dispute bid flagged note' st = Inr st' \<Longrightarrow> desk_step env sv st st'"
| elsewhere: "db_bookings (core st') = db_bookings (core st) \<Longrightarrow> desk_step env sv st st'"

inductive desk_run :: "booking_env \<Rightarrow> 'g services \<Rightarrow> booking_store \<Rightarrow> booking_store \<Rightarrow> bool" for env sv where
  start: "desk_run env sv st st"
| next_step: "desk_run env sv st st1 \<Longrightarrow> desk_step env sv st1 st2 \<Longrightarrow> desk_run env sv st st2"

definition reserved_once :: "Booking list \<Rightarrow> bool" where
  "reserved_once bs \<longleftrightarrow> distinct (map bk_id bs) \<and>
     (\<forall>a\<in>set bs. \<forall>b\<in>set bs. bk_id a \<noteq> bk_id b \<longrightarrow> reserves_car (bk_status a) \<longrightarrow> reserves_car (bk_status b) \<longrightarrow> \<not> overlaps a b)"

text \<open>No edge of the life cycle leads from a booking that lets its car go to one that has it.\<close>

lemma allowed_keeps_reservation: "t \<in> set (allowed_targets s) \<Longrightarrow> reserves_car t \<Longrightarrow> reserves_car s"
  by (cases s) (auto simp: reserves_car_def)

lemma overlaps_interval: "overlaps a b \<longleftrightarrow> bk_carId b = bk_carId a \<and> isIntervalOverlapping (bk_startDate b) (bk_endDate b) (bk_startDate a) (bk_endDate a)"
  by (auto simp: overlaps_def isIntervalOverlapping_def)

lemma booking_row_simps [simp]:
  "bk_id (booking_row env now ids customerId dto snapshot p shop) = bi_booking ids"
  "bk_carId (booking_row env now ids customerId dto snapshot p shop) = cb_carId dto"
  "bk_startDate (booking_row env now ids customerId dto snapshot p shop) = cb_startDate dto"
  "bk_endDate (booking_row env now ids customerId dto snapshot p shop) = cb_endDate dto"
  "bk_status (booking_row env now ids customerId dto snapshot p shop) = BookingStatus.PENDING"
  "bk_customerId (booking_row env now ids customerId dto snapshot p shop) = customerId"
  by (simp_all add: booking_row_def Let_def)

lemma booked_core_bookings [simp]:
  "db_bookings (booked_core env now ids customerId dto snapshot p shop) =
     db_bookings (kd_core shop) @ [booking_row env now ids customerId dto snapshot p shop]"
  by (simp add: booked_core_def Let_def)

lemma reserved_once_append:
  assumes "reserved_once bs" "bk_id b \<notin> bk_id ` set bs" "\<And>r. r \<in> set bs \<Longrightarrow> reserves_car (bk_status r) \<Longrightarrow> \<not> overlaps b r"
  shows "reserved_once (bs @ [b])"
  using assms overlaps_sym by (auto simp: reserved_once_def)

text \<open>A change of one booking that keeps its trip, and does not newly reserve the car\<close>

lemma reserved_once_update:
  assumes n: "reserved_once bs" and b: "b \<in> set bs" "bk_id b = bid"
    and F: "\<And>x. same_trip (F x) x" "reserves_car (bk_status (F b)) \<Longrightarrow> reserves_car (bk_status b)"
  shows "reserved_once (update_where (\<lambda>x. bk_id x = bid) F bs)"
proof -
  have d: "distinct (map bk_id bs)" using n by (simp add: reserved_once_def)
  have keys: "map bk_id (update_where (\<lambda>x. bk_id x = bid) F bs) = map bk_id bs"
    using F(1) by (simp add: update_where_map_key same_trip_def)
  have Fb: "bk_id (F b) = bid" using F(1) [of b] b(2) by (simp add: same_trip_def)
  have origin: "a = F b \<or> a \<in> set bs \<and> bk_id a \<noteq> bid" if "a \<in> set (update_where (\<lambda>x. bk_id x = bid) F bs)" for a
    using update_where_set_key [OF d b(1), of F a] that b(2) F(1) by (simp add: same_trip_def)
  have clear: "\<not> overlaps (F b) r" if "r \<in> set bs" "bk_id r \<noteq> bid" "reserves_car (bk_status r)" "reserves_car (bk_status (F b))" for r
    unfolding overlaps_same_trip(1) [OF F(1)] using n b that F(2) by (auto simp: reserved_once_def)
  show ?thesis unfolding reserved_once_def keys
  proof (intro conjI d ballI impI)
    fix a r assume ar: "a \<in> set (update_where (\<lambda>x. bk_id x = bid) F bs)" "r \<in> set (update_where (\<lambda>x. bk_id x = bid) F bs)" "bk_id a \<noteq> bk_id r"
      "reserves_car (bk_status a)" "reserves_car (bk_status r)"
    from origin [OF ar(1)] origin [OF ar(2)] show "\<not> overlaps a r"
      using clear [of r] clear [of a] Fb ar n overlaps_sym by (auto simp: reserved_once_def)
  qed
qed

lemma desk_step_reserved:
  assumes "desk_step env sv st st'" "reserved_once (db_bookings (core st))"
  shows "reserved_once (db_bookings (core st'))"
  using assms
proof (induction rule: desk_step.induct)
  case (booked ids st dto now customerId p b st')
  from booked(3) obtain snapshot where t: "collision_checks now customerId dto st = Inr ()"
    "core st' = booked_core env now ids customerId dto snapshot p (qs_shop st)" by (rule transaction_Inr)
  let ?row = "booking_row env now ids customerId dto snapshot p (qs_shop st)"
  have "reserving_bookings (cb_carId dto) (cb_startDate dto) (cb_endDate dto) (core st) = []"
    using t(1) by (auto simp: collision_checks_def Let_def result_iffs)
  then have "\<not> overlaps ?row r" if "r \<in> set (db_bookings (core st))" "reserves_car (bk_status r)" for r
    using that by (auto simp: reserving_bookings_def filter_empty_conv overlaps_def)
  with reserved_once_append [OF booked(4), of ?row] booked(1) have "reserved_once (db_bookings (core st) @ [?row])" by simp
  then show ?case by (simp add: t(2) core_def [of st])
next
  case (moved ctx db0 v now calc db1 now' ids st db')
  obtain F b where F: "b \<in> set (db_bookings (core st))" "bk_id b = tc_bookingId ctx" "bk_status b = bk_status (vw_booking v)"
    "db_bookings db' = update_where (\<lambda>b. bk_id b = tc_bookingId ctx) F (db_bookings (core st))"
    "\<And>b. bk_status (F b) = tc_targetStatus ctx" "\<And>b. same_trip (F b) b"
    by (rule commit_effect [OF moved(3)]) blast
  have "reserves_car (bk_status b)" if "reserves_car (tc_targetStatus ctx)"
    using allowed_keeps_reservation [OF prepare_Inr(2) [OF moved(2)] that] F(3) by simp
  then show ?case using reserved_once_update [OF moved(4) F(1,2,6)] F(5) by (simp add: F(4))
next
  case (disputed bid flagged note' st st')
  from disputed(1) obtain b where b: "b \<in> set (db_bookings (core st))" "bk_id b = bid"
    "db_bookings (core st') = update_where (\<lambda>x. bk_id x = bid) (\<lambda>b. b\<lparr>bk_disputeFlag := flagged\<rparr>) (db_bookings (core st))"
    by (auto simp: set_dispute_def update_booking_def dest: find_bookingD split: option.splits)
  show ?case unfolding b(3) by (rule reserved_once_update [OF disputed(2) b(1,2)]) (simp_all add: same_trip_def)
qed simp

text \<open>
  C18: a car is never reserved twice. Whatever bookings are made and whatever transitions are requested,
  at the same time or one after another and with or without the locks, as long as the transactions of
  a car run one after another, as the lock of its row makes them, the bookings that are pending,
  confirmed, ready for handover, under way or in return never overlap on a car. Extensions and the checkout
  of the marketplace write bookings on their own and are not among the steps.
\<close>

theorem no_car_reserved_twice:
  assumes "desk_run env sv st st'" "reserved_once (db_bookings (core st))"
  shows "reserved_once (db_bookings (core st'))"
  using assms
proof (induction rule: desk_run.induct)
  case (next_step st st1 st2)
  then show ?case using desk_step_reserved [OF next_step(2)] by blast
qed

section \<open>What a booking that is made leaves behind\<close>

lemma car_checks_Inr:
  assumes "car_checks env dto db = Inr car"
  shows "find_car (cb_carId dto) db = Some car" "in_service car (ct_listing (pv_catalogue (be_pricing env)) (cb_carId dto))"
    "\<not> blocked_date (ct_listing (pv_catalogue (be_pricing env)) (cb_carId dto)) (cb_startDate dto) (cb_endDate dto)"
  using assms
  by (auto simp: car_checks_def Let_def result_iffs in_service_def dest: find_carD split: option.splits)

lemma free_forI:
  assumes "reserving_bookings carId start end db = []" "blocks_in carId start end db = []"
    "\<not> list_ex (\<lambda>h. vh_customerId h \<noteq> customerId) (live_holds now carId start end holds)"
  shows "free_for now customerId carId start end db holds"
proof -
  have "\<not> (bk_carId b = carId \<and> reserves_car (bk_status b) \<and> isIntervalOverlapping (bk_startDate b) (bk_endDate b) start end)"
    if "b \<in> set (db_bookings db)" for b
    using that assms(1) by (auto simp: reserving_bookings_def filter_empty_conv isIntervalOverlapping_def)
  moreover have "\<not> (vb_carId k = carId \<and> isIntervalOverlapping (vb_startDate k) (vb_endDate k) start end)" if "k \<in> set (db_blocks db)" for k
    using that assms(2) by (auto simp: blocks_in_def filter_empty_conv isIntervalOverlapping_def)
  moreover have "\<not> (vh_carId h = carId \<and> vh_customerId h \<noteq> customerId \<and> vh_status h = VehicleHoldStatus.ACTIVE \<and> now < vh_expiresAt h \<and>
      isIntervalOverlapping (vh_startDate h) (vh_endDate h) start end)" if "h \<in> set holds" for h
    using that assms(3) by (auto simp: live_holds_def list_ex_iff isIntervalOverlapping_def)
  ultimately show ?thesis by (simp add: free_for_def)
qed

lemma collision_checks_Inr:
  assumes "collision_checks now customerId dto st = Inr ()"
  shows "free_for now customerId (cb_carId dto) (cb_startDate dto) (cb_endDate dto) (core st) (qs_holds st)"
proof (rule free_forI)
  have r: "reserving_bookings (cb_carId dto) (cb_startDate dto) (cb_endDate dto) (core st) = []"
    using assms by (simp add: collision_checks_def Let_def throw_if_Inr_iff)
  show "reserving_bookings (cb_carId dto) (cb_startDate dto) (cb_endDate dto) (core st) = []" by (rule r)
  show b: "blocks_in (cb_carId dto) (cb_startDate dto) (cb_endDate dto) (core st) = []"
    using assms by (cases "blocks_in (cb_carId dto) (cb_startDate dto) (cb_endDate dto) (core st)")
      (simp_all add: collision_checks_def Let_def throw_if_Inr_iff)
  show "\<not> list_ex (\<lambda>h. vh_customerId h \<noteq> customerId) (live_holds now (cb_carId dto) (cb_startDate dto) (cb_endDate dto) (qs_holds st))"
    using assms by (simp add: collision_checks_def Let_def throw_if_Inr_iff b)
qed

lemma converted_holds:
  assumes "h \<in> set (convertHoldToBooking carId customerId holds)" "vh_carId h = carId" "vh_customerId h = customerId"
  shows "vh_status h \<noteq> VehicleHoldStatus.ACTIVE"
proof -
  let ?P = "\<lambda>k. vh_carId k = carId \<and> vh_customerId k = customerId \<and> vh_status k = VehicleHoldStatus.ACTIVE"
  from assms(1) obtain k where "h = (if ?P k then k\<lparr>vh_status := VehicleHoldStatus.CONVERTED\<rparr> else k)"
    unfolding convertHoldToBooking_def set_update_where by blast
  with assms(2,3) show ?thesis by (cases "?P k") auto
qed

definition new_booking :: "time \<Rightarrow> id \<Rightarrow> CreateBookingDto \<Rightarrow> Booking \<Rightarrow> booking_store \<Rightarrow> booking_store \<Rightarrow> bool" where
  "new_booking now customerId dto b st st' \<longleftrightarrow>
     bk_status b = BookingStatus.PENDING \<and> bk_customerId b = customerId \<and> bk_carId b = cb_carId dto \<and>
     bk_startDate b = cb_startDate dto \<and> bk_endDate b = cb_endDate dto \<and>
     is_cents (bk_totalFare b) \<and> \<bar>bk_totalFare b\<bar> < 10 ^ 8 \<and>
     (\<exists>d e. sd_bookingId d = bk_id b \<and> sd_status d = SecurityDepositStatus.REQUIRED \<and> oe_bookingId e = bk_id b \<and> oe_status e = OutboxStatus.PENDING \<and>
        core st' = (core st)\<lparr>db_bookings := db_bookings (core st) @ [b], db_deposits := db_deposits (core st) @ [d],
          db_outbox := db_outbox (core st) @ [e]\<rparr>) \<and>
     (\<forall>h\<in>set (qs_holds st'). vh_carId h = cb_carId dto \<longrightarrow> vh_customerId h = customerId \<longrightarrow> vh_status h \<noteq> VehicleHoldStatus.ACTIVE)"

lemma transaction_made:
  assumes "booking_transaction env now ids customerId dto p st = Inr (b, st')"
  shows "new_booking now customerId dto b st st'"
proof -
  obtain snapshot where t: "amounts_ok (amounts_of snapshot p) p dto"
    "b = booking_row env now ids customerId dto snapshot p (qs_shop st)" "core st' = booked_core env now ids customerId dto snapshot p (qs_shop st)"
    "qs_holds st' = convertHoldToBooking (cb_carId dto) customerId (qs_holds st)"
    using assms by (rule transaction_Inr)
  have fare: "bk_totalFare b = round2 (ba_total (amounts_of snapshot p))" by (simp add: t(2) booking_row_def Let_def)
  have cents: "is_cents (bk_totalFare b)" unfolding fare by (rule round2_cents)
  have small: "\<bar>bk_totalFare b\<bar> < 10 ^ 8" using t(1) by (simp add: fare amounts_ok_def column_ok_def)
  have core: "core st' = (core st)\<lparr>db_bookings := db_bookings (core st) @ [b],
      db_deposits := db_deposits (core st) @ [required_deposit ids (amounts_of snapshot p)],
      db_outbox := db_outbox (core st) @ [created_event now ids b (bp_car p)]\<rparr>"
    by (simp add: t(2,3) booked_core_def Let_def core_def [of st])
  moreover have "sd_bookingId (required_deposit ids (amounts_of snapshot p)) = bk_id b"
      "sd_status (required_deposit ids (amounts_of snapshot p)) = SecurityDepositStatus.REQUIRED"
      "oe_bookingId (created_event now ids b (bp_car p)) = bk_id b" "oe_status (created_event now ids b (bp_car p)) = OutboxStatus.PENDING"
    by (simp_all add: t(2) required_deposit_def created_event_def)
  ultimately have "\<exists>d e. sd_bookingId d = bk_id b \<and> sd_status d = SecurityDepositStatus.REQUIRED \<and> oe_bookingId e = bk_id b \<and> oe_status e = OutboxStatus.PENDING \<and>
        core st' = (core st)\<lparr>db_bookings := db_bookings (core st) @ [b], db_deposits := db_deposits (core st) @ [d],
          db_outbox := db_outbox (core st) @ [e]\<rparr>" by blast
  with cents small converted_holds show ?thesis by (simp add: new_booking_def t(2,4))
qed

text \<open>
  A booking is made only of a car that is free. The car is in service with a verified vendor, the dates
  are in order and not past, no booking that reserves the car, no block and no live hold of another
  customer overlaps them; then exactly one pending booking of the customer, with its required
  deposit and its pending event, is added, and the customer's holds of the car are used up.
\<close>

theorem booking_needs_a_free_car:
  assumes "createBooking le env now ids customerId dto (st, r) = (Inr b, st', r')"
  shows "now \<le> cb_startDate dto \<and> cb_startDate dto < cb_endDate dto \<and>
    (\<exists>car. find_car (cb_carId dto) (core st) = Some car \<and> in_service car (ct_listing (pv_catalogue (be_pricing env)) (cb_carId dto))) \<and>
    \<not> blocked_date (ct_listing (pv_catalogue (be_pricing env)) (cb_carId dto)) (cb_startDate dto) (cb_endDate dto) \<and>
    free_for now customerId (cb_carId dto) (cb_startDate dto) (cb_endDate dto) (core st) (qs_holds st) \<and>
    new_booking now customerId dto b st st'"
  using assms
proof (cases rule: createBooking_cases)
  case (booked b')
  let ?st = "st\<lparr>bs_enabled := Some (enabled_trips st)\<rparr>"
  have b: "b' = b" using booked(1) by simp
  from booked(2) obtain p where p: "booking_parts_of env now customerId dto (qs_shop ?st) = Inr p"
    "booking_transaction env now ids customerId dto p ?st = Inr (b, st')" unfolding b by (auto simp: book_def bindR_Inr_iff)
  obtain car where car: "car_checks env dto (core st) = Inr car"
    using p(1) by (auto simp: booking_parts_of_def Let_def bindR_Inr_iff core_def)
  have free: "free_for now customerId (cb_carId dto) (cb_startDate dto) (cb_endDate dto) (core ?st) (qs_holds ?st)"
    using p(2) by (elim transaction_Inr) (rule collision_checks_Inr)
  from transaction_made [OF p(2)] have "new_booking now customerId dto b st st'" by (simp add: new_booking_def)
  with booked(3,4) car_checks_Inr [OF car] free show ?thesis by simp
qed simp

section \<open>A booking that fails\<close>

lemma releaseLock_online: "releaseLock get del True now carId token r = (Inr (fst (release_script get del now (getLockKey carId) token r) = 1),
    snd (release_script get del now (getLockKey carId) token r))"
  by (simp add: releaseLock_def release_key_def split: prod.split)

text \<open>
  All or nothing. A request for a booking that fails leaves every table as it was (the settings of the
  platform, which it creates when they are missing, apart), a quote it named included, unless what
  failed was giving the lock back after the booking had been made.
\<close>

theorem failed_booking_is_undone:
  assumes "createBooking le env now ids customerId dto (st, r) = (Inl e, st', r')"
  shows "st' = st \<or> st' = st\<lparr>bs_enabled := Some (enabled_trips st)\<rparr> \<or>
    \<not> le_online2 le \<and> e = GatewayError ''redis'' \<and> (\<exists>b. new_booking now customerId dto b st st')"
proof -
  let ?st = "st\<lparr>bs_enabled := Some (enabled_trips st)\<rparr>"
  let ?body = "\<lambda>s. atomic (book env now ids customerId dto s) s"
  have early: "(st' = st \<or> st' = ?st) \<or> with_car_lock le now (cb_carId dto) ?body (?st, r) = (Inl e, st', r')"
    using assms by (auto simp: createBooking_def Let_def split: if_splits)
  then show ?thesis
  proof
    assume w: "with_car_lock le now (cb_carId dto) ?body (?st, r) = (Inl e, st', r')"
    show ?thesis
    proof (cases "book env now ids customerId dto ?st")
      case (Inl e')
      with w show ?thesis by (auto simp: with_car_lock_def split: prod.splits sum.splits)
    next
      case (Inr x)
      obtain b s where x: "x = (b, s)" by fastforce
      from w Inr x have s: "st' = ?st \<or> st' = s \<and> \<not> le_online2 le \<and> e = GatewayError ''redis''"
        by (auto simp: with_car_lock_def releaseLock_def release_key_def split: prod.splits sum.splits if_splits)
      from Inr x obtain p where "booking_transaction env now ids customerId dto p ?st = Inr (b, s)" by (auto simp: book_def bindR_Inr_iff)
      from transaction_made [OF this] have "new_booking now customerId dto b st s" by (simp add: new_booking_def)
      with s show ?thesis by blast
    qed
  qed blast
qed

section \<open>Quotes\<close>

text \<open>
  A quote is honoured, once. The booking made with a quote has the fare of the quote, which was active, not
  expired, and of this car, trip and dates; no later request can use the quote again, whoever makes it.
\<close>

theorem quote_honoured_once:
  assumes "createBooking le env now ids customerId dto (st, r) = (Inr b, st', r')"
    and "str_truthy (cb_quoteId dto)" "be_quotes env" and "cb_quoteId dto2 = cb_quoteId dto" "be_quotes env2"
  shows "(\<exists>q. find_quote (the (cb_quoteId dto)) st = Some q \<and> acceptable now dto q \<and>
      bk_totalFare b = round2 (dec_of_num (fl (quote_fare q))) \<and> bk_quoteTotal b = Some (fl (bq_totalPayable q))) \<and>
    (\<exists>e. booking_transaction env2 now2 ids2 customer2 dto2 p2 st' = Inl e)"
  using assms(1)
proof (cases rule: createBooking_cases)
  case (booked b')
  let ?st = "st\<lparr>bs_enabled := Some (enabled_trips st)\<rparr>" and ?qid = "the (cb_quoteId dto)"
  have b: "b' = b" using booked(1) by simp
  from booked(2) obtain p where "booking_transaction env now ids customerId dto p ?st = Inr (b, st')"
    unfolding b by (auto simp: book_def bindR_Inr_iff)
  then obtain snapshot st1 where t: "accept_quote env now customerId dto ?st = Inr (snapshot, st1)"
    "b = booking_row env now ids customerId dto snapshot p (qs_shop ?st)" "qs_quotes st' = qs_quotes st1" by (rule transaction_Inr)
  from t(1) obtain q where q: "find_quote ?qid ?st = Some q" "acceptable now dto q" "snapshot = Some (snapshot_of (be_pricing env) q)"
    "st1 = set_quote ?qid (accepted now customerId) ?st"
    by (rule accept_quote_cases) (use assms(2,3) in auto)
  have fare: "bk_totalFare b = round2 (dec_of_num (fl (quote_fare q)))" "bk_quoteTotal b = Some (fl (bq_totalPayable q))"
    by (simp_all add: t(2) q(3) booking_row_def amounts_of_def snapshot_of_def Let_def)
  have used: "find_quote ?qid st' = None \<or> (\<exists>q'. find_quote ?qid st' = Some q' \<and> bq_status q' = QuoteStatus.ACCEPTED)"
  proof (cases "find_quote ?qid st'")
    case (Some q')
    then have "q' \<in> set (qs_quotes st')" "bq_id q' = ?qid" by (auto simp: find_quote_def dest: find_Some_D)
    then have "bq_status q' = QuoteStatus.ACCEPTED" by (auto simp: t(3) q(4) set_update_where accepted_def split: if_splits)
    with Some show ?thesis by simp
  qed simp
  have "\<exists>e. booking_transaction env2 now2 ids2 customer2 dto2 p2 st' = Inl e"
  proof (cases "booking_transaction env2 now2 ids2 customer2 dto2 p2 st'")
    case (Inr x)
    then obtain b2 st2 where "booking_transaction env2 now2 ids2 customer2 dto2 p2 st' = Inr (b2, st2)" by (cases x) simp
    then obtain snapshot2 st3 where "accept_quote env2 now2 customer2 dto2 st' = Inr (snapshot2, st3)" by (rule transaction_Inr)
    then obtain q2 where "find_quote ?qid st' = Some q2" "acceptable now2 dto2 q2"
      by (rule accept_quote_cases) (use assms in auto)
    with used show ?thesis by (simp add: acceptable_def)
  qed simp
  moreover have "find_quote ?qid st = Some q" using q(1) by (simp add: find_quote_def)
  ultimately show ?thesis using q(2) fare by blast
qed simp

section \<open>Previews and views\<close>

text \<open>
  The preview of a cancellation is what the cancellation computes. Unless an administrator asks for the
  full refund in the reason, fee and refund shown to somebody are those that this person's cancellation
  at the same moment is charged with.
\<close>

theorem preview_is_what_is_charged:
  assumes "getCancellationPreview (sv_matrix sv) now bid userId role db = Inr c" "load_view bid db = Some v"
    and "tc_targetStatus ctx = BookingStatus.CANCELLED" "tc_actorRole ctx = User role"
    and "\<not> (role = Role.ADMIN \<and> (\<exists>reason. tc_reason ctx = Some reason \<and> contains_str ''admin_full_refund'' reason))"
  shows "cancellation_calc sv now v ctx = Some c"
proof -
  note l = load_viewD [OF assms(2)]
  have "role = Role.ADMIN \<Longrightarrow> \<not> (case tc_reason ctx of None \<Rightarrow> False | Some r \<Rightarrow> contains_str ''admin_full_refund'' r)"
    using assms(5) by (auto split: option.splits)
  then show ?thesis
    using assms(1) l(1) assms(3,4)
    by (cases "role = Role.ADMIN") (simp_all add: getCancellationPreview_def throw_if_Inr_iff cancellation_calc_def cancel_params_def
        l(3,4) deposit_amount_def actor_as_role_def Let_def)
qed

text \<open>
  Who is not the owner nor an administrator sees a booking only as its customer or as support. The vendor's
  row then never shows the tax numbers, the bank account and the telephone, and before the booking is
  confirmed, or after it was called off, neither names nor the exact place.
\<close>

theorem owner_is_hidden:
  assumes "getBookingById vendors bid userId role db = Inr (b, v, shown)"
    and "vr_userId (vendors (bk_vendorId b)) \<noteq> userId" "role \<noteq> Role.ADMIN"
  shows "(bk_customerId b = userId \<or> role = Role.SUPPORT_AGENT) \<and>
    vr_gstNumber v = None \<and> vr_panNumber v = None \<and> vr_bankDetails v = None \<and> vr_phone v = None \<and>
    (reveals_owner (bk_status b) \<or> vr_ownerName v = None \<and> vr_businessName v = shown \<and>
       (\<forall>x. vr_latitude v = Some x \<longrightarrow> (\<exists>y. x = rounded_coordinate y)) \<and> (\<forall>x. vr_longitude v = Some x \<longrightarrow> (\<exists>y. x = rounded_coordinate y)))"
  using assms
  by (auto simp: getBookingById_def throw_if_Inr_iff redactVendorInBooking_def redactVendor_def Let_def split: option.splits if_splits)

section \<open>What a plain booking leaves for the vendor and the tax office\<close>

definition prices_in_range :: "booking_env \<Rightarrow> CreateBookingDto \<Rightarrow> Car \<Rightarrow> MileagePackage option \<Rightarrow> bool" where
  "prices_in_range env dto car pkg \<longleftrightarrow>
     (let pv = be_pricing env; ls = ct_listing (pv_catalogue pv) (car_id car);
          perKm = (if str_truthy (cb_mileagePackageId dto) then 0 else ls_pricePerKm ls);
          commission = resolveCommissionPercent (pv_commission pv) (pv_rules pv) (ls_vendorCity ls) (car_type car) (cb_tripType dto)
      in 0 \<le> booked_distance dto * perKm \<and> booked_distance dto * perKm \<le> 1000000000 \<and>
         0 \<le> booked_base dto ls pkg \<and> booked_base dto ls pkg \<le> 1000000000 \<and> 0 \<le> commission \<and> commission \<le> 100 \<and>
         ls_weeklyDiscount ls \<le> 100 \<and> ls_monthlyDiscount ls \<le> 100)"

definition cents_fees :: "booking_parts \<Rightarrow> bool" where
  "cents_fees p \<longleftrightarrow>
     (\<forall>x\<in>{qf_delivery (bp_fees p), qf_pickup (bp_fees p), qf_return (bp_fees p), qf_oneWay (bp_fees p), bp_protectionFee p}.
        is_cents x \<and> 0 \<le> x \<and> x \<le> 100000000)"

lemma dec20_sum: "is_cents x \<Longrightarrow> is_cents y \<Longrightarrow> \<bar>x + y\<bar> < 10 ^ 17 \<Longrightarrow> dec20 (x + y) = x + y"
  by (rule dec20_cents) auto

lemma booked_fare_parts:
  assumes "prices_in_range env dto car pkg" "F = booked_fare env dto car pkg"
  shows "fr_netToVendor F = fr_baseFare F" "0 \<le> fr_baseFare F" "0 \<le> fr_gst F" "\<bar>fr_baseFare F + fr_platformFee F + fr_gst F - fr_total F\<bar> \<le> 2 / 100"
    "is_cents (fr_baseFare F)" "is_cents (fr_gst F)" "is_cents (fr_total F)" "is_cents (fr_platformFee F)"
proof -
  note r = assms(1) [unfolded prices_in_range_def Let_def]
  note f = fare_parts_near [OF djs.decimal_ctx_axioms, where gstRatePercent = 18 and dds = None, OF _ _ _ _ _ _ _ _ _ assms(2) [unfolded booked_fare_def Let_def]]
  from f r show "fr_netToVendor F = fr_baseFare F" "0 \<le> fr_baseFare F" "0 \<le> fr_gst F"
    "\<bar>fr_baseFare F + fr_platformFee F + fr_gst F - fr_total F\<bar> \<le> 2 / 100" by (simp_all add: discounts_in_bounds_def)
  show "is_cents (fr_baseFare F)" "is_cents (fr_gst F)" "is_cents (fr_total F)" "is_cents (fr_platformFee F)"
    by (simp_all add: assms(2) booked_fare_def calculateFare_def Let_def round2_cents split: prod.split)
qed

lemma booked_parts_fare:
  assumes "booking_parts_of env now customerId dto shop = Inr p"
  shows "bp_fare p = booked_fare env dto (bp_car p) (bp_package p)"
    "dd_discount (bp_discount p) = None \<Longrightarrow> dd_total (bp_discount p) = dec20 (fr_total (bp_fare p) + addons (bp_fees p))"
    "bp_covered p = None \<Longrightarrow> bp_protectionFee p = 0"
  using assms
  by (auto simp: booking_parts_of_def Let_def result_iffs booked_discount_of_def split: if_splits option.splits)

text \<open>
  A plain booking pays out. A booking without quote, coupon and referral benefit, with prices in range,
  fees in whole cents and a platform fee of at least two cents, has a fare that covers what the vendor
  and the tax office get: its journals, of payment, cancellation and refund, are never refused for that.
\<close>

theorem plain_booking_pays_out:
  assumes "booking_parts_of env now customerId dto shop = Inr p" "booking_transaction env now ids customerId dto p st = Inr (b, st')"
    and "\<not> str_truthy (cb_quoteId dto)" "bk_discountAmount b = None"
    and "prices_in_range env dto (bp_car p) (bp_package p)" "cents_fees p" "2 / 100 \<le> bk_platformFee b"
  shows "bk_netToVendor b + bk_gstAmount b \<le> bk_totalFare b"
proof -
  let ?F = "bp_fare p" and ?A = "qf_delivery (bp_fees p) + qf_pickup (bp_fees p) + qf_return (bp_fees p) + qf_oneWay (bp_fees p)"
  obtain snapshot st1 where t: "accept_quote env now customerId dto st = Inr (snapshot, st1)" "amounts_ok (amounts_of snapshot p) p dto"
    "b = booking_row env now ids customerId dto snapshot p (qs_shop st)" using assms(2) by (rule transaction_Inr)
  have none: "snapshot = None" using t(1) assms(3) by (simp add: accept_quote_def)
  note row = t(3) [unfolded none]
  have d: "dd_discount (bp_discount p) = None" using assms(4) by (simp add: row booking_row_def amounts_of_def Let_def)
  note parts = booked_parts_fare [OF assms(1)] and fare = booked_fare_parts [OF assms(5) booked_parts_fare(1) [OF assms(1)]]
  have fees: "is_cents x \<and> 0 \<le> x \<and> x \<le> 100000000"
    if "x \<in> {qf_delivery (bp_fees p), qf_pickup (bp_fees p), qf_return (bp_fees p), qf_oneWay (bp_fees p), bp_protectionFee p}" for x
    using assms(6) that unfolding cents_fees_def by blast
  have small: "\<bar>fr_baseFare ?F\<bar> < 10 ^ 8" "\<bar>fr_platformFee ?F\<bar> < 10 ^ 8" "\<bar>fr_gst ?F\<bar> < 10 ^ 8"
    using t(2) fare(5,6,8) by (simp_all add: none amounts_ok_def amounts_of_def column_ok_def round2_exact)
  have A: "addons (bp_fees p) = ?A" "is_cents ?A" "0 \<le> ?A" "?A \<le> 400000000"
  proof -
    note f = fees [of "qf_delivery (bp_fees p)"] fees [of "qf_pickup (bp_fees p)"] fees [of "qf_return (bp_fees p)"] fees [of "qf_oneWay (bp_fees p)"]
    show "is_cents ?A" "0 \<le> ?A" "?A \<le> 400000000" using f by auto
    show "addons (bp_fees p) = ?A" using f by (simp add: addons_def dec20_sum is_cents_add)
  qed
  have tot: "dd_total (bp_discount p) = fr_total ?F + ?A" "\<bar>fr_total ?F + ?A\<bar> < 10 ^ 16" "is_cents (fr_total ?F + ?A)"
  proof -
    show s: "\<bar>fr_total ?F + ?A\<bar> < 10 ^ 16" using fare(4) small A(3,4) unfolding abs_le_iff abs_less_iff by simp
    then show "dd_total (bp_discount p) = fr_total ?F + ?A" unfolding parts(2) [OF d] A(1) using fare(7) A(2) by (intro dec20_sum) simp_all
    show "is_cents (fr_total ?F + ?A)" using fare(7) A(2) by blast
  qed
  have total: "fr_total ?F + ?A \<le> bp_total p" "is_cents (bp_total p)"
    using fees [of "bp_protectionFee p"] tot by (auto simp: bp_total_def dec20_sum is_cents_add)
  have net: "dec20 (fr_netToVendor ?F + addons (bp_fees p)) = fr_baseFare ?F + ?A"
    unfolding fare(1) A(1) using fare(5) A small(1) by (intro dec20_sum) simp_all
  have "bk_netToVendor b = fr_baseFare ?F + ?A" "bk_gstAmount b = fr_gst ?F" "bk_totalFare b = bp_total p" "bk_platformFee b = fr_platformFee ?F"
    using fare(5,6,8) A(2) total(2) net by (simp_all add: row booking_row_def amounts_of_def Let_def round2_exact is_cents_add)
  with fare(4) total(1) assms(7) show ?thesis unfolding abs_le_iff by simp
qed

section \<open>The properties at an example\<close>

definition demo_pricing :: pricing_env where
  "demo_pricing = \<lparr>pv_catalogue = demo_catalogue, pv_availability = True, pv_packages = [], pv_protections = [], pv_demand = (\<lambda>_ _ _. None),
     pv_tiers = None, pv_tax = None, pv_validity = None, pv_commission = Some 10, pv_rules = [], pv_delivery = None, pv_coupons = False,
     pv_depositRules = None, pv_matrix = None\<rparr>"

definition demo_desk :: booking_env where
  "demo_desk = \<lparr>be_pricing = demo_pricing, be_quotes = True, be_eligibility = None, be_referral = None, be_fraud = None,
     be_vendor = (\<lambda>_. \<lparr>vn_userId = ''vendor'', vn_businessName = ''Fleet''\<rparr>)\<rparr>"

definition demo_store :: booking_store where
  "demo_store = \<lparr>qs_shop = \<lparr>kd_core = demo_db, kd_coupons = [], kd_vendors = [], kd_branches = [], kd_customers = []\<rparr>, qs_holds = [],
     qs_quotes = [], bs_enabled = None, bs_details = []\<rparr>"

definition demo_wish :: CreateBookingDto where
  "demo_wish = \<lparr>cb_carId = ''c1'', cb_tripType = SELF_DRIVE, cb_pickupLocation = ''Hub'', cb_dropLocation = None, cb_startDate = 300000000,
     cb_endDate = 400000000, cb_distanceKm = None, cb_couponCode = None,
     cb_fulfilment = \<lparr>fm_pickupHubId = None, fm_returnHubId = None, fm_deliveryType = None, fm_deliveryAddress = None,
       fm_deliveryLatitude = None, fm_deliveryLongitude = None\<rparr>,
     cb_protectionPackageId = None, cb_mileagePackageId = None, cb_quoteId = None\<rparr>"

definition demo_parts :: booking_parts where
  "demo_parts = \<lparr>bp_car = demo_car, bp_package = None,
     bp_fare = \<lparr>fr_baseFare = 2000, fr_originalBaseFare = 2000, fr_discountAmount = 0, fr_discountPercentage = 0, fr_platformFee = 200,
       fr_gst = 36, fr_total = 2236, fr_netToVendor = 2000\<rparr>,
     bp_fees = no_fees, bp_discount = \<lparr>dd_total = 2236, dd_discount = None, dd_coupon = None\<rparr>, bp_asked = None, bp_covered = None,
     bp_protectionFee = 0, bp_deposit = 5000\<rparr>"

definition demo_new :: booking_ids where
  "demo_new = \<lparr>bi_booking = ''b2'', bi_deposit = ''d2'', bi_event = ''e2''\<rparr>"

lemma demo_numbers: "dec20 0 = 0" "dec20 2000 = 2000" "dec_of_num 5000 = 5000"
proof -
  have "is_cents 2000" "is_cents 5000" using is_cents_of_int [of 2000] is_cents_of_int [of 5000] by simp_all
  then show "dec20 0 = 0" "dec20 2000 = 2000" "dec_of_num 5000 = 5000"
    using dec20_cents [of 0] dec20_cents [of 2000] dec_of_cents [of 5000] by simp_all
qed

lemma round2_numeral': "round2 (numeral n) = numeral n"
  using round2_exact [OF is_cents_of_int [of "numeral n"]] by simp

lemma demo_transaction:
  "\<exists>b st'. booking_transaction demo_desk 5 demo_new ''u1'' demo_wish demo_parts demo_store = Inr (b, st')"
proof -
  have c: "collision_checks 5 ''u1'' demo_wish demo_store = Inr ()"
    by (simp add: collision_checks_def demo_wish_def demo_store_def core_def reserving_bookings_def blocks_in_def live_holds_def demo_db_def demo_booking_def)
  have q: "accept_quote demo_desk 5 ''u1'' demo_wish demo_store = Inr (None, demo_store)"
    by (simp add: accept_quote_def demo_wish_def str_truthy_def)
  have a: "amounts_ok (amounts_of None demo_parts) demo_parts demo_wish"
    by (simp add: amounts_ok_def amounts_of_def demo_parts_def column_ok_def bp_total_def addons_def no_fees_def booked_distance_def demo_wish_def
        demo_numbers round2_numeral')
  show ?thesis using c q a
    by (simp add: booking_transaction_def write_booking_def Let_def create_event_def core_def demo_store_def demo_db_def exists_where_def)
qed

lemma no_car_reserved_twice_witness:
  "\<exists>b st'. booking_transaction demo_desk 5 demo_new ''u1'' demo_wish demo_parts demo_store = Inr (b, st') \<and>
     desk_run demo_desk demo_services demo_store st' \<and> length (db_bookings (core st')) = 2 \<and> reserved_once (db_bookings (core st'))"
proof -
  obtain b st' where t: "booking_transaction demo_desk 5 demo_new ''u1'' demo_wish demo_parts demo_store = Inr (b, st')"
    using demo_transaction by blast
  have run: "desk_run demo_desk demo_services demo_store st'"
    by (rule desk_run.next_step [OF desk_run.start desk_step.booked [OF _ _ t]])
      (simp_all add: demo_new_def demo_store_def core_def demo_db_def demo_booking_def demo_wish_def)
  have one: "db_bookings (core demo_store) = [demo_booking]" by (simp add: demo_store_def core_def demo_db_def)
  have "reserved_once (db_bookings (core demo_store))" by (simp add: one reserved_once_def)
  from no_car_reserved_twice [OF run this] have "reserved_once (db_bookings (core st'))" .
  moreover have "length (db_bookings (core st')) = 2"
    using transaction_made [OF t] by (auto simp: new_booking_def one)
  ultimately show ?thesis using t run by blast
qed

end
