(* ===== verification/RetryPolicy.thy ===== *)
theory RetryPolicy
  imports JsNumber
begin

text \<open>
  The retry policy of the integrations (\<open>integrations/errors/retry-policy.service.ts\<close>): an operation is
  tried again after a delay that grows exponentially, with jitter. The operation is a parameter that
  is given the number of the attempt and changes the state \<open>'s\<close> of the outside world; \<open>random n\<close> is the
  result of \<open>Math.random()\<close> after attempt \<open>n\<close>. The callback
  \<open>onRetry\<close> only reports and is left out. The loop \<open>while (true)\<close> is a recursive function with its own
  termination proof.
\<close>

text \<open>\<open>IntegrationError\<close> with its flag \<open>isRetryable\<close>, or any other error.\<close>

datatype failure = IntegrationFailure bool string | OtherFailure string

record RetryOptions =
  ro_maxRetries :: "nat option"
  ro_initialDelayMs :: "rat option"
  ro_maxDelayMs :: "rat option"
  ro_backoffFactor :: "rat option"
  ro_isIdempotent :: bool

definition default_to :: "'a \<Rightarrow> 'a option \<Rightarrow> 'a" where
  "default_to d x = (case x of None \<Rightarrow> d | Some y \<Rightarrow> y)"

definition max_retries :: "RetryOptions \<Rightarrow> nat" where
  "max_retries opts = default_to 3 (ro_maxRetries opts)"

fun is_retryable :: "failure \<Rightarrow> bool" where
  "is_retryable (IntegrationFailure r _) = r"
| "is_retryable (OtherFailure _) = False"

definition retry_delay :: "RetryOptions \<Rightarrow> (nat \<Rightarrow> rat) \<Rightarrow> nat \<Rightarrow> int" where
  "retry_delay opts random attempt =
     (let base = fl (default_to 200 (ro_initialDelayMs opts) * fl (default_to 2 (ro_backoffFactor opts) ^ (attempt - 1)));
          capped = min base (default_to 3000 (ro_maxDelayMs opts));
          jitter = fl (fl (random attempt * fl 0.3) * capped)
      in js_round (fl (capped + jitter)))"

text \<open>The loop after \<open>attempt\<close> attempts; the last component lists the attempts and the delays that follow them.\<close>

function retry_loop ::
  "RetryOptions \<Rightarrow> (nat \<Rightarrow> rat) \<Rightarrow> (nat \<Rightarrow> 's \<Rightarrow> (failure + 'a) \<times> 's) \<Rightarrow> nat \<Rightarrow> 's \<Rightarrow> (failure + 'a) \<times> 's \<times> (nat \<times> int) list" where
  "retry_loop opts random op attempt s =
     (let n = attempt + 1; (r, s1) = op n s
      in case r of
           Inr x \<Rightarrow> (Inr x, s1, [])
         | Inl e \<Rightarrow>
             if \<not> ro_isIdempotent opts \<or> n > max_retries opts \<or> \<not> is_retryable e then (Inl e, s1, [])
             else let (r2, s2, ds) = retry_loop opts random op n s1 in (r2, s2, (n, retry_delay opts random n) # ds))"
  by pat_completeness auto
termination by (relation "measure (\<lambda>(opts, _, _, attempt, _). max_retries opts + 1 - attempt)") auto

declare retry_loop.simps [simp del]

definition executeWithRetry ::
  "RetryOptions \<Rightarrow> (nat \<Rightarrow> rat) \<Rightarrow> (nat \<Rightarrow> 's \<Rightarrow> (failure + 'a) \<times> 's) \<Rightarrow> 's \<Rightarrow> (failure + 'a) \<times> 's \<times> (nat \<times> int) list" where
  "executeWithRetry opts random op s = retry_loop opts random op 0 s"

section \<open>What is tried\<close>

text \<open>The operation with a protocol of its attempts.\<close>

definition logged :: "(nat \<Rightarrow> 's \<Rightarrow> (failure + 'a) \<times> 's) \<Rightarrow> nat \<Rightarrow> 's \<times> nat list \<Rightarrow> (failure + 'a) \<times> 's \<times> nat list" where
  "logged op n sl = (case op n (fst sl) of (r, s1) \<Rightarrow> (r, s1, snd sl @ [n]))"

lemma retry_loop_log:
  assumes "retry_loop opts random (logged op) attempt (s, l) = (r, (s', l'), ds)" and "attempt \<le> max_retries opts"
  shows "\<exists>k. attempt < k \<and> k \<le> Suc (max_retries opts) \<and> l' = l @ [Suc attempt..<Suc k] \<and> map fst ds = [Suc attempt..<k] \<and>
    retry_loop opts random op attempt s = (r, s', ds) \<and> (\<not> ro_isIdempotent opts \<longrightarrow> k = Suc attempt)"
  using assms
proof (induction "max_retries opts - attempt" arbitrary: attempt s l r s' l' ds rule: less_induct)
  case less
  let ?n = "Suc attempt"
  obtain r1 s1 where op: "op ?n s = (r1, s1)" by fastforce
  show ?case
  proof (cases "\<exists>e. r1 = Inl e \<and> ro_isIdempotent opts \<and> ?n \<le> max_retries opts \<and> is_retryable e")
    case False
    then have "r = r1 \<and> s' = s1 \<and> l' = l @ [?n] \<and> ds = [] \<and> retry_loop opts random op attempt s = (r1, s1, [])"
      using less.prems(1) op
      by (auto simp: retry_loop.simps [of opts random _ attempt] logged_def split: sum.splits if_splits)
    with less.prems(2) show ?thesis by (intro exI [of _ ?n]) auto
  next
    case True
    then obtain e where e: "r1 = Inl e" "ro_isIdempotent opts" "?n \<le> max_retries opts" "is_retryable e" by blast
    obtain r2 s2 l2 ds2 where rec: "retry_loop opts random (logged op) ?n (s1, l @ [?n]) = (r2, (s2, l2), ds2)" by (metis prod.exhaust)
    have eq: "r = r2" "s' = s2" "l' = l2" "ds = (?n, retry_delay opts random ?n) # ds2"
      using less.prems(1) op e rec by (simp_all add: retry_loop.simps [of opts random _ attempt] logged_def)
    have "max_retries opts - ?n < max_retries opts - attempt" using e(3) by simp
    from less.hyps [OF this rec e(3)] obtain k where k: "?n < k" "k \<le> Suc (max_retries opts)" "l2 = (l @ [?n]) @ [Suc ?n..<Suc k]"
      "map fst ds2 = [Suc ?n..<k]" "retry_loop opts random op ?n s1 = (r2, s2, ds2)" by blast
    have "retry_loop opts random op attempt s = (r, s', ds)" using op e k(5) eq by (simp add: retry_loop.simps [of opts random _ attempt])
    moreover have "l' = l @ [?n..<Suc k]" "map fst ds = [?n..<k]" using eq k by (simp_all add: upt_rec [of ?n])
    ultimately show ?thesis using k(1,2) e(2) by (intro exI [of _ k]) simp
  qed
qed

text \<open>
  C36: the loop ends, after at most one attempt more than the retries that are allowed, and the
  attempts are numbered one after the other; an operation that is not idempotent is tried once. The
  delays are those between the attempts.
\<close>

theorem retry_bounded:
  "\<exists>k r s' ds. 1 \<le> k \<and> k \<le> max_retries opts + 1 \<and> (ro_isIdempotent opts \<or> k = 1) \<and>
     executeWithRetry opts random (logged op) (s, []) = (r, (s', [1..<k + 1]), ds) \<and>
     map fst ds = [1..<k] \<and> executeWithRetry opts random op s = (r, s', ds)"
proof -
  obtain r s' l' ds where x: "retry_loop opts random (logged op) 0 (s, []) = (r, (s', l'), ds)" by (metis prod.exhaust)
  from retry_loop_log [OF x] obtain k where "0 < k" "k \<le> Suc (max_retries opts)" "l' = [Suc 0..<Suc k]" "map fst ds = [Suc 0..<k]"
    "retry_loop opts random op 0 s = (r, s', ds)" "ro_isIdempotent opts \<or> k = Suc 0" by auto
  with x show ?thesis unfolding executeWithRetry_def by (intro exI [of _ k] exI [of _ r] exI [of _ s'] exI [of _ ds]) simp
qed

text \<open>
  Of an idempotent operation that does not depend on the state, the result is a success exactly
  when some allowed attempt succeeds and all before it failed in a way that may be retried.
\<close>

lemma retry_loop_succeeds:
  assumes "ro_isIdempotent opts" "attempt \<le> max_retries opts"
  shows "fst (retry_loop opts random (\<lambda>n s. (f n, s)) attempt s) = Inr x \<longleftrightarrow>
    (\<exists>k. attempt < k \<and> k \<le> max_retries opts + 1 \<and> f k = Inr x \<and> (\<forall>j. attempt < j \<and> j < k \<longrightarrow> (\<exists>e. f j = Inl e \<and> is_retryable e)))"
  using assms(2)
proof (induction "max_retries opts - attempt" arbitrary: attempt rule: less_induct)
  case less
  let ?n = "Suc attempt"
  let ?R = "\<lambda>a. \<exists>k. a < k \<and> k \<le> max_retries opts + 1 \<and> f k = Inr x \<and> (\<forall>j. a < j \<and> j < k \<longrightarrow> (\<exists>e. f j = Inl e \<and> is_retryable e))"
  show ?case
  proof (cases "f ?n")
    case (Inr y)
    have "?R attempt \<longleftrightarrow> y = x"
    proof
      assume "?R attempt"
      then obtain k where k: "attempt < k" "f k = Inr x" "\<forall>j. attempt < j \<and> j < k \<longrightarrow> (\<exists>e. f j = Inl e \<and> is_retryable e)" by blast
      have "k = ?n" using k(1,3) Inr by (metis Suc_lessI lessI sum.simps(4))
      with k(2) Inr show "y = x" by simp
    next
      assume "y = x"
      with Inr less.prems show "?R attempt" by (intro exI [of _ ?n]) auto
    qed
    with Inr show ?thesis by (simp add: retry_loop.simps [of opts])
  next
    case (Inl e)
    show ?thesis
    proof (cases "?n \<le> max_retries opts \<and> is_retryable e")
      case True
      have "fst (retry_loop opts random (\<lambda>n s. (f n, s)) attempt s) = fst (retry_loop opts random (\<lambda>n s. (f n, s)) ?n s)"
        using True Inl assms(1) by (simp add: retry_loop.simps [of opts random _ attempt] split: prod.split)
      also have "\<dots> = Inr x \<longleftrightarrow> ?R ?n" using True by (intro less.hyps) auto
      also have "?R ?n \<longleftrightarrow> ?R attempt"
      proof
        assume "?R ?n"
        then obtain k where k: "?n < k" "k \<le> max_retries opts + 1" "f k = Inr x" "\<forall>j. ?n < j \<and> j < k \<longrightarrow> (\<exists>e. f j = Inl e \<and> is_retryable e)" by blast
        have "\<exists>e. f j = Inl e \<and> is_retryable e" if "attempt < j" "j < k" for j
          using that k(4) Inl True by (cases "j = ?n") auto
        with k show "?R attempt" by (intro exI [of _ k]) auto
      next
        assume "?R attempt"
        then obtain k where k: "attempt < k" "k \<le> max_retries opts + 1" "f k = Inr x" "\<forall>j. attempt < j \<and> j < k \<longrightarrow> (\<exists>e. f j = Inl e \<and> is_retryable e)" by blast
        with Inl have "k \<noteq> ?n" by auto
        with k show "?R ?n" by (intro exI [of _ k]) auto
      qed
      finally show ?thesis .
    next
      case False
      have "\<not> ?R attempt"
      proof
        assume "?R attempt"
        then obtain k where k: "attempt < k" "k \<le> max_retries opts + 1" "f k = Inr x" "\<forall>j. attempt < j \<and> j < k \<longrightarrow> (\<exists>e. f j = Inl e \<and> is_retryable e)" by blast
        with Inl have "?n < k" by (metis Suc_lessI sum.distinct(1))
        then have "is_retryable e" "?n \<le> max_retries opts" using k Inl by auto
        with False show False by simp
      qed
      with False Inl assms(1) show ?thesis by (auto simp: retry_loop.simps [of opts])
    qed
  qed
qed

theorem retry_succeeds_iff:
  assumes "ro_isIdempotent opts"
  shows "fst (executeWithRetry opts random (\<lambda>n s. (f n, s)) s) = Inr x \<longleftrightarrow>
    (\<exists>k. 0 < k \<and> k \<le> max_retries opts + 1 \<and> f k = Inr x \<and> (\<forall>j. 0 < j \<and> j < k \<longrightarrow> (\<exists>e. f j = Inl e \<and> is_retryable e)))"
  unfolding executeWithRetry_def by (rule retry_loop_succeeds [OF assms]) simp

definition demo_options :: RetryOptions where
  "demo_options = \<lparr>ro_maxRetries = Some 2, ro_initialDelayMs = None, ro_maxDelayMs = None, ro_backoffFactor = None, ro_isIdempotent = True\<rparr>"

lemma retry_succeeds_iff_witness:
  "fst (executeWithRetry demo_options (\<lambda>_. 0) (\<lambda>n s. (if n < 3 then Inl (IntegrationFailure True ''timeout'') else Inr n, s)) ()) = Inr 3"
proof -
  have opts: "ro_isIdempotent demo_options" "max_retries demo_options = 2" by (simp_all add: demo_options_def max_retries_def default_to_def)
  show ?thesis
    unfolding retry_succeeds_iff [OF opts(1), of "\<lambda>_. 0" "\<lambda>n. if n < 3 then Inl (IntegrationFailure True ''timeout'') else Inr n" "()" 3] opts(2)
    by (intro exI [of _ 3]) simp
qed

end
