(* ===== verification/AuditTracer.thy ===== *)
theory AuditTracer
  imports JsObject
begin

text \<open>
  The operations timeline (\<open>operations/operations-audit-tracer.service.ts\<close>): activities by correlation
  id and in one list of at most 5000, and the redaction of secrets in their details. The id of an entry
  and the time are arguments. Domain events (\<open>operations-domain.types.ts\<close>) are recorded too.
\<close>

record DomainEvent =
  de_eventId :: string
  de_eventType :: string
  de_aggregateType :: string
  de_aggregateId :: string
  de_tenantContext :: "json option"
  de_actor :: "json option"
  de_timestamp :: time
  de_correlationId :: string
  de_causationId :: "string option"
  de_version :: nat
  de_payload :: json

text \<open>The event as an object, as the engines walk through it.\<close>

definition event_object :: "DomainEvent \<Rightarrow> object" where
  "event_object e =
     put ''eventId'' (Some (JStr (de_eventId e))) (put ''eventType'' (Some (JStr (de_eventType e)))
    (put ''aggregateType'' (Some (JStr (de_aggregateType e))) (put ''aggregateId'' (Some (JStr (de_aggregateId e)))
    (put ''tenantContext'' (de_tenantContext e) (put ''actor'' (de_actor e)
    (put ''timestamp'' (Some (JStr (iso_string (de_timestamp e)))) (put ''correlationId'' (Some (JStr (de_correlationId e)))
    (put ''causationId'' (opt_str (de_causationId e)) (put ''version'' (Some (JNum (of_nat (de_version e))))
    (put ''payload'' (Some (de_payload e)) []))))))))))"

record CorrelationTimelineEntry =
  ct_traceId :: string
  ct_correlationId :: string
  ct_timestamp :: time
  ct_sourceDomain :: string
  ct_activity :: string
  ct_status :: string
  ct_details :: "json option"

record tracer =
  tc_traces :: "(string \<times> CorrelationTimelineEntry list) list"
  tc_allEntries :: "CorrelationTimelineEntry list"

definition MAX_ENTRIES :: nat where
  "MAX_ENTRIES = 5000"

section \<open>Redaction\<close>

definition sensitive_keys :: "string list" where
  "sensitive_keys = [''password'', ''token'', ''secret'', ''apikey'', ''key'', ''authorization'', ''cardnumber'', ''cvv'', ''access_token'']"

definition sensitive :: "string \<Rightarrow> bool" where
  "sensitive k = list_ex (js_includes (to_lower k)) sensitive_keys"

definition redacted :: json where
  "redacted = JStr ''***REDACTED***''"

fun sanitize :: "json \<Rightarrow> json" where
  "sanitize (JArr xs) = JArr (map sanitize xs)"
| "sanitize (JObj fs) = JObj (map (\<lambda>(k, v). (k, if sensitive k then redacted else sanitize v)) fs)"
| "sanitize JNull = JNull"
| "sanitize (JBool b) = JBool b"
| "sanitize (JNum x) = JNum x"
| "sanitize (JStr s) = JStr s"

definition sanitizeDetails :: "json option \<Rightarrow> json option" where
  "sanitizeDetails details = (if truthy details then map_option sanitize details else None)"

section \<open>Recording\<close>

text \<open>\<open>splice\<close> at \<open>findIndex\<close>\<close>

fun remove_first :: "('a \<Rightarrow> bool) \<Rightarrow> 'a list \<Rightarrow> 'a list" where
  "remove_first p [] = []"
| "remove_first p (x # xs) = (if p x then xs else x # remove_first p xs)"

definition add_trace :: "CorrelationTimelineEntry \<Rightarrow> (string \<times> CorrelationTimelineEntry list) list \<Rightarrow> (string \<times> CorrelationTimelineEntry list) list" where
  "add_trace e traces =
     (let ts = (if map_of traces (ct_correlationId e) = None then AList.update (ct_correlationId e) [] traces else traces)
      in AList.update (ct_correlationId e) (the (map_of ts (ct_correlationId e)) @ [e]) ts)"

definition drop_trace :: "CorrelationTimelineEntry \<Rightarrow> (string \<times> CorrelationTimelineEntry list) list \<Rightarrow> (string \<times> CorrelationTimelineEntry list) list" where
  "drop_trace r traces =
     (case map_of traces (ct_correlationId r) of
        None \<Rightarrow> traces
      | Some l \<Rightarrow> AList.update (ct_correlationId r) (remove_first (\<lambda>t. ct_traceId t = ct_traceId r) l) traces)"

definition recordActivity ::
  "string \<Rightarrow> time \<Rightarrow> string \<Rightarrow> string \<Rightarrow> string \<Rightarrow> string \<Rightarrow> json option \<Rightarrow> tracer \<Rightarrow> CorrelationTimelineEntry \<times> tracer" where
  "recordActivity traceId now correlationId sourceDomain activity status details tr =
     (let entry = \<lparr>ct_traceId = traceId, ct_correlationId = correlationId, ct_timestamp = now, ct_sourceDomain = sourceDomain,
            ct_activity = activity, ct_status = status, ct_details = sanitizeDetails details\<rparr>;
          traces1 = add_trace entry (tc_traces tr);
          traces2 = (if MAX_ENTRIES \<le> length (tc_allEntries tr)
                     then case tc_allEntries tr of [] \<Rightarrow> traces1 | r # _ \<Rightarrow> drop_trace r traces1
                     else traces1)
      in (entry, \<lparr>tc_traces = traces2, tc_allEntries = push_bounded MAX_ENTRIES entry (tc_allEntries tr)\<rparr>))"

definition domain_of :: "string \<Rightarrow> string" where
  "domain_of aggregateType =
     (case map_of [(''BOOKING'', ''BOOKINGS''), (''PAYMENT'', ''PAYMENTS''), (''VEHICLE'', ''FLEET''), (''VENDOR'', ''CUSTOMER''),
        (''CUSTOMER'', ''CUSTOMER''), (''COMPLIANCE'', ''APPROVAL''), (''SYSTEM'', ''WORKFLOW'')] aggregateType of
        Some d \<Rightarrow> d
      | None \<Rightarrow> ''WORKFLOW'')"

definition recordFromDomainEvent :: "string \<Rightarrow> time \<Rightarrow> DomainEvent \<Rightarrow> tracer \<Rightarrow> CorrelationTimelineEntry \<times> tracer" where
  "recordFromDomainEvent traceId now e tr =
     recordActivity traceId now (de_correlationId e) (domain_of (de_aggregateType e))
       (''DomainEvent: '' @ de_eventType e @ '' on '' @ de_aggregateType e @ ''#'' @ de_aggregateId e)
       (if js_includes (de_eventType e) ''FAILED'' then ''FAILED'' else ''SUCCESS'')
       (Some (JObj (put ''eventId'' (Some (JStr (de_eventId e))) (put ''eventType'' (Some (JStr (de_eventType e)))
         (put ''aggregateType'' (Some (JStr (de_aggregateType e))) (put ''aggregateId'' (Some (JStr (de_aggregateId e)))
         (put ''actor'' (de_actor e) (put ''tenantContext'' (de_tenantContext e) []))))))))
       tr"

definition getTimelineByCorrelationId :: "string \<Rightarrow> tracer \<Rightarrow> CorrelationTimelineEntry list" where
  "getTimelineByCorrelationId c tr =
     sort_key ct_timestamp (case map_of (tc_traces tr) c of Some l \<Rightarrow> l | None \<Rightarrow> [])"

definition queryTimeline :: "string option \<Rightarrow> string option \<Rightarrow> nat option \<Rightarrow> tracer \<Rightarrow> CorrelationTimelineEntry list" where
  "queryTimeline sourceDomain status limit tr =
     latest limit (keep_str status ct_status (keep_str sourceDomain ct_sourceDomain (tc_allEntries tr)))"

definition empty_tracer :: tracer where
  "empty_tracer = \<lparr>tc_traces = [], tc_allEntries = []\<rparr>"

section \<open>The two views agree\<close>

definition trace_of :: "string \<Rightarrow> tracer \<Rightarrow> CorrelationTimelineEntry list" where
  "trace_of c tr = (case map_of (tc_traces tr) c of Some l \<Rightarrow> l | None \<Rightarrow> [])"

definition tracer_wf :: "tracer \<Rightarrow> bool" where
  "tracer_wf tr \<longleftrightarrow> length (tc_allEntries tr) \<le> MAX_ENTRIES \<and>
     (\<forall>c. trace_of c tr = filter (\<lambda>e. ct_correlationId e = c) (tc_allEntries tr))"

lemma map_of_update [simp]: "map_of (AList.update k v l) x = (if x = k then Some v else map_of l x)"
  by (simp add: update_conv')

lemma add_trace_lookup:
  "map_of (add_trace e traces) c =
     (if c = ct_correlationId e then Some ((case map_of traces c of Some l \<Rightarrow> l | None \<Rightarrow> []) @ [e]) else map_of traces c)"
  by (auto simp: add_trace_def Let_def split: option.splits)

lemma remove_first_head: "remove_first p (filter (\<lambda>e. q e) (r # xs)) = filter q xs" if "q r" "p r"
  using that by simp

lemma recordActivity_wf:
  assumes "tracer_wf tr"
  shows "tracer_wf (snd (recordActivity traceId now c d a s det tr))"
proof -
  obtain entry tr' where r: "recordActivity traceId now c d a s det tr = (entry, tr')" by fastforce
  then have c: "ct_correlationId entry = c" and all: "tc_allEntries tr' = push_bounded MAX_ENTRIES entry (tc_allEntries tr)"
    by (auto simp: recordActivity_def Let_def)
  have len: "length (tc_allEntries tr') \<le> MAX_ENTRIES"
    using assms all by (auto simp: tracer_wf_def push_bounded_def MAX_ENTRIES_def)
  have "trace_of x tr' = filter (\<lambda>e. ct_correlationId e = x) (tc_allEntries tr')" for x
  proof (cases "MAX_ENTRIES \<le> length (tc_allEntries tr)")
    case False
    with r have "tc_traces tr' = add_trace entry (tc_traces tr)" by (auto simp: recordActivity_def Let_def)
    then have "trace_of x tr' = (if x = c then trace_of x tr @ [entry] else trace_of x tr)"
      by (simp add: trace_of_def add_trace_lookup c)
    with False assms all c show ?thesis by (simp add: tracer_wf_def push_bounded_def)
  next
    case True
    then obtain q rest where q: "tc_allEntries tr = q # rest" by (cases "tc_allEntries tr") (auto simp: MAX_ENTRIES_def)
    with True r have tr: "tc_traces tr' = drop_trace q (add_trace entry (tc_traces tr))" by (auto simp: recordActivity_def Let_def)
    have old: "trace_of y tr = filter (\<lambda>e. ct_correlationId e = y) (q # rest)" for y using assms q by (simp add: tracer_wf_def)
    then have "map_of (tc_traces tr) (ct_correlationId q) = Some (filter (\<lambda>e. ct_correlationId e = ct_correlationId q) (q # rest))"
      using old [of "ct_correlationId q"] by (cases "map_of (tc_traces tr) (ct_correlationId q)") (auto simp: trace_of_def)
    then have "trace_of x tr' = (if x = ct_correlationId q
        then remove_first (\<lambda>t. ct_traceId t = ct_traceId q) (trace_of x tr @ (if x = c then [entry] else []))
        else trace_of x tr @ (if x = c then [entry] else []))"
      by (simp add: trace_of_def tr drop_trace_def add_trace_lookup c split: option.splits)
    with True all q c old show ?thesis by (simp add: push_bounded_def)
  qed
  with len r show ?thesis by (simp add: tracer_wf_def)
qed

text \<open>A list of activities, recorded one after the other.\<close>

type_synonym activity = "string \<times> time \<times> string \<times> string \<times> string \<times> string \<times> json option"

definition entry_of :: "activity \<Rightarrow> CorrelationTimelineEntry" where
  "entry_of a = (case a of (tid, now, c, d, x, s, det) \<Rightarrow>
     \<lparr>ct_traceId = tid, ct_correlationId = c, ct_timestamp = now, ct_sourceDomain = d, ct_activity = x, ct_status = s,
      ct_details = sanitizeDetails det\<rparr>)"

definition record_all :: "activity list \<Rightarrow> tracer \<Rightarrow> tracer" where
  "record_all as tr = fold (\<lambda>(tid, now, c, d, x, s, det) t. snd (recordActivity tid now c d x s det t)) as tr"

lemma record_all_snoc: "record_all (as @ [a]) tr =
  (case a of (tid, now, c, d, x, s, det) \<Rightarrow> snd (recordActivity tid now c d x s det (record_all as tr)))"
  by (simp add: record_all_def split: prod.split)

lemma record_all_empty:
  "tracer_wf (record_all as empty_tracer) \<and> tc_allEntries (record_all as empty_tracer) = last_n MAX_ENTRIES (map entry_of as)"
proof (induction as rule: rev_induct)
  case Nil
  show ?case by (simp add: record_all_def empty_tracer_def tracer_wf_def trace_of_def last_n_def)
next
  case (snoc a as)
  obtain tid now c d x s det where a: "a = (tid, now, c, d, x, s, det)" by (metis prod_cases7)
  have "tc_allEntries (snd (recordActivity tid now c d x s det t)) = push_bounded MAX_ENTRIES (entry_of a) (tc_allEntries t)" for t
    by (simp add: recordActivity_def Let_def entry_of_def a)
  with snoc recordActivity_wf show ?case
    by (simp add: record_all_snoc a push_bounded_last_n MAX_ENTRIES_def)
qed

text \<open>
  C39: whatever was recorded, the timeline of a correlation id holds those of the last 5000 activities
  that carry the id, ordered by time: the lists per id, which are kept up to date separately, never
  disagree with the list of all.
\<close>

theorem timeline_shows_latest:
  "getTimelineByCorrelationId c (record_all as empty_tracer) =
     sort_key ct_timestamp (filter (\<lambda>e. ct_correlationId e = c) (last_n 5000 (map entry_of as)))"
  using record_all_empty [of as] by (simp add: getTimelineByCorrelationId_def tracer_wf_def trace_of_def MAX_ENTRIES_def)

text \<open>The lists of ids whose activities are all gone stay in the map, empty.\<close>

lemma traces_never_shrink:
  "fst ` set (tc_traces tr) \<subseteq> fst ` set (tc_traces (snd (recordActivity tid now c d x s det tr)))"
proof -
  have add: "fst ` set traces \<subseteq> fst ` set (add_trace e traces)" for e and traces :: "(string \<times> CorrelationTimelineEntry list) list"
    by (auto simp: add_trace_def Let_def dom_update)
  have drp: "fst ` set traces \<subseteq> fst ` set (drop_trace e traces)" for e and traces :: "(string \<times> CorrelationTimelineEntry list) list"
    by (auto simp: drop_trace_def dom_update split: option.split)
  show ?thesis
    by (simp add: recordActivity_def Let_def add subset_trans [OF add drp] split: list.split)
qed

section \<open>No secret is kept\<close>

fun clean :: "json \<Rightarrow> bool" where
  "clean (JArr xs) = list_all clean xs"
| "clean (JObj fs) = list_all (\<lambda>(k, v). if sensitive k then v = redacted else clean v) fs"
| "clean _ = True"

lemma sanitize_clean: "clean (sanitize j)"
  by (induction j rule: sanitize.induct) (auto simp: list_all_iff redacted_def)

lemma sanitize_clean_id: "clean j \<Longrightarrow> sanitize j = j"
proof (induction j rule: sanitize.induct)
  case (1 xs)
  then show ?case by (auto simp: list_all_iff intro: map_idI)
next
  case (2 fs)
  have "(case kv of (k, v) \<Rightarrow> (k, if sensitive k then redacted else sanitize v)) = kv" if kv: "kv \<in> set fs" for kv
  proof -
    obtain k v where [simp]: "kv = (k, v)" by fastforce
    from 2(2) kv have "if sensitive k then v = redacted else clean v" by (auto simp: list_all_iff)
    then show ?thesis using 2(1) [of "(k, v)" k v] kv by (auto split: if_splits)
  qed
  then show ?case by (simp only: sanitize.simps json.inject) (rule map_idI)
qed simp_all

text \<open>
  In the details that a timeline keeps, at every depth, each property whose name contains one of
  the sensitive words in any letter case holds the mark of redaction, and redacting again changes
  nothing.
\<close>

theorem timeline_keeps_no_secret:
  "\<exists>det. ct_details (fst (recordActivity tid now c d act s (Some j) tr)) = det \<and>
       det = (if truthy (Some j) then Some (sanitize j) else None) \<and> clean (sanitize j) \<and> sanitize (sanitize j) = sanitize j"
  by (simp add: recordActivity_def Let_def sanitizeDetails_def sanitize_clean sanitize_clean_id)

end
