(* ===== verification/EventBus.thy ===== *)
theory EventBus
  imports AuditTracer
begin

text \<open>
  The domain event bus (\<open>operations/domain-event-bus.service.ts\<close>): subscriptions by event type and
  global ones, events that were seen before are dropped, the last 2000 events are kept. What handlers
  work on is the bus itself, as they may publish, and the state \<open>'w\<close> of everything else. The handlers
  of one event run one after the other here, which is one of the orders the promises may take; an error
  of a handler is logged and goes no further.
\<close>

record 'w bus =
  eb_processed :: "(string \<times> time) list"
  eb_store :: "DomainEvent list"
  eb_world :: 'w

type_synonym 'w handler = "DomainEvent \<Rightarrow> 'w bus \<Rightarrow> string option \<times> 'w bus"

record 'w subscriptions =
  sb_topics :: "(string \<times> (string \<times> 'w handler) list) list"
  sb_global :: "(string \<times> 'w handler) list"

definition MAX_STORED_EVENTS :: nat where
  "MAX_STORED_EVENTS = 2000"

definition DEDUPLICATION_TTL_MS :: int where
  "DEDUPLICATION_TTL_MS = 60 * 60 * 1000"

definition handlers_of :: "string \<Rightarrow> 'w subscriptions \<Rightarrow> (string \<times> 'w handler) list" where
  "handlers_of eventType sb = (case map_of (sb_topics sb) eventType of Some hs \<Rightarrow> hs | None \<Rightarrow> [])"

definition subscribe :: "string \<Rightarrow> string \<Rightarrow> 'w handler \<Rightarrow> 'w subscriptions \<Rightarrow> 'w subscriptions" where
  "subscribe eventType handlerId h sb =
     sb\<lparr>sb_topics := AList.update eventType (handlers_of eventType sb @ [(handlerId, h)]) (sb_topics sb)\<rparr>"

definition subscribeGlobal :: "string \<Rightarrow> 'w handler \<Rightarrow> 'w subscriptions \<Rightarrow> 'w subscriptions" where
  "subscribeGlobal handlerId h sb = sb\<lparr>sb_global := sb_global sb @ [(handlerId, h)]\<rparr>"

text \<open>The functions that the two return: they take out the first handler with that id.\<close>

definition unsubscribe :: "string \<Rightarrow> string \<Rightarrow> 'w subscriptions \<Rightarrow> 'w subscriptions" where
  "unsubscribe eventType handlerId sb =
     sb\<lparr>sb_topics := AList.update eventType (remove_first (\<lambda>h. fst h = handlerId) (handlers_of eventType sb)) (sb_topics sb)\<rparr>"

definition unsubscribeGlobal :: "string \<Rightarrow> 'w subscriptions \<Rightarrow> 'w subscriptions" where
  "unsubscribeGlobal handlerId sb = sb\<lparr>sb_global := remove_first (\<lambda>h. fst h = handlerId) (sb_global sb)\<rparr>"

definition isDuplicate :: "DomainEvent \<Rightarrow> 'w bus \<Rightarrow> bool" where
  "isDuplicate e b \<longleftrightarrow> map_of (eb_processed b) (de_eventId e) \<noteq> None"

definition persistEvent :: "DomainEvent \<Rightarrow> 'w bus \<Rightarrow> 'w bus" where
  "persistEvent e b = b\<lparr>eb_store := push_bounded MAX_STORED_EVENTS e (eb_store b)\<rparr>"

definition deliver :: "DomainEvent \<Rightarrow> (string \<times> 'w handler) list \<Rightarrow> 'w bus \<Rightarrow> 'w bus" where
  "deliver e hs b = fold (\<lambda>(_, h) b. snd (h e b)) hs b"

record publication =
  pb_published :: bool
  pb_duplicate :: bool

definition publish :: "time \<Rightarrow> 'w subscriptions \<Rightarrow> DomainEvent \<Rightarrow> 'w bus \<Rightarrow> publication \<times> 'w bus" where
  "publish now sb e b =
     (if isDuplicate e b then (\<lparr>pb_published = False, pb_duplicate = True\<rparr>, b)
      else let b1 = b\<lparr>eb_processed := AList.update (de_eventId e) now (eb_processed b)\<rparr>;
               b2 = persistEvent e b1
           in (\<lparr>pb_published = True, pb_duplicate = False\<rparr>, deliver e (handlers_of (de_eventType e) sb @ sb_global sb) b2))"

record emission =
  em_eventType :: string
  em_aggregateType :: string
  em_aggregateId :: string
  em_payload :: json
  em_correlationId :: "string option"
  em_causationId :: "string option"
  em_tenantContext :: "json option"
  em_actor :: "json option"

text \<open>\<open>fresh\<close> is the id made of the time and random characters after the given prefix.\<close>

definition envelope :: "(string \<Rightarrow> string) \<Rightarrow> time \<Rightarrow> emission \<Rightarrow> DomainEvent" where
  "envelope fresh now p =
     \<lparr>de_eventId = fresh ''evt_'', de_eventType = em_eventType p, de_aggregateType = em_aggregateType p,
      de_aggregateId = em_aggregateId p, de_tenantContext = em_tenantContext p,
      de_actor = (case em_actor p of Some a \<Rightarrow> Some a | None \<Rightarrow> Some (JObj [(''id'', JStr ''SYSTEM''), (''role'', JStr ''SYSTEM'')])),
      de_timestamp = now, de_correlationId = or_string (em_correlationId p) (fresh ''cor_''),
      de_causationId = em_causationId p, de_version = 1, de_payload = em_payload p\<rparr>"

definition emit :: "(string \<Rightarrow> string) \<Rightarrow> time \<Rightarrow> 'w subscriptions \<Rightarrow> emission \<Rightarrow> 'w bus \<Rightarrow> DomainEvent \<times> 'w bus" where
  "emit fresh now sb p b = (let e = envelope fresh now p in (e, snd (publish now sb e b)))"

definition queryEvents ::
  "string option \<Rightarrow> string option \<Rightarrow> string option \<Rightarrow> string option \<Rightarrow> string option \<Rightarrow> nat option \<Rightarrow> 'w bus \<Rightarrow> DomainEvent list" where
  "queryEvents eventType aggregateType aggregateId correlationId vendorId limit b =
     (let r1 = keep_str eventType de_eventType (eb_store b);
          r2 = keep_str aggregateType de_aggregateType r1;
          r3 = keep_str aggregateId de_aggregateId r2;
          r4 = keep_str correlationId de_correlationId r3;
          r5 = (if str_truthy vendorId
                then filter (\<lambda>e. walk [''vendorId''] (de_tenantContext e) = opt_str vendorId) r4 else r4)
      in latest limit r5)"

definition getEventCount :: "'w bus \<Rightarrow> nat" where
  "getEventCount b = length (eb_store b)"

definition cleanupDeduplicationCache :: "time \<Rightarrow> 'w bus \<Rightarrow> 'w bus" where
  "cleanupDeduplicationCache now b = b\<lparr>eb_processed := filter (\<lambda>(_, t). \<not> now - t > DEDUPLICATION_TTL_MS) (eb_processed b)\<rparr>"

section \<open>Delivery\<close>

text \<open>A handler may publish further events but cannot make the bus forget one.\<close>

definition remembers :: "'w handler \<Rightarrow> bool" where
  "remembers h \<longleftrightarrow> (\<forall>e b x. map_of (eb_processed b) x \<noteq> None \<longrightarrow> map_of (eb_processed (snd (h e b))) x \<noteq> None)"

definition subs_remember :: "'w subscriptions \<Rightarrow> bool" where
  "subs_remember sb \<longleftrightarrow> (\<forall>e. \<forall>(_, h) \<in> set (handlers_of e sb @ sb_global sb). remembers h)"

lemma deliver_remembers:
  "\<forall>(_, h) \<in> set hs. remembers h \<Longrightarrow> map_of (eb_processed b) x \<noteq> None \<Longrightarrow> map_of (eb_processed (deliver e hs b)) x \<noteq> None"
proof (induction hs arbitrary: b)
  case Nil
  then show ?case by (simp add: deliver_def)
next
  case (Cons ih hs)
  obtain i h where ih: "ih = (i, h)" by fastforce
  with Cons.prems have "map_of (eb_processed (snd (h e b))) x \<noteq> None" by (auto simp: remembers_def)
  with Cons.IH [of "snd (h e b)"] Cons.prems(1) show ?case by (simp add: deliver_def ih)
qed

text \<open>
  An event whose id was published is not delivered a second time: the second call reports a
  duplicate and changes nothing, whatever handlers there are, as long as none takes ids out of the cache.
\<close>

theorem published_once:
  assumes "subs_remember sb" "publish now sb e b = (r, b')" "de_eventId e' = de_eventId e"
  shows "publish now' sb e' b' = (\<lparr>pb_published = False, pb_duplicate = True\<rparr>, b')"
proof -
  have "map_of (eb_processed b') (de_eventId e) \<noteq> None"
  proof (cases "isDuplicate e b")
    case True
    with assms(2) show ?thesis by (auto simp: publish_def isDuplicate_def)
  next
    case False
    with assms(2) have "b' = deliver e (handlers_of (de_eventType e) sb @ sb_global sb)
        (persistEvent e (b\<lparr>eb_processed := AList.update (de_eventId e) now (eb_processed b)\<rparr>))"
      by (simp add: publish_def Let_def)
    moreover have "\<forall>(_, h) \<in> set (handlers_of (de_eventType e) sb @ sb_global sb). remembers h"
      using assms(1) by (simp add: subs_remember_def)
    ultimately show ?thesis by (simp only:) (rule deliver_remembers, simp_all add: persistEvent_def)
  qed
  then show ?thesis by (simp add: publish_def isDuplicate_def assms(3))
qed

text \<open>Publishing through the bus remembers, so handlers that publish do too.\<close>

lemma publish_remembers:
  assumes "subs_remember sb" "map_of (eb_processed b) x \<noteq> None"
  shows "map_of (eb_processed (snd (publish now sb e b))) x \<noteq> None"
proof (cases "isDuplicate e b")
  case True
  with assms(2) show ?thesis by (simp add: publish_def)
next
  case False
  have "\<forall>(_, h) \<in> set (handlers_of (de_eventType e) sb @ sb_global sb). remembers h"
    using assms(1) by (simp add: subs_remember_def)
  from deliver_remembers [OF this, of "persistEvent e (b\<lparr>eb_processed := AList.update (de_eventId e) now (eb_processed b)\<rparr>)" x e]
  show ?thesis using False assms(2) by (simp add: publish_def Let_def persistEvent_def)
qed

definition counting :: "nat handler" where
  "counting e b = (None, b\<lparr>eb_world := Suc (eb_world b)\<rparr>)"

definition demo_bus_event :: DomainEvent where
  "demo_bus_event = \<lparr>de_eventId = ''evt_1'', de_eventType = ''BOOKING_CREATED'', de_aggregateType = ''BOOKING'', de_aggregateId = ''b1'',
     de_tenantContext = None, de_actor = None, de_timestamp = 0, de_correlationId = ''cor_1'', de_causationId = None, de_version = 1,
     de_payload = JObj []\<rparr>"

definition demo_subs :: "nat subscriptions" where
  "demo_subs = subscribeGlobal ''all'' counting (subscribe ''BOOKING_CREATED'' ''one'' counting \<lparr>sb_topics = [], sb_global = []\<rparr>)"

definition demo_bus :: "nat bus" where
  "demo_bus = \<lparr>eb_processed = [], eb_store = [], eb_world = 0\<rparr>"

lemma demo_subs_remember: "subs_remember demo_subs"
  by (auto simp: subs_remember_def remembers_def demo_subs_def subscribe_def subscribeGlobal_def handlers_of_def counting_def
    split: if_splits option.splits)

lemma demo_publish: "publish 5 demo_subs demo_bus_event demo_bus =
  (\<lparr>pb_published = True, pb_duplicate = False\<rparr>,
   \<lparr>eb_processed = [(''evt_1'', 5)], eb_store = [demo_bus_event], eb_world = 2\<rparr>)"
  by (simp add: publish_def isDuplicate_def persistEvent_def deliver_def demo_subs_def demo_bus_def demo_bus_event_def
    subscribe_def subscribeGlobal_def handlers_of_def counting_def push_bounded_def MAX_STORED_EVENTS_def)

lemma published_once_witness:
  "eb_world (snd (publish 6 demo_subs demo_bus_event (snd (publish 5 demo_subs demo_bus_event demo_bus)))) = 2"
  using published_once [OF demo_subs_remember demo_publish HOL.refl, of 6] demo_publish by simp

text \<open>An hour later the id is forgotten and the same event is delivered again.\<close>

lemma delivered_again_after_an_hour:
  "pb_published (fst (publish 9000000 demo_subs demo_bus_event
     (cleanupDeduplicationCache 9000000 (snd (publish 5 demo_subs demo_bus_event demo_bus)))))"
  unfolding demo_publish by (simp add: cleanupDeduplicationCache_def DEDUPLICATION_TTL_MS_def publish_def isDuplicate_def Let_def)

text \<open>Handlers that leave the store alone see it bounded, and filled in order.\<close>

definition keeps_store :: "'w handler \<Rightarrow> bool" where
  "keeps_store h \<longleftrightarrow> (\<forall>e b. eb_store (snd (h e b)) = eb_store b)"

lemma deliver_keeps_store: "\<forall>(_, h) \<in> set hs. keeps_store h \<Longrightarrow> eb_store (deliver e hs b) = eb_store b"
  by (induction hs arbitrary: b) (auto simp: deliver_def keeps_store_def)

lemma publish_store:
  assumes "\<forall>t. \<forall>(_, h) \<in> set (handlers_of t sb @ sb_global sb). keeps_store h"
  shows "eb_store (snd (publish now sb e b)) =
    (if isDuplicate e b then eb_store b else push_bounded MAX_STORED_EVENTS e (eb_store b))"
  using assms deliver_keeps_store [of "handlers_of (de_eventType e) sb @ sb_global sb" e]
  by (simp add: publish_def Let_def persistEvent_def)

end
