(* ===== verification/Scheduling.thy ===== *)
theory Scheduling
  imports EventBus
begin

text \<open>
  Background jobs (\<open>operations/scheduling-engine.service.ts\<close>). A job is run by emitting a domain event;
  \<open>'w\<close> is what the event bus works on. The ticker looks at the jobs in the order in which they were
  scheduled. \<open>scheduledTime\<close> is kept as the time that its ISO string denotes.
\<close>

datatype ScheduleType = ONE_TIME | RECURRING | CRON

datatype JobStatus = JOB_SCHEDULED | JOB_RUNNING | JOB_COMPLETED | JOB_FAILED | JOB_CANCELLED

record ScheduledJob =
  sj_jobId :: string
  sj_name :: string
  sj_scheduleType :: ScheduleType
  sj_cronExpression :: "string option"
  sj_scheduledTime :: time
  sj_payload :: object
  sj_actionType :: string
  sj_status :: JobStatus
  sj_timezone :: string
  sj_retryCount :: nat
  sj_maxRetries :: nat
  sj_createdAt :: time
  sj_lastExecutedAt :: "time option"

type_synonym jobs = "(string \<times> ScheduledJob) list"

fun show_schedule :: "ScheduleType \<Rightarrow> string" where
  "show_schedule ONE_TIME = ''ONE_TIME''"
| "show_schedule RECURRING = ''RECURRING''"
| "show_schedule CRON = ''CRON''"

fun show_job_status :: "JobStatus \<Rightarrow> string" where
  "show_job_status JOB_SCHEDULED = ''SCHEDULED''"
| "show_job_status JOB_RUNNING = ''RUNNING''"
| "show_job_status JOB_COMPLETED = ''COMPLETED''"
| "show_job_status JOB_FAILED = ''FAILED''"
| "show_job_status JOB_CANCELLED = ''CANCELLED''"

definition correlation_of :: "ScheduledJob \<Rightarrow> string" where
  "correlation_of j = or_string (as_str (map_of (sj_payload j) ''correlationId'')) (sj_jobId j)"

definition scheduleJob ::
  "string \<Rightarrow> string \<Rightarrow> time \<Rightarrow> string \<Rightarrow> ScheduleType \<Rightarrow> string option \<Rightarrow> time \<Rightarrow> object \<Rightarrow> string \<Rightarrow> string option \<Rightarrow> nat option \<Rightarrow>
   jobs \<times> tracer \<Rightarrow> ScheduledJob \<times> jobs \<times> tracer" where
  "scheduleJob jobId traceId now name sched cron due_at payload action tz retries st =
     (let j = \<lparr>sj_jobId = jobId, sj_name = name, sj_scheduleType = sched, sj_cronExpression = cron, sj_scheduledTime = due_at,
            sj_payload = payload, sj_actionType = action, sj_status = JOB_SCHEDULED, sj_timezone = or_string tz ''Asia/Kolkata'',
            sj_retryCount = 0, sj_maxRetries = (case retries of Some n \<Rightarrow> n | None \<Rightarrow> 3), sj_createdAt = now, sj_lastExecutedAt = None\<rparr>;
          tr = snd (recordActivity traceId now (correlation_of j) ''WORKFLOW''
            (''Scheduled job created: '' @ name @ '' ('' @ show_schedule sched @ '')'') ''INFO''
            (Some (JObj [(''jobId'', JStr jobId), (''scheduledTime'', JStr (iso_string due_at)), (''actionType'', JStr action)])) (snd st))
      in (j, AList.update jobId j (fst st), tr))"

definition cancelJob :: "string \<Rightarrow> jobs \<Rightarrow> (ScheduledJob \<times> jobs) result" where
  "cancelJob jobId jobs =
     (case map_of jobs jobId of
        None \<Rightarrow> Inl (NotFoundException (''Job with ID '' @ jobId @ '' not found''))
      | Some j \<Rightarrow>
          throw_if (sj_status j = JOB_COMPLETED \<or> sj_status j = JOB_CANCELLED)
            (BadRequestException (''Job '' @ jobId @ '' is already '' @ show_job_status (sj_status j)))
            (let j' = j\<lparr>sj_status := JOB_CANCELLED\<rparr> in Inr (j', AList.update jobId j' jobs)))"

definition listJobs :: "JobStatus option \<Rightarrow> jobs \<Rightarrow> ScheduledJob list" where
  "listJobs status jobs =
     sort_key (\<lambda>j. - sj_scheduledTime j)
       (case status of None \<Rightarrow> map snd jobs | Some s \<Rightarrow> filter (\<lambda>j. sj_status j = s) (map snd jobs))"

definition job_event :: "ScheduledJob \<Rightarrow> emission" where
  "job_event j =
     \<lparr>em_eventType = ''SCHEDULED_'' @ sj_actionType j, em_aggregateType = ''SYSTEM'', em_aggregateId = sj_jobId j,
      em_payload = JObj (spread [(''jobId'', JStr (sj_jobId j)), (''name'', JStr (sj_name j))] (sj_payload j)),
      em_correlationId = Some (correlation_of j), em_causationId = None, em_tenantContext = None, em_actor = None\<rparr>"

text \<open>
  \<open>emit_ev\<close> is the call of the bus, which could throw; the time after it is \<open>now\<close>.
\<close>

type_synonym 'w emitter = "emission \<Rightarrow> 'w \<Rightarrow> (string + DomainEvent) \<times> 'w"

definition processJob :: "'w emitter \<Rightarrow> time \<Rightarrow> ScheduledJob \<Rightarrow> 'w \<Rightarrow> ScheduledJob \<times> 'w" where
  "processJob emit_ev now job w =
     (let j = job\<lparr>sj_status := JOB_RUNNING\<rparr>; (r, w1) = emit_ev (job_event j) w
      in case r of
           Inr _ \<Rightarrow>
             (let j1 = j\<lparr>sj_status := JOB_COMPLETED, sj_lastExecutedAt := Some now\<rparr>
              in (if sj_scheduleType j1 = RECURRING
                  then j1\<lparr>sj_scheduledTime := now + 24 * 60 * 60 * 1000, sj_status := JOB_SCHEDULED\<rparr> else j1, w1))
         | Inl _ \<Rightarrow>
             (let j1 = j\<lparr>sj_retryCount := sj_retryCount j + 1\<rparr>
              in (if sj_retryCount j1 \<le> sj_maxRetries j1
                  then j1\<lparr>sj_scheduledTime := now + 2 ^ sj_retryCount j1 * 30 * 1000, sj_status := JOB_SCHEDULED\<rparr>
                  else j1\<lparr>sj_status := JOB_FAILED\<rparr>, w1)))"

definition executeJobNow :: "'w emitter \<Rightarrow> time \<Rightarrow> string \<Rightarrow> jobs \<Rightarrow> 'w \<Rightarrow> (ScheduledJob result \<times> jobs) \<times> 'w" where
  "executeJobNow emit_ev now jobId jobs w =
     (case map_of jobs jobId of
        None \<Rightarrow> ((Inl (NotFoundException (''Job with ID '' @ jobId @ '' not found'')), jobs), w)
      | Some j \<Rightarrow> (let (j', w') = processJob emit_ev now j w in ((Inr j', AList.update jobId j' jobs), w')))"

definition due :: "time \<Rightarrow> ScheduledJob \<Rightarrow> bool" where
  "due now j \<longleftrightarrow> sj_status j = JOB_SCHEDULED \<and> sj_scheduledTime j \<le> now"

fun tick :: "'w emitter \<Rightarrow> time \<Rightarrow> jobs \<Rightarrow> 'w \<Rightarrow> jobs \<times> 'w" where
  "tick emit_ev now [] w = ([], w)"
| "tick emit_ev now ((k, j) # jobs) w =
     (let (j', w1) = (if due now j then processJob emit_ev now j w else (j, w));
          (jobs', w2) = tick emit_ev now jobs w1
      in ((k, j') # jobs', w2))"

text \<open>The jobs for demonstrations.\<close>

definition demo_job :: "time \<Rightarrow> string \<Rightarrow> string \<Rightarrow> string \<Rightarrow> int \<Rightarrow> string \<Rightarrow> ScheduledJob" where
  "demo_job now i name cron offset sweep =
     \<lparr>sj_jobId = i, sj_name = name, sj_scheduleType = CRON, sj_cronExpression = Some cron, sj_scheduledTime = now + offset,
      sj_payload = [(''sweepType'', JStr sweep)], sj_actionType = ''TRIGGER_SWEEP'', sj_status = JOB_SCHEDULED, sj_timezone = ''Asia/Kolkata'',
      sj_retryCount = 0, sj_maxRetries = 3, sj_createdAt = now - 86400000, sj_lastExecutedAt = None\<rparr>"

definition seedDefaultJobs :: "bool \<Rightarrow> time \<Rightarrow> jobs \<Rightarrow> jobs result" where
  "seedDefaultJobs production now jobs =
     throw_if production (BadRequestException ''Demo operational seeding is strictly prohibited in production environment'')
       (Inr (fold (\<lambda>j. AList.update (sj_jobId j) j)
          [demo_job now ''job_overdue_scan'' ''Hourly Overdue Rental Scanner'' ''0 * * * *'' 900000 ''OVERDUE_DETECTION'',
           demo_job now ''job_compliance_scan'' ''Daily Compliance Document Expiry Check'' ''0 0 * * *'' 14400000 ''COMPLIANCE_EXPIRY'',
           demo_job now ''job_recon_finance'' ''Midnight Provider Ledger Reconciliation'' ''30 0 * * *'' 16200000 ''LEDGER_RECONCILIATION''] jobs))"

section \<open>What a run leaves\<close>

lemma processJob_cases:
  "\<exists>j'. fst (processJob emit_ev now j w) = j' \<and> sj_jobId j' = sj_jobId j \<and>
     (sj_status j' = JOB_COMPLETED \<or> sj_status j' = JOB_FAILED \<or> sj_status j' = JOB_SCHEDULED \<and> now < sj_scheduledTime j')"
  by (auto simp: processJob_def Let_def split: sum.split prod.split)

lemma processJob_not_due: "\<not> due now (fst (processJob emit_ev now j w))"
  using processJob_cases [of emit_ev now j w] by (auto simp: due_def)

lemma tick_jobs:
  "list_all2 (\<lambda>(k, j) (k', j'). k' = k \<and> (if due now j then \<exists>w. j' = fst (processJob emit_ev now j w) else j' = j))
     jobs (fst (tick emit_ev now jobs w))"
proof (induction jobs arbitrary: w)
  case Nil
  show ?case by simp
next
  case (Cons kj jobs)
  obtain k j where kj: "kj = (k, j)" by fastforce
  obtain j' w1 where p: "(if due now j then processJob emit_ev now j w else (j, w)) = (j', w1)" by fastforce
  then have "if due now j then \<exists>w. j' = fst (processJob emit_ev now j w) else j' = j"
    by (auto split: if_splits) (metis fst_conv)
  with Cons [of w1] p show ?case by (simp add: kj split_beta)
qed

text \<open>
  After a tick no job is due any more, whatever the runs did: each job that was due has ended or
  is scheduled for later, and a job that was not due is as it was.
\<close>

theorem tick_leaves_nothing_due:
  "list_all (\<lambda>(_, j). \<not> due now j) (fst (tick emit_ev now jobs w)) \<and> map fst (fst (tick emit_ev now jobs w)) = map fst jobs"
proof (induction jobs arbitrary: w)
  case Nil
  show ?case by simp
next
  case (Cons kj jobs)
  obtain k j where kj: "kj = (k, j)" by fastforce
  obtain j' w1 where p: "(if due now j then processJob emit_ev now j w else (j, w)) = (j', w1)" by fastforce
  with processJob_not_due [of now emit_ev j w] have "\<not> due now j'" by (auto split: if_splits)
  with Cons [of w1] p show ?case by (simp add: kj split_beta)
qed

section \<open>The bus never throws\<close>

locale quiet_bus =
  fixes emit_ev :: "'w emitter"
  assumes emits: "\<exists>e. fst (emit_ev p w) = Inr e"
begin

lemma run_completes:
  "fst (processJob emit_ev now j w) =
     (if sj_scheduleType j = RECURRING
      then j\<lparr>sj_status := JOB_SCHEDULED, sj_lastExecutedAt := Some now, sj_scheduledTime := now + 86400000\<rparr>
      else j\<lparr>sj_status := JOB_COMPLETED, sj_lastExecutedAt := Some now\<rparr>)"
proof -
  obtain r w1 where r: "emit_ev (job_event (j\<lparr>sj_status := JOB_RUNNING\<rparr>)) w = (r, w1)" by fastforce
  with emits obtain e where "r = Inr e" by (metis fst_conv)
  with r show ?thesis by (simp add: processJob_def Let_def)
qed

lemma run_never_retries: "sj_retryCount (fst (processJob emit_ev now j w)) = sj_retryCount j"
  by (simp add: run_completes)

lemma run_never_fails: "sj_status (fst (processJob emit_ev now j w)) \<noteq> JOB_FAILED"
  by (simp add: run_completes)

end

definition bus_emitter :: "(string \<Rightarrow> string) \<Rightarrow> time \<Rightarrow> 'w subscriptions \<Rightarrow> 'w bus emitter" where
  "bus_emitter fresh now sb p b = (case emit fresh now sb p b of (e, b') \<Rightarrow> (Inr e, b'))"

interpretation jb: quiet_bus "bus_emitter fresh now sb" for fresh now and sb :: "'w subscriptions"
  by unfold_locales (simp add: bus_emitter_def split: prod.split)

text \<open>
  As the bus keeps the errors of its handlers to itself, a job never fails and is never tried
  again: whatever the handlers of its event do, a one-time job and a cron job are completed by their
  first run, and only a job of type RECURRING is scheduled again, a day later.
\<close>

theorem jobs_never_fail:
  "fst (processJob (bus_emitter fresh now' sb) now j w) =
     (if sj_scheduleType j = RECURRING
      then j\<lparr>sj_status := JOB_SCHEDULED, sj_lastExecutedAt := Some now, sj_scheduledTime := now + 86400000\<rparr>
      else j\<lparr>sj_status := JOB_COMPLETED, sj_lastExecutedAt := Some now\<rparr>)"
  by (rule jb.run_completes)

lemma tick_never_fails:
  "sj_status j \<noteq> JOB_FAILED" if "(k, j) \<in> set (fst (tick (bus_emitter fresh now' sb) now jobs w))" "\<forall>(_, i) \<in> set jobs. sj_status i \<noteq> JOB_FAILED"
  using that
proof (induction jobs arbitrary: w)
  case Nil
  then show ?case by simp
next
  case (Cons ki jobs)
  obtain k' i where ki: "ki = (k', i)" by fastforce
  obtain i' w1 where p: "(if due now i then processJob (bus_emitter fresh now' sb) now i w else (i, w)) = (i', w1)" by fastforce
  with jb.run_never_fails [of fresh now' sb now i w] Cons.prems(2) have "sj_status i' \<noteq> JOB_FAILED" by (auto simp: ki split: if_splits)
  with Cons.IH [of w1] Cons.prems p show ?case by (auto simp: ki split: prod.splits)
qed

text \<open>A job that was cancelled can still be run, and a recurring one is then scheduled again.\<close>

lemma cancelled_job_runs:
  assumes "map_of jobs i = Some j" "sj_status j = JOB_CANCELLED" "sj_scheduleType j = RECURRING"
  shows "\<exists>j'. fst (fst (executeJobNow (bus_emitter fresh now' sb) now i jobs w)) = Inr j' \<and> sj_status j' = JOB_SCHEDULED"
  using assms jb.run_completes [of fresh now' sb now j w] by (simp add: executeJobNow_def split_beta)

end
