(* ===== verification/Approvals.thy ===== *)
theory Approvals
  imports AuditTracer
begin

text \<open>
  Approval requests with several steps (\<open>operations/approval-engine.service.ts\<close>). The map of requests is
  an association list in insertion order; ids and times are arguments.
\<close>

datatype ApprovalStatus = APR_PENDING | APR_APPROVED | APR_REJECTED | APR_ESCALATED | APR_TIMEOUT

fun show_approval :: "ApprovalStatus \<Rightarrow> string" where
  "show_approval APR_PENDING = ''PENDING''"
| "show_approval APR_APPROVED = ''APPROVED''"
| "show_approval APR_REJECTED = ''REJECTED''"
| "show_approval APR_ESCALATED = ''ESCALATED''"
| "show_approval APR_TIMEOUT = ''TIMEOUT''"

record ApprovalStep =
  ap_stepIndex :: nat
  ap_title :: string
  ap_approverRole :: string
  ap_approverUserId :: "string option"
  ap_status :: ApprovalStatus
  ap_decidedBy :: "string option"
  ap_decisionNote :: "string option"
  ap_decidedAt :: "time option"

record person =
  pn_id :: string
  pn_role :: string

record ApprovalRequest =
  ar_requestId :: string
  ar_definitionType :: string
  ar_entityType :: string
  ar_entityId :: string
  ar_requestedBy :: person
  ar_currentStepIndex :: nat
  ar_steps :: "ApprovalStep list"
  ar_overallStatus :: ApprovalStatus
  ar_metadata :: object
  ar_timeoutAt :: "time option"
  ar_createdAt :: time
  ar_updatedAt :: time

type_synonym requests = "(string \<times> ApprovalRequest) list"

record step_params =
  sp_stepIndex :: "nat option"
  sp_title :: string
  sp_approverRole :: string
  sp_approverUserId :: "string option"

record request_params =
  rp_definitionType :: string
  rp_entityType :: string
  rp_entityId :: string
  rp_requestedBy :: person
  rp_steps :: "step_params list"
  rp_metadata :: "object option"
  rp_timeoutMinutes :: "int option"
  rp_correlationId :: "string option"

record decision_params =
  dp_requestId :: string
  dp_stepIndex :: nat
  dp_approved :: bool
  dp_decidedBy :: person
  dp_decisionNote :: "string option"
  dp_correlationId :: "string option"

definition new_step :: "nat \<Rightarrow> step_params \<Rightarrow> ApprovalStep" where
  "new_step i s =
     \<lparr>ap_stepIndex = (case sp_stepIndex s of Some n \<Rightarrow> n | None \<Rightarrow> i), ap_title = sp_title s, ap_approverRole = sp_approverRole s,
      ap_approverUserId = sp_approverUserId s, ap_status = APR_PENDING, ap_decidedBy = None, ap_decisionNote = None, ap_decidedAt = None\<rparr>"

definition new_request :: "string \<Rightarrow> time \<Rightarrow> request_params \<Rightarrow> ApprovalRequest" where
  "new_request requestId now p =
     \<lparr>ar_requestId = requestId, ar_definitionType = rp_definitionType p, ar_entityType = rp_entityType p, ar_entityId = rp_entityId p,
      ar_requestedBy = rp_requestedBy p, ar_currentStepIndex = 0, ar_steps = map (\<lambda>(i, s). new_step i s) (enumerate 0 (rp_steps p)),
      ar_overallStatus = APR_PENDING, ar_metadata = (case rp_metadata p of Some m \<Rightarrow> m | None \<Rightarrow> []),
      ar_timeoutAt = (case rp_timeoutMinutes p of Some m \<Rightarrow> if m = 0 then None else Some (now + m * 60 * 1000) | None \<Rightarrow> None),
      ar_createdAt = now, ar_updatedAt = now\<rparr>"

text \<open>\<open>fresh\<close> makes the ids of the given prefix.\<close>

definition createApprovalRequest ::
  "(string \<Rightarrow> string) \<Rightarrow> time \<Rightarrow> request_params \<Rightarrow> requests \<times> tracer \<Rightarrow> ApprovalRequest \<times> requests \<times> tracer" where
  "createApprovalRequest fresh now p st =
     (let r = new_request (fresh ''appr_'') now p;
          tr = snd (recordActivity (fresh ''trc_'') now (or_string (rp_correlationId p) (fresh ''cor_'')) ''APPROVAL''
            (''Approval request created: '' @ rp_definitionType p @ '' for '' @ rp_entityType p @ ''#'' @ rp_entityId p) ''INFO''
            (Some (JObj [(''requestId'', JStr (ar_requestId r)), (''definitionType'', JStr (rp_definitionType p)), (''entityId'', JStr (rp_entityId p))]))
            (snd st))
      in (r, AList.update (ar_requestId r) r (fst st), tr))"

text \<open>The requests for demonstrations.\<close>

definition pending_step :: "nat \<Rightarrow> string \<Rightarrow> string \<Rightarrow> ApprovalStep" where
  "pending_step i title role = \<lparr>ap_stepIndex = i, ap_title = title, ap_approverRole = role, ap_approverUserId = None, ap_status = APR_PENDING,
     ap_decidedBy = None, ap_decisionNote = None, ap_decidedAt = None\<rparr>"

definition demo_refund :: "time \<Rightarrow> ApprovalRequest" where
  "demo_refund now =
     \<lparr>ar_requestId = ''appr_ref_992'', ar_definitionType = ''LARGE_REFUND'', ar_entityType = ''PAYMENT'', ar_entityId = ''PAY_55412'',
      ar_requestedBy = \<lparr>pn_id = ''usr_support_ananya'', pn_role = ''SUPPORT_EXECUTIVE''\<rparr>, ar_currentStepIndex = 0,
      ar_steps = [pending_step 0 ''Branch Manager Review'' ''BRANCH_MANAGER'', pending_step 1 ''Finance Director Signoff'' ''ADMIN''],
      ar_overallStatus = APR_PENDING,
      ar_metadata = [(''amount'', JNum 48500), (''currency'', JStr ''INR''),
        (''reason'', JStr ''Customer requested refund for trip breakdown at highway''), (''customerName'', JStr ''Ananya Roy'')],
      ar_timeoutAt = Some (now + 4 * 3600 * 1000), ar_createdAt = now - 3600 * 1000, ar_updatedAt = now - 3600 * 1000\<rparr>"

definition demo_onboarding :: "time \<Rightarrow> ApprovalRequest" where
  "demo_onboarding now =
     \<lparr>ar_requestId = ''appr_vnd_104'', ar_definitionType = ''VENDOR_ONBOARDING'', ar_entityType = ''VENDOR'', ar_entityId = ''vnd_apex_blr'',
      ar_requestedBy = \<lparr>pn_id = ''usr_partner_rohit'', pn_role = ''PARTNER_ACQUISITION''\<rparr>, ar_currentStepIndex = 1,
      ar_steps = [(pending_step 0 ''Compliance & GST Verification'' ''ADMIN'')\<lparr>ap_status := APR_APPROVED, ap_decidedBy := Some ''admin_sys'',
          ap_decidedAt := Some (now - 7200 * 1000)\<rparr>,
        pending_step 1 ''Fleet Inspection & Contract Approval'' ''ADMIN''],
      ar_overallStatus = APR_PENDING,
      ar_metadata = [(''vendorName'', JStr ''Apex Mobility Pvt Ltd''), (''vehicleCount'', JNum 14), (''city'', JStr ''Hyderabad''),
        (''reason'', JStr ''Tier-1 commercial fleet partner onboarding in Hyderabad''), (''correlationId'', JStr ''cor_vnd_apex_blr'')],
      ar_timeoutAt = Some (now + 18 * 3600 * 1000), ar_createdAt = now - 14400 * 1000, ar_updatedAt = now - 7200 * 1000\<rparr>"

definition seedDefaultApprovals :: "bool \<Rightarrow> time \<Rightarrow> requests \<Rightarrow> requests result" where
  "seedDefaultApprovals production now rs =
     throw_if production (BadRequestException ''Demo operational seeding is strictly prohibited in production environment'')
       (Inr (AList.update ''appr_vnd_104'' (demo_onboarding now) (AList.update ''appr_ref_992'' (demo_refund now) rs)))"

section \<open>Decisions\<close>

definition wrong_approver :: "ApprovalStep \<Rightarrow> person \<Rightarrow> bool" where
  "wrong_approver s by_whom \<longleftrightarrow>
     str_truthy (ap_approverUserId s) \<and> the (ap_approverUserId s) \<noteq> pn_id by_whom \<and> pn_role by_whom \<noteq> ''SUPER_ADMIN''"

definition role_allowed :: "ApprovalStep \<Rightarrow> person \<Rightarrow> bool" where
  "role_allowed s by_whom \<longleftrightarrow>
     ap_approverRole s = '''' \<or> pn_role by_whom = ''SUPER_ADMIN'' \<or> pn_role by_whom = ''ADMIN'' \<or> pn_role by_whom = ap_approverRole s"

text \<open>The checks before anything is changed; the step that was found is returned.\<close>

definition check_decision :: "decision_params \<Rightarrow> ApprovalRequest \<Rightarrow> ApprovalStep result" where
  "check_decision p r =
     throw_if (ar_overallStatus r \<noteq> APR_PENDING)
       (BadRequestException (''Approval request is already resolved with status '' @ show_approval (ar_overallStatus r)))
     (case List.find (\<lambda>s. ap_stepIndex s = dp_stepIndex p) (ar_steps r) of
        None \<Rightarrow> Inl (BadRequestException (''Step index '' @ show_nat (dp_stepIndex p) @ '' does not exist in request''))
      | Some s \<Rightarrow>
          throw_if (ap_stepIndex s \<noteq> ar_currentStepIndex r)
            (BadRequestException (''Cannot decide step '' @ show_nat (dp_stepIndex p) @ ''; current active step is '' @ show_nat (ar_currentStepIndex r)))
          (throw_if (ap_status s \<noteq> APR_PENDING)
            (BadRequestException (''Step '' @ show_nat (dp_stepIndex p) @ '' has already been decided: '' @ show_approval (ap_status s)))
          (throw_if (pn_id (ar_requestedBy r) \<noteq> '''' \<and> pn_id (ar_requestedBy r) = pn_id (dp_decidedBy p))
            (BadRequestException (''Segregation of duties violation: Requester ('' @ pn_id (ar_requestedBy r) @ '') cannot decide their own approval request''))
          (throw_if (wrong_approver s (dp_decidedBy p))
            (BadRequestException (''User '' @ pn_id (dp_decidedBy p) @ '' is not the designated approver ('' @ the (ap_approverUserId s) @
               '') for step '' @ show_nat (dp_stepIndex p)))
          (throw_if (\<not> role_allowed s (dp_decidedBy p))
            (BadRequestException (''User with role '' @ pn_role (dp_decidedBy p) @ '' is not authorized to decide step requiring role '' @ ap_approverRole s))
            (Inr s))))))"

fun update_first :: "('a \<Rightarrow> bool) \<Rightarrow> ('a \<Rightarrow> 'a) \<Rightarrow> 'a list \<Rightarrow> 'a list" where
  "update_first p f [] = []"
| "update_first p f (x # xs) = (if p x then f x # xs else x # update_first p f xs)"

definition decide_step :: "time \<Rightarrow> decision_params \<Rightarrow> ApprovalStep \<Rightarrow> ApprovalStep" where
  "decide_step now p s =
     s\<lparr>ap_decidedBy := Some (pn_id (dp_decidedBy p)), ap_decisionNote := dp_decisionNote p, ap_decidedAt := Some now,
       ap_status := (if dp_approved p then APR_APPROVED else APR_REJECTED)\<rparr>"

definition decide :: "time \<Rightarrow> decision_params \<Rightarrow> ApprovalRequest \<Rightarrow> ApprovalRequest" where
  "decide now p r =
     (let r1 = r\<lparr>ar_steps := update_first (\<lambda>s. ap_stepIndex s = dp_stepIndex p) (decide_step now p) (ar_steps r)\<rparr>
      in if \<not> dp_approved p then r1\<lparr>ar_overallStatus := APR_REJECTED, ar_updatedAt := now\<rparr>
         else let nextStepIndex = dp_stepIndex p + 1
              in (if nextStepIndex < length (ar_steps r1) then r1\<lparr>ar_currentStepIndex := nextStepIndex\<rparr>
                  else r1\<lparr>ar_overallStatus := APR_APPROVED\<rparr>)\<lparr>ar_updatedAt := now\<rparr>)"

definition decision_trace :: "(string \<Rightarrow> string) \<Rightarrow> time \<Rightarrow> decision_params \<Rightarrow> ApprovalStep \<Rightarrow> ApprovalRequest \<Rightarrow> tracer \<Rightarrow> tracer" where
  "decision_trace fresh now p s r tr =
     (let corr = or_string (dp_correlationId p) (fresh ''cor_''); i = show_nat (ap_stepIndex s)
      in if dp_approved p
         then snd (recordActivity (fresh ''trc_'') now corr ''APPROVAL'' (''Approval step '' @ i @ '' APPROVED by '' @ pn_id (dp_decidedBy p)) ''SUCCESS''
                (Some (JObj [(''requestId'', JStr (ar_requestId r)), (''stepIndex'', JNum (of_nat (ap_stepIndex s))),
                  (''overallStatus'', JStr (show_approval (ar_overallStatus r)))])) tr)
         else snd (recordActivity (fresh ''trc_'') now corr ''APPROVAL''
                (''Approval step '' @ i @ '' REJECTED by '' @ pn_id (dp_decidedBy p) @ '': '' @ or_string (dp_decisionNote p) ''No note'') ''WARNING''
                (Some (JObj (put ''note'' (opt_str (dp_decisionNote p))
                  [(''requestId'', JStr (ar_requestId r)), (''stepIndex'', JNum (of_nat (ap_stepIndex s)))]))) tr))"

definition recordDecision ::
  "(string \<Rightarrow> string) \<Rightarrow> time \<Rightarrow> decision_params \<Rightarrow> requests \<times> tracer \<Rightarrow> (ApprovalRequest \<times> requests \<times> tracer) result" where
  "recordDecision fresh now p st =
     (case map_of (fst st) (dp_requestId p) of
        None \<Rightarrow> Inl (NotFoundException (''Approval request with ID '' @ dp_requestId p @ '' not found''))
      | Some r \<Rightarrow> bindR (check_decision p r) (\<lambda>s.
          let r' = decide now p r
          in Inr (r', AList.update (dp_requestId p) r' (fst st), decision_trace fresh now p s r' (snd st))))"

definition getApprovalRequest :: "string \<Rightarrow> requests \<Rightarrow> ApprovalRequest result" where
  "getApprovalRequest i rs =
     (case map_of rs i of Some r \<Rightarrow> Inr r | None \<Rightarrow> Inl (NotFoundException (''Approval request '' @ i @ '' not found'')))"

definition listApprovalRequests ::
  "ApprovalStatus option \<Rightarrow> string option \<Rightarrow> string option \<Rightarrow> string option \<Rightarrow> requests \<Rightarrow> ApprovalRequest list" where
  "listApprovalRequests status definitionType entityType entityId rs =
     (let l0 = map snd rs;
          l1 = (case status of Some s \<Rightarrow> filter (\<lambda>r. ar_overallStatus r = s) l0 | None \<Rightarrow> l0)
      in sort_key (\<lambda>r. - ar_createdAt r)
           (keep_str entityId ar_entityId (keep_str entityType ar_entityType (keep_str definitionType ar_definitionType l1))))"

section \<open>Reachable requests\<close>

text \<open>The life of one request, from its creation through decisions that were accepted.\<close>

inductive request_reach :: "request_params \<Rightarrow> ApprovalRequest \<Rightarrow> bool" for p where
  created: "request_reach p (new_request i now p)"
| decided: "request_reach p r \<Longrightarrow> check_decision d r = Inr s \<Longrightarrow> request_reach p (decide now d r)"

text \<open>Steps numbered by their position, as when the indices are left out.\<close>

definition in_order :: "request_params \<Rightarrow> bool" where
  "in_order p \<longleftrightarrow> list_all (\<lambda>(i, s). sp_stepIndex s = None \<or> sp_stepIndex s = Some i) (enumerate 0 (rp_steps p))"

lemma in_order_steps: "in_order p \<Longrightarrow> k < length (rp_steps p) \<Longrightarrow> ap_stepIndex (ar_steps (new_request i now p) ! k) = k"
  by (force simp: in_order_def new_request_def new_step_def list_all_length nth_enumerate_eq split: option.splits)

definition vetted :: "string \<Rightarrow> ApprovalStep \<Rightarrow> bool" where
  "vetted requester s \<longleftrightarrow> ap_status s = APR_PENDING \<or>
     (\<exists>u. ap_decidedBy s = Some u \<and> (requester = '''' \<or> u \<noteq> requester))"

definition request_ok :: "ApprovalRequest \<Rightarrow> bool" where
  "request_ok r \<longleftrightarrow>
     (\<forall>k < length (ar_steps r). ap_stepIndex (ar_steps r ! k) = k) \<and>
     (\<forall>k < length (ar_steps r). ap_status (ar_steps r ! k) =
        (if k < ar_currentStepIndex r \<or> ar_overallStatus r = APR_APPROVED then APR_APPROVED
         else if k = ar_currentStepIndex r \<and> ar_overallStatus r = APR_REJECTED then APR_REJECTED
         else APR_PENDING)) \<and>
     ar_overallStatus r \<in> {APR_PENDING, APR_APPROVED, APR_REJECTED} \<and>
     (ar_steps r = [] \<and> ar_currentStepIndex r = 0 \<or> ar_currentStepIndex r < length (ar_steps r)) \<and>
     (\<forall>s \<in> set (ar_steps r). vetted (pn_id (ar_requestedBy r)) s)"

lemma find_index:
  assumes "\<forall>k < length xs. g (xs ! k) = k"
  shows "List.find (\<lambda>s. g s = n) xs = (if n < length xs then Some (xs ! n) else None)"
proof (cases "n < length xs")
  case True
  then have "g (xs ! n) = n" "\<forall>j < n. g (xs ! j) \<noteq> n" using assms by auto
  with True have "List.find (\<lambda>s. g s = n) xs = Some (xs ! n)" unfolding find_Some_iff by blast
  with True show ?thesis by simp
next
  case False
  then show ?thesis using assms by (auto simp: find_None_iff in_set_conv_nth)
qed

lemma update_first_index:
  assumes "\<forall>k < length xs. g (xs ! k) = k" "n < length xs"
  shows "update_first (\<lambda>s. g s = n) f xs = xs[n := f (xs ! n)]"
proof -
  have "update_first P f xs = xs[m := f (xs ! m)]" if "m < length xs" "P (xs ! m)" "\<forall>k < m. \<not> P (xs ! k)" for P m
    using that
  proof (induction xs arbitrary: m)
    case Nil
    then show ?case by simp
  next
    case (Cons x xs)
    show ?case
    proof (cases m)
      case 0
      with Cons.prems show ?thesis by simp
    next
      case (Suc m')
      have "\<not> P x" using Cons.prems(3) Suc by force
      moreover have "update_first P f xs = xs[m' := f (xs ! m')]" using Cons.prems Suc by (intro Cons.IH) auto
      ultimately show ?thesis using Suc by simp
    qed
  qed
  with assms show ?thesis by auto
qed

lemma check_decision_InrD:
  "check_decision p r = Inr s \<Longrightarrow>
     ar_overallStatus r = APR_PENDING \<and> List.find (\<lambda>s. ap_stepIndex s = dp_stepIndex p) (ar_steps r) = Some s \<and>
     dp_stepIndex p = ar_currentStepIndex r \<and> ap_status s = APR_PENDING \<and>
     (pn_id (ar_requestedBy r) = '''' \<or> pn_id (ar_requestedBy r) \<noteq> pn_id (dp_decidedBy p)) \<and>
     \<not> wrong_approver s (dp_decidedBy p) \<and> role_allowed s (dp_decidedBy p)"
  by (auto simp: check_decision_def throw_if_def split: if_splits option.splits dest: find_Some_D)

lemma request_ok_new: "in_order p \<Longrightarrow> request_ok (new_request i now p)"
  using in_order_steps [of p _ i now]
  by (simp add: request_ok_def) (auto simp: new_request_def new_step_def nth_enumerate_eq vetted_def in_set_enumerate_eq)

lemma request_ok_decide:
  assumes "request_ok r" "check_decision d r = Inr s"
  shows "request_ok (decide now d r)"
proof -
  let ?n = "ar_currentStepIndex r"
  from check_decision_InrD [OF assms(2)] have pend: "ar_overallStatus r = APR_PENDING" and fnd: "List.find (\<lambda>s. ap_stepIndex s = ?n) (ar_steps r) = Some s"
    and n: "dp_stepIndex d = ?n" and who: "pn_id (ar_requestedBy r) = '''' \<or> pn_id (ar_requestedBy r) \<noteq> pn_id (dp_decidedBy d)"
    by auto
  have idx: "\<forall>k < length (ar_steps r). ap_stepIndex (ar_steps r ! k) = k" using assms(1) by (simp add: request_ok_def)
  from fnd have lt: "?n < length (ar_steps r)" by (simp add: find_index [OF idx] split: if_splits)
  have steps: "update_first (\<lambda>s. ap_stepIndex s = ?n) (decide_step now d) (ar_steps r) = (ar_steps r)[?n := decide_step now d (ar_steps r ! ?n)]"
    by (rule update_first_index [OF idx lt])
  have r': "decide now d r = (let r1 = r\<lparr>ar_steps := (ar_steps r)[?n := decide_step now d (ar_steps r ! ?n)], ar_updatedAt := now\<rparr>
      in if \<not> dp_approved d then r1\<lparr>ar_overallStatus := APR_REJECTED\<rparr>
         else if Suc ?n < length (ar_steps r) then r1\<lparr>ar_currentStepIndex := Suc ?n\<rparr> else r1\<lparr>ar_overallStatus := APR_APPROVED\<rparr>)"
    unfolding decide_def n steps by (simp add: Let_def)
  let ?s = "decide_step now d (ar_steps r ! ?n)"
  have s: "ap_stepIndex ?s = ?n" "ap_status ?s = (if dp_approved d then APR_APPROVED else APR_REJECTED)"
    "vetted (pn_id (ar_requestedBy r)) ?s"
    using idx lt who by (auto simp: decide_step_def vetted_def)
  have "\<forall>s \<in> set (ar_steps r). vetted (pn_id (ar_requestedBy r)) s" using assms(1) by (simp add: request_ok_def)
  with s(3) have v: "\<forall>s \<in> set ((ar_steps r)[?n := ?s]). vetted (pn_id (ar_requestedBy r)) s"
    using set_update_subset_insert [of "ar_steps r" ?n ?s] by blast
  have i: "\<forall>k < length (ar_steps r). ap_stepIndex ((ar_steps r)[?n := ?s] ! k) = k"
    using idx s(1) lt by (simp add: nth_list_update)
  have st: "\<forall>k < length (ar_steps r). ap_status ((ar_steps r)[?n := ?s] ! k) =
      (if k = ?n then (if dp_approved d then APR_APPROVED else APR_REJECTED) else if k < ?n then APR_APPROVED else APR_PENDING)"
    using assms(1) pend s(2) lt by (auto simp: request_ok_def nth_list_update)
  show ?thesis using i st v lt unfolding r' Let_def by (auto simp: request_ok_def pend)
qed

lemma reach_ok: "request_reach p r \<Longrightarrow> in_order p \<Longrightarrow> request_ok r"
  by (induction rule: request_reach.induct) (auto intro: request_ok_new request_ok_decide)

lemma reach_requester: "request_reach p r \<Longrightarrow> ar_requestedBy r = rp_requestedBy p \<and> length (ar_steps r) = length (rp_steps p)"
proof (induction rule: request_reach.induct)
  case (created i now)
  show ?case by (simp add: new_request_def)
next
  case (decided r d s now)
  have "length (update_first P f xs) = length xs" for P and f :: "ApprovalStep \<Rightarrow> ApprovalStep" and xs by (induction xs) auto
  with decided.IH show ?case by (simp add: decide_def Let_def)
qed

lemma approved_ok:
  assumes "request_ok r" "ar_overallStatus r = APR_APPROVED" "s \<in> set (ar_steps r)" "pn_id (ar_requestedBy r) \<noteq> ''''"
  shows "ap_status s = APR_APPROVED \<and> (\<exists>u. ap_decidedBy s = Some u \<and> u \<noteq> pn_id (ar_requestedBy r))"
proof -
  have "ap_status s = APR_APPROVED" using assms(1,2,3) by (auto simp: request_ok_def in_set_conv_nth)
  moreover have "vetted (pn_id (ar_requestedBy r)) s" using assms(1,3) by (simp add: request_ok_def)
  ultimately show ?thesis using assms(4) by (simp add: vetted_def)
qed

lemma rejected_has_steps: "request_reach p r \<Longrightarrow> ar_overallStatus r = APR_REJECTED \<Longrightarrow> ar_steps r \<noteq> []"
proof (induction rule: request_reach.induct)
  case (created i now)
  then show ?case by (simp add: new_request_def)
next
  case (decided r d s now)
  from check_decision_InrD [OF decided(2)] obtain x where "x \<in> set (ar_steps r)" by (blast dest: find_Some_D)
  moreover have "length (update_first P f xs) = length xs" for P and f :: "ApprovalStep \<Rightarrow> ApprovalStep" and xs by (induction xs) auto
  ultimately show ?case by (auto simp: decide_def Let_def simp flip: length_greater_0_conv)
qed

text \<open>
  C37: a request whose steps are numbered by position is approved only after every step was approved,
  each by someone other than the requester (when the requester has an id); it is rejected only with a
  rejected step before which all are approved and after which none is decided.
\<close>

theorem approved_step_by_step:
  assumes "request_reach p r" "in_order p" "pn_id (rp_requestedBy p) \<noteq> ''''"
  shows "case ar_overallStatus r of
      APR_APPROVED \<Rightarrow> list_all (\<lambda>s. ap_status s = APR_APPROVED \<and> (\<exists>u. ap_decidedBy s = Some u \<and> u \<noteq> pn_id (rp_requestedBy p))) (ar_steps r)
    | APR_REJECTED \<Rightarrow> (\<exists>pre s post. ar_steps r = pre @ s # post \<and> ap_status s = APR_REJECTED \<and>
        list_all (\<lambda>s. ap_status s = APR_APPROVED) pre \<and> list_all (\<lambda>s. ap_status s = APR_PENDING) post)
    | st \<Rightarrow> st = APR_PENDING"
proof -
  have ok: "request_ok r" by (rule reach_ok [OF assms(1,2)])
  have req: "ar_requestedBy r = rp_requestedBy p" using reach_requester [OF assms(1)] by simp
  let ?n = "ar_currentStepIndex r"
  show ?thesis
  proof (cases "ar_overallStatus r")
    case APR_APPROVED
    with approved_ok [OF ok] req assms(3) show ?thesis by (simp add: list_all_iff)
  next
    case APR_REJECTED
    with rejected_has_steps [OF assms(1)] have "ar_steps r \<noteq> []" by simp
    with ok have lt: "?n < length (ar_steps r)" by (auto simp: request_ok_def)
    have st: "\<forall>k < length (ar_steps r). ap_status (ar_steps r ! k) = (if k < ?n then APR_APPROVED else if k = ?n then APR_REJECTED else APR_PENDING)"
      using ok APR_REJECTED by (simp add: request_ok_def)
    have "ar_steps r = take ?n (ar_steps r) @ ar_steps r ! ?n # drop (Suc ?n) (ar_steps r)" using lt by (rule id_take_nth_drop)
    moreover have "ap_status (ar_steps r ! ?n) = APR_REJECTED" "list_all (\<lambda>s. ap_status s = APR_APPROVED) (take ?n (ar_steps r))"
      "list_all (\<lambda>s. ap_status s = APR_PENDING) (drop (Suc ?n) (ar_steps r))"
      using st lt by (auto simp: list_all_length)
    ultimately show ?thesis using APR_REJECTED by auto
  qed (use ok in \<open>auto simp: request_ok_def\<close>)
qed

text \<open>
  A decision is accepted exactly on a pending request, for its current step, which is pending, by
  someone who is not the requester, is the designated approver if there is one (or a SUPER_ADMIN) and has
  the role of the step (or is ADMIN or SUPER_ADMIN).
\<close>

theorem decision_accepted_iff:
  "(\<exists>s. check_decision p r = Inr s) \<longleftrightarrow>
     ar_overallStatus r = APR_PENDING \<and> dp_stepIndex p = ar_currentStepIndex r \<and>
     \<not> (pn_id (ar_requestedBy r) \<noteq> '''' \<and> pn_id (ar_requestedBy r) = pn_id (dp_decidedBy p)) \<and>
     (\<exists>s. List.find (\<lambda>s. ap_stepIndex s = dp_stepIndex p) (ar_steps r) = Some s \<and> ap_status s = APR_PENDING \<and>
       (ap_approverUserId s \<in> {None, Some '''', Some (pn_id (dp_decidedBy p))} \<or> pn_role (dp_decidedBy p) = ''SUPER_ADMIN'') \<and>
       (ap_approverRole s \<in> {'''', pn_role (dp_decidedBy p)} \<or> pn_role (dp_decidedBy p) \<in> {''SUPER_ADMIN'', ''ADMIN''}))"
proof (cases "List.find (\<lambda>s. ap_stepIndex s = dp_stepIndex p) (ar_steps r)")
  case None
  then show ?thesis by (simp add: check_decision_def throw_if_def)
next
  case (Some s)
  have idx: "ap_stepIndex s = dp_stepIndex p" using find_Some_D [OF Some] by simp
  have wrong: "wrong_approver s (dp_decidedBy p) \<longleftrightarrow>
      \<not> (ap_approverUserId s \<in> {None, Some '''', Some (pn_id (dp_decidedBy p))} \<or> pn_role (dp_decidedBy p) = ''SUPER_ADMIN'')"
    by (cases "ap_approverUserId s") (auto simp: wrong_approver_def)
  have role: "role_allowed s (dp_decidedBy p) \<longleftrightarrow>
      ap_approverRole s \<in> {'''', pn_role (dp_decidedBy p)} \<or> pn_role (dp_decidedBy p) \<in> {''SUPER_ADMIN'', ''ADMIN''}"
    by (auto simp: role_allowed_def)
  show ?thesis
    unfolding check_decision_def Some option.case throw_if_def wrong role idx by (auto simp del: insert_iff)
qed

text \<open>
  When the caller numbers the steps from 1, as the interface allows, the first decision can never be
  made: whatever is submitted for such a request is refused, and it stays pending.
\<close>

theorem steps_from_one_are_stuck:
  assumes "\<forall>s \<in> set (rp_steps p). sp_stepIndex s \<noteq> None \<and> sp_stepIndex s \<noteq> Some 0" "request_reach p r"
  shows "ar_overallStatus r = APR_PENDING \<and> (\<exists>e. check_decision d r = Inl e)"
proof -
  have refused: "\<exists>e. check_decision d (new_request i now p) = Inl e" for d i now
  proof (cases "check_decision d (new_request i now p)")
    case (Inr s)
    from check_decision_InrD [OF this] have s: "s \<in> set (ar_steps (new_request i now p))" "ap_stepIndex s = 0"
      by (auto simp: new_request_def dest: find_Some_D)
    from s(1) obtain k where k: "k < length (rp_steps p)" "s = new_step k (rp_steps p ! k)"
      by (auto simp: new_request_def in_set_enumerate_eq)
    have "sp_stepIndex (rp_steps p ! k) \<noteq> None \<and> sp_stepIndex (rp_steps p ! k) \<noteq> Some 0"
      using assms(1) nth_mem [OF k(1)] by (rule bspec)
    with k(2) s(2) have False by (auto simp: new_step_def split: option.splits)
    then show ?thesis ..
  qed simp
  have "\<exists>i now. r = new_request i now p"
    using assms(2)
  proof (induction rule: request_reach.induct)
    case (decided r d s now)
    then show ?case using refused by (metis Inl_Inr_False)
  qed blast
  then show ?thesis using refused by (auto simp: new_request_def)
qed

section \<open>A refund that two people approve\<close>

definition refund_params :: request_params where
  "refund_params = \<lparr>rp_definitionType = ''LARGE_REFUND'', rp_entityType = ''PAYMENT'', rp_entityId = ''PAY_1'',
     rp_requestedBy = \<lparr>pn_id = ''ananya'', pn_role = ''SUPPORT''\<rparr>,
     rp_steps = [\<lparr>sp_stepIndex = None, sp_title = ''Branch Manager Review'', sp_approverRole = ''BRANCH_MANAGER'', sp_approverUserId = None\<rparr>],
     rp_metadata = None, rp_timeoutMinutes = None, rp_correlationId = None\<rparr>"

definition manager_approves :: decision_params where
  "manager_approves = \<lparr>dp_requestId = ''appr_'', dp_stepIndex = 0, dp_approved = True,
     dp_decidedBy = \<lparr>pn_id = ''rohit'', pn_role = ''BRANCH_MANAGER''\<rparr>, dp_decisionNote = None, dp_correlationId = None\<rparr>"

lemma refund_accepted: "check_decision manager_approves (new_request ''appr_'' 0 refund_params) = Inr (new_step 0 (rp_steps refund_params ! 0))"
  by (simp add: check_decision_def manager_approves_def new_request_def refund_params_def new_step_def wrong_approver_def role_allowed_def)

lemma approved_step_by_step_witness:
  "list_all (\<lambda>s. ap_status s = APR_APPROVED \<and> (\<exists>u. ap_decidedBy s = Some u \<and> u \<noteq> ''ananya''))
     (ar_steps (decide 5 manager_approves (new_request ''appr_'' 0 refund_params)))"
proof -
  have "request_reach refund_params (decide 5 manager_approves (new_request ''appr_'' 0 refund_params))"
    by (rule request_reach.intros(2) [OF request_reach.intros(1) refund_accepted])
  moreover have "in_order refund_params" "pn_id (rp_requestedBy refund_params) = ''ananya''" by (simp_all add: in_order_def refund_params_def)
  moreover have "ar_overallStatus (decide 5 manager_approves (new_request ''appr_'' 0 refund_params)) = APR_APPROVED"
    by (simp add: decide_def manager_approves_def new_request_def refund_params_def new_step_def)
  ultimately show ?thesis using approved_step_by_step [of refund_params "decide 5 manager_approves (new_request ''appr_'' 0 refund_params)"] by simp
qed

definition one_based :: request_params where
  "one_based = refund_params\<lparr>rp_steps := map (\<lambda>s. s\<lparr>sp_stepIndex := Some 1\<rparr>) (rp_steps refund_params)\<rparr>"

lemma steps_from_one_are_stuck_witness:
  "\<exists>e. check_decision manager_approves (new_request ''appr_'' 0 one_based) = Inl e"
proof -
  have "\<forall>s \<in> set (rp_steps one_based). sp_stepIndex s \<noteq> None \<and> sp_stepIndex s \<noteq> Some 0"
    by (simp add: one_based_def refund_params_def)
  from steps_from_one_are_stuck [OF this request_reach.intros(1)] show ?thesis by blast
qed

end
