(* ===== verification/WorkflowEngine.thy ===== *)
theory WorkflowEngine
  imports AuditTracer
begin

text \<open>
  The workflow engine (\<open>operations/workflow-engine.service.ts\<close>): definitions made of steps, their
  executions, and the loop that runs the steps. The loop follows whatever edges a definition has and may
  go round for ever, so it is a partial function whose value is \<open>None\<close> when it does not end. The runtime of
  the integrations, the clock, the timers and the random ids are parameters over a state \<open>'w\<close> of
  everything outside. A run of an execution touches only that execution, so runs are modelled one
  after the other; the engine starts them without waiting. The scope of a
  definition, which nothing reads, is left out.
\<close>

datatype WorkflowStatus = WF_DRAFT | WF_ACTIVE | WF_PAUSED | WF_DEPRECATED

datatype WorkflowExecutionStatus =
    EX_PENDING | EX_RUNNING | EX_WAITING_APPROVAL | EX_WAITING_DELAY | EX_COMPLETED | EX_FAILED | EX_CANCELLED
  | EX_COMPENSATING | EX_COMPENSATED

datatype WorkflowStepType =
    TRIGGER | CONDITION | DELAY | ACTION | NOTIFICATION | PAYMENT | WEBHOOK | PROVIDER_CALL | APPROVAL | BRANCH | PARALLEL | END_STEP

fun show_step_type :: "WorkflowStepType \<Rightarrow> string" where
  "show_step_type TRIGGER = ''TRIGGER''"
| "show_step_type CONDITION = ''CONDITION''"
| "show_step_type DELAY = ''DELAY''"
| "show_step_type ACTION = ''ACTION''"
| "show_step_type NOTIFICATION = ''NOTIFICATION''"
| "show_step_type PAYMENT = ''PAYMENT''"
| "show_step_type WEBHOOK = ''WEBHOOK''"
| "show_step_type PROVIDER_CALL = ''PROVIDER_CALL''"
| "show_step_type APPROVAL = ''APPROVAL''"
| "show_step_type BRANCH = ''BRANCH''"
| "show_step_type PARALLEL = ''PARALLEL''"
| "show_step_type END_STEP = ''END''"

fun show_workflow_status :: "WorkflowStatus \<Rightarrow> string" where
  "show_workflow_status WF_DRAFT = ''DRAFT''"
| "show_workflow_status WF_ACTIVE = ''ACTIVE''"
| "show_workflow_status WF_PAUSED = ''PAUSED''"
| "show_workflow_status WF_DEPRECATED = ''DEPRECATED''"

fun show_execution_status :: "WorkflowExecutionStatus \<Rightarrow> string" where
  "show_execution_status EX_PENDING = ''PENDING''"
| "show_execution_status EX_RUNNING = ''RUNNING''"
| "show_execution_status EX_WAITING_APPROVAL = ''WAITING_APPROVAL''"
| "show_execution_status EX_WAITING_DELAY = ''WAITING_DELAY''"
| "show_execution_status EX_COMPLETED = ''COMPLETED''"
| "show_execution_status EX_FAILED = ''FAILED''"
| "show_execution_status EX_CANCELLED = ''CANCELLED''"
| "show_execution_status EX_COMPENSATING = ''COMPENSATING''"
| "show_execution_status EX_COMPENSATED = ''COMPENSATED''"

text \<open>\<open>config\<close> is an object; its keys are read where the steps need them.\<close>

record WorkflowStep =
  st_stepId :: string
  st_name :: string
  st_type :: WorkflowStepType
  st_config :: object
  st_onSuccess :: "string option"
  st_onFailure :: "string option"
  st_compensationStepId :: "string option"
  st_timeoutMs :: "nat option"
  st_maxRetries :: "nat option"

record WorkflowDefinition =
  wd_workflowId :: string
  wd_name :: string
  wd_description :: string
  wd_version :: nat
  wd_triggerEvent :: string
  wd_status :: WorkflowStatus
  wd_steps :: "WorkflowStep list"
  wd_startStepId :: string
  wd_createdAt :: time
  wd_updatedAt :: time

record HistoryEntry =
  he_stepId :: string
  he_stepName :: string
  he_type :: WorkflowStepType
  he_status :: string
  he_startedAt :: time
  he_completedAt :: "time option"
  he_output :: "json option"
  he_error :: "string option"

record ExecutionError =
  ee_code :: string
  ee_message :: string
  ee_failedStepId :: "string option"

record WorkflowExecution =
  we_executionId :: string
  we_workflowId :: string
  we_version :: nat
  we_correlationId :: string
  we_causationId :: "string option"
  we_status :: WorkflowExecutionStatus
  we_currentStepId :: "string option"
  we_contextData :: object
  we_stepHistory :: "HistoryEntry list"
  we_retryCount :: nat
  we_error :: "ExecutionError option"
  we_startedAt :: time
  we_completedAt :: "time option"

section \<open>The outside\<close>

record runtime_call =
  rc_category :: string
  rc_capability :: string
  rc_preferredProviderId :: "string option"
  rc_payload :: json
  rc_correlationId :: string

record 'w wf_env =
  en_now :: "'w \<Rightarrow> time"
  en_id :: "string \<Rightarrow> 'w \<Rightarrow> string \<times> 'w"
  en_sleep :: "rat \<Rightarrow> 'w \<Rightarrow> 'w"
  en_runtime :: "runtime_call \<Rightarrow> 'w \<Rightarrow> (string + json) \<times> 'w"

text \<open>What a run changes besides its execution: the outside and the timeline.\<close>

type_synonym 'w outside = "'w \<times> tracer"

definition now_of :: "'w wf_env \<Rightarrow> 'w outside \<Rightarrow> time" where
  "now_of env o1 = en_now env (fst o1)"

definition trace ::
  "'w wf_env \<Rightarrow> string \<Rightarrow> string \<Rightarrow> string \<Rightarrow> object \<Rightarrow> 'w outside \<Rightarrow> 'w outside" where
  "trace env correlationId activity status details o1 =
     (let (tid, w) = en_id env ''trc_'' (fst o1)
      in (w, snd (recordActivity tid (en_now env w) correlationId ''WORKFLOW'' activity status (Some (JObj details)) (snd o1))))"

section \<open>One step\<close>

definition config_str :: "string \<Rightarrow> WorkflowStep \<Rightarrow> string option" where
  "config_str k s = as_str (map_of (st_config s) k)"

definition getMessagingCategory :: "string \<Rightarrow> string" where
  "getMessagingCategory c =
     (let u = to_upper c
      in if u = ''WHATSAPP'' then ''MESSAGING_WHATSAPP''
         else if u = ''SMS'' then ''MESSAGING_SMS''
         else if u = ''EMAIL'' then ''MESSAGING_EMAIL''
         else if u = ''PUSH'' then ''MESSAGING_PUSH''
         else ''MESSAGING_WHATSAPP'')"

definition branch_of :: "WorkflowStep \<Rightarrow> WorkflowExecution \<Rightarrow> json" where
  "branch_of s ex =
     (let conditionMet = strict_eq (extractFieldValue (we_contextData ex) (config_str ''field'' s)) (map_of (st_config s) ''value'')
      in JObj (put ''nextStepId'' (map_of (st_config s) (if conditionMet then ''trueStepId'' else ''falseStepId'')) [(''conditionMet'', JBool conditionMet)]))"

definition notification_call :: "WorkflowStep \<Rightarrow> WorkflowExecution \<Rightarrow> runtime_call" where
  "notification_call s ex =
     (let channel = or_string (config_str ''channel'' s) ''WHATSAPP'';
          recipient = or_json (extractFieldValue (we_contextData ex) (Some (or_string (config_str ''recipientField'' s) ''phone''))) (JStr ''system'');
          message = or_string (config_str ''message'' s) (''DriveGo automated notification for execution '' @ we_executionId ex)
      in \<lparr>rc_category = getMessagingCategory channel, rc_capability = to_lower channel, rc_preferredProviderId = config_str ''providerId'' s,
          rc_payload = JObj (put ''template'' (map_of (st_config s) ''template'') [(''to'', recipient), (''message'', JStr message)]),
          rc_correlationId = we_correlationId ex\<rparr>)"

definition provider_call :: "WorkflowStep \<Rightarrow> WorkflowExecution \<Rightarrow> runtime_call" where
  "provider_call s ex =
     \<lparr>rc_category = or_string (config_str ''category'' s) ''PAYMENT'', rc_capability = or_string (config_str ''capability'' s) ''capture'',
      rc_preferredProviderId = config_str ''providerId'' s,
      rc_payload = JObj (spread (case map_of (st_config s) ''payload'' of Some j \<Rightarrow> members j | None \<Rightarrow> []) (we_contextData ex)),
      rc_correlationId = we_correlationId ex\<rparr>"

definition simulated :: json where
  "simulated = JObj [(''sent'', JBool True), (''simulated'', JBool True)]"

definition executeSingleStep ::
  "'w wf_env \<Rightarrow> WorkflowStep \<Rightarrow> WorkflowExecution \<Rightarrow> 'w \<Rightarrow> (string + json) \<times> WorkflowExecution \<times> 'w" where
  "executeSingleStep env s ex w =
     (case st_type s of
        CONDITION \<Rightarrow> (Inr (branch_of s ex), ex, w)
      | BRANCH \<Rightarrow> (Inr (branch_of s ex), ex, w)
      | NOTIFICATION \<Rightarrow>
          (case en_runtime env (notification_call s ex) w of
             (Inr r, w') \<Rightarrow> (Inr r, ex, w')
           | (Inl _, w') \<Rightarrow> (Inr simulated, ex, w'))
      | PROVIDER_CALL \<Rightarrow> (case en_runtime env (provider_call s ex) w of (r, w') \<Rightarrow> (r, ex, w'))
      | DELAY \<Rightarrow>
          (let delayMs = or_num (as_num (map_of (st_config s) ''delayMs'')) 500
           in (Inr (JObj [(''delayedMs'', JNum delayMs)]), ex, en_sleep env (min delayMs 2000) w))
      | ACTION \<Rightarrow>
          (Inr (JObj [(''action'', JStr (st_name s)), (''status'', JStr ''DONE'')]),
           (case map_of (st_config s) ''mutateContext'' of
              Some j \<Rightarrow> if truthy (Some j) then ex\<lparr>we_contextData := spread (we_contextData ex) (members j)\<rparr> else ex
            | None \<Rightarrow> ex), w)
      | PARALLEL \<Rightarrow>
          (let actions = (case map_of (st_config s) ''actions'' of Some (JArr xs) \<Rightarrow> xs | _ \<Rightarrow> [])
           in (Inr (JObj [(''parallelResults'', JArr (map (\<lambda>a. JObj [(''action'', a), (''success'', JBool True)]) actions))]), ex, w))
      | _ \<Rightarrow> (Inr (JObj [(''executed'', JBool True)]), ex, w))"

text \<open>\<open>stepMap\<close>: of two steps with one id the later is found.\<close>

definition find_step :: "WorkflowDefinition \<Rightarrow> string \<Rightarrow> WorkflowStep option" where
  "find_step d i = map_of (rev (map (\<lambda>s. (st_stepId s, s)) (wd_steps d))) i"

definition executeCompensation ::
  "'w wf_env \<Rightarrow> WorkflowDefinition \<Rightarrow> string \<Rightarrow> WorkflowExecution \<Rightarrow> 'w outside \<Rightarrow> WorkflowExecution \<times> 'w outside" where
  "executeCompensation env d i ex o1 =
     (case find_step d i of
        None \<Rightarrow> (ex, o1)
      | Some s \<Rightarrow>
          (case executeSingleStep env s ex (fst o1) of
             (Inr _, ex', w') \<Rightarrow>
               (ex', trace env (we_correlationId ex) (''Workflow compensation executed: '' @ st_name s) ''WARNING''
                  [(''executionId'', JStr (we_executionId ex)), (''stepId'', JStr i)] (w', snd o1))
           | (Inl _, ex', w') \<Rightarrow> (ex', (w', snd o1))))"

section \<open>The loop\<close>

definition push_history :: "HistoryEntry \<Rightarrow> WorkflowExecution \<Rightarrow> WorkflowExecution" where
  "push_history h ex = ex\<lparr>we_stepHistory := we_stepHistory ex @ [h]\<rparr>"

text \<open>The entry pushed last, which the loop holds, is updated in place.\<close>

definition settle_history :: "(HistoryEntry \<Rightarrow> HistoryEntry) \<Rightarrow> WorkflowExecution \<Rightarrow> WorkflowExecution" where
  "settle_history f ex = ex\<lparr>we_stepHistory := butlast (we_stepHistory ex) @ [f (last (we_stepHistory ex))]\<rparr>"

definition new_entry :: "WorkflowStep \<Rightarrow> time \<Rightarrow> HistoryEntry" where
  "new_entry s now = \<lparr>he_stepId = st_stepId s, he_stepName = st_name s, he_type = st_type s, he_status = ''RUNNING'', he_startedAt = now,
     he_completedAt = None, he_output = None, he_error = None\<rparr>"

definition next_step :: "WorkflowStep \<Rightarrow> json \<Rightarrow> string option" where
  "next_step s output =
     (if st_type s = CONDITION \<or> st_type s = BRANCH
      then or_str (as_str (field ''nextStepId'' output)) (st_onSuccess s)
      else st_onSuccess s)"

definition not_found :: "string \<Rightarrow> time \<Rightarrow> WorkflowExecution \<Rightarrow> WorkflowExecution" where
  "not_found i now ex = ex\<lparr>we_status := EX_FAILED,
     we_error := Some \<lparr>ee_code = ''STEP_NOT_FOUND'', ee_message = ''Step '' @ i @ '' not found in workflow definition'', ee_failedStepId = None\<rparr>,
     we_completedAt := Some now\<rparr>"

definition reach_end ::
  "'w wf_env \<Rightarrow> WorkflowDefinition \<Rightarrow> WorkflowExecution \<Rightarrow> 'w outside \<Rightarrow> WorkflowExecution \<times> 'w outside" where
  "reach_end env d ex o1 =
     (ex\<lparr>we_status := EX_COMPLETED, we_completedAt := Some (now_of env o1), we_currentStepId := None\<rparr>,
      trace env (we_correlationId ex) (''Workflow completed: '' @ wd_name d) ''SUCCESS'' [(''executionId'', JStr (we_executionId ex))] o1)"

definition step_failed ::
  "'w wf_env \<Rightarrow> WorkflowDefinition \<Rightarrow> WorkflowStep \<Rightarrow> string \<Rightarrow> WorkflowExecution \<Rightarrow> 'w outside \<Rightarrow> WorkflowExecution \<times> 'w outside" where
  "step_failed env d s msg ex o1 =
     (let (ex1, o2) = (if str_truthy (st_compensationStepId s) then executeCompensation env d (the (st_compensationStepId s)) ex o1 else (ex, o1));
          ex2 = ex1\<lparr>we_status := EX_FAILED, we_completedAt := Some (now_of env o2),
            we_error := Some \<lparr>ee_code = ''STEP_EXECUTION_ERROR'', ee_message = msg, ee_failedStepId = Some (st_stepId s)\<rparr>\<rparr>
      in (ex2, trace env (we_correlationId ex) (''Workflow step '' @ st_name s @ '' FAILED: '' @ msg) ''FAILED''
            [(''executionId'', JStr (we_executionId ex)), (''stepId'', JStr (st_stepId s))] o2))"

text \<open>One turn of the loop at step \<open>i\<close>: \<open>Inl\<close> when the function returns, \<open>Inr\<close> with the next step id.\<close>

definition loop_turn ::
  "'w wf_env \<Rightarrow> WorkflowDefinition \<Rightarrow> string \<Rightarrow> WorkflowExecution \<times> 'w outside \<Rightarrow>
   (WorkflowExecution \<times> 'w outside) + (string option \<times> WorkflowExecution \<times> 'w outside)" where
  "loop_turn env d i st =
     (case st of (ex, o1) \<Rightarrow>
      case find_step d i of
        None \<Rightarrow> Inl (not_found i (now_of env o1) ex, o1)
      | Some s \<Rightarrow>
          if st_type s = END_STEP then Inl (reach_end env d ex o1)
          else
            let ex1 = push_history (new_entry s (now_of env o1)) ex;
                (r, ex2, w2) = executeSingleStep env s ex1 (fst o1); o2 = (w2, snd o1)
            in case r of
                 Inr output \<Rightarrow>
                   (let ex3 = settle_history (\<lambda>h. h\<lparr>he_status := ''SUCCESS'', he_completedAt := Some (now_of env o2), he_output := Some output\<rparr>) ex2;
                        nxt = next_step s output
                    in Inr (nxt, ex3\<lparr>we_currentStepId := nxt\<rparr>, o2))
               | Inl msg \<Rightarrow>
                   (let ex3 = settle_history (\<lambda>h. h\<lparr>he_status := ''FAILED'', he_completedAt := Some (now_of env o2), he_error := Some msg\<rparr>) ex2
                    in if str_truthy (st_onFailure s)
                       then Inr (st_onFailure s, ex3\<lparr>we_currentStepId := st_onFailure s\<rparr>, o2)
                       else Inl (step_failed env d s msg ex3 o2)))"

definition run_off :: "'w wf_env \<Rightarrow> WorkflowExecution \<times> 'w outside \<Rightarrow> WorkflowExecution \<times> 'w outside" where
  "run_off env st = (case st of (ex, o1) \<Rightarrow> (ex\<lparr>we_status := EX_COMPLETED, we_completedAt := Some (now_of env o1)\<rparr>, o1))"

partial_function (option) executeWorkflowSteps ::
  "'w wf_env \<Rightarrow> WorkflowDefinition \<Rightarrow> string option \<Rightarrow> WorkflowExecution \<times> 'w outside \<Rightarrow> (WorkflowExecution \<times> 'w outside) option" where
  "executeWorkflowSteps env d cur st =
     (if \<not> str_truthy cur then Some (run_off env st)
      else case loop_turn env d (the cur) st of
             Inl st' \<Rightarrow> Some st'
           | Inr (nxt, st') \<Rightarrow> executeWorkflowSteps env d nxt st')"

definition run_execution ::
  "'w wf_env \<Rightarrow> WorkflowDefinition \<Rightarrow> WorkflowExecution \<times> 'w outside \<Rightarrow> (WorkflowExecution \<times> 'w outside) option" where
  "run_execution env d st = executeWorkflowSteps env d (we_currentStepId (fst st)) st"

section \<open>The engine\<close>

record engine =
  eg_definitions :: "(string \<times> WorkflowDefinition) list"
  eg_executions :: "(string \<times> WorkflowExecution) list"

definition registerDefinition :: "WorkflowDefinition \<Rightarrow> engine \<Rightarrow> engine" where
  "registerDefinition d eg = eg\<lparr>eg_definitions := AList.update (wd_workflowId d) d (eg_definitions eg)\<rparr>"

definition getDefinition :: "string \<Rightarrow> engine \<Rightarrow> WorkflowDefinition result" where
  "getDefinition i eg =
     (case map_of (eg_definitions eg) i of
        Some d \<Rightarrow> Inr d
      | None \<Rightarrow> Inl (NotFoundException (''Workflow definition '' @ i @ '' not found'')))"

definition listDefinitions :: "WorkflowStatus option \<Rightarrow> string option \<Rightarrow> engine \<Rightarrow> WorkflowDefinition list" where
  "listDefinitions status triggerEvent eg =
     (let l = map snd (eg_definitions eg);
          l1 = (case status of Some s \<Rightarrow> filter (\<lambda>d. wd_status d = s) l | None \<Rightarrow> l)
      in keep_str triggerEvent wd_triggerEvent l1)"

record trigger =
  tg_workflowId :: string
  tg_payload :: object
  tg_correlationId :: "string option"
  tg_causationId :: "string option"
  tg_tenantContext :: "json option"

text \<open>
  The part of \<open>triggerWorkflow\<close> before the loop; the execution that is returned is then run by
  \<open>run_execution\<close> with the definition, and stored again by \<open>store_execution\<close>.
\<close>

definition store_execution :: "WorkflowExecution \<Rightarrow> engine \<Rightarrow> engine" where
  "store_execution ex eg = eg\<lparr>eg_executions := AList.update (we_executionId ex) ex (eg_executions eg)\<rparr>"

definition triggerWorkflow ::
  "'w wf_env \<Rightarrow> trigger \<Rightarrow> engine \<times> 'w outside \<Rightarrow> ((WorkflowDefinition \<times> WorkflowExecution) \<times> engine \<times> 'w outside) result" where
  "triggerWorkflow env p st =
     (case st of (eg, (w, tr)) \<Rightarrow>
      bindR (getDefinition (tg_workflowId p) eg) (\<lambda>d.
      throw_if (wd_status d \<noteq> WF_ACTIVE)
        (BadRequestException (''Workflow '' @ tg_workflowId p @ '' is '' @ show_workflow_status (wd_status d) @ '' and cannot be triggered.''))
        (let (executionId, w1) = en_id env ''wf_exec_'' w;
             (fresh, w2) = (if str_truthy (tg_correlationId p) then ('''', w1) else en_id env ''cor_'' w1);
             correlationId = or_string (tg_correlationId p) fresh;
             ex = \<lparr>we_executionId = executionId, we_workflowId = wd_workflowId d, we_version = wd_version d,
               we_correlationId = correlationId, we_causationId = tg_causationId p, we_status = EX_RUNNING,
               we_currentStepId = Some (wd_startStepId d), we_contextData = put ''tenantContext'' (tg_tenantContext p) (tg_payload p),
               we_stepHistory = [], we_retryCount = 0, we_error = None, we_startedAt = en_now env w2, we_completedAt = None\<rparr>;
             o1 = trace env correlationId (''Workflow triggered: '' @ wd_name d @ '' ('' @ executionId @ '')'') ''INFO''
               [(''workflowId'', JStr (wd_workflowId d)), (''executionId'', JStr executionId)] (w2, tr)
         in Inr ((d, ex), store_execution ex eg, o1))))"

definition retryExecution ::
  "'w wf_env \<Rightarrow> string \<Rightarrow> string option \<Rightarrow> object option \<Rightarrow> engine \<times> 'w outside \<Rightarrow>
   ((WorkflowDefinition \<times> WorkflowExecution) \<times> engine \<times> 'w outside) result" where
  "retryExecution env executionId stepIdToResume overridePayload st =
     (case st of (eg, o1) \<Rightarrow>
      case map_of (eg_executions eg) executionId of
        None \<Rightarrow> Inl (NotFoundException (''Execution '' @ executionId @ '' not found''))
      | Some ex \<Rightarrow>
          throw_if (we_status ex \<noteq> EX_FAILED)
            (BadRequestException (''Execution '' @ executionId @ '' is in status '' @ show_execution_status (we_status ex) @ '', only FAILED executions can be retried.''))
          (bindR (getDefinition (we_workflowId ex) eg) (\<lambda>d.
             let ex1 = ex\<lparr>we_status := EX_RUNNING, we_retryCount := we_retryCount ex + 1, we_error := None,
                   we_contextData := (case overridePayload of Some p \<Rightarrow> spread (we_contextData ex) p | None \<Rightarrow> we_contextData ex),
                   we_currentStepId := or_str stepIdToResume (we_currentStepId ex)\<rparr>;
                 o2 = trace env (we_correlationId ex1) (''Workflow execution retried (attempt #'' @ show_nat (we_retryCount ex1) @ '')'') ''INFO''
                   (put ''stepId'' (opt_str (we_currentStepId ex1)) [(''executionId'', JStr executionId)]) o1
             in Inr ((d, ex1), store_execution ex1 eg, o2))))"

definition getExecution :: "string \<Rightarrow> engine \<Rightarrow> WorkflowExecution result" where
  "getExecution i eg =
     (case map_of (eg_executions eg) i of
        Some ex \<Rightarrow> Inr ex
      | None \<Rightarrow> Inl (NotFoundException (''Workflow execution '' @ i @ '' not found'')))"

definition listExecutions ::
  "string option \<Rightarrow> WorkflowExecutionStatus option \<Rightarrow> string option \<Rightarrow> nat option \<Rightarrow> engine \<Rightarrow> WorkflowExecution list" where
  "listExecutions workflowId status correlationId limit eg =
     (let l1 = keep_str workflowId we_workflowId (map snd (eg_executions eg));
          l2 = (case status of Some s \<Rightarrow> filter (\<lambda>e. we_status e = s) l1 | None \<Rightarrow> l1);
          l3 = keep_str correlationId we_correlationId l2
      in take (case limit of Some n \<Rightarrow> if n = 0 then 100 else n | None \<Rightarrow> 100) (sort_key (\<lambda>e. - we_startedAt e) l3))"

definition event_trigger :: "DomainEvent \<Rightarrow> WorkflowDefinition \<Rightarrow> trigger" where
  "event_trigger e d =
     \<lparr>tg_workflowId = wd_workflowId d,
      tg_payload = put ''actor'' (de_actor e) (put ''aggregateId'' (Some (JStr (de_aggregateId e)))
        (put ''aggregateType'' (Some (JStr (de_aggregateType e))) (members (de_payload e)))),
      tg_correlationId = Some (de_correlationId e), tg_causationId = Some (de_eventId e), tg_tenantContext = de_tenantContext e\<rparr>"

text \<open>The executions that an event starts, in the order of the definitions.\<close>

fun trigger_all ::
  "'w wf_env \<Rightarrow> DomainEvent \<Rightarrow> WorkflowDefinition list \<Rightarrow> engine \<times> 'w outside \<Rightarrow>
   ((WorkflowDefinition \<times> WorkflowExecution) list \<times> engine \<times> 'w outside) result" where
  "trigger_all env e [] st = Inr ([], st)"
| "trigger_all env e (d # ds) st =
     (if wd_status d = WF_ACTIVE \<and> wd_triggerEvent d = de_eventType e
      then bindR (triggerWorkflow env (event_trigger e d) st) (\<lambda>(x, st1).
           bindR (trigger_all env e ds st1) (\<lambda>(xs, st2). Inr (x # xs, st2)))
      else trigger_all env e ds st)"

definition handleDomainEventTrigger ::
  "'w wf_env \<Rightarrow> DomainEvent \<Rightarrow> engine \<times> 'w outside \<Rightarrow> ((WorkflowDefinition \<times> WorkflowExecution) list \<times> engine \<times> 'w outside) result" where
  "handleDomainEventTrigger env e st = trigger_all env e (map snd (eg_definitions (fst st))) st"

section \<open>The workflows of the platform\<close>

definition plain_step :: "string \<Rightarrow> string \<Rightarrow> WorkflowStepType \<Rightarrow> object \<Rightarrow> string option \<Rightarrow> WorkflowStep" where
  "plain_step i name ty config onSuccess = \<lparr>st_stepId = i, st_name = name, st_type = ty, st_config = config, st_onSuccess = onSuccess,
     st_onFailure = None, st_compensationStepId = None, st_timeoutMs = None, st_maxRetries = None\<rparr>"

definition booking_lifecycle :: "time \<Rightarrow> WorkflowDefinition" where
  "booking_lifecycle now =
     \<lparr>wd_workflowId = ''WF_BOOKING_LIFECYCLE'', wd_name = ''Booking Confirmation & Assignment Flow'',
      wd_description = ''Triggered when a booking is created; verifies payment status and dispatches confirmations.'',
      wd_version = 1, wd_triggerEvent = ''BOOKING_CREATED'', wd_status = WF_ACTIVE,
      wd_steps =
        [plain_step ''step_notify_customer'' ''Notify Customer via Preferred Channel'' NOTIFICATION
           [(''channel'', JStr ''WHATSAPP''), (''message'', JStr ''Your booking has been received!'')] (Some ''step_check_payment_status''),
         plain_step ''step_check_payment_status'' ''Check If Payment Is Captured'' CONDITION
           [(''field'', JStr ''paymentStatus''), (''value'', JStr ''SUCCESS''), (''trueStepId'', JStr ''step_assign_vehicle''),
            (''falseStepId'', JStr ''step_await_payment'')] None,
         plain_step ''step_assign_vehicle'' ''Vehicle Allocation Action'' ACTION
           [(''mutateContext'', JObj [(''vehicleAssigned'', JBool True)])] (Some ''step_end_success''),
         plain_step ''step_await_payment'' ''Send Payment Reminder'' NOTIFICATION
           [(''channel'', JStr ''SMS''), (''message'', JStr ''Please complete your payment within 15 minutes.'')] (Some ''step_end_success''),
         plain_step ''step_end_success'' ''End Workflow'' END_STEP [] None],
      wd_startStepId = ''step_notify_customer'', wd_createdAt = now, wd_updatedAt = now\<rparr>"

definition payment_failure_recovery :: "time \<Rightarrow> WorkflowDefinition" where
  "payment_failure_recovery now =
     \<lparr>wd_workflowId = ''WF_PAYMENT_FAILURE_RECOVERY'', wd_name = ''Payment Failure Intelligent Recovery'',
      wd_description = ''Handles failed payments with multi-channel escalation and vendor notification.'',
      wd_version = 1, wd_triggerEvent = ''PAYMENT_FAILED'', wd_status = WF_ACTIVE,
      wd_steps =
        [plain_step ''step_notify_payment_failure'' ''Send Payment Retry WhatsApp'' NOTIFICATION
           [(''channel'', JStr ''WHATSAPP''), (''message'', JStr ''Your payment attempt failed. Click here to retry.'')]
           (Some ''step_notify_vendor_payment_issue''),
         plain_step ''step_notify_vendor_payment_issue'' ''Alert Vendor Dashboard'' ACTION
           [(''mutateContext'', JObj [(''vendorAlerted'', JBool True)])] (Some ''step_end_recovery''),
         plain_step ''step_end_recovery'' ''End Recovery'' END_STEP [] None],
      wd_startStepId = ''step_notify_payment_failure'', wd_createdAt = now, wd_updatedAt = now\<rparr>"

definition vehicle_overdue :: "time \<Rightarrow> WorkflowDefinition" where
  "vehicle_overdue now =
     \<lparr>wd_workflowId = ''WF_VEHICLE_OVERDUE'', wd_name = ''Vehicle Overdue Tracking & Escalation'',
      wd_description = ''Triggered when a rental exceeds scheduled return time without extension.'',
      wd_version = 1, wd_triggerEvent = ''VEHICLE_OVERDUE'', wd_status = WF_ACTIVE,
      wd_steps =
        [plain_step ''step_overdue_sms'' ''Send Urgent Return Notice'' NOTIFICATION
           [(''channel'', JStr ''SMS''), (''message'', JStr ''Urgent: Your rental is overdue. Please return the car immediately.'')]
           (Some ''step_telematics_locate''),
         plain_step ''step_telematics_locate'' ''Ping Telematics GPS Location'' ACTION
           [(''mutateContext'', JObj [(''gpsPinged'', JBool True)])] (Some ''step_end_overdue''),
         plain_step ''step_end_overdue'' ''End Overdue Flow'' END_STEP [] None],
      wd_startStepId = ''step_overdue_sms'', wd_createdAt = now, wd_updatedAt = now\<rparr>"

definition seedDefaultWorkflows :: "time \<Rightarrow> engine \<Rightarrow> engine" where
  "seedDefaultWorkflows now eg =
     (if map_of (eg_definitions eg) ''WF_BOOKING_LIFECYCLE'' \<noteq> None then eg
      else registerDefinition (vehicle_overdue now) (registerDefinition (payment_failure_recovery now)
        (registerDefinition (booking_lifecycle now) eg)))"

text \<open>The executions for demonstrations.\<close>

definition demo_record ::
  "string \<Rightarrow> string \<Rightarrow> string \<Rightarrow> WorkflowExecutionStatus \<Rightarrow> string \<Rightarrow> object \<Rightarrow> nat \<Rightarrow> time \<Rightarrow> time option \<Rightarrow> WorkflowExecution" where
  "demo_record i flow corr status step ctx retries started completed =
     \<lparr>we_executionId = i, we_workflowId = flow, we_version = 1, we_correlationId = corr, we_causationId = None, we_status = status,
      we_currentStepId = Some step, we_contextData = ctx, we_stepHistory = [], we_retryCount = retries, we_error = None,
      we_startedAt = started, we_completedAt = completed\<rparr>"

definition seedDemoExecutions :: "bool \<Rightarrow> time \<Rightarrow> engine \<Rightarrow> engine result" where
  "seedDemoExecutions production now eg =
     throw_if production (BadRequestException ''Demo operational seeding is strictly prohibited in production environment'')
       (Inr (fold store_execution
          [(demo_record ''wf_exec_88102'' ''WF_BOOKING_LIFECYCLE'' ''cor_bk_delhi_9921'' EX_COMPLETED ''step_end_success''
              [(''bookingId'', JStr ''BK_DEL_9921''), (''paymentStatus'', JStr ''SUCCESS''), (''vehicleAssigned'', JBool True)]
              0 (now - 180000) (Some (now - 178000)))
             \<lparr>we_stepHistory := [\<lparr>he_stepId = ''step_notify_customer'', he_stepName = ''Notify Customer via Preferred Channel'', he_type = NOTIFICATION,
                he_status = ''SUCCESS'', he_startedAt = now - 180000, he_completedAt = Some (now - 179000), he_output = None, he_error = None\<rparr>]\<rparr>,
           demo_record ''wf_exec_88103'' ''WF_PAYMENT_FAILURE_RECOVERY'' ''cor_pay_blr_4421'' EX_COMPLETED ''step_end_recovery''
             [(''paymentId'', JStr ''PAY_BLR_4421''), (''vendorAlerted'', JBool True)] 1 (now - 840000) (Some (now - 835000)),
           (demo_record ''wf_exec_88104'' ''WF_VEHICLE_OVERDUE'' ''cor_od_mum_1092'' EX_FAILED ''step_telematics_locate''
              [(''rentalId'', JStr ''RNT_MUM_1092'')] 2 (now - 3600000) None)
             \<lparr>we_error := Some \<lparr>ee_code = ''504'', ee_message = ''IoT Telematics Gateway Timeout (504 Gateway Timeout)'', ee_failedStepId = None\<rparr>\<rparr>] eg))"

end
