(* ===== verification/WorkflowFacts.thy ===== *)
theory WorkflowFacts
  imports WorkflowEngine
begin

text \<open>
  When the loop of the workflow engine ends and how: definitions whose edges descend end after at most
  as many steps as the rank of the first, those that lead back into a loop of steps that cannot fail
  never do; where a run that failed goes on when it is tried again.
\<close>

section \<open>One turn\<close>

text \<open>The ids that a step can lead to.\<close>

definition next_ids :: "WorkflowStep \<Rightarrow> string list" where
  "next_ids s = concat (map (case_option [] (\<lambda>j. [j]))
     ([st_onSuccess s, st_onFailure s] @
      (if st_type s = CONDITION \<or> st_type s = BRANCH then [config_str ''trueStepId'' s, config_str ''falseStepId'' s] else [])))"

definition infallible :: "WorkflowStep \<Rightarrow> bool" where
  "infallible s \<longleftrightarrow> st_type s \<noteq> PROVIDER_CALL"

lemma field_JObj [simp]: "field k (JObj fs) = map_of fs k"
  by (simp add: field_def)

lemma next_step_in: "j \<in> set_option (next_step s out) \<Longrightarrow> out = branch_of s ex \<or> st_type s \<noteq> CONDITION \<and> st_type s \<noteq> BRANCH \<Longrightarrow> j \<in> set (next_ids s)"
  by (auto simp: next_step_def next_ids_def branch_of_def config_str_def or_str_def Let_def split: if_splits option.splits)

lemma single_step_output:
  assumes "executeSingleStep env s ex w = (Inr out, ex', w')" "st_type s = CONDITION \<or> st_type s = BRANCH"
  shows "out = branch_of s ex"
  using assms by (auto simp: executeSingleStep_def)

lemma single_step_frame:
  assumes "executeSingleStep env s ex w = (r, ex', w')"
  shows "we_stepHistory ex' = we_stepHistory ex \<and> we_executionId ex' = we_executionId ex \<and> we_workflowId ex' = we_workflowId ex \<and>
    we_currentStepId ex' = we_currentStepId ex \<and> we_status ex' = we_status ex"
  using assms by (auto simp: executeSingleStep_def Let_def split: WorkflowStepType.splits prod.splits sum.splits option.splits if_splits)

lemma infallible_step:
  assumes "infallible s"
  shows "\<exists>out ex' w'. executeSingleStep env s ex w = (Inr out, ex', w')"
  using assms by (cases "st_type s") (auto simp: infallible_def executeSingleStep_def Let_def split: prod.split sum.split)

lemma compensation_frame:
  assumes "executeCompensation env d i ex o1 = (ex', o2)"
  shows "we_stepHistory ex' = we_stepHistory ex \<and> we_executionId ex' = we_executionId ex \<and> we_workflowId ex' = we_workflowId ex \<and>
    we_currentStepId ex' = we_currentStepId ex"
  using assms by (auto simp: executeCompensation_def split: option.splits prod.splits sum.splits dest: single_step_frame)

lemma step_failed_shape:
  assumes "step_failed env d s msg ex o1 = (ex', o2)"
  shows "we_status ex' = EX_FAILED \<and> we_currentStepId ex' = we_currentStepId ex \<and> we_stepHistory ex' = we_stepHistory ex \<and>
    we_executionId ex' = we_executionId ex \<and> we_workflowId ex' = we_workflowId ex \<and>
    we_error ex' = Some \<lparr>ee_code = ''STEP_EXECUTION_ERROR'', ee_message = msg, ee_failedStepId = Some (st_stepId s)\<rparr>"
  using assms by (auto simp: step_failed_def Let_def split: prod.splits if_splits dest: compensation_frame)

lemma find_step_id: "find_step d i = Some s \<Longrightarrow> st_stepId s = i \<and> s \<in> set (wd_steps d)"
  unfolding find_step_def by (drule map_of_SomeD) auto

text \<open>A turn that goes on.\<close>

lemma loop_turn_Inr:
  assumes "loop_turn env d i (ex, o1) = Inr (nxt, ex', o2)"
  shows "\<exists>s. find_step d i = Some s \<and> st_type s \<noteq> END_STEP \<and> set_option nxt \<subseteq> set (next_ids s) \<and> we_currentStepId ex' = nxt \<and>
    length (we_stepHistory ex') = Suc (length (we_stepHistory ex)) \<and> we_executionId ex' = we_executionId ex \<and> we_workflowId ex' = we_workflowId ex"
proof -
  obtain s where s: "find_step d i = Some s" "st_type s \<noteq> END_STEP"
    using assms by (auto simp: loop_turn_def split: option.splits if_splits)
  define ex1 where "ex1 = push_history (new_entry s (now_of env o1)) ex"
  obtain r ex2 w2 where step: "executeSingleStep env s ex1 (fst o1) = (r, ex2, w2)" by (metis prod.exhaust)
  have fr: "we_stepHistory ex2 = we_stepHistory ex @ [new_entry s (now_of env o1)]" "we_executionId ex2 = we_executionId ex" "we_workflowId ex2 = we_workflowId ex"
    using single_step_frame [OF step] by (simp_all add: ex1_def push_history_def)
  show ?thesis
  proof (cases r)
    case (Inr out)
    have "set_option (next_step s out) \<subseteq> set (next_ids s)"
      using next_step_in [of _ s out ex1] single_step_output [OF step [unfolded Inr]] by blast
    then show ?thesis using assms s step Inr fr
      by (auto simp: loop_turn_def ex1_def [symmetric] Let_def settle_history_def)
  next
    case (Inl msg)
    then have "str_truthy (st_onFailure s)" using assms s step by (auto simp: loop_turn_def ex1_def [symmetric] Let_def split: if_splits)
    then have "set_option (st_onFailure s) \<subseteq> set (next_ids s)" by (auto simp: next_ids_def split: option.splits)
    then show ?thesis using assms s step Inl fr
      by (auto simp: loop_turn_def ex1_def [symmetric] Let_def settle_history_def split: if_splits)
  qed
qed

text \<open>A turn that returns.\<close>

definition stopped_at :: "WorkflowDefinition \<Rightarrow> string \<Rightarrow> WorkflowExecution \<Rightarrow> bool" where
  "stopped_at d i ex \<longleftrightarrow> we_status ex = EX_FAILED \<and> we_currentStepId ex = Some i \<and>
     (\<exists>e. we_error ex = Some e \<and>
       (if ee_code e = ''STEP_NOT_FOUND'' then find_step d i = None else ee_code e = ''STEP_EXECUTION_ERROR'' \<and> ee_failedStepId e = Some i))"

lemma loop_turn_Inl:
  assumes "loop_turn env d i (ex, o1) = Inl (ex', o2)" "we_currentStepId ex = Some i"
  shows "we_executionId ex' = we_executionId ex \<and> we_workflowId ex' = we_workflowId ex \<and>
    (we_status ex' = EX_COMPLETED \<and> (\<exists>s. find_step d i = Some s \<and> st_type s = END_STEP) \<or>
     stopped_at d i ex' \<and> (\<forall>s. find_step d i = Some s \<longrightarrow> \<not> infallible s)) \<and>
    length (we_stepHistory ex') \<le> Suc (length (we_stepHistory ex))"
proof (cases "find_step d i")
  case None
  with assms show ?thesis by (auto simp: loop_turn_def not_found_def stopped_at_def)
next
  case (Some s)
  note s = find_step_id [OF Some]
  show ?thesis
  proof (cases "st_type s = END_STEP")
    case True
    with Some assms show ?thesis by (auto simp: loop_turn_def reach_end_def)
  next
    case False
    define ex1 where "ex1 = push_history (new_entry s (now_of env o1)) ex"
    obtain r ex2 w2 where step: "executeSingleStep env s ex1 (fst o1) = (r, ex2, w2)" by (metis prod.exhaust)
    note fr = single_step_frame [OF step]
    obtain msg where r: "r = Inl msg" using assms Some False step
      by (cases r) (auto simp: loop_turn_def ex1_def [symmetric] Let_def)
    have inf: "\<not> infallible s" using infallible_step [of s env ex1 "fst o1"] step r by auto
    define ex3 where "ex3 = settle_history (\<lambda>h. h\<lparr>he_status := ''FAILED'', he_completedAt := Some (now_of env (w2, snd o1)), he_error := Some msg\<rparr>) ex2"
    have "step_failed env d s msg ex3 (w2, snd o1) = (ex', o2)"
      using assms Some False step r by (simp add: loop_turn_def ex1_def [symmetric] ex3_def Let_def split: if_splits)
    from step_failed_shape [OF this] fr s assms(2) Some inf show ?thesis
      by (simp add: ex3_def settle_history_def ex1_def push_history_def stopped_at_def)
  qed
qed

section \<open>How a run ends\<close>

text \<open>
  The run ends on the current step as it is stored: completed, or failed at the step that is named in
  its error. \<open>cannot_fail\<close> holds when no run can end in a failure: no step calls a provider and every
  edge leads to a step.
\<close>

definition cannot_fail :: "WorkflowDefinition \<Rightarrow> bool" where
  "cannot_fail d \<longleftrightarrow> list_all (\<lambda>s. infallible s \<and> list_all (\<lambda>j. j = '''' \<or> find_step d j \<noteq> None) (next_ids s)) (wd_steps d)"

definition ended :: "WorkflowDefinition \<Rightarrow> WorkflowExecution \<Rightarrow> bool" where
  "ended d ex \<longleftrightarrow> we_status ex = EX_COMPLETED \<or> (\<exists>i. stopped_at d i ex)"

lemma steps_result:
  assumes "executeWorkflowSteps env d cur st = Some st'" "we_currentStepId (fst st) = cur"
  shows "ended d (fst st') \<and> we_executionId (fst st') = we_executionId (fst st) \<and> we_workflowId (fst st') = we_workflowId (fst st) \<and>
    (cannot_fail d \<and> (\<forall>i \<in> set_option cur. i = '''' \<or> find_step d i \<noteq> None) \<longrightarrow> we_status (fst st') = EX_COMPLETED)"
  using assms(2)
proof (induction rule: executeWorkflowSteps.raw_induct [OF _ assms(1), consumes 0, case_names step])
  case (step f env d cur st st')
  obtain ex o1 where st: "st = (ex, o1)" by (cases st)
  show ?case
  proof (cases "str_truthy cur")
    case False
    with step(2) have "st' = run_off env st" by simp
    then show ?thesis by (simp add: run_off_def st ended_def)
  next
    case True
    then obtain i where i: "cur = Some i" "i \<noteq> ''''" by (cases cur) auto
    show ?thesis
    proof (cases "loop_turn env d i st")
      case (Inl x)
      with step(2) i have "st' = x" by simp
      moreover obtain ex' o2 where "x = (ex', o2)" by (cases x)
      ultimately have lt: "loop_turn env d i (ex, o1) = Inl (ex', o2)" "st' = (ex', o2)" using Inl st by simp_all
      from loop_turn_Inl [OF lt(1)] step(3) i st lt(2) show ?thesis
        by (force simp: ended_def cannot_fail_def list_all_iff dest: find_step_id)
    next
      case (Inr y)
      obtain nxt ex' o2 where y: "y = (nxt, ex', o2)" by (metis prod.exhaust)
      with Inr step(2) i have f: "f env d nxt (ex', o2) = Some st'" by simp
      from loop_turn_Inr [of env d i ex o1 nxt ex' o2] Inr y st obtain s where s: "find_step d i = Some s" "set_option nxt \<subseteq> set (next_ids s)"
        "we_currentStepId ex' = nxt" "we_executionId ex' = we_executionId ex" "we_workflowId ex' = we_workflowId ex" by auto
      have "cannot_fail d \<Longrightarrow> \<forall>j \<in> set_option nxt. j = '''' \<or> find_step d j \<noteq> None"
        using find_step_id [OF s(1)] s(2) by (fastforce simp: cannot_fail_def list_all_iff)
      with step(1) [OF f] s(3-5) st show ?thesis by auto
    qed
  qed
qed

section \<open>Termination\<close>

definition ranked :: "WorkflowDefinition \<Rightarrow> (string \<Rightarrow> nat) \<Rightarrow> bool" where
  "ranked d rank \<longleftrightarrow> list_all (\<lambda>s. list_all (\<lambda>j. find_step d j = None \<or> rank j < rank (st_stepId s)) (next_ids s)) (wd_steps d)"

definition rank_at :: "WorkflowDefinition \<Rightarrow> (string \<Rightarrow> nat) \<Rightarrow> string option \<Rightarrow> nat" where
  "rank_at d rank cur = (case cur of Some i \<Rightarrow> if find_step d i = None then 0 else Suc (rank i) | None \<Rightarrow> 0)"

lemma ranked_ends:
  assumes "ranked d rank" "we_currentStepId (fst st) = cur"
  shows "\<exists>st'. executeWorkflowSteps env d cur st = Some st' \<and>
    length (we_stepHistory (fst st')) \<le> length (we_stepHistory (fst st)) + rank_at d rank cur"
  using assms(2)
proof (induction "rank_at d rank cur" arbitrary: cur st rule: less_induct)
  case less
  obtain ex o1 where st: "st = (ex, o1)" by (cases st)
  show ?case
  proof (cases "str_truthy cur")
    case False
    then show ?thesis by (subst executeWorkflowSteps.simps) (simp add: run_off_def st)
  next
    case True
    then obtain i where i: "cur = Some i" by (cases cur) auto
    show ?thesis
    proof (cases "loop_turn env d i st")
      case (Inl x)
      obtain ex' o2 where x: "x = (ex', o2)" by (cases x)
      have "length (we_stepHistory ex') \<le> length (we_stepHistory ex) + rank_at d rank cur"
      proof (cases "find_step d i")
        case None
        with Inl x st show ?thesis by (auto simp: loop_turn_def not_found_def)
      next
        case (Some s)
        with loop_turn_Inl [of env d i ex o1 ex' o2] Inl x st i less.prems show ?thesis by (simp add: rank_at_def)
      qed
      then show ?thesis using True Inl i x st by (subst executeWorkflowSteps.simps) simp
    next
      case (Inr y)
      obtain nxt ex' o2 where y: "y = (nxt, ex', o2)" by (metis prod.exhaust)
      from loop_turn_Inr [of env d i ex o1 nxt ex' o2] Inr y st obtain s where s: "find_step d i = Some s" "set_option nxt \<subseteq> set (next_ids s)"
        "we_currentStepId ex' = nxt" "length (we_stepHistory ex') = Suc (length (we_stepHistory ex))" by auto
      have lt: "rank_at d rank nxt < rank_at d rank cur"
        using assms(1) s(1,2) find_step_id [OF s(1)] i by (force simp: ranked_def rank_at_def list_all_iff split: option.splits)
      from less.hyps [OF lt, of "(ex', o2)"] s(3) obtain st' where st': "executeWorkflowSteps env d nxt (ex', o2) = Some st'"
        "length (we_stepHistory (fst st')) \<le> length (we_stepHistory ex') + rank_at d rank nxt" by auto
      have "executeWorkflowSteps env d cur st = Some st'" using True Inr i y st'(1) by (subst executeWorkflowSteps.simps) simp
      with st'(2) lt s(4) st show ?thesis by auto
    qed
  qed
qed

lemma acyclic_run:
  assumes "ranked d rank"
  shows "\<exists>ex o2. run_execution env d (ex0, o1) = Some (ex, o2) \<and> ended d ex \<and>
    length (we_stepHistory ex) \<le> length (we_stepHistory ex0) + rank_at d rank (we_currentStepId ex0) \<and>
    (cannot_fail d \<and> (\<forall>i \<in> set_option (we_currentStepId ex0). find_step d i \<noteq> None) \<longrightarrow> we_status ex = EX_COMPLETED)"
proof -
  from ranked_ends [OF assms HOL.refl, of env "(ex0, o1)"] obtain st' where st': "executeWorkflowSteps env d (we_currentStepId ex0) (ex0, o1) = Some st'"
    "length (we_stepHistory (fst st')) \<le> length (we_stepHistory ex0) + rank_at d rank (we_currentStepId ex0)" by auto
  moreover from steps_result [OF st'(1)] have "ended d (fst st')"
    "cannot_fail d \<and> (\<forall>i \<in> set_option (we_currentStepId ex0). find_step d i \<noteq> None) \<longrightarrow> we_status (fst st') = EX_COMPLETED" by auto
  ultimately show ?thesis by (cases st') (auto simp: run_execution_def)
qed

text \<open>
  C38: a workflow whose edges lead from each step to steps of smaller rank ends, whatever the
  integrations answer: after at most one step more than the rank of the first, with the execution
  either completed or failed at the step named in its error.
\<close>

theorem acyclic_workflow_ends:
  assumes "ranked d rank"
  shows "\<exists>ex o2. run_execution env d (ex0, o1) = Some (ex, o2) \<and> ended d ex \<and>
    length (we_stepHistory ex) \<le> length (we_stepHistory ex0) + rank_at d rank (we_currentStepId ex0)"
  using acyclic_run [OF assms, of env ex0 o1] by blast

text \<open>The step ids of the platform's workflows, ranked.\<close>

definition seed_rank :: "string \<Rightarrow> nat" where
  "seed_rank i = (case map_of
     [(''step_notify_customer'', 3), (''step_check_payment_status'', 2), (''step_assign_vehicle'', 1), (''step_await_payment'', 1),
      (''step_notify_payment_failure'', 2), (''step_notify_vendor_payment_issue'', 1),
      (''step_overdue_sms'', 2), (''step_telematics_locate'', 1)] i of Some n \<Rightarrow> n | None \<Rightarrow> 0)"

lemmas seed_defs = ranked_def cannot_fail_def infallible_def next_ids_def find_step_def plain_step_def config_str_def as_str_def seed_rank_def

lemma seeds_ranked:
  "ranked (booking_lifecycle now) seed_rank" "ranked (payment_failure_recovery now) seed_rank" "ranked (vehicle_overdue now) seed_rank"
  by (simp_all add: seed_defs booking_lifecycle_def payment_failure_recovery_def vehicle_overdue_def)

lemma seeds_cannot_fail:
  "cannot_fail (booking_lifecycle now)" "cannot_fail (payment_failure_recovery now)" "cannot_fail (vehicle_overdue now)"
  by (simp_all add: seed_defs booking_lifecycle_def payment_failure_recovery_def vehicle_overdue_def)

definition empty_engine :: engine where
  "empty_engine = \<lparr>eg_definitions = [], eg_executions = []\<rparr>"

lemma seeded_definitions:
  "eg_definitions (seedDefaultWorkflows now empty_engine) =
     [(''WF_BOOKING_LIFECYCLE'', booking_lifecycle now), (''WF_PAYMENT_FAILURE_RECOVERY'', payment_failure_recovery now),
      (''WF_VEHICLE_OVERDUE'', vehicle_overdue now)]"
  by (simp add: seedDefaultWorkflows_def empty_engine_def registerDefinition_def booking_lifecycle_def payment_failure_recovery_def vehicle_overdue_def)

lemma trigger_InrD:
  assumes "triggerWorkflow env p (eg, o0) = Inr ((d, ex), eg', o1)"
  shows "map_of (eg_definitions eg) (tg_workflowId p) = Some d \<and> wd_status d = WF_ACTIVE \<and> we_currentStepId ex = Some (wd_startStepId d) \<and>
    we_status ex = EX_RUNNING \<and> we_stepHistory ex = [] \<and> eg' = store_execution ex eg"
proof -
  obtain w tr where o0: "o0 = (w, tr)" by (cases o0)
  obtain i w1 where i: "en_id env ''wf_exec_'' w = (i, w1)" by fastforce
  obtain f w2 where f: "(if str_truthy (tg_correlationId p) then ('''', w1) else en_id env ''cor_'' w1) = (f, w2)" by fastforce
  show ?thesis using assms
    by (cases "map_of (eg_definitions eg) (tg_workflowId p)")
      (auto simp: triggerWorkflow_def getDefinition_def Let_def o0 i f throw_if_Inr_iff)
qed

lemma start_resolves:
  "d \<in> {booking_lifecycle now, payment_failure_recovery now, vehicle_overdue now} \<Longrightarrow> find_step d (wd_startStepId d) \<noteq> None"
  by (auto simp: find_step_def booking_lifecycle_def payment_failure_recovery_def vehicle_overdue_def plain_step_def)

text \<open>
  Each of the platform's own workflows, once triggered, is completed after at most four steps,
  whatever the event carries and whatever the integrations answer.
\<close>

theorem seeded_workflows_complete:
  assumes "triggerWorkflow env p (seedDefaultWorkflows now empty_engine, o0) = Inr ((d, ex0), eg, o1)"
  shows "\<exists>ex o2. run_execution env d (ex0, o1) = Some (ex, o2) \<and> we_status ex = EX_COMPLETED \<and> length (we_stepHistory ex) \<le> 4"
proof -
  from trigger_InrD [OF assms] have d: "d \<in> {booking_lifecycle now, payment_failure_recovery now, vehicle_overdue now}"
    and ex0: "we_currentStepId ex0 = Some (wd_startStepId d)" "we_stepHistory ex0 = []"
    by (auto simp: seeded_definitions split: if_splits)
  from d seeds_ranked seeds_cannot_fail have r: "ranked d seed_rank" "cannot_fail d" by auto
  have "rank_at d seed_rank (we_currentStepId ex0) \<le> 4"
    using d by (auto simp: ex0 rank_at_def seed_rank_def booking_lifecycle_def payment_failure_recovery_def vehicle_overdue_def)
  with acyclic_run [OF r(1), of env ex0 o1] r(2) start_resolves [OF d] ex0 show ?thesis by fastforce
qed

section \<open>Workflows that never end\<close>

text \<open>
  A definition whose steps lead back into a set of steps of which none can fail, none is a branch
  and each goes on within the set keeps its execution running for ever: there is no limit on the number
  of turns.
\<close>

theorem cyclic_workflow_never_ends:
  assumes "\<forall>i \<in> L. i \<noteq> '''' \<and> (\<exists>s. find_step d i = Some s \<and> st_type s \<in> {NOTIFICATION, ACTION, DELAY, PARALLEL, TRIGGER, APPROVAL, WEBHOOK, PAYMENT} \<and>
      st_onSuccess s \<in> Some ` L)"
    and "we_currentStepId ex \<in> Some ` L"
  shows "run_execution env d (ex, o1) = None"
proof -
  have turn: "\<exists>j st'. j \<in> L \<and> loop_turn env d i st = Inr (Some j, st')" if "i \<in> L" for env :: "'a wf_env" and i st
  proof -
    from assms(1) that obtain s j where s: "find_step d i = Some s" "st_onSuccess s = Some j" "j \<in> L"
      "st_type s \<in> {NOTIFICATION, ACTION, DELAY, PARALLEL, TRIGGER, APPROVAL, WEBHOOK, PAYMENT}" by blast
    obtain ex o1 where st: "st = (ex, o1)" by (cases st)
    have inf: "infallible s" using s(4) by (auto simp: infallible_def)
    obtain out ex2 w2 where "executeSingleStep env s (push_history (new_entry s (now_of env o1)) ex) (fst o1) = (Inr out, ex2, w2)"
      using infallible_step [OF inf, of env "push_history (new_entry s (now_of env o1)) ex" "fst o1"] by blast
    with s st show ?thesis by (auto simp: loop_turn_def Let_def next_step_def)
  qed
  have none: "\<not> (\<exists>i \<in> L. cur = Some i \<and> d' = d)" if "executeWorkflowSteps env d' cur st = Some r" for env :: "'a wf_env" and d' cur st r
  proof (rule executeWorkflowSteps.raw_induct [OF _ that, where P = "\<lambda>env d' cur st r. \<not> (\<exists>i \<in> L. cur = Some i \<and> d' = d)"])
    fix f :: "'a wf_env \<Rightarrow> _" and env d' cur st r
    assume IH: "\<And>env d' cur st r. f env d' cur st = Some r \<Longrightarrow> \<not> (\<exists>i \<in> L. cur = Some i \<and> d' = d)"
      and eq: "(if \<not> str_truthy cur then Some (run_off env st)
        else case loop_turn env d' (the cur) st of Inl st' \<Rightarrow> Some st' | Inr (nxt, st') \<Rightarrow> f env d' nxt st') = Some r"
    show "\<not> (\<exists>i \<in> L. cur = Some i \<and> d' = d)"
    proof
      assume "\<exists>i \<in> L. cur = Some i \<and> d' = d"
      then obtain i where i: "i \<in> L" "cur = Some i" "d' = d" by blast
      with assms(1) have "str_truthy cur" by auto
      with turn [OF i(1), of env st] eq i obtain j st' where "j \<in> L" "f env d (Some j) st' = Some r" by auto
      with IH i(3) show False by blast
    qed
  qed
  show ?thesis
  proof (cases "run_execution env d (ex, o1)")
    case (Some r)
    with none [of env d "we_currentStepId ex" "(ex, o1)" r] assms(2) show ?thesis by (auto simp: run_execution_def)
  qed
qed

section \<open>Trying again\<close>

text \<open>
  An execution that failed and is tried again without naming a step goes on at the step that
  failed: the one whose id the error carries, or the missing one.
\<close>

theorem retry_resumes_at_the_failure:
  assumes "run_execution env d (ex0, o1) = Some (ex, o2)" "we_status ex \<noteq> EX_COMPLETED"
    and "retryExecution env' (we_executionId ex) None override (store_execution ex eg, o3) = Inr ((d', ex'), st')"
  shows "\<exists>i. stopped_at d i ex \<and> we_currentStepId ex' = Some i \<and> we_status ex' = EX_RUNNING \<and> we_error ex' = None \<and>
    we_retryCount ex' = we_retryCount ex + 1 \<and> we_stepHistory ex' = we_stepHistory ex"
proof -
  from steps_result [OF assms(1) [unfolded run_execution_def]] assms(2) obtain i where i: "stopped_at d i ex"
    by (auto simp: ended_def)
  moreover have "map_of (eg_executions (store_execution ex eg)) (we_executionId ex) = Some ex" by (simp add: store_execution_def)
  ultimately show ?thesis using assms(3)
    by (auto simp: retryExecution_def Let_def result_iffs or_str_def stopped_at_def split: option.splits)
qed


section \<open>A provider that is down\<close>

definition down_env :: "unit wf_env" where
  "down_env = \<lparr>en_now = \<lambda>_. 0, en_id = \<lambda>p w. (p @ ''1'', w), en_sleep = \<lambda>_ w. w, en_runtime = \<lambda>_ w. (Inl ''504'', w)\<rparr>"

definition demo_execution :: "string \<Rightarrow> WorkflowExecution" where
  "demo_execution i = \<lparr>we_executionId = ''e1'', we_workflowId = ''w1'', we_version = 1, we_correlationId = ''c1'', we_causationId = None,
     we_status = EX_RUNNING, we_currentStepId = Some i, we_contextData = [], we_stepHistory = [], we_retryCount = 0, we_error = None,
     we_startedAt = 0, we_completedAt = None\<rparr>"

definition demo_workflow :: "WorkflowStep list \<Rightarrow> WorkflowDefinition" where
  "demo_workflow steps = \<lparr>wd_workflowId = ''w1'', wd_name = ''demo'', wd_description = '''', wd_version = 1, wd_triggerEvent = ''X'',
     wd_status = WF_ACTIVE, wd_steps = steps, wd_startStepId = ''s1'', wd_createdAt = 0, wd_updatedAt = 0\<rparr>"

definition demo_trigger :: trigger where
  "demo_trigger = \<lparr>tg_workflowId = ''WF_VEHICLE_OVERDUE'', tg_payload = [], tg_correlationId = None, tg_causationId = None, tg_tenantContext = None\<rparr>"

lemma acyclic_workflow_ends_witness:
  "\<exists>ex o2. run_execution down_env (booking_lifecycle 0) (demo_execution ''step_notify_customer'', ((), empty_tracer)) = Some (ex, o2) \<and>
     length (we_stepHistory ex) \<le> 4"
proof -
  have "rank_at (booking_lifecycle 0) seed_rank (Some ''step_notify_customer'') \<le> 4"
    by (simp add: rank_at_def seed_rank_def)
  with acyclic_workflow_ends [OF seeds_ranked(1) [of 0], of down_env "demo_execution ''step_notify_customer''" "((), empty_tracer)"]
  show ?thesis by (force simp: demo_execution_def)
qed

lemma demo_triggered:
  "\<exists>d ex eg o1. triggerWorkflow down_env demo_trigger (seedDefaultWorkflows 0 empty_engine, ((), empty_tracer)) = Inr ((d, ex), eg, o1)"
  by (simp add: triggerWorkflow_def getDefinition_def seeded_definitions demo_trigger_def down_env_def vehicle_overdue_def Let_def trace_def)

lemma seeded_workflows_complete_witness:
  "\<exists>d ex0 eg o1 ex o2. triggerWorkflow down_env demo_trigger (seedDefaultWorkflows 0 empty_engine, ((), empty_tracer)) = Inr ((d, ex0), eg, o1) \<and>
     run_execution down_env d (ex0, o1) = Some (ex, o2) \<and> we_status ex = EX_COMPLETED"
proof -
  obtain d ex0 eg o1 where t: "triggerWorkflow down_env demo_trigger (seedDefaultWorkflows 0 empty_engine, ((), empty_tracer)) = Inr ((d, ex0), eg, o1)"
    using demo_triggered by blast
  with seeded_workflows_complete [OF t] show ?thesis by blast
qed

definition nagging :: WorkflowDefinition where
  "nagging = demo_workflow [plain_step ''s1'' ''Remind'' NOTIFICATION [] (Some ''s2''), plain_step ''s2'' ''Wait'' DELAY [] (Some ''s1'')]"

lemma cyclic_workflow_never_ends_witness: "run_execution down_env nagging (demo_execution ''s1'', ((), empty_tracer)) = None"
  by (rule cyclic_workflow_never_ends [where L = "{''s1'', ''s2''}"])
    (simp_all add: nagging_def demo_workflow_def demo_execution_def plain_step_def find_step_def)

definition charging :: WorkflowDefinition where
  "charging = demo_workflow [plain_step ''s1'' ''Charge'' PROVIDER_CALL [] None]"

lemma charging_fails:
  "\<exists>ex o2. run_execution down_env charging (demo_execution ''s1'', ((), empty_tracer)) = Some (ex, o2) \<and> we_status ex = EX_FAILED \<and>
     we_executionId ex = ''e1'' \<and> we_workflowId ex = ''w1''"
proof -
  obtain x where x: "loop_turn down_env charging ''s1'' (demo_execution ''s1'', ((), empty_tracer)) = Inl x"
    by (simp add: loop_turn_def charging_def demo_workflow_def plain_step_def find_step_def executeSingleStep_def down_env_def Let_def split_beta)
  obtain ex o2 where "x = (ex, o2)" by (cases x)
  with x have t: "loop_turn down_env charging ''s1'' (demo_execution ''s1'', ((), empty_tracer)) = Inl (ex, o2)" by simp
  moreover from this have "we_status ex = EX_FAILED \<and> we_executionId ex = ''e1'' \<and> we_workflowId ex = ''w1''"
    using loop_turn_Inl [OF t] by (auto simp: demo_execution_def stopped_at_def charging_def demo_workflow_def plain_step_def find_step_def)
  ultimately show ?thesis
    by (intro exI [of _ ex] exI [of _ o2]) (simp add: run_execution_def demo_execution_def executeWorkflowSteps.simps)
qed

lemma retry_resumes_at_the_failure_witness:
  "\<exists>ex o2 d ex' st' i. run_execution down_env charging (demo_execution ''s1'', ((), empty_tracer)) = Some (ex, o2) \<and>
     retryExecution down_env (we_executionId ex) None None
       (store_execution ex (registerDefinition charging empty_engine), o2) = Inr ((d, ex'), st') \<and>
     stopped_at charging i ex \<and> we_currentStepId ex' = Some i"
proof -
  obtain ex o2 where r: "run_execution down_env charging (demo_execution ''s1'', ((), empty_tracer)) = Some (ex, o2)"
    and f: "we_status ex = EX_FAILED" "we_executionId ex = ''e1''" "we_workflowId ex = ''w1''" using charging_fails by blast
  obtain d ex' st' where t: "retryExecution down_env (we_executionId ex) None None
      (store_execution ex (registerDefinition charging empty_engine), o2) = Inr ((d, ex'), st')"
    using f by (simp add: retryExecution_def store_execution_def registerDefinition_def empty_engine_def getDefinition_def charging_def demo_workflow_def Let_def)
  from retry_resumes_at_the_failure [OF r _ t] f(1) r t show ?thesis by fastforce
qed

text \<open>A notification that the integrations refuse is recorded as sent, outside demonstrations too.\<close>

lemma refused_notification_counts_as_sent:
  assumes "st_type s = NOTIFICATION" "en_runtime env (notification_call s ex) w = (Inl msg, w')"
  shows "executeSingleStep env s ex w = (Inr (JObj [(''sent'', JBool True), (''simulated'', JBool True)]), ex, w')"
  using assms by (simp add: executeSingleStep_def simulated_def)

end
