(* ===== verification/CommunicationIntelligence.thy ===== *)
theory CommunicationIntelligence
  imports JsObject
begin

text \<open>
  The channels to reach a customer on (\<open>operations/communication-intelligence.service.ts\<close>): the profile
  of a user, the chain of channels and how deliveries change the scores. Scores are doubles: \<open>fl\<close> rounds
  each operation. The hour of the user's time zone is an argument.
\<close>

datatype channel = WHATSAPP | SMS | PUSH | EMAIL

fun show_channel :: "channel \<Rightarrow> string" where
  "show_channel WHATSAPP = ''WHATSAPP''"
| "show_channel SMS = ''SMS''"
| "show_channel PUSH = ''PUSH''"
| "show_channel EMAIL = ''EMAIL''"

record CommunicationProfile =
  cp_userId :: string
  cp_preferredChannel :: channel
  cp_preferredLanguage :: string
  cp_channelSuccessRates :: "(channel \<times> rat) list"
  cp_optedOutChannels :: "channel list"
  cp_bestSendTimeWindow :: "(nat \<times> nat) option"
  cp_deliveryFailureCount :: "(channel \<times> nat) list"
  cp_lastUpdated :: time

type_synonym profiles = "(string \<times> CommunicationProfile) list"

definition channel_hierarchy :: "channel list" where
  "channel_hierarchy = [WHATSAPP, SMS, PUSH, EMAIL]"

definition default_profile :: "time \<Rightarrow> string \<Rightarrow> CommunicationProfile" where
  "default_profile now userId =
     \<lparr>cp_userId = userId, cp_preferredChannel = WHATSAPP, cp_preferredLanguage = ''en'',
      cp_channelSuccessRates = [(WHATSAPP, fl 0.95), (SMS, fl 0.90), (PUSH, fl 0.85), (EMAIL, fl 0.80)],
      cp_optedOutChannels = [], cp_bestSendTimeWindow = Some (9, 21),
      cp_deliveryFailureCount = [(WHATSAPP, 0), (SMS, 0), (PUSH, 0), (EMAIL, 0)], cp_lastUpdated = now\<rparr>"

definition getOrCreateProfile :: "time \<Rightarrow> string \<Rightarrow> profiles \<Rightarrow> CommunicationProfile \<times> profiles" where
  "getOrCreateProfile now userId ps =
     (case map_of ps userId of
        Some p \<Rightarrow> (p, ps)
      | None \<Rightarrow> (default_profile now userId, AList.update userId (default_profile now userId) ps))"

definition updatePreferences ::
  "time \<Rightarrow> string \<Rightarrow> channel option \<Rightarrow> string option \<Rightarrow> channel list option \<Rightarrow> (nat \<times> nat) option \<Rightarrow> profiles \<Rightarrow>
   CommunicationProfile \<times> profiles" where
  "updatePreferences now userId preferred language optedOut window ps =
     (let (p, ps1) = getOrCreateProfile now userId ps;
          p1 = (case preferred of Some c \<Rightarrow> p\<lparr>cp_preferredChannel := c\<rparr> | None \<Rightarrow> p);
          p2 = (if str_truthy language then p1\<lparr>cp_preferredLanguage := the language\<rparr> else p1);
          p3 = (case optedOut of Some cs \<Rightarrow> p2\<lparr>cp_optedOutChannels := cs\<rparr> | None \<Rightarrow> p2);
          p4 = (case window of Some x \<Rightarrow> p3\<lparr>cp_bestSendTimeWindow := Some x\<rparr> | None \<Rightarrow> p3);
          p5 = p4\<lparr>cp_lastUpdated := now\<rparr>
      in (p5, AList.update userId p5 ps1))"

definition score :: "rat \<Rightarrow> CommunicationProfile \<Rightarrow> channel \<Rightarrow> rat" where
  "score d p c = (case map_of (cp_channelSuccessRates p) c of Some x \<Rightarrow> x | None \<Rightarrow> d)"

definition channel_chain :: "CommunicationProfile \<Rightarrow> channel list" where
  "channel_chain p =
     (let preferred = cp_preferredChannel p;
          ordered = preferred # filter (\<lambda>c. c \<noteq> preferred) channel_hierarchy;
          available = filter (\<lambda>c. c \<notin> set (cp_optedOutChannels p)) ordered
      in case available of
           [] \<Rightarrow> [SMS]
         | first # rest \<Rightarrow> if rest = [] then available else first # sort_key (\<lambda>c. - score 0.5 p c) rest)"

text \<open>The parameter \<open>isTransactional\<close> is not looked at.\<close>

definition resolveChannelChain :: "time \<Rightarrow> string \<Rightarrow> bool \<Rightarrow> profiles \<Rightarrow> channel list \<times> profiles" where
  "resolveChannelChain now userId isTransactional ps =
     (let (p, ps1) = getOrCreateProfile now userId ps in (channel_chain p, ps1))"

definition recordDeliverySuccess :: "time \<Rightarrow> string \<Rightarrow> channel \<Rightarrow> profiles \<Rightarrow> profiles" where
  "recordDeliverySuccess now userId c ps =
     (let (p, ps1) = getOrCreateProfile now userId ps; current = score (fl 0.8) p c;
          p1 = p\<lparr>cp_channelSuccessRates := AList.update c (min 1 (fl (fl (current * fl 0.9) + fl 0.1))) (cp_channelSuccessRates p),
                 cp_lastUpdated := now\<rparr>
      in AList.update userId p1 ps1)"

definition recordDeliveryFailure :: "time \<Rightarrow> string \<Rightarrow> channel \<Rightarrow> profiles \<Rightarrow> profiles" where
  "recordDeliveryFailure now userId c ps =
     (let (p, ps1) = getOrCreateProfile now userId ps; current = score (fl 0.8) p c;
          count = (case map_of (cp_deliveryFailureCount p) c of Some n \<Rightarrow> n | None \<Rightarrow> 0);
          p1 = p\<lparr>cp_deliveryFailureCount := AList.update c (count + 1) (cp_deliveryFailureCount p),
                 cp_channelSuccessRates := AList.update c (max (fl 0.1) (fl (current * fl 0.8))) (cp_channelSuccessRates p),
                 cp_lastUpdated := now\<rparr>
      in AList.update userId p1 ps1)"

definition quiet :: "nat \<Rightarrow> CommunicationProfile \<Rightarrow> bool" where
  "quiet hour p =
     (case cp_bestSendTimeWindow p of None \<Rightarrow> False | Some (startHour, endHour) \<Rightarrow> hour < startHour \<or> hour \<ge> endHour)"

definition isQuietHours :: "time \<Rightarrow> nat \<Rightarrow> string \<Rightarrow> profiles \<Rightarrow> bool \<times> profiles" where
  "isQuietHours now hour userId ps = (let (p, ps1) = getOrCreateProfile now userId ps in (quiet hour p, ps1))"

definition predictOptimalSendTime :: "time \<Rightarrow> nat \<Rightarrow> string \<Rightarrow> profiles \<Rightarrow> (nat \<times> rat) \<times> profiles" where
  "predictOptimalSendTime now hour userId ps =
     (let (p, ps1) = getOrCreateProfile now userId ps; (q, ps2) = isQuietHours now hour userId ps1
      in (if q then (120, fl 0.85) else (0, fl 0.92), ps2))"

section \<open>The chain\<close>

lemma in_hierarchy: "c \<in> set channel_hierarchy"
  by (cases c) (auto simp: channel_hierarchy_def)

lemma distinct_hierarchy: "distinct channel_hierarchy"
  by (simp add: channel_hierarchy_def)

lemma resolve_chain: "fst (resolveChannelChain now userId tx ps) = channel_chain (fst (getOrCreateProfile now userId ps))"
  by (simp add: resolveChannelChain_def split_beta)

text \<open>
  The chain of channels for a user is never empty and names no channel twice; it consists of all
  channels that the user has not opted out of, the preferred one first if it is among them and the
  others by falling score. Only when the user has opted out of every channel does it hold one that he
  does not want, SMS.
\<close>

theorem chain_respects_the_user:
  "\<exists>c cs. fst (resolveChannelChain now userId tx ps) = c # cs \<and> distinct (c # cs) \<and>
     (let p = fst (getOrCreateProfile now userId ps); out = set (cp_optedOutChannels p)
      in if out = UNIV then c # cs = [SMS]
         else set (c # cs) = - out \<and> (cp_preferredChannel p \<in> out \<or> c = cp_preferredChannel p) \<and>
              sorted_wrt (\<lambda>a b. score 0.5 p b \<le> score 0.5 p a) cs)"
proof -
  define p where "p = fst (getOrCreateProfile now userId ps)"
  define out where "out = set (cp_optedOutChannels p)"
  define ordered where "ordered = cp_preferredChannel p # filter (\<lambda>c. c \<noteq> cp_preferredChannel p) channel_hierarchy"
  define avail where "avail = filter (\<lambda>c. c \<notin> out) ordered"
  have ord: "set ordered = UNIV" "distinct ordered"
    using in_hierarchy distinct_hierarchy by (auto simp: ordered_def)
  then have set_avail: "set avail = - out" and dist: "distinct avail" by (auto simp: avail_def)
  have chain: "fst (resolveChannelChain now userId tx ps) =
      (case avail of [] \<Rightarrow> [SMS] | f # r \<Rightarrow> f # sort_key (\<lambda>c. - score 0.5 p c) r)"
    unfolding resolve_chain p_def [symmetric] channel_chain_def Let_def avail_def ordered_def out_def
    by (simp split: list.split)
  show ?thesis
  proof (cases avail)
    case Nil
    with set_avail have "out = UNIV" by auto
    with Nil chain show ?thesis by (simp add: p_def [symmetric] out_def)
  next
    case (Cons f r)
    have "out \<noteq> UNIV" using Cons set_avail by auto
    moreover have "cp_preferredChannel p \<in> out \<or> f = cp_preferredChannel p"
      using Cons by (auto simp: avail_def ordered_def split: if_splits)
    moreover have "sorted_wrt (\<lambda>a b. score 0.5 p b \<le> score 0.5 p a) (sort_key (\<lambda>c. - score 0.5 p c) r)"
      using sorted_sort_key [of "\<lambda>c. - score 0.5 p c" r] by (simp add: sorted_wrt_map)
    ultimately show ?thesis using Cons chain set_avail dist
      by (simp add: p_def [symmetric] out_def Let_def)
  qed
qed

section \<open>Scores stay between 0.1 and 1\<close>

definition scores_ok :: "CommunicationProfile \<Rightarrow> bool" where
  "scores_ok p \<longleftrightarrow> (\<forall>c x. map_of (cp_channelSuccessRates p) c = Some x \<longrightarrow> fl 0.1 \<le> x \<and> x \<le> 1)"

definition profiles_ok :: "profiles \<Rightarrow> bool" where
  "profiles_ok ps \<longleftrightarrow> (\<forall>u p. map_of ps u = Some p \<longrightarrow> scores_ok p)"

text \<open>A rounded result is within one percent of the exact one.\<close>

lemma fl_band: "0 \<le> x \<Longrightarrow> x * (99 / 100) \<le> fl x \<and> fl x \<le> x * (101 / 100)"
proof -
  assume x: "0 \<le> x"
  have "x / 2 ^ 53 \<le> x / 100" using x by (intro divide_left_mono) simp_all
  moreover have "\<bar>fl x - x\<bar> \<le> x / 2 ^ 53" using js.flt_err [of x] x by simp
  ultimately have "\<bar>fl x - x\<bar> \<le> x / 100" by linarith
  then show ?thesis by linarith
qed

lemma fl_scores:
  "9 / 100 \<le> fl (1 / 10)" "fl (1 / 10) \<le> 11 / 100" "8 / 10 \<le> fl (9 / 10)" "fl (9 / 10) \<le> 1"
  "7 / 10 \<le> fl (4 / 5)" "fl (4 / 5) \<le> 9 / 10" "9 / 10 \<le> fl (19 / 20)" "fl (19 / 20) \<le> 1"
  "8 / 10 \<le> fl (17 / 20)" "fl (17 / 20) \<le> 1"
  using fl_band [of "1 / 10"] fl_band [of "9 / 10"] fl_band [of "4 / 5"] fl_band [of "19 / 20"] fl_band [of "17 / 20"] by simp_all

lemma score_bounds: "scores_ok p \<Longrightarrow> fl 0.1 \<le> score (fl 0.8) p c \<and> score (fl 0.8) p c \<le> 1"
  using fl_scores by (auto simp: score_def scores_ok_def split: option.splits)

lemma success_bounds:
  assumes "fl 0.1 \<le> x"
  shows "fl 0.1 \<le> fl (fl (x * fl 0.9) + fl 0.1)"
proof -
  have p: "9 / 100 * (8 / 10) \<le> x * fl (9 / 10)" using fl_scores assms by (intro mult_mono) simp_all
  with fl_band [of "x * fl (9 / 10)"] have q: "7 / 100 \<le> fl (x * fl (9 / 10))" by simp
  with fl_band [of "fl (x * fl (9 / 10)) + fl (1 / 10)"] fl_scores show ?thesis by simp
qed

lemma failure_bounds:
  assumes "fl 0.1 \<le> x" "x \<le> 1"
  shows "max (fl 0.1) (fl (x * fl 0.8)) \<le> 1"
proof -
  have x0: "0 \<le> x" using assms(1) fl_scores(1) by simp
  have "x * fl (4 / 5) \<le> 1 * (9 / 10)" using fl_scores assms(2) by (intro mult_mono) simp_all
  moreover have "0 \<le> x * fl (4 / 5)" using x0 fl_scores(5) by (intro mult_nonneg_nonneg) simp_all
  ultimately show ?thesis using fl_band [of "x * fl (4 / 5)"] fl_scores(2) by simp
qed

lemma profiles_ok_update: "profiles_ok ps \<Longrightarrow> scores_ok p \<Longrightarrow> profiles_ok (AList.update u p ps)"
  by (auto simp: profiles_ok_def update_conv' split: if_splits)

lemma default_scores_ok: "scores_ok (default_profile now u)"
  using fl_scores by (auto simp: scores_ok_def default_profile_def split: if_splits)

lemma getOrCreate_ok:
  assumes "profiles_ok ps" "getOrCreateProfile now u ps = (p, ps1)"
  shows "scores_ok p \<and> profiles_ok ps1"
proof (cases "map_of ps u")
  case None
  with assms show ?thesis by (auto simp: getOrCreateProfile_def default_scores_ok intro!: profiles_ok_update)
next
  case (Some q)
  with assms show ?thesis by (auto simp: getOrCreateProfile_def profiles_ok_def)
qed

lemma scores_ok_set: "scores_ok p \<Longrightarrow> fl 0.1 \<le> x \<Longrightarrow> x \<le> 1 \<Longrightarrow> cp_channelSuccessRates q = AList.update c x (cp_channelSuccessRates p) \<Longrightarrow> scores_ok q"
  by (auto simp: scores_ok_def update_conv' split: if_splits)

lemma success_ok: "profiles_ok ps \<Longrightarrow> profiles_ok (recordDeliverySuccess now u c ps)"
proof -
  assume ok: "profiles_ok ps"
  obtain p ps1 where g: "getOrCreateProfile now u ps = (p, ps1)" by fastforce
  from getOrCreate_ok [OF ok g] have p: "scores_ok p" and ps1: "profiles_ok ps1" by simp_all
  have "fl 0.1 \<le> 1" using fl_scores by simp
  with success_bounds score_bounds [OF p] show ?thesis unfolding recordDeliverySuccess_def g prod.case Let_def
    by (intro profiles_ok_update [OF ps1] scores_ok_set [OF p]) simp_all
qed

lemma failure_ok: "profiles_ok ps \<Longrightarrow> profiles_ok (recordDeliveryFailure now u c ps)"
proof -
  assume ok: "profiles_ok ps"
  obtain p ps1 where g: "getOrCreateProfile now u ps = (p, ps1)" by fastforce
  from getOrCreate_ok [OF ok g] have p: "scores_ok p" and ps1: "profiles_ok ps1" by simp_all
  have "fl 0.1 \<le> 1" using fl_scores by simp
  with failure_bounds score_bounds [OF p] show ?thesis unfolding recordDeliveryFailure_def g prod.case Let_def
    by (intro profiles_ok_update [OF ps1] scores_ok_set [OF p, where c = c and x = "max (fl 0.1) (fl (score (fl 0.8) p c * fl 0.8))"]) simp_all
qed

lemma preferences_ok: "profiles_ok ps \<Longrightarrow> profiles_ok (snd (updatePreferences now u pr la oo wi ps))"
proof -
  assume ok: "profiles_ok ps"
  obtain p ps1 where g: "getOrCreateProfile now u ps = (p, ps1)" by fastforce
  from getOrCreate_ok [OF ok g] have p: "scores_ok p" and ps1: "profiles_ok ps1" by simp_all
  have "scores_ok (fst (updatePreferences now u pr la oo wi ps))"
    using p by (simp add: updatePreferences_def g Let_def scores_ok_def split: option.split)
  then show ?thesis by (simp add: updatePreferences_def g Let_def profiles_ok_update [OF ps1])
qed

text \<open>The feedback of deliveries and the preferences, in any order.\<close>

datatype feedback =
    Delivered time string channel
  | Undelivered time string channel
  | Preferences time string "channel option" "string option" "channel list option" "(nat \<times> nat) option"

fun learn :: "feedback \<Rightarrow> profiles \<Rightarrow> profiles" where
  "learn (Delivered t u c) ps = recordDeliverySuccess t u c ps"
| "learn (Undelivered t u c) ps = recordDeliveryFailure t u c ps"
| "learn (Preferences t u pr la oo wi) ps = snd (updatePreferences t u pr la oo wi ps)"

lemma learn_ok: "profiles_ok ps \<Longrightarrow> profiles_ok (learn f ps)"
  by (cases f) (simp_all add: success_ok failure_ok preferences_ok)

lemma learn_all_ok: "profiles_ok ps \<Longrightarrow> profiles_ok (fold learn fs ps)"
  by (induction fs arbitrary: ps) (simp_all add: learn_ok)

text \<open>
  C40: however deliveries succeed and fail and preferences change, each score of a user stays between
  0.1 and 1, with all the rounding of the arithmetic: no channel is ever ruled out for good.
\<close>

theorem scores_stay_bounded:
  "\<forall>u p. map_of (fold learn fs []) u = Some p \<longrightarrow>
     (\<forall>c x. map_of (cp_channelSuccessRates p) c = Some x \<longrightarrow> fl 0.1 \<le> x \<and> x \<le> 1)"
  using learn_all_ok [of "[]" fs] by (auto simp: profiles_ok_def scores_ok_def)

lemma scores_stay_bounded_witness:
  "\<exists>p x. map_of (fold learn [Undelivered 0 ''u'' SMS, Delivered 1 ''u'' SMS] []) ''u'' = Some p \<and>
     map_of (cp_channelSuccessRates p) SMS = Some x \<and> fl 0.1 \<le> x \<and> x \<le> 1"
proof -
  obtain p x where "map_of (fold learn [Undelivered 0 ''u'' SMS, Delivered 1 ''u'' SMS] []) ''u'' = Some p"
    "map_of (cp_channelSuccessRates p) SMS = Some x"
    by (simp add: recordDeliverySuccess_def recordDeliveryFailure_def getOrCreateProfile_def Let_def default_profile_def update_conv')
  then show ?thesis using scores_stay_bounded [of "[Undelivered 0 ''u'' SMS, Delivered 1 ''u'' SMS]"] by blast
qed

end
