(* ===== verification/AutomationRules.thy ===== *)
theory AutomationRules
  imports WorkflowEngine CommunicationIntelligence EventBus PaymentWebhook
begin

text \<open>
  Automation rules (\<open>operations/automation-rule-engine.service.ts\<close>): trees of predicates over a domain
  event, and the actions of the rules that match. Dates are read by the parameter \<open>date\<close>, which is
  \<open>None\<close> where \<open>new Date(x)\<close> is invalid. A rule is evaluated on the event as an object. A value that is
  not a string where the code calls a method of strings is a TypeError. The descriptions and timestamps of
  rules, which nothing reads, are left out.
\<close>

datatype RuleOperator = EQUALS | NOT_EQUALS | GREATER_THAN | LESS_THAN | CONTAINS | IN | EXISTS | DATE_COMPARISON | RELATIVE_DATE

datatype logic = AND_LOGIC | OR_LOGIC | NOT_LOGIC

datatype RulePredicate =
  Predicate (pr_field: string) (pr_operator: RuleOperator) (pr_value: "json option") (pr_logic: "logic option")
    (pr_nested: "RulePredicate list")

datatype RuleActionType = SEND_NOTIFICATION | CALL_INTEGRATION | TRIGGER_WORKFLOW | CREATE_TASK | UPDATE_ENTITY

record RuleAction =
  ra_actionType :: RuleActionType
  ra_config :: object

record TenantScope =
  ts_level :: string
  ts_scopeId :: "string option"

record AutomationRule =
  au_ruleId :: string
  au_name :: string
  au_triggerEvent :: string
  au_predicates :: "RulePredicate list"
  au_actions :: "RuleAction list"
  au_isEnabled :: bool
  au_priority :: int
  au_tenantScope :: "TenantScope option"

type_synonym rules = "(string \<times> AutomationRule) list"

section \<open>The registry\<close>

definition registerRule :: "AutomationRule \<Rightarrow> rules \<Rightarrow> rules" where
  "registerRule r rs = AList.update (au_ruleId r) r rs"

definition getRule :: "string \<Rightarrow> rules \<Rightarrow> AutomationRule result" where
  "getRule i rs = (case map_of rs i of Some r \<Rightarrow> Inr r | None \<Rightarrow> Inl (NotFoundException (''Automation rule '' @ i @ '' not found'')))"

definition listRules :: "string option \<Rightarrow> bool option \<Rightarrow> rules \<Rightarrow> AutomationRule list" where
  "listRules triggerEvent isEnabled rs =
     (let l = keep_str triggerEvent au_triggerEvent (map snd rs)
      in sort_key (\<lambda>r. - au_priority r) (case isEnabled of Some b \<Rightarrow> filter (\<lambda>r. au_isEnabled r = b) l | None \<Rightarrow> l))"

definition deleteRule :: "string \<Rightarrow> rules \<Rightarrow> (bool \<times> rules) result" where
  "deleteRule i rs =
     (if map_of rs i = None then Inl (NotFoundException (''Rule '' @ i @ '' not found'')) else Inr (True, AList.delete i rs))"

section \<open>Predicates\<close>

text \<open>\<open>Number(x)\<close> and \<open>String(x)\<close>\<close>

definition number_of :: "json option \<Rightarrow> rat option" where
  "number_of j = (case j of Some x \<Rightarrow> js_number x | None \<Rightarrow> None)"

fun join_with :: "string \<Rightarrow> string list \<Rightarrow> string" where
  "join_with sep [] = []"
| "join_with sep [x] = x"
| "join_with sep (x # xs) = x @ sep @ join_with sep xs"

fun js_text :: "json \<Rightarrow> string" where
  "js_text (JStr s) = s"
| "js_text (JNum x) = show_num x"
| "js_text (JBool b) = (if b then ''true'' else ''false'')"
| "js_text JNull = ''null''"
| "js_text (JObj _) = ''[object Object]''"
| "js_text (JArr xs) = join_with '','' (map (\<lambda>x. if x = JNull then [] else js_text x) xs)"

definition text_of :: "json option \<Rightarrow> string" where
  "text_of j = (case j of Some x \<Rightarrow> js_text x | None \<Rightarrow> ''undefined'')"

text \<open>\<open>/([+-]?\d+)([hd])/\<close>, at the first place where it matches\<close>

definition offset_here :: "string \<Rightarrow> (int \<times> char) option" where
  "offset_here s =
     (case s of
        [] \<Rightarrow> None
      | c # t \<Rightarrow>
          (let (sign, r) = (if c = CHR ''-'' then (-1, t) else if c = CHR ''+'' then (1, t) else (1, s));
               ds = takeWhile is_digit r
           in case dropWhile is_digit r of
                u # _ \<Rightarrow> if ds \<noteq> [] \<and> (u = CHR ''h'' \<or> u = CHR ''d'') then Some (sign * digits_value ds, u) else None
              | [] \<Rightarrow> None))"

fun find_offset :: "string \<Rightarrow> (int \<times> char) option" where
  "find_offset [] = None"
| "find_offset (c # s) = (case offset_here (c # s) of Some r \<Rightarrow> Some r | None \<Rightarrow> find_offset s)"

definition parseRelativeOffsetHours :: "json option \<Rightarrow> int result" where
  "parseRelativeOffsetHours v =
     (if \<not> truthy v then Inr 0
      else case as_str v of
             None \<Rightarrow> Inl type_error
           | Some s \<Rightarrow> (case find_offset s of None \<Rightarrow> Inr 0 | Some (n, u) \<Rightarrow> Inr (if u = CHR ''d'' then n * 24 else n)))"

definition checkSinglePredicate :: "(json option \<Rightarrow> time option) \<Rightarrow> time \<Rightarrow> RuleOperator \<Rightarrow> json option \<Rightarrow> json option \<Rightarrow> bool result" where
  "checkSinglePredicate date now oper expected actual =
     (case oper of
        EQUALS \<Rightarrow> Inr (strict_eq actual expected)
      | NOT_EQUALS \<Rightarrow> Inr (\<not> strict_eq actual expected)
      | GREATER_THAN \<Rightarrow> Inr (case (number_of actual, number_of expected) of (Some x, Some y) \<Rightarrow> x > y | _ \<Rightarrow> False)
      | LESS_THAN \<Rightarrow> Inr (case (number_of actual, number_of expected) of (Some x, Some y) \<Rightarrow> x < y | _ \<Rightarrow> False)
      | CONTAINS \<Rightarrow>
          Inr (case actual of
                 Some (JStr s) \<Rightarrow> js_includes s (text_of expected)
               | Some (JArr xs) \<Rightarrow> list_ex (\<lambda>x. strict_eq (Some x) expected) xs
               | _ \<Rightarrow> False)
      | IN \<Rightarrow> Inr (case expected of Some (JArr xs) \<Rightarrow> list_ex (\<lambda>x. strict_eq (Some x) actual) xs | _ \<Rightarrow> False)
      | EXISTS \<Rightarrow> Inr (actual \<noteq> None \<and> actual \<noteq> Some JNull)
      | DATE_COMPARISON \<Rightarrow> Inr (case (date actual, date expected) of (Some x, Some y) \<Rightarrow> x \<le> y | _ \<Rightarrow> False)
      | RELATIVE_DATE \<Rightarrow>
          bindR (parseRelativeOffsetHours expected) (\<lambda>h.
            Inr (case date actual of Some x \<Rightarrow> \<bar>x - (now + h * 60 * 60 * 1000)\<bar> \<le> 24 * 60 * 60 * 1000 | None \<Rightarrow> False)))"

fun evaluatePredicates :: "(json option \<Rightarrow> time option) \<Rightarrow> time \<Rightarrow> RulePredicate list \<Rightarrow> object \<Rightarrow> bool result" where
  "evaluatePredicates date now [] ev = Inr True"
| "evaluatePredicates date now (Predicate f oper v lg nested # ps) ev =
     bindR (checkSinglePredicate date now oper v (extractFieldValue ev (Some f))) (\<lambda>conditionPassed.
     bindR (if nested = [] then Inr True else evaluatePredicates date now nested ev) (\<lambda>nestedPassed.
       let totalPassed = (conditionPassed \<and> nestedPassed)
       in if lg = Some OR_LOGIC then (if totalPassed then Inr True else evaluatePredicates date now ps ev)
          else if lg = Some NOT_LOGIC then (if totalPassed then Inr False else evaluatePredicates date now ps ev)
          else (if \<not> totalPassed then Inr False else evaluatePredicates date now ps ev)))"

section \<open>Actions\<close>

record 'w rule_env =
  ru_env :: "'w wf_env"
  ru_emit :: "emission \<Rightarrow> 'w \<Rightarrow> (string + DomainEvent) \<times> 'w"
  ru_date :: "json option \<Rightarrow> time option"

type_synonym 'w rule_state = "'w outside \<times> profiles"

definition payload_field :: "string \<Rightarrow> DomainEvent \<Rightarrow> json option" where
  "payload_field k e = walk [k] (Some (de_payload e))"

definition user_of :: "DomainEvent \<Rightarrow> string" where
  "user_of e = or_string (as_str (payload_field ''userId'' e)) (or_string (as_str (walk [''id''] (de_actor e))) ''system'')"

definition notice_call :: "AutomationRule \<Rightarrow> DomainEvent \<Rightarrow> object \<Rightarrow> bool \<Rightarrow> channel \<Rightarrow> runtime_call" where
  "notice_call r e config with_metadata c =
     \<lparr>rc_category = getMessagingCategory (show_channel c), rc_capability = to_lower (show_channel c), rc_preferredProviderId = None,
      rc_payload = JObj ([(''to'', or_json (payload_field ''phone'' e) (or_json (payload_field ''email'' e) (JStr (user_of e)))),
          (''message'', or_json (map_of config ''template'') (JStr (''Automated alert for '' @ au_name r)))] @
        (if with_metadata then [(''metadata'', JObj config)] else [])),
      rc_correlationId = de_correlationId e\<rparr>"

text \<open>The result of an action: an error message, or nothing.\<close>

definition sendNotification ::
  "'w rule_env \<Rightarrow> AutomationRule \<Rightarrow> DomainEvent \<Rightarrow> object \<Rightarrow> 'w rule_state \<Rightarrow> (string + unit) \<times> 'w rule_state" where
  "sendNotification env r e config st =
     (case st of ((w, tr), ps) \<Rightarrow>
      let t = en_now (ru_env env); userId = user_of e;
          (channels, ps1) = resolveChannelChain (t w) userId True ps;
          primaryChannel = hd channels
      in case en_runtime (ru_env env) (notice_call r e config True primaryChannel) w of
           (Inr _, w1) \<Rightarrow> (Inr (), ((w1, tr), recordDeliverySuccess (t w1) userId primaryChannel ps1))
         | (Inl _, w1) \<Rightarrow>
             (let ps2 = recordDeliveryFailure (t w1) userId primaryChannel ps1
              in if length channels > 1
                 then case en_runtime (ru_env env) (notice_call r e config False (channels ! 1)) w1 of
                        (Inr _, w2) \<Rightarrow> (Inr (), ((w2, tr), ps2))
                      | (Inl msg, w2) \<Rightarrow> (Inl msg, ((w2, tr), ps2))
                 else (Inr (), ((w1, tr), ps2))))"

definition triggered :: "DomainEvent \<Rightarrow> object \<Rightarrow> emission" where
  "triggered e config =
     \<lparr>em_eventType = or_string (as_str (map_of config ''triggerEvent'')) ''BOOKING_CREATED'', em_aggregateType = de_aggregateType e,
      em_aggregateId = de_aggregateId e, em_payload = de_payload e, em_correlationId = Some (de_correlationId e),
      em_causationId = Some (de_eventId e), em_tenantContext = None, em_actor = None\<rparr>"

definition run_action ::
  "'w rule_env \<Rightarrow> AutomationRule \<Rightarrow> DomainEvent \<Rightarrow> RuleAction \<Rightarrow> 'w rule_state \<Rightarrow> (string + unit) \<times> 'w rule_state" where
  "run_action env r e a st =
     (case st of ((w, tr), ps) \<Rightarrow>
      case ra_actionType a of
        SEND_NOTIFICATION \<Rightarrow> sendNotification env r e (ra_config a) st
      | CALL_INTEGRATION \<Rightarrow>
          (case en_runtime (ru_env env)
             \<lparr>rc_category = or_string (as_str (map_of (ra_config a) ''category'')) ''PAYMENT'',
              rc_capability = or_string (as_str (map_of (ra_config a) ''capability'')) ''verify'',
              rc_preferredProviderId = as_str (map_of (ra_config a) ''providerId''),
              rc_payload = JObj (spread (case map_of (ra_config a) ''payload'' of Some j \<Rightarrow> members j | None \<Rightarrow> []) (members (de_payload e))),
              rc_correlationId = de_correlationId e\<rparr> w of
             (Inr _, w1) \<Rightarrow> (Inr (), ((w1, tr), ps))
           | (Inl msg, w1) \<Rightarrow> (Inl msg, ((w1, tr), ps)))
      | TRIGGER_WORKFLOW \<Rightarrow>
          (case ru_emit env (triggered e (ra_config a)) w of
             (Inr _, w1) \<Rightarrow> (Inr (), ((w1, tr), ps))
           | (Inl msg, w1) \<Rightarrow> (Inl msg, ((w1, tr), ps)))
      | CREATE_TASK \<Rightarrow> (Inr (), st)
      | UPDATE_ENTITY \<Rightarrow> (Inr (), st))"

fun show_action :: "RuleActionType \<Rightarrow> string" where
  "show_action SEND_NOTIFICATION = ''SEND_NOTIFICATION''"
| "show_action CALL_INTEGRATION = ''CALL_INTEGRATION''"
| "show_action TRIGGER_WORKFLOW = ''TRIGGER_WORKFLOW''"
| "show_action CREATE_TASK = ''CREATE_TASK''"
| "show_action UPDATE_ENTITY = ''UPDATE_ENTITY''"

definition execute_action :: "'w rule_env \<Rightarrow> AutomationRule \<Rightarrow> DomainEvent \<Rightarrow> RuleAction \<Rightarrow> 'w rule_state \<Rightarrow> 'w rule_state" where
  "execute_action env r e a st =
     (case run_action env r e a st of
        (Inr _, (o1, ps)) \<Rightarrow>
          (trace (ru_env env) (de_correlationId e) (''Rule executed: '' @ au_name r @ '' -> '' @ show_action (ra_actionType a)) ''SUCCESS''
             [(''ruleId'', JStr (au_ruleId r)), (''actionType'', JStr (show_action (ra_actionType a)))] o1, ps)
      | (Inl msg, (o1, ps)) \<Rightarrow>
          (trace (ru_env env) (de_correlationId e) (''Rule action FAILED: '' @ au_name r @ '' -> '' @ show_action (ra_actionType a)) ''FAILED''
             [(''ruleId'', JStr (au_ruleId r)), (''error'', JStr msg)] o1, ps))"

definition executeRuleActions :: "'w rule_env \<Rightarrow> AutomationRule \<Rightarrow> DomainEvent \<Rightarrow> 'w rule_state \<Rightarrow> 'w rule_state" where
  "executeRuleActions env r e st = fold (execute_action env r e) (au_actions r) st"

section \<open>Rules for an event\<close>

definition candidate_rules :: "DomainEvent \<Rightarrow> rules \<Rightarrow> AutomationRule list" where
  "candidate_rules e rs =
     sort_key (\<lambda>r. - au_priority r) (filter (\<lambda>r. au_isEnabled r \<and> au_triggerEvent r = de_eventType e) (map snd rs))"

definition out_of_scope :: "AutomationRule \<Rightarrow> DomainEvent \<Rightarrow> bool" where
  "out_of_scope r e =
     (case au_tenantScope r of
        None \<Rightarrow> False
      | Some ts \<Rightarrow>
          str_truthy (ts_scopeId ts) \<and>
          (let eventScopeId = as_str (walk [if ts_level ts = ''VENDOR'' then ''vendorId'' else ''branchId''] (de_tenantContext e))
           in str_truthy eventScopeId \<and> eventScopeId \<noteq> ts_scopeId ts))"

definition rule_matches :: "'w rule_env \<Rightarrow> time \<Rightarrow> AutomationRule \<Rightarrow> DomainEvent \<Rightarrow> bool result" where
  "rule_matches env now r e =
     (if out_of_scope r e then Inr False else evaluatePredicates (ru_date env) now (au_predicates r) (event_object e))"

text \<open>The rules are tried in turn; an exception of a predicate ends the evaluation.\<close>

fun evaluate_rules :: "'w rule_env \<Rightarrow> DomainEvent \<Rightarrow> AutomationRule list \<Rightarrow> nat \<Rightarrow> 'w rule_state \<Rightarrow> nat result \<times> 'w rule_state" where
  "evaluate_rules env e [] n st = (Inr n, st)"
| "evaluate_rules env e (r # rs) n st =
     (case rule_matches env (now_of (ru_env env) (fst st)) r e of
        Inl x \<Rightarrow> (Inl x, st)
      | Inr False \<Rightarrow> evaluate_rules env e rs n st
      | Inr True \<Rightarrow> evaluate_rules env e rs (n + 1) (executeRuleActions env r e st))"

definition evaluateRulesForEvent :: "'w rule_env \<Rightarrow> DomainEvent \<Rightarrow> rules \<Rightarrow> 'w rule_state \<Rightarrow> nat result \<times> 'w rule_state" where
  "evaluateRulesForEvent env e rs st = evaluate_rules env e (candidate_rules e rs) 0 st"

section \<open>The rules of the platform\<close>

definition notify_action :: "string \<Rightarrow> RuleAction" where
  "notify_action t = \<lparr>ra_actionType = SEND_NOTIFICATION, ra_config = [(''template'', JStr t)]\<rparr>"

definition task_action :: "string \<Rightarrow> RuleAction" where
  "task_action t = \<lparr>ra_actionType = CREATE_TASK, ra_config = [(''taskName'', JStr t)]\<rparr>"

definition default_rules :: "AutomationRule list" where
  "default_rules =
     [\<lparr>au_ruleId = ''RULE_BOOKING_24H_REMINDER'', au_name = ''Send 24-Hour Pre-Pickup Reminder'', au_triggerEvent = ''BOOKING_CONFIRMED'',
       au_predicates = [Predicate ''payload.bookingStatus'' EQUALS (Some (JStr ''CONFIRMED'')) (Some AND_LOGIC) []],
       au_actions = [notify_action ''Your DriveGo rental starts in 24 hours! Tap here for pickup directions.''],
       au_isEnabled = True, au_priority = 10, au_tenantScope = None\<rparr>,
      \<lparr>au_ruleId = ''RULE_PAYMENT_FAILURE_ALERT'', au_name = ''Escalate Failed Payment to Support'', au_triggerEvent = ''PAYMENT_FAILED'',
       au_predicates = [Predicate ''payload.amount'' GREATER_THAN (Some (JNum 0)) (Some AND_LOGIC) []],
       au_actions = [notify_action ''Your payment attempt did not go through. Please click here to retry.'',
         task_action ''Investigate payment failure for rental recovery''],
       au_isEnabled = True, au_priority = 20, au_tenantScope = None\<rparr>,
      \<lparr>au_ruleId = ''RULE_DOC_EXPIRY_ALERT'', au_name = ''Document Expiration 30-Day Notice'', au_triggerEvent = ''DOCUMENT_EXPIRING'',
       au_predicates = [Predicate ''payload.daysRemaining'' LESS_THAN (Some (JNum 30)) (Some AND_LOGIC) []],
       au_actions = [notify_action ''Compliance Alert: Vehicle document expires in less than 30 days.'',
         task_action ''Renew vehicle document before expiry date''],
       au_isEnabled = True, au_priority = 15, au_tenantScope = None\<rparr>]"

definition seedDefaultRules :: "rules \<Rightarrow> rules" where
  "seedDefaultRules rs = fold registerRule default_rules rs"

section \<open>What decides\<close>

text \<open>
  Whether a predicate holds together with its nested ones, and whether it settles the list: a predicate
  of logic OR when it holds, one of logic NOT when it holds, any other when it fails.
\<close>

definition holds :: "(json option \<Rightarrow> time option) \<Rightarrow> time \<Rightarrow> object \<Rightarrow> RulePredicate \<Rightarrow> bool result" where
  "holds date now ev p =
     bindR (checkSinglePredicate date now (pr_operator p) (pr_value p) (extractFieldValue ev (Some (pr_field p)))) (\<lambda>c.
     bindR (if pr_nested p = [] then Inr True else evaluatePredicates date now (pr_nested p) ev) (\<lambda>n. Inr (c \<and> n)))"

definition settles :: "(json option \<Rightarrow> time option) \<Rightarrow> time \<Rightarrow> object \<Rightarrow> RulePredicate \<Rightarrow> bool" where
  "settles date now ev p \<longleftrightarrow> (holds date now ev p = Inr (pr_logic p = Some OR_LOGIC \<or> pr_logic p = Some NOT_LOGIC))"

lemma evaluate_Cons:
  "evaluatePredicates date now (p # ps) ev =
     bindR (holds date now ev p) (\<lambda>t.
       if settles date now ev p then Inr (pr_logic p = Some OR_LOGIC) else evaluatePredicates date now ps ev)"
  by (cases p; cases "holds date now ev p")
    (auto simp: holds_def settles_def bindR_def Let_def split: sum.splits if_splits)

declare evaluatePredicates.simps(2) [simp del]

text \<open>
  Where no predicate throws, the first predicate of the list that settles it decides, for the event
  when it is an OR and against it otherwise; when none does, the event matches.
\<close>

theorem first_settling_predicate_decides:
  assumes "\<forall>p \<in> set ps. \<exists>b. holds date now ev p = Inr b"
  shows "evaluatePredicates date now ps ev =
    Inr (case List.find (settles date now ev) ps of Some p \<Rightarrow> pr_logic p = Some OR_LOGIC | None \<Rightarrow> True)"
  using assms by (induction ps) (auto simp: evaluate_Cons)

text \<open>
  A rule all of whose predicates are alternatives (logic OR) matches every event of its type,
  also when none of the alternatives holds.
\<close>

theorem alternatives_always_match:
  assumes "\<forall>p \<in> set ps. pr_logic p = Some OR_LOGIC"
  shows "evaluatePredicates date now ps ev \<noteq> Inr False"
  using assms by (induction ps) (auto simp: evaluate_Cons settles_def bindR_def split: sum.splits)

lemma alternatives_always_match_witness:
  "evaluatePredicates (\<lambda>_. None) 0
     [Predicate ''city'' EQUALS (Some (JStr ''Pune'')) (Some OR_LOGIC) [], Predicate ''city'' EQUALS (Some (JStr ''Delhi'')) (Some OR_LOGIC) []]
     [(''city'', JStr ''Mumbai'')] \<noteq> Inr False"
  by (rule alternatives_always_match) simp

lemma first_settling_predicate_decides_witness:
  "evaluatePredicates (\<lambda>_. None) 0 [Predicate ''daysRemaining'' LESS_THAN (Some (JNum 30)) (Some AND_LOGIC) []] [(''daysRemaining'', JNum 45)] = Inr False"
proof -
  let ?p = "Predicate ''daysRemaining'' LESS_THAN (Some (JNum 30)) (Some AND_LOGIC) []"
  have h: "holds (\<lambda>_. None) 0 [(''daysRemaining'', JNum 45)] ?p = Inr False"
    by (simp add: holds_def checkSinglePredicate_def extract_simple number_of_def js_number_def)
  then have "\<forall>p \<in> set [?p]. \<exists>b. holds (\<lambda>_. None) 0 [(''daysRemaining'', JNum 45)] p = Inr b"
    by (intro ballI exI [of _ False]) simp
  from first_settling_predicate_decides [OF this] h show ?thesis by (simp add: settles_def)
qed

section \<open>Scopes\<close>

text \<open>A rule of one vendor also applies to events that carry no vendor.\<close>

lemma scoped_rule_applies_without_scope:
  "de_tenantContext e = None \<Longrightarrow> \<not> out_of_scope r e"
  by (simp add: out_of_scope_def as_str_def Let_def split: option.split)

text \<open>
  An event that a rule emits to start a workflow carries no tenant, so the scope of a rule never
  excludes it: a rule without predicates that emits the type it listens to, matches its own event
  again, and so on without end.
\<close>

theorem rule_can_trigger_itself:
  assumes "au_predicates r = []" "au_isEnabled r" "map_of rs i = Some r"
    and "as_str (map_of config ''triggerEvent'') = Some (au_triggerEvent r)" "au_triggerEvent r \<noteq> ''''"
  shows "r \<in> set (candidate_rules (envelope fresh now (triggered e config)) rs) \<and>
    rule_matches env now' r (envelope fresh now (triggered e config)) = Inr True"
proof -
  have "r \<in> snd ` set rs" using map_of_SomeD [OF assms(3)] by force
  moreover have "de_eventType (envelope fresh now (triggered e config)) = au_triggerEvent r"
    using assms(4,5) by (simp add: envelope_def triggered_def or_string_def)
  moreover have "de_tenantContext (envelope fresh now (triggered e config)) = None" by (simp add: envelope_def triggered_def)
  ultimately show ?thesis using assms(1,2)
    by (simp add: candidate_rules_def rule_matches_def scoped_rule_applies_without_scope)
qed

definition echo_rule :: AutomationRule where
  "echo_rule = \<lparr>au_ruleId = ''R'', au_name = ''Echo'', au_triggerEvent = ''BOOKING_CREATED'', au_predicates = [],
     au_actions = [\<lparr>ra_actionType = TRIGGER_WORKFLOW, ra_config = [(''triggerEvent'', JStr ''BOOKING_CREATED'')]\<rparr>],
     au_isEnabled = True, au_priority = 0, au_tenantScope = Some \<lparr>ts_level = ''VENDOR'', ts_scopeId = Some ''v1''\<rparr>\<rparr>"

lemma rule_can_trigger_itself_witness:
  "echo_rule \<in> set (candidate_rules (envelope (\<lambda>p. p) 0 (triggered demo_bus_event (ra_config (hd (au_actions echo_rule))))) (registerRule echo_rule []))"
  by (rule rule_can_trigger_itself [where i = "''R''", THEN conjunct1])
    (simp_all add: echo_rule_def registerRule_def as_str_def)

text \<open>The scores of the channels stay within their bounds whatever rules run.\<close>

lemma sendNotification_profiles:
  assumes "profiles_ok (snd st)"
  shows "profiles_ok (snd (snd (sendNotification env r e config st)))"
proof -
  obtain w tr ps where st: "st = ((w, tr), ps)" by (metis prod.exhaust)
  obtain p ps1 where g: "getOrCreateProfile (en_now (ru_env env) w) (user_of e) ps = (p, ps1)" by (metis prod.exhaust)
  with getOrCreate_ok [of ps] assms st have "profiles_ok ps1" by simp
  then show ?thesis
    by (auto simp: sendNotification_def resolveChannelChain_def st g Let_def success_ok failure_ok split: prod.split sum.split)
qed

lemma execute_action_profiles: "profiles_ok (snd st) \<Longrightarrow> profiles_ok (snd (execute_action env r e a st))"
  using sendNotification_profiles [of st env r e "ra_config a"]
  by (cases st) (auto simp: execute_action_def run_action_def split: prod.splits sum.splits RuleActionType.splits)

lemma evaluate_rules_profiles: "profiles_ok (snd st) \<Longrightarrow> profiles_ok (snd (snd (evaluate_rules env e rs n st)))"
proof (induction rs arbitrary: n st)
  case Nil
  then show ?case by simp
next
  case (Cons r rs)
  have "profiles_ok (snd (fold (execute_action env r e) as st))" if "profiles_ok (snd st)" for as st
    using that by (induction as arbitrary: st) (simp_all add: execute_action_profiles)
  then have "profiles_ok (snd (executeRuleActions env r e st))" using Cons.prems by (simp add: executeRuleActions_def)
  with Cons show ?case by (simp split: sum.split bool.split)
qed

end
