(* ===== verification/Spec2Isabelle.thy ===== *)
theory Spec2Isabelle
  imports WalletSteps CancellationPolicy Fare Locks HandoverOtps Outbox LifecycleFacts WebhookFacts PayoutFacts
    TripExtensionFacts CouponFacts ClaimFacts BookingFacts
    RetryPolicy Scheduling Approvals WorkflowFacts AutomationRules
begin

text \<open>
  A model of the core of the car rental platform's backend (\<open>car_rental_backend\<close>, a NestJS
  application over a Prisma database), and the theorems that make it correct. Paths below are
  relative to \<open>car_rental_backend/src\<close>.

  \<^bold>\<open>The program.\<close> A customer books a car of a vendor. The fare is computed and split between vendor,
  platform and tax; the customer pays through a gateway and from a wallet; the booking then moves
  through a life cycle (confirmation, handover with a one-time code, return, completion, or
  cancellation with a fee and a refund). Every movement of money is a journal of the double-entry
  platform ledger, and every transition appends an event to an outbox that a worker turns into
  messages. The services share one database; they are guarded against each other by transactions,
  conditional updates, idempotency keys and leases in Redis.

  \<^bold>\<open>Conventions.\<close> An operation is a function from its arguments and the tables to a result and the
  tables; an exception is the left side of a sum (\<open>exn\<close> in \<open>Prelude\<close>). A transaction is a function that
  returns the new tables or the exception, so a failed one leaves no trace; writes that a handler makes outside a
  transaction are threaded through its error paths. A table is the list of its rows in insertion
  order; a query without an order returns the first match. Clocks, generated ids and one-time codes are
  arguments. \<open>Decimal\<close> values and numbers are rationals: decimal.js results are rounded to 20 digits
  (\<open>dec20\<close>), JavaScript's arithmetic to 53 bits (\<open>fl\<close>), and what a column of scale two stores by
  \<open>round2\<close>. Messages of exceptions and of audit rows keep their constant part where the code
  interpolates values. Code outside the repository (gateways, Redis, bcrypt, \<open>JSON.parse\<close>, hashes) is a
  parameter, with what is documented of it as the assumptions of a locale or of a theorem.

  \<^bold>\<open>Theories and code.\<close>
  \<^item> \<open>Prelude\<close>: exceptions, results, table operations, strings. \<open>Money\<close>, \<open>Rounding\<close>, \<open>JsNumber\<close>: cents,
    \<open>toFixed\<close>, \<open>Math.round\<close>, the roundings of decimal.js and of doubles, JSON and \<open>new Decimal(number)\<close>;
    locales \<open>money_column\<close>, \<open>js_float\<close>, \<open>decimal_ctx\<close>.
  \<^item> \<open>Ledger\<close> (\<open>finance/ledger-core.service.ts\<close>): journals, balances, reversals, the integrity audit; locale
    \<open>journal_store\<close>. A journal is accepted iff it balances, is stored once per key, and the accounting equation
    is an invariant.
  \<^item> \<open>Wallet\<close>, \<open>WalletSteps\<close> (\<open>wallets/wallets.service.ts\<close>): credits, debits, deposits, promotional money and its
    expiry, adjustments and the checkout split; then the wallet as a transition system whose balances always equal the
    sums of its ledger, as long as requests do not overlap and amounts are whole cents. The expiry has its reads and its writes
    apart, since nothing locks the wallet between them: a credit in between is lost (\<open>cleanup_loses_concurrent_credit\<close>).
  \<^item> \<open>Fare\<close> (\<open>common/fare-calculator.service.ts\<close>, \<open>common/commission-resolver.service.ts\<close>,
    \<open>finance/marketplace-commission.service.ts\<close>) and \<open>CancellationPolicy\<close>
    (\<open>bookings/cancellation-policy.service.ts\<close>, with the validators of \<open>config-engine/system-config-validator.ts\<close>
    for both): what a trip costs, who gets it and what a cancellation costs.
  \<^item> \<open>Locks\<close> (\<open>redis/*.service.ts\<close>): leases over the locale \<open>redis_store\<close>, as a transition system of clients with
    mutual exclusion.
  \<^item> \<open>Booking\<close> (\<open>prisma/schema.prisma\<close>): the tables the booking services share.
  \<^item> \<open>HandoverOtps\<close> (\<open>bookings/handover-otp.service.ts\<close>): one-time codes, over the locale \<open>bcrypt\<close>.
  \<^item> \<open>Outbox\<close> (\<open>bookings/booking-outbox.service.ts\<close>, \<open>bookings/outbox-worker.service.ts\<close>): the state machine of an event and the
    worker's run.
  \<^item> \<open>Payments\<close>, \<open>Refunds\<close>, \<open>PaymentWebhook\<close> (\<open>payments/payments.service.ts\<close>): orders, verification, refunds
    and the gateways' notifications; \<open>PaymentFacts\<close> and \<open>WebhookFacts\<close> prove that a verified payment is covered to
    the cent, how a refund is split, that payment and refund journals cancel, that nothing is refunded or settled
    twice, and what a notification can change.
  \<^item> \<open>Payouts\<close>, \<open>PayoutExecution\<close> (\<open>payouts/payouts.service.ts\<close>, \<open>payouts/providers/razorpayx-payout.provider.ts\<close>): the
    vendor's earnings, the request of a payout against them, approval, execution by hand or through the bank, reversal, the bank's
    notifications and adjustments; \<open>PayoutFacts\<close> proves the status matrix, the well-formedness of the table, that
    no history of administration books more for a vendor than was earned, and that a reversal restores the ledger.
  \<^item> \<open>RefundJournal\<close>, \<open>Lifecycle\<close> (\<open>bookings/booking-lifecycle.service.ts\<close>): the transition matrix, authorization and
    preconditions, the transaction of a transition with its journals, the refund after its commit and the lock
    around it; \<open>LifecycleFacts\<close> proves which steps a booking can take, that failed transitions are undone, that
    concurrent ones commit once, and that cars are not double booked by transitions that do not overlap.
  \<^item> \<open>TripExtensions\<close> (\<open>bookings/trip-extensions.service.ts\<close>): the quote, the order and the confirmation of a longer trip;
    \<open>TripExtensionFacts\<close> proves that the car stays free for the others, and what the ledger gets.
  \<^item> \<open>Coupons\<close> (\<open>coupons/coupons.service.ts\<close>): validation and administration of coupons; \<open>CouponFacts\<close> proves what a coupon
    is worth, that a validated one is redeemed by the payment, and that its counter is the number of its redemptions.
  \<^item> \<open>Deposits\<close> (\<open>deposits/deposits.service.ts\<close>, \<open>deposit-rules.service.ts\<close>) and \<open>DamageClaims\<close>
    (\<open>damage-claims/damage-claims.service.ts\<close>): holding, release, deduction, collateral, the hourly release and the claims that
    a deposit pays; \<open>DepositFacts\<close> proves that a deposit is settled once, to the cent and in the ledger, \<open>ClaimFacts\<close> how claims run and
    when a deposit can be released.
  \<^item> \<open>Availability\<close> (\<open>cars/vehicle-availability.service.ts\<close>): whether a car is free for an interval, the holds of the
    checkout and the blocks; \<open>AvailabilityFacts\<close> proves that the answer is the declared condition and that holds of
    different customers never collide. \<open>Quotes\<close> (\<open>pricing/pricing.service.ts\<close>): price quotes, their line items and acceptance.
  \<^item> \<open>Bookings\<close>, \<open>BookingDesk\<close> (\<open>bookings/bookings.service.ts\<close>, \<open>common/vendor-redactor.util.ts\<close>): making a booking, the
    views of it with the owner redacted, previews and disputes; \<open>BookingFacts\<close> proves that no car is reserved twice however
    the transactions interleave, that a booking is made of a free car or not at all, that a quote is honoured once, that
    previews come true, what is hidden of the owner, and that a plain booking covers its vendor and tax.
  \<^item> \<open>RetryPolicy\<close> (\<open>integrations/errors/retry-policy.service.ts\<close>): the retry loop of the integrations, with its
    termination and when it succeeds.
  \<^item> The operations engines (\<open>operations/*.service.ts\<close>): \<open>JsObject\<close> (objects, paths, buffers), \<open>AuditTracer\<close> (the
    timeline and its redaction), \<open>EventBus\<close> (delivery once), \<open>Scheduling\<close> (jobs over the locale \<open>quiet_bus\<close>, which the bus
    provides), \<open>Approvals\<close> (the state machine of a request), \<open>WorkflowEngine\<close> and \<open>WorkflowFacts\<close> (the loop of steps, when
    it ends and how), \<open>CommunicationIntelligence\<close> (channels and their scores) and \<open>AutomationRules\<close> (which rules match
    an event and what they do).

  \<^bold>\<open>Interleaving.\<close> The code guards some operations against each other, and those are split where the code can be
  interrupted: the leases of \<open>Locks\<close>, the check and the commit of a handover code, the preparation and the commit of a
  transition, the transaction of a booking, the reading and the settling of a deposit, the reads and writes of the wallet's expiry. Every other handler is one step: a history of payouts,
  damage claims, coupons or wallets is one of requests handled one after another. The execution of a payout, its
  approval and rejection, and the decisions on a claim read a row and update it later without a lock, so a second request in between is outside
  these theorems.

  \<^bold>\<open>Bounds.\<close> No definition uses fuel: a loop of the modelled code that runs over a list is a structural recursion, the
  retry loop has a measure, and the loop of the workflow engine, which may not end, is a partial function whose value is
  then \<open>None\<close>; \<open>WorkflowFacts\<close> proves that it ends on descending definitions. Amounts are bounded where the columns bound them: \<open>booking_money\<close> and
  \<open>cents_journal\<close> ask for whole cents below the capacity of the column.

  \<^bold>\<open>Not modelled.\<close> Messages to users, invoices, cache invalidation, log lines and the detached hooks of other services
  are left out of the handlers above. The bookings that the marketplace checkout writes itself, and the
  rest of the backend (search, catalogue, integrations, administration, messaging,
  onboarding) and the mobile and web applications have no model here; most of it reads and writes single rows, renders
  data or calls external providers.
\<close>

end
